(* ===== verification/Prelude.thy ===== *)
theory Prelude
  imports
    Main
    "HOL-Library.AList"
    "HOL-Library.Char_ord"
    "HOL-Library.List_Lexorder"
    "HOL-Library.Multiset"
    "HOL-Library.Signed_Division"
begin

text \<open>
  Shared vocabulary of the development.

  \<^item> The result type of a computation that may throw: \<open>'e + 'a\<close>, with \<open>Inl\<close> for the thrown
    error. The combinators are those of \<^verbatim>\<open>src/shared/result.ts\<close> (\<open>ok\<close>, \<open>err\<close>, \<open>isOk\<close>, \<open>isErr\<close>,
    \<open>mapResult\<close>, \<open>mapErr\<close>, \<open>andThen\<close>); the same \<open>andThen\<close> sequences code that throws.
  \<^item> Loops over arrays that may throw half-way: \<open>foldR\<close> and \<open>mapR\<close>.
  \<^item> JavaScript's \<open>Array.prototype.sort\<close> with a comparator (stable): \<open>js_sort\<close>.
  \<^item> JavaScript's \<open>Map\<close> (insertion-ordered): an association list with \<open>AList.update\<close>
    (\<open>set\<close> keeps the position of a known key, appends an unknown one), \<open>map_of\<close> (\<open>get\<close>) and
    \<open>AList.delete\<close>.
  \<^item> BigInt arithmetic: \<open>int\<close>, with \<open>/\<close> and \<open>%\<close> as the truncating \<open>sdiv\<close> and \<open>smod\<close> of
    HOL-Library.Signed_Division.
  \<^item> Decimal digit strings: \<open>digits_to_int\<close> (\<open>BigInt(text)\<close>) and \<open>nat_to_text\<close>
    (\<open>toString()\<close>), inverse to each other on canonical strings.
\<close>

section \<open>Automation collections\<close>

named_theorems result_simps \<open>rewriting of computations that may throw\<close>
named_theorems bigint_simps \<open>truncating division as Euclidean division\<close>

section \<open>Results: computations that may throw\<close>

definition ok :: "'a \<Rightarrow> 'e + 'a" where
  "ok x = Inr x"

definition err :: "'e \<Rightarrow> 'e + 'a" where
  "err e = Inl e"

fun isOk :: "'e + 'a \<Rightarrow> bool" where
  "isOk (Inr _) = True"
| "isOk (Inl _) = False"

fun isErr :: "'e + 'a \<Rightarrow> bool" where
  "isErr (Inr _) = False"
| "isErr (Inl _) = True"

fun mapResult :: "'e + 'a \<Rightarrow> ('a \<Rightarrow> 'b) \<Rightarrow> 'e + 'b" where
  "mapResult (Inr x) f = ok (f x)"
| "mapResult (Inl e) f = Inl e"

fun mapErr :: "'e + 'a \<Rightarrow> ('e \<Rightarrow> 'f) \<Rightarrow> 'f + 'a" where
  "mapErr (Inr x) f = Inr x"
| "mapErr (Inl e) f = err (f e)"

fun andThen :: "'e + 'a \<Rightarrow> ('a \<Rightarrow> 'e + 'b) \<Rightarrow> 'e + 'b" where
  "andThen (Inr x) f = f x"
| "andThen (Inl e) f = Inl e"

text \<open>A \<open>for\<close> loop that threads a state and may throw; \<open>mapR\<close> is \<open>xs.map(f)\<close> with a throwing \<open>f\<close>.\<close>

fun foldR :: "('s \<Rightarrow> 'a \<Rightarrow> 'e + 's) \<Rightarrow> 's \<Rightarrow> 'a list \<Rightarrow> 'e + 's" where
  "foldR f s [] = Inr s"
| "foldR f s (x # xs) = andThen (f s x) (\<lambda>s'. foldR f s' xs)"

fun mapR :: "('a \<Rightarrow> 'e + 'b) \<Rightarrow> 'a list \<Rightarrow> 'e + 'b list" where
  "mapR f [] = Inr []"
| "mapR f (x # xs) = andThen (f x) (\<lambda>y. andThen (mapR f xs) (\<lambda>ys. Inr (y # ys)))"

section \<open>JavaScript sorting\<close>

text \<open>
  \<open>xs.sort(cmp)\<close>: a stable sort. An element is moved in front of an equal one only when it
  stood in front of it already, so insertion from the right with \<open>cmp x y \<le> 0\<close> is stable.
\<close>

fun js_insort :: "('a \<Rightarrow> 'a \<Rightarrow> int) \<Rightarrow> 'a \<Rightarrow> 'a list \<Rightarrow> 'a list" where
  "js_insort cmp x [] = [x]"
| "js_insort cmp x (y # ys) = (if cmp x y \<le> 0 then x # y # ys else y # js_insort cmp x ys)"

fun js_sort :: "('a \<Rightarrow> 'a \<Rightarrow> int) \<Rightarrow> 'a list \<Rightarrow> 'a list" where
  "js_sort cmp [] = []"
| "js_sort cmp (x # xs) = js_insort cmp x (js_sort cmp xs)"

section \<open>Decimal digit strings\<close>

definition is_digit :: "char \<Rightarrow> bool" where
  "is_digit c \<longleftrightarrow> 48 \<le> (of_char c :: nat) \<and> (of_char c :: nat) \<le> 57"

definition digit_value :: "char \<Rightarrow> int" where
  "digit_value c = int (of_char c) - 48"

definition digit_char :: "nat \<Rightarrow> char" where
  "digit_char d = char_of (48 + d)"

text \<open>\<open>BigInt(text)\<close> on a non-empty string of digits; \<open>n.toString()\<close> for a non-negative BigInt.\<close>

definition digits_to_int :: "string \<Rightarrow> int" where
  "digits_to_int s = foldl (\<lambda>a c. a * 10 + digit_value c) 0 s"

fun nat_to_text :: "nat \<Rightarrow> string" where
  "nat_to_text n =
     (if n < 10 then [digit_char n] else nat_to_text (n div 10) @ [digit_char (n mod 10)])"

declare nat_to_text.simps [simp del]

definition int_to_text :: "int \<Rightarrow> string" where
  "int_to_text n = (if n < 0 then CHR ''-'' # nat_to_text (nat (- n)) else nat_to_text (nat n))"

text \<open>\<open>s.padStart(n, '0')\<close> and \<open>s.padEnd(n, '0')\<close>.\<close>

definition padStart0 :: "string \<Rightarrow> nat \<Rightarrow> string" where
  "padStart0 s n = replicate (n - length s) CHR ''0'' @ s"

definition padEnd0 :: "string \<Rightarrow> nat \<Rightarrow> string" where
  "padEnd0 s n = s @ replicate (n - length s) CHR ''0''"

section \<open>Lemmas on results\<close>

lemma andThen_Inr_iff [result_simps]:
  "andThen m f = Inr y \<longleftrightarrow> (\<exists>x. m = Inr x \<and> f x = Inr y)"
  by (cases m) auto

lemma andThen_Inl_iff:
  "andThen m f = Inl e \<longleftrightarrow> m = Inl e \<or> (\<exists>x. m = Inr x \<and> f x = Inl e)"
  by (cases m) auto

lemma andThen_assoc: "andThen (andThen m f) g = andThen m (\<lambda>x. andThen (f x) g)"
  by (cases m) auto

lemma andThen_cong [fundef_cong]:
  "m = m' \<Longrightarrow> (\<And>x. m' = Inr x \<Longrightarrow> f x = g x) \<Longrightarrow> andThen m f = andThen m' g"
  by (cases m') auto

lemma mapResult_Inr_iff [result_simps]:
  "mapResult m f = Inr y \<longleftrightarrow> (\<exists>x. m = Inr x \<and> y = f x)"
  by (cases m) (auto simp: ok_def)

lemma if_Inr_iff [result_simps]:
  "(if b then Inl e else m) = Inr y \<longleftrightarrow> \<not> b \<and> m = Inr y"
  by simp

lemma mapErr_Inr_iff [result_simps]: "mapErr m f = Inr y \<longleftrightarrow> m = Inr y"
  by (cases m) (auto simp: err_def)

lemma foldR_append: "foldR f s (xs @ ys) = andThen (foldR f s xs) (\<lambda>t. foldR f t ys)"
  by (induction xs arbitrary: s) (auto simp: andThen_assoc)

text \<open>An invariant of the loop body is an invariant of the loop.\<close>

lemma foldR_invariant:
  assumes "foldR f s xs = Inr t" and "P s"
    and "\<And>u x v. x \<in> set xs \<Longrightarrow> P u \<Longrightarrow> f u x = Inr v \<Longrightarrow> P v"
  shows "P t"
  using assms
proof (induction xs arbitrary: s)
  case Nil
  then show ?case by simp
next
  case (Cons x xs)
  then obtain v where v: "f s x = Inr v" and rest: "foldR f v xs = Inr t"
    by (auto simp: result_simps)
  have "P v" by (rule Cons.prems(3) [OF _ Cons.prems(2) v]) simp
  then show ?case by (rule Cons.IH [OF rest]) (erule (1) Cons.prems(3) [OF list.set_intros(2)])
qed

lemma mapR_length: "mapR f xs = Inr ys \<Longrightarrow> length ys = length xs"
  by (induction xs arbitrary: ys) (auto simp: result_simps)

lemma mapR_all2: "mapR f xs = Inr ys \<longleftrightarrow> list_all2 (\<lambda>x y. f x = Inr y) xs ys"
  by (induction xs arbitrary: ys) (auto simp: result_simps list_all2_Cons1)

section \<open>Lemmas on sorting\<close>

lemma mset_js_insort [simp]: "mset (js_insort cmp x xs) = add_mset x (mset xs)"
  by (induction xs) auto

lemma mset_js_sort [simp]: "mset (js_sort cmp xs) = mset xs"
  by (induction xs) auto

lemma set_js_sort [simp]: "set (js_sort cmp xs) = set xs"
  by (metis mset_js_sort set_mset_mset)

lemma length_js_sort [simp]: "length (js_sort cmp xs) = length xs"
  by (metis mset_js_sort size_mset)

lemma distinct_js_sort [simp]: "distinct (js_sort cmp xs) \<longleftrightarrow> distinct xs"
  by (metis mset_js_sort mset_eq_imp_distinct_iff)

lemma set_js_insort [simp]: "set (js_insort cmp x xs) = insert x (set xs)"
  by (induction xs) auto

lemma distinct_map_js_sort [simp]: "distinct (map f (js_sort cmp xs)) \<longleftrightarrow> distinct (map f xs)"
  by (metis mset_js_sort mset_map mset_eq_imp_distinct_iff)

lemma sum_list_js_sort [simp]:
  fixes f :: "'a \<Rightarrow> 'b::comm_monoid_add"
  shows "sum_list (map f (js_sort cmp xs)) = sum_list (map f xs)"
  by (metis mset_js_sort mset_map sum_mset_sum_list)

lemma js_sort_sorted:
  assumes total: "\<And>x y. cmp x y \<le> 0 \<or> cmp y x \<le> 0"
    and trans: "\<And>x y z. cmp x y \<le> 0 \<Longrightarrow> cmp y z \<le> 0 \<Longrightarrow> cmp x z \<le> 0"
  shows "sorted_wrt (\<lambda>x y. cmp x y \<le> 0) (js_sort cmp xs)"
proof (induction xs)
  case Nil
  then show ?case by simp
next
  case (Cons x xs)
  have "sorted_wrt (\<lambda>x y. cmp x y \<le> 0) ys \<Longrightarrow>
        sorted_wrt (\<lambda>x y. cmp x y \<le> 0) (js_insort cmp x ys)" for ys
  proof (induction ys)
    case (Cons y ys)
    show ?case
    proof (cases "cmp x y \<le> 0")
      case True
      with Cons.prems trans show ?thesis by fastforce
    next
      case False
      with total have "cmp y x \<le> 0" by blast
      with False Cons show ?thesis by auto
    qed
  qed simp
  with Cons show ?case by simp
qed

lemma js_insort_le_id: "\<forall>y\<in>set xs. cmp x y \<le> 0 \<Longrightarrow> js_insort cmp x xs = x # xs"
  by (cases xs) auto

text \<open>Sorting an already sorted list changes nothing, so sorting is idempotent.\<close>

lemma js_sort_id: "sorted_wrt (\<lambda>x y. cmp x y \<le> 0) xs \<Longrightarrow> js_sort cmp xs = xs"
  by (induction xs) (auto simp: js_insort_le_id)

section \<open>Lemmas on association lists\<close>

lemma map_fst_update: "map fst (AList.update k v xs) =
  (if k \<in> fst ` set xs then map fst xs else map fst xs @ [k])"
  by (simp add: AList.update_keys)

lemma sum_list_update_known:
  fixes xs :: "('k \<times> 'v::ab_group_add) list"
  assumes "distinct (map fst xs)" and "map_of xs k = Some w"
  shows "sum_list (map snd (AList.update k v xs)) = sum_list (map snd xs) - w + v"
  using assms
proof (induction xs)
  case Nil
  then show ?case by simp
next
  case (Cons p xs)
  then show ?case by (cases p) (auto simp: algebra_simps)
qed

lemma sum_list_update_fresh:
  fixes xs :: "('k \<times> 'v::comm_monoid_add) list"
  assumes "k \<notin> fst ` set xs"
  shows "sum_list (map snd (AList.update k v xs)) = sum_list (map snd xs) + v"
  using assms by (induction xs) (auto simp: algebra_simps)

section \<open>Lemmas on truncating division\<close>

lemma sdiv_nonneg [bigint_simps]: "0 \<le> a \<Longrightarrow> 0 < b \<Longrightarrow> (a::int) sdiv b = a div b"
  by (cases "a = 0") (simp_all add: signed_divide_int_def sgn_1_pos)

lemma smod_nonneg [bigint_simps]: "0 \<le> a \<Longrightarrow> 0 < b \<Longrightarrow> (a::int) smod b = a mod b"
  by (cases "a = 0") (simp_all add: signed_modulo_int_def sgn_1_pos)

lemma sdiv_neg [bigint_simps]: "a < 0 \<Longrightarrow> 0 < b \<Longrightarrow> (a::int) sdiv b = - ((- a) div b)"
  by (simp add: signed_divide_int_def sgn_1_pos)

lemma smod_neg [bigint_simps]: "a < 0 \<Longrightarrow> 0 < b \<Longrightarrow> (a::int) smod b = - ((- a) mod b)"
  by (simp add: signed_modulo_int_def)

section \<open>Lemmas on digit strings\<close>

lemma of_char_digit_char [simp]: "d < 10 \<Longrightarrow> of_char (digit_char d) = (48 + d :: nat)"
  by (simp add: digit_char_def of_char_of)

lemma is_digit_digit_char [simp]: "d < 10 \<Longrightarrow> is_digit (digit_char d)"
  by (simp add: is_digit_def)

lemma digit_value_digit_char [simp]: "d < 10 \<Longrightarrow> digit_value (digit_char d) = int d"
  by (simp add: digit_value_def)

lemma digit_value_bounds: "is_digit c \<Longrightarrow> 0 \<le> digit_value c \<and> digit_value c < 10"
  by (auto simp: is_digit_def digit_value_def)

lemma digit_char_value: "is_digit c \<Longrightarrow> digit_char (nat (digit_value c)) = c"
  by (auto simp: is_digit_def digit_value_def digit_char_def nat_diff_distrib)

lemma digits_to_int_Nil [simp]: "digits_to_int [] = 0"
  by (simp add: digits_to_int_def)

lemma digits_to_int_snoc [simp]:
  "digits_to_int (s @ [c]) = digits_to_int s * 10 + digit_value c"
  by (simp add: digits_to_int_def)

lemma digits_to_int_append:
  "digits_to_int (s @ t) = digits_to_int s * 10 ^ length t + digits_to_int t"
proof (induction t rule: rev_induct)
  case Nil
  then show ?case by simp
next
  case (snoc c t)
  have "digits_to_int (s @ t @ [c]) = digits_to_int (s @ t) * 10 + digit_value c"
    using digits_to_int_snoc [of "s @ t" c] by simp
  with snoc show ?case by (simp add: algebra_simps)
qed

lemma digits_to_int_replicate0 [simp]: "digits_to_int (replicate n CHR ''0'') = 0"
  by (induction n) (auto simp: digits_to_int_def digit_value_def)

lemma digits_to_int_bounds:
  "\<forall>c\<in>set s. is_digit c \<Longrightarrow> 0 \<le> digits_to_int s \<and> digits_to_int s < 10 ^ length s"
proof (induction s rule: rev_induct)
  case Nil
  then show ?case by simp
next
  case (snoc c s)
  then show ?case using digit_value_bounds [of c] by auto
qed

lemma nat_to_text_digits: "c \<in> set (nat_to_text n) \<Longrightarrow> is_digit c"
proof (induction n rule: nat_to_text.induct)
  case (1 n)
  then show ?case by (auto simp: nat_to_text.simps [of n] split: if_splits)
qed

lemma digits_to_int_nat_to_text [simp]: "digits_to_int (nat_to_text n) = int n"
proof (induction n rule: nat_to_text.induct)
  case (1 n)
  then show ?case
    by (cases "n < 10")
       (auto simp: nat_to_text.simps [of n] digits_to_int_def zdiv_int zmod_int)
qed

lemma nat_to_text_nonempty [simp]: "nat_to_text n \<noteq> []"
  by (subst nat_to_text.simps) simp

lemma digit_char_eq_0: "d < 10 \<Longrightarrow> digit_char d = CHR ''0'' \<longleftrightarrow> d = 0"
proof
  assume "d < 10" and "digit_char d = CHR ''0''"
  then have "(48 + d :: nat) = of_char CHR ''0''" by (metis of_char_digit_char)
  then show "d = 0" by simp
next
  have "char_of (of_char CHR ''0'' :: nat) = CHR ''0''" by (rule char_of_char)
  then show "digit_char d = CHR ''0''" if "d = 0" using that by (simp add: digit_char_def)
qed

text \<open>The decimal text of a number has no leading zero, except for zero itself.\<close>

lemma hd_nat_to_text: "hd (nat_to_text n) = CHR ''0'' \<longleftrightarrow> n = 0"
proof (induction n rule: nat_to_text.induct)
  case (1 n)
  show ?case
  proof (cases "n < 10")
    case True
    then have "digit_char n = CHR ''0'' \<longleftrightarrow> n = 0"
      by (auto simp: digit_char_eq_0)
    with True show ?thesis by (simp add: nat_to_text.simps [of n])
  next
    case False
    with 1 show ?thesis by (simp add: nat_to_text.simps [of n] hd_append)
  qed
qed

text \<open>For evaluation: the digits of a number by integer arithmetic, which the kernel computes in binary.\<close>

function int_digits :: "int \<Rightarrow> string" where
  "int_digits n = (if n < 10 then [digit_char (nat n)] else int_digits (n div 10) @ [digit_char (nat (n mod 10))])"
  by pat_completeness auto
termination by (relation "measure nat") auto

declare int_digits.simps [simp del]

lemma int_digits_nat: "0 \<le> n \<Longrightarrow> int_digits n = nat_to_text (nat n)"
proof (induction n rule: int_digits.induct)
  case (1 n)
  then show ?case
    by (subst int_digits.simps, subst nat_to_text.simps) (auto simp: nat_div_distrib nat_mod_distrib)
qed

lemma int_to_text_code [code]:
  "int_to_text n = (if n < 0 then CHR ''-'' # int_digits (- n) else int_digits n)"
  by (simp add: int_to_text_def int_digits_nat)

end
