(* ===== verification/App_Errors.thy ===== *)
theory App_Errors
  imports Prelude
begin

text \<open>
  The error hierarchy of \<^verbatim>\<open>src/shared/errors.ts\<close> (and the two error classes that code below it
  raises): one constructor per concrete class, carrying the fields of the class that code can
  branch on. The human-readable \<open>message\<close> is not stored: \<open>error_response\<close> records whether a
  response carries the error's own message or a constant one, which is what the security
  contract of \<open>toErrorResponse\<close> is about. \<open>PgError\<close> and \<open>ForeignError\<close> stand for values that
  are not \<open>DomainError\<close>s: a raw PostgreSQL error with its SQLSTATE, constraint name and message, and
  any other thrown value.
\<close>

section \<open>The hierarchy\<close>

datatype discount_override_reason =
    zeroes_out_subtotal | exceeds_matching_cap | exceeds_cross_equivalent_cap | both

datatype discount_kind = percentage | fixed_amount

datatype pg_concurrency_code = Pg40001 | Pg40P01 | Pg55P03

datatype app_error =
    ValidationError "string option"
  | CurrencyMismatchError string string
  | NotFoundError
  | MissingExchangeRateError string string int
  | NoApplicableTaxRateError string string
  | NoApplicableTaxLiabilityRuleError string string string
  | TaxConfigurationError
  | InvoiceTaxBatchRequiredError
  | ConflictError
  | ConfigurationError "string option"
  | AuthorizationError
  | ForbiddenError
  | TenantSuspendedError string
  | ExciseConfirmationRequiredError
  | PaymentReversalRequiredError string
  | NoMatchingRoutingRuleError string string
  | OrderWorkflowNotConfiguredError string
  | WorkflowTransitionError
  | WorkflowStateInUseError string
  | VoidReasonUnavailableError string
  | AdjustmentReasonUnavailableError string
  | VoidTimeLimitExceededError int int
  | ManagerOverrideRequiredError string
  | ManagerOverrideAuthenticationError
  | ManagerOverrideRateLimitedError int
  | CashierShiftRequiredError string string
  | InsufficientStockError string string string
  | LoyaltyPointsDeferredError
  | DiscountOverrideRequiredError discount_override_reason
  | DiscountAuthorityMissingError discount_kind
  | CouponUnavailableError string string
  | CouponAvailabilityRaceError string
  | PaymentMethodUnavailableError string string
  | PaymentExceedsBalanceError int int
  | PaymentStatusTransitionError string string
  | ShiftNotOpenError string
  | TenantIsolationViolationError
  | RateLimitError
  | InvalidCredentialsError
  | ServiceUnavailableError
  | ConcurrencyRetryableError pg_concurrency_code
  | PgError string "string option" string
  | ForeignError string

type_synonym 'a result = "app_error + 'a"

text \<open>\<open>isDomainError\<close>, and the \<open>code\<close> field of a domain error; a subclass inherits its parent's code.\<close>

fun isDomainError :: "app_error \<Rightarrow> bool" where
  "isDomainError (PgError _ _ _) = False"
| "isDomainError (ForeignError _) = False"
| "isDomainError _ = True"

fun isConcurrencyRetryableError :: "app_error \<Rightarrow> bool" where
  "isConcurrencyRetryableError (ConcurrencyRetryableError _) = True"
| "isConcurrencyRetryableError _ = False"

fun error_code :: "app_error \<Rightarrow> string" where
  "error_code NotFoundError = ''not_found''"
| "error_code (MissingExchangeRateError _ _ _) = ''not_found''"
| "error_code (NoMatchingRoutingRuleError _ _) = ''not_found''"
| "error_code (OrderWorkflowNotConfiguredError _) = ''not_found''"
| "error_code (NoApplicableTaxRateError _ _) = ''tax.no_applicable_rate''"
| "error_code (NoApplicableTaxLiabilityRuleError _ _ _) = ''tax.no_applicable_liability_rule''"
| "error_code ConflictError = ''conflict''"
| "error_code (WorkflowStateInUseError _) = ''conflict''"
| "error_code (CouponAvailabilityRaceError _) = ''conflict''"
| "error_code (ShiftNotOpenError _) = ''conflict''"
| "error_code (ConfigurationError _) = ''config.invalid''"
| "error_code AuthorizationError = ''authorization.failed''"
| "error_code ManagerOverrideAuthenticationError = ''authorization.failed''"
| "error_code ForbiddenError = ''forbidden''"
| "error_code ExciseConfirmationRequiredError = ''forbidden''"
| "error_code (VoidTimeLimitExceededError _ _) = ''forbidden''"
| "error_code (ManagerOverrideRequiredError _) = ''forbidden''"
| "error_code (DiscountOverrideRequiredError _) = ''forbidden''"
| "error_code (DiscountAuthorityMissingError _) = ''forbidden''"
| "error_code (TenantSuspendedError _) = ''tenant.suspended''"
| "error_code (PaymentReversalRequiredError _) = ''order.payment_reversal_required''"
| "error_code (ManagerOverrideRateLimitedError _) = ''order.override_rate_limited''"
| "error_code (CashierShiftRequiredError _ _) = ''payments.shift_required''"
| "error_code (InsufficientStockError _ _ _) = ''inventory.insufficient_stock''"
| "error_code LoyaltyPointsDeferredError = ''payments.loyalty_points_deferred''"
| "error_code TenantIsolationViolationError = ''tenant_isolation.violation''"
| "error_code RateLimitError = ''rate_limit.exceeded''"
| "error_code InvalidCredentialsError = ''INVALID_CREDENTIALS''"
| "error_code ServiceUnavailableError = ''service.unavailable''"
| "error_code (ConcurrencyRetryableError _) = ''concurrency.retryable_conflict''"
| "error_code (PgError _ _ _) = ''internal.error''"
| "error_code (ForeignError _) = ''internal.error''"
| "error_code _ = ''validation.failed''"

section \<open>The central error mapper\<close>

datatype response_message = OwnMessage app_error | ConstMessage string

record error_response =
  status :: int
  code :: string
  message :: response_message
  retryAfterSeconds :: "int option"

abbreviation response :: "int \<Rightarrow> string \<Rightarrow> response_message \<Rightarrow> error_response" where
  "response s c m \<equiv> \<lparr>status = s, code = c, message = m, retryAfterSeconds = None\<rparr>"

definition INTERNAL_ERROR_MESSAGE :: string where
  "INTERNAL_ERROR_MESSAGE = ''Internal server error''"

text \<open>
  \<open>toErrorResponse(error, logSink)\<close>: the response and the errors handed to the log sink.
\<close>

definition toErrorResponse :: "app_error \<Rightarrow> error_response \<times> app_error list" where
  "toErrorResponse e =
    (let c = error_code e; own = OwnMessage e in
     if \<not> isDomainError e then
       (response 500 ''internal.error'' (ConstMessage INTERNAL_ERROR_MESSAGE), [e])
     else if c = ''validation.failed'' then (response 400 c own, [])
     else if c = ''authorization.failed'' then (response 401 c own, [])
     else if c = ''INVALID_CREDENTIALS'' then
       (response 401 c (ConstMessage ''Invalid credentials''), [])
     else if c \<in> {''forbidden'', ''tenant_isolation.violation'', ''tenant.suspended''} then
       (response 403 c own, [])
     else if c = ''not_found'' then (response 404 c own, [])
     else if c = ''conflict'' then (response 409 c own, [])
     else if c = ''order.payment_reversal_required'' then (response 409 c own, [])
     else if c = ''payments.shift_required'' then (response 409 c own, [])
     else if c = ''payments.loyalty_points_deferred'' then (response 409 c own, [])
     else if c = ''inventory.insufficient_stock'' then (response 409 c own, [])
     else if c \<in> {''tax.no_applicable_rate'', ''tax.no_applicable_liability_rule''} then
       (response 409 c own, [])
     else if c = ''rate_limit.exceeded'' then (response 429 c own, [])
     else if c = ''order.override_rate_limited'' then
       (case e of
          ManagerOverrideRateLimitedError s \<Rightarrow>
            ((response 429 c own)\<lparr>retryAfterSeconds := Some s\<rparr>, [])
        | _ \<Rightarrow> (response 429 c own, []))
     else if c = ''service.unavailable'' then
       (response 503 c (ConstMessage ''Service temporarily unavailable''), [e])
     else if c = ''concurrency.retryable_conflict'' then (response 503 c own, [])
     else if c = ''config.invalid'' then
       (response 500 c (ConstMessage INTERNAL_ERROR_MESSAGE), [e])
     else (response 500 c (ConstMessage INTERNAL_ERROR_MESSAGE), [e]))"

section \<open>Properties of the mapper\<close>

text \<open>
  No detail of an internal error crosses the HTTP boundary: every 500-class response other
  than the retryable concurrency conflict carries a constant message, and every response with a
  status of 500 or above that hides its error hands that error to the log sink. A response below
  500 is never logged.
\<close>

theorem toErrorResponse_no_leak:
  "let (r, logged) = toErrorResponse e in
     (status r = 500 \<longrightarrow> message r = ConstMessage INTERNAL_ERROR_MESSAGE \<and> logged = [e]) \<and>
     (status r \<ge> 500 \<and> \<not> isConcurrencyRetryableError e \<longrightarrow>
        (\<exists>m. message r = ConstMessage m) \<and> logged = [e]) \<and>
     (status r < 500 \<longrightarrow> logged = []) \<and>
     (\<not> isDomainError e \<longrightarrow> status r = 500)"
  by (cases e) (simp_all add: toErrorResponse_def)

theorem toErrorResponse_no_leak_witness:
  "status (fst (toErrorResponse (ConfigurationError (Some ''PIN_HASH_PEPPER'')))) = 500 \<and>
   message (fst (toErrorResponse (ConfigurationError (Some ''PIN_HASH_PEPPER'')))) =
     ConstMessage INTERNAL_ERROR_MESSAGE \<and>
   snd (toErrorResponse (ConfigurationError (Some ''PIN_HASH_PEPPER''))) =
     [ConfigurationError (Some ''PIN_HASH_PEPPER'')]"
  using toErrorResponse_no_leak [of "ConfigurationError (Some ''PIN_HASH_PEPPER'')"]
  by (simp add: toErrorResponse_def)

lemma toErrorResponse_status_cases:
  "status (fst (toErrorResponse e)) \<in> {400, 401, 403, 404, 409, 429, 500, 503}"
  by (cases e) (simp_all add: toErrorResponse_def)

end
