(* ===== verification/Money.thy ===== *)
theory Money
  imports App_Errors
begin

text \<open>
  Model of \<^verbatim>\<open>src/shared/money.ts\<close> and \<^verbatim>\<open>src/shared/integer-validation.ts\<close>: amounts are BigInt minor
  units (\<open>int\<close>) tagged with an ISO 4217 code. A JavaScript \<open>number\<close> that the code tests with
  \<open>Number.isInteger\<close> is a \<open>js_number\<close>: an integer, or anything else (a fraction, NaN, an
  infinity). The theory shows that the banker's division is the nearest-even rounding and
  nothing else, that the database text of an amount round-trips both ways, that \<open>allocate\<close>
  splits an amount exactly and fairly and never fails on a valid amount, that \<open>sum\<close> adds up one
  currency only, and that the exchange conversion rounds exactly once.
\<close>

section \<open>Integer validation\<close>

datatype js_number = JInt int | JNonInteger

fun requirePositiveInteger :: "js_number \<Rightarrow> string \<Rightarrow> unit result" where
  "requirePositiveInteger JNonInteger field = Inl (ValidationError (Some field))"
| "requirePositiveInteger (JInt v) field =
     (if v < 1 then Inl (ValidationError (Some field)) else Inr ())"

fun requireNonNegativeInteger :: "js_number \<Rightarrow> string \<Rightarrow> unit result" where
  "requireNonNegativeInteger JNonInteger field = Inl (ValidationError (Some field))"
| "requireNonNegativeInteger (JInt v) field =
     (if v < 0 then Inl (ValidationError (Some field)) else Inr ())"

section \<open>Currencies\<close>

record money_value =
  amountMinor :: int
  currency :: string

definition is_upper :: "char \<Rightarrow> bool" where
  "is_upper c \<longleftrightarrow> 65 \<le> (of_char c :: nat) \<and> (of_char c :: nat) \<le> 90"

definition CURRENCY_CODE_PATTERN :: "string \<Rightarrow> bool" where
  "CURRENCY_CODE_PATTERN s \<longleftrightarrow> length s = 3 \<and> list_all is_upper s"

definition ISO_4217_MINOR_UNITS :: "(string \<times> int) list" where
  "ISO_4217_MINOR_UNITS =
    [(''AED'', 2), (''AFN'', 2), (''ALL'', 2), (''AMD'', 2), (''ANG'', 2), (''AOA'', 2),
     (''ARS'', 2), (''AUD'', 2), (''AWG'', 2), (''AZN'', 2), (''BAM'', 2), (''BBD'', 2),
     (''BDT'', 2), (''BGN'', 2), (''BHD'', 3), (''BIF'', 0), (''BMD'', 2), (''BND'', 2),
     (''BOB'', 2), (''BOV'', 2), (''BRL'', 2), (''BSD'', 2), (''BTN'', 2), (''BWP'', 2),
     (''BYN'', 2), (''BZD'', 2), (''CAD'', 2), (''CDF'', 2), (''CHE'', 2), (''CHF'', 2),
     (''CHW'', 2), (''CLF'', 4), (''CLP'', 0), (''CNY'', 2), (''COP'', 2), (''COU'', 2),
     (''CRC'', 2), (''CUP'', 2), (''CVE'', 2), (''CZK'', 2), (''DJF'', 0), (''DKK'', 2),
     (''DOP'', 2), (''DZD'', 2), (''EGP'', 2), (''ERN'', 2), (''ETB'', 2), (''EUR'', 2),
     (''FJD'', 2), (''FKP'', 2), (''GBP'', 2), (''GEL'', 2), (''GHS'', 2), (''GIP'', 2),
     (''GMD'', 2), (''GNF'', 0), (''GTQ'', 2), (''GYD'', 2), (''HKD'', 2), (''HNL'', 2),
     (''HTG'', 2), (''HUF'', 2), (''IDR'', 2), (''ILS'', 2), (''INR'', 2), (''IQD'', 3),
     (''IRR'', 2), (''ISK'', 0), (''JMD'', 2), (''JOD'', 3), (''JPY'', 0), (''KES'', 2),
     (''KGS'', 2), (''KHR'', 2), (''KMF'', 0), (''KPW'', 2), (''KRW'', 0), (''KWD'', 3),
     (''KYD'', 2), (''KZT'', 2), (''LAK'', 2), (''LBP'', 2), (''LKR'', 2), (''LRD'', 2),
     (''LSL'', 2), (''LYD'', 3), (''MAD'', 2), (''MDL'', 2), (''MGA'', 2), (''MKD'', 2),
     (''MMK'', 2), (''MNT'', 2), (''MOP'', 2), (''MRU'', 2), (''MUR'', 2), (''MVR'', 2),
     (''MWK'', 2), (''MXN'', 2), (''MXV'', 2), (''MYR'', 2), (''MZN'', 2), (''NAD'', 2),
     (''NGN'', 2), (''NIO'', 2), (''NOK'', 2), (''NPR'', 2), (''NZD'', 2), (''OMR'', 3),
     (''PAB'', 2), (''PEN'', 2), (''PGK'', 2), (''PHP'', 2), (''PKR'', 2), (''PLN'', 2),
     (''PYG'', 0), (''QAR'', 2), (''RON'', 2), (''RSD'', 2), (''RUB'', 2), (''RWF'', 0),
     (''SAR'', 2), (''SBD'', 2), (''SCR'', 2), (''SDG'', 2), (''SEK'', 2), (''SGD'', 2),
     (''SHP'', 2), (''SLE'', 2), (''SOS'', 2), (''SRD'', 2), (''SSP'', 2), (''STN'', 2),
     (''SVC'', 2), (''SYP'', 2), (''SZL'', 2), (''THB'', 2), (''TJS'', 2), (''TMT'', 2),
     (''TND'', 3), (''TOP'', 2), (''TRY'', 2), (''TTD'', 2), (''TWD'', 2), (''TZS'', 2),
     (''UAH'', 2), (''UGX'', 0), (''USD'', 2), (''USN'', 2), (''UYI'', 0), (''UYU'', 2),
     (''UYW'', 4), (''UZS'', 2), (''VED'', 2), (''VES'', 2), (''VND'', 0), (''VUV'', 0),
     (''WST'', 2), (''XAF'', 0), (''XAG'', 0), (''XAU'', 0), (''XBA'', 0), (''XBB'', 0),
     (''XBC'', 0), (''XBD'', 0), (''XCD'', 2), (''XDR'', 0), (''XOF'', 0), (''XPD'', 0),
     (''XPF'', 0), (''XPT'', 0), (''XSU'', 0), (''XTS'', 0), (''XUA'', 0), (''XXX'', 0),
     (''YER'', 2), (''ZAR'', 2), (''ZMW'', 2), (''ZWL'', 2)]"

definition DEFAULT_MAX_MINOR_UNITS :: int where
  "DEFAULT_MAX_MINOR_UNITS = 10 ^ 18"

definition isCurrencyCode :: "string \<Rightarrow> bool" where
  "isCurrencyCode value \<longleftrightarrow>
     CURRENCY_CODE_PATTERN value \<and> map_of ISO_4217_MINOR_UNITS value \<noteq> None"

definition currencyCode :: "string \<Rightarrow> string result" where
  "currencyCode value =
     (if \<not> isCurrencyCode value then Inl (ValidationError (Some ''currency'')) else Inr value)"

definition minorUnitScale :: "string \<Rightarrow> int result" where
  "minorUnitScale cur =
     (case map_of ISO_4217_MINOR_UNITS cur of
        None \<Rightarrow> Inl (ValidationError (Some ''currency''))
      | Some scale \<Rightarrow> Inr scale)"

section \<open>Construction and database text\<close>

definition money_bounded :: "int \<Rightarrow> string \<Rightarrow> int \<Rightarrow> money_value result" where
  "money_bounded amount cur maxMinorUnits =
     (if amount > maxMinorUnits \<or> amount < - maxMinorUnits
      then Inl (ValidationError (Some ''amountMinor''))
      else Inr \<lparr>amountMinor = amount, currency = cur\<rparr>)"

abbreviation money :: "int \<Rightarrow> string \<Rightarrow> money_value result" where
  "money amount cur \<equiv> money_bounded amount cur DEFAULT_MAX_MINOR_UNITS"

definition zero_money :: "string \<Rightarrow> money_value result" where
  "zero_money cur = money 0 cur"

definition assertSameCurrency :: "money_value \<Rightarrow> money_value \<Rightarrow> unit result" where
  "assertSameCurrency l r =
     (if currency l \<noteq> currency r then Inl (CurrencyMismatchError (currency l) (currency r))
      else Inr ())"

text \<open>The pattern \<^verbatim>\<open>(0|[1-9]\d*)\<close>, and with an optional minus sign the canonical integer.\<close>

definition canonical_nat :: "string \<Rightarrow> bool" where
  "canonical_nat s \<longleftrightarrow> s = ''0'' \<or> (s \<noteq> [] \<and> hd s \<noteq> CHR ''0'' \<and> list_all is_digit s)"

definition canonical_int :: "string \<Rightarrow> bool" where
  "canonical_int s \<longleftrightarrow>
     canonical_nat (if s \<noteq> [] \<and> hd s = CHR ''-'' then tl s else s)"

definition bigint_of_text :: "string \<Rightarrow> int" where
  "bigint_of_text s =
     (if s \<noteq> [] \<and> hd s = CHR ''-'' then - digits_to_int (tl s) else digits_to_int s)"

definition minorUnitsFromDb :: "string \<Rightarrow> int result" where
  "minorUnitsFromDb txt =
     (if txt = ''-0'' then Inl (ValidationError (Some ''amountMinor''))
      else if \<not> canonical_int txt then Inl (ValidationError (Some ''amountMinor''))
      else Inr (bigint_of_text txt))"

definition minorUnitsToDb :: "int \<Rightarrow> string" where
  "minorUnitsToDb v = int_to_text v"

definition moneyFromMinorString :: "string \<Rightarrow> string \<Rightarrow> money_value result" where
  "moneyFromMinorString amount cur = andThen (minorUnitsFromDb amount) (\<lambda>a. money a cur)"

definition toMinorString :: "money_value \<Rightarrow> string" where
  "toMinorString v = minorUnitsToDb (amountMinor v)"

section \<open>Arithmetic\<close>

definition add_money :: "money_value \<Rightarrow> money_value \<Rightarrow> money_value result" where
  "add_money l r =
     andThen (assertSameCurrency l r) (\<lambda>_. money (amountMinor l + amountMinor r) (currency l))"

definition subtract_money :: "money_value \<Rightarrow> money_value \<Rightarrow> money_value result" where
  "subtract_money l r =
     andThen (assertSameCurrency l r) (\<lambda>_. money (amountMinor l - amountMinor r) (currency l))"

definition negate_money :: "money_value \<Rightarrow> money_value result" where
  "negate_money v = money (- amountMinor v) (currency v)"

definition sum_money :: "string \<Rightarrow> money_value list \<Rightarrow> money_value result" where
  "sum_money cur vs = andThen (zero_money cur) (\<lambda>z. foldR add_money z vs)"

definition compare_money :: "money_value \<Rightarrow> money_value \<Rightarrow> int result" where
  "compare_money l r =
     andThen (assertSameCurrency l r) (\<lambda>_.
       Inr (if amountMinor l < amountMinor r then -1
            else if amountMinor l > amountMinor r then 1 else 0))"

definition equals_money :: "money_value \<Rightarrow> money_value \<Rightarrow> bool" where
  "equals_money l r \<longleftrightarrow> currency l = currency r \<and> amountMinor l = amountMinor r"

definition isZero :: "money_value \<Rightarrow> bool" where
  "isZero v \<longleftrightarrow> amountMinor v = 0"

definition isNegative :: "money_value \<Rightarrow> bool" where
  "isNegative v \<longleftrightarrow> amountMinor v < 0"

definition divideRoundHalfToEven :: "int \<Rightarrow> int \<Rightarrow> int result" where
  "divideRoundHalfToEven numerator denominator =
     (if denominator = 0 then Inl (ValidationError (Some ''denominator''))
      else
        let n = (if denominator < 0 then - numerator else numerator);
            d = (if denominator < 0 then - denominator else denominator);
            quotient = n sdiv d;
            remainder = n smod d;
            twiceRemainder = (if remainder < 0 then - remainder else remainder) * 2
        in if twiceRemainder < d then Inr quotient
           else if twiceRemainder > d then Inr (if n < 0 then quotient - 1 else quotient + 1)
           else if quotient smod 2 = 0 then Inr quotient
           else Inr (if n < 0 then quotient - 1 else quotient + 1))"

definition scale_money :: "money_value \<Rightarrow> int \<Rightarrow> int \<Rightarrow> money_value result" where
  "scale_money v numerator denominator =
     andThen (divideRoundHalfToEven (amountMinor v * numerator) denominator)
       (\<lambda>q. money q (currency v))"

section \<open>Exchange-rate conversion\<close>

definition MAX_RATE_SCALE :: nat where
  "MAX_RATE_SCALE = 8"

record parsed_decimal =
  coefficient :: int
  rate_scale :: nat

text \<open>
  \<^verbatim>\<open>/^(0|[1-9]\d*)(?:\.(\d+))?$/.exec(text)\<close>: the integer part and the fraction part, if any.
  The integer part holds digits only, so it ends at the first point.
\<close>

definition match_decimal :: "string \<Rightarrow> (string \<times> string option) option" where
  "match_decimal s =
     (let ip = takeWhile (\<lambda>c. c \<noteq> CHR ''.'') s; rest = dropWhile (\<lambda>c. c \<noteq> CHR ''.'') s in
      if \<not> canonical_nat ip then None
      else case rest of
             [] \<Rightarrow> Some (ip, None)
           | _ # fp \<Rightarrow> if fp \<noteq> [] \<and> list_all is_digit fp then Some (ip, Some fp) else None)"

definition parseRateNumeric :: "string \<Rightarrow> parsed_decimal result" where
  "parseRateNumeric rateText =
     (if rateText = [] then Inl (ValidationError (Some ''rate''))
      else case match_decimal rateText of
        None \<Rightarrow> Inl (ValidationError (Some ''rate''))
      | Some (integerPart, fraction) \<Rightarrow>
          let fractionPart = (case fraction of None \<Rightarrow> [] | Some f \<Rightarrow> f) in
          if length fractionPart > MAX_RATE_SCALE then Inl (ValidationError (Some ''rate''))
          else let c = digits_to_int (integerPart @ fractionPart) in
               if c \<le> 0 then Inl (ValidationError (Some ''rate''))
               else Inr \<lparr>coefficient = c, rate_scale = length fractionPart\<rparr>)"

definition assertMinorUnitDigits :: "int \<Rightarrow> string \<Rightarrow> unit result" where
  "assertMinorUnitDigits digits field =
     (if digits < 0 \<or> digits > 4 then Inl (ValidationError (Some field)) else Inr ())"

definition tenTo :: "int \<Rightarrow> string \<Rightarrow> int \<Rightarrow> int result" where
  "tenTo digits field maxDigits =
     (if digits < 0 \<or> digits > maxDigits then Inl (ValidationError (Some field))
      else Inr (10 ^ nat digits))"

definition convertMoneyAtRate ::
  "money_value \<Rightarrow> string \<Rightarrow> string \<Rightarrow> int \<Rightarrow> int \<Rightarrow> money_value result" where
  "convertMoneyAtRate v rateText targetCurrency targetDigits sourceDigits =
     andThen (assertMinorUnitDigits sourceDigits ''sourceMinorUnitDigits'') (\<lambda>_.
     andThen (assertMinorUnitDigits targetDigits ''targetMinorUnitDigits'') (\<lambda>_.
     andThen (parseRateNumeric rateText) (\<lambda>parsedRate.
     andThen (tenTo targetDigits ''targetMinorUnitDigits'' 4) (\<lambda>tt.
     andThen (tenTo sourceDigits ''sourceMinorUnitDigits'' 4) (\<lambda>ts.
     andThen (tenTo (int (rate_scale parsedRate)) ''rateScale'' (int MAX_RATE_SCALE)) (\<lambda>tr.
     andThen (divideRoundHalfToEven (amountMinor v * coefficient parsedRate * tt) (ts * tr)) (\<lambda>q.
       money q targetCurrency)))))))"

text \<open>With the default argument \<open>sourceMinorUnitDigits = minorUnitScale(value.currency)\<close>.\<close>

definition convertMoneyAtRate_default ::
  "money_value \<Rightarrow> string \<Rightarrow> string \<Rightarrow> int \<Rightarrow> money_value result" where
  "convertMoneyAtRate_default v rateText targetCurrency targetDigits =
     andThen (minorUnitScale (currency v)) (\<lambda>sourceDigits.
       convertMoneyAtRate v rateText targetCurrency targetDigits sourceDigits)"

section \<open>Allocation\<close>

definition allocate :: "money_value \<Rightarrow> js_number \<Rightarrow> money_value list result" where
  "allocate v parts =
     (case parts of
        JNonInteger \<Rightarrow> Inl (ValidationError (Some ''parts''))
      | JInt n \<Rightarrow>
          if n \<le> 0 then Inl (ValidationError (Some ''parts''))
          else
            let total = amountMinor v;
                base = total sdiv n;
                remainder = total - base * n;
                sign = (if remainder < 0 then - 1 else 1);
                spread = (if remainder < 0 then - remainder else remainder)
            in mapR (\<lambda>i. let extra = (if int i < spread then sign else 0)
                         in money (base + extra) (currency v)) [0..<nat n])"

section \<open>Banker's rounding\<close>

text \<open>
  The specification of round-half-to-even: \<open>q\<close> is a nearest integer to \<open>n / d\<close>, and the even
  one when two are equally near.
\<close>

definition nearest_even :: "int \<Rightarrow> int \<Rightarrow> int \<Rightarrow> bool" where
  "nearest_even n d q \<longleftrightarrow>
     2 * \<bar>n - q * d\<bar> \<le> \<bar>d\<bar> \<and> (2 * \<bar>n - q * d\<bar> = \<bar>d\<bar> \<longrightarrow> even q)"

lemma nearest_even_unique:
  assumes d: "d \<noteq> 0" and p: "nearest_even n d p" and q: "nearest_even n d q"
  shows "p = q"
proof (rule ccontr)
  assume ne: "p \<noteq> q"
  have "\<bar>(p - q) * d\<bar> \<le> \<bar>n - p * d\<bar> + \<bar>n - q * d\<bar>" by (simp add: algebra_simps)
  with p q have le: "2 * \<bar>(p - q) * d\<bar> \<le> 2 * \<bar>d\<bar>" by (auto simp: nearest_even_def)
  then have "\<bar>p - q\<bar> * \<bar>d\<bar> \<le> 1 * \<bar>d\<bar>" by (simp add: abs_mult)
  with d have "\<bar>p - q\<bar> \<le> 1" by simp
  with ne have one: "p = q + 1 \<or> q = p + 1" by arith
  then have "\<bar>(p - q) * d\<bar> = \<bar>d\<bar>" by (auto simp: abs_mult)
  with \<open>\<bar>(p - q) * d\<bar> \<le> \<bar>n - p * d\<bar> + \<bar>n - q * d\<bar>\<close> p q
  have "even p" and "even q" by (auto simp: nearest_even_def)
  with one show False by auto
qed

lemma nearest_even_minus: "nearest_even (- n) (- d) q \<longleftrightarrow> nearest_even n d q"
  by (simp add: nearest_even_def abs_minus_commute)

lemma even_smod_two: "(q::int) smod 2 = 0 \<longleftrightarrow> even q"
  by (cases "q < 0") (auto simp: bigint_simps)

lemma nearest_even_choice:
  assumes "\<bar>n - q * d\<bar> = r" "\<bar>n - q' * d\<bar> = d - r" "0 \<le> r" "r < d" "even q \<noteq> even q'"
  shows "nearest_even n d (if 2 * r < d \<or> 2 * r = d \<and> even q then q else q')"
  using assms by (auto simp: nearest_even_def)

lemma nearest_even_pos:
  assumes "0 < d"
  shows "\<exists>q. divideRoundHalfToEven n d = Inr q \<and> nearest_even n d q"
proof (cases "n < 0")
  case True
  define q r where "q = (- n) div d" and "r = (- n) mod d"
  have r: "0 \<le> r" "r < d" using assms by (auto simp: r_def)
  have n: "n = - (q * d) - r" using div_mult_mod_eq [of "- n" d] unfolding q_def r_def by linarith
  have dist: "\<bar>n - (- q) * d\<bar> = r" "\<bar>n - (- q - 1) * d\<bar> = d - r"
    using n r by (auto simp: algebra_simps)
  have eq: "n sdiv d = - q" "n smod d = - r"
    using True assms by (simp_all add: bigint_simps q_def r_def)
  have "divideRoundHalfToEven n d =
      Inr (if 2 * r < d \<or> 2 * r = d \<and> even (- q) then - q else - q - 1)"
    using r True assms by (auto simp: divideRoundHalfToEven_def eq even_smod_two Let_def)
  with nearest_even_choice [OF dist r] show ?thesis by simp
next
  case False
  define q r where "q = n div d" and "r = n mod d"
  have r: "0 \<le> r" "r < d" using assms by (auto simp: r_def)
  have n: "n = q * d + r" using div_mult_mod_eq [of n d] unfolding q_def r_def by linarith
  have dist: "\<bar>n - q * d\<bar> = r" "\<bar>n - (q + 1) * d\<bar> = d - r"
    using n r by (auto simp: algebra_simps)
  have eq: "n sdiv d = q" "n smod d = r"
    using False assms by (simp_all add: bigint_simps q_def r_def)
  have "divideRoundHalfToEven n d = Inr (if 2 * r < d \<or> 2 * r = d \<and> even q then q else q + 1)"
    using r False assms by (auto simp: divideRoundHalfToEven_def eq even_smod_two Let_def)
  with nearest_even_choice [OF dist r] show ?thesis by simp
qed

lemma divideRoundHalfToEven_minus:
  "d < 0 \<Longrightarrow> divideRoundHalfToEven n d = divideRoundHalfToEven (- n) (- d)"
  by (simp add: divideRoundHalfToEven_def)

lemma divideRoundHalfToEven_total:
  assumes "d \<noteq> 0"
  shows "\<exists>q. divideRoundHalfToEven n d = Inr q \<and> nearest_even n d q"
proof (cases "0 < d")
  case True
  then show ?thesis by (rule nearest_even_pos)
next
  case False
  with assms have "d < 0" by simp
  then show ?thesis using nearest_even_pos [of "- d" "- n"]
    unfolding divideRoundHalfToEven_minus [OF \<open>d < 0\<close>] nearest_even_minus by simp
qed

lemma divideRoundHalfToEven_Inr_iff:
  "divideRoundHalfToEven n d = Inr q \<longleftrightarrow> d \<noteq> 0 \<and> nearest_even n d q"
proof (cases "d = 0")
  case True
  then show ?thesis by (simp add: divideRoundHalfToEven_def)
next
  case False
  with divideRoundHalfToEven_total [OF False, of n] nearest_even_unique [OF False] show ?thesis by force
qed

text \<open>
  Banker's rounding: for every numerator and every denominator of either sign the division
  returns exactly one integer, which lies within half a unit of the quotient and is even when the
  quotient is half-way between two integers; no other integer has both properties. A zero
  denominator is the only error.
\<close>

theorem divideRoundHalfToEven_correct:
  "(d = 0 \<longrightarrow> isErr (divideRoundHalfToEven n d)) \<and>
   (d \<noteq> 0 \<longrightarrow> (\<exists>q. divideRoundHalfToEven n d = Inr q \<and>
      2 * \<bar>n - q * d\<bar> \<le> \<bar>d\<bar> \<and> (2 * \<bar>n - q * d\<bar> = \<bar>d\<bar> \<longrightarrow> even q) \<and>
      (\<forall>q'. nearest_even n d q' \<longrightarrow> q' = q)))"
proof (cases "d = 0")
  case True
  then show ?thesis by (simp add: divideRoundHalfToEven_def)
next
  case False
  then obtain q where q: "divideRoundHalfToEven n d = Inr q"
    using divideRoundHalfToEven_total by blast
  then have near: "nearest_even n d q" by (simp add: divideRoundHalfToEven_Inr_iff)
  then have "\<forall>q'. nearest_even n d q' \<longrightarrow> q' = q" using nearest_even_unique [OF False] by blast
  with False q near show ?thesis unfolding nearest_even_def [of n d q] by blast
qed

theorem divideRoundHalfToEven_correct_witness:
  "divideRoundHalfToEven 7 2 = Inr 4 \<and> divideRoundHalfToEven (- 5) 2 = Inr (- 2) \<and>
   nearest_even 7 2 4 \<and> \<not> nearest_even 7 2 3"
proof -
  have "divideRoundHalfToEven 7 2 = Inr 4" "divideRoundHalfToEven (- 5) 2 = Inr (- 2)" by code_simp+
  with divideRoundHalfToEven_correct [of 2 7] show ?thesis by (auto simp: nearest_even_def)
qed

section \<open>Database text round trip\<close>

lemma canonical_nat_digits: "canonical_nat s \<Longrightarrow> c \<in> set s \<Longrightarrow> is_digit c"
  by (auto simp: canonical_nat_def is_digit_def list_all_iff)

lemma canonical_nat_to_text [simp]: "canonical_nat (nat_to_text n)"
proof (cases "n = 0")
  case True
  then show ?thesis
    using digit_char_eq_0 [of 0] by (simp add: canonical_nat_def nat_to_text.simps)
next
  case False
  then show ?thesis
    using hd_nat_to_text [of n] nat_to_text_digits [of _ n]
    by (auto simp: canonical_nat_def list_all_iff)
qed

text \<open>A canonical digit string is the text of the number it denotes.\<close>

lemma digits_to_int_pos:
  assumes "list_all is_digit s" "s \<noteq> []" "hd s \<noteq> CHR ''0''"
  shows "1 \<le> digits_to_int s"
proof -
  obtain c t where s: "s = c # t" using assms by (cases s) auto
  have "digit_value c \<noteq> 0"
    using assms digit_char_value [of c] digit_char_eq_0 [of 0] by (auto simp: s)
  then have "1 \<le> digit_value c" using assms digit_value_bounds [of c] by (auto simp: s)
  moreover have "0 \<le> digits_to_int t"
    using assms digits_to_int_bounds [of t] by (auto simp: s list_all_iff)
  moreover have "digits_to_int s = digit_value c * 10 ^ length t + digits_to_int t"
    using digits_to_int_append [of "[c]" t] by (simp add: s digits_to_int_def)
  moreover have "1 \<le> digit_value c * 10 ^ length t"
    using mult_mono [of 1 "digit_value c" 1 "10 ^ length t"] \<open>1 \<le> digit_value c\<close> by simp
  ultimately show ?thesis by linarith
qed

lemma nat_to_text_digits_to_int:
  "canonical_nat s \<Longrightarrow> nat_to_text (nat (digits_to_int s)) = s"
proof (induction s rule: rev_induct)
  case Nil
  then show ?case by (simp add: canonical_nat_def)
next
  case (snoc c s)
  have c: "is_digit c" using snoc.prems canonical_nat_digits [of "s @ [c]" c] by simp
  then have v: "0 \<le> digit_value c" "digit_value c < 10" using digit_value_bounds by auto
  show ?case
  proof (cases "s = []")
    case True
    have "digits_to_int [c] = digit_value c" by (simp add: digits_to_int_def)
    with True v c show ?thesis
      by (subst nat_to_text.simps) (simp add: digit_char_value nat_less_iff)
  next
    case False
    have can: "canonical_nat s" and ds: "list_all is_digit s" "hd s \<noteq> CHR ''0''"
      using False snoc.prems by (auto simp: canonical_nat_def)
    have "1 \<le> digits_to_int s"
      by (rule digits_to_int_pos [OF ds(1) False ds(2)])
    then have "nat (digits_to_int (s @ [c])) = 10 * nat (digits_to_int s) + nat (digit_value c)"
      using v by (simp add: nat_add_distrib nat_mult_distrib)
    moreover have "nat (digit_value c) < 10" using v by simp
    moreover have "\<not> 10 * nat (digits_to_int s) + nat (digit_value c) < 10"
      using \<open>1 \<le> digits_to_int s\<close> by simp
    ultimately show ?thesis
      using snoc.IH [OF can] c by (subst nat_to_text.simps) (simp add: digit_char_value)
  qed
qed

lemma hd_digit_not_minus: "is_digit c \<Longrightarrow> c \<noteq> CHR ''-''"
  by (auto simp: is_digit_def)

lemma hd_canonical_not_minus: "canonical_nat s \<Longrightarrow> hd s \<noteq> CHR ''-''"
  by (metis canonical_nat_def canonical_nat_digits hd_digit_not_minus hd_in_set list.distinct(1))

text \<open>
  The database text of an amount round-trips: every BigInt is read back as itself, and every
  text that is accepted is the text its value is written as (so \<open>-0\<close>, leading zeros, signs and
  blanks are all refused).
\<close>

theorem minorUnits_roundtrip:
  "minorUnitsFromDb (minorUnitsToDb n) = Inr n \<and>
   (minorUnitsFromDb s = Inr m \<longrightarrow> minorUnitsToDb m = s)"
proof
  have "int_to_text n \<noteq> ''-0''"
    using hd_nat_to_text [of "nat (- n)"] hd_canonical_not_minus [of "nat_to_text (nat n)"]
    by (auto simp: int_to_text_def)
  moreover have "canonical_int (int_to_text n)" "bigint_of_text (int_to_text n) = n"
    using hd_canonical_not_minus [of "nat_to_text (nat n)"]
    by (auto simp: int_to_text_def canonical_int_def bigint_of_text_def)
  ultimately show "minorUnitsFromDb (minorUnitsToDb n) = Inr n"
    by (simp add: minorUnitsFromDb_def minorUnitsToDb_def)
  show "minorUnitsFromDb s = Inr m \<longrightarrow> minorUnitsToDb m = s"
  proof
    assume "minorUnitsFromDb s = Inr m"
    then have s: "s \<noteq> ''-0''" "canonical_int s" "m = bigint_of_text s"
      by (auto simp: minorUnitsFromDb_def split: if_splits)
    show "minorUnitsToDb m = s"
    proof (cases "s \<noteq> [] \<and> hd s = CHR ''-''")
      case True
      then obtain t where t: "s = CHR ''-'' # t" by (cases s) auto
      with s have can: "canonical_nat t" "t \<noteq> ''0''" by (auto simp: canonical_int_def)
      then have "1 \<le> digits_to_int t"
        using digits_to_int_pos [of t] by (auto simp: canonical_nat_def)
      with s t can show ?thesis
        by (simp add: minorUnitsToDb_def int_to_text_def bigint_of_text_def nat_to_text_digits_to_int)
    next
      case False
      with s have can: "canonical_nat s" by (auto simp: canonical_int_def)
      then have "0 \<le> digits_to_int s"
        using digits_to_int_bounds [of s] canonical_nat_digits [OF can] by auto
      with s can False show ?thesis
        by (auto simp: minorUnitsToDb_def int_to_text_def bigint_of_text_def nat_to_text_digits_to_int)
    qed
  qed
qed

theorem minorUnits_roundtrip_witness:
  "minorUnitsFromDb ''-120'' = Inr (- 120) \<and> minorUnitsToDb (- 120) = ''-120''"
proof -
  have "minorUnitsFromDb ''-120'' = Inr (- 120)"
    by (simp add: minorUnitsFromDb_def canonical_int_def canonical_nat_def is_digit_def
        bigint_of_text_def digits_to_int_def digit_value_def)
  then show ?thesis using minorUnits_roundtrip [of 0 "''-120''" "- 120"] by simp
qed

lemma money_Inr_iff [result_simps]:
  "money_bounded a c b = Inr m \<longleftrightarrow> \<bar>a\<bar> \<le> b \<and> m = \<lparr>amountMinor = a, currency = c\<rparr>"
  by (auto simp: money_bounded_def)

lemma add_money_Inr_iff [result_simps]:
  "add_money l r = Inr m \<longleftrightarrow>
     currency l = currency r \<and> \<bar>amountMinor l + amountMinor r\<bar> \<le> DEFAULT_MAX_MINOR_UNITS \<and>
     m = \<lparr>amountMinor = amountMinor l + amountMinor r, currency = currency l\<rparr>"
  by (auto simp: add_money_def assertSameCurrency_def result_simps)

lemma foldR_add_money:
  "foldR add_money z vs = Inr m \<Longrightarrow>
     currency ` set vs \<subseteq> {currency z} \<and> currency m = currency z \<and>
     amountMinor m = amountMinor z + sum_list (map amountMinor vs)"
proof (induction vs arbitrary: z)
  case (Cons v vs)
  then obtain w where w: "add_money z v = Inr w" and rest: "foldR add_money w vs = Inr m"
    by (auto simp: andThen_Inr_iff)
  from w have "currency v = currency z" "currency w = currency z"
    "amountMinor w = amountMinor z + amountMinor v" by (simp_all add: add_money_Inr_iff)
  with Cons.IH [OF rest] show ?case by simp
qed simp

lemma foldR_add_money_mismatch:
  assumes "v \<in> set vs" and "currency v \<noteq> currency z"
  shows "isErr (foldR add_money z vs)"
proof (cases "foldR add_money z vs")
  case (Inr m)
  from foldR_add_money [OF this] assms show ?thesis by blast
qed simp

lemma zero_money_eq: "zero_money cur = Inr \<lparr>amountMinor = 0, currency = cur\<rparr>"
  by (simp add: zero_money_def money_bounded_def DEFAULT_MAX_MINOR_UNITS_def)

text \<open>
  \<open>sum\<close> adds amounts of the requested currency only: a result is the exact sum in that
  currency and every summand had it; one foreign summand makes it throw; the empty sum is zero.
\<close>

theorem sum_money_correct:
  "(sum_money cur vs = Inr m \<longrightarrow>
      (\<forall>v\<in>set vs. currency v = cur) \<and> currency m = cur \<and>
      amountMinor m = (\<Sum>v\<leftarrow>vs. amountMinor v)) \<and>
   ((\<exists>v\<in>set vs. currency v \<noteq> cur) \<longrightarrow> isErr (sum_money cur vs)) \<and>
   sum_money cur [] = Inr \<lparr>amountMinor = 0, currency = cur\<rparr>"
proof -
  let ?z = "\<lparr>amountMinor = 0, currency = cur\<rparr>"
  have eq: "sum_money cur ws = foldR add_money ?z ws" for ws
    by (simp add: sum_money_def zero_money_eq)
  have "isErr (sum_money cur vs)" if "v \<in> set vs" "currency v \<noteq> cur" for v
    using foldR_add_money_mismatch [OF that(1), of ?z] that(2) by (auto simp: eq)
  with foldR_add_money [of ?z vs m] show ?thesis by (auto simp: eq)
qed


theorem sum_money_correct_witness:
  "sum_money ''SAR'' [\<lparr>amountMinor = 5, currency = ''SAR''\<rparr>, \<lparr>amountMinor = 7, currency = ''SAR''\<rparr>]
     = Inr \<lparr>amountMinor = 12, currency = ''SAR''\<rparr> \<and>
   isErr (sum_money ''SAR'' [\<lparr>amountMinor = 5, currency = ''KWD''\<rparr>])"
proof -
  have "sum_money ''SAR'' [\<lparr>amountMinor = 5, currency = ''SAR''\<rparr>,
      \<lparr>amountMinor = 7, currency = ''SAR''\<rparr>] = Inr \<lparr>amountMinor = 12, currency = ''SAR''\<rparr>"
    by (simp add: sum_money_def zero_money_eq add_money_def assertSameCurrency_def
        money_bounded_def DEFAULT_MAX_MINOR_UNITS_def)
  moreover have "isErr (sum_money ''SAR'' [\<lparr>amountMinor = 5, currency = ''KWD''\<rparr>])"
    using sum_money_correct [of "''SAR''" "[\<lparr>amountMinor = 5, currency = ''KWD''\<rparr>]"] by simp
  ultimately show ?thesis by simp
qed

section \<open>Allocation\<close>

lemma sdiv_bounds:
  assumes "0 < (n::int)"
  shows "\<bar>t - t sdiv n * n\<bar> < n" and "0 \<le> t \<Longrightarrow> 0 \<le> t - t sdiv n * n"
    and "t < 0 \<Longrightarrow> t - t sdiv n * n \<le> 0"
proof -
  have nonneg: "t - t sdiv n * n = t mod n" if "0 \<le> t"
    using that assms by (simp add: bigint_simps minus_div_mult_eq_mod)
  have neg: "t - t sdiv n * n = - ((- t) mod n)" if "t < 0"
    using that assms minus_div_mult_eq_mod [of "- t" n] by (simp add: bigint_simps)
  show "\<bar>t - t sdiv n * n\<bar> < n" using nonneg neg assms by (cases "0 \<le> t") auto
  show "0 \<le> t \<Longrightarrow> 0 \<le> t - t sdiv n * n" using nonneg assms by simp
  show "t < 0 \<Longrightarrow> t - t sdiv n * n \<le> 0" using neg assms by simp
qed

lemma sdiv_abs_le: "0 < (n::int) \<Longrightarrow> \<bar>t sdiv n\<bar> \<le> \<bar>t\<bar>"
  using zdiv_mono2 [of t 1 n] zdiv_mono2 [of "- t" 1 n]
  by (cases "0 \<le> t") (auto simp: bigint_simps pos_imp_zdiv_nonneg_iff)

lemma sum_list_indicator:
  "(\<Sum>i\<leftarrow>[0..<n]. (if int i < s then c else 0)) = c * min (int n) (max 0 s)" for c :: int
  by (induction n) (auto simp: algebra_simps min_def max_def)

lemma mapR_Inr: "(\<And>x. x \<in> set xs \<Longrightarrow> f x = Inr (g x)) \<Longrightarrow> mapR f xs = Inr (map g xs)"
  by (induction xs) auto

lemma sum_list_const_add:
  "(\<Sum>i\<leftarrow>xs. b + f i) = int (length xs) * b + (\<Sum>i\<leftarrow>xs. f i)" for b :: int
  by (induction xs) (auto simp: algebra_simps)

lemma allocate_amounts:
  assumes n: "0 < n" and range: "\<bar>amountMinor v\<bar> \<le> DEFAULT_MAX_MINOR_UNITS"
  defines "base \<equiv> amountMinor v sdiv n"
  defines "rem \<equiv> amountMinor v - base * n"
  shows "allocate v (JInt n) =
    Inr (map (\<lambda>i. \<lparr>amountMinor = base + (if int i < \<bar>rem\<bar> then sgn rem else 0),
                    currency = currency v\<rparr>) [0..<nat n])"
proof -
  let ?sign = "if rem < 0 then - 1 else 1 :: int"
  let ?spread = "if rem < 0 then - rem else rem"
  have part: "base + (if int i < ?spread then ?sign else 0) =
      base + (if int i < \<bar>rem\<bar> then sgn rem else 0)" for i
    by (auto simp: sgn_if)
  have bounded: "\<bar>base + (if int i < \<bar>rem\<bar> then sgn rem else 0)\<bar> \<le> DEFAULT_MAX_MINOR_UNITS" for i
  proof (cases "rem = 0")
    case True
    then show ?thesis using sdiv_abs_le [OF n, of "amountMinor v"] range by (simp add: base_def)
  next
    case False
    have "n * \<bar>base\<bar> \<ge> \<bar>base\<bar>" using n mult_right_mono [of 1 n "\<bar>base\<bar>"] by simp
    moreover have "\<bar>amountMinor v\<bar> = \<bar>base\<bar> * n + \<bar>rem\<bar>"
      using sdiv_bounds [OF n, of "amountMinor v"] n
      by (cases "0 \<le> amountMinor v")
         (auto simp: rem_def base_def bigint_simps pos_imp_zdiv_nonneg_iff)
    ultimately have "\<bar>base\<bar> + 1 \<le> \<bar>amountMinor v\<bar>" using False by (simp add: mult.commute)
    moreover have "\<bar>base + (if int i < \<bar>rem\<bar> then sgn rem else 0)\<bar> \<le> \<bar>base\<bar> + 1"
      by (auto simp: sgn_if)
    ultimately show ?thesis using range by linarith
  qed
  have "mapR (\<lambda>i. money (base + (if int i < ?spread then ?sign else 0)) (currency v)) [0..<nat n] =
      Inr (map (\<lambda>i. \<lparr>amountMinor = base + (if int i < \<bar>rem\<bar> then sgn rem else 0),
                    currency = currency v\<rparr>) [0..<nat n])"
    by (rule mapR_Inr) (use bounded in \<open>simp only: part money_Inr_iff simp_thms\<close>)
  with n show ?thesis
    unfolding allocate_def Let_def js_number.case base_def [symmetric] rem_def [symmetric] by simp
qed

text \<open>
  \<open>allocate\<close> never fails on an in-range amount and a positive part count: it returns that many
  parts, all in the currency of the amount, which add up to it exactly, differ pairwise by at
  most one minor unit, and have the larger shares first.
\<close>

theorem allocate_exact_and_fair:
  assumes n: "0 < n" and range: "\<bar>amountMinor v\<bar> \<le> DEFAULT_MAX_MINOR_UNITS"
  shows "\<exists>ms. allocate v (JInt n) = Inr ms \<and> int (length ms) = n \<and>
           (\<Sum>m\<leftarrow>ms. amountMinor m) = amountMinor v \<and>
           (\<forall>m\<in>set ms. currency m = currency v) \<and>
           (\<forall>m\<in>set ms. \<forall>m'\<in>set ms. \<bar>amountMinor m - amountMinor m'\<bar> \<le> 1) \<and>
           sorted_wrt (\<lambda>m m'. \<bar>amountMinor m\<bar> \<ge> \<bar>amountMinor m'\<bar>) ms"
proof -
  define base where "base = amountMinor v sdiv n"
  define rem where "rem = amountMinor v - base * n"
  have rem: "\<bar>rem\<bar> < n" "0 \<le> amountMinor v \<Longrightarrow> 0 \<le> rem" "amountMinor v < 0 \<Longrightarrow> rem \<le> 0"
    using sdiv_bounds [OF n, of "amountMinor v"] by (auto simp: rem_def base_def)
  have base: "0 \<le> amountMinor v \<Longrightarrow> 0 \<le> base" "amountMinor v < 0 \<Longrightarrow> base \<le> 0"
    using n by (auto simp: base_def bigint_simps pos_imp_zdiv_nonneg_iff)
  define f where "f i = base + (if int i < \<bar>rem\<bar> then sgn rem else 0)" for i
  let ?ms = "map (\<lambda>i. \<lparr>amountMinor = f i, currency = currency v\<rparr>) [0..<nat n]"
  have alloc: "allocate v (JInt n) = Inr ?ms"
    using allocate_amounts [OF assms] by (simp add: f_def base_def rem_def)
  have "(\<Sum>m\<leftarrow>?ms. amountMinor m) = (\<Sum>i\<leftarrow>[0..<nat n]. f i)" by (simp add: comp_def)
  also have "\<dots> = int (nat n) * base + sgn rem * min (int (nat n)) (max 0 \<bar>rem\<bar>)"
    unfolding f_def sum_list_const_add sum_list_indicator by simp
  also have "\<dots> = amountMinor v" using n rem(1) by (simp add: rem_def mult_sgn_abs)
  finally have sum: "(\<Sum>m\<leftarrow>?ms. amountMinor m) = amountMinor v" .
  have near: "\<bar>f i - f j\<bar> \<le> 1" for i j by (auto simp: f_def sgn_if)
  have "\<bar>f i\<bar> \<ge> \<bar>f j\<bar>" if "i < j" for i j
    using that rem base by (cases "0 \<le> amountMinor v") (auto simp: f_def sgn_if)
  then have "sorted_wrt (\<lambda>m m'. \<bar>amountMinor m\<bar> \<ge> \<bar>amountMinor m'\<bar>) ?ms"
    by (auto simp: sorted_wrt_iff_nth_less)
  with alloc sum near n show ?thesis by (intro exI [of _ ?ms]) auto
qed

theorem allocate_exact_and_fair_witness:
  "allocate \<lparr>amountMinor = - 10, currency = ''SAR''\<rparr> (JInt 3) =
     Inr (map (\<lambda>a. \<lparr>amountMinor = a, currency = ''SAR''\<rparr>) [- 4, - 3, - 3]) \<and>
   (\<exists>ms. allocate \<lparr>amountMinor = - 10, currency = ''SAR''\<rparr> (JInt 3) = Inr ms \<and>
         (\<Sum>m\<leftarrow>ms. amountMinor m) = - 10)"
  using allocate_exact_and_fair [of 3 "\<lparr>amountMinor = - 10, currency = ''SAR''\<rparr>"]
  by (auto simp: allocate_def DEFAULT_MAX_MINOR_UNITS_def money_bounded_def upt_rec
      signed_divide_int_def)

section \<open>The exchange conversion\<close>

lemma parseRateNumeric_bounds:
  assumes "parseRateNumeric r = Inr p"
  shows "0 < coefficient p" and "rate_scale p \<le> MAX_RATE_SCALE"
  using assms by (auto simp: parseRateNumeric_def Let_def split: if_splits option.splits)

lemma tenTo_Inr_iff [result_simps]:
  "tenTo d f m = Inr t \<longleftrightarrow> 0 \<le> d \<and> d \<le> m \<and> t = 10 ^ nat d"
  by (auto simp: tenTo_def)

lemma assertMinorUnitDigits_Inr_iff [result_simps]:
  "assertMinorUnitDigits d f = Inr u \<longleftrightarrow> 0 \<le> d \<and> d \<le> 4"
  by (auto simp: assertMinorUnitDigits_def)

text \<open>
  The exchange conversion rounds exactly once: it returns an amount exactly when both scales
  are within 0 to 4, the rate is a canonical positive decimal of at most eight places, and the
  amount is the nearest-even integer to amount times rate at the target scale, within the range
  of a money value and in the target currency.
\<close>

theorem convertMoneyAtRate_correct:
  "convertMoneyAtRate v rate cur td sd = Inr m \<longleftrightarrow>
     0 \<le> sd \<and> sd \<le> 4 \<and> 0 \<le> td \<and> td \<le> 4 \<and>
     (\<exists>p. parseRateNumeric rate = Inr p \<and>
          nearest_even (amountMinor v * coefficient p * 10 ^ nat td)
            (10 ^ nat sd * 10 ^ rate_scale p) (amountMinor m)) \<and>
     \<bar>amountMinor m\<bar> \<le> DEFAULT_MAX_MINOR_UNITS \<and> currency m = cur"
proof -
  have "\<And>p. parseRateNumeric rate = Inr p \<Longrightarrow> int (rate_scale p) \<le> int MAX_RATE_SCALE"
    using parseRateNumeric_bounds by simp
  then show ?thesis
    by (cases m) (auto simp: convertMoneyAtRate_def result_simps divideRoundHalfToEven_Inr_iff)
qed

theorem convertMoneyAtRate_correct_witness:
  "convertMoneyAtRate \<lparr>amountMinor = 1250, currency = ''USD''\<rparr> ''3.75'' ''SAR'' 2 2 =
     Inr \<lparr>amountMinor = 4688, currency = ''SAR''\<rparr> \<and>
   nearest_even (1250 * 375 * 10 ^ nat 2) (10 ^ nat 2 * 10 ^ 2) 4688"
proof -
  have p: "parseRateNumeric ''3.75'' = Inr \<lparr>coefficient = 375, rate_scale = 2\<rparr>"
    by (simp add: parseRateNumeric_def match_decimal_def canonical_nat_def is_digit_def
        MAX_RATE_SCALE_def digits_to_int_def digit_value_def)
  have ne: "nearest_even (1250 * 375 * 10 ^ nat 2) (10 ^ nat 2 * 10 ^ 2) 4688"
    by (simp add: nearest_even_def)
  then have "convertMoneyAtRate \<lparr>amountMinor = 1250, currency = ''USD''\<rparr> ''3.75'' ''SAR'' 2 2 =
     Inr \<lparr>amountMinor = 4688, currency = ''SAR''\<rparr>"
    using convertMoneyAtRate_correct [of "\<lparr>amountMinor = 1250, currency = ''USD''\<rparr>" "''3.75''"
        "''SAR''" 2 2 "\<lparr>amountMinor = 4688, currency = ''SAR''\<rparr>"] p
    by (simp add: DEFAULT_MAX_MINOR_UNITS_def)
  with ne show ?thesis by blast
qed

section \<open>The currency table\<close>

lemma iso_table_wellformed:
  "list_all (\<lambda>(c, s). CURRENCY_CODE_PATTERN c \<and> 0 \<le> s \<and> s \<le> 4) ISO_4217_MINOR_UNITS"
  by code_simp

lemma minorUnitScale_bounds: "minorUnitScale c = Inr s \<Longrightarrow> 0 \<le> s \<and> s \<le> 4"
  using iso_table_wellformed
  by (auto simp: minorUnitScale_def list_all_iff dest!: map_of_SomeD split: option.splits)

lemma isCurrencyCode_iff: "isCurrencyCode c \<longleftrightarrow> map_of ISO_4217_MINOR_UNITS c \<noteq> None"
  using iso_table_wellformed
  by (auto simp: isCurrencyCode_def list_all_iff dest: map_of_SomeD)

lemma currencyCode_scale: "currencyCode c = Inr d \<Longrightarrow> d = c \<and> (\<exists>s. minorUnitScale c = Inr s)"
  by (auto simp: currencyCode_def isCurrencyCode_iff minorUnitScale_def split: if_splits)

end
