(* ===== verification/Tax_Math.thy ===== *)
theory Tax_Math
  imports Money
begin

text \<open>
  Model of \<^verbatim>\<open>src/shared/tax-math.ts\<close>: statutory half-up rounding of tax on non-negative BigInt minor
  units, and the invoice-total allocation, which rounds the exact sum of a group once and hands
  the units that the floors leave over to the lines with the largest remainders.

  \<open>js_number\<close> inputs: a rate that is not an integer is refused by \<open>assertTaxRateBps\<close>; the rates
  of the model are integers (the type of the database column), so that branch does not occur.
\<close>

section \<open>Definitions\<close>

definition MAX_TAX_MINOR_UNITS :: int where
  "MAX_TAX_MINOR_UNITS = 9223372036854775807"

definition BASIS_POINT_DENOMINATOR :: int where
  "BASIS_POINT_DENOMINATOR = 10000"

definition assertTaxAmount :: "int \<Rightarrow> unit result" where
  "assertTaxAmount amount =
     (if amount < 0 \<or> amount > MAX_TAX_MINOR_UNITS
      then Inl (ValidationError (Some ''amountMinor'')) else Inr ())"

definition assertTaxRateBps :: "int \<Rightarrow> unit result" where
  "assertTaxRateBps rateBps =
     (if rateBps < 0 \<or> rateBps > 10000 then Inl (ValidationError (Some ''rateBps'')) else Inr ())"

definition roundTaxHalfUp :: "int \<Rightarrow> int \<Rightarrow> int result" where
  "roundTaxHalfUp numerator denominator =
     (if numerator < 0 \<or> denominator \<le> 0 then Inl (ValidationError None)
      else Inr (numerator sdiv denominator +
                (if (numerator smod denominator) * 2 \<ge> denominator then 1 else 0)))"

record computed_tax_amount =
  taxableAmountMinor :: int
  taxAmountMinor :: int

definition tax_denominator :: "int \<Rightarrow> bool \<Rightarrow> int" where
  "tax_denominator bps inclusive = BASIS_POINT_DENOMINATOR + (if inclusive then bps else 0)"

definition calculateTaxAmount :: "int \<Rightarrow> int \<Rightarrow> bool \<Rightarrow> computed_tax_amount result" where
  "calculateTaxAmount amount rateBps inclusive =
     andThen (assertTaxAmount amount) (\<lambda>_.
     andThen (assertTaxRateBps rateBps) (\<lambda>_.
     andThen (roundTaxHalfUp (amount * rateBps) (tax_denominator rateBps inclusive)) (\<lambda>tax.
       Inr \<lparr>taxableAmountMinor = (if inclusive then amount - tax else amount),
            taxAmountMinor = tax\<rparr>)))"

record invoice_tax_share =
  share_id :: string
  share_amount :: int

text \<open>
  The loop that both allocations of the code end with: walk the ranked keys and add one unit to
  each until nothing remains.
\<close>

fun distributeUnits :: "(string \<times> int) list \<Rightarrow> string list \<Rightarrow> int \<Rightarrow> (string \<times> int) list" where
  "distributeUnits amounts [] remaining = amounts"
| "distributeUnits amounts (k # ks) remaining =
     (if remaining = 0 then amounts
      else distributeUnits
             (AList.update k ((case map_of amounts k of None \<Rightarrow> 0 | Some v \<Rightarrow> v) + 1) amounts)
             ks (remaining - 1))"

text \<open>The ranking comparator: remainder descending, then key ascending.\<close>

definition compareRemainders :: "string \<times> int \<Rightarrow> string \<times> int \<Rightarrow> int" where
  "compareRemainders a b =
     (if snd a = snd b then (if fst a < fst b then -1 else if fst a > fst b then 1 else 0)
      else (if snd a > snd b then -1 else 1))"

record allocation_state =
  st_amounts :: "(string \<times> int) list"
  st_floors :: int
  st_total :: int
  st_ranked :: "(string \<times> int) list"

definition allocateShare :: "int \<Rightarrow> int \<Rightarrow> allocation_state \<Rightarrow> invoice_tax_share \<Rightarrow> allocation_state result" where
  "allocateShare bps denominator st share =
     andThen (assertTaxAmount (share_amount share)) (\<lambda>_.
     if map_of (st_amounts st) (share_id share) \<noteq> None then Inl (ValidationError None)
     else
       let numerator = share_amount share * bps;
           floor = numerator sdiv denominator
       in Inr \<lparr>st_amounts = AList.update (share_id share) floor (st_amounts st),
               st_floors = st_floors st + floor,
               st_total = st_total st + numerator,
               st_ranked = st_ranked st @ [(share_id share, numerator smod denominator)]\<rparr>)"

definition allocateInvoiceTax ::
  "invoice_tax_share list \<Rightarrow> int \<Rightarrow> bool \<Rightarrow> (string \<times> int) list result" where
  "allocateInvoiceTax shares rateBps inclusive =
     andThen (assertTaxRateBps rateBps) (\<lambda>_.
     let denominator = tax_denominator rateBps inclusive in
     andThen (foldR (allocateShare rateBps denominator)
       \<lparr>st_amounts = [], st_floors = 0, st_total = 0, st_ranked = []\<rparr> shares) (\<lambda>st.
     andThen (roundTaxHalfUp (st_total st) denominator) (\<lambda>rounded.
       Inr (distributeUnits (st_amounts st)
              (map fst (js_sort compareRemainders (st_ranked st)))
              (rounded - st_floors st)))))"

section \<open>Half-up rounding\<close>

lemma assertTaxAmount_Inr_iff [result_simps]:
  "assertTaxAmount a = Inr u \<longleftrightarrow> 0 \<le> a \<and> a \<le> MAX_TAX_MINOR_UNITS"
  by (auto simp: assertTaxAmount_def)

lemma assertTaxRateBps_Inr_iff [result_simps]:
  "assertTaxRateBps a = Inr u \<longleftrightarrow> 0 \<le> a \<and> a \<le> 10000"
  by (auto simp: assertTaxRateBps_def)

lemma tax_denominator_pos: "0 \<le> bps \<Longrightarrow> 0 < tax_denominator bps incl"
  by (auto simp: tax_denominator_def BASIS_POINT_DENOMINATOR_def)

text \<open>Half-up rounding of a non-negative quotient: the floor of the quotient plus one half.\<close>

definition half_up :: "int \<Rightarrow> int \<Rightarrow> int \<Rightarrow> bool" where
  "half_up n d q \<longleftrightarrow> 2 * d * q \<le> 2 * n + d \<and> 2 * n + d < 2 * d * (q + 1)"

lemma half_up_unique: "0 < d \<Longrightarrow> half_up n d p \<Longrightarrow> half_up n d q \<Longrightarrow> p = q"
proof (rule ccontr)
  assume d: "0 < d" and p: "half_up n d p" and q: "half_up n d q" and "p \<noteq> q"
  then consider "p + 1 \<le> q" | "q + 1 \<le> p" by linarith
  then show False
  proof cases
    case 1
    with d have "2 * d * (p + 1) \<le> 2 * d * q" by simp
    with p q show False by (simp add: half_up_def)
  next
    case 2
    with d have "2 * d * (q + 1) \<le> 2 * d * p" by simp
    with p q show False by (simp add: half_up_def)
  qed
qed

lemma roundTaxHalfUp_half_up:
  assumes "0 \<le> n" "0 < d"
  shows "\<exists>q. roundTaxHalfUp n d = Inr q \<and> half_up n d q"
proof -
  define q r where "q = n div d" and "r = n mod d"
  have n: "n = d * q + r" and r: "0 \<le> r" "r < d" using assms by (auto simp: q_def r_def)
  have "roundTaxHalfUp n d = Inr (q + (if r * 2 \<ge> d then 1 else 0))"
    using assms by (simp add: roundTaxHalfUp_def bigint_simps q_def r_def)
  moreover have "half_up n d (q + (if r * 2 \<ge> d then 1 else 0))"
    using n r by (auto simp: half_up_def algebra_simps)
  ultimately show ?thesis by blast
qed

lemma roundTaxHalfUp_Inr_iff:
  "roundTaxHalfUp n d = Inr q \<longleftrightarrow> 0 \<le> n \<and> 0 < d \<and> half_up n d q"
proof (cases "0 \<le> n \<and> 0 < d")
  case True
  then obtain p where "roundTaxHalfUp n d = Inr p" "half_up n d p"
    using roundTaxHalfUp_half_up [of n d] by auto
  with True show ?thesis by (auto dest: half_up_unique)
next
  case False
  then show ?thesis by (auto simp: roundTaxHalfUp_def)
qed

lemma half_up_nonneg: "0 < d \<Longrightarrow> 0 \<le> n \<Longrightarrow> half_up n d q \<Longrightarrow> 0 \<le> q"
proof (rule ccontr)
  assume "0 < d" "0 \<le> n" "half_up n d q" "\<not> 0 \<le> q"
  then have "2 * d * (q + 1) \<le> 0" by (simp add: mult_nonneg_nonpos)
  with \<open>0 < d\<close> \<open>0 \<le> n\<close> \<open>half_up n d q\<close> show False by (simp add: half_up_def)
qed

lemma half_up_le: "0 < d \<Longrightarrow> n \<le> d * k \<Longrightarrow> half_up n d q \<Longrightarrow> q \<le> k"
proof (rule ccontr)
  assume d: "0 < d" and n: "n \<le> d * k" and q: "half_up n d q" and "\<not> q \<le> k"
  then have "2 * d * (k + 1) \<le> 2 * d * q" by simp
  with n q d show False by (simp add: half_up_def algebra_simps)
qed

text \<open>
  One tax amount: for an amount within the PostgreSQL int8 range and a rate of 0 to 10000
  basis points the computation succeeds, the tax is the half-up rounding of the exact share
  (of the price plus tax when the price includes it), it lies between zero and the amount, and
  an inclusive price is split without loss into taxable part and tax. Any other input throws.
\<close>

theorem calculateTaxAmount_correct:
  "calculateTaxAmount amount bps incl = Inr c \<longleftrightarrow>
     0 \<le> amount \<and> amount \<le> MAX_TAX_MINOR_UNITS \<and> 0 \<le> bps \<and> bps \<le> 10000 \<and>
     half_up (amount * bps) (10000 + (if incl then bps else 0)) (taxAmountMinor c) \<and>
     0 \<le> taxAmountMinor c \<and> taxAmountMinor c \<le> amount \<and>
     taxableAmountMinor c + (if incl then taxAmountMinor c else 0) = amount"
proof -
  let ?d = "tax_denominator bps incl"
  have bounds: "0 \<le> t \<and> t \<le> amount"
    if "0 \<le> amount" "0 \<le> bps" "bps \<le> 10000" "half_up (amount * bps) ?d t" for t
  proof -
    have d: "0 < ?d" "bps \<le> ?d" using that
      by (auto simp: tax_denominator_pos tax_denominator_def BASIS_POINT_DENOMINATOR_def)
    have "amount * bps \<le> ?d * amount"
      using mult_left_mono [OF d(2) that(1)] by (simp add: mult.commute)
    with d that show ?thesis 
      using half_up_nonneg [of ?d "amount * bps" t] half_up_le [of ?d "amount * bps" amount t] by simp
  qed
  have den: "?d = 10000 + (if incl then bps else 0)"
    by (simp add: tax_denominator_def BASIS_POINT_DENOMINATOR_def)
  have "calculateTaxAmount amount bps incl = Inr c \<longleftrightarrow>
     0 \<le> amount \<and> amount \<le> MAX_TAX_MINOR_UNITS \<and> 0 \<le> bps \<and> bps \<le> 10000 \<and>
     half_up (amount * bps) ?d (taxAmountMinor c) \<and>
     taxableAmountMinor c + (if incl then taxAmountMinor c else 0) = amount"
    by (cases c) (auto simp: calculateTaxAmount_def result_simps roundTaxHalfUp_Inr_iff
        tax_denominator_pos)
  then show ?thesis using bounds unfolding den by blast
qed

theorem calculateTaxAmount_correct_witness:
  "calculateTaxAmount 115 1500 True = Inr \<lparr>taxableAmountMinor = 100, taxAmountMinor = 15\<rparr> \<and>
   calculateTaxAmount 1000 1500 False = Inr \<lparr>taxableAmountMinor = 1000, taxAmountMinor = 150\<rparr>"
  using calculateTaxAmount_correct [of 115 1500 True "\<lparr>taxableAmountMinor = 100, taxAmountMinor = 15\<rparr>"]
    calculateTaxAmount_correct [of 1000 1500 False "\<lparr>taxableAmountMinor = 1000, taxAmountMinor = 150\<rparr>"]
  by (simp add: half_up_def MAX_TAX_MINOR_UNITS_def)

section \<open>Largest-remainder distribution\<close>

lemma distributeUnits_keys:
  "set ks \<subseteq> fst ` set am \<Longrightarrow> map fst (distributeUnits am ks r) = map fst am"
  by (induction am ks r rule: distributeUnits.induct) (auto simp: map_fst_update dom_update)

lemma distributeUnits_map_of:
  assumes "distinct ks" "set ks \<subseteq> fst ` set am" "0 \<le> r"
  shows "map_of (distributeUnits am ks r) k =
    map_option (\<lambda>v. v + (if k \<in> set (take (nat r) ks) then 1 else 0)) (map_of am k)"
  using assms
proof (induction am ks r rule: distributeUnits.induct)
  case (1 am r)
  then show ?case by (cases "map_of am k") auto
next
  case (2 am j ks r)
  show ?case
  proof (cases "r = 0")
    case True
    then show ?thesis by (cases "map_of am k") auto
  next
    case False
    with 2(4) have r: "nat r = Suc (nat (r - 1))" by simp
    obtain v where v: "map_of am j = Some v"
      using 2(3) by (metis insert_subset list.simps(15) map_of_eq_None_iff not_None_eq)
    let ?am = "AList.update j (v + 1) am"
    have "set ks \<subseteq> fst ` set ?am" using 2(3) by (auto simp: dom_update)
    then have "map_of (distributeUnits ?am ks (r - 1)) k =
        map_option (\<lambda>v. v + (if k \<in> set (take (nat (r - 1)) ks) then 1 else 0)) (map_of ?am k)"
      using 2(1) [OF False] 2(2,4) False by (simp add: v)
    moreover have "j \<notin> set (take (nat (r - 1)) ks)" using 2(2) by (auto dest: in_set_takeD)
    ultimately show ?thesis using False v by (auto simp: r update_conv')
  qed
qed

lemma distributeUnits_sum:
  assumes "distinct (map fst am)" "distinct ks" "set ks \<subseteq> fst ` set am"
    and "0 \<le> r" "r \<le> int (length ks)"
  shows "sum_list (map snd (distributeUnits am ks r)) = sum_list (map snd am) + r"
  using assms
proof (induction am ks r rule: distributeUnits.induct)
  case (1 am r)
  then show ?case by simp
next
  case (2 am j ks r)
  show ?case
  proof (cases "r = 0")
    case False
    obtain v where v: "map_of am j = Some v"
      using 2(4) by (metis insert_subset list.simps(15) map_of_eq_None_iff not_None_eq)
    let ?am = "AList.update j (v + 1) am"
    have "distinct (map fst ?am)" using 2(2) by (simp add: distinct_update)
    moreover have "set ks \<subseteq> fst ` set ?am" using 2(4) by (auto simp: dom_update)
    ultimately have "sum_list (map snd (distributeUnits ?am ks (r - 1))) =
        sum_list (map snd ?am) + (r - 1)"
      using 2(1) [OF False] 2(3,5,6) False by (simp add: v)
    then show ?thesis using False v sum_list_update_known [OF 2(2) v, of "v + 1"] by simp
  qed simp
qed

lemma compareRemainders_le_iff:
  "compareRemainders a b \<le> 0 \<longleftrightarrow> snd a > snd b \<or> snd a = snd b \<and> fst a \<le> fst b"
  by (auto simp: compareRemainders_def)

lemma ranked_sorted:
  "sorted_wrt (\<lambda>a b. snd a > snd b \<or> snd a = snd b \<and> fst a \<le> fst b) (js_sort compareRemainders xs)"
  using js_sort_sorted [of compareRemainders xs] unfolding compareRemainders_le_iff by force

text \<open>The units go to the largest remainders, ties to the smallest keys.\<close>

lemma ranked_prefix:
  assumes "distinct (map fst xs)" and "(k, rk) \<in> set xs" "(j, rj) \<in> set xs"
    and "k \<in> set (take n (map fst (js_sort compareRemainders xs)))"
    and "j \<notin> set (take n (map fst (js_sort compareRemainders xs)))"
  shows "rk > rj \<or> rk = rj \<and> k \<le> j"
proof -
  let ?ys = "js_sort compareRemainders xs"
  have d: "distinct (map fst ?ys)" using assms(1) by simp
  obtain p where p: "p < length ?ys" "p < n" "fst (?ys ! p) = k"
    using assms(4) by (auto simp: in_set_conv_nth)
  have yp: "?ys ! p = (k, rk)"
    using d p assms(2) by (metis eq_key_imp_eq_value nth_mem prod.collapse set_js_sort)
  obtain q where q: "q < length ?ys" "?ys ! q = (j, rj)"
    using assms(3) by (metis in_set_conv_nth set_js_sort)
  have "\<not> q < n"
    using q assms(5) by (auto simp: in_set_conv_nth)
  then have "p < q" using p by simp
  then show ?thesis
    using sorted_wrt_nth_less [OF ranked_sorted [of xs] \<open>p < q\<close> q(1)] yp q(2) by simp
qed

section \<open>Largest-remainder allocation\<close>

text \<open>
  The allocation both routines compute: every element starts at its floor \<open>fl\<close>, and \<open>r\<close> units
  are handed out in the order of the remainders \<open>md\<close>.
\<close>

definition remainder_allocation ::
  "('s \<Rightarrow> string) \<Rightarrow> ('s \<Rightarrow> int) \<Rightarrow> ('s \<Rightarrow> int) \<Rightarrow> 's list \<Rightarrow> int \<Rightarrow> (string \<times> int) list" where
  "remainder_allocation key fl md xs r =
     distributeUnits (map (\<lambda>s. (key s, fl s)) xs)
       (map fst (js_sort compareRemainders (map (\<lambda>s. (key s, md s)) xs))) r"

lemma remainder_allocation_spec:
  fixes fl md :: "'s \<Rightarrow> int"
  assumes ids: "distinct (map key xs)" and r: "0 \<le> r" "r \<le> int (length xs)"
  defines "am \<equiv> remainder_allocation key fl md xs r"
  shows "map fst am = map key xs"
    and "sum_list (map snd am) = (\<Sum>s\<leftarrow>xs. fl s) + r"
    and "s \<in> set xs \<Longrightarrow> map_of am (key s) = Some (fl s) \<or> map_of am (key s) = Some (fl s + 1)"
    and "s \<in> set xs \<Longrightarrow> t \<in> set xs \<Longrightarrow> map_of am (key s) = Some (fl s + 1) \<Longrightarrow>
      map_of am (key t) = Some (fl t) \<Longrightarrow> md s > md t \<or> md s = md t \<and> key s \<le> key t"
proof -
  let ?am0 = "map (\<lambda>s. (key s, fl s)) xs" and ?rk = "map (\<lambda>s. (key s, md s)) xs"
  define ks where "ks = map fst (js_sort compareRemainders ?rk)"
  have rk: "distinct (map fst ?rk)" using ids by (simp add: comp_def)
  then have ks: "distinct ks" "length ks = length xs" by (simp_all add: ks_def)
  have "set ks = fst ` set ?rk" unfolding ks_def by simp
  then have sub: "set ks \<subseteq> fst ` set ?am0" by (auto simp: image_image)
  have am0: "distinct (map fst ?am0)" using ids by (simp add: comp_def)
  have am: "am = distributeUnits ?am0 ks r" by (simp add: am_def remainder_allocation_def ks_def)
  show "map fst am = map key xs" unfolding am distributeUnits_keys [OF sub] by simp
  show "sum_list (map snd am) = (\<Sum>s\<leftarrow>xs. fl s) + r"
    using distributeUnits_sum [OF am0 ks(1) sub r(1)] r ks(2) by (simp add: am comp_def)
  have val: "map_of am (key s) = Some (fl s + (if key s \<in> set (take (nat r) ks) then 1 else 0))"
    if "s \<in> set xs" for s
  proof -
    have "map_of ?am0 (key s) = Some (fl s)" using that am0 by (auto intro!: map_of_is_SomeI)
    with distributeUnits_map_of [OF ks(1) sub r(1), of "key s"] show ?thesis by (simp add: am)
  qed
  show "s \<in> set xs \<Longrightarrow> map_of am (key s) = Some (fl s) \<or> map_of am (key s) = Some (fl s + 1)"
    by (simp add: val)
  show "md s > md t \<or> md s = md t \<and> key s \<le> key t"
    if "s \<in> set xs" "t \<in> set xs" "map_of am (key s) = Some (fl s + 1)" "map_of am (key t) = Some (fl t)"
  proof (rule ranked_prefix [OF rk, of _ _ _ _ "nat r"])
    show "key s \<in> set (take (nat r) (map fst (js_sort compareRemainders ?rk)))"
      "key t \<notin> set (take (nat r) (map fst (js_sort compareRemainders ?rk)))"
      using that val [of s] val [of t] by (auto simp: ks_def split: if_splits)
  qed (use that in auto)
qed

text \<open>
  When the number of units is a rounding of the summed remainders (half-up or exact), no unit goes
  to an element without a remainder: the elements with one are enough to take them all.
\<close>

lemma map_snd_lookup:
  "distinct (map fst am) \<Longrightarrow> map snd am = map (\<lambda>k. the (map_of am k)) (map fst am)"
  by (auto intro!: map_cong simp: map_of_is_SomeI)

lemma remainder_allocation_exact:
  fixes fl md :: "'s \<Rightarrow> int"
  assumes ids: "distinct (map key xs)" and r: "0 \<le> r" "r \<le> int (length xs)"
    and md: "\<forall>x\<in>set xs. 0 \<le> md x \<and> md x < den" and le: "2 * den * r \<le> 2 * (\<Sum>x\<leftarrow>xs. md x) + den"
    and s: "s \<in> set xs" "md s = 0" and "0 < den"
  shows "map_of (remainder_allocation key fl md xs r) (key s) = Some (fl s)"
proof (rule ccontr)
  let ?am = "remainder_allocation key fl md xs r"
  note spec = remainder_allocation_spec [OF ids r, where fl = fl and md = md]
  define g where "g x = the (map_of ?am (key x)) - fl x" for x
  assume "\<not> ?thesis"
  then have unit: "map_of ?am (key s) = Some (fl s + 1)" using spec(3) [OF s(1)] by auto
  have g_md: "md x \<le> (den - 1) * g x" if "x \<in> set xs" for x
    using spec(3) [OF that] spec(4) [OF s(1) that unit] s(2) md that by (fastforce simp: g_def)
  have "(\<Sum>x\<leftarrow>xs. the (map_of ?am (key x))) = sum_list (map snd ?am)"
    using map_snd_lookup [of ?am] ids spec(1) by (simp add: comp_def)
  then have "(\<Sum>x\<leftarrow>xs. g x) = r" using spec(2) by (simp add: g_def sum_list_subtractf)
  moreover obtain ys zs where xs: "xs = ys @ s # zs" using split_list [OF s(1)] by blast
  moreover have "g s = 1" by (simp add: g_def unit)
  ultimately have rest: "(\<Sum>x\<leftarrow>ys @ zs. g x) = r - 1" by simp
  have "(\<Sum>x\<leftarrow>xs. md x) = (\<Sum>x\<leftarrow>ys @ zs. md x)" by (simp add: xs s(2))
  also have "\<dots> \<le> (\<Sum>x\<leftarrow>ys @ zs. (den - 1) * g x)" by (rule sum_list_mono) (auto simp: g_md xs)
  also have "\<dots> = (den - 1) * (r - 1)" by (simp only: sum_list_const_mult rest)
  finally have "2 * den * r \<le> 2 * ((den - 1) * (r - 1)) + den" using le by simp
  then have "den + 2 * r \<le> 2" by (simp add: algebra_simps)
  moreover have "0 \<le> (\<Sum>x\<leftarrow>ys @ zs. g x)"
    using spec(3) by (intro sum_list_nonneg) (force simp: g_def xs)
  ultimately show False using rest \<open>0 < den\<close> by simp
qed

section \<open>The invoice allocation\<close>

text \<open>What the loop over the shares has built.\<close>

definition alloc_inv :: "int \<Rightarrow> int \<Rightarrow> invoice_tax_share list \<Rightarrow> allocation_state \<Rightarrow> bool" where
  "alloc_inv bps den shares st \<longleftrightarrow>
     distinct (map share_id shares) \<and>
     list_all (\<lambda>s. 0 \<le> share_amount s \<and> share_amount s \<le> MAX_TAX_MINOR_UNITS) shares \<and>
     st_amounts st = map (\<lambda>s. (share_id s, share_amount s * bps div den)) shares \<and>
     st_floors st = (\<Sum>s\<leftarrow>shares. share_amount s * bps div den) \<and>
     st_total st = (\<Sum>s\<leftarrow>shares. share_amount s * bps) \<and>
     st_ranked st = map (\<lambda>s. (share_id s, share_amount s * bps mod den)) shares"

lemma update_fresh: "k \<notin> fst ` set xs \<Longrightarrow> AList.update k v xs = xs @ [(k, v)]"
  by (induction xs) auto

lemma allocateShare_step:
  assumes inv: "alloc_inv bps den shares st" and "0 \<le> bps" "0 < den"
  shows "allocateShare bps den st s = Inr st' \<longleftrightarrow>
     share_id s \<notin> share_id ` set shares \<and> 0 \<le> share_amount s \<and>
     share_amount s \<le> MAX_TAX_MINOR_UNITS \<and>
     alloc_inv bps den (shares @ [s]) st'"
proof -
  have keys: "map_of (map (\<lambda>s. (share_id s, g s)) shares) k = None \<longleftrightarrow> k \<notin> share_id ` set shares"
    for g :: "invoice_tax_share \<Rightarrow> int" and k
    by (auto simp: map_of_eq_None_iff image_image)
  have d: "a sdiv den = a div den" "a smod den = a mod den" if "0 \<le> a" for a
    using that assms by (simp_all add: bigint_simps)
  show ?thesis
    using inv assms
    by (cases st')
       (auto simp: allocateShare_def Let_def keys d alloc_inv_def result_simps update_fresh image_image)
qed

lemma allocateShares:
  assumes "foldR (allocateShare bps den) st shares = Inr st'" and "alloc_inv bps den pre st"
    and "0 \<le> bps" "0 < den"
  shows "alloc_inv bps den (pre @ shares) st'"
  using assms
proof (induction shares arbitrary: pre st)
  case (Cons s shares)
  then obtain st1 where "allocateShare bps den st s = Inr st1"
    and rest: "foldR (allocateShare bps den) st1 shares = Inr st'"
    by (auto simp: andThen_Inr_iff)
  with allocateShare_step [OF Cons.prems(2-4)] have "alloc_inv bps den (pre @ [s]) st1" by simp
  from Cons.IH [OF rest this] Cons.prems show ?case by simp
qed simp

lemma allocateShares_ok:
  assumes "alloc_inv bps den pre st" and "0 \<le> bps" "0 < den"
    and "distinct (map share_id (pre @ shares))"
    and "list_all (\<lambda>s. 0 \<le> share_amount s \<and> share_amount s \<le> MAX_TAX_MINOR_UNITS) shares"
  shows "\<exists>st'. foldR (allocateShare bps den) st shares = Inr st'"
  using assms
proof (induction shares arbitrary: pre st)
  case (Cons s shares)
  define st1 where "st1 = \<lparr>st_amounts = st_amounts st @ [(share_id s, share_amount s * bps div den)],
    st_floors = st_floors st + share_amount s * bps div den,
    st_total = st_total st + share_amount s * bps,
    st_ranked = st_ranked st @ [(share_id s, share_amount s * bps mod den)]\<rparr>"
  have inv1: "alloc_inv bps den (pre @ [s]) st1"
    using Cons.prems by (auto simp: alloc_inv_def st1_def)
  then have "allocateShare bps den st s = Inr st1"
    using allocateShare_step [OF Cons.prems(1-3), of s st1] Cons.prems(4,5) by auto
  with Cons.IH [OF inv1] Cons.prems show ?case by simp
qed simp

lemma sum_list_div_mod:
  "(\<Sum>s\<leftarrow>xs. f s) = den * (\<Sum>s\<leftarrow>xs. f s div den) + (\<Sum>s\<leftarrow>xs. f s mod den)" for den :: int
  by (induction xs) (auto simp: algebra_simps)

lemma sum_list_mod_bounds:
  assumes "0 < (den::int)"
  shows "0 \<le> (\<Sum>s\<leftarrow>xs. f s mod den) \<and> (\<Sum>s\<leftarrow>xs. f s mod den) \<le> den * int (length xs)"
proof (induction xs)
  case (Cons x xs)
  have "0 \<le> f x mod den" "f x mod den < den" using assms by simp_all
  with Cons show ?case by (simp add: algebra_simps)
qed simp

lemma half_up_shift: "half_up (d * k + n) d q \<longleftrightarrow> half_up n d (q - k)"
  by (auto simp: half_up_def algebra_simps)

lemma allocateInvoiceTax_eq:
  assumes bps: "0 \<le> bps" "bps \<le> 10000"
    and ids: "distinct (map share_id shares)"
    and range: "list_all (\<lambda>s. 0 \<le> share_amount s \<and> share_amount s \<le> MAX_TAX_MINOR_UNITS) shares"
    and den: "0 < den"
  shows "tax_denominator bps incl = den \<Longrightarrow> \<exists>r. 0 \<le> r \<and> r \<le> int (length shares) \<and>
    half_up (\<Sum>s\<leftarrow>shares. share_amount s * bps) den ((\<Sum>s\<leftarrow>shares. share_amount s * bps div den) + r) \<and>
    allocateInvoiceTax shares bps incl =
      Inr (remainder_allocation share_id (\<lambda>s. share_amount s * bps div den)
             (\<lambda>s. share_amount s * bps mod den) shares r)"
proof -
  assume d: "tax_denominator bps incl = den"
  let ?st0 = "\<lparr>st_amounts = [], st_floors = 0, st_total = 0, st_ranked = []\<rparr>"
  have inv0: "alloc_inv bps den [] ?st0" by (simp add: alloc_inv_def)
  obtain st where fold: "foldR (allocateShare bps den) ?st0 shares = Inr st"
    using allocateShares_ok [OF inv0 bps(1) den] ids range by auto
  from allocateShares [OF fold inv0 bps(1) den] have inv: "alloc_inv bps den shares st" by simp
  let ?n = "\<lambda>s. share_amount s * bps"
  have total: "st_total st = den * st_floors st + (\<Sum>s\<leftarrow>shares. ?n s mod den)"
    using inv sum_list_div_mod [of ?n shares den] by (simp add: alloc_inv_def)
  have "0 \<le> (\<Sum>s\<leftarrow>shares. ?n s)"
    using range bps by (intro sum_list_nonneg) (auto simp: list_all_iff)
  with inv have "0 \<le> st_total st" by (simp add: alloc_inv_def)
  then obtain q where q: "roundTaxHalfUp (st_total st) den = Inr q" "half_up (st_total st) den q"
    using roundTaxHalfUp_half_up den by blast
  have hr: "half_up (\<Sum>s\<leftarrow>shares. ?n s mod den) den (q - st_floors st)"
    using q(2) unfolding total half_up_shift .
  note mb = sum_list_mod_bounds [OF den, of ?n shares]
  have "0 \<le> q - st_floors st" "q - st_floors st \<le> int (length shares)"
    using half_up_nonneg [OF den _ hr] half_up_le [OF den _ hr] mb by auto
  moreover have "allocateInvoiceTax shares bps incl =
      Inr (remainder_allocation share_id (\<lambda>s. ?n s div den) (\<lambda>s. ?n s mod den) shares (q - st_floors st))"
    using bps fold q(1) inv
    by (simp add: allocateInvoiceTax_def assertTaxRateBps_def d alloc_inv_def remainder_allocation_def)
  ultimately show ?thesis
    using q(2) inv by (intro exI [of _ "q - st_floors st"]) (simp add: alloc_inv_def)
qed

text \<open>
  A tax of a base: the exact quotient, or one of its two integer neighbours when it is not integral.
  Both rounding strategies produce such taxes.
\<close>

definition near_tax :: "int \<Rightarrow> int \<Rightarrow> bool \<Rightarrow> int \<Rightarrow> bool" where
  "near_tax base bps incl t \<longleftrightarrow> 0 \<le> base \<and> 0 \<le> bps \<and>
     (t = base * bps div tax_denominator bps incl \<or>
      t = base * bps div tax_denominator bps incl + 1 \<and> base * bps mod tax_denominator bps incl \<noteq> 0)"

lemma near_tax_nonneg: "near_tax base bps incl t \<Longrightarrow> 0 \<le> t"
  using tax_denominator_pos [of bps incl] by (auto simp: near_tax_def pos_imp_zdiv_nonneg_iff)

lemma near_tax_zero: "near_tax 0 bps incl t \<Longrightarrow> t = 0"
  by (simp add: near_tax_def)

lemma half_up_near_tax:
  assumes half: "half_up (base * bps) (tax_denominator bps incl) t" and pos: "0 \<le> base" "0 \<le> bps"
  shows "near_tax base bps incl t"
proof -
  define d n where "d = tax_denominator bps incl" and "n = base * bps"
  have d: "0 < d" using tax_denominator_pos [OF pos(2)] by (simp add: d_def)
  have n: "n = d * (n div d) + n mod d" and m: "0 \<le> n mod d" "n mod d < d" using d by simp_all
  have "half_up (d * (n div d) + n mod d) d t" using half by (simp add: d_def n_def)
  then have sh: "half_up (n mod d) d (t - n div d)" by (simp only: half_up_shift)
  have q: "half_up (n mod d) d (if d \<le> 2 * (n mod d) then 1 else 0)" using m by (auto simp: half_up_def)
  have "t - n div d = (if d \<le> 2 * (n mod d) then 1 else 0)" by (rule half_up_unique [OF d sh q])
  then show ?thesis using d pos by (auto simp: near_tax_def simp flip: d_def n_def split: if_splits)
qed

lemma allocateInvoiceTax_near:
  assumes run: "allocateInvoiceTax shares bps incl = Inr am" and s: "s \<in> set shares"
  shows "\<exists>v. map_of am (share_id s) = Some v \<and> near_tax (share_amount s) bps incl v"
proof -
  define den where "den = tax_denominator bps incl"
  let ?st0 = "\<lparr>st_amounts = [], st_floors = 0, st_total = 0, st_ranked = []\<rparr>"
  from run have bps: "0 \<le> bps" "bps \<le> 10000"
    by (auto simp: allocateInvoiceTax_def result_simps)
  have den: "0 < den" using tax_denominator_pos [OF bps(1)] by (simp add: den_def)
  from run obtain st where "foldR (allocateShare bps den) ?st0 shares = Inr st"
    by (auto simp: allocateInvoiceTax_def Let_def result_simps den_def)
  from allocateShares [OF this _ bps(1) den, of "[]"] have inv: "alloc_inv bps den shares st"
    by (simp add: alloc_inv_def)
  then have ids: "distinct (map share_id shares)"
    and range: "list_all (\<lambda>s. 0 \<le> share_amount s \<and> share_amount s \<le> MAX_TAX_MINOR_UNITS) shares"
    by (simp_all add: alloc_inv_def)
  let ?fl = "\<lambda>s. share_amount s * bps div den" and ?md = "\<lambda>s. share_amount s * bps mod den"
  obtain r where r: "0 \<le> r" "r \<le> int (length shares)"
    and sum: "half_up (\<Sum>s\<leftarrow>shares. share_amount s * bps) den ((\<Sum>s\<leftarrow>shares. ?fl s) + r)"
    and am: "am = remainder_allocation share_id ?fl ?md shares r"
    using allocateInvoiceTax_eq [OF bps ids range den, of incl] run by (auto simp: den_def)
  have "half_up (\<Sum>s\<leftarrow>shares. ?md s) den r"
    using sum half_up_shift [of den "\<Sum>s\<leftarrow>shares. ?fl s" _ "(\<Sum>s\<leftarrow>shares. ?fl s) + r"]
      sum_list_div_mod [of "\<lambda>s. share_amount s * bps" shares den] by simp
  then have le: "2 * den * r \<le> 2 * (\<Sum>s\<leftarrow>shares. ?md s) + den" by (simp add: half_up_def)
  have "map_of am (share_id s) = Some (?fl s)" if "?md s = 0"
    unfolding am using remainder_allocation_exact [OF ids r _ le s that den] den by simp
  moreover have "0 \<le> share_amount s" using range s by (simp add: list_all_iff)
  ultimately show ?thesis
    using remainder_allocation_spec(3) [OF ids r s, where fl = ?fl and md = ?md] bps(1)
    unfolding near_tax_def am den_def by auto
qed

text \<open>
  The invoice-total allocation: for a valid rate, pairwise distinct line ids and amounts in
  range it succeeds and assigns exactly the given lines, in order; the assigned taxes add up to
  the half-up rounding of the exact tax of the whole group, rounded once; every line gets the
  floor of its exact tax or one unit more, and exactly its tax when that is integral; and a line that got the extra unit has a remainder at
  least as large as one that did not (ties going to the smaller id).
\<close>

theorem allocateInvoiceTax_correct:
  fixes incl :: bool
  assumes bps: "0 \<le> bps" "bps \<le> 10000"
    and ids: "distinct (map share_id shares)"
    and range: "list_all (\<lambda>s. 0 \<le> share_amount s \<and> share_amount s \<le> MAX_TAX_MINOR_UNITS) shares"
  defines "den \<equiv> 10000 + (if incl then bps else 0)"
  shows "\<exists>am. allocateInvoiceTax shares bps incl = Inr am \<and>
     map fst am = map share_id shares \<and>
     half_up (\<Sum>s\<leftarrow>shares. share_amount s * bps) den (sum_list (map snd am)) \<and>
     (\<forall>s\<in>set shares. \<exists>v. map_of am (share_id s) = Some v \<and>
        v - share_amount s * bps div den \<in> {0, 1} \<and>
        (share_amount s * bps mod den = 0 \<longrightarrow> v * den = share_amount s * bps)) \<and>
     (\<forall>s\<in>set shares. \<forall>t\<in>set shares.
        map_of am (share_id s) = Some (share_amount s * bps div den + 1) \<longrightarrow>
        map_of am (share_id t) = Some (share_amount t * bps div den) \<longrightarrow>
        share_amount s * bps mod den > share_amount t * bps mod den \<or>
        share_amount s * bps mod den = share_amount t * bps mod den \<and> share_id s \<le> share_id t)"
proof -
  have den: "tax_denominator bps incl = den" "0 < den"
    using bps by (auto simp: den_def tax_denominator_def BASIS_POINT_DENOMINATOR_def)
  let ?fl = "\<lambda>s. share_amount s * bps div den" and ?md = "\<lambda>s. share_amount s * bps mod den"
  obtain r where r: "0 \<le> r" "r \<le> int (length shares)"
    and sum: "half_up (\<Sum>s\<leftarrow>shares. share_amount s * bps) den ((\<Sum>s\<leftarrow>shares. ?fl s) + r)"
    and res: "allocateInvoiceTax shares bps incl = Inr (remainder_allocation share_id ?fl ?md shares r)"
    using allocateInvoiceTax_eq [OF bps ids range den(2)] den(1) by metis
  note spec = remainder_allocation_spec [OF ids r, where fl = ?fl and md = ?md]
  let ?am = "remainder_allocation share_id ?fl ?md shares r"
  have two: "\<exists>v. map_of ?am (share_id s) = Some v \<and> v - ?fl s \<in> {0, 1} \<and>
      (?md s = 0 \<longrightarrow> v * den = share_amount s * bps)" if s: "s \<in> set shares" for s
    using allocateInvoiceTax_near [OF res s] by (fastforce simp: near_tax_def den(1))
  show ?thesis using res sum spec(1) spec(2) two spec(4) by (intro exI [of _ ?am]) auto
qed

theorem allocateInvoiceTax_correct_witness:
  "allocateInvoiceTax [\<lparr>share_id = ''a'', share_amount = 33\<rparr>, \<lparr>share_id = ''b'', share_amount = 37\<rparr>]
     500 False = Inr [(''a'', 2), (''b'', 2)] \<and>
   half_up (33 * 500 + 37 * 500) 10000 4"
proof -
  let ?sh = "[\<lparr>share_id = ''a'', share_amount = 33\<rparr>, \<lparr>share_id = ''b'', share_amount = 37\<rparr>]"
  have val: "allocateInvoiceTax ?sh 500 False = Inr [(''a'', 2), (''b'', 2)]" by code_simp
  show ?thesis
    using allocateInvoiceTax_correct [of 500 ?sh False] val by (auto simp: MAX_TAX_MINOR_UNITS_def)
qed

end
