(* ===== verification/Allocation.thy ===== *)
theory Allocation
  imports Tax_Math
begin

text \<open>
  The contract of a largest-remainder allocation, as a locale. Two routines of the program share it:
  \<open>allocateInvoiceTax\<close> (\<^verbatim>\<open>src/shared/tax-math.ts\<close>), interpreted here, and \<open>allocateProportionally\<close>
  (\<^verbatim>\<open>src/application/engines/payments/order-totals.ts\<close>), interpreted in \<open>Order_Totals\<close>. The lemmas
  of the locale say what a client may rely on: the allocated keys, the total, that every share is a
  rounding of its exact value, and that the shares do not depend on the order of the lines.
\<close>

lemma sorted_wrt_mset_eq:
  assumes "sorted_wrt R xs" "sorted_wrt R ys" "mset xs = mset ys"
    and "\<forall>a\<in>set xs. \<forall>b\<in>set xs. R a b \<longrightarrow> R b a \<longrightarrow> a = b"
  shows "xs = ys"
  using assms
proof (induction xs arbitrary: ys)
  case (Cons x xs)
  then obtain y ys' where ys: "ys = y # ys'" by (cases ys) auto
  have sets: "insert x (set xs) = insert y (set ys')"
    using mset_eq_setD [OF Cons.prems(3)] unfolding ys by simp
  have "x = y"
  proof (rule ccontr)
    assume "x \<noteq> y"
    moreover have "x \<in> insert y (set ys')" "y \<in> insert x (set xs)"
      unfolding sets [symmetric] by (simp, simp add: sets)
    ultimately have "x \<in> set ys'" "y \<in> set xs" by simp_all
    then have "R x y" "R y x" using Cons.prems(1,2) by (simp_all add: ys)
    with Cons.prems(4) \<open>y \<in> set xs\<close> \<open>x \<noteq> y\<close> show False by simp
  qed
  with Cons.IH [of ys'] Cons.prems ys show ?case by auto
qed simp

lemma js_sort_remainders_perm:
  assumes "mset xs = mset ys" "distinct (map fst xs)"
  shows "js_sort compareRemainders xs = js_sort compareRemainders ys"
  by (rule sorted_wrt_mset_eq [OF ranked_sorted ranked_sorted]) (use assms in \<open>auto simp: prod_eq_iff\<close>)

lemma remainder_allocation_perm:
  assumes "mset xs = mset ys" "distinct (map key xs)" "0 \<le> r"
  shows "map_of (remainder_allocation key fl md xs r) k = map_of (remainder_allocation key fl md ys r) k"
proof -
  have ids: "distinct (map key ys)" using assms by (metis mset_map mset_eq_imp_distinct_iff)
  define ks where "ks = map fst (js_sort compareRemainders (map (\<lambda>s. (key s, md s)) xs))"
  have ks: "ks = map fst (js_sort compareRemainders (map (\<lambda>s. (key s, md s)) ys))"
    unfolding ks_def using assms by (subst js_sort_remainders_perm) (auto simp: comp_def)
  have sets: "set ks = key ` set xs" "set xs = set ys"
    using assms(1) by (auto simp: ks_def image_image dest: mset_eq_setD)
  have d: "distinct ks" using assms(2) by (simp add: ks_def comp_def)
  have same: "map_of (map (\<lambda>s. (key s, fl s)) xs) k = map_of (map (\<lambda>s. (key s, fl s)) ys) k"
    using ids assms by (intro fun_cong [OF map_of_inject_set [THEN iffD2]]) (simp_all add: comp_def sets)
  show ?thesis
    unfolding remainder_allocation_def ks_def [symmetric] ks [symmetric]
    using distributeUnits_map_of [OF d _ assms(3), of "map (\<lambda>s. (key s, fl s)) xs" k]
      distributeUnits_map_of [OF d _ assms(3), of "map (\<lambda>s. (key s, fl s)) ys" k] sets same
    by (simp add: image_image)
qed

locale remainder_allocator =
  fixes run :: "'c \<Rightarrow> 's list \<Rightarrow> (string \<times> int) list result"
    and valid :: "'c \<Rightarrow> 's list \<Rightarrow> bool"
    and key :: "'s \<Rightarrow> string"
    and numer :: "'c \<Rightarrow> 's \<Rightarrow> int"
    and denom :: "'c \<Rightarrow> 's list \<Rightarrow> int"
  assumes keys: "valid c xs \<Longrightarrow> distinct (map key xs)"
    and pos: "valid c xs \<Longrightarrow> 0 < denom c xs"
    and perm: "mset xs = mset ys \<Longrightarrow> valid c xs \<longleftrightarrow> valid c ys"
      "mset xs = mset ys \<Longrightarrow> denom c xs = denom c ys"
    and run: "valid c xs \<Longrightarrow> \<exists>r. 0 \<le> r \<and> r \<le> int (length xs) \<and>
      half_up (\<Sum>x\<leftarrow>xs. numer c x) (denom c xs) ((\<Sum>x\<leftarrow>xs. numer c x div denom c xs) + r) \<and>
      run c xs = Inr (remainder_allocation key (\<lambda>x. numer c x div denom c xs)
                        (\<lambda>x. numer c x mod denom c xs) xs r)"
begin

lemma total:
  assumes "valid c xs"
  shows "\<exists>am. run c xs = Inr am \<and> map fst am = map key xs \<and>
    half_up (\<Sum>x\<leftarrow>xs. numer c x) (denom c xs) (sum_list (map snd am))"
proof -
  from run [OF assms] obtain r where r: "0 \<le> r" "r \<le> int (length xs)"
    and half: "half_up (\<Sum>x\<leftarrow>xs. numer c x) (denom c xs) ((\<Sum>x\<leftarrow>xs. numer c x div denom c xs) + r)"
    and res: "run c xs = Inr (remainder_allocation key (\<lambda>x. numer c x div denom c xs)
                        (\<lambda>x. numer c x mod denom c xs) xs r)" by blast
  note spec = remainder_allocation_spec [OF keys [OF assms] r]
  show ?thesis using res half spec(1,2) by auto
qed

lemma neighbours:
  assumes "valid c xs" "run c xs = Inr am" "x \<in> set xs"
  shows "\<exists>v. map_of am (key x) = Some v \<and>
    (v = numer c x div denom c xs \<or>
     v = numer c x div denom c xs + 1 \<and> numer c x mod denom c xs \<noteq> 0)"
proof -
  define d fl md where "d = denom c xs" and "fl = (\<lambda>x. numer c x div denom c xs)"
    and "md = (\<lambda>x. numer c x mod denom c xs)"
  have d: "0 < d" using pos [OF assms(1)] by (simp add: d_def)
  from run [OF assms(1)] assms(2) obtain r where r: "0 \<le> r" "r \<le> int (length xs)"
    and half: "half_up (\<Sum>x\<leftarrow>xs. numer c x) d ((\<Sum>x\<leftarrow>xs. fl x) + r)"
    and am: "am = remainder_allocation key fl md xs r" by (auto simp: d_def fl_def md_def)
  have "(\<Sum>x\<leftarrow>xs. numer c x) = d * (\<Sum>x\<leftarrow>xs. fl x) + (\<Sum>x\<leftarrow>xs. md x)"
    unfolding fl_def md_def d_def by (rule sum_list_div_mod)
  with half half_up_shift [of d "\<Sum>x\<leftarrow>xs. fl x" "\<Sum>x\<leftarrow>xs. md x" "(\<Sum>x\<leftarrow>xs. fl x) + r"]
  have "half_up (\<Sum>x\<leftarrow>xs. md x) d r" by simp
  then have le: "2 * d * r \<le> 2 * (\<Sum>x\<leftarrow>xs. md x) + d" by (simp add: half_up_def)
  have md: "\<forall>x\<in>set xs. 0 \<le> md x \<and> md x < d" using d by (simp add: md_def d_def)
  have "md x = 0 \<Longrightarrow> map_of am (key x) = Some (fl x)"
    unfolding am by (rule remainder_allocation_exact [OF keys [OF assms(1)] r md le assms(3) _ d])
  moreover note remainder_allocation_spec(3) [OF keys [OF assms(1)] r assms(3), where fl = fl and md = md]
  ultimately show ?thesis unfolding am fl_def md_def by auto
qed

lemma order_independent:
  assumes "valid c xs" "mset xs = mset ys"
  shows "\<exists>am bm. run c xs = Inr am \<and> run c ys = Inr bm \<and> map_of am = map_of bm"
proof -
  have ys: "valid c ys" and d: "denom c ys = denom c xs" using perm [OF assms(2), of c] assms(1) by auto
  have sums: "(\<Sum>x\<leftarrow>xs. f x) = (\<Sum>x\<leftarrow>ys. f x)" for f :: "'s \<Rightarrow> int"
    using assms(2) by (metis mset_map sum_mset_sum_list)
  from run [OF assms(1)] obtain r where r: "0 \<le> r"
    "half_up (\<Sum>x\<leftarrow>xs. numer c x) (denom c xs) ((\<Sum>x\<leftarrow>xs. numer c x div denom c xs) + r)"
    "run c xs = Inr (remainder_allocation key (\<lambda>x. numer c x div denom c xs)
                        (\<lambda>x. numer c x mod denom c xs) xs r)" by blast
  from run [OF ys] obtain t where t:
    "half_up (\<Sum>x\<leftarrow>ys. numer c x) (denom c xs) ((\<Sum>x\<leftarrow>ys. numer c x div denom c xs) + t)"
    "run c ys = Inr (remainder_allocation key (\<lambda>x. numer c x div denom c xs)
                        (\<lambda>x. numer c x mod denom c xs) ys t)" unfolding d by blast
  have "r = t" using half_up_unique [OF pos [OF assms(1)] r(2) t(1) [folded sums]] by simp
  with r t remainder_allocation_perm [OF assms(2) keys [OF assms(1)] r(1)] show ?thesis by auto
qed

end

text \<open>The invoice-total tax allocation satisfies the contract; its context is the rate and its inclusivity.\<close>

definition valid_invoice :: "int \<times> bool \<Rightarrow> invoice_tax_share list \<Rightarrow> bool" where
  "valid_invoice c shares \<longleftrightarrow> 0 \<le> fst c \<and> fst c \<le> 10000 \<and> distinct (map share_id shares) \<and>
     list_all (\<lambda>s. 0 \<le> share_amount s \<and> share_amount s \<le> MAX_TAX_MINOR_UNITS) shares"

interpretation invoice: remainder_allocator
  "\<lambda>c shares. allocateInvoiceTax shares (fst c) (snd c)" valid_invoice share_id
  "\<lambda>c s. share_amount s * fst c" "\<lambda>c shares. tax_denominator (fst c) (snd c)"
proof unfold_locales
  fix c :: "int \<times> bool" and xs ys :: "invoice_tax_share list"
  show "valid_invoice c xs \<Longrightarrow> distinct (map share_id xs)" by (simp add: valid_invoice_def)
  show "valid_invoice c xs \<Longrightarrow> 0 < tax_denominator (fst c) (snd c)"
    by (simp add: valid_invoice_def tax_denominator_pos)
  show "mset xs = mset ys \<Longrightarrow> valid_invoice c xs = valid_invoice c ys"
    unfolding valid_invoice_def list_all_iff
    by (metis mset_map mset_eq_imp_distinct_iff mset_eq_setD)
  assume v: "valid_invoice c xs"
  then show "\<exists>r. 0 \<le> r \<and> r \<le> int (length xs) \<and>
      half_up (\<Sum>s\<leftarrow>xs. share_amount s * fst c) (tax_denominator (fst c) (snd c))
        ((\<Sum>s\<leftarrow>xs. share_amount s * fst c div tax_denominator (fst c) (snd c)) + r) \<and>
      allocateInvoiceTax xs (fst c) (snd c) =
        Inr (remainder_allocation share_id (\<lambda>s. share_amount s * fst c div tax_denominator (fst c) (snd c))
          (\<lambda>s. share_amount s * fst c mod tax_denominator (fst c) (snd c)) xs r)"
    by (intro allocateInvoiceTax_eq) (simp_all add: valid_invoice_def tax_denominator_pos)
qed simp

text \<open>
  The invoice-total allocation does not depend on the order in which the lines of the invoice
  are given: any permutation of valid shares yields the same tax for every line.
\<close>

theorem allocateInvoiceTax_order_independent:
  assumes "valid_invoice (bps, incl) shares" and "mset shares = mset shares'"
  shows "\<exists>am bm. allocateInvoiceTax shares bps incl = Inr am \<and>
    allocateInvoiceTax shares' bps incl = Inr bm \<and> map_of am = map_of bm"
  using invoice.order_independent [OF assms] by simp

theorem allocateInvoiceTax_order_independent_witness:
  "\<exists>am bm. allocateInvoiceTax [\<lparr>share_id = ''a'', share_amount = 33\<rparr>, \<lparr>share_id = ''b'', share_amount = 33\<rparr>]
      500 False = Inr am \<and>
    allocateInvoiceTax [\<lparr>share_id = ''b'', share_amount = 33\<rparr>, \<lparr>share_id = ''a'', share_amount = 33\<rparr>]
      500 False = Inr bm \<and> map_of am = map_of bm"
  by (rule allocateInvoiceTax_order_independent) (auto simp: valid_invoice_def MAX_TAX_MINOR_UNITS_def)

end
