(* ===== verification/Tax_Rules.thy ===== *)
theory Tax_Rules
  imports Tax_Math
begin

text \<open>
  Model of the tax vocabulary of \<^verbatim>\<open>src/domain/contracts/tax.ts\<close> and the pure rules of
  \<^verbatim>\<open>src/domain/contracts/tax-rules.ts\<close>. Calendar dates are the canonical texts \<open>YYYY-MM-DD\<close>, compared
  as strings, as the code does. The branch-local date of an instant needs the time-zone database of the platform
  (\<open>Intl.DateTimeFormat\<close>), which is a parameter of \<open>taxDateInTimezone\<close>.
\<close>

section \<open>Vocabulary\<close>

datatype tax_family = vat | excise

datatype tax_category_kind = standard | reduced | zero_rated | exempt | no_vat

datatype tax_rounding_strategy = per_line | invoice_total

datatype tax_liable_party = restaurant | marketplace

datatype vat_registration_status = registered | unregistered

datatype rate_source = platform | tenant

record tax_jurisdiction =
  tj_countryCode :: string
  tj_defaultCurrencyCode :: string
  tj_roundingStrategy :: tax_rounding_strategy
  tj_isActive :: bool

record tax_category =
  tc_id :: string
  tc_countryCode :: string
  tc_code :: string
  tc_kind :: tax_category_kind
  tc_taxFamily :: tax_family
  tc_cascadePriority :: int
  tc_isActive :: bool

record tax_rate =
  tr_source :: "rate_source option"
  tr_id :: string
  tr_taxCategoryId :: string
  tr_rateBps :: int
  tr_isPriceInclusiveDefault :: bool
  tr_effectiveFrom :: string
  tr_effectiveTo :: "string option"
  tr_supersededBy :: "string option"

record sales_channel =
  sc_code :: string
  sc_requiresDeliveryPlatform :: bool

record delivery_platform =
  dp_id :: string
  dp_countryCode :: "string option"
  dp_isActive :: bool

record tax_liability_rule =
  lr_id :: string
  lr_countryCode :: string
  lr_salesChannelCode :: string
  lr_deliveryPlatformId :: "string option"
  lr_appliesWhenTenantRegistered :: bool
  lr_liableParty :: tax_liable_party
  lr_effectiveFrom :: string
  lr_effectiveTo :: "string option"

record tax_branch =
  tb_id :: string
  tb_countryCode :: "string option"
  tb_currencyCode :: string
  tb_timezone :: string
  tb_isActive :: bool
  tb_jurisdiction :: "tax_jurisdiction option"

record menu_item_tax_assignment =
  ma_menuItemId :: string
  ma_isActive :: bool
  ma_taxRuleId :: "string option"
  ma_additionalTaxCategoryIds :: "string list"

record resolved_tax_line =
  rl_source :: "rate_source option"
  rl_taxRateId :: string
  rl_taxFamily :: tax_family
  rl_computationSequence :: int
  rl_liableParty :: tax_liable_party
  rl_rateBps :: int
  rl_isPriceInclusive :: bool
  rl_taxableAmountMinor :: int
  rl_taxAmountMinor :: int

section \<open>Codes and calendar dates\<close>

definition assertCountryCode :: "string \<Rightarrow> unit result" where
  "assertCountryCode c =
     (if \<not> (length c = 2 \<and> list_all is_upper c) then Inl (ValidationError (Some ''countryCode''))
      else Inr ())"

text \<open>The pattern \<^verbatim>\<open>^\d{4}-\d{2}-\d{2}$\<close>, and the calendar check that \<open>Date\<close> makes.\<close>

definition date_pattern :: "string \<Rightarrow> bool" where
  "date_pattern s \<longleftrightarrow>
     length s = 10 \<and> list_all is_digit (take 4 s) \<and> s ! 4 = CHR ''-'' \<and>
     list_all is_digit (take 2 (drop 5 s)) \<and> s ! 7 = CHR ''-'' \<and> list_all is_digit (drop 8 s)"

definition date_year :: "string \<Rightarrow> int" where
  "date_year s = digits_to_int (take 4 s)"

definition date_month :: "string \<Rightarrow> int" where
  "date_month s = digits_to_int (take 2 (drop 5 s))"

definition date_day :: "string \<Rightarrow> int" where
  "date_day s = digits_to_int (drop 8 s)"

definition days_in_month :: "int \<Rightarrow> int \<Rightarrow> int" where
  "days_in_month y m =
     (if m = 2 then (if y mod 4 = 0 \<and> (y mod 100 \<noteq> 0 \<or> y mod 400 = 0) then 29 else 28)
      else if m \<in> {4, 6, 9, 11} then 30 else 31)"

definition assertTaxDate :: "string \<Rightarrow> unit result" where
  "assertTaxDate v =
     (if \<not> date_pattern v \<or> take 4 v = ''0000'' then Inl (ValidationError None)
      else if \<not> (1 \<le> date_month v \<and> date_month v \<le> 12 \<and> 1 \<le> date_day v \<and>
                  date_day v \<le> days_in_month (date_year v) (date_month v))
      then Inl (ValidationError None)
      else Inr ())"

definition assertTaxDateRange :: "string \<Rightarrow> string option \<Rightarrow> unit result" where
  "assertTaxDateRange from to' =
     andThen (assertTaxDate from) (\<lambda>_.
       case to' of
         None \<Rightarrow> Inr ()
       | Some t \<Rightarrow> andThen (assertTaxDate t) (\<lambda>_.
           if t < from then Inl (ValidationError None) else Inr ()))"

text \<open>
  \<open>local_date at zone\<close> stands for the year, month and day that
  \<open>Intl.DateTimeFormat('en-CA', ...)\<close> formats (\<open>None\<close>: it throws on an unknown zone). An instant
  is milliseconds since the epoch, \<open>None\<close> for an invalid \<open>Date\<close>.
\<close>

definition taxDateInTimezone ::
  "(int \<Rightarrow> string \<Rightarrow> (string \<times> string \<times> string) option) \<Rightarrow> int option \<Rightarrow> string \<Rightarrow> string result" where
  "taxDateInTimezone local_date at zone =
     (case at of
        None \<Rightarrow> Inl (ValidationError (Some ''at''))
      | Some t \<Rightarrow>
          (case local_date t zone of
             None \<Rightarrow> Inl (ValidationError (Some ''timezone''))
           | Some (year, month, day) \<Rightarrow>
               let r = year @ CHR ''-'' # month @ CHR ''-'' # day
               in andThen (assertTaxDate r) (\<lambda>_. Inr r)))"

section \<open>Categories\<close>

text \<open>The UTF-8 bytes of the Arabic text of \<^verbatim>\<open>tenant-tax-admin.ts\<close>.\<close>

definition EXCISE_CONFIRMATION_TEXT :: string where
  "EXCISE_CONFIRMATION_TEXT =
    [CHR 0xD8, CHR 0xA3, CHR 0xD9, CHR 0x86, CHR 0xD8, CHR 0xA7, CHR 0x20, CHR 0xD9,
     CHR 0x85, CHR 0xD9, CHR 0x8F, CHR 0xD8, CHR 0xB5, CHR 0xD9, CHR 0x86, CHR 0xD9,
     CHR 0x90, CHR 0xD9, CHR 0x91, CHR 0xD8, CHR 0xB9, CHR 0x2F, CHR 0xD9, CHR 0x85,
     CHR 0xD8, CHR 0xB3, CHR 0xD8, CHR 0xAA, CHR 0xD9, CHR 0x88, CHR 0xD8, CHR 0xB1,
     CHR 0xD8, CHR 0xAF, CHR 0x20, CHR 0xD9, CHR 0x87, CHR 0xD8, CHR 0xB0, CHR 0xD8,
     CHR 0xA7, CHR 0x20, CHR 0xD8, CHR 0xA7, CHR 0xD9, CHR 0x84, CHR 0xD9, CHR 0x85,
     CHR 0xD9, CHR 0x86, CHR 0xD8, CHR 0xAA, CHR 0xD8, CHR 0xAC, CHR 0x20, CHR 0xD9,
     CHR 0x88, CHR 0xD9, CHR 0x85, CHR 0xD8, CHR 0xB3, CHR 0xD8, CHR 0xAC, CHR 0xD9,
     CHR 0x8E, CHR 0xD9, CHR 0x91, CHR 0xD9, CHR 0x84, CHR 0x20, CHR 0xD8, CHR 0xB6,
     CHR 0xD8, CHR 0xB1, CHR 0xD9, CHR 0x8A, CHR 0xD8, CHR 0xA8, CHR 0xD9, CHR 0x8A,
     CHR 0xD9, CHR 0x8B, CHR 0xD8, CHR 0xA7, CHR 0x20, CHR 0xD9, CHR 0x84, CHR 0xD9,
     CHR 0x84, CHR 0xD8, CHR 0xA5, CHR 0xD9, CHR 0x86, CHR 0xD8, CHR 0xAA, CHR 0xD8,
     CHR 0xA7, CHR 0xD8, CHR 0xAC, CHR 0x20, CHR 0xD8, CHR 0xA7, CHR 0xD9, CHR 0x84,
     CHR 0xD8, CHR 0xA7, CHR 0xD9, CHR 0x86, CHR 0xD8, CHR 0xAA, CHR 0xD9, CHR 0x82,
     CHR 0xD8, CHR 0xA7, CHR 0xD8, CHR 0xA6, CHR 0xD9, CHR 0x8A]"

definition assertExciseConfirmation :: "string \<Rightarrow> unit result" where
  "assertExciseConfirmation confirmation =
     (if confirmation \<noteq> EXCISE_CONFIRMATION_TEXT then Inl ExciseConfirmationRequiredError else Inr ())"

definition assertOrdinaryTaxCategory :: "tax_category \<Rightarrow> unit result" where
  "assertOrdinaryTaxCategory category =
     (if \<not> tc_isActive category then Inl TaxConfigurationError
      else if tc_taxFamily category = excise then Inl ExciseConfirmationRequiredError
      else Inr ())"

text \<open>\<open>a.cascadePriority - b.cascadePriority || (a.id < b.id ? -1 : a.id > b.id ? 1 : 0)\<close>\<close>

definition compareCategories :: "tax_category \<Rightarrow> tax_category \<Rightarrow> int" where
  "compareCategories a b =
     (if tc_cascadePriority a - tc_cascadePriority b \<noteq> 0
      then tc_cascadePriority a - tc_cascadePriority b
      else if tc_id a < tc_id b then -1 else if tc_id a > tc_id b then 1 else 0)"

definition sortTaxCategories :: "tax_category list \<Rightarrow> tax_category list result" where
  "sortTaxCategories categories =
     (let sorted = js_sort compareCategories categories in
      if \<not> distinct (map tc_id sorted) then Inl TaxConfigurationError
      else
        let exc = filter (\<lambda>c. tc_taxFamily c = excise) sorted;
            va = filter (\<lambda>c. tc_taxFamily c = vat) sorted
        in if list_ex (\<lambda>e. list_ex (\<lambda>v. tc_cascadePriority e \<ge> tc_cascadePriority v) va) exc
           then Inl TaxConfigurationError
           else Inr sorted)"

section \<open>Order of categories\<close>

lemma compareCategories_le_iff:
  "compareCategories a b \<le> 0 \<longleftrightarrow>
     tc_cascadePriority a < tc_cascadePriority b \<or>
     tc_cascadePriority a = tc_cascadePriority b \<and> tc_id a \<le> tc_id b"
  by (auto simp: compareCategories_def)

lemma compareCategories_sorted:
  "sorted_wrt (\<lambda>a b. tc_cascadePriority a < tc_cascadePriority b \<or>
     tc_cascadePriority a = tc_cascadePriority b \<and> tc_id a \<le> tc_id b)
     (js_sort compareCategories cs)"
  using js_sort_sorted [of compareCategories cs] unfolding compareCategories_le_iff by force

text \<open>
  Category order: sorting succeeds exactly when no category occurs twice and every excise
  category has a strictly lower cascade priority than every VAT category; the result is then a
  permutation of the input in strictly increasing order of (priority, id), whatever order the
  input came in.
\<close>

theorem sortTaxCategories_correct:
  "(isOk (sortTaxCategories cs) \<longleftrightarrow>
      distinct (map tc_id cs) \<and>
      (\<forall>e\<in>set cs. \<forall>v\<in>set cs. tc_taxFamily e = excise \<longrightarrow> tc_taxFamily v = vat \<longrightarrow>
         tc_cascadePriority e < tc_cascadePriority v)) \<and>
   (sortTaxCategories cs = Inr ds \<longrightarrow>
      mset ds = mset cs \<and>
      sorted_wrt (\<lambda>a b. tc_cascadePriority a < tc_cascadePriority b \<or>
        tc_cascadePriority a = tc_cascadePriority b \<and> tc_id a < tc_id b) ds)"
proof -
  have strict: "sorted_wrt (\<lambda>a b. tc_cascadePriority a < tc_cascadePriority b \<or>
      tc_cascadePriority a = tc_cascadePriority b \<and> tc_id a < tc_id b) (js_sort compareCategories cs)"
    if "distinct (map tc_id cs)"
  proof -
    have "distinct (map tc_id (js_sort compareCategories cs))" using that by simp
    with compareCategories_sorted [of cs] show ?thesis
      by (auto simp: sorted_wrt_iff_nth_less distinct_conv_nth order_le_less)
  qed
  then show ?thesis
    by (auto simp: sortTaxCategories_def Let_def list_ex_iff not_le)
       (force simp: not_less)
qed

theorem sortTaxCategories_correct_witness:
  "let e = \<lparr>tc_id = ''z'', tc_countryCode = ''SA'', tc_code = ''tobacco'', tc_kind = standard,
            tc_taxFamily = excise, tc_cascadePriority = 10, tc_isActive = True\<rparr>;
       v = \<lparr>tc_id = ''a'', tc_countryCode = ''SA'', tc_code = ''vat'', tc_kind = standard,
            tc_taxFamily = vat, tc_cascadePriority = 20, tc_isActive = True\<rparr>
   in sortTaxCategories [v, e] = Inr [e, v] \<and> mset [e, v] = mset [v, e] \<and>
      \<not> isOk (sortTaxCategories [v, e, v])"
  using sortTaxCategories_correct
    [of "[\<lparr>tc_id = ''a'', tc_countryCode = ''SA'', tc_code = ''vat'', tc_kind = standard,
            tc_taxFamily = vat, tc_cascadePriority = 20, tc_isActive = True\<rparr>,
          \<lparr>tc_id = ''z'', tc_countryCode = ''SA'', tc_code = ''tobacco'', tc_kind = standard,
            tc_taxFamily = excise, tc_cascadePriority = 10, tc_isActive = True\<rparr>,
          \<lparr>tc_id = ''a'', tc_countryCode = ''SA'', tc_code = ''vat'', tc_kind = standard,
            tc_taxFamily = vat, tc_cascadePriority = 20, tc_isActive = True\<rparr>]"]
  by (simp add: sortTaxCategories_def compareCategories_def)

end
