(* ===== verification/Cascading.thy ===== *)
theory Cascading
  imports Tax_Rules
begin

text \<open>
  Model of \<^verbatim>\<open>src/application/engines/tax/cascading.ts\<close>. Taxes of an order are computed one cascade
  priority at a time, over all lines at once: the works of a priority are grouped by rate and
  currency, each group is rounded per line or once for the invoice, and only the exclusive taxes
  of a finished priority enter the bases of the next one.

  The JavaScript maps are association lists in insertion order; the group id
  \<open>JSON.stringify([rate.id, rate.rateBps, inclusive, currency])\<close> is the tuple itself, since the
  encoding of these four values is injective.
\<close>

section \<open>Plans, works and rows\<close>

record applicable_tax =
  at_category :: tax_category
  at_rate :: tax_rate

record tax_computation_plan =
  pl_orderLineId :: string
  pl_amountMinor :: int
  pl_currencyCode :: string
  pl_taxes :: "applicable_tax list"

record tax_work =
  w_lineId :: string
  w_currencyCode :: string
  w_base :: int
  w_sequence :: int
  w_tax :: applicable_tax

type_synonym group_key = "string \<times> int \<times> bool \<times> string"
type_synonym work_groups = "(group_key \<times> tax_work list) list"
type_synonym rows_map = "(string \<times> resolved_tax_line list) list"
type_synonym totals_map = "(string \<times> int) list"

record cascade_setup =
  cs_taxesByLine :: "(string \<times> applicable_tax list) list"
  cs_result :: rows_map
  cs_lowerPriorityTotals :: totals_map
  cs_priorities :: "int list"

text \<open>\<open>map.get(k) ?? d\<close>\<close>

definition get_or :: "('k \<times> 'v) list \<Rightarrow> 'k \<Rightarrow> 'v \<Rightarrow> 'v" where
  "get_or m k d = (case map_of m k of None \<Rightarrow> d | Some v \<Rightarrow> v)"

section \<open>First loop: validation and ordering of every plan\<close>

text \<open>\<open>priorities.add(category.cascadePriority)\<close>: a set in insertion order.\<close>

definition add_priority :: "int list \<Rightarrow> int \<Rightarrow> int list" where
  "add_priority ps p = (if p \<in> set ps then ps else ps @ [p])"

definition orderTaxes :: "applicable_tax list \<Rightarrow> tax_category list \<Rightarrow> applicable_tax list result" where
  "orderTaxes taxes cats =
     mapR (\<lambda>category.
       case find (\<lambda>t. tc_id (at_category t) = tc_id category) taxes of
         None \<Rightarrow> Inl TaxConfigurationError
       | Some tax \<Rightarrow>
           if tr_taxCategoryId (at_rate tax) \<noteq> tc_id category then Inl TaxConfigurationError
           else Inr tax) cats"

definition setupPlan :: "cascade_setup \<Rightarrow> tax_computation_plan \<Rightarrow> cascade_setup result" where
  "setupPlan s plan =
     andThen (assertTaxAmount (pl_amountMinor plan)) (\<lambda>_.
     if map_of (cs_result s) (pl_orderLineId plan) \<noteq> None then Inl TaxConfigurationError
     else if pl_taxes plan = [] \<or> length (pl_taxes plan) > 32767 then Inl TaxConfigurationError
     else
     andThen (sortTaxCategories (map at_category (pl_taxes plan))) (\<lambda>cats.
     andThen (orderTaxes (pl_taxes plan) cats) (\<lambda>ordered.
       Inr \<lparr>cs_taxesByLine = AList.update (pl_orderLineId plan) ordered (cs_taxesByLine s),
            cs_result = AList.update (pl_orderLineId plan) [] (cs_result s),
            cs_lowerPriorityTotals =
              AList.update (pl_orderLineId plan) 0 (cs_lowerPriorityTotals s),
            cs_priorities = foldl add_priority (cs_priorities s)
              (map tc_cascadePriority cats)\<rparr>)))"

section \<open>Second loop: one priority at a time\<close>

definition group_key :: "tax_work \<Rightarrow> group_key" where
  "group_key w =
     (let rate = at_rate (w_tax w)
      in (tr_id rate, tr_rateBps rate, tr_isPriceInclusiveDefault rate, w_currencyCode w))"

definition addWork :: "work_groups \<Rightarrow> tax_work \<Rightarrow> work_groups" where
  "addWork groups w = AList.update (group_key w) (get_or groups (group_key w) [] @ [w]) groups"

text \<open>\<open>taxes.forEach((tax, index) => \<dots>)\<close>: the works of one line at this priority.\<close>

definition planWorks :: "int \<Rightarrow> tax_computation_plan \<Rightarrow> int \<Rightarrow> applicable_tax list \<Rightarrow> tax_work list" where
  "planWorks priority plan base taxes =
     map (\<lambda>(tax, index). \<lparr>w_lineId = pl_orderLineId plan, w_currencyCode = pl_currencyCode plan,
            w_base = base, w_sequence = int index + 1, w_tax = tax\<rparr>)
       (filter (\<lambda>(tax, index). tc_cascadePriority (at_category tax) = priority)
         (zip taxes [0..<length taxes]))"

definition collectPlan ::
  "int \<Rightarrow> (string \<times> applicable_tax list) list \<Rightarrow> totals_map \<Rightarrow> work_groups \<Rightarrow>
   tax_computation_plan \<Rightarrow> work_groups result" where
  "collectPlan priority taxesByLine lower groups plan =
     (let taxes = get_or taxesByLine (pl_orderLineId plan) [];
          base = pl_amountMinor plan + get_or lower (pl_orderLineId plan) 0
      in andThen (assertTaxAmount base) (\<lambda>_.
           Inr (foldl addWork groups (planWorks priority plan base taxes))))"

definition taxRow :: "tax_rate \<Rightarrow> tax_work \<Rightarrow> int \<Rightarrow> resolved_tax_line" where
  "taxRow rate work taxAmount =
     \<lparr>rl_source = tr_source (at_rate (w_tax work)),
      rl_taxRateId = tr_id rate,
      rl_taxFamily = tc_taxFamily (at_category (w_tax work)),
      rl_computationSequence = w_sequence work,
      rl_liableParty = restaurant,
      rl_rateBps = tr_rateBps rate,
      rl_isPriceInclusive = tr_isPriceInclusiveDefault rate,
      rl_taxableAmountMinor =
        (if tr_isPriceInclusiveDefault rate then w_base work - taxAmount else w_base work),
      rl_taxAmountMinor = taxAmount\<rparr>"

text \<open>\<open>result.get(work.lineId)?.push(row)\<close>\<close>

definition pushRow :: "rows_map \<Rightarrow> string \<Rightarrow> resolved_tax_line \<Rightarrow> rows_map" where
  "pushRow rows lineId row =
     (case map_of rows lineId of
        None \<Rightarrow> rows
      | Some rs \<Rightarrow> AList.update lineId (rs @ [row]) rows)"

definition processWork ::
  "tax_rate \<Rightarrow> (string \<times> int) list option \<Rightarrow> rows_map \<times> totals_map \<Rightarrow> tax_work \<Rightarrow>
   (rows_map \<times> totals_map) result" where
  "processWork rate allocations st work =
     andThen (case allocations of
                None \<Rightarrow> mapResult (calculateTaxAmount (w_base work) (tr_rateBps rate)
                          (tr_isPriceInclusiveDefault rate)) taxAmountMinor
              | Some am \<Rightarrow> (case map_of am (w_lineId work) of
                             None \<Rightarrow> Inl TaxConfigurationError | Some v \<Rightarrow> Inr v)) (\<lambda>taxAmount.
       Inr (pushRow (fst st) (w_lineId work) (taxRow rate work taxAmount),
            if \<not> tr_isPriceInclusiveDefault rate
            then AList.update (w_lineId work) (get_or (snd st) (w_lineId work) 0 + taxAmount) (snd st)
            else snd st))"

definition processGroup ::
  "tax_rounding_strategy \<Rightarrow> rows_map \<times> totals_map \<Rightarrow> tax_work list \<Rightarrow>
   (rows_map \<times> totals_map) result" where
  "processGroup strategy st works =
     (case works of
        [] \<Rightarrow> Inr st
      | first # _ \<Rightarrow>
          let rate = at_rate (w_tax first) in
          andThen (if strategy = invoice_total
                   then mapResult (allocateInvoiceTax
                          (map (\<lambda>w. \<lparr>share_id = w_lineId w, share_amount = w_base w\<rparr>) works)
                          (tr_rateBps rate) (tr_isPriceInclusiveDefault rate)) Some
                   else Inr None) (\<lambda>allocations.
            foldR (processWork rate allocations) st works))"

definition advanceTotals :: "totals_map \<Rightarrow> string \<times> int \<Rightarrow> totals_map" where
  "advanceTotals lower p = AList.update (fst p) (get_or lower (fst p) 0 + snd p) lower"

definition processPriority ::
  "tax_rounding_strategy \<Rightarrow> tax_computation_plan list \<Rightarrow> (string \<times> applicable_tax list) list \<Rightarrow>
   rows_map \<times> totals_map \<Rightarrow> int \<Rightarrow> (rows_map \<times> totals_map) result" where
  "processPriority strategy plans taxesByLine st priority =
     andThen (foldR (collectPlan priority taxesByLine (snd st)) [] plans) (\<lambda>groups.
     andThen (foldR (processGroup strategy) (fst st, []) (map snd groups)) (\<lambda>(rows, atThisPriority).
       Inr (rows, foldl advanceTotals (snd st) atThisPriority)))"

definition calculateCascadingTaxes ::
  "tax_computation_plan list \<Rightarrow> tax_rounding_strategy \<Rightarrow> rows_map result" where
  "calculateCascadingTaxes plans strategy =
     andThen (foldR setupPlan \<lparr>cs_taxesByLine = [], cs_result = [], cs_lowerPriorityTotals = [],
                               cs_priorities = []\<rparr> plans) (\<lambda>s.
     andThen (foldR (processPriority strategy plans (cs_taxesByLine s))
               (cs_result s, cs_lowerPriorityTotals s)
               (js_sort (\<lambda>a b. a - b) (cs_priorities s))) (\<lambda>(rows, _).
       Inr (map (\<lambda>(k, rs). (k, js_sort (\<lambda>a b. rl_computationSequence a - rl_computationSequence b) rs))
              rows)))"

section \<open>What one work, one group and one priority emit\<close>

abbreviation prio :: "applicable_tax \<Rightarrow> int" where
  "prio t \<equiv> tc_cascadePriority (at_category t)"

definition excl_tax :: "resolved_tax_line \<Rightarrow> int" where
  "excl_tax r = (if rl_isPriceInclusive r then 0 else rl_taxAmountMinor r)"

text \<open>
  The row a work leads to: its fields are those of the work and its rate, its tax is a rounding of
  the exact tax, and under per-line rounding it is the computed tax of the work's base.
\<close>

definition row_for :: "tax_rounding_strategy \<Rightarrow> tax_work \<Rightarrow> resolved_tax_line \<Rightarrow> bool" where
  "row_for strategy w r \<longleftrightarrow>
     r = taxRow (at_rate (w_tax w)) w (rl_taxAmountMinor r) \<and>
     near_tax (w_base w) (tr_rateBps (at_rate (w_tax w)))
       (tr_isPriceInclusiveDefault (at_rate (w_tax w))) (rl_taxAmountMinor r) \<and>
     (strategy = per_line \<longrightarrow>
        mapResult (calculateTaxAmount (w_base w) (tr_rateBps (at_rate (w_tax w)))
          (tr_isPriceInclusiveDefault (at_rate (w_tax w)))) taxAmountMinor =
        Inr (rl_taxAmountMinor r))"

definition of_line :: "string \<Rightarrow> (tax_work \<times> resolved_tax_line) list \<Rightarrow> resolved_tax_line list" where
  "of_line l em = map snd (filter (\<lambda>(w, r). w_lineId w = l) em)"

text \<open>The allocations of a group, when there are any, are roundings of the exact taxes of its works.\<close>

definition near_allocation :: "(string \<times> int) list option \<Rightarrow> tax_rate \<Rightarrow> tax_work \<Rightarrow> bool" where
  "near_allocation al rate w \<longleftrightarrow> (\<forall>am v. al = Some am \<longrightarrow> map_of am (w_lineId w) = Some v \<longrightarrow>
     near_tax (w_base w) (tr_rateBps rate) (tr_isPriceInclusiveDefault rate) v)"

lemma calculateTaxAmount_near:
  "calculateTaxAmount base bps incl = Inr c \<Longrightarrow> near_tax base bps incl (taxAmountMinor c)"
  by (auto simp: calculateTaxAmount_def result_simps roundTaxHalfUp_Inr_iff intro!: half_up_near_tax)

text \<open>
  \<open>emitted em st st'\<close>: from \<open>st\<close> to \<open>st'\<close> the rows of \<open>em\<close> were pushed, in order, to their lines,
  and their exclusive taxes were added to the running totals.
\<close>

definition emitted ::
  "(tax_work \<times> resolved_tax_line) list \<Rightarrow> rows_map \<times> totals_map \<Rightarrow> rows_map \<times> totals_map \<Rightarrow> bool" where
  "emitted em st st' \<longleftrightarrow>
     map fst (fst st') = map fst (fst st) \<and>
     (distinct (map fst (snd st)) \<longrightarrow> distinct (map fst (snd st'))) \<and>
     (\<forall>l. get_or (fst st') l [] = get_or (fst st) l [] @ of_line l em) \<and>
     (\<forall>l. get_or (snd st') l 0 = get_or (snd st) l 0 + (\<Sum>r\<leftarrow>of_line l em. excl_tax r))"

lemma emitted_Nil: "emitted [] st st"
  by (simp add: emitted_def of_line_def)

lemma emitted_append: "emitted em st st' \<Longrightarrow> emitted em' st' st'' \<Longrightarrow> emitted (em @ em') st st''"
  by (auto simp: emitted_def of_line_def)

lemma get_or_update: "get_or (AList.update k v m) l d = (if l = k then v else get_or m l d)"
  by (simp add: get_or_def update_conv')

lemma map_fst_update_known: "k \<in> fst ` set m \<Longrightarrow> map fst (AList.update k v m) = map fst m"
  by (simp add: map_fst_update)

lemma taxRow_same_group:
  "group_key w = group_key w' \<Longrightarrow> taxRow (at_rate (w_tax w')) w t = taxRow (at_rate (w_tax w)) w t"
  by (simp add: group_key_def taxRow_def Let_def)

lemma processWork_emits:
  assumes step: "processWork (at_rate (w_tax first)) al st w = Inr st'"
    and key: "group_key w = group_key first"
    and line: "w_lineId w \<in> fst ` set (fst st)"
    and al: "strategy = per_line \<longrightarrow> al = None" and near: "near_allocation al (at_rate (w_tax first)) w"
  shows "\<exists>r. emitted [(w, r)] st st' \<and> row_for strategy w r"
proof -
  let ?rate = "at_rate (w_tax first)"
  from step obtain t where t: "(case al of
        None \<Rightarrow> mapResult (calculateTaxAmount (w_base w) (tr_rateBps ?rate)
                  (tr_isPriceInclusiveDefault ?rate)) taxAmountMinor
      | Some am \<Rightarrow> (case map_of am (w_lineId w) of
                     None \<Rightarrow> Inl TaxConfigurationError | Some v \<Rightarrow> Inr v)) = Inr t"
    and st': "st' = (pushRow (fst st) (w_lineId w) (taxRow ?rate w t),
            if \<not> tr_isPriceInclusiveDefault ?rate
            then AList.update (w_lineId w) (get_or (snd st) (w_lineId w) 0 + t) (snd st)
            else snd st)"
    unfolding processWork_def andThen_Inr_iff by auto
  define r where "r = taxRow (at_rate (w_tax w)) w t"
  have row: "taxRow ?rate w t = r" using taxRow_same_group [OF key] by (simp add: r_def)
  have rate: "tr_rateBps ?rate = tr_rateBps (at_rate (w_tax w))"
    "tr_isPriceInclusiveDefault ?rate = tr_isPriceInclusiveDefault (at_rate (w_tax w))"
    using key by (simp_all add: group_key_def Let_def)
  obtain rs where rs: "map_of (fst st) (w_lineId w) = Some rs"
    using line by (metis map_of_eq_None_iff not_None_eq)
  have "emitted [(w, r)] st st'"
    unfolding emitted_def st' row using line rate
    by (auto simp: pushRow_def rs map_fst_update_known get_or_update of_line_def distinct_update
        excl_tax_def r_def taxRow_def)
       (simp_all add: get_or_def rs)
  moreover have "near_tax (w_base w) (tr_rateBps (at_rate (w_tax w)))
      (tr_isPriceInclusiveDefault (at_rate (w_tax w))) t"
    using t near rate calculateTaxAmount_near
    by (auto simp: near_allocation_def result_simps split: option.splits)
  then have "row_for strategy w r"
    using t al rate by (auto simp: row_for_def r_def taxRow_def)
  ultimately show ?thesis by blast
qed

lemma emitted_keys: "emitted em st st' \<Longrightarrow> fst ` set (fst st') = fst ` set (fst st)"
  by (auto simp: emitted_def simp flip: set_map)

lemma processWorks_emit:
  assumes "foldR (processWork (at_rate (w_tax first)) al) st ws = Inr st'"
    and "\<forall>w\<in>set ws. group_key w = group_key first \<and> w_lineId w \<in> fst ` set (fst st)"
    and "strategy = per_line \<longrightarrow> al = None"
    and "\<forall>w\<in>set ws. near_allocation al (at_rate (w_tax first)) w"
  shows "\<exists>em. map fst em = ws \<and> emitted em st st' \<and> (\<forall>(w, r)\<in>set em. row_for strategy w r)"
  using assms
proof (induction ws arbitrary: st)
  case Nil
  then show ?case using emitted_Nil by auto
next
  case (Cons w ws)
  then obtain st1 where st1: "processWork (at_rate (w_tax first)) al st w = Inr st1"
    and rest: "foldR (processWork (at_rate (w_tax first)) al) st1 ws = Inr st'"
    by (auto simp: andThen_Inr_iff)
  from processWork_emits [OF st1, of strategy] Cons.prems obtain r where
    r: "emitted [(w, r)] st st1" "row_for strategy w r" by auto
  have "\<forall>w\<in>set ws. group_key w = group_key first \<and> w_lineId w \<in> fst ` set (fst st1)"
    using Cons.prems(2) emitted_keys [OF r(1)] by simp
  from Cons.IH [OF rest this Cons.prems(3)] Cons.prems(4) obtain em where
    "map fst em = ws" "emitted em st1 st'" "\<forall>(w, r)\<in>set em. row_for strategy w r" by auto
  with r emitted_append [OF r(1)] show ?case by (intro exI [of _ "(w, r) # em"]) auto
qed

lemma processGroup_emits:
  assumes "processGroup strategy st ws = Inr st'"
    and "\<forall>w\<in>set ws. group_key w = k \<and> w_lineId w \<in> fst ` set (fst st)"
  shows "\<exists>em. map fst em = ws \<and> emitted em st st' \<and> (\<forall>(w, r)\<in>set em. row_for strategy w r)"
proof (cases ws)
  case Nil
  with assms show ?thesis using emitted_Nil by (auto simp: processGroup_def)
next
  case (Cons first ws')
  with assms(1) obtain al where
    al: "(if strategy = invoice_total
          then mapResult (allocateInvoiceTax
                 (map (\<lambda>w. \<lparr>share_id = w_lineId w, share_amount = w_base w\<rparr>) ws)
                 (tr_rateBps (at_rate (w_tax first)))
                 (tr_isPriceInclusiveDefault (at_rate (w_tax first)))) Some
          else Inr None) = Inr al"
    and run: "foldR (processWork (at_rate (w_tax first)) al) st ws = Inr st'"
    by (auto simp: processGroup_def Let_def andThen_Inr_iff split: if_splits)
  have "near_allocation al (at_rate (w_tax first)) w" if "w \<in> set ws" for w
    using al allocateInvoiceTax_near that
    by (fastforce simp: near_allocation_def result_simps split: if_splits)
  moreover have "strategy = per_line \<longrightarrow> al = None" using al by auto
  ultimately show ?thesis using processWorks_emit [OF run] assms(2) Cons by auto
qed

lemma processGroups_emit:
  assumes "foldR (processGroup strategy) st gs = Inr st'"
    and "\<forall>ws\<in>set gs. \<exists>k. \<forall>w\<in>set ws. group_key w = k \<and> w_lineId w \<in> fst ` set (fst st)"
  shows "\<exists>em. map fst em = concat gs \<and> emitted em st st' \<and> (\<forall>(w, r)\<in>set em. row_for strategy w r)"
  using assms
proof (induction gs arbitrary: st)
  case Nil
  then show ?case using emitted_Nil by auto
next
  case (Cons g gs)
  then obtain st1 where st1: "processGroup strategy st g = Inr st1"
    and rest: "foldR (processGroup strategy) st1 gs = Inr st'"
    by (auto simp: andThen_Inr_iff)
  from Cons.prems(2) obtain k where
    "\<forall>w\<in>set g. group_key w = k \<and> w_lineId w \<in> fst ` set (fst st)"
    by (meson list.set_intros(1))
  from processGroup_emits [OF st1 this] obtain em where
    em: "map fst em = g" "emitted em st st1" "\<forall>(w, r)\<in>set em. row_for strategy w r" by blast
  have "\<forall>ws\<in>set gs. \<exists>k. \<forall>w\<in>set ws. group_key w = k \<and> w_lineId w \<in> fst ` set (fst st1)"
    using Cons.prems(2) emitted_keys [OF em(2)] by simp
  from Cons.IH [OF rest this] obtain em' where
    "map fst em' = concat gs" "emitted em' st1 st'" "\<forall>(w, r)\<in>set em'. row_for strategy w r" by blast
  with em emitted_append [OF em(2)] show ?case by (intro exI [of _ "em @ em'"]) auto
qed

lemma advanceTotals_sum:
  "distinct (map fst at) \<Longrightarrow>
     get_or (foldl advanceTotals lower at) l 0 = get_or lower l 0 + get_or at l (0::int)"
proof (induction at arbitrary: lower)
  case Nil
  then show ?case by (simp add: get_or_def)
next
  case (Cons p at)
  have "map_of at (fst p) = None" using Cons.prems by (simp add: map_of_eq_None_iff)
  then have "get_or at (fst p) 0 = 0" by (simp add: get_or_def)
  with Cons show ?case
    by (cases p) (auto simp: advanceTotals_def get_or_update, simp_all add: get_or_def)
qed

section \<open>The works of one priority\<close>

definition groups_inv :: "work_groups \<Rightarrow> bool" where
  "groups_inv gs \<longleftrightarrow> distinct (map fst gs) \<and> (\<forall>(k, ws)\<in>set gs. \<forall>w\<in>set ws. group_key w = k)"

lemma mset_concat_update:
  assumes "distinct (map fst gs)"
  shows "mset (concat (map snd (AList.update k (get_or gs k [] @ [w]) gs))) =
    add_mset w (mset (concat (map snd gs)))"
  using assms
proof (induction gs)
  case Nil
  then show ?case by (simp add: get_or_def)
next
  case (Cons p gs)
  show ?case
  proof (cases "fst p = k")
    case True
    then show ?thesis by (cases p) (simp add: get_or_def)
  next
    case False
    with Cons show ?thesis by (cases p) (simp add: get_or_def)
  qed
qed

lemma set_update_subset: "(j, v) \<in> set (AList.update k x m) \<Longrightarrow> (j, v) \<in> set m \<or> (j = k \<and> v = x)"
  by (induction m) (auto split: if_splits)

lemma addWork_inv:
  assumes "groups_inv gs"
  shows "groups_inv (addWork gs w)"
    and "mset (concat (map snd (addWork gs w))) = add_mset w (mset (concat (map snd gs)))"
proof -
  have "\<forall>w'\<in>set (get_or gs (group_key w) []). group_key w' = group_key w"
    using assms by (auto simp: groups_inv_def get_or_def dest!: map_of_SomeD split: option.splits)
  then show "groups_inv (addWork gs w)"
    using assms by (auto simp: groups_inv_def addWork_def distinct_update dest!: set_update_subset)
  show "mset (concat (map snd (addWork gs w))) = add_mset w (mset (concat (map snd gs)))"
    unfolding addWork_def using assms by (intro mset_concat_update) (simp add: groups_inv_def)
qed

lemma foldl_addWork:
  "groups_inv gs \<Longrightarrow> groups_inv (foldl addWork gs ws) \<and>
     mset (concat (map snd (foldl addWork gs ws))) = mset ws + mset (concat (map snd gs))"
  by (induction ws arbitrary: gs) (auto simp: addWork_inv)

text \<open>The works of a plan at a priority, over its ordered taxes and its current base.\<close>

abbreviation plan_base :: "totals_map \<Rightarrow> tax_computation_plan \<Rightarrow> int" where
  "plan_base lower p \<equiv> pl_amountMinor p + get_or lower (pl_orderLineId p) 0"

abbreviation plan_taxes ::
  "(string \<times> applicable_tax list) list \<Rightarrow> tax_computation_plan \<Rightarrow> applicable_tax list" where
  "plan_taxes tbl p \<equiv> get_or tbl (pl_orderLineId p) []"

lemma collectPlans:
  assumes "foldR (collectPlan q tbl lower) gs plans = Inr gs'" and "groups_inv gs"
  shows "groups_inv gs' \<and> mset (concat (map snd gs')) = mset (concat (map snd gs)) +
    mset (concat (map (\<lambda>p. planWorks q p (plan_base lower p) (plan_taxes tbl p)) plans))"
  using assms
proof (induction plans arbitrary: gs)
  case (Cons p plans)
  then obtain gs1 where "collectPlan q tbl lower gs p = Inr gs1"
    and rest: "foldR (collectPlan q tbl lower) gs1 plans = Inr gs'"
    by (auto simp: andThen_Inr_iff)
  then have gs1: "gs1 = foldl addWork gs (planWorks q p (plan_base lower p) (plan_taxes tbl p))"
    by (auto simp: collectPlan_def Let_def andThen_Inr_iff)
  note f = foldl_addWork [OF Cons.prems(2), of "planWorks q p (plan_base lower p) (plan_taxes tbl p)"]
  with Cons.IH [OF rest] gs1 show ?case by (auto simp: ac_simps)
qed simp

lemma planWorks_line: "w \<in> set (planWorks q p base ts) \<Longrightarrow> w_lineId w = pl_orderLineId p"
  by (auto simp: planWorks_def)

lemma filter_concat_line:
  assumes "distinct (map pl_orderLineId plans)" "p \<in> set plans"
  shows "filter (\<lambda>w. w_lineId w = pl_orderLineId p)
      (concat (map (\<lambda>p. planWorks q p (b p) (t p)) plans)) = planWorks q p (b p) (t p)"
  using assms
proof (induction plans)
  case (Cons p' plans)
  show ?case
  proof (cases "p = p'")
    case True
    have "filter (\<lambda>w. w_lineId w = pl_orderLineId p) (concat (map (\<lambda>p. planWorks q p (b p) (t p)) plans)) = []"
      using Cons.prems True by (auto simp: filter_empty_conv) (metis image_eqI planWorks_line)
    then show ?thesis using True by (auto simp: filter_id_conv dest: planWorks_line)
  next
    case False
    with Cons.prems have "pl_orderLineId p \<noteq> pl_orderLineId p'" "p \<in> set plans"
      by (auto, metis image_eqI)
    then have "filter (\<lambda>w. w_lineId w = pl_orderLineId p) (planWorks q p' (b p') (t p')) = []"
      by (auto simp: filter_empty_conv dest: planWorks_line)
    with Cons \<open>p \<in> set plans\<close> show ?thesis by simp
  qed
qed simp

text \<open>
  One priority, seen from one line: its new rows are the rows of its works at that priority, and
  its total grows by their exclusive taxes.
\<close>

lemma processPriority_line:
  assumes step: "processPriority strategy plans tbl (rows, lower) q = Inr (rows', lower')"
    and ids: "distinct (map pl_orderLineId plans)"
    and keys: "map fst rows = map pl_orderLineId plans"
    and p: "p \<in> set plans"
  shows "\<exists>em. mset (map fst em) = mset (planWorks q p (plan_base lower p) (plan_taxes tbl p)) \<and>
     (\<forall>(w, r)\<in>set em. row_for strategy w r) \<and>
     get_or rows' (pl_orderLineId p) [] = get_or rows (pl_orderLineId p) [] @ map snd em \<and>
     get_or lower' (pl_orderLineId p) 0 =
       get_or lower (pl_orderLineId p) 0 + (\<Sum>r\<leftarrow>map snd em. excl_tax r)"
    and "map fst rows' = map fst rows"
proof -
  from step obtain gs at where
    gs: "foldR (collectPlan q tbl lower) [] plans = Inr gs"
    and run: "foldR (processGroup strategy) (rows, []) (map snd gs) = Inr (rows', at)"
    and lower': "lower' = foldl advanceTotals lower at"
    by (auto simp: processPriority_def andThen_Inr_iff)
  have "groups_inv []" by (simp add: groups_inv_def)
  from collectPlans [OF gs this] have inv: "groups_inv gs"
    and works: "mset (concat (map snd gs)) =
      mset (concat (map (\<lambda>p. planWorks q p (plan_base lower p) (plan_taxes tbl p)) plans))" by auto
  have lines: "w_lineId w \<in> fst ` set rows" if "w \<in> set (concat (map snd gs))" for w
  proof -
    have "w \<in> set (concat (map (\<lambda>p. planWorks q p (plan_base lower p) (plan_taxes tbl p)) plans))"
      using that by (simp only: mset_eq_setD [OF works])
    then obtain p where "p \<in> set plans" "w_lineId w = pl_orderLineId p"
      by (auto dest: planWorks_line)
    then have "w_lineId w \<in> set (map fst rows)" by (simp only: keys set_map image_eqI)
    then show ?thesis by (simp only: set_map)
  qed
  have "\<forall>ws\<in>set (map snd gs). \<exists>k. \<forall>w\<in>set ws. group_key w = k \<and> w_lineId w \<in> fst ` set (fst (rows, []))"
  proof
    fix ws assume "ws \<in> set (map snd gs)"
    then obtain k where k: "(k, ws) \<in> set gs" by auto
    with inv have "\<forall>w\<in>set ws. group_key w = k" by (auto simp: groups_inv_def)
    moreover have "\<forall>w\<in>set ws. w_lineId w \<in> fst ` set rows" using k lines by fastforce
    ultimately show "\<exists>k. \<forall>w\<in>set ws. group_key w = k \<and> w_lineId w \<in> fst ` set (fst (rows, []))"
      by (intro exI [of _ k]) simp
  qed
  from processGroups_emit [OF run this] obtain em where
    em: "map fst em = concat (map snd gs)" "emitted em (rows, []) (rows', at)"
      "\<forall>(w, r)\<in>set em. row_for strategy w r" by blast
  show "map fst rows' = map fst rows" using em(2) by (simp add: emitted_def)
  let ?l = "pl_orderLineId p"
  let ?em = "filter (\<lambda>(w, r). w_lineId w = ?l) em"
  have "map fst ?em = filter (\<lambda>w. w_lineId w = ?l) (map fst em)"
    by (simp add: filter_map comp_def case_prod_unfold)
  then have "mset (map fst ?em) = filter_mset (\<lambda>w. w_lineId w = ?l) (mset (concat (map snd gs)))"
    by (simp add: em(1) mset_filter)
  also have "\<dots> = mset (planWorks q p (plan_base lower p) (plan_taxes tbl p))"
    unfolding works mset_filter [symmetric] filter_concat_line [OF ids p] ..
  finally have m: "mset (map fst ?em) = mset (planWorks q p (plan_base lower p) (plan_taxes tbl p))" .
  have "distinct (map fst at)" "get_or at ?l 0 = (\<Sum>r\<leftarrow>of_line ?l em. excl_tax r)"
    "get_or rows' ?l [] = get_or rows ?l [] @ of_line ?l em"
    using em(2) by (auto simp: emitted_def get_or_def [of "[]"])
  with m em(3) show "\<exists>em. mset (map fst em) = mset (planWorks q p (plan_base lower p) (plan_taxes tbl p)) \<and>
     (\<forall>(w, r)\<in>set em. row_for strategy w r) \<and>
     get_or rows' ?l [] = get_or rows ?l [] @ map snd em \<and>
     get_or lower' ?l 0 = get_or lower ?l 0 + (\<Sum>r\<leftarrow>map snd em. excl_tax r)"
    by (intro exI [of _ ?em]) (auto simp: lower' advanceTotals_sum of_line_def)
qed

section \<open>What the first loop establishes\<close>

abbreviation category_order :: "tax_category \<Rightarrow> tax_category \<Rightarrow> bool" where
  "category_order a b \<equiv> tc_cascadePriority a < tc_cascadePriority b \<or>
     tc_cascadePriority a = tc_cascadePriority b \<and> tc_id a < tc_id b"

definition ordered_taxes :: "tax_computation_plan \<Rightarrow> applicable_tax list \<Rightarrow> bool" where
  "ordered_taxes p ts \<longleftrightarrow>
     mset ts = mset (pl_taxes p) \<and> sorted_wrt category_order (map at_category ts)"

lemma sortTaxCategories_Inr:
  assumes "sortTaxCategories cs = Inr ds"
  shows "mset ds = mset cs" "sorted_wrt category_order ds" "distinct (map tc_id cs)"
proof -
  have distinct: "distinct (map tc_id cs)" and ds: "ds = js_sort compareCategories cs"
    using assms by (auto simp: sortTaxCategories_def Let_def split: if_splits)
  then show "mset ds = mset cs" "distinct (map tc_id cs)" by simp_all
  have "distinct (map tc_id ds)" using distinct ds by simp
  with compareCategories_sorted [of cs] show "sorted_wrt category_order ds"
    by (auto simp: ds sorted_wrt_iff_nth_less distinct_conv_nth order_le_less)
qed

lemma orderTaxes_correct:
  assumes sort: "sortTaxCategories (map at_category taxes) = Inr cats"
    and order: "orderTaxes taxes cats = Inr ts"
  shows "mset ts = mset taxes" "map at_category ts = cats"
proof -
  note cats = sortTaxCategories_Inr [OF sort]
  have ids: "distinct (map (tc_id \<circ> at_category) taxes)" using cats(3) by simp
  have inj: "t = t'" if "t \<in> set taxes" "t' \<in> set taxes"
    "tc_id (at_category t) = tc_id (at_category t')" for t t'
    using that ids by (auto simp: distinct_map inj_on_def)
  have setc: "set cats = at_category ` set taxes" using mset_eq_setD [OF cats(1)] by simp
  have found: "t \<in> set taxes \<and> at_category t = c"
    if "c \<in> set cats" "(case find (\<lambda>t. tc_id (at_category t) = tc_id c) taxes of
         None \<Rightarrow> Inl TaxConfigurationError
       | Some tax \<Rightarrow> if tr_taxCategoryId (at_rate tax) \<noteq> tc_id c then Inl TaxConfigurationError
                     else Inr tax) = Inr t" for c t
    using that setc inj by (auto simp: find_Some_iff in_set_conv_nth split: option.splits if_splits)
      (metis in_set_conv_nth)+
  have len: "length ts = length cats" using order unfolding orderTaxes_def by (rule mapR_length)
  have all: "\<forall>i<length cats. ts ! i \<in> set taxes \<and> at_category (ts ! i) = cats ! i"
    by (intro allI impI found [OF nth_mem] list_all2_nthD [OF order [unfolded orderTaxes_def mapR_all2]])
  with len show mapc: "map at_category ts = cats" by (auto intro: nth_equalityI)
  have "distinct (map tc_id cats)"
    using cats(1,3) by (metis mset_map mset_eq_imp_distinct_iff)
  then have dt: "distinct ts" using distinct_map by (metis mapc)
  have sub: "set ts \<subseteq> set taxes" using all len by (auto simp: in_set_conv_nth)
  have "set taxes \<subseteq> set ts"
  proof
    fix t assume t: "t \<in> set taxes"
    then have "at_category t \<in> set cats" using setc by simp
    then obtain t' where "t' \<in> set ts" "at_category t' = at_category t" using mapc by auto
    moreover from this sub have "t = t'" by (intro inj [OF t]) auto
    ultimately show "t \<in> set ts" by simp
  qed
  with sub show "mset ts = mset taxes"
    using dt ids distinct_map by (metis set_eq_iff_mset_eq_distinct subset_antisym)
qed

definition setup_inv :: "tax_computation_plan list \<Rightarrow> cascade_setup \<Rightarrow> bool" where
  "setup_inv pre s \<longleftrightarrow>
     distinct (map pl_orderLineId pre) \<and> map fst (cs_result s) = map pl_orderLineId pre \<and>
     (\<forall>l. get_or (cs_result s) l [] = []) \<and> (\<forall>l. get_or (cs_lowerPriorityTotals s) l 0 = 0) \<and>
     distinct (cs_priorities s) \<and>
     (\<forall>p\<in>set pre. ordered_taxes p (plan_taxes (cs_taxesByLine s) p) \<and>
        prio ` set (plan_taxes (cs_taxesByLine s) p) \<subseteq> set (cs_priorities s))"

lemma foldl_add_priority:
  "distinct ps \<Longrightarrow> distinct (foldl add_priority ps qs) \<and> set (foldl add_priority ps qs) = set ps \<union> set qs"
  by (induction qs arbitrary: ps) (auto simp: add_priority_def)

lemma setupPlan_inv:
  assumes "setupPlan s p = Inr s'" and inv: "setup_inv pre s"
  shows "setup_inv (pre @ [p]) s'"
proof -
  from assms(1) obtain cats ts where
    fresh: "map_of (cs_result s) (pl_orderLineId p) = None"
    and sort: "sortTaxCategories (map at_category (pl_taxes p)) = Inr cats"
    and order: "orderTaxes (pl_taxes p) cats = Inr ts"
    and s': "s' = \<lparr>cs_taxesByLine = AList.update (pl_orderLineId p) ts (cs_taxesByLine s),
            cs_result = AList.update (pl_orderLineId p) [] (cs_result s),
            cs_lowerPriorityTotals = AList.update (pl_orderLineId p) 0 (cs_lowerPriorityTotals s),
            cs_priorities = foldl add_priority (cs_priorities s) (map tc_cascadePriority cats)\<rparr>"
    by (auto simp: setupPlan_def andThen_Inr_iff split: if_splits)
  note ts = orderTaxes_correct [OF sort order]
  have keys: "fst ` set (cs_result s) = pl_orderLineId ` set pre"
    using inv by (metis setup_inv_def set_map)
  then have new: "pl_orderLineId p \<notin> pl_orderLineId ` set pre"
    using fresh by (simp add: map_of_eq_None_iff)
  have ord: "ordered_taxes p ts"
    using ts sortTaxCategories_Inr(2) [OF sort] by (simp add: ordered_taxes_def)
  have pr: "prio ` set ts = tc_cascadePriority ` set cats" using ts(2) by (metis image_image set_map)
  have old: "plan_taxes (cs_taxesByLine s') p' = plan_taxes (cs_taxesByLine s) p'" if "p' \<in> set pre" for p'
  proof -
    have "pl_orderLineId p' \<noteq> pl_orderLineId p" using that new by (metis image_eqI)
    then show ?thesis by (simp add: s' get_or_update)
  qed
  have prios: "distinct (cs_priorities s')"
    "set (cs_priorities s') = set (cs_priorities s) \<union> tc_cascadePriority ` set cats"
    using inv foldl_add_priority [of "cs_priorities s" "map tc_cascadePriority cats"]
    by (auto simp: s' setup_inv_def)
  have "plan_taxes (cs_taxesByLine s') p = ts" by (simp add: s' get_or_update)
  moreover have "ordered_taxes p' (plan_taxes (cs_taxesByLine s) p') \<and>
      prio ` set (plan_taxes (cs_taxesByLine s) p') \<subseteq> set (cs_priorities s)" if "p' \<in> set pre" for p'
    using inv that unfolding setup_inv_def by blast
  ultimately have "\<forall>p'\<in>set (pre @ [p]). ordered_taxes p' (plan_taxes (cs_taxesByLine s') p') \<and>
      prio ` set (plan_taxes (cs_taxesByLine s') p') \<subseteq> set (cs_priorities s')"
    using ord pr old prios(2) by simp blast
  then show ?thesis
    using inv new keys prios(1) unfolding setup_inv_def by (auto simp: s' get_or_update map_fst_update)
qed

lemma setupPlans_inv:
  "foldR setupPlan s plans = Inr s' \<Longrightarrow> setup_inv pre s \<Longrightarrow> setup_inv (pre @ plans) s'"
proof (induction plans arbitrary: s pre)
  case (Cons p plans)
  then obtain s1 where "setupPlan s p = Inr s1" and "foldR setupPlan s1 plans = Inr s'"
    by (auto simp: andThen_Inr_iff)
  with Cons.IH [of s1 "pre @ [p]"] setupPlan_inv Cons.prems(2) show ?case by simp
qed simp

section \<open>The cascade law\<close>

text \<open>The tax of a row, and the sum of the exclusive taxes of strictly lower priorities.\<close>

definition row_tax :: "applicable_tax list \<Rightarrow> resolved_tax_line \<Rightarrow> applicable_tax" where
  "row_tax ts r = ts ! nat (rl_computationSequence r - 1)"

definition lower_sum :: "applicable_tax list \<Rightarrow> resolved_tax_line list \<Rightarrow> int \<Rightarrow> int" where
  "lower_sum ts rs q = (\<Sum>r\<leftarrow>filter (\<lambda>r. prio (row_tax ts r) < q) rs. excl_tax r)"

definition row_ok ::
  "tax_rounding_strategy \<Rightarrow> tax_computation_plan \<Rightarrow> applicable_tax list \<Rightarrow> resolved_tax_line list \<Rightarrow>
   resolved_tax_line \<Rightarrow> bool" where
  "row_ok strategy p ts rs r \<longleftrightarrow>
     row_for strategy \<lparr>w_lineId = pl_orderLineId p, w_currencyCode = pl_currencyCode p,
       w_base = pl_amountMinor p + lower_sum ts rs (prio (row_tax ts r)),
       w_sequence = rl_computationSequence r, w_tax = row_tax ts r\<rparr> r"

definition sequences :: "applicable_tax list \<Rightarrow> int set \<Rightarrow> int list" where
  "sequences ts D = map (\<lambda>i. int i + 1) (filter (\<lambda>i. prio (ts ! i) \<in> D) [0..<length ts])"

definition line_inv ::
  "tax_rounding_strategy \<Rightarrow> tax_computation_plan \<Rightarrow> applicable_tax list \<Rightarrow> int set \<Rightarrow>
   resolved_tax_line list \<Rightarrow> int \<Rightarrow> bool" where
  "line_inv strategy p ts D rs tot \<longleftrightarrow>
     mset (map rl_computationSequence rs) = mset (sequences ts D) \<and>
     tot = (\<Sum>r\<leftarrow>rs. excl_tax r) \<and> (\<forall>r\<in>set rs. row_ok strategy p ts rs r)"

lemma sequences_prio:
  "k \<in> set (sequences ts D) \<Longrightarrow> prio (ts ! nat (k - 1)) \<in> D \<and> 1 \<le> k \<and> k \<le> int (length ts)"
  by (auto simp: sequences_def)

lemma line_inv_prio:
  assumes "line_inv strategy p ts D rs tot" "r \<in> set rs"
  shows "prio (row_tax ts r) \<in> D"
proof -
  have "set (map rl_computationSequence rs) = set (sequences ts D)"
    using assms(1) unfolding line_inv_def by (elim conjE) (rule mset_eq_setD)
  with assms(2) have "rl_computationSequence r \<in> set (sequences ts D)" by auto
  from sequences_prio [OF this] show ?thesis by (simp add: row_tax_def)
qed

lemma row_for_row: "row_for strategy w r \<Longrightarrow> \<exists>t. r = taxRow (at_rate (w_tax w)) w t"
  unfolding row_for_def by blast

lemma row_for_sequence: "row_for strategy w r \<Longrightarrow> rl_computationSequence r = w_sequence w"
  by (drule row_for_row) (auto simp: taxRow_def)

lemma planWorks_nth:
  "w \<in> set (planWorks q p base ts) \<longleftrightarrow> (\<exists>i<length ts. prio (ts ! i) = q \<and>
     w = \<lparr>w_lineId = pl_orderLineId p, w_currencyCode = pl_currencyCode p, w_base = base,
          w_sequence = int i + 1, w_tax = ts ! i\<rparr>)"
  by (force simp: planWorks_def set_zip)

lemma planWorks_sequences: "map w_sequence (planWorks q p base ts) = sequences ts {q}"
proof -
  have "zip ts [0..<length ts] = map (\<lambda>i. (ts ! i, i)) [0..<length ts]"
    by (rule nth_equalityI) auto
  then show ?thesis by (simp add: planWorks_def sequences_def filter_map comp_def case_prod_unfold)
qed

lemma mset_sequences_insert:
  "q \<notin> D \<Longrightarrow> mset (sequences ts (insert q D)) = mset (sequences ts D) + mset (sequences ts {q})"
proof -
  assume q: "q \<notin> D"
  have "mset (filter (\<lambda>i. prio (ts ! i) \<in> insert q D) xs) =
      mset (filter (\<lambda>i. prio (ts ! i) \<in> D) xs) + mset (filter (\<lambda>i. prio (ts ! i) \<in> {q}) xs)" for xs
    using q by (induction xs) auto
  then show ?thesis unfolding sequences_def mset_map by (simp only: image_mset_union)
qed

text \<open>
  Adding the rows of the next priority keeps the law: the old rows do not see the new ones, and
  the new ones see exactly the old ones.
\<close>

lemma line_inv_step:
  assumes inv: "line_inv strategy p ts D rs tot" and q: "\<forall>d\<in>D. d < q"
    and em: "mset (map fst em) = mset (planWorks q p (pl_amountMinor p + tot) ts)"
    and rows: "\<forall>(w, r)\<in>set em. row_for strategy w r"
  shows "line_inv strategy p ts (insert q D) (rs @ map snd em)
           (tot + (\<Sum>r\<leftarrow>map snd em. excl_tax r))"
proof -
  have new: "row_tax ts r = w_tax w \<and> prio (w_tax w) = q \<and> rl_computationSequence r = w_sequence w \<and>
      w = \<lparr>w_lineId = pl_orderLineId p, w_currencyCode = pl_currencyCode p,
           w_base = pl_amountMinor p + tot, w_sequence = rl_computationSequence r,
           w_tax = row_tax ts r\<rparr>"
    if "(w, r) \<in> set em" for w r
  proof -
    have "w \<in> set (planWorks q p (pl_amountMinor p + tot) ts)"
      using that mset_eq_setD [OF em] by (metis fst_conv image_eqI set_map)
    moreover have "rl_computationSequence r = w_sequence w"
      using rows that row_for_sequence by blast
    ultimately show ?thesis by (auto simp: planWorks_nth row_tax_def)
  qed
  have old: "prio (row_tax ts r) < q" if "r \<in> set rs" for r
    using line_inv_prio [OF inv that] q by blast
  have at_q: "prio (row_tax ts r) = q" if "r \<in> set (map snd em)" for r
    using that new by fastforce
  have low: "lower_sum ts (rs @ map snd em) (prio (row_tax ts r)) = lower_sum ts rs (prio (row_tax ts r))"
    if "r \<in> set rs" for r
  proof -
    have "filter (\<lambda>r'. prio (row_tax ts r') < prio (row_tax ts r)) (map snd em) = []"
      unfolding filter_empty_conv using at_q old [OF that] by simp
    then show ?thesis by (simp only: lower_sum_def filter_append append_Nil2)
  qed
  have all: "lower_sum ts (rs @ map snd em) q = tot"
  proof -
    have "filter (\<lambda>r. prio (row_tax ts r) < q) (map snd em) = []"
      unfolding filter_empty_conv using at_q by simp
    moreover have "filter (\<lambda>r. prio (row_tax ts r) < q) rs = rs" using old by simp
    ultimately show ?thesis using inv by (simp add: lower_sum_def line_inv_def)
  qed
  have "row_ok strategy p ts (rs @ map snd em) r" if "r \<in> set (map snd em)" for r
  proof -
    from that obtain w where w: "(w, r) \<in> set em" by auto
    with rows new [OF w] all show ?thesis unfolding row_ok_def by (metis (no_types, lifting) case_prodD)
  qed
  moreover have "row_ok strategy p ts (rs @ map snd em) r" if "r \<in> set rs" for r
    using inv that low [OF that] by (simp add: line_inv_def row_ok_def)
  moreover have "map rl_computationSequence (map snd em) = map w_sequence (map fst em)"
    using new by auto
  moreover have "mset (map w_sequence (map fst em)) = mset (sequences ts {q})"
    using em by (metis mset_map planWorks_sequences)
  moreover from q have "q \<notin> D" by blast
  ultimately show ?thesis
    using inv unfolding line_inv_def set_append map_append mset_append sum_list.append
    by (simp only: mset_sequences_insert [OF \<open>q \<notin> D\<close>]) blast
qed

definition cascade_inv ::
  "tax_rounding_strategy \<Rightarrow> tax_computation_plan list \<Rightarrow> (string \<times> applicable_tax list) list \<Rightarrow>
   int set \<Rightarrow> rows_map \<times> totals_map \<Rightarrow> bool" where
  "cascade_inv strategy plans tbl D st \<longleftrightarrow>
     map fst (fst st) = map pl_orderLineId plans \<and>
     (\<forall>p\<in>set plans. line_inv strategy p (plan_taxes tbl p) D
        (get_or (fst st) (pl_orderLineId p) []) (get_or (snd st) (pl_orderLineId p) 0))"

lemma processPriority_inv:
  assumes step: "processPriority strategy plans tbl st q = Inr st'"
    and ids: "distinct (map pl_orderLineId plans)"
    and inv: "cascade_inv strategy plans tbl D st" and q: "\<forall>d\<in>D. d < q"
  shows "cascade_inv strategy plans tbl (insert q D) st'"
proof -
  obtain rows lower rows' lower' where st: "st = (rows, lower)" "st' = (rows', lower')"
    by (cases st, cases st') auto
  have keys: "map fst rows = map pl_orderLineId plans" using inv by (simp add: cascade_inv_def st)
  have keys': "map fst rows' = map pl_orderLineId plans"
  proof (cases plans)
    case Nil
    with step keys show ?thesis by (auto simp: st processPriority_def)
  next
    case (Cons p ps)
    then show ?thesis
      using processPriority_line(2) [OF step [unfolded st] ids keys, of p] keys by simp
  qed
  have "line_inv strategy p (plan_taxes tbl p) (insert q D)
      (get_or rows' (pl_orderLineId p) []) (get_or lower' (pl_orderLineId p) 0)"
    if p: "p \<in> set plans" for p
  proof -
    from processPriority_line(1) [OF step [unfolded st] ids keys p] obtain em where
      em: "mset (map fst em) = mset (planWorks q p (plan_base lower p) (plan_taxes tbl p))"
        "\<forall>(w, r)\<in>set em. row_for strategy w r"
      and res: "get_or rows' (pl_orderLineId p) [] = get_or rows (pl_orderLineId p) [] @ map snd em"
        "get_or lower' (pl_orderLineId p) 0 =
           get_or lower (pl_orderLineId p) 0 + (\<Sum>r\<leftarrow>map snd em. excl_tax r)" by blast
    have "line_inv strategy p (plan_taxes tbl p) D
        (get_or rows (pl_orderLineId p) []) (get_or lower (pl_orderLineId p) 0)"
      using inv p by (simp add: cascade_inv_def st)
    from line_inv_step [OF this q em] show ?thesis by (simp only: res)
  qed
  with keys' show ?thesis by (simp add: cascade_inv_def st)
qed

lemma processPriorities_inv:
  assumes "foldR (processPriority strategy plans tbl) st qs = Inr st'"
    and "distinct (map pl_orderLineId plans)" "cascade_inv strategy plans tbl D st"
    and "sorted_wrt (<) qs" "\<forall>d\<in>D. \<forall>q\<in>set qs. d < q"
  shows "cascade_inv strategy plans tbl (D \<union> set qs) st'"
  using assms
proof (induction qs arbitrary: st D)
  case (Cons q qs)
  then obtain st1 where st1: "processPriority strategy plans tbl st q = Inr st1"
    and rest: "foldR (processPriority strategy plans tbl) st1 qs = Inr st'"
    by (auto simp: andThen_Inr_iff)
  have "cascade_inv strategy plans tbl (insert q D) st1"
    using processPriority_inv [OF st1 Cons.prems(2,3)] Cons.prems(5) by simp
  from Cons.IH [OF rest Cons.prems(2) this] Cons.prems(4,5) show ?case by auto
qed simp

lemma sorted_priorities:
  assumes "distinct (ps :: int list)"
  shows "sorted_wrt (<) (js_sort (\<lambda>a b. a - b) ps)"
proof -
  have "sorted_wrt (\<lambda>a b. a - b \<le> 0) (js_sort (\<lambda>a b. a - b) ps)" by (rule js_sort_sorted) auto
  moreover have "distinct (js_sort (\<lambda>a b. a - b) ps)" using assms by simp
  ultimately show ?thesis
    by (auto simp: sorted_wrt_iff_nth_less distinct_conv_nth order_le_less)
qed

text \<open>After sorting by sequence, row \<open>i\<close> is the row of tax \<open>i\<close>.\<close>

lemma sorted_rows:
  assumes "mset (map rl_computationSequence rs) = mset (sequences ts (prio ` set ts))"
  defines "rs' \<equiv> js_sort (\<lambda>a b. rl_computationSequence a - rl_computationSequence b) rs"
  shows "map rl_computationSequence rs' = map (\<lambda>i. int i + 1) [0..<length ts]"
proof -
  have seqs: "sequences ts (prio ` set ts) = map (\<lambda>i. int i + 1) [0..<length ts]"
    by (auto simp: sequences_def intro!: filter_id_conv [THEN iffD2])
  have "sorted_wrt (\<lambda>a b. rl_computationSequence a - rl_computationSequence b \<le> 0) rs'"
    unfolding rs'_def by (rule js_sort_sorted) auto
  then have "sorted (map rl_computationSequence rs')"
    by (simp add: sorted_map)
  moreover have "sorted (map (\<lambda>i. int i + 1) [0..<length ts])" by (simp add: sorted_map)
  moreover have "mset (map rl_computationSequence rs') = mset (map (\<lambda>i. int i + 1) [0..<length ts])"
    using assms(1) by (simp add: rs'_def seqs)
  ultimately show ?thesis by (metis properties_for_sort)
qed

lemma lower_sum_mset: "mset rs = mset rs' \<Longrightarrow> lower_sum ts rs q = lower_sum ts rs' q"
proof -
  assume "mset rs = mset rs'"
  then have "mset (map excl_tax (filter P rs)) = mset (map excl_tax (filter P rs'))" for P by simp
  then show ?thesis unfolding lower_sum_def by (simp only: sum_mset_sum_list [symmetric])
qed

lemma lower_sum_nth:
  assumes "length rs = length ts" and "\<forall>j<length ts. row_tax ts (rs ! j) = ts ! j"
  shows "lower_sum ts rs q =
    (\<Sum>j\<leftarrow>[0..<length ts]. if prio (ts ! j) < q \<and> \<not> rl_isPriceInclusive (rs ! j)
                            then rl_taxAmountMinor (rs ! j) else 0)"
proof -
  have "rs = map ((!) rs) [0..<length ts]" unfolding assms(1) [symmetric] by (rule map_nth [symmetric])
  then have "lower_sum ts rs q = lower_sum ts (map ((!) rs) [0..<length ts]) q" by (rule arg_cong)
  also have "\<dots> = (\<Sum>j\<leftarrow>[0..<length ts]. if prio (row_tax ts (rs ! j)) < q then excl_tax (rs ! j) else 0)"
    by (simp add: lower_sum_def filter_map comp_def sum_list_map_filter')
  also have "\<dots> = (\<Sum>j\<leftarrow>[0..<length ts]. if prio (ts ! j) < q \<and> \<not> rl_isPriceInclusive (rs ! j)
                            then rl_taxAmountMinor (rs ! j) else 0)"
    using assms(2) by (intro arg_cong [of _ _ sum_list] map_cong) (auto simp: excl_tax_def)
  finally show ?thesis .
qed

lemma taxRow_fields:
  "rl_taxRateId (taxRow rate w x) = tr_id rate" "rl_rateBps (taxRow rate w x) = tr_rateBps rate"
  "rl_isPriceInclusive (taxRow rate w x) = tr_isPriceInclusiveDefault rate"
  "rl_taxAmountMinor (taxRow rate w x) = x"
  "rl_taxableAmountMinor (taxRow rate w x) =
     (if tr_isPriceInclusiveDefault rate then w_base w - x else w_base w)"
  by (simp_all add: taxRow_def)

lemma row_for_fields:
  assumes "row_for strategy w r"
  shows "rl_taxRateId r = tr_id (at_rate (w_tax w))" "rl_rateBps r = tr_rateBps (at_rate (w_tax w))"
    "rl_isPriceInclusive r = tr_isPriceInclusiveDefault (at_rate (w_tax w))"
    "rl_taxableAmountMinor r + (if rl_isPriceInclusive r then rl_taxAmountMinor r else 0) = w_base w"
    "near_tax (w_base w) (rl_rateBps r) (rl_isPriceInclusive r) (rl_taxAmountMinor r)"
    "strategy = per_line \<Longrightarrow> half_up (w_base w * rl_rateBps r)
        (10000 + (if rl_isPriceInclusive r then rl_rateBps r else 0)) (rl_taxAmountMinor r)"
proof -
  from row_for_row [OF assms] obtain x where x: "r = taxRow (at_rate (w_tax w)) w x" by auto
  show "rl_taxRateId r = tr_id (at_rate (w_tax w))" "rl_rateBps r = tr_rateBps (at_rate (w_tax w))"
    "rl_isPriceInclusive r = tr_isPriceInclusiveDefault (at_rate (w_tax w))"
    "rl_taxableAmountMinor r + (if rl_isPriceInclusive r then rl_taxAmountMinor r else 0) = w_base w"
    by (simp_all add: x taxRow_fields)
  show "near_tax (w_base w) (rl_rateBps r) (rl_isPriceInclusive r) (rl_taxAmountMinor r)"
    using assms unfolding row_for_def by (simp add: x taxRow_fields)
  assume "strategy = per_line"
  with assms obtain c where "calculateTaxAmount (w_base w) (tr_rateBps (at_rate (w_tax w)))
      (tr_isPriceInclusiveDefault (at_rate (w_tax w))) = Inr c" "rl_taxAmountMinor r = taxAmountMinor c"
    unfolding row_for_def mapResult_Inr_iff by auto
  then show "half_up (w_base w * rl_rateBps r)
      (10000 + (if rl_isPriceInclusive r then rl_rateBps r else 0)) (rl_taxAmountMinor r)"
    by (auto simp: x taxRow_fields calculateTaxAmount_def result_simps roundTaxHalfUp_Inr_iff
        tax_denominator_def BASIS_POINT_DENOMINATOR_def)
qed

lemma cascade_run:
  assumes "calculateCascadingTaxes plans strategy = Inr res"
  shows "\<exists>tbl rows. distinct (map pl_orderLineId plans) \<and> map fst rows = map pl_orderLineId plans \<and>
    res = map (\<lambda>(k, rs). (k, js_sort (\<lambda>a b. rl_computationSequence a - rl_computationSequence b) rs)) rows \<and>
    (\<forall>p\<in>set plans. ordered_taxes p (plan_taxes tbl p) \<and>
       (\<exists>tot. line_inv strategy p (plan_taxes tbl p) (prio ` set (plan_taxes tbl p))
          (get_or rows (pl_orderLineId p) []) tot))"
proof -
  let ?s0 = "\<lparr>cs_taxesByLine = [], cs_result = [], cs_lowerPriorityTotals = [], cs_priorities = []\<rparr>"
  from assms obtain s rows lower where stp: "foldR setupPlan ?s0 plans = Inr s"
    and run: "foldR (processPriority strategy plans (cs_taxesByLine s))
      (cs_result s, cs_lowerPriorityTotals s) (js_sort (\<lambda>a b. a - b) (cs_priorities s)) = Inr (rows, lower)"
    and res: "res = map (\<lambda>(k, rs). (k, js_sort (\<lambda>a b. rl_computationSequence a - rl_computationSequence b) rs)) rows"
    by (auto simp: calculateCascadingTaxes_def andThen_Inr_iff)
  let ?tbl = "cs_taxesByLine s"
  have "setup_inv [] ?s0" by (simp add: setup_inv_def get_or_def)
  from setupPlans_inv [OF stp this] have inv: "setup_inv plans s" by simp
  have "cascade_inv strategy plans ?tbl {} (cs_result s, cs_lowerPriorityTotals s)"
    using inv by (auto simp: setup_inv_def cascade_inv_def line_inv_def sequences_def)
  from processPriorities_inv [OF run _ this] inv
  have fin: "cascade_inv strategy plans ?tbl (set (cs_priorities s)) (rows, lower)"
    by (simp add: setup_inv_def sorted_priorities)
  have same: "sequences ts D = sequences ts (prio ` set ts)" if "prio ` set ts \<subseteq> D" for ts D
    unfolding sequences_def using that by (intro arg_cong [of _ _ "map _"] filter_cong) auto
  have "line_inv strategy p (plan_taxes ?tbl p) (prio ` set (plan_taxes ?tbl p))
      (get_or rows (pl_orderLineId p) []) (get_or lower (pl_orderLineId p) 0)" if "p \<in> set plans" for p
  proof -
    have "prio ` set (plan_taxes ?tbl p) \<subseteq> set (cs_priorities s)"
      using inv that unfolding setup_inv_def by blast
    from same [OF this] fin that show ?thesis by (simp add: cascade_inv_def line_inv_def)
  qed
  then show ?thesis using inv fin res unfolding setup_inv_def cascade_inv_def
    by (intro exI [of _ ?tbl] exI [of _ rows]) auto
qed

text \<open>
  The cascade law of one line, as a specification: row \<open>i\<close> of the line is that of tax \<open>i\<close>;
  its base is the line amount plus the exclusive taxes of the strictly lower priorities.
\<close>

definition cascade_base :: "tax_computation_plan \<Rightarrow> applicable_tax list \<Rightarrow> resolved_tax_line list \<Rightarrow> int \<Rightarrow> int" where
  "cascade_base p ts rows q = pl_amountMinor p + (\<Sum>j\<leftarrow>[0..<length ts].
     if prio (ts ! j) < q \<and> \<not> rl_isPriceInclusive (rows ! j) then rl_taxAmountMinor (rows ! j) else 0)"

definition cascade_row :: "tax_rounding_strategy \<Rightarrow> applicable_tax \<Rightarrow> int \<Rightarrow> int \<Rightarrow> resolved_tax_line \<Rightarrow> bool" where
  "cascade_row strategy t base sequence r \<longleftrightarrow>
     rl_computationSequence r = sequence \<and> rl_taxRateId r = tr_id (at_rate t) \<and>
     rl_rateBps r = tr_rateBps (at_rate t) \<and>
     rl_isPriceInclusive r = tr_isPriceInclusiveDefault (at_rate t) \<and>
     rl_taxableAmountMinor r + (if rl_isPriceInclusive r then rl_taxAmountMinor r else 0) = base \<and>
     near_tax base (rl_rateBps r) (rl_isPriceInclusive r) (rl_taxAmountMinor r) \<and>
     (strategy = per_line \<longrightarrow> half_up (base * rl_rateBps r)
        (10000 + (if rl_isPriceInclusive r then rl_rateBps r else 0)) (rl_taxAmountMinor r))"

lemma cascade_line:
  assumes inv: "line_inv strategy p ts (prio ` set ts) rs tot"
  defines "rows \<equiv> js_sort (\<lambda>a b. rl_computationSequence a - rl_computationSequence b) rs"
  shows "length rows = length ts \<and> (\<forall>i<length ts.
    cascade_row strategy (ts ! i) (cascade_base p ts rows (prio (ts ! i))) (int i + 1) (rows ! i))"
proof -
  have seqs: "map rl_computationSequence rows = map (\<lambda>i. int i + 1) [0..<length ts]"
    unfolding rows_def using inv by (intro sorted_rows) (simp add: line_inv_def)
  have len: "length rows = length ts" using arg_cong [OF seqs, of length] by simp
  have sq: "rl_computationSequence (rows ! i) = int i + 1" if "i < length ts" for i
    using arg_cong [OF seqs, of "\<lambda>xs. xs ! i"] that len by simp
  then have tax: "\<forall>j<length ts. row_tax ts (rows ! j) = ts ! j" by (simp add: row_tax_def)
  have "cascade_row strategy (ts ! i) (cascade_base p ts rows (prio (ts ! i))) (int i + 1) (rows ! i)"
    if i: "i < length ts" for i
  proof -
    have "rows ! i \<in> set rs" using i len nth_mem unfolding rows_def by (metis set_js_sort)
    with inv have "row_ok strategy p ts rs (rows ! i)" by (simp add: line_inv_def)
    moreover have "lower_sum ts rs q = lower_sum ts rows q" for q
      by (rule lower_sum_mset) (simp add: rows_def)
    ultimately have "row_for strategy \<lparr>w_lineId = pl_orderLineId p, w_currencyCode = pl_currencyCode p,
        w_base = cascade_base p ts rows (prio (ts ! i)), w_sequence = int i + 1, w_tax = ts ! i\<rparr> (rows ! i)"
      using tax i sq [OF i] lower_sum_nth [OF len tax] by (simp add: row_ok_def cascade_base_def)
    from row_for_fields [OF this] sq [OF i] show ?thesis by (simp add: cascade_row_def)
  qed
  with len show ?thesis by blast
qed

lemma cascade_law:
  assumes "calculateCascadingTaxes plans strategy = Inr res"
  shows "map fst res = map pl_orderLineId plans \<and>
    (\<forall>p\<in>set plans. \<exists>ts rows. ordered_taxes p ts \<and>
       map_of res (pl_orderLineId p) = Some rows \<and> length rows = length ts \<and>
       (\<forall>i<length ts. cascade_row strategy (ts ! i)
          (cascade_base p ts rows (prio (ts ! i))) (int i + 1) (rows ! i)))"
proof -
  let ?sort = "js_sort (\<lambda>a b. rl_computationSequence a - rl_computationSequence b)"
  from cascade_run [OF assms] obtain tbl rows where
    ids: "distinct (map pl_orderLineId plans)" and keys: "map fst rows = map pl_orderLineId plans"
    and res: "res = map (\<lambda>(k, rs). (k, ?sort rs)) rows"
    and lines: "\<forall>p\<in>set plans. ordered_taxes p (plan_taxes tbl p) \<and>
       (\<exists>tot. line_inv strategy p (plan_taxes tbl p) (prio ` set (plan_taxes tbl p))
          (get_or rows (pl_orderLineId p) []) tot)" by blast
  have "map fst res = map fst rows" by (simp add: res comp_def case_prod_unfold)
  with keys have keys': "map fst res = map pl_orderLineId plans" by simp
  have "map_of res (pl_orderLineId p) = Some (?sort (get_or rows (pl_orderLineId p) []))"
    if "p \<in> set plans" for p
  proof -
    have "pl_orderLineId p \<in> fst ` set rows" using that keys by (metis image_eqI set_map)
    then obtain rs0 where "map_of rows (pl_orderLineId p) = Some rs0"
      by (metis map_of_eq_None_iff not_None_eq)
    then show ?thesis by (simp add: res map_of_map get_or_def)
  qed
  with keys' lines cascade_line show ?thesis by (metis (no_types, lifting))
qed

text \<open>
  C39. The cascade law, for both rounding strategies: a successful computation returns one entry
  per plan, in order, with one row per tax of the plan, numbered from 1 in the order of priority
  and category id. The base of each row (its taxable amount, plus its tax when the price includes
  it) is the line amount plus the exclusive taxes of the strictly lower priorities of the same
  line, and nothing else; equal priorities do not compound and inclusive taxes never cascade.
  The tax of a row is its exact tax rounded to one of the two neighbours (exactly that tax when it is
  integral). Under per-line rounding each tax is the half-up rounding of rate times base.
\<close>

theorem calculateCascadingTaxes_correct:
  assumes "calculateCascadingTaxes plans strategy = Inr res"
  shows "map fst res = map pl_orderLineId plans \<and>
    (\<forall>p\<in>set plans. \<exists>ts rows. ordered_taxes p ts \<and>
       map_of res (pl_orderLineId p) = Some rows \<and> length rows = length ts \<and>
       (\<forall>i<length ts. cascade_row strategy (ts ! i)
          (cascade_base p ts rows (prio (ts ! i))) (int i + 1) (rows ! i)))"
  by (rule cascade_law [OF assms])

text \<open>A service charge of 10\<open>%\<close> at priority 1, then VAT of 15\<open>%\<close> on the amount with it.\<close>

definition example_tax :: "string \<Rightarrow> int \<Rightarrow> int \<Rightarrow> applicable_tax" where
  "example_tax i priority bps = \<lparr>
     at_category = \<lparr>tc_id = i, tc_countryCode = ''SA'', tc_code = ''c'', tc_kind = standard,
       tc_taxFamily = vat, tc_cascadePriority = priority, tc_isActive = True\<rparr>,
     at_rate = \<lparr>tr_source = None, tr_id = i, tr_taxCategoryId = i, tr_rateBps = bps,
       tr_isPriceInclusiveDefault = False, tr_effectiveFrom = ''2024-01-01'',
       tr_effectiveTo = None, tr_supersededBy = None\<rparr>\<rparr>"

definition example_plan :: tax_computation_plan where
  "example_plan = \<lparr>pl_orderLineId = ''l1'', pl_amountMinor = 1000, pl_currencyCode = ''SAR'',
     pl_taxes = [example_tax ''v'' 2 1500, example_tax ''s'' 1 1000]\<rparr>"

theorem calculateCascadingTaxes_correct_witness:
  "\<exists>res rows. calculateCascadingTaxes [example_plan] per_line = Inr res \<and>
     map_of res ''l1'' = Some rows \<and> map rl_taxAmountMinor rows = [100, 165] \<and>
     map fst res = [''l1''] \<and>
     (\<exists>ts. ordered_taxes example_plan ts \<and> length rows = length ts)"
proof -
  let ?run = "calculateCascadingTaxes [example_plan] per_line"
  have ok: "isOk ?run \<and> map_option (map rl_taxAmountMinor) (map_of (projr ?run) ''l1'') = Some [100, 165]"
    by code_simp
  then obtain res where res: "?run = Inr res" by (cases ?run) auto
  have "pl_orderLineId example_plan = ''l1''" by (simp add: example_plan_def)
  with calculateCascadingTaxes_correct [OF res] ok res show ?thesis by auto
qed

end
