(* ===== verification/Decimal_Text.thy ===== *)
theory Decimal_Text
  imports Money
begin

text \<open>
  Model of \<^verbatim>\<open>src/shared/decimal-text.ts\<close>, the one place where PostgreSQL NUMERIC text becomes BigInt
  minor units and back. The parsers return the nearest-even rounding of the decimal at the
  requested scale (exact when the fraction is no longer than the scale), the printers are
  inverted by the parsers, and discount percentages round-trip through basis points.
\<close>

section \<open>Definitions\<close>

definition MAX_SCALE :: int where
  "MAX_SCALE = 8"

definition STORAGE_MAX_FRACTION_DIGITS :: int where
  "STORAGE_MAX_FRACTION_DIGITS = 4"

definition storageMinorUnitDigits :: "string \<Rightarrow> int result" where
  "storageMinorUnitDigits cur =
     andThen (minorUnitScale cur) (\<lambda>digits.
       if digits > STORAGE_MAX_FRACTION_DIGITS then Inl (ValidationError (Some ''currency''))
       else Inr digits)"

text \<open>\<open>match[2] ?? ''\<close>: the fraction part, empty when there is none.\<close>

definition mustMatch :: "string \<Rightarrow> string \<Rightarrow> (string \<times> string) result" where
  "mustMatch txt field =
     (case match_decimal txt of
        None \<Rightarrow> Inl (ValidationError (Some field))
      | Some (integerPart, fraction) \<Rightarrow>
          Inr (integerPart, case fraction of None \<Rightarrow> [] | Some f \<Rightarrow> f))"

definition nonNegativeDecimalTextToMinor :: "string \<Rightarrow> int \<Rightarrow> string \<Rightarrow> int result" where
  "nonNegativeDecimalTextToMinor txt digits field =
     (if digits < 0 \<or> digits > MAX_SCALE then Inl (ValidationError (Some ''digits''))
      else andThen (mustMatch txt field) (\<lambda>(integerPart, fractionPart).
        divideRoundHalfToEven (digits_to_int (integerPart @ fractionPart) * 10 ^ nat digits)
          (10 ^ length fractionPart)))"

definition decimalTextToMinor :: "string \<Rightarrow> int \<Rightarrow> string \<Rightarrow> int result" where
  "decimalTextToMinor txt digits field =
     (if txt \<noteq> [] \<and> hd txt = CHR ''-''
      then mapResult (nonNegativeDecimalTextToMinor (tl txt) digits field) uminus
      else nonNegativeDecimalTextToMinor txt digits field)"

definition minorToDecimalText :: "int \<Rightarrow> int \<Rightarrow> string result" where
  "minorToDecimalText minor digits =
     (if digits < 0 \<or> digits > MAX_SCALE then Inl (ValidationError (Some ''digits''))
      else
        let negative = minor < 0;
            absolute = (if negative then - minor else minor);
            scale = 10 ^ nat digits;
            integerPart = absolute sdiv scale;
            fractionPart = absolute smod scale;
            fractionText = padStart0 (int_to_text fractionPart) (nat digits);
            body = (if digits = 0 then int_to_text integerPart
                    else int_to_text integerPart @ CHR ''.'' # fractionText)
        in Inr (if negative then CHR ''-'' # body else body))"

definition percentTextToDbps :: "string \<Rightarrow> string \<Rightarrow> int result" where
  "percentTextToDbps txt field =
     andThen (mustMatch txt field) (\<lambda>(integerPart, fractionPart).
       if length fractionPart > 4 then Inl (ValidationError (Some field))
       else Inr (digits_to_int (integerPart @ padEnd0 fractionPart 4)))"

definition dbpsToPercentText :: "int \<Rightarrow> string result" where
  "dbpsToPercentText dbps =
     (if dbps < 0 then Inl (ValidationError (Some ''discountValue''))
      else Inr (int_to_text (dbps sdiv 10000) @ CHR ''.'' #
                padStart0 (int_to_text (dbps smod 10000)) 4))"

section \<open>Lemmas\<close>

lemma storageMinorUnitDigits_iff:
  "storageMinorUnitDigits cur = Inr d \<longleftrightarrow> minorUnitScale cur = Inr d"
  using minorUnitScale_bounds [of cur d]
  by (auto simp: storageMinorUnitDigits_def STORAGE_MAX_FRACTION_DIGITS_def result_simps)

lemma storageMinorUnitDigits_bounds: "storageMinorUnitDigits cur = Inr d \<Longrightarrow> 0 \<le> d \<and> d \<le> 4"
  using minorUnitScale_bounds by (simp add: storageMinorUnitDigits_iff)

lemma canonical_nat_no_dot: "canonical_nat ip \<Longrightarrow> \<forall>c\<in>set ip. c \<noteq> CHR ''.''"
proof
  fix c assume "canonical_nat ip" "c \<in> set ip"
  then have "is_digit c" by (rule canonical_nat_digits)
  then show "c \<noteq> CHR ''.''" by (auto simp: is_digit_def)
qed

lemma mustMatch_canonical:
  assumes "canonical_nat ip" and "fp \<noteq> []" and "list_all is_digit fp"
  shows "mustMatch (ip @ CHR ''.'' # fp) f = Inr (ip, fp)"
proof -
  from canonical_nat_no_dot [OF assms(1)] have "takeWhile (\<lambda>c. c \<noteq> CHR ''.'') (ip @ CHR ''.'' # fp) = ip"
    "dropWhile (\<lambda>c. c \<noteq> CHR ''.'') (ip @ CHR ''.'' # fp) = CHR ''.'' # fp" by auto
  with assms show ?thesis by (simp add: mustMatch_def match_decimal_def)
qed

lemma mustMatch_integer:
  assumes "canonical_nat ip"
  shows "mustMatch ip f = Inr (ip, [])"
proof -
  from canonical_nat_no_dot [OF assms(1)] have tw:
    "takeWhile (\<lambda>c. c \<noteq> CHR ''.'') ip = ip" "dropWhile (\<lambda>c. c \<noteq> CHR ''.'') ip = []" by auto
  from assms show ?thesis unfolding mustMatch_def match_decimal_def Let_def tw by simp
qed

lemma mustMatch_digits:
  assumes "mustMatch txt f = Inr (ip, fp)"
  shows "canonical_nat ip" "list_all is_digit fp" "0 \<le> digits_to_int (ip @ fp)"
proof -
  from assms obtain fr where fr: "match_decimal txt = Some (ip, fr)"
    "fp = (case fr of None \<Rightarrow> [] | Some f \<Rightarrow> f)"
    by (auto simp: mustMatch_def split: option.splits)
  then show c: "canonical_nat ip"
    unfolding match_decimal_def Let_def by (auto split: if_splits list.splits)
  from fr show d: "list_all is_digit fp"
    unfolding match_decimal_def Let_def by (auto split: if_splits list.splits)
  show "0 \<le> digits_to_int (ip @ fp)"
    using digits_to_int_bounds [of "ip @ fp"] canonical_nat_digits [OF c] d
    by (auto simp: list_all_iff)
qed

lemma divide_exact: "d \<noteq> 0 \<Longrightarrow> divideRoundHalfToEven (q * d) d = Inr q"
  by (simp add: divideRoundHalfToEven_Inr_iff nearest_even_def)

lemma padStart0_digits:
  assumes "m < 10 ^ n" and "0 < n"
  shows "length (padStart0 (nat_to_text m) n) = n"
    and "list_all is_digit (padStart0 (nat_to_text m) n)"
    and "digits_to_int (padStart0 (nat_to_text m) n) = int m"
proof -
  have "length (nat_to_text m) \<le> n"
    using assms
  proof (induction m arbitrary: n rule: nat_to_text.induct)
    case (1 m)
    show ?case
    proof (cases "m < 10")
      case True
      with 1(3) show ?thesis by (simp add: nat_to_text.simps [of m])
    next
      case False
      with 1(2,3) obtain k where k: "n = Suc k" "0 < k"
        by (cases n; cases "n - 1") auto
      with 1(2) have "m div 10 < 10 ^ k" by (simp add: div_less_iff_less_mult mult.commute)
      with 1(1) False k show ?thesis by (simp add: nat_to_text.simps [of m])
    qed
  qed
  then show "length (padStart0 (nat_to_text m) n) = n" by (simp add: padStart0_def)
  show "list_all is_digit (padStart0 (nat_to_text m) n)"
    using nat_to_text_digits [of _ m] by (auto simp: padStart0_def list_all_iff is_digit_def)
  show "digits_to_int (padStart0 (nat_to_text m) n) = int m"
    by (simp add: padStart0_def digits_to_int_append)
qed

lemma int_to_text_nonneg: "0 \<le> n \<Longrightarrow> int_to_text n = nat_to_text (nat n)"
  by (simp add: int_to_text_def)

text \<open>The text printed for an absolute amount, as parts the parser recognises.\<close>

lemma printed_parts:
  assumes "0 \<le> a" and "0 < n"
  shows "\<exists>ip fp. int_to_text (a sdiv 10 ^ n) = ip \<and>
           padStart0 (int_to_text (a smod 10 ^ n)) n = fp \<and>
           mustMatch (ip @ CHR ''.'' # fp) f = Inr (ip, fp) \<and>
           length fp = n \<and> digits_to_int (ip @ fp) = a"
proof -
  let ?s = "10 ^ n :: int"
  have d: "a sdiv ?s = a div ?s" "a smod ?s = a mod ?s"
    using assms by (simp_all add: bigint_simps)
  have m: "nat (a mod ?s) < 10 ^ n" by (simp add: nat_less_iff)
  note p = padStart0_digits [OF m assms(2)]
  have ip: "int_to_text (a div ?s) = nat_to_text (nat (a div ?s))"
    and fp: "int_to_text (a mod ?s) = nat_to_text (nat (a mod ?s))"
    using assms by (simp_all add: int_to_text_nonneg pos_imp_zdiv_nonneg_iff)
  have "padStart0 (nat_to_text (nat (a mod ?s))) n \<noteq> []" using p(1) assms(2) by auto
  moreover have "digits_to_int (nat_to_text (nat (a div ?s)) @
      padStart0 (nat_to_text (nat (a mod ?s))) n) = a"
    using assms p by (simp add: digits_to_int_append pos_imp_zdiv_nonneg_iff div_mult_mod_eq)
  ultimately show ?thesis using p by (simp add: d ip fp mustMatch_canonical)
qed

lemma printed_at_scale:
  assumes "0 \<le> a" and "0 \<le> s" "0 \<le> d" "d \<le> MAX_SCALE"
  shows "nonNegativeDecimalTextToMinor
           (if s = 0 then int_to_text (a sdiv 10 ^ nat s)
            else int_to_text (a sdiv 10 ^ nat s) @
                 CHR ''.'' # padStart0 (int_to_text (a smod 10 ^ nat s)) (nat s))
           d f = divideRoundHalfToEven (a * 10 ^ nat d) (10 ^ nat s)"
proof (cases "s = 0")
  case True
  with assms show ?thesis
    by (simp add: nonNegativeDecimalTextToMinor_def int_to_text_nonneg mustMatch_integer bigint_simps)
next
  case False
  with assms have "0 < nat s" by simp
  from printed_parts [OF assms(1) this] False assms show ?thesis
    by (auto simp: nonNegativeDecimalTextToMinor_def)
qed

text \<open>Parsing a printed amount at any scale rescales it, with the rounding of the division.\<close>

lemma parse_printed:
  assumes "0 \<le> s" "s \<le> MAX_SCALE" "0 \<le> d" "d \<le> MAX_SCALE"
  shows "\<exists>t. minorToDecimalText m s = Inr t \<and>
    (0 \<le> m \<longrightarrow> nonNegativeDecimalTextToMinor t d f = divideRoundHalfToEven (m * 10 ^ nat d) (10 ^ nat s)) \<and>
    decimalTextToMinor t d f =
      (if 0 \<le> m then divideRoundHalfToEven (m * 10 ^ nat d) (10 ^ nat s)
       else mapResult (divideRoundHalfToEven (- m * 10 ^ nat d) (10 ^ nat s)) uminus)"
proof -
  define body where "body a = (if s = 0 then int_to_text (a sdiv 10 ^ nat s)
      else int_to_text (a sdiv 10 ^ nat s) @
           CHR ''.'' # padStart0 (int_to_text (a smod 10 ^ nat s)) (nat s))" for a :: int
  have parse: "nonNegativeDecimalTextToMinor (body a) d f = divideRoundHalfToEven (a * 10 ^ nat d) (10 ^ nat s)"
    if "0 \<le> a" for a
    unfolding body_def by (rule printed_at_scale [OF that assms(1,3,4)])
  have print: "minorToDecimalText m s = Inr (if m < 0 then CHR ''-'' # body (- m) else body m)"
    using assms by (simp add: minorToDecimalText_def body_def Let_def)
  have hd: "hd (body a) \<noteq> CHR ''-''" "body a \<noteq> []" if "0 \<le> a" for a
    using that hd_canonical_not_minus [OF canonical_nat_to_text]
    by (auto simp: body_def int_to_text_nonneg bigint_simps pos_imp_zdiv_nonneg_iff hd_append)
  show ?thesis
    using print parse [of m] parse [of "- m"] hd [of m]
    by (auto simp: decimalTextToMinor_def)
qed

lemma printed_rescale:
  assumes "0 \<le> s" "s \<le> d" "d \<le> MAX_SCALE"
  shows "\<exists>t. minorToDecimalText m s = Inr t \<and> decimalTextToMinor t d f = Inr (m * 10 ^ nat (d - s)) \<and>
    (0 \<le> m \<longrightarrow> nonNegativeDecimalTextToMinor t d f = Inr (m * 10 ^ nat (d - s)))"
proof -
  have "nat d = nat s + nat (d - s)" using assms by simp
  then have split: "(10::int) ^ nat d = 10 ^ nat (d - s) * 10 ^ nat s" by (simp add: power_add)
  have div: "divideRoundHalfToEven (x * 10 ^ nat d) (10 ^ nat s) = Inr (x * 10 ^ nat (d - s))" for x
    unfolding split mult.assoc [symmetric] by (rule divide_exact) simp
  show ?thesis using parse_printed [of s d m f] assms by (auto simp: div ok_def simp del: mult_minus_left)
qed

lemma printed_descale:
  assumes "0 \<le> d" "d \<le> s" "s \<le> MAX_SCALE"
  shows "\<exists>t. minorToDecimalText (m * 10 ^ nat (s - d)) s = Inr t \<and> decimalTextToMinor t d f = Inr m \<and>
    (0 \<le> m \<longrightarrow> nonNegativeDecimalTextToMinor t d f = Inr m)"
proof -
  have "nat s = nat d + nat (s - d)" using assms by simp
  then have split: "(10::int) ^ nat s = 10 ^ nat (s - d) * 10 ^ nat d" by (simp add: power_add)
  have div: "divideRoundHalfToEven (x * 10 ^ nat (s - d) * 10 ^ nat d) (10 ^ nat s) = Inr x" for x
    unfolding split mult.assoc by (rule divide_exact) simp
  have sgn: "0 \<le> m * 10 ^ nat (s - d) \<longleftrightarrow> 0 \<le> m" using zero_less_power [of "10::int" "nat (s - d)"] unfolding zero_le_mult_iff by linarith
  show ?thesis
    using parse_printed [of s d "m * 10 ^ nat (s - d)" f] assms div [of m] div [of "- m"] by (auto simp: sgn ok_def)
qed

text \<open>
  Printing minor units and parsing them back at the same scale is the identity, for every
  amount of either sign and every supported scale, and printing never fails at such a scale.
\<close>

theorem decimalText_roundtrip:
  assumes "0 \<le> digits" and "digits \<le> MAX_SCALE"
  shows "\<exists>t. minorToDecimalText m digits = Inr t \<and> decimalTextToMinor t digits f = Inr m \<and>
           (0 \<le> m \<longrightarrow> nonNegativeDecimalTextToMinor t digits f = Inr m)"
  using printed_rescale [of digits digits m f] assms by simp

theorem decimalText_roundtrip_witness:
  "minorToDecimalText (- 1205) 3 = Inr ''-1.205'' \<and> decimalTextToMinor ''-1.205'' 3 ''amount'' = Inr (- 1205)"
proof -
  have "minorToDecimalText (- 1205) 3 = Inr ''-1.205''" by code_simp
  then show ?thesis using decimalText_roundtrip [of 3 "- 1205" "''amount''"] by (simp add: MAX_SCALE_def)
qed

text \<open>
  What a parsed amount means: the text is a canonical decimal and the amount is the
  nearest-even rounding of it at the requested scale, hence never negative; a text whose fraction
  is no longer than the scale is read exactly.
\<close>

theorem nonNegativeDecimalText_correct:
  "nonNegativeDecimalTextToMinor txt digits f = Inr m \<longleftrightarrow>
     0 \<le> digits \<and> digits \<le> MAX_SCALE \<and>
     (\<exists>ip fp. mustMatch txt f = Inr (ip, fp) \<and>
        nearest_even (digits_to_int (ip @ fp) * 10 ^ nat digits) (10 ^ length fp) m \<and>
        0 \<le> m \<and>
        (length fp \<le> nat digits \<longrightarrow> m = digits_to_int (ip @ fp) * 10 ^ (nat digits - length fp)))"
proof -
  have nonneg: "0 \<le> q" if ne: "nearest_even n (10 ^ k) q" and n: "0 \<le> n" for n q :: int and k :: nat
  proof (rule ccontr)
    define t where "t = (10::int) ^ k"
    have t: "0 < t" by (simp add: t_def)
    assume "\<not> 0 \<le> q"
    then have "q * t \<le> - t" using t mult_right_mono [of q "-1" t] by simp
    with n t ne show False by (simp add: nearest_even_def flip: t_def)
  qed
  have exact: "m = c * 10 ^ (n - k)" if "nearest_even (c * 10 ^ n) (10 ^ k) m" "k \<le> n"
    for c m :: int and n k :: nat
  proof -
    have eq: "c * 10 ^ n = c * 10 ^ (n - k) * 10 ^ k" using that(2) by (simp add: power_add [symmetric])
    have "nearest_even (c * 10 ^ n) (10 ^ k) (c * 10 ^ (n - k))"
      unfolding eq by (simp add: nearest_even_def)
    then show ?thesis using nearest_even_unique [OF _ that(1)] by simp
  qed
  show ?thesis
    using mustMatch_digits(3) [of "txt" f]
    by (auto simp: nonNegativeDecimalTextToMinor_def divideRoundHalfToEven_Inr_iff result_simps)
       (erule nonneg, simp, erule (1) exact)
qed

theorem nonNegativeDecimalText_correct_witness:
  "nonNegativeDecimalTextToMinor ''0.125'' 2 ''amount'' = Inr 12 \<and>
   (\<exists>ip fp. mustMatch ''0.125'' ''amount'' = Inr (ip, fp) \<and>
      nearest_even (digits_to_int (ip @ fp) * 10 ^ nat 2) (10 ^ length fp) 12)"
proof -
  have "nonNegativeDecimalTextToMinor ''0.125'' 2 ''amount'' = Inr 12" by code_simp
  then show ?thesis using nonNegativeDecimalText_correct [of "''0.125''" 2 "''amount''" 12] by auto
qed

text \<open>
  Discount percentages are never rounded: basis points print to a text of exactly four
  fraction digits that parses back to the same basis points.
\<close>

theorem percentText_roundtrip:
  assumes "0 \<le> dbps"
  shows "\<exists>t. dbpsToPercentText dbps = Inr t \<and> percentTextToDbps t f = Inr dbps"
proof -
  from printed_parts [OF assms, of 4 f] obtain ip fp where
    p: "int_to_text (dbps sdiv 10000) = ip" "padStart0 (int_to_text (dbps smod 10000)) 4 = fp"
       "mustMatch (ip @ CHR ''.'' # fp) f = Inr (ip, fp)" "length fp = 4"
       "digits_to_int (ip @ fp) = dbps"
    by auto
  have "padEnd0 fp 4 = fp" using p(4) by (simp add: padEnd0_def)
  with p assms show ?thesis by (simp add: dbpsToPercentText_def percentTextToDbps_def)
qed

theorem percentText_roundtrip_witness:
  "dbpsToPercentText 123456 = Inr ''12.3456'' \<and> percentTextToDbps ''12.3456'' ''discountValue'' = Inr 123456"
proof -
  have "dbpsToPercentText 123456 = Inr ''12.3456''" by code_simp
  then show ?thesis using percentText_roundtrip [of 123456 "''discountValue''"] by simp
qed

end
