(* ===== verification/Discount_Math.thy ===== *)
theory Discount_Math
  imports Decimal_Text
begin

text \<open>
  Model of \<^verbatim>\<open>src/application/engines/payments/discount-math.ts\<close>: parsing of a discount request and
  of the actor's caps, one stage of the mandated calculation (requested, applied, remaining), the
  dual-cap gate that decides whether a manager must approve, and the stacking of several stages.
  The nullable fields are options; a \<open>?? 0n\<close> is written out.
\<close>

section \<open>Data\<close>

definition DBPS_PER_PERCENT :: int where
  "DBPS_PER_PERCENT = 1000000"

record parsed_discount_request =
  rq_kind :: discount_kind
  rq_percentDbps :: "int option"
  rq_fixedAmountMinor :: "int option"

record parsed_discount_caps =
  maxPercentDbps :: "int option"
  maxFixedAmountMinor :: "int option"

record discount_stage_computation =
  requestedMinor :: int
  appliedMinor :: int
  zeroesOutSubtotal :: bool
  remainingSubtotalMinor :: int

record discount_override_requirement =
  required :: bool
  reason :: "discount_override_reason option"

datatype discount_mechanism = coupon | manual | points

record stacked_discount_stage =
  mechanism :: discount_mechanism
  request :: parsed_discount_request
  caps :: parsed_discount_caps

record stacked_discount_stage_result =
  sr_stage :: stacked_discount_stage
  sr_computation :: discount_stage_computation
  sr_overrideRequired :: bool
  sr_overrideReason :: "discount_override_reason option"

text \<open>\<open>x ?? 0n\<close>\<close>

definition or_zero :: "int option \<Rightarrow> int" where
  "or_zero x = (case x of None \<Rightarrow> 0 | Some v \<Rightarrow> v)"

section \<open>Parsing\<close>

definition parseDiscountRequest :: "discount_kind \<Rightarrow> string \<Rightarrow> int \<Rightarrow> parsed_discount_request result" where
  "parseDiscountRequest kind valueText baseMinorDigits =
     (if kind = percentage then
        andThen (percentTextToDbps valueText ''discountValue'') (\<lambda>dbps.
          if dbps \<le> 0 then Inl (ValidationError (Some ''discountValue''))
          else if dbps > 100 * 10000 then Inl (ValidationError (Some ''discountValue''))
          else Inr \<lparr>rq_kind = kind, rq_percentDbps = Some dbps, rq_fixedAmountMinor = None\<rparr>)
      else
        andThen (nonNegativeDecimalTextToMinor valueText baseMinorDigits ''discountValue'') (\<lambda>minor.
          if minor \<le> 0 then Inl (ValidationError (Some ''discountValue''))
          else Inr \<lparr>rq_kind = kind, rq_percentDbps = None, rq_fixedAmountMinor = Some minor\<rparr>))"

definition parseDiscountCaps :: "string option \<Rightarrow> string option \<Rightarrow> int \<Rightarrow> parsed_discount_caps result" where
  "parseDiscountCaps maxPercentageText maxFixedAmountText baseMinorDigits =
     andThen (case maxPercentageText of None \<Rightarrow> Inr None
              | Some t \<Rightarrow> mapResult (percentTextToDbps t ''discountValue'') Some) (\<lambda>p.
     andThen (case maxFixedAmountText of None \<Rightarrow> Inr None
              | Some t \<Rightarrow> mapResult (nonNegativeDecimalTextToMinor t baseMinorDigits
                           ''maxDiscountFixedAmount'') Some) (\<lambda>f.
     Inr \<lparr>maxPercentDbps = p, maxFixedAmountMinor = f\<rparr>))"

section \<open>One stage\<close>

definition computeDiscountStage :: "int \<Rightarrow> parsed_discount_request \<Rightarrow> discount_stage_computation result" where
  "computeDiscountStage remaining rq =
     (if remaining < 0 then Inl (ValidationError (Some ''subtotal''))
      else andThen
        (if rq_kind rq = percentage
         then divideRoundHalfToEven (remaining * or_zero (rq_percentDbps rq)) DBPS_PER_PERCENT
         else Inr (or_zero (rq_fixedAmountMinor rq))) (\<lambda>requested.
        if requested \<le> 0 then Inl (ValidationError (Some ''discountValue''))
        else
          let applied = (if requested < remaining then requested else remaining)
          in Inr \<lparr>requestedMinor = requested, appliedMinor = applied,
                  zeroesOutSubtotal = applied \<ge> remaining,
                  remainingSubtotalMinor = remaining - applied\<rparr>))"

definition discountOverrideRequirement ::
  "discount_stage_computation \<Rightarrow> parsed_discount_request \<Rightarrow> parsed_discount_caps \<Rightarrow>
   discount_override_requirement result" where
  "discountOverrideRequirement stage rq cps =
     (let basisSubtotalMinor = appliedMinor stage + remainingSubtotalMinor stage;
          matchingCap = (if rq_kind rq = percentage then maxPercentDbps cps else maxFixedAmountMinor cps);
          requestedRaw = (if rq_kind rq = percentage then or_zero (rq_percentDbps rq)
                          else or_zero (rq_fixedAmountMinor rq));
          matchingExceeded = (case matchingCap of None \<Rightarrow> False | Some cap \<Rightarrow> requestedRaw > cap)
      in
        if zeroesOutSubtotal stage then
          Inr \<lparr>required = True, reason = Some (if matchingExceeded then both else zeroes_out_subtotal)\<rparr>
        else if basisSubtotalMinor \<le> 0 then
          Inr \<lparr>required = True, reason = Some zeroes_out_subtotal\<rparr>
        else
          andThen
            (if rq_kind rq = percentage then
               (case maxFixedAmountMinor cps of None \<Rightarrow> Inr False
                | Some otherCap \<Rightarrow> Inr (requestedMinor stage > otherCap))
             else
               (case maxPercentDbps cps of None \<Rightarrow> Inr False
                | Some otherCap \<Rightarrow>
                    mapResult (divideRoundHalfToEven
                        (or_zero (rq_fixedAmountMinor rq) * DBPS_PER_PERCENT) basisSubtotalMinor)
                      (\<lambda>equivalentDbps. equivalentDbps > otherCap)))
            (\<lambda>crossExceeded.
               if matchingExceeded \<and> crossExceeded then Inr \<lparr>required = True, reason = Some both\<rparr>
               else if matchingExceeded then Inr \<lparr>required = True, reason = Some exceeds_matching_cap\<rparr>
               else if crossExceeded then
                 Inr \<lparr>required = True, reason = Some exceeds_cross_equivalent_cap\<rparr>
               else Inr \<lparr>required = False, reason = None\<rparr>))"

section \<open>Stacking\<close>

definition skipped_stage :: "stacked_discount_stage \<Rightarrow> stacked_discount_stage_result" where
  "skipped_stage stage = \<lparr>sr_stage = stage,
     sr_computation = \<lparr>requestedMinor = 0, appliedMinor = 0, zeroesOutSubtotal = False,
                       remainingSubtotalMinor = 0\<rparr>,
     sr_overrideRequired = False, sr_overrideReason = None\<rparr>"

fun applyDiscountStages :: "int \<Rightarrow> stacked_discount_stage list \<Rightarrow> stacked_discount_stage_result list result" where
  "applyDiscountStages remaining [] = Inr []"
| "applyDiscountStages remaining (stage # stages) =
     (if remaining = 0 then
        mapResult (applyDiscountStages remaining stages) (\<lambda>rs. skipped_stage stage # rs)
      else
        andThen (computeDiscountStage remaining (request stage)) (\<lambda>computation.
        andThen (discountOverrideRequirement computation (request stage) (caps stage)) (\<lambda>requirement.
          mapResult (applyDiscountStages (remainingSubtotalMinor computation) stages) (\<lambda>rs.
            \<lparr>sr_stage = stage, sr_computation = computation,
             sr_overrideRequired = required requirement,
             sr_overrideReason = reason requirement\<rparr> # rs))))"

section \<open>Parsed requests are well formed\<close>

text \<open>What the gate relies on: the field of the kind is present, positive, and at most 100 percent.\<close>

definition valid_request :: "parsed_discount_request \<Rightarrow> bool" where
  "valid_request rq \<longleftrightarrow>
     (case rq_kind rq of
        percentage \<Rightarrow> rq_fixedAmountMinor rq = None \<and>
          (\<exists>d. rq_percentDbps rq = Some d \<and> 0 < d \<and> d \<le> DBPS_PER_PERCENT)
      | fixed_amount \<Rightarrow> rq_percentDbps rq = None \<and> (\<exists>m. rq_fixedAmountMinor rq = Some m \<and> 0 < m))"

lemma parseDiscountRequest_valid:
  "parseDiscountRequest kind t digits = Inr rq \<Longrightarrow> valid_request rq \<and> rq_kind rq = kind"
  by (cases kind) (auto simp: parseDiscountRequest_def valid_request_def result_simps DBPS_PER_PERCENT_def)

section \<open>The stage law\<close>

lemma computeDiscountStage_Inr_iff:
  "computeDiscountStage s rq = Inr st \<longleftrightarrow> 0 \<le> s \<and> (\<exists>requested. 0 < requested \<and>
     (if rq_kind rq = percentage then nearest_even (s * or_zero (rq_percentDbps rq)) DBPS_PER_PERCENT requested
      else requested = or_zero (rq_fixedAmountMinor rq)) \<and>
     st = \<lparr>requestedMinor = requested, appliedMinor = min requested s,
           zeroesOutSubtotal = (s \<le> requested), remainingSubtotalMinor = s - min requested s\<rparr>)"
  by (auto simp: computeDiscountStage_def result_simps divideRoundHalfToEven_Inr_iff min_def
      DBPS_PER_PERCENT_def Let_def not_less not_le)

lemma computeDiscountStage_law:
  assumes "computeDiscountStage s rq = Inr st"
  shows "0 \<le> s" "0 < requestedMinor st" "appliedMinor st = min (requestedMinor st) s"
    "remainingSubtotalMinor st = s - min (requestedMinor st) s"
    "zeroesOutSubtotal st \<longleftrightarrow> s \<le> requestedMinor st"
  using assms unfolding computeDiscountStage_Inr_iff by auto

text \<open>A percentage of at most 100 never requests more than the subtotal.\<close>

lemma nearest_even_le:
  assumes "0 \<le> s" "0 \<le> p" "p \<le> d" "0 < d" and near: "nearest_even (s * p) d q"
  shows "q \<le> s"
proof (rule ccontr)
  assume "\<not> q \<le> s"
  then have "s + 1 \<le> q" by simp
  then have ge: "(s + 1) * d \<le> q * d" using \<open>0 < d\<close> by (intro mult_right_mono) auto
  have le: "s * p \<le> s * d" using assms by (intro mult_left_mono)
  with ge have "d \<le> q * d - s * p" by (simp add: algebra_simps)
  with near \<open>0 < d\<close> show False by (auto simp: nearest_even_def)
qed

text \<open>
  One discount stage: from a non-negative remaining subtotal, a parsed request applies a
  discount between 0 and the subtotal, leaves a non-negative remainder, and the two add up to the
  subtotal; the stage is flagged as zeroing out exactly when nothing remains; and a percentage
  request never exceeds the subtotal, so only a fixed amount can be capped.
\<close>

theorem computeDiscountStage_correct:
  assumes "valid_request rq" and "computeDiscountStage s rq = Inr st"
  shows "0 \<le> appliedMinor st \<and> appliedMinor st \<le> s \<and>
    appliedMinor st + remainingSubtotalMinor st = s \<and> 0 \<le> remainingSubtotalMinor st \<and>
    appliedMinor st = min (requestedMinor st) s \<and> 0 < requestedMinor st \<and>
    (zeroesOutSubtotal st \<longleftrightarrow> remainingSubtotalMinor st = 0) \<and>
    (rq_kind rq = percentage \<longrightarrow> requestedMinor st \<le> s)"
proof -
  have "requestedMinor st \<le> s" if "rq_kind rq = percentage"
  proof -
    from assms(1) that obtain d where d: "rq_percentDbps rq = Some d" "0 < d" "d \<le> DBPS_PER_PERCENT"
      by (auto simp: valid_request_def)
    from assms(2) have "0 \<le> s" "nearest_even (s * or_zero (rq_percentDbps rq)) DBPS_PER_PERCENT (requestedMinor st)"
      unfolding computeDiscountStage_Inr_iff using that by auto
    then have near: "nearest_even (s * d) DBPS_PER_PERCENT (requestedMinor st)"
      by (simp only: d or_zero_def option.case)
    have "0 \<le> d" "0 < DBPS_PER_PERCENT" using d(2) by (simp_all add: DBPS_PER_PERCENT_def)
    then show ?thesis using nearest_even_le [OF \<open>0 \<le> s\<close> _ d(3) _ near] by blast
  qed
  with computeDiscountStage_law [OF assms(2)] show ?thesis by (simp add: min_def)
qed

theorem computeDiscountStage_correct_witness:
  "\<exists>st. computeDiscountStage 1005 \<lparr>rq_kind = percentage, rq_percentDbps = Some 100000,
      rq_fixedAmountMinor = None\<rparr> = Inr st \<and> appliedMinor st = 100 \<and> remainingSubtotalMinor st = 905"
proof -
  let ?rq = "\<lparr>rq_kind = percentage, rq_percentDbps = Some 100000, rq_fixedAmountMinor = None\<rparr>"
  let ?st = "\<lparr>requestedMinor = 100, appliedMinor = 100, zeroesOutSubtotal = False,
    remainingSubtotalMinor = 905\<rparr>"
  have run: "computeDiscountStage 1005 ?rq = Inr ?st" by code_simp
  have "valid_request ?rq" by (simp add: valid_request_def DBPS_PER_PERCENT_def)
  from computeDiscountStage_correct [OF this run] run show ?thesis by simp
qed

section \<open>The dual-cap gate\<close>

text \<open>
  The gate, as a specification: no approval is needed only for a discount that leaves something to
  pay, is within the cap of its own kind when there is one, and whose equivalent in the other
  dimension (banker's rounding at the stage's own subtotal) is within the other cap when granted.
\<close>

definition within_cap :: "int \<Rightarrow> int option \<Rightarrow> bool" where
  "within_cap x cap \<longleftrightarrow> (case cap of None \<Rightarrow> True | Some c \<Rightarrow> x \<le> c)"

definition cross_equivalent :: "int \<Rightarrow> parsed_discount_request \<Rightarrow> discount_stage_computation \<Rightarrow> int \<Rightarrow> bool" where
  "cross_equivalent s rq st e \<longleftrightarrow>
     (if rq_kind rq = percentage then e = requestedMinor st
      else nearest_even (or_zero (rq_fixedAmountMinor rq) * DBPS_PER_PERCENT) s e)"

text \<open>
  The dual-cap gate never fails, and lets a discount through without a manager exactly when it
  does not zero out the remaining subtotal, is within the actor's cap of its own kind, and its
  equivalent in the other dimension at the same subtotal is within that cap (an absent cap does
  not escalate by itself). A reason is reported exactly when approval is required, and a stage
  that zeroes out the subtotal always requires it, whatever the caps.
\<close>

theorem discountOverrideRequirement_correct:
  assumes "computeDiscountStage s rq = Inr st"
  shows "\<exists>r. discountOverrideRequirement st rq cps = Inr r \<and>
    (required r \<longleftrightarrow> reason r \<noteq> None) \<and> (zeroesOutSubtotal st \<longrightarrow> required r) \<and>
    (\<not> required r \<longleftrightarrow> 0 < remainingSubtotalMinor st \<and>
       (if rq_kind rq = percentage
        then within_cap (or_zero (rq_percentDbps rq)) (maxPercentDbps cps) \<and>
          within_cap (requestedMinor st) (maxFixedAmountMinor cps)
        else within_cap (or_zero (rq_fixedAmountMinor rq)) (maxFixedAmountMinor cps) \<and>
          (\<forall>e. cross_equivalent s rq st e \<longrightarrow> within_cap e (maxPercentDbps cps))))"
proof -
  note law = computeDiscountStage_law [OF assms]
  show ?thesis
  proof (cases "s \<le> requestedMinor st \<or> rq_kind rq = percentage")
    case True
    with law show ?thesis
      by (cases "maxFixedAmountMinor cps"; cases "maxPercentDbps cps")
         (auto simp: discountOverrideRequirement_def within_cap_def Let_def)
  next
    case False
    then have "s \<noteq> 0" and basis: "appliedMinor st + remainingSubtotalMinor st = s" using law by auto
    from divideRoundHalfToEven_total [OF \<open>s \<noteq> 0\<close>] obtain e where
      e: "divideRoundHalfToEven (or_zero (rq_fixedAmountMinor rq) * DBPS_PER_PERCENT) s = Inr e"
      and near: "nearest_even (or_zero (rq_fixedAmountMinor rq) * DBPS_PER_PERCENT) s e" by blast
    have "cross_equivalent s rq st e' \<longleftrightarrow> e' = e" for e'
      unfolding cross_equivalent_def using False near nearest_even_unique [OF \<open>s \<noteq> 0\<close> _ near] by metis
    with False law e show ?thesis
      by (cases "maxFixedAmountMinor cps"; cases "maxPercentDbps cps")
         (simp_all add: discountOverrideRequirement_def basis within_cap_def ok_def)
  qed
qed

theorem discountOverrideRequirement_correct_witness:
  "\<exists>st r. computeDiscountStage 1000 \<lparr>rq_kind = fixed_amount, rq_percentDbps = None,
       rq_fixedAmountMinor = Some 450\<rparr> = Inr st \<and>
     discountOverrideRequirement st \<lparr>rq_kind = fixed_amount, rq_percentDbps = None,
       rq_fixedAmountMinor = Some 450\<rparr>
       \<lparr>maxPercentDbps = Some 150000, maxFixedAmountMinor = Some 500\<rparr> = Inr r \<and>
     required r \<and> reason r = Some exceeds_cross_equivalent_cap"
proof -
  let ?rq = "\<lparr>rq_kind = fixed_amount, rq_percentDbps = None, rq_fixedAmountMinor = Some 450\<rparr>"
  let ?st = "\<lparr>requestedMinor = 450, appliedMinor = 450, zeroesOutSubtotal = False,
    remainingSubtotalMinor = 550\<rparr>"
  let ?cps = "\<lparr>maxPercentDbps = Some 150000, maxFixedAmountMinor = Some 500\<rparr>"
  have run: "computeDiscountStage 1000 ?rq = Inr ?st" by code_simp
  have gate: "discountOverrideRequirement ?st ?rq ?cps =
    Inr \<lparr>required = True, reason = Some exceeds_cross_equivalent_cap\<rparr>" by code_simp
  from discountOverrideRequirement_correct [OF run, of ?cps] show ?thesis using run gate by auto
qed

section \<open>Conservation over a chain of stages\<close>

text \<open>
  Stacking conserves the subtotal: over any chain of parsed requests the applied discounts are
  all between 0 and the subtotal, their sum is at most the subtotal and with what the last stage
  leaves it is the subtotal, and every stage that brings a positive remainder down to zero asks for
  a manager's approval.
\<close>

theorem applyDiscountStages_conserves:
  assumes "applyDiscountStages subtotal stages = Inr rs" and "0 \<le> subtotal"
    and "list_all (\<lambda>s. valid_request (request s)) stages"
  shows "map sr_stage rs = stages \<and>
    (\<Sum>r\<leftarrow>rs. appliedMinor (sr_computation r)) \<le> subtotal \<and>
    (stages \<noteq> [] \<longrightarrow> (\<Sum>r\<leftarrow>rs. appliedMinor (sr_computation r)) +
       remainingSubtotalMinor (sr_computation (last rs)) = subtotal) \<and>
    list_all (\<lambda>r. 0 \<le> appliedMinor (sr_computation r) \<and>
      (remainingSubtotalMinor (sr_computation r) = 0 \<and> 0 < appliedMinor (sr_computation r)
        \<longrightarrow> sr_overrideRequired r)) rs"
  using assms
proof (induction subtotal stages arbitrary: rs rule: applyDiscountStages.induct)
  case (1 remaining)
  then show ?case by simp
next
  case (2 remaining stage stages)
  show ?case
  proof (cases "remaining = 0")
    case True
    with "2.prems" obtain rs' where rs: "rs = skipped_stage stage # rs'"
      and rest: "applyDiscountStages remaining stages = Inr rs'" by (auto simp: result_simps)
    have "stages = [] \<longleftrightarrow> rs' = []" using "2.IH"(1) [OF True rest] "2.prems" by auto
    with "2.IH"(1) [OF True rest] "2.prems" True show ?thesis
      by (auto simp: rs skipped_stage_def)
  next
    case False
    with "2.prems"(1) obtain st r rs' where st: "computeDiscountStage remaining (request stage) = Inr st"
      and r: "discountOverrideRequirement st (request stage) (caps stage) = Inr r"
      and rest: "applyDiscountStages (remainingSubtotalMinor st) stages = Inr rs'"
      and rs: "rs = \<lparr>sr_stage = stage, sr_computation = st, sr_overrideRequired = required r,
        sr_overrideReason = reason r\<rparr> # rs'"
      by (auto simp: result_simps)
    have law: "0 \<le> appliedMinor st" "0 \<le> remainingSubtotalMinor st"
      "appliedMinor st + remainingSubtotalMinor st = remaining"
      "remainingSubtotalMinor st = 0 \<longrightarrow> zeroesOutSubtotal st"
      using computeDiscountStage_law [OF st] by auto
    with r have "remainingSubtotalMinor st = 0 \<longrightarrow> required r"
      by (auto simp: discountOverrideRequirement_def Let_def)
    moreover note IH = "2.IH"(2) [OF False st r rest law(2)]
    moreover have "stages = [] \<longleftrightarrow> rs' = []" using IH "2.prems"(3) by auto
    ultimately show ?thesis using law "2.prems"(3) by (auto simp: rs)
  qed
qed

theorem applyDiscountStages_conserves_witness:
  "\<exists>rs. applyDiscountStages 1000
     [\<lparr>mechanism = coupon, request = \<lparr>rq_kind = percentage, rq_percentDbps = Some 100000,
         rq_fixedAmountMinor = None\<rparr>, caps = \<lparr>maxPercentDbps = None, maxFixedAmountMinor = None\<rparr>\<rparr>,
      \<lparr>mechanism = manual, request = \<lparr>rq_kind = fixed_amount, rq_percentDbps = None,
         rq_fixedAmountMinor = Some 2000\<rparr>, caps = \<lparr>maxPercentDbps = None, maxFixedAmountMinor = None\<rparr>\<rparr>]
     = Inr rs \<and> (\<Sum>r\<leftarrow>rs. appliedMinor (sr_computation r)) = 1000"
proof -
  let ?stages = "[\<lparr>mechanism = coupon, request = \<lparr>rq_kind = percentage, rq_percentDbps = Some 100000,
         rq_fixedAmountMinor = None\<rparr>, caps = \<lparr>maxPercentDbps = None, maxFixedAmountMinor = None\<rparr>\<rparr>,
      \<lparr>mechanism = manual, request = \<lparr>rq_kind = fixed_amount, rq_percentDbps = None,
         rq_fixedAmountMinor = Some 2000\<rparr>, caps = \<lparr>maxPercentDbps = None, maxFixedAmountMinor = None\<rparr>\<rparr>]"
  let ?run = "applyDiscountStages 1000 ?stages"
  have ok: "isOk ?run \<and> remainingSubtotalMinor (sr_computation (last (projr ?run))) = 0" by code_simp
  then obtain rs where rs: "?run = Inr rs" by (cases ?run) auto
  have "list_all (\<lambda>s. valid_request (request s)) ?stages"
    by (simp add: valid_request_def DBPS_PER_PERCENT_def)
  from applyDiscountStages_conserves [OF rs _ this] ok rs show ?thesis by auto
qed

end
