(* ===== verification/Payments_Types.thy ===== *)
theory Payments_Types
  imports Discount_Math Tax_Rules
begin

text \<open>
  The vocabulary of \<^verbatim>\<open>src/domain/contracts/payments.ts\<close>: statuses, the records the payments and
  shift engines exchange with their stores, and their inputs. NUMERIC columns are decimal texts, as
  in the contract; a \<open>Date\<close> is its number of milliseconds (\<open>int\<close>); a nullable or optional field is
  an option. Every record has its own field prefix.
  The exchange rate of a payment, which nothing computes with once it is stored, keeps the text it was inserted with; the database prints it with eight digits.
\<close>

section \<open>Vocabularies\<close>

datatype payment_method_type = pm_cash | pm_card | pm_wallet | pm_foreign_currency_cash | pm_other

datatype payment_status = completed | voided | refunded

datatype order_payment_status = op_open | op_paid | op_refund_pending | op_refunded | op_voided

datatype shift_status = shift_open | shift_closed

datatype variance_type = overage | shortage | exact

datatype cash_count_type = count_open | count_close

text \<open>The text of a status, as the errors that carry it have it.\<close>

fun payment_status_text :: "payment_status \<Rightarrow> string" where
  "payment_status_text completed = ''completed''"
| "payment_status_text voided = ''voided''"
| "payment_status_text refunded = ''refunded''"

section \<open>Records\<close>

record payment_method_record =
  pm_id :: string
  pm_tenantId :: string
  pm_branchId :: "string option"
  pm_name :: string
  pm_type :: payment_method_type
  pm_currencyCode :: "string option"
  pm_fixedExchangeRate :: "string option"
  pm_clearingAccountSystemPurpose :: string
  pm_isActive :: bool

record payment_record =
  pay_id :: string
  pay_tenantId :: string
  pay_orderId :: string
  pay_paymentMethodId :: string
  pay_amount :: string
  pay_amountInBaseCurrency :: string
  pay_exchangeRateSnapshot :: "string option"
  pay_changeGivenAmount :: "string option"
  pay_status :: payment_status
  pay_shiftId :: string
  pay_createdBy :: string
  pay_idempotencyKey :: "string option"
  pay_voidedById :: "string option"
  pay_voidedAt :: "int option"
  pay_voidReason :: "string option"
  pay_createdAt :: int

record coupon_record =
  cp_id :: string
  cp_tenantId :: string
  cp_code :: string
  cp_discountKind :: discount_kind
  cp_discountValue :: string
  cp_minOrderAmount :: "string option"
  cp_maxUses :: "int option"
  cp_usesCount :: int
  cp_expiresAt :: "int option"
  cp_isActive :: bool

record order_discount_record =
  od_id :: string
  od_tenantId :: string
  od_orderId :: string
  od_mechanism :: discount_mechanism
  od_couponId :: "string option"
  od_discountKind :: discount_kind
  od_discountValue :: string
  od_discountAmountApplied :: string
  od_requiredManagerOverride :: bool
  od_managerOverrideAttemptId :: "string option"
  od_appliedBy :: string
  od_createdAt :: int

record shift_record =
  sh_id :: string
  sh_tenantId :: string
  sh_branchId :: string
  sh_cashierId :: string
  sh_openedById :: string
  sh_openVerifiedById :: string
  sh_openedAt :: int
  sh_startingFloat :: string
  sh_status :: shift_status
  sh_closedById :: "string option"
  sh_closeVerifiedById :: "string option"
  sh_closedAt :: "int option"
  sh_countedCash :: "string option"
  sh_recordedCashSales :: "string option"
  sh_variance :: "string option"
  sh_varianceType :: "variance_type option"
  sh_notes :: "string option"
  sh_createdAt :: int

record cash_count_detail_record =
  cc_id :: string
  cc_tenantId :: string
  cc_shiftReconciliationId :: string
  cc_countType :: cash_count_type
  cc_denominationValue :: string
  cc_quantity :: int
  cc_subtotal :: string
  cc_createdAt :: int

record cash_count_line_input =
  cl_denominationValue :: string
  cl_quantity :: js_number

record payment_actor =
  pa_userId :: string
  pa_tokenSecV :: string

record manager_override_challenge_input =
  mo_managerUserId :: string
  mo_managerOverridePin :: string

section \<open>The financial snapshot of an order\<close>

record order_line_tax_plan_line =
  tp_taxRateId :: string
  tp_taxFamily :: tax_family
  tp_cascadePriority :: int
  tp_rateBps :: int
  tp_isPriceInclusive :: bool

record order_line_for_totals =
  ol_orderItemId :: string
  ol_lineAmountMinor :: int
  ol_taxPlan :: "order_line_tax_plan_line list"

record order_financial_snapshot =
  sn_orderId :: string
  sn_branchId :: string
  sn_baseCurrencyCode :: string
  sn_paymentStatus :: order_payment_status
  sn_roundingStrategy :: "tax_rounding_strategy option"
  sn_lines :: "order_line_for_totals list"
  sn_discounts :: "order_discount_record list"
  sn_completedPaymentsMinor :: int
  sn_paymentStatuses :: "payment_status list"

record user_discount_caps =
  uc_maxDiscountPercentage :: "string option"
  uc_maxDiscountFixedAmount :: "string option"

section \<open>Inputs of the store\<close>

record insert_payment_input =
  ip_id :: string
  ip_orderId :: string
  ip_paymentMethodId :: string
  ip_amount :: string
  ip_amountInBaseCurrency :: string
  ip_exchangeRateSnapshot :: "string option"
  ip_changeGivenAmount :: "string option"
  ip_shiftId :: string
  ip_createdBy :: string
  ip_idempotencyKey :: "string option"

record insert_order_discount_input =
  id_id :: string
  id_orderId :: string
  id_mechanism :: discount_mechanism
  id_couponId :: "string option"
  id_couponCode :: "string option"
  id_discountKind :: discount_kind
  id_discountValue :: string
  id_discountAmountApplied :: string
  id_requiredManagerOverride :: bool
  id_managerOverrideAttemptId :: "string option"
  id_appliedBy :: string

record open_shift_input =
  os_branchId :: string
  os_cashierUserId :: string
  os_openedByUserId :: string
  os_openVerifiedByUserId :: string
  os_openedAt :: int
  os_openCounts :: "cash_count_line_input list"

record close_shift_input =
  ci_shiftId :: string
  ci_closedByUserId :: string
  ci_closeVerifiedByUserId :: string
  ci_closedAt :: int
  ci_closeCounts :: "cash_count_line_input list"
  ci_notes :: "string option"

end
