(* ===== verification/Order_Totals.thy ===== *)
theory Order_Totals
  imports Allocation Cascading Payments_Types
begin

text \<open>
  Model of \<^verbatim>\<open>src/application/engines/payments/order-totals.ts\<close>: the proportional allocation of a
  discount over the lines, the reconstruction of a tax plan from stored snapshots, and the totals
  of an order (subtotal, discount, tax on the discounted bases, total, remaining balance).
\<close>

section \<open>Proportional allocation\<close>

record weighted_line =
  wl_id :: string
  wl_weight :: int

text \<open>The comparator of the source: remainder descending, then id; equal ids are never compared equal.\<close>

definition compareProportional :: "string \<times> int \<Rightarrow> string \<times> int \<Rightarrow> int" where
  "compareProportional a b =
     (if snd a = snd b then (if fst a < fst b then -1 else 1)
      else if snd a > snd b then -1 else 1)"

definition allocateProportionally :: "int \<Rightarrow> weighted_line list \<Rightarrow> (string \<times> int) list" where
  "allocateProportionally totalMinor weights =
     (let allocation = foldl (\<lambda>m w. AList.update (wl_id w) 0 m) [] weights;
          totalWeight = (\<Sum>w\<leftarrow>weights. wl_weight w)
      in if totalMinor = 0 \<or> totalWeight = 0 \<or> weights = [] then allocation
         else
           let allocation' = foldl (\<lambda>m w. AList.update (wl_id w) (totalMinor * wl_weight w sdiv totalWeight) m)
                               allocation weights;
               distributed = (\<Sum>w\<leftarrow>weights. totalMinor * wl_weight w sdiv totalWeight);
               remainders = js_sort compareProportional
                 (map (\<lambda>w. (wl_id w, totalMinor * wl_weight w smod totalWeight)) weights)
           in distributeUnits allocation' (map fst remainders) (totalMinor - distributed))"

section \<open>Totals\<close>

definition toApplicableTax :: "order_line_tax_plan_line \<Rightarrow> applicable_tax" where
  "toApplicableTax line =
     (let syntheticCategoryId = ''rate:'' @ tp_taxRateId line in
      \<lparr>at_category = \<lparr>tc_id = syntheticCategoryId, tc_countryCode = '''', tc_code = syntheticCategoryId,
         tc_kind = standard, tc_taxFamily = tp_taxFamily line,
         tc_cascadePriority = tp_cascadePriority line, tc_isActive = True\<rparr>,
       at_rate = \<lparr>tr_source = None, tr_id = tp_taxRateId line, tr_taxCategoryId = syntheticCategoryId,
         tr_rateBps = tp_rateBps line, tr_isPriceInclusiveDefault = tp_isPriceInclusive line,
         tr_effectiveFrom = ''1970-01-01'', tr_effectiveTo = None, tr_supersededBy = None\<rparr>\<rparr>)"

record order_totals_computation =
  ot_subtotalMinor :: int
  ot_discountTotalMinor :: int
  ot_discountedSubtotalMinor :: int
  ot_taxMinor :: int
  ot_totalMinor :: int
  ot_remainingBalanceMinor :: int
  ot_baseMinorDigits :: int

definition discountPlans :: "order_financial_snapshot \<Rightarrow> int \<Rightarrow> tax_computation_plan list" where
  "discountPlans snapshot discountTotalMinor =
     (let discountByLine =
        (if discountTotalMinor = 0 then []
         else allocateProportionally discountTotalMinor
                (map (\<lambda>line. \<lparr>wl_id = ol_orderItemId line, wl_weight = ol_lineAmountMinor line\<rparr>)
                   (sn_lines snapshot)))
      in map (\<lambda>line. \<lparr>pl_orderLineId = ol_orderItemId line,
                pl_amountMinor = ol_lineAmountMinor line - get_or discountByLine (ol_orderItemId line) 0,
                pl_currencyCode = sn_baseCurrencyCode snapshot,
                pl_taxes = map toApplicableTax (ol_taxPlan line)\<rparr>)
           (filter (\<lambda>line. ol_taxPlan line \<noteq> []) (sn_lines snapshot)))"

definition exclusiveTaxTotal :: "rows_map \<Rightarrow> int" where
  "exclusiveTaxTotal resolved =
     (\<Sum>r\<leftarrow>concat (map snd resolved). if \<not> rl_isPriceInclusive r then rl_taxAmountMinor r else 0)"

definition computeOrderTotals :: "order_financial_snapshot \<Rightarrow> order_totals_computation result" where
  "computeOrderTotals snapshot =
     andThen (currencyCode (sn_baseCurrencyCode snapshot)) (\<lambda>cur.
     andThen (storageMinorUnitDigits cur) (\<lambda>baseMinorDigits.
     let subtotalMinor = (\<Sum>line\<leftarrow>sn_lines snapshot. ol_lineAmountMinor line) in
     andThen (foldR (\<lambda>sum discount. mapResult
         (decimalTextToMinor (od_discountAmountApplied discount) baseMinorDigits ''discountAmountApplied'')
         (\<lambda>d. sum + d)) 0 (sn_discounts snapshot)) (\<lambda>rawDiscountTotal.
     let discountTotalMinor = (if rawDiscountTotal > subtotalMinor then subtotalMinor else rawDiscountTotal);
         discountedSubtotalMinor = subtotalMinor - discountTotalMinor in
     andThen
       (if \<exists>line\<in>set (sn_lines snapshot). ol_taxPlan line \<noteq> [] then
          (case sn_roundingStrategy snapshot of
             None \<Rightarrow> Inl TaxConfigurationError
           | Some strategy \<Rightarrow>
               mapResult (calculateCascadingTaxes (discountPlans snapshot discountTotalMinor) strategy)
                 exclusiveTaxTotal)
        else Inr 0) (\<lambda>taxMinor.
     let totalMinor = discountedSubtotalMinor + taxMinor in
     Inr \<lparr>ot_subtotalMinor = subtotalMinor, ot_discountTotalMinor = discountTotalMinor,
          ot_discountedSubtotalMinor = discountedSubtotalMinor, ot_taxMinor = taxMinor,
          ot_totalMinor = totalMinor,
          ot_remainingBalanceMinor = totalMinor - sn_completedPaymentsMinor snapshot,
          ot_baseMinorDigits = baseMinorDigits\<rparr>))))"

section \<open>The proportional allocation satisfies the allocation contract\<close>

text \<open>On distinct ids the two comparators agree, so the sorted orders do.\<close>

lemma js_insort_cong:
  "(\<And>y. y \<in> set ys \<Longrightarrow> cmp x y \<le> 0 \<longleftrightarrow> cmp' x y \<le> 0) \<Longrightarrow> js_insort cmp x ys = js_insort cmp' x ys"
  by (induction ys) auto

lemma compareProportional_sort:
  "distinct (map fst xs) \<Longrightarrow> js_sort compareProportional xs = js_sort compareRemainders xs"
proof (induction xs)
  case (Cons x xs)
  have "compareProportional x y \<le> 0 \<longleftrightarrow> compareRemainders x y \<le> 0" if "y \<in> set xs" for y
    using that Cons.prems by (auto simp: compareProportional_def compareRemainders_def)
  then have "js_insort compareProportional x (js_sort compareRemainders xs) =
      js_insort compareRemainders x (js_sort compareRemainders xs)"
    by (intro js_insort_cong) simp
  with Cons show ?case by simp
qed simp

lemma foldl_update_fresh:
  "distinct (map key ws) \<Longrightarrow> fst ` set m \<inter> key ` set ws = {} \<Longrightarrow>
   foldl (\<lambda>m w. AList.update (key w) (f w) m) m ws = m @ map (\<lambda>w. (key w, f w)) ws"
  by (induction ws arbitrary: m) (auto simp: update_fresh)

lemma update_mid: "k \<notin> fst ` set xs \<Longrightarrow> AList.update k v (xs @ (k, u) # ys) = xs @ (k, v) # ys"
  by (induction xs) auto

lemma foldl_update_all:
  "distinct (map fst pre @ map key ws) \<Longrightarrow>
   foldl (\<lambda>m w. AList.update (key w) (f w) m) (pre @ map (\<lambda>w. (key w, g w)) ws) ws =
     pre @ map (\<lambda>w. (key w, f w)) ws"
proof (induction ws arbitrary: pre)
  case (Cons w ws)
  have "foldl (\<lambda>m w. AList.update (key w) (f w) m) ((pre @ [(key w, f w)]) @ map (\<lambda>w. (key w, g w)) ws) ws =
      (pre @ [(key w, f w)]) @ map (\<lambda>w. (key w, f w)) ws"
    using Cons.prems by (intro Cons.IH) auto
  moreover have "key w \<notin> fst ` set pre" using Cons.prems by auto
  ultimately show ?case by (simp add: update_mid)
qed simp

definition valid_weights :: "int \<Rightarrow> weighted_line list \<Rightarrow> bool" where
  "valid_weights tot ws \<longleftrightarrow> 0 < tot \<and> 0 < (\<Sum>w\<leftarrow>ws. wl_weight w) \<and>
     list_all (\<lambda>w. 0 \<le> wl_weight w) ws \<and> distinct (map wl_id ws)"

lemma allocateProportionally_eq:
  assumes v: "valid_weights tot ws"
  defines "W \<equiv> (\<Sum>w\<leftarrow>ws. wl_weight w)"
  shows "\<exists>r. 0 \<le> r \<and> r \<le> int (length ws) \<and> (\<Sum>w\<leftarrow>ws. tot * wl_weight w div W) + r = tot \<and>
    allocateProportionally tot ws =
      remainder_allocation wl_id (\<lambda>w. tot * wl_weight w div W) (\<lambda>w. tot * wl_weight w mod W) ws r"
proof -
  have W: "0 < W" and tot: "0 < tot" and nonneg: "\<And>w. w \<in> set ws \<Longrightarrow> 0 \<le> wl_weight w"
    and ids: "distinct (map wl_id ws)" using v by (auto simp: valid_weights_def W_def list_all_iff)
  let ?fl = "\<lambda>w. tot * wl_weight w div W" and ?md = "\<lambda>w. tot * wl_weight w mod W"
  have sd: "map (\<lambda>w. tot * wl_weight w sdiv W) ws = map ?fl ws"
    "map (\<lambda>w. (wl_id w, tot * wl_weight w sdiv W)) ws = map (\<lambda>w. (wl_id w, ?fl w)) ws"
    "map (\<lambda>w. (wl_id w, tot * wl_weight w smod W)) ws = map (\<lambda>w. (wl_id w, ?md w)) ws"
    using nonneg tot W by (auto simp: bigint_simps)
  define r where "r = tot - (\<Sum>w\<leftarrow>ws. ?fl w)"
  have "(\<Sum>w\<leftarrow>ws. tot * wl_weight w) = tot * W" by (simp add: W_def sum_list_const_mult)
  with sum_list_div_mod [of "\<lambda>w. tot * wl_weight w" ws W]
  have rW: "W * r = (\<Sum>w\<leftarrow>ws. ?md w)" by (simp add: r_def algebra_simps)
  from sum_list_mod_bounds [OF W, of "\<lambda>w. tot * wl_weight w" ws]
  have "0 \<le> W * r" "W * r \<le> W * int (length ws)" by (simp_all add: rW)
  with W have r: "0 \<le> r" "r \<le> int (length ws)" by (simp_all add: zero_le_mult_iff)
  have ks: "js_sort compareProportional (map (\<lambda>w. (wl_id w, ?md w)) ws) =
      js_sort compareRemainders (map (\<lambda>w. (wl_id w, ?md w)) ws)"
    by (rule compareProportional_sort) (simp add: ids comp_def)
  have "ws \<noteq> []" using W by (auto simp: W_def)
  have fold1: "foldl (\<lambda>m w. AList.update (wl_id w) (0 :: int) m) [] ws = map (\<lambda>w. (wl_id w, 0)) ws"
    using foldl_update_fresh [of wl_id ws "[]" "\<lambda>_. 0 :: int"] ids by simp
  have fold2: "foldl (\<lambda>m w. AList.update (wl_id w) (tot * wl_weight w sdiv W) m)
      (map (\<lambda>w. (wl_id w, 0)) ws) ws = map (\<lambda>w. (wl_id w, ?fl w)) ws"
    using foldl_update_all [of "[]" wl_id ws "\<lambda>w. tot * wl_weight w sdiv W" "\<lambda>_. 0"] ids
    by (simp add: sd(2))
  have "allocateProportionally tot ws = remainder_allocation wl_id ?fl ?md ws r"
    unfolding allocateProportionally_def Let_def fold1 W_def [symmetric] fold2
      sd(1,3) ks remainder_allocation_def r_def
    using tot W \<open>ws \<noteq> []\<close> by simp
  with r show ?thesis by (intro exI [of _ r]) (simp add: r_def)
qed

interpretation proportional: remainder_allocator
  "\<lambda>tot ws. Inr (allocateProportionally tot ws)" valid_weights wl_id
  "\<lambda>tot w. tot * wl_weight w" "\<lambda>_ ws. \<Sum>w\<leftarrow>ws. wl_weight w"
proof unfold_locales
  fix tot :: int and xs ys :: "weighted_line list"
  let ?W = "\<Sum>w\<leftarrow>xs. wl_weight w"
  show "valid_weights tot xs \<Longrightarrow> distinct (map wl_id xs)" "valid_weights tot xs \<Longrightarrow> 0 < ?W"
    by (simp_all add: valid_weights_def)
  assume m: "mset xs = mset ys"
  then show sums: "?W = (\<Sum>w\<leftarrow>ys. wl_weight w)" by (metis mset_map sum_mset_sum_list)
  show "valid_weights tot xs = valid_weights tot ys"
    using m sums unfolding valid_weights_def list_all_iff
    by (metis mset_map mset_eq_imp_distinct_iff mset_eq_setD)
next
  fix tot :: int and xs :: "weighted_line list"
  let ?W = "\<Sum>w\<leftarrow>xs. wl_weight w"
  assume v: "valid_weights tot xs"
  from allocateProportionally_eq [OF v] obtain r where r: "0 \<le> r" "r \<le> int (length xs)"
    "(\<Sum>w\<leftarrow>xs. tot * wl_weight w div ?W) + r = tot"
    "allocateProportionally tot xs = remainder_allocation wl_id (\<lambda>w. tot * wl_weight w div ?W)
      (\<lambda>w. tot * wl_weight w mod ?W) xs r" by blast
  have "half_up (tot * ?W) ?W tot" using v by (simp add: half_up_def valid_weights_def algebra_simps)
  then have "half_up (\<Sum>w\<leftarrow>xs. tot * wl_weight w) ?W tot" by (simp add: sum_list_const_mult)
  with r show "\<exists>r. 0 \<le> r \<and> r \<le> int (length xs) \<and>
      half_up (\<Sum>w\<leftarrow>xs. tot * wl_weight w) ?W ((\<Sum>w\<leftarrow>xs. tot * wl_weight w div ?W) + r) \<and>
      Inr (allocateProportionally tot xs) =
        Inr (remainder_allocation wl_id (\<lambda>w. tot * wl_weight w div ?W)
          (\<lambda>w. tot * wl_weight w mod ?W) xs r)" by (intro exI [of _ r]) simp
qed

section \<open>Sharing a discount among the lines\<close>

lemma sum_list_zeros: "(\<And>x. x \<in> set xs \<Longrightarrow> f x = 0) \<Longrightarrow> (\<Sum>x\<leftarrow>xs. f x) = (0 :: int)"
  by (induction xs) auto

lemma sum_list_zero_pointwise:
  fixes h :: "'a \<Rightarrow> int"
  shows "(\<Sum>x\<leftarrow>xs. h x) = 0 \<Longrightarrow> \<forall>x\<in>set xs. 0 \<le> h x \<Longrightarrow> y \<in> set xs \<Longrightarrow> h y = 0"
proof (induction xs)
  case (Cons x xs)
  have "0 \<le> (\<Sum>x\<leftarrow>xs. h x)" using Cons.prems(2) by (intro sum_list_nonneg) auto
  then have "h x = 0" "(\<Sum>x\<leftarrow>xs. h x) = 0" using Cons.prems(1,2) by (simp_all add: add_nonneg_eq_0_iff)
  with Cons show ?case by auto
qed simp

lemma sum_list_eq_pointwise:
  fixes f g :: "'a \<Rightarrow> int"
  assumes "(\<Sum>x\<leftarrow>xs. f x) = (\<Sum>x\<leftarrow>xs. g x)" "\<forall>x\<in>set xs. f x \<le> g x" "y \<in> set xs"
  shows "f y = g y"
  using sum_list_zero_pointwise [of "\<lambda>x. g x - f x" xs y] assms by (simp add: sum_list_subtractf)

lemma lookup_sum:
  assumes "map fst am = map key xs" "distinct (map key xs)"
  shows "(\<Sum>x\<leftarrow>xs. the (map_of am (key x))) = sum_list (map snd am)"
proof -
  have "map snd am = map (\<lambda>k. the (map_of am k)) (map key xs)" using map_snd_lookup [of am] assms by simp
  then show ?thesis by (simp add: comp_def)
qed

lemma allocateProportionally_zero:
  "distinct (map wl_id ws) \<Longrightarrow> allocateProportionally 0 ws = map (\<lambda>w. (wl_id w, 0)) ws"
  using foldl_update_fresh [of wl_id ws "[]" "\<lambda>_. 0 :: int"] by (simp add: allocateProportionally_def)

lemma share_le_weight:
  fixes w W tot :: int
  assumes "0 \<le> w" "0 < W" "0 \<le> tot" "tot \<le> W"
  shows "tot * w div W \<le> w" "tot * w mod W \<noteq> 0 \<Longrightarrow> tot * w div W + 1 \<le> w"
proof -
  have le: "tot * w \<le> w * W" using assms by (simp add: mult.commute mult_right_mono)
  then show "tot * w div W \<le> w" using assms by (metis zdiv_mono1 nonzero_mult_div_cancel_right less_irrefl)
  assume "tot * w mod W \<noteq> 0"
  moreover have "0 \<le> tot * w mod W" using assms by simp
  ultimately have "tot * w div W * W < tot * w" using div_mult_mod_eq [of "tot * w" W] by linarith
  with le have "tot * w div W * W < w * W" by linarith
  with \<open>0 < W\<close> show "tot * w div W + 1 \<le> w" by simp
qed

lemma allocateProportionally_shares:
  assumes ids: "distinct (map wl_id ws)" and nonneg: "\<forall>w\<in>set ws. 0 \<le> wl_weight w"
    and tot: "0 \<le> tot" "tot \<le> (\<Sum>w\<leftarrow>ws. wl_weight w)"
  shows "map fst (allocateProportionally tot ws) = map wl_id ws"
    "sum_list (map snd (allocateProportionally tot ws)) = tot"
    "w \<in> set ws \<Longrightarrow> \<exists>v. map_of (allocateProportionally tot ws) (wl_id w) = Some v \<and> 0 \<le> v \<and> v \<le> wl_weight w"
proof -
  let ?am = "allocateProportionally tot ws" and ?W = "\<Sum>w\<leftarrow>ws. wl_weight w"
  have "map fst ?am = map wl_id ws \<and> sum_list (map snd ?am) = tot \<and>
    (\<forall>w\<in>set ws. \<exists>v. map_of ?am (wl_id w) = Some v \<and> 0 \<le> v \<and> v \<le> wl_weight w)"
  proof (cases "tot = 0")
    case True
    have "map_of (map (\<lambda>w. (wl_id w, 0 :: int)) ws) (wl_id w) = Some 0" if "w \<in> set ws" for w
      using ids that by (auto intro!: map_of_is_SomeI simp: comp_def)
    with True nonneg show ?thesis
      by (simp add: allocateProportionally_zero [OF ids] comp_def)
  next
    case False
    with assms have v: "valid_weights tot ws" by (simp add: valid_weights_def list_all_iff)
    have W: "0 < ?W" using v by (simp add: valid_weights_def)
    from proportional.total [OF v] have keys: "map fst ?am = map wl_id ws"
      and half: "half_up (tot * ?W) ?W (sum_list (map snd ?am))" by (auto simp: sum_list_const_mult)
    have "half_up (tot * ?W) ?W tot" using W by (simp add: half_up_def algebra_simps)
    from half_up_unique [OF W half this] have sum: "sum_list (map snd ?am) = tot" .
    have "\<exists>v. map_of ?am (wl_id w) = Some v \<and> 0 \<le> v \<and> v \<le> wl_weight w" if w: "w \<in> set ws" for w
    proof -
      from proportional.neighbours [OF v _ w] obtain v where "map_of ?am (wl_id w) = Some v"
        and "v = tot * wl_weight w div ?W \<or> v = tot * wl_weight w div ?W + 1 \<and> tot * wl_weight w mod ?W \<noteq> 0"
        by auto
      moreover have "0 \<le> tot * wl_weight w div ?W"
        using nonneg w tot(1) W by (simp add: pos_imp_zdiv_nonneg_iff)
      ultimately show ?thesis using share_le_weight [OF _ W tot] nonneg w by auto
    qed
    with keys sum show ?thesis by blast
  qed
  then show "map fst ?am = map wl_id ws" "sum_list (map snd ?am) = tot"
    "w \<in> set ws \<Longrightarrow> \<exists>v. map_of ?am (wl_id w) = Some v \<and> 0 \<le> v \<and> v \<le> wl_weight w" by blast+
qed

text \<open>
  Sharing a discount among the lines of an order in proportion to their amounts: with distinct
  line ids, non-negative amounts and a discount between zero and their sum, the shares are those of
  the given lines in order, add up to exactly the discount, and no line is discounted below zero or
  by more than its amount. Any other order of the lines gives every line the same share.
\<close>

theorem allocateProportionally_correct:
  assumes "distinct (map wl_id ws)" and "\<forall>w\<in>set ws. 0 \<le> wl_weight w"
    and "0 < tot" "tot \<le> (\<Sum>w\<leftarrow>ws. wl_weight w)"
  shows "map fst (allocateProportionally tot ws) = map wl_id ws \<and>
    sum_list (map snd (allocateProportionally tot ws)) = tot \<and>
    (\<forall>w\<in>set ws. \<exists>v. map_of (allocateProportionally tot ws) (wl_id w) = Some v \<and> 0 \<le> v \<and> v \<le> wl_weight w) \<and>
    (\<forall>ws'. mset ws = mset ws' \<longrightarrow> map_of (allocateProportionally tot ws) = map_of (allocateProportionally tot ws'))"
proof -
  have v: "valid_weights tot ws" using assms by (simp add: valid_weights_def list_all_iff)
  note shares = allocateProportionally_shares [OF assms(1,2) less_imp_le [OF assms(3)] assms(4)]
  have "map_of (allocateProportionally tot ws) = map_of (allocateProportionally tot ws')"
    if "mset ws = mset ws'" for ws'
    using proportional.order_independent [OF v that] by auto
  with shares show ?thesis by blast
qed

theorem allocateProportionally_correct_witness:
  "allocateProportionally 100 [\<lparr>wl_id = ''a'', wl_weight = 333\<rparr>, \<lparr>wl_id = ''b'', wl_weight = 334\<rparr>,
     \<lparr>wl_id = ''c'', wl_weight = 333\<rparr>] = [(''a'', 33), (''b'', 34), (''c'', 33)] \<and>
   map_of (allocateProportionally 100 [\<lparr>wl_id = ''a'', wl_weight = 333\<rparr>, \<lparr>wl_id = ''b'', wl_weight = 334\<rparr>,
     \<lparr>wl_id = ''c'', wl_weight = 333\<rparr>]) =
   map_of (allocateProportionally 100 [\<lparr>wl_id = ''c'', wl_weight = 333\<rparr>, \<lparr>wl_id = ''a'', wl_weight = 333\<rparr>,
     \<lparr>wl_id = ''b'', wl_weight = 334\<rparr>])"
proof -
  let ?ws = "[\<lparr>wl_id = ''a'', wl_weight = 333\<rparr>, \<lparr>wl_id = ''b'', wl_weight = 334\<rparr>, \<lparr>wl_id = ''c'', wl_weight = 333\<rparr>]"
  have "allocateProportionally 100 ?ws = [(''a'', 33), (''b'', 34), (''c'', 33)]" by code_simp
  moreover have m: "mset ?ws = mset [\<lparr>wl_id = ''c'', wl_weight = 333\<rparr>, \<lparr>wl_id = ''a'', wl_weight = 333\<rparr>,
     \<lparr>wl_id = ''b'', wl_weight = 334\<rparr>]" by simp
  have "map_of (allocateProportionally 100 ?ws) = map_of (allocateProportionally 100
      [\<lparr>wl_id = ''c'', wl_weight = 333\<rparr>, \<lparr>wl_id = ''a'', wl_weight = 333\<rparr>, \<lparr>wl_id = ''b'', wl_weight = 334\<rparr>])"
    by (rule allocateProportionally_correct [of ?ws 100, THEN conjunct2, THEN conjunct2, THEN conjunct2,
          THEN spec, THEN mp, OF _ _ _ _ m]) simp_all
  with calculation show ?thesis by blast
qed

section \<open>The totals of an order\<close>

text \<open>
  What the database guarantees of a snapshot: distinct line ids, non-negative line amounts, and
  stored discounts without a sign.
\<close>

definition wf_snapshot :: "order_financial_snapshot \<Rightarrow> bool" where
  "wf_snapshot s \<longleftrightarrow> distinct (map ol_orderItemId (sn_lines s)) \<and>
     list_all (\<lambda>l. 0 \<le> ol_lineAmountMinor l) (sn_lines s) \<and>
     list_all (\<lambda>d. od_discountAmountApplied d = [] \<or> hd (od_discountAmountApplied d) \<noteq> CHR ''-'') (sn_discounts s)"

lemma nearest_even_nonneg:
  assumes "0 \<le> n" "0 < d" "nearest_even n d q"
  shows "0 \<le> q"
proof (rule ccontr)
  assume "\<not> 0 \<le> q"
  then have "q * d \<le> - 1 * d" using assms(2) by (intro mult_right_mono) auto
  with assms show False by (simp add: nearest_even_def)
qed

lemma nonNegativeDecimalTextToMinor_nonneg:
  assumes "nonNegativeDecimalTextToMinor t digits f = Inr m"
  shows "0 \<le> m"
proof -
  from assms obtain ip fp where p: "mustMatch t f = Inr (ip, fp)"
    and d: "nearest_even (digits_to_int (ip @ fp) * 10 ^ nat digits) (10 ^ length fp) m"
    by (auto simp: nonNegativeDecimalTextToMinor_def result_simps divideRoundHalfToEven_Inr_iff split: if_splits)
  have "0 \<le> digits_to_int (ip @ fp) * 10 ^ nat digits" using mustMatch_digits(3) [OF p] by simp
  from nearest_even_nonneg [OF this _ d] show ?thesis by simp
qed

lemma discount_sum_nonneg:
  assumes "foldR (\<lambda>sum d. mapResult (decimalTextToMinor (od_discountAmountApplied d) digits f) (\<lambda>x. sum + x))
      a ds = Inr b" and "0 \<le> a"
    and "list_all (\<lambda>d. od_discountAmountApplied d = [] \<or> hd (od_discountAmountApplied d) \<noteq> CHR ''-'') ds"
  shows "0 \<le> b"
proof (rule foldR_invariant [where P = "\<lambda>x. 0 \<le> x", OF assms(1,2)])
  fix u d v
  assume "d \<in> set ds" "0 \<le> u"
    and step: "mapResult (decimalTextToMinor (od_discountAmountApplied d) digits f) (\<lambda>x. u + x) = Inr v"
  with assms(3) have "od_discountAmountApplied d = [] \<or> hd (od_discountAmountApplied d) \<noteq> CHR ''-''"
    by (simp add: list_all_iff)
  with step \<open>0 \<le> u\<close> nonNegativeDecimalTextToMinor_nonneg show "0 \<le> v"
    by (fastforce simp: decimalTextToMinor_def result_simps)
qed

lemma plan_amounts:
  assumes wf: "wf_snapshot s" and d: "0 \<le> d" "d \<le> (\<Sum>l\<leftarrow>sn_lines s. ol_lineAmountMinor l)"
    and p: "p \<in> set (discountPlans s d)"
  shows "0 \<le> pl_amountMinor p" "d = (\<Sum>l\<leftarrow>sn_lines s. ol_lineAmountMinor l) \<Longrightarrow> pl_amountMinor p = 0"
proof -
  let ?ws = "map (\<lambda>l. \<lparr>wl_id = ol_orderItemId l, wl_weight = ol_lineAmountMinor l\<rparr>) (sn_lines s)"
  let ?am = "allocateProportionally d ?ws"
  have ids: "distinct (map wl_id ?ws)" and nonneg: "\<forall>w\<in>set ?ws. 0 \<le> wl_weight w"
    and W: "(\<Sum>w\<leftarrow>?ws. wl_weight w) = (\<Sum>l\<leftarrow>sn_lines s. ol_lineAmountMinor l)"
    using wf by (auto simp: wf_snapshot_def comp_def list_all_iff)
  note shares = allocateProportionally_shares [OF ids nonneg d(1) d(2) [folded W]]
  from p obtain l where l: "l \<in> set (sn_lines s)" and
    amt: "pl_amountMinor p = ol_lineAmountMinor l - get_or (if d = 0 then [] else ?am) (ol_orderItemId l) 0"
    by (auto simp: discountPlans_def Let_def)
  let ?w = "\<lparr>wl_id = ol_orderItemId l, wl_weight = ol_lineAmountMinor l\<rparr>"
  have w: "?w \<in> set ?ws" using l by auto
  from shares(3) [OF w] obtain v where v: "map_of ?am (ol_orderItemId l) = Some v" "0 \<le> v" "v \<le> ol_lineAmountMinor l"
    by auto
  have l0: "0 \<le> ol_lineAmountMinor l" using wf l by (simp add: wf_snapshot_def list_all_iff)
  with v show "0 \<le> pl_amountMinor p" by (simp add: amt get_or_def)
  assume full: "d = (\<Sum>l\<leftarrow>sn_lines s. ol_lineAmountMinor l)"
  have "(\<Sum>w\<leftarrow>?ws. the (map_of ?am (wl_id w))) = (\<Sum>w\<leftarrow>?ws. wl_weight w)"
    unfolding lookup_sum [OF shares(1) ids] shares(2) W by (rule full)
  moreover have "\<forall>w\<in>set ?ws. the (map_of ?am (wl_id w)) \<le> wl_weight w" using shares(3) by force
  ultimately have "the (map_of ?am (wl_id ?w)) = wl_weight ?w"
    using sum_list_eq_pointwise [of "\<lambda>w. the (map_of ?am (wl_id w))" ?ws wl_weight] w by blast
  with v have "v = ol_lineAmountMinor l" by simp
  moreover have "d = 0 \<Longrightarrow> ol_lineAmountMinor l = 0"
    using full sum_list_zero_pointwise [of ol_lineAmountMinor "sn_lines s" l] wf l
    by (simp add: wf_snapshot_def list_all_iff)
  ultimately show "pl_amountMinor p = 0" using v by (simp add: amt get_or_def)
qed

text \<open>A cascade over a zero amount charges nothing.\<close>

lemma sorted_prio:
  assumes "ordered_taxes p ts" "prio (ts ! j) < prio (ts ! i)" "i < length ts" "j < length ts"
  shows "j < i"
proof (rule ccontr)
  assume "\<not> j < i"
  with assms(2) have "i < j" by (cases "i = j") auto
  with assms(1,4) have "category_order (at_category (ts ! i)) (at_category (ts ! j))"
    using sorted_wrt_nth_less [of category_order "map at_category ts" i j] by (simp add: ordered_taxes_def)
  with assms(2) show False by auto
qed

lemma cascade_zero:
  assumes ord: "ordered_taxes p ts" and zero: "pl_amountMinor p = 0"
    and rows: "\<forall>i<length ts. cascade_row strategy (ts ! i) (cascade_base p ts rows (prio (ts ! i))) (int i + 1) (rows ! i)"
  shows "i < length ts \<Longrightarrow> rl_taxAmountMinor (rows ! i) = 0"
proof (induction i rule: less_induct)
  case (less i)
  have "cascade_base p ts rows (prio (ts ! i)) = 0"
    using less sorted_prio [OF ord, of _ i] zero by (auto simp: cascade_base_def intro!: sum_list_zeros)
  with rows less.prems have "near_tax 0 (rl_rateBps (rows ! i)) (rl_isPriceInclusive (rows ! i)) (rl_taxAmountMinor (rows ! i))"
    by (metis cascade_row_def)
  then show ?case by (rule near_tax_zero)
qed

lemma exclusiveTaxTotal_bounds:
  assumes run: "calculateCascadingTaxes plans strategy = Inr res"
  shows "0 \<le> exclusiveTaxTotal res"
    "\<forall>p\<in>set plans. pl_amountMinor p = 0 \<Longrightarrow> exclusiveTaxTotal res = 0"
proof -
  have row: "0 \<le> rl_taxAmountMinor r \<and> ((\<forall>p\<in>set plans. pl_amountMinor p = 0) \<longrightarrow> rl_taxAmountMinor r = 0)"
    if r: "r \<in> set (concat (map snd res))" for r
  proof -
    from cascade_law [OF run] have keys: "map fst res = map pl_orderLineId plans"
      and lines: "\<And>p. p \<in> set plans \<Longrightarrow> \<exists>ts rows. ordered_taxes p ts \<and>
       map_of res (pl_orderLineId p) = Some rows \<and> length rows = length ts \<and>
       (\<forall>i<length ts. cascade_row strategy (ts ! i)
          (cascade_base p ts rows (prio (ts ! i))) (int i + 1) (rows ! i))" by auto
    from r obtain k rs where krs: "(k, rs) \<in> set res" "r \<in> set rs" by auto
    have "distinct (map fst res)" using cascade_run [OF run] keys by auto
    with krs have k: "map_of res k = Some rs" by simp
    have "k \<in> fst ` set res" using krs by force
    then obtain p where p: "p \<in> set plans" "k = pl_orderLineId p" using keys by (metis (no_types, lifting) image_iff set_map)
    from lines [OF p(1)] k p(2) obtain ts where ts: "ordered_taxes p ts" "length rs = length ts"
      "\<forall>i<length ts. cascade_row strategy (ts ! i) (cascade_base p ts rs (prio (ts ! i))) (int i + 1) (rs ! i)"
      by auto
    from krs(2) obtain i where i: "i < length ts" "r = rs ! i" using ts(2) by (auto simp: in_set_conv_nth)
    have "0 \<le> rl_taxAmountMinor r" using ts(3) i near_tax_nonneg by (auto simp: cascade_row_def)
    moreover have "pl_amountMinor p = 0 \<Longrightarrow> rl_taxAmountMinor r = 0"
      using cascade_zero [OF ts(1) _ ts(3) i(1)] i(2) by simp
    ultimately show ?thesis using p(1) by blast
  qed
  show "0 \<le> exclusiveTaxTotal res" unfolding exclusiveTaxTotal_def using row by (intro sum_list_nonneg) auto
  assume "\<forall>p\<in>set plans. pl_amountMinor p = 0"
  with row show "exclusiveTaxTotal res = 0" unfolding exclusiveTaxTotal_def
    by (intro sum_list_zeros) auto
qed

text \<open>
  C38. The totals of an order, for every snapshot with distinct line ids, non-negative line amounts
  and unsigned stored discounts: the subtotal is the sum of the lines; the discount is between zero
  and the subtotal; the discounted subtotal is their difference; the tax is never negative and is
  zero when no line carries a tax plan; the total is the discounted subtotal plus the tax and the
  remaining balance is the total less the completed payments; and an order discounted down to zero
  owes no tax, so that its total is zero.
\<close>

theorem computeOrderTotals_correct:
  assumes "wf_snapshot s" and "computeOrderTotals s = Inr t"
  shows "ot_subtotalMinor t = (\<Sum>l\<leftarrow>sn_lines s. ol_lineAmountMinor l) \<and>
    0 \<le> ot_discountTotalMinor t \<and> ot_discountTotalMinor t \<le> ot_subtotalMinor t \<and>
    ot_discountedSubtotalMinor t = ot_subtotalMinor t - ot_discountTotalMinor t \<and>
    0 \<le> ot_taxMinor t \<and> ((\<forall>l\<in>set (sn_lines s). ol_taxPlan l = []) \<longrightarrow> ot_taxMinor t = 0) \<and>
    ot_totalMinor t = ot_discountedSubtotalMinor t + ot_taxMinor t \<and>
    ot_remainingBalanceMinor t = ot_totalMinor t - sn_completedPaymentsMinor s \<and>
    (ot_discountTotalMinor t = ot_subtotalMinor t \<longrightarrow> ot_totalMinor t = 0)"
proof -
  let ?sub = "\<Sum>l\<leftarrow>sn_lines s. ol_lineAmountMinor l"
  from assms(2) obtain digits raw tax where
    raw: "foldR (\<lambda>sum d. mapResult (decimalTextToMinor (od_discountAmountApplied d) digits
        ''discountAmountApplied'') (\<lambda>x. sum + x)) 0 (sn_discounts s) = Inr raw" and
    tax: "(if \<exists>line\<in>set (sn_lines s). ol_taxPlan line \<noteq> [] then
          (case sn_roundingStrategy s of None \<Rightarrow> Inl TaxConfigurationError
           | Some strategy \<Rightarrow> mapResult (calculateCascadingTaxes
               (discountPlans s (if raw > ?sub then ?sub else raw)) strategy) exclusiveTaxTotal)
        else Inr 0) = Inr tax" and
    t: "t = \<lparr>ot_subtotalMinor = ?sub, ot_discountTotalMinor = (if raw > ?sub then ?sub else raw),
          ot_discountedSubtotalMinor = ?sub - (if raw > ?sub then ?sub else raw), ot_taxMinor = tax,
          ot_totalMinor = ?sub - (if raw > ?sub then ?sub else raw) + tax,
          ot_remainingBalanceMinor = ?sub - (if raw > ?sub then ?sub else raw) + tax - sn_completedPaymentsMinor s,
          ot_baseMinorDigits = digits\<rparr>"
    unfolding computeOrderTotals_def Let_def andThen_Inr_iff by blast
  define d where "d = (if raw > ?sub then ?sub else raw)"
  have "0 \<le> raw" by (rule discount_sum_nonneg [OF raw]) (use assms(1) in \<open>simp_all add: wf_snapshot_def\<close>)
  moreover have "0 \<le> ?sub" using assms(1) by (intro sum_list_nonneg) (auto simp: wf_snapshot_def list_all_iff)
  ultimately have d: "0 \<le> d" "d \<le> ?sub" by (auto simp: d_def)
  have "0 \<le> tax \<and> (d = ?sub \<longrightarrow> tax = 0)"
    using tax [folded d_def] exclusiveTaxTotal_bounds plan_amounts(2) [OF assms(1) d]
    by (auto simp: result_simps split: if_splits option.splits)
  moreover have "(\<forall>l\<in>set (sn_lines s). ol_taxPlan l = []) \<longrightarrow> tax = 0" using tax by auto
  ultimately show ?thesis using d unfolding t d_def [symmetric] by simp
qed

definition example_snapshot :: order_financial_snapshot where
  "example_snapshot = \<lparr>sn_orderId = ''o1'', sn_branchId = ''b1'', sn_baseCurrencyCode = ''SAR'',
     sn_paymentStatus = op_open, sn_roundingStrategy = Some per_line,
     sn_lines = [\<lparr>ol_orderItemId = ''i1'', ol_lineAmountMinor = 2000,
       ol_taxPlan = [\<lparr>tp_taxRateId = ''r1'', tp_taxFamily = vat, tp_cascadePriority = 1,
                      tp_rateBps = 1500, tp_isPriceInclusive = False\<rparr>]\<rparr>,
       \<lparr>ol_orderItemId = ''i2'', ol_lineAmountMinor = 1000, ol_taxPlan = []\<rparr>],
     sn_discounts = [\<lparr>od_id = ''d1'', od_tenantId = ''t1'', od_orderId = ''o1'', od_mechanism = manual,
       od_couponId = None, od_discountKind = fixed_amount, od_discountValue = ''3.00'',
       od_discountAmountApplied = ''3.00'', od_requiredManagerOverride = False,
       od_managerOverrideAttemptId = None, od_appliedBy = ''u1'', od_createdAt = 0\<rparr>],
     sn_completedPaymentsMinor = 500, sn_paymentStatuses = [completed]\<rparr>"

theorem computeOrderTotals_correct_witness:
  "\<exists>t. computeOrderTotals example_snapshot = Inr t \<and> ot_subtotalMinor t = 3000 \<and>
     ot_discountTotalMinor t = 300 \<and> ot_taxMinor t = 270 \<and> ot_totalMinor t = 2970 \<and>
     ot_remainingBalanceMinor t = 2470"
proof -
  let ?t = "\<lparr>ot_subtotalMinor = 3000, ot_discountTotalMinor = 300, ot_discountedSubtotalMinor = 2700,
    ot_taxMinor = 270, ot_totalMinor = 2970, ot_remainingBalanceMinor = 2470, ot_baseMinorDigits = 2\<rparr>"
  have run: "computeOrderTotals example_snapshot = Inr ?t" by code_simp
  have wf: "wf_snapshot example_snapshot" by (simp add: wf_snapshot_def example_snapshot_def)
  from computeOrderTotals_correct [OF wf run] run show ?thesis by simp
qed

end
