(* ===== verification/Transactions.thy ===== *)
theory Transactions
  imports App_Errors
begin

text \<open>
  Database transactions as the engines use them (\<open>store.run(tenantId, fn)\<close> of
  \<^verbatim>\<open>src/domain/contracts/payments.ts\<close>): a transaction body reads and writes a state and may throw; the
  store commits its writes when it returns and discards them all when it throws. An engine
  operation is a sequence of such transactions with other checks between them.

  \<open>tx\<close> is the body of a transaction, \<open>op\<close> an engine operation. The locale \<open>tx_relation\<close> gives, for
  a reflexive and transitive relation between the state before and after, the rules by which it is
  carried through bodies and operations; it is interpreted on the relations the engines maintain.
\<close>

type_synonym ('s, 'a) tx = "'s \<Rightarrow> app_error + ('a \<times> 's)"
type_synonym ('s, 'a) op = "'s \<Rightarrow> 'a result \<times> 's"

section \<open>Transaction bodies\<close>

definition tx_return :: "'a \<Rightarrow> ('s, 'a) tx" where
  "tx_return a = (\<lambda>s. Inr (a, s))"

definition tx_bind :: "('s, 'a) tx \<Rightarrow> ('a \<Rightarrow> ('s, 'b) tx) \<Rightarrow> ('s, 'b) tx" where
  "tx_bind m f = (\<lambda>s. andThen (m s) (\<lambda>(a, s'). f a s'))"

definition tx_throw :: "app_error \<Rightarrow> ('s, 'a) tx" where
  "tx_throw e = (\<lambda>s. Inl e)"

definition tx_lift :: "'a result \<Rightarrow> ('s, 'a) tx" where
  "tx_lift r = (\<lambda>s. mapResult r (\<lambda>a. (a, s)))"

definition tx_read :: "('s \<Rightarrow> 'a) \<Rightarrow> ('s, 'a) tx" where
  "tx_read f = (\<lambda>s. Inr (f s, s))"

definition tx_readR :: "('s \<Rightarrow> 'a result) \<Rightarrow> ('s, 'a) tx" where
  "tx_readR f = (\<lambda>s. mapResult (f s) (\<lambda>a. (a, s)))"

definition tx_write :: "('s \<Rightarrow> 's) \<Rightarrow> ('s, unit) tx" where
  "tx_write f = (\<lambda>s. Inr ((), f s))"

definition tx_guard :: "bool \<Rightarrow> app_error \<Rightarrow> ('s, unit) tx" where
  "tx_guard b e = (\<lambda>s. if b then Inr ((), s) else Inl e)"

text \<open>\<open>x ?? throw\<close>: the value of a nullable read, or the error.\<close>

definition tx_some :: "'a option \<Rightarrow> app_error \<Rightarrow> ('s, 'a) tx" where
  "tx_some x e = (\<lambda>s. case x of None \<Rightarrow> Inl e | Some a \<Rightarrow> Inr (a, s))"

fun tx_for :: "('a \<Rightarrow> ('s, unit) tx) \<Rightarrow> 'a list \<Rightarrow> ('s, unit) tx" where
  "tx_for f [] = tx_return ()"
| "tx_for f (x # xs) = tx_bind (f x) (\<lambda>_. tx_for f xs)"

section \<open>Operations\<close>

text \<open>\<open>store.run(tenantId, fn)\<close>: commit, or roll back and rethrow.\<close>

definition run_tx :: "('s, 'a) tx \<Rightarrow> ('s, 'a) op" where
  "run_tx m = (\<lambda>s. case m s of Inl e \<Rightarrow> (Inl e, s) | Inr (a, s') \<Rightarrow> (Inr a, s'))"

definition op_return :: "'a \<Rightarrow> ('s, 'a) op" where
  "op_return a = (\<lambda>s. (Inr a, s))"

definition op_lift :: "'a result \<Rightarrow> ('s, 'a) op" where
  "op_lift r = (\<lambda>s. (r, s))"

definition op_bind :: "('s, 'a) op \<Rightarrow> ('a \<Rightarrow> ('s, 'b) op) \<Rightarrow> ('s, 'b) op" where
  "op_bind m f = (\<lambda>s. case m s of (Inl e, s') \<Rightarrow> (Inl e, s') | (Inr a, s') \<Rightarrow> f a s')"

text \<open>\<open>promise.catch(handler)\<close>\<close>

definition op_catch :: "('s, 'a) op \<Rightarrow> (app_error \<Rightarrow> ('s, 'a) op) \<Rightarrow> ('s, 'a) op" where
  "op_catch m h = (\<lambda>s. case m s of (Inl e, s') \<Rightarrow> h e s' | (Inr a, s') \<Rightarrow> (Inr a, s'))"

section \<open>Successful runs\<close>

named_theorems tx_simps \<open>when a transaction body succeeds\<close>

lemma tx_return_Inr [tx_simps]: "tx_return a s = Inr (b, s') \<longleftrightarrow> b = a \<and> s' = s"
  by (auto simp: tx_return_def)

lemma tx_bind_Inr [tx_simps]:
  "tx_bind m f s = Inr r \<longleftrightarrow> (\<exists>a s1. m s = Inr (a, s1) \<and> f a s1 = Inr r)"
  by (auto simp: tx_bind_def andThen_Inr_iff)

lemma tx_bindE: "tx_bind m f s = Inr r \<Longrightarrow> (\<And>a s1. m s = Inr (a, s1) \<Longrightarrow> f a s1 = Inr r \<Longrightarrow> P) \<Longrightarrow> P"
  by (auto simp: tx_bind_Inr)

lemma tx_throw_Inr [tx_simps]: "tx_throw e s = Inr r \<longleftrightarrow> False"
  by (simp add: tx_throw_def)

lemma tx_lift_Inr [tx_simps]: "tx_lift r s = Inr (a, s') \<longleftrightarrow> r = Inr a \<and> s' = s"
  by (auto simp: tx_lift_def mapResult_Inr_iff)

lemma tx_read_Inr [tx_simps]: "tx_read f s = Inr (a, s') \<longleftrightarrow> a = f s \<and> s' = s"
  by (auto simp: tx_read_def)

lemma tx_readR_Inr [tx_simps]: "tx_readR f s = Inr (a, s') \<longleftrightarrow> f s = Inr a \<and> s' = s"
  by (auto simp: tx_readR_def mapResult_Inr_iff)

lemma tx_write_Inr [tx_simps]: "tx_write f s = Inr (u, s') \<longleftrightarrow> s' = f s"
  by (auto simp: tx_write_def)

lemma tx_guard_Inr [tx_simps]: "tx_guard b e s = Inr (u, s') \<longleftrightarrow> b \<and> s' = s"
  by (auto simp: tx_guard_def)

lemma tx_some_Inr [tx_simps]: "tx_some x e s = Inr (a, s') \<longleftrightarrow> x = Some a \<and> s' = s"
  by (auto simp: tx_some_def split: option.splits)

lemma run_tx_Inr: "run_tx m s = (Inr a, s') \<longleftrightarrow> m s = Inr (a, s')"
  by (auto simp: run_tx_def split: sum.splits)

lemma run_tx_Inl: "run_tx m s = (Inl e, s') \<longleftrightarrow> m s = Inl e \<and> s' = s"
  by (auto simp: run_tx_def split: sum.splits)

lemma op_bind_Inr [tx_simps]:
  "op_bind m f s = (Inr b, s') \<longleftrightarrow> (\<exists>a s1. m s = (Inr a, s1) \<and> f a s1 = (Inr b, s'))"
  by (auto simp: op_bind_def split: prod.splits sum.splits)

lemma op_lift_Inr [tx_simps]: "op_lift r s = (Inr a, s') \<longleftrightarrow> r = Inr a \<and> s' = s"
  by (auto simp: op_lift_def)

lemma op_return_Inr [tx_simps]: "op_return a s = (Inr b, s') \<longleftrightarrow> b = a \<and> s' = s"
  by (auto simp: op_return_def)

section \<open>Relations maintained by bodies and operations\<close>

definition tx_ensures :: "('s \<Rightarrow> 's \<Rightarrow> bool) \<Rightarrow> ('s, 'a) tx \<Rightarrow> bool" where
  "tx_ensures R m \<longleftrightarrow> (\<forall>s a s'. m s = Inr (a, s') \<longrightarrow> R s s')"

definition op_ensures :: "('s \<Rightarrow> 's \<Rightarrow> bool) \<Rightarrow> ('s, 'a) op \<Rightarrow> bool" where
  "op_ensures R m \<longleftrightarrow> (\<forall>s r s'. m s = (r, s') \<longrightarrow> R s s')"

lemma tx_ensuresD: "tx_ensures R m \<Longrightarrow> m s = Inr (a, s') \<Longrightarrow> R s s'"
  by (auto simp: tx_ensures_def)

lemma op_ensuresD: "op_ensures R m \<Longrightarrow> m s = (r, s') \<Longrightarrow> R s s'"
  by (auto simp: op_ensures_def)

locale tx_relation =
  fixes R :: "'s \<Rightarrow> 's \<Rightarrow> bool"
  assumes refl: "R s s"
    and trans: "R s t \<Longrightarrow> R t u \<Longrightarrow> R s u"
begin

lemma bodies:
  "tx_ensures R (tx_return a)" "tx_ensures R (tx_throw e)" "tx_ensures R (tx_lift r)"
  "tx_ensures R (tx_read f)" "tx_ensures R (tx_readR g)" "tx_ensures R (tx_guard b e)"
  "tx_ensures R (tx_some x e)"
  by (auto simp: tx_ensures_def tx_simps refl)

lemma bind_rule: "tx_ensures R m \<Longrightarrow> (\<And>a. tx_ensures R (f a)) \<Longrightarrow> tx_ensures R (tx_bind m f)"
  unfolding tx_ensures_def tx_simps using trans by blast

lemma write_rule: "(\<And>s. R s (f s)) \<Longrightarrow> tx_ensures R (tx_write f)"
  by (auto simp: tx_ensures_def tx_simps)

lemma for_each: "(\<And>x. tx_ensures R (f x)) \<Longrightarrow> tx_ensures R (tx_for f xs)"
  by (induction xs) (simp_all add: bodies bind_rule)

lemma run_rule: "tx_ensures R m \<Longrightarrow> op_ensures R (run_tx m)"
  unfolding tx_ensures_def op_ensures_def run_tx_def by (auto simp: refl split: sum.splits)

lemma op_values: "op_ensures R (op_return a)" "op_ensures R (op_lift r)"
  by (auto simp: op_ensures_def op_return_def op_lift_def refl)

lemma op_bnd:
  assumes "op_ensures R m" "\<And>a. op_ensures R (f a)"
  shows "op_ensures R (op_bind m f)"
  unfolding op_ensures_def
proof (intro allI impI)
  fix s r s' assume run: "op_bind m f s = (r, s')"
  obtain x s1 where m: "m s = (x, s1)" by fastforce
  then have "R s s1" using assms(1) by (auto simp: op_ensures_def)
  moreover have "R s1 s'"
    using run m assms(2) refl by (cases x) (auto simp: op_bind_def op_ensures_def)
  ultimately show "R s s'" by (rule trans)
qed

lemma op_cch:
  assumes "op_ensures R m" "\<And>e. op_ensures R (h e)"
  shows "op_ensures R (op_catch m h)"
  unfolding op_ensures_def
proof (intro allI impI)
  fix s r s' assume run: "op_catch m h s = (r, s')"
  obtain x s1 where m: "m s = (x, s1)" by fastforce
  then have "R s s1" using assms(1) by (auto simp: op_ensures_def)
  moreover have "R s1 s'"
    using run m assms(2) refl by (cases x) (auto simp: op_catch_def op_ensures_def)
  ultimately show "R s s'" by (rule trans)
qed

lemmas body_rules = bodies bind_rule for_each
lemmas operation_rules = run_rule op_values op_bnd op_cch

end

text \<open>
  Sequences of operations: the states reachable from \<open>s\<close> by running any of the operations \<open>ops\<close>,
  in any order and any number of times, each to completion.
\<close>

inductive reachable :: "('s \<Rightarrow> 's \<Rightarrow> bool) \<Rightarrow> 's \<Rightarrow> 's \<Rightarrow> bool" for step where
  start: "reachable step s s"
| more: "reachable step s t \<Longrightarrow> step t u \<Longrightarrow> reachable step s u"

inductive_cases reachable_cases: "reachable step s t"

lemma reachable_relation:
  assumes "tx_relation R" "\<And>s t. step s t \<Longrightarrow> R s t" "reachable step s t"
  shows "R s t"
  using assms(3)
proof induction
  case start
  then show ?case by (rule tx_relation.refl [OF assms(1)])
next
  case (more s t u)
  then show ?case using tx_relation.trans [OF assms(1)] assms(2) by blast
qed

lemma reachable_invariant:
  assumes "\<And>s t. step s t \<Longrightarrow> P s \<Longrightarrow> P t" "reachable step s t" "P s"
  shows "P t"
  using assms(2,3) by induction (auto intro: assms(1))

section \<open>Running a concrete operation\<close>

text \<open>
  Evaluation of a transaction on a concrete state by the simplifier: the congruence rules keep it
  from rewriting inside continuations, so that each step runs on the state the previous one left.
\<close>

lemma tx_bind_run: "tx_bind m f s = (case m s of Inl e \<Rightarrow> Inl e | Inr p \<Rightarrow> f (fst p) (snd p))"
  by (auto simp: tx_bind_def split: sum.splits)

lemma op_bind_run:
  "op_bind m f s = (case fst (m s) of Inl e \<Rightarrow> (Inl e, snd (m s)) | Inr a \<Rightarrow> f a (snd (m s)))"
  by (auto simp: op_bind_def split: sum.splits prod.splits)

lemma tx_bind_weak: "m = m' \<Longrightarrow> tx_bind m f = tx_bind m' f"
  by simp

lemma op_bind_weak: "m = m' \<Longrightarrow> op_bind m f = op_bind m' f"
  by simp

lemmas tx_run = tx_bind_run op_bind_run tx_return_def tx_throw_def tx_lift_def tx_read_def
  tx_readR_def tx_write_def tx_guard_def tx_some_def op_lift_def op_return_def op_catch_def ok_def Let_def

end
