(* ===== verification/Json_Text.thy ===== *)
theory Json_Text
  imports App_Errors
begin

text \<open>
  What the sources use of \<open>JSON.stringify\<close> (ECMA-262, SerializeJSONProperty and QuoteJSONString without
  indentation): null, booleans, integers, strings, arrays and objects with a fixed order of keys.
  The text determines the value: distinct values have distinct texts.
\<close>

section \<open>Definitions\<close>

datatype json = JsNull | JsBool bool | JsNum int | JsStr string | JsArr "json list" | JsObj "(string \<times> json) list"

definition hex_digit :: "nat \<Rightarrow> char" where
  "hex_digit d = (if d < 10 then char_of (48 + d) else char_of (87 + d))"

definition quoteChar :: "char \<Rightarrow> string" where
  "quoteChar c = (let n = (of_char c :: nat) in
     if n = 34 then [CHR 0x5C, CHR 0x22]
     else if n = 92 then [CHR 0x5C, CHR 0x5C]
     else if n = 8 then [CHR 0x5C, CHR ''b'']
     else if n = 12 then [CHR 0x5C, CHR ''f'']
     else if n = 10 then [CHR 0x5C, CHR ''n'']
     else if n = 13 then [CHR 0x5C, CHR ''r'']
     else if n = 9 then [CHR 0x5C, CHR ''t'']
     else if n < 32 then [CHR 0x5C, CHR ''u'', CHR ''0'', CHR ''0'', hex_digit (n div 16), hex_digit (n mod 16)]
     else [c])"

definition quote :: "string \<Rightarrow> string" where
  "quote s = CHR 0x22 # concat (map quoteChar s) @ [CHR 0x22]"

fun comma_join :: "string list \<Rightarrow> string" where
  "comma_join [] = []"
| "comma_join [t] = t"
| "comma_join (t # u # ts) = t @ CHR '','' # comma_join (u # ts)"

fun stringify :: "json \<Rightarrow> string" where
  "stringify JsNull = ''null''"
| "stringify (JsBool b) = (if b then ''true'' else ''false'')"
| "stringify (JsNum n) = int_to_text n"
| "stringify (JsStr s) = quote s"
| "stringify (JsArr js) = CHR ''['' # comma_join (map stringify js) @ '']''"
| "stringify (JsObj ms) = CHR ''{'' # comma_join (map (\<lambda>(k, j). quote k @ CHR '':'' # stringify j) ms) @ ''}''"

section \<open>Strings\<close>

text \<open>Texts that end where they end: what follows a value is a delimiter.\<close>

definition delimited :: "string \<Rightarrow> bool" where
  "delimited r \<longleftrightarrow> r = [] \<or> hd r \<in> {CHR '','', CHR '']'', CHR ''}''}"

lemma quoteChar_shape: "quoteChar c \<noteq> [] \<and> hd (quoteChar c) \<noteq> CHR 0x22"
  by (auto simp: quoteChar_def Let_def)

text \<open>Reading one character back, which shows that quoting loses nothing.\<close>

definition hex_value :: "char \<Rightarrow> nat" where
  "hex_value c = (let n = of_char c in if n < 58 then n - 48 else n - 87)"

definition unescape :: "string \<Rightarrow> char \<times> string" where
  "unescape t = (let y = hd t in
     if y = CHR ''b'' then (CHR 0x08, tl t) else if y = CHR ''f'' then (CHR 0x0C, tl t)
     else if y = CHR ''n'' then (CHR 0x0A, tl t) else if y = CHR ''r'' then (CHR 0x0D, tl t)
     else if y = CHR ''t'' then (CHR 0x09, tl t)
     else if y = CHR ''u'' then (char_of (16 * hex_value (t ! 3) + hex_value (t ! 4)), drop 5 t)
     else (y, tl t))"

definition readChar :: "string \<Rightarrow> char \<times> string" where
  "readChar t = (if hd t = CHR 0x5C then unescape (tl t) else (hd t, tl t))"

lemma hex_value_digit: "d < 16 \<Longrightarrow> hex_value (hex_digit d) = d"
  by (auto simp: hex_value_def hex_digit_def Let_def)

lemma of_char_same: "(of_char c :: nat) = of_char d \<longleftrightarrow> c = d"
  by (metis char_of_char)

lemma readChar_quote: "readChar (quoteChar c @ r) = (c, r)"
proof -
  let ?n = "of_char c :: nat"
  consider "?n \<in> {34, 92, 8, 12, 10, 13, 9}" | (low) "?n \<notin> {34, 92, 8, 12, 10, 13, 9}" "?n < 32" |
    (plain) "?n \<notin> {34, 92, 8, 12, 10, 13, 9}" "\<not> ?n < 32" by blast
  then show ?thesis
  proof cases
    case 1
    let ?special = "{CHR 0x22, CHR 0x5C, CHR 0x08, CHR 0x0C, CHR 0x0A, CHR 0x0D, CHR 0x09}"
    have "?n \<in> of_char ` ?special" using 1 by simp
    then have "c \<in> ?special" unfolding image_iff of_char_same by blast
    then show ?thesis by (elim insertE emptyE) (simp_all add: quoteChar_def readChar_def unescape_def Let_def)
  next
    case low
    then have "quoteChar c = [CHR 0x5C, CHR ''u'', CHR ''0'', CHR ''0'', hex_digit (?n div 16), hex_digit (?n mod 16)]"
      by (simp add: quoteChar_def Let_def)
    moreover have "hex_value (hex_digit (?n div 16)) = ?n div 16" "hex_value (hex_digit (?n mod 16)) = ?n mod 16"
      using low(2) by (auto intro: hex_value_digit)
    ultimately show ?thesis by (simp add: readChar_def unescape_def Let_def)
  next
    case plain
    then have "c \<noteq> CHR 0x5C" by auto
    with plain show ?thesis by (simp add: quoteChar_def readChar_def Let_def)
  qed
qed

lemma quoteChar_cancel: "quoteChar c @ r = quoteChar d @ s \<Longrightarrow> c = d \<and> r = s"
  by (metis readChar_quote prod.inject)

lemma quoted_cancel:
  "concat (map quoteChar s) @ CHR 0x22 # r = concat (map quoteChar t) @ CHR 0x22 # u \<Longrightarrow> s = t \<and> r = u"
proof (induction s arbitrary: t)
  case Nil
  then show ?case using quoteChar_shape by (cases t) (auto simp: hd_append Cons_eq_append_conv, metis list.sel(1))
next
  case (Cons c s)
  show ?case
  proof (cases t)
    case Nil
    with Cons.prems quoteChar_shape [of c] show ?thesis by (cases "quoteChar c") auto
  next
    case (Cons d t')
    with Cons.prems have "quoteChar c @ concat (map quoteChar s) @ CHR 0x22 # r = quoteChar d @ concat (map quoteChar t') @ CHR 0x22 # u"
      by simp
    from quoteChar_cancel [OF this] Cons.IH Cons show ?thesis by blast
  qed
qed

lemma quote_cancel: "quote s @ r = quote t @ u \<longleftrightarrow> s = t \<and> r = u"
  using quoted_cancel [of s r t u] by (auto simp: quote_def)

lemma digits_cancel:
  assumes "\<forall>c\<in>set a. is_digit c" "\<forall>c\<in>set b. is_digit c" "delimited r" "delimited s" "a @ r = b @ s"
  shows "a = b \<and> r = s"
proof -
  have t: "takeWhile is_digit (x @ y) = x" if "\<forall>c\<in>set x. is_digit c" "delimited y" for x y
    using that by (cases y) (auto simp: delimited_def is_digit_def takeWhile_append2)
  have "a = b" using t [OF assms(1,3)] t [OF assms(2,4)] assms(5) by simp
  with assms(5) show ?thesis by simp
qed

lemma int_text_cancel:
  assumes "int_to_text a @ r = int_to_text b @ s" "delimited r" "delimited s"
  shows "a = b \<and> r = s"
proof -
  have dig: "\<forall>c\<in>set (nat_to_text n). is_digit c" for n using nat_to_text_digits by blast
  have nm: "hd (nat_to_text n) \<noteq> CHR ''-''" for n
    using dig [of n] nat_to_text_nonempty [of n] by (cases "nat_to_text n") (auto simp: is_digit_def)
  have inj: "nat_to_text n = nat_to_text m \<Longrightarrow> n = m" for n m
    by (metis digits_to_int_nat_to_text of_nat_eq_iff)
  have hd: "hd (nat_to_text n @ x) \<noteq> CHR ''-''" for n x using nm by simp
  consider (neg) "a < 0" "b < 0" | (pos) "0 \<le> a" "0 \<le> b" | (mixed) "a < 0 \<longleftrightarrow> 0 \<le> b" by linarith
  then show ?thesis
  proof cases
    case neg
    with assms digits_cancel [OF dig dig assms(2,3)] have "nat_to_text (nat (- a)) = nat_to_text (nat (- b)) \<and> r = s"
      by (simp add: int_to_text_def)
    with inj neg show ?thesis by force
  next
    case pos
    with assms digits_cancel [OF dig dig assms(2,3)] have "nat_to_text (nat a) = nat_to_text (nat b) \<and> r = s"
      by (simp add: int_to_text_def)
    with inj pos show ?thesis by force
  next
    case mixed
    have sgn: "hd (int_to_text n @ x) = CHR ''-'' \<longleftrightarrow> n < 0" for n x using hd by (simp add: int_to_text_def)
    from sgn [of a r] sgn [of b s] assms(1) mixed have False by (simp add: linorder_not_less [symmetric] del: linorder_not_less)
    then show ?thesis ..
  qed
qed

lemma int_first: "c \<notin> set ''-0123456789'' \<Longrightarrow> hd (int_to_text n) \<noteq> c"
proof -
  have dig: "x \<in> set ''0123456789''" if "is_digit x" for x
  proof -
    have "48 \<le> n \<Longrightarrow> n \<le> 57 \<Longrightarrow> n \<in> {48, 49, 50, 51, 52, 53, 54, 55, 56, 57}" for n :: nat
      by (simp only: insert_iff empty_iff) presburger
    with that have "(of_char x :: nat) \<in> {48, 49, 50, 51, 52, 53, 54, 55, 56, 57}" unfolding is_digit_def by blast
    then have "(of_char x :: nat) \<in> of_char ` set ''0123456789''" by simp
    then show ?thesis unfolding image_iff of_char_same by blast
  qed
  have "is_digit (hd (nat_to_text m))" for m by (rule nat_to_text_digits [OF hd_in_set]) simp
  then have "hd (int_to_text n) \<in> set ''-0123456789''" using dig by (fastforce simp: int_to_text_def)
  then show "c \<notin> set ''-0123456789'' \<Longrightarrow> hd (int_to_text n) \<noteq> c" by blast
qed

section \<open>The text determines the value\<close>

lemma stringify_nonempty [simp]: "stringify j \<noteq> []"
  by (cases j) (auto simp: quote_def int_to_text_def)

lemma comma_join_Cons: "comma_join (t # ts) = t @ (if ts = [] then [] else CHR '','' # comma_join ts)"
  by (cases ts) auto

text \<open>
  Lists of texts: when each text determines its value in front of a delimiter, so does the joined
  text in front of a closing bracket.
\<close>

lemma comma_join_cancel:
  assumes "\<And>x y r s. x \<in> set xs \<Longrightarrow> f x @ r = f y @ s \<Longrightarrow> delimited r \<Longrightarrow> delimited s \<Longrightarrow> x = y \<and> r = s"
    and first: "\<And>x. f x \<noteq> [] \<and> hd (f x) \<notin> {CHR '','', CHR '']'', CHR ''}''}"
    and close: "z \<in> {CHR '']'', CHR ''}''}"
    and eq: "comma_join (map f xs) @ z # r = comma_join (map f ys) @ z # s"
  shows "xs = ys \<and> r = s"
  using assms(1) eq
proof (induction xs arbitrary: ys)
  case Nil
  show ?case
  proof (cases ys)
    case (Cons y ys')
    with Nil(2) have "z # r = f y @ (if map f ys' = [] then [] else CHR '','' # comma_join (map f ys')) @ z # s"
      by (simp add: comma_join_Cons)
    then have "hd (f y) = z" using first [of y] by (metis hd_append2 list.sel(1))
    with first [of y] close show ?thesis by auto
  qed (use Nil in simp)
next
  case (Cons x xs)
  let ?rest = "\<lambda>us t. (if map f us = [] then [] else CHR '','' # comma_join (map f us)) @ z # t"
  show ?case
  proof (cases ys)
    case Nil
    with Cons.prems(2) have "z # s = f x @ ?rest xs r" by (simp add: comma_join_Cons)
    then have "hd (f x) = z" using first [of x] by (metis hd_append2 list.sel(1))
    with first [of x] close show ?thesis by auto
  next
    case (Cons y ys')
    with Cons.prems(2) have "f x @ ?rest xs r = f y @ ?rest ys' s" by (simp add: comma_join_Cons)
    moreover have "delimited (?rest us t)" for us t using close by (auto simp: delimited_def)
    ultimately have xy: "x = y" "?rest xs r = ?rest ys' s" using Cons.prems(1) by (metis list.set_intros(1))+
    have nz: "z \<noteq> CHR '',''" using close by auto
    show ?thesis
    proof (cases "xs = [] \<or> ys' = []")
      case True
      with xy(2) nz have "xs = [] \<and> ys' = [] \<and> r = s" by (auto split: if_splits)
      with xy(1) \<open>ys = y # ys'\<close> show ?thesis by simp
    next
      case False
      with xy(2) have "comma_join (map f xs) @ z # r = comma_join (map f ys') @ z # s" by simp
      with Cons.IH Cons.prems(1) have "xs = ys' \<and> r = s" by (metis list.set_intros(2))
      with xy(1) \<open>ys = y # ys'\<close> show ?thesis by simp
    qed
  qed
qed

lemma stringify_first: "hd (stringify j) \<notin> {CHR '','', CHR '']'', CHR ''}''}"
  using int_first by (cases j) (auto simp: quote_def)

lemma same_kind:
  assumes "stringify i @ r = stringify j @ s"
  shows "case i of JsNull \<Rightarrow> j = JsNull | JsBool b \<Rightarrow> j = JsBool b | JsNum _ \<Rightarrow> \<exists>m. j = JsNum m
    | JsStr _ \<Rightarrow> \<exists>t. j = JsStr t | JsArr _ \<Rightarrow> \<exists>js. j = JsArr js | JsObj _ \<Rightarrow> \<exists>ms. j = JsObj ms"
proof -
  have "hd (stringify i) = hd (stringify j)" using assms by (metis hd_append2 stringify_nonempty)
  then show ?thesis
    by (cases i; cases j) (auto simp: quote_def int_first int_first [symmetric] split: if_splits)
qed

lemma stringify_cancel:
  "stringify i @ r = stringify j @ s \<Longrightarrow> delimited r \<Longrightarrow> delimited s \<Longrightarrow> i = j \<and> r = s"
proof (induction i arbitrary: j r s)
  case JsNull
  then show ?case using same_kind [of JsNull r j s] by simp
next
  case (JsBool b)
  then show ?case using same_kind [of "JsBool b" r j s] by simp
next
  case (JsNum n)
  then show ?case using same_kind [of "JsNum n" r j s] int_text_cancel by auto
next
  case (JsStr t)
  then show ?case using same_kind [of "JsStr t" r j s] quote_cancel by auto
next
  case (JsArr js)
  from JsArr.prems same_kind [of "JsArr js" r j s] obtain js' where j: "j = JsArr js'" by auto
  have "js = js' \<and> r = s"
    by (rule comma_join_cancel [of js stringify "CHR '']''"])
       (use JsArr j stringify_first in \<open>auto\<close>)
  with j show ?case by simp
next
  case (JsObj ms)
  let ?m = "\<lambda>(k, v). quote k @ CHR '':'' # stringify v"
  from JsObj.prems same_kind [of "JsObj ms" r j s] obtain ms' where j: "j = JsObj ms'" by auto
  have each: "x = y \<and> t = u" if "x \<in> set ms" "?m x @ t = ?m y @ u" "delimited t" "delimited u" for x y t u
  proof -
    obtain k v l w where xy: "x = (k, v)" "y = (l, w)" by fastforce
    with that(2) have "k = l" "stringify v @ t = stringify w @ u" by (auto simp: quote_cancel)
    with JsObj.IH [of x v t w u] that xy show ?thesis by auto
  qed
  have "ms = ms' \<and> r = s"
    by (rule comma_join_cancel [of ms ?m "CHR ''}''"]) (use JsObj.prems j each in \<open>auto simp: quote_def\<close>)
  with j show ?case by simp
qed

lemma stringify_inj: "stringify i = stringify j \<longleftrightarrow> i = j"
  using stringify_cancel [of i "[]" j "[]"] by (auto simp: delimited_def)

end
