(* ===== verification/Pos_Db.thy ===== *)
theory Pos_Db
  imports Order_Totals Transactions Json_Text
begin

text \<open>
  The database state behind the payments, discount and shift engines: the tables that
  \<^verbatim>\<open>src/infrastructure/db/repositories/postgres-payments-store.ts\<close> and
  \<^verbatim>\<open>postgres-shifts-store.ts\<close> query, as lists of rows, and the parameters of the model that stand
  for what the database and the platform supply.

  \<^item> Columns of type \<open>numeric(18,4)\<close> hold the text PostgreSQL prints for them (\<open>numeric4\<close>).
  \<^item> \<open>order_line_tax_snapshots\<close> is the result of its joins with contexts, rates and categories (all
    of them along foreign keys).
  \<^item> \<open>inventory_items.current_quantity\<close> has one writer, the trigger that adds each movement's delta, so
    it is not stored here: readers compute the sum of the movements.
  \<^item> Constraints and triggers are the parameter \<open>env_reject\<close>: before each write the database may
    raise any error for any reason. Only the unique keys the engines rely on are written out.
  \<^item> \<open>post_order_cogs\<close> and \<open>post_inventory_restoration\<close> are SQL functions; a call is recorded in
    \<open>db_cogsCalls\<close> and \<open>db_restorationCalls\<close>.
\<close>

section \<open>Rows\<close>

datatype stock_movement_type =
    sale_deduction | void_restoration | waste_void | waste_refund | manual_receiving | manual_adjustment

record stock_movement_record =
  sm_id :: string
  sm_tenantId :: string
  sm_branchId :: string
  sm_inventoryItemId :: string
  sm_movementType :: stock_movement_type
  sm_quantityDelta :: string
  sm_orderId :: "string option"
  sm_orderItemId :: "string option"
  sm_actorUserId :: string
  sm_managerOverrideId :: "string option"
  sm_adjustmentReasonId :: "string option"
  sm_occurredAt :: int

record insert_stock_movement_input =
  im_branchId :: string
  im_inventoryItemId :: string
  im_movementType :: stock_movement_type
  im_quantityDelta :: string
  im_orderId :: "string option"
  im_orderItemId :: "string option"
  im_actorUserId :: string
  im_managerOverrideId :: "string option"
  im_adjustmentReasonId :: "string option"
  im_occurredAt :: int

type_synonym localized_text = "(string \<times> string) list"

datatype order_type = dine_in | takeaway | delivery

record order_row =
  o_id :: string
  o_tenantId :: string
  o_branchId :: string
  o_orderType :: order_type
  o_salesChannelCode :: string
  o_deliveryPlatformId :: "string option"
  o_tableId :: "string option"
  o_currentStatusKindId :: string
  o_paymentStatus :: order_payment_status
  o_splitPeopleCount :: "int option"
  o_placedAt :: int
  o_closedAt :: "int option"
  o_revision :: int

record branch_row =
  br_id :: string
  br_tenantId :: string
  br_baseCurrency :: string
  br_countryCode :: "string option"
  br_timezone :: string
  br_isActive :: bool

record user_row =
  us_id :: string
  us_tenantId :: string
  us_isActive :: bool
  us_pinHash :: "string option"

record order_item_modifier_snapshot =
  ms_modifierId :: string
  ms_name :: localized_text
  ms_priceDeltaMinor :: int

record order_item_row =
  it_id :: string
  it_tenantId :: string
  it_orderId :: string
  it_menuItemId :: string
  it_itemNameSnapshot :: localized_text
  it_unitPriceMinor :: int
  it_quantity :: int
  it_modifiersSnapshot :: "order_item_modifier_snapshot list"
  it_currentStatusKindId :: string
  it_stationId :: string
  it_isVoided :: bool
  it_voidedAt :: "int option"
  it_splitGroupId :: "string option"
  it_createdAt :: int

record tax_snapshot_row =
  ts_orderLineId :: string
  ts_computationSequence :: int
  ts_plan :: order_line_tax_plan_line
  ts_liableParty :: tax_liable_party
  ts_roundingStrategy :: tax_rounding_strategy
  ts_taxableAmountMinor :: int
  ts_taxAmountMinor :: int
  ts_currencyCode :: string

record discount_limit_row =
  dl_tenantId :: string
  dl_userId :: string
  dl_permissionKey :: string
  dl_caps :: user_discount_caps

datatype attempt_outcome = succeeded | failed_wrong_pin | failed_unknown_or_inactive_manager | rejected_locked

record override_attempt_row =
  oa_id :: string
  oa_tenantId :: string
  oa_initiatingActorUserId :: string
  oa_targetManagerUserId :: string
  oa_orderId :: "string option"
  oa_outcome :: attempt_outcome
  oa_contextType :: string
  oa_createdAt :: int

text \<open>A row of \<open>manager_override_lockout_state\<close> or \<open>manager_override_actor_lockout_state\<close>.\<close>

record lockout_row =
  lo_tenantId :: string
  lo_userId :: string
  lo_consecutiveFailures :: int
  lo_windowStartedAt :: "int option"
  lo_lockedUntil :: "int option"

record account_row =
  ac_id :: string
  ac_tenantId :: string
  ac_systemPurpose :: string
  ac_isActive :: bool

datatype journal_source = src_payment | src_payment_reversal

record journal_line =
  jl_accountId :: string
  jl_debitMinor :: int
  jl_creditMinor :: int

record journal_entry =
  je_id :: string
  je_tenantId :: string
  je_branchId :: string
  je_sourceType :: journal_source
  je_sourceId :: string
  je_currencyCode :: string
  je_postedBy :: string
  je_postedAt :: int
  je_reversalOf :: "string option"
  je_lines :: "journal_line list"

record audit_row =
  au_tenantId :: string
  au_userId :: string
  au_action :: string
  au_resource :: string
  au_before :: string
  au_after :: string

text \<open>The kitchen workflow of a tenant, the platform's kinds of states, and the ledger of item states.\<close>

record workflow_row =
  wf_id :: string
  wf_tenantId :: string
  wf_isActive :: bool

record tenant_workflow_state =
  ws_id :: string
  ws_tenantId :: string
  ws_workflowId :: string
  ws_kindCode :: string
  ws_parentKindCode :: "string option"
  ws_position :: int
  ws_label :: localized_text
  ws_isEnabled :: bool

record order_status_kind =
  sk_code :: string
  sk_behaviorFlags :: json

record status_event_row =
  se_tenantId :: string
  se_orderItemId :: string
  se_orderId :: string
  se_fromStatusKindId :: "string option"
  se_toStatusKindId :: string
  se_actorUserId :: "string option"
  se_occurredAt :: int

record order_outbox_event =
  ob_id :: string
  ob_tenantId :: string
  ob_branchId :: string
  ob_sequenceId :: int
  ob_eventType :: string
  ob_payload :: json
  ob_createdAt :: int

record event_sequence_row =
  sq_branchId :: string
  sq_tenantId :: string
  sq_lastSequence :: int

record tenant_row =
  tn_id :: string
  tn_isActive :: bool
  tn_vatRegistrationStatus :: vat_registration_status

text \<open>Voids, their reasons and their time limit.\<close>

datatype void_permission_tier = server | shift_supervisor | manager

record void_reason_row =
  vr_id :: string
  vr_tenantId :: string
  vr_kindCode :: string
  vr_requiredPermissionTier :: void_permission_tier
  vr_isEnabled :: bool

record void_config =
  vc_reasons :: "void_reason_row list"
  vc_kindSettings :: "(string \<times> string \<times> bool) list"
  vc_timeLimits :: "(string \<times> int option) list"

record order_void_record =
  ov_id :: string
  ov_tenantId :: string
  ov_orderId :: string
  ov_orderItemId :: "string option"
  ov_actorUserId :: string
  ov_actorPermissionTier :: void_permission_tier
  ov_voidReasonId :: string
  ov_requiredManagerOverride :: bool
  ov_managerUserId :: "string option"
  ov_overrideAuthenticatedAt :: "int option"
  ov_orderPaymentStatusAtVoidTime :: order_payment_status
  ov_notes :: "string option"
  ov_occurredAt :: int

text \<open>The menu, the routing of items to stations, recipes and stocked components.\<close>

record menu_item_row =
  mi_id :: string
  mi_tenantId :: string
  mi_name :: localized_text
  mi_basePriceMinor :: int
  mi_basePriceCurrencyCode :: string
  mi_isActive :: bool
  mi_taxRuleId :: "string option"
  mi_additionalTaxCategoryIds :: "string list"

record routing_rule_row =
  ru_id :: string
  ru_tenantId :: string
  ru_branchId :: string
  ru_stationId :: string
  ru_menuItemId :: "string option"
  ru_salesChannelCode :: "string option"
  ru_orderType :: "order_type option"
  ru_priorityWeight :: int
  ru_isEnabled :: bool

record station_row =
  st_id :: string
  st_isActive :: bool

datatype recipe_owner_type = menu_item_owner | modifier_owner

record recipe_requirement_line =
  rq_ownerType :: recipe_owner_type
  rq_ownerId :: string
  rq_inventoryItemId :: string
  rq_quantityRequired :: string

record menu_tables =
  mn_items :: "menu_item_row list"
  mn_routingRules :: "routing_rule_row list"
  mn_stations :: "station_row list"
  mn_recipes :: "(string \<times> recipe_requirement_line) list"

record inventory_item_row =
  ii_id :: string
  ii_tenantId :: string
  ii_branchId :: string
  ii_name :: localized_text
  ii_baseUnit :: string
  ii_lowStockThreshold :: "string option"
  ii_isActive :: bool

record stock_override_claim =
  cl_managerOverrideId :: string
  cl_tenantId :: string
  cl_orderId :: string

datatype side_effect_type = kitchen_ticket_print | customer_notification

datatype delivery_status = ds_pending | ds_succeeded | ds_failed

record side_effect_row =
  sf_outboxEventId :: string
  sf_sideEffectType :: side_effect_type
  sf_status :: delivery_status
  sf_attemptCount :: int
  sf_lastError :: "string option"
  sf_executedAt :: "int option"
  sf_updatedAt :: int

text \<open>The tables tax resolution reads; display names are left out.\<close>

record tenant_tax_category =
  tk_id :: string
  tk_tenantId :: string
  tk_platformCategoryId :: string
  tk_cascadePriority :: int
  tk_isActive :: bool

record excise_confirmation =
  ec_tenantId :: string
  ec_menuItemId :: string
  ec_taxCategoryId :: string
  ec_branchId :: "string option"

record tax_override_row =
  bo_tenantId :: string
  bo_branchId :: string
  bo_menuItemTaxCategoryId :: string
  bo_overrideTaxCategoryId :: string

record tax_tables =
  tt_jurisdictions :: "tax_jurisdiction list"
  tt_salesChannels :: "sales_channel list"
  tt_deliveryPlatforms :: "delivery_platform list"
  tt_liabilityRules :: "tax_liability_rule list"
  tt_categories :: "tax_category list"
  tt_overrides :: "tax_override_row list"
  tt_tenantCategories :: "tenant_tax_category list"
  tt_rates :: "tax_rate list"
  tt_tenantRates :: "(string \<times> tax_rate) list"
  tt_exciseConfirmations :: "excise_confirmation list"

record order_line_tax_context =
  cx_tenantId :: string
  cx_orderLineId :: string
  cx_branchId :: string
  cx_menuItemId :: string
  cx_customerAmountMinor :: int
  cx_currencyCode :: string
  cx_salesChannel :: string
  cx_deliveryPlatformId :: "string option"
  cx_liabilityRuleId :: string
  cx_liableParty :: tax_liable_party
  cx_roundingStrategy :: tax_rounding_strategy
  cx_occurredAt :: int

section \<open>The state\<close>

record pos_db =
  db_orders :: "order_row list"
  db_branches :: "branch_row list"
  db_users :: "user_row list"
  db_items :: "order_item_row list"
  db_taxRows :: "tax_snapshot_row list"
  db_discounts :: "order_discount_record list"
  db_payments :: "payment_record list"
  db_methods :: "payment_method_record list"
  db_shifts :: "shift_record list"
  db_shiftRevisions :: "(string \<times> int) list"
  db_cashCounts :: "cash_count_detail_record list"
  db_coupons :: "coupon_record list"
  db_limits :: "discount_limit_row list"
  db_attempts :: "override_attempt_row list"
  db_actorLockouts :: "lockout_row list"
  db_managerLockouts :: "lockout_row list"
  db_accounts :: "account_row list"
  db_journal :: "journal_entry list"
  db_audit :: "audit_row list"
  db_stock :: "stock_movement_record list"
  db_tenants :: "tenant_row list"
  db_workflows :: "workflow_row list"
  db_workflowStates :: "tenant_workflow_state list"
  db_statusKinds :: "order_status_kind list"
  db_statusEvents :: "status_event_row list"
  db_outbox :: "order_outbox_event list"
  db_sequences :: "event_sequence_row list"
  db_voids :: "order_void_record list"
  db_voidConfig :: void_config
  db_menu :: menu_tables
  db_inventory :: "inventory_item_row list"
  db_claims :: "stock_override_claim list"
  db_sideEffects :: "side_effect_row list"
  db_tax :: tax_tables
  db_taxContexts :: "order_line_tax_context list"
  db_consumptionCalls :: "(string \<times> string) list"
  db_cogsCalls :: "(string \<times> string) list"
  db_restorationCalls :: "string list"

text \<open>What a statement is about to write; triggers see it together with the current state.\<close>

datatype db_write =
    WPayment payment_record
  | WPaymentStatus payment_record payment_record
  | WDiscount order_discount_record
  | WCouponUse string
  | WOrderStatus string order_payment_status
  | WOrderRevision string
  | WShiftRevision string
  | WJournal journal_entry
  | WCogs string
  | WStock stock_movement_record
  | WRestoration string
  | WAudit audit_row
  | WShift shift_record
  | WCashCount cash_count_detail_record
  | WShiftClose shift_record shift_record
  | WMethod payment_method_record
  | WAttempt override_attempt_row
  | WActorLockout lockout_row
  | WManagerLockout lockout_row
  | WStatusEvent status_event_row
  | WOutbox order_outbox_event
  | WWorkflow workflow_row
  | WWorkflowState tenant_workflow_state
  | WWorkflowStateDeletion string
  | WVoid order_void_record
  | WItemsVoided "string list"
  | WItemStatus string string
  | WOrderStatusKind string string
  | WOrder order_row
  | WOrderItem order_item_row
  | WClaim stock_override_claim
  | WConsumption string
  | WSideEffect side_effect_row
  | WTaxContext order_line_tax_context
  | WTaxSnapshot tax_snapshot_row

record auth_check =
  ck_tenantId :: string
  ck_userId :: string
  ck_permissionKey :: string
  ck_tokenSecV :: "string option"
  ck_branchId :: "string option"
  ck_isSensitive :: bool

record pos_env =
  env_now :: int
  env_uuid :: "pos_db \<Rightarrow> string"
  env_tenantGate :: "string \<Rightarrow> unit result"
  env_authorize :: "auth_check \<Rightarrow> unit result"
  env_reject :: "pos_db \<Rightarrow> db_write \<Rightarrow> app_error option"
  env_coveredKeys :: "string \<Rightarrow> string \<Rightarrow> string \<Rightarrow> string list \<Rightarrow> string list result"
  env_localDate :: "int \<Rightarrow> string \<Rightarrow> (string \<times> string \<times> string) option"
  env_verifyPin :: "string \<Rightarrow> string \<Rightarrow> string \<Rightarrow> string \<Rightarrow> bool"

definition db_check :: "pos_env \<Rightarrow> db_write \<Rightarrow> (pos_db, unit) tx" where
  "db_check env w = (\<lambda>db. case env_reject env db w of None \<Rightarrow> Inr ((), db) | Some e \<Rightarrow> Inl e)"

text \<open>\<open>store.run(tenantId, fn)\<close>: the tenant is verified first, in the same transaction.\<close>

definition store_run :: "pos_env \<Rightarrow> string \<Rightarrow> (pos_db, 'a) tx \<Rightarrow> (pos_db, 'a) op" where
  "store_run env tenantId fn = run_tx (tx_bind (tx_lift (env_tenantGate env tenantId)) (\<lambda>_. fn))"

section \<open>Numeric columns\<close>

text \<open>The text a \<open>numeric(18,4)\<close> column prints for an inserted decimal text, and the sum of such columns.\<close>

definition numeric4 :: "string \<Rightarrow> string result" where
  "numeric4 t = andThen (decimalTextToMinor t 4 ''numeric'') (\<lambda>m. minorToDecimalText m 4)"

definition numeric4_option :: "string option \<Rightarrow> string option result" where
  "numeric4_option t = (case t of None \<Rightarrow> Inr None | Some x \<Rightarrow> mapResult (numeric4 x) Some)"

definition numeric4_sum :: "string list \<Rightarrow> int result" where
  "numeric4_sum ts = foldR (\<lambda>a t. mapResult (decimalTextToMinor t 4 ''numeric'') (\<lambda>m. a + m)) 0 ts"

section \<open>Lemmas\<close>

lemma db_check_Inr [tx_simps]: "db_check env w s = Inr (u, s') \<longleftrightarrow> env_reject env s w = None \<and> s' = s"
  by (auto simp: db_check_def split: option.splits)

lemma store_run_Inr [tx_simps]:
  "store_run env t fn s = (Inr a, s') \<longleftrightarrow> env_tenantGate env t = Inr () \<and> fn s = Inr (a, s')"
  by (auto simp: store_run_def run_tx_Inr tx_simps)

text \<open>A failed transaction leaves the database as it was.\<close>

lemma store_run_Inl: "store_run env t fn s = (Inl e, s') \<Longrightarrow> s' = s"
  by (simp add: store_run_def run_tx_Inl)

text \<open>
  An amount printed at a currency's scale, stored in a \<open>numeric(18,4)\<close> column and read back at the
  same scale is the amount.
\<close>

lemma numeric4_roundtrip:
  assumes "0 \<le> d" "d \<le> 4" "minorToDecimalText m d = Inr t" "numeric4 t = Inr t'"
  shows "decimalTextToMinor t' d f = Inr m" "0 \<le> m \<Longrightarrow> nonNegativeDecimalTextToMinor t' d f = Inr m"
proof -
  have "decimalTextToMinor t 4 ''numeric'' = Inr (m * 10 ^ nat (4 - d))"
    using printed_rescale [of d 4 m "''numeric''"] assms by (auto simp: MAX_SCALE_def)
  with assms(4) have "minorToDecimalText (m * 10 ^ nat (4 - d)) 4 = Inr t'" by (simp add: numeric4_def)
  with printed_descale [of d 4 m f] assms(1,2)
  show "decimalTextToMinor t' d f = Inr m" "0 \<le> m \<Longrightarrow> nonNegativeDecimalTextToMinor t' d f = Inr m"
    by (auto simp: MAX_SCALE_def)
qed

lemma numeric4_total:
  assumes "0 \<le> d" "d \<le> 4" "minorToDecimalText m d = Inr t"
  shows "\<exists>t'. numeric4 t = Inr t'"
proof -
  have "decimalTextToMinor t 4 ''numeric'' = Inr (m * 10 ^ nat (4 - d))"
    using printed_rescale [of d 4 m "''numeric''"] assms by (auto simp: MAX_SCALE_def)
  moreover obtain t' where "minorToDecimalText (m * 10 ^ nat (4 - d)) 4 = Inr t'"
    using printed_rescale [of 4 4 "m * 10 ^ nat (4 - d)"] by (auto simp: MAX_SCALE_def)
  ultimately show ?thesis by (simp add: numeric4_def)
qed

text \<open>Evaluation on concrete states, as in the theory of transactions.\<close>

lemma store_run_run:
  "store_run env t m s = (case env_tenantGate env t of Inl e \<Rightarrow> (Inl e, s)
     | Inr u \<Rightarrow> (case m s of Inl e \<Rightarrow> (Inl e, s) | Inr p \<Rightarrow> (Inr (fst p), snd p)))"
  by (auto simp: store_run_def run_tx_def tx_bind_def tx_lift_def ok_def split: sum.splits)

lemma store_run_weak: "t = t' \<Longrightarrow> store_run e t m = store_run e t' m"
  by simp

lemmas db_run = tx_run store_run_run db_check_def numeric4_option_def numeric4_sum_def
lemmas db_run_cong = tx_bind_weak op_bind_weak store_run_weak

end
