(* ===== verification/Payments_Store.thy ===== *)
theory Payments_Store
  imports Pos_Db
begin

text \<open>
  Model of \<^verbatim>\<open>src/infrastructure/db/repositories/postgres-payments-store.ts\<close>: one definition per
  operation of the transaction scope, with the effect of its SQL statement on the tables of
  \<open>Pos_Db\<close>. A \<open>SELECT\<close> is a read; an \<open>INSERT\<close> or \<open>UPDATE\<close> consults the constraints first. Row locks
  (\<open>FOR UPDATE\<close>) have no effect of their own in a model where transactions run one after the other.
\<close>

section \<open>Reads\<close>

definition find_row :: "('r \<Rightarrow> bool) \<Rightarrow> 'r list \<Rightarrow> 'r option" where
  "find_row p rows = List.find p rows"

definition compareCreated :: "order_item_row \<Rightarrow> order_item_row \<Rightarrow> int" where
  "compareCreated a b =
     (if it_createdAt a < it_createdAt b then -1 else if it_createdAt a > it_createdAt b then 1
      else if it_id a < it_id b then -1 else if it_id a > it_id b then 1 else 0)"

definition compareDiscounts :: "order_discount_record \<Rightarrow> order_discount_record \<Rightarrow> int" where
  "compareDiscounts a b =
     (if od_createdAt a < od_createdAt b then -1 else if od_createdAt a > od_createdAt b then 1
      else if od_id a < od_id b then -1 else if od_id a > od_id b then 1 else 0)"

definition compareTaxRows :: "tax_snapshot_row \<Rightarrow> tax_snapshot_row \<Rightarrow> int" where
  "compareTaxRows a b =
     (if ts_orderLineId a < ts_orderLineId b then -1 else if ts_orderLineId a > ts_orderLineId b then 1
      else if ts_computationSequence a < ts_computationSequence b then -1
      else if ts_computationSequence a > ts_computationSequence b then 1 else 0)"

definition active_items :: "pos_db \<Rightarrow> string \<Rightarrow> string \<Rightarrow> order_item_row list" where
  "active_items db tid orderId =
     js_sort compareCreated
       (filter (\<lambda>i. it_tenantId i = tid \<and> it_orderId i = orderId \<and> \<not> it_isVoided i) (db_items db))"

definition plan_rows :: "pos_db \<Rightarrow> string \<Rightarrow> string \<Rightarrow> tax_snapshot_row list" where
  "plan_rows db tid orderId =
     js_sort compareTaxRows
       (filter (\<lambda>r. ts_orderLineId r \<in> it_id ` set (active_items db tid orderId) \<and> ts_liableParty r = restaurant)
          (db_taxRows db))"

definition order_payments :: "pos_db \<Rightarrow> string \<Rightarrow> string \<Rightarrow> payment_record list" where
  "order_payments db tid orderId =
     filter (\<lambda>p. pay_tenantId p = tid \<and> pay_orderId p = orderId) (db_payments db)"

definition completed_sum :: "int \<Rightarrow> payment_record list \<Rightarrow> int result" where
  "completed_sum baseDigits ps =
     foldR (\<lambda>completedMinor p. if pay_status p = completed
              then mapResult (decimalTextToMinor (pay_amountInBaseCurrency p) baseDigits ''amountInBaseCurrency'')
                     (\<lambda>m. completedMinor + m)
              else Inr completedMinor) 0 ps"

definition order_header :: "pos_db \<Rightarrow> string \<Rightarrow> string \<Rightarrow> (order_row \<times> branch_row) option" where
  "order_header db tid orderId =
     (case find_row (\<lambda>x. o_tenantId x = tid \<and> o_id x = orderId) (db_orders db) of
        None \<Rightarrow> None
      | Some ord \<Rightarrow> map_option (\<lambda>b. (ord, b))
          (find_row (\<lambda>b. br_id b = o_branchId ord \<and> br_tenantId b = o_tenantId ord) (db_branches db)))"

definition loadOrderFinancialSnapshot :: "string \<Rightarrow> string \<Rightarrow> pos_db \<Rightarrow> order_financial_snapshot option result" where
  "loadOrderFinancialSnapshot tid orderId db =
     (case order_header db tid orderId of
        None \<Rightarrow> Inr None
      | Some (ord, branch) \<Rightarrow>
          andThen (currencyCode (br_baseCurrency branch)) (\<lambda>cur.
          andThen (storageMinorUnitDigits cur) (\<lambda>baseDigits.
          let taxRows = plan_rows db tid orderId in
          andThen (completed_sum baseDigits (order_payments db tid orderId)) (\<lambda>completedMinor.
          Inr (Some \<lparr>
            sn_orderId = orderId,
            sn_branchId = o_branchId ord,
            sn_baseCurrencyCode = br_baseCurrency branch,
            sn_paymentStatus = o_paymentStatus ord,
            sn_roundingStrategy = (if taxRows = [] then None else Some (ts_roundingStrategy (last taxRows))),
            sn_lines = map (\<lambda>item. \<lparr>ol_orderItemId = it_id item,
                         ol_lineAmountMinor = it_unitPriceMinor item * it_quantity item,
                         ol_taxPlan = map ts_plan (filter (\<lambda>r. ts_orderLineId r = it_id item) taxRows)\<rparr>)
                         (active_items db tid orderId),
            sn_discounts = js_sort compareDiscounts
              (filter (\<lambda>d. od_tenantId d = tid \<and> od_orderId d = orderId) (db_discounts db)),
            sn_completedPaymentsMinor = completedMinor,
            sn_paymentStatuses = map pay_status (order_payments db tid orderId)\<rparr>)))))"

definition loadPaymentMethod :: "string \<Rightarrow> string \<Rightarrow> pos_db \<Rightarrow> payment_method_record option" where
  "loadPaymentMethod tid paymentMethodId db =
     find_row (\<lambda>m. pm_tenantId m = tid \<and> pm_id m = paymentMethodId) (db_methods db)"

definition findOpenShiftForCashier :: "string \<Rightarrow> string \<Rightarrow> string \<Rightarrow> pos_db \<Rightarrow> shift_record option" where
  "findOpenShiftForCashier tid cashierUserId branchId db =
     find_row (\<lambda>s. sh_tenantId s = tid \<and> sh_cashierId s = cashierUserId \<and> sh_branchId s = branchId \<and>
                   sh_status s = shift_open) (db_shifts db)"

definition lockOrder :: "string \<Rightarrow> string \<Rightarrow> pos_db \<Rightarrow> string option" where
  "lockOrder tid orderId db =
     map_option o_id (find_row (\<lambda>x. o_tenantId x = tid \<and> o_id x = orderId) (db_orders db))"

definition lockShift :: "string \<Rightarrow> string \<Rightarrow> pos_db \<Rightarrow> shift_record option" where
  "lockShift tid shiftId db = find_row (\<lambda>s. sh_tenantId s = tid \<and> sh_id s = shiftId) (db_shifts db)"

definition loadPayment :: "string \<Rightarrow> string \<Rightarrow> pos_db \<Rightarrow> payment_record option" where
  "loadPayment tid paymentId db =
     find_row (\<lambda>p. pay_tenantId p = tid \<and> pay_id p = paymentId) (db_payments db)"

definition loadPaymentByIdempotencyKey :: "string \<Rightarrow> string \<Rightarrow> pos_db \<Rightarrow> payment_record option" where
  "loadPaymentByIdempotencyKey tid key db =
     find_row (\<lambda>p. pay_tenantId p = tid \<and> pay_idempotencyKey p = Some key) (db_payments db)"

definition loadUserDiscountCaps :: "string \<Rightarrow> string \<Rightarrow> pos_db \<Rightarrow> user_discount_caps option" where
  "loadUserDiscountCaps tid userId db =
     map_option dl_caps (find_row (\<lambda>l. dl_tenantId l = tid \<and> dl_userId l = userId \<and>
       dl_permissionKey l = ''order:discount:apply'') (db_limits db))"

definition loadCouponByCode :: "string \<Rightarrow> string \<Rightarrow> pos_db \<Rightarrow> coupon_record option" where
  "loadCouponByCode tid couponCode db =
     find_row (\<lambda>c. cp_tenantId c = tid \<and> cp_code c = couponCode) (db_coupons db)"

definition hasActiveOrderItems :: "string \<Rightarrow> string \<Rightarrow> pos_db \<Rightarrow> bool" where
  "hasActiveOrderItems tid orderId db =
     (\<exists>i\<in>set (db_items db). it_tenantId i = tid \<and> it_orderId i = orderId \<and> \<not> it_isVoided i)"

text \<open>\<open>ORDER BY created_at DESC LIMIT 1\<close>: the newest of the matching attempts, the first among equals.\<close>

definition newest_attempt :: "override_attempt_row list \<Rightarrow> override_attempt_row option" where
  "newest_attempt rows =
     (case js_sort (\<lambda>a b. oa_createdAt b - oa_createdAt a) rows of [] \<Rightarrow> None | a # _ \<Rightarrow> Some a)"

definition findSuccessfulOverrideAttemptId ::
  "string \<Rightarrow> string \<Rightarrow> string \<Rightarrow> string \<Rightarrow> string \<Rightarrow> pos_db \<Rightarrow> string option" where
  "findSuccessfulOverrideAttemptId tid actorUserId managerUserId orderId contextType db =
     map_option oa_id (newest_attempt (filter (\<lambda>a. oa_tenantId a = tid \<and>
       oa_initiatingActorUserId a = actorUserId \<and> oa_targetManagerUserId a = managerUserId \<and>
       oa_orderId a = Some orderId \<and> oa_outcome a = succeeded \<and> oa_contextType a = contextType) (db_attempts db)))"

definition loadNonVoidedOrderItemIds :: "string \<Rightarrow> string \<Rightarrow> pos_db \<Rightarrow> string list" where
  "loadNonVoidedOrderItemIds tid orderId db = map it_id (active_items db tid orderId)"

text \<open>The deductions of the given items, summed per (item, component); groups in order of first occurrence.\<close>

record sale_deduction_aggregate =
  sd_orderItemId :: string
  sd_inventoryItemId :: string
  sd_totalDeducted :: string

definition deduction_rows :: "string \<Rightarrow> string list \<Rightarrow> pos_db \<Rightarrow> stock_movement_record list" where
  "deduction_rows tid itemIds db =
     filter (\<lambda>m. sm_tenantId m = tid \<and> sm_movementType m = sale_deduction \<and>
       (case sm_orderItemId m of None \<Rightarrow> False | Some i \<Rightarrow> i \<in> set itemIds)) (db_stock db)"

definition movement_key :: "stock_movement_record \<Rightarrow> string \<times> string" where
  "movement_key m = (case sm_orderItemId m of None \<Rightarrow> '''' | Some i \<Rightarrow> i, sm_inventoryItemId m)"

definition group_keys :: "stock_movement_record list \<Rightarrow> (string \<times> string) list" where
  "group_keys ms = rev (remdups (rev (map movement_key ms)))"

definition loadSaleDeductionsForOrderItems ::
  "string \<Rightarrow> string list \<Rightarrow> pos_db \<Rightarrow> sale_deduction_aggregate list result" where
  "loadSaleDeductionsForOrderItems tid itemIds db =
     (if itemIds = [] then Inr []
      else let rows = deduction_rows tid itemIds db in
        mapR (\<lambda>k. andThen (numeric4_sum (map sm_quantityDelta (filter (\<lambda>m. movement_key m = k) rows))) (\<lambda>total.
                mapResult (minorToDecimalText total 4) (\<lambda>t.
                  \<lparr>sd_orderItemId = fst k, sd_inventoryItemId = snd k, sd_totalDeducted = t\<rparr>)))
          (group_keys rows))"

definition loadWasteRefundKeys :: "string \<Rightarrow> string \<Rightarrow> pos_db \<Rightarrow> (string \<times> string) list" where
  "loadWasteRefundKeys tid orderId db =
     map movement_key (filter (\<lambda>m. sm_tenantId m = tid \<and> sm_orderId m = Some orderId \<and>
       (sm_movementType m = waste_refund \<or> sm_movementType m = void_restoration)) (db_stock db))"

text \<open>
  The items with an event in a state whose kind fires a kitchen ticket. A behaviour flag is a boolean
  member of the kind's JSON object: the trigger of \<^verbatim>\<open>migrations/0018\<close> refuses a kind that lacks one of the five flags or gives one a value that is not a
  JSON boolean, so the cast of its text to boolean is the boolean itself.
\<close>

fun json_member :: "json \<Rightarrow> string \<Rightarrow> json option" where
  "json_member (JsObj ms) key = map_of ms key"
| "json_member _ key = None"

definition fires_ticket :: "pos_db \<Rightarrow> status_event_row \<Rightarrow> bool" where
  "fires_ticket db e \<longleftrightarrow>
     (\<exists>s\<in>set (db_workflowStates db). ws_id s = se_toStatusKindId e \<and> ws_tenantId s = se_tenantId e \<and>
       (\<exists>k\<in>set (db_statusKinds db). sk_code k = ws_kindCode s \<and>
          json_member (sk_behaviorFlags k) ''fires_kitchen_ticket'' = Some (JsBool True)))"

definition loadItemsWithKitchenTicketFired :: "string \<Rightarrow> string list \<Rightarrow> pos_db \<Rightarrow> string list" where
  "loadItemsWithKitchenTicketFired tid itemIds db =
     (if itemIds = [] then []
      else remdups (map se_orderItemId (filter (\<lambda>e. se_tenantId e = tid \<and> se_orderItemId e \<in> set itemIds \<and>
        fires_ticket db e) (db_statusEvents db))))"

section \<open>Writes\<close>

definition update_where :: "('r \<Rightarrow> bool) \<Rightarrow> ('r \<Rightarrow> 'r) \<Rightarrow> 'r list \<Rightarrow> 'r list" where
  "update_where p f rows = map (\<lambda>r. if p r then f r else r) rows"

definition bumpOrderRevision :: "pos_env \<Rightarrow> string \<Rightarrow> string \<Rightarrow> (pos_db, unit) tx" where
  "bumpOrderRevision env tid orderId =
     tx_bind (db_check env (WOrderRevision orderId)) (\<lambda>_.
     tx_write (\<lambda>db. db\<lparr>db_orders := update_where (\<lambda>x. o_tenantId x = tid \<and> o_id x = orderId)
       (\<lambda>x. x\<lparr>o_revision := o_revision x + 1\<rparr>) (db_orders db)\<rparr>))"

definition bumpShiftRevision :: "pos_env \<Rightarrow> string \<Rightarrow> string \<Rightarrow> (pos_db, unit) tx" where
  "bumpShiftRevision env tid shiftId =
     tx_bind (db_check env (WShiftRevision shiftId)) (\<lambda>_.
     tx_write (\<lambda>db. db\<lparr>db_shiftRevisions := AList.update shiftId
       ((case map_of (db_shiftRevisions db) shiftId of None \<Rightarrow> 0 | Some n \<Rightarrow> n) + 1) (db_shiftRevisions db)\<rparr>))"

text \<open>The unique keys of \<open>payments\<close>: the primary key and the partial index on the idempotency key.\<close>

definition payment_conflict :: "pos_db \<Rightarrow> payment_record \<Rightarrow> bool" where
  "payment_conflict db p \<longleftrightarrow> (\<exists>q\<in>set (db_payments db). pay_id q = pay_id p \<or>
     pay_tenantId q = pay_tenantId p \<and> pay_idempotencyKey p \<noteq> None \<and> pay_idempotencyKey q = pay_idempotencyKey p)"

definition insertPayment :: "pos_env \<Rightarrow> string \<Rightarrow> insert_payment_input \<Rightarrow> (pos_db, payment_record) tx" where
  "insertPayment env tid payment =
     tx_bind (tx_lift (numeric4 (ip_amount payment))) (\<lambda>amount.
     tx_bind (tx_lift (numeric4 (ip_amountInBaseCurrency payment))) (\<lambda>base.
     tx_bind (tx_lift (numeric4_option (ip_changeGivenAmount payment))) (\<lambda>change.
     let row = \<lparr>pay_id = ip_id payment, pay_tenantId = tid, pay_orderId = ip_orderId payment,
       pay_paymentMethodId = ip_paymentMethodId payment, pay_amount = amount,
       pay_amountInBaseCurrency = base, pay_exchangeRateSnapshot = ip_exchangeRateSnapshot payment,
       pay_changeGivenAmount = change, pay_status = completed, pay_shiftId = ip_shiftId payment,
       pay_createdBy = ip_createdBy payment, pay_idempotencyKey = ip_idempotencyKey payment,
       pay_voidedById = None, pay_voidedAt = None, pay_voidReason = None, pay_createdAt = env_now env\<rparr>
     in
     tx_bind (db_check env (WPayment row)) (\<lambda>_.
     tx_bind (tx_read (\<lambda>db. payment_conflict db row)) (\<lambda>conflict.
     tx_bind (tx_guard (\<not> conflict) (PgError ''23505'' None ''duplicate key'')) (\<lambda>_.
     tx_bind (tx_write (\<lambda>db. db\<lparr>db_payments := db_payments db @ [row]\<rparr>)) (\<lambda>_.
     tx_return row)))))))"

record post_payment_journal_entry_input =
  pj_paymentId :: string
  pj_branchId :: string
  pj_currencyCode :: string
  pj_amountMinor :: int
  pj_debitSystemPurpose :: string
  pj_postedByUserId :: string
  pj_occurredAt :: int

definition find_entry :: "pos_db \<Rightarrow> string \<Rightarrow> journal_source \<Rightarrow> string \<Rightarrow> journal_entry option" where
  "find_entry db tid source sourceId =
     find_row (\<lambda>e. je_tenantId e = tid \<and> je_sourceType e = source \<and> je_sourceId e = sourceId) (db_journal db)"

definition accounts_for :: "pos_db \<Rightarrow> string \<Rightarrow> string \<Rightarrow> string list" where
  "accounts_for db tid purpose =
     map ac_id (filter (\<lambda>a. ac_tenantId a = tid \<and> ac_isActive a \<and> ac_systemPurpose a = purpose) (db_accounts db))"

text \<open>
  The entry the statement inserts: none when an account is missing or ambiguous, the branch is
  unknown, or the key (tenant, source type, source id) is already taken (\<open>ON CONFLICT DO NOTHING\<close>).
\<close>

definition payment_entry ::
  "pos_env \<Rightarrow> string \<Rightarrow> post_payment_journal_entry_input \<Rightarrow> pos_db \<Rightarrow> journal_entry option" where
  "payment_entry env tid input db =
     (case (accounts_for db tid (pj_debitSystemPurpose input), accounts_for db tid ''sales_revenue'') of
        ([debit], [credit]) \<Rightarrow>
          if (\<exists>b\<in>set (db_branches db). br_id b = pj_branchId input \<and> br_tenantId b = tid) \<and>
             find_entry db tid src_payment (pj_paymentId input) = None
          then Some \<lparr>je_id = env_uuid env db, je_tenantId = tid, je_branchId = pj_branchId input,
                 je_sourceType = src_payment, je_sourceId = pj_paymentId input,
                 je_currencyCode = pj_currencyCode input, je_postedBy = pj_postedByUserId input,
                 je_postedAt = pj_occurredAt input, je_reversalOf = None,
                 je_lines = [\<lparr>jl_accountId = debit, jl_debitMinor = pj_amountMinor input, jl_creditMinor = 0\<rparr>,
                             \<lparr>jl_accountId = credit, jl_debitMinor = 0, jl_creditMinor = pj_amountMinor input\<rparr>]\<rparr>
          else None
      | _ \<Rightarrow> None)"

definition insert_entry :: "pos_env \<Rightarrow> journal_entry option \<Rightarrow> (pos_db, unit) tx" where
  "insert_entry env entry =
     (case entry of
        None \<Rightarrow> tx_return ()
      | Some e \<Rightarrow> tx_bind (db_check env (WJournal e)) (\<lambda>_.
                    tx_write (\<lambda>db. db\<lparr>db_journal := db_journal db @ [e]\<rparr>)))"

definition postPaymentJournalEntry ::
  "pos_env \<Rightarrow> string \<Rightarrow> post_payment_journal_entry_input \<Rightarrow> (pos_db, unit) tx" where
  "postPaymentJournalEntry env tid input =
     tx_bind (tx_guard (pj_amountMinor input > 0) (ForeignError ''Payment journal amount must be positive'')) (\<lambda>_.
     tx_bind (tx_read (payment_entry env tid input)) (\<lambda>entry.
     tx_bind (insert_entry env entry) (\<lambda>_.
     tx_bind (tx_read (\<lambda>db. find_entry db tid src_payment (pj_paymentId input))) (\<lambda>existing.
     tx_guard (entry \<noteq> None \<or> existing \<noteq> None)
       (ForeignError ''Payment journal accounts are missing or ambiguous'')))))"

definition postOrderCogs :: "pos_env \<Rightarrow> string \<Rightarrow> string \<Rightarrow> (pos_db, unit) tx" where
  "postOrderCogs env tid orderId =
     tx_bind (db_check env (WCogs orderId)) (\<lambda>_.
     tx_write (\<lambda>db. db\<lparr>db_cogsCalls := db_cogsCalls db @ [(tid, orderId)]\<rparr>))"

definition swap_line :: "journal_line \<Rightarrow> journal_line" where
  "swap_line l = l\<lparr>jl_debitMinor := jl_creditMinor l, jl_creditMinor := jl_debitMinor l\<rparr>"

definition reversal_entry :: "pos_env \<Rightarrow> string \<Rightarrow> string \<Rightarrow> string \<Rightarrow> int \<Rightarrow> pos_db \<Rightarrow> journal_entry option" where
  "reversal_entry env tid paymentId postedByUserId occurredAt db =
     (case find_entry db tid src_payment paymentId of
        None \<Rightarrow> None
      | Some original \<Rightarrow>
          if (\<exists>b\<in>set (db_branches db). br_id b = je_branchId original \<and> br_tenantId b = tid) \<and>
             find_entry db tid src_payment_reversal paymentId = None
          then Some \<lparr>je_id = env_uuid env db, je_tenantId = tid, je_branchId = je_branchId original,
                 je_sourceType = src_payment_reversal, je_sourceId = paymentId,
                 je_currencyCode = je_currencyCode original, je_postedBy = postedByUserId,
                 je_postedAt = occurredAt, je_reversalOf = Some (je_id original),
                 je_lines = map swap_line (je_lines original)\<rparr>
          else None)"

definition postPaymentJournalReversalEntry ::
  "pos_env \<Rightarrow> string \<Rightarrow> string \<Rightarrow> string \<Rightarrow> int \<Rightarrow> (pos_db, unit) tx" where
  "postPaymentJournalReversalEntry env tid paymentId postedByUserId occurredAt =
     tx_bind (tx_read (reversal_entry env tid paymentId postedByUserId occurredAt)) (\<lambda>entry.
     tx_bind (insert_entry env entry) (\<lambda>_.
     tx_bind (tx_read (\<lambda>db. find_entry db tid src_payment_reversal paymentId)) (\<lambda>existing.
     tx_guard (entry \<noteq> None \<or> existing \<noteq> None)
       (ForeignError ''Original payment journal entry is missing''))))"

text \<open>The two status updates; \<open>RETURNING *\<close> without a row is an error.\<close>

definition update_payment ::
  "pos_env \<Rightarrow> string \<Rightarrow> string \<Rightarrow> (payment_record \<Rightarrow> payment_record) \<Rightarrow> string \<Rightarrow> (pos_db, payment_record) tx" where
  "update_payment env tid paymentId f msg =
     tx_bind (tx_read (loadPayment tid paymentId)) (\<lambda>row.
     tx_bind (tx_some row (ForeignError msg)) (\<lambda>p.
     tx_bind (db_check env (WPaymentStatus p (f p))) (\<lambda>_.
     tx_bind (tx_write (\<lambda>db. db\<lparr>db_payments :=
        update_where (\<lambda>q. pay_tenantId q = tid \<and> pay_id q = paymentId) f (db_payments db)\<rparr>)) (\<lambda>_.
     tx_return (f p)))))"

definition voidPaymentRow :: "pos_env \<Rightarrow> string \<Rightarrow> string \<Rightarrow> string \<Rightarrow> int \<Rightarrow> string \<Rightarrow> (pos_db, payment_record) tx" where
  "voidPaymentRow env tid paymentId voidedById voidedAt voidReason =
     update_payment env tid paymentId
       (\<lambda>p. p\<lparr>pay_status := voided, pay_voidedById := Some voidedById, pay_voidedAt := Some voidedAt,
              pay_voidReason := Some voidReason\<rparr>) ''Payment could not be voided''"

definition refundPaymentRow :: "pos_env \<Rightarrow> string \<Rightarrow> string \<Rightarrow> (pos_db, payment_record) tx" where
  "refundPaymentRow env tid paymentId =
     update_payment env tid paymentId (\<lambda>p. p\<lparr>pay_status := refunded\<rparr>) ''Payment could not be refunded''"

definition setOrderPaymentStatus :: "pos_env \<Rightarrow> string \<Rightarrow> string \<Rightarrow> order_payment_status \<Rightarrow> (pos_db, unit) tx" where
  "setOrderPaymentStatus env tid orderId newStatus =
     tx_bind (db_check env (WOrderStatus orderId newStatus)) (\<lambda>_.
     tx_write (\<lambda>db. db\<lparr>db_orders := update_where (\<lambda>x. o_tenantId x = tid \<and> o_id x = orderId)
       (\<lambda>x. x\<lparr>o_paymentStatus := newStatus\<rparr>) (db_orders db)\<rparr>))"

definition appendAuditEvidence :: "pos_env \<Rightarrow> audit_row \<Rightarrow> (pos_db, unit) tx" where
  "appendAuditEvidence env row =
     tx_bind (db_check env (WAudit row)) (\<lambda>_.
     tx_write (\<lambda>db. db\<lparr>db_audit := db_audit db @ [row]\<rparr>))"

definition COUPON_EXPIRED_MESSAGE_PREFIX :: string where
  "COUPON_EXPIRED_MESSAGE_PREFIX = ''coupon is expired''"

fun isCouponExpiredTriggerError :: "app_error \<Rightarrow> bool" where
  "isCouponExpiredTriggerError (PgError sqlstate _ msg) =
     (sqlstate = ''23514'' \<and> take (length COUPON_EXPIRED_MESSAGE_PREFIX) msg = COUPON_EXPIRED_MESSAGE_PREFIX)"
| "isCouponExpiredTriggerError _ = False"

definition insertOrderDiscount :: "pos_env \<Rightarrow> string \<Rightarrow> insert_order_discount_input \<Rightarrow> (pos_db, order_discount_record) tx" where
  "insertOrderDiscount env tid discount =
     tx_bind (tx_lift (numeric4 (id_discountValue discount))) (\<lambda>value.
     tx_bind (tx_lift (numeric4 (id_discountAmountApplied discount))) (\<lambda>applied.
     let row = \<lparr>od_id = id_id discount, od_tenantId = tid, od_orderId = id_orderId discount,
       od_mechanism = id_mechanism discount, od_couponId = id_couponId discount,
       od_discountKind = id_discountKind discount, od_discountValue = value,
       od_discountAmountApplied = applied, od_requiredManagerOverride = id_requiredManagerOverride discount,
       od_managerOverrideAttemptId = id_managerOverrideAttemptId discount,
       od_appliedBy = id_appliedBy discount, od_createdAt = env_now env\<rparr>
     in
     tx_bind (\<lambda>db. mapErr (db_check env (WDiscount row) db) (\<lambda>e.
         if isCouponExpiredTriggerError e
         then CouponAvailabilityRaceError (case id_couponCode discount of Some c \<Rightarrow> c
                | None \<Rightarrow> (case id_couponId discount of Some c \<Rightarrow> c | None \<Rightarrow> ''unknown coupon''))
         else e)) (\<lambda>_.
     tx_bind (tx_write (\<lambda>db. db\<lparr>db_discounts := db_discounts db @ [row]\<rparr>)) (\<lambda>_.
     tx_return row))))"

definition incrementCouponUses :: "pos_env \<Rightarrow> string \<Rightarrow> string \<Rightarrow> (pos_db, unit) tx" where
  "incrementCouponUses env tid couponId =
     tx_bind (db_check env (WCouponUse couponId)) (\<lambda>_.
     tx_write (\<lambda>db. db\<lparr>db_coupons := update_where (\<lambda>c. cp_tenantId c = tid \<and> cp_id c = couponId)
       (\<lambda>c. c\<lparr>cp_usesCount := cp_usesCount c + 1\<rparr>) (db_coupons db)\<rparr>))"

definition insertStockMovement :: "pos_env \<Rightarrow> string \<Rightarrow> insert_stock_movement_input \<Rightarrow> (pos_db, stock_movement_record) tx" where
  "insertStockMovement env tid movement =
     tx_bind (tx_read (env_uuid env)) (\<lambda>newId.
     tx_bind (tx_lift (numeric4 (im_quantityDelta movement))) (\<lambda>delta.
     let row = \<lparr>sm_id = newId, sm_tenantId = tid, sm_branchId = im_branchId movement,
       sm_inventoryItemId = im_inventoryItemId movement, sm_movementType = im_movementType movement,
       sm_quantityDelta = delta, sm_orderId = im_orderId movement,
       sm_orderItemId = im_orderItemId movement, sm_actorUserId = im_actorUserId movement,
       sm_managerOverrideId = im_managerOverrideId movement,
       sm_adjustmentReasonId = im_adjustmentReasonId movement, sm_occurredAt = im_occurredAt movement\<rparr>
     in
     tx_bind (db_check env (WStock row)) (\<lambda>_.
     tx_bind (tx_write (\<lambda>db. db\<lparr>db_stock := db_stock db @ [row]\<rparr>)) (\<lambda>_.
     tx_return row))))"

definition postInventoryRestoration :: "pos_env \<Rightarrow> string \<Rightarrow> (pos_db, unit) tx" where
  "postInventoryRestoration env stockMovementId =
     tx_bind (db_check env (WRestoration stockMovementId)) (\<lambda>_.
     tx_write (\<lambda>db. db\<lparr>db_restorationCalls := db_restorationCalls db @ [stockMovementId]\<rparr>))"

record new_payment_method_input =
  nm_name :: string
  nm_type :: payment_method_type
  nm_branchId :: "string option"
  nm_currencyCode :: "string option"
  nm_fixedExchangeRate :: "string option"
  nm_clearingAccountSystemPurpose :: string
  nm_isActive :: bool

definition insertPaymentMethod :: "pos_env \<Rightarrow> string \<Rightarrow> new_payment_method_input \<Rightarrow> (pos_db, payment_method_record) tx" where
  "insertPaymentMethod env tid input =
     tx_bind (tx_read (env_uuid env)) (\<lambda>newId.
     let row = \<lparr>pm_id = newId, pm_tenantId = tid, pm_branchId = nm_branchId input, pm_name = nm_name input,
       pm_type = nm_type input, pm_currencyCode = nm_currencyCode input,
       pm_fixedExchangeRate = nm_fixedExchangeRate input,
       pm_clearingAccountSystemPurpose = nm_clearingAccountSystemPurpose input, pm_isActive = nm_isActive input\<rparr>
     in
     tx_bind (db_check env (WMethod row)) (\<lambda>_.
     tx_bind (tx_write (\<lambda>db. db\<lparr>db_methods := db_methods db @ [row]\<rparr>)) (\<lambda>_.
     tx_return row)))"

record update_payment_method_input =
  up_name :: "string option"
  up_isActive :: "bool option"
  up_fixedExchangeRate :: "string option"
  up_clearingAccountSystemPurpose :: "string option"

definition coalesce :: "'a option \<Rightarrow> 'a \<Rightarrow> 'a" where
  "coalesce x d = (case x of None \<Rightarrow> d | Some v \<Rightarrow> v)"

definition updatePaymentMethod ::
  "pos_env \<Rightarrow> string \<Rightarrow> string \<Rightarrow> update_payment_method_input \<Rightarrow> (pos_db, payment_method_record) tx" where
  "updatePaymentMethod env tid paymentMethodId input =
     (let f = (\<lambda>m. m\<lparr>pm_name := coalesce (up_name input) (pm_name m),
                      pm_isActive := coalesce (up_isActive input) (pm_isActive m),
                      pm_fixedExchangeRate := (case up_fixedExchangeRate input of
                          None \<Rightarrow> pm_fixedExchangeRate m | Some r \<Rightarrow> Some r),
                      pm_clearingAccountSystemPurpose := coalesce (up_clearingAccountSystemPurpose input)
                        (pm_clearingAccountSystemPurpose m)\<rparr>)
      in
      tx_bind (tx_read (loadPaymentMethod tid paymentMethodId)) (\<lambda>row.
      tx_bind (tx_some row (ForeignError ''Payment method could not be updated'')) (\<lambda>m.
      tx_bind (db_check env (WMethod (f m))) (\<lambda>_.
      tx_bind (tx_write (\<lambda>db. db\<lparr>db_methods :=
        update_where (\<lambda>q. pm_tenantId q = tid \<and> pm_id q = paymentMethodId) f (db_methods db)\<rparr>)) (\<lambda>_.
      tx_return (f m))))))"

end
