(* ===== verification/Payments_Engine.thy ===== *)
theory Payments_Engine
  imports Payments_Store
begin

text \<open>
  Model of \<^verbatim>\<open>src/application/engines/payments/payments-engine.ts\<close>: the totals query, collecting a
  payment (with idempotent replay), voiding and refunding it, and the stock effects of a refund.
  Each transaction body is a definition of its own (\<open>collectBody\<close>, \<open>lifecycleBody\<close>), run by
  \<open>store_run\<close> between the checks that the source makes outside of it.
\<close>

section \<open>Inputs and results\<close>

record record_payment_input =
  rp_orderId :: string
  rp_paymentMethodId :: string
  rp_cashierUserId :: string
  rp_amountText :: string
  rp_explicitChangeMinor :: "int option"
  rp_idempotencyKey :: "string option"
  rp_tokenSecV :: "string option"

record recorded_payment =
  rc_payment :: payment_record
  rc_orderTotalMinor :: int
  rc_remainingBalanceMinor :: int
  rc_changeGivenMinor :: int

definition IDEMPOTENCY_KEY_MAX_LENGTH :: nat where
  "IDEMPOTENCY_KEY_MAX_LENGTH = 128"

text \<open>\<open>s.trim()\<close> on the characters of the model.\<close>

definition is_js_space :: "char \<Rightarrow> bool" where
  "is_js_space c \<longleftrightarrow> (of_char c :: nat) \<in> {9, 10, 11, 12, 13, 32, 160}"

definition js_trim :: "string \<Rightarrow> string" where
  "js_trim s = rev (dropWhile is_js_space (rev (dropWhile is_js_space s)))"

definition normalizeIdempotencyKey :: "string option \<Rightarrow> string option result" where
  "normalizeIdempotencyKey key =
     (case key of
        None \<Rightarrow> Inr None
      | Some k \<Rightarrow>
          if js_trim k = [] then Inl (ValidationError (Some ''idempotencyKey''))
          else if length k > IDEMPOTENCY_KEY_MAX_LENGTH then Inl (ValidationError (Some ''idempotencyKey''))
          else Inr (Some k))"

fun isUniqueViolation :: "app_error \<Rightarrow> bool" where
  "isUniqueViolation (PgError sqlstate _ _) = (sqlstate = ''23505'')"
| "isUniqueViolation _ = False"

section \<open>Totals\<close>

definition loadSnapshot :: "string \<Rightarrow> string \<Rightarrow> (pos_db, order_financial_snapshot) tx" where
  "loadSnapshot tid orderId =
     tx_bind (tx_readR (loadOrderFinancialSnapshot tid orderId)) (\<lambda>snapshot. tx_some snapshot NotFoundError)"

definition orderTotals :: "pos_env \<Rightarrow> string \<Rightarrow> string \<Rightarrow> (pos_db, order_totals_computation) op" where
  "orderTotals env tid orderId =
     store_run env tid (tx_bind (loadSnapshot tid orderId) (\<lambda>snapshot. tx_lift (computeOrderTotals snapshot)))"

definition orderBranch :: "pos_env \<Rightarrow> string \<Rightarrow> string \<Rightarrow> (pos_db, string) op" where
  "orderBranch env tid orderId =
     store_run env tid (tx_bind (loadSnapshot tid orderId) (\<lambda>snapshot. tx_return (sn_branchId snapshot)))"

section \<open>Collecting a payment\<close>

record tendered_amount =
  td_digits :: int
  td_minor :: int
  td_rate :: "string option"
  td_grossBaseMinor :: int

definition tenderAmount :: "payment_method_record \<Rightarrow> string \<Rightarrow> int \<Rightarrow> string \<Rightarrow> tendered_amount result" where
  "tenderAmount method baseCurrency baseDigits amountText =
     (if pm_type method = pm_foreign_currency_cash then
        (case (pm_fixedExchangeRate method, pm_currencyCode method) of
           (Some rate, Some cur) \<Rightarrow>
             andThen (currencyCode cur) (\<lambda>foreignCurrency.
             andThen (storageMinorUnitDigits foreignCurrency) (\<lambda>tenderedDigits.
             andThen (nonNegativeDecimalTextToMinor amountText tenderedDigits ''amount'') (\<lambda>tenderedMinor.
             andThen (money tenderedMinor foreignCurrency) (\<lambda>m.
             andThen (convertMoneyAtRate m rate baseCurrency baseDigits tenderedDigits) (\<lambda>converted.
             Inr \<lparr>td_digits = tenderedDigits, td_minor = tenderedMinor, td_rate = Some rate,
                  td_grossBaseMinor = amountMinor converted\<rparr>)))))
         | _ \<Rightarrow> Inl (PaymentMethodUnavailableError (pm_id method) ''foreign cash method without a fixed rate/currency''))
      else
        andThen (nonNegativeDecimalTextToMinor amountText baseDigits ''amount'') (\<lambda>tenderedMinor.
        Inr \<lparr>td_digits = baseDigits, td_minor = tenderedMinor, td_rate = None, td_grossBaseMinor = tenderedMinor\<rparr>))"

definition isCashLike :: "payment_method_record \<Rightarrow> bool" where
  "isCashLike method \<longleftrightarrow> pm_type method = pm_cash \<or> pm_type method = pm_foreign_currency_cash"

definition changeDue :: "bool \<Rightarrow> int \<Rightarrow> int \<Rightarrow> int option \<Rightarrow> int result" where
  "changeDue cashLike grossBaseMinor remainingBalanceMinor explicitChange =
     (if cashLike then
        let excess = grossBaseMinor - remainingBalanceMinor;
            change = (if excess > 0 then excess else 0)
        in case explicitChange of
             None \<Rightarrow> Inr change
           | Some c \<Rightarrow> if c \<noteq> change then Inl (ValidationError (Some ''explicitChangeMinor'')) else Inr change
      else case explicitChange of
             None \<Rightarrow> Inr 0
           | Some c \<Rightarrow> if c \<noteq> 0 then Inl (ValidationError (Some ''explicitChangeMinor'')) else Inr 0)"

definition buildReplay :: "string \<Rightarrow> payment_record \<Rightarrow> record_payment_input \<Rightarrow> (pos_db, recorded_payment) tx" where
  "buildReplay tid existing input =
     tx_bind (tx_guard (pay_orderId existing = rp_orderId input \<and>
                        pay_paymentMethodId existing = rp_paymentMethodId input) ConflictError) (\<lambda>_.
     tx_bind (loadSnapshot tid (rp_orderId input)) (\<lambda>snapshot.
     tx_bind (tx_read (loadPaymentMethod tid (rp_paymentMethodId input))) (\<lambda>found.
     tx_bind (tx_some found (PaymentMethodUnavailableError (rp_paymentMethodId input) ''unknown or inactive'')) (\<lambda>method.
     tx_bind (tx_lift (andThen (currencyCode (sn_baseCurrencyCode snapshot)) storageMinorUnitDigits)) (\<lambda>baseDigits.
     tx_bind (tx_lift (case pm_currencyCode method of
                Some cur \<Rightarrow> if pm_type method = pm_foreign_currency_cash
                            then andThen (currencyCode cur) storageMinorUnitDigits else Inr baseDigits
              | None \<Rightarrow> Inr baseDigits)) (\<lambda>tenderedDigits.
     tx_bind (tx_lift (nonNegativeDecimalTextToMinor (rp_amountText input) tenderedDigits ''amount'')) (\<lambda>expected.
     tx_bind (tx_lift (nonNegativeDecimalTextToMinor (pay_amount existing) tenderedDigits ''amount'')) (\<lambda>recorded.
     tx_bind (tx_lift (case pay_changeGivenAmount existing of
                None \<Rightarrow> Inr 0
              | Some c \<Rightarrow> nonNegativeDecimalTextToMinor c baseDigits ''changeGivenAmount'')) (\<lambda>recordedChange.
     tx_bind (tx_guard (expected = recorded \<and>
        (case rp_explicitChangeMinor input of None \<Rightarrow> True | Some c \<Rightarrow> c = recordedChange)) ConflictError) (\<lambda>_.
     tx_bind (tx_lift (computeOrderTotals snapshot)) (\<lambda>totals.
     tx_return \<lparr>rc_payment = existing, rc_orderTotalMinor = ot_totalMinor totals,
                rc_remainingBalanceMinor = ot_remainingBalanceMinor totals,
                rc_changeGivenMinor = recordedChange\<rparr>)))))))))))"

text \<open>The part of the transaction after the replay check, in three steps: gateway, amounts, writes.\<close>

definition collectGateway ::
  "pos_env \<Rightarrow> string \<Rightarrow> record_payment_input \<Rightarrow>
   (pos_db, order_financial_snapshot \<times> payment_method_record \<times> shift_record) tx" where
  "collectGateway env tid input =
     tx_bind (bumpOrderRevision env tid (rp_orderId input)) (\<lambda>_.
     tx_bind (loadSnapshot tid (rp_orderId input)) (\<lambda>snapshot.
     tx_bind (tx_guard (sn_paymentStatus snapshot \<notin> {op_refunded, op_refund_pending, op_voided})
                (ValidationError (Some ''orderId''))) (\<lambda>_.
     tx_bind (tx_read (loadPaymentMethod tid (rp_paymentMethodId input))) (\<lambda>found.
     tx_bind (tx_some (case found of Some m \<Rightarrow> if pm_isActive m then Some m else None | None \<Rightarrow> None)
                (PaymentMethodUnavailableError (rp_paymentMethodId input) ''unknown or inactive'')) (\<lambda>method.
     tx_bind (tx_guard (pm_branchId method = None \<or> pm_branchId method = Some (sn_branchId snapshot))
                (PaymentMethodUnavailableError (rp_paymentMethodId input) ''not available at the order branch'')) (\<lambda>_.
     tx_bind (tx_read (findOpenShiftForCashier tid (rp_cashierUserId input) (sn_branchId snapshot))) (\<lambda>gateway.
     tx_bind (tx_some gateway (CashierShiftRequiredError (rp_cashierUserId input) (sn_branchId snapshot))) (\<lambda>gateway.
     tx_bind (tx_read (lockShift tid (sh_id gateway))) (\<lambda>locked.
     tx_bind (tx_some (case locked of Some s \<Rightarrow> if sh_status s = shift_open then Some s else None | None \<Rightarrow> None)
                (CashierShiftRequiredError (rp_cashierUserId input) (sn_branchId snapshot))) (\<lambda>shift.
     tx_bind (bumpShiftRevision env tid (sh_id shift)) (\<lambda>_.
     tx_return (snapshot, method, shift))))))))))))"

record collected_amounts =
  ca_totals :: order_totals_computation
  ca_baseDigits :: int
  ca_tendered :: tendered_amount
  ca_changeMinor :: int
  ca_netBaseMinor :: int

definition collectAmounts ::
  "record_payment_input \<Rightarrow> order_financial_snapshot \<Rightarrow> payment_method_record \<Rightarrow> collected_amounts result" where
  "collectAmounts input snapshot method =
     andThen (computeOrderTotals snapshot) (\<lambda>totals.
     if ot_remainingBalanceMinor totals \<le> 0
     then Inl (PaymentExceedsBalanceError 0 (ot_remainingBalanceMinor totals))
     else
     andThen (currencyCode (sn_baseCurrencyCode snapshot)) (\<lambda>baseCurrency.
     andThen (storageMinorUnitDigits baseCurrency) (\<lambda>baseDigits.
     andThen (tenderAmount method baseCurrency baseDigits (rp_amountText input)) (\<lambda>tendered.
     andThen (changeDue (isCashLike method) (td_grossBaseMinor tendered) (ot_remainingBalanceMinor totals)
                (rp_explicitChangeMinor input)) (\<lambda>changeMinor.
     let netBaseMinor = td_grossBaseMinor tendered - changeMinor in
     if netBaseMinor \<le> 0 then Inl (ValidationError (Some ''amountText''))
     else if netBaseMinor > ot_remainingBalanceMinor totals
     then Inl (PaymentExceedsBalanceError netBaseMinor (ot_remainingBalanceMinor totals))
     else Inr \<lparr>ca_totals = totals, ca_baseDigits = baseDigits, ca_tendered = tendered,
               ca_changeMinor = changeMinor, ca_netBaseMinor = netBaseMinor\<rparr>)))))"

definition collectWrites ::
  "pos_env \<Rightarrow> string \<Rightarrow> record_payment_input \<Rightarrow> string option \<Rightarrow> order_financial_snapshot \<Rightarrow>
   payment_method_record \<Rightarrow> shift_record \<Rightarrow> collected_amounts \<Rightarrow> (pos_db, recorded_payment) tx" where
  "collectWrites env tid input key snapshot method shift am =
     tx_bind (tx_lift (minorToDecimalText (td_minor (ca_tendered am)) (td_digits (ca_tendered am)))) (\<lambda>amountText.
     tx_bind (tx_lift (minorToDecimalText (ca_netBaseMinor am) (ca_baseDigits am))) (\<lambda>baseText.
     tx_bind (tx_lift (if isCashLike method \<and> ca_changeMinor am > 0
                       then mapResult (minorToDecimalText (ca_changeMinor am) (ca_baseDigits am)) Some
                       else Inr None)) (\<lambda>changeText.
     tx_bind (tx_read (env_uuid env)) (\<lambda>newId.
     tx_bind (insertPayment env tid \<lparr>ip_id = newId, ip_orderId = rp_orderId input,
        ip_paymentMethodId = pm_id method, ip_amount = amountText, ip_amountInBaseCurrency = baseText,
        ip_exchangeRateSnapshot = td_rate (ca_tendered am), ip_changeGivenAmount = changeText,
        ip_shiftId = sh_id shift, ip_createdBy = rp_cashierUserId input, ip_idempotencyKey = key\<rparr>) (\<lambda>payment.
     tx_bind (postPaymentJournalEntry env tid \<lparr>pj_paymentId = pay_id payment,
        pj_branchId = sn_branchId snapshot, pj_currencyCode = sn_baseCurrencyCode snapshot,
        pj_amountMinor = ca_netBaseMinor am, pj_debitSystemPurpose = pm_clearingAccountSystemPurpose method,
        pj_postedByUserId = rp_cashierUserId input, pj_occurredAt = pay_createdAt payment\<rparr>) (\<lambda>_.
     let remainingAfter = ot_remainingBalanceMinor (ca_totals am) - ca_netBaseMinor am in
     tx_bind (if remainingAfter = 0
              then tx_bind (postOrderCogs env tid (rp_orderId input)) (\<lambda>_.
                   setOrderPaymentStatus env tid (rp_orderId input) op_paid)
              else tx_return ()) (\<lambda>_.
     tx_return \<lparr>rc_payment = payment, rc_orderTotalMinor = ot_totalMinor (ca_totals am),
                rc_remainingBalanceMinor = remainingAfter, rc_changeGivenMinor = ca_changeMinor am\<rparr>)))))))"

definition collectFresh ::
  "pos_env \<Rightarrow> string \<Rightarrow> record_payment_input \<Rightarrow> string option \<Rightarrow> (pos_db, recorded_payment) tx" where
  "collectFresh env tid input key =
     tx_bind (collectGateway env tid input) (\<lambda>(snapshot, method, shift).
     tx_bind (tx_lift (collectAmounts input snapshot method)) (\<lambda>am.
     collectWrites env tid input key snapshot method shift am))"

definition collectBody ::
  "pos_env \<Rightarrow> string \<Rightarrow> record_payment_input \<Rightarrow> string option \<Rightarrow> (pos_db, recorded_payment) tx" where
  "collectBody env tid input key =
     tx_bind (tx_read (lockOrder tid (rp_orderId input))) (\<lambda>locked.
     tx_bind (tx_some locked NotFoundError) (\<lambda>_.
     tx_bind (tx_read (\<lambda>db. case key of None \<Rightarrow> None | Some k \<Rightarrow> loadPaymentByIdempotencyKey tid k db)) (\<lambda>existing.
     case existing of
       Some p \<Rightarrow> buildReplay tid p input
     | None \<Rightarrow> collectFresh env tid input key)))"

definition replayAfterConflict ::
  "pos_env \<Rightarrow> string \<Rightarrow> string \<Rightarrow> record_payment_input \<Rightarrow> app_error \<Rightarrow> (pos_db, recorded_payment) op" where
  "replayAfterConflict env tid key input e =
     (if \<not> isUniqueViolation e then op_lift (Inl e)
      else op_bind (store_run env tid
             (tx_bind (tx_read (loadPaymentByIdempotencyKey tid key)) (\<lambda>existing.
              case existing of
                None \<Rightarrow> tx_return None
              | Some p \<Rightarrow> tx_bind (buildReplay tid p input) (\<lambda>r. tx_return (Some r))))) (\<lambda>replay.
           case replay of None \<Rightarrow> op_lift (Inl e) | Some r \<Rightarrow> op_return r))"

definition branch_check :: "string \<Rightarrow> string \<Rightarrow> string \<Rightarrow> string option \<Rightarrow> string \<Rightarrow> auth_check" where
  "branch_check tid userId key tokenSecV branchId =
     \<lparr>ck_tenantId = tid, ck_userId = userId, ck_permissionKey = key, ck_tokenSecV = tokenSecV,
      ck_branchId = Some branchId, ck_isSensitive = True\<rparr>"

definition recordPayment :: "pos_env \<Rightarrow> string \<Rightarrow> record_payment_input \<Rightarrow> (pos_db, recorded_payment) op" where
  "recordPayment env tid input =
     op_bind (orderBranch env tid (rp_orderId input)) (\<lambda>branchId.
     op_bind (op_lift (env_authorize env
       (branch_check tid (rp_cashierUserId input) ''payments:collect'' (rp_tokenSecV input) branchId))) (\<lambda>_.
     op_bind (op_lift (normalizeIdempotencyKey (rp_idempotencyKey input))) (\<lambda>key.
     let collected = store_run env tid (collectBody env tid input key) in
     case key of
       None \<Rightarrow> collected
     | Some k \<Rightarrow> op_catch collected (replayAfterConflict env tid k input))))"

section \<open>Voiding and refunding\<close>

definition nextOrderPaymentStatus :: "order_totals_computation \<Rightarrow> order_financial_snapshot \<Rightarrow> order_payment_status" where
  "nextOrderPaymentStatus totals snapshot =
     (if ot_remainingBalanceMinor totals \<le> 0 then op_paid
      else if sn_paymentStatuses snapshot \<noteq> [] \<and> (\<forall>st\<in>set (sn_paymentStatuses snapshot). st = refunded)
      then op_refunded else op_open)"

definition refundMovement ::
  "pos_env \<Rightarrow> string \<Rightarrow> string \<Rightarrow> string \<Rightarrow> string \<Rightarrow> string list \<Rightarrow> (string \<times> string) list \<Rightarrow>
   sale_deduction_aggregate \<Rightarrow> (pos_db, unit) tx" where
  "refundMovement env tid branchId orderId actorUserId fired recorded deduction =
     (if (sd_orderItemId deduction, sd_inventoryItemId deduction) \<in> set recorded then tx_return ()
      else
        let restores = (sd_orderItemId deduction \<notin> set fired) in
        tx_bind (tx_lift (if restores
                 then andThen (decimalTextToMinor (sd_totalDeducted deduction) 4 ''totalDeducted'') (\<lambda>m.
                        minorToDecimalText (- m) 4)
                 else minorToDecimalText 0 4)) (\<lambda>quantityDelta.
        tx_bind (insertStockMovement env tid \<lparr>im_branchId = branchId,
           im_inventoryItemId = sd_inventoryItemId deduction,
           im_movementType = (if restores then void_restoration else waste_refund),
           im_quantityDelta = quantityDelta, im_orderId = Some orderId,
           im_orderItemId = Some (sd_orderItemId deduction), im_actorUserId = actorUserId,
           im_managerOverrideId = None, im_adjustmentReasonId = None, im_occurredAt = env_now env\<rparr>) (\<lambda>movement.
        postInventoryRestoration env (sm_id movement))))"

definition writeRefundStockMovements :: "pos_env \<Rightarrow> string \<Rightarrow> string \<Rightarrow> string \<Rightarrow> string \<Rightarrow> (pos_db, unit) tx" where
  "writeRefundStockMovements env tid branchId orderId actorUserId =
     tx_bind (tx_read (loadNonVoidedOrderItemIds tid orderId)) (\<lambda>itemIds.
     if itemIds = [] then tx_return ()
     else
     tx_bind (tx_readR (loadSaleDeductionsForOrderItems tid itemIds)) (\<lambda>deductions.
     if deductions = [] then tx_return ()
     else
     tx_bind (tx_read (loadItemsWithKitchenTicketFired tid itemIds)) (\<lambda>fired.
     tx_bind (tx_read (loadWasteRefundKeys tid orderId)) (\<lambda>recorded.
     tx_for (refundMovement env tid branchId orderId actorUserId fired recorded) deductions))))"

text \<open>The transaction in two steps: the checks under the lock, and the effects.\<close>

definition lifecycleGateway ::
  "pos_env \<Rightarrow> string \<Rightarrow> string \<Rightarrow> payment_record \<Rightarrow> payment_status \<Rightarrow> (pos_db, order_financial_snapshot) tx" where
  "lifecycleGateway env tid actorUserId existing to =
     (let paymentId = pay_id existing; orderId = pay_orderId existing in
     tx_bind (tx_read (lockOrder tid orderId)) (\<lambda>locked.
     tx_bind (tx_some locked NotFoundError) (\<lambda>_.
     tx_bind (bumpOrderRevision env tid orderId) (\<lambda>_.
     tx_bind (tx_read (loadPayment tid paymentId)) (\<lambda>found.
     tx_bind (tx_some found NotFoundError) (\<lambda>fresh.
     tx_bind (tx_guard (pay_status fresh = completed)
        (PaymentStatusTransitionError (payment_status_text (pay_status fresh)) (payment_status_text to))) (\<lambda>_.
     tx_bind (loadSnapshot tid orderId) (\<lambda>pre.
     tx_bind (tx_read (findOpenShiftForCashier tid actorUserId (sn_branchId pre))) (\<lambda>foundShift.
     tx_bind (tx_some foundShift (CashierShiftRequiredError actorUserId (sn_branchId pre))) (\<lambda>reversalShift.
     tx_bind (tx_read (lockShift tid (sh_id reversalShift))) (\<lambda>lockedShift.
     tx_bind (tx_some (case lockedShift of Some s \<Rightarrow> if sh_status s = shift_open then Some s else None | None \<Rightarrow> None)
                (CashierShiftRequiredError actorUserId (sn_branchId pre))) (\<lambda>shift.
     tx_bind (bumpShiftRevision env tid (sh_id shift)) (\<lambda>_.
     tx_return pre)))))))))))))"

definition lifecycleEffects ::
  "pos_env \<Rightarrow> string \<Rightarrow> string \<Rightarrow> payment_record \<Rightarrow> payment_status \<Rightarrow> string option \<Rightarrow>
   order_financial_snapshot \<Rightarrow> (pos_db, payment_record) tx" where
  "lifecycleEffects env tid actorUserId existing to voidReason pre =
     (let paymentId = pay_id existing; orderId = pay_orderId existing in
     tx_bind (if to = voided
              then voidPaymentRow env tid paymentId actorUserId (env_now env)
                     (case voidReason of None \<Rightarrow> [] | Some r \<Rightarrow> r)
              else refundPaymentRow env tid paymentId) (\<lambda>updated.
     tx_bind (postPaymentJournalReversalEntry env tid paymentId actorUserId (env_now env)) (\<lambda>_.
     tx_bind (appendAuditEvidence env \<lparr>au_tenantId = tid, au_userId = actorUserId,
                au_action = (if to = voided then ''payments.void'' else ''payments.refund''),
                au_resource = ''payments/'' @ paymentId,
                au_before = payment_status_text (pay_status existing),
                au_after = payment_status_text to\<rparr>) (\<lambda>_.
     tx_bind (loadSnapshot tid orderId) (\<lambda>snapshot.
     tx_bind (tx_lift (computeOrderTotals snapshot)) (\<lambda>totals.
     tx_bind (tx_read (\<lambda>db. \<not> hasActiveOrderItems tid orderId db)) (\<lambda>orderVoided.
     tx_bind (setOrderPaymentStatus env tid orderId
                (if orderVoided then op_voided else nextOrderPaymentStatus totals snapshot)) (\<lambda>_.
     tx_bind (if to = refunded
              then writeRefundStockMovements env tid (sn_branchId pre) orderId actorUserId
              else tx_return ()) (\<lambda>_.
     tx_return updated)))))))))"

definition lifecycleBody ::
  "pos_env \<Rightarrow> string \<Rightarrow> string \<Rightarrow> payment_record \<Rightarrow> payment_status \<Rightarrow> string option \<Rightarrow> (pos_db, payment_record) tx" where
  "lifecycleBody env tid actorUserId existing to voidReason =
     tx_bind (lifecycleGateway env tid actorUserId existing to) (\<lambda>pre.
     lifecycleEffects env tid actorUserId existing to voidReason pre)"

definition lifecycleChange ::
  "pos_env \<Rightarrow> string \<Rightarrow> string \<Rightarrow> string \<Rightarrow> payment_status \<Rightarrow> string option \<Rightarrow> (pos_db, payment_record) op" where
  "lifecycleChange env tid actorUserId paymentId to voidReason =
     op_bind (store_run env tid (tx_read (loadPayment tid paymentId))) (\<lambda>found.
     op_bind (op_lift (case found of None \<Rightarrow> Inl NotFoundError
        | Some p \<Rightarrow> if pay_status p \<noteq> completed
                    then Inl (PaymentStatusTransitionError (payment_status_text (pay_status p)) (payment_status_text to))
                    else Inr p)) (\<lambda>existing.
     store_run env tid (lifecycleBody env tid actorUserId existing to voidReason)))"

definition paymentBranch :: "pos_env \<Rightarrow> string \<Rightarrow> string \<Rightarrow> (pos_db, string) op" where
  "paymentBranch env tid paymentId =
     store_run env tid
       (tx_bind (tx_read (loadPayment tid paymentId)) (\<lambda>found.
        tx_bind (tx_some found NotFoundError) (\<lambda>payment.
        tx_bind (loadSnapshot tid (pay_orderId payment)) (\<lambda>snapshot. tx_return (sn_branchId snapshot)))))"

definition voidPayment :: "pos_env \<Rightarrow> string \<Rightarrow> payment_actor \<Rightarrow> string \<Rightarrow> string \<Rightarrow> (pos_db, payment_record) op" where
  "voidPayment env tid actor paymentId voidReason =
     op_bind (paymentBranch env tid paymentId) (\<lambda>branchId.
     op_bind (op_lift (env_authorize env
       (branch_check tid (pa_userId actor) ''payments:void'' (Some (pa_tokenSecV actor)) branchId))) (\<lambda>_.
     lifecycleChange env tid (pa_userId actor) paymentId voided (Some voidReason)))"

definition refundPayment :: "pos_env \<Rightarrow> string \<Rightarrow> payment_actor \<Rightarrow> string \<Rightarrow> (pos_db, payment_record) op" where
  "refundPayment env tid actor paymentId =
     op_bind (paymentBranch env tid paymentId) (\<lambda>branchId.
     op_bind (op_lift (env_authorize env
       (branch_check tid (pa_userId actor) ''payments:refund'' (Some (pa_tokenSecV actor)) branchId))) (\<lambda>_.
     lifecycleChange env tid (pa_userId actor) paymentId refunded None))"

end
