(* ===== verification/Payments_Relations.thy ===== *)
theory Payments_Relations
  imports Payments_Engine
begin

text \<open>
  Relations between the database before and after an operation of the payments engine. The locales
  \<open>collection_relation\<close> and \<open>payments_relation\<close> carry a relation that every write of the payments scope
  maintains (all but the stock movements, for the first) through the operations of the engine; they are interpreted on the tables the engine leaves alone
  (\<open>pricing\<close>, \<open>orders\<close>) and on the journal (\<open>journal\<close>). The last section says how the financial
  snapshot of an order depends on its payments.
\<close>

section \<open>Relations the writes of the engine maintain\<close>

text \<open>
  A relation between database states that every write of the payments scope maintains is maintained
  by every operation of the engine, whatever its outcome.
\<close>

locale collection_relation = tx_relation R for R :: "pos_db \<Rightarrow> pos_db \<Rightarrow> bool" +
  assumes writes:
    "tx_ensures R (bumpOrderRevision env tid oid)" "tx_ensures R (bumpShiftRevision env tid sid)"
    "tx_ensures R (insertPayment env tid ip)" "tx_ensures R (postPaymentJournalEntry env tid pj)"
    "tx_ensures R (postOrderCogs env tid oid)"
    "tx_ensures R (postPaymentJournalReversalEntry env tid pid u at)"
    "tx_ensures R (update_payment env tid pid f msg)"
    "tx_ensures R (setOrderPaymentStatus env tid oid st)" "tx_ensures R (appendAuditEvidence env row)"
begin

lemma load_snapshot: "tx_ensures R (loadSnapshot tid oid)"
  by (simp add: loadSnapshot_def body_rules)

lemma replay: "tx_ensures R (buildReplay tid p input)"
  by (simp add: buildReplay_def body_rules load_snapshot)

lemma gateway: "tx_ensures R (collectGateway env tid input)"
  by (simp add: collectGateway_def body_rules load_snapshot writes)

lemma collect_writes: "tx_ensures R (collectWrites env tid input key snapshot method shift am)"
  by (simp add: collectWrites_def Let_def body_rules writes)

lemma fresh: "tx_ensures R (collectFresh env tid input key)"
  by (auto simp: collectFresh_def gateway collect_writes bodies split: prod.splits intro!: bind_rule)

lemma collect: "tx_ensures R (collectBody env tid input key)"
  by (auto simp: collectBody_def bodies replay fresh split: option.splits intro!: bind_rule)

lemma store_rule: "tx_ensures R m \<Longrightarrow> op_ensures R (store_run env tid m)"
  unfolding store_run_def by (intro run_rule bind_rule bodies)

lemma record_op: "op_ensures R (recordPayment env tid input)"
  unfolding recordPayment_def orderBranch_def replayAfterConflict_def Let_def
  by (auto intro!: op_bnd op_cch op_values store_rule bind_rule bodies load_snapshot collect replay
      split: option.splits)

text \<open>A change of status maintains the relation if its stock movements do; a void of a payment moves no stock.\<close>

lemma lifecycle_body:
  "(\<And>b. to = refunded \<Longrightarrow> tx_ensures R (writeRefundStockMovements env tid b (pay_orderId p) u)) \<Longrightarrow> tx_ensures R (lifecycleBody env tid u p to why)"
  by (simp add: lifecycleBody_def lifecycleGateway_def lifecycleEffects_def Let_def voidPaymentRow_def refundPaymentRow_def body_rules
      load_snapshot writes)

lemma change_op:
  "(\<And>b oid. to = refunded \<Longrightarrow> tx_ensures R (writeRefundStockMovements env tid b oid u)) \<Longrightarrow> op_ensures R (lifecycleChange env tid u pid to why)"
  unfolding lifecycleChange_def by (auto intro!: op_bnd op_values store_rule bodies lifecycle_body)

lemma void_op: "op_ensures R (voidPayment env tid actor pid why)"
  unfolding voidPayment_def paymentBranch_def
  by (auto intro!: op_bnd op_values store_rule bind_rule bodies load_snapshot change_op)

end

locale payments_relation = collection_relation R for R :: "pos_db \<Rightarrow> pos_db \<Rightarrow> bool" +
  assumes stock_writes: "tx_ensures R (insertStockMovement env tid im)" "tx_ensures R (postInventoryRestoration env mid)"
begin

lemma refund_movement: "tx_ensures R (refundMovement env tid b oid u fired recorded d)"
  by (simp add: refundMovement_def Let_def body_rules stock_writes)

lemma refund_stock: "tx_ensures R (writeRefundStockMovements env tid b oid u)"
  by (simp add: writeRefundStockMovements_def body_rules refund_movement)

lemma lifecycle: "tx_ensures R (lifecycleBody env tid u p to why)"
  by (rule lifecycle_body) (rule refund_stock)

lemma refund_op: "op_ensures R (refundPayment env tid actor pid)"
  unfolding refundPayment_def paymentBranch_def
  by (auto intro!: op_bnd op_values store_rule bind_rule bodies load_snapshot change_op refund_stock)

end

section \<open>What the operations leave alone\<close>

text \<open>The tables that price an order and gate a payment are not written by the payments engine.\<close>

definition pricing_frame :: "pos_db \<Rightarrow> pos_db \<Rightarrow> bool" where
  "pricing_frame db db' \<longleftrightarrow> db_items db' = db_items db \<and> db_taxRows db' = db_taxRows db \<and>
     db_discounts db' = db_discounts db \<and> db_branches db' = db_branches db \<and>
     db_methods db' = db_methods db \<and> db_shifts db' = db_shifts db \<and> db_accounts db' = db_accounts db"

definition order_key :: "order_row \<Rightarrow> string \<times> string \<times> string" where
  "order_key x = (o_id x, o_tenantId x, o_branchId x)"

definition orders_frame :: "pos_db \<Rightarrow> pos_db \<Rightarrow> bool" where
  "orders_frame db db' \<longleftrightarrow> map order_key (db_orders db') = map order_key (db_orders db)"

text \<open>Every journal entry has equal debits and credits.\<close>

definition entry_balanced :: "journal_entry \<Rightarrow> bool" where
  "entry_balanced e \<longleftrightarrow> (\<Sum>l\<leftarrow>je_lines e. jl_debitMinor l) = (\<Sum>l\<leftarrow>je_lines e. jl_creditMinor l)"

definition journal_balanced :: "pos_db \<Rightarrow> bool" where
  "journal_balanced db \<longleftrightarrow> list_all entry_balanced (db_journal db)"

definition journal_grows :: "pos_db \<Rightarrow> pos_db \<Rightarrow> bool" where
  "journal_grows db db' \<longleftrightarrow> (\<exists>new. db_journal db' = db_journal db @ new) \<and>
     (journal_balanced db \<longrightarrow> journal_balanced db')"

lemma update_where_keys:
  "(\<And>x. key (f x) = key x) \<Longrightarrow> map key (update_where p f xs) = map key xs"
  by (induction xs) (auto simp: update_where_def)

lemma find_row_Some: "find_row p xs = Some x \<Longrightarrow> x \<in> set xs \<and> p x"
  by (auto simp: find_row_def find_Some_iff)

lemma find_row_None: "find_row p xs = None \<longleftrightarrow> (\<forall>x\<in>set xs. \<not> p x)"
  by (auto simp: find_row_def find_None_iff)

lemma find_row_single: "find_row q [x] = (if q x then Some x else None)"
  by (simp add: find_row_def)

lemma insert_entry_cases:
  "insert_entry env entry db = Inr (u, db') \<longleftrightarrow>
     (case entry of None \<Rightarrow> db' = db
      | Some e \<Rightarrow> env_reject env db (WJournal e) = None \<and> db' = db\<lparr>db_journal := db_journal db @ [e]\<rparr>)"
  by (auto simp: insert_entry_def tx_simps split: option.splits)

text \<open>The writes, one by one.\<close>

lemma pricing_writes:
  "tx_ensures pricing_frame (bumpOrderRevision env tid oid)"
  "tx_ensures pricing_frame (bumpShiftRevision env tid sid)"
  "tx_ensures pricing_frame (insertPayment env tid ip)"
  "tx_ensures pricing_frame (postPaymentJournalEntry env tid pj)"
  "tx_ensures pricing_frame (postOrderCogs env tid oid)"
  "tx_ensures pricing_frame (postPaymentJournalReversalEntry env tid pid u at)"
  "tx_ensures pricing_frame (update_payment env tid pid f msg)"
  "tx_ensures pricing_frame (setOrderPaymentStatus env tid oid st)"
  "tx_ensures pricing_frame (appendAuditEvidence env row)"
  "tx_ensures pricing_frame (insertStockMovement env tid im)"
  "tx_ensures pricing_frame (postInventoryRestoration env mid)"
  by (auto simp: tx_ensures_def tx_simps pricing_frame_def Let_def insert_entry_cases
      bumpOrderRevision_def bumpShiftRevision_def insertPayment_def postPaymentJournalEntry_def
      postOrderCogs_def postPaymentJournalReversalEntry_def update_payment_def
      setOrderPaymentStatus_def appendAuditEvidence_def insertStockMovement_def
      postInventoryRestoration_def split: option.splits)

lemma orders_writes:
  "tx_ensures orders_frame (bumpOrderRevision env tid oid)"
  "tx_ensures orders_frame (bumpShiftRevision env tid sid)"
  "tx_ensures orders_frame (insertPayment env tid ip)"
  "tx_ensures orders_frame (postPaymentJournalEntry env tid pj)"
  "tx_ensures orders_frame (postOrderCogs env tid oid)"
  "tx_ensures orders_frame (postPaymentJournalReversalEntry env tid pid u at)"
  "tx_ensures orders_frame (update_payment env tid pid f msg)"
  "tx_ensures orders_frame (setOrderPaymentStatus env tid oid st)"
  "tx_ensures orders_frame (appendAuditEvidence env row)"
  "tx_ensures orders_frame (insertStockMovement env tid im)"
  "tx_ensures orders_frame (postInventoryRestoration env mid)"
  by (auto simp: tx_ensures_def tx_simps orders_frame_def Let_def insert_entry_cases order_key_def
      bumpOrderRevision_def bumpShiftRevision_def insertPayment_def postPaymentJournalEntry_def
      postOrderCogs_def postPaymentJournalReversalEntry_def update_payment_def
      setOrderPaymentStatus_def appendAuditEvidence_def insertStockMovement_def
      postInventoryRestoration_def intro!: update_where_keys split: option.splits)

lemma payment_entry_balanced: "payment_entry env tid pj db = Some e \<Longrightarrow> entry_balanced e"
  by (auto simp: payment_entry_def entry_balanced_def split: list.splits if_splits)

lemma sum_swap_lines:
  "(\<Sum>l\<leftarrow>map swap_line ls. jl_debitMinor l) = (\<Sum>l\<leftarrow>ls. jl_creditMinor l)"
  "(\<Sum>l\<leftarrow>map swap_line ls. jl_creditMinor l) = (\<Sum>l\<leftarrow>ls. jl_debitMinor l)"
  by (induction ls) (auto simp: swap_line_def)

lemma reversal_entry_balanced:
  assumes "journal_balanced db" "reversal_entry env tid pid u at db = Some e"
  shows "entry_balanced e"
proof -
  from assms(2) obtain original where "find_entry db tid src_payment pid = Some original"
    and e: "je_lines e = map swap_line (je_lines original)"
    by (auto simp: reversal_entry_def split: option.splits if_splits)
  then have "original \<in> set (db_journal db)" by (auto simp: find_entry_def dest: find_row_Some)
  with assms(1) have "entry_balanced original" by (simp add: journal_balanced_def list_all_iff)
  then show ?thesis unfolding entry_balanced_def e sum_swap_lines by simp
qed

lemma journal_writes:
  "tx_ensures journal_grows (bumpOrderRevision env tid oid)"
  "tx_ensures journal_grows (bumpShiftRevision env tid sid)"
  "tx_ensures journal_grows (insertPayment env tid ip)"
  "tx_ensures journal_grows (postPaymentJournalEntry env tid pj)"
  "tx_ensures journal_grows (postOrderCogs env tid oid)"
  "tx_ensures journal_grows (postPaymentJournalReversalEntry env tid pid u at)"
  "tx_ensures journal_grows (update_payment env tid pid f msg)"
  "tx_ensures journal_grows (setOrderPaymentStatus env tid oid st)"
  "tx_ensures journal_grows (appendAuditEvidence env row)"
  "tx_ensures journal_grows (insertStockMovement env tid im)"
  "tx_ensures journal_grows (postInventoryRestoration env mid)"
  using payment_entry_balanced reversal_entry_balanced
  by (auto simp: tx_ensures_def tx_simps journal_grows_def Let_def insert_entry_cases journal_balanced_def
      bumpOrderRevision_def bumpShiftRevision_def insertPayment_def postPaymentJournalEntry_def
      postOrderCogs_def postPaymentJournalReversalEntry_def update_payment_def
      setOrderPaymentStatus_def appendAuditEvidence_def insertStockMovement_def
      postInventoryRestoration_def split: option.splits)

interpretation pricing: payments_relation pricing_frame
  by unfold_locales (auto simp: pricing_frame_def intro: pricing_writes)

interpretation orders: payments_relation orders_frame
  by unfold_locales (auto simp: orders_frame_def intro: orders_writes)

interpretation journal: payments_relation journal_grows
  by unfold_locales (auto simp: journal_grows_def intro: journal_writes)

section \<open>Snapshots before and after\<close>

lemma find_row_update:
  "(\<And>x. q (f x) = q x) \<Longrightarrow>
   find_row q (update_where p f xs) = map_option (\<lambda>x. if p x then f x else x) (find_row q xs)"
  by (induction xs) (auto simp: find_row_def update_where_def)

lemma find_row_append:
  "find_row p (xs @ ys) = (case find_row p xs of None \<Rightarrow> find_row p ys | Some x \<Rightarrow> Some x)"
  by (induction xs) (auto simp: find_row_def)

definition order_status :: "pos_db \<Rightarrow> string \<Rightarrow> string \<Rightarrow> order_payment_status option" where
  "order_status db tid oid =
     map_option o_paymentStatus (find_row (\<lambda>x. o_tenantId x = tid \<and> o_id x = oid) (db_orders db))"

lemma order_header_keys:
  assumes "map order_key (db_orders db') = map order_key (db_orders db)" "db_branches db' = db_branches db"
    and "order_header db tid oid = Some (ord, br)"
  shows "\<exists>ord'. order_header db' tid oid = Some (ord', br) \<and> o_branchId ord' = o_branchId ord \<and>
    order_status db' tid oid = Some (o_paymentStatus ord')"
proof -
  have "\<exists>b. find_row (\<lambda>x. o_tenantId x = tid \<and> o_id x = oid) ys = Some b \<and> order_key b = order_key a"
    if "map order_key ys = map order_key xs" "find_row (\<lambda>x. o_tenantId x = tid \<and> o_id x = oid) xs = Some a"
    for xs ys a
    using that
  proof (induction xs arbitrary: ys)
    case (Cons x xs)
    then obtain y ys' where "ys = y # ys'" "order_key y = order_key x" "map order_key ys' = map order_key xs"
      by (cases ys) auto
    with Cons show ?case by (auto simp: find_row_def order_key_def split: if_splits)
  qed (simp add: find_row_def)
  with assms show ?thesis
    by (fastforce simp: order_header_def order_status_def order_key_def split: option.splits)
qed

lemma foldR_additive:
  fixes a :: int
  assumes "\<And>a x. f a x = mapResult (g x) (\<lambda>m. a + m)"
  shows "foldR f a xs = mapResult (foldR f 0 xs) (\<lambda>t. a + t)"
proof (induction xs arbitrary: a)
  case (Cons x xs)
  show ?case
  proof (cases "g x")
    case (Inr m)
    have step: "f a x = Inr (a + m)" for a using assms [of a x] Inr by (simp add: ok_def)
    show ?thesis using Cons [of "a + m"] Cons [of m] by (cases "foldR f 0 xs") (simp_all add: step ok_def)
  qed (simp add: assms)
qed (simp add: ok_def)

lemma completed_sum_append:
  "completed_sum d (xs @ ys) = andThen (completed_sum d xs) (\<lambda>a. mapResult (completed_sum d ys) (\<lambda>b. a + b))"
proof -
  let ?f = "\<lambda>c p. if pay_status p = completed
      then mapResult (decimalTextToMinor (pay_amountInBaseCurrency p) d ''amountInBaseCurrency'') (\<lambda>m. c + m)
      else Inr c"
  have "(\<lambda>a. foldR ?f a ys) = (\<lambda>a. mapResult (foldR ?f 0 ys) (\<lambda>t. a + t))"
    by (rule ext, rule foldR_additive [where g = "\<lambda>p. if pay_status p = completed
        then decimalTextToMinor (pay_amountInBaseCurrency p) d ''amountInBaseCurrency'' else Inr 0"])
       (simp add: ok_def)
  then show ?thesis unfolding completed_sum_def foldR_append by (simp only:)
qed

lemma load_snapshot_after:
  assumes frame: "pricing_frame db db'"
    and hdr: "order_header db tid oid = Some (ord, br)" "order_header db' tid oid = Some (ord', br)"
      "o_branchId ord' = o_branchId ord"
    and load: "loadOrderFinancialSnapshot tid oid db = Inr (Some snap)"
    and digits: "andThen (currencyCode (sn_baseCurrencyCode snap)) storageMinorUnitDigits = Inr d"
    and pays: "order_payments db' tid oid = order_payments db tid oid @ ps"
    and sum: "completed_sum d ps = Inr extra"
  shows "loadOrderFinancialSnapshot tid oid db' = Inr (Some (snap\<lparr>sn_paymentStatus := o_paymentStatus ord',
    sn_completedPaymentsMinor := sn_completedPaymentsMinor snap + extra,
    sn_paymentStatuses := sn_paymentStatuses snap @ map pay_status ps\<rparr>))"
proof -
  have same: "active_items db' tid oid = active_items db tid oid" "plan_rows db' tid oid = plan_rows db tid oid"
    "db_discounts db' = db_discounts db"
    using frame by (simp_all add: active_items_def plan_rows_def pricing_frame_def)
  show ?thesis
    using load hdr digits sum
    by (auto simp: loadOrderFinancialSnapshot_def Let_def result_simps same pays completed_sum_append ok_def)
qed

text \<open>The totals of a snapshot depend on the payments only through what has been collected.\<close>

lemma computeOrderTotals_payments:
  assumes "computeOrderTotals snap = Inr t"
  shows "computeOrderTotals (snap\<lparr>sn_paymentStatus := st, sn_completedPaymentsMinor := c, sn_paymentStatuses := ps\<rparr>) =
    Inr (t\<lparr>ot_remainingBalanceMinor := ot_totalMinor t - c\<rparr>)"
proof -
  have "discountPlans (snap\<lparr>sn_paymentStatus := st, sn_completedPaymentsMinor := c, sn_paymentStatuses := ps\<rparr>) d =
      discountPlans snap d" for d by (simp add: discountPlans_def)
  with assms show ?thesis unfolding computeOrderTotals_def Let_def andThen_Inr_iff
    by (auto cong: if_cong option.case_cong split del: if_split)
qed

end
