(* ===== verification/Example_Restaurant.thy ===== *)
theory Example_Restaurant
  imports Payments_Engine
begin

text \<open>
  One small restaurant on which the theorems of the payments, shift and discount engines are
  evaluated: a branch trading in riyal, one order of two items at 10.00 and 5.00 riyal of which the
  kitchen has started the second, a cashier with an open shift, a manager, a cash method and an
  account for each side of a payment. Its environment accepts every check and every write.
\<close>

definition example_env :: pos_env where
  "example_env = \<lparr>env_now = 1000,
     env_uuid = (\<lambda>db. CHR ''u'' # replicate (length (db_payments db) + length (db_journal db) + length (db_stock db) +
        length (db_shifts db) + length (db_cashCounts db) + length (db_discounts db) + length (db_attempts db) + length (db_outbox db)) (CHR ''1'')),
     env_tenantGate = (\<lambda>t. Inr ()), env_authorize = (\<lambda>c. Inr ()), env_reject = (\<lambda>db w. None),
     env_coveredKeys = (\<lambda>t u b ks. Inr (if u = ''m1'' then ks else if ''order:void'' \<in> set ks then [''order:void''] else [])),
     env_localDate = (\<lambda>t z. Some (''2024'', ''03'', ''01'')), env_verifyPin = (\<lambda>t u pin stored. pin = stored)\<rparr>"

definition example_shift :: shift_record where
  "example_shift = \<lparr>sh_id = ''s1'', sh_tenantId = ''t1'', sh_branchId = ''b1'', sh_cashierId = ''c1'',
     sh_openedById = ''c1'', sh_openVerifiedById = ''m1'', sh_openedAt = 100, sh_startingFloat = ''50.0000'',
     sh_status = shift_open, sh_closedById = None, sh_closeVerifiedById = None, sh_closedAt = None,
     sh_countedCash = None, sh_recordedCashSales = None, sh_variance = None, sh_varianceType = None,
     sh_notes = None, sh_createdAt = 100\<rparr>"

definition example_order :: "order_payment_status \<Rightarrow> int \<Rightarrow> order_row" where
  "example_order st revision = \<lparr>o_id = ''o1'', o_tenantId = ''t1'', o_branchId = ''b1'', o_orderType = dine_in,
     o_salesChannelCode = ''dine_in'', o_deliveryPlatformId = None, o_tableId = None, o_currentStatusKindId = ''w1'',
     o_paymentStatus = st, o_splitPeopleCount = None, o_placedAt = 200, o_closedAt = None, o_revision = revision\<rparr>"

definition example_item :: "string \<Rightarrow> int \<Rightarrow> order_item_row" where
  "example_item i price = \<lparr>it_id = i, it_tenantId = ''t1'', it_orderId = ''o1'', it_menuItemId = ''food'',
     it_itemNameSnapshot = [(''en'', ''Food'')], it_unitPriceMinor = price, it_quantity = 1, it_modifiersSnapshot = [],
     it_currentStatusKindId = (if i = ''i2'' then ''w2'' else ''w1''), it_stationId = ''st1'', it_isVoided = False,
     it_voidedAt = None, it_splitGroupId = None, it_createdAt = 200\<rparr>"

definition example_state :: "string \<Rightarrow> string \<Rightarrow> string option \<Rightarrow> int \<Rightarrow> tenant_workflow_state" where
  "example_state i kind parent pos = \<lparr>ws_id = i, ws_tenantId = ''t1'', ws_workflowId = ''wf'', ws_kindCode = kind,
     ws_parentKindCode = parent, ws_position = pos, ws_label = [], ws_isEnabled = True\<rparr>"

definition example_kind :: "string \<Rightarrow> bool \<Rightarrow> bool \<Rightarrow> order_status_kind" where
  "example_kind c fires terminal = \<lparr>sk_code = c, sk_behaviorFlags = JsObj [(''fires_kitchen_ticket'', JsBool fires),
     (''opens_payment_collection'', JsBool False), (''notifies_customer'', JsBool False), (''is_terminal'', JsBool terminal),
     (''is_financial_close'', JsBool False)]\<rparr>"

definition example_deduction :: "string \<Rightarrow> string \<Rightarrow> string \<Rightarrow> stock_movement_record" where
  "example_deduction i component delta = \<lparr>sm_id = ''d'' @ i, sm_tenantId = ''t1'', sm_branchId = ''b1'',
     sm_inventoryItemId = component, sm_movementType = sale_deduction, sm_quantityDelta = delta,
     sm_orderId = Some ''o1'', sm_orderItemId = Some i, sm_actorUserId = ''c1'', sm_managerOverrideId = None,
     sm_adjustmentReasonId = None, sm_occurredAt = 210\<rparr>"

definition example_db :: pos_db where
  "example_db = \<lparr>
     db_orders = [example_order op_open 0],
     db_branches = [\<lparr>br_id = ''b1'', br_tenantId = ''t1'', br_baseCurrency = ''SAR'', br_countryCode = Some ''SA'',
        br_timezone = ''Asia/Riyadh'', br_isActive = True\<rparr>],
     db_users = [\<lparr>us_id = ''c1'', us_tenantId = ''t1'', us_isActive = True, us_pinHash = None\<rparr>,
                 \<lparr>us_id = ''c2'', us_tenantId = ''t1'', us_isActive = True, us_pinHash = None\<rparr>,
                 \<lparr>us_id = ''m1'', us_tenantId = ''t1'', us_isActive = True, us_pinHash = Some ''4711''\<rparr>],
     db_items = [example_item ''i1'' 1000, example_item ''i2'' 500],
     db_taxRows = [], db_discounts = [], db_payments = [],
     db_methods = [\<lparr>pm_id = ''p1'', pm_tenantId = ''t1'', pm_branchId = None, pm_name = ''Cash'', pm_type = pm_cash,
        pm_currencyCode = None, pm_fixedExchangeRate = None, pm_clearingAccountSystemPurpose = ''cash_clearing'',
        pm_isActive = True\<rparr>],
     db_shifts = [example_shift], db_shiftRevisions = [], db_cashCounts = [], db_coupons = [], db_limits = [],
     db_attempts = [], db_actorLockouts = [], db_managerLockouts = [],
     db_accounts = [\<lparr>ac_id = ''a1'', ac_tenantId = ''t1'', ac_systemPurpose = ''cash_clearing'', ac_isActive = True\<rparr>,
                    \<lparr>ac_id = ''a2'', ac_tenantId = ''t1'', ac_systemPurpose = ''sales_revenue'', ac_isActive = True\<rparr>],
     db_journal = [], db_audit = [],
     db_stock = [example_deduction ''i1'' ''flour'' ''-2.0000'', example_deduction ''i2'' ''rice'' ''-1.5000''],
     db_tenants = [\<lparr>tn_id = ''t1'', tn_isActive = True, tn_vatRegistrationStatus = registered\<rparr>],
     db_workflows = [\<lparr>wf_id = ''wf'', wf_tenantId = ''t1'', wf_isActive = True\<rparr>],
     db_workflowStates = [example_state ''w1'' ''received'' None 1, example_state ''w2'' ''preparing'' None 2,
        example_state ''w3'' ''ready'' None 3],
     db_statusKinds = [example_kind ''received'' False False, example_kind ''preparing'' True False, example_kind ''ready'' False True],
     db_statusEvents = [\<lparr>se_tenantId = ''t1'', se_orderItemId = ''i2'', se_orderId = ''o1'', se_fromStatusKindId = Some ''w1'',
        se_toStatusKindId = ''w2'', se_actorUserId = Some ''c1'', se_occurredAt = 300\<rparr>],
     db_outbox = [], db_sequences = [], db_voids = [],
     db_voidConfig = \<lparr>vc_reasons = [\<lparr>vr_id = ''v1'', vr_tenantId = ''t1'', vr_kindCode = ''spoiled'',
        vr_requiredPermissionTier = manager, vr_isEnabled = True\<rparr>], vc_kindSettings = [], vc_timeLimits = [(''t1'', Some 60)]\<rparr>,
     db_menu = \<lparr>mn_items = [\<lparr>mi_id = ''food'', mi_tenantId = ''t1'', mi_name = [(''en'', ''Food'')], mi_basePriceMinor = 1000,
        mi_basePriceCurrencyCode = ''SAR'', mi_isActive = True, mi_taxRuleId = Some ''c1'', mi_additionalTaxCategoryIds = []\<rparr>],
        mn_routingRules = [\<lparr>ru_id = ''r1'', ru_tenantId = ''t1'', ru_branchId = ''b1'', ru_stationId = ''st1'', ru_menuItemId = None,
          ru_salesChannelCode = None, ru_orderType = None, ru_priorityWeight = 0, ru_isEnabled = True\<rparr>],
        mn_stations = [\<lparr>st_id = ''st1'', st_isActive = True\<rparr>],
        mn_recipes = [(''t1'', \<lparr>rq_ownerType = menu_item_owner, rq_ownerId = ''food'', rq_inventoryItemId = ''rice'',
          rq_quantityRequired = ''0.5000''\<rparr>)]\<rparr>,
     db_inventory = [\<lparr>ii_id = ''rice'', ii_tenantId = ''t1'', ii_branchId = ''b1'', ii_name = [(''en'', ''Rice'')],
        ii_baseUnit = ''kg'', ii_lowStockThreshold = None, ii_isActive = True\<rparr>],
     db_claims = [], db_sideEffects = [],
     db_tax = \<lparr>tt_jurisdictions = [\<lparr>tj_countryCode = ''SA'', tj_defaultCurrencyCode = ''SAR'', tj_roundingStrategy = per_line,
          tj_isActive = True\<rparr>],
        tt_salesChannels = [\<lparr>sc_code = ''dine_in'', sc_requiresDeliveryPlatform = False\<rparr>], tt_deliveryPlatforms = [],
        tt_liabilityRules = [\<lparr>lr_id = ''l1'', lr_countryCode = ''SA'', lr_salesChannelCode = ''dine_in'', lr_deliveryPlatformId = None,
          lr_appliesWhenTenantRegistered = True, lr_liableParty = restaurant, lr_effectiveFrom = ''2020-01-01'', lr_effectiveTo = None\<rparr>],
        tt_categories = [\<lparr>tc_id = ''c1'', tc_countryCode = ''SA'', tc_code = ''vat'', tc_kind = standard, tc_taxFamily = vat,
          tc_cascadePriority = 1, tc_isActive = True\<rparr>],
        tt_overrides = [], tt_tenantCategories = [],
        tt_rates = [\<lparr>tr_source = Some platform, tr_id = ''x1'', tr_taxCategoryId = ''c1'', tr_rateBps = 1500,
          tr_isPriceInclusiveDefault = False, tr_effectiveFrom = ''2020-01-01'', tr_effectiveTo = None, tr_supersededBy = None\<rparr>],
        tt_tenantRates = [], tt_exciseConfirmations = []\<rparr>,
     db_taxContexts = [], db_consumptionCalls = [], db_cogsCalls = [], db_restorationCalls = []\<rparr>"

text \<open>The fields of the two, for runs that keep them folded.\<close>

lemma example_env_fields:
  "env_now example_env = 1000" "env_authorize example_env c = Inr ()" "env_reject example_env db w = None" "env_tenantGate example_env t = Inr ()"
  "env_coveredKeys example_env t u b ks = Inr (if u = ''m1'' then ks else if ''order:void'' \<in> set ks then [''order:void''] else [])"
  by (simp_all add: example_env_def)

lemma example_db_fields:
  "db_orders example_db = [example_order op_open 0]"
  "db_branches example_db = [\<lparr>br_id = ''b1'', br_tenantId = ''t1'', br_baseCurrency = ''SAR'', br_countryCode = Some ''SA'',
        br_timezone = ''Asia/Riyadh'', br_isActive = True\<rparr>]"
  "db_items example_db = [example_item ''i1'' 1000, example_item ''i2'' 500]"
  "db_stock example_db = [example_deduction ''i1'' ''flour'' ''-2.0000'', example_deduction ''i2'' ''rice'' ''-1.5000'']"
  "db_workflowStates example_db = [example_state ''w1'' ''received'' None 1, example_state ''w2'' ''preparing'' None 2,
        example_state ''w3'' ''ready'' None 3]"
  "db_statusKinds example_db = [example_kind ''received'' False False, example_kind ''preparing'' True False, example_kind ''ready'' False True]"
  "db_statusEvents example_db = [\<lparr>se_tenantId = ''t1'', se_orderItemId = ''i2'', se_orderId = ''o1'', se_fromStatusKindId = Some ''w1'',
        se_toStatusKindId = ''w2'', se_actorUserId = Some ''c1'', se_occurredAt = 300\<rparr>]"
  "db_outbox example_db = []" "db_sequences example_db = []" "db_voids example_db = []"
  "db_voidConfig example_db = \<lparr>vc_reasons = [\<lparr>vr_id = ''v1'', vr_tenantId = ''t1'', vr_kindCode = ''spoiled'',
        vr_requiredPermissionTier = manager, vr_isEnabled = True\<rparr>], vc_kindSettings = [], vc_timeLimits = [(''t1'', Some 60)]\<rparr>"
  by (simp_all add: example_db_def)

lemmas example_fields = example_env_fields example_db_fields example_order_def example_state_def example_kind_def example_item_def example_deduction_def

text \<open>The cashier tenders 20 riyal for the 15 due, under an idempotency key.\<close>

definition example_payment :: record_payment_input where
  "example_payment = \<lparr>rp_orderId = ''o1'', rp_paymentMethodId = ''p1'', rp_cashierUserId = ''c1'',
     rp_amountText = ''20.00'', rp_explicitChangeMinor = None, rp_idempotencyKey = Some ''k1'',
     rp_tokenSecV = None\<rparr>"

definition example_actor :: payment_actor where
  "example_actor = \<lparr>pa_userId = ''c1'', pa_tokenSecV = ''v''\<rparr>"

text \<open>What the payment, and its refund afterwards, are in the model.\<close>

definition example_recorded :: recorded_payment where
  "example_recorded = \<lparr>rc_payment = \<lparr>pay_id = ''u111'', pay_tenantId = ''t1'', pay_orderId = ''o1'',
       pay_paymentMethodId = ''p1'', pay_amount = ''20.0000'', pay_amountInBaseCurrency = ''15.0000'',
       pay_exchangeRateSnapshot = None, pay_changeGivenAmount = Some ''5.0000'', pay_status = completed,
       pay_shiftId = ''s1'', pay_createdBy = ''c1'', pay_idempotencyKey = Some ''k1'', pay_voidedById = None,
       pay_voidedAt = None, pay_voidReason = None, pay_createdAt = 1000\<rparr>,
     rc_orderTotalMinor = 1500, rc_remainingBalanceMinor = 0, rc_changeGivenMinor = 500\<rparr>"

definition example_entry :: journal_entry where
  "example_entry = \<lparr>je_id = ''u1111'', je_tenantId = ''t1'', je_branchId = ''b1'', je_sourceType = src_payment,
     je_sourceId = ''u111'', je_currencyCode = ''SAR'', je_postedBy = ''c1'', je_postedAt = 1000,
     je_reversalOf = None, je_lines = [\<lparr>jl_accountId = ''a1'', jl_debitMinor = 1500, jl_creditMinor = 0\<rparr>,
       \<lparr>jl_accountId = ''a2'', jl_debitMinor = 0, jl_creditMinor = 1500\<rparr>]\<rparr>"

definition example_paid_db :: pos_db where
  "example_paid_db = example_db\<lparr>
     db_orders := [example_order op_paid 1],
     db_payments := [rc_payment example_recorded], db_shiftRevisions := [(''s1'', 1)],
     db_journal := [example_entry], db_cogsCalls := [(''t1'', ''o1'')]\<rparr>"

definition example_movement :: "string \<Rightarrow> string \<Rightarrow> string \<Rightarrow> stock_movement_type \<Rightarrow> string \<Rightarrow> stock_movement_record" where
  "example_movement u i component kind delta = (example_deduction i component delta)\<lparr>
     sm_id := u, sm_movementType := kind, sm_occurredAt := 1000\<rparr>"

definition example_refunded :: payment_record where
  "example_refunded = (rc_payment example_recorded)\<lparr>pay_status := refunded\<rparr>"

definition example_refunded_db :: pos_db where
  "example_refunded_db = example_paid_db\<lparr>
     db_orders := [example_order op_refunded 2],
     db_payments := [example_refunded], db_shiftRevisions := [(''s1'', 2)],
     db_journal := [example_entry, example_entry\<lparr>je_id := ''u11111'', je_sourceType := src_payment_reversal,
       je_reversalOf := Some ''u1111'', je_lines := map swap_line (je_lines example_entry)\<rparr>],
     db_audit := [\<lparr>au_tenantId = ''t1'', au_userId = ''c1'', au_action = ''payments.refund'',
       au_resource = ''payments/u111'', au_before = ''completed'', au_after = ''refunded''\<rparr>],
     db_stock := db_stock example_db @ [example_movement ''u111111'' ''i1'' ''flour'' void_restoration ''2.0000'',
       example_movement ''u1111111'' ''i2'' ''rice'' waste_refund ''0.0000''],
     db_restorationCalls := [''u111111'', ''u1111111'']\<rparr>"

section \<open>Evaluation\<close>

text \<open>The definitions that run, and the closed values of the arithmetic they call.\<close>

lemmas example_defs = example_env_def example_db_def example_order_def example_state_def example_kind_def example_item_def example_shift_def example_deduction_def example_payment_def
  example_recorded_def example_paid_db_def example_entry_def example_actor_def example_refunded_def example_refunded_db_def
  example_movement_def
lemmas store_run_defs = loadSnapshot_def orderBranch_def loadOrderFinancialSnapshot_def order_header_def find_row_def
  active_items_def plan_rows_def order_payments_def completed_sum_def loadPaymentMethod_def findOpenShiftForCashier_def
  lockOrder_def lockShift_def loadPayment_def loadPaymentByIdempotencyKey_def hasActiveOrderItems_def
  loadNonVoidedOrderItemIds_def deduction_rows_def movement_key_def group_keys_def loadSaleDeductionsForOrderItems_def
  loadWasteRefundKeys_def loadItemsWithKitchenTicketFired_def fires_ticket_def update_where_def bumpOrderRevision_def bumpShiftRevision_def
  payment_conflict_def insertPayment_def find_entry_def accounts_for_def payment_entry_def insert_entry_def
  postPaymentJournalEntry_def postOrderCogs_def swap_line_def reversal_entry_def postPaymentJournalReversalEntry_def
  update_payment_def voidPaymentRow_def refundPaymentRow_def setOrderPaymentStatus_def appendAuditEvidence_def
  insertStockMovement_def postInventoryRestoration_def compareCreated_def compareDiscounts_def compareTaxRows_def
lemmas engine_run_defs = tenderAmount_def isCashLike_def changeDue_def
  collectGateway_def collectAmounts_def collectWrites_def collectFresh_def collectBody_def branch_check_def recordPayment_def
  nextOrderPaymentStatus_def refundMovement_def writeRefundStockMovements_def lifecycleGateway_def lifecycleEffects_def
  lifecycleBody_def lifecycleChange_def paymentBranch_def refundPayment_def

definition example_order_snapshot :: "order_payment_status \<Rightarrow> int \<Rightarrow> payment_status list \<Rightarrow> order_financial_snapshot" where
  "example_order_snapshot st c ps = \<lparr>sn_orderId = ''o1'', sn_branchId = ''b1'', sn_baseCurrencyCode = ''SAR'', sn_paymentStatus = st,
     sn_roundingStrategy = None,
     sn_lines = [\<lparr>ol_orderItemId = ''i1'', ol_lineAmountMinor = 1000, ol_taxPlan = []\<rparr>,
       \<lparr>ol_orderItemId = ''i2'', ol_lineAmountMinor = 500, ol_taxPlan = []\<rparr>],
     sn_discounts = [], sn_completedPaymentsMinor = c, sn_paymentStatuses = ps\<rparr>"

definition example_totals :: order_totals_computation where
  "example_totals = \<lparr>ot_subtotalMinor = 1500, ot_discountTotalMinor = 0, ot_discountedSubtotalMinor = 1500,
     ot_taxMinor = 0, ot_totalMinor = 1500, ot_remainingBalanceMinor = 1500, ot_baseMinorDigits = 2\<rparr>"

lemma example_totals:
  "computeOrderTotals (example_order_snapshot op_open 0 []) = Inr example_totals \<and>
   computeOrderTotals (example_order_snapshot op_paid 0 [refunded]) = Inr example_totals \<and>
   currencyCode ''SAR'' = Inr ''SAR'' \<and> storageMinorUnitDigits ''SAR'' = Inr 2"
  by code_simp

lemma example_texts:
  "normalizeIdempotencyKey (Some ''k1'') = Inr (Some ''k1'') \<and>
   nonNegativeDecimalTextToMinor ''20.00'' 2 ''amount'' = Inr 2000 \<and>
   minorToDecimalText 2000 2 = Inr ''20.00'' \<and> minorToDecimalText 1500 2 = Inr ''15.00'' \<and>
   minorToDecimalText 500 2 = Inr ''5.00'' \<and> numeric4 ''20.00'' = Inr ''20.0000'' \<and>
   numeric4 ''15.00'' = Inr ''15.0000'' \<and> numeric4 ''5.00'' = Inr ''5.0000'' \<and>
   decimalTextToMinor ''15.0000'' 2 ''amountInBaseCurrency'' = Inr 1500"
  by code_simp

lemma example_quantities:
  "decimalTextToMinor ''-2.0000'' 4 f = Inr (- 20000) \<and> decimalTextToMinor ''-1.5000'' 4 f = Inr (- 15000) \<and>
   minorToDecimalText (- 20000) 4 = Inr ''-2.0000'' \<and> minorToDecimalText (- 15000) 4 = Inr ''-1.5000'' \<and>
   minorToDecimalText 20000 4 = Inr ''2.0000'' \<and> minorToDecimalText 0 4 = Inr ''0.0000'' \<and>
   numeric4 ''2.0000'' = Inr ''2.0000'' \<and> numeric4 ''0.0000'' = Inr ''0.0000''"
  by code_simp

lemmas example_run = db_run example_defs store_run_defs engine_run_defs example_texts example_quantities
  example_totals [unfolded example_order_snapshot_def example_totals_def]

lemma example_collects:
  "recordPayment example_env ''t1'' example_payment example_db = (Inr example_recorded, example_paid_db)"
  by (simp add: example_run cong: db_run_cong)

lemma example_refunds:
  "refundPayment example_env ''t1'' example_actor ''u111'' example_paid_db = (Inr example_refunded, example_refunded_db)"
  by (simp add: example_run cong: db_run_cong)

end
