(* ===== verification/Payments_Collect.thy ===== *)
theory Payments_Collect
  imports Payments_Relations Example_Restaurant
begin

text \<open>
  Collecting a payment (\<open>recordPayment\<close> of \<^verbatim>\<open>src/application/engines/payments/payments-engine.ts\<close>):
  what it does to the balance of its order, and that a request under an idempotency key is
  collected at most once.
\<close>

section \<open>Collecting a payment\<close>

lemma loadSnapshot_Inr [tx_simps]:
  "loadSnapshot tid oid db = Inr (snap, db') \<longleftrightarrow>
     loadOrderFinancialSnapshot tid oid db = Inr (Some snap) \<and> db' = db"
  by (auto simp: loadSnapshot_def tx_simps)

lemma snapshot_header:
  "loadOrderFinancialSnapshot tid oid db = Inr (Some snap) \<Longrightarrow>
   \<exists>ord br. order_header db tid oid = Some (ord, br) \<and> sn_branchId snap = o_branchId ord \<and>
     sn_baseCurrencyCode snap = br_baseCurrency br \<and> sn_paymentStatus snap = o_paymentStatus ord \<and>
     order_status db tid oid = Some (o_paymentStatus ord) \<and>
     (\<exists>d. andThen (currencyCode (sn_baseCurrencyCode snap)) storageMinorUnitDigits = Inr d)"
  by (auto simp: loadOrderFinancialSnapshot_def order_header_def order_status_def Let_def result_simps
      split: option.splits)

text \<open>A revision bump changes neither the snapshot nor the status of the order.\<close>

lemma bump_snapshot:
  assumes "bumpOrderRevision env tid oid db = Inr (u, db1)"
  shows "loadOrderFinancialSnapshot t x db1 = loadOrderFinancialSnapshot t x db"
    "order_status db1 t x = order_status db t x" "db_payments db1 = db_payments db"
    "db_journal db1 = db_journal db"
proof -
  have db1: "db1 = db\<lparr>db_orders := update_where (\<lambda>x. o_tenantId x = tid \<and> o_id x = oid)
      (\<lambda>x. x\<lparr>o_revision := o_revision x + 1\<rparr>) (db_orders db)\<rparr>"
    using assms by (auto simp: bumpOrderRevision_def tx_simps)
  have find: "find_row (\<lambda>y. o_tenantId y = t \<and> o_id y = x) (db_orders db1) =
      map_option (\<lambda>y. if o_tenantId y = tid \<and> o_id y = oid then y\<lparr>o_revision := o_revision y + 1\<rparr> else y)
        (find_row (\<lambda>y. o_tenantId y = t \<and> o_id y = x) (db_orders db))"
    unfolding db1 by (simp add: find_row_update)
  have items: "active_items db1 t x = active_items db t x" "plan_rows db1 t x = plan_rows db t x"
    "order_payments db1 t x = order_payments db t x" "db_branches db1 = db_branches db"
    "db_discounts db1 = db_discounts db"
    by (simp_all add: db1 active_items_def plan_rows_def order_payments_def)
  show "order_status db1 t x = order_status db t x"
    unfolding order_status_def find by (cases "find_row (\<lambda>y. o_tenantId y = t \<and> o_id y = x) (db_orders db)") auto
  show "loadOrderFinancialSnapshot t x db1 = loadOrderFinancialSnapshot t x db"
    unfolding loadOrderFinancialSnapshot_def items order_header_def find Let_def
    by (auto split: option.splits)
  show "db_payments db1 = db_payments db" "db_journal db1 = db_journal db" by (simp_all add: db1)
qed

lemma collectGateway_Inr:
  assumes "collectGateway env tid input db = Inr ((snap, meth, shift), db1)"
  shows "loadOrderFinancialSnapshot tid (rp_orderId input) db = Inr (Some snap)"
    "db_payments db1 = db_payments db" "db_journal db1 = db_journal db"
    "order_status db1 tid x = order_status db tid x"
    "sn_paymentStatus snap = op_open \<or> sn_paymentStatus snap = op_paid"
    "loadPaymentMethod tid (rp_paymentMethodId input) db = Some meth" "pm_isActive meth"
    "pm_branchId meth = None \<or> pm_branchId meth = Some (sn_branchId snap)"
    "\<exists>g. findOpenShiftForCashier tid (rp_cashierUserId input) (sn_branchId snap) db = Some g \<and>
       sh_id shift = sh_id g \<and> sh_status shift = shift_open \<and> shift \<in> set (db_shifts db)"
proof -
  from assms obtain db0 where bump: "bumpOrderRevision env tid (rp_orderId input) db = Inr ((), db0)"
    and load: "loadOrderFinancialSnapshot tid (rp_orderId input) db0 = Inr (Some snap)"
    and status: "sn_paymentStatus snap \<notin> {op_refunded, op_refund_pending, op_voided}"
    and meth: "(case loadPaymentMethod tid (rp_paymentMethodId input) db0 of
        Some m \<Rightarrow> if pm_isActive m then Some m else None | None \<Rightarrow> None) = Some meth"
    and branch: "pm_branchId meth = None \<or> pm_branchId meth = Some (sn_branchId snap)"
    and shift: "\<exists>g. findOpenShiftForCashier tid (rp_cashierUserId input) (sn_branchId snap) db0 = Some g \<and>
        (case lockShift tid (sh_id g) db0 of
           Some s \<Rightarrow> if sh_status s = shift_open then Some s else None | None \<Rightarrow> None) = Some shift"
    and db1: "bumpShiftRevision env tid (sh_id shift) db0 = Inr ((), db1)"
    unfolding collectGateway_def tx_simps by fastforce
  have frame: "pricing_frame db db0" using bump pricing_writes(1) by (auto simp: tx_ensures_def)
  have db1': "db_orders db1 = db_orders db0" "db_payments db1 = db_payments db0" "db_journal db1 = db_journal db0"
    using db1 by (auto simp: bumpShiftRevision_def tx_simps)
  note b = bump_snapshot [OF bump]
  show "loadOrderFinancialSnapshot tid (rp_orderId input) db = Inr (Some snap)" using load b by simp
  show "db_payments db1 = db_payments db" "db_journal db1 = db_journal db" using b db1' by simp_all
  show "order_status db1 tid x = order_status db tid x" using b(2) db1' by (simp add: order_status_def)
  show "sn_paymentStatus snap = op_open \<or> sn_paymentStatus snap = op_paid"
    using status by (cases "sn_paymentStatus snap") auto
  have same: "loadPaymentMethod t x db0 = loadPaymentMethod t x db"
    "findOpenShiftForCashier t u x db0 = findOpenShiftForCashier t u x db" "lockShift t x db0 = lockShift t x db" for t u x
    using frame by (simp_all add: pricing_frame_def loadPaymentMethod_def findOpenShiftForCashier_def lockShift_def)
  show "loadPaymentMethod tid (rp_paymentMethodId input) db = Some meth" "pm_isActive meth"
    using meth by (auto simp: same split: option.splits if_splits)
  show "pm_branchId meth = None \<or> pm_branchId meth = Some (sn_branchId snap)" by (rule branch)
  show "\<exists>g. findOpenShiftForCashier tid (rp_cashierUserId input) (sn_branchId snap) db = Some g \<and>
       sh_id shift = sh_id g \<and> sh_status shift = shift_open \<and> shift \<in> set (db_shifts db)"
  proof -
    from shift obtain g where g: "findOpenShiftForCashier tid (rp_cashierUserId input) (sn_branchId snap) db = Some g"
      and "lockShift tid (sh_id g) db = Some shift" "sh_status shift = shift_open"
      unfolding same by (auto split: option.splits if_splits)
    with find_row_Some [of _ "db_shifts db" shift] show ?thesis by (auto simp: lockShift_def)
  qed
qed

lemma collectAmounts_Inr:
  assumes "collectAmounts input snap meth = Inr am"
  shows "computeOrderTotals snap = Inr (ca_totals am)"
    "andThen (currencyCode (sn_baseCurrencyCode snap)) storageMinorUnitDigits = Inr (ca_baseDigits am)"
    "0 < ca_netBaseMinor am" "ca_netBaseMinor am \<le> ot_remainingBalanceMinor (ca_totals am)"
    "ca_netBaseMinor am + ca_changeMinor am = td_grossBaseMinor (ca_tendered am)" "0 \<le> ca_changeMinor am"
    "\<not> isCashLike meth \<Longrightarrow> ca_changeMinor am = 0"
    "\<exists>cur. currencyCode (sn_baseCurrencyCode snap) = Inr cur \<and>
       tenderAmount meth cur (ca_baseDigits am) (rp_amountText input) = Inr (ca_tendered am)"
    "rp_explicitChangeMinor input = None \<or> rp_explicitChangeMinor input = Some (ca_changeMinor am)"
  using assms
  by (auto simp: collectAmounts_def result_simps Let_def changeDue_def split: if_splits option.splits)

lemma insertPayment_Inr:
  assumes "insertPayment env tid ip db = Inr (p, db')"
  shows "db_payments db' = db_payments db @ [p]" "db_orders db' = db_orders db" "db_journal db' = db_journal db"
    "pay_id p = ip_id ip" "pay_tenantId p = tid" "pay_orderId p = ip_orderId ip" "pay_status p = completed"
    "pay_paymentMethodId p = ip_paymentMethodId ip" "pay_shiftId p = ip_shiftId ip"
    "pay_createdBy p = ip_createdBy ip" "pay_idempotencyKey p = ip_idempotencyKey ip"
    "numeric4 (ip_amount ip) = Inr (pay_amount p)"
    "numeric4 (ip_amountInBaseCurrency ip) = Inr (pay_amountInBaseCurrency p)"
    "numeric4_option (ip_changeGivenAmount ip) = Inr (pay_changeGivenAmount p)"
    "pay_exchangeRateSnapshot p = ip_exchangeRateSnapshot ip" "\<not> payment_conflict db p"
  using assms by (auto simp: insertPayment_def tx_simps Let_def)

lemma postPaymentJournalEntry_Inr:
  assumes "postPaymentJournalEntry env tid pj db = Inr (u, db')"
  shows "db_payments db' = db_payments db" "db_orders db' = db_orders db"
    "\<exists>e. find_entry db' tid src_payment (pj_paymentId pj) = Some e"
    "find_entry db tid src_payment (pj_paymentId pj) = None \<Longrightarrow>
       \<exists>e. payment_entry env tid pj db = Some e \<and> db_journal db' = db_journal db @ [e]"
proof -
  from assms obtain existing where ins: "insert_entry env (payment_entry env tid pj db) db = Inr ((), db')"
    and ex: "payment_entry env tid pj db \<noteq> None \<or> find_entry db' tid src_payment (pj_paymentId pj) \<noteq> None"
    by (auto simp: postPaymentJournalEntry_def tx_simps)
  show "db_payments db' = db_payments db" "db_orders db' = db_orders db"
    using ins by (auto simp: insert_entry_cases split: option.splits)
  have new: "find_entry (db\<lparr>db_journal := db_journal db @ [e]\<rparr>) tid src_payment (pj_paymentId pj) \<noteq> None"
    if "payment_entry env tid pj db = Some e" for e
    using that unfolding find_entry_def find_row_None
    by (auto simp: payment_entry_def split: list.splits if_splits)
  show "\<exists>e. find_entry db' tid src_payment (pj_paymentId pj) = Some e"
    using ins ex new by (auto simp: insert_entry_cases split: option.splits)
  assume "find_entry db tid src_payment (pj_paymentId pj) = None"
  with ins ex show "\<exists>e. payment_entry env tid pj db = Some e \<and> db_journal db' = db_journal db @ [e]"
    by (auto simp: insert_entry_cases split: option.splits)
qed

lemma collectWrites_Inr:
  assumes "collectWrites env tid input key snap meth shift am db = Inr (r, db')"
  shows "db_payments db' = db_payments db @ [rc_payment r]"
    "pay_tenantId (rc_payment r) = tid" "pay_orderId (rc_payment r) = rp_orderId input"
    "pay_paymentMethodId (rc_payment r) = pm_id meth" "pay_status (rc_payment r) = completed"
    "pay_shiftId (rc_payment r) = sh_id shift" "pay_createdBy (rc_payment r) = rp_cashierUserId input"
    "pay_idempotencyKey (rc_payment r) = key" "\<not> payment_conflict db (rc_payment r)"
    "\<exists>t. minorToDecimalText (td_minor (ca_tendered am)) (td_digits (ca_tendered am)) = Inr t \<and>
       numeric4 t = Inr (pay_amount (rc_payment r))"
    "\<exists>t. minorToDecimalText (ca_netBaseMinor am) (ca_baseDigits am) = Inr t \<and>
       numeric4 t = Inr (pay_amountInBaseCurrency (rc_payment r))"
    "if isCashLike meth \<and> 0 < ca_changeMinor am
     then \<exists>t t'. minorToDecimalText (ca_changeMinor am) (ca_baseDigits am) = Inr t \<and> numeric4 t = Inr t' \<and>
       pay_changeGivenAmount (rc_payment r) = Some t'
     else pay_changeGivenAmount (rc_payment r) = None"
    "rc_orderTotalMinor r = ot_totalMinor (ca_totals am)"
    "rc_remainingBalanceMinor r = ot_remainingBalanceMinor (ca_totals am) - ca_netBaseMinor am"
    "rc_changeGivenMinor r = ca_changeMinor am"
    "order_status db tid (rp_orderId input) = Some st \<Longrightarrow> order_status db' tid (rp_orderId input) =
       Some (if rc_remainingBalanceMinor r = 0 then op_paid else st)"
proof -
  from assms obtain amountText baseText changeText db1 db2 where
    amount: "minorToDecimalText (td_minor (ca_tendered am)) (td_digits (ca_tendered am)) = Inr amountText" and
    base: "minorToDecimalText (ca_netBaseMinor am) (ca_baseDigits am) = Inr baseText" and
    change: "(if isCashLike meth \<and> ca_changeMinor am > 0
       then mapResult (minorToDecimalText (ca_changeMinor am) (ca_baseDigits am)) Some else Inr None) = Inr changeText" and
    ins: "insertPayment env tid \<lparr>ip_id = env_uuid env db, ip_orderId = rp_orderId input,
        ip_paymentMethodId = pm_id meth, ip_amount = amountText, ip_amountInBaseCurrency = baseText,
        ip_exchangeRateSnapshot = td_rate (ca_tendered am), ip_changeGivenAmount = changeText,
        ip_shiftId = sh_id shift, ip_createdBy = rp_cashierUserId input, ip_idempotencyKey = key\<rparr> db =
      Inr (rc_payment r, db1)" and
    post: "postPaymentJournalEntry env tid \<lparr>pj_paymentId = pay_id (rc_payment r),
        pj_branchId = sn_branchId snap, pj_currencyCode = sn_baseCurrencyCode snap,
        pj_amountMinor = ca_netBaseMinor am, pj_debitSystemPurpose = pm_clearingAccountSystemPurpose meth,
        pj_postedByUserId = rp_cashierUserId input, pj_occurredAt = pay_createdAt (rc_payment r)\<rparr> db1 = Inr ((), db2)" and
    last: "(if ot_remainingBalanceMinor (ca_totals am) = ca_netBaseMinor am
              then tx_bind (postOrderCogs env tid (rp_orderId input)) (\<lambda>_.
                   setOrderPaymentStatus env tid (rp_orderId input) op_paid)
              else tx_return ()) db2 = Inr ((), db')" and
    r: "rc_orderTotalMinor r = ot_totalMinor (ca_totals am)"
      "rc_remainingBalanceMinor r = ot_remainingBalanceMinor (ca_totals am) - ca_netBaseMinor am"
      "rc_changeGivenMinor r = ca_changeMinor am"
    by (auto simp: collectWrites_def tx_simps Let_def)
  have "db_payments db' = db_payments db2"
    using last by (auto simp: tx_simps postOrderCogs_def setOrderPaymentStatus_def split: if_splits)
  moreover note j = postPaymentJournalEntry_Inr [OF post] and i = insertPayment_Inr [OF ins]
  ultimately show "db_payments db' = db_payments db @ [rc_payment r]" by simp
  show "order_status db' tid (rp_orderId input) = Some (if rc_remainingBalanceMinor r = 0 then op_paid else st)"
    if "order_status db tid (rp_orderId input) = Some st"
    using that last r(2) i(2) j(2)
    by (auto simp: tx_simps postOrderCogs_def setOrderPaymentStatus_def order_status_def find_row_update
        dest: find_row_Some split: if_splits)
  show "if isCashLike meth \<and> 0 < ca_changeMinor am
     then \<exists>t t'. minorToDecimalText (ca_changeMinor am) (ca_baseDigits am) = Inr t \<and> numeric4 t = Inr t' \<and>
       pay_changeGivenAmount (rc_payment r) = Some t'
     else pay_changeGivenAmount (rc_payment r) = None"
    using change i(14) by (auto simp: numeric4_option_def result_simps split: if_splits option.splits)
  show "pay_tenantId (rc_payment r) = tid" "pay_orderId (rc_payment r) = rp_orderId input"
    "pay_paymentMethodId (rc_payment r) = pm_id meth" "pay_status (rc_payment r) = completed"
    "pay_shiftId (rc_payment r) = sh_id shift" "pay_createdBy (rc_payment r) = rp_cashierUserId input"
    "pay_idempotencyKey (rc_payment r) = key" "\<not> payment_conflict db (rc_payment r)"
    using i by simp_all
  show "\<exists>t. minorToDecimalText (td_minor (ca_tendered am)) (td_digits (ca_tendered am)) = Inr t \<and>
       numeric4 t = Inr (pay_amount (rc_payment r))"
    "\<exists>t. minorToDecimalText (ca_netBaseMinor am) (ca_baseDigits am) = Inr t \<and>
       numeric4 t = Inr (pay_amountInBaseCurrency (rc_payment r))"
    using i amount base by simp_all
  show "rc_orderTotalMinor r = ot_totalMinor (ca_totals am)"
    "rc_remainingBalanceMinor r = ot_remainingBalanceMinor (ca_totals am) - ca_netBaseMinor am"
    "rc_changeGivenMinor r = ca_changeMinor am" by (rule r)+
qed

lemma computeOrderTotals_remaining:
  "computeOrderTotals s = Inr t \<Longrightarrow> ot_remainingBalanceMinor t = ot_totalMinor t - sn_completedPaymentsMinor s"
  by (auto simp: computeOrderTotals_def result_simps Let_def)

lemma storage_digits:
  "andThen (currencyCode c) storageMinorUnitDigits = Inr d \<Longrightarrow> 0 \<le> d \<and> d \<le> 4"
  using storageMinorUnitDigits_bounds by (auto simp: result_simps)

lemma collectFresh_parts:
  assumes "collectFresh env tid input key db = Inr (r, db')"
  obtains snap meth shift am db1 where "collectGateway env tid input db = Inr ((snap, meth, shift), db1)"
    "collectAmounts input snap meth = Inr am"
    "collectWrites env tid input key snap meth shift am db1 = Inr (r, db')"
  using assms by (auto simp: collectFresh_def tx_simps)

lemma collectFresh_payment:
  assumes "collectFresh env tid input key db = Inr (r, db')"
  shows "db_payments db' = db_payments db @ [rc_payment r]" "pay_tenantId (rc_payment r) = tid"
    "pay_idempotencyKey (rc_payment r) = key" "\<not> payment_conflict db (rc_payment r)"
    "pay_status (rc_payment r) = completed"
proof -
  from assms obtain snap meth shift am db1 where
    gate: "collectGateway env tid input db = Inr ((snap, meth, shift), db1)" and
    wr: "collectWrites env tid input key snap meth shift am db1 = Inr (r, db')"
    by (rule collectFresh_parts)
  note g = collectGateway_Inr(2) [OF gate] and w = collectWrites_Inr [OF wr]
  show "db_payments db' = db_payments db @ [rc_payment r]" "pay_tenantId (rc_payment r) = tid"
    "pay_idempotencyKey (rc_payment r) = key" "\<not> payment_conflict db (rc_payment r)"
    "pay_status (rc_payment r) = completed"
    using g w by (simp_all add: payment_conflict_def)
qed

text \<open>The balance law of one fresh collection, on the snapshots before and after.\<close>

definition collected :: "string \<Rightarrow> record_payment_input \<Rightarrow> recorded_payment \<Rightarrow> pos_db \<Rightarrow> pos_db \<Rightarrow> bool" where
  "collected tid input r db db' \<longleftrightarrow>
     (\<exists>snap snap' t t' d net.
        loadOrderFinancialSnapshot tid (rp_orderId input) db = Inr (Some snap) \<and>
        loadOrderFinancialSnapshot tid (rp_orderId input) db' = Inr (Some snap') \<and>
        computeOrderTotals snap = Inr t \<and> computeOrderTotals snap' = Inr t' \<and>
        andThen (currencyCode (sn_baseCurrencyCode snap)) storageMinorUnitDigits = Inr d \<and>
        db_payments db' = db_payments db @ [rc_payment r] \<and> pay_status (rc_payment r) = completed \<and>
        pay_orderId (rc_payment r) = rp_orderId input \<and>
        decimalTextToMinor (pay_amountInBaseCurrency (rc_payment r)) d ''amountInBaseCurrency'' = Inr net \<and>
        0 < net \<and> net \<le> ot_remainingBalanceMinor t \<and> 0 \<le> rc_changeGivenMinor r \<and>
        rc_remainingBalanceMinor r = ot_remainingBalanceMinor t - net \<and>
        ot_totalMinor t' = ot_totalMinor t \<and> ot_remainingBalanceMinor t' = rc_remainingBalanceMinor r \<and>
        sn_completedPaymentsMinor snap' = sn_completedPaymentsMinor snap + net \<and>
        (sn_paymentStatus snap = op_open \<or> sn_paymentStatus snap = op_paid) \<and>
        sn_paymentStatus snap' = (if rc_remainingBalanceMinor r = 0 then op_paid else sn_paymentStatus snap) \<and>
        (\<exists>s\<in>set (db_shifts db). sh_id s = pay_shiftId (rc_payment r) \<and> sh_status s = shift_open \<and>
           sh_cashierId s = rp_cashierUserId input \<and> sh_branchId s = sn_branchId snap))"

lemma collectFresh_collected:
  assumes "collectFresh env tid input key db = Inr (r, db')"
  shows "collected tid input r db db'"
proof -
  let ?oid = "rp_orderId input"
  from assms obtain snap meth shift am db1 where
    gate: "collectGateway env tid input db = Inr ((snap, meth, shift), db1)" and
    am: "collectAmounts input snap meth = Inr am" and
    wr: "collectWrites env tid input key snap meth shift am db1 = Inr (r, db')"
    by (rule collectFresh_parts)
  note g = collectGateway_Inr [OF gate] and a = collectAmounts_Inr [OF am] and w = collectWrites_Inr [OF wr]
  from snapshot_header [OF g(1)] obtain ord br where hdr: "order_header db tid ?oid = Some (ord, br)"
    "sn_paymentStatus snap = o_paymentStatus ord" "order_status db tid ?oid = Some (o_paymentStatus ord)" by blast
  have frame: "pricing_frame db db'" "orders_frame db db'"
    using assms pricing.fresh orders.fresh by (auto simp: tx_ensures_def)
  from order_header_keys [OF _ _ hdr(1), of db'] frame obtain ord' where
    hdr': "order_header db' tid ?oid = Some (ord', br)" "o_branchId ord' = o_branchId ord"
      "order_status db' tid ?oid = Some (o_paymentStatus ord')"
    by (auto simp: orders_frame_def pricing_frame_def)
  have pays: "order_payments db' tid ?oid = order_payments db tid ?oid @ [rc_payment r]"
    using w(1-3) g(2) by (simp add: order_payments_def)
  from w(11) obtain tx where "minorToDecimalText (ca_netBaseMinor am) (ca_baseDigits am) = Inr tx"
    "numeric4 tx = Inr (pay_amountInBaseCurrency (rc_payment r))" by blast
  from numeric4_roundtrip(1) [OF _ _ this] storage_digits [OF a(2)]
  have net: "decimalTextToMinor (pay_amountInBaseCurrency (rc_payment r)) (ca_baseDigits am) ''amountInBaseCurrency'' =
    Inr (ca_netBaseMinor am)" by simp
  then have sum: "completed_sum (ca_baseDigits am) [rc_payment r] = Inr (ca_netBaseMinor am)"
    using w(5) by (simp add: completed_sum_def ok_def)
  note snap' = load_snapshot_after [OF frame(1) hdr(1) hdr'(1,2) g(1) a(2) pays sum]
  note t' = computeOrderTotals_payments [OF a(1)]
  have st: "o_paymentStatus ord' = (if rc_remainingBalanceMinor r = 0 then op_paid else o_paymentStatus ord)"
    using w(16) [of "o_paymentStatus ord"] g(4) hdr(3) hdr'(3) by simp
  have rem: "ot_remainingBalanceMinor (ca_totals am) = ot_totalMinor (ca_totals am) - sn_completedPaymentsMinor snap"
    by (rule computeOrderTotals_remaining [OF a(1)])
  from g(9) obtain s where "findOpenShiftForCashier tid (rp_cashierUserId input) (sn_branchId snap) db = Some s"
    "sh_id shift = sh_id s" by blast
  then have shift: "\<exists>s\<in>set (db_shifts db). sh_id s = pay_shiftId (rc_payment r) \<and> sh_status s = shift_open \<and>
      sh_cashierId s = rp_cashierUserId input \<and> sh_branchId s = sn_branchId snap"
    using w(6) by (auto simp: findOpenShiftForCashier_def dest: find_row_Some)
  show ?thesis unfolding collected_def
    by (rule exI [of _ snap], rule exI, rule exI [of _ "ca_totals am"], rule exI, rule exI [of _ "ca_baseDigits am"],
        rule exI [of _ "ca_netBaseMinor am"], intro conjI, rule g(1), rule snap', rule a(1), rule t')
       (use a g w net st hdr rem shift in simp_all)
qed

text \<open>A replay reads, compares and returns the recorded payment; it writes nothing.\<close>

lemma buildReplay_Inr:
  assumes "buildReplay tid p input db = Inr (r, db')"
  shows "db' = db" "rc_payment r = p" "pay_orderId p = rp_orderId input"
    "pay_paymentMethodId p = rp_paymentMethodId input"
  using assms by (auto simp: buildReplay_def tx_simps)

definition replayed :: "string \<Rightarrow> record_payment_input \<Rightarrow> recorded_payment \<Rightarrow> pos_db \<Rightarrow> bool" where
  "replayed tid input r db \<longleftrightarrow> rc_payment r \<in> set (db_payments db) \<and>
     pay_tenantId (rc_payment r) = tid \<and> rp_idempotencyKey input \<noteq> None \<and>
     pay_idempotencyKey (rc_payment r) = rp_idempotencyKey input \<and>
     pay_orderId (rc_payment r) = rp_orderId input \<and> pay_paymentMethodId (rc_payment r) = rp_paymentMethodId input"

lemma loadByKey_Some:
  "loadPaymentByIdempotencyKey tid k db = Some p \<Longrightarrow>
   p \<in> set (db_payments db) \<and> pay_tenantId p = tid \<and> pay_idempotencyKey p = Some k"
  by (auto simp: loadPaymentByIdempotencyKey_def dest: find_row_Some)

lemma normalizeIdempotencyKey_Inr: "normalizeIdempotencyKey k = Inr k' \<Longrightarrow> k' = k"
  by (auto simp: normalizeIdempotencyKey_def split: option.splits if_splits)

lemma collectBody_Inr:
  assumes "collectBody env tid input (rp_idempotencyKey input) db = Inr (r, db')"
  shows "replayed tid input r db \<and> db' = db \<or> collectFresh env tid input (rp_idempotencyKey input) db = Inr (r, db') \<and>
    (\<forall>k. rp_idempotencyKey input = Some k \<longrightarrow> loadPaymentByIdempotencyKey tid k db = None)"
  using assms buildReplay_Inr loadByKey_Some
  by (fastforce simp: collectBody_def tx_simps replayed_def split: option.splits)

lemma recordPayment_body:
  assumes "recordPayment env tid input db = (Inr r, db')"
  shows "replayed tid input r db \<and> db' = db \<or> collectFresh env tid input (rp_idempotencyKey input) db = Inr (r, db') \<and>
    (\<forall>k. rp_idempotencyKey input = Some k \<longrightarrow> loadPaymentByIdempotencyKey tid k db = None)"
proof -
  let ?key = "rp_idempotencyKey input"
  let ?body = "store_run env tid (collectBody env tid input ?key)"
  from assms have run: "(case ?key of None \<Rightarrow> ?body | Some k \<Rightarrow> op_catch ?body (replayAfterConflict env tid k input)) db =
      (Inr r, db')"
    using normalizeIdempotencyKey_Inr [of ?key]
    by (auto simp: recordPayment_def orderBranch_def tx_simps Let_def)
  show ?thesis
  proof (cases "?body db")
    case (Pair res db1)
    show ?thesis
    proof (cases res)
      case (Inr r1)
      with run Pair have "?body db = (Inr r, db')" by (auto simp: op_catch_def split: option.splits)
      then have "collectBody env tid input ?key db = Inr (r, db')" by (simp add: tx_simps)
      then show ?thesis by (rule collectBody_Inr)
    next
      case (Inl e)
      with run Pair obtain k where k: "?key = Some k" and rep: "replayAfterConflict env tid k input e db1 = (Inr r, db')"
        by (auto simp: op_catch_def split: option.splits)
      have "db1 = db" using Pair Inl store_run_Inl by fastforce
      with rep obtain p where "loadPaymentByIdempotencyKey tid k db = Some p" "buildReplay tid p input db = Inr (r, db')"
        by (auto simp: replayAfterConflict_def tx_simps split: if_splits option.splits)
      with k show ?thesis using buildReplay_Inr loadByKey_Some unfolding replayed_def by (metis option.distinct(1))
    qed
  qed
qed

text \<open>
  C1. Collecting a payment: a successful call either replays a payment already recorded under the same
  idempotency key, order and meth, and changes nothing; or it appends exactly one completed
  payment whose net amount is positive and at most the balance that was due, made by a cashier who
  holds an open shift at the order's branch. In that case the total of the order is unchanged, the
  balance recomputed from the new database is the old balance less the net amount (never negative)
  and is the balance returned, and the order becomes paid exactly when that balance is zero.
\<close>

theorem recordPayment_correct:
  assumes "recordPayment env tid input db = (Inr r, db')"
  shows "replayed tid input r db \<and> db' = db \<or> collected tid input r db db'"
  using recordPayment_body [OF assms] collectFresh_collected by blast

theorem recordPayment_correct_witness:
  "recordPayment example_env ''t1'' example_payment example_db = (Inr example_recorded, example_paid_db) \<and>
   collected ''t1'' example_payment example_recorded example_db example_paid_db"
proof -
  have "example_paid_db \<noteq> example_db" by (simp add: example_paid_db_def example_db_def)
  with recordPayment_correct [OF example_collects] example_collects show ?thesis by simp
qed

section \<open>Idempotency\<close>

lemma op_catch_ok: "m s = (Inr a, s') \<Longrightarrow> op_catch m h s = (Inr a, s')"
  by (simp add: op_catch_def)

lemma tenderAmount_Inr:
  assumes "tenderAmount meth cur d amountText = Inr td" "0 \<le> d" "d \<le> 4"
  shows "nonNegativeDecimalTextToMinor amountText (td_digits td) ''amount'' = Inr (td_minor td)"
    "(case pm_currencyCode meth of
        Some c \<Rightarrow> if pm_type meth = pm_foreign_currency_cash then andThen (currencyCode c) storageMinorUnitDigits else Inr d
      | None \<Rightarrow> Inr d) = Inr (td_digits td)"
    "0 \<le> td_digits td" "td_digits td \<le> 4" "0 \<le> td_minor td"
  using assms storageMinorUnitDigits_bounds nonNegativeDecimalTextToMinor_nonneg
  by (auto simp: tenderAmount_def result_simps split: if_splits option.splits)

lemma recorded_amount:
  assumes "\<exists>t. minorToDecimalText m d = Inr t \<and> numeric4 t = Inr stored" "0 \<le> d" "d \<le> 4" "0 \<le> m"
  shows "nonNegativeDecimalTextToMinor stored d f = Inr m"
  using numeric4_roundtrip(2) assms by blast

text \<open>After a fresh collection under a key, the same request finds its own payment and replays it.\<close>

lemma collectFresh_then_replay:
  assumes fresh: "collectFresh env tid input key db = Inr (r, db')"
  shows "\<exists>r'. buildReplay tid (rc_payment r) input db' = Inr (r', db') \<and> rc_payment r' = rc_payment r \<and>
    rc_changeGivenMinor r' = rc_changeGivenMinor r"
proof -
  let ?oid = "rp_orderId input" and ?p = "rc_payment r"
  from fresh obtain snap meth shift am db1 where
    gate: "collectGateway env tid input db = Inr ((snap, meth, shift), db1)" and
    am: "collectAmounts input snap meth = Inr am" and
    wr: "collectWrites env tid input key snap meth shift am db1 = Inr (r, db')"
    by (rule collectFresh_parts)
  note g = collectGateway_Inr [OF gate] and a = collectAmounts_Inr [OF am] and w = collectWrites_Inr [OF wr]
  note d = storage_digits [OF a(2)]
  from collectFresh_collected [OF fresh] obtain snap' t' where
    snap': "loadOrderFinancialSnapshot tid ?oid db' = Inr (Some snap')" "computeOrderTotals snap' = Inr t'"
    by (auto simp: collected_def)
  have frame: "pricing_frame db db'" "orders_frame db db'"
    using fresh pricing.fresh orders.fresh by (auto simp: tx_ensures_def)
  have base: "sn_baseCurrencyCode snap' = sn_baseCurrencyCode snap"
  proof -
    from snapshot_header [OF g(1)] obtain ord br where
      "order_header db tid ?oid = Some (ord, br)" "sn_baseCurrencyCode snap = br_baseCurrency br" by blast
    with order_header_keys [of db' db tid ?oid ord br] frame snapshot_header [OF snap'(1)] show ?thesis
      by (auto simp: orders_frame_def pricing_frame_def)
  qed
  have meth: "loadPaymentMethod tid (rp_paymentMethodId input) db' = Some meth"
    "pm_id meth = rp_paymentMethodId input"
    using g(6) frame(1) find_row_Some [of _ "db_methods db" meth]
    by (auto simp: loadPaymentMethod_def pricing_frame_def)
  from a(8) obtain cur where tender: "tenderAmount meth cur (ca_baseDigits am) (rp_amountText input) = Inr (ca_tendered am)"
    by blast
  note t = tenderAmount_Inr [OF tender conjunct1 [OF d] conjunct2 [OF d]]
  have recorded: "nonNegativeDecimalTextToMinor (pay_amount ?p) (td_digits (ca_tendered am)) ''amount'' =
      Inr (td_minor (ca_tendered am))"
    by (rule recorded_amount [OF w(10) t(3,4,5)])
  have change: "(case pay_changeGivenAmount ?p of None \<Rightarrow> Inr 0
      | Some c \<Rightarrow> nonNegativeDecimalTextToMinor c (ca_baseDigits am) ''changeGivenAmount'') = Inr (ca_changeMinor am)"
    using w(12) a(6,7) recorded_amount [of "ca_changeMinor am" "ca_baseDigits am"] d by (auto split: if_splits)
  have explicit: "(case rp_explicitChangeMinor input of None \<Rightarrow> True | Some c \<Rightarrow> c = ca_changeMinor am)"
    using a(9) by auto
  show ?thesis
    using w(3,4,15) meth snap' t(1,2) recorded change explicit a(2)
    by (auto simp: buildReplay_def tx_simps base)
qed

text \<open>
  C2. Idempotency: after a successful collection under an idempotency key, repeating the same request
  succeeds, returns the payment that was recorded with the same change, and leaves the database
  exactly as it was, so a client may retry without charging twice.
\<close>

theorem recordPayment_idempotent:
  assumes first: "recordPayment env tid input db = (Inr r, db')" and key: "rp_idempotencyKey input = Some k"
  shows "\<exists>r'. recordPayment env tid input db' = (Inr r', db') \<and> rc_payment r' = rc_payment r \<and>
    rc_changeGivenMinor r' = rc_changeGivenMinor r"
proof (cases "db' = db")
  case True
  with first show ?thesis by auto
next
  case False
  let ?oid = "rp_orderId input" and ?p = "rc_payment r"
  from recordPayment_body [OF first] False key have
    fresh: "collectFresh env tid input (Some k) db = Inr (r, db')"
    and none: "loadPaymentByIdempotencyKey tid k db = None" by auto
  from first obtain snap where pre: "env_tenantGate env tid = Inr ()"
    "loadOrderFinancialSnapshot tid ?oid db = Inr (Some snap)"
    "env_authorize env (branch_check tid (rp_cashierUserId input) ''payments:collect'' (rp_tokenSecV input)
       (sn_branchId snap)) = Inr ()"
    "normalizeIdempotencyKey (Some k) = Inr (Some k)"
    using normalizeIdempotencyKey_Inr [of "Some k"]
    by (auto simp: recordPayment_def orderBranch_def tx_simps Let_def key)
  from collectFresh_collected [OF fresh] obtain snap' where
    snap': "loadOrderFinancialSnapshot tid ?oid db' = Inr (Some snap')" by (auto simp: collected_def)
  have frame: "pricing_frame db db'" "orders_frame db db'"
    using fresh pricing.fresh orders.fresh by (auto simp: tx_ensures_def)
  from snapshot_header [OF pre(2)] obtain ord br where hdr: "order_header db tid ?oid = Some (ord, br)"
    "sn_branchId snap = o_branchId ord" by blast
  from order_header_keys [of db' db tid ?oid ord br] frame hdr snapshot_header [OF snap']
  have branch: "sn_branchId snap' = sn_branchId snap" by (auto simp: orders_frame_def pricing_frame_def)
  obtain o' where lock: "lockOrder tid ?oid db' = Some o'"
    using snapshot_header [OF snap'] by (auto simp: lockOrder_def order_header_def split: option.splits)
  have found: "loadPaymentByIdempotencyKey tid k db' = Some ?p"
    using none collectFresh_payment [OF fresh] unfolding loadPaymentByIdempotencyKey_def
    by (simp add: find_row_append) (simp add: find_row_def)
  from collectFresh_then_replay [OF fresh] obtain r' where
    r': "buildReplay tid ?p input db' = Inr (r', db')" "rc_payment r' = ?p"
      "rc_changeGivenMinor r' = rc_changeGivenMinor r" by blast
  have body: "collectBody env tid input (Some k) db' = Inr (r', db')"
    using lock found r'(1) by (simp add: collectBody_def tx_simps)
  have run: "store_run env tid (collectBody env tid input (Some k)) db' = (Inr r', db')"
    using pre(1) body by (simp add: tx_simps)
  have "recordPayment env tid input db' = (Inr r', db')"
    using pre snap' branch
    by (auto simp: recordPayment_def orderBranch_def tx_simps Let_def key op_catch_ok [where m = "store_run env tid (collectBody env tid input (Some k))", OF run])
  with r'(2,3) show ?thesis by blast
qed

theorem recordPayment_idempotent_witness:
  "\<exists>r'. recordPayment example_env ''t1'' example_payment example_paid_db = (Inr r', example_paid_db) \<and>
     rc_payment r' = rc_payment example_recorded \<and> rc_changeGivenMinor r' = 500"
  using recordPayment_idempotent [OF example_collects, of "''k1''"]
  by (simp add: example_payment_def example_recorded_def)

end
