(* ===== verification/Atomicity.thy ===== *)
theory Atomicity
  imports Pos_Db
begin

text \<open>
  Operations that leave no trace when they fail. A transaction rolls back by itself; an operation
  made of several is atomic when every transaction before the last only reads. \<open>unchanged\<close> is the
  relation of reading, an interpretation of the relations that transactions carry.
\<close>

section \<open>Failed operations\<close>

definition op_atomic :: "('s, 'a) op \<Rightarrow> bool" where
  "op_atomic m \<longleftrightarrow> (\<forall>s e s'. m s = (Inl e, s') \<longrightarrow> s' = s)"

definition unchanged :: "'s \<Rightarrow> 's \<Rightarrow> bool" where
  "unchanged s s' \<longleftrightarrow> s' = s"

interpretation read_only: tx_relation unchanged
  by unfold_locales (auto simp: unchanged_def)

lemma op_atomic_run: "op_atomic (store_run env tid m)"
  using store_run_Inl by (fastforce simp: op_atomic_def)

lemma op_atomic_values: "op_atomic (op_lift r)" "op_atomic (op_return a)"
  by (auto simp: op_atomic_def op_lift_def op_return_def)

lemma op_atomic_bind:
  "op_ensures unchanged m \<Longrightarrow> (\<And>a. op_atomic (f a)) \<Longrightarrow> op_atomic (op_bind m f)"
  unfolding op_atomic_def op_ensures_def unchanged_def op_bind_def
  by (fastforce split: prod.splits sum.splits)

lemma op_atomic_catch:
  assumes "op_atomic m" "\<And>e. op_atomic (h e)"
  shows "op_atomic (op_catch m h)"
  unfolding op_atomic_def op_catch_def
proof (intro allI impI)
  fix s e s' assume run: "(case m s of (Inl e, s') \<Rightarrow> h e s' | (Inr a, s') \<Rightarrow> (Inr a, s')) = (Inl e, s')"
  then obtain e1 s1 where m: "m s = (Inl e1, s1)" by (auto split: prod.splits sum.splits)
  then have "s1 = s" using assms(1) by (auto simp: op_atomic_def)
  with run m show "s' = s" using assms(2) by (auto simp: op_atomic_def)
qed

lemma store_run_reads: "tx_ensures unchanged m \<Longrightarrow> op_ensures unchanged (store_run env tid m)"
  unfolding store_run_def by (intro read_only.run_rule read_only.bind_rule read_only.bodies)

end
