(* ===== verification/Manager_Override.thy ===== *)
theory Manager_Override
  imports Payments_Relations
begin

text \<open>
  Model of \<^verbatim>\<open>src/infrastructure/db/repositories/postgres-manager-override-authenticator.ts\<close>: the live
  PIN challenge of an approving manager, with the ledger of attempts and the two lockout counters.
  A challenge is one transaction of its own; the error it ends in is raised after the commit.
  The comparison of the PIN with the stored hash (an HMAC) is the parameter \<open>env_verifyPin\<close>. Times are
  in milliseconds; the clock of the transaction is \<open>env_now\<close>.
\<close>

section \<open>Definitions\<close>

definition PER_MANAGER_FAILURE_THRESHOLD :: int where "PER_MANAGER_FAILURE_THRESHOLD = 5"
definition COUNT_WINDOW_MS :: int where "COUNT_WINDOW_MS = 15 * 60000"
definition MANAGER_LOCK_MS :: int where "MANAGER_LOCK_MS = 15 * 60000"
definition PER_ACTOR_FAILURE_THRESHOLD :: int where "PER_ACTOR_FAILURE_THRESHOLD = 10"
definition ACTOR_LOCK_MS :: int where "ACTOR_LOCK_MS = 30 * 60000"
definition SECURITY_EVENT_ACTION :: string where "SECURITY_EVENT_ACTION = ''security.manager_override_actor_locked''"

datatype challenge_decision = authenticated int | rate_limited int | failed_authentication

definition isActiveLock :: "lockout_row \<Rightarrow> int \<Rightarrow> bool" where
  "isActiveLock st now = (case lo_lockedUntil st of None \<Rightarrow> False | Some t \<Rightarrow> t > now)"

text \<open>\<open>failures\<close> and \<open>windowStartedAt\<close> after one more failure.\<close>

definition advanceWindow :: "lockout_row \<Rightarrow> int \<Rightarrow> int \<times> int" where
  "advanceWindow st now =
     (case lo_windowStartedAt st of
        None \<Rightarrow> (1, now)
      | Some startedAt \<Rightarrow>
          if now - startedAt \<ge> COUNT_WINDOW_MS then (1, now) else (lo_consecutiveFailures st + 1, startedAt))"

definition lockout_key :: "string \<Rightarrow> string \<Rightarrow> lockout_row \<Rightarrow> bool" where
  "lockout_key tid userId r \<longleftrightarrow> lo_tenantId r = tid \<and> lo_userId r = userId"

definition fresh_lockout :: "string \<Rightarrow> string \<Rightarrow> lockout_row" where
  "fresh_lockout tid userId = \<lparr>lo_tenantId = tid, lo_userId = userId, lo_consecutiveFailures = 0,
     lo_windowStartedAt = None, lo_lockedUntil = None\<rparr>"

text \<open>\<open>INSERT \<dots> ON CONFLICT DO NOTHING\<close>, then \<open>SELECT \<dots> FOR UPDATE\<close>, on each of the two tables.\<close>

definition upsertActorRow :: "pos_env \<Rightarrow> string \<Rightarrow> string \<Rightarrow> (pos_db, unit) tx" where
  "upsertActorRow env tid userId =
     tx_bind (tx_read (\<lambda>db. find_row (lockout_key tid userId) (db_actorLockouts db))) (\<lambda>found.
     if found \<noteq> None then tx_return ()
     else tx_bind (db_check env (WActorLockout (fresh_lockout tid userId))) (\<lambda>_.
       tx_write (\<lambda>db. db\<lparr>db_actorLockouts := db_actorLockouts db @ [fresh_lockout tid userId]\<rparr>)))"

definition upsertManagerRow :: "pos_env \<Rightarrow> string \<Rightarrow> string \<Rightarrow> (pos_db, unit) tx" where
  "upsertManagerRow env tid userId =
     tx_bind (tx_read (\<lambda>db. find_row (lockout_key tid userId) (db_managerLockouts db))) (\<lambda>found.
     if found \<noteq> None then tx_return ()
     else tx_bind (db_check env (WManagerLockout (fresh_lockout tid userId))) (\<lambda>_.
       tx_write (\<lambda>db. db\<lparr>db_managerLockouts := db_managerLockouts db @ [fresh_lockout tid userId]\<rparr>)))"

definition lockStateRow :: "(pos_db \<Rightarrow> lockout_row list) \<Rightarrow> string \<Rightarrow> string \<Rightarrow> (pos_db, lockout_row) tx" where
  "lockStateRow rows tid userId =
     tx_bind (tx_read (\<lambda>db. find_row (lockout_key tid userId) (rows db))) (\<lambda>found.
     tx_some found (ForeignError ''Expected row after upsert''))"

definition appendAttempt ::
  "pos_env \<Rightarrow> string \<Rightarrow> string \<Rightarrow> string \<Rightarrow> string \<Rightarrow> string option \<Rightarrow> attempt_outcome \<Rightarrow> (pos_db, string) tx" where
  "appendAttempt env tid targetManagerUserId initiatingActorUserId contextType orderId outcome =
     tx_bind (tx_read (env_uuid env)) (\<lambda>newId.
     let row = \<lparr>oa_id = newId, oa_tenantId = tid, oa_initiatingActorUserId = initiatingActorUserId,
       oa_targetManagerUserId = targetManagerUserId, oa_orderId = orderId, oa_outcome = outcome,
       oa_contextType = contextType, oa_createdAt = env_now env\<rparr> in
     tx_bind (db_check env (WAttempt row)) (\<lambda>_.
     tx_bind (tx_write (\<lambda>db. db\<lparr>db_attempts := db_attempts db @ [row]\<rparr>)) (\<lambda>_.
     tx_return newId)))"

text \<open>Step 3: the live verification itself.\<close>

definition verifyOutcome :: "pos_env \<Rightarrow> string \<Rightarrow> string \<Rightarrow> string \<Rightarrow> pos_db \<Rightarrow> attempt_outcome" where
  "verifyOutcome env tid managerUserId pin db =
     (case find_row (\<lambda>u. us_tenantId u = tid \<and> us_id u = managerUserId) (db_users db) of
        None \<Rightarrow> failed_unknown_or_inactive_manager
      | Some user \<Rightarrow>
          if \<not> us_isActive user then failed_unknown_or_inactive_manager
          else case us_pinHash user of
                 None \<Rightarrow> failed_unknown_or_inactive_manager
               | Some pinHash \<Rightarrow>
                   if js_trim pin = [] \<or> \<not> env_verifyPin env tid managerUserId pin pinHash then failed_wrong_pin
                   else succeeded)"

text \<open>The counter after a failure; the lock is activated at the threshold.\<close>

definition countFailure :: "int \<Rightarrow> int \<Rightarrow> lockout_row \<Rightarrow> int \<Rightarrow> lockout_row" where
  "countFailure threshold lockMs st now =
     (let (failures, windowStartedAt) = advanceWindow st now in
      st\<lparr>lo_consecutiveFailures := failures, lo_windowStartedAt := Some windowStartedAt,
         lo_lockedUntil := (if failures \<ge> threshold then Some (now + lockMs) else lo_lockedUntil st)\<rparr>)"

definition setManagerRow :: "pos_env \<Rightarrow> string \<Rightarrow> string \<Rightarrow> lockout_row \<Rightarrow> (pos_db, unit) tx" where
  "setManagerRow env tid userId st =
     tx_bind (db_check env (WManagerLockout st)) (\<lambda>_.
     tx_write (\<lambda>db. db\<lparr>db_managerLockouts := update_where (lockout_key tid userId) (\<lambda>_. st) (db_managerLockouts db)\<rparr>))"

definition setActorRow :: "pos_env \<Rightarrow> string \<Rightarrow> string \<Rightarrow> lockout_row \<Rightarrow> (pos_db, unit) tx" where
  "setActorRow env tid userId st =
     tx_bind (db_check env (WActorLockout st)) (\<lambda>_.
     tx_write (\<lambda>db. db\<lparr>db_actorLockouts := update_where (lockout_key tid userId) (\<lambda>_. st) (db_actorLockouts db)\<rparr>))"

text \<open>Step 5: a success resets the manager's counter, a failure advances it.\<close>

definition managerCounter :: "pos_env \<Rightarrow> string \<Rightarrow> string \<Rightarrow> lockout_row \<Rightarrow> attempt_outcome \<Rightarrow> (pos_db, unit) tx" where
  "managerCounter env tid managerUserId managerState outcome =
     setManagerRow env tid managerUserId
       (if outcome = succeeded then fresh_lockout tid managerUserId
        else countFailure PER_MANAGER_FAILURE_THRESHOLD MANAGER_LOCK_MS managerState (env_now env))"

text \<open>Step 7: the security event, in the same transaction.\<close>

definition triedManagers :: "string \<Rightarrow> string \<Rightarrow> int \<Rightarrow> pos_db \<Rightarrow> string list" where
  "triedManagers tid actorUserId since db =
     sort (remdups (map oa_targetManagerUserId (filter (\<lambda>a. oa_tenantId a = tid \<and>
       oa_initiatingActorUserId a = actorUserId \<and> oa_createdAt a \<ge> since) (db_attempts db))))"

definition securityEvent :: "string \<Rightarrow> string \<Rightarrow> int \<Rightarrow> string list \<Rightarrow> audit_row" where
  "securityEvent tid actorUserId failures tried =
     \<lparr>au_tenantId = tid, au_userId = actorUserId, au_action = SECURITY_EVENT_ACTION,
      au_resource = ''manager_override_challenge'', au_before = [],
      au_after = stringify (JsObj [(''severity'', JsStr ''high''), (''tenant_id'', JsStr tid), (''actor_id'', JsStr actorUserId),
        (''attempt_count'', JsNum failures), (''distinct_managers_tried'', JsArr (map JsStr tried)),
        (''lock_duration_minutes'', JsNum (ACTOR_LOCK_MS div 60000))])\<rparr>"

text \<open>Steps 6 and 7: the actor's counter, never reset by a success.\<close>

definition actorCounter :: "pos_env \<Rightarrow> string \<Rightarrow> string \<Rightarrow> lockout_row \<Rightarrow> attempt_outcome \<Rightarrow> (pos_db, unit) tx" where
  "actorCounter env tid actorUserId actorState outcome =
     (if outcome = succeeded then tx_return ()
      else let (failures, windowStartedAt) = advanceWindow actorState (env_now env) in
        tx_bind (setActorRow env tid actorUserId
          (countFailure PER_ACTOR_FAILURE_THRESHOLD ACTOR_LOCK_MS actorState (env_now env))) (\<lambda>_.
        if failures \<ge> PER_ACTOR_FAILURE_THRESHOLD then
          tx_bind (tx_read (triedManagers tid actorUserId windowStartedAt)) (\<lambda>tried.
          appendAuditEvidence env (securityEvent tid actorUserId failures tried))
        else tx_return ()))"

text \<open>An active lock: the attempt is recorded as rejected, nothing is counted.\<close>

definition rejectLocked ::
  "pos_env \<Rightarrow> string \<Rightarrow> string \<Rightarrow> string \<Rightarrow> string \<Rightarrow> string option \<Rightarrow> lockout_row \<Rightarrow> (pos_db, challenge_decision \<times> string) tx" where
  "rejectLocked env tid managerUserId actorUserId contextType orderId st =
     tx_bind (appendAttempt env tid managerUserId actorUserId contextType orderId rejected_locked) (\<lambda>attemptId.
     tx_bind (tx_some (lo_lockedUntil st) (ForeignError ''Expected locked_until'')) (\<lambda>lockedUntil.
     tx_return (rate_limited (lockedUntil - env_now env), attemptId)))"

text \<open>Steps 3 to 7, while no lock is active.\<close>

definition countedChallenge ::
  "pos_env \<Rightarrow> string \<Rightarrow> string \<Rightarrow> string \<Rightarrow> string \<Rightarrow> string \<Rightarrow> string option \<Rightarrow> lockout_row \<Rightarrow> lockout_row \<Rightarrow>
   (pos_db, challenge_decision \<times> string) tx" where
  "countedChallenge env tid managerUserId pin actorUserId contextType orderId actorState managerState =
     tx_bind (tx_read (verifyOutcome env tid managerUserId pin)) (\<lambda>outcome.
     tx_bind (appendAttempt env tid managerUserId actorUserId contextType orderId outcome) (\<lambda>attemptId.
     tx_bind (managerCounter env tid managerUserId managerState outcome) (\<lambda>_.
     tx_bind (actorCounter env tid actorUserId actorState outcome) (\<lambda>_.
     tx_return (if outcome = succeeded then authenticated (env_now env) else failed_authentication, attemptId)))))"

definition challengeBody ::
  "pos_env \<Rightarrow> string \<Rightarrow> string \<Rightarrow> string \<Rightarrow> string \<Rightarrow> string \<Rightarrow> string option \<Rightarrow> (pos_db, challenge_decision \<times> string) tx" where
  "challengeBody env tid managerUserId pin actorUserId contextType orderId =
     tx_bind (upsertActorRow env tid actorUserId) (\<lambda>_.
     tx_bind (lockStateRow db_actorLockouts tid actorUserId) (\<lambda>actorState.
     if isActiveLock actorState (env_now env)
     then rejectLocked env tid managerUserId actorUserId contextType orderId actorState
     else
     tx_bind (upsertManagerRow env tid managerUserId) (\<lambda>_.
     tx_bind (lockStateRow db_managerLockouts tid managerUserId) (\<lambda>managerState.
     if isActiveLock managerState (env_now env)
     then rejectLocked env tid managerUserId actorUserId contextType orderId managerState
     else
     countedChallenge env tid managerUserId pin actorUserId contextType orderId actorState managerState))))"

definition runChallenge ::
  "pos_env \<Rightarrow> string \<Rightarrow> string \<Rightarrow> string \<Rightarrow> string \<Rightarrow> string \<Rightarrow> string option \<Rightarrow> (pos_db, challenge_decision \<times> string) op" where
  "runChallenge env tid managerUserId pin actorUserId contextType orderId =
     store_run env tid (challengeBody env tid managerUserId pin actorUserId contextType orderId)"

text \<open>\<open>Math.max(1, Math.ceil(ms / 1000))\<close>\<close>

definition retrySeconds :: "int \<Rightarrow> int" where
  "retrySeconds ms = max 1 (- ((- ms) div 1000))"

fun resolveChallengeDecision :: "challenge_decision \<Rightarrow> int result" where
  "resolveChallengeDecision (rate_limited retryAfterMs) = Inl (ManagerOverrideRateLimitedError (retrySeconds retryAfterMs))"
| "resolveChallengeDecision failed_authentication = Inl ManagerOverrideAuthenticationError"
| "resolveChallengeDecision (authenticated authenticatedAt) = Inr authenticatedAt"

definition verifyLiveChallenge ::
  "pos_env \<Rightarrow> string \<Rightarrow> string \<Rightarrow> string \<Rightarrow> string \<Rightarrow> string \<Rightarrow> string option \<Rightarrow> (pos_db, int) op" where
  "verifyLiveChallenge env tid managerUserId pin actorUserId contextType orderId =
     op_bind (runChallenge env tid managerUserId pin actorUserId contextType orderId) (\<lambda>(decision, attemptId).
     op_lift (resolveChallengeDecision decision))"

definition verifyLiveChallengeWithId ::
  "pos_env \<Rightarrow> string \<Rightarrow> string \<Rightarrow> string \<Rightarrow> string \<Rightarrow> string \<Rightarrow> string option \<Rightarrow> (pos_db, int \<times> string) op" where
  "verifyLiveChallengeWithId env tid managerUserId pin actorUserId contextType orderId =
     op_bind (runChallenge env tid managerUserId pin actorUserId contextType orderId) (\<lambda>(decision, attemptId).
     op_bind (op_lift (resolveChallengeDecision decision)) (\<lambda>authenticatedAt.
     op_return (authenticatedAt, attemptId)))"

section \<open>What a challenge may write\<close>

definition override_frame :: "pos_db \<Rightarrow> pos_db \<Rightarrow> bool" where
  "override_frame db db' \<longleftrightarrow> (\<exists>ats als mls aus. db' = db\<lparr>db_attempts := db_attempts db @ ats, db_actorLockouts := als,
     db_managerLockouts := mls, db_audit := db_audit db @ aus\<rparr>)"

lemma override_frameI:
  "db' = db\<lparr>db_attempts := db_attempts db @ ats, db_actorLockouts := als, db_managerLockouts := mls, db_audit := db_audit db @ aus\<rparr>
   \<Longrightarrow> override_frame db db'"
  unfolding override_frame_def by blast

interpretation overrides: tx_relation override_frame
proof
  fix s t u :: pos_db
  show "override_frame s s"
    by (rule override_frameI [where ats = "[]" and als = "db_actorLockouts s" and mls = "db_managerLockouts s" and aus = "[]"]) simp
  assume "override_frame s t" "override_frame t u"
  then obtain a1 l1 m1 u1 a2 l2 m2 u2 where
    "t = s\<lparr>db_attempts := db_attempts s @ a1, db_actorLockouts := l1, db_managerLockouts := m1, db_audit := db_audit s @ u1\<rparr>"
    "u = t\<lparr>db_attempts := db_attempts t @ a2, db_actorLockouts := l2, db_managerLockouts := m2, db_audit := db_audit t @ u2\<rparr>"
    unfolding override_frame_def by blast
  then show "override_frame s u"
    by (intro override_frameI [where ats = "a1 @ a2" and als = "l2" and mls = "m2" and aus = "u1 @ u2"]) simp
qed

lemma override_writes:
  "override_frame db (db\<lparr>db_attempts := db_attempts db @ ats\<rparr>)"
  "override_frame db (db\<lparr>db_actorLockouts := als\<rparr>)" "override_frame db (db\<lparr>db_managerLockouts := mls\<rparr>)"
  "override_frame db (db\<lparr>db_audit := db_audit db @ aus\<rparr>)"
  by (rule override_frameI [where ats = "ats" and als = "db_actorLockouts db" and mls = "db_managerLockouts db" and aus = "[]"], simp)
     (rule override_frameI [where ats = "[]" and als = "als" and mls = "db_managerLockouts db" and aus = "[]"], simp,
      rule override_frameI [where ats = "[]" and als = "db_actorLockouts db" and mls = "mls" and aus = "[]"], simp,
      rule override_frameI [where ats = "[]" and als = "db_actorLockouts db" and mls = "db_managerLockouts db" and aus = "aus"], simp)

lemma override_steps:
  "tx_ensures override_frame (db_check env w)"
  "tx_ensures override_frame (upsertActorRow env tid a)" "tx_ensures override_frame (upsertManagerRow env tid m)"
  "tx_ensures override_frame (lockStateRow rows tid a)" "tx_ensures override_frame (appendAttempt env tid m a ctx oid out)"
  "tx_ensures override_frame (setManagerRow env tid m st)" "tx_ensures override_frame (setActorRow env tid a st)"
  "tx_ensures override_frame (appendAuditEvidence env row)"
  by (auto simp: tx_ensures_def tx_simps upsertActorRow_def upsertManagerRow_def lockStateRow_def appendAttempt_def
      setManagerRow_def setActorRow_def appendAuditEvidence_def Let_def overrides.refl intro: override_writes split: if_splits)

lemma challengeBody_frame: "tx_ensures override_frame (challengeBody env tid m pin a ctx oid)"
  unfolding challengeBody_def countedChallenge_def rejectLocked_def managerCounter_def actorCounter_def
  by (auto simp: Let_def split: prod.splits intro!: overrides.bind_rule overrides.bodies override_steps)

lemma challenge_frame:
  "op_ensures override_frame (verifyLiveChallenge env tid m pin a ctx oid)"
  "op_ensures override_frame (verifyLiveChallengeWithId env tid m pin a ctx oid)"
  unfolding verifyLiveChallenge_def verifyLiveChallengeWithId_def runChallenge_def store_run_def
  by (auto split: prod.splits intro!: overrides.op_bnd overrides.op_values overrides.run_rule overrides.bind_rule
      overrides.bodies challengeBody_frame)

section \<open>The counters a challenge reads and leaves\<close>

definition lock_state :: "lockout_row list \<Rightarrow> string \<Rightarrow> string \<Rightarrow> lockout_row" where
  "lock_state rows tid u = (case find_row (lockout_key tid u) rows of None \<Rightarrow> fresh_lockout tid u | Some r \<Rightarrow> r)"

lemma lock_state_keys [simp]: "lo_tenantId (lock_state rows tid u) = tid" "lo_userId (lock_state rows tid u) = u"
  by (auto simp: lock_state_def fresh_lockout_def lockout_key_def dest!: find_row_Some split: option.split)

lemma find_row_fresh:
  "find_row (lockout_key t v) [fresh_lockout tid u] = (if t = tid \<and> v = u then Some (fresh_lockout tid u) else None)"
  by (simp add: find_row_def fresh_lockout_def lockout_key_def)

lemma lock_state_append:
  "find_row (lockout_key tid u) rows = None \<Longrightarrow> lock_state (rows @ [fresh_lockout tid u]) = lock_state rows"
  by (auto simp: lock_state_def fun_eq_iff find_row_append find_row_fresh split: option.splits)

lemma find_row_set:
  "lockout_key tid u st \<Longrightarrow> find_row (lockout_key t v) (update_where (lockout_key tid u) (\<lambda>_. st) rows) =
     (if t = tid \<and> v = u then map_option (\<lambda>_. st) (find_row (lockout_key tid u) rows) else find_row (lockout_key t v) rows)"
  by (induction rows) (auto simp: find_row_def update_where_def lockout_key_def)

lemma lock_state_set:
  assumes "lockout_key tid u st" "find_row (lockout_key tid u) rows \<noteq> None"
  shows "lock_state (update_where (lockout_key tid u) (\<lambda>_. st) rows) = (lock_state rows)(tid := (lock_state rows tid)(u := st))"
  using assms(2) by (auto simp: lock_state_def find_row_set [OF assms(1)] fun_eq_iff split: option.splits)

lemma actor_row_Inr:
  assumes "upsertActorRow env tid a db = Inr (x, db1)" "lockStateRow db_actorLockouts tid a db1 = Inr (st, db2)"
  shows "db2 = db1" "db1 = db\<lparr>db_actorLockouts := db_actorLockouts db1\<rparr>" "lock_state (db_actorLockouts db1) = lock_state (db_actorLockouts db)"
    "st = lock_state (db_actorLockouts db) tid a" "find_row (lockout_key tid a) (db_actorLockouts db1) \<noteq> None"
  using assms by (auto simp: upsertActorRow_def lockStateRow_def tx_simps lock_state_append split: if_splits)
     (auto simp: lock_state_def find_row_append find_row_fresh)

lemma manager_row_Inr:
  assumes "upsertManagerRow env tid a db = Inr (x, db1)" "lockStateRow db_managerLockouts tid a db1 = Inr (st, db2)"
  shows "db2 = db1" "db1 = db\<lparr>db_managerLockouts := db_managerLockouts db1\<rparr>" "lock_state (db_managerLockouts db1) = lock_state (db_managerLockouts db)"
    "st = lock_state (db_managerLockouts db) tid a" "find_row (lockout_key tid a) (db_managerLockouts db1) \<noteq> None"
  using assms by (auto simp: upsertManagerRow_def lockStateRow_def tx_simps lock_state_append split: if_splits)
     (auto simp: lock_state_def find_row_append find_row_fresh)

end
