(* ===== verification/Discount_Engine.thy ===== *)
theory Discount_Engine
  imports Payments_Collect Atomicity Manager_Override
begin

text \<open>
  Model of \<^verbatim>\<open>src/application/engines/payments/discount-engine.ts\<close>: one discount row per call, with the
  read pass that decides on escalation, the manager's live challenge (a transaction of
  its own), and the write transaction that recomputes everything under the order lock.
\<close>

section \<open>Definitions\<close>

record apply_discount_input =
  ad_orderId :: string
  ad_mechanism :: discount_mechanism
  ad_discountKind :: discount_kind
  ad_discountValueText :: string
  ad_couponCode :: "string option"
  ad_managerOverride :: "manager_override_challenge_input option"

definition mustCouponCode :: "apply_discount_input \<Rightarrow> string result" where
  "mustCouponCode input =
     (case ad_couponCode input of
        None \<Rightarrow> Inl (ValidationError (Some ''couponCode''))
      | Some code0 \<Rightarrow> if js_trim code0 = [] then Inl (ValidationError (Some ''couponCode'')) else Inr (js_trim code0))"

definition assertKindGranted :: "discount_kind \<Rightarrow> parsed_discount_caps \<Rightarrow> unit result" where
  "assertKindGranted kind cps =
     (if kind = percentage \<and> maxPercentDbps cps = None then Inl (DiscountAuthorityMissingError percentage)
      else if kind = fixed_amount \<and> maxFixedAmountMinor cps = None then Inl (DiscountAuthorityMissingError fixed_amount)
      else Inr ())"

definition assertCouponUsable :: "int \<Rightarrow> coupon_record \<Rightarrow> int \<Rightarrow> int \<Rightarrow> unit result" where
  "assertCouponUsable now cp subtotalMinor baseDigits =
     (if \<not> cp_isActive cp then Inl (CouponUnavailableError (cp_code cp) ''inactive'')
      else if (case cp_expiresAt cp of None \<Rightarrow> False | Some t \<Rightarrow> t \<le> now)
      then Inl (CouponUnavailableError (cp_code cp) ''expired'')
      else if (case cp_maxUses cp of None \<Rightarrow> False | Some n \<Rightarrow> cp_usesCount cp \<ge> n)
      then Inl (CouponUnavailableError (cp_code cp) ''maximum uses reached'')
      else case cp_minOrderAmount cp of
             None \<Rightarrow> Inr ()
           | Some t \<Rightarrow> andThen (nonNegativeDecimalTextToMinor t baseDigits ''minOrderAmount'') (\<lambda>minMinor.
               if subtotalMinor < minMinor
               then Inl (CouponUnavailableError (cp_code cp) ''order subtotal is below the coupon minimum'')
               else Inr ()))"

definition canonicalValueText :: "discount_kind \<Rightarrow> string \<Rightarrow> string result" where
  "canonicalValueText kind valueText =
     (if kind = percentage then andThen (percentTextToDbps valueText ''discountValue'') dbpsToPercentText
      else andThen (nonNegativeDecimalTextToMinor valueText 4 ''discountValue'') (\<lambda>m. minorToDecimalText m 4))"

record discount_pre_pass =
  pd_baseDigits :: int
  pd_caps :: parsed_discount_caps
  pd_requirement :: discount_override_requirement
  pd_coupon :: "coupon_record option"
  pd_branchId :: string

definition prePass :: "string \<Rightarrow> string \<Rightarrow> apply_discount_input \<Rightarrow> (pos_db, discount_pre_pass) tx" where
  "prePass tid actorUserId input =
     tx_bind (loadSnapshot tid (ad_orderId input)) (\<lambda>snapshot.
     tx_bind (tx_lift (andThen (currencyCode (sn_baseCurrencyCode snapshot)) storageMinorUnitDigits)) (\<lambda>baseDigits.
     tx_bind (tx_lift (computeOrderTotals snapshot)) (\<lambda>totals.
     let remainingSubtotal = ot_subtotalMinor totals - ot_discountTotalMinor totals in
     tx_bind (tx_lift (parseDiscountRequest (ad_discountKind input) (ad_discountValueText input) baseDigits)) (\<lambda>rq.
     tx_bind (tx_read (loadUserDiscountCaps tid actorUserId)) (\<lambda>capsRow.
     tx_bind (tx_lift (parseDiscountCaps (case capsRow of None \<Rightarrow> None | Some c \<Rightarrow> uc_maxDiscountPercentage c)
        (case capsRow of None \<Rightarrow> None | Some c \<Rightarrow> uc_maxDiscountFixedAmount c) baseDigits)) (\<lambda>cps.
     tx_bind (tx_lift (assertKindGranted (ad_discountKind input) cps)) (\<lambda>_.
     tx_bind (tx_lift (computeDiscountStage remainingSubtotal rq)) (\<lambda>stage.
     tx_bind (tx_lift (discountOverrideRequirement stage rq cps)) (\<lambda>requirement.
     tx_bind (if ad_mechanism input = coupon
              then tx_bind (tx_lift (mustCouponCode input)) (\<lambda>couponCode. tx_read (loadCouponByCode tid couponCode))
              else tx_return None) (\<lambda>found.
     tx_return \<lparr>pd_baseDigits = baseDigits, pd_caps = cps, pd_requirement = requirement, pd_coupon = found,
                pd_branchId = sn_branchId snapshot\<rparr>))))))))))"

definition requirement_reason :: "discount_override_requirement \<Rightarrow> discount_override_reason" where
  "requirement_reason rq = (case reason rq of None \<Rightarrow> zeroes_out_subtotal | Some r \<Rightarrow> r)"

text \<open>The escalation: the manager's own permission, then the live challenge.\<close>

definition escalate ::
  "pos_env \<Rightarrow> string \<Rightarrow> string \<Rightarrow> apply_discount_input \<Rightarrow> discount_pre_pass \<Rightarrow> (pos_db, bool) op" where
  "escalate env tid actorUserId input pre =
     (if \<not> required (pd_requirement pre) then op_return False
      else case ad_managerOverride input of
        None \<Rightarrow> op_lift (Inl (DiscountOverrideRequiredError (requirement_reason (pd_requirement pre))))
      | Some challenge \<Rightarrow>
          op_bind (op_lift (mapErr (env_authorize env
             (branch_check tid (mo_managerUserId challenge) ''order:discount:apply'' None (pd_branchId pre)))
             (\<lambda>_. ManagerOverrideAuthenticationError))) (\<lambda>_.
          op_bind (verifyLiveChallenge env tid (mo_managerUserId challenge) (mo_managerOverridePin challenge) actorUserId
             ''discount'' (Some (ad_orderId input))) (\<lambda>_.
          op_return True)))"

definition couponForWrite ::
  "pos_env \<Rightarrow> string \<Rightarrow> apply_discount_input \<Rightarrow> int \<Rightarrow> int \<Rightarrow> (pos_db, (string \<times> string) option) tx" where
  "couponForWrite env tid input subtotalMinor baseDigits =
     (if ad_mechanism input = coupon then
        tx_bind (tx_lift (mustCouponCode input)) (\<lambda>couponCode.
        tx_bind (tx_read (loadCouponByCode tid couponCode)) (\<lambda>found.
        tx_bind (tx_some found (CouponUnavailableError couponCode ''unknown code'')) (\<lambda>cp.
        tx_bind (tx_lift (assertCouponUsable (env_now env) cp subtotalMinor baseDigits)) (\<lambda>_.
        tx_return (Some (cp_id cp, couponCode))))))
      else tx_return None)"

definition overrideEvidence ::
  "string \<Rightarrow> string \<Rightarrow> apply_discount_input \<Rightarrow> discount_override_requirement \<Rightarrow> (pos_db, string option) tx" where
  "overrideEvidence tid actorUserId input requirement =
     (if required requirement then
        tx_bind (tx_some (ad_managerOverride input)
           (DiscountOverrideRequiredError (requirement_reason requirement))) (\<lambda>challenge.
        tx_bind (tx_read (findSuccessfulOverrideAttemptId tid actorUserId (mo_managerUserId challenge)
           (ad_orderId input) ''discount'')) (\<lambda>found.
        tx_bind (tx_some found (ValidationError None)) (\<lambda>attemptId.
        tx_return (Some attemptId))))
      else tx_return None)"

definition discountBody ::
  "pos_env \<Rightarrow> string \<Rightarrow> string \<Rightarrow> apply_discount_input \<Rightarrow> discount_pre_pass \<Rightarrow> bool \<Rightarrow> (pos_db, order_discount_record) tx" where
  "discountBody env tid actorUserId input pre challenged =
     tx_bind (tx_read (lockOrder tid (ad_orderId input))) (\<lambda>locked.
     tx_bind (tx_some locked NotFoundError) (\<lambda>_.
     tx_bind (bumpOrderRevision env tid (ad_orderId input)) (\<lambda>_.
     tx_bind (loadSnapshot tid (ad_orderId input)) (\<lambda>snapshot.
     tx_bind (tx_lift (computeOrderTotals snapshot)) (\<lambda>totals.
     let remainingSubtotal = ot_subtotalMinor totals - ot_discountTotalMinor totals in
     tx_bind (tx_lift (parseDiscountRequest (ad_discountKind input) (ad_discountValueText input) (pd_baseDigits pre))) (\<lambda>rq.
     tx_bind (tx_lift (computeDiscountStage remainingSubtotal rq)) (\<lambda>stage.
     tx_bind (tx_lift (discountOverrideRequirement stage rq (pd_caps pre))) (\<lambda>requirement.
     tx_bind (tx_guard (\<not> (required requirement \<and> \<not> challenged))
        (DiscountOverrideRequiredError (requirement_reason requirement))) (\<lambda>_.
     tx_bind (couponForWrite env tid input (ot_subtotalMinor totals) (pd_baseDigits pre)) (\<lambda>couponUse.
     tx_bind (overrideEvidence tid actorUserId input requirement) (\<lambda>attemptId.
     tx_bind (tx_read (env_uuid env)) (\<lambda>newId.
     tx_bind (tx_lift (canonicalValueText (ad_discountKind input) (ad_discountValueText input))) (\<lambda>valueText.
     tx_bind (tx_lift (minorToDecimalText (appliedMinor stage) (pd_baseDigits pre))) (\<lambda>appliedText.
     tx_bind (insertOrderDiscount env tid \<lparr>id_id = newId, id_orderId = ad_orderId input,
        id_mechanism = ad_mechanism input, id_couponId = map_option fst couponUse,
        id_couponCode = map_option snd couponUse, id_discountKind = ad_discountKind input,
        id_discountValue = valueText, id_discountAmountApplied = appliedText,
        id_requiredManagerOverride = required requirement, id_managerOverrideAttemptId = attemptId,
        id_appliedBy = actorUserId\<rparr>) (\<lambda>row.
     tx_bind (case couponUse of None \<Rightarrow> tx_return () | Some (couponId, _) \<Rightarrow> incrementCouponUses env tid couponId) (\<lambda>_.
     tx_return row))))))))))))))))"

definition applyDiscount ::
  "pos_env \<Rightarrow> string \<Rightarrow> payment_actor \<Rightarrow> apply_discount_input \<Rightarrow> (pos_db, order_discount_record) op" where
  "applyDiscount env tid actor input =
     (if ad_mechanism input = points then op_lift (Inl LoyaltyPointsDeferredError)
      else
        op_bind (orderBranch env tid (ad_orderId input)) (\<lambda>branchId.
        op_bind (op_lift (env_authorize env
           (branch_check tid (pa_userId actor) ''order:discount:apply'' (Some (pa_tokenSecV actor)) branchId))) (\<lambda>_.
        op_bind (store_run env tid (prePass tid (pa_userId actor) input)) (\<lambda>pre.
        op_bind (escalate env tid (pa_userId actor) input pre) (\<lambda>challenged.
        store_run env tid (discountBody env tid (pa_userId actor) input pre challenged))))))"

end
