(* ===== verification/Override_Correct.thy ===== *)
theory Override_Correct
  imports Manager_Override Example_Restaurant
begin

text \<open>
  The manager challenge resists guessing. A counter with a renewing window and a lock at its threshold is
  a locale, \<open>lockout_counter\<close>, interpreted for the manager's and for the actor's counter; its laws bound
  the failures in any stretch of time and say when a lock is over. They are lifted to every history of
  challenges on one database.
\<close>

section \<open>One counter\<close>

definition since :: "int \<Rightarrow> int list \<Rightarrow> int" where
  "since a ts = int (length (filter (\<lambda>t. a \<le> t) ts))"

definition between :: "int \<Rightarrow> int \<Rightarrow> int list \<Rightarrow> int" where
  "between a b ts = int (length (filter (\<lambda>t. a \<le> t \<and> t < b) ts))"

text \<open>The state of a counter after the failures at the times \<open>ts\<close> since it was last reset.\<close>

definition counter_ok :: "int \<Rightarrow> int \<Rightarrow> int list \<Rightarrow> lockout_row \<Rightarrow> bool" where
  "counter_ok threshold lockMs ts st \<longleftrightarrow> sorted ts \<and>
     (case lo_windowStartedAt st of
        None \<Rightarrow> ts = [] \<and> lo_consecutiveFailures st = 0 \<and> lo_lockedUntil st = None
      | Some w \<Rightarrow> ts \<noteq> [] \<and> w \<le> last ts \<and> last ts - w < COUNT_WINDOW_MS \<and>
          1 \<le> lo_consecutiveFailures st \<and> lo_consecutiveFailures st \<le> threshold \<and>
          (if lo_consecutiveFailures st = threshold then lo_lockedUntil st = Some (last ts + lockMs)
           else \<forall>u. lo_lockedUntil st = Some u \<longrightarrow> u \<le> w) \<and>
          (\<forall>a. since a ts \<le> lo_consecutiveFailures st + (if w \<le> a then 0 else threshold * (1 + (w - a) div COUNT_WINDOW_MS)))) \<and>
     (\<forall>a n. between a (a + int n * COUNT_WINDOW_MS) ts \<le> threshold * (int n + 1))"

lemma window_pos: "0 < COUNT_WINDOW_MS"
  by (simp add: COUNT_WINDOW_MS_def)

lemma window_div_less:
  assumes "x < n * COUNT_WINDOW_MS"
  shows "x div COUNT_WINDOW_MS < n"
proof (rule ccontr)
  assume "\<not> x div COUNT_WINDOW_MS < n"
  then have "n * COUNT_WINDOW_MS \<le> x div COUNT_WINDOW_MS * COUNT_WINDOW_MS" using window_pos by (intro mult_right_mono) auto
  also have "\<dots> \<le> x" using window_pos by (simp add: minus_mod_eq_div_mult [symmetric])
  finally show False using assms by simp
qed

lemma window_div_nonneg: "0 \<le> x \<Longrightarrow> 0 \<le> x div COUNT_WINDOW_MS"
  using pos_imp_zdiv_nonneg_iff [OF window_pos] by blast

lemma since_snoc: "since a (ts @ [t]) = since a ts + (if a \<le> t then 1 else 0)"
  by (simp add: since_def)

lemma since_none: "(\<And>t. t \<in> set ts \<Longrightarrow> t < a) \<Longrightarrow> since a ts = 0"
  by (force simp: since_def filter_empty_conv)

lemma between_snoc: "between a b (ts @ [t]) = between a b ts + (if a \<le> t \<and> t < b then 1 else 0)"
  by (simp add: between_def)

lemma between_since: "between a b ts \<le> since a ts"
  unfolding between_def since_def by (induction ts) auto

lemma between_nil: "between a b [] = 0"
  by (simp add: between_def)

lemma sorted_snoc_last: "sorted ts \<Longrightarrow> ts = [] \<or> last ts \<le> t \<Longrightarrow> sorted (ts @ [t])"
  by (cases ts rule: rev_cases) (auto simp: sorted_append intro: order_trans)

lemma sorted_le_last: "sorted ts \<Longrightarrow> x \<in> set ts \<Longrightarrow> x \<le> last ts"
  by (cases ts rule: rev_cases) (auto simp: sorted_append)

locale lockout_counter =
  fixes threshold lockMs :: int
  assumes threshold_pos: "1 \<le> threshold" and lock_covers_window: "COUNT_WINDOW_MS \<le> lockMs"
begin

lemma fresh: "counter_ok threshold lockMs [] (fresh_lockout tid u)"
  using threshold_pos by (auto simp: counter_ok_def fresh_lockout_def between_nil)

lemma interval_bound:
  assumes "w \<le> now" "now < a + int n * COUNT_WINDOW_MS" "a \<le> now" "c \<le> threshold"
    "since a ts \<le> c + (if w \<le> a then 0 else threshold * (1 + (w - a) div COUNT_WINDOW_MS))"
  shows "between a (a + int n * COUNT_WINDOW_MS) ts \<le> threshold * (int n + 1)"
proof -
  have "since a ts \<le> threshold * (int n + 1)"
  proof (cases "w \<le> a")
    case True
    have "threshold * 1 \<le> threshold * (int n + 1)" using threshold_pos by (intro mult_left_mono) auto
    with True assms(4,5) show ?thesis by simp
  next
    case False
    have "(w - a) div COUNT_WINDOW_MS < int n"
      using assms(1,2) by (intro window_div_less) linarith
    then have "threshold * (1 + (w - a) div COUNT_WINDOW_MS) \<le> threshold * int n" using threshold_pos by (intro mult_left_mono) auto
    with False assms(4,5) show ?thesis by (simp add: distrib_left)
  qed
  with between_since show ?thesis by (rule order_trans)
qed

lemma since_new_window:
  assumes "0 \<le> c0" "c0 \<le> threshold" "w0 + COUNT_WINDOW_MS \<le> now" "a < now"
    "since a ts \<le> c0 + (if w0 \<le> a then 0 else threshold * (1 + (w0 - a) div COUNT_WINDOW_MS))"
  shows "since a ts \<le> threshold * (1 + (now - a) div COUNT_WINDOW_MS)"
proof -
  have step: "threshold * k \<le> threshold * k'" if "k \<le> k'" for k k' using that threshold_pos by (intro mult_left_mono) auto
  show ?thesis
  proof (cases "w0 \<le> a")
    case True
    have "1 \<le> 1 + (now - a) div COUNT_WINDOW_MS" using assms(4) window_div_nonneg [of "now - a"] by simp
    with step [OF this] assms(2,5) True show ?thesis by simp
  next
    case False
    have "(w0 - a) div COUNT_WINDOW_MS + 1 = (w0 - a + COUNT_WINDOW_MS) div COUNT_WINDOW_MS"
      using window_pos by (simp add: div_add_self2)
    also have "\<dots> \<le> (now - a) div COUNT_WINDOW_MS" using assms(3) window_pos by (intro zdiv_mono1) auto
    finally have "2 + (w0 - a) div COUNT_WINDOW_MS \<le> 1 + (now - a) div COUNT_WINDOW_MS" by simp
    from step [OF this] assms(2,5) False show ?thesis by (simp add: distrib_left)
  qed
qed

text \<open>What holds of the next count \<open>c\<close> and window start \<open>w\<close>.\<close>

definition counted :: "lockout_row \<Rightarrow> int list \<Rightarrow> int \<Rightarrow> int \<Rightarrow> int \<Rightarrow> bool" where
  "counted st ts now c w \<longleftrightarrow> w \<le> now \<and> now - w < COUNT_WINDOW_MS \<and> 1 \<le> c \<and> c \<le> threshold \<and>
     (\<forall>u. c \<noteq> threshold \<longrightarrow> lo_lockedUntil st = Some u \<longrightarrow> u \<le> w) \<and>
     (\<forall>a. since a (ts @ [now]) \<le> c + (if w \<le> a then 0 else threshold * (1 + (w - a) div COUNT_WINDOW_MS)))"

lemma counted_first: "lo_lockedUntil st = None \<Longrightarrow> counted st [] now 1 now"
  using threshold_pos window_pos window_div_nonneg by (auto simp: counted_def since_def)

lemma counted_new_window:
  assumes ok: "counter_ok threshold lockMs ts st" and free: "\<not> isActiveLock st now"
    and w0: "lo_windowStartedAt st = Some w0" "w0 + COUNT_WINDOW_MS \<le> now"
  shows "counted st ts now 1 now"
proof -
  have old: "t < now" if "t \<in> set ts" for t
    using sorted_le_last [of ts t] that ok w0 by (auto simp: counter_ok_def)
  have "since a (ts @ [now]) \<le> 1 + threshold * (1 + (now - a) div COUNT_WINDOW_MS)" if "a < now" for a
    using since_new_window [of "lo_consecutiveFailures st" w0 now a ts] ok w0 that by (auto simp: counter_ok_def since_snoc)
  moreover have "since a (ts @ [now]) \<le> 1" if "now \<le> a" for a
    using old that by (subst since_snoc, subst since_none) (auto intro: less_le_trans)
  moreover have "u \<le> now" if "lo_lockedUntil st = Some u" for u
    using that free by (auto simp: isActiveLock_def)
  ultimately show ?thesis using threshold_pos window_pos by (auto simp: counted_def)
qed

lemma counted_same_window:
  assumes ok: "counter_ok threshold lockMs ts st" and now: "last ts \<le> now" and free: "\<not> isActiveLock st now"
    and w0: "lo_windowStartedAt st = Some w0" "now < w0 + COUNT_WINDOW_MS"
  shows "counted st ts now (lo_consecutiveFailures st + 1) w0"
proof -
  let ?c0 = "lo_consecutiveFailures st"
  have c0: "w0 \<le> last ts" "1 \<le> ?c0" "?c0 \<le> threshold"
    and l0: "?c0 = threshold \<Longrightarrow> lo_lockedUntil st = Some (last ts + lockMs)"
    and l1: "?c0 \<noteq> threshold \<Longrightarrow> lo_lockedUntil st = Some u \<Longrightarrow> u \<le> w0"
    and s0: "since a ts \<le> ?c0 + (if w0 \<le> a then 0 else threshold * (1 + (w0 - a) div COUNT_WINDOW_MS))" for a u
    using ok w0(1) by (auto simp: counter_ok_def split: if_splits)
  have "?c0 \<noteq> threshold"
  proof
    assume "?c0 = threshold"
    with l0 free have "last ts + lockMs \<le> now" by (auto simp: isActiveLock_def)
    with w0(2) c0(1) lock_covers_window show False by simp
  qed
  moreover have "since a (ts @ [now]) \<le> ?c0 + 1 + (if w0 \<le> a then 0 else threshold * (1 + (w0 - a) div COUNT_WINDOW_MS))" for a
    using s0 [of a] by (auto simp: since_snoc split: if_splits)
  ultimately show ?thesis using c0 now w0(2) l1 by (auto simp: counted_def)
qed

lemma counted_next:
  assumes ok: "counter_ok threshold lockMs ts st" and now: "ts = [] \<or> last ts \<le> now" and free: "\<not> isActiveLock st now"
    and cw: "advanceWindow st now = (c, w)"
  shows "counted st ts now c w"
proof (cases "lo_windowStartedAt st")
  case None
  then have "ts = []" "lo_lockedUntil st = None" "c = 1" "w = now" using ok cw by (auto simp: counter_ok_def advanceWindow_def)
  with counted_first show ?thesis by simp
next
  case (Some w0)
  then have "last ts \<le> now" using ok now by (auto simp: counter_ok_def)
  with counted_new_window [OF ok free Some] counted_same_window [OF ok _ free Some] Some cw show ?thesis
    by (auto simp: advanceWindow_def algebra_simps split: if_splits)
qed

text \<open>A failure that is counted, which is one while no lock is active.\<close>

lemma failure:
  assumes ok: "counter_ok threshold lockMs ts st" and now: "ts = [] \<or> last ts \<le> now" and free: "\<not> isActiveLock st now"
  shows "counter_ok threshold lockMs (ts @ [now]) (countFailure threshold lockMs st now)"
proof -
  obtain c w where cw: "advanceWindow st now = (c, w)" by fastforce
  note counted = counted_next [OF ok now free cw]
  have sorted: "sorted (ts @ [now])" using ok now by (intro sorted_snoc_last) (auto simp: counter_ok_def)
  have "between a (a + int n * COUNT_WINDOW_MS) (ts @ [now]) \<le> threshold * (int n + 1)" for a n
  proof (cases "a \<le> now \<and> now < a + int n * COUNT_WINDOW_MS")
    case True
    then show ?thesis using counted by (intro interval_bound [of w now a n c]) (auto simp: counted_def)
  next
    case False
    then show ?thesis using ok by (auto simp: between_snoc counter_ok_def)
  qed
  then show ?thesis using sorted counted
    by (auto simp: counter_ok_def counted_def countFailure_def cw split: prod.splits)
qed

text \<open>A lock lasts \<open>lockMs\<close> from the last counted failure, whatever is rejected meanwhile.\<close>

lemma lock_ends:
  assumes "counter_ok threshold lockMs ts st" "\<And>t. t \<in> set ts \<Longrightarrow> t + lockMs \<le> now"
  shows "\<not> isActiveLock st now"
proof (cases "lo_windowStartedAt st")
  case None
  with assms(1) show ?thesis by (simp add: counter_ok_def isActiveLock_def)
next
  case (Some w)
  with assms(1) have "ts \<noteq> []" "w \<le> last ts" and
    lock: "if lo_consecutiveFailures st = threshold then lo_lockedUntil st = Some (last ts + lockMs)
           else \<forall>u. lo_lockedUntil st = Some u \<longrightarrow> u \<le> w" by (auto simp: counter_ok_def)
  then have "last ts + lockMs \<le> now" "w \<le> now" using assms(2) [of "last ts"] lock_covers_window window_pos by auto
  with lock show ?thesis by (auto simp: isActiveLock_def split: if_splits option.splits)
qed

end

interpretation manager_counter: lockout_counter PER_MANAGER_FAILURE_THRESHOLD MANAGER_LOCK_MS
  by unfold_locales (simp_all add: PER_MANAGER_FAILURE_THRESHOLD_def MANAGER_LOCK_MS_def COUNT_WINDOW_MS_def)

interpretation actor_counter: lockout_counter PER_ACTOR_FAILURE_THRESHOLD ACTOR_LOCK_MS
  by unfold_locales (simp_all add: PER_ACTOR_FAILURE_THRESHOLD_def ACTOR_LOCK_MS_def COUNT_WINDOW_MS_def)

section \<open>One challenge\<close>

definition attempt_row ::
  "pos_env \<Rightarrow> string \<Rightarrow> string \<Rightarrow> string \<Rightarrow> string \<Rightarrow> string option \<Rightarrow> string \<Rightarrow> attempt_outcome \<Rightarrow> override_attempt_row" where
  "attempt_row env tid m a ctx oid i out = \<lparr>oa_id = i, oa_tenantId = tid, oa_initiatingActorUserId = a,
     oa_targetManagerUserId = m, oa_orderId = oid, oa_outcome = out, oa_contextType = ctx, oa_createdAt = env_now env\<rparr>"

text \<open>The two counters a challenge is about, and whether one of them refuses it.\<close>

definition actor_state :: "pos_db \<Rightarrow> string \<Rightarrow> string \<Rightarrow> lockout_row" where
  "actor_state db tid a = lock_state (db_actorLockouts db) tid a"

definition manager_state :: "pos_db \<Rightarrow> string \<Rightarrow> string \<Rightarrow> lockout_row" where
  "manager_state db tid m = lock_state (db_managerLockouts db) tid m"

definition refused :: "pos_db \<Rightarrow> string \<Rightarrow> string \<Rightarrow> string \<Rightarrow> int \<Rightarrow> bool" where
  "refused db tid m a now \<longleftrightarrow> isActiveLock (actor_state db tid a) now \<or> isActiveLock (manager_state db tid m) now"

text \<open>The lock a refused challenge reports: the actor's while it is active, otherwise the manager's.\<close>

definition refusing_lock :: "pos_db \<Rightarrow> string \<Rightarrow> string \<Rightarrow> string \<Rightarrow> int \<Rightarrow> lockout_row" where
  "refusing_lock db tid m a now = (if isActiveLock (actor_state db tid a) now then actor_state db tid a else manager_state db tid m)"

definition challenge_outcome :: "pos_env \<Rightarrow> string \<Rightarrow> string \<Rightarrow> string \<Rightarrow> string \<Rightarrow> pos_db \<Rightarrow> attempt_outcome" where
  "challenge_outcome env tid m pin a db =
     (if refused db tid m a (env_now env) then rejected_locked else verifyOutcome env tid m pin db)"

definition next_manager :: "int \<Rightarrow> attempt_outcome \<Rightarrow> lockout_row \<Rightarrow> lockout_row" where
  "next_manager now out st =
     (if out = rejected_locked then st else if out = succeeded then fresh_lockout (lo_tenantId st) (lo_userId st)
      else countFailure PER_MANAGER_FAILURE_THRESHOLD MANAGER_LOCK_MS st now)"

definition next_actor :: "int \<Rightarrow> attempt_outcome \<Rightarrow> lockout_row \<Rightarrow> lockout_row" where
  "next_actor now out st =
     (if out = rejected_locked \<or> out = succeeded then st
      else countFailure PER_ACTOR_FAILURE_THRESHOLD ACTOR_LOCK_MS st now)"

text \<open>
  What a committed challenge does: one attempt, the outcome the locks and the PIN decide, the two
  counters advanced by it and no other counter, and the security event exactly when the actor reaches
  the threshold.
\<close>

definition challenge_effect ::
  "pos_env \<Rightarrow> string \<Rightarrow> string \<Rightarrow> string \<Rightarrow> string \<Rightarrow> string \<Rightarrow> string option \<Rightarrow> pos_db \<Rightarrow> challenge_decision \<Rightarrow> string \<Rightarrow> pos_db \<Rightarrow> bool" where
  "challenge_effect env tid m pin a ctx oid db d i db' \<longleftrightarrow>
     (let out = challenge_outcome env tid m pin a db; now = env_now env in
      db_attempts db' = db_attempts db @ [attempt_row env tid m a ctx oid i out] \<and>
      (case d of authenticated t \<Rightarrow> out = succeeded \<and> t = now
       | failed_authentication \<Rightarrow> out = failed_wrong_pin \<or> out = failed_unknown_or_inactive_manager
       | rate_limited ms \<Rightarrow> out = rejected_locked \<and> 0 < ms \<and> lo_lockedUntil (refusing_lock db tid m a now) = Some (now + ms)) \<and>
      lock_state (db_managerLockouts db') =
        (lock_state (db_managerLockouts db))(tid := (lock_state (db_managerLockouts db) tid)(m := next_manager now out (manager_state db tid m))) \<and>
      lock_state (db_actorLockouts db') =
        (lock_state (db_actorLockouts db))(tid := (lock_state (db_actorLockouts db) tid)(a := next_actor now out (actor_state db tid a))) \<and>
      db_audit db' = db_audit db @
        (case advanceWindow (actor_state db tid a) now of (failures, w) \<Rightarrow>
           if (out = failed_wrong_pin \<or> out = failed_unknown_or_inactive_manager) \<and> failures \<ge> PER_ACTOR_FAILURE_THRESHOLD
           then [securityEvent tid a failures (triedManagers tid a w db')] else []))"

lemma appendAttempt_Inr:
  "appendAttempt env tid m a ctx oid out db = Inr (i, db') \<Longrightarrow>
     db' = db\<lparr>db_attempts := db_attempts db @ [attempt_row env tid m a ctx oid i out]\<rparr>"
  by (auto simp: appendAttempt_def attempt_row_def tx_simps Let_def)

lemma verifyOutcome_cases: "verifyOutcome env tid m pin db \<noteq> rejected_locked"
  by (auto simp: verifyOutcome_def split: option.splits)

lemma verifyOutcome_users: "db_users db' = db_users db \<Longrightarrow> verifyOutcome env tid m pin db' = verifyOutcome env tid m pin db"
  by (simp add: verifyOutcome_def)

lemma rejectLocked_Inr:
  assumes "rejectLocked env tid m a ctx oid st db = Inr ((d, i), db')" "isActiveLock st (env_now env)"
  shows "db' = db\<lparr>db_attempts := db_attempts db @ [attempt_row env tid m a ctx oid i rejected_locked]\<rparr> \<and>
    (\<exists>ms>0. d = rate_limited ms \<and> lo_lockedUntil st = Some (env_now env + ms))"
  using assms by (auto simp: rejectLocked_def tx_simps isActiveLock_def dest: appendAttempt_Inr split: option.splits)

lemma triedManagers_attempts: "db_attempts db' = db_attempts db \<Longrightarrow> triedManagers tid a w db' = triedManagers tid a w db"
  by (simp add: triedManagers_def)

lemma countFailure_key: "lockout_key tid u st \<Longrightarrow> lockout_key tid u (countFailure th lk st now)"
  by (auto simp: countFailure_def lockout_key_def split: prod.splits)

lemma lock_state_key: "lockout_key tid u (lock_state rows tid u)"
  by (simp add: lockout_key_def)

lemma managerCounter_Inr:
  assumes "managerCounter env tid m (lock_state (db_managerLockouts db) tid m) out db = Inr (x, db')" "out \<noteq> rejected_locked"
    "find_row (lockout_key tid m) (db_managerLockouts db) \<noteq> None"
  shows "db' = db\<lparr>db_managerLockouts := db_managerLockouts db'\<rparr>" "lock_state (db_managerLockouts db') =
    (lock_state (db_managerLockouts db))(tid := (lock_state (db_managerLockouts db) tid)(m := next_manager (env_now env) out (manager_state db tid m)))"
proof -
  let ?st = "next_manager (env_now env) out (manager_state db tid m)"
  have key: "lockout_key tid m ?st"
    by (simp add: next_manager_def manager_state_def lock_state_key countFailure_key) (simp add: lockout_key_def fresh_lockout_def)
  have "setManagerRow env tid m ?st db = Inr (x, db')"
    using assms(1,2) by (auto simp: managerCounter_def next_manager_def manager_state_def split: if_splits)
  then have "db' = db\<lparr>db_managerLockouts := update_where (lockout_key tid m) (\<lambda>_. ?st) (db_managerLockouts db)\<rparr>"
    by (auto simp: setManagerRow_def tx_simps)
  with lock_state_set [OF key assms(3)] show "db' = db\<lparr>db_managerLockouts := db_managerLockouts db'\<rparr>" "lock_state (db_managerLockouts db') =
    (lock_state (db_managerLockouts db))(tid := (lock_state (db_managerLockouts db) tid)(m := ?st))" by simp_all
qed

lemma actorCounter_Inr:
  assumes "actorCounter env tid a (lock_state (db_actorLockouts db) tid a) out db = Inr (x, db')" "out \<noteq> rejected_locked"
    "find_row (lockout_key tid a) (db_actorLockouts db) \<noteq> None"
  shows "db_attempts db' = db_attempts db" "db_managerLockouts db' = db_managerLockouts db" "lock_state (db_actorLockouts db') =
    (lock_state (db_actorLockouts db))(tid := (lock_state (db_actorLockouts db) tid)(a := next_actor (env_now env) out (actor_state db tid a)))"
    "db_audit db' = db_audit db @ (case advanceWindow (actor_state db tid a) (env_now env) of (failures, w) \<Rightarrow>
       if out \<noteq> succeeded \<and> failures \<ge> PER_ACTOR_FAILURE_THRESHOLD then [securityEvent tid a failures (triedManagers tid a w db')] else [])"
proof -
  let ?st = "next_actor (env_now env) out (actor_state db tid a)"
  have key: "lockout_key tid a ?st" by (simp add: next_actor_def actor_state_def lock_state_key countFailure_key)
  note set = lock_state_set [OF key assms(3)]
  show "db_attempts db' = db_attempts db" "db_managerLockouts db' = db_managerLockouts db"
    "db_audit db' = db_audit db @ (case advanceWindow (actor_state db tid a) (env_now env) of (failures, w) \<Rightarrow>
       if out \<noteq> succeeded \<and> failures \<ge> PER_ACTOR_FAILURE_THRESHOLD then [securityEvent tid a failures (triedManagers tid a w db')] else [])"
    using assms(1) by (auto simp: actorCounter_def setActorRow_def appendAuditEvidence_def tx_simps Let_def actor_state_def
        triedManagers_def split: prod.splits if_splits)
  show "lock_state (db_actorLockouts db') = (lock_state (db_actorLockouts db))(tid := (lock_state (db_actorLockouts db) tid)(a := ?st))"
  proof (cases "out = succeeded")
    case True
    then show ?thesis using assms(1) by (simp add: actorCounter_def tx_simps next_actor_def actor_state_def)
  next
    case False
    with assms(1,2) set show ?thesis
      by (auto simp: actorCounter_def setActorRow_def appendAuditEvidence_def tx_simps Let_def next_actor_def actor_state_def
          split: prod.splits if_splits)
  qed
qed

lemma refused_effect:
  assumes "rejectLocked env tid m a ctx oid st db1 = Inr ((d, i), db')" "isActiveLock st (env_now env)" "refused db tid m a (env_now env)"
    and "st = refusing_lock db tid m a (env_now env)" "db_attempts db1 = db_attempts db" "db_audit db1 = db_audit db"
    "lock_state (db_actorLockouts db1) = lock_state (db_actorLockouts db)" "lock_state (db_managerLockouts db1) = lock_state (db_managerLockouts db)"
  shows "challenge_effect env tid m pin a ctx oid db d i db'"
proof -
  from rejectLocked_Inr [OF assms(1,2)] obtain ms where
    "db' = db1\<lparr>db_attempts := db_attempts db1 @ [attempt_row env tid m a ctx oid i rejected_locked]\<rparr>" "0 < ms" "d = rate_limited ms"
    "lo_lockedUntil st = Some (env_now env + ms)" by blast
  then show ?thesis using assms(3-8)
    by (simp add: challenge_effect_def challenge_outcome_def next_manager_def next_actor_def manager_state_def actor_state_def
        split: prod.split)
qed

lemma counted_effect:
  assumes run: "countedChallenge env tid m pin a ctx oid (actor_state db tid a) (manager_state db tid m) db1 = Inr ((d, i), db')"
    and free: "\<not> refused db tid m a (env_now env)"
    and same: "db_attempts db1 = db_attempts db" "db_audit db1 = db_audit db" "db_users db1 = db_users db"
    and actors: "lock_state (db_actorLockouts db1) = lock_state (db_actorLockouts db)" "find_row (lockout_key tid a) (db_actorLockouts db1) \<noteq> None"
    and managers: "lock_state (db_managerLockouts db1) = lock_state (db_managerLockouts db)" "find_row (lockout_key tid m) (db_managerLockouts db1) \<noteq> None"
  shows "challenge_effect env tid m pin a ctx oid db d i db'"
proof -
  define out where "out = verifyOutcome env tid m pin db"
  have out: "out \<noteq> rejected_locked" "challenge_outcome env tid m pin a db = out"
    using free by (auto simp: out_def challenge_outcome_def verifyOutcome_cases)
  from run verifyOutcome_users [OF same(3)] obtain x5 db5 x6 db6 where
    app: "appendAttempt env tid m a ctx oid out db1 = Inr (i, db5)" and mc: "managerCounter env tid m (manager_state db tid m) out db5 = Inr (x5, db6)" and
    ac: "actorCounter env tid a (actor_state db tid a) out db6 = Inr (x6, db')" and
    d: "d = (if out = succeeded then authenticated (env_now env) else failed_authentication)"
    unfolding countedChallenge_def out_def by (auto simp: tx_simps)
  note db5 = appendAttempt_Inr [OF app]
  have "manager_state db tid m = lock_state (db_managerLockouts db5) tid m" using managers by (simp add: db5 manager_state_def)
  note mgr = managerCounter_Inr [OF mc [unfolded this] out(1)]
  have db6: "db6 = db5\<lparr>db_managerLockouts := db_managerLockouts db6\<rparr>" using mgr(1) managers(2) by (simp add: db5)
  have ml: "lock_state (db_managerLockouts db6) = (lock_state (db_managerLockouts db))(tid := (lock_state (db_managerLockouts db) tid)(m := next_manager (env_now env) out (manager_state db tid m)))"
    using mgr(2) managers by (simp add: db5 manager_state_def)
  have s6: "db_actorLockouts db6 = db_actorLockouts db1" "db_attempts db6 = db_attempts db @ [attempt_row env tid m a ctx oid i out]" "db_audit db6 = db_audit db"
    by (subst db6, simp add: db5 same)+
  have "actor_state db tid a = lock_state (db_actorLockouts db6) tid a" using actors s6 by (simp add: actor_state_def)
  note act = actorCounter_Inr [OF ac [unfolded this] out(1)]
  have "actor_state db6 tid a = actor_state db tid a" using actors s6 by (simp add: actor_state_def)
  with act s6 actors have effects: "db_attempts db' = db_attempts db @ [attempt_row env tid m a ctx oid i out]"
    "lock_state (db_managerLockouts db') = lock_state (db_managerLockouts db6)"
    "lock_state (db_actorLockouts db') = (lock_state (db_actorLockouts db))(tid := (lock_state (db_actorLockouts db) tid)(a := next_actor (env_now env) out (actor_state db tid a)))"
    "db_audit db' = db_audit db @ (case advanceWindow (actor_state db tid a) (env_now env) of (failures, w) \<Rightarrow>
       if out \<noteq> succeeded \<and> failures \<ge> PER_ACTOR_FAILURE_THRESHOLD then [securityEvent tid a failures (triedManagers tid a w db')] else [])"
    by simp_all
  have failed: "out \<noteq> succeeded \<longleftrightarrow> out = failed_wrong_pin \<or> out = failed_unknown_or_inactive_manager" using out(1) by (cases out) auto
  show ?thesis unfolding challenge_effect_def Let_def out(2) effects(2) ml
    using effects(1,3,4) d failed by (auto split: prod.split)
qed

lemma challengeBody_effect:
  assumes "challengeBody env tid m pin a ctx oid db = Inr ((d, i), db')"
  shows "challenge_effect env tid m pin a ctx oid db d i db'"
proof -
  from assms obtain x1 db1 ast db2 where up: "upsertActorRow env tid a db = Inr (x1, db1)"
    "lockStateRow db_actorLockouts tid a db1 = Inr (ast, db2)" and
    rest: "(if isActiveLock ast (env_now env) then rejectLocked env tid m a ctx oid ast
      else tx_bind (upsertManagerRow env tid m) (\<lambda>_. tx_bind (lockStateRow db_managerLockouts tid m) (\<lambda>mst.
        if isActiveLock mst (env_now env) then rejectLocked env tid m a ctx oid mst
        else countedChallenge env tid m pin a ctx oid ast mst))) db2 = Inr ((d, i), db')"
    unfolding challengeBody_def tx_bind_Inr by blast
  note A = actor_row_Inr [OF up]
  have ast: "ast = actor_state db tid a" using A(4) by (simp add: actor_state_def)
  have db1: "db_attempts db1 = db_attempts db" "db_managerLockouts db1 = db_managerLockouts db" "db_audit db1 = db_audit db"
    "db_users db1 = db_users db" by (subst A(2), simp)+
  show ?thesis
  proof (cases "isActiveLock ast (env_now env)")
    case True
    then show ?thesis using rest A(1,3) db1 ast by (intro refused_effect [of _ _ _ _ _ _ ast db1]) (auto simp: refused_def refusing_lock_def)
  next
    case free: False
    with rest A(1) obtain x2 db3 mst db4 where um: "upsertManagerRow env tid m db1 = Inr (x2, db3)"
      "lockStateRow db_managerLockouts tid m db3 = Inr (mst, db4)" and
      rest: "(if isActiveLock mst (env_now env) then rejectLocked env tid m a ctx oid mst
        else countedChallenge env tid m pin a ctx oid ast mst) db4 = Inr ((d, i), db')"
      unfolding tx_bind_Inr by (simp add: tx_bind_Inr) blast
    note M = manager_row_Inr [OF um]
    have mst: "mst = manager_state db tid m" using M(4) db1 by (simp add: manager_state_def)
    have db3: "db_attempts db3 = db_attempts db" "db_actorLockouts db3 = db_actorLockouts db1" "db_audit db3 = db_audit db"
      "db_users db3 = db_users db" by (subst M(2), simp add: db1)+
    show ?thesis
    proof (cases "isActiveLock mst (env_now env)")
      case True
      then show ?thesis using rest M(1,3) A(3) db1 db3 mst free ast by (intro refused_effect [of _ _ _ _ _ _ mst db3]) (auto simp: refused_def refusing_lock_def)
    next
      case False
      then show ?thesis using rest free ast mst M(1,3,5) A(3,5) db1 db3
        by (intro counted_effect [of _ _ _ _ _ _ _ _ db3]) (auto simp: refused_def)
    qed
  qed
qed

lemma runChallenge_cases:
  assumes "runChallenge env tid m pin a ctx oid db = (r, db')"
  obtains e where "r = Inl e" "db' = db"
  | d i where "r = Inr (d, i)" "challenge_effect env tid m pin a ctx oid db d i db'"
proof (cases r)
  case (Inl e)
  with assms show ?thesis using that(1) store_run_Inl unfolding runChallenge_def by blast
next
  case (Inr p)
  obtain d i where "p = (d, i)" by fastforce
  with assms Inr have "challengeBody env tid m pin a ctx oid db = Inr ((d, i), db')" by (simp add: runChallenge_def store_run_Inr)
  from challengeBody_effect [OF this] show ?thesis using Inr \<open>p = (d, i)\<close> by (intro that(2)) simp_all
qed

lemma verifyLiveChallenge_cases:
  assumes "verifyLiveChallenge env tid m pin a ctx oid db = (r, db')"
  obtains e where "r = Inl e" "db' = db"
  | d i where "r = resolveChallengeDecision d" "challenge_effect env tid m pin a ctx oid db d i db'"
proof -
  obtain p db1 where run: "runChallenge env tid m pin a ctx oid db = (p, db1)" by fastforce
  from run show ?thesis
  proof (cases rule: runChallenge_cases)
    case (1 e)
    with assms run show ?thesis by (intro that(1)) (auto simp: verifyLiveChallenge_def op_bind_def)
  next
    case (2 d i)
    with assms run show ?thesis by (intro that(2) [of d i]) (auto simp: verifyLiveChallenge_def op_bind_def op_lift_def)
  qed
qed

lemma verifyOutcome_succeeded:
  "verifyOutcome env tid m pin db = succeeded \<longleftrightarrow> (\<exists>u hash. find_row (\<lambda>u. us_tenantId u = tid \<and> us_id u = m) (db_users db) = Some u \<and>
     us_isActive u \<and> us_pinHash u = Some hash \<and> js_trim pin \<noteq> [] \<and> env_verifyPin env tid m pin hash)"
  by (auto simp: verifyOutcome_def split: option.splits)

lemma challenge_verified:
  assumes "verifyLiveChallenge env tid m pin a ctx oid db = (Inr t, db')"
  shows "\<exists>u\<in>set (db_users db). us_tenantId u = tid \<and> us_id u = m \<and> us_isActive u \<and>
    js_trim pin \<noteq> [] \<and> (\<exists>hash. us_pinHash u = Some hash \<and> env_verifyPin env tid m pin hash)"
  using assms
proof (cases rule: verifyLiveChallenge_cases)
  case (2 d i)
  then have "challenge_outcome env tid m pin a db = succeeded" by (cases d) (auto simp: challenge_effect_def Let_def)
  then have "verifyOutcome env tid m pin db = succeeded" by (simp add: challenge_outcome_def split: if_splits)
  then show ?thesis unfolding verifyOutcome_succeeded using find_row_Some by fast
qed simp

lemma retrySeconds_covers:
  assumes "0 < ms"
  shows "ms \<le> 1000 * retrySeconds ms \<and> 1000 * (retrySeconds ms - 1) < ms"
proof -
  obtain q r where q: "q = (- ms) div 1000" "r = (- ms) mod 1000" by blast
  then have "- ms = q * 1000 + r" "0 \<le> r" "r < 1000" by simp_all
  then have "ms \<le> 1000 * (- q)" "1000 * (- q - 1) < ms" by (simp_all add: algebra_simps)
  with assms q(1) show ?thesis by (auto simp: retrySeconds_def)
qed

text \<open>
  C23. The live challenge: a challenge that commits records exactly one attempt with this actor, manager,
  context and order at the time of the transaction, and nothing but the attempts, the two lockout tables and the
  audit log changes. It authenticates only the PIN of an active manager of the tenant while neither the
  actor nor the manager is locked; under a lock it is recorded as rejected, leaves every counter as it
  was and tells how long to wait, in the least number of full seconds that covers the rest of the lock that refused it (the actor's if
  it is active, otherwise the manager's); a wrong PIN and an unknown
  manager end in one indistinguishable error. A challenge that does not commit changes nothing.
\<close>

theorem verifyLiveChallenge_correct:
  assumes "verifyLiveChallenge env tid m pin a ctx oid db = (r, db')"
  shows "(db' = db \<and> isl r) \<or>
    (\<exists>i out. db_attempts db' = db_attempts db @ [attempt_row env tid m a ctx oid i out] \<and>
       (\<exists>als mls aus. db' = db\<lparr>db_attempts := db_attempts db', db_actorLockouts := als, db_managerLockouts := mls,
          db_audit := db_audit db @ aus\<rparr>) \<and>
       (out = rejected_locked \<longleftrightarrow> isActiveLock (lock_state (db_actorLockouts db) tid a) (env_now env) \<or>
          isActiveLock (lock_state (db_managerLockouts db) tid m) (env_now env)) \<and>
       (case out of
          succeeded \<Rightarrow> r = Inr (env_now env) \<and> (\<exists>u\<in>set (db_users db). us_tenantId u = tid \<and> us_id u = m \<and> us_isActive u \<and>
             js_trim pin \<noteq> [] \<and> (\<exists>hash. us_pinHash u = Some hash \<and> env_verifyPin env tid m pin hash))
        | rejected_locked \<Rightarrow> (\<exists>s until. r = Inl (ManagerOverrideRateLimitedError s) \<and>
               lo_lockedUntil (if isActiveLock (lock_state (db_actorLockouts db) tid a) (env_now env)
                 then lock_state (db_actorLockouts db) tid a else lock_state (db_managerLockouts db) tid m) = Some until \<and>
               until - env_now env \<le> 1000 * s \<and> 1000 * (s - 1) < until - env_now env) \<and>
             lock_state (db_actorLockouts db') = lock_state (db_actorLockouts db) \<and>
             lock_state (db_managerLockouts db') = lock_state (db_managerLockouts db) \<and> db_audit db' = db_audit db
        | _ \<Rightarrow> r = Inl ManagerOverrideAuthenticationError))"
  using assms
proof (cases rule: verifyLiveChallenge_cases)
  case (1 e)
  then show ?thesis by simp
next
  case (2 d i)
  let ?out = "challenge_outcome env tid m pin a db"
  from op_ensuresD [OF challenge_frame(1) assms] obtain ats als mls aus where
    frame: "db' = db\<lparr>db_attempts := db_attempts db @ ats, db_actorLockouts := als, db_managerLockouts := mls, db_audit := db_audit db @ aus\<rparr>"
    unfolding override_frame_def by blast
  have row: "db_attempts db' = db_attempts db @ [attempt_row env tid m a ctx oid i ?out]"
    using 2(2) by (simp add: challenge_effect_def Let_def)
  have locked: "?out = rejected_locked \<longleftrightarrow> refused db tid m a (env_now env)"
    by (simp add: challenge_outcome_def verifyOutcome_cases)
  have "case ?out of
          succeeded \<Rightarrow> r = Inr (env_now env) \<and> (\<exists>u\<in>set (db_users db). us_tenantId u = tid \<and> us_id u = m \<and> us_isActive u \<and>
             js_trim pin \<noteq> [] \<and> (\<exists>hash. us_pinHash u = Some hash \<and> env_verifyPin env tid m pin hash))
        | rejected_locked \<Rightarrow> (\<exists>s until. r = Inl (ManagerOverrideRateLimitedError s) \<and>
               lo_lockedUntil (if isActiveLock (lock_state (db_actorLockouts db) tid a) (env_now env)
                 then lock_state (db_actorLockouts db) tid a else lock_state (db_managerLockouts db) tid m) = Some until \<and>
               until - env_now env \<le> 1000 * s \<and> 1000 * (s - 1) < until - env_now env) \<and>
             lock_state (db_actorLockouts db') = lock_state (db_actorLockouts db) \<and>
             lock_state (db_managerLockouts db') = lock_state (db_managerLockouts db) \<and> db_audit db' = db_audit db
        | _ \<Rightarrow> r = Inl ManagerOverrideAuthenticationError"
  proof (cases ?out)
    case succeeded
    with 2 have r: "r = Inr (env_now env)" by (cases d) (auto simp: challenge_effect_def Let_def)
    with assms challenge_verified succeeded show ?thesis by simp
  next
    case rejected_locked
    with 2 obtain ms where d: "d = rate_limited ms" "0 < ms" "lo_lockedUntil (refusing_lock db tid m a (env_now env)) = Some (env_now env + ms)"
      by (cases d) (auto simp: challenge_effect_def Let_def)
    with 2 have "r = Inl (ManagerOverrideRateLimitedError (retrySeconds ms))" by simp
    with d retrySeconds_covers [OF d(2)] have "\<exists>s until. r = Inl (ManagerOverrideRateLimitedError s) \<and>
        lo_lockedUntil (refusing_lock db tid m a (env_now env)) = Some until \<and> until - env_now env \<le> 1000 * s \<and> 1000 * (s - 1) < until - env_now env"
      by (intro exI [of _ "retrySeconds ms"] exI [of _ "env_now env + ms"]) simp
    moreover from rejected_locked 2(2) have "lock_state (db_actorLockouts db') = lock_state (db_actorLockouts db)"
      "lock_state (db_managerLockouts db') = lock_state (db_managerLockouts db)" "db_audit db' = db_audit db"
      by (simp_all add: challenge_effect_def Let_def next_manager_def next_actor_def manager_state_def actor_state_def split: prod.splits)
    ultimately show ?thesis using rejected_locked unfolding refusing_lock_def actor_state_def manager_state_def by simp
  qed (use 2 in \<open>cases d; auto simp: challenge_effect_def Let_def\<close>)+
  with row locked frame show ?thesis
    by (intro disjI2 exI [of _ i] exI [of _ ?out]) (auto simp: refused_def actor_state_def manager_state_def)
qed

section \<open>Histories of challenges\<close>

text \<open>
  Any sequence of challenges, in any environments, as long as the clock does not run backwards, interleaved
  with whatever leaves the ledger and the counters alone.
\<close>

inductive challenge_history :: "pos_db \<Rightarrow> int \<Rightarrow> bool" where
  clean: "db_attempts db = [] \<Longrightarrow> db_actorLockouts db = [] \<Longrightarrow> db_managerLockouts db = [] \<Longrightarrow> challenge_history db t"
| challenge: "challenge_history db t \<Longrightarrow> t \<le> env_now env \<Longrightarrow> runChallenge env tid m pin a ctx oid db = (r, db') \<Longrightarrow>
    challenge_history db' (env_now env)"
| elsewhere: "challenge_history db t \<Longrightarrow> t \<le> t' \<Longrightarrow> db_attempts db' = db_attempts db \<Longrightarrow>
    db_actorLockouts db' = db_actorLockouts db \<Longrightarrow> db_managerLockouts db' = db_managerLockouts db \<Longrightarrow> challenge_history db' t'"

definition is_failure :: "attempt_outcome \<Rightarrow> bool" where
  "is_failure out \<longleftrightarrow> out = failed_wrong_pin \<or> out = failed_unknown_or_inactive_manager"

text \<open>The times of an actor's failures, and of the failures against a manager since the last success there.\<close>

definition actor_failures :: "string \<Rightarrow> string \<Rightarrow> override_attempt_row list \<Rightarrow> int list" where
  "actor_failures tid a ats = map oa_createdAt
     (filter (\<lambda>x. oa_tenantId x = tid \<and> oa_initiatingActorUserId x = a \<and> is_failure (oa_outcome x)) ats)"

definition failure_run :: "string \<Rightarrow> string \<Rightarrow> override_attempt_row \<Rightarrow> int list \<Rightarrow> int list" where
  "failure_run tid m x ts =
     (if oa_tenantId x = tid \<and> oa_targetManagerUserId x = m
      then if oa_outcome x = succeeded then [] else if is_failure (oa_outcome x) then ts @ [oa_createdAt x] else ts
      else ts)"

definition manager_failures :: "string \<Rightarrow> string \<Rightarrow> override_attempt_row list \<Rightarrow> int list" where
  "manager_failures tid m ats = fold (failure_run tid m) ats []"

definition history_ok :: "pos_db \<Rightarrow> int \<Rightarrow> bool" where
  "history_ok db t \<longleftrightarrow> (\<forall>tid u.
     counter_ok PER_ACTOR_FAILURE_THRESHOLD ACTOR_LOCK_MS (actor_failures tid u (db_attempts db)) (actor_state db tid u) \<and>
     counter_ok PER_MANAGER_FAILURE_THRESHOLD MANAGER_LOCK_MS (manager_failures tid u (db_attempts db)) (manager_state db tid u) \<and>
     (\<forall>x\<in>set (actor_failures tid u (db_attempts db)). x \<le> t) \<and> (\<forall>x\<in>set (manager_failures tid u (db_attempts db)). x \<le> t))"

lemma history_ok_later: "history_ok db t \<Longrightarrow> t \<le> t' \<Longrightarrow> history_ok db t'"
  unfolding history_ok_def by (meson order_trans)

lemma attempts_snoc:
  "actor_failures tid u (ats @ [attempt_row env t m a ctx oid i out]) =
     actor_failures tid u ats @ (if t = tid \<and> a = u \<and> is_failure out then [env_now env] else [])"
  "manager_failures tid u (ats @ [attempt_row env t m a ctx oid i out]) =
     (if t = tid \<and> m = u then if out = succeeded then [] else manager_failures tid u ats @ (if is_failure out then [env_now env] else [])
      else manager_failures tid u ats)"
  by (auto simp: actor_failures_def manager_failures_def failure_run_def attempt_row_def is_failure_def)

lemma challenge_keeps_history:
  assumes ok: "history_ok db t" and now: "t \<le> env_now env" and eff: "challenge_effect env tid m pin a ctx oid db d i db'"
  shows "history_ok db' (env_now env)"
  unfolding history_ok_def
proof (intro allI)
  fix s u
  define out where "out = challenge_outcome env tid m pin a db"
  have row: "db_attempts db' = db_attempts db @ [attempt_row env tid m a ctx oid i out]"
    and act: "actor_state db' s u = (if s = tid \<and> u = a then next_actor (env_now env) out (actor_state db tid a) else actor_state db s u)"
    and mgr: "manager_state db' s u = (if s = tid \<and> u = m then next_manager (env_now env) out (manager_state db tid m) else manager_state db s u)"
    using eff by (auto simp: challenge_effect_def Let_def out_def actor_state_def manager_state_def)
  have free: "is_failure out \<Longrightarrow> \<not> isActiveLock (actor_state db tid a) (env_now env) \<and> \<not> isActiveLock (manager_state db tid m) (env_now env)"
    by (auto simp: out_def challenge_outcome_def refused_def is_failure_def split: if_splits)
  have old: "counter_ok PER_ACTOR_FAILURE_THRESHOLD ACTOR_LOCK_MS (actor_failures s u (db_attempts db)) (actor_state db s u)"
    "counter_ok PER_MANAGER_FAILURE_THRESHOLD MANAGER_LOCK_MS (manager_failures s u (db_attempts db)) (manager_state db s u)"
    and le: "\<And>x. x \<in> set (actor_failures s u (db_attempts db)) \<Longrightarrow> x \<le> env_now env"
      "\<And>x. x \<in> set (manager_failures s u (db_attempts db)) \<Longrightarrow> x \<le> env_now env"
    using history_ok_later [OF ok now] unfolding history_ok_def by blast+
  have last: "actor_failures s u (db_attempts db) = [] \<or> last (actor_failures s u (db_attempts db)) \<le> env_now env"
    "manager_failures s u (db_attempts db) = [] \<or> last (manager_failures s u (db_attempts db)) \<le> env_now env"
    using le last_in_set by blast+
  have kind: "is_failure out \<or> out = rejected_locked \<or> out = succeeded" by (cases out) (auto simp: is_failure_def)
  have "counter_ok PER_ACTOR_FAILURE_THRESHOLD ACTOR_LOCK_MS (actor_failures s u (db_attempts db')) (actor_state db' s u)"
    using old(1) actor_counter.failure [OF old(1) last(1)] free kind
    by (auto simp: row attempts_snoc act next_actor_def is_failure_def)
  moreover have "counter_ok PER_MANAGER_FAILURE_THRESHOLD MANAGER_LOCK_MS (manager_failures s u (db_attempts db')) (manager_state db' s u)"
    using old(2) manager_counter.failure [OF old(2) last(2)] manager_counter.fresh free kind
    by (auto simp: row attempts_snoc mgr next_manager_def is_failure_def)
  ultimately show "counter_ok PER_ACTOR_FAILURE_THRESHOLD ACTOR_LOCK_MS (actor_failures s u (db_attempts db')) (actor_state db' s u) \<and>
     counter_ok PER_MANAGER_FAILURE_THRESHOLD MANAGER_LOCK_MS (manager_failures s u (db_attempts db')) (manager_state db' s u) \<and>
     (\<forall>x\<in>set (actor_failures s u (db_attempts db')). x \<le> env_now env) \<and> (\<forall>x\<in>set (manager_failures s u (db_attempts db')). x \<le> env_now env)"
    using le by (auto simp: row attempts_snoc)
qed

lemma challenge_history_ok: "challenge_history db t \<Longrightarrow> history_ok db t"
proof (induction rule: challenge_history.induct)
  case (clean db t)
  then show ?case using actor_counter.fresh manager_counter.fresh
    by (simp add: history_ok_def actor_failures_def manager_failures_def actor_state_def manager_state_def lock_state_def find_row_def)
next
  case (challenge db t env tid m pin a ctx oid r db')
  from challenge.hyps(3) show ?case
  proof (cases rule: runChallenge_cases)
    case (1 e)
    with challenge history_ok_later show ?thesis by blast
  next
    case (2 d i)
    with challenge challenge_keeps_history show ?thesis by blast
  qed
next
  case (elsewhere db t t' db')
  then have "history_ok db' t" by (simp add: history_ok_def actor_state_def manager_state_def)
  with elsewhere history_ok_later show ?case by blast
qed

text \<open>
  C22. Guessing is bounded, whatever the sequence of challenges: in any stretch of \<open>n\<close> times fifteen minutes one
  employee has at most \<open>10 (n + 1)\<close> failed attempts, over all managers and contexts together, and a manager's PIN is
  guessed wrongly at most \<open>5 (n + 1)\<close> times in a row.
\<close>

theorem guessing_bounded:
  assumes "challenge_history db now"
  shows "between t (t + int n * (15 * 60000)) (actor_failures tid a (db_attempts db)) \<le> 10 * (int n + 1) \<and>
    between t (t + int n * (15 * 60000)) (manager_failures tid m (db_attempts db)) \<le> 5 * (int n + 1)"
  using challenge_history_ok [OF assms]
  by (simp add: history_ok_def counter_ok_def COUNT_WINDOW_MS_def PER_ACTOR_FAILURE_THRESHOLD_def PER_MANAGER_FAILURE_THRESHOLD_def)

section \<open>A lock is over\<close>

lemma db_check_accepted: "(\<And>db w. env_reject env db w = None) \<Longrightarrow> db_check env w db = Inr ((), db)"
  by (simp add: db_check_Inr)

lemma challengeBody_total:
  assumes "\<And>db w. env_reject env db w = None"
  shows "\<exists>r. challengeBody env tid m pin a ctx oid db = Inr r"
proof -
  note accept = db_check_accepted [OF assms]
  have attempt: "\<exists>i s. appendAttempt env tid m a ctx oid out db = Inr (i, s)" for out db
    by (simp add: appendAttempt_def tx_run accept)
  have reject: "isActiveLock st (env_now env) \<Longrightarrow> \<exists>r. rejectLocked env tid m a ctx oid st db = Inr r" for st db
    using attempt [of rejected_locked db] by (auto simp: rejectLocked_def tx_run isActiveLock_def split: option.splits)
  have up: "\<exists>s. upsertActorRow env tid a db = Inr ((), s)" "\<exists>s. upsertManagerRow env tid m db = Inr ((), s)" for db
    by (auto simp: upsertActorRow_def upsertManagerRow_def tx_run accept)
  have row: "upsertActorRow env tid a db = Inr ((), s) \<Longrightarrow> \<exists>st. lockStateRow db_actorLockouts tid a s = Inr (st, s)"
    "upsertManagerRow env tid m db = Inr ((), s) \<Longrightarrow> \<exists>st. lockStateRow db_managerLockouts tid m s = Inr (st, s)" for db s
    by (auto simp: upsertActorRow_def upsertManagerRow_def lockStateRow_def accept find_row_append find_row_fresh tx_run
        split: if_splits option.splits)
  have counters: "\<exists>s. managerCounter env tid m st out db = Inr ((), s)" "\<exists>s. actorCounter env tid a st out db = Inr ((), s)" for st out db
    by (auto simp: managerCounter_def actorCounter_def setManagerRow_def setActorRow_def appendAuditEvidence_def tx_run accept
        split: prod.splits)
  have counted: "\<exists>r. countedChallenge env tid m pin a ctx oid ast mst db = Inr r" for ast mst db
  proof -
    obtain i s where "appendAttempt env tid m a ctx oid (verifyOutcome env tid m pin db) db = Inr (i, s)" using attempt by blast
    moreover obtain s1 where "managerCounter env tid m mst (verifyOutcome env tid m pin db) s = Inr ((), s1)" using counters(1) by blast
    moreover obtain s2 where "actorCounter env tid a ast (verifyOutcome env tid m pin db) s1 = Inr ((), s2)" using counters(2) by blast
    ultimately show ?thesis by (simp add: countedChallenge_def tx_run)
  qed
  obtain s1 where s1: "upsertActorRow env tid a db = Inr ((), s1)" using up(1) by blast
  obtain ast where ast: "lockStateRow db_actorLockouts tid a s1 = Inr (ast, s1)" using row(1) [OF s1] by blast
  obtain s2 where s2: "upsertManagerRow env tid m s1 = Inr ((), s2)" using up(2) by blast
  obtain mst where mst: "lockStateRow db_managerLockouts tid m s2 = Inr (mst, s2)" using row(2) [OF s2] by blast
  show ?thesis using s1 ast s2 mst reject counted by (simp add: challengeBody_def tx_bind_run)
qed

text \<open>
  C24. Nobody is locked out for good: from any history of challenges, once fifteen minutes have passed since
  the last counted failure against the manager and thirty since the last one of the actor, the correct PIN
  of an active manager authenticates at once. Attempts rejected meanwhile do not matter.
\<close>

theorem challenge_possible_again:
  assumes "challenge_history db t" and "\<And>db w. env_reject env db w = None" and "env_tenantGate env tid = Inr ()"
    and "verifyOutcome env tid m pin db = succeeded"
    and "\<forall>x\<in>set (actor_failures tid a (db_attempts db)). x + 30 * 60000 \<le> env_now env"
    and "\<forall>x\<in>set (manager_failures tid m (db_attempts db)). x + 15 * 60000 \<le> env_now env"
  shows "fst (verifyLiveChallenge env tid m pin a ctx oid db) = Inr (env_now env)"
proof -
  have ok: "counter_ok PER_ACTOR_FAILURE_THRESHOLD ACTOR_LOCK_MS (actor_failures tid a (db_attempts db)) (actor_state db tid a)"
    "counter_ok PER_MANAGER_FAILURE_THRESHOLD MANAGER_LOCK_MS (manager_failures tid m (db_attempts db)) (manager_state db tid m)"
    using challenge_history_ok [OF assms(1)] by (auto simp: history_ok_def)
  have "\<not> refused db tid m a (env_now env)"
    using actor_counter.lock_ends [OF ok(1)] manager_counter.lock_ends [OF ok(2)] assms(5,6)
    by (simp add: refused_def ACTOR_LOCK_MS_def MANAGER_LOCK_MS_def)
  then have out: "challenge_outcome env tid m pin a db = succeeded" using assms(4) by (simp add: challenge_outcome_def)
  obtain d i db' where body: "challengeBody env tid m pin a ctx oid db = Inr ((d, i), db')"
    using challengeBody_total [OF assms(2)] by (metis prod.collapse)
  from challengeBody_effect [OF body] out have "d = authenticated (env_now env)"
    by (cases d) (auto simp: challenge_effect_def Let_def)
  with body assms(3) show ?thesis
    by (simp add: verifyLiveChallenge_def runChallenge_def store_run_run op_bind_run op_lift_def)
qed

section \<open>Challenges in the example restaurant\<close>

definition example_attempt :: "attempt_outcome \<Rightarrow> override_attempt_row" where
  "example_attempt out = attempt_row example_env ''t1'' ''m1'' ''c1'' ''discount'' (Some ''o1'') ''u111'' out"

definition example_challenged_db :: pos_db where
  "example_challenged_db = example_db\<lparr>db_attempts := [example_attempt succeeded],
     db_actorLockouts := [fresh_lockout ''t1'' ''c1''], db_managerLockouts := [fresh_lockout ''t1'' ''m1'']\<rparr>"

definition example_failed_db :: pos_db where
  "example_failed_db = example_db\<lparr>db_attempts := [example_attempt failed_wrong_pin],
     db_actorLockouts := [(fresh_lockout ''t1'' ''c1'')\<lparr>lo_consecutiveFailures := 1, lo_windowStartedAt := Some 1000\<rparr>],
     db_managerLockouts := [(fresh_lockout ''t1'' ''m1'')\<lparr>lo_consecutiveFailures := 1, lo_windowStartedAt := Some 1000\<rparr>]\<rparr>"

lemmas challenge_run = example_attempt_def attempt_row_def example_challenged_db_def example_failed_db_def verifyLiveChallenge_def runChallenge_def
  challengeBody_def countedChallenge_def upsertActorRow_def upsertManagerRow_def lockStateRow_def fresh_lockout_def
  lockout_key_def isActiveLock_def verifyOutcome_def appendAttempt_def managerCounter_def actorCounter_def
  setManagerRow_def setActorRow_def countFailure_def advanceWindow_def PER_MANAGER_FAILURE_THRESHOLD_def
  PER_ACTOR_FAILURE_THRESHOLD_def COUNT_WINDOW_MS_def

lemma example_pins: "js_trim ''4711'' = ''4711'' \<and> js_trim ''4712'' = ''4712''"
  by code_simp

lemma example_challenges:
  "verifyLiveChallenge example_env ''t1'' ''m1'' ''4711'' ''c1'' ''discount'' (Some ''o1'') example_db = (Inr 1000, example_challenged_db)"
  by (simp add: example_run challenge_run example_pins cong: db_run_cong)

lemma example_fails:
  "snd (runChallenge example_env ''t1'' ''m1'' ''4712'' ''c1'' ''discount'' (Some ''o1'') example_db) = example_failed_db"
  by (simp add: example_run challenge_run example_pins cong: db_run_cong)

lemma example_history: "challenge_history example_failed_db 1000"
proof -
  have clean: "challenge_history example_db 0" by (rule challenge_history.clean) (simp_all add: example_db_def)
  obtain r where "runChallenge example_env ''t1'' ''m1'' ''4712'' ''c1'' ''discount'' (Some ''o1'') example_db = (r, example_failed_db)"
    using example_fails by (metis prod.collapse)
  from challenge_history.challenge [OF clean _ this] show ?thesis by (simp add: example_env_def)
qed

theorem verifyLiveChallenge_correct_witness:
  "db_attempts example_challenged_db = [example_attempt succeeded] \<and>
   (\<exists>u\<in>set (db_users example_db). us_id u = ''m1'' \<and> us_isActive u \<and> us_pinHash u = Some ''4711'')"
  using verifyLiveChallenge_correct [OF example_challenges]
  by (auto simp: example_challenged_db_def example_attempt_def example_env_def example_db_def attempt_row_def)

theorem guessing_bounded_witness:
  "actor_failures ''t1'' ''c1'' (db_attempts example_failed_db) = [1000] \<and>
   between 0 (0 + int 1 * (15 * 60000)) (actor_failures ''t1'' ''c1'' (db_attempts example_failed_db)) \<le> 10 * (int 1 + 1)"
  using guessing_bounded [OF example_history, of 0 1 "''t1''" "''c1''" "''m1''"]
  by (simp add: actor_failures_def example_failed_db_def example_attempt_def attempt_row_def is_failure_def example_env_def)

theorem challenge_possible_again_witness:
  "fst (verifyLiveChallenge (example_env\<lparr>env_now := 1801000\<rparr>) ''t1'' ''m1'' ''4711'' ''c1'' ''void'' None example_failed_db) = Inr 1801000"
  using challenge_possible_again [OF example_history, of "example_env\<lparr>env_now := 1801000\<rparr>" "''t1''" "''m1''" "''4711''" "''c1''" "''void''" None]
  by (simp add: example_env_def example_failed_db_def example_db_def verifyOutcome_def find_row_def example_pins actor_failures_def
      manager_failures_def failure_run_def example_attempt_def attempt_row_def is_failure_def)

end
