(* ===== verification/Discount_Correct.thy ===== *)
theory Discount_Correct
  imports Discount_Engine Override_Correct
begin

text \<open>
  Properties of the discount engine: a discount never exceeds what remains of the order, the totals
  recomputed afterwards are lower by exactly that amount, nobody applies a discount of a kind they were
  not granted, and what exceeds a cap or zeroes the order out carries the evidence of a manager.
\<close>

lemma prePass_Inr:
  assumes "prePass tid u input db = Inr (pre, db')"
  shows "db' = db" "\<exists>snap c. loadOrderFinancialSnapshot tid (ad_orderId input) db = Inr (Some snap) \<and>
    andThen (currencyCode (sn_baseCurrencyCode snap)) storageMinorUnitDigits = Inr (pd_baseDigits pre) \<and>
    parseDiscountCaps (case loadUserDiscountCaps tid u db of None \<Rightarrow> None | Some c \<Rightarrow> uc_maxDiscountPercentage c)
      (case loadUserDiscountCaps tid u db of None \<Rightarrow> None | Some c \<Rightarrow> uc_maxDiscountFixedAmount c) (pd_baseDigits pre) = Inr (pd_caps pre) \<and>
    assertKindGranted (ad_discountKind input) (pd_caps pre) = Inr ()"
  using assms by (auto simp: prePass_def tx_simps Let_def split: if_splits)

lemma escalate_frame: "op_ensures override_frame (escalate env tid u input pre)"
  unfolding escalate_def by (auto intro!: overrides.op_values overrides.op_bnd challenge_frame split: option.splits)

lemma escalate_Inr:
  assumes "escalate env tid u input pre db = (Inr challenged, db')"
  shows "override_frame db db'" "challenged \<longleftrightarrow> required (pd_requirement pre)"
    "challenged \<Longrightarrow> \<exists>ch t. ad_managerOverride input = Some ch \<and>
       verifyLiveChallenge env tid (mo_managerUserId ch) (mo_managerOverridePin ch) u ''discount'' (Some (ad_orderId input)) db = (Inr t, db')"
  using assms op_ensuresD [OF escalate_frame assms]
  by (auto simp: escalate_def tx_simps split: if_splits option.splits)

lemma insertOrderDiscount_Inr:
  assumes "insertOrderDiscount env tid dis db = Inr (r, db')"
  shows "db' = db\<lparr>db_discounts := db_discounts db @ [r]\<rparr>" "od_tenantId r = tid" "od_orderId r = id_orderId dis"
    "od_appliedBy r = id_appliedBy dis" "numeric4 (id_discountAmountApplied dis) = Inr (od_discountAmountApplied r)"
    "od_requiredManagerOverride r = id_requiredManagerOverride dis"
    "od_managerOverrideAttemptId r = id_managerOverrideAttemptId dis" "od_couponId r = id_couponId dis"
    "od_mechanism r = id_mechanism dis" "od_discountKind r = id_discountKind dis"
  using assms by (auto simp: insertOrderDiscount_def tx_simps Let_def mapErr_Inr_iff)

lemma couponForWrite_Inr:
  assumes "couponForWrite env tid input s d db = Inr (cu, db')"
  shows "db' = db" "case cu of None \<Rightarrow> ad_mechanism input \<noteq> coupon
    | Some (cid, ccode) \<Rightarrow> ad_mechanism input = coupon \<and> (\<exists>cp. loadCouponByCode tid ccode db = Some cp \<and> cp_id cp = cid \<and>
        assertCouponUsable (env_now env) cp s d = Inr ())"
  using assms by (auto simp: couponForWrite_def tx_simps split: if_splits)

lemma overrideEvidence_Inr:
  assumes "overrideEvidence tid u input rq db = Inr (att, db')"
  shows "db' = db" "if required rq
    then \<exists>ch i. ad_managerOverride input = Some ch \<and> att = Some i \<and>
      findSuccessfulOverrideAttemptId tid u (mo_managerUserId ch) (ad_orderId input) ''discount'' db = Some i
    else att = None"
  using assms by (auto simp: overrideEvidence_def tx_simps split: if_splits)

text \<open>The decisions of the write transaction, on the state it starts from.\<close>

lemma bump_only_orders:
  "bumpOrderRevision env tid oid db = Inr (x, db1) \<Longrightarrow>
   \<exists>os. db1 = db\<lparr>db_orders := os\<rparr> \<and> map order_key os = map order_key (db_orders db)"
  by (auto simp: bumpOrderRevision_def tx_simps order_key_def intro!: exI update_where_keys)

lemma coupon_reads_ignore_orders:
  "couponForWrite env tid input s d (db\<lparr>db_orders := os\<rparr>) = Inr (cu, db\<lparr>db_orders := os\<rparr>) \<longleftrightarrow>
   couponForWrite env tid input s d db = Inr (cu, db)"
  "overrideEvidence tid u input rq (db\<lparr>db_orders := os\<rparr>) = Inr (att, db\<lparr>db_orders := os\<rparr>) \<longleftrightarrow>
   overrideEvidence tid u input rq db = Inr (att, db)"
  by (auto simp: couponForWrite_def overrideEvidence_def tx_simps loadCouponByCode_def findSuccessfulOverrideAttemptId_def)

definition discount_decision :: "pos_env \<Rightarrow> string \<Rightarrow> string \<Rightarrow> apply_discount_input \<Rightarrow> discount_pre_pass \<Rightarrow> bool \<Rightarrow>
    order_financial_snapshot \<Rightarrow> order_totals_computation \<Rightarrow> discount_stage_computation \<Rightarrow> discount_override_requirement \<Rightarrow>
    (string \<times> string) option \<Rightarrow> pos_db \<Rightarrow> order_discount_record \<Rightarrow> bool" where
  "discount_decision env tid u input pre challenged snap t stage requirement cu db r \<longleftrightarrow>
     loadOrderFinancialSnapshot tid (ad_orderId input) db = Inr (Some snap) \<and> computeOrderTotals snap = Inr t \<and>
     (\<exists>rq. parseDiscountRequest (ad_discountKind input) (ad_discountValueText input) (pd_baseDigits pre) = Inr rq \<and>
        computeDiscountStage (ot_subtotalMinor t - ot_discountTotalMinor t) rq = Inr stage \<and>
        discountOverrideRequirement stage rq (pd_caps pre) = Inr requirement) \<and>
     (required requirement \<longrightarrow> challenged) \<and>
     couponForWrite env tid input (ot_subtotalMinor t) (pd_baseDigits pre) db = Inr (cu, db) \<and>
     overrideEvidence tid u input requirement db = Inr (od_managerOverrideAttemptId r, db) \<and>
     (\<exists>text0. minorToDecimalText (appliedMinor stage) (pd_baseDigits pre) = Inr text0 \<and>
        numeric4 text0 = Inr (od_discountAmountApplied r)) \<and>
     od_tenantId r = tid \<and> od_orderId r = ad_orderId input \<and> od_appliedBy r = u \<and> od_mechanism r = ad_mechanism input \<and>
     od_discountKind r = ad_discountKind input \<and> od_requiredManagerOverride r = required requirement \<and>
     od_couponId r = map_option fst cu"

lemma discountBody_Inr:
  assumes "discountBody env tid u input pre challenged db = Inr (r, db')"
  shows "\<exists>snap t stage requirement cu os. discount_decision env tid u input pre challenged snap t stage requirement cu db r \<and>
    map order_key os = map order_key (db_orders db) \<and>
    db' = db\<lparr>db_orders := os, db_discounts := db_discounts db @ [r],
      db_coupons := (case cu of None \<Rightarrow> db_coupons db
        | Some (cid, _) \<Rightarrow> update_where (\<lambda>c. cp_tenantId c = tid \<and> cp_id c = cid)
            (\<lambda>c. c\<lparr>cp_usesCount := cp_usesCount c + 1\<rparr>) (db_coupons db))\<rparr>"
proof -
  from assms obtain db1 snap t rq stage requirement cu att db2 db3 vtext atext db4 where
    bump: "bumpOrderRevision env tid (ad_orderId input) db = Inr ((), db1)" and
    snap: "loadOrderFinancialSnapshot tid (ad_orderId input) db1 = Inr (Some snap)" and
    t: "computeOrderTotals snap = Inr t" and
    rq: "parseDiscountRequest (ad_discountKind input) (ad_discountValueText input) (pd_baseDigits pre) = Inr rq"
      "computeDiscountStage (ot_subtotalMinor t - ot_discountTotalMinor t) rq = Inr stage"
      "discountOverrideRequirement stage rq (pd_caps pre) = Inr requirement" "required requirement \<longrightarrow> challenged" and
    cu: "couponForWrite env tid input (ot_subtotalMinor t) (pd_baseDigits pre) db1 = Inr (cu, db2)" and
    att: "overrideEvidence tid u input requirement db2 = Inr (att, db3)" and
    atext: "minorToDecimalText (appliedMinor stage) (pd_baseDigits pre) = Inr atext" and
    ins: "insertOrderDiscount env tid \<lparr>id_id = env_uuid env db3, id_orderId = ad_orderId input,
        id_mechanism = ad_mechanism input, id_couponId = map_option fst cu,
        id_couponCode = map_option snd cu, id_discountKind = ad_discountKind input,
        id_discountValue = vtext, id_discountAmountApplied = atext,
        id_requiredManagerOverride = required requirement, id_managerOverrideAttemptId = att,
        id_appliedBy = u\<rparr> db3 = Inr (r, db4)" and
    inc: "(case cu of None \<Rightarrow> tx_return () | Some (couponId, _) \<Rightarrow> incrementCouponUses env tid couponId) db4 = Inr ((), db')"
    unfolding discountBody_def tx_simps Let_def by fastforce
  from bump_only_orders [OF bump] obtain os where os: "db1 = db\<lparr>db_orders := os\<rparr>" "map order_key os = map order_key (db_orders db)"
    by blast
  have same: "db2 = db1" "db3 = db1" using couponForWrite_Inr(1) [OF cu] overrideEvidence_Inr(1) [OF att] by auto
  note i = insertOrderDiscount_Inr [OF ins]
  have dec: "discount_decision env tid u input pre challenged snap t stage requirement cu db r"
    unfolding discount_decision_def
    using snap [unfolded bump_snapshot(1) [OF bump]] t rq i atext
      cu [unfolded same os(1) coupon_reads_ignore_orders] att [unfolded same os(1) coupon_reads_ignore_orders]
    by auto
  have "db' = db4\<lparr>db_coupons := (case cu of None \<Rightarrow> db_coupons db4
        | Some (cid, _) \<Rightarrow> update_where (\<lambda>c. cp_tenantId c = tid \<and> cp_id c = cid)
            (\<lambda>c. c\<lparr>cp_usesCount := cp_usesCount c + 1\<rparr>) (db_coupons db4))\<rparr>"
    using inc by (auto simp: incrementCouponUses_def tx_simps split: option.splits prod.splits)
  moreover have c4: "db_coupons db4 = db_coupons db" using i(1) same os by simp
  ultimately have "db' = db\<lparr>db_orders := os, db_discounts := db_discounts db @ [r],
      db_coupons := (case cu of None \<Rightarrow> db_coupons db
        | Some (cid, _) \<Rightarrow> update_where (\<lambda>c. cp_tenantId c = tid \<and> cp_id c = cid)
            (\<lambda>c. c\<lparr>cp_usesCount := cp_usesCount c + 1\<rparr>) (db_coupons db))\<rparr>"
    unfolding c4 using i(1) same os by simp
  with dec os(2) show ?thesis by blast
qed

text \<open>The amount a record states, read back at the scale of the currency, is the amount of the stage it was decided on.\<close>

lemma recorded_discount_amount:
  assumes "discount_decision env tid u input pre challenged snap t stage requirement cu db r"
    and d: "andThen (currencyCode (sn_baseCurrencyCode snap)) storageMinorUnitDigits = Inr (pd_baseDigits pre)"
  shows "decimalTextToMinor (od_discountAmountApplied r) (pd_baseDigits pre) ''discountAmountApplied'' = Inr (appliedMinor stage)"
proof -
  from assms(1) obtain text0 where text0: "minorToDecimalText (appliedMinor stage) (pd_baseDigits pre) = Inr text0"
    "numeric4 text0 = Inr (od_discountAmountApplied r)" by (auto simp: discount_decision_def)
  show ?thesis using numeric4_roundtrip(1) [OF _ _ text0] storage_digits [OF d] by simp
qed

section \<open>Totals after a discount\<close>

definition discount_value :: "int \<Rightarrow> string \<Rightarrow> order_discount_record \<Rightarrow> int" where
  "discount_value n f d = projr (decimalTextToMinor (od_discountAmountApplied d) n f)"

lemma discount_fold:
  fixes a :: int
  shows "foldR (\<lambda>sum d. mapResult (decimalTextToMinor (od_discountAmountApplied d) n f) (\<lambda>x. sum + x)) a ds = Inr b \<longleftrightarrow>
    (\<forall>d\<in>set ds. decimalTextToMinor (od_discountAmountApplied d) n f = Inr (discount_value n f d)) \<and>
    b = a + (\<Sum>d\<leftarrow>ds. discount_value n f d)"
proof (induction ds arbitrary: a)
  case (Cons d ds)
  show ?case
  proof (cases "decimalTextToMinor (od_discountAmountApplied d) n f")
    case (Inr m)
    then have "discount_value n f d = m" by (simp add: discount_value_def)
    with Inr Cons [of "a + m"] show ?thesis by (auto simp: ok_def add.assoc)
  qed simp
qed auto

text \<open>The totals when one more discount is stored, wherever it is sorted among the others.\<close>

lemma totals_after_discount:
  assumes t: "computeOrderTotals snap = Inr t" and t': "computeOrderTotals snap' = Inr t'"
    and same: "sn_baseCurrencyCode snap' = sn_baseCurrencyCode snap"
      "map ol_lineAmountMinor (sn_lines snap') = map ol_lineAmountMinor (sn_lines snap)"
    and more: "mset (sn_discounts snap') = add_mset r (mset (sn_discounts snap))"
    and d: "andThen (currencyCode (sn_baseCurrencyCode snap)) storageMinorUnitDigits = Inr d"
    and a: "decimalTextToMinor (od_discountAmountApplied r) d ''discountAmountApplied'' = Inr a"
    and le: "0 \<le> a" "a \<le> ot_subtotalMinor t - ot_discountTotalMinor t"
  shows "ot_subtotalMinor t' = ot_subtotalMinor t \<and> ot_discountTotalMinor t' = ot_discountTotalMinor t + a"
proof -
  let ?v = "discount_value d ''discountAmountApplied''"
  have tot: "ot_subtotalMinor u = (\<Sum>x\<leftarrow>map ol_lineAmountMinor (sn_lines s). x) \<and>
      ot_discountTotalMinor u = min (\<Sum>x\<leftarrow>sn_discounts s. ?v x) (ot_subtotalMinor u)"
    if "computeOrderTotals s = Inr u" "sn_baseCurrencyCode s = sn_baseCurrencyCode snap" for s u
  proof -
    from that(1) obtain cur n raw tax where cur: "currencyCode (sn_baseCurrencyCode s) = Inr cur" "storageMinorUnitDigits cur = Inr n"
      and raw: "foldR (\<lambda>sum discount. mapResult
          (decimalTextToMinor (od_discountAmountApplied discount) n ''discountAmountApplied'') (\<lambda>d. sum + d)) 0 (sn_discounts s) = Inr raw"
      and u: "u = \<lparr>ot_subtotalMinor = (\<Sum>l\<leftarrow>sn_lines s. ol_lineAmountMinor l),
          ot_discountTotalMinor = (if raw > (\<Sum>l\<leftarrow>sn_lines s. ol_lineAmountMinor l) then (\<Sum>l\<leftarrow>sn_lines s. ol_lineAmountMinor l) else raw),
          ot_discountedSubtotalMinor = (\<Sum>l\<leftarrow>sn_lines s. ol_lineAmountMinor l) - (if raw > (\<Sum>l\<leftarrow>sn_lines s. ol_lineAmountMinor l) then (\<Sum>l\<leftarrow>sn_lines s. ol_lineAmountMinor l) else raw),
          ot_taxMinor = tax, ot_totalMinor = (\<Sum>l\<leftarrow>sn_lines s. ol_lineAmountMinor l) - (if raw > (\<Sum>l\<leftarrow>sn_lines s. ol_lineAmountMinor l) then (\<Sum>l\<leftarrow>sn_lines s. ol_lineAmountMinor l) else raw) + tax,
          ot_remainingBalanceMinor = (\<Sum>l\<leftarrow>sn_lines s. ol_lineAmountMinor l) - (if raw > (\<Sum>l\<leftarrow>sn_lines s. ol_lineAmountMinor l) then (\<Sum>l\<leftarrow>sn_lines s. ol_lineAmountMinor l) else raw) + tax - sn_completedPaymentsMinor s,
          ot_baseMinorDigits = n\<rparr>"
      unfolding computeOrderTotals_def Let_def andThen_Inr_iff by blast
    have "n = d" using cur d that(2) by simp
    with raw u show ?thesis unfolding discount_fold by (simp add: min_def)
  qed
  have "?v r = a" using a by (simp add: discount_value_def)
  moreover have "(\<Sum>x\<leftarrow>sn_discounts snap'. ?v x) = (\<Sum>x\<leftarrow>r # sn_discounts snap. ?v x)"
  proof -
    have "mset (map ?v (sn_discounts snap')) = mset (map ?v (r # sn_discounts snap))" using more by simp
    then have "sum_mset (mset (map ?v (sn_discounts snap'))) = sum_mset (mset (map ?v (r # sn_discounts snap)))" by (rule arg_cong)
    then show ?thesis unfolding sum_mset_sum_list .
  qed
  ultimately show ?thesis using tot [OF t refl] tot [OF t' same(1)] same(2) le by auto
qed

lemma applyDiscount_steps:
  assumes "applyDiscount env tid actor input db = (Inr r, db')"
  shows "ad_mechanism input \<noteq> points \<and> (\<exists>pre challenged db1. prePass tid (pa_userId actor) input db = Inr (pre, db) \<and>
    escalate env tid (pa_userId actor) input pre db = (Inr challenged, db1) \<and>
    discountBody env tid (pa_userId actor) input pre challenged db1 = Inr (r, db'))"
proof -
  from assms obtain pre db0 challenged db1 where "ad_mechanism input \<noteq> points" and
    pre: "prePass tid (pa_userId actor) input db = Inr (pre, db0)" and
    "escalate env tid (pa_userId actor) input pre db0 = (Inr challenged, db1)"
    "discountBody env tid (pa_userId actor) input pre challenged db1 = Inr (r, db')"
    by (auto simp: applyDiscount_def orderBranch_def tx_simps split: if_splits)
  with prePass_Inr(1) [OF pre] show ?thesis by blast
qed

lemma attempts_irrelevant [simp]:
  "loadOrderFinancialSnapshot t oid (db\<lparr>db_attempts := ats, db_actorLockouts := als, db_managerLockouts := mls, db_audit := aus\<rparr>) =
   loadOrderFinancialSnapshot t oid db"
proof -
  let ?db = "db\<lparr>db_attempts := ats, db_actorLockouts := als, db_managerLockouts := mls, db_audit := aus\<rparr>"
  have "order_header ?db = order_header db" "active_items ?db = active_items db" "order_payments ?db = order_payments db"
    "db_discounts ?db = db_discounts db"
    by (auto simp: order_header_def active_items_def order_payments_def fun_eq_iff cong: option.case_cong)
  moreover from this(2) have "plan_rows ?db = plan_rows db" by (auto simp: plan_rows_def fun_eq_iff)
  ultimately show ?thesis by (simp only: loadOrderFinancialSnapshot_def)
qed

lemma snapshot_after_discount:
  assumes snap: "loadOrderFinancialSnapshot tid oid db = Inr (Some snap)"
    and os: "map order_key os = map order_key (db_orders db)" and r: "od_tenantId r = tid" "od_orderId r = oid"
    and snap': "loadOrderFinancialSnapshot tid oid (db\<lparr>db_orders := os, db_discounts := db_discounts db @ [r], db_coupons := cs\<rparr>) =
      Inr (Some snap')"
  shows "sn_baseCurrencyCode snap' = sn_baseCurrencyCode snap"
    "map ol_lineAmountMinor (sn_lines snap') = map ol_lineAmountMinor (sn_lines snap)"
    "mset (sn_discounts snap') = add_mset r (mset (sn_discounts snap))"
proof -
  let ?db' = "db\<lparr>db_orders := os, db_discounts := db_discounts db @ [r], db_coupons := cs\<rparr>"
  from snapshot_header [OF snap] obtain ord br where h: "order_header db tid oid = Some (ord, br)"
    "sn_baseCurrencyCode snap = br_baseCurrency br" by blast
  from order_header_keys [OF _ _ h(1), of ?db'] os obtain ord' where "order_header ?db' tid oid = Some (ord', br)" by auto
  with snapshot_header [OF snap'] h(2) show "sn_baseCurrencyCode snap' = sn_baseCurrencyCode snap" by auto
  have l: "sn_lines s = map (\<lambda>item. \<lparr>ol_orderItemId = it_id item, ol_lineAmountMinor = it_unitPriceMinor item * it_quantity item,
        ol_taxPlan = map ts_plan (filter (\<lambda>x. ts_orderLineId x = it_id item) (plan_rows d tid oid))\<rparr>) (active_items d tid oid) \<and>
      sn_discounts s = js_sort compareDiscounts (filter (\<lambda>x. od_tenantId x = tid \<and> od_orderId x = oid) (db_discounts d))"
    if "loadOrderFinancialSnapshot tid oid d = Inr (Some s)" for d s
    using that by (auto simp: loadOrderFinancialSnapshot_def Let_def result_simps split: option.splits)
  have "active_items ?db' tid oid = active_items db tid oid" by (simp add: active_items_def)
  then show "map ol_lineAmountMinor (sn_lines snap') = map ol_lineAmountMinor (sn_lines snap)"
    using l [OF snap] l [OF snap'] by (simp add: comp_def)
  show "mset (sn_discounts snap') = add_mset r (mset (sn_discounts snap))"
    using l [OF snap] l [OF snap'] r by simp
qed

text \<open>
  C26. Applying a discount: a successful call appends exactly one discount row for the order, whose amount
  is between zero and what remained of the subtotal, and whatever totals are computed for the order
  afterwards have the same subtotal and a discount total higher by exactly that amount; payments,
  journal and shifts are untouched. The loyalty mechanism is always refused.
\<close>

theorem applyDiscount_correct:
  assumes "applyDiscount env tid actor input db = (Inr r, db')"
  shows "ad_mechanism input \<noteq> points \<and> db_discounts db' = db_discounts db @ [r] \<and>
    od_tenantId r = tid \<and> od_orderId r = ad_orderId input \<and> od_appliedBy r = pa_userId actor \<and>
    db_payments db' = db_payments db \<and> db_journal db' = db_journal db \<and> db_shifts db' = db_shifts db \<and>
    (\<exists>snap t d a. loadOrderFinancialSnapshot tid (ad_orderId input) db = Inr (Some snap) \<and> computeOrderTotals snap = Inr t \<and>
       andThen (currencyCode (sn_baseCurrencyCode snap)) storageMinorUnitDigits = Inr d \<and>
       decimalTextToMinor (od_discountAmountApplied r) d ''discountAmountApplied'' = Inr a \<and>
       0 \<le> a \<and> a \<le> ot_subtotalMinor t - ot_discountTotalMinor t \<and>
       (\<forall>snap' t'. loadOrderFinancialSnapshot tid (ad_orderId input) db' = Inr (Some snap') \<and> computeOrderTotals snap' = Inr t' \<longrightarrow>
          ot_subtotalMinor t' = ot_subtotalMinor t \<and> ot_discountTotalMinor t' = ot_discountTotalMinor t + a))"
proof -
  let ?u = "pa_userId actor" and ?oid = "ad_orderId input"
  from applyDiscount_steps [OF assms] obtain pre challenged db1 where mech: "ad_mechanism input \<noteq> points"
    and pre: "prePass tid ?u input db = Inr (pre, db)" and esc: "escalate env tid ?u input pre db = (Inr challenged, db1)"
    and body: "discountBody env tid ?u input pre challenged db1 = Inr (r, db')" by blast
  from escalate_Inr(1) [OF esc] obtain ats als mls aus where
    db1: "db1 = db\<lparr>db_attempts := db_attempts db @ ats, db_actorLockouts := als, db_managerLockouts := mls, db_audit := db_audit db @ aus\<rparr>"
    unfolding override_frame_def by blast
  from discountBody_Inr [OF body] obtain snap t stage requirement cu os where
    dec: "discount_decision env tid ?u input pre challenged snap t stage requirement cu db1 r" and
    os: "map order_key os = map order_key (db_orders db1)" and
    db': "db' = db1\<lparr>db_orders := os, db_discounts := db_discounts db1 @ [r],
      db_coupons := (case cu of None \<Rightarrow> db_coupons db1
        | Some (cid, _) \<Rightarrow> update_where (\<lambda>c. cp_tenantId c = tid \<and> cp_id c = cid)
            (\<lambda>c. c\<lparr>cp_usesCount := cp_usesCount c + 1\<rparr>) (db_coupons db1))\<rparr>" by blast
  have snap: "loadOrderFinancialSnapshot tid ?oid db = Inr (Some snap)" "loadOrderFinancialSnapshot tid ?oid db1 = Inr (Some snap)"
    and t: "computeOrderTotals snap = Inr t" and r: "od_tenantId r = tid" "od_orderId r = ?oid" "od_appliedBy r = ?u"
    using dec by (auto simp: discount_decision_def db1)
  from prePass_Inr(2) [OF pre] snap have d: "andThen (currencyCode (sn_baseCurrencyCode snap)) storageMinorUnitDigits = Inr (pd_baseDigits pre)"
    by auto
  from dec obtain rq where st: "computeDiscountStage (ot_subtotalMinor t - ot_discountTotalMinor t) rq = Inr stage"
    by (auto simp: discount_decision_def)
  note a = recorded_discount_amount [OF dec d]
  note law = computeDiscountStage_law [OF st]
  have le: "0 \<le> appliedMinor stage" "appliedMinor stage \<le> ot_subtotalMinor t - ot_discountTotalMinor t" using law by auto
  have after: "ot_subtotalMinor t' = ot_subtotalMinor t \<and> ot_discountTotalMinor t' = ot_discountTotalMinor t + appliedMinor stage"
    if s': "loadOrderFinancialSnapshot tid ?oid db' = Inr (Some snap')" and t': "computeOrderTotals snap' = Inr t'" for snap' t'
    by (rule totals_after_discount [OF t t' snapshot_after_discount [OF snap(2) os r(1,2) s' [unfolded db']] d a le])
  have frame: "db_discounts db' = db_discounts db @ [r]" "db_payments db' = db_payments db" "db_journal db' = db_journal db"
    "db_shifts db' = db_shifts db" by (simp_all add: db' db1)
  show ?thesis
    by (intro conjI exI [of _ snap] exI [of _ t] exI [of _ "pd_baseDigits pre"] exI [of _ "appliedMinor stage"] allI impI)
       (use mech snap(1) t d a le after r frame in blast)+
qed

section \<open>Authority\<close>

text \<open>The limit of the actor for the kind of discount requested, in basis points or minor units.\<close>

definition kind_limit :: "discount_kind \<Rightarrow> parsed_discount_caps \<Rightarrow> int option" where
  "kind_limit kind cps = (if kind = percentage then maxPercentDbps cps else maxFixedAmountMinor cps)"

definition requested_value :: "parsed_discount_request \<Rightarrow> int" where
  "requested_value rq = (if rq_kind rq = percentage then or_zero (rq_percentDbps rq) else or_zero (rq_fixedAmountMinor rq))"

lemma not_required:
  assumes "discountOverrideRequirement stage rq cps = Inr requirement" "\<not> required requirement"
  shows "\<not> zeroesOutSubtotal stage" "case kind_limit (rq_kind rq) cps of None \<Rightarrow> True | Some cap \<Rightarrow> requested_value rq \<le> cap"
  using assms by (auto simp: discountOverrideRequirement_def kind_limit_def requested_value_def Let_def result_simps
      split: if_splits option.splits)

lemma newest_attempt_Some: "newest_attempt rows = Some a \<Longrightarrow> a \<in> set rows"
  by (auto simp: newest_attempt_def split: list.splits dest!: arg_cong [of _ _ set])

lemma findSuccessfulOverrideAttemptId_Some:
  assumes "findSuccessfulOverrideAttemptId tid u m oid ctx db = Some i"
  shows "\<exists>a\<in>set (db_attempts db). oa_id a = i \<and> oa_tenantId a = tid \<and> oa_initiatingActorUserId a = u \<and>
    oa_targetManagerUserId a = m \<and> oa_orderId a = Some oid \<and> oa_outcome a = succeeded \<and> oa_contextType a = ctx"
  using assms by (auto simp: findSuccessfulOverrideAttemptId_def dest!: newest_attempt_Some)

lemma assertCouponUsable_Inr:
  "assertCouponUsable now cp s d = Inr () \<Longrightarrow> cp_isActive cp \<and> (\<forall>t. cp_expiresAt cp = Some t \<longrightarrow> now < t) \<and>
     (\<forall>n. cp_maxUses cp = Some n \<longrightarrow> cp_usesCount cp < n)"
  by (auto simp: assertCouponUsable_def split: if_splits option.splits)

lemma parseDiscountCaps_None:
  assumes "parseDiscountCaps t1 t2 d = Inr cps"
  shows "maxPercentDbps cps = None \<longleftrightarrow> t1 = None" "maxFixedAmountMinor cps = None \<longleftrightarrow> t2 = None"
  using assms by (auto simp: parseDiscountCaps_def result_simps split: option.splits)

text \<open>The manager behind a discount that needs one: a succeeded attempt of this actor and order, by the PIN of the active manager challenged.\<close>

definition manager_confirmed :: "pos_env \<Rightarrow> string \<Rightarrow> string \<Rightarrow> apply_discount_input \<Rightarrow> pos_db \<Rightarrow> order_discount_record \<Rightarrow> pos_db \<Rightarrow> bool" where
  "manager_confirmed env tid u input db r db' \<longleftrightarrow>
     (\<exists>ch a. ad_managerOverride input = Some ch \<and> a \<in> set (db_attempts db') \<and> od_managerOverrideAttemptId r = Some (oa_id a) \<and>
        oa_outcome a = succeeded \<and> oa_tenantId a = tid \<and> oa_initiatingActorUserId a = u \<and>
        oa_targetManagerUserId a = mo_managerUserId ch \<and> oa_orderId a = Some (ad_orderId input) \<and> oa_contextType a = ''discount'' \<and>
        (\<exists>m\<in>set (db_users db). us_tenantId m = tid \<and> us_id m = mo_managerUserId ch \<and> us_isActive m \<and>
           (\<exists>hash. us_pinHash m = Some hash \<and> env_verifyPin env tid (us_id m) (mo_managerOverridePin ch) hash)))"

lemma discount_evidence:
  assumes esc: "escalate env tid u input pre db = (Inr challenged, db1)"
    and dec: "discount_decision env tid u input pre challenged snap t stage requirement cu db1 r"
    and att: "db_attempts db' = db_attempts db1" and needed: "od_requiredManagerOverride r"
  shows "manager_confirmed env tid u input db r db'"
proof -
  let ?oid = "ad_orderId input"
  from needed dec overrideEvidence_Inr(2) [of tid u input requirement db1 "od_managerOverrideAttemptId r" db1]
  obtain ch where ch: "ad_managerOverride input = Some ch" and
    found: "\<exists>i. od_managerOverrideAttemptId r = Some i \<and> findSuccessfulOverrideAttemptId tid u (mo_managerUserId ch) ?oid ''discount'' db1 = Some i"
    by (auto simp: discount_decision_def)
  from needed dec have "challenged" by (auto simp: discount_decision_def)
  with escalate_Inr(3) [OF esc] ch obtain t where
    "verifyLiveChallenge env tid (mo_managerUserId ch) (mo_managerOverridePin ch) u ''discount'' (Some ?oid) db = (Inr t, db1)" by auto
  from challenge_verified [OF this] have "\<exists>m\<in>set (db_users db). us_tenantId m = tid \<and> us_id m = mo_managerUserId ch \<and> us_isActive m \<and>
      (\<exists>hash. us_pinHash m = Some hash \<and> env_verifyPin env tid (us_id m) (mo_managerOverridePin ch) hash)" by auto
  with found findSuccessfulOverrideAttemptId_Some att ch show ?thesis unfolding manager_confirmed_def by metis
qed

text \<open>The coupon behind a coupon discount.\<close>

definition coupon_used :: "pos_env \<Rightarrow> string \<Rightarrow> apply_discount_input \<Rightarrow> pos_db \<Rightarrow> order_discount_record \<Rightarrow> bool" where
  "coupon_used env tid input db r \<longleftrightarrow>
     (case od_couponId r of None \<Rightarrow> ad_mechanism input \<noteq> coupon
      | Some i \<Rightarrow> ad_mechanism input = coupon \<and> (\<exists>cp\<in>set (db_coupons db). cp_id cp = i \<and> cp_tenantId cp = tid \<and> cp_isActive cp \<and>
          (\<forall>t. cp_expiresAt cp = Some t \<longrightarrow> env_now env < t) \<and> (\<forall>n. cp_maxUses cp = Some n \<longrightarrow> cp_usesCount cp < n)))"

lemma discount_coupon:
  assumes dec: "discount_decision env tid u input pre challenged snap t stage requirement cu db1 r" and same: "db_coupons db1 = db_coupons db"
  shows "coupon_used env tid input db r"
proof -
  have cu: "couponForWrite env tid input (ot_subtotalMinor t) (pd_baseDigits pre) db1 = Inr (cu, db1)" "od_couponId r = map_option fst cu"
    using dec by (auto simp: discount_decision_def)
  show ?thesis
  proof (cases cu)
    case None
    then show ?thesis using couponForWrite_Inr(2) [OF cu(1)] cu(2) by (simp add: coupon_used_def)
  next
    case (Some p)
    obtain i ccode where p: "p = (i, ccode)" by fastforce
    with Some couponForWrite_Inr(2) [OF cu(1)] obtain cp where mech: "ad_mechanism input = coupon"
      and cp: "loadCouponByCode tid ccode db1 = Some cp" "cp_id cp = i" and
      usable: "assertCouponUsable (env_now env) cp (ot_subtotalMinor t) (pd_baseDigits pre) = Inr ()" by auto
    from cp(1) have "cp \<in> set (db_coupons db)" "cp_tenantId cp = tid"
      by (auto simp: loadCouponByCode_def same dest: find_row_Some)
    with assertCouponUsable_Inr [OF usable] mech cp(2) Some p cu(2) show ?thesis by (auto simp: coupon_used_def)
  qed
qed

text \<open>
  C25. Authority of a discount: the actor has a limit of the requested kind. The amount recorded is the one the requested discount comes to on what is
  left of the order, at the scale of the order's currency. A discount recorded without a manager leaves something of the order, and what was requested is within
  that limit. One that needs a manager names a succeeded override attempt of this actor and order by the manager who was challenged, whose
  own PIN this call verified while the manager was an active member. A coupon discount used a coupon
  that is active, not expired and below its maximum of uses, and only a coupon discount names one.
\<close>

theorem applyDiscount_authorized:
  assumes "applyDiscount env tid actor input db = (Inr r, db')"
  shows "(\<exists>snap t d rq stage c cps cap. loadOrderFinancialSnapshot tid (ad_orderId input) db = Inr (Some snap) \<and>
       computeOrderTotals snap = Inr t \<and> andThen (currencyCode (sn_baseCurrencyCode snap)) storageMinorUnitDigits = Inr d \<and>
       parseDiscountRequest (ad_discountKind input) (ad_discountValueText input) d = Inr rq \<and>
       computeDiscountStage (ot_subtotalMinor t - ot_discountTotalMinor t) rq = Inr stage \<and>
       decimalTextToMinor (od_discountAmountApplied r) d ''discountAmountApplied'' = Inr (appliedMinor stage) \<and>
       od_discountKind r = ad_discountKind input \<and> db_discounts db' = db_discounts db @ [r] \<and>
       loadUserDiscountCaps tid (pa_userId actor) db = Some c \<and>
       parseDiscountCaps (uc_maxDiscountPercentage c) (uc_maxDiscountFixedAmount c) d = Inr cps \<and>
       kind_limit (ad_discountKind input) cps = Some cap \<and>
       (if od_requiredManagerOverride r then manager_confirmed env tid (pa_userId actor) input db r db'
        else appliedMinor stage < ot_subtotalMinor t - ot_discountTotalMinor t \<and> requested_value rq \<le> cap \<and>
          od_managerOverrideAttemptId r = None)) \<and>
    coupon_used env tid input db r"
proof -
  let ?u = "pa_userId actor" and ?oid = "ad_orderId input"
  from applyDiscount_steps [OF assms] obtain pre challenged db1 where
    pre: "prePass tid ?u input db = Inr (pre, db)" and esc: "escalate env tid ?u input pre db = (Inr challenged, db1)"
    and body: "discountBody env tid ?u input pre challenged db1 = Inr (r, db')" by blast
  from escalate_Inr(1) [OF esc] obtain ats als mls aus where
    db1: "db1 = db\<lparr>db_attempts := db_attempts db @ ats, db_actorLockouts := als, db_managerLockouts := mls, db_audit := db_audit db @ aus\<rparr>"
    unfolding override_frame_def by blast
  from discountBody_Inr [OF body] obtain snap t stage requirement cu os where
    dec: "discount_decision env tid ?u input pre challenged snap t stage requirement cu db1 r" and
    att: "db_attempts db' = db_attempts db1" "db_discounts db' = db_discounts db @ [r]" by (auto simp: db1)
  from dec obtain rq where d: "loadOrderFinancialSnapshot tid ?oid db = Inr (Some snap)" "computeOrderTotals snap = Inr t"
    "parseDiscountRequest (ad_discountKind input) (ad_discountValueText input) (pd_baseDigits pre) = Inr rq"
    "computeDiscountStage (ot_subtotalMinor t - ot_discountTotalMinor t) rq = Inr stage"
    "discountOverrideRequirement stage rq (pd_caps pre) = Inr requirement" "od_requiredManagerOverride r = required requirement"
    "od_discountKind r = ad_discountKind input" by (auto simp: discount_decision_def db1)
  from prePass_Inr(2) [OF pre] d(1) have caps: "parseDiscountCaps (case loadUserDiscountCaps tid ?u db of None \<Rightarrow> None | Some c \<Rightarrow> uc_maxDiscountPercentage c)
      (case loadUserDiscountCaps tid ?u db of None \<Rightarrow> None | Some c \<Rightarrow> uc_maxDiscountFixedAmount c) (pd_baseDigits pre) = Inr (pd_caps pre)"
    and kind: "assertKindGranted (ad_discountKind input) (pd_caps pre) = Inr ()"
    and scale: "andThen (currencyCode (sn_baseCurrencyCode snap)) storageMinorUnitDigits = Inr (pd_baseDigits pre)" by auto
  obtain cap where cap: "kind_limit (ad_discountKind input) (pd_caps pre) = Some cap"
    using kind by (cases "ad_discountKind input") (auto simp: assertKindGranted_def kind_limit_def split: if_splits)
  obtain c where c: "loadUserDiscountCaps tid ?u db = Some c"
    using parseDiscountCaps_None [OF caps] cap by (auto simp: kind_limit_def split: option.splits if_splits)
  have free: "appliedMinor stage < ot_subtotalMinor t - ot_discountTotalMinor t \<and> requested_value rq \<le> cap \<and> od_managerOverrideAttemptId r = None"
    if "\<not> od_requiredManagerOverride r"
    using not_required [OF d(5) that [unfolded d(6)]] cap parseDiscountRequest_valid [OF d(3)] computeDiscountStage_law [OF d(4)] dec that d(6)
      overrideEvidence_Inr(2) [of tid ?u input requirement db1 "od_managerOverrideAttemptId r" db1] by (simp add: discount_decision_def)
  have "coupon_used env tid input db r" by (rule discount_coupon [OF dec]) (simp add: db1)
  then show ?thesis using d c cap caps scale att(2) recorded_discount_amount [OF dec scale] discount_evidence [OF esc dec att(1)] free
    by (intro conjI exI [of _ snap] exI [of _ t] exI [of _ "pd_baseDigits pre"] exI [of _ rq] exI [of _ stage] exI [of _ c]
        exI [of _ "pd_caps pre"] exI [of _ cap]) simp_all
qed

section \<open>A coupon on the example order\<close>

definition example_coupon :: coupon_record where
  "example_coupon = \<lparr>cp_id = ''k1'', cp_tenantId = ''t1'', cp_code = ''WELCOME'', cp_discountKind = percentage,
     cp_discountValue = ''10.0000'', cp_minOrderAmount = Some ''10.0000'', cp_maxUses = Some 5, cp_usesCount = 0,
     cp_expiresAt = Some 2000, cp_isActive = True\<rparr>"

definition example_discount :: apply_discount_input where
  "example_discount = \<lparr>ad_orderId = ''o1'', ad_mechanism = coupon, ad_discountKind = percentage, ad_discountValueText = ''10'',
     ad_couponCode = Some '' WELCOME'', ad_managerOverride = None\<rparr>"

definition example_discount_db :: pos_db where
  "example_discount_db = example_db\<lparr>db_coupons := [example_coupon],
     db_limits := [\<lparr>dl_tenantId = ''t1'', dl_userId = ''c1'', dl_permissionKey = ''order:discount:apply'',
       dl_caps = \<lparr>uc_maxDiscountPercentage = Some ''20.0000'', uc_maxDiscountFixedAmount = None\<rparr>\<rparr>]\<rparr>"

definition example_discounted :: order_discount_record where
  "example_discounted = \<lparr>od_id = ''u111'', od_tenantId = ''t1'', od_orderId = ''o1'', od_mechanism = coupon,
     od_couponId = Some ''k1'', od_discountKind = percentage, od_discountValue = ''10.0000'',
     od_discountAmountApplied = ''1.5000'', od_requiredManagerOverride = False, od_managerOverrideAttemptId = None,
     od_appliedBy = ''c1'', od_createdAt = 1000\<rparr>"

definition example_discounted_db :: pos_db where
  "example_discounted_db = example_discount_db\<lparr>
     db_orders := [example_order op_open 1],
     db_discounts := [example_discounted], db_coupons := [example_coupon\<lparr>cp_usesCount := 1\<rparr>]\<rparr>"

lemma example_discount_values:
  "parseDiscountRequest percentage ''10'' 2 = Inr \<lparr>rq_kind = percentage, rq_percentDbps = Some 100000, rq_fixedAmountMinor = None\<rparr> \<and>
   parseDiscountCaps (Some ''20.0000'') None 2 = Inr \<lparr>maxPercentDbps = Some 200000, maxFixedAmountMinor = None\<rparr> \<and>
   computeDiscountStage 1500 \<lparr>rq_kind = percentage, rq_percentDbps = Some 100000, rq_fixedAmountMinor = None\<rparr> =
     Inr \<lparr>requestedMinor = 150, appliedMinor = 150, zeroesOutSubtotal = False, remainingSubtotalMinor = 1350\<rparr> \<and>
   discountOverrideRequirement \<lparr>requestedMinor = 150, appliedMinor = 150, zeroesOutSubtotal = False, remainingSubtotalMinor = 1350\<rparr>
     \<lparr>rq_kind = percentage, rq_percentDbps = Some 100000, rq_fixedAmountMinor = None\<rparr>
     \<lparr>maxPercentDbps = Some 200000, maxFixedAmountMinor = None\<rparr> = Inr \<lparr>required = False, reason = None\<rparr> \<and>
   js_trim '' WELCOME'' = ''WELCOME'' \<and> canonicalValueText percentage ''10'' = Inr ''10.0000'' \<and>
   minorToDecimalText 150 2 = Inr ''1.50'' \<and> numeric4 ''10.0000'' = Inr ''10.0000'' \<and> numeric4 ''1.50'' = Inr ''1.5000'' \<and>
   nonNegativeDecimalTextToMinor ''10.0000'' 2 ''minOrderAmount'' = Inr 1000"
  by code_simp

lemma example_discounts:
  "applyDiscount example_env ''t1'' example_actor example_discount example_discount_db = (Inr example_discounted, example_discounted_db)"
  by (simp add: example_run example_coupon_def example_discount_def example_discount_db_def example_discounted_def
      example_discounted_db_def example_discount_values applyDiscount_def prePass_def escalate_def discountBody_def
      couponForWrite_def overrideEvidence_def mustCouponCode_def assertKindGranted_def assertCouponUsable_def
      loadUserDiscountCaps_def loadCouponByCode_def insertOrderDiscount_def incrementCouponUses_def cong: db_run_cong)

theorem applyDiscount_correct_witness:
  "db_discounts example_discounted_db = [example_discounted] \<and> db_payments example_discounted_db = []"
  using applyDiscount_correct [OF example_discounts]
  by (simp add: example_discount_db_def example_db_def)

theorem applyDiscount_authorized_witness:
  "\<exists>c. loadUserDiscountCaps ''t1'' ''c1'' example_discount_db = Some c \<and>
     (\<exists>cp\<in>set (db_coupons example_discount_db). cp_id cp = ''k1'' \<and> cp_isActive cp)"
  using applyDiscount_authorized [OF example_discounts]
  by (auto simp: coupon_used_def example_discounted_def example_actor_def)

end
