(* ===== verification/Shift_Engine.thy ===== *)
theory Shift_Engine
  imports Payments_Engine Atomicity
begin

text \<open>
  Model of \<^verbatim>\<open>src/infrastructure/db/repositories/postgres-shifts-store.ts\<close> (its scope, one definition per
  operation; \<open>findOpenShiftForCashier\<close>, \<open>lockShift\<close> and \<open>bumpShiftRevision\<close> run the same statements as in
  the payments store) and of \<^verbatim>\<open>src/application/engines/shifts/shift-engine.ts\<close>: opening a shift with a
  counted float, the Z report that closes it, and the X report that only reads.
\<close>

section \<open>The store\<close>

definition loadBranchForShift :: "string \<Rightarrow> string \<Rightarrow> pos_db \<Rightarrow> branch_row option" where
  "loadBranchForShift tid branchId db = find_row (\<lambda>b. br_tenantId b = tid \<and> br_id b = branchId) (db_branches db)"

definition userIsActiveMember :: "string \<Rightarrow> string \<Rightarrow> pos_db \<Rightarrow> bool" where
  "userIsActiveMember tid userId db =
     (\<exists>u\<in>set (db_users db). us_tenantId u = tid \<and> us_id u = userId \<and> us_isActive u)"

definition findAnyOpenShiftForCashier :: "string \<Rightarrow> string \<Rightarrow> pos_db \<Rightarrow> shift_record option" where
  "findAnyOpenShiftForCashier tid cashierUserId db =
     find_row (\<lambda>s. sh_tenantId s = tid \<and> sh_cashierId s = cashierUserId \<and> sh_status s = shift_open) (db_shifts db)"

definition loadShift :: "string \<Rightarrow> string \<Rightarrow> pos_db \<Rightarrow> shift_record option" where
  "loadShift tid shiftId db = find_row (\<lambda>s. sh_tenantId s = tid \<and> sh_id s = shiftId) (db_shifts db)"

definition compareCounts :: "cash_count_detail_record \<Rightarrow> cash_count_detail_record \<Rightarrow> int" where
  "compareCounts a b =
     (if cc_createdAt a < cc_createdAt b then -1 else if cc_createdAt a > cc_createdAt b then 1
      else if cc_id a < cc_id b then -1 else if cc_id a > cc_id b then 1 else 0)"

definition loadCashCounts :: "string \<Rightarrow> string \<Rightarrow> pos_db \<Rightarrow> cash_count_detail_record list" where
  "loadCashCounts tid shiftId db =
     js_sort compareCounts (filter (\<lambda>c. cc_tenantId c = tid \<and> cc_shiftReconciliationId c = shiftId) (db_cashCounts db))"

record insert_shift_input =
  si_id :: string
  si_branchId :: string
  si_cashierId :: string
  si_openedById :: string
  si_openVerifiedById :: string
  si_openedAt :: int
  si_startingFloat :: string

text \<open>The primary key and the partial unique index \<open>uq_shift_one_open_per_cashier\<close>.\<close>

definition shift_key_conflict :: "pos_db \<Rightarrow> shift_record \<Rightarrow> bool" where
  "shift_key_conflict db s \<longleftrightarrow> (\<exists>t\<in>set (db_shifts db). sh_id t = sh_id s)"

definition open_shift_conflict :: "pos_db \<Rightarrow> shift_record \<Rightarrow> bool" where
  "open_shift_conflict db s \<longleftrightarrow> (\<exists>t\<in>set (db_shifts db). sh_tenantId t = sh_tenantId s \<and>
     sh_cashierId t = sh_cashierId s \<and> sh_status t = shift_open \<and> sh_status s = shift_open)"

definition insertShift :: "pos_env \<Rightarrow> string \<Rightarrow> insert_shift_input \<Rightarrow> (pos_db, shift_record) tx" where
  "insertShift env tid input =
     tx_bind (tx_lift (numeric4 (si_startingFloat input))) (\<lambda>startingFloat.
     let row = \<lparr>sh_id = si_id input, sh_tenantId = tid, sh_branchId = si_branchId input,
       sh_cashierId = si_cashierId input, sh_openedById = si_openedById input,
       sh_openVerifiedById = si_openVerifiedById input, sh_openedAt = si_openedAt input,
       sh_startingFloat = startingFloat, sh_status = shift_open, sh_closedById = None,
       sh_closeVerifiedById = None, sh_closedAt = None, sh_countedCash = None,
       sh_recordedCashSales = None, sh_variance = None, sh_varianceType = None, sh_notes = None,
       sh_createdAt = env_now env\<rparr>
     in
     tx_bind (db_check env (WShift row)) (\<lambda>_.
     tx_bind (tx_read (\<lambda>db. shift_key_conflict db row)) (\<lambda>known.
     tx_bind (tx_guard (\<not> known) (PgError ''23505'' (Some ''shift_reconciliations_pkey'') ''duplicate key'')) (\<lambda>_.
     tx_bind (tx_read (\<lambda>db. open_shift_conflict db row)) (\<lambda>parallel.
     tx_bind (tx_guard (\<not> parallel) (PgError ''23505'' (Some ''uq_shift_one_open_per_cashier'') ''duplicate key'')) (\<lambda>_.
     tx_bind (tx_write (\<lambda>db. db\<lparr>db_shifts := db_shifts db @ [row]\<rparr>)) (\<lambda>_.
     tx_return row)))))))"

text \<open>
  One row of a cash count. The column is an integer, so a fractional quantity is a database error;
  the subtotal is the generated column \<open>denomination_value * quantity\<close>.
\<close>

definition insertCashCountDetail ::
  "pos_env \<Rightarrow> string \<Rightarrow> string \<Rightarrow> cash_count_type \<Rightarrow> cash_count_line_input \<Rightarrow> (pos_db, unit) tx" where
  "insertCashCountDetail env tid shiftId countType line =
     (case cl_quantity line of
        JNonInteger \<Rightarrow> tx_throw (PgError ''22P02'' None ''invalid input syntax for type integer'')
      | JInt quantity \<Rightarrow>
          tx_bind (tx_read (env_uuid env)) (\<lambda>newId.
          tx_bind (tx_lift (numeric4 (cl_denominationValue line))) (\<lambda>denomination.
          tx_bind (tx_lift (andThen (decimalTextToMinor denomination 4 ''numeric'') (\<lambda>m.
             minorToDecimalText (m * quantity) 4))) (\<lambda>subtotal.
          let row = \<lparr>cc_id = newId, cc_tenantId = tid, cc_shiftReconciliationId = shiftId,
            cc_countType = countType, cc_denominationValue = denomination, cc_quantity = quantity,
            cc_subtotal = subtotal, cc_createdAt = env_now env\<rparr>
          in
          tx_bind (db_check env (WCashCount row)) (\<lambda>_.
          tx_write (\<lambda>db. db\<lparr>db_cashCounts := db_cashCounts db @ [row]\<rparr>))))))"

definition insertCashCountDetails ::
  "pos_env \<Rightarrow> string \<Rightarrow> string \<Rightarrow> cash_count_type \<Rightarrow> cash_count_line_input list \<Rightarrow> (pos_db, unit) tx" where
  "insertCashCountDetails env tid shiftId countType lines =
     tx_for (insertCashCountDetail env tid shiftId countType) lines"

text \<open>The completed payments of the shift whose method is cash, and the text of their sum.\<close>

definition cash_payments :: "string \<Rightarrow> string \<Rightarrow> pos_db \<Rightarrow> payment_record list" where
  "cash_payments tid shiftId db =
     filter (\<lambda>p. pay_tenantId p = tid \<and> pay_shiftId p = shiftId \<and> pay_status p = completed \<and>
       (\<exists>m\<in>set (db_methods db). pm_id m = pay_paymentMethodId p \<and> pm_tenantId m = pay_tenantId p \<and>
          (pm_type m = pm_cash \<or> pm_type m = pm_foreign_currency_cash))) (db_payments db)"

definition sumCompletedCashPaymentsText :: "string \<Rightarrow> string \<Rightarrow> pos_db \<Rightarrow> string result" where
  "sumCompletedCashPaymentsText tid shiftId db =
     (let ps = cash_payments tid shiftId db in
      if ps = [] then Inr ''0''
      else andThen (numeric4_sum (map pay_amountInBaseCurrency ps)) (\<lambda>total. minorToDecimalText total 4))"

record close_shift_row =
  cr_closedById :: string
  cr_closeVerifiedById :: string
  cr_closedAt :: int
  cr_countedCash :: string
  cr_recordedCashSales :: string
  cr_varianceType :: variance_type
  cr_notes :: "string option"

text \<open>The generated column \<open>counted_cash - starting_float - recorded_cash_sales\<close>.\<close>

definition variance_column :: "string \<Rightarrow> string \<Rightarrow> string \<Rightarrow> string result" where
  "variance_column counted startingFloat recorded =
     andThen (decimalTextToMinor counted 4 ''numeric'') (\<lambda>c.
     andThen (decimalTextToMinor startingFloat 4 ''numeric'') (\<lambda>f.
     andThen (decimalTextToMinor recorded 4 ''numeric'') (\<lambda>r. minorToDecimalText (c - f - r) 4)))"

definition closeShiftRow :: "pos_env \<Rightarrow> string \<Rightarrow> string \<Rightarrow> close_shift_row \<Rightarrow> (pos_db, shift_record) tx" where
  "closeShiftRow env tid shiftId close =
     tx_bind (tx_lift (numeric4 (cr_countedCash close))) (\<lambda>counted.
     tx_bind (tx_lift (numeric4 (cr_recordedCashSales close))) (\<lambda>recorded.
     tx_bind (tx_read (loadShift tid shiftId)) (\<lambda>found.
     tx_bind (tx_some found (ForeignError ''Shift could not be closed'')) (\<lambda>row.
     tx_bind (tx_lift (variance_column counted (sh_startingFloat row) recorded)) (\<lambda>variance.
     let f = (\<lambda>s. s\<lparr>sh_status := shift_closed, sh_closedById := Some (cr_closedById close),
                sh_closeVerifiedById := Some (cr_closeVerifiedById close), sh_closedAt := Some (cr_closedAt close),
                sh_countedCash := Some counted, sh_recordedCashSales := Some recorded,
                sh_variance := Some variance, sh_varianceType := Some (cr_varianceType close),
                sh_notes := cr_notes close\<rparr>)
     in
     tx_bind (db_check env (WShiftClose row (f row))) (\<lambda>_.
     tx_bind (tx_write (\<lambda>db. db\<lparr>db_shifts :=
        update_where (\<lambda>s. sh_tenantId s = tid \<and> sh_id s = shiftId) f (db_shifts db)\<rparr>)) (\<lambda>_.
     tx_return (f row))))))))"

section \<open>The engine\<close>

definition fractionDigits :: "string \<Rightarrow> int" where
  "fractionDigits t = (case dropWhile (\<lambda>c. c \<noteq> CHR ''.'') t of [] \<Rightarrow> 0 | _ # rest \<Rightarrow> int (length rest))"

definition assertNativeDenominationScale :: "string \<Rightarrow> int \<Rightarrow> unit result" where
  "assertNativeDenominationScale t digits =
     (if fractionDigits t > digits then Inl (ValidationError (Some ''denominationValue'')) else Inr ())"

definition countLine :: "int \<Rightarrow> int \<Rightarrow> cash_count_line_input \<Rightarrow> int result" where
  "countLine digits totalMinor line =
     (case cl_quantity line of
        JNonInteger \<Rightarrow> Inl (ValidationError (Some ''quantity''))
      | JInt quantity \<Rightarrow>
          if quantity < 0 then Inl (ValidationError (Some ''quantity''))
          else
          andThen (assertNativeDenominationScale (cl_denominationValue line) digits) (\<lambda>_.
          andThen (nonNegativeDecimalTextToMinor (cl_denominationValue line) digits ''denominationValue'') (\<lambda>valueMinor.
          if valueMinor \<le> 0 then Inl (ValidationError (Some ''denominationValue''))
          else Inr (totalMinor + valueMinor * quantity))))"

definition validateCounts :: "cash_count_line_input list \<Rightarrow> int \<Rightarrow> int result" where
  "validateCounts lines digits = foldR (countLine digits) 0 lines"

definition shift_check :: "string \<Rightarrow> string \<Rightarrow> string \<Rightarrow> string \<Rightarrow> bool \<Rightarrow> auth_check" where
  "shift_check tid userId key branchId sensitive =
     \<lparr>ck_tenantId = tid, ck_userId = userId, ck_permissionKey = key, ck_tokenSecV = None,
      ck_branchId = Some branchId, ck_isSensitive = sensitive\<rparr>"

definition requireActiveMembers :: "string \<Rightarrow> string list \<Rightarrow> (pos_db, unit) tx" where
  "requireActiveMembers tid userIds =
     tx_for (\<lambda>userId. tx_bind (tx_read (userIsActiveMember tid userId)) (\<lambda>active.
       tx_guard active (ValidationError None))) userIds"

definition branchDigits :: "branch_row \<Rightarrow> int result" where
  "branchDigits branch = andThen (currencyCode (br_baseCurrency branch)) storageMinorUnitDigits"

fun parallelShiftError :: "app_error \<Rightarrow> app_error" where
  "parallelShiftError (PgError sqlstate con msg) =
     (if sqlstate = ''23505'' \<and> con = Some ''uq_shift_one_open_per_cashier'' then ConflictError
      else PgError sqlstate con msg)"
| "parallelShiftError e = e"

definition openBody :: "pos_env \<Rightarrow> string \<Rightarrow> open_shift_input \<Rightarrow> (pos_db, shift_record) tx" where
  "openBody env tid input =
     tx_bind (tx_read (loadBranchForShift tid (os_branchId input))) (\<lambda>found.
     tx_bind (tx_some (case found of Some b \<Rightarrow> if br_isActive b then Some b else None | None \<Rightarrow> None) NotFoundError) (\<lambda>branch.
     tx_bind (tx_lift (branchDigits branch)) (\<lambda>digits.
     tx_bind (tx_lift (validateCounts (os_openCounts input) digits)) (\<lambda>floatMinor.
     tx_bind (requireActiveMembers tid
        [os_cashierUserId input, os_openedByUserId input, os_openVerifiedByUserId input]) (\<lambda>_.
     tx_bind (tx_read (findAnyOpenShiftForCashier tid (os_cashierUserId input))) (\<lambda>existing.
     tx_bind (tx_guard (existing = None) ConflictError) (\<lambda>_.
     tx_bind (tx_read (env_uuid env)) (\<lambda>newId.
     tx_bind (tx_lift (minorToDecimalText floatMinor digits)) (\<lambda>floatText.
     tx_bind (\<lambda>db. mapErr (insertShift env tid \<lparr>si_id = newId, si_branchId = os_branchId input,
          si_cashierId = os_cashierUserId input, si_openedById = os_openedByUserId input,
          si_openVerifiedById = os_openVerifiedByUserId input, si_openedAt = env_now env,
          si_startingFloat = floatText\<rparr> db) parallelShiftError) (\<lambda>shift.
     tx_bind (insertCashCountDetails env tid (sh_id shift) count_open (os_openCounts input)) (\<lambda>_.
     tx_return shift)))))))))))"

definition openShift :: "pos_env \<Rightarrow> string \<Rightarrow> open_shift_input \<Rightarrow> (pos_db, shift_record) op" where
  "openShift env tid input =
     op_bind (op_lift (env_authorize env (shift_check tid (os_openedByUserId input) ''shift:open'' (os_branchId input) True))) (\<lambda>_.
     op_bind (op_lift (if os_openedByUserId input = os_openVerifiedByUserId input
                       then Inl (ValidationError None) else Inr ())) (\<lambda>_.
     store_run env tid (openBody env tid input)))"

definition varianceTypeOf :: "int \<Rightarrow> variance_type" where
  "varianceTypeOf varianceMinor =
     (if varianceMinor > 0 then overage else if varianceMinor < 0 then shortage else exact)"

definition shiftBranch :: "pos_env \<Rightarrow> string \<Rightarrow> string \<Rightarrow> (pos_db, string) op" where
  "shiftBranch env tid shiftId =
     store_run env tid (tx_bind (tx_read (loadShift tid shiftId)) (\<lambda>found.
       tx_bind (tx_some found NotFoundError) (\<lambda>shift. tx_return (sh_branchId shift))))"

definition closeBody :: "pos_env \<Rightarrow> string \<Rightarrow> close_shift_input \<Rightarrow> (pos_db, shift_record) tx" where
  "closeBody env tid input =
     tx_bind (tx_read (lockShift tid (ci_shiftId input))) (\<lambda>locked.
     tx_bind (tx_some locked NotFoundError) (\<lambda>shift.
     tx_bind (bumpShiftRevision env tid (ci_shiftId input)) (\<lambda>_.
     tx_bind (tx_guard (sh_status shift = shift_open) (ShiftNotOpenError (ci_shiftId input))) (\<lambda>_.
     tx_bind (tx_read (loadBranchForShift tid (sh_branchId shift))) (\<lambda>found.
     tx_bind (tx_some found NotFoundError) (\<lambda>branch.
     tx_bind (tx_lift (branchDigits branch)) (\<lambda>digits.
     tx_bind (tx_lift (validateCounts (ci_closeCounts input) digits)) (\<lambda>countedMinor.
     tx_bind (requireActiveMembers tid [ci_closedByUserId input, ci_closeVerifiedByUserId input]) (\<lambda>_.
     tx_bind (tx_readR (sumCompletedCashPaymentsText tid (ci_shiftId input))) (\<lambda>recordedCashSales.
     tx_bind (tx_lift (nonNegativeDecimalTextToMinor (sh_startingFloat shift) digits ''startingFloat'')) (\<lambda>floatMinor.
     tx_bind (tx_lift (decimalTextToMinor recordedCashSales digits ''recordedCashSales'')) (\<lambda>recordedMinor.
     let varianceMinor = countedMinor - floatMinor - recordedMinor in
     tx_bind (insertCashCountDetails env tid (ci_shiftId input) count_close (ci_closeCounts input)) (\<lambda>_.
     tx_bind (tx_lift (minorToDecimalText countedMinor digits)) (\<lambda>countedText.
     closeShiftRow env tid (ci_shiftId input)
       \<lparr>cr_closedById = ci_closedByUserId input, cr_closeVerifiedById = ci_closeVerifiedByUserId input,
        cr_closedAt = env_now env, cr_countedCash = countedText, cr_recordedCashSales = recordedCashSales,
        cr_varianceType = varianceTypeOf varianceMinor, cr_notes = ci_notes input\<rparr>))))))))))))))"

definition closeShift :: "pos_env \<Rightarrow> string \<Rightarrow> close_shift_input \<Rightarrow> (pos_db, shift_record) op" where
  "closeShift env tid input =
     op_bind (shiftBranch env tid (ci_shiftId input)) (\<lambda>branchId.
     op_bind (op_lift (env_authorize env (shift_check tid (ci_closedByUserId input) ''shift:close'' branchId True))) (\<lambda>_.
     op_bind (op_lift (if ci_closedByUserId input = ci_closeVerifiedByUserId input
                       then Inl (ValidationError None) else Inr ())) (\<lambda>_.
     store_run env tid (closeBody env tid input))))"

record x_report_count =
  xc_countType :: cash_count_type
  xc_denominationValue :: string
  xc_quantity :: int
  xc_subtotal :: string

record x_report =
  xr_shift :: shift_record
  xr_counts :: "x_report_count list"
  xr_recordedCashSales :: string
  xr_computedVariance :: "string option"
  xr_computedVarianceType :: "variance_type option"

definition xReportBody :: "string \<Rightarrow> string \<Rightarrow> shift_record \<Rightarrow> (pos_db, x_report) tx" where
  "xReportBody tid shiftId shift =
     tx_bind (tx_read (loadBranchForShift tid (sh_branchId shift))) (\<lambda>found.
     tx_bind (tx_some found NotFoundError) (\<lambda>branch.
     tx_bind (tx_lift (branchDigits branch)) (\<lambda>digits.
     tx_bind (tx_read (loadCashCounts tid shiftId)) (\<lambda>counts.
     tx_bind (tx_readR (sumCompletedCashPaymentsText tid shiftId)) (\<lambda>recordedCashSales.
     tx_bind (tx_lift (decimalTextToMinor recordedCashSales digits ''recordedCashSales'')) (\<lambda>recordedMinor.
     tx_bind (tx_lift (nonNegativeDecimalTextToMinor (sh_startingFloat shift) digits ''startingFloat'')) (\<lambda>floatMinor.
     tx_bind (tx_lift (case sh_countedCash shift of
          None \<Rightarrow> foldR (\<lambda>a c. mapResult (decimalTextToMinor (cc_subtotal c) digits ''subtotal'') (\<lambda>m. a + m)) 0
                   (filter (\<lambda>c. cc_countType c = count_close) counts)
        | Some counted \<Rightarrow> nonNegativeDecimalTextToMinor counted digits ''countedCash'')) (\<lambda>countedMinor.
     let varianceMinor = countedMinor - floatMinor - recordedMinor in
     tx_bind (tx_lift (minorToDecimalText varianceMinor digits)) (\<lambda>varianceText.
     tx_return \<lparr>xr_shift = shift,
        xr_counts = map (\<lambda>c. \<lparr>xc_countType = cc_countType c, xc_denominationValue = cc_denominationValue c,
                               xc_quantity = cc_quantity c, xc_subtotal = cc_subtotal c\<rparr>) counts,
        xr_recordedCashSales = recordedCashSales, xr_computedVariance = Some varianceText,
        xr_computedVarianceType = Some (varianceTypeOf varianceMinor)\<rparr>)))))))))"

definition xReport :: "pos_env \<Rightarrow> string \<Rightarrow> string \<Rightarrow> string \<Rightarrow> (pos_db, x_report) op" where
  "xReport env tid actorUserId shiftId =
     op_bind (store_run env tid (tx_bind (tx_read (loadShift tid shiftId)) (\<lambda>found. tx_some found NotFoundError))) (\<lambda>shift.
     op_bind (op_lift (env_authorize env (shift_check tid actorUserId ''shift:x_report'' (sh_branchId shift) False))) (\<lambda>_.
     store_run env tid (xReportBody tid shiftId shift)))"

end
