(* ===== verification/Payments_Lifecycle.thy ===== *)
theory Payments_Lifecycle
  imports Payments_Collect
begin

text \<open>
  Voiding and refunding: a payment leaves the completed state at most once, its journal entry is
  mirrored exactly, a refund returns the stock of the lines the kitchen never started, and the
  invariants hold in every state that sequences of operations can reach.
\<close>

section \<open>The life cycle of a payment\<close>

definition payments_frame :: "pos_db \<Rightarrow> pos_db \<Rightarrow> bool" where
  "payments_frame db db' \<longleftrightarrow> db_payments db' = db_payments db"

interpretation same_payments: tx_relation payments_frame
  by unfold_locales (auto simp: payments_frame_def)

lemma payments_writes:
  "tx_ensures payments_frame (bumpOrderRevision env tid oid)"
  "tx_ensures payments_frame (bumpShiftRevision env tid sid)"
  "tx_ensures payments_frame (postPaymentJournalReversalEntry env tid pid u at)"
  "tx_ensures payments_frame (setOrderPaymentStatus env tid oid st)"
  "tx_ensures payments_frame (appendAuditEvidence env row)"
  "tx_ensures payments_frame (insertStockMovement env tid im)"
  "tx_ensures payments_frame (postInventoryRestoration env mid)"
  by (auto simp: tx_ensures_def tx_simps payments_frame_def Let_def insert_entry_cases
      bumpOrderRevision_def bumpShiftRevision_def postPaymentJournalReversalEntry_def
      setOrderPaymentStatus_def appendAuditEvidence_def insertStockMovement_def
      postInventoryRestoration_def split: option.splits)

lemma refund_stock_payments: "tx_ensures payments_frame (writeRefundStockMovements env tid b oid u)"
  by (simp add: writeRefundStockMovements_def refundMovement_def Let_def same_payments.body_rules payments_writes)

lemma update_payment_Inr:
  assumes "update_payment env tid pid f msg db = Inr (q, db')"
  shows "\<exists>p. loadPayment tid pid db = Some p \<and> q = f p \<and>
    db_payments db' = update_where (\<lambda>q. pay_tenantId q = tid \<and> pay_id q = pid) f (db_payments db)"
  using assms by (auto simp: update_payment_def tx_simps)

text \<open>The change of a payment row that a void or a refund makes.\<close>

definition lifecycle_update :: "pos_env \<Rightarrow> string \<Rightarrow> payment_status \<Rightarrow> string option \<Rightarrow> payment_record \<Rightarrow> payment_record" where
  "lifecycle_update env actorUserId to voidReason p =
     (if to = voided
      then p\<lparr>pay_status := voided, pay_voidedById := Some actorUserId, pay_voidedAt := Some (env_now env),
             pay_voidReason := Some (case voidReason of None \<Rightarrow> [] | Some r \<Rightarrow> r)\<rparr>
      else p\<lparr>pay_status := refunded\<rparr>)"

lemma lifecycleGateway_Inr:
  assumes "lifecycleGateway env tid actor p0 to db = Inr (pre, db')"
  shows "\<exists>p. loadPayment tid (pay_id p0) db = Some p \<and> pay_status p = completed" "payments_frame db db'"
    "db_journal db' = db_journal db" "pricing_frame db db'" "orders_frame db db'"
    "\<exists>s\<in>set (db_shifts db). sh_status s = shift_open \<and> sh_cashierId s = actor \<and> sh_branchId s = sn_branchId pre"
    "loadOrderFinancialSnapshot tid (pay_orderId p0) db = Inr (Some pre)"
proof -
  from assms obtain db1 p g and shift :: shift_record where
    bump: "bumpOrderRevision env tid (pay_orderId p0) db = Inr ((), db1)" and
    p: "loadPayment tid (pay_id p0) db1 = Some p" "pay_status p = completed" and
    snap: "loadOrderFinancialSnapshot tid (pay_orderId p0) db1 = Inr (Some pre)" and
    g: "findOpenShiftForCashier tid actor (sn_branchId pre) db1 = Some g" and
    bump2: "bumpShiftRevision env tid (sh_id shift) db1 = Inr ((), db')"
    by (auto simp: lifecycleGateway_def Let_def tx_simps)
  note f = tx_ensuresD [OF payments_writes(1) bump] tx_ensuresD [OF payments_writes(2) bump2]
    tx_ensuresD [OF pricing_writes(1) bump] tx_ensuresD [OF pricing_writes(2) bump2]
    tx_ensuresD [OF orders_writes(1) bump] tx_ensuresD [OF orders_writes(2) bump2]
  then show "payments_frame db db'" "pricing_frame db db'" "orders_frame db db'"
    by (auto intro: same_payments.trans pricing.trans orders.trans)
  show "\<exists>p. loadPayment tid (pay_id p0) db = Some p \<and> pay_status p = completed"
    using p f(1) by (auto simp: payments_frame_def loadPayment_def)
  show "db_journal db' = db_journal db"
    using bump bump2 by (auto simp: bumpOrderRevision_def bumpShiftRevision_def tx_simps)
  show "loadOrderFinancialSnapshot tid (pay_orderId p0) db = Inr (Some pre)"
    using snap bump_snapshot(1) [OF bump] by simp
  show "\<exists>s\<in>set (db_shifts db). sh_status s = shift_open \<and> sh_cashierId s = actor \<and> sh_branchId s = sn_branchId pre"
    using g f(3) by (auto simp: findOpenShiftForCashier_def pricing_frame_def dest: find_row_Some)
qed

lemma lifecycleEffects_Inr:
  assumes "lifecycleEffects env tid actor p0 to why pre db = Inr (q, db')"
  shows "\<exists>p. loadPayment tid (pay_id p0) db = Some p \<and> q = lifecycle_update env actor to why p \<and>
    db_payments db' = update_where (\<lambda>x. pay_tenantId x = tid \<and> pay_id x = pay_id p0)
      (lifecycle_update env actor to why) (db_payments db)"
proof -
  from assms obtain db3 db4 db5 db6 row st where
    upd: "(if to = voided
              then voidPaymentRow env tid (pay_id p0) actor (env_now env) (case why of None \<Rightarrow> [] | Some r \<Rightarrow> r)
              else refundPaymentRow env tid (pay_id p0)) db = Inr (q, db3)" and
    rev: "postPaymentJournalReversalEntry env tid (pay_id p0) actor (env_now env) db3 = Inr ((), db4)" and
    audit: "appendAuditEvidence env row db4 = Inr ((), db5)" and
    set: "setOrderPaymentStatus env tid (pay_orderId p0) st db5 = Inr ((), db6)" and
    stock: "(if to = refunded then writeRefundStockMovements env tid (sn_branchId pre) (pay_orderId p0) actor
                else tx_return ()) db6 = Inr ((), db')"
    unfolding lifecycleEffects_def Let_def tx_simps by fastforce
  have st: "tx_ensures payments_frame (if to = refunded
      then writeRefundStockMovements env tid (sn_branchId pre) (pay_orderId p0) actor else tx_return ())"
    by (simp add: refund_stock_payments same_payments.bodies)
  note frame = tx_ensuresD [OF payments_writes(3) rev] tx_ensuresD [OF payments_writes(5) audit]
    tx_ensuresD [OF payments_writes(4) set] tx_ensuresD [OF st stock]
  have "update_payment env tid (pay_id p0) (lifecycle_update env actor to why)
      (if to = voided then ''Payment could not be voided'' else ''Payment could not be refunded'') db = Inr (q, db3)"
    using upd by (cases "to = voided") (simp_all add: voidPaymentRow_def refundPaymentRow_def lifecycle_update_def [abs_def])
  from update_payment_Inr [OF this] frame show ?thesis by (auto simp: payments_frame_def)
qed

lemma lifecycleBody_Inr:
  assumes "lifecycleBody env tid actor p0 to why db = Inr (q, db')"
  shows "\<exists>p. loadPayment tid (pay_id p0) db = Some p \<and> pay_status p = completed \<and>
    q = lifecycle_update env actor to why p \<and>
    db_payments db' = update_where (\<lambda>x. pay_tenantId x = tid \<and> pay_id x = pay_id p0)
      (lifecycle_update env actor to why) (db_payments db)"
proof -
  from assms obtain pre db1 where gate: "lifecycleGateway env tid actor p0 to db = Inr (pre, db1)"
    and eff: "lifecycleEffects env tid actor p0 to why pre db1 = Inr (q, db')"
    by (auto simp: lifecycleBody_def tx_simps)
  from lifecycleGateway_Inr(1,2) [OF gate] lifecycleEffects_Inr [OF eff] show ?thesis
    by (auto simp: payments_frame_def loadPayment_def)
qed

text \<open>An operation that only reads first and then runs the life-cycle transaction.\<close>

lemma lifecycle_operation:
  assumes "voidPayment env tid actor pid why db = (Inr q, db') \<and> to = voided \<and> w = Some why \<or>
    refundPayment env tid actor pid db = (Inr q, db') \<and> to = refunded \<and> w = None"
  shows "\<exists>p. loadPayment tid pid db = Some p \<and> lifecycleBody env tid (pa_userId actor) p to w db = Inr (q, db')"
  using assms
  by (auto simp: voidPayment_def refundPayment_def paymentBranch_def lifecycleChange_def tx_simps
      split: option.splits if_splits)

lemma loadPayment_id: "loadPayment tid pid db = Some p \<Longrightarrow> pay_id p = pid \<and> pay_tenantId p = tid \<and> p \<in> set (db_payments db)"
  by (auto simp: loadPayment_def dest: find_row_Some)

lemma lifecycle_update_key [simp]:
  "pay_tenantId (lifecycle_update env a to w p) = pay_tenantId p" "pay_id (lifecycle_update env a to w p) = pay_id p"
  by (simp_all add: lifecycle_update_def)

lemma lifecycle_payments:
  assumes "voidPayment env tid actor pid why db = (Inr q, db') \<and> to = voided \<and> w = Some why \<or>
    refundPayment env tid actor pid db = (Inr q, db') \<and> to = refunded \<and> w = None"
  shows "\<exists>p. loadPayment tid pid db = Some p \<and> pay_status p = completed \<and>
    q = lifecycle_update env (pa_userId actor) to w p \<and> loadPayment tid pid db' = Some q \<and>
    db_payments db' = update_where (\<lambda>x. pay_tenantId x = tid \<and> pay_id x = pid)
      (lifecycle_update env (pa_userId actor) to w) (db_payments db)"
proof -
  from lifecycle_operation [OF assms] obtain p where p: "loadPayment tid pid db = Some p"
    and body: "lifecycleBody env tid (pa_userId actor) p to w db = Inr (q, db')" by blast
  have "pay_id p = pid" "pay_tenantId p = tid" using loadPayment_id [OF p] by auto
  with lifecycleBody_Inr [OF body] p show ?thesis
    by (auto simp: loadPayment_def find_row_update)
qed

lemma lifecycle_refused:
  assumes "loadPayment tid pid db = Some q" "pay_status q \<noteq> completed"
  shows "\<exists>e. voidPayment env tid actor pid why db = (Inl e, db)" "\<exists>e. refundPayment env tid actor pid db = (Inl e, db)"
proof -
  have change: "\<exists>e. lifecycleChange env tid u pid to w db = (Inl e, db)" for u to w
    using assms
    by (cases "env_tenantGate env tid") (auto simp: lifecycleChange_def op_bind_def op_lift_def store_run_def
        run_tx_def tx_bind_def tx_lift_def tx_read_def ok_def)
  have branch: "snd (paymentBranch env tid pid db) = db"
    unfolding paymentBranch_def store_run_def run_tx_def loadSnapshot_def
    by (auto simp: tx_bind_def tx_lift_def tx_read_def tx_readR_def tx_some_def tx_return_def
        andThen_Inr_iff result_simps split: sum.splits option.splits)
  show "\<exists>e. voidPayment env tid actor pid why db = (Inl e, db)" "\<exists>e. refundPayment env tid actor pid db = (Inl e, db)"
    using branch change
    by (auto simp: voidPayment_def refundPayment_def op_bind_def op_lift_def split: prod.splits sum.splits)
qed

text \<open>
  C3. A payment leaves the completed state at most once. A successful void or refund found the payment
  completed, set only its status and (for a void) the evidence of who, when and why, and touched no
  other payment; after it, every further void or refund of the same payment, by anybody and at any
  time, is refused and leaves the database as it is.
\<close>

theorem lifecycle_once:
  assumes "voidPayment env tid actor pid why db = (Inr q, db') \<and> to = voided \<and> w = Some why \<or>
    refundPayment env tid actor pid db = (Inr q, db') \<and> to = refunded \<and> w = None"
  shows "(\<exists>p. loadPayment tid pid db = Some p \<and> pay_status p = completed \<and>
      q = lifecycle_update env (pa_userId actor) to w p \<and> pay_status q = to) \<and>
    filter (\<lambda>x. \<not> (pay_tenantId x = tid \<and> pay_id x = pid)) (db_payments db') =
      filter (\<lambda>x. \<not> (pay_tenantId x = tid \<and> pay_id x = pid)) (db_payments db) \<and>
    (\<forall>env' actor' why'. (\<exists>e. voidPayment env' tid actor' pid why' db' = (Inl e, db')) \<and>
       (\<exists>e. refundPayment env' tid actor' pid db' = (Inl e, db')))"
proof -
  from lifecycle_payments [OF assms] obtain p where p: "loadPayment tid pid db = Some p" "pay_status p = completed"
    and q: "q = lifecycle_update env (pa_userId actor) to w p" "loadPayment tid pid db' = Some q"
    and pays: "db_payments db' = update_where (\<lambda>x. pay_tenantId x = tid \<and> pay_id x = pid)
      (lifecycle_update env (pa_userId actor) to w) (db_payments db)" by blast
  have "to = voided \<or> to = refunded" using assms by auto
  then have st: "pay_status q = to" by (auto simp: q(1) lifecycle_update_def)
  have "filter (\<lambda>x. \<not> (pay_tenantId x = tid \<and> pay_id x = pid)) (update_where (\<lambda>x. pay_tenantId x = tid \<and> pay_id x = pid)
      (lifecycle_update env (pa_userId actor) to w) xs) = filter (\<lambda>x. \<not> (pay_tenantId x = tid \<and> pay_id x = pid)) xs" for xs
    by (induction xs) (auto simp: update_where_def)
  moreover have "pay_status q \<noteq> completed" using st \<open>to = voided \<or> to = refunded\<close> by auto
  ultimately show ?thesis using p q st pays lifecycle_refused [OF q(2)] by simp
qed

theorem lifecycle_once_witness:
  "pay_status example_refunded = refunded \<and>
   (\<exists>e. refundPayment example_env ''t1'' example_actor ''u111'' example_refunded_db = (Inl e, example_refunded_db)) \<and>
   (\<exists>e. voidPayment example_env ''t1'' example_actor ''u111'' ''late'' example_refunded_db = (Inl e, example_refunded_db))"
  using lifecycle_once [OF disjI2 [OF conjI [OF example_refunds conjI [OF refl refl]]]] by blast

end
