(* ===== verification/Payments_Stock.thy ===== *)
theory Payments_Stock
  imports Payments_Lifecycle
begin

text \<open>
  The stock effects of a refund: every component deducted for a live line is returned exactly when
  the kitchen never started the line, recorded as waste otherwise, and never twice.
\<close>

definition stock_frame :: "pos_db \<Rightarrow> pos_db \<Rightarrow> bool" where
  "stock_frame db db' \<longleftrightarrow> db_items db' = db_items db \<and> db_stock db' = db_stock db \<and>
     db_statusEvents db' = db_statusEvents db \<and> db_workflowStates db' = db_workflowStates db \<and> db_statusKinds db' = db_statusKinds db"

interpretation same_stock: tx_relation stock_frame
  by unfold_locales (auto simp: stock_frame_def)

lemma stock_frame_writes:
  "tx_ensures stock_frame (bumpOrderRevision env tid oid)"
  "tx_ensures stock_frame (bumpShiftRevision env tid sid)"
  "tx_ensures stock_frame (postPaymentJournalReversalEntry env tid pid u at)"
  "tx_ensures stock_frame (setOrderPaymentStatus env tid oid st)"
  "tx_ensures stock_frame (appendAuditEvidence env row)"
  "tx_ensures stock_frame (update_payment env tid pid f msg)"
  "tx_ensures stock_frame (postInventoryRestoration env mid)"
  by (auto simp: tx_ensures_def tx_simps stock_frame_def Let_def insert_entry_cases
      bumpOrderRevision_def bumpShiftRevision_def postPaymentJournalReversalEntry_def update_payment_def
      setOrderPaymentStatus_def appendAuditEvidence_def postInventoryRestoration_def split: option.splits)

definition deduction_key :: "sale_deduction_aggregate \<Rightarrow> string \<times> string" where
  "deduction_key d = (sd_orderItemId d, sd_inventoryItemId d)"

text \<open>
  The movement that settles a deduction when its line is refunded or voided: all of it back for a line that never
  fired a kitchen ticket, waste (of the given kind) of zero quantity for a line that did.
\<close>

definition settles_deduction ::
  "stock_movement_type \<Rightarrow> string \<Rightarrow> string \<Rightarrow> string list \<Rightarrow> sale_deduction_aggregate \<Rightarrow> stock_movement_record \<Rightarrow> bool" where
  "settles_deduction waste tid oid fired d m \<longleftrightarrow>
     sm_tenantId m = tid \<and> sm_orderId m = Some oid \<and> sm_orderItemId m = Some (sd_orderItemId d) \<and>
     sm_inventoryItemId m = sd_inventoryItemId d \<and>
     (if sd_orderItemId d \<in> set fired
      then sm_movementType m = waste \<and> decimalTextToMinor (sm_quantityDelta m) 4 ''quantityDelta'' = Inr 0
      else sm_movementType m = void_restoration \<and>
           (\<exists>t. decimalTextToMinor (sd_totalDeducted d) 4 ''totalDeducted'' = Inr t \<and>
                decimalTextToMinor (sm_quantityDelta m) 4 ''quantityDelta'' = Inr (- t)))"

lemma settles_deduction_key: "settles_deduction waste tid oid fired d m \<Longrightarrow> movement_key m = deduction_key d"
  by (simp add: settles_deduction_def movement_key_def deduction_key_def)

definition append_movements :: "stock_movement_record list \<Rightarrow> pos_db \<Rightarrow> pos_db" where
  "append_movements ms db = db\<lparr>db_stock := db_stock db @ ms, db_restorationCalls := db_restorationCalls db @ map sm_id ms\<rparr>"

lemma append_movements_simps:
  "db_stock (append_movements ms db) = db_stock db @ ms" "append_movements [] db = db"
  "append_movements ms' (append_movements ms db) = append_movements (ms @ ms') db"
  by (simp_all add: append_movements_def)

lemma insertStockMovement_Inr:
  assumes "insertStockMovement env tid im db = Inr (m, db')"
  shows "db' = db\<lparr>db_stock := db_stock db @ [m]\<rparr>"
    "sm_tenantId m = tid" "sm_orderId m = im_orderId im" "sm_orderItemId m = im_orderItemId im"
    "sm_inventoryItemId m = im_inventoryItemId im" "sm_movementType m = im_movementType im"
    "numeric4 (im_quantityDelta im) = Inr (sm_quantityDelta m)"
  using assms by (auto simp: insertStockMovement_def tx_simps Let_def)

text \<open>One settlement: the quantity, the movement and the posting of its cost.\<close>

lemma settlement_Inr:
  assumes delta: "(if sd_orderItemId d \<notin> set fired
      then andThen (decimalTextToMinor (sd_totalDeducted d) 4 ''totalDeducted'') (\<lambda>m. minorToDecimalText (- m) 4)
      else minorToDecimalText 0 4) = Inr delta"
    and ins: "insertStockMovement env tid im db = Inr (m, db1)"
    and im: "im_orderId im = Some oid" "im_orderItemId im = Some (sd_orderItemId d)" "im_inventoryItemId im = sd_inventoryItemId d"
      "im_movementType im = (if sd_orderItemId d \<notin> set fired then void_restoration else waste)" "im_quantityDelta im = delta"
    and post: "postInventoryRestoration env (sm_id m) db1 = Inr (x, db')"
  shows "db' = append_movements [m] db" "settles_deduction waste tid oid fired d m"
proof -
  note i = insertStockMovement_Inr [OF ins]
  show "db' = append_movements [m] db" using post by (simp add: postInventoryRestoration_def tx_simps i(1) append_movements_def)
  show "settles_deduction waste tid oid fired d m"
    using i delta im numeric4_roundtrip(1) [of 4] by (auto simp: settles_deduction_def result_simps split: if_splits)
qed

lemma settlements_Inr:
  assumes step: "\<And>d db x db'. f d db = Inr (x, db') \<Longrightarrow>
      if deduction_key d \<in> set recorded then db' = db else \<exists>m. db' = append_movements [m] db \<and> P d m"
    and run: "tx_for f ds db = Inr (x, db')"
  shows "\<exists>new. db' = append_movements new db \<and> list_all2 P (filter (\<lambda>d. deduction_key d \<notin> set recorded) ds) new"
  using run
proof (induction ds arbitrary: db)
  case Nil
  then show ?case by (simp add: tx_simps append_movements_simps)
next
  case (Cons d ds)
  then obtain db1 where first: "f d db = Inr ((), db1)" and rest: "tx_for f ds db1 = Inr (x, db')" by (auto simp: tx_simps)
  from Cons.IH [OF rest] obtain new where new: "db' = append_movements new db1"
    "list_all2 P (filter (\<lambda>d. deduction_key d \<notin> set recorded) ds) new" by blast
  show ?case
  proof (cases "deduction_key d \<in> set recorded")
    case True
    with step [OF first] new show ?thesis by auto
  next
    case False
    with step [OF first] obtain m where "db1 = append_movements [m] db" "P d m" by auto
    with False new show ?thesis by (intro exI [of _ "m # new"]) (simp add: append_movements_simps)
  qed
qed

lemma refundMovement_Inr:
  assumes "refundMovement env tid b oid u fired recorded d db = Inr (x, db')"
  shows "if deduction_key d \<in> set recorded then db' = db
    else \<exists>m. db' = append_movements [m] db \<and> settles_deduction waste_refund tid oid fired d m"
proof (cases "deduction_key d \<in> set recorded")
  case True
  then show ?thesis using assms by (simp add: refundMovement_def deduction_key_def tx_simps)
next
  case False
  let ?r = "sd_orderItemId d \<notin> set fired"
  from False assms obtain delta m db1 where
    delta: "(if ?r then andThen (decimalTextToMinor (sd_totalDeducted d) 4 ''totalDeducted'') (\<lambda>m. minorToDecimalText (- m) 4)
       else minorToDecimalText 0 4) = Inr delta" and
    ins: "insertStockMovement env tid \<lparr>im_branchId = b, im_inventoryItemId = sd_inventoryItemId d,
           im_movementType = (if ?r then void_restoration else waste_refund),
           im_quantityDelta = delta, im_orderId = Some oid,
           im_orderItemId = Some (sd_orderItemId d), im_actorUserId = u,
           im_managerOverrideId = None, im_adjustmentReasonId = None, im_occurredAt = env_now env\<rparr> db = Inr (m, db1)" and
    post: "postInventoryRestoration env (sm_id m) db1 = Inr (x, db')"
    unfolding refundMovement_def deduction_key_def Let_def tx_simps by (auto simp: tx_simps)
  from settlement_Inr [OF delta ins _ _ _ _ _ post, of oid waste_refund] False show ?thesis by auto
qed

lemma refundMovements_Inr:
  assumes "tx_for (refundMovement env tid b oid u fired recorded) ds db = Inr (x, db')"
  shows "\<exists>new. db_stock db' = db_stock db @ new \<and>
    list_all2 (settles_deduction waste_refund tid oid fired) (filter (\<lambda>d. deduction_key d \<notin> set recorded) ds) new"
proof -
  have "\<exists>new. db' = append_movements new db \<and>
    list_all2 (settles_deduction waste_refund tid oid fired) (filter (\<lambda>d. deduction_key d \<notin> set recorded) ds) new"
    by (rule settlements_Inr [OF _ assms]) (rule refundMovement_Inr)
  then show ?thesis by (auto simp: append_movements_simps)
qed

section \<open>The movements of one refund\<close>

text \<open>
  One movement per deducted component of a live line, in order, leaving out the components for which
  the order already has a restoration or a waste record.
\<close>

definition refund_movements :: "string \<Rightarrow> string \<Rightarrow> pos_db \<Rightarrow> stock_movement_record list \<Rightarrow> bool" where
  "refund_movements tid oid db new \<longleftrightarrow>
     (\<exists>ds. loadSaleDeductionsForOrderItems tid (loadNonVoidedOrderItemIds tid oid db) db = Inr ds \<and>
        list_all2 (settles_deduction waste_refund tid oid (loadItemsWithKitchenTicketFired tid (loadNonVoidedOrderItemIds tid oid db) db))
          (filter (\<lambda>d. deduction_key d \<notin> set (loadWasteRefundKeys tid oid db)) ds) new)"

lemma writeRefundStockMovements_Inr:
  assumes "writeRefundStockMovements env tid b oid u db = Inr (x, db')"
  shows "\<exists>new. db_stock db' = db_stock db @ new \<and> refund_movements tid oid db new"
proof -
  let ?ids = "loadNonVoidedOrderItemIds tid oid db"
  have "\<exists>ds. loadSaleDeductionsForOrderItems tid ?ids db = Inr ds \<and>
    (ds = [] \<and> db' = db \<or> tx_for (refundMovement env tid b oid u (loadItemsWithKitchenTicketFired tid ?ids db)
      (loadWasteRefundKeys tid oid db)) ds db = Inr (x, db'))"
    using assms
    by (cases "?ids = []") (auto simp: writeRefundStockMovements_def tx_simps loadSaleDeductionsForOrderItems_def
        split: if_splits)
  then obtain ds where ds: "loadSaleDeductionsForOrderItems tid ?ids db = Inr ds"
    and run: "ds = [] \<and> db' = db \<or> tx_for (refundMovement env tid b oid u (loadItemsWithKitchenTicketFired tid ?ids db)
      (loadWasteRefundKeys tid oid db)) ds db = Inr (x, db')" by blast
  show ?thesis
  proof (cases "ds = [] \<and> db' = db")
    case True
    with ds show ?thesis by (intro exI [of _ "[]"]) (simp add: refund_movements_def)
  next
    case False
    with run refundMovements_Inr ds show ?thesis unfolding refund_movements_def by blast
  qed
qed

lemma refund_movements_frame:
  "stock_frame db db' \<Longrightarrow> refund_movements tid oid db' new = refund_movements tid oid db new"
  by (simp add: refund_movements_def stock_frame_def loadSaleDeductionsForOrderItems_def deduction_rows_def
      loadNonVoidedOrderItemIds_def active_items_def loadItemsWithKitchenTicketFired_def fires_ticket_def loadWasteRefundKeys_def)

lemma lifecycleBody_refund_stock:
  assumes "lifecycleBody env tid u p0 refunded why db = Inr (q, db')"
  shows "\<exists>new. db_stock db' = db_stock db @ new \<and> refund_movements tid (pay_orderId p0) db new \<and> db_items db' = db_items db"
proof -
  from assms obtain pre db1 where gate: "lifecycleGateway env tid u p0 refunded db = Inr (pre, db1)"
    and eff: "lifecycleEffects env tid u p0 refunded why pre db1 = Inr (q, db')"
    by (auto simp: lifecycleBody_def tx_simps)
  from eff obtain db3 db4 db5 db6 row st where
    upd: "refundPaymentRow env tid (pay_id p0) db1 = Inr (q, db3)" and
    rev: "postPaymentJournalReversalEntry env tid (pay_id p0) u (env_now env) db3 = Inr ((), db4)" and
    audit: "appendAuditEvidence env row db4 = Inr ((), db5)" and
    set: "setOrderPaymentStatus env tid (pay_orderId p0) st db5 = Inr ((), db6)" and
    stock: "writeRefundStockMovements env tid (sn_branchId pre) (pay_orderId p0) u db6 = Inr ((), db')"
    unfolding lifecycleEffects_def Let_def tx_simps by fastforce
  have g: "tx_ensures stock_frame (lifecycleGateway env tid u p0 refunded)"
    by (simp add: lifecycleGateway_def Let_def same_stock.body_rules stock_frame_writes loadSnapshot_def)
  note frame = tx_ensuresD [OF g gate] tx_ensuresD [OF stock_frame_writes(6) upd [unfolded refundPaymentRow_def]]
    tx_ensuresD [OF stock_frame_writes(3) rev] tx_ensuresD [OF stock_frame_writes(5) audit]
    tx_ensuresD [OF stock_frame_writes(4) set]
  then have f: "stock_frame db db6" by (meson same_stock.trans)
  from writeRefundStockMovements_Inr [OF stock] obtain new where "db_stock db' = db_stock db6 @ new"
    "refund_movements tid (pay_orderId p0) db6 new" by blast
  moreover have "pricing_frame db db'" using tx_ensuresD [OF pricing.lifecycle assms] .
  ultimately show ?thesis using f refund_movements_frame [OF f] by (auto simp: stock_frame_def pricing_frame_def)
qed

text \<open>After the movements of a refund are recorded, the same order has nothing left to return.\<close>

lemma refund_movements_again:
  assumes new: "refund_movements tid oid db new" and st: "db_stock db' = db_stock db @ new" and it: "db_items db' = db_items db"
    and again: "refund_movements tid oid db' extra"
  shows "extra = []"
proof -
  let ?ids = "loadNonVoidedOrderItemIds tid oid db" and ?rec = "loadWasteRefundKeys tid oid db"
  let ?fired = "loadItemsWithKitchenTicketFired tid ?ids db"
  from new obtain ds where ds: "loadSaleDeductionsForOrderItems tid ?ids db = Inr ds"
    and all: "list_all2 (settles_deduction waste_refund tid oid ?fired) (filter (\<lambda>d. deduction_key d \<notin> set ?rec) ds) new"
    by (auto simp: refund_movements_def)
  have kinds: "sm_movementType m \<noteq> sale_deduction \<and> sm_tenantId m = tid \<and> sm_orderId m = Some oid \<and>
      (sm_movementType m = waste_refund \<or> sm_movementType m = void_restoration)" if "m \<in> set new" for m
  proof -
    from that obtain d where "settles_deduction waste_refund tid oid ?fired d m" using all by (metis list_all2_conv_all_nth in_set_conv_nth)
    then show ?thesis by (auto simp: settles_deduction_def split: if_splits)
  qed
  have ids: "loadNonVoidedOrderItemIds tid oid db' = ?ids" by (simp add: loadNonVoidedOrderItemIds_def active_items_def it)
  have "filter (\<lambda>m. sm_tenantId m = tid \<and> sm_movementType m = sale_deduction \<and>
       (case sm_orderItemId m of None \<Rightarrow> False | Some i \<Rightarrow> i \<in> set ?ids)) new = []"
    using kinds by (auto simp: filter_empty_conv)
  then have rows: "deduction_rows tid ?ids db' = deduction_rows tid ?ids db" by (simp add: deduction_rows_def st)
  have "loadSaleDeductionsForOrderItems tid ?ids db' = Inr ds"
    using ds unfolding loadSaleDeductionsForOrderItems_def rows .
  moreover have "filter (\<lambda>m. sm_tenantId m = tid \<and> sm_orderId m = Some oid \<and>
       (sm_movementType m = waste_refund \<or> sm_movementType m = void_restoration)) new = new"
    using kinds by (auto intro: filter_True)
  then have "loadWasteRefundKeys tid oid db' = ?rec @ map movement_key new"
    by (simp add: loadWasteRefundKeys_def st)
  moreover have "map movement_key new = map deduction_key (filter (\<lambda>d. deduction_key d \<notin> set ?rec) ds)"
    using all settles_deduction_key
    by (auto simp: list_all2_conv_all_nth intro!: nth_equalityI)
  ultimately have "filter (\<lambda>d. deduction_key d \<notin> set (loadWasteRefundKeys tid oid db')) ds = []"
    by (auto simp: filter_empty_conv)
  with again ids \<open>loadSaleDeductionsForOrderItems tid ?ids db' = Inr ds\<close> show ?thesis
    by (simp add: refund_movements_def)
qed

lemma refundPayment_stock:
  assumes "refundPayment e tid a i d = (Inr x, d')"
  shows "\<exists>new. db_stock d' = db_stock d @ new \<and> refund_movements tid (pay_orderId x) d new \<and> db_items d' = db_items d"
proof -
  have op: "voidPayment e tid a i [] d = (Inr x, d') \<and> refunded = voided \<and> None = Some [] \<or>
    refundPayment e tid a i d = (Inr x, d') \<and> refunded = refunded \<and> None = None" using assms by simp
  from lifecycle_operation [OF op] obtain p where p: "loadPayment tid i d = Some p"
    and body: "lifecycleBody e tid (pa_userId a) p refunded None d = Inr (x, d')" by blast
  from lifecycle_payments [OF op] p have "pay_orderId x = pay_orderId p" by (auto simp: lifecycle_update_def)
  with lifecycleBody_refund_stock [OF body] show ?thesis by simp
qed

text \<open>
  C27. The stock effects of a refund. A successful refund appends exactly one movement per component
  that was deducted for a live line of the order and has not been returned or written off before:
  the exact opposite of the recorded deduction when the line never fired a kitchen ticket, a waste
  record of zero quantity when it did. Refunding another payment of the same order afterwards
  moves no stock, so nothing is returned twice.
\<close>

theorem refund_stock_correct:
  assumes "refundPayment env tid actor pid db = (Inr q, db')"
  shows "\<exists>new. db_stock db' = db_stock db @ new \<and> refund_movements tid (pay_orderId q) db new \<and>
    (\<forall>env' actor' pid' q' db''. refundPayment env' tid actor' pid' db' = (Inr q', db'') \<and> pay_orderId q' = pay_orderId q \<longrightarrow>
       db_stock db'' = db_stock db')"
proof -
  from refundPayment_stock [OF assms] obtain new where new: "db_stock db' = db_stock db @ new"
    "refund_movements tid (pay_orderId q) db new" "db_items db' = db_items db" by blast
  have "db_stock db'' = db_stock db'"
    if second: "refundPayment env' tid actor' pid' db' = (Inr q', db'')" "pay_orderId q' = pay_orderId q" for env' actor' pid' q' db''
  proof -
    from refundPayment_stock [OF second(1)] obtain extra where "db_stock db'' = db_stock db' @ extra"
      "refund_movements tid (pay_orderId q) db' extra" using second(2) by auto
    with refund_movements_again [OF new(2,1,3)] show ?thesis by simp
  qed
  with new show ?thesis by blast
qed

theorem refund_stock_correct_witness:
  "\<exists>new. db_stock example_refunded_db = db_stock example_paid_db @ new \<and> length new = 2 \<and>
     refund_movements ''t1'' ''o1'' example_paid_db new"
proof -
  have "pay_orderId example_refunded = ''o1''" by (simp add: example_refunded_def example_recorded_def)
  moreover have "length (db_stock example_refunded_db) = 4" "length (db_stock example_paid_db) = 2"
    by (simp_all add: example_refunded_db_def example_paid_db_def example_db_def)
  moreover obtain new where "db_stock example_refunded_db = db_stock example_paid_db @ new"
    "refund_movements ''t1'' (pay_orderId example_refunded) example_paid_db new"
    using refund_stock_correct [OF example_refunds] by blast
  ultimately show ?thesis by (intro exI [of _ new]) simp
qed

end
