(* ===== verification/Payments_Books.thy ===== *)
theory Payments_Books
  imports Payments_Lifecycle Atomicity
begin

text \<open>
  The accounting books of the payments engine: a failed operation changes nothing, and the journal
  agrees with the payments in every state the operations can reach: each payment has exactly the
  entry it was collected with, and exactly the voided and refunded ones have a mirrored reversal.
\<close>

section \<open>Failed operations\<close>

lemma load_snapshot_reads: "tx_ensures unchanged (loadSnapshot tid oid)"
  by (simp add: loadSnapshot_def read_only.body_rules)

lemma payment_branch_reads: "op_ensures unchanged (paymentBranch env tid pid)"
  unfolding paymentBranch_def
  by (intro store_run_reads) (simp add: read_only.body_rules load_snapshot_reads)

lemma lifecycle_atomic: "op_atomic (lifecycleChange env tid u pid to why)"
  unfolding lifecycleChange_def
  by (intro op_atomic_bind store_run_reads op_atomic_run read_only.op_values read_only.bodies)

lemma recordPayment_atomic: "op_atomic (recordPayment env tid input)"
proof -
  have branch: "op_ensures unchanged (orderBranch env tid oid)" for oid
    unfolding orderBranch_def by (intro store_run_reads) (simp add: read_only.body_rules load_snapshot_reads)
  have "op_atomic (replayAfterConflict env tid k input e)" for k e
    unfolding replayAfterConflict_def buildReplay_def
    by (auto intro!: op_atomic_values op_atomic_bind store_run_reads read_only.bind_rule read_only.bodies
        load_snapshot_reads split: option.splits)
  then show ?thesis
    unfolding recordPayment_def Let_def
    by (auto intro!: op_atomic_bind branch read_only.op_values op_atomic_run op_atomic_catch split: option.splits)
qed

lemma voidPayment_atomic: "op_atomic (voidPayment env tid actor pid why)"
  unfolding voidPayment_def by (intro op_atomic_bind payment_branch_reads read_only.op_values lifecycle_atomic)

lemma refundPayment_atomic: "op_atomic (refundPayment env tid actor pid)"
  unfolding refundPayment_def by (intro op_atomic_bind payment_branch_reads read_only.op_values lifecycle_atomic)

section \<open>The books\<close>

text \<open>
  A payment is booked when its entry debits one account and credits another with exactly the base
  amount of the payment, and a reversal with the two sides swapped exists exactly when the payment
  is no longer completed.
\<close>

definition payment_booked :: "pos_db \<Rightarrow> payment_record \<Rightarrow> bool" where
  "payment_booked db p \<longleftrightarrow>
     (\<exists>e debit credit m d.
        find_entry db (pay_tenantId p) src_payment (pay_id p) = Some e \<and>
        je_lines e = [\<lparr>jl_accountId = debit, jl_debitMinor = m, jl_creditMinor = 0\<rparr>,
                      \<lparr>jl_accountId = credit, jl_debitMinor = 0, jl_creditMinor = m\<rparr>] \<and>
        0 < m \<and> andThen (currencyCode (je_currencyCode e)) storageMinorUnitDigits = Inr d \<and>
        decimalTextToMinor (pay_amountInBaseCurrency p) d ''amountInBaseCurrency'' = Inr m \<and>
        (case find_entry db (pay_tenantId p) src_payment_reversal (pay_id p) of
           None \<Rightarrow> pay_status p = completed
         | Some r \<Rightarrow> pay_status p \<noteq> completed \<and> je_lines r = map swap_line (je_lines e) \<and>
                     je_reversalOf r = Some (je_id e)))"

definition entry_owned :: "pos_db \<Rightarrow> journal_entry \<Rightarrow> bool" where
  "entry_owned db e \<longleftrightarrow> (\<exists>p\<in>set (db_payments db). je_tenantId e = pay_tenantId p \<and> je_sourceId e = pay_id p)"

text \<open>
  The key of the journal: tenant, source type and source id. No two entries share it, so that the entry and the reversal of a payment
  that \<open>payment_booked\<close> speaks of are its only ones. The journal holds the entries that come from payments; those the SQL functions post for
  stock and cost of goods carry other source types.
\<close>

definition entry_key :: "journal_entry \<Rightarrow> string \<times> journal_source \<times> string" where
  "entry_key e = (je_tenantId e, je_sourceType e, je_sourceId e)"

definition books :: "pos_db \<Rightarrow> bool" where
  "books db \<longleftrightarrow> distinct (map pay_id (db_payments db)) \<and> list_all (payment_booked db) (db_payments db) \<and>
     list_all (entry_owned db) (db_journal db) \<and> distinct (map entry_key (db_journal db))"

lemma find_entry_None: "find_entry db t s i = None \<Longrightarrow> (t, s, i) \<notin> entry_key ` set (db_journal db)"
  by (auto simp: find_entry_def find_row_None entry_key_def)

text \<open>The entries of a payment, counted.\<close>

definition entries_of :: "pos_db \<Rightarrow> journal_source \<Rightarrow> payment_record \<Rightarrow> journal_entry list" where
  "entries_of db source p = filter (\<lambda>e. entry_key e = (pay_tenantId p, source, pay_id p)) (db_journal db)"

lemma filter_key_unique:
  assumes "distinct (map f xs)"
  shows "filter (\<lambda>x. f x = k) xs = (case find_row (\<lambda>x. f x = k) xs of None \<Rightarrow> [] | Some x \<Rightarrow> [x])"
  using assms
proof (induction xs)
  case (Cons x xs)
  have "filter (\<lambda>y. f y = f x) xs = []" using Cons.prems by (auto simp: filter_empty_conv image_iff)
  with Cons show ?case by (cases "f x = k") (simp_all add: find_row_def)
qed (simp add: find_row_def)

lemma books_counts:
  assumes "books db" "p \<in> set (db_payments db)"
  shows "length (entries_of db src_payment p) = 1"
    "length (entries_of db src_payment_reversal p) = (if pay_status p = completed then 0 else 1)"
proof -
  have "entries_of db source p = (case find_entry db (pay_tenantId p) source (pay_id p) of None \<Rightarrow> [] | Some e \<Rightarrow> [e])" for source
    unfolding entries_of_def find_entry_def using assms(1) by (subst filter_key_unique) (simp_all add: books_def entry_key_def)
  moreover from assms have "payment_booked db p" by (auto simp: books_def list_all_iff)
  ultimately show "length (entries_of db src_payment p) = 1"
    "length (entries_of db src_payment_reversal p) = (if pay_status p = completed then 0 else 1)"
    by (auto simp: payment_booked_def split: option.splits)
qed

lemma find_entry_snoc:
  assumes "db_journal db' = db_journal db @ [e]"
  shows "find_entry db' t s i = (case find_entry db t s i of Some x \<Rightarrow> Some x
    | None \<Rightarrow> if je_tenantId e = t \<and> je_sourceType e = s \<and> je_sourceId e = i then Some e else None)"
  using assms by (simp add: find_entry_def find_row_append find_row_single split: option.splits)

lemma find_entry_owned:
  assumes "list_all (entry_owned db) (db_journal db)" "find_entry db t s i = Some e"
  shows "\<exists>p\<in>set (db_payments db). pay_tenantId p = t \<and> pay_id p = i"
proof -
  from assms(2) have "e \<in> set (db_journal db)" "je_tenantId e = t" "je_sourceId e = i"
    by (auto simp: find_entry_def dest: find_row_Some)
  with assms(1) show ?thesis by (fastforce simp: list_all_iff entry_owned_def)
qed

text \<open>An entry of another payment changes nothing for this one.\<close>

lemma booked_other:
  assumes "db_journal db' = db_journal db @ [e]" "je_sourceId e \<noteq> pay_id p"
  shows "payment_booked db' p = payment_booked db p"
proof -
  have "find_entry db' t s (pay_id p) = find_entry db t s (pay_id p)" for t s
    using assms(2) by (simp add: find_entry_snoc [OF assms(1)] split: option.splits)
  then show ?thesis by (simp add: payment_booked_def)
qed

text \<open>What a fresh collection adds to the journal.\<close>

lemma collectWrites_journal:
  assumes wr: "collectWrites env tid input key snap meth shift am db = Inr (r, db')"
    and none: "find_entry db tid src_payment (pay_id (rc_payment r)) = None"
  shows "\<exists>e debit credit. db_journal db' = db_journal db @ [e] \<and> je_tenantId e = tid \<and> je_sourceType e = src_payment \<and>
    je_sourceId e = pay_id (rc_payment r) \<and> je_currencyCode e = sn_baseCurrencyCode snap \<and>
    je_lines e = [\<lparr>jl_accountId = debit, jl_debitMinor = ca_netBaseMinor am, jl_creditMinor = 0\<rparr>,
                  \<lparr>jl_accountId = credit, jl_debitMinor = 0, jl_creditMinor = ca_netBaseMinor am\<rparr>]"
proof -
  let ?pj = "\<lparr>pj_paymentId = pay_id (rc_payment r), pj_branchId = sn_branchId snap,
    pj_currencyCode = sn_baseCurrencyCode snap, pj_amountMinor = ca_netBaseMinor am,
    pj_debitSystemPurpose = pm_clearingAccountSystemPurpose meth,
    pj_postedByUserId = rp_cashierUserId input, pj_occurredAt = pay_createdAt (rc_payment r)\<rparr>"
  from wr obtain ip db1 db2 where ins: "insertPayment env tid ip db = Inr (rc_payment r, db1)"
    and post: "postPaymentJournalEntry env tid ?pj db1 = Inr ((), db2)"
    and last: "(if ot_remainingBalanceMinor (ca_totals am) = ca_netBaseMinor am
              then tx_bind (postOrderCogs env tid (rp_orderId input)) (\<lambda>_.
                   setOrderPaymentStatus env tid (rp_orderId input) op_paid)
              else tx_return ()) db2 = Inr ((), db')"
    unfolding collectWrites_def tx_simps Let_def by fastforce
  have j1: "db_journal db1 = db_journal db" by (rule insertPayment_Inr(3) [OF ins])
  have "db_journal db' = db_journal db2"
    using last by (auto simp: tx_simps postOrderCogs_def setOrderPaymentStatus_def split: if_splits)
  moreover from postPaymentJournalEntry_Inr(4) [OF post] none j1 obtain e where
    e: "payment_entry env tid ?pj db1 = Some e" "db_journal db2 = db_journal db1 @ [e]"
    by (auto simp: find_entry_def)
  moreover from e(1) have "je_tenantId e = tid" "je_sourceType e = src_payment"
    "je_sourceId e = pay_id (rc_payment r)" "je_currencyCode e = sn_baseCurrencyCode snap"
    by (auto simp: payment_entry_def split: list.splits if_splits)
  moreover from e(1) have "\<exists>debit credit.
    je_lines e = [\<lparr>jl_accountId = debit, jl_debitMinor = ca_netBaseMinor am, jl_creditMinor = 0\<rparr>,
                  \<lparr>jl_accountId = credit, jl_debitMinor = 0, jl_creditMinor = ca_netBaseMinor am\<rparr>]"
    by (auto simp: payment_entry_def split: list.splits if_splits)
  ultimately show ?thesis using j1 by auto
qed

lemma collectFresh_books:
  assumes "collectFresh env tid input key db = Inr (r, db')" "books db"
  shows "books db'"
proof -
  let ?p = "rc_payment r"
  from assms(1) obtain snap meth shift am db1 where
    gate: "collectGateway env tid input db = Inr ((snap, meth, shift), db1)" and
    am: "collectAmounts input snap meth = Inr am" and
    wr: "collectWrites env tid input key snap meth shift am db1 = Inr (r, db')"
    by (rule collectFresh_parts)
  note g = collectGateway_Inr [OF gate] and a = collectAmounts_Inr [OF am] and w = collectWrites_Inr [OF wr]
  have same: "db_payments db1 = db_payments db" "db_journal db1 = db_journal db" using g by auto
  have pays: "db_payments db' = db_payments db @ [?p]" using w(1) same by simp
  have new: "\<forall>q\<in>set (db_payments db). pay_id q \<noteq> pay_id ?p" using w(9) same by (auto simp: payment_conflict_def)
  have none: "find_entry db t s (pay_id ?p) = None" for t s
    using find_entry_owned [of db t s "pay_id ?p"] assms(2) new by (cases "find_entry db t s (pay_id ?p)") (auto simp: books_def)
  then have "find_entry db1 tid src_payment (pay_id ?p) = None" by (simp add: find_entry_def same)
  from collectWrites_journal [OF wr this] obtain e debit credit where
    e: "db_journal db' = db_journal db @ [e]" "je_tenantId e = tid" "je_sourceType e = src_payment"
      "je_sourceId e = pay_id ?p" "je_currencyCode e = sn_baseCurrencyCode snap"
      "je_lines e = [\<lparr>jl_accountId = debit, jl_debitMinor = ca_netBaseMinor am, jl_creditMinor = 0\<rparr>,
                    \<lparr>jl_accountId = credit, jl_debitMinor = 0, jl_creditMinor = ca_netBaseMinor am\<rparr>]"
    by (auto simp: same)
  from w(11) obtain tx where "minorToDecimalText (ca_netBaseMinor am) (ca_baseDigits am) = Inr tx"
    "numeric4 tx = Inr (pay_amountInBaseCurrency ?p)" by blast
  from numeric4_roundtrip(1) [OF _ _ this] storage_digits [OF a(2)]
  have net: "decimalTextToMinor (pay_amountInBaseCurrency ?p) (ca_baseDigits am) ''amountInBaseCurrency'' =
    Inr (ca_netBaseMinor am)" by simp
  have "payment_booked db' ?p"
    unfolding payment_booked_def
    by (rule exI [of _ e], rule exI [of _ debit], rule exI [of _ credit], rule exI [of _ "ca_netBaseMinor am"],
        rule exI [of _ "ca_baseDigits am"]) (simp add: find_entry_snoc [OF e(1)] none e w(2,5) a(2,3) net)
  moreover have "payment_booked db' q" if "q \<in> set (db_payments db)" for q
    using that assms(2) new booked_other [OF e(1), of q] by (auto simp: books_def list_all_iff e(4))
  moreover have "entry_owned db' x" if "x \<in> set (db_journal db')" for x
    using that assms(2) e(1,2,4) w(2) pays by (auto simp: books_def list_all_iff entry_owned_def)
  moreover have "distinct (map entry_key (db_journal db'))"
    using assms(2) find_entry_None [OF none, of tid src_payment] by (auto simp: books_def e(1) entry_key_def [of e] e(2-4))
  ultimately show ?thesis using assms(2) new pays by (auto simp: books_def list_all_iff)
qed

text \<open>What voiding or refunding adds to the journal.\<close>

definition journal_frame :: "pos_db \<Rightarrow> pos_db \<Rightarrow> bool" where
  "journal_frame db db' \<longleftrightarrow> db_journal db' = db_journal db"

interpretation same_journal: tx_relation journal_frame
  by unfold_locales (auto simp: journal_frame_def)

lemma journal_frame_writes:
  "tx_ensures journal_frame (update_payment env tid pid f msg)"
  "tx_ensures journal_frame (setOrderPaymentStatus env tid oid st)"
  "tx_ensures journal_frame (appendAuditEvidence env row)"
  "tx_ensures journal_frame (insertStockMovement env tid im)"
  "tx_ensures journal_frame (postInventoryRestoration env mid)"
  by (auto simp: tx_ensures_def tx_simps journal_frame_def Let_def update_payment_def
      setOrderPaymentStatus_def appendAuditEvidence_def insertStockMovement_def postInventoryRestoration_def)

lemma refund_stock_journal: "tx_ensures journal_frame (writeRefundStockMovements env tid b oid u)"
  by (simp add: writeRefundStockMovements_def refundMovement_def Let_def same_journal.body_rules journal_frame_writes)

lemma reversal_Inr:
  assumes "postPaymentJournalReversalEntry env tid pid u at db = Inr (x, db')"
    and "find_entry db tid src_payment_reversal pid = None" "find_entry db tid src_payment pid = Some e"
  shows "\<exists>r. db_journal db' = db_journal db @ [r] \<and> je_tenantId r = tid \<and> je_sourceType r = src_payment_reversal \<and>
    je_sourceId r = pid \<and> je_reversalOf r = Some (je_id e) \<and> je_lines r = map swap_line (je_lines e)"
  using assms
  by (auto simp: postPaymentJournalReversalEntry_def tx_simps insert_entry_cases reversal_entry_def find_entry_def
      split: option.splits if_splits)

lemma lifecycleBody_journal:
  assumes "lifecycleBody env tid u p0 to why db = Inr (q, db')"
    and "find_entry db tid src_payment_reversal (pay_id p0) = None"
    and "find_entry db tid src_payment (pay_id p0) = Some e"
  shows "\<exists>r. db_journal db' = db_journal db @ [r] \<and> je_tenantId r = tid \<and> je_sourceType r = src_payment_reversal \<and>
    je_sourceId r = pay_id p0 \<and> je_reversalOf r = Some (je_id e) \<and> je_lines r = map swap_line (je_lines e)"
proof -
  from assms(1) obtain pre db1 where gate: "lifecycleGateway env tid u p0 to db = Inr (pre, db1)"
    and eff: "lifecycleEffects env tid u p0 to why pre db1 = Inr (q, db')"
    by (auto simp: lifecycleBody_def tx_simps)
  from eff obtain db3 db4 db5 db6 row st where
    upd: "(if to = voided
              then voidPaymentRow env tid (pay_id p0) u (env_now env) (case why of None \<Rightarrow> [] | Some r \<Rightarrow> r)
              else refundPaymentRow env tid (pay_id p0)) db1 = Inr (q, db3)" and
    rev: "postPaymentJournalReversalEntry env tid (pay_id p0) u (env_now env) db3 = Inr ((), db4)" and
    audit: "appendAuditEvidence env row db4 = Inr ((), db5)" and
    set: "setOrderPaymentStatus env tid (pay_orderId p0) st db5 = Inr ((), db6)" and
    stock: "(if to = refunded then writeRefundStockMovements env tid (sn_branchId pre) (pay_orderId p0) u
                else tx_return ()) db6 = Inr ((), db')"
    unfolding lifecycleEffects_def Let_def tx_simps by fastforce
  have st: "tx_ensures journal_frame (if to = refunded
      then writeRefundStockMovements env tid (sn_branchId pre) (pay_orderId p0) u else tx_return ())"
    by (simp add: refund_stock_journal same_journal.bodies)
  have up: "tx_ensures journal_frame (if to = voided
              then voidPaymentRow env tid (pay_id p0) u (env_now env) (case why of None \<Rightarrow> [] | Some r \<Rightarrow> r)
              else refundPaymentRow env tid (pay_id p0))"
    by (simp add: voidPaymentRow_def refundPaymentRow_def journal_frame_writes)
  note frame = lifecycleGateway_Inr(3) [OF gate] tx_ensuresD [OF up upd] tx_ensuresD [OF journal_frame_writes(3) audit]
    tx_ensuresD [OF journal_frame_writes(2) set] tx_ensuresD [OF st stock]
  have "find_entry db3 t s i = find_entry db t s i" for t s i
    using frame(1,2) by (simp add: find_entry_def journal_frame_def)
  with reversal_Inr [OF rev] assms(2,3) frame show ?thesis by (auto simp: journal_frame_def)
qed

lemma same_id_same_payment:
  "books db \<Longrightarrow> p \<in> set (db_payments db) \<Longrightarrow> x \<in> set (db_payments db) \<Longrightarrow> pay_id x = pay_id p \<Longrightarrow> x = p"
  by (auto simp: books_def distinct_map inj_on_def)

lemma lifecycleBody_books:
  assumes body: "lifecycleBody env tid u p0 to why db = Inr (q, db')" and to: "to \<noteq> completed" and b: "books db"
  shows "books db'"
proof -
  let ?hit = "\<lambda>x. pay_tenantId x = tid \<and> pay_id x = pay_id p0" and ?upd = "lifecycle_update env u to why"
  from lifecycleBody_Inr [OF body] obtain p where p: "loadPayment tid (pay_id p0) db = Some p" "pay_status p = completed"
    and pays: "db_payments db' = update_where ?hit ?upd (db_payments db)" by blast
  from loadPayment_id [OF p(1)] have id: "pay_id p = pay_id p0" "pay_tenantId p = tid" "p \<in> set (db_payments db)" by auto
  with b have booked: "payment_booked db p" by (auto simp: books_def list_all_iff)
  then obtain e where e: "find_entry db tid src_payment (pay_id p0) = Some e"
    and none: "find_entry db tid src_payment_reversal (pay_id p0) = None"
    using p(2) by (auto simp: payment_booked_def id split: option.splits)
  from lifecycleBody_journal [OF body none e] obtain r where r: "db_journal db' = db_journal db @ [r]"
    "je_tenantId r = tid" "je_sourceType r = src_payment_reversal" "je_sourceId r = pay_id p0"
    "je_reversalOf r = Some (je_id e)" "je_lines r = map swap_line (je_lines e)" by blast
  have st: "pay_status (?upd x) \<noteq> completed" "pay_amountInBaseCurrency (?upd x) = pay_amountInBaseCurrency x" for x
    using to by (auto simp: lifecycle_update_def)
  have "payment_booked db' (?upd p)"
    using booked unfolding payment_booked_def
    by (auto simp: find_entry_snoc [OF r(1)] id e none r st)
  moreover have "payment_booked db' x" if "x \<in> set (db_payments db)" "x \<noteq> p" for x
  proof -
    have "je_sourceId r \<noteq> pay_id x" using that same_id_same_payment [OF b id(3), of x] r(4) id(1) by metis
    with booked_other [OF r(1)] that(1) b show ?thesis by (auto simp: books_def list_all_iff)
  qed
  moreover have "?hit x \<longleftrightarrow> x = p" if "x \<in> set (db_payments db)" for x
    using same_id_same_payment [OF b id(3) that] id by metis
  ultimately have "list_all (payment_booked db') (db_payments db')"
    by (auto simp: list_all_iff pays update_where_def)
  moreover have keys: "map (\<lambda>x. (pay_tenantId x, pay_id x)) (db_payments db') = map (\<lambda>x. (pay_tenantId x, pay_id x)) (db_payments db)"
    "map pay_id (db_payments db') = map pay_id (db_payments db)"
    unfolding pays by (rule update_where_keys, simp)+
  moreover have "entry_owned db' x \<longleftrightarrow> entry_owned db x" for x
  proof -
    have "entry_owned d x \<longleftrightarrow> (je_tenantId x, je_sourceId x) \<in> set (map (\<lambda>x. (pay_tenantId x, pay_id x)) (db_payments d))" for d
      by (auto simp: entry_owned_def)
    then show ?thesis by (simp only: keys)
  qed
  moreover have "entry_owned db r" using id r by (auto simp: entry_owned_def)
  moreover have "distinct (map entry_key (db_journal db'))"
    using b find_entry_None [OF none] by (auto simp: books_def r(1) entry_key_def [of r] r(2-4))
  ultimately show ?thesis using b by (simp add: books_def r(1) list_all_iff)
qed

text \<open>Every operation of the engine keeps the books, whether it succeeds or not.\<close>

lemma recordPayment_books:
  assumes "recordPayment env tid input db = (res, db')" "books db"
  shows "books db'"
proof (cases res)
  case (Inl e)
  then show ?thesis using assms recordPayment_atomic [of env tid input] by (auto simp: op_atomic_def)
next
  case (Inr r)
  then show ?thesis using assms recordPayment_body [of env tid input db r db'] collectFresh_books by auto
qed

lemma lifecycle_books:
  assumes "voidPayment env tid actor pid why db = (res, db') \<or> refundPayment env tid actor pid db = (res, db')" "books db"
  shows "books db'"
proof (cases res)
  case (Inl e)
  with assms(1) voidPayment_atomic refundPayment_atomic have "db' = db" unfolding op_atomic_def by metis
  with assms(2) show ?thesis by simp
next
  case (Inr q)
  with assms(1) obtain to w where op: "voidPayment env tid actor pid why db = (Inr q, db') \<and> to = voided \<and> w = Some why \<or>
    refundPayment env tid actor pid db = (Inr q, db') \<and> to = refunded \<and> w = None" by auto
  then have "to \<noteq> completed" by auto
  with lifecycle_operation [OF op] lifecycleBody_books assms(2) show ?thesis by blast
qed

end
