(* ===== verification/Shift_Correct.thy ===== *)
theory Shift_Correct
  imports Shift_Engine Payments_Stock Payments_Books
begin

text \<open>
  Properties of the shift engine: what opening a shift requires and records, the arithmetic of the
  Z report, that a shift is closed once, and that the X report writes nothing.
\<close>

section \<open>Cash counts\<close>

text \<open>The value of a counted line in minor units, and of a whole count.\<close>

definition line_value :: "int \<Rightarrow> cash_count_line_input \<Rightarrow> int \<Rightarrow> bool" where
  "line_value d line v \<longleftrightarrow> (\<exists>q u. cl_quantity line = JInt q \<and> 0 \<le> q \<and> fractionDigits (cl_denominationValue line) \<le> d \<and>
     nonNegativeDecimalTextToMinor (cl_denominationValue line) d ''denominationValue'' = Inr u \<and> 0 < u \<and> v = u * q)"

lemma countLine_Inr: "countLine d a line = Inr b \<longleftrightarrow> (\<exists>v. line_value d line v \<and> b = a + v)"
  by (auto simp: countLine_def line_value_def assertNativeDenominationScale_def result_simps split: js_number.splits)

lemma validateCounts_fold:
  "foldR (countLine d) a ls = Inr b \<longleftrightarrow> (\<exists>vs. list_all2 (line_value d) ls vs \<and> b = a + sum_list vs)"
proof (induction ls arbitrary: a)
  case (Cons l ls)
  show ?case
  proof
    assume "foldR (countLine d) a (l # ls) = Inr b"
    then obtain v where v: "line_value d l v" "foldR (countLine d) (a + v) ls = Inr b"
      by (auto simp: countLine_Inr result_simps)
    with Cons obtain vs where "list_all2 (line_value d) ls vs" "b = a + v + sum_list vs" by auto
    with v show "\<exists>vs. list_all2 (line_value d) (l # ls) vs \<and> b = a + sum_list vs"
      by (intro exI [of _ "v # vs"]) simp
  next
    assume "\<exists>vs. list_all2 (line_value d) (l # ls) vs \<and> b = a + sum_list vs"
    then obtain v vs where "line_value d l v" "list_all2 (line_value d) ls vs" "b = a + (v + sum_list vs)"
      by (auto simp: list_all2_Cons1)
    moreover then have "countLine d a l = Inr (a + v)" by (auto simp: countLine_Inr)
    ultimately show "foldR (countLine d) a (l # ls) = Inr b" using Cons [of "a + v"] by auto
  qed
qed auto

lemma validateCounts_Inr:
  "validateCounts ls d = Inr b \<longleftrightarrow> (\<exists>vs. list_all2 (line_value d) ls vs \<and> b = sum_list vs)"
  using validateCounts_fold [of d 0 ls b] by (simp add: validateCounts_def)

lemma line_values_nonneg: "list_all2 (line_value d) ls vs \<Longrightarrow> 0 \<le> sum_list vs"
  by (induction rule: list_all2_induct) (auto simp: line_value_def)

text \<open>A denomination within the scale of its currency is stored exactly.\<close>

lemma mustMatch_fraction:
  assumes "mustMatch t f = Inr (ip, fp)"
  shows "fractionDigits t = int (length fp)"
proof (cases "dropWhile (\<lambda>c. c \<noteq> CHR ''.'') t")
  case Nil
  with assms show ?thesis unfolding mustMatch_def match_decimal_def fractionDigits_def Let_def Nil by (simp split: if_splits)
next
  case (Cons c rest)
  with assms show ?thesis unfolding mustMatch_def match_decimal_def fractionDigits_def Let_def Cons by (simp split: if_splits)
qed

lemma mustMatch_no_sign: "mustMatch t f = Inr (ip, fp) \<Longrightarrow> t \<noteq> [] \<and> hd t \<noteq> CHR ''-''"
proof
  assume m: "mustMatch t f = Inr (ip, fp)"
  then have ip: "takeWhile (\<lambda>c. c \<noteq> CHR ''.'') t = ip" "canonical_nat ip"
    using mustMatch_digits(1) [OF m] unfolding mustMatch_def match_decimal_def Let_def
    by (auto split: if_splits list.splits)
  then have "ip \<noteq> []" by (auto simp: canonical_nat_def)
  with ip show "t \<noteq> []" by auto
  then show "hd t \<noteq> CHR ''-''" using ip hd_canonical_not_minus [OF ip(2)] \<open>ip \<noteq> []\<close>
    by (cases t) (auto split: if_splits)
qed

lemma exact_parse:
  assumes "mustMatch t f = Inr (ip, fp)" "int (length fp) \<le> d" "d \<le> MAX_SCALE"
  shows "nonNegativeDecimalTextToMinor t d g = Inr (digits_to_int (ip @ fp) * 10 ^ (nat d - length fp))"
proof -
  have "mustMatch t g = Inr (ip, fp)" using assms(1) by (auto simp: mustMatch_def split: option.splits)
  moreover have "(10::int) ^ nat d = 10 ^ (nat d - length fp) * 10 ^ length fp"
    using assms(2) by (simp add: power_add [symmetric] nat_le_iff)
  then have "divideRoundHalfToEven (x * 10 ^ nat d) (10 ^ length fp) = Inr (x * 10 ^ (nat d - length fp))" for x
    by (simp only: mult.assoc [symmetric] divide_exact) (simp add: divide_exact)
  ultimately show ?thesis using assms by (simp add: nonNegativeDecimalTextToMinor_def)
qed

lemma denomination_stored:
  assumes "nonNegativeDecimalTextToMinor t d f = Inr u" "fractionDigits t \<le> d" "d \<le> 4"
  shows "decimalTextToMinor t 4 g = Inr (u * 10 ^ nat (4 - d))"
proof -
  from assms(1) obtain ip fp where m: "mustMatch t f = Inr (ip, fp)" and d: "0 \<le> d"
    by (auto simp: nonNegativeDecimalTextToMinor_def result_simps split: if_splits)
  have len: "int (length fp) \<le> d" using mustMatch_fraction [OF m] assms(2) by simp
  have u: "u = digits_to_int (ip @ fp) * 10 ^ (nat d - length fp)"
    using exact_parse [OF m len, of f] assms by (simp add: MAX_SCALE_def)
  have "nat 4 - length fp = (nat d - length fp) + nat (4 - d)" using len d assms(3) by linarith
  then have "(10::int) ^ (nat 4 - length fp) = 10 ^ (nat d - length fp) * 10 ^ nat (4 - d)"
    by (simp only: power_add)
  then show ?thesis
    using exact_parse [OF m, of 4 g] len assms(3) mustMatch_no_sign [OF m]
    by (simp add: decimalTextToMinor_def MAX_SCALE_def u)
qed

section \<open>Amounts in numeric columns\<close>

lemma parse4: "minorToDecimalText m 4 = Inr t \<Longrightarrow> decimalTextToMinor t 4 f = Inr m"
  using printed_rescale [of 4 4 m f] by (auto simp: MAX_SCALE_def)

lemma numeric4_value:
  assumes "numeric4 t = Inr t'"
  shows "\<exists>m. decimalTextToMinor t 4 ''numeric'' = Inr m \<and> decimalTextToMinor t' 4 f = Inr m"
  using assms parse4 by (auto simp: numeric4_def result_simps)

lemma numeric4_sum_Nil [simp]: "numeric4_sum [] = Inr 0"
  by (simp add: numeric4_sum_def)

lemma numeric4_sum_Cons:
  "numeric4_sum (t # ts) = Inr s \<longleftrightarrow> (\<exists>m r. decimalTextToMinor t 4 ''numeric'' = Inr m \<and> numeric4_sum ts = Inr r \<and> s = m + r)"
proof (cases "decimalTextToMinor t 4 ''numeric''")
  case (Inr m)
  have "numeric4_sum (t # ts) = mapResult (numeric4_sum ts) (\<lambda>r. m + r)"
    unfolding numeric4_sum_def using Inr
    by (simp add: ok_def) (rule foldR_additive, simp)
  with Inr show ?thesis by (cases "numeric4_sum ts") (auto simp: ok_def)
qed (simp add: numeric4_sum_def)

text \<open>A stored amount that is a whole number of minor units at scale \<open>d\<close>.\<close>

definition at_scale :: "int \<Rightarrow> string \<Rightarrow> bool" where
  "at_scale d t \<longleftrightarrow> (\<exists>m. minorToDecimalText (m * 10 ^ nat (4 - d)) 4 = Inr t)"

lemma at_scale_value:
  assumes "at_scale d t" "0 \<le> d" "d \<le> 4"
  obtains m where "decimalTextToMinor t 4 ''numeric'' = Inr (m * 10 ^ nat (4 - d))"
    "\<And>f. decimalTextToMinor t d f = Inr m" "\<And>f. 0 \<le> m \<Longrightarrow> nonNegativeDecimalTextToMinor t d f = Inr m"
    "\<And>f n. nonNegativeDecimalTextToMinor t d f = Inr n \<Longrightarrow> n = m"
proof -
  from assms(1) obtain m where m: "minorToDecimalText (m * 10 ^ nat (4 - d)) 4 = Inr t" by (auto simp: at_scale_def)
  have "\<And>f. decimalTextToMinor t d f = Inr m" "\<And>f. 0 \<le> m \<Longrightarrow> nonNegativeDecimalTextToMinor t d f = Inr m"
    using printed_descale [of d 4 m] assms m by (auto simp: MAX_SCALE_def)
  moreover have "n = m" if "nonNegativeDecimalTextToMinor t d f = Inr n" for f n
  proof -
    from that obtain ip fp where "mustMatch t f = Inr (ip, fp)"
      by (auto simp: nonNegativeDecimalTextToMinor_def result_simps split: if_splits)
    from mustMatch_no_sign [OF this] that calculation(1) [of f] show ?thesis by (simp add: decimalTextToMinor_def)
  qed
  ultimately show ?thesis using that parse4 [OF m] by blast
qed

lemma at_scale_printed:
  assumes "minorToDecimalText m d = Inr t" "numeric4 t = Inr t'" "0 \<le> d" "d \<le> 4"
  shows "at_scale d t'" "decimalTextToMinor t' 4 f = Inr (m * 10 ^ nat (4 - d))"
proof -
  have "decimalTextToMinor t 4 ''numeric'' = Inr (m * 10 ^ nat (4 - d))"
    using printed_rescale [of d 4 m "''numeric''"] assms by (auto simp: MAX_SCALE_def)
  with assms(2) have "minorToDecimalText (m * 10 ^ nat (4 - d)) 4 = Inr t'" by (simp add: numeric4_def)
  then show "at_scale d t'" "decimalTextToMinor t' 4 f = Inr (m * 10 ^ nat (4 - d))"
    using parse4 by (auto simp: at_scale_def)
qed

lemma at_scale_sum:
  assumes "\<forall>t\<in>set ts. at_scale d t" "0 \<le> d" "d \<le> 4"
  shows "\<exists>m. numeric4_sum ts = Inr (m * 10 ^ nat (4 - d))"
  using assms(1)
proof (induction ts)
  case Nil
  then show ?case by (auto intro: exI [of _ 0])
next
  case (Cons t ts)
  then obtain r where r: "numeric4_sum ts = Inr (r * 10 ^ nat (4 - d))" by auto
  from Cons have "at_scale d t" by simp
  then obtain m where "decimalTextToMinor t 4 ''numeric'' = Inr (m * 10 ^ nat (4 - d))"
    using at_scale_value assms(2,3) by metis
  with r have "numeric4_sum (t # ts) = Inr ((m + r) * 10 ^ nat (4 - d))"
    by (auto simp: numeric4_sum_Cons algebra_simps)
  then show ?case by blast
qed

section \<open>The rows of a count\<close>

lemma insertCashCountDetail_Inr:
  assumes "insertCashCountDetail env tid sid ct line db = Inr (u, db')" "line_value d line v" "0 \<le> d" "d \<le> 4"
  shows "\<exists>row. db' = db\<lparr>db_cashCounts := db_cashCounts db @ [row]\<rparr> \<and> cc_tenantId row = tid \<and>
    cc_shiftReconciliationId row = sid \<and> cc_countType row = ct \<and>
    decimalTextToMinor (cc_subtotal row) 4 ''numeric'' = Inr (v * 10 ^ nat (4 - d))"
proof -
  from assms(2) obtain q w where q: "cl_quantity line = JInt q" "v = w * q"
    and w: "nonNegativeDecimalTextToMinor (cl_denominationValue line) d ''denominationValue'' = Inr w"
      "fractionDigits (cl_denominationValue line) \<le> d" by (auto simp: line_value_def)
  from assms(1) q obtain den sub m where den: "numeric4 (cl_denominationValue line) = Inr den"
    and m: "decimalTextToMinor den 4 ''numeric'' = Inr m" and sub: "minorToDecimalText (m * q) 4 = Inr sub"
    and db': "db' = db\<lparr>db_cashCounts := db_cashCounts db @ [\<lparr>cc_id = env_uuid env db, cc_tenantId = tid,
       cc_shiftReconciliationId = sid, cc_countType = ct, cc_denominationValue = den, cc_quantity = q,
       cc_subtotal = sub, cc_createdAt = env_now env\<rparr>]\<rparr>"
    by (auto simp: insertCashCountDetail_def tx_simps Let_def result_simps)
  have "m = w * 10 ^ nat (4 - d)"
    using numeric4_value [OF den] denomination_stored [OF w assms(4)] m by auto
  with parse4 [OF sub, of "''numeric''"] have "decimalTextToMinor sub 4 ''numeric'' = Inr (v * 10 ^ nat (4 - d))"
    by (simp add: q(2) mult_ac)
  with db' show ?thesis by (intro exI conjI) (rule db', simp_all)
qed

lemma insertCashCountDetails_Inr:
  assumes "insertCashCountDetails env tid sid ct ls db = Inr (u, db')" "list_all2 (line_value d) ls vs" "0 \<le> d" "d \<le> 4"
  shows "\<exists>rows. db' = db\<lparr>db_cashCounts := db_cashCounts db @ rows\<rparr> \<and> length rows = length ls \<and>
    list_all (\<lambda>r. cc_tenantId r = tid \<and> cc_shiftReconciliationId r = sid \<and> cc_countType r = ct) rows \<and>
    numeric4_sum (map cc_subtotal rows) = Inr (sum_list vs * 10 ^ nat (4 - d))"
  using assms(2,1) unfolding insertCashCountDetails_def
proof (induction arbitrary: db rule: list_all2_induct)
  case Nil
  then show ?case by (auto simp: tx_simps intro!: exI [of _ "[]"])
next
  case (Cons l ls v vs)
  then obtain db1 where one: "insertCashCountDetail env tid sid ct l db = Inr ((), db1)"
    and rest: "tx_for (insertCashCountDetail env tid sid ct) ls db1 = Inr (u, db')" by (auto simp: tx_simps)
  from insertCashCountDetail_Inr [OF one Cons.hyps(1) assms(3,4)] obtain row where
    row: "db1 = db\<lparr>db_cashCounts := db_cashCounts db @ [row]\<rparr>" "cc_tenantId row = tid"
      "cc_shiftReconciliationId row = sid" "cc_countType row = ct"
      "decimalTextToMinor (cc_subtotal row) 4 ''numeric'' = Inr (v * 10 ^ nat (4 - d))" by blast
  from Cons.IH [OF rest] obtain rows where rows: "db' = db1\<lparr>db_cashCounts := db_cashCounts db1 @ rows\<rparr>" "length rows = length ls"
    "list_all (\<lambda>r. cc_tenantId r = tid \<and> cc_shiftReconciliationId r = sid \<and> cc_countType r = ct) rows"
    "numeric4_sum (map cc_subtotal rows) = Inr (sum_list vs * 10 ^ nat (4 - d))" by blast
  then show ?case using row
    by (intro exI [of _ "row # rows"]) (auto simp: numeric4_sum_Cons algebra_simps)
qed

section \<open>Opening a shift\<close>

lemma requireActiveMembers_Inr:
  "requireActiveMembers tid us db = Inr (u, db') \<longleftrightarrow> db' = db \<and> (\<forall>x\<in>set us. userIsActiveMember tid x db)"
  unfolding requireActiveMembers_def by (induction us arbitrary: db) (auto simp: tx_simps)

lemma branchDigits_bounds: "branchDigits b = Inr d \<Longrightarrow> 0 \<le> d \<and> d \<le> 4"
  unfolding branchDigits_def by (rule storage_digits)

lemma insertShift_Inr:
  assumes "insertShift env tid input db = Inr (s, db')"
  shows "db' = db\<lparr>db_shifts := db_shifts db @ [s]\<rparr>" "sh_tenantId s = tid" "sh_id s = si_id input"
    "sh_branchId s = si_branchId input" "sh_cashierId s = si_cashierId input" "sh_openedById s = si_openedById input"
    "sh_openVerifiedById s = si_openVerifiedById input" "sh_openedAt s = si_openedAt input" "sh_status s = shift_open"
    "numeric4 (si_startingFloat input) = Inr (sh_startingFloat s)" "sh_closedById s = None" "sh_closeVerifiedById s = None"
    "\<not> shift_key_conflict db s" "\<not> open_shift_conflict db s"
  using assms by (auto simp: insertShift_def tx_simps Let_def)

text \<open>What a new shift is and what it records.\<close>

definition opened :: "pos_env \<Rightarrow> string \<Rightarrow> open_shift_input \<Rightarrow> shift_record \<Rightarrow> pos_db \<Rightarrow> pos_db \<Rightarrow> bool" where
  "opened env tid input s db db' \<longleftrightarrow>
     os_openedByUserId input \<noteq> os_openVerifiedByUserId input \<and>
     (\<forall>u\<in>{os_cashierUserId input, os_openedByUserId input, os_openVerifiedByUserId input}. userIsActiveMember tid u db) \<and>
     (\<forall>t\<in>set (db_shifts db). sh_id t \<noteq> sh_id s \<and>
        \<not> (sh_tenantId t = tid \<and> sh_cashierId t = os_cashierUserId input \<and> sh_status t = shift_open)) \<and>
     sh_tenantId s = tid \<and> sh_branchId s = os_branchId input \<and> sh_cashierId s = os_cashierUserId input \<and>
     sh_openedById s = os_openedByUserId input \<and> sh_openVerifiedById s = os_openVerifiedByUserId input \<and>
     sh_openedAt s = env_now env \<and> sh_status s = shift_open \<and>
     (\<exists>branch d vs rows. loadBranchForShift tid (os_branchId input) db = Some branch \<and> br_isActive branch \<and>
        branchDigits branch = Inr d \<and> list_all2 (line_value d) (os_openCounts input) vs \<and>
        at_scale d (sh_startingFloat s) \<and> decimalTextToMinor (sh_startingFloat s) d ''startingFloat'' = Inr (sum_list vs) \<and>
        length rows = length (os_openCounts input) \<and>
        list_all (\<lambda>r. cc_tenantId r = tid \<and> cc_shiftReconciliationId r = sh_id s \<and> cc_countType r = count_open) rows \<and>
        numeric4_sum (map cc_subtotal rows) = decimalTextToMinor (sh_startingFloat s) 4 ''numeric'' \<and>
        db' = db\<lparr>db_shifts := db_shifts db @ [s], db_cashCounts := db_cashCounts db @ rows\<rparr>)"

lemma openShift_opened:
  assumes "openShift env tid input db = (Inr s, db')"
  shows "opened env tid input s db db'"
proof -
  from assms have dual: "os_openedByUserId input \<noteq> os_openVerifiedByUserId input"
    and body: "openBody env tid input db = Inr (s, db')"
    by (auto simp: openShift_def tx_simps split: if_splits)
  from body obtain found branch d amount ftext db1 where
    found: "(case loadBranchForShift tid (os_branchId input) db of
        Some b \<Rightarrow> if br_isActive b then Some b else None | None \<Rightarrow> None) = Some branch" and
    d: "branchDigits branch = Inr d" and amount: "validateCounts (os_openCounts input) d = Inr amount" and
    act: "\<forall>x\<in>set [os_cashierUserId input, os_openedByUserId input, os_openVerifiedByUserId input]. userIsActiveMember tid x db" and
    none: "findAnyOpenShiftForCashier tid (os_cashierUserId input) db = None" and
    ftext: "minorToDecimalText amount d = Inr ftext" and
    ins: "insertShift env tid \<lparr>si_id = env_uuid env db, si_branchId = os_branchId input,
          si_cashierId = os_cashierUserId input, si_openedById = os_openedByUserId input,
          si_openVerifiedById = os_openVerifiedByUserId input, si_openedAt = env_now env,
          si_startingFloat = ftext\<rparr> db = Inr (s, db1)" and
    det: "insertCashCountDetails env tid (sh_id s) count_open (os_openCounts input) db1 = Inr ((), db')"
    by (auto simp: openBody_def tx_simps requireActiveMembers_Inr mapErr_Inr_iff)
  note b = branchDigits_bounds [OF d] and i = insertShift_Inr [OF ins]
  from amount obtain vs where vs: "list_all2 (line_value d) (os_openCounts input) vs" "amount = sum_list vs"
    by (auto simp: validateCounts_Inr)
  from insertCashCountDetails_Inr [OF det vs(1)] b obtain rows where rows:
    "db' = db1\<lparr>db_cashCounts := db_cashCounts db1 @ rows\<rparr>" "length rows = length (os_openCounts input)"
    "list_all (\<lambda>r. cc_tenantId r = tid \<and> cc_shiftReconciliationId r = sh_id s \<and> cc_countType r = count_open) rows"
    "numeric4_sum (map cc_subtotal rows) = Inr (sum_list vs * 10 ^ nat (4 - d))" by auto
  have num: "numeric4 ftext = Inr (sh_startingFloat s)" using i(10) by simp
  have fl: "at_scale d (sh_startingFloat s)" "decimalTextToMinor (sh_startingFloat s) 4 ''numeric'' = Inr (amount * 10 ^ nat (4 - d))"
    using at_scale_printed [OF ftext num] b by auto
  have fd: "decimalTextToMinor (sh_startingFloat s) d ''startingFloat'' = Inr amount"
    using numeric4_roundtrip(1) [OF _ _ ftext num] b by simp
  have br: "loadBranchForShift tid (os_branchId input) db = Some branch" "br_isActive branch"
    using found by (auto split: option.splits if_splits)
  have free: "\<forall>t\<in>set (db_shifts db). sh_id t \<noteq> sh_id s \<and>
      \<not> (sh_tenantId t = tid \<and> sh_cashierId t = os_cashierUserId input \<and> sh_status t = shift_open)"
    using i(13) none by (auto simp: shift_key_conflict_def findAnyOpenShiftForCashier_def find_row_None)
  have db': "db' = db\<lparr>db_shifts := db_shifts db @ [s], db_cashCounts := db_cashCounts db @ rows\<rparr>"
    using rows(1) i(1) by simp
  show ?thesis unfolding opened_def
    by (intro conjI exI [of _ branch] exI [of _ d] exI [of _ vs] exI [of _ rows])
       (use dual act free i br d vs fl fd rows db' in \<open>simp_all\<close>)
qed

section \<open>The Z report\<close>

lemma zero_text:
  assumes "0 \<le> d" "d \<le> 4"
  shows "decimalTextToMinor ''0'' d f = Inr 0"
proof -
  have "mustMatch ''0'' f = Inr (''0'', [])" by code_simp
  from exact_parse [OF this, of d f] assms have "nonNegativeDecimalTextToMinor ''0'' d f = Inr 0"
    by (simp add: MAX_SCALE_def digits_to_int_def digit_value_def)
  then show ?thesis by (simp add: decimalTextToMinor_def)
qed

lemma recorded_sales_scale:
  assumes "sumCompletedCashPaymentsText tid sid db = Inr t" "0 \<le> d" "d \<le> 4"
    and "\<forall>p\<in>set (cash_payments tid sid db). at_scale d (pay_amountInBaseCurrency p)"
  shows "\<exists>m. (\<forall>f. decimalTextToMinor t d f = Inr m) \<and> decimalTextToMinor t 4 ''numeric'' = Inr (m * 10 ^ nat (4 - d))"
proof (cases "cash_payments tid sid db = []")
  case True
  with assms(1) have "t = ''0''" by (simp add: sumCompletedCashPaymentsText_def)
  then show ?thesis using zero_text assms(2,3) by (auto intro!: exI [of _ 0])
next
  case False
  from at_scale_sum [of "map pay_amountInBaseCurrency (cash_payments tid sid db)" d] assms(2-4)
  obtain m where "numeric4_sum (map pay_amountInBaseCurrency (cash_payments tid sid db)) = Inr (m * 10 ^ nat (4 - d))" by auto
  with assms(1) False have t: "minorToDecimalText (m * 10 ^ nat (4 - d)) 4 = Inr t"
    by (simp add: sumCompletedCashPaymentsText_def)
  then have "at_scale d t" by (auto simp: at_scale_def)
  from at_scale_value [OF this assms(2,3)] obtain n where n: "decimalTextToMinor t 4 ''numeric'' = Inr (n * 10 ^ nat (4 - d))"
    "\<And>f. decimalTextToMinor t d f = Inr n" by metis
  then show ?thesis by blast
qed

lemma varianceTypeOf_scale: "varianceTypeOf (v * 10 ^ n) = varianceTypeOf v"
  by (simp add: varianceTypeOf_def zero_less_mult_iff mult_less_0_iff)

text \<open>The row the close writes.\<close>

definition close_update :: "pos_env \<Rightarrow> close_shift_input \<Rightarrow> string \<Rightarrow> string \<Rightarrow> string \<Rightarrow> variance_type \<Rightarrow> shift_record \<Rightarrow> shift_record" where
  "close_update env input counted recorded variance kind s =
     s\<lparr>sh_status := shift_closed, sh_closedById := Some (ci_closedByUserId input),
       sh_closeVerifiedById := Some (ci_closeVerifiedByUserId input), sh_closedAt := Some (env_now env),
       sh_countedCash := Some counted, sh_recordedCashSales := Some recorded, sh_variance := Some variance,
       sh_varianceType := Some kind, sh_notes := ci_notes input\<rparr>"

text \<open>
  The figures of a close: counted cash from the count, recorded sales from the completed cash payments of
  the shift, the variance their difference from the float, and its kind the sign of the variance.
\<close>

definition z_figures :: "string \<Rightarrow> close_shift_input \<Rightarrow> shift_record \<Rightarrow> pos_db \<Rightarrow> int \<Rightarrow> string \<Rightarrow> string \<Rightarrow> string \<Rightarrow> variance_type \<Rightarrow> bool" where
  "z_figures tid input shift db d counted recorded variance kind \<longleftrightarrow>
     (\<exists>vs sales fm rm. list_all2 (line_value d) (ci_closeCounts input) vs \<and>
        nonNegativeDecimalTextToMinor (sh_startingFloat shift) d ''startingFloat'' = Inr fm \<and>
        decimalTextToMinor sales d ''recordedCashSales'' = Inr rm \<and> kind = varianceTypeOf (sum_list vs - fm - rm) \<and>
        nonNegativeDecimalTextToMinor counted d ''countedCash'' = Inr (sum_list vs) \<and>
        decimalTextToMinor counted 4 ''numeric'' = Inr (sum_list vs * 10 ^ nat (4 - d)) \<and> at_scale d counted \<and>
        sumCompletedCashPaymentsText tid (ci_shiftId input) db = Inr sales \<and> numeric4 sales = Inr recorded \<and>
        variance_column counted (sh_startingFloat shift) recorded = Inr variance) \<and>
     (at_scale d (sh_startingFloat shift) \<and>
        (\<forall>p\<in>set (cash_payments tid (ci_shiftId input) db). at_scale d (pay_amountInBaseCurrency p)) \<longrightarrow>
      (\<exists>c f r. decimalTextToMinor counted 4 ''numeric'' = Inr c \<and>
         decimalTextToMinor (sh_startingFloat shift) 4 ''numeric'' = Inr f \<and>
         decimalTextToMinor recorded 4 ''numeric'' = Inr r \<and>
         decimalTextToMinor variance 4 ''numeric'' = Inr (c - f - r) \<and> kind = varianceTypeOf (c - f - r)))"

definition closed :: "pos_env \<Rightarrow> string \<Rightarrow> close_shift_input \<Rightarrow> shift_record \<Rightarrow> pos_db \<Rightarrow> pos_db \<Rightarrow> bool" where
  "closed env tid input s db db' \<longleftrightarrow>
     ci_closedByUserId input \<noteq> ci_closeVerifiedByUserId input \<and>
     userIsActiveMember tid (ci_closedByUserId input) db \<and> userIsActiveMember tid (ci_closeVerifiedByUserId input) db \<and>
     (\<exists>shift branch d rows counted recorded variance kind.
        loadShift tid (ci_shiftId input) db = Some shift \<and> sh_status shift = shift_open \<and>
        loadBranchForShift tid (sh_branchId shift) db = Some branch \<and> branchDigits branch = Inr d \<and>
        z_figures tid input shift db d counted recorded variance kind \<and>
        s = close_update env input counted recorded variance kind shift \<and>
        list_all (\<lambda>r. cc_tenantId r = tid \<and> cc_shiftReconciliationId r = ci_shiftId input \<and> cc_countType r = count_close) rows \<and>
        numeric4_sum (map cc_subtotal rows) = decimalTextToMinor counted 4 ''numeric'' \<and>
        db_cashCounts db' = db_cashCounts db @ rows \<and> db_payments db' = db_payments db \<and> db_journal db' = db_journal db \<and>
        db_shifts db' = update_where (\<lambda>x. sh_tenantId x = tid \<and> sh_id x = ci_shiftId input)
          (close_update env input counted recorded variance kind) (db_shifts db))"

lemma closeShiftRow_Inr:
  assumes "closeShiftRow env tid sid close db = Inr (s, db')"
  shows "\<exists>counted recorded row variance. numeric4 (cr_countedCash close) = Inr counted \<and>
    numeric4 (cr_recordedCashSales close) = Inr recorded \<and> loadShift tid sid db = Some row \<and>
    variance_column counted (sh_startingFloat row) recorded = Inr variance \<and>
    (let f = (\<lambda>x. x\<lparr>sh_status := shift_closed, sh_closedById := Some (cr_closedById close),
                sh_closeVerifiedById := Some (cr_closeVerifiedById close), sh_closedAt := Some (cr_closedAt close),
                sh_countedCash := Some counted, sh_recordedCashSales := Some recorded,
                sh_variance := Some variance, sh_varianceType := Some (cr_varianceType close),
                sh_notes := cr_notes close\<rparr>)
     in s = f row \<and> db' = db\<lparr>db_shifts := update_where (\<lambda>x. sh_tenantId x = tid \<and> sh_id x = sid) f (db_shifts db)\<rparr>)"
  using assms by (auto simp: closeShiftRow_def tx_simps Let_def)

lemma variance_column_Inr:
  assumes "variance_column counted fl recorded = Inr variance"
  shows "\<exists>c f r. decimalTextToMinor counted 4 ''numeric'' = Inr c \<and> decimalTextToMinor fl 4 ''numeric'' = Inr f \<and>
    decimalTextToMinor recorded 4 ''numeric'' = Inr r \<and> decimalTextToMinor variance 4 ''numeric'' = Inr (c - f - r)"
  using assms parse4 by (auto simp: variance_column_def result_simps)

lemma z_figures_intro:
  assumes vs: "list_all2 (line_value d) (ci_closeCounts input) vs" and d: "0 \<le> d" "d \<le> 4"
    and ctext: "minorToDecimalText (sum_list vs) d = Inr ctext" "numeric4 ctext = Inr counted"
    and sales: "sumCompletedCashPaymentsText tid (ci_shiftId input) db = Inr sales" "numeric4 sales = Inr recorded"
    and fm: "nonNegativeDecimalTextToMinor (sh_startingFloat shift) d ''startingFloat'' = Inr fm"
    and rm: "decimalTextToMinor sales d ''recordedCashSales'' = Inr rm"
    and var: "variance_column counted (sh_startingFloat shift) recorded = Inr variance"
  shows "z_figures tid input shift db d counted recorded variance (varianceTypeOf (sum_list vs - fm - rm))"
proof -
  note c = at_scale_printed(1) [OF ctext d] at_scale_printed(2) [OF ctext d, of "''numeric''"]
  have sign: "\<exists>c f r. decimalTextToMinor counted 4 ''numeric'' = Inr c \<and>
      decimalTextToMinor (sh_startingFloat shift) 4 ''numeric'' = Inr f \<and>
      decimalTextToMinor recorded 4 ''numeric'' = Inr r \<and>
      decimalTextToMinor variance 4 ''numeric'' = Inr (c - f - r) \<and>
      varianceTypeOf (sum_list vs - fm - rm) = varianceTypeOf (c - f - r)"
    if fl: "at_scale d (sh_startingFloat shift)"
      and ps: "\<forall>p\<in>set (cash_payments tid (ci_shiftId input) db). at_scale d (pay_amountInBaseCurrency p)"
  proof -
    from at_scale_value [OF fl d] fm have f4: "decimalTextToMinor (sh_startingFloat shift) 4 ''numeric'' = Inr (fm * 10 ^ nat (4 - d))"
      by metis
    from recorded_sales_scale [OF sales(1) d ps] rm have "decimalTextToMinor sales 4 ''numeric'' = Inr (rm * 10 ^ nat (4 - d))" by auto
    with numeric4_value [OF sales(2), of "''numeric''"] have r4: "decimalTextToMinor recorded 4 ''numeric'' = Inr (rm * 10 ^ nat (4 - d))"
      by auto
    have eq: "sum_list vs * 10 ^ nat (4 - d) - fm * 10 ^ nat (4 - d) - rm * 10 ^ nat (4 - d) = (sum_list vs - fm - rm) * 10 ^ nat (4 - d)"
      by (simp add: algebra_simps)
    from variance_column_Inr [OF var] c f4 r4 show ?thesis
      using eq varianceTypeOf_scale [of "sum_list vs - fm - rm" "nat (4 - d)"] by auto
  qed
  have "nonNegativeDecimalTextToMinor counted d ''countedCash'' = Inr (sum_list vs)"
    using numeric4_roundtrip(2) [OF d ctext line_values_nonneg [OF vs]] .
  then show ?thesis unfolding z_figures_def using vs c sales var sign fm rm by blast
qed

lemma closeShift_closed:
  assumes "closeShift env tid input db = (Inr s, db')"
  shows "closed env tid input s db db'"
proof -
  let ?sid = "ci_shiftId input"
  from assms have dual: "ci_closedByUserId input \<noteq> ci_closeVerifiedByUserId input"
    and body: "closeBody env tid input db = Inr (s, db')"
    by (auto simp: closeShift_def shiftBranch_def tx_simps split: if_splits)
  from body obtain shift db1 branch d amount sales fm rm db2 ctext where
    shift: "lockShift tid ?sid db = Some shift" "sh_status shift = shift_open" and
    bump: "bumpShiftRevision env tid ?sid db = Inr ((), db1)" and
    branch: "loadBranchForShift tid (sh_branchId shift) db1 = Some branch" "branchDigits branch = Inr d" and
    amount: "validateCounts (ci_closeCounts input) d = Inr amount" and
    act: "\<forall>x\<in>set [ci_closedByUserId input, ci_closeVerifiedByUserId input]. userIsActiveMember tid x db1" and
    sales: "sumCompletedCashPaymentsText tid ?sid db1 = Inr sales" and
    fm: "nonNegativeDecimalTextToMinor (sh_startingFloat shift) d ''startingFloat'' = Inr fm" and
    rm: "decimalTextToMinor sales d ''recordedCashSales'' = Inr rm" and
    det: "insertCashCountDetails env tid ?sid count_close (ci_closeCounts input) db1 = Inr ((), db2)" and
    ctext: "minorToDecimalText amount d = Inr ctext" and
    row: "closeShiftRow env tid ?sid \<lparr>cr_closedById = ci_closedByUserId input, cr_closeVerifiedById = ci_closeVerifiedByUserId input,
        cr_closedAt = env_now env, cr_countedCash = ctext, cr_recordedCashSales = sales,
        cr_varianceType = varianceTypeOf (amount - fm - rm), cr_notes = ci_notes input\<rparr> db2 = Inr (s, db')"
    by (auto simp: closeBody_def tx_simps requireActiveMembers_Inr Let_def)
  have db1: "db_shifts db1 = db_shifts db" "db_users db1 = db_users db" "db_branches db1 = db_branches db"
    "db_payments db1 = db_payments db" "db_methods db1 = db_methods db" "db_cashCounts db1 = db_cashCounts db"
    "db_journal db1 = db_journal db"
    using bump by (auto simp: bumpShiftRevision_def tx_simps)
  have d: "0 \<le> d" "d \<le> 4" using branchDigits_bounds [OF branch(2)] by auto
  from amount obtain vs where vs: "list_all2 (line_value d) (ci_closeCounts input) vs" "amount = sum_list vs"
    by (auto simp: validateCounts_Inr)
  from insertCashCountDetails_Inr [OF det vs(1) d] obtain rows where rows: "db2 = db1\<lparr>db_cashCounts := db_cashCounts db1 @ rows\<rparr>"
    "list_all (\<lambda>r. cc_tenantId r = tid \<and> cc_shiftReconciliationId r = ?sid \<and> cc_countType r = count_close) rows"
    "numeric4_sum (map cc_subtotal rows) = Inr (sum_list vs * 10 ^ nat (4 - d))" by blast
  from closeShiftRow_Inr [OF row] obtain counted recorded row0 variance where
    cr: "numeric4 ctext = Inr counted" "numeric4 sales = Inr recorded" "loadShift tid ?sid db2 = Some row0"
      "variance_column counted (sh_startingFloat row0) recorded = Inr variance"
    and s: "s = close_update env input counted recorded variance (varianceTypeOf (amount - fm - rm)) row0"
    and db': "db' = db2\<lparr>db_shifts := update_where (\<lambda>x. sh_tenantId x = tid \<and> sh_id x = ?sid)
        (close_update env input counted recorded variance (varianceTypeOf (amount - fm - rm))) (db_shifts db2)\<rparr>"
    by (auto simp: Let_def close_update_def [abs_def])
  have row0: "row0 = shift" "loadShift tid ?sid db = Some shift"
    using cr(3) shift(1) rows(1) db1(1) by (auto simp: loadShift_def lockShift_def)
  have sales0: "sumCompletedCashPaymentsText tid ?sid db = Inr sales"
    using sales db1 by (simp add: sumCompletedCashPaymentsText_def cash_payments_def)
  have fig: "z_figures tid input shift db d counted recorded variance (varianceTypeOf (amount - fm - rm))"
    unfolding vs(2) by (rule z_figures_intro [OF vs(1) d _ cr(1) sales0 cr(2) fm rm]) (use ctext vs cr(4) row0 in simp_all)
  have cnt: "decimalTextToMinor counted 4 ''numeric'' = Inr (sum_list vs * 10 ^ nat (4 - d))"
    using at_scale_printed(2) [OF ctext cr(1) d] vs(2) by simp
  show ?thesis unfolding closed_def
    by (intro conjI exI [of _ shift] exI [of _ branch] exI [of _ d] exI [of _ rows] exI [of _ counted] exI [of _ recorded]
        exI [of _ variance] exI [of _ "varianceTypeOf (amount - fm - rm)"])
       (use dual act shift row0 branch fig s rows cnt db' db1 in \<open>simp_all add: userIsActiveMember_def loadBranchForShift_def\<close>)
qed

lemma shift_writes_frame:
  "insertCashCountDetails env tid sid ct ls db = Inr (u, db') \<Longrightarrow> db_branches db' = db_branches db \<and> db_methods db' = db_methods db"
  unfolding insertCashCountDetails_def
  by (induction ls arbitrary: db) (auto simp: tx_simps insertCashCountDetail_def Let_def split: js_number.splits)

lemma close_frame:
  assumes "closeShift env tid input db = (Inr s, db')"
  shows "db_branches db' = db_branches db \<and> db_methods db' = db_methods db"
proof -
  from assms have "closeBody env tid input db = Inr (s, db')"
    by (auto simp: closeShift_def shiftBranch_def tx_simps split: if_splits)
  then show ?thesis
    by (auto simp: closeBody_def tx_simps requireActiveMembers_Inr Let_def bumpShiftRevision_def closeShiftRow_def
        dest!: shift_writes_frame)
qed

section \<open>Properties\<close>

text \<open>The example restaurant: a second cashier opens a shift, the first one closes hers after the payment.\<close>

definition example_open :: open_shift_input where
  "example_open = \<lparr>os_branchId = ''b1'', os_cashierUserId = ''c2'', os_openedByUserId = ''c2'',
     os_openVerifiedByUserId = ''m1'', os_openedAt = 0,
     os_openCounts = [\<lparr>cl_denominationValue = ''10.00'', cl_quantity = JInt 5\<rparr>, \<lparr>cl_denominationValue = ''0.5'', cl_quantity = JInt 4\<rparr>]\<rparr>"

definition example_opened :: shift_record where
  "example_opened = example_shift\<lparr>sh_id := ''u111'', sh_cashierId := ''c2'', sh_openedById := ''c2'', sh_openedAt := 1000,
     sh_startingFloat := ''52.0000'', sh_createdAt := 1000\<rparr>"

definition example_count :: "string \<Rightarrow> string \<Rightarrow> cash_count_type \<Rightarrow> string \<Rightarrow> int \<Rightarrow> string \<Rightarrow> cash_count_detail_record" where
  "example_count i sid ct value q subtotal = \<lparr>cc_id = i, cc_tenantId = ''t1'', cc_shiftReconciliationId = sid,
     cc_countType = ct, cc_denominationValue = value, cc_quantity = q, cc_subtotal = subtotal, cc_createdAt = 1000\<rparr>"

definition example_opened_db :: pos_db where
  "example_opened_db = example_db\<lparr>db_shifts := [example_shift, example_opened],
     db_cashCounts := [example_count ''u1111'' ''u111'' count_open ''10.0000'' 5 ''50.0000'',
       example_count ''u11111'' ''u111'' count_open ''0.5000'' 4 ''2.0000'']\<rparr>"

definition example_close :: close_shift_input where
  "example_close = \<lparr>ci_shiftId = ''s1'', ci_closedByUserId = ''c1'', ci_closeVerifiedByUserId = ''m1'', ci_closedAt = 0,
     ci_closeCounts = [\<lparr>cl_denominationValue = ''5.00'', cl_quantity = JInt 13\<rparr>], ci_notes = None\<rparr>"

definition example_closed :: shift_record where
  "example_closed = example_shift\<lparr>sh_status := shift_closed, sh_closedById := Some ''c1'', sh_closeVerifiedById := Some ''m1'',
     sh_closedAt := Some 1000, sh_countedCash := Some ''65.0000'', sh_recordedCashSales := Some ''15.0000'',
     sh_variance := Some ''0.0000'', sh_varianceType := Some exact\<rparr>"

definition example_closed_db :: pos_db where
  "example_closed_db = example_paid_db\<lparr>db_shifts := [example_closed], db_shiftRevisions := [(''s1'', 2)],
     db_cashCounts := [example_count ''u11111'' ''s1'' count_close ''5.0000'' 13 ''65.0000'']\<rparr>"

lemma example_counts:
  "validateCounts [\<lparr>cl_denominationValue = ''10.00'', cl_quantity = JInt 5\<rparr>, \<lparr>cl_denominationValue = ''0.5'', cl_quantity = JInt 4\<rparr>] 2 = Inr 5200 \<and>
   validateCounts [\<lparr>cl_denominationValue = ''5.00'', cl_quantity = JInt 13\<rparr>] 2 = Inr 6500 \<and>
   minorToDecimalText 5200 2 = Inr ''52.00'' \<and> numeric4 ''52.00'' = Inr ''52.0000'' \<and> numeric4 ''10.00'' = Inr ''10.0000'' \<and>
   numeric4 ''0.5'' = Inr ''0.5000'' \<and> numeric4 ''5.00'' = Inr ''5.0000'' \<and>
   minorToDecimalText 500000 4 = Inr ''50.0000'' \<and> minorToDecimalText 20000 4 = Inr ''2.0000''"
  by code_simp

lemma example_count_texts:
  "decimalTextToMinor ''10.0000'' 4 ''numeric'' = Inr 100000 \<and> decimalTextToMinor ''0.5000'' 4 ''numeric'' = Inr 5000 \<and>
   decimalTextToMinor ''5.0000'' 4 ''numeric'' = Inr 50000 \<and> minorToDecimalText 650000 4 = Inr ''65.0000'' \<and>
   decimalTextToMinor ''15.0000'' 4 ''numeric'' = Inr 150000 \<and> minorToDecimalText 150000 4 = Inr ''15.0000'' \<and>
   nonNegativeDecimalTextToMinor ''50.0000'' 2 ''startingFloat'' = Inr 5000 \<and>
   decimalTextToMinor ''15.0000'' 2 ''recordedCashSales'' = Inr 1500 \<and> minorToDecimalText 6500 2 = Inr ''65.00'' \<and>
   numeric4 ''65.00'' = Inr ''65.0000'' \<and> numeric4 ''15.0000'' = Inr ''15.0000'' \<and>
   decimalTextToMinor ''65.0000'' 4 ''numeric'' = Inr 650000 \<and> decimalTextToMinor ''50.0000'' 4 ''numeric'' = Inr 500000"
  by code_simp

lemmas example_shift_run = example_run example_open_def example_opened_def example_count_def example_opened_db_def
  example_close_def example_closed_def example_closed_db_def example_counts example_count_texts
  loadBranchForShift_def userIsActiveMember_def findAnyOpenShiftForCashier_def loadShift_def shift_key_conflict_def
  open_shift_conflict_def insertShift_def insertCashCountDetail_def insertCashCountDetails_def cash_payments_def
  sumCompletedCashPaymentsText_def variance_column_def closeShiftRow_def shift_check_def requireActiveMembers_def
  branchDigits_def openBody_def openShift_def varianceTypeOf_def shiftBranch_def closeBody_def closeShift_def

lemma example_opens: "openShift example_env ''t1'' example_open example_db = (Inr example_opened, example_opened_db)"
  by (simp add: example_shift_run cong: db_run_cong)

lemma example_closes: "closeShift example_env ''t1'' example_close example_paid_db = (Inr example_closed, example_closed_db)"
  by (simp add: example_shift_run cong: db_run_cong)

text \<open>
  Opening a shift: a successful call was made by two different people, both active members as is the
  cashier, at an active branch; the cashier held no open shift anywhere in the tenant; exactly one
  open shift is added, stamped with the server's clock, whose float is the value of the opening
  count to the minor unit, together with one count row per line whose subtotals add up to the float.
\<close>

theorem openShift_correct:
  assumes "openShift env tid input db = (Inr s, db')"
  shows "opened env tid input s db db'"
  using assms by (rule openShift_opened)

theorem openShift_correct_witness:
  "opened example_env ''t1'' example_open example_opened example_db example_opened_db \<and> sh_startingFloat example_opened = ''52.0000''"
  using openShift_correct [OF example_opens] by (simp add: example_opened_def)

lemma shift_branch_reads: "op_ensures unchanged (shiftBranch env tid sid)"
  unfolding shiftBranch_def by (intro store_run_reads) (simp add: read_only.body_rules)

lemma closeShift_atomic: "op_atomic (closeShift env tid input)"
  unfolding closeShift_def
  by (intro op_atomic_bind shift_branch_reads read_only.op_values op_atomic_run)

lemma openShift_atomic: "op_atomic (openShift env tid input)"
  unfolding openShift_def by (intro op_atomic_bind read_only.op_values op_atomic_run)

lemma closed_row:
  assumes "closed env tid input s db db'"
  shows "loadShift tid (ci_shiftId input) db' = Some s" "sh_status s = shift_closed"
proof -
  from assms obtain shift counted recorded variance kind where
    "loadShift tid (ci_shiftId input) db = Some shift" and
    s: "s = close_update env input counted recorded variance kind shift" and
    "db_shifts db' = update_where (\<lambda>x. sh_tenantId x = tid \<and> sh_id x = ci_shiftId input)
          (close_update env input counted recorded variance kind) (db_shifts db)"
    unfolding closed_def by blast
  then show "loadShift tid (ci_shiftId input) db' = Some s"
    by (auto simp: loadShift_def close_update_def find_row_update dest: find_row_Some)
  show "sh_status s = shift_closed" by (simp add: s close_update_def)
qed

text \<open>
  C20. The Z report closes a shift once. A successful close found the shift open and was made by two
  different active members; it stores the counted cash of the closing count, the sum of the completed
  cash payments of the shift, their variance from the float and the kind of the variance, which is
  the sign of the stored variance whenever float and payments are whole minor units of the branch
  currency; it adds the count rows that make up the counted cash and touches no payment. Every later
  attempt to close the same shift fails and changes nothing.
\<close>

theorem closeShift_correct:
  assumes "closeShift env tid input db = (Inr s, db')"
  shows "closed env tid input s db db' \<and>
    (\<forall>env' input'. ci_shiftId input' = ci_shiftId input \<longrightarrow> (\<exists>e. closeShift env' tid input' db' = (Inl e, db')))"
proof -
  have c: "closed env tid input s db db'" using assms by (rule closeShift_closed)
  have "\<exists>e. closeShift env' tid input' db' = (Inl e, db')" if same: "ci_shiftId input' = ci_shiftId input" for env' input'
  proof (cases "closeShift env' tid input' db'")
    case (Pair res db'')
    show ?thesis
    proof (cases res)
      case (Inl e)
      then show ?thesis using Pair closeShift_atomic [of env' tid input'] by (auto simp: op_atomic_def)
    next
      case (Inr s')
      with Pair have "closed env' tid input' s' db' db''" by (simp add: closeShift_closed)
      then obtain shift where "loadShift tid (ci_shiftId input) db' = Some shift" "sh_status shift = shift_open"
        using same unfolding closed_def by auto
      with closed_row [OF c] show ?thesis by simp
    qed
  qed
  with c show ?thesis by blast
qed

theorem closeShift_correct_witness:
  "closed example_env ''t1'' example_close example_closed example_paid_db example_closed_db \<and>
   sh_varianceType example_closed = Some exact \<and>
   (\<exists>e. closeShift example_env ''t1'' example_close example_closed_db = (Inl e, example_closed_db))"
  using closeShift_correct [OF example_closes] by (simp add: example_closed_def)

text \<open>
  The X report only reads: whatever its outcome, the database is as it was. Taken right after the
  close it shows the closed shift, the sales figure and the kind of variance of the Z report.
\<close>

theorem xReport_correct:
  shows "(\<forall>db r db'. xReport env tid actor sid db = (r, db') \<longrightarrow> db' = db) \<and>
    (\<forall>env' input db s db' x db''. closeShift env' tid input db = (Inr s, db') \<and> ci_shiftId input = sid \<and>
       xReport env tid actor sid db' = (Inr x, db'') \<longrightarrow>
       xr_shift x = s \<and> xr_computedVarianceType x = sh_varianceType s \<and>
       numeric4_option (Some (xr_recordedCashSales x)) = Inr (sh_recordedCashSales s))"
proof -
  have read: "op_ensures unchanged (xReport env tid actor sid)"
    unfolding xReport_def xReportBody_def
    by (intro read_only.op_bnd store_run_reads read_only.op_values) (simp_all add: read_only.body_rules Let_def)
  have "xr_shift x = s \<and> xr_computedVarianceType x = sh_varianceType s \<and>
      numeric4_option (Some (xr_recordedCashSales x)) = Inr (sh_recordedCashSales s)"
    if cl: "closeShift env' tid input db = (Inr s, db')" and sid: "ci_shiftId input = sid"
      and xr: "xReport env tid actor sid db' = (Inr x, db'')" for env' input db s db' x db''
  proof -
    have c: "closed env' tid input s db db'" using cl by (rule closeShift_closed)
    then obtain shift branch d counted recorded variance kind where
      sh: "loadShift tid sid db = Some shift" and br: "loadBranchForShift tid (sh_branchId shift) db = Some branch" "branchDigits branch = Inr d" and
      fig: "z_figures tid input shift db d counted recorded variance kind" and
      s: "s = close_update env' input counted recorded variance kind shift" and pays: "db_payments db' = db_payments db"
      unfolding closed_def sid by blast
    from fig obtain vs sales fm rm where
      f: "nonNegativeDecimalTextToMinor (sh_startingFloat shift) d ''startingFloat'' = Inr fm"
        "decimalTextToMinor sales d ''recordedCashSales'' = Inr rm" "kind = varianceTypeOf (sum_list vs - fm - rm)"
        "nonNegativeDecimalTextToMinor counted d ''countedCash'' = Inr (sum_list vs)"
        "sumCompletedCashPaymentsText tid sid db = Inr sales" "numeric4 sales = Inr recorded"
      unfolding z_figures_def sid by blast
    have same: "db_branches db' = db_branches db" "db_methods db' = db_methods db"
      using close_frame [OF cl] by auto
    have sales: "sumCompletedCashPaymentsText tid sid db' = Inr sales"
      using f(5) pays same by (simp add: sumCompletedCashPaymentsText_def cash_payments_def)
    from xr closed_row(1) [OF c] have "xReportBody tid sid s db' = Inr (x, db'')"
      by (auto simp: xReport_def tx_simps sid)
    then show ?thesis
      using br f sales same s
      by (auto simp: xReportBody_def tx_simps Let_def close_update_def loadBranchForShift_def numeric4_option_def ok_def)
  qed
  with read show ?thesis by (auto simp: op_ensures_def unchanged_def)
qed

theorem xReport_correct_witness:
  "\<exists>x. xReport example_env ''t1'' ''m1'' ''s1'' example_closed_db = (Inr x, example_closed_db) \<and>
     xr_shift x = example_closed \<and> xr_computedVarianceType x = Some exact"
proof -
  have "nonNegativeDecimalTextToMinor ''65.0000'' 2 ''countedCash'' = Inr 6500 \<and> minorToDecimalText 0 2 = Inr ''0.00''" by code_simp
  then have "\<exists>x. xReport example_env ''t1'' ''m1'' ''s1'' example_closed_db = (Inr x, example_closed_db)"
    by (simp add: example_shift_run xReport_def xReportBody_def loadCashCounts_def cong: db_run_cong)
  moreover have "ci_shiftId example_close = ''s1''" "sh_varianceType example_closed = Some exact"
    by (simp_all add: example_close_def example_closed_def)
  ultimately show ?thesis
    using xReport_correct [of example_env "''t1''" "''m1''" "''s1''"] example_closes by metis
qed

end
