(* ===== verification/Orders_Store.thy ===== *)
theory Orders_Store
  imports Manager_Override
begin

text \<open>
  The transaction scope of \<^verbatim>\<open>src/infrastructure/db/repositories/postgres-orders-store.ts\<close>, each operation by the
  effect of its SQL statement, and the SQL functions and triggers the scope relies on
  (\<^verbatim>\<open>migrations/0024_phase7_order_events_outbox.sql\<close>): the gapless numbering of outbox events per branch, the
  trigger that applies a status event to its item, and the status of an order derived from its items.
  Timestamps inside payloads are numbers of milliseconds.
\<close>

section \<open>Vocabulary\<close>

record order_behavior_flags =
  bf_fires_kitchen_ticket :: bool
  bf_opens_payment_collection :: bool
  bf_notifies_customer :: bool
  bf_is_terminal :: bool
  bf_is_financial_close :: bool

definition behavior_flag :: "(string \<times> json) list \<Rightarrow> string \<Rightarrow> bool result" where
  "behavior_flag ms key = (case map_of ms key of Some (JsBool b) \<Rightarrow> Inr b | _ \<Rightarrow> Inl (ForeignError ''behavior_flags must be booleans''))"

fun parseOrderBehaviorFlags :: "json \<Rightarrow> order_behavior_flags result" where
  "parseOrderBehaviorFlags (JsObj ms) =
     andThen (behavior_flag ms ''fires_kitchen_ticket'') (\<lambda>a.
     andThen (behavior_flag ms ''opens_payment_collection'') (\<lambda>b.
     andThen (behavior_flag ms ''notifies_customer'') (\<lambda>c.
     andThen (behavior_flag ms ''is_terminal'') (\<lambda>d.
     andThen (behavior_flag ms ''is_financial_close'') (\<lambda>e.
     Inr \<lparr>bf_fires_kitchen_ticket = a, bf_opens_payment_collection = b, bf_notifies_customer = c, bf_is_terminal = d,
       bf_is_financial_close = e\<rparr>)))))"
| "parseOrderBehaviorFlags _ = Inl (ForeignError ''order status kind behavior_flags must be a JSON object'')"

fun VOID_PERMISSION_TIER_RANK :: "void_permission_tier \<Rightarrow> int" where
  "VOID_PERMISSION_TIER_RANK server = 1"
| "VOID_PERMISSION_TIER_RANK shift_supervisor = 2"
| "VOID_PERMISSION_TIER_RANK manager = 3"

definition id_of :: "string option \<Rightarrow> json" where
  "id_of x = (case x of None \<Rightarrow> JsNull | Some i \<Rightarrow> JsStr i)"

section \<open>Reads\<close>

definition comparePositions :: "tenant_workflow_state \<Rightarrow> tenant_workflow_state \<Rightarrow> int" where
  "comparePositions a b = ws_position a - ws_position b"

definition loadWorkflowStates :: "string \<Rightarrow> bool \<Rightarrow> pos_db \<Rightarrow> tenant_workflow_state list" where
  "loadWorkflowStates tid enabledOnly db =
     js_sort comparePositions (filter (\<lambda>s. ws_tenantId s = tid \<and>
       (\<exists>w\<in>set (db_workflows db). wf_id w = ws_workflowId s \<and> wf_tenantId w = ws_tenantId s \<and> wf_isActive w) \<and>
       (enabledOnly \<longrightarrow> ws_isEnabled s)) (db_workflowStates db))"

definition loadOrder :: "string \<Rightarrow> string \<Rightarrow> pos_db \<Rightarrow> order_row option" where
  "loadOrder tid orderId db = find_row (\<lambda>x. o_tenantId x = tid \<and> o_id x = orderId) (db_orders db)"

definition lockOrderRow :: "string \<Rightarrow> string \<Rightarrow> pos_db \<Rightarrow> order_row option" where
  "lockOrderRow tid orderId db = find_row (\<lambda>x. o_tenantId x = tid \<and> o_id x = orderId) (db_orders db)"

definition loadOrderItem :: "string \<Rightarrow> string \<Rightarrow> pos_db \<Rightarrow> order_item_row option" where
  "loadOrderItem tid orderItemId db = find_row (\<lambda>i. it_tenantId i = tid \<and> it_id i = orderItemId) (db_items db)"

definition loadActiveOrderItems :: "string \<Rightarrow> string \<Rightarrow> pos_db \<Rightarrow> order_item_row list" where
  "loadActiveOrderItems tid orderId db = active_items db tid orderId"

definition loadMenuItem :: "string \<Rightarrow> string \<Rightarrow> pos_db \<Rightarrow> menu_item_row option" where
  "loadMenuItem tid menuItemId db = find_row (\<lambda>m. mi_tenantId m = tid \<and> mi_id m = menuItemId) (mn_items (db_menu db))"

definition loadOrderStatusKindFlags :: "string \<Rightarrow> pos_db \<Rightarrow> order_behavior_flags result" where
  "loadOrderStatusKindFlags kindCode db =
     (case find_row (\<lambda>k. sk_code k = kindCode) (db_statusKinds db) of
        None \<Rightarrow> Inl NotFoundError
      | Some k \<Rightarrow> parseOrderBehaviorFlags (sk_behaviorFlags k))"

definition loadBranch :: "string \<Rightarrow> string \<Rightarrow> pos_db \<Rightarrow> branch_row option" where
  "loadBranch tid branchId db = find_row (\<lambda>b. br_tenantId b = tid \<and> br_id b = branchId) (db_branches db)"

definition countWorkflowStateReferences :: "string \<Rightarrow> string \<Rightarrow> pos_db \<Rightarrow> nat" where
  "countWorkflowStateReferences tid stateId db =
     length (filter (\<lambda>x. o_tenantId x = tid \<and> o_currentStatusKindId x = stateId) (db_orders db)) +
     length (filter (\<lambda>i. it_tenantId i = tid \<and> it_currentStatusKindId i = stateId) (db_items db)) +
     length (filter (\<lambda>e. se_tenantId e = tid \<and> (se_fromStatusKindId e = Some stateId \<or> se_toStatusKindId e = stateId)) (db_statusEvents db))"

definition readOutboxEvents :: "string \<Rightarrow> string \<Rightarrow> int \<Rightarrow> nat \<Rightarrow> pos_db \<Rightarrow> order_outbox_event list" where
  "readOutboxEvents tid branchId afterSequenceId limit db =
     take limit (js_sort (\<lambda>a b. ob_sequenceId a - ob_sequenceId b) (filter (\<lambda>e. ob_tenantId e = tid \<and> ob_branchId e = branchId \<and>
       ob_sequenceId e > afterSequenceId) (db_outbox db)))"

definition lastOutboxSequence :: "string \<Rightarrow> string \<Rightarrow> pos_db \<Rightarrow> int" where
  "lastOutboxSequence tid branchId db =
     (case find_row (\<lambda>q. sq_tenantId q = tid \<and> sq_branchId q = branchId) (db_sequences db) of
        None \<Rightarrow> 0 | Some q \<Rightarrow> sq_lastSequence q)"

record void_reason =
  rs_id :: string
  rs_requiredPermissionTier :: void_permission_tier
  rs_isEnabled :: bool
  rs_kindCode :: string
  rs_kindSettingEnabled :: bool

definition loadVoidReason :: "string \<Rightarrow> string \<Rightarrow> pos_db \<Rightarrow> void_reason option" where
  "loadVoidReason tid voidReasonId db =
     map_option (\<lambda>r. \<lparr>rs_id = vr_id r, rs_requiredPermissionTier = vr_requiredPermissionTier r, rs_isEnabled = vr_isEnabled r,
         rs_kindCode = vr_kindCode r,
         rs_kindSettingEnabled = (case find_row (\<lambda>(t, k, b). t = vr_tenantId r \<and> k = vr_kindCode r) (vc_kindSettings (db_voidConfig db)) of
            None \<Rightarrow> True | Some (t, k, b) \<Rightarrow> b)\<rparr>)
       (find_row (\<lambda>r. vr_tenantId r = tid \<and> vr_id r = voidReasonId) (vc_reasons (db_voidConfig db)))"

definition loadVoidTimeLimitMinutes :: "string \<Rightarrow> pos_db \<Rightarrow> int option" where
  "loadVoidTimeLimitMinutes tid db =
     (case find_row (\<lambda>(t, l). t = tid) (vc_timeLimits (db_voidConfig db)) of None \<Rightarrow> None | Some (t, l) \<Rightarrow> l)"

definition userIsActiveTenantMember :: "string \<Rightarrow> string \<Rightarrow> pos_db \<Rightarrow> bool" where
  "userIsActiveTenantMember tid userId db =
     (\<exists>u\<in>set (db_users db). us_id u = userId \<and> us_tenantId u = tid \<and> us_isActive u \<and>
       (\<exists>t\<in>set (db_tenants db). tn_id t = us_tenantId u \<and> tn_isActive t))"

text \<open>The permission tables are behind \<open>env_coveredKeys\<close>.\<close>

definition tier_step :: "void_permission_tier option \<Rightarrow> string \<Rightarrow> void_permission_tier option" where
  "tier_step tier permissionKey =
     (if permissionKey = ''order:void:manager'' then Some manager
      else if permissionKey = ''order:void:shift_supervisor'' \<and> tier \<noteq> Some manager then Some shift_supervisor
      else if permissionKey = ''order:void'' \<and> tier = None then Some server
      else tier)"

definition resolveVoidPermissionTier :: "pos_env \<Rightarrow> string \<Rightarrow> string \<Rightarrow> string \<Rightarrow> void_permission_tier option result" where
  "resolveVoidPermissionTier env tid userId branchId =
     (if js_trim branchId = [] then Inl (ValidationError (Some ''branchId''))
      else mapResult (env_coveredKeys env tid userId branchId [''order:void'', ''order:void:shift_supervisor'', ''order:void:manager''])
        (foldl tier_step None))"

definition loadVoidRestorationKeys :: "string \<Rightarrow> string list \<Rightarrow> pos_db \<Rightarrow> (string \<times> string) list" where
  "loadVoidRestorationKeys tid itemIds db =
     (if itemIds = [] then []
      else remdups (map movement_key (filter (\<lambda>m. sm_tenantId m = tid \<and> (\<exists>i\<in>set itemIds. sm_orderItemId m = Some i) \<and>
        sm_movementType m = void_restoration) (db_stock db))))"

section \<open>Station routing\<close>

record station_routing_context =
  rx_menuItemId :: string
  rx_salesChannelCode :: string
  rx_orderType :: order_type

record station_routing_decision =
  rd_ruleId :: string
  rd_stationId :: string
  rd_specificityScore :: int
  rd_priorityWeight :: int

definition specificity :: "routing_rule_row \<Rightarrow> int" where
  "specificity r = (if ru_menuItemId r \<noteq> None then 100 else 0) + (if ru_salesChannelCode r \<noteq> None then 20 else 0) +
     (if ru_orderType r \<noteq> None then 10 else 0)"

text \<open>
  \<open>ORDER BY specificity_score DESC, priority_weight DESC, id ASC\<close>, where \<open>specificity_score\<close> is the output
  column of that name, a text.
\<close>

definition compareRules :: "routing_rule_row \<Rightarrow> routing_rule_row \<Rightarrow> int" where
  "compareRules a b =
     (let sa = int_to_text (specificity a); sb = int_to_text (specificity b) in
      if sa > sb then -1 else if sa < sb then 1
      else if ru_priorityWeight a > ru_priorityWeight b then -1 else if ru_priorityWeight a < ru_priorityWeight b then 1
      else if ru_id a < ru_id b then -1 else if ru_id a > ru_id b then 1 else 0)"

definition rule_matches :: "string \<Rightarrow> string \<Rightarrow> station_routing_context \<Rightarrow> pos_db \<Rightarrow> routing_rule_row \<Rightarrow> bool" where
  "rule_matches tid branchId ctx db r \<longleftrightarrow>
     ru_tenantId r = tid \<and> ru_branchId r = branchId \<and> ru_isEnabled r \<and>
     (ru_menuItemId r = None \<or> ru_menuItemId r = Some (rx_menuItemId ctx)) \<and>
     (ru_salesChannelCode r = None \<or> ru_salesChannelCode r = Some (rx_salesChannelCode ctx)) \<and>
     (ru_orderType r = None \<or> ru_orderType r = Some (rx_orderType ctx)) \<and>
     (\<exists>s\<in>set (mn_stations (db_menu db)). st_id s = ru_stationId r \<and> st_isActive s)"

definition resolveStationRoute :: "string \<Rightarrow> string \<Rightarrow> station_routing_context \<Rightarrow> pos_db \<Rightarrow> station_routing_decision option" where
  "resolveStationRoute tid branchId ctx db =
     (case js_sort compareRules (filter (rule_matches tid branchId ctx db) (mn_routingRules (db_menu db))) of
        [] \<Rightarrow> None
      | r # _ \<Rightarrow> Some \<lparr>rd_ruleId = ru_id r, rd_stationId = ru_stationId r, rd_specificityScore = specificity r,
                      rd_priorityWeight = ru_priorityWeight r\<rparr>)"

definition route :: "pos_env \<Rightarrow> string \<Rightarrow> string \<Rightarrow> station_routing_context \<Rightarrow> (pos_db, station_routing_decision) op" where
  "route env tid branchId ctx =
     store_run env tid (tx_bind (tx_read (resolveStationRoute tid branchId ctx)) (\<lambda>decision.
       tx_some decision (NoMatchingRoutingRuleError branchId (rx_menuItemId ctx))))"

section \<open>The outbox\<close>

definition upsert_sequence :: "string \<Rightarrow> string \<Rightarrow> event_sequence_row list \<Rightarrow> event_sequence_row list" where
  "upsert_sequence branchId tid qs = (if \<exists>q\<in>set qs. sq_branchId q = branchId then qs
     else qs @ [\<lparr>sq_branchId = branchId, sq_tenantId = tid, sq_lastSequence = 0\<rparr>])"

text \<open>Row-level security shows the function the branches of the current tenant only.\<close>

definition next_order_event_sequence :: "string \<Rightarrow> string \<Rightarrow> (pos_db, int) tx" where
  "next_order_event_sequence tid branchId =
     tx_bind (tx_read (\<lambda>db. find_row (\<lambda>b. br_id b = branchId \<and> br_tenantId b = tid) (db_branches db))) (\<lambda>branch.
     tx_bind (tx_some branch (PgError ''23514'' None ''branch not found for outbox sequencing'')) (\<lambda>br.
     tx_bind (tx_write (\<lambda>db. db\<lparr>db_sequences := upsert_sequence branchId (br_tenantId br) (db_sequences db)\<rparr>)) (\<lambda>_.
     tx_bind (tx_write (\<lambda>db. db\<lparr>db_sequences := update_where (\<lambda>q. sq_branchId q = branchId)
        (\<lambda>q. q\<lparr>sq_lastSequence := sq_lastSequence q + 1\<rparr>) (db_sequences db)\<rparr>)) (\<lambda>_.
     tx_bind (tx_read (\<lambda>db. find_row (\<lambda>q. sq_branchId q = branchId) (db_sequences db))) (\<lambda>found.
     tx_bind (tx_some found (ForeignError ''Expected database row'')) (\<lambda>q.
     tx_return (sq_lastSequence q)))))))"

definition appendEvent :: "pos_env \<Rightarrow> string \<Rightarrow> string \<Rightarrow> string \<Rightarrow> json \<Rightarrow> (pos_db, int) tx" where
  "appendEvent env tid branchId eventType payload =
     tx_bind (next_order_event_sequence tid branchId) (\<lambda>seqId.
     tx_bind (tx_read (env_uuid env)) (\<lambda>newId.
     let row = \<lparr>ob_id = newId, ob_tenantId = tid, ob_branchId = branchId, ob_sequenceId = seqId, ob_eventType = eventType,
       ob_payload = payload, ob_createdAt = env_now env\<rparr> in
     tx_bind (db_check env (WOutbox row)) (\<lambda>_.
     tx_bind (tx_write (\<lambda>db. db\<lparr>db_outbox := db_outbox db @ [row]\<rparr>)) (\<lambda>_.
     tx_return seqId))))"

section \<open>The status of an order, derived from its items\<close>

definition root_kind :: "tenant_workflow_state \<Rightarrow> string" where
  "root_kind s = (case ws_parentKindCode s of None \<Rightarrow> ws_kindCode s | Some k \<Rightarrow> k)"

definition item_roots :: "string \<Rightarrow> string \<Rightarrow> pos_db \<Rightarrow> string list" where
  "item_roots tid orderId db =
     concat (map (\<lambda>i. map root_kind (filter (\<lambda>s. ws_id s = it_currentStatusKindId i \<and> ws_tenantId s = it_tenantId i) (db_workflowStates db)))
       (filter (\<lambda>i. it_tenantId i = tid \<and> it_orderId i = orderId \<and> \<not> it_isVoided i) (db_items db)))"

definition derived_target :: "string \<Rightarrow> string \<Rightarrow> pos_db \<Rightarrow> (tenant_workflow_state \<times> order_status_kind) option" where
  "derived_target tid orderId db =
     (case js_sort comparePositions (filter (\<lambda>s. ws_tenantId s = tid \<and> ws_parentKindCode s = None \<and>
         ws_kindCode s \<in> set (item_roots tid orderId db) \<and> find_row (\<lambda>k. sk_code k = ws_kindCode s) (db_statusKinds db) \<noteq> None)
         (db_workflowStates db)) of
        [] \<Rightarrow> None
      | s # _ \<Rightarrow> map_option (\<lambda>k. (s, k)) (find_row (\<lambda>k. sk_code k = ws_kindCode s) (db_statusKinds db)))"

text \<open>
  As every behaviour flag, \<open>is_terminal\<close> is a JSON boolean of its kind (the trigger of \<^verbatim>\<open>migrations/0018\<close>), which the cast \<open>(->> 'is_terminal')::boolean\<close> reads.
\<close>

definition recomputeOrderStatus :: "pos_env \<Rightarrow> string \<Rightarrow> string \<Rightarrow> (pos_db, string option) tx" where
  "recomputeOrderStatus env tid orderId =
     tx_bind (tx_read (loadOrder tid orderId)) (\<lambda>found.
     case found of None \<Rightarrow> tx_return None
     | Some ord \<Rightarrow>
       tx_bind (tx_read (derived_target tid orderId)) (\<lambda>target.
       case target of None \<Rightarrow> tx_return (Some (o_currentStatusKindId ord))
       | Some (s, k) \<Rightarrow>
         if ws_id s = o_currentStatusKindId ord then tx_return (Some (o_currentStatusKindId ord))
         else
           let terminal = (json_member (sk_behaviorFlags k) ''is_terminal'' = Some (JsBool True)) in
           tx_bind (db_check env (WOrderStatusKind orderId (ws_id s))) (\<lambda>_.
           tx_bind (tx_write (\<lambda>db. db\<lparr>db_orders := update_where (\<lambda>x. o_tenantId x = tid \<and> o_id x = orderId)
             (\<lambda>x. x\<lparr>o_currentStatusKindId := ws_id s,
                     o_closedAt := (if terminal \<and> o_closedAt x = None then Some (env_now env) else o_closedAt x)\<rparr>) (db_orders db)\<rparr>)) (\<lambda>_.
           tx_bind (appendEvent env tid (o_branchId ord) ''order.status_changed'' (JsObj [(''order_id'', JsStr orderId),
             (''from_status_kind_id'', JsStr (o_currentStatusKindId ord)), (''to_status_kind_id'', JsStr (ws_id s)),
             (''is_terminal'', JsBool terminal)])) (\<lambda>_.
           tx_return (Some (ws_id s)))))))"

text \<open>The trigger on an inserted status event.\<close>

definition apply_order_item_status :: "pos_env \<Rightarrow> status_event_row \<Rightarrow> (pos_db, unit) tx" where
  "apply_order_item_status env e =
     tx_bind (db_check env (WItemStatus (se_orderItemId e) (se_toStatusKindId e))) (\<lambda>_.
     tx_bind (tx_write (\<lambda>db. db\<lparr>db_items := update_where (\<lambda>i. it_id i = se_orderItemId e \<and> it_tenantId i = se_tenantId e)
        (\<lambda>i. i\<lparr>it_currentStatusKindId := se_toStatusKindId e\<rparr>) (db_items db)\<rparr>)) (\<lambda>_.
     tx_bind (tx_read (loadOrder (se_tenantId e) (se_orderId e))) (\<lambda>found.
     tx_bind (tx_some found (PgError ''23514'' None ''branch not found for outbox sequencing'')) (\<lambda>ord.
     tx_bind (tx_read (\<lambda>db. find_row (\<lambda>s. ws_id s = se_toStatusKindId e) (db_workflowStates db))) (\<lambda>state.
     tx_bind (tx_read (\<lambda>db. case state of None \<Rightarrow> JsObj []
        | Some s \<Rightarrow> (case find_row (\<lambda>k. sk_code k = ws_kindCode s) (db_statusKinds db) of None \<Rightarrow> JsObj [] | Some k \<Rightarrow> sk_behaviorFlags k))) (\<lambda>flags.
     tx_bind (appendEvent env (se_tenantId e) (o_branchId ord) ''order_item.status_changed'' (JsObj [(''order_id'', JsStr (se_orderId e)),
        (''order_item_id'', JsStr (se_orderItemId e)), (''from_status_kind_id'', id_of (se_fromStatusKindId e)),
        (''to_status_kind_id'', JsStr (se_toStatusKindId e)), (''actor_user_id'', id_of (se_actorUserId e)),
        (''occurred_at'', JsNum (se_occurredAt e)), (''behavior_flags'', flags)])) (\<lambda>_.
     tx_bind (recomputeOrderStatus env (se_tenantId e) (se_orderId e)) (\<lambda>_.
     tx_return ()))))))))"

definition insertStatusEvent :: "pos_env \<Rightarrow> string \<Rightarrow> status_event_row \<Rightarrow> (pos_db, unit) tx" where
  "insertStatusEvent env tid row =
     tx_bind (db_check env (WStatusEvent row)) (\<lambda>_.
     tx_bind (tx_write (\<lambda>db. db\<lparr>db_statusEvents := db_statusEvents db @ [row]\<rparr>)) (\<lambda>_.
     apply_order_item_status env row))"

section \<open>Writes\<close>

definition createWorkflow :: "pos_env \<Rightarrow> string \<Rightarrow> (string \<times> int \<times> localized_text) list \<Rightarrow> (pos_db, string) tx" where
  "createWorkflow env tid topLevelKinds =
     tx_bind (tx_read (\<lambda>db. find_row (\<lambda>w. wf_tenantId w = tid) (db_workflows db))) (\<lambda>existing.
     tx_bind (case existing of Some w \<Rightarrow> tx_return (wf_id w)
       | None \<Rightarrow> tx_bind (tx_read (env_uuid env)) (\<lambda>newId.
           let row = \<lparr>wf_id = newId, wf_tenantId = tid, wf_isActive = True\<rparr> in
           tx_bind (db_check env (WWorkflow row)) (\<lambda>_.
           tx_bind (tx_write (\<lambda>db. db\<lparr>db_workflows := db_workflows db @ [row]\<rparr>)) (\<lambda>_. tx_return newId)))) (\<lambda>workflowId.
     tx_bind (tx_for (\<lambda>(kindCode, position, label).
       tx_bind (tx_read (env_uuid env)) (\<lambda>newId.
       let row = \<lparr>ws_id = newId, ws_tenantId = tid, ws_workflowId = workflowId, ws_kindCode = kindCode, ws_parentKindCode = None,
         ws_position = position, ws_label = label, ws_isEnabled = True\<rparr> in
       tx_bind (db_check env (WWorkflowState row)) (\<lambda>_.
       tx_write (\<lambda>db. db\<lparr>db_workflowStates := db_workflowStates db @ [row]\<rparr>)))) topLevelKinds) (\<lambda>_.
     tx_return workflowId)))"

record add_workflow_state_input =
  aw_kindCode :: string
  aw_parentKindCode :: "string option"
  aw_position :: int
  aw_label :: localized_text

definition addWorkflowState :: "pos_env \<Rightarrow> string \<Rightarrow> add_workflow_state_input \<Rightarrow> (pos_db, string) tx" where
  "addWorkflowState env tid input =
     tx_bind (tx_read (\<lambda>db. find_row (\<lambda>w. wf_tenantId w = tid) (db_workflows db))) (\<lambda>found.
     tx_bind (tx_some found (ForeignError ''Expected database row'')) (\<lambda>w.
     tx_bind (tx_read (\<lambda>db. case aw_parentKindCode input of None \<Rightarrow> True
        | Some parent \<Rightarrow> \<exists>s\<in>set (db_workflowStates db). ws_tenantId s = tid \<and> ws_workflowId s = wf_id w \<and> ws_kindCode s = parent \<and>
            ws_parentKindCode s = None \<and> ws_isEnabled s)) (\<lambda>parented.
     tx_bind (tx_guard parented (OrderWorkflowNotConfiguredError tid)) (\<lambda>_.
     tx_bind (tx_read (env_uuid env)) (\<lambda>newId.
     let row = \<lparr>ws_id = newId, ws_tenantId = tid, ws_workflowId = wf_id w, ws_kindCode = aw_kindCode input,
       ws_parentKindCode = aw_parentKindCode input, ws_position = aw_position input, ws_label = aw_label input, ws_isEnabled = True\<rparr> in
     tx_bind (db_check env (WWorkflowState row)) (\<lambda>_.
     tx_bind (tx_write (\<lambda>db. db\<lparr>db_workflowStates := db_workflowStates db @ [row]\<rparr>)) (\<lambda>_.
     tx_return newId)))))))"

definition update_state :: "pos_env \<Rightarrow> string \<Rightarrow> string \<Rightarrow> (tenant_workflow_state \<Rightarrow> tenant_workflow_state) \<Rightarrow> (pos_db, unit) tx" where
  "update_state env tid stateId f =
     tx_bind (tx_read (\<lambda>db. filter (\<lambda>s. ws_tenantId s = tid \<and> ws_id s = stateId) (db_workflowStates db))) (\<lambda>rows.
     tx_bind (tx_for (\<lambda>s. db_check env (WWorkflowState (f s))) rows) (\<lambda>_.
     tx_write (\<lambda>db. db\<lparr>db_workflowStates := update_where (\<lambda>s. ws_tenantId s = tid \<and> ws_id s = stateId) f (db_workflowStates db)\<rparr>)))"

definition setWorkflowStateEnabled :: "pos_env \<Rightarrow> string \<Rightarrow> string \<Rightarrow> bool \<Rightarrow> (pos_db, unit) tx" where
  "setWorkflowStateEnabled env tid stateId isEnabled = update_state env tid stateId (\<lambda>s. s\<lparr>ws_isEnabled := isEnabled\<rparr>)"

definition setWorkflowStatePosition :: "pos_env \<Rightarrow> string \<Rightarrow> string \<Rightarrow> int \<Rightarrow> (pos_db, unit) tx" where
  "setWorkflowStatePosition env tid stateId position = update_state env tid stateId (\<lambda>s. s\<lparr>ws_position := position\<rparr>)"

definition deleteWorkflowState :: "pos_env \<Rightarrow> string \<Rightarrow> string \<Rightarrow> (pos_db, unit) tx" where
  "deleteWorkflowState env tid stateId =
     tx_bind (tx_read (countWorkflowStateReferences tid stateId)) (\<lambda>refs.
     tx_bind (tx_guard (\<not> refs > 0) (WorkflowStateInUseError stateId)) (\<lambda>_.
     tx_bind (db_check env (WWorkflowStateDeletion stateId)) (\<lambda>_.
     tx_write (\<lambda>db. db\<lparr>db_workflowStates := filter (\<lambda>s. \<not> (ws_tenantId s = tid \<and> ws_id s = stateId)) (db_workflowStates db)\<rparr>))))"

definition markOrderItemsVoided :: "pos_env \<Rightarrow> string \<Rightarrow> string list \<Rightarrow> (pos_db, unit) tx" where
  "markOrderItemsVoided env tid itemIds =
     (if itemIds = [] then tx_return ()
      else tx_bind (db_check env (WItemsVoided itemIds)) (\<lambda>_.
        tx_write (\<lambda>db. db\<lparr>db_items := update_where (\<lambda>i. it_tenantId i = tid \<and> it_id i \<in> set itemIds)
          (\<lambda>i. i\<lparr>it_isVoided := True, it_voidedAt := Some (env_now env)\<rparr>) (db_items db)\<rparr>)))"

definition insertOrderVoid :: "pos_env \<Rightarrow> order_void_record \<Rightarrow> (pos_db, order_void_record) tx" where
  "insertOrderVoid env row =
     tx_bind (db_check env (WVoid row)) (\<lambda>_.
     tx_bind (tx_write (\<lambda>db. db\<lparr>db_voids := db_voids db @ [row]\<rparr>)) (\<lambda>_.
     tx_return row))"

text \<open>A row that the shortage trigger rejects is reported as a lack of stock.\<close>

definition STOCK_SHORTAGE_MESSAGE_PREFIX :: string where
  "STOCK_SHORTAGE_MESSAGE_PREFIX = ''stock: insufficient quantity''"

fun isStockShortageTriggerError :: "app_error \<Rightarrow> bool" where
  "isStockShortageTriggerError (PgError sqlstate _ msg) =
     (sqlstate = ''23514'' \<and> take (length STOCK_SHORTAGE_MESSAGE_PREFIX) msg = STOCK_SHORTAGE_MESSAGE_PREFIX)"
| "isStockShortageTriggerError _ = False"

definition insertOrderStockMovement ::
  "pos_env \<Rightarrow> string \<Rightarrow> string option \<Rightarrow> insert_stock_movement_input \<Rightarrow> (pos_db, stock_movement_record) tx" where
  "insertOrderStockMovement env tid displayName movement = (\<lambda>db.
     mapErr (insertStockMovement env tid movement db) (\<lambda>e. if isStockShortageTriggerError e
       then InsufficientStockError (case displayName of None \<Rightarrow> im_inventoryItemId movement | Some n \<Rightarrow> n)
              (im_inventoryItemId movement) (im_branchId movement)
       else e))"

end
