(* ===== verification/Void_Engine.thy ===== *)
theory Void_Engine
  imports Orders_Store
begin

text \<open>
  Model of \<^verbatim>\<open>src/application/engines/orders/void-modification-engine.ts\<close>: voiding a line or a whole order. The engine
  works in one transaction that only reads until the manager's live challenge (a transaction of its own, on another
  connection) is through and writes afterwards; so it is modelled as a reading transaction, the challenge, and
  a writing transaction. The challenge touches none of the tables the writes read.
\<close>

section \<open>Vocabulary\<close>

record void_actor =
  va_userId :: string
  va_tokenSecV :: string

record void_order_item_input =
  vi_orderItemId :: string
  vi_voidReasonId :: string
  vi_managerOverride :: "manager_override_challenge_input option"
  vi_notes :: "string option"

record void_order_input =
  vo_orderId :: string
  vo_voidReasonId :: string
  vo_managerOverride :: "manager_override_challenge_input option"
  vo_notes :: "string option"

record void_target =
  vt_order :: order_row
  vt_orderItemId :: "string option"
  vt_itemCreatedAt :: "int option"

fun payment_status_name :: "order_payment_status \<Rightarrow> string" where
  "payment_status_name op_open = ''open''"
| "payment_status_name op_paid = ''paid''"
| "payment_status_name op_refund_pending = ''refund_pending''"
| "payment_status_name op_refunded = ''refunded''"
| "payment_status_name op_voided = ''voided''"

definition assertVoidAllowedUnderPaymentStatus :: "order_payment_status \<Rightarrow> unit result" where
  "assertVoidAllowedUnderPaymentStatus st =
     (if st \<noteq> op_open then Inl (PaymentReversalRequiredError (payment_status_name st)) else Inr ())"

fun tier_name :: "void_permission_tier \<Rightarrow> string" where
  "tier_name server = ''server''"
| "tier_name shift_supervisor = ''shift_supervisor''"
| "tier_name manager = ''manager''"

section \<open>The decision\<close>

definition resolveItemTarget :: "string \<Rightarrow> string \<Rightarrow> (pos_db, void_target) tx" where
  "resolveItemTarget tid orderItemId =
     tx_bind (tx_read (loadOrderItem tid orderItemId)) (\<lambda>found.
     tx_bind (tx_some found NotFoundError) (\<lambda>item.
     tx_bind (tx_guard (\<not> it_isVoided item) (ValidationError None)) (\<lambda>_.
     tx_bind (tx_read (loadOrder tid (it_orderId item))) (\<lambda>found.
     tx_bind (tx_some found NotFoundError) (\<lambda>ord.
     tx_return \<lparr>vt_order = ord, vt_orderItemId = Some (it_id item), vt_itemCreatedAt = Some (it_createdAt item)\<rparr>)))))"

definition resolveOrderTarget :: "string \<Rightarrow> string \<Rightarrow> (pos_db, void_target) tx" where
  "resolveOrderTarget tid orderId =
     tx_bind (tx_read (loadOrder tid orderId)) (\<lambda>found.
     tx_bind (tx_some found NotFoundError) (\<lambda>ord.
     tx_bind (tx_read (loadActiveOrderItems tid (o_id ord))) (\<lambda>items.
     tx_bind (tx_guard (items \<noteq> []) (ValidationError None)) (\<lambda>_.
     tx_return \<lparr>vt_order = ord, vt_orderItemId = None, vt_itemCreatedAt = None\<rparr>))))"

text \<open>The oldest of the given times, by the loop of the code.\<close>

definition older :: "int option \<Rightarrow> int \<Rightarrow> int option" where
  "older oldest t = (case oldest of None \<Rightarrow> Some t | Some o' \<Rightarrow> if t < o' then Some t else Some o')"

definition governingCreatedAt :: "string \<Rightarrow> void_target \<Rightarrow> pos_db \<Rightarrow> int option" where
  "governingCreatedAt tid target db =
     (if vt_orderItemId target = None
      then foldl older None (map it_createdAt (loadActiveOrderItems tid (o_id (vt_order target)) db))
      else vt_itemCreatedAt target)"

definition assertWithinTimeLimit :: "pos_env \<Rightarrow> string \<Rightarrow> void_target \<Rightarrow> (pos_db, unit) tx" where
  "assertWithinTimeLimit env tid target =
     tx_bind (tx_read (loadVoidTimeLimitMinutes tid)) (\<lambda>limitMinutes.
     case limitMinutes of None \<Rightarrow> tx_return ()
     | Some limit \<Rightarrow>
         tx_bind (tx_read (governingCreatedAt tid target)) (\<lambda>governing.
         case governing of None \<Rightarrow> tx_return ()
         | Some t \<Rightarrow> tx_guard (\<not> env_now env - t > limit * 60000) (VoidTimeLimitExceededError t limit)))"

record void_decision =
  vd_target :: void_target
  vd_reason :: void_reason
  vd_actorTier :: void_permission_tier
  vd_requiredManagerOverride :: bool
  vd_challenge :: "manager_override_challenge_input option"

definition approvingManager :: "pos_env \<Rightarrow> string \<Rightarrow> string \<Rightarrow> void_reason \<Rightarrow> manager_override_challenge_input option \<Rightarrow>
   (pos_db, manager_override_challenge_input) tx" where
  "approvingManager env tid branchId voidReason managerOverride =
     tx_bind (tx_some managerOverride (ManagerOverrideRequiredError (tier_name (rs_requiredPermissionTier voidReason)))) (\<lambda>challenge.
     tx_bind (tx_read (userIsActiveTenantMember tid (mo_managerUserId challenge))) (\<lambda>active.
     tx_bind (tx_guard active ManagerOverrideAuthenticationError) (\<lambda>_.
     tx_bind (tx_lift (resolveVoidPermissionTier env tid (mo_managerUserId challenge) branchId)) (\<lambda>managerTier.
     tx_bind (tx_guard (managerTier = Some manager) ManagerOverrideAuthenticationError) (\<lambda>_.
     tx_return challenge)))))"

definition void_check :: "string \<Rightarrow> void_actor \<Rightarrow> string \<Rightarrow> auth_check" where
  "void_check tid actor branchId =
     \<lparr>ck_tenantId = tid, ck_userId = va_userId actor, ck_permissionKey = ''order:void'', ck_tokenSecV = Some (va_tokenSecV actor),
      ck_branchId = Some branchId, ck_isSensitive = True\<rparr>"

definition decideVoid :: "pos_env \<Rightarrow> string \<Rightarrow> void_actor \<Rightarrow> (pos_db, void_target) tx \<Rightarrow> string \<Rightarrow>
   manager_override_challenge_input option \<Rightarrow> (pos_db, void_decision) tx" where
  "decideVoid env tid actor resolveTarget voidReasonId managerOverride =
     tx_bind resolveTarget (\<lambda>target.
     tx_bind (tx_lift (env_authorize env (void_check tid actor (o_branchId (vt_order target))))) (\<lambda>_.
     tx_bind (tx_lift (assertVoidAllowedUnderPaymentStatus (o_paymentStatus (vt_order target)))) (\<lambda>_.
     tx_bind (tx_read (loadVoidReason tid voidReasonId)) (\<lambda>found.
     tx_bind (tx_some found (VoidReasonUnavailableError voidReasonId)) (\<lambda>reason.
     tx_bind (tx_guard (rs_isEnabled reason \<and> rs_kindSettingEnabled reason) (VoidReasonUnavailableError voidReasonId)) (\<lambda>_.
     tx_bind (assertWithinTimeLimit env tid target) (\<lambda>_.
     tx_bind (tx_lift (resolveVoidPermissionTier env tid (va_userId actor) (o_branchId (vt_order target)))) (\<lambda>tier.
     tx_bind (tx_some tier (ManagerOverrideRequiredError (tier_name (rs_requiredPermissionTier reason)))) (\<lambda>actorTier.
     let requiredOverride = (VOID_PERMISSION_TIER_RANK actorTier < VOID_PERMISSION_TIER_RANK (rs_requiredPermissionTier reason)) in
     tx_bind (if requiredOverride
       then tx_bind (approvingManager env tid (o_branchId (vt_order target)) reason managerOverride) (\<lambda>c. tx_return (Some c))
       else tx_return None) (\<lambda>challenge.
     tx_return \<lparr>vd_target = target, vd_reason = reason, vd_actorTier = actorTier, vd_requiredManagerOverride = requiredOverride,
       vd_challenge = challenge\<rparr>))))))))))"

text \<open>The live challenge, when the decision needs one.\<close>

definition challengeVoid :: "pos_env \<Rightarrow> string \<Rightarrow> void_actor \<Rightarrow> void_decision \<Rightarrow> (pos_db, int option) op" where
  "challengeVoid env tid actor d =
     (case vd_challenge d of None \<Rightarrow> op_return None
      | Some c \<Rightarrow> op_bind (verifyLiveChallenge env tid (mo_managerUserId c) (mo_managerOverridePin c) (va_userId actor) ''void''
          (Some (o_id (vt_order (vd_target d))))) (\<lambda>t. op_return (Some t)))"

section \<open>The writes\<close>

definition voidMovement ::
  "pos_env \<Rightarrow> string \<Rightarrow> order_row \<Rightarrow> string \<Rightarrow> string list \<Rightarrow> (string \<times> string) list \<Rightarrow> sale_deduction_aggregate \<Rightarrow> (pos_db, unit) tx" where
  "voidMovement env tid ord actorUserId fired restored deduction =
     (if (sd_orderItemId deduction, sd_inventoryItemId deduction) \<in> set restored then tx_return ()
      else
        let restores = (sd_orderItemId deduction \<notin> set fired) in
        tx_bind (tx_lift (if restores
                 then andThen (decimalTextToMinor (sd_totalDeducted deduction) 4 ''totalDeducted'') (\<lambda>m. minorToDecimalText (- m) 4)
                 else minorToDecimalText 0 4)) (\<lambda>quantityDelta.
        tx_bind (insertOrderStockMovement env tid None \<lparr>im_branchId = o_branchId ord, im_inventoryItemId = sd_inventoryItemId deduction,
           im_movementType = (if restores then void_restoration else waste_void), im_quantityDelta = quantityDelta,
           im_orderId = Some (o_id ord), im_orderItemId = Some (sd_orderItemId deduction), im_actorUserId = actorUserId,
           im_managerOverrideId = None, im_adjustmentReasonId = None, im_occurredAt = env_now env\<rparr>) (\<lambda>movement.
        postInventoryRestoration env (sm_id movement))))"

definition writeVoidStockMovements :: "pos_env \<Rightarrow> string \<Rightarrow> order_row \<Rightarrow> string list \<Rightarrow> string \<Rightarrow> (pos_db, unit) tx" where
  "writeVoidStockMovements env tid ord voidedItemIds actorUserId =
     (if voidedItemIds = [] then tx_return ()
      else
      tx_bind (tx_readR (loadSaleDeductionsForOrderItems tid voidedItemIds)) (\<lambda>deductions.
      if deductions = [] then tx_return ()
      else
      tx_bind (tx_read (loadItemsWithKitchenTicketFired tid voidedItemIds)) (\<lambda>fired.
      tx_bind (tx_read (loadVoidRestorationKeys tid voidedItemIds)) (\<lambda>restored.
      tx_for (voidMovement env tid ord actorUserId fired restored) deductions))))"

definition voidEvents :: "pos_env \<Rightarrow> string \<Rightarrow> order_row \<Rightarrow> string \<Rightarrow> string \<Rightarrow> bool \<Rightarrow> string list \<Rightarrow> (pos_db, unit) tx" where
  "voidEvents env tid ord voidId actorUserId whole voidedItemIds =
     tx_bind (tx_for (\<lambda>itemId. tx_bind (appendEvent env tid (o_branchId ord) ''order_item.voided'' (JsObj [(''order_id'', JsStr (o_id ord)),
       (''order_item_id'', JsStr itemId), (''void_record_id'', JsStr voidId), (''actor_user_id'', JsStr actorUserId)])) (\<lambda>_.
       tx_return ())) voidedItemIds) (\<lambda>_.
     if whole then tx_bind (appendEvent env tid (o_branchId ord) ''order.voided'' (JsObj [(''order_id'', JsStr (o_id ord)),
       (''void_record_id'', JsStr voidId), (''actor_user_id'', JsStr actorUserId)])) (\<lambda>_. tx_return ())
     else tx_return ())"

definition voidWrites :: "pos_env \<Rightarrow> string \<Rightarrow> void_actor \<Rightarrow> void_decision \<Rightarrow> int option \<Rightarrow> string option \<Rightarrow> (pos_db, order_void_record) tx" where
  "voidWrites env tid actor d overrideAuthenticatedAt notes =
     (let ord = vt_order (vd_target d); orderItemId = vt_orderItemId (vd_target d) in
     tx_bind (tx_read (lockOrderRow tid (o_id ord))) (\<lambda>locked.
     tx_bind (tx_some locked NotFoundError) (\<lambda>_.
     tx_bind (bumpOrderRevision env tid (o_id ord)) (\<lambda>_.
     tx_bind (tx_read (env_uuid env)) (\<lambda>newId.
     tx_bind (insertOrderVoid env \<lparr>ov_id = newId, ov_tenantId = tid, ov_orderId = o_id ord, ov_orderItemId = orderItemId,
        ov_actorUserId = va_userId actor, ov_actorPermissionTier = vd_actorTier d, ov_voidReasonId = rs_id (vd_reason d),
        ov_requiredManagerOverride = vd_requiredManagerOverride d, ov_managerUserId = map_option mo_managerUserId (vd_challenge d),
        ov_overrideAuthenticatedAt = overrideAuthenticatedAt, ov_orderPaymentStatusAtVoidTime = o_paymentStatus ord,
        ov_notes = notes, ov_occurredAt = env_now env\<rparr>) (\<lambda>record.
     tx_bind (tx_read (\<lambda>db. case orderItemId of Some i \<Rightarrow> [i] | None \<Rightarrow> map it_id (loadActiveOrderItems tid (o_id ord) db))) (\<lambda>voidedItemIds.
     tx_bind (markOrderItemsVoided env tid voidedItemIds) (\<lambda>_.
     tx_bind (tx_read (loadActiveOrderItems tid (o_id ord))) (\<lambda>left.
     tx_bind (if left = [] then setOrderPaymentStatus env tid (o_id ord) op_voided else tx_return ()) (\<lambda>_.
     tx_bind (voidEvents env tid ord (ov_id record) (va_userId actor) (orderItemId = None) voidedItemIds) (\<lambda>_.
     tx_bind (writeVoidStockMovements env tid ord voidedItemIds (va_userId actor)) (\<lambda>_.
     tx_bind (recomputeOrderStatus env tid (o_id ord)) (\<lambda>_.
     tx_return record)))))))))))))"

definition voidWithinTenant :: "pos_env \<Rightarrow> string \<Rightarrow> void_actor \<Rightarrow> (pos_db, void_target) tx \<Rightarrow> string \<Rightarrow>
   manager_override_challenge_input option \<Rightarrow> string option \<Rightarrow> (pos_db, order_void_record) op" where
  "voidWithinTenant env tid actor resolveTarget voidReasonId managerOverride notes =
     op_bind (store_run env tid (decideVoid env tid actor resolveTarget voidReasonId managerOverride)) (\<lambda>d.
     op_bind (challengeVoid env tid actor d) (\<lambda>overrideAuthenticatedAt.
     run_tx (voidWrites env tid actor d overrideAuthenticatedAt notes)))"

definition voidOrderItem :: "pos_env \<Rightarrow> string \<Rightarrow> void_actor \<Rightarrow> void_order_item_input \<Rightarrow> (pos_db, order_void_record) op" where
  "voidOrderItem env tid actor input =
     voidWithinTenant env tid actor (resolveItemTarget tid (vi_orderItemId input)) (vi_voidReasonId input) (vi_managerOverride input) (vi_notes input)"

definition voidOrder :: "pos_env \<Rightarrow> string \<Rightarrow> void_actor \<Rightarrow> void_order_input \<Rightarrow> (pos_db, order_void_record) op" where
  "voidOrder env tid actor input =
     voidWithinTenant env tid actor (resolveOrderTarget tid (vo_orderId input)) (vo_voidReasonId input) (vo_managerOverride input) (vo_notes input)"

end
