(* ===== verification/Workflow_Engine.thy ===== *)
theory Workflow_Engine
  imports Orders_Store
begin

text \<open>
  Models of \<^verbatim>\<open>src/application/engines/orders/workflow-transition-engine.ts\<close> (an item moves along its tenant's
  enabled sequence of kitchen states) and of \<^verbatim>\<open>workflow-admin-engine.ts\<close> (the configuration of that
  sequence).
\<close>

section \<open>Transitions\<close>

definition isFamilyMove :: "tenant_workflow_state \<Rightarrow> tenant_workflow_state \<Rightarrow> bool" where
  "isFamilyMove from to' =
     (case (ws_parentKindCode from, ws_parentKindCode to') of
        (None, None) \<Rightarrow> False
      | (Some p, Some q) \<Rightarrow> p = q
      | (None, Some q) \<Rightarrow> q = ws_kindCode from
      | (Some p, None) \<Rightarrow> p = ws_kindCode to')"

definition isTransitionAllowed :: "tenant_workflow_state \<Rightarrow> tenant_workflow_state \<Rightarrow> bool" where
  "isTransitionAllowed from to' =
     (if ws_id from = ws_id to' then False
      else if \<not> ws_isEnabled from \<or> \<not> ws_isEnabled to' then False
      else ws_position to' > ws_position from \<or> isFamilyMove from to')"

text \<open>\<open>fresh.find(\<dots>)\<close>: the outbox row the trigger wrote for this item.\<close>

definition is_evidence :: "string \<Rightarrow> order_outbox_event \<Rightarrow> bool" where
  "is_evidence orderItemId e \<longleftrightarrow>
     ob_eventType e = ''order_item.status_changed'' \<and> json_member (ob_payload e) ''order_item_id'' = Some (JsStr orderItemId)"

definition appendItemStatusEvent :: "pos_env \<Rightarrow> string \<Rightarrow> string \<Rightarrow> status_event_row \<Rightarrow> (pos_db, int) tx" where
  "appendItemStatusEvent env tid branchId row =
     tx_bind (tx_read (lastOutboxSequence tid branchId)) (\<lambda>before.
     tx_bind (insertStatusEvent env tid row) (\<lambda>_.
     tx_bind (tx_read (readOutboxEvents tid branchId before 64)) (\<lambda>fresh.
     tx_bind (tx_some (find_row (is_evidence (se_orderItemId row)) fresh) WorkflowTransitionError) (\<lambda>evidence.
     tx_return (ob_sequenceId evidence)))))"

record item_status_transition_input =
  tr_orderItemId :: string
  tr_toWorkflowStateId :: string
  tr_actorUserId :: string
  tr_tokenSecV :: string

record item_status_transition_result =
  tx_orderItemId :: string
  tx_fromWorkflowStateId :: "string option"
  tx_toWorkflowStateId :: string
  tx_behaviorFlags :: order_behavior_flags
  tx_outboxSequenceId :: int

definition transition_check :: "string \<Rightarrow> item_status_transition_input \<Rightarrow> string option \<Rightarrow> auth_check" where
  "transition_check tid input branchId =
     \<lparr>ck_tenantId = tid, ck_userId = tr_actorUserId input, ck_permissionKey = ''order:item:transition'',
      ck_tokenSecV = Some (tr_tokenSecV input), ck_branchId = branchId, ck_isSensitive = False\<rparr>"

text \<open>The decision, re-read under the lock of the order.\<close>

definition moveUnderLock ::
  "pos_env \<Rightarrow> string \<Rightarrow> item_status_transition_input \<Rightarrow> order_row \<Rightarrow> (pos_db, item_status_transition_result) tx" where
  "moveUnderLock env tid input ord =
     tx_bind (tx_read (loadOrderItem tid (tr_orderItemId input))) (\<lambda>reread.
     tx_bind (tx_some reread NotFoundError) (\<lambda>item.
     tx_bind (tx_guard (\<not> it_isVoided item) WorkflowTransitionError) (\<lambda>_.
     tx_bind (tx_read (loadWorkflowStates tid True)) (\<lambda>states.
     tx_bind (tx_some (find_row (\<lambda>s. ws_id s = tr_toWorkflowStateId input) states) WorkflowTransitionError) (\<lambda>toState.
     tx_bind (tx_some (find_row (\<lambda>s. ws_id s = it_currentStatusKindId item) states) WorkflowTransitionError) (\<lambda>fromState.
     tx_bind (tx_guard (isTransitionAllowed fromState toState) WorkflowTransitionError) (\<lambda>_.
     tx_bind (tx_readR (loadOrderStatusKindFlags (ws_kindCode toState))) (\<lambda>flags.
     tx_bind (appendItemStatusEvent env tid (o_branchId ord) \<lparr>se_tenantId = tid, se_orderItemId = it_id item, se_orderId = o_id ord,
        se_fromStatusKindId = Some (ws_id fromState), se_toStatusKindId = ws_id toState, se_actorUserId = Some (tr_actorUserId input),
        se_occurredAt = env_now env\<rparr>) (\<lambda>outboxSequenceId.
     tx_return \<lparr>tx_orderItemId = it_id item, tx_fromWorkflowStateId = Some (ws_id fromState), tx_toWorkflowStateId = ws_id toState,
        tx_behaviorFlags = flags, tx_outboxSequenceId = outboxSequenceId\<rparr>)))))))))"

definition transitionBody :: "pos_env \<Rightarrow> string \<Rightarrow> item_status_transition_input \<Rightarrow> (pos_db, item_status_transition_result) tx" where
  "transitionBody env tid input =
     tx_bind (tx_read (loadOrderItem tid (tr_orderItemId input))) (\<lambda>probe.
     case probe of
       None \<Rightarrow> tx_bind (tx_lift (env_authorize env (transition_check tid input None))) (\<lambda>_. tx_throw NotFoundError)
     | Some p \<Rightarrow>
     tx_bind (tx_read (lockOrderRow tid (it_orderId p))) (\<lambda>locked.
     case locked of
       None \<Rightarrow> tx_bind (tx_lift (env_authorize env (transition_check tid input None))) (\<lambda>_. tx_throw NotFoundError)
     | Some ord \<Rightarrow>
     tx_bind (tx_lift (env_authorize env (transition_check tid input (Some (o_branchId ord))))) (\<lambda>_.
     tx_bind (bumpOrderRevision env tid (o_id ord)) (\<lambda>_.
     moveUnderLock env tid input ord))))"

definition transitionItem :: "pos_env \<Rightarrow> string \<Rightarrow> item_status_transition_input \<Rightarrow> (pos_db, item_status_transition_result) op" where
  "transitionItem env tid input = store_run env tid (transitionBody env tid input)"

section \<open>Administration\<close>

definition workflow_check :: "string \<Rightarrow> string \<Rightarrow> string \<Rightarrow> auth_check" where
  "workflow_check tid actorUserId tokenSecV =
     \<lparr>ck_tenantId = tid, ck_userId = actorUserId, ck_permissionKey = ''order:workflow:admin'', ck_tokenSecV = Some tokenSecV,
      ck_branchId = None, ck_isSensitive = True\<rparr>"

definition listStates :: "pos_env \<Rightarrow> string \<Rightarrow> bool \<Rightarrow> (pos_db, tenant_workflow_state list) op" where
  "listStates env tid enabledOnly = store_run env tid (tx_read (loadWorkflowStates tid enabledOnly))"

definition ensureWorkflow :: "pos_env \<Rightarrow> string \<Rightarrow> (string \<times> int \<times> localized_text) list \<Rightarrow> (pos_db, string) op" where
  "ensureWorkflow env tid topLevelKinds = store_run env tid (createWorkflow env tid topLevelKinds)"

definition gated :: "pos_env \<Rightarrow> string \<Rightarrow> string \<Rightarrow> string \<Rightarrow> (pos_db, 'a) tx \<Rightarrow> (pos_db, 'a) op" where
  "gated env tid actorUserId tokenSecV body =
     op_bind (op_lift (env_authorize env (workflow_check tid actorUserId tokenSecV))) (\<lambda>_. store_run env tid body)"

definition addState :: "pos_env \<Rightarrow> string \<Rightarrow> string \<Rightarrow> string \<Rightarrow> add_workflow_state_input \<Rightarrow> (pos_db, string) op" where
  "addState env tid actorUserId tokenSecV input = gated env tid actorUserId tokenSecV (addWorkflowState env tid input)"

definition disableState :: "pos_env \<Rightarrow> string \<Rightarrow> string \<Rightarrow> string \<Rightarrow> string \<Rightarrow> (pos_db, unit) op" where
  "disableState env tid actorUserId tokenSecV stateId =
     gated env tid actorUserId tokenSecV (setWorkflowStateEnabled env tid stateId False)"

definition enableState :: "pos_env \<Rightarrow> string \<Rightarrow> string \<Rightarrow> string \<Rightarrow> string \<Rightarrow> (pos_db, unit) op" where
  "enableState env tid actorUserId tokenSecV stateId =
     gated env tid actorUserId tokenSecV (setWorkflowStateEnabled env tid stateId True)"

definition reorderState :: "pos_env \<Rightarrow> string \<Rightarrow> string \<Rightarrow> string \<Rightarrow> string \<Rightarrow> int \<Rightarrow> (pos_db, unit) op" where
  "reorderState env tid actorUserId tokenSecV stateId position =
     gated env tid actorUserId tokenSecV (setWorkflowStatePosition env tid stateId position)"

definition deleteState :: "pos_env \<Rightarrow> string \<Rightarrow> string \<Rightarrow> string \<Rightarrow> string \<Rightarrow> (pos_db, unit) op" where
  "deleteState env tid actorUserId tokenSecV stateId =
     gated env tid actorUserId tokenSecV
       (tx_bind (tx_read (loadWorkflowStates tid False)) (\<lambda>states.
        tx_bind (tx_guard (\<exists>s\<in>set states. ws_id s = stateId) NotFoundError) (\<lambda>_.
        deleteWorkflowState env tid stateId)))"

end
