(* ===== verification/Orders_Relations.thy ===== *)
theory Orders_Relations
  imports Void_Engine Workflow_Engine Atomicity
begin

text \<open>
  Relations between the database before and after an operation of the orders engines: a reflexive and transitive relation
  that every write of the orders scope maintains is maintained by every transition, void and workflow administration, whatever its
  outcome: \<open>kitchen_relation\<close> covers the transitions and the administration, \<open>orders_relation\<close> also the voids, with their stock movements and the
  manager's challenge. The locales are interpreted on the tables the engines leave alone, on the outbox and on the stock.
\<close>

locale kitchen_relation = tx_relation R for R :: "pos_db \<Rightarrow> pos_db \<Rightarrow> bool" +
  assumes event_log: "tx_ensures R (appendEvent env tid b ty pl)"
    and order_rows: "R db (db\<lparr>db_orders := update_where (\<lambda>x. o_tenantId x = tid \<and> o_id x = oid)
      (\<lambda>x. x\<lparr>o_currentStatusKindId := k, o_closedAt := c x\<rparr>) (db_orders db)\<rparr>)"
      "tx_ensures R (bumpOrderRevision env tid oid)"
    and item_rows: "R db (db\<lparr>db_items := update_where (\<lambda>i. it_id i = iid \<and> it_tenantId i = tid) (\<lambda>i. i\<lparr>it_currentStatusKindId := k\<rparr>) (db_items db)\<rparr>)"
    and status_ledger: "R db (db\<lparr>db_statusEvents := db_statusEvents db @ [e]\<rparr>)"
    and workflow_rows: "R db (db\<lparr>db_workflows := ws\<rparr>)" "R db (db\<lparr>db_workflowStates := ss\<rparr>)"
begin

lemma checks: "tx_ensures R (db_check env w)"
  by (auto simp: tx_ensures_def tx_simps refl)

lemma recompute: "tx_ensures R (recomputeOrderStatus env tid oid)"
  unfolding recomputeOrderStatus_def Let_def
  by (auto intro!: bind_rule bodies write_rule checks event_log order_rows split: option.splits)

lemma status_event: "tx_ensures R (insertStatusEvent env tid e)"
  unfolding insertStatusEvent_def apply_order_item_status_def
  by (auto intro!: bind_rule bodies write_rule checks event_log item_rows status_ledger recompute)

lemma store_rule: "tx_ensures R m \<Longrightarrow> op_ensures R (store_run env tid m)"
  unfolding store_run_def by (intro run_rule bind_rule bodies)

lemma transition_op: "op_ensures R (transitionItem env tid input)"
  unfolding transitionItem_def transitionBody_def moveUnderLock_def appendItemStatusEvent_def
  by (auto intro!: store_rule bind_rule bodies order_rows status_event split: option.splits)

lemma admin_op: "tx_ensures R m \<Longrightarrow> op_ensures R (gated env tid u tok m)"
  unfolding gated_def by (intro op_bnd op_values store_rule)

lemma state_rows: "tx_ensures R (update_state env tid sid f)"
  unfolding update_state_def by (auto intro!: bind_rule bodies for_each checks write_rule workflow_rows)

lemma admin_ops:
  "op_ensures R (addState env tid u tok input)" "op_ensures R (disableState env tid u tok sid)" "op_ensures R (enableState env tid u tok sid)"
  "op_ensures R (reorderState env tid u tok sid pos)" "op_ensures R (deleteState env tid u tok sid)" "op_ensures R (ensureWorkflow env tid kinds)"
  unfolding addState_def disableState_def enableState_def reorderState_def deleteState_def ensureWorkflow_def setWorkflowStateEnabled_def
    setWorkflowStatePosition_def addWorkflowState_def deleteWorkflowState_def createWorkflow_def Let_def
  by (auto intro!: admin_op store_rule bind_rule bodies for_each checks write_rule state_rows workflow_rows split: option.splits prod.splits)

end

locale orders_relation = kitchen_relation R for R :: "pos_db \<Rightarrow> pos_db \<Rightarrow> bool" +
  assumes void_rows: "tx_ensures R (setOrderPaymentStatus env tid oid st)" "tx_ensures R (markOrderItemsVoided env tid ids)"
      "R db (db\<lparr>db_voids := db_voids db @ [v]\<rparr>)"
    and stock: "tx_ensures R (insertStockMovement env tid im)" "tx_ensures R (postInventoryRestoration env mid)"
    and challenge: "override_frame db db' \<Longrightarrow> R db db'"
begin

lemma void_insert: "tx_ensures R (insertOrderVoid env v)"
  unfolding insertOrderVoid_def by (auto intro!: bind_rule bodies write_rule checks void_rows)

lemma order_stock: "tx_ensures R (insertOrderStockMovement env tid n im)"
  using stock(1) by (auto simp: tx_ensures_def insertOrderStockMovement_def mapErr_Inr_iff)

lemma void_stock: "tx_ensures R (writeVoidStockMovements env tid ord ids u)"
  unfolding writeVoidStockMovements_def voidMovement_def Let_def
  by (auto intro!: bind_rule for_each bodies order_stock stock)

lemma void_events: "tx_ensures R (voidEvents env tid ord v u whole ids)"
  unfolding voidEvents_def by (auto intro!: bind_rule for_each bodies event_log)

lemma void_writes: "tx_ensures R (voidWrites env tid actor d at notes)"
  unfolding voidWrites_def Let_def
  by (auto intro!: bind_rule bodies order_rows void_rows void_insert void_events void_stock recompute)

lemma decide: "tx_ensures R rt \<Longrightarrow> tx_ensures R (decideVoid env tid actor rt reasonId mo)"
  unfolding decideVoid_def assertWithinTimeLimit_def approvingManager_def Let_def
  by (auto intro!: bind_rule bodies split: option.splits)

lemma challenge_op: "op_ensures R (challengeVoid env tid actor d)"
proof -
  have "op_ensures R (verifyLiveChallenge env tid m pin a ctx oid)" for m pin a ctx oid
    using challenge_frame(1) challenge unfolding op_ensures_def by blast
  then show ?thesis unfolding challengeVoid_def by (auto intro!: op_bnd op_values split: option.splits)
qed

lemma void_op: "tx_ensures R rt \<Longrightarrow> op_ensures R (voidWithinTenant env tid actor rt reasonId mo notes)"
  unfolding voidWithinTenant_def by (intro op_bnd store_rule run_rule decide challenge_op void_writes)

lemma void_item_op: "op_ensures R (voidOrderItem env tid actor input)"
  unfolding voidOrderItem_def resolveItemTarget_def by (intro void_op bind_rule bodies)

lemma void_order_op: "op_ensures R (voidOrder env tid actor whole)"
  unfolding voidOrder_def resolveOrderTarget_def by (intro void_op bind_rule bodies)

end

end
