(* ===== verification/Outbox.thy ===== *)
theory Outbox
  imports Orders_Relations Payments_Relations
begin

text \<open>
  The outbox is an append-only log, numbered without gaps per branch, whatever the engines do; so a
  display that reconnects with the last number it saw is sent exactly what it missed. \<open>outbox_grows\<close> is the
  relation every operation maintains, an interpretation of the relations that transactions carry.
\<close>

section \<open>Numbering\<close>

definition last_seq :: "event_sequence_row list \<Rightarrow> string \<Rightarrow> int" where
  "last_seq qs b = (case find_row (\<lambda>q. sq_branchId q = b) qs of None \<Rightarrow> 0 | Some q \<Rightarrow> sq_lastSequence q)"

definition branch_events :: "order_outbox_event list \<Rightarrow> string \<Rightarrow> order_outbox_event list" where
  "branch_events es b = filter (\<lambda>e. ob_branchId e = b) es"

definition owned :: "pos_db \<Rightarrow> string \<Rightarrow> string \<Rightarrow> bool" where
  "owned db tid b \<longleftrightarrow> (\<exists>br\<in>set (db_branches db). br_id br = b \<and> br_tenantId br = tid)"

definition outbox_ok :: "pos_db \<Rightarrow> bool" where
  "outbox_ok db \<longleftrightarrow> distinct (map br_id (db_branches db)) \<and>
     (\<forall>b. 0 \<le> last_seq (db_sequences db) b \<and> map ob_sequenceId (branch_events (db_outbox db) b) = [1..last_seq (db_sequences db) b]) \<and>
     (\<forall>e\<in>set (db_outbox db). owned db (ob_tenantId e) (ob_branchId e)) \<and>
     (\<forall>q\<in>set (db_sequences db). owned db (sq_tenantId q) (sq_branchId q))"

definition outbox_grows :: "pos_db \<Rightarrow> pos_db \<Rightarrow> bool" where
  "outbox_grows db db' \<longleftrightarrow> db_branches db' = db_branches db \<and> (\<exists>new. db_outbox db' = db_outbox db @ new) \<and>
     (outbox_ok db \<longrightarrow> outbox_ok db')"

definition outbox_same :: "pos_db \<Rightarrow> pos_db \<Rightarrow> bool" where
  "outbox_same db db' \<longleftrightarrow> db_branches db' = db_branches db \<and> db_outbox db' = db_outbox db \<and> db_sequences db' = db_sequences db"

lemma outbox_same_grows: "outbox_same db db' \<Longrightarrow> outbox_grows db db'"
  by (simp add: outbox_same_def outbox_grows_def outbox_ok_def owned_def)

lemma upsert_sequence_laws:
  "last_seq (upsert_sequence b t qs) = last_seq qs" "\<exists>q\<in>set (upsert_sequence b t qs). sq_branchId q = b"
  "q \<in> set (upsert_sequence b t qs) \<Longrightarrow> q \<in> set qs \<or> sq_branchId q = b \<and> sq_tenantId q = t"
  by (auto simp: last_seq_def upsert_sequence_def fun_eq_iff find_row_append find_row_single find_row_None split: option.splits if_splits
      dest: find_row_Some)

lemma last_seq_increment:
  "\<exists>q\<in>set qs. sq_branchId q = b \<Longrightarrow>
   last_seq (update_where (\<lambda>q. sq_branchId q = b) (\<lambda>q. q\<lparr>sq_lastSequence := sq_lastSequence q + 1\<rparr>) qs) = (last_seq qs)(b := last_seq qs b + 1)"
  by (auto simp: last_seq_def fun_eq_iff find_row_update find_row_None split: option.splits dest: find_row_Some)

lemma next_sequence_Inr:
  assumes "next_order_event_sequence tid b db = Inr (n, db')"
  shows "owned db tid b" "n = last_seq (db_sequences db) b + 1" "db' = db\<lparr>db_sequences := db_sequences db'\<rparr>"
    "last_seq (db_sequences db') = (last_seq (db_sequences db))(b := n)"
    "outbox_ok db \<Longrightarrow> \<forall>q\<in>set (db_sequences db'). owned db (sq_tenantId q) (sq_branchId q)"
proof -
  let ?up = "\<lambda>q::event_sequence_row. q\<lparr>sq_lastSequence := sq_lastSequence q + 1\<rparr>"
  from assms obtain br q where br: "find_row (\<lambda>x. br_id x = b \<and> br_tenantId x = tid) (db_branches db) = Some br" and
    db': "db' = db\<lparr>db_sequences := update_where (\<lambda>q. sq_branchId q = b) ?up (upsert_sequence b (br_tenantId br) (db_sequences db))\<rparr>" and
    q: "find_row (\<lambda>q. sq_branchId q = b) (db_sequences db') = Some q" "n = sq_lastSequence q"
    by (auto simp: next_order_event_sequence_def tx_simps)
  show own: "owned db tid b" using find_row_Some [OF br] by (auto simp: owned_def)
  show "db' = db\<lparr>db_sequences := db_sequences db'\<rparr>" by (simp add: db')
  from last_seq_increment [OF upsert_sequence_laws(2)] have seq: "last_seq (db_sequences db') = (last_seq (db_sequences db))(b := last_seq (db_sequences db) b + 1)"
    by (simp add: db' upsert_sequence_laws)
  moreover have "n = last_seq (db_sequences db') b" using q by (simp add: last_seq_def)
  ultimately show n: "n = last_seq (db_sequences db) b + 1" by simp
  with seq show "last_seq (db_sequences db') = (last_seq (db_sequences db))(b := n)" by simp
  show "\<forall>q\<in>set (db_sequences db'). owned db (sq_tenantId q) (sq_branchId q)" if "outbox_ok db"
    using that own find_row_Some [OF br] by (auto simp: db' outbox_ok_def update_where_def dest!: upsert_sequence_laws(3))
qed

lemma appendEvent_Inr:
  assumes "appendEvent env tid b ty pl db = Inr (n, db')"
  shows "\<exists>e qs. db' = db\<lparr>db_sequences := qs, db_outbox := db_outbox db @ [e]\<rparr> \<and> ob_tenantId e = tid \<and> ob_branchId e = b \<and>
      ob_sequenceId e = n \<and> ob_eventType e = ty \<and> ob_payload e = pl \<and> ob_createdAt e = env_now env \<and>
      n = last_seq (db_sequences db) b + 1 \<and> last_seq qs = (last_seq (db_sequences db))(b := n)"
    "outbox_grows db db'"
proof -
  from assms obtain db1 where seq: "next_order_event_sequence tid b db = Inr (n, db1)" and
    db': "db' = db1\<lparr>db_outbox := db_outbox db1 @ [\<lparr>ob_id = env_uuid env db1, ob_tenantId = tid, ob_branchId = b, ob_sequenceId = n,
      ob_eventType = ty, ob_payload = pl, ob_createdAt = env_now env\<rparr>]\<rparr>"
    by (auto simp: appendEvent_def tx_simps Let_def)
  note N = next_sequence_Inr [OF seq]
  have same: "db_outbox db1 = db_outbox db" "db_branches db1 = db_branches db" by (subst N(3), simp)+
  show "\<exists>e qs. db' = db\<lparr>db_sequences := qs, db_outbox := db_outbox db @ [e]\<rparr> \<and> ob_tenantId e = tid \<and> ob_branchId e = b \<and>
      ob_sequenceId e = n \<and> ob_eventType e = ty \<and> ob_payload e = pl \<and> ob_createdAt e = env_now env \<and>
      n = last_seq (db_sequences db) b + 1 \<and> last_seq qs = (last_seq (db_sequences db))(b := n)"
    using N(2,4) same by (intro exI [of _ "last (db_outbox db')"] exI [of _ "db_sequences db1"]) (simp add: db', subst N(3), simp)
  have "outbox_ok db'" if ok: "outbox_ok db"
  proof -
    have num: "0 \<le> last_seq (db_sequences db) x" "map ob_sequenceId (branch_events (db_outbox db) x) = [1..last_seq (db_sequences db) x]" for x
      using ok by (auto simp: outbox_ok_def)
    have "[1..last_seq (db_sequences db) b + 1] = [1..last_seq (db_sequences db) b] @ [last_seq (db_sequences db) b + 1]"
      using num(1) [of b] by (simp add: upto_rec2)
    then have "0 \<le> last_seq (db_sequences db') x \<and> map ob_sequenceId (branch_events (db_outbox db') x) = [1..last_seq (db_sequences db') x]" for x
      using num(1,2) [of x] N(2,4) same by (auto simp: db' branch_events_def)
    then show ?thesis using ok N(1,5) same by (auto simp: outbox_ok_def owned_def db')
  qed
  then show "outbox_grows db db'" by (auto simp: outbox_grows_def db' same)
qed

lemma appendEvent_grows: "tx_ensures outbox_grows (appendEvent env tid b ty pl)"
  unfolding tx_ensures_def using appendEvent_Inr(2) by blast

section \<open>Replay\<close>

lemma filter_upto_drop:
  assumes "map f xs = [a + 1..n]" "a \<le> k"
  shows "filter (\<lambda>x. f x > k) xs = drop (nat (k - a)) xs"
  using assms
proof (induction xs arbitrary: a)
  case (Cons x xs)
  then have "a + 1 \<le> n" by (cases "a + 1 \<le> n") auto
  then have "f x = a + 1" and rest: "map f xs = [(a + 1) + 1..n]" using Cons.prems(1) by (simp_all add: upto.simps)
  show ?case
  proof (cases "a < k")
    case True
    then have "nat (k - a) = Suc (nat (k - (a + 1)))" by simp
    with True \<open>f x = a + 1\<close> Cons.IH [OF rest] show ?thesis by simp
  next
    case False
    then have k: "k = a" using Cons.prems(2) by simp
    have "\<forall>y\<in>set xs. f y > a"
    proof
      fix y assume "y \<in> set xs"
      then have "f y \<in> set (map f xs)" by simp
      then show "f y > a" unfolding rest by simp
    qed
    with k \<open>f x = a + 1\<close> show ?thesis by (simp add: filter_id_conv)
  qed
qed simp

lemma outbox_read:
  assumes ok: "outbox_ok db" and b: "owned db tid b" and k: "0 \<le> k"
  shows "readOutboxEvents tid b k limit db = take limit (drop (nat k) (branch_events (db_outbox db) b))"
proof -
  have own: "ob_tenantId e = tid" if "e \<in> set (db_outbox db)" "ob_branchId e = b" for e
  proof -
    have "owned db (ob_tenantId e) b" "distinct (map br_id (db_branches db))" using ok that by (auto simp: outbox_ok_def)
    with b show ?thesis unfolding owned_def by (metis eq_key_imp_eq_value map_of_eq_Some_iff inj_on_eq_iff distinct_map)
  qed
  let ?es = "branch_events (db_outbox db) b"
  have seqs: "map ob_sequenceId ?es = [0 + 1..last_seq (db_sequences db) b]" using ok by (simp add: outbox_ok_def)
  have "filter (\<lambda>e. ob_tenantId e = tid \<and> ob_branchId e = b \<and> ob_sequenceId e > k) (db_outbox db) = filter (\<lambda>e. ob_sequenceId e > k) ?es"
    using own by (auto simp: branch_events_def intro: filter_cong)
  also have "\<dots> = drop (nat k) ?es" using filter_upto_drop [OF seqs, of k] k by simp
  finally have flt: "filter (\<lambda>e. ob_tenantId e = tid \<and> ob_branchId e = b \<and> ob_sequenceId e > k) (db_outbox db) = drop (nat k) ?es" .
  have "sorted_wrt (<) (map ob_sequenceId ?es)" by (simp add: seqs)
  then have "sorted_wrt (\<lambda>a b. ob_sequenceId a - ob_sequenceId b \<le> 0) ?es"
    by (auto simp: sorted_wrt_map elim: sorted_wrt_mono_rel [rotated])
  then have "js_sort (\<lambda>a b. ob_sequenceId a - ob_sequenceId b) (drop (nat k) ?es) = drop (nat k) ?es"
    by (intro js_sort_id) (rule sorted_wrt_drop)
  then show ?thesis by (simp add: readOutboxEvents_def flt)
qed

section \<open>Operations\<close>

lemma same_outbox_steps:
  "tx_ensures outbox_same (bumpOrderRevision env tid oid)" "tx_ensures outbox_same (setOrderPaymentStatus env tid oid st)"
  "tx_ensures outbox_same (insertStockMovement env tid im)" "tx_ensures outbox_same (postInventoryRestoration env mid)"
  "tx_ensures outbox_same (markOrderItemsVoided env tid ids)"
  by (auto simp: tx_ensures_def tx_simps outbox_same_def bumpOrderRevision_def setOrderPaymentStatus_def insertStockMovement_def Let_def
      postInventoryRestoration_def markOrderItemsVoided_def split: if_splits)

lemma grows_if_same: "tx_ensures outbox_same m \<Longrightarrow> tx_ensures outbox_grows m"
  unfolding tx_ensures_def using outbox_same_grows by blast

interpretation outbox: orders_relation outbox_grows
proof
  show "outbox_grows s s" for s by (simp add: outbox_grows_def)
  show "outbox_grows s t \<Longrightarrow> outbox_grows t u \<Longrightarrow> outbox_grows s u" for s t u by (auto simp: outbox_grows_def)
  show "override_frame db db' \<Longrightarrow> outbox_grows db db'" for db db'
    by (rule outbox_same_grows) (auto simp: override_frame_def outbox_same_def)
qed (simp_all add: appendEvent_grows same_outbox_steps [THEN grows_if_same] outbox_same_grows outbox_same_def)

lemma insertOrderStockMovement_Inr:
  "insertOrderStockMovement env tid n im db = Inr r \<longleftrightarrow> insertStockMovement env tid im db = Inr r"
  by (auto simp: insertOrderStockMovement_def mapErr_Inr_iff)

end
