(* ===== verification/Workflow_Correct.thy ===== *)
theory Workflow_Correct
  imports Outbox Example_Restaurant
begin

text \<open>
  Properties of the kitchen workflow: an item only moves along its tenant's enabled sequence, every move is one
  row of the ledger and one numbered event of the outbox, the status of the order is the earliest
  state its lines are in, states that evidence refers to are never deleted, and how an item is routed to a station.
\<close>

section \<open>The derived status\<close>

text \<open>An order without the fields the kitchen writes, and a table in which at most these fields of one order changed.\<close>

definition order_frame :: "order_row \<Rightarrow> order_row" where
  "order_frame x = x\<lparr>o_currentStatusKindId := [], o_closedAt := None, o_revision := 0\<rparr>"

definition orders_touched :: "string \<Rightarrow> string \<Rightarrow> order_row list \<Rightarrow> order_row list \<Rightarrow> bool" where
  "orders_touched tid oid = list_all2 (\<lambda>x y. y = x \<or> o_tenantId x = tid \<and> o_id x = oid \<and> order_frame y = order_frame x)"

lemma order_frame_ids: "order_frame y = order_frame x \<Longrightarrow> o_tenantId y = o_tenantId x \<and> o_id y = o_id x"
  unfolding order_frame_def by (drule arg_cong [where f = "\<lambda>x. (o_tenantId x, o_id x)"]) simp

lemma orders_touched_refl: "orders_touched tid oid os os"
  by (simp add: orders_touched_def list_all2_refl)

lemma orders_touched_trans: "orders_touched tid oid a b \<Longrightarrow> orders_touched tid oid b c \<Longrightarrow> orders_touched tid oid a c"
  unfolding orders_touched_def
  by (erule list_all2_trans [rotated], assumption) (auto dest: order_frame_ids)

lemma orders_touched_update:
  "(\<And>x. order_frame (f x) = order_frame x) \<Longrightarrow> orders_touched tid oid os (update_where (\<lambda>x. o_tenantId x = tid \<and> o_id x = oid) f os)"
  by (auto simp: orders_touched_def update_where_def list_all2_map2 list_all2_refl intro!: list_all2_same [THEN iffD2])

definition derived_status :: "string \<Rightarrow> string \<Rightarrow> pos_db \<Rightarrow> string \<Rightarrow> string" where
  "derived_status tid oid db old = (case derived_target tid oid db of None \<Rightarrow> old | Some (s, k) \<Rightarrow> ws_id s)"

text \<open>
  The row of an order after the derivation: the derived state when it differs from the present one, and then, if the kind of that state is
  terminal, the time of the derivation as closing time unless the order has one. (The trigger of migration 0018 admits JSON booleans only as
  flags, so that the flag is set exactly when it is \<open>true\<close>.)
\<close>

definition restatused :: "int \<Rightarrow> string \<Rightarrow> string \<Rightarrow> pos_db \<Rightarrow> order_row \<Rightarrow> order_row" where
  "restatused now tid oid db x =
     (case derived_target tid oid db of
        None \<Rightarrow> x
      | Some (s, k) \<Rightarrow>
          if ws_id s = o_currentStatusKindId x then x
          else x\<lparr>o_currentStatusKindId := ws_id s,
                 o_closedAt := (if json_member (sk_behaviorFlags k) ''is_terminal'' = Some (JsBool True) \<and> o_closedAt x = None
                                then Some now else o_closedAt x)\<rparr>)"

lemma restatused_fields:
  "o_currentStatusKindId (restatused now tid oid db x) = derived_status tid oid db (o_currentStatusKindId x)"
  "order_frame (restatused now tid oid db x) = order_frame x" "o_revision (restatused now tid oid db x) = o_revision x"
  by (simp_all add: restatused_def derived_status_def order_frame_def split: option.splits)

lemma loadOrder_update:
  "(\<And>x. o_tenantId (f x) = o_tenantId x \<and> o_id (f x) = o_id x) \<Longrightarrow>
   find_row (\<lambda>x. o_tenantId x = tid \<and> o_id x = oid) (update_where (\<lambda>x. o_tenantId x = tid \<and> o_id x = oid) f xs) =
     map_option f (find_row (\<lambda>x. o_tenantId x = tid \<and> o_id x = oid) xs)"
  by (subst find_row_update, simp, cases "find_row (\<lambda>x. o_tenantId x = tid \<and> o_id x = oid) xs") (auto dest: find_row_Some)

lemma recomputeOrderStatus_Inr:
  assumes "recomputeOrderStatus env tid oid db = Inr (x, db')"
  shows "\<exists>os es qs. db' = db\<lparr>db_orders := os, db_sequences := qs, db_outbox := db_outbox db @ es\<rparr> \<and> length es \<le> 1 \<and>
      orders_touched tid oid (db_orders db) os"
    "loadOrder tid oid db = Some ord \<Longrightarrow> loadOrder tid oid db' = Some (restatused (env_now env) tid oid db ord)"
    "loadOrder t o' db \<noteq> None \<Longrightarrow> loadOrder t o' db' \<noteq> None"
proof -
  have "(\<exists>os es qs. db' = db\<lparr>db_orders := os, db_sequences := qs, db_outbox := db_outbox db @ es\<rparr> \<and> length es \<le> 1 \<and>
      orders_touched tid oid (db_orders db) os) \<and>
    (\<forall>ord. loadOrder tid oid db = Some ord \<longrightarrow> loadOrder tid oid db' = Some (restatused (env_now env) tid oid db ord)) \<and>
    (\<forall>t o'. loadOrder t o' db \<noteq> None \<longrightarrow> loadOrder t o' db' \<noteq> None)"
  proof (cases "\<exists>ord s k. loadOrder tid oid db = Some ord \<and> derived_target tid oid db = Some (s, k) \<and> ws_id s \<noteq> o_currentStatusKindId ord")
    case False
    with assms have "db' = db" by (auto simp: recomputeOrderStatus_def tx_simps split: option.splits if_splits)
    moreover have "restatused (env_now env) tid oid db ord = ord" if "loadOrder tid oid db = Some ord" for ord
      using False that by (auto simp: restatused_def split: option.splits)
    ultimately show ?thesis
      by (intro conjI exI [of _ "db_orders db"] exI [of _ "[] :: order_outbox_event list"] exI [of _ "db_sequences db"]) (auto simp: orders_touched_refl)
  next
    case True
    then obtain ord s k where hit: "loadOrder tid oid db = Some ord" "derived_target tid oid db = Some (s, k)" "ws_id s \<noteq> o_currentStatusKindId ord"
      by blast
    define f where "f = (\<lambda>x::order_row. x\<lparr>o_currentStatusKindId := ws_id s,
      o_closedAt := (if json_member (sk_behaviorFlags k) ''is_terminal'' = Some (JsBool True) \<and> o_closedAt x = None
                     then Some (env_now env) else o_closedAt x)\<rparr>)"
    have keep: "o_tenantId (f x) = o_tenantId x \<and> o_id (f x) = o_id x" "order_frame (f x) = order_frame x"
      "o_currentStatusKindId (f x) = ws_id s" for x
      by (simp_all add: f_def order_frame_def)
    from assms hit obtain n where "appendEvent env tid (o_branchId ord) ''order.status_changed'' (JsObj [(''order_id'', JsStr oid),
         (''from_status_kind_id'', JsStr (o_currentStatusKindId ord)), (''to_status_kind_id'', JsStr (ws_id s)),
         (''is_terminal'', JsBool (json_member (sk_behaviorFlags k) ''is_terminal'' = Some (JsBool True)))])
       (db\<lparr>db_orders := update_where (\<lambda>x. o_tenantId x = tid \<and> o_id x = oid) f (db_orders db)\<rparr>) = Inr (n, db')"
      by (auto simp: recomputeOrderStatus_def tx_simps Let_def f_def split: option.splits if_splits)
    from appendEvent_Inr(1) [OF this] obtain e qs where
      db': "db' = db\<lparr>db_orders := update_where (\<lambda>x. o_tenantId x = tid \<and> o_id x = oid) f (db_orders db), db_sequences := qs, db_outbox := db_outbox db @ [e]\<rparr>"
      by auto
    have "orders_touched tid oid (db_orders db) (update_where (\<lambda>x. o_tenantId x = tid \<and> o_id x = oid) f (db_orders db))"
      by (rule orders_touched_update) (rule keep)
    moreover have "loadOrder tid oid db' = Some (f ord)"
      using hit(1) loadOrder_update [of f tid oid "db_orders db"] keep(1) by (simp add: loadOrder_def db')
    moreover have "loadOrder t o' db' \<noteq> None" if "loadOrder t o' db \<noteq> None" for t o'
      using that keep(1) by (simp add: loadOrder_def db' find_row_update)
    moreover have "restatused (env_now env) tid oid db ord = f ord" using hit by (simp add: restatused_def f_def)
    ultimately show ?thesis using hit(1)
      by (intro conjI exI [of _ "update_where (\<lambda>x. o_tenantId x = tid \<and> o_id x = oid) f (db_orders db)"] exI [of _ "[e]"] exI [of _ qs])
         (simp_all add: db')
  qed
  then show "\<exists>os es qs. db' = db\<lparr>db_orders := os, db_sequences := qs, db_outbox := db_outbox db @ es\<rparr> \<and> length es \<le> 1 \<and>
      orders_touched tid oid (db_orders db) os"
    "loadOrder tid oid db = Some ord \<Longrightarrow> loadOrder tid oid db' = Some (restatused (env_now env) tid oid db ord)"
    "loadOrder t o' db \<noteq> None \<Longrightarrow> loadOrder t o' db' \<noteq> None" by blast+
qed

lemma derived_target_cong:
  "db_items db' = db_items db \<Longrightarrow> db_workflowStates db' = db_workflowStates db \<Longrightarrow> db_statusKinds db' = db_statusKinds db \<Longrightarrow>
   derived_target tid oid db' = derived_target tid oid db"
  by (simp only: derived_target_def item_roots_def)

definition move_item :: "string \<Rightarrow> string \<Rightarrow> string \<Rightarrow> order_item_row list \<Rightarrow> order_item_row list" where
  "move_item tid i st items = update_where (\<lambda>x. it_id x = i \<and> it_tenantId x = tid) (\<lambda>x. x\<lparr>it_currentStatusKindId := st\<rparr>) items"

text \<open>What inserting a status event does through its trigger.\<close>

definition status_effect :: "int \<Rightarrow> status_event_row \<Rightarrow> pos_db \<Rightarrow> order_row \<Rightarrow> order_outbox_event \<Rightarrow> pos_db \<Rightarrow> bool" where
  "status_effect now row db ord e db' \<longleftrightarrow>
     (\<exists>os qs es. db' = db\<lparr>db_orders := os,
        db_items := move_item (se_tenantId row) (se_orderItemId row) (se_toStatusKindId row) (db_items db),
        db_statusEvents := db_statusEvents db @ [row], db_sequences := qs, db_outbox := db_outbox db @ e # es\<rparr> \<and>
        length es \<le> 1 \<and> orders_touched (se_tenantId row) (se_orderId row) (db_orders db) os) \<and>
     loadOrder (se_tenantId row) (se_orderId row) db = Some ord \<and>
     is_evidence (se_orderItemId row) e \<and> ob_tenantId e = se_tenantId row \<and> ob_branchId e = o_branchId ord \<and>
     ob_sequenceId e = last_seq (db_sequences db) (o_branchId ord) + 1 \<and>
     json_member (ob_payload e) ''to_status_kind_id'' = Some (JsStr (se_toStatusKindId row)) \<and>
     loadOrder (se_tenantId row) (se_orderId row) db' = Some (restatused now (se_tenantId row) (se_orderId row) db' ord)"

lemma insertStatusEvent_Inr:
  assumes "insertStatusEvent env tid row db = Inr (x, db')"
  shows "\<exists>ord e. status_effect (env_now env) row db ord e db'"
proof -
  let ?t = "se_tenantId row" and ?o = "se_orderId row"
  define db1 where "db1 = db\<lparr>db_statusEvents := db_statusEvents db @ [row],
    db_items := move_item ?t (se_orderItemId row) (se_toStatusKindId row) (db_items db)\<rparr>"
  from assms obtain ord fs n db2 r where ord: "loadOrder ?t ?o db1 = Some ord" and
    app: "appendEvent env ?t (o_branchId ord) ''order_item.status_changed'' (JsObj [(''order_id'', JsStr ?o),
        (''order_item_id'', JsStr (se_orderItemId row)), (''from_status_kind_id'', id_of (se_fromStatusKindId row)),
        (''to_status_kind_id'', JsStr (se_toStatusKindId row)), (''actor_user_id'', id_of (se_actorUserId row)),
        (''occurred_at'', JsNum (se_occurredAt row)), (''behavior_flags'', fs)]) db1 = Inr (n, db2)" and
    rec: "recomputeOrderStatus env ?t ?o db2 = Inr (r, db')"
    unfolding insertStatusEvent_def apply_order_item_status_def
    by (auto simp: tx_simps db1_def move_item_def)
  from appendEvent_Inr(1) [OF app] obtain e qs where
    db2: "db2 = db1\<lparr>db_sequences := qs, db_outbox := db_outbox db1 @ [e]\<rparr>" and
    e: "ob_tenantId e = ?t" "ob_branchId e = o_branchId ord" "ob_sequenceId e = last_seq (db_sequences db1) (o_branchId ord) + 1"
      "ob_eventType e = ''order_item.status_changed''" "json_member (ob_payload e) ''order_item_id'' = Some (JsStr (se_orderItemId row))"
      "json_member (ob_payload e) ''to_status_kind_id'' = Some (JsStr (se_toStatusKindId row))"
    by auto
  from recomputeOrderStatus_Inr(1) [OF rec] obtain os es qs' where
    db': "db' = db2\<lparr>db_orders := os, db_sequences := qs', db_outbox := db_outbox db2 @ es\<rparr>" "length es \<le> 1"
      "orders_touched ?t ?o (db_orders db2) os" by blast
  have "loadOrder ?t ?o db2 = Some ord" "loadOrder ?t ?o db = Some ord" using ord by (simp_all add: loadOrder_def db2 db1_def)
  moreover have "derived_target ?t ?o db' = derived_target ?t ?o db2" by (rule derived_target_cong) (simp_all add: db'(1))
  ultimately have "loadOrder ?t ?o db' = Some (restatused (env_now env) ?t ?o db' ord)"
    using recomputeOrderStatus_Inr(2) [OF rec] by (simp add: restatused_def)
  moreover have "db' = db\<lparr>db_orders := os,
        db_items := move_item ?t (se_orderItemId row) (se_toStatusKindId row) (db_items db),
        db_statusEvents := db_statusEvents db @ [row], db_sequences := qs', db_outbox := db_outbox db @ e # es\<rparr>"
    by (simp add: db' db2 db1_def)
  moreover have "orders_touched ?t ?o (db_orders db) os" using db'(3) by (simp add: db2 db1_def)
  moreover have "ob_sequenceId e = last_seq (db_sequences db) (o_branchId ord) + 1" using e(3) by (simp add: db1_def)
  ultimately show ?thesis
    using \<open>loadOrder ?t ?o db = Some ord\<close> db'(2) e unfolding status_effect_def is_evidence_def by blast
qed

text \<open>The evidence of a move is the event its trigger just wrote.\<close>

lemma owned_of_events: "outbox_ok db \<Longrightarrow> e \<in> set (db_outbox db) \<Longrightarrow> owned db (ob_tenantId e) (ob_branchId e)"
  by (simp add: outbox_ok_def)

lemma lastOutboxSequence_last_seq:
  assumes "outbox_ok db" "owned db tid b"
  shows "lastOutboxSequence tid b db = last_seq (db_sequences db) b"
proof -
  have "sq_tenantId q = tid" if "q \<in> set (db_sequences db)" "sq_branchId q = b" for q
    using assms that unfolding outbox_ok_def owned_def by (metis inj_on_eq_iff distinct_map)
  then have "find_row (\<lambda>q. sq_tenantId q = tid \<and> sq_branchId q = b) (db_sequences db) = find_row (\<lambda>q. sq_branchId q = b) (db_sequences db)"
    unfolding find_row_def by (intro find_cong) auto
  then show ?thesis by (simp add: lastOutboxSequence_def last_seq_def)
qed

lemma evidence_read:
  assumes ins: "insertStatusEvent env tid row db = Inr (x, db')" and ok: "outbox_ok db" and t: "se_tenantId row = tid"
    and b: "\<And>ord. loadOrder tid (se_orderId row) db = Some ord \<Longrightarrow> o_branchId ord = b"
  shows "\<exists>ord e rest. status_effect (env_now env) row db ord e db' \<and> readOutboxEvents tid b (lastOutboxSequence tid b db) 64 db' = e # rest"
proof -
  from insertStatusEvent_Inr [OF ins] obtain ord e where eff: "status_effect (env_now env) row db ord e db'" by blast
  then obtain es where out: "db_outbox db' = db_outbox db @ e # es" and branches: "db_branches db' = db_branches db" and
    e: "loadOrder tid (se_orderId row) db = Some ord" "ob_tenantId e = tid" "ob_branchId e = o_branchId ord"
    unfolding status_effect_def using t by auto
  have ok': "outbox_ok db'" using outbox.status_event ins ok unfolding tx_ensures_def outbox_grows_def by blast
  then have own: "owned db' tid b" using owned_of_events [OF ok', of e] out e b by auto
  then have own0: "owned db tid b" by (simp add: owned_def branches)
  have last: "lastOutboxSequence tid b db = last_seq (db_sequences db) b" by (rule lastOutboxSequence_last_seq [OF ok own0])
  have "map ob_sequenceId (branch_events (db_outbox db) b) = [1..last_seq (db_sequences db) b]" and
    len2: "0 \<le> last_seq (db_sequences db) b" using ok by (simp_all add: outbox_ok_def)
  from arg_cong [OF this(1), of length] have len: "length (branch_events (db_outbox db) b) = nat (last_seq (db_sequences db) b)" by simp
  have "readOutboxEvents tid b (lastOutboxSequence tid b db) 64 db' = e # take 63 (branch_events es b)"
    unfolding last outbox_read [OF ok' own len2] using len e b by (simp add: out branch_events_def)
  with eff show ?thesis by blast
qed

lemma appendItemStatusEvent_Inr:
  assumes run: "appendItemStatusEvent env tid b row db = Inr (n, db')" and ok: "outbox_ok db" and t: "se_tenantId row = tid"
    and b: "\<And>ord. loadOrder tid (se_orderId row) db = Some ord \<Longrightarrow> o_branchId ord = b"
  shows "\<exists>ord e. status_effect (env_now env) row db ord e db' \<and> ob_sequenceId e = n"
proof -
  from run obtain x where ins: "insertStatusEvent env tid row db = Inr (x, db')" and
    ev: "\<exists>ev. find_row (is_evidence (se_orderItemId row)) (readOutboxEvents tid b (lastOutboxSequence tid b db) 64 db') = Some ev \<and> n = ob_sequenceId ev"
    by (auto simp: appendItemStatusEvent_def tx_simps)
  from evidence_read [OF ins ok t b] obtain ord e rest where eff: "status_effect (env_now env) row db ord e db'" and
    rd: "readOutboxEvents tid b (lastOutboxSequence tid b db) 64 db' = e # rest" by blast
  have "is_evidence (se_orderItemId row) e" using eff by (simp add: status_effect_def)
  with ev rd have "n = ob_sequenceId e" by (simp add: find_row_def)
  with eff show ?thesis by blast
qed

section \<open>Moves\<close>

lemma bumpOrderRevision_Inr:
  assumes "bumpOrderRevision env tid oid db = Inr (x, db')"
  shows "db' = db\<lparr>db_orders := db_orders db'\<rparr>" "loadOrder t o' db' = map_option (\<lambda>y. if o_tenantId y = tid \<and> o_id y = oid
    then y\<lparr>o_revision := o_revision y + 1\<rparr> else y) (loadOrder t o' db)" "orders_touched tid oid (db_orders db) (db_orders db')"
  using assms by (auto simp: bumpOrderRevision_def tx_simps loadOrder_def find_row_update order_frame_def intro: orders_touched_update)

lemma transitionBody_Inr:
  assumes "transitionBody env tid input db = Inr (r, db')"
  obtains item ord frm to1 flags db1 x where "loadOrderItem tid (tr_orderItemId input) db = Some item" "\<not> it_isVoided item"
    "loadOrder tid (it_orderId item) db = Some ord" "env_authorize env (transition_check tid input (Some (o_branchId ord))) = Inr ()"
    "find_row (\<lambda>s. ws_id s = it_currentStatusKindId item) (loadWorkflowStates tid True db) = Some frm"
    "find_row (\<lambda>s. ws_id s = tr_toWorkflowStateId input) (loadWorkflowStates tid True db) = Some to1"
    "isTransitionAllowed frm to1" "loadOrderStatusKindFlags (ws_kindCode to1) db = Inr flags"
    "bumpOrderRevision env tid (o_id ord) db = Inr (x, db1)"
    "appendItemStatusEvent env tid (o_branchId ord) \<lparr>se_tenantId = tid, se_orderItemId = it_id item, se_orderId = o_id ord,
        se_fromStatusKindId = Some (ws_id frm), se_toStatusKindId = ws_id to1, se_actorUserId = Some (tr_actorUserId input),
        se_occurredAt = env_now env\<rparr> db1 = Inr (tx_outboxSequenceId r, db')"
    "r = \<lparr>tx_orderItemId = it_id item, tx_fromWorkflowStateId = Some (ws_id frm), tx_toWorkflowStateId = ws_id to1,
        tx_behaviorFlags = flags, tx_outboxSequenceId = tx_outboxSequenceId r\<rparr>"
proof -
  from assms obtain p ord x db1 where p: "loadOrderItem tid (tr_orderItemId input) db = Some p" and
    ord: "lockOrderRow tid (it_orderId p) db = Some ord" and auth: "env_authorize env (transition_check tid input (Some (o_branchId ord))) = Inr ()" and
    bump: "bumpOrderRevision env tid (o_id ord) db = Inr (x, db1)" and
    rest: "moveUnderLock env tid input ord db1 = Inr (r, db')"
    unfolding transitionBody_def
    by (auto simp: tx_bind_Inr tx_read_Inr tx_lift_Inr tx_throw_Inr split: option.splits)
  have same: "loadOrderItem tid i db1 = loadOrderItem tid i db" "loadWorkflowStates tid True db1 = loadWorkflowStates tid True db"
    "loadOrderStatusKindFlags k db1 = loadOrderStatusKindFlags k db" for i k
    by (subst bumpOrderRevision_Inr(1) [OF bump], simp add: loadOrderItem_def loadWorkflowStates_def loadOrderStatusKindFlags_def)+
  from rest obtain frm to1 flags n where m: "\<not> it_isVoided p"
    "find_row (\<lambda>s. ws_id s = it_currentStatusKindId p) (loadWorkflowStates tid True db) = Some frm"
    "find_row (\<lambda>s. ws_id s = tr_toWorkflowStateId input) (loadWorkflowStates tid True db) = Some to1"
    "isTransitionAllowed frm to1" "loadOrderStatusKindFlags (ws_kindCode to1) db = Inr flags"
    "appendItemStatusEvent env tid (o_branchId ord) \<lparr>se_tenantId = tid, se_orderItemId = it_id p, se_orderId = o_id ord,
        se_fromStatusKindId = Some (ws_id frm), se_toStatusKindId = ws_id to1, se_actorUserId = Some (tr_actorUserId input),
        se_occurredAt = env_now env\<rparr> db1 = Inr (n, db')"
    "r = \<lparr>tx_orderItemId = it_id p, tx_fromWorkflowStateId = Some (ws_id frm), tx_toWorkflowStateId = ws_id to1,
        tx_behaviorFlags = flags, tx_outboxSequenceId = n\<rparr>"
    using p unfolding moveUnderLock_def by (auto simp: tx_simps same ok_def)
  show ?thesis by (rule that [OF p m(1) _ auth m(2-5) bump]) (use ord m(6,7) in \<open>simp_all add: loadOrder_def lockOrderRow_def\<close>)
qed

text \<open>
  C13. Moving an item: a move that succeeds was permitted at the branch of the order, leaves a line that is not
  voided, and goes from the line's current state to the requested one, two distinct enabled states of the tenant's
  active workflow, either forward in the sequence or within one family of states. It writes exactly one
  row of the status ledger, with the server's clock and the actor, changes the state of this line and of
  no other, and the first new event of the outbox is its evidence, whose number is the successor of the branch's last and is
  returned. The order itself is then exactly what it was, but for its revision, which is one higher, and its derived status: the one its lines
  imply, with the time of the move as closing time if that status is new and terminal and the order was not closed before. At most one more event
  tells of a new status. Nothing else in the database changes.
\<close>

theorem transitionItem_correct:
  assumes "outbox_ok db" and "transitionItem env tid input db = (Inr r, db')"
  shows "\<exists>item ord frm to1 e row os qs es. loadOrderItem tid (tr_orderItemId input) db = Some item \<and> \<not> it_isVoided item \<and>
    loadOrder tid (it_orderId item) db = Some ord \<and>
    env_authorize env (transition_check tid input (Some (o_branchId ord))) = Inr () \<and>
    {frm, to1} \<subseteq> set (loadWorkflowStates tid True db) \<and> ws_id frm = it_currentStatusKindId item \<and>
    ws_id to1 = tr_toWorkflowStateId input \<and> ws_id frm \<noteq> ws_id to1 \<and> (ws_position frm < ws_position to1 \<or> isFamilyMove frm to1) \<and>
    row = \<lparr>se_tenantId = tid, se_orderItemId = tr_orderItemId input, se_orderId = it_orderId item, se_fromStatusKindId = Some (ws_id frm),
      se_toStatusKindId = tr_toWorkflowStateId input, se_actorUserId = Some (tr_actorUserId input), se_occurredAt = env_now env\<rparr> \<and>
    db' = db\<lparr>db_orders := os, db_items := move_item tid (tr_orderItemId input) (tr_toWorkflowStateId input) (db_items db),
      db_statusEvents := db_statusEvents db @ [row], db_sequences := qs, db_outbox := db_outbox db @ e # es\<rparr> \<and>
    orders_touched tid (it_orderId item) (db_orders db) os \<and> is_evidence (tr_orderItemId input) e \<and> ob_branchId e = o_branchId ord \<and>
    ob_sequenceId e = last_seq (db_sequences db) (o_branchId ord) + 1 \<and> tx_outboxSequenceId r = ob_sequenceId e \<and>
    loadOrder tid (it_orderId item) db' = Some (restatused (env_now env) tid (it_orderId item) db' (ord\<lparr>o_revision := o_revision ord + 1\<rparr>)) \<and>
    length es \<le> 1 \<and> outbox_ok db'"
proof -
  from assms(2) have body: "transitionBody env tid input db = Inr (r, db')" by (simp add: transitionItem_def tx_simps)
  from body show ?thesis
  proof (cases rule: transitionBody_Inr)
    case (1 item ord frm to1 flags db1 x)
    have ids: "it_id item = tr_orderItemId input" "o_id ord = it_orderId item" "o_tenantId ord = tid"
      using find_row_Some [OF 1(1) [unfolded loadOrderItem_def]] find_row_Some [OF 1(3) [unfolded loadOrder_def]] by auto
    have st: "{frm, to1} \<subseteq> set (loadWorkflowStates tid True db)" "ws_id frm = it_currentStatusKindId item" "ws_id to1 = tr_toWorkflowStateId input"
      using find_row_Some [OF 1(5)] find_row_Some [OF 1(6)] by auto
    have allowed: "ws_id frm \<noteq> ws_id to1" "ws_position frm < ws_position to1 \<or> isFamilyMove frm to1"
      using 1(7) by (auto simp: isTransitionAllowed_def split: if_splits)
    note bump = bumpOrderRevision_Inr [OF 1(9)]
    have ok1: "outbox_ok db1" using assms(1) outbox.order_rows(2) 1(9) unfolding tx_ensures_def outbox_grows_def by blast
    have ord1: "loadOrder tid (it_orderId item) db1 = Some (ord\<lparr>o_revision := o_revision ord + 1\<rparr>)"
      using 1(3) ids by (simp add: bump(2))
    let ?row = "\<lparr>se_tenantId = tid, se_orderItemId = tr_orderItemId input, se_orderId = it_orderId item, se_fromStatusKindId = Some (ws_id frm),
      se_toStatusKindId = tr_toWorkflowStateId input, se_actorUserId = Some (tr_actorUserId input), se_occurredAt = env_now env\<rparr>"
    have app: "appendItemStatusEvent env tid (o_branchId ord) ?row db1 = Inr (tx_outboxSequenceId r, db')" using 1(10) ids st by simp
    from appendItemStatusEvent_Inr [OF app ok1] ord1 obtain ord1' e where
      eff: "status_effect (env_now env) ?row db1 ord1' e db'" "ob_sequenceId e = tx_outboxSequenceId r" by auto
    have ord1': "ord1' = ord\<lparr>o_revision := o_revision ord + 1\<rparr>" using eff(1) ord1 by (simp add: status_effect_def)
    from eff(1) obtain os qs es where db': "db' = db1\<lparr>db_orders := os,
        db_items := move_item tid (tr_orderItemId input) (tr_toWorkflowStateId input) (db_items db1),
        db_statusEvents := db_statusEvents db1 @ [?row], db_sequences := qs, db_outbox := db_outbox db1 @ e # es\<rparr>"
      and os: "orders_touched tid (it_orderId item) (db_orders db1) os" "length es \<le> 1" unfolding status_effect_def by auto
    from bump(3) os(1) ids have "orders_touched tid (it_orderId item) (db_orders db) os" using orders_touched_trans by metis
    moreover have db1: "db_items db1 = db_items db" "db_statusEvents db1 = db_statusEvents db" "db_outbox db1 = db_outbox db"
      "db_sequences db1 = db_sequences db" by (subst bump(1), simp)+
    moreover have "db' = db\<lparr>db_orders := os, db_items := move_item tid (tr_orderItemId input) (tr_toWorkflowStateId input) (db_items db),
      db_statusEvents := db_statusEvents db @ [?row], db_sequences := qs, db_outbox := db_outbox db @ e # es\<rparr>"
      unfolding db' db1 by (subst bump(1)) simp
    moreover have "is_evidence (tr_orderItemId input) e" "ob_branchId e = o_branchId ord"
      "ob_sequenceId e = last_seq (db_sequences db) (o_branchId ord) + 1"
      "loadOrder tid (it_orderId item) db' = Some (restatused (env_now env) tid (it_orderId item) db' (ord\<lparr>o_revision := o_revision ord + 1\<rparr>))"
      using eff(1) by (simp_all add: status_effect_def ord1' db1)
    moreover have "outbox_ok db'" using op_ensuresD [OF outbox.transition_op assms(2)] assms(1) by (simp add: outbox_grows_def)
    ultimately show ?thesis using 1(1-4) st allowed eff(2) os(2)
      by (intro exI [of _ item] exI [of _ ord] exI [of _ frm] exI [of _ to1] exI [of _ e] exI [of _ ?row] exI [of _ os] exI [of _ qs] exI [of _ es]) simp
  qed
qed

section \<open>The status of the order\<close>

text \<open>The top-level states that the active lines of an order are in, directly or through a sub-state.\<close>

definition status_candidates :: "string \<Rightarrow> string \<Rightarrow> pos_db \<Rightarrow> tenant_workflow_state list" where
  "status_candidates tid oid db = filter (\<lambda>s. ws_tenantId s = tid \<and> ws_parentKindCode s = None \<and>
     ws_kindCode s \<in> set (item_roots tid oid db) \<and> find_row (\<lambda>k. sk_code k = ws_kindCode s) (db_statusKinds db) \<noteq> None) (db_workflowStates db)"

lemma derived_target_earliest:
  "(case derived_target tid oid db of None \<Rightarrow> status_candidates tid oid db = []
    | Some (s, k) \<Rightarrow> s \<in> set (status_candidates tid oid db) \<and> (\<forall>s'\<in>set (status_candidates tid oid db). ws_position s \<le> ws_position s'))"
proof (cases "js_sort comparePositions (status_candidates tid oid db)")
  case Nil
  then have "set (status_candidates tid oid db) = {}" by (metis set_js_sort set_empty2)
  with Nil show ?thesis by (simp add: derived_target_def status_candidates_def)
next
  case (Cons s rest)
  have all: "set (status_candidates tid oid db) = insert s (set rest)" using Cons by (metis list.simps(15) set_js_sort)
  then have "find_row (\<lambda>k. sk_code k = ws_kindCode s) (db_statusKinds db) \<noteq> None" by (auto simp: status_candidates_def)
  then obtain k where k: "find_row (\<lambda>k. sk_code k = ws_kindCode s) (db_statusKinds db) = Some k" by blast
  have "sorted_wrt (\<lambda>a b. comparePositions a b \<le> 0) (js_sort comparePositions (status_candidates tid oid db))"
    by (rule js_sort_sorted) (auto simp: comparePositions_def)
  then have "sorted_wrt (\<lambda>a b. comparePositions a b \<le> 0) (s # rest)" by (simp only: Cons)
  moreover have "derived_target tid oid db = Some (s, k)"
    using Cons k unfolding derived_target_def status_candidates_def by simp
  ultimately show ?thesis using all by (auto simp: comparePositions_def)
qed

text \<open>
  The status of an order is derived, never set: after the derivation it is the earliest state, in the tenant's sequence, among the
  top-level states the active lines are in (a line in a sub-state counts for the state the sub-state belongs to); an order
  none of whose active lines is in such a state keeps its status. The result is the status, and at most one event tells of the change.
\<close>

theorem recomputeOrderStatus_earliest:
  assumes "recomputeOrderStatus env tid oid db = Inr (x, db')" and "loadOrder tid oid db = Some ord"
  shows "\<exists>ord'. loadOrder tid oid db' = Some ord' \<and> order_frame ord' = order_frame ord \<and> x = Some (o_currentStatusKindId ord') \<and>
    (if status_candidates tid oid db = [] then o_currentStatusKindId ord' = o_currentStatusKindId ord
     else \<exists>s\<in>set (status_candidates tid oid db). o_currentStatusKindId ord' = ws_id s \<and>
       (\<forall>s'\<in>set (status_candidates tid oid db). ws_position s \<le> ws_position s')) \<and>
    (\<exists>es. db_outbox db' = db_outbox db @ es \<and> (if o_currentStatusKindId ord' = o_currentStatusKindId ord then es = [] else length es = 1))"
proof -
  obtain ord' where ord': "loadOrder tid oid db' = Some ord'" "order_frame ord' = order_frame ord"
    "o_currentStatusKindId ord' = derived_status tid oid db (o_currentStatusKindId ord)"
    using recomputeOrderStatus_Inr(2) [OF assms] by (simp add: restatused_fields)
  have out: "x = Some (derived_status tid oid db (o_currentStatusKindId ord)) \<and>
    (\<exists>es. db_outbox db' = db_outbox db @ es \<and> (if derived_status tid oid db (o_currentStatusKindId ord) = o_currentStatusKindId ord then es = [] else length es = 1))"
    using assms by (auto simp: recomputeOrderStatus_def tx_simps Let_def derived_status_def dest!: appendEvent_Inr(1) split: option.splits if_splits)
  show ?thesis using ord' out derived_target_earliest [of tid oid db]
    by (intro exI [of _ ord']) (auto simp: derived_status_def split: option.splits)
qed

section \<open>Deleting states\<close>

text \<open>
  Deleting a state: it needs the permission to administer the workflow, checked afresh, and an existing
  state. A state that any order, line or ledger row of the tenant refers to is never deleted: the operation fails and leaves the
  database as it was. Otherwise, if the database accepts it, exactly this state is gone.
\<close>

theorem deleteState_correct:
  assumes "deleteState env tid u tok sid db = (r, db')"
  shows "(r = Inr () \<longrightarrow> env_authorize env (workflow_check tid u tok) = Inr () \<and> (\<exists>s\<in>set (loadWorkflowStates tid False db). ws_id s = sid) \<and>
      countWorkflowStateReferences tid sid db = 0 \<and>
      db' = db\<lparr>db_workflowStates := filter (\<lambda>s. \<not> (ws_tenantId s = tid \<and> ws_id s = sid)) (db_workflowStates db)\<rparr>) \<and>
    (countWorkflowStateReferences tid sid db > 0 \<longrightarrow> isl r) \<and> (isl r \<longrightarrow> db' = db)"
proof (cases r)
  case (Inl e)
  then have "db' = db" using assms
    by (auto simp: deleteState_def gated_def store_run_def op_bind_def op_lift_def run_tx_def split: sum.splits prod.splits)
  with Inl show ?thesis by simp
next
  case (Inr x)
  then show ?thesis using assms by (auto simp: deleteState_def gated_def deleteWorkflowState_def tx_simps)
qed

section \<open>A permitted move succeeds\<close>

definition env_accepts :: "pos_env \<Rightarrow> bool" where
  "env_accepts env \<longleftrightarrow> (\<forall>db w. env_reject env db w = None) \<and> (\<forall>t. env_tenantGate env t = Inr ())"

lemma db_check_accepts: "env_accepts env \<Longrightarrow> db_check env w db = Inr ((), db)"
  by (simp add: env_accepts_def db_check_def)

lemma appendEvent_succeeds:
  assumes "env_accepts env" "owned db tid b"
  shows "\<exists>r. appendEvent env tid b ty pl db = Inr r"
proof -
  from assms(2) obtain br where br: "find_row (\<lambda>x. br_id x = b \<and> br_tenantId x = tid) (db_branches db) = Some br"
    by (auto simp: owned_def) (metis (mono_tags, lifting) find_row_None not_Some_eq)
  let ?qs = "update_where (\<lambda>q. sq_branchId q = b) (\<lambda>q. q\<lparr>sq_lastSequence := sq_lastSequence q + 1\<rparr>)
    (upsert_sequence b (br_tenantId br) (db_sequences db))"
  obtain q0 where "q0 \<in> set (upsert_sequence b (br_tenantId br) (db_sequences db))" "sq_branchId q0 = b"
    using upsert_sequence_laws(2) by blast
  then have "\<exists>q\<in>set ?qs. sq_branchId q = b"
    by (intro bexI [of _ "q0\<lparr>sq_lastSequence := sq_lastSequence q0 + 1\<rparr>"]) (auto simp: update_where_def intro!: image_eqI [of _ _ q0])
  then obtain q where "find_row (\<lambda>q. sq_branchId q = b) ?qs = Some q"
    by (metis (mono_tags, lifting) find_row_None not_Some_eq)
  with br show ?thesis
    by (simp add: appendEvent_def next_order_event_sequence_def tx_run db_check_accepts [OF assms(1)])
qed

lemma tx_bind_step: "m s = Inr (a, s1) \<Longrightarrow> tx_bind m f s = f a s1"
  by (simp add: tx_bind_def)

lemma recomputeOrderStatus_succeeds:
  assumes "env_accepts env" "loadOrder tid oid db = Some ord" "owned db tid (o_branchId ord)"
  shows "\<exists>r. recomputeOrderStatus env tid oid db = Inr r"
proof (cases "derived_target tid oid db")
  case None
  then show ?thesis using assms(2) by (simp add: recomputeOrderStatus_def tx_bind_run tx_read_def tx_return_def)
next
  case (Some p)
  obtain s k where p: "p = (s, k)" by fastforce
  have own: "owned (db\<lparr>db_orders := os\<rparr>) tid (o_branchId ord)" for os using assms(3) by (simp add: owned_def)
  have app: "\<exists>db2 n. appendEvent env tid (o_branchId ord) ty pl (db\<lparr>db_orders := os\<rparr>) = Inr (n, db2)" for ty pl os
    using appendEvent_succeeds [OF assms(1) own] by (metis surj_pair)
  show ?thesis using assms(2) Some
    by (auto simp: recomputeOrderStatus_def p Let_def tx_simps db_check_accepts [OF assms(1)] intro: app)
qed

lemma insertStatusEvent_succeeds:
  assumes "env_accepts env" "loadOrder (se_tenantId row) (se_orderId row) db = Some ord" "owned db (se_tenantId row) (o_branchId ord)"
  shows "\<exists>r. insertStatusEvent env tid row db = Inr r"
proof -
  define db1 where "db1 = db\<lparr>db_statusEvents := db_statusEvents db @ [row],
    db_items := update_where (\<lambda>i. it_id i = se_orderItemId row \<and> it_tenantId i = se_tenantId row)
        (\<lambda>i. i\<lparr>it_currentStatusKindId := se_toStatusKindId row\<rparr>) (db_items db)\<rparr>"
  have own: "owned db1 (se_tenantId row) (o_branchId ord)" and ord: "loadOrder (se_tenantId row) (se_orderId row) db1 = Some ord"
    using assms(2,3) by (simp_all add: owned_def loadOrder_def db1_def)
  have rec: "\<exists>x db3. recomputeOrderStatus env (se_tenantId row) (se_orderId row) db2 = Inr (x, db3)"
    if app: "appendEvent env (se_tenantId row) b ty pl db1 = Inr (n, db2)" for b ty pl n db2
  proof -
    from appendEvent_Inr(1) [OF app] obtain e qs where db2: "db2 = db1\<lparr>db_sequences := qs, db_outbox := db_outbox db1 @ [e]\<rparr>" by blast
    from own ord have "\<exists>r. recomputeOrderStatus env (se_tenantId row) (se_orderId row) db2 = Inr r"
      by (intro recomputeOrderStatus_succeeds [OF assms(1), where ord = ord]) (simp_all add: db2 owned_def loadOrder_def)
    then show ?thesis by (metis surj_pair)
  qed
  have app: "\<exists>n db2. appendEvent env (se_tenantId row) (o_branchId ord) ty pl db1 = Inr (n, db2)" for ty pl
    using appendEvent_succeeds [OF assms(1) own] by (metis surj_pair)
  have "\<exists>r. apply_order_item_status env row (db\<lparr>db_statusEvents := db_statusEvents db @ [row]\<rparr>) = Inr r"
    unfolding apply_order_item_status_def using app rec ord
    by (simp add: tx_bind_step [OF db_check_accepts [OF assms(1)]] tx_bind_step [OF tx_write_def [THEN fun_cong]] db1_def [symmetric]
        tx_bind_step [OF tx_read_def [THEN fun_cong]] tx_bind_Inr tx_return_def tx_some_def) blast
  then show ?thesis by (simp add: insertStatusEvent_def tx_bind_step [OF db_check_accepts [OF assms(1)]] tx_bind_step [OF tx_write_def [THEN fun_cong]])
qed

lemma appendItemStatusEvent_succeeds:
  assumes "env_accepts env" "outbox_ok db" "se_tenantId row = tid" "loadOrder tid (se_orderId row) db = Some ord" "owned db tid (o_branchId ord)"
  shows "\<exists>n db'. appendItemStatusEvent env tid (o_branchId ord) row db = Inr (n, db')"
proof -
  obtain x db' where ins: "insertStatusEvent env tid row db = Inr (x, db')"
    using insertStatusEvent_succeeds [OF assms(1), of row db ord] assms(3-5) by (metis surj_pair)
  from evidence_read [OF ins assms(2,3), of "o_branchId ord"] assms(4) obtain e ord1 rest where
    "status_effect (env_now env) row db ord1 e db'" "readOutboxEvents tid (o_branchId ord) (lastOutboxSequence tid (o_branchId ord) db) 64 db' = e # rest"
    by auto
  moreover from this(1) have "is_evidence (se_orderItemId row) e" by (simp add: status_effect_def)
  ultimately have "find_row (is_evidence (se_orderItemId row))
      (readOutboxEvents tid (o_branchId ord) (lastOutboxSequence tid (o_branchId ord) db) 64 db') = Some e"
    by (simp add: find_row_def)
  then show ?thesis using ins by (auto simp: appendItemStatusEvent_def tx_simps)
qed

text \<open>
  A permitted move succeeds: if the line is not voided, its state and the target are enabled states of the active
  workflow between which a move is allowed, the actor may move items at the branch of the order, the flags of
  the target's kind are well formed and the database accepts the rows, then the move is made.
\<close>

lemma transitionItem_succeeds:
  assumes "env_accepts env" "outbox_ok db" "loadOrderItem tid (tr_orderItemId input) db = Some item" "\<not> it_isVoided item"
    "loadOrder tid (it_orderId item) db = Some ord" "owned db tid (o_branchId ord)"
    "env_authorize env (transition_check tid input (Some (o_branchId ord))) = Inr ()"
    "find_row (\<lambda>s. ws_id s = it_currentStatusKindId item) (loadWorkflowStates tid True db) = Some frm"
    "find_row (\<lambda>s. ws_id s = tr_toWorkflowStateId input) (loadWorkflowStates tid True db) = Some to1"
    "isTransitionAllowed frm to1" "loadOrderStatusKindFlags (ws_kindCode to1) db = Inr flags"
  shows "\<exists>r db'. transitionItem env tid input db = (Inr r, db') \<and> tx_toWorkflowStateId r = tr_toWorkflowStateId input"
proof -
  define db1 where "db1 = db\<lparr>db_orders := update_where (\<lambda>x. o_tenantId x = tid \<and> o_id x = o_id ord) (\<lambda>x. x\<lparr>o_revision := o_revision x + 1\<rparr>) (db_orders db)\<rparr>"
  have bump: "bumpOrderRevision env tid (o_id ord) db = Inr ((), db1)"
    using assms(1) by (simp add: bumpOrderRevision_def db1_def tx_run db_check_accepts)
  have same: "loadOrderItem tid i db1 = loadOrderItem tid i db" "loadWorkflowStates tid True db1 = loadWorkflowStates tid True db"
    "loadOrderStatusKindFlags k db1 = loadOrderStatusKindFlags k db" for i k
    by (simp_all add: db1_def loadOrderItem_def loadWorkflowStates_def loadOrderStatusKindFlags_def)
  have ids: "o_id ord = it_orderId item" "o_tenantId ord = tid" using find_row_Some [OF assms(5) [unfolded loadOrder_def]] by auto
  let ?ord = "ord\<lparr>o_revision := o_revision ord + 1\<rparr>"
  let ?row = "\<lparr>se_tenantId = tid, se_orderItemId = it_id item, se_orderId = o_id ord,
        se_fromStatusKindId = Some (ws_id frm), se_toStatusKindId = ws_id to1, se_actorUserId = Some (tr_actorUserId input),
        se_occurredAt = env_now env\<rparr>"
  have "outbox_ok db1" using assms(2) by (simp add: db1_def outbox_ok_def owned_def)
  moreover have "loadOrder tid (o_id ord) db1 = Some ?ord" using bumpOrderRevision_Inr(2) [OF bump] assms(5) ids by simp
  moreover have "owned db1 tid (o_branchId ?ord)" using assms(6) by (simp add: db1_def owned_def)
  ultimately obtain n db' where app: "appendItemStatusEvent env tid (o_branchId ord) ?row db1 = Inr (n, db')"
    using appendItemStatusEvent_succeeds [OF assms(1), of db1 ?row tid ?ord] by auto
  have "moveUnderLock env tid input ord db1 = Inr (\<lparr>tx_orderItemId = it_id item, tx_fromWorkflowStateId = Some (ws_id frm),
      tx_toWorkflowStateId = ws_id to1, tx_behaviorFlags = flags, tx_outboxSequenceId = n\<rparr>, db')"
    unfolding moveUnderLock_def using assms(3,4,8-11) app
    by (simp add: tx_bind_run tx_read_def tx_readR_def tx_some_def tx_guard_def tx_return_def same ok_def)
  moreover have "ws_id to1 = tr_toWorkflowStateId input" using find_row_Some [OF assms(9)] by simp
  ultimately show ?thesis using assms(1,3,5,7) bump
    by (simp add: transitionItem_def store_run_def env_accepts_def transitionBody_def tx_bind_run tx_read_def tx_lift_def lockOrderRow_def
        loadOrder_def run_tx_def ok_def)
qed

section \<open>Witnesses\<close>

definition example_move :: item_status_transition_input where
  "example_move = \<lparr>tr_orderItemId = ''i1'', tr_toWorkflowStateId = ''w2'', tr_actorUserId = ''c1'', tr_tokenSecV = ''v''\<rparr>"

lemma example_outbox: "outbox_ok example_db" "env_accepts example_env"
  by (simp_all add: outbox_ok_def last_seq_def branch_events_def example_db_def find_row_def example_env_def env_accepts_def)

lemma example_moves:
  "\<exists>r db'. transitionItem example_env ''t1'' example_move example_db = (Inr r, db') \<and> tx_toWorkflowStateId r = ''w2''"
  using transitionItem_succeeds [OF example_outbox(2,1), of "''t1''" example_move "example_item ''i1'' 1000" "example_order op_open 0"
    "example_state ''w1'' ''received'' None 1" "example_state ''w2'' ''preparing'' None 2"]
  by (simp add: example_db_def example_move_def loadOrderItem_def loadOrder_def owned_def find_row_def loadWorkflowStates_def comparePositions_def
      example_item_def example_order_def example_env_def example_state_def isTransitionAllowed_def loadOrderStatusKindFlags_def example_kind_def behavior_flag_def)

theorem transitionItem_correct_witness:
  "\<exists>r db'. transitionItem example_env ''t1'' example_move example_db = (Inr r, db') \<and> tx_outboxSequenceId r = 1 \<and>
     map it_currentStatusKindId (db_items db') = [''w2'', ''w2''] \<and> map se_toStatusKindId (db_statusEvents db') = [''w2'', ''w2'']"
proof -
  from example_moves obtain r db' where run: "transitionItem example_env ''t1'' example_move example_db = (Inr r, db')" by blast
  have none: "last_seq (db_sequences example_db) b = 0" for b by (simp add: last_seq_def example_db_def find_row_def)
  have "\<exists>row os qs es. db' = example_db\<lparr>db_orders := os,
      db_items := move_item ''t1'' (tr_orderItemId example_move) (tr_toWorkflowStateId example_move) (db_items example_db),
      db_statusEvents := db_statusEvents example_db @ [row], db_sequences := qs, db_outbox := db_outbox example_db @ es\<rparr> \<and>
    se_toStatusKindId row = tr_toWorkflowStateId example_move \<and>
    tx_outboxSequenceId r = 1"
    using transitionItem_correct [OF example_outbox(1) run, unfolded none]
    by (elim exE conjE) (rule exI, rule exI, rule exI, rule exI, intro conjI, assumption, simp_all)
  then have "tx_outboxSequenceId r = 1" "map it_currentStatusKindId (db_items db') = [''w2'', ''w2'']"
     "map se_toStatusKindId (db_statusEvents db') = [''w2'', ''w2'']"
    by (auto simp: example_db_def last_seq_def find_row_def move_item_def update_where_def example_move_def example_item_def)
  with run show ?thesis by (intro exI [of _ r] exI [of _ db'] conjI)
qed

theorem recomputeOrderStatus_earliest_witness:
  "\<exists>x db'. recomputeOrderStatus example_env ''t1'' ''o1'' example_db = Inr (x, db') \<and> x = Some ''w1''"
proof -
  have ord: "loadOrder ''t1'' ''o1'' example_db = Some (example_order op_open 0)"
    by (simp add: loadOrder_def example_db_def find_row_def example_order_def)
  obtain x db' where run: "recomputeOrderStatus example_env ''t1'' ''o1'' example_db = Inr (x, db')"
    using recomputeOrderStatus_succeeds [OF example_outbox(2) ord] by (auto simp: owned_def example_db_def example_order_def)
  have "map ws_id (status_candidates ''t1'' ''o1'' example_db) = [''w1'', ''w2'']" "map ws_position (status_candidates ''t1'' ''o1'' example_db) = [1, 2]"
    by (simp_all add: status_candidates_def item_roots_def root_kind_def example_db_def example_state_def example_item_def example_kind_def find_row_def)
  then have "status_candidates ''t1'' ''o1'' example_db = [example_state ''w1'' ''received'' None 1, example_state ''w2'' ''preparing'' None 2]"
    by (auto simp: status_candidates_def example_db_def example_state_def split: if_splits)
  with recomputeOrderStatus_earliest [OF run ord] have "x = Some ''w1''" by (auto simp: example_state_def)
  with run show ?thesis by blast
qed

theorem deleteState_correct_witness:
  "\<exists>e. deleteState example_env ''t1'' ''m1'' ''v'' ''w2'' example_db = (Inl e, example_db)"
proof -
  obtain r db' where run: "deleteState example_env ''t1'' ''m1'' ''v'' ''w2'' example_db = (r, db')" by fastforce
  have "countWorkflowStateReferences ''t1'' ''w2'' example_db > 0"
    by (simp add: countWorkflowStateReferences_def example_db_def example_order_def example_item_def)
  with deleteState_correct [OF run] have "isl r" "db' = example_db" by auto
  with run show ?thesis by (cases r) auto
qed

end
