(* ===== verification/Void_Correct.thy ===== *)
theory Void_Correct
  imports Void_Engine Workflow_Correct Override_Correct Payments_Stock
begin

text \<open>
  Voiding lines and orders: who may void what and when, and everything a void changes.
\<close>

section \<open>Authority\<close>

text \<open>The oldest active line of an order, or the line itself, governs the time limit.\<close>

definition void_times :: "string \<Rightarrow> void_target \<Rightarrow> pos_db \<Rightarrow> int list" where
  "void_times tid target db = (case vt_orderItemId target of
      None \<Rightarrow> map it_createdAt (active_items db tid (o_id (vt_order target)))
    | Some i \<Rightarrow> (case vt_itemCreatedAt target of None \<Rightarrow> [] | Some t \<Rightarrow> [t]))"

text \<open>What authorizes a void: the permission, an unpaid order, an enabled reason, the time limit, and the tier the reason asks for.\<close>

definition void_allowed :: "pos_env \<Rightarrow> string \<Rightarrow> void_actor \<Rightarrow> void_target \<Rightarrow> string \<Rightarrow> pos_db \<Rightarrow> void_reason \<Rightarrow> void_permission_tier \<Rightarrow> bool" where
  "void_allowed env tid actor target reasonId db rs tier \<longleftrightarrow>
     env_authorize env (void_check tid actor (o_branchId (vt_order target))) = Inr () \<and> o_paymentStatus (vt_order target) = op_open \<and>
     loadVoidReason tid reasonId db = Some rs \<and> rs_isEnabled rs \<and> rs_kindSettingEnabled rs \<and>
     (\<forall>limit. loadVoidTimeLimitMinutes tid db = Some limit \<longrightarrow> (\<forall>t\<in>set (void_times tid target db). env_now env \<le> t + limit * 60000)) \<and>
     resolveVoidPermissionTier env tid (va_userId actor) (o_branchId (vt_order target)) = Inr (Some tier)"

text \<open>A second person: an active member of the tenant of the manager's tier who entered the PIN in this very challenge.\<close>

definition manager_approves :: "pos_env \<Rightarrow> string \<Rightarrow> string \<Rightarrow> manager_override_challenge_input \<Rightarrow> pos_db \<Rightarrow> bool" where
  "manager_approves env tid branchId c db \<longleftrightarrow>
     userIsActiveTenantMember tid (mo_managerUserId c) db \<and>
     resolveVoidPermissionTier env tid (mo_managerUserId c) branchId = Inr (Some manager) \<and>
     (\<exists>u\<in>set (db_users db). us_tenantId u = tid \<and> us_id u = mo_managerUserId c \<and> us_isActive u \<and>
        (\<exists>hash. us_pinHash u = Some hash \<and> env_verifyPin env tid (mo_managerUserId c) (mo_managerOverridePin c) hash))"

definition void_authority :: "pos_env \<Rightarrow> string \<Rightarrow> void_actor \<Rightarrow> void_target \<Rightarrow> string \<Rightarrow> manager_override_challenge_input option \<Rightarrow>
    pos_db \<Rightarrow> order_void_record \<Rightarrow> bool" where
  "void_authority env tid actor target reasonId mo db v \<longleftrightarrow>
     (\<exists>rs tier. void_allowed env tid actor target reasonId db rs tier \<and> ov_actorPermissionTier v = tier \<and>
        (if VOID_PERMISSION_TIER_RANK tier < VOID_PERMISSION_TIER_RANK (rs_requiredPermissionTier rs)
         then ov_requiredManagerOverride v \<and> ov_overrideAuthenticatedAt v = Some (env_now env) \<and>
              (\<exists>c. mo = Some c \<and> manager_approves env tid (o_branchId (vt_order target)) c db \<and> ov_managerUserId v = Some (mo_managerUserId c))
         else \<not> ov_requiredManagerOverride v \<and> ov_managerUserId v = None \<and> ov_overrideAuthenticatedAt v = None))"

lemma foldl_older_bound:
  "foldl older (Some s) ts = Some m \<Longrightarrow> m \<le> s \<and> (\<forall>t\<in>set ts. m \<le> t)"
  by (induction ts arbitrary: s) (force simp: older_def split: if_splits)+

lemma governing_oldest:
  assumes "governingCreatedAt tid target db = x"
  shows "case x of None \<Rightarrow> void_times tid target db = [] | Some m \<Rightarrow> \<forall>t\<in>set (void_times tid target db). m \<le> t"
proof (cases "vt_orderItemId target")
  case None
  have start: "foldl older None (t # ts) = foldl older (Some t) ts" for t ts by (simp add: older_def)
  have some: "\<exists>m. foldl older (Some t) ts = Some m" for t ts by (induction ts arbitrary: t) (auto simp: older_def)
  show ?thesis using None assms foldl_older_bound some
    by (cases "active_items db tid (o_id (vt_order target))")
       (fastforce simp: governingCreatedAt_def void_times_def loadActiveOrderItems_def start simp del: foldl_Cons split: option.splits)+
next
  case (Some i)
  with assms show ?thesis by (auto simp: governingCreatedAt_def void_times_def split: option.splits)
qed

lemma assertWithinTimeLimit_Inr:
  assumes "assertWithinTimeLimit env tid target db = Inr (x, db')"
  shows "db' = db" "loadVoidTimeLimitMinutes tid db = Some limit \<Longrightarrow> t \<in> set (void_times tid target db) \<Longrightarrow> env_now env \<le> t + limit * 60000"
proof -
  show "db' = db" using assms by (auto simp: assertWithinTimeLimit_def tx_simps split: option.splits)
  assume l: "loadVoidTimeLimitMinutes tid db = Some limit" and t: "t \<in> set (void_times tid target db)"
  from governing_oldest [OF refl, of tid target db] t obtain m where m: "governingCreatedAt tid target db = Some m" "m \<le> t"
    by (cases "governingCreatedAt tid target db") auto
  with assms l show "env_now env \<le> t + limit * 60000" by (auto simp: assertWithinTimeLimit_def tx_simps)
qed

lemma approvingManager_Inr:
  "approvingManager env tid b rs mo db = Inr (c, db') \<Longrightarrow>
   db' = db \<and> mo = Some c \<and> userIsActiveTenantMember tid (mo_managerUserId c) db \<and>
   resolveVoidPermissionTier env tid (mo_managerUserId c) b = Inr (Some manager)"
  by (auto simp: approvingManager_def tx_simps)

lemma decideVoid_Inr:
  assumes "decideVoid env tid actor rt reasonId mo db = Inr (d, db')" and rt: "\<forall>t db1. rt db = Inr (t, db1) \<longrightarrow> db1 = db"
  shows "db' = db" "rt db = Inr (vd_target d, db)" "void_allowed env tid actor (vd_target d) reasonId db (vd_reason d) (vd_actorTier d)"
    "vd_requiredManagerOverride d \<longleftrightarrow> VOID_PERMISSION_TIER_RANK (vd_actorTier d) < VOID_PERMISSION_TIER_RANK (rs_requiredPermissionTier (vd_reason d))"
    "if vd_requiredManagerOverride d then \<exists>c. vd_challenge d = Some c \<and> mo = Some c \<and> userIsActiveTenantMember tid (mo_managerUserId c) db \<and>
       resolveVoidPermissionTier env tid (mo_managerUserId c) (o_branchId (vt_order (vd_target d))) = Inr (Some manager)
     else vd_challenge d = None"
proof -
  from assms(1) obtain target db1 rs u actorTier ch where
    run: "rt db = Inr (target, db1)" "env_authorize env (void_check tid actor (o_branchId (vt_order target))) = Inr ()"
      "assertVoidAllowedUnderPaymentStatus (o_paymentStatus (vt_order target)) = Inr ()" "loadVoidReason tid reasonId db1 = Some rs"
      "rs_isEnabled rs" "rs_kindSettingEnabled rs" and lim: "assertWithinTimeLimit env tid target db1 = Inr (u, db1)" and
    tier: "resolveVoidPermissionTier env tid (va_userId actor) (o_branchId (vt_order target)) = Inr (Some actorTier)" and
    ch: "(if VOID_PERMISSION_TIER_RANK actorTier < VOID_PERMISSION_TIER_RANK (rs_requiredPermissionTier rs)
       then tx_bind (approvingManager env tid (o_branchId (vt_order target)) rs mo) (\<lambda>c. tx_return (Some c))
       else tx_return None) db1 = Inr (ch, db')" and
    d: "d = \<lparr>vd_target = target, vd_reason = rs, vd_actorTier = actorTier,
       vd_requiredManagerOverride = (VOID_PERMISSION_TIER_RANK actorTier < VOID_PERMISSION_TIER_RANK (rs_requiredPermissionTier rs)),
       vd_challenge = ch\<rparr>"
    unfolding decideVoid_def Let_def
    by (simp add: tx_bind_Inr tx_lift_Inr tx_read_Inr tx_some_Inr tx_guard_Inr tx_return_Inr) (blast dest: assertWithinTimeLimit_Inr(1))
  note db1 = rt [rule_format, OF run(1)]
  have "db' = db \<and> (if VOID_PERMISSION_TIER_RANK actorTier < VOID_PERMISSION_TIER_RANK (rs_requiredPermissionTier rs)
     then \<exists>c. ch = Some c \<and> mo = Some c \<and> userIsActiveTenantMember tid (mo_managerUserId c) db \<and>
       resolveVoidPermissionTier env tid (mo_managerUserId c) (o_branchId (vt_order target)) = Inr (Some manager) else ch = None)"
    using ch unfolding db1 by (auto simp: tx_simps dest!: approvingManager_Inr split: if_splits)
  then show "db' = db" "if vd_requiredManagerOverride d then \<exists>c. vd_challenge d = Some c \<and> mo = Some c \<and> userIsActiveTenantMember tid (mo_managerUserId c) db \<and>
       resolveVoidPermissionTier env tid (mo_managerUserId c) (o_branchId (vt_order (vd_target d))) = Inr (Some manager)
     else vd_challenge d = None" by (simp_all add: d)
  show "rt db = Inr (vd_target d, db)" "vd_requiredManagerOverride d \<longleftrightarrow>
      VOID_PERMISSION_TIER_RANK (vd_actorTier d) < VOID_PERMISSION_TIER_RANK (rs_requiredPermissionTier (vd_reason d))"
    using run(1) db1 by (simp_all add: d)
  have "o_paymentStatus (vt_order target) = op_open" using run(3) by (auto simp: assertVoidAllowedUnderPaymentStatus_def split: if_splits)
  then show "void_allowed env tid actor (vd_target d) reasonId db (vd_reason d) (vd_actorTier d)"
    using run tier assertWithinTimeLimit_Inr(2) [OF lim] unfolding db1 by (simp add: void_allowed_def d)
qed

section \<open>The writes, one by one\<close>

definition void_items :: "string \<Rightarrow> string list \<Rightarrow> int \<Rightarrow> order_item_row list \<Rightarrow> order_item_row list" where
  "void_items tid ids now items = update_where (\<lambda>i. it_tenantId i = tid \<and> it_id i \<in> set ids) (\<lambda>i. i\<lparr>it_isVoided := True, it_voidedAt := Some now\<rparr>) items"

lemma insertOrderVoid_Inr: "insertOrderVoid env v db = Inr (r, db') \<Longrightarrow> r = v \<and> db' = db\<lparr>db_voids := db_voids db @ [v]\<rparr>"
  by (auto simp: insertOrderVoid_def tx_simps)

lemma markOrderItemsVoided_Inr:
  "markOrderItemsVoided env tid ids db = Inr (x, db') \<Longrightarrow> db' = db\<lparr>db_items := void_items tid ids (env_now env) (db_items db)\<rparr>"
  by (auto simp: markOrderItemsVoided_def tx_simps void_items_def update_where_def split: if_splits)

definition event_summary :: "order_outbox_event \<Rightarrow> string \<times> string \<times> string \<times> json" where
  "event_summary e = (ob_tenantId e, ob_branchId e, ob_eventType e, ob_payload e)"

definition line_voided :: "string \<Rightarrow> order_row \<Rightarrow> string \<Rightarrow> string \<Rightarrow> string \<Rightarrow> string \<times> string \<times> string \<times> json" where
  "line_voided tid ord voidId u i = (tid, o_branchId ord, ''order_item.voided'', JsObj [(''order_id'', JsStr (o_id ord)),
     (''order_item_id'', JsStr i), (''void_record_id'', JsStr voidId), (''actor_user_id'', JsStr u)])"

definition order_voided :: "string \<Rightarrow> order_row \<Rightarrow> string \<Rightarrow> string \<Rightarrow> string \<times> string \<times> string \<times> json" where
  "order_voided tid ord voidId u = (tid, o_branchId ord, ''order.voided'', JsObj [(''order_id'', JsStr (o_id ord)),
     (''void_record_id'', JsStr voidId), (''actor_user_id'', JsStr u)])"

lemma append_one:
  assumes "appendEvent env tid b ty pl db = Inr (n, db')"
  shows "\<exists>qs e. db' = db\<lparr>db_sequences := qs, db_outbox := db_outbox db @ [e]\<rparr> \<and> event_summary e = (tid, b, ty, pl)"
  using appendEvent_Inr(1) [OF assms] by (auto simp: event_summary_def)

lemma line_events_Inr:
  assumes "tx_for (\<lambda>i. tx_bind (appendEvent env tid b ty (pl i)) (\<lambda>_. tx_return ())) ids db = Inr (x, db')"
  shows "\<exists>qs es. db' = db\<lparr>db_sequences := qs, db_outbox := db_outbox db @ es\<rparr> \<and> map event_summary es = map (\<lambda>i. (tid, b, ty, pl i)) ids"
  using assms
proof (induction ids arbitrary: db)
  case Nil
  then show ?case by (intro exI [of _ "db_sequences db"] exI [of _ "[]"]) (simp add: tx_simps)
next
  case (Cons i ids)
  then obtain n db1 where app: "appendEvent env tid b ty (pl i) db = Inr (n, db1)" and
    rest: "tx_for (\<lambda>i. tx_bind (appendEvent env tid b ty (pl i)) (\<lambda>_. tx_return ())) ids db1 = Inr (x, db')"
    by (auto simp: tx_simps)
  from append_one [OF app] obtain qs e where e: "db1 = db\<lparr>db_sequences := qs, db_outbox := db_outbox db @ [e]\<rparr>" "event_summary e = (tid, b, ty, pl i)"
    by blast
  from Cons.IH [OF rest] obtain qs' es where "db' = db1\<lparr>db_sequences := qs', db_outbox := db_outbox db1 @ es\<rparr>"
    "map event_summary es = map (\<lambda>i. (tid, b, ty, pl i)) ids" by blast
  with e show ?case by (intro exI [of _ qs'] exI [of _ "e # es"]) simp
qed

lemma voidEvents_Inr:
  assumes "voidEvents env tid ord voidId u whole ids db = Inr (x, db')"
  shows "\<exists>qs es. db' = db\<lparr>db_sequences := qs, db_outbox := db_outbox db @ es\<rparr> \<and>
    map event_summary es = map (line_voided tid ord voidId u) ids @ (if whole then [order_voided tid ord voidId u] else [])"
proof -
  let ?pl = "\<lambda>i. JsObj [(''order_id'', JsStr (o_id ord)), (''order_item_id'', JsStr i), (''void_record_id'', JsStr voidId), (''actor_user_id'', JsStr u)]"
  let ?whole = "tx_bind (appendEvent env tid (o_branchId ord) ''order.voided'' (JsObj [(''order_id'', JsStr (o_id ord)),
       (''void_record_id'', JsStr voidId), (''actor_user_id'', JsStr u)])) (\<lambda>_. tx_return ())"
  from assms have "\<exists>y db1. tx_for (\<lambda>i. tx_bind (appendEvent env tid (o_branchId ord) ''order_item.voided'' (?pl i)) (\<lambda>_. tx_return ())) ids db = Inr (y, db1) \<and>
      (if whole then ?whole else tx_return ()) db1 = Inr (x, db')"
    by (simp only: voidEvents_def tx_bind_Inr)
  then obtain y db1 where lines: "tx_for (\<lambda>i. tx_bind (appendEvent env tid (o_branchId ord) ''order_item.voided'' (?pl i)) (\<lambda>_. tx_return ())) ids db = Inr (y, db1)"
    and rest: "(if whole then ?whole else tx_return ()) db1 = Inr (x, db')" by blast
  from line_events_Inr [OF lines] obtain qs es where es: "db1 = db\<lparr>db_sequences := qs, db_outbox := db_outbox db @ es\<rparr>"
    "map event_summary es = map (line_voided tid ord voidId u) ids" by (auto simp: line_voided_def)
  show ?thesis
  proof (cases whole)
    case False
    with rest have "db' = db1" by (simp add: tx_return_Inr)
    with False es show ?thesis by auto
  next
    case True
    with rest obtain n where "appendEvent env tid (o_branchId ord) ''order.voided'' (JsObj [(''order_id'', JsStr (o_id ord)),
       (''void_record_id'', JsStr voidId), (''actor_user_id'', JsStr u)]) db1 = Inr (n, db')" by (auto simp: tx_bind_Inr tx_return_Inr)
    from append_one [OF this] obtain qs' e where "db' = db1\<lparr>db_sequences := qs', db_outbox := db_outbox db1 @ [e]\<rparr>"
      "event_summary e = order_voided tid ord voidId u" by (auto simp: order_voided_def)
    with True es show ?thesis by (intro exI [of _ qs'] exI [of _ "es @ [e]"]) simp
  qed
qed

text \<open>The movements of one void.\<close>

definition void_movements :: "string \<Rightarrow> string \<Rightarrow> string list \<Rightarrow> pos_db \<Rightarrow> stock_movement_record list \<Rightarrow> bool" where
  "void_movements tid oid ids db new \<longleftrightarrow>
     (\<exists>ds. loadSaleDeductionsForOrderItems tid ids db = Inr ds \<and>
        list_all2 (settles_deduction waste_void tid oid (loadItemsWithKitchenTicketFired tid ids db))
          (filter (\<lambda>d. deduction_key d \<notin> set (loadVoidRestorationKeys tid ids db)) ds) new)"

lemma voidMovement_Inr:
  assumes "voidMovement env tid ord u fired recorded d db = Inr (x, db')"
  shows "if deduction_key d \<in> set recorded then db' = db
    else \<exists>m. db' = append_movements [m] db \<and> settles_deduction waste_void tid (o_id ord) fired d m"
proof (cases "deduction_key d \<in> set recorded")
  case True
  then show ?thesis using assms by (simp add: voidMovement_def deduction_key_def tx_simps)
next
  case False
  let ?r = "sd_orderItemId d \<notin> set fired"
  from False assms obtain delta m db1 where
    delta: "(if ?r then andThen (decimalTextToMinor (sd_totalDeducted d) 4 ''totalDeducted'') (\<lambda>m. minorToDecimalText (- m) 4)
       else minorToDecimalText 0 4) = Inr delta" and
    ins: "insertStockMovement env tid \<lparr>im_branchId = o_branchId ord, im_inventoryItemId = sd_inventoryItemId d,
           im_movementType = (if ?r then void_restoration else waste_void),
           im_quantityDelta = delta, im_orderId = Some (o_id ord),
           im_orderItemId = Some (sd_orderItemId d), im_actorUserId = u,
           im_managerOverrideId = None, im_adjustmentReasonId = None, im_occurredAt = env_now env\<rparr> db = Inr (m, db1)" and
    post: "postInventoryRestoration env (sm_id m) db1 = Inr (x, db')"
    unfolding voidMovement_def deduction_key_def Let_def tx_simps by (auto simp: tx_simps insertOrderStockMovement_Inr)
  from settlement_Inr [OF delta ins _ _ _ _ _ post, of "o_id ord" waste_void] False show ?thesis by auto
qed

lemma writeVoidStockMovements_Inr:
  assumes "writeVoidStockMovements env tid ord ids u db = Inr (x, db')"
  shows "\<exists>new. db' = append_movements new db \<and> void_movements tid (o_id ord) ids db new"
proof -
  have "\<exists>ds. loadSaleDeductionsForOrderItems tid ids db = Inr ds \<and>
    (ds = [] \<and> db' = db \<or> tx_for (voidMovement env tid ord u (loadItemsWithKitchenTicketFired tid ids db) (loadVoidRestorationKeys tid ids db)) ds db = Inr (x, db'))"
    using assms by (cases "ids = []") (auto simp: writeVoidStockMovements_def tx_simps loadSaleDeductionsForOrderItems_def split: if_splits)
  then obtain ds where ds: "loadSaleDeductionsForOrderItems tid ids db = Inr ds"
    and run: "ds = [] \<and> db' = db \<or> tx_for (voidMovement env tid ord u (loadItemsWithKitchenTicketFired tid ids db) (loadVoidRestorationKeys tid ids db)) ds db = Inr (x, db')"
    by blast
  show ?thesis
  proof (cases "ds = [] \<and> db' = db")
    case True
    with ds show ?thesis by (intro exI [of _ "[]"]) (simp add: void_movements_def append_movements_simps)
  next
    case False
    with run have loop: "tx_for (voidMovement env tid ord u (loadItemsWithKitchenTicketFired tid ids db) (loadVoidRestorationKeys tid ids db)) ds db = Inr (x, db')" by blast
    have "\<exists>new. db' = append_movements new db \<and>
      list_all2 (settles_deduction waste_void tid (o_id ord) (loadItemsWithKitchenTicketFired tid ids db))
        (filter (\<lambda>d. deduction_key d \<notin> set (loadVoidRestorationKeys tid ids db)) ds) new"
      by (rule settlements_Inr [OF _ loop]) (rule voidMovement_Inr)
    with ds show ?thesis unfolding void_movements_def by blast
  qed
qed

section \<open>The whole effect\<close>

definition void_ids :: "string \<Rightarrow> void_target \<Rightarrow> pos_db \<Rightarrow> string list" where
  "void_ids tid target db = (case vt_orderItemId target of Some i \<Rightarrow> [i] | None \<Rightarrow> map it_id (active_items db tid (o_id (vt_order target))))"

definition void_record :: "pos_env \<Rightarrow> string \<Rightarrow> void_actor \<Rightarrow> void_decision \<Rightarrow> int option \<Rightarrow> string option \<Rightarrow> string \<Rightarrow> order_void_record" where
  "void_record env tid actor d at notes i = \<lparr>ov_id = i, ov_tenantId = tid, ov_orderId = o_id (vt_order (vd_target d)), ov_orderItemId = vt_orderItemId (vd_target d),
        ov_actorUserId = va_userId actor, ov_actorPermissionTier = vd_actorTier d, ov_voidReasonId = rs_id (vd_reason d),
        ov_requiredManagerOverride = vd_requiredManagerOverride d, ov_managerUserId = map_option mo_managerUserId (vd_challenge d),
        ov_overrideAuthenticatedAt = at, ov_orderPaymentStatusAtVoidTime = o_paymentStatus (vt_order (vd_target d)),
        ov_notes = notes, ov_occurredAt = env_now env\<rparr>"

lemma voidWrites_steps:
  assumes "voidWrites env tid actor d at notes db = Inr (v, db')"
  obtains x1 x2 x3 x4 x5 db1 db2 db3 db4 db5 where
    "lockOrderRow tid (o_id (vt_order (vd_target d))) db \<noteq> None"
    "bumpOrderRevision env tid (o_id (vt_order (vd_target d))) db = Inr (x1, db1)"
    "v = void_record env tid actor d at notes (env_uuid env db1)"
    "markOrderItemsVoided env tid (void_ids tid (vd_target d) db1) (db1\<lparr>db_voids := db_voids db1 @ [v]\<rparr>) = Inr (x2, db2)"
    "(if active_items db2 tid (o_id (vt_order (vd_target d))) = [] then setOrderPaymentStatus env tid (o_id (vt_order (vd_target d))) op_voided
      else tx_return ()) db2 = Inr (x3, db3)"
    "voidEvents env tid (vt_order (vd_target d)) (ov_id v) (va_userId actor) (vt_orderItemId (vd_target d) = None) (void_ids tid (vd_target d) db1) db3 = Inr (x4, db4)"
    "writeVoidStockMovements env tid (vt_order (vd_target d)) (void_ids tid (vd_target d) db1) (va_userId actor) db4 = Inr (x5, db5)"
    "\<exists>x6. recomputeOrderStatus env tid (o_id (vt_order (vd_target d))) db5 = Inr (x6, db')"
  using assms unfolding voidWrites_def Let_def
proof (elim tx_bindE)
  fix locked db0 u0 db0' u1 db1 i db1' r db2 ids db2' u2 db3 left db3' u3 db4 u4 db5 u5 db6 u6 db7
  let ?o = "o_id (vt_order (vd_target d))"
  assume "tx_read (lockOrderRow tid ?o) db = Inr (locked, db0)" "tx_some locked NotFoundError db0 = Inr (u0, db0')"
    and bump: "bumpOrderRevision env tid ?o db0' = Inr (u1, db1)" and uuid: "tx_read (env_uuid env) db1 = Inr (i, db1')"
    and ins: "insertOrderVoid env \<lparr>ov_id = i, ov_tenantId = tid, ov_orderId = ?o, ov_orderItemId = vt_orderItemId (vd_target d),
        ov_actorUserId = va_userId actor, ov_actorPermissionTier = vd_actorTier d, ov_voidReasonId = rs_id (vd_reason d),
        ov_requiredManagerOverride = vd_requiredManagerOverride d, ov_managerUserId = map_option mo_managerUserId (vd_challenge d),
        ov_overrideAuthenticatedAt = at, ov_orderPaymentStatusAtVoidTime = o_paymentStatus (vt_order (vd_target d)),
        ov_notes = notes, ov_occurredAt = env_now env\<rparr> db1' = Inr (r, db2)"
    and ids: "tx_read (\<lambda>db. case vt_orderItemId (vd_target d) of None \<Rightarrow> map it_id (loadActiveOrderItems tid ?o db) | Some i \<Rightarrow> [i]) db2 = Inr (ids, db2')"
    and rest: "markOrderItemsVoided env tid ids db2' = Inr (u2, db3)" "tx_read (loadActiveOrderItems tid ?o) db3 = Inr (left, db3')"
      "(if left = [] then setOrderPaymentStatus env tid ?o op_voided else tx_return ()) db3' = Inr (u3, db4)"
      "voidEvents env tid (vt_order (vd_target d)) (ov_id r) (va_userId actor) (vt_orderItemId (vd_target d) = None) ids db4 = Inr (u4, db5)"
      "writeVoidStockMovements env tid (vt_order (vd_target d)) ids (va_userId actor) db5 = Inr (u5, db6)"
      "recomputeOrderStatus env tid ?o db6 = Inr (u6, db7)" "tx_return r db7 = Inr (v, db')"
  then have same: "db0' = db" "lockOrderRow tid ?o db \<noteq> None" "i = env_uuid env db1" "db1' = db1" "db3' = db3" "db7 = db'" "v = r"
      "left = active_items db3 tid ?o" by (auto simp: tx_simps loadActiveOrderItems_def)
  have v: "r = void_record env tid actor d at notes (env_uuid env db1)" "db2 = db1\<lparr>db_voids := db_voids db1 @ [r]\<rparr>"
    using insertOrderVoid_Inr [OF ins] by (simp_all add: same void_record_def)
  then have "ids = void_ids tid (vd_target d) db1" "db2' = db2"
    using ids by (auto simp: tx_simps void_ids_def loadActiveOrderItems_def active_items_def split: option.splits)
  with same v bump rest show ?thesis by (intro that [of u1 db1 u2 db3 u3 db4 u4 db5 u5 db6]) simp_all
qed

text \<open>
  What a void of the target leaves: the lines are voided at the server's time, the record and one event per line (and one for the
  order, when all of it is voided) are appended, the stock of the lines is settled, and the order is as it was but for its revision, its
  payment status, voided when no active line is left, and its kitchen status, which follows its lines.
\<close>

definition void_effect :: "pos_env \<Rightarrow> string \<Rightarrow> string \<Rightarrow> void_target \<Rightarrow> order_void_record \<Rightarrow> pos_db \<Rightarrow> pos_db \<Rightarrow> bool" where
  "void_effect env tid u target v db db' \<longleftrightarrow>
     (let ord = vt_order target; ids = void_ids tid target db in
      \<exists>os qs es es' new. db' = db\<lparr>db_orders := os, db_items := void_items tid ids (env_now env) (db_items db), db_voids := db_voids db @ [v],
          db_sequences := qs, db_outbox := db_outbox db @ es @ es', db_stock := db_stock db @ new,
          db_restorationCalls := db_restorationCalls db @ map sm_id new\<rparr> \<and>
        map event_summary es = map (line_voided tid ord (ov_id v) u) ids @ (if vt_orderItemId target = None then [order_voided tid ord (ov_id v) u] else []) \<and>
        length es' \<le> 1 \<and> void_movements tid (o_id ord) ids db new \<and>
        list_all2 (\<lambda>x y. y = x \<or> o_tenantId x = tid \<and> o_id x = o_id ord) (db_orders db) os \<and>
        (\<exists>ord0. loadOrder tid (o_id ord) db = Some ord0 \<and>
           loadOrder tid (o_id ord) db' = Some (restatused (env_now env) tid (o_id ord) db'
             (ord0\<lparr>o_revision := o_revision ord0 + 1,
                   o_paymentStatus := (if active_items db' tid (o_id ord) = [] then op_voided else o_paymentStatus ord0)\<rparr>))))"

lemma setOrderPaymentStatus_Inr:
  assumes "setOrderPaymentStatus env tid oid st db = Inr (x, db')"
  shows "db' = db\<lparr>db_orders := update_where (\<lambda>x. o_tenantId x = tid \<and> o_id x = oid) (\<lambda>x. x\<lparr>o_paymentStatus := st\<rparr>) (db_orders db)\<rparr>"
  using assms by (auto simp: setOrderPaymentStatus_def tx_simps)

definition others_kept :: "string \<Rightarrow> string \<Rightarrow> order_row list \<Rightarrow> order_row list \<Rightarrow> bool" where
  "others_kept tid oid = list_all2 (\<lambda>x y. y = x \<or> o_tenantId x = tid \<and> o_id x = oid \<and> o_tenantId y = tid \<and> o_id y = oid)"

lemma others_kept_trans: "others_kept tid oid a b \<Longrightarrow> others_kept tid oid b c \<Longrightarrow> others_kept tid oid a c"
  unfolding others_kept_def by (erule list_all2_trans [rotated], assumption) auto

lemma others_kept_touched: "orders_touched tid oid a b \<Longrightarrow> others_kept tid oid a b"
  unfolding others_kept_def orders_touched_def by (erule list_all2_mono) (auto dest: order_frame_ids)

lemma others_kept_refl: "others_kept tid oid a a"
  by (simp add: others_kept_def list_all2_refl)

lemma others_kept_status:
  "others_kept tid oid a (update_where (\<lambda>x. o_tenantId x = tid \<and> o_id x = oid) (\<lambda>x. x\<lparr>o_paymentStatus := st\<rparr>) a)"
  by (auto simp: others_kept_def update_where_def list_all2_map2 intro!: list_all2_same [THEN iffD2])

lemma others_kept_weaken:
  "others_kept tid oid a b \<Longrightarrow> list_all2 (\<lambda>x y. y = x \<or> o_tenantId x = tid \<and> o_id x = oid) a b"
  unfolding others_kept_def by (erule list_all2_mono) auto

lemma payment_status_step:
  assumes "(if c then setOrderPaymentStatus env tid oid st else tx_return ()) db = Inr (x, db')"
  shows "db' = db\<lparr>db_orders := db_orders db'\<rparr>" "others_kept tid oid (db_orders db) (db_orders db')"
    "loadOrder tid oid db' = map_option (\<lambda>y. if c then y\<lparr>o_paymentStatus := st\<rparr> else y) (loadOrder tid oid db)"
proof -
  show "db' = db\<lparr>db_orders := db_orders db'\<rparr>" "others_kept tid oid (db_orders db) (db_orders db')"
    using assms by (auto simp: tx_simps others_kept_refl others_kept_status dest!: setOrderPaymentStatus_Inr split: if_splits)
  show "loadOrder tid oid db' = map_option (\<lambda>y. if c then y\<lparr>o_paymentStatus := st\<rparr> else y) (loadOrder tid oid db)"
    using assms loadOrder_update [of "\<lambda>x. x\<lparr>o_paymentStatus := st\<rparr>" tid oid "db_orders db"]
    by (auto simp: tx_simps loadOrder_def option.map_ident dest!: setOrderPaymentStatus_Inr split: if_splits)
qed

lemma void_movements_cong:
  "db_stock db' = db_stock db \<Longrightarrow> db_statusEvents db' = db_statusEvents db \<Longrightarrow> db_workflowStates db' = db_workflowStates db \<Longrightarrow>
   db_statusKinds db' = db_statusKinds db \<Longrightarrow> void_movements tid oid ids db' = void_movements tid oid ids db"
  by (simp add: void_movements_def fun_eq_iff loadSaleDeductionsForOrderItems_def deduction_rows_def loadItemsWithKitchenTicketFired_def
      fires_ticket_def loadVoidRestorationKeys_def)

lemma voidWrites_effect:
  assumes "voidWrites env tid actor d at notes db = Inr (v, db')"
  shows "void_effect env tid (va_userId actor) (vd_target d) v db db'" "\<exists>i. v = void_record env tid actor d at notes i"
  using assms
proof (cases rule: voidWrites_steps, goal_cases)
  case (1 x1 x2 x3 x4 x5 db1 db2 db3 db4 db5)
  let ?ord = "vt_order (vd_target d)"
  let ?o = "o_id ?ord" and ?ids = "void_ids tid (vd_target d) db1"
  note bump = bumpOrderRevision_Inr [OF 1(2)]
  obtain os1 where db1: "db1 = db\<lparr>db_orders := os1\<rparr>" using bump(1) by blast
  have ids: "?ids = void_ids tid (vd_target d) db" by (simp add: db1 void_ids_def active_items_def cong: option.case_cong)
  have db2: "db2 = db\<lparr>db_orders := os1, db_voids := db_voids db @ [v], db_items := void_items tid ?ids (env_now env) (db_items db)\<rparr>"
    using markOrderItemsVoided_Inr [OF 1(4)] by (simp add: db1)
  note status = payment_status_step [OF 1(5)]
  obtain os3 where db3: "db3 = db2\<lparr>db_orders := os3\<rparr>" using status(1) by blast
  from voidEvents_Inr [OF 1(6)] obtain qs es where db4: "db4 = db3\<lparr>db_sequences := qs, db_outbox := db_outbox db3 @ es\<rparr>" and
    es: "map event_summary es = map (line_voided tid ?ord (ov_id v) (va_userId actor)) ?ids @
      (if vt_orderItemId (vd_target d) = None then [order_voided tid ?ord (ov_id v) (va_userId actor)] else [])" by blast
  from writeVoidStockMovements_Inr [OF 1(7)] obtain new where db5: "db5 = append_movements new db4" and
    new: "void_movements tid ?o ?ids db4 new" by blast
  obtain x6 where rec: "recomputeOrderStatus env tid ?o db5 = Inr (x6, db')" using 1(8) by blast
  from recomputeOrderStatus_Inr(1) [OF rec] obtain os es' qs' where
    db': "db' = db5\<lparr>db_orders := os, db_sequences := qs', db_outbox := db_outbox db5 @ es'\<rparr>" "length es' \<le> 1"
      "orders_touched tid ?o (db_orders db5) os" by blast
  have eq: "db' = db\<lparr>db_orders := os, db_items := void_items tid (void_ids tid (vd_target d) db) (env_now env) (db_items db), db_voids := db_voids db @ [v],
          db_sequences := qs', db_outbox := db_outbox db @ es @ es', db_stock := db_stock db @ new,
          db_restorationCalls := db_restorationCalls db @ map sm_id new\<rparr>"
    by (simp add: db' db5 append_movements_def db4 db3 db2 ids)
  have mv: "void_movements tid ?o (void_ids tid (vd_target d) db) db new"
    using new void_movements_cong [of db4 db] unfolding ids by (simp add: db4 db3 db2)
  have "others_kept tid ?o (db_orders db) os1" using others_kept_touched [OF bump(3)] by (simp add: db1)
  moreover have "others_kept tid ?o os1 os3" using status(2) by (simp add: db3 db2)
  moreover have "others_kept tid ?o os3 os" using others_kept_touched [OF db'(3)] by (simp add: db5 append_movements_def db4 db3)
  ultimately have kept: "others_kept tid ?o (db_orders db) os" using others_kept_trans by blast
  from 1(1) obtain ord0 where ord0: "loadOrder tid ?o db = Some ord0" by (auto simp: lockOrderRow_def loadOrder_def)
  define ord3 where "ord3 = (if active_items db2 tid ?o = [] then ord0\<lparr>o_revision := o_revision ord0 + 1, o_paymentStatus := op_voided\<rparr>
    else ord0\<lparr>o_revision := o_revision ord0 + 1\<rparr>)"
  have "o_tenantId ord0 = tid \<and> o_id ord0 = ?o" using find_row_Some [OF ord0 [unfolded loadOrder_def]] by simp
  then have "loadOrder tid ?o db3 = Some ord3"
    using status(3) bump(2) [of tid ?o] ord0 by (simp add: loadOrder_def db2 db1 ord3_def)
  then have "loadOrder tid ?o db5 = Some ord3" by (simp add: loadOrder_def db5 append_movements_def db4)
  note row = recomputeOrderStatus_Inr(2) [OF rec this]
  have "derived_target tid ?o db' = derived_target tid ?o db5" by (rule derived_target_cong) (simp_all add: db'(1))
  then have after: "loadOrder tid ?o db' = Some (restatused (env_now env) tid ?o db' ord3)" using row by (simp add: restatused_def)
  have "active_items db' tid ?o = active_items db2 tid ?o" by (simp add: active_items_def eq db2 ids)
  then have ord3: "ord3 = ord0\<lparr>o_revision := o_revision ord0 + 1,
      o_paymentStatus := (if active_items db' tid ?o = [] then op_voided else o_paymentStatus ord0)\<rparr>" by (simp add: ord3_def)
  show "void_effect env tid (va_userId actor) (vd_target d) v db db'"
    unfolding void_effect_def Let_def
    using eq es [unfolded ids] db'(2) mv others_kept_weaken [OF kept] ord0 after [unfolded ord3]
    by (intro exI [of _ os] exI [of _ qs'] exI [of _ es] exI [of _ es'] exI [of _ new] conjI exI [of _ ord0])
next
  case 2
  from assms show ?case by (elim voidWrites_steps) blast
qed

section \<open>The operation\<close>

lemma verifyLiveChallenge_time:
  assumes "verifyLiveChallenge env tid m pin a ctx oid db = (Inr t, db')"
  shows "t = env_now env"
  using assms by (cases rule: verifyLiveChallenge_cases) (auto simp: challenge_effect_def Let_def split: challenge_decision.splits)

lemma challengeVoid_Inr:
  assumes "challengeVoid env tid actor d db = (Inr at, db')"
  shows "override_frame db db'"
    "vd_challenge d = None \<Longrightarrow> at = None"
    "vd_challenge d = Some c \<Longrightarrow> at = Some (env_now env) \<and> (\<exists>u\<in>set (db_users db). us_tenantId u = tid \<and> us_id u = mo_managerUserId c \<and> us_isActive u \<and>
        (\<exists>hash. us_pinHash u = Some hash \<and> env_verifyPin env tid (mo_managerUserId c) (mo_managerOverridePin c) hash))"
proof -
  show "override_frame db db'"
    using assms by (cases "vd_challenge d")
      (auto simp: challengeVoid_def tx_simps overrides.refl intro: op_ensuresD [OF challenge_frame(1)])
  show "vd_challenge d = None \<Longrightarrow> at = None" using assms by (simp add: challengeVoid_def tx_simps)
  assume "vd_challenge d = Some c"
  with assms obtain t where t: "verifyLiveChallenge env tid (mo_managerUserId c) (mo_managerOverridePin c) (va_userId actor) ''void''
      (Some (o_id (vt_order (vd_target d)))) db = (Inr t, db')" "at = Some t" by (auto simp: challengeVoid_def tx_simps)
  have "t = env_now env" using verifyLiveChallenge_time [OF t(1)] .
  with challenge_verified [OF t(1)] t(2) show "at = Some (env_now env) \<and> (\<exists>u\<in>set (db_users db). us_tenantId u = tid \<and> us_id u = mo_managerUserId c \<and> us_isActive u \<and>
        (\<exists>hash. us_pinHash u = Some hash \<and> env_verifyPin env tid (mo_managerUserId c) (mo_managerOverridePin c) hash))" by blast
qed

lemma voidWithinTenant_Inr:
  assumes "voidWithinTenant env tid actor rt reasonId mo notes db = (Inr v, db')" and rt: "\<forall>t db1. rt db = Inr (t, db1) \<longrightarrow> db1 = db"
  shows "\<exists>target db1. rt db = Inr (target, db) \<and> void_authority env tid actor target reasonId mo db v \<and>
    override_frame db db1 \<and> void_effect env tid (va_userId actor) target v db1 db' \<and> ov_orderId v = o_id (vt_order target) \<and>
    ov_orderItemId v = vt_orderItemId target \<and> ov_tenantId v = tid \<and> ov_actorUserId v = va_userId actor \<and> ov_occurredAt v = env_now env \<and>
    ov_notes v = notes"
proof -
  from assms(1) obtain d db0 at db1 where dec: "decideVoid env tid actor rt reasonId mo db = Inr (d, db0)" and
    ch: "challengeVoid env tid actor d db0 = (Inr at, db1)" and w: "voidWrites env tid actor d at notes db1 = Inr (v, db')"
    by (auto simp: voidWithinTenant_def op_bind_Inr store_run_def run_tx_Inr tx_bind_Inr tx_lift_Inr)
  note D = decideVoid_Inr [OF dec rt]
  note C = challengeVoid_Inr [OF ch [unfolded D(1)]]
  note W = voidWrites_effect [OF w]
  obtain i where v: "v = void_record env tid actor d at notes i" using W(2) by blast
  have "void_authority env tid actor (vd_target d) reasonId mo db v"
  proof (cases "vd_requiredManagerOverride d")
    case True
    with D(5) obtain c where c: "vd_challenge d = Some c" "mo = Some c" "userIsActiveTenantMember tid (mo_managerUserId c) db"
      "resolveVoidPermissionTier env tid (mo_managerUserId c) (o_branchId (vt_order (vd_target d))) = Inr (Some manager)" by auto
    then have "manager_approves env tid (o_branchId (vt_order (vd_target d))) c db" "at = Some (env_now env)"
      using C(3) by (auto simp: manager_approves_def)
    with True c D(3,4) show ?thesis unfolding void_authority_def by (auto simp: v void_record_def)
  next
    case False
    with D(3,4,5) C(2) show ?thesis unfolding void_authority_def by (auto simp: v void_record_def)
  qed
  with D(2) C(1) W show ?thesis by (intro exI [of _ "vd_target d"] exI [of _ db1]) (auto simp: void_record_def)
qed

lemma resolveItemTarget_Inr:
  "resolveItemTarget tid i db = Inr (target, db') \<longleftrightarrow> db' = db \<and> (\<exists>item ord. loadOrderItem tid i db = Some item \<and> \<not> it_isVoided item \<and>
     loadOrder tid (it_orderId item) db = Some ord \<and> target = \<lparr>vt_order = ord, vt_orderItemId = Some i, vt_itemCreatedAt = Some (it_createdAt item)\<rparr>)"
  by (auto simp: resolveItemTarget_def tx_simps loadOrderItem_def dest: find_row_Some)

lemma resolveOrderTarget_Inr:
  "resolveOrderTarget tid i db = Inr (target, db') \<longleftrightarrow> db' = db \<and> (\<exists>ord. loadOrder tid i db = Some ord \<and> active_items db tid i \<noteq> [] \<and>
     target = \<lparr>vt_order = ord, vt_orderItemId = None, vt_itemCreatedAt = None\<rparr>)"
  by (auto simp: resolveOrderTarget_def tx_simps loadOrder_def loadActiveOrderItems_def dest: find_row_Some)

text \<open>The targets of the two operations.\<close>

definition line_target :: "string \<Rightarrow> string \<Rightarrow> pos_db \<Rightarrow> void_target \<Rightarrow> bool" where
  "line_target tid i db target \<longleftrightarrow> (\<exists>item ord. loadOrderItem tid i db = Some item \<and> \<not> it_isVoided item \<and>
     loadOrder tid (it_orderId item) db = Some ord \<and> target = \<lparr>vt_order = ord, vt_orderItemId = Some i, vt_itemCreatedAt = Some (it_createdAt item)\<rparr>)"

definition order_target :: "string \<Rightarrow> string \<Rightarrow> pos_db \<Rightarrow> void_target \<Rightarrow> bool" where
  "order_target tid i db target \<longleftrightarrow> (\<exists>ord. loadOrder tid i db = Some ord \<and> active_items db tid i \<noteq> [] \<and>
     target = \<lparr>vt_order = ord, vt_orderItemId = None, vt_itemCreatedAt = None\<rparr>)"

lemma voids_Inr:
  "voidOrderItem env tid actor input db = (Inr v, db') \<Longrightarrow> \<exists>target db1. line_target tid (vi_orderItemId input) db target \<and>
     void_authority env tid actor target (vi_voidReasonId input) (vi_managerOverride input) db v \<and>
     override_frame db db1 \<and> void_effect env tid (va_userId actor) target v db1 db' \<and>
     ov_orderId v = o_id (vt_order target) \<and> ov_orderItemId v = Some (vi_orderItemId input) \<and> ov_tenantId v = tid \<and>
     ov_actorUserId v = va_userId actor \<and> ov_occurredAt v = env_now env \<and> ov_notes v = vi_notes input"
  "voidOrder env tid actor whole db = (Inr v, db') \<Longrightarrow> \<exists>target db1. order_target tid (vo_orderId whole) db target \<and>
     void_authority env tid actor target (vo_voidReasonId whole) (vo_managerOverride whole) db v \<and>
     override_frame db db1 \<and> void_effect env tid (va_userId actor) target v db1 db' \<and>
     ov_orderId v = vo_orderId whole \<and> ov_orderItemId v = None \<and> ov_tenantId v = tid \<and>
     ov_actorUserId v = va_userId actor \<and> ov_occurredAt v = env_now env \<and> ov_notes v = vo_notes whole"
proof -
  assume "voidOrderItem env tid actor input db = (Inr v, db')"
  from voidWithinTenant_Inr [OF this [unfolded voidOrderItem_def]] obtain target db1 where
    "resolveItemTarget tid (vi_orderItemId input) db = Inr (target, db)"
    "void_authority env tid actor target (vi_voidReasonId input) (vi_managerOverride input) db v" "override_frame db db1"
    "void_effect env tid (va_userId actor) target v db1 db'" "ov_orderId v = o_id (vt_order target)"
    "ov_orderItemId v = vt_orderItemId target" "ov_tenantId v = tid" "ov_actorUserId v = va_userId actor" "ov_occurredAt v = env_now env"
    "ov_notes v = vi_notes input" by (auto simp: resolveItemTarget_Inr)
  moreover from this(1) have "line_target tid (vi_orderItemId input) db target" "vt_orderItemId target = Some (vi_orderItemId input)"
    by (auto simp: resolveItemTarget_Inr line_target_def)
  ultimately show "\<exists>target db1. line_target tid (vi_orderItemId input) db target \<and>
     void_authority env tid actor target (vi_voidReasonId input) (vi_managerOverride input) db v \<and>
     override_frame db db1 \<and> void_effect env tid (va_userId actor) target v db1 db' \<and>
     ov_orderId v = o_id (vt_order target) \<and> ov_orderItemId v = Some (vi_orderItemId input) \<and> ov_tenantId v = tid \<and>
     ov_actorUserId v = va_userId actor \<and> ov_occurredAt v = env_now env \<and> ov_notes v = vi_notes input"
    by (intro exI [of _ target] exI [of _ db1]) simp
next
  assume "voidOrder env tid actor whole db = (Inr v, db')"
  from voidWithinTenant_Inr [OF this [unfolded voidOrder_def]] obtain target db1 where
    "resolveOrderTarget tid (vo_orderId whole) db = Inr (target, db)"
    "void_authority env tid actor target (vo_voidReasonId whole) (vo_managerOverride whole) db v" "override_frame db db1"
    "void_effect env tid (va_userId actor) target v db1 db'" "ov_orderId v = o_id (vt_order target)"
    "ov_orderItemId v = vt_orderItemId target" "ov_tenantId v = tid" "ov_actorUserId v = va_userId actor" "ov_occurredAt v = env_now env"
    "ov_notes v = vo_notes whole" by (auto simp: resolveOrderTarget_Inr)
  moreover from this(1) have "order_target tid (vo_orderId whole) db target" "vt_orderItemId target = None" "o_id (vt_order target) = vo_orderId whole"
    using find_row_Some by (fastforce simp: resolveOrderTarget_Inr order_target_def loadOrder_def)+
  ultimately show "\<exists>target db1. order_target tid (vo_orderId whole) db target \<and>
     void_authority env tid actor target (vo_voidReasonId whole) (vo_managerOverride whole) db v \<and>
     override_frame db db1 \<and> void_effect env tid (va_userId actor) target v db1 db' \<and>
     ov_orderId v = vo_orderId whole \<and> ov_orderItemId v = None \<and> ov_tenantId v = tid \<and>
     ov_actorUserId v = va_userId actor \<and> ov_occurredAt v = env_now env \<and> ov_notes v = vo_notes whole"
    by (intro exI [of _ target] exI [of _ db1]) simp
qed

text \<open>
  C9. Authority to void: a void that succeeds, of a line or of a whole order, was made by a user with the permission to void at the branch of
  the order, on an order that is not paid, for an enabled reason, within the tenant's time limit of the line (of the oldest active line, for an
  order). The actor's own tier is at least the tier the reason asks for, or a manager of the branch, active in the tenant, confirmed
  with the PIN in this very operation; the record names the tier, and the manager and the time of the confirmation exactly in the second case.
\<close>

theorem voids_authorized:
  "(\<forall>env tid actor input db v db'. voidOrderItem env tid actor input db = (Inr v, db') \<longrightarrow>
      (\<exists>target. line_target tid (vi_orderItemId input) db target \<and>
         void_authority env tid actor target (vi_voidReasonId input) (vi_managerOverride input) db v)) \<and>
   (\<forall>env tid actor whole db v db'. voidOrder env tid actor whole db = (Inr v, db') \<longrightarrow>
      (\<exists>target. order_target tid (vo_orderId whole) db target \<and>
         void_authority env tid actor target (vo_voidReasonId whole) (vo_managerOverride whole) db v))"
  by (intro conjI allI impI) (blast dest: voids_Inr)+


section \<open>Witnesses\<close>

lemma example_trim: "js_trim ''b1'' = ''b1''" by code_simp

definition example_void :: void_order_item_input where
  "example_void = \<lparr>vi_orderItemId = ''i1'', vi_voidReasonId = ''v1'', vi_managerOverride = None, vi_notes = None\<rparr>"
definition example_manager :: void_actor where
  "example_manager = \<lparr>va_userId = ''m1'', va_tokenSecV = ''v''\<rparr>"
definition example_void_decision :: void_decision where
  "example_void_decision = \<lparr>vd_target = \<lparr>vt_order = example_order op_open 0, vt_orderItemId = Some ''i1'', vt_itemCreatedAt = Some 200\<rparr>,
     vd_reason = \<lparr>rs_id = ''v1'', rs_requiredPermissionTier = manager, rs_isEnabled = True, rs_kindCode = ''spoiled'', rs_kindSettingEnabled = True\<rparr>,
     vd_actorTier = manager, vd_requiredManagerOverride = False, vd_challenge = None\<rparr>"

lemma example_decides:
 "decideVoid example_env ''t1'' example_manager (resolveItemTarget ''t1'' ''i1'') ''v1'' None example_db = Inr (example_void_decision, example_db)"
  by (simp add: example_fields db_run decideVoid_def resolveItemTarget_def loadOrderItem_def loadOrder_def loadVoidReason_def find_row_def
     assertVoidAllowedUnderPaymentStatus_def assertWithinTimeLimit_def loadVoidTimeLimitMinutes_def governingCreatedAt_def
     resolveVoidPermissionTier_def example_manager_def example_void_decision_def tier_step_def example_trim void_check_def cong: db_run_cong)

lemma example_writes: "\<exists>v db'. voidWrites example_env ''t1'' example_manager example_void_decision None None example_db = Inr (v, db')"
  by (simp add: example_fields db_run voidWrites_def example_void_decision_def example_manager_def lockOrderRow_def find_row_def update_where_def bumpOrderRevision_def
   insertOrderVoid_def markOrderItemsVoided_def loadActiveOrderItems_def active_items_def voidEvents_def appendEvent_def next_order_event_sequence_def upsert_sequence_def
   writeVoidStockMovements_def loadSaleDeductionsForOrderItems_def deduction_rows_def group_keys_def movement_key_def loadItemsWithKitchenTicketFired_def fires_ticket_def
   loadVoidRestorationKeys_def voidMovement_def insertOrderStockMovement_def insertStockMovement_def postInventoryRestoration_def
   compareCreated_def example_quantities recomputeOrderStatus_def derived_target_def item_roots_def root_kind_def comparePositions_def loadOrder_def  cong: db_run_cong)

lemma example_voids: "\<exists>v db'. voidOrderItem example_env ''t1'' example_manager example_void example_db = (Inr v, db')"
  using example_writes example_decides
  by (auto simp: voidOrderItem_def voidWithinTenant_def example_void_def op_bind_Inr store_run_def run_tx_Inr tx_bind_Inr tx_lift_Inr example_env_fields
      challengeVoid_def example_void_decision_def op_return_Inr)

theorem voids_authorized_witness:
  "\<exists>v db' target. voidOrderItem example_env ''t1'' example_manager example_void example_db = (Inr v, db') \<and>
     void_authority example_env ''t1'' example_manager target ''v1'' None example_db v"
proof -
  obtain v db' where run: "voidOrderItem example_env ''t1'' example_manager example_void example_db = (Inr v, db')" using example_voids by blast
  from voids_authorized [THEN conjunct1, rule_format, OF run] show ?thesis using run by (auto simp: example_void_def)
qed


end
