(* ===== verification/Tax_Resolution.thy ===== *)
theory Tax_Resolution
  imports Orders_Store Cascading
begin

text \<open>
  Models of \<^verbatim>\<open>src/application/engines/tax/tax-resolution-engine.ts\<close>, which decides who owes the tax of an order line and
  which categories and rates apply, and of the transaction scope it runs on
  (\<^verbatim>\<open>src/infrastructure/db/repositories/postgres-tax-resolution-transaction.ts\<close>). The local calendar date of the
  branch is \<open>env_localDate\<close>. Display names are left out; the tenant of the scope is the one it was opened for.
\<close>

section \<open>The transaction scope\<close>

definition getBranch :: "string \<Rightarrow> string \<Rightarrow> pos_db \<Rightarrow> tax_branch option" where
  "getBranch tid branchId db =
     map_option (\<lambda>b. \<lparr>tb_id = br_id b, tb_countryCode = br_countryCode b, tb_currencyCode = br_baseCurrency b, tb_timezone = br_timezone b,
         tb_isActive = br_isActive b,
         tb_jurisdiction = (case br_countryCode b of None \<Rightarrow> None
           | Some c \<Rightarrow> find_row (\<lambda>j. tj_countryCode j = c) (tt_jurisdictions (db_tax db)))\<rparr>)
       (find_row (\<lambda>b. br_id b = branchId \<and> br_tenantId b = tid) (db_branches db))"

definition getVatRegistrationStatus :: "string \<Rightarrow> pos_db \<Rightarrow> vat_registration_status result" where
  "getVatRegistrationStatus tid db =
     (case find_row (\<lambda>t. tn_id t = tid) (db_tenants db) of None \<Rightarrow> Inl NotFoundError | Some t \<Rightarrow> Inr (tn_vatRegistrationStatus t))"

definition getSalesChannel :: "string \<Rightarrow> pos_db \<Rightarrow> sales_channel option" where
  "getSalesChannel channelCode db = find_row (\<lambda>c. sc_code c = channelCode) (tt_salesChannels (db_tax db))"

definition getDeliveryPlatform :: "string \<Rightarrow> pos_db \<Rightarrow> delivery_platform option" where
  "getDeliveryPlatform i db = find_row (\<lambda>p. dp_id p = i) (tt_deliveryPlatforms (db_tax db))"

definition in_effect :: "string \<Rightarrow> string option \<Rightarrow> string \<Rightarrow> bool" where
  "in_effect from until on \<longleftrightarrow> from \<le> on \<and> (case until of None \<Rightarrow> True | Some t \<Rightarrow> t \<ge> on)"

definition findLiabilityRules :: "string \<Rightarrow> string \<Rightarrow> string option \<Rightarrow> bool \<Rightarrow> string \<Rightarrow> pos_db \<Rightarrow> tax_liability_rule list" where
  "findLiabilityRules country channel platformId isRegistered on db =
     filter (\<lambda>r. lr_countryCode r = country \<and> lr_salesChannelCode r = channel \<and> lr_appliesWhenTenantRegistered r = isRegistered \<and>
       (lr_deliveryPlatformId r = platformId \<or> lr_deliveryPlatformId r = None) \<and>
       in_effect (lr_effectiveFrom r) (lr_effectiveTo r) on) (tt_liabilityRules (db_tax db))"

definition compareText :: "string \<Rightarrow> string \<Rightarrow> int" where
  "compareText a b = (if a < b then -1 else if a > b then 1 else 0)"

definition getMenuItemAssignment :: "string \<Rightarrow> string \<Rightarrow> pos_db \<Rightarrow> menu_item_tax_assignment option" where
  "getMenuItemAssignment tid menuItemId db =
     map_option (\<lambda>m. \<lparr>ma_menuItemId = mi_id m, ma_isActive = mi_isActive m, ma_taxRuleId = mi_taxRuleId m,
         ma_additionalTaxCategoryIds = js_sort compareText (mi_additionalTaxCategoryIds m)\<rparr>)
       (find_row (\<lambda>m. mi_id m = menuItemId \<and> mi_tenantId m = tid) (mn_items (db_menu db)))"

definition getCategory :: "string \<Rightarrow> pos_db \<Rightarrow> tax_category option" where
  "getCategory i db = find_row (\<lambda>c. tc_id c = i) (tt_categories (db_tax db))"

definition getBranchOverride :: "string \<Rightarrow> string \<Rightarrow> string \<Rightarrow> pos_db \<Rightarrow> string option" where
  "getBranchOverride tid branchId originalCategoryId db =
     map_option bo_overrideTaxCategoryId (find_row (\<lambda>x. bo_tenantId x = tid \<and> bo_branchId x = branchId \<and>
       bo_menuItemTaxCategoryId x = originalCategoryId) (tt_overrides (db_tax db)))"

text \<open>A tenant's own rate, re-labelled with the platform category it stands for, shadows the platform's.\<close>

definition tenant_rates_on :: "string \<Rightarrow> string \<Rightarrow> string \<Rightarrow> pos_db \<Rightarrow> tax_rate list" where
  "tenant_rates_on tid categoryId on db =
     (case find_row (\<lambda>k. tk_tenantId k = tid \<and> tk_platformCategoryId k = categoryId \<and> tk_isActive k) (tt_tenantCategories (db_tax db)) of
        None \<Rightarrow> []
      | Some k \<Rightarrow> map snd (filter (\<lambda>(t, r). tr_taxCategoryId r = tk_id k \<and> t = tid \<and> in_effect (tr_effectiveFrom r) (tr_effectiveTo r) on)
          (tt_tenantRates (db_tax db))))"

definition platform_rates_on :: "string \<Rightarrow> string \<Rightarrow> pos_db \<Rightarrow> tax_rate list" where
  "platform_rates_on categoryId on db =
     filter (\<lambda>r. tr_taxCategoryId r = categoryId \<and> in_effect (tr_effectiveFrom r) (tr_effectiveTo r) on) (tt_rates (db_tax db))"

definition getApplicableRate :: "string \<Rightarrow> string \<Rightarrow> string \<Rightarrow> pos_db \<Rightarrow> tax_rate option result" where
  "getApplicableRate tid categoryId on db =
     (case tenant_rates_on tid categoryId on db of
        r # _ # _ \<Rightarrow> Inl TaxConfigurationError
      | [r] \<Rightarrow> Inr (Some (r\<lparr>tr_source := Some tenant, tr_taxCategoryId := categoryId\<rparr>))
      | [] \<Rightarrow>
          (case platform_rates_on categoryId on db of
             r # _ # _ \<Rightarrow> Inl TaxConfigurationError
           | [r] \<Rightarrow> Inr (Some (r\<lparr>tr_source := Some platform\<rparr>))
           | [] \<Rightarrow> Inr None))"

definition hasExciseConfirmation :: "string \<Rightarrow> string \<Rightarrow> string \<Rightarrow> string \<Rightarrow> pos_db \<Rightarrow> bool" where
  "hasExciseConfirmation tid menuItemId categoryId branchId db \<longleftrightarrow>
     (\<exists>c\<in>set (tt_exciseConfirmations (db_tax db)). ec_tenantId c = tid \<and> ec_menuItemId c = menuItemId \<and> ec_taxCategoryId c = categoryId \<and>
        (ec_branchId c = None \<or> ec_branchId c = Some branchId))"

definition insertContext :: "pos_env \<Rightarrow> order_line_tax_context \<Rightarrow> (pos_db, unit) tx" where
  "insertContext env context =
     tx_bind (db_check env (WTaxContext context)) (\<lambda>_.
     tx_write (\<lambda>db. db\<lparr>db_taxContexts := db_taxContexts db @ [context]\<rparr>))"

text \<open>
  A snapshot row as the payments store reads it back, joined with its context and with the cascade priority of the category its
  rate belongs to: a tenant's rate belongs to a category of the tenant.
\<close>

definition snapshot_priority :: "string \<Rightarrow> resolved_tax_line \<Rightarrow> pos_db \<Rightarrow> int option" where
  "snapshot_priority tid tax db =
     (if rl_source tax = Some tenant
      then (case find_row (\<lambda>(t, r). tr_id r = rl_taxRateId tax \<and> t = tid) (tt_tenantRates (db_tax db)) of
              None \<Rightarrow> None
            | Some (t, r) \<Rightarrow> map_option tk_cascadePriority
                (find_row (\<lambda>k. tk_id k = tr_taxCategoryId r \<and> tk_tenantId k = tid) (tt_tenantCategories (db_tax db))))
      else (case find_row (\<lambda>r. tr_id r = rl_taxRateId tax) (tt_rates (db_tax db)) of
              None \<Rightarrow> None
            | Some r \<Rightarrow> map_option tc_cascadePriority (getCategory (tr_taxCategoryId r) db)))"

definition snapshot_row :: "order_line_tax_context \<Rightarrow> resolved_tax_line \<Rightarrow> int \<Rightarrow> tax_snapshot_row" where
  "snapshot_row context tax priority =
     \<lparr>ts_orderLineId = cx_orderLineId context, ts_computationSequence = rl_computationSequence tax,
      ts_plan = \<lparr>tp_taxRateId = rl_taxRateId tax, tp_taxFamily = rl_taxFamily tax, tp_cascadePriority = priority,
        tp_rateBps = rl_rateBps tax, tp_isPriceInclusive = rl_isPriceInclusive tax\<rparr>,
      ts_liableParty = cx_liableParty context, ts_roundingStrategy = cx_roundingStrategy context,
      ts_taxableAmountMinor = rl_taxableAmountMinor tax, ts_taxAmountMinor = rl_taxAmountMinor tax,
      ts_currencyCode = cx_currencyCode context\<rparr>"

definition insertSnapshots :: "pos_env \<Rightarrow> string \<Rightarrow> order_line_tax_context \<Rightarrow> resolved_tax_line list \<Rightarrow> (pos_db, unit) tx" where
  "insertSnapshots env tid context taxes =
     tx_for (\<lambda>tax.
       tx_bind (tx_read (snapshot_priority tid tax)) (\<lambda>found.
       tx_bind (tx_some found (PgError ''23503'' None ''tax rate'')) (\<lambda>priority.
       let row = snapshot_row context tax priority in
       tx_bind (db_check env (WTaxSnapshot row)) (\<lambda>_.
       tx_write (\<lambda>db. db\<lparr>db_taxRows := db_taxRows db @ [row]\<rparr>))))) taxes"

section \<open>Preparing a line\<close>

record tax_line_request =
  tq_orderLineId :: string
  tq_branchId :: string
  tq_menuItemId :: string
  tq_grossOrNetAmountMinor :: int
  tq_currencyCode :: string
  tq_at :: int
  tq_salesChannel :: string
  tq_deliveryPlatformId :: "string option"

record external_tax_liability =
  et_liabilityRuleId :: string
  et_countryCode :: string
  et_salesChannel :: string
  et_deliveryPlatformId :: string

datatype tax_resolution = External external_tax_liability | Resolved "resolved_tax_line list"

fun isExternalTaxLiability :: "tax_resolution \<Rightarrow> bool" where
  "isExternalTaxLiability (External _) = True"
| "isExternalTaxLiability (Resolved _) = False"

record prepared_line =
  pp_context :: order_line_tax_context
  pp_external :: "external_tax_liability option"
  pp_computation :: "tax_computation_plan option"

definition chooseLiabilityRule :: "tax_liability_rule list \<Rightarrow> string option \<Rightarrow> string \<Rightarrow> string \<Rightarrow> string \<Rightarrow> tax_liability_rule result" where
  "chooseLiabilityRule rules platformId country channel on =
     (let exct = filter (\<lambda>r. lr_deliveryPlatformId r = platformId) rules;
          matches = (if exct \<noteq> [] then exct else filter (\<lambda>r. lr_deliveryPlatformId r = None) rules)
      in if length matches > 1 then Inl TaxConfigurationError
         else case matches of [] \<Rightarrow> Inl (NoApplicableTaxLiabilityRuleError country channel on) | r # _ \<Rightarrow> Inr r)"

text \<open>The branch, its jurisdiction and the channel and platform of the request; the date is the branch's.\<close>

definition taxBranch :: "string \<Rightarrow> tax_line_request \<Rightarrow> pos_db \<Rightarrow> (tax_branch \<times> string \<times> tax_jurisdiction) result" where
  "taxBranch tid req db =
     (case getBranch tid (tq_branchId req) db of
        None \<Rightarrow> Inl NotFoundError
      | Some branch \<Rightarrow>
          if \<not> tb_isActive branch then Inl NotFoundError
          else (case (tb_countryCode branch, tb_jurisdiction branch) of
                  (Some country, Some jurisdiction) \<Rightarrow>
                    if tj_isActive jurisdiction then Inr (branch, country, jurisdiction) else Inl TaxConfigurationError
                | _ \<Rightarrow> Inl TaxConfigurationError))"

definition assertChannel :: "string \<Rightarrow> tax_line_request \<Rightarrow> pos_db \<Rightarrow> unit result" where
  "assertChannel country req db =
     (case getSalesChannel (tq_salesChannel req) db of
        None \<Rightarrow> Inl TaxConfigurationError
      | Some channel \<Rightarrow>
          if sc_requiresDeliveryPlatform channel \<noteq> (tq_deliveryPlatformId req \<noteq> None) then Inl (ValidationError (Some ''deliveryPlatformId''))
          else (case tq_deliveryPlatformId req of
                  None \<Rightarrow> Inr ()
                | Some p \<Rightarrow>
                    (case getDeliveryPlatform p db of
                       None \<Rightarrow> Inl TaxConfigurationError
                     | Some plat \<Rightarrow>
                         if \<not> dp_isActive plat \<or> (dp_countryCode plat \<noteq> None \<and> dp_countryCode plat \<noteq> Some country)
                         then Inl TaxConfigurationError else Inr ())))"

definition chooseLiability :: "string \<Rightarrow> string \<Rightarrow> tax_line_request \<Rightarrow> string \<Rightarrow> pos_db \<Rightarrow> tax_liability_rule result" where
  "chooseLiability tid country req on db =
     andThen (getVatRegistrationStatus tid db) (\<lambda>status.
     let isRegistered = (status = registered);
         candidates = findLiabilityRules country (tq_salesChannel req) (tq_deliveryPlatformId req) isRegistered on db;
         matches = filter (\<lambda>r. lr_countryCode r = country \<and> lr_salesChannelCode r = tq_salesChannel req \<and>
           lr_appliesWhenTenantRegistered r = isRegistered \<and> in_effect (lr_effectiveFrom r) (lr_effectiveTo r) on \<and>
           (lr_deliveryPlatformId r = None \<or> lr_deliveryPlatformId r = tq_deliveryPlatformId req)) candidates
     in chooseLiabilityRule matches (tq_deliveryPlatformId req) country (tq_salesChannel req) on)"

definition resolveCategory :: "string \<Rightarrow> string \<Rightarrow> tax_line_request \<Rightarrow> pos_db \<Rightarrow> string \<Rightarrow> tax_category result" where
  "resolveCategory tid country req db originalId =
     (case getCategory originalId db of
        None \<Rightarrow> Inl TaxConfigurationError
      | Some source \<Rightarrow>
          if \<not> tc_isActive source then Inl TaxConfigurationError
          else
            (case (case getBranchOverride tid (tq_branchId req) originalId db of None \<Rightarrow> Some source | Some i \<Rightarrow> getCategory i db) of
               None \<Rightarrow> Inl TaxConfigurationError
             | Some category \<Rightarrow>
                 if \<not> tc_isActive category \<or> tc_countryCode category \<noteq> country then Inl TaxConfigurationError
                 else if tc_taxFamily category \<noteq> tc_taxFamily source then Inl TaxConfigurationError
                 else if tc_taxFamily category = excise \<and> \<not> hasExciseConfirmation tid (tq_menuItemId req) (tc_id category) (tq_branchId req) db
                 then Inl ExciseConfirmationRequiredError
                 else Inr category))"

definition resolveRate :: "string \<Rightarrow> string \<Rightarrow> pos_db \<Rightarrow> tax_category \<Rightarrow> applicable_tax result" where
  "resolveRate tid on db category =
     andThen (getApplicableRate tid (tc_id category) on db) (\<lambda>found.
     case found of
       None \<Rightarrow> Inl (NoApplicableTaxRateError (tc_id category) on)
     | Some rate \<Rightarrow>
         andThen (assertTaxRateBps (tr_rateBps rate)) (\<lambda>_.
         if tr_taxCategoryId rate \<noteq> tc_id category \<or> \<not> in_effect (tr_effectiveFrom rate) (tr_effectiveTo rate) on then Inl TaxConfigurationError
         else if (tc_kind category = no_vat \<and> (tr_rateBps rate \<noteq> 0 \<or> tr_effectiveTo rate \<noteq> None \<or> tr_supersededBy rate \<noteq> None)) \<or>
                 ((tc_kind category = zero_rated \<or> tc_kind category = exempt) \<and> tr_rateBps rate \<noteq> 0)
         then Inl TaxConfigurationError
         else Inr \<lparr>at_category = category, at_rate = rate\<rparr>))"

definition lineTaxes :: "string \<Rightarrow> string \<Rightarrow> string \<Rightarrow> tax_line_request \<Rightarrow> pos_db \<Rightarrow> applicable_tax list result" where
  "lineTaxes tid country on req db =
     (case getMenuItemAssignment tid (tq_menuItemId req) db of
        None \<Rightarrow> Inl NotFoundError
      | Some assignment \<Rightarrow>
          if \<not> ma_isActive assignment then Inl NotFoundError
          else (case ma_taxRuleId assignment of
                  None \<Rightarrow> Inl TaxConfigurationError
                | Some primary \<Rightarrow>
                    andThen (mapR (resolveCategory tid country req db) (primary # ma_additionalTaxCategoryIds assignment)) (\<lambda>categories.
                    andThen (sortTaxCategories categories) (\<lambda>ordered.
                    mapR (resolveRate tid on db) ordered))))"

definition taxContext :: "string \<Rightarrow> tax_line_request \<Rightarrow> tax_liability_rule \<Rightarrow> tax_rounding_strategy \<Rightarrow> order_line_tax_context" where
  "taxContext tid req liability roundingStrategy =
     \<lparr>cx_tenantId = tid, cx_orderLineId = tq_orderLineId req, cx_branchId = tq_branchId req,
      cx_menuItemId = tq_menuItemId req, cx_customerAmountMinor = tq_grossOrNetAmountMinor req,
      cx_currencyCode = tq_currencyCode req, cx_salesChannel = tq_salesChannel req,
      cx_deliveryPlatformId = tq_deliveryPlatformId req, cx_liabilityRuleId = lr_id liability,
      cx_liableParty = lr_liableParty liability, cx_roundingStrategy = roundingStrategy, cx_occurredAt = tq_at req\<rparr>"

text \<open>The rest of the preparation, once the liability is decided.\<close>

definition prepareUnder ::
  "string \<Rightarrow> tax_line_request \<Rightarrow> string \<Rightarrow> tax_rounding_strategy \<Rightarrow> string \<Rightarrow> tax_liability_rule \<Rightarrow> pos_db \<Rightarrow> prepared_line result" where
  "prepareUnder tid req country roundingStrategy on liability db =
     (let context = taxContext tid req liability roundingStrategy in
     if lr_liableParty liability = marketplace
     then (case tq_deliveryPlatformId req of
             None \<Rightarrow> Inl TaxConfigurationError
           | Some p \<Rightarrow> Inr \<lparr>pp_context = context,
               pp_external = Some \<lparr>et_liabilityRuleId = lr_id liability, et_countryCode = country, et_salesChannel = tq_salesChannel req,
                 et_deliveryPlatformId = p\<rparr>, pp_computation = None\<rparr>)
     else
       andThen (lineTaxes tid country on req db) (\<lambda>taxes.
       Inr \<lparr>pp_context = context, pp_external = None,
            pp_computation = Some \<lparr>pl_orderLineId = tq_orderLineId req, pl_amountMinor = tq_grossOrNetAmountMinor req,
              pl_currencyCode = tq_currencyCode req, pl_taxes = taxes\<rparr>\<rparr>))"

definition prepareLine :: "pos_env \<Rightarrow> string \<Rightarrow> tax_line_request \<Rightarrow> pos_db \<Rightarrow> prepared_line result" where
  "prepareLine env tid req db =
     andThen (assertTaxAmount (tq_grossOrNetAmountMinor req)) (\<lambda>_.
     andThen (taxBranch tid req db) (\<lambda>(branch, country, jurisdiction).
     if tq_currencyCode req \<noteq> tb_currencyCode branch then Inl (ValidationError (Some ''currencyCode''))
     else
     andThen (taxDateInTimezone (env_localDate env) (Some (tq_at req)) (tb_timezone branch)) (\<lambda>on.
     andThen (assertChannel country req db) (\<lambda>_.
     andThen (chooseLiability tid country req on db) (\<lambda>liability.
     prepareUnder tid req country (tj_roundingStrategy jurisdiction) on liability db)))))"

section \<open>Resolving and recording\<close>

definition persistPrepared :: "pos_env \<Rightarrow> string \<Rightarrow> prepared_line \<Rightarrow> tax_resolution \<Rightarrow> (pos_db, unit) tx" where
  "persistPrepared env tid prepared resolution =
     tx_bind (insertContext env (pp_context prepared)) (\<lambda>_.
     case resolution of External _ \<Rightarrow> tx_return ()
     | Resolved taxes \<Rightarrow> insertSnapshots env tid (pp_context prepared) taxes)"

definition resolveAndSnapshot :: "pos_env \<Rightarrow> string \<Rightarrow> tax_line_request \<Rightarrow> (pos_db, tax_resolution) tx" where
  "resolveAndSnapshot env tid req =
     tx_bind (tx_readR (prepareLine env tid req)) (\<lambda>prepared.
     case pp_external prepared of
       Some ext \<Rightarrow> tx_bind (persistPrepared env tid prepared (External ext)) (\<lambda>_. tx_return (External ext))
     | None \<Rightarrow>
         tx_bind (tx_guard (cx_roundingStrategy (pp_context prepared) \<noteq> invoice_total) InvoiceTaxBatchRequiredError) (\<lambda>_.
         tx_bind (tx_some (pp_computation prepared) TaxConfigurationError) (\<lambda>computation.
         tx_bind (tx_lift (calculateCascadingTaxes [computation] per_line)) (\<lambda>rows.
         tx_bind (tx_some (map_of rows (tq_orderLineId req)) TaxConfigurationError) (\<lambda>taxes.
         tx_bind (persistPrepared env tid prepared (Resolved taxes)) (\<lambda>_.
         tx_return (Resolved taxes)))))))"

definition same_invoice :: "tax_line_request \<Rightarrow> tax_line_request \<Rightarrow> bool" where
  "same_invoice first r \<longleftrightarrow> tq_branchId r = tq_branchId first \<and> tq_currencyCode r = tq_currencyCode first \<and>
     tq_salesChannel r = tq_salesChannel first \<and> tq_deliveryPlatformId r = tq_deliveryPlatformId first \<and> tq_at r = tq_at first"

definition computations_of :: "prepared_line list \<Rightarrow> tax_computation_plan list" where
  "computations_of prepared = concat (map (\<lambda>p. case pp_computation p of None \<Rightarrow> [] | Some c \<Rightarrow> [c]) prepared)"

definition line_result :: "rows_map \<Rightarrow> prepared_line \<Rightarrow> tax_resolution option" where
  "line_result calculated line =
     (case pp_external line of Some ext \<Rightarrow> Some (External ext)
      | None \<Rightarrow> map_option Resolved (map_of calculated (cx_orderLineId (pp_context line))))"

fun persistAll :: "pos_env \<Rightarrow> string \<Rightarrow> rows_map \<Rightarrow> prepared_line list \<Rightarrow> (pos_db, (string \<times> tax_resolution) list) tx" where
  "persistAll env tid calculated [] = tx_return []"
| "persistAll env tid calculated (line # rest) =
     tx_bind (tx_some (line_result calculated line) TaxConfigurationError) (\<lambda>resolved.
     tx_bind (persistPrepared env tid line resolved) (\<lambda>_.
     tx_bind (persistAll env tid calculated rest) (\<lambda>result.
     tx_return ((cx_orderLineId (pp_context line), resolved) # result))))"

definition resolveInvoiceAndSnapshot ::
  "pos_env \<Rightarrow> string \<Rightarrow> tax_line_request list \<Rightarrow> (pos_db, (string \<times> tax_resolution) list) tx" where
  "resolveInvoiceAndSnapshot env tid requests =
     (case requests of
        [] \<Rightarrow> tx_throw (ValidationError None)
      | first # _ \<Rightarrow>
          tx_bind (tx_guard (distinct (map tq_orderLineId requests)) (ValidationError None)) (\<lambda>_.
          tx_bind (tx_guard (list_all (same_invoice first) requests) (ValidationError None)) (\<lambda>_.
          tx_bind (tx_readR (\<lambda>db. mapR (\<lambda>r. prepareLine env tid r db) requests)) (\<lambda>prepared.
          let strategy = cx_roundingStrategy (pp_context (hd prepared)) in
          tx_bind (tx_guard (list_all (\<lambda>p. cx_roundingStrategy (pp_context p) = strategy) prepared) TaxConfigurationError) (\<lambda>_.
          tx_bind (tx_lift (calculateCascadingTaxes (computations_of prepared) strategy)) (\<lambda>calculated.
          persistAll env tid calculated prepared))))))"

section \<open>The coordinator of an order line\<close>

text \<open>\<open>resultFor\<close> of \<^verbatim>\<open>src/application/engines/orders/order-tax-coordinator.ts\<close>: what the customer pays for a line.\<close>

record taxed_order_line =
  tl_orderLineId :: string
  tl_taxes :: tax_resolution
  tl_restaurantTaxInvoiceAllowed :: bool
  tl_amountPayableMinor :: int

definition exclusive_total :: "resolved_tax_line list \<Rightarrow> int" where
  "exclusive_total taxes = foldl (\<lambda>s t. s + (if rl_isPriceInclusive t then 0 else rl_taxAmountMinor t)) 0 taxes"

definition resultFor :: "tax_line_request \<Rightarrow> tax_resolution \<Rightarrow> taxed_order_line result" where
  "resultFor req taxes =
     (let payable = tq_grossOrNetAmountMinor req + (case taxes of External _ \<Rightarrow> 0 | Resolved ts \<Rightarrow> exclusive_total ts) in
      andThen (assertTaxAmount payable) (\<lambda>_.
      Inr \<lparr>tl_orderLineId = tq_orderLineId req, tl_taxes = taxes, tl_restaurantTaxInvoiceAllowed = (\<not> isExternalTaxLiability taxes),
           tl_amountPayableMinor = payable\<rparr>))"

record new_taxable_order_line =
  nt_branchId :: string
  nt_menuItemId :: string
  nt_customerAmountMinor :: int
  nt_amountBasis :: string
  nt_currencyCode :: string
  nt_at :: int
  nt_salesChannel :: string
  nt_deliveryPlatformId :: "string option"

record created_taxable_order_line =
  ct_orderLineId :: string
  ct_branchId :: string
  ct_menuItemId :: string
  ct_amountMinor :: int
  ct_amountBasis :: string
  ct_currencyCode :: string

definition assertCustomerBasis :: "new_taxable_order_line \<Rightarrow> unit result" where
  "assertCustomerBasis input =
     andThen (assertTaxAmount (nt_customerAmountMinor input)) (\<lambda>_.
     if nt_amountBasis input \<noteq> ''customer_price'' then Inl (ValidationError (Some ''amountBasis'')) else Inr ())"

definition bindWrittenLine :: "new_taxable_order_line \<Rightarrow> created_taxable_order_line \<Rightarrow> int \<Rightarrow> tax_line_request result" where
  "bindWrittenLine input created serverAt =
     (if ct_amountBasis created \<noteq> ''customer_price'' \<or> ct_amountMinor created \<noteq> nt_customerAmountMinor input \<or>
         ct_currencyCode created \<noteq> nt_currencyCode input \<or> ct_branchId created \<noteq> nt_branchId input \<or> ct_menuItemId created \<noteq> nt_menuItemId input
      then Inl (ValidationError None)
      else Inr \<lparr>tq_orderLineId = ct_orderLineId created, tq_branchId = nt_branchId input, tq_menuItemId = nt_menuItemId input,
        tq_grossOrNetAmountMinor = nt_customerAmountMinor input, tq_currencyCode = nt_currencyCode input, tq_at = serverAt,
        tq_salesChannel = nt_salesChannel input, tq_deliveryPlatformId = nt_deliveryPlatformId input\<rparr>)"

text \<open>The writer of the order line is handed to the unit of work by the caller: a parameter.\<close>

type_synonym line_writer = "new_taxable_order_line \<Rightarrow> (pos_db, created_taxable_order_line) tx"

definition createLine :: "pos_env \<Rightarrow> line_writer \<Rightarrow> string \<Rightarrow> new_taxable_order_line \<Rightarrow> (pos_db, taxed_order_line) op" where
  "createLine env createOrderLine tid input =
     op_bind (op_lift (assertCustomerBasis input)) (\<lambda>_.
     let timed = input\<lparr>nt_at := env_now env\<rparr> in
     store_run env tid
       (tx_bind (createOrderLine timed) (\<lambda>created.
        tx_bind (tx_lift (bindWrittenLine timed created (env_now env))) (\<lambda>req.
        tx_bind (resolveAndSnapshot env tid req) (\<lambda>taxes.
        tx_lift (resultFor req taxes))))))"

fun writeLines :: "pos_env \<Rightarrow> line_writer \<Rightarrow> new_taxable_order_line list \<Rightarrow> (pos_db, tax_line_request list) tx" where
  "writeLines env createOrderLine [] = tx_return []"
| "writeLines env createOrderLine (input # rest) =
     (let timed = input\<lparr>nt_at := env_now env\<rparr> in
     tx_bind (createOrderLine timed) (\<lambda>created.
     tx_bind (tx_lift (bindWrittenLine timed created (env_now env))) (\<lambda>req.
     tx_bind (writeLines env createOrderLine rest) (\<lambda>requests.
     tx_return (req # requests)))))"

definition createInvoice :: "pos_env \<Rightarrow> line_writer \<Rightarrow> string \<Rightarrow> new_taxable_order_line list \<Rightarrow> (pos_db, taxed_order_line list) op" where
  "createInvoice env createOrderLine tid inputs =
     op_bind (op_lift (if inputs = [] then Inl (ValidationError None) else Inr ())) (\<lambda>_.
     op_bind (op_lift (mapR assertCustomerBasis inputs)) (\<lambda>_.
     store_run env tid
       (tx_bind (writeLines env createOrderLine inputs) (\<lambda>requests.
        tx_bind (resolveInvoiceAndSnapshot env tid requests) (\<lambda>resolved.
        tx_lift (mapR (\<lambda>req. case map_of resolved (tq_orderLineId req) of
            None \<Rightarrow> Inl TaxConfigurationError | Some taxes \<Rightarrow> resultFor req taxes) requests))))))"

end
