(* ===== verification/Order_Creation.thy ===== *)
theory Order_Creation
  imports Tax_Resolution
begin

text \<open>
  Model of \<^verbatim>\<open>src/application/engines/orders/order-creation-engine.ts\<close> and of the operations of the orders scope it uses. An order is
  created in three steps: a read transaction that checks the gates and then the stock, a manager's challenge when a
  component would run short, and one write transaction with the order, its items, their first status events, their taxes and the
  stock they use. A quantity in stock is the sum of the movements of the component; a row whose primary key is
  taken is rejected; the posting of costs by \<open>post_inventory_consumption\<close> is recorded as a call.
\<close>

section \<open>Requests\<close>

record new_order_item_line =
  nl_menuItemId :: string
  nl_quantity :: js_number
  nl_unitPriceMinor :: "int option"
  nl_modifiers :: "order_item_modifier_snapshot list"
  nl_splitGroupId :: "string option"

record new_order_input =
  no_branchId :: string
  no_cashierUserId :: string
  no_orderType :: order_type
  no_salesChannelCode :: string
  no_deliveryPlatformId :: "string option"
  no_tableId :: "string option"
  no_splitPeopleCount :: "js_number option"
  no_items :: "new_order_item_line list"
  no_occurredAt :: "int option"
  no_managerOverride :: "manager_override_challenge_input option"

record created_order =
  cr_order :: order_row
  cr_items :: "(order_item_row \<times> tax_resolution) list"

section \<open>The store\<close>

record inventory_item_record =
  iv_id :: string
  iv_tenantId :: string
  iv_branchId :: string
  iv_name :: localized_text
  iv_baseUnit :: string
  iv_currentQuantity :: string
  iv_lowStockThreshold :: "string option"
  iv_isActive :: bool

definition current_quantity :: "string \<Rightarrow> string \<Rightarrow> pos_db \<Rightarrow> string result" where
  "current_quantity tid inventoryItemId db =
     andThen (numeric4_sum (map sm_quantityDelta (filter (\<lambda>m. sm_tenantId m = tid \<and> sm_inventoryItemId m = inventoryItemId) (db_stock db)))) (\<lambda>q.
     minorToDecimalText q 4)"

definition mapInventoryItem :: "inventory_item_row \<Rightarrow> pos_db \<Rightarrow> inventory_item_record result" where
  "mapInventoryItem r db =
     mapResult (current_quantity (ii_tenantId r) (ii_id r) db) (\<lambda>q.
       \<lparr>iv_id = ii_id r, iv_tenantId = ii_tenantId r, iv_branchId = ii_branchId r, iv_name = ii_name r, iv_baseUnit = ii_baseUnit r,
        iv_currentQuantity = q, iv_lowStockThreshold = ii_lowStockThreshold r, iv_isActive = ii_isActive r\<rparr>)"

definition loadRecipeRequirements :: "string \<Rightarrow> (recipe_owner_type \<times> string) list \<Rightarrow> pos_db \<Rightarrow> recipe_requirement_line list" where
  "loadRecipeRequirements tid owners db =
     map snd (filter (\<lambda>(t, l). t = tid \<and> (rq_ownerType l, rq_ownerId l) \<in> set owners) (mn_recipes (db_menu db)))"

definition loadInventoryItems :: "string \<Rightarrow> string \<Rightarrow> string list \<Rightarrow> pos_db \<Rightarrow> inventory_item_record list result" where
  "loadInventoryItems tid branchId inventoryItemIds db =
     mapR (\<lambda>r. mapInventoryItem r db)
       (filter (\<lambda>r. ii_tenantId r = tid \<and> ii_branchId r = branchId \<and> ii_id r \<in> set inventoryItemIds) (db_inventory db))"

definition insertOrder :: "pos_env \<Rightarrow> order_row \<Rightarrow> (pos_db, unit) tx" where
  "insertOrder env row =
     tx_bind (tx_read (\<lambda>db. \<exists>x\<in>set (db_orders db). o_id x = o_id row)) (\<lambda>taken.
     tx_bind (tx_guard (\<not> taken) (PgError ''23505'' (Some ''orders_pkey'') ''duplicate key'')) (\<lambda>_.
     tx_bind (db_check env (WOrder row)) (\<lambda>_.
     tx_write (\<lambda>db. db\<lparr>db_orders := db_orders db @ [row]\<rparr>))))"

definition insertOrderItem :: "pos_env \<Rightarrow> order_item_row \<Rightarrow> (pos_db, unit) tx" where
  "insertOrderItem env row =
     tx_bind (tx_read (\<lambda>db. \<exists>x\<in>set (db_items db). it_id x = it_id row)) (\<lambda>taken.
     tx_bind (tx_guard (\<not> taken) (PgError ''23505'' (Some ''order_items_pkey'') ''duplicate key'')) (\<lambda>_.
     tx_bind (db_check env (WOrderItem row)) (\<lambda>_.
     tx_write (\<lambda>db. db\<lparr>db_items := db_items db @ [row]\<rparr>))))"

definition insertInitialStatusEvent :: "pos_env \<Rightarrow> string \<Rightarrow> string \<Rightarrow> string \<Rightarrow> string \<Rightarrow> int \<Rightarrow> (pos_db, unit) tx" where
  "insertInitialStatusEvent env tid orderItemId orderId toWorkflowStateId occurredAt =
     insertStatusEvent env tid \<lparr>se_tenantId = tid, se_orderItemId = orderItemId, se_orderId = orderId, se_fromStatusKindId = None,
       se_toStatusKindId = toWorkflowStateId, se_actorUserId = None, se_occurredAt = occurredAt\<rparr>"

definition insertStockOverrideClaim :: "pos_env \<Rightarrow> stock_override_claim \<Rightarrow> (pos_db, unit) tx" where
  "insertStockOverrideClaim env claim =
     tx_bind (tx_read (\<lambda>db. \<exists>c\<in>set (db_claims db). cl_managerOverrideId c = cl_managerOverrideId claim)) (\<lambda>taken.
     tx_bind (tx_guard (\<not> taken) (PgError ''23505'' (Some ''stock_override_claims_pkey'') ''duplicate key'')) (\<lambda>_.
     tx_bind (db_check env (WClaim claim)) (\<lambda>_.
     tx_write (\<lambda>db. db\<lparr>db_claims := db_claims db @ [claim]\<rparr>))))"

definition postInventoryConsumption :: "pos_env \<Rightarrow> string \<Rightarrow> string \<Rightarrow> (pos_db, unit) tx" where
  "postInventoryConsumption env tid orderId =
     tx_bind (db_check env (WConsumption orderId)) (\<lambda>_.
     tx_write (\<lambda>db. db\<lparr>db_consumptionCalls := db_consumptionCalls db @ [(tid, orderId)]\<rparr>))"

section \<open>What an order needs\<close>

fun smallest_position :: "tenant_workflow_state \<Rightarrow> tenant_workflow_state list \<Rightarrow> tenant_workflow_state" where
  "smallest_position m [] = m"
| "smallest_position m (s # ss) = smallest_position (if ws_position s < ws_position m then s else m) ss"

definition initialTopLevelState :: "tenant_workflow_state list \<Rightarrow> tenant_workflow_state option" where
  "initialTopLevelState states =
     (case filter (\<lambda>s. ws_parentKindCode s = None) states of [] \<Rightarrow> None | s # ss \<Rightarrow> Some (smallest_position s ss))"

definition lineOwners :: "new_order_item_line \<Rightarrow> (recipe_owner_type \<times> string) list" where
  "lineOwners line = (menu_item_owner, nl_menuItemId line) # map (\<lambda>m. (modifier_owner, ms_modifierId m)) (nl_modifiers line)"

definition collectRecipeOwners :: "new_order_item_line list \<Rightarrow> (recipe_owner_type \<times> string) list" where
  "collectRecipeOwners lines = foldl (\<lambda>owners owner. if owner \<in> set owners then owners else owners @ [owner]) [] (concat (map lineOwners lines))"

type_synonym grouped_requirements = "((recipe_owner_type \<times> string) \<times> recipe_requirement_line list) list"

definition groupRequirements :: "recipe_requirement_line list \<Rightarrow> grouped_requirements" where
  "groupRequirements lines = foldl (\<lambda>grouped l. AList.update (rq_ownerType l, rq_ownerId l)
     (get_or grouped (rq_ownerType l, rq_ownerId l) [] @ [l]) grouped) [] lines"

fun quantity_of :: "js_number \<Rightarrow> int" where
  "quantity_of (JInt n) = n"
| "quantity_of JNonInteger = 0"

definition lineRequirements :: "grouped_requirements \<Rightarrow> new_order_item_line \<Rightarrow> (string \<times> int) list result" where
  "lineRequirements grouped line =
     mapR (\<lambda>r. mapResult (decimalTextToMinor (rq_quantityRequired r) 4 ''quantityRequired'') (\<lambda>m.
         (rq_inventoryItemId r, m * quantity_of (nl_quantity line))))
       (concat (map (\<lambda>owner. get_or grouped owner []) (lineOwners line)))"

definition add_need :: "(string \<times> int) list \<Rightarrow> string \<times> int \<Rightarrow> (string \<times> int) list" where
  "add_need totals need = AList.update (fst need) (get_or totals (fst need) 0 + snd need) totals"

definition aggregateRequiredMinor :: "recipe_requirement_line list \<Rightarrow> new_order_item_line list \<Rightarrow> (string \<times> int) list result" where
  "aggregateRequiredMinor lines orderLines =
     foldR (\<lambda>totals line. mapResult (lineRequirements (groupRequirements lines) line) (foldl add_need totals)) [] orderLines"

definition displayNameOf :: "localized_text \<Rightarrow> string \<Rightarrow> string" where
  "displayNameOf name fallbackId =
     (case map_of name ''ar'' of Some n \<Rightarrow> n
      | None \<Rightarrow> (case map_of name ''en'' of Some n \<Rightarrow> n
          | None \<Rightarrow> (case js_sort compareText (map fst name) of [] \<Rightarrow> fallbackId
              | k # _ \<Rightarrow> (case map_of name k of Some n \<Rightarrow> n | None \<Rightarrow> fallbackId))))"

definition stocked_item :: "inventory_item_record list \<Rightarrow> string \<Rightarrow> inventory_item_record option" where
  "stocked_item stocked i = find_row (\<lambda>r. iv_id r = i) stocked"

definition availableMinor :: "inventory_item_record list \<Rightarrow> string \<Rightarrow> int result" where
  "availableMinor stocked i =
     (case stocked_item stocked i of None \<Rightarrow> Inr 0
      | Some r \<Rightarrow> decimalTextToMinor (iv_currentQuantity r) 4 ''currentQuantity'')"

definition display_name :: "inventory_item_record list \<Rightarrow> string \<Rightarrow> string" where
  "display_name stocked i = (case stocked_item stocked i of None \<Rightarrow> i | Some r \<Rightarrow> displayNameOf (iv_name r) i)"

fun findShortage :: "(string \<times> int) list \<Rightarrow> inventory_item_record list \<Rightarrow> (string \<times> string) option result" where
  "findShortage [] stocked = Inr None"
| "findShortage ((i, required_minor) # rest) stocked =
     andThen (availableMinor stocked i) (\<lambda>available.
     if available - required_minor < 0 then Inr (Some (i, display_name stocked i))
     else findShortage rest stocked)"

section \<open>The engine\<close>

definition MAX_ITEMS_PER_ORDER :: nat where
  "MAX_ITEMS_PER_ORDER = 500"

fun positive_integer :: "js_number \<Rightarrow> bool" where
  "positive_integer (JInt n) = (n \<ge> 1)"
| "positive_integer JNonInteger = False"

definition assertOrderShape :: "new_order_input \<Rightarrow> unit result" where
  "assertOrderShape input =
     (if no_items input = [] then Inl (ValidationError None)
      else if length (no_items input) > MAX_ITEMS_PER_ORDER then Inl (ValidationError None)
      else if list_ex (\<lambda>line. \<not> positive_integer (nl_quantity line)) (no_items input) then Inl (ValidationError (Some ''items''))
      else case no_splitPeopleCount input of
             Some n \<Rightarrow> if positive_integer n then Inr () else Inl (ValidationError (Some ''splitPeopleCount''))
           | None \<Rightarrow> Inr ())"

text \<open>The gates, checked before any stock is read and again in the write transaction.\<close>

definition creationGates :: "string \<Rightarrow> new_order_input \<Rightarrow> (pos_db, branch_row) tx" where
  "creationGates tid input =
     tx_bind (tx_read (loadBranch tid (no_branchId input))) (\<lambda>found.
     tx_bind (tx_some found NotFoundError) (\<lambda>branch.
     tx_bind (tx_guard (br_isActive branch) NotFoundError) (\<lambda>_.
     tx_bind (tx_read (userIsActiveTenantMember tid (no_cashierUserId input))) (\<lambda>member.
     tx_bind (tx_guard member ForbiddenError) (\<lambda>_.
     tx_bind (tx_read (findOpenShiftForCashier tid (no_cashierUserId input) (no_branchId input))) (\<lambda>shift.
     tx_bind (tx_some shift (CashierShiftRequiredError (no_cashierUserId input) (no_branchId input))) (\<lambda>_.
     tx_return branch)))))))"

definition requirements :: "string \<Rightarrow> new_order_input \<Rightarrow> pos_db \<Rightarrow> (string \<times> int) list result" where
  "requirements tid input db =
     aggregateRequiredMinor (loadRecipeRequirements tid (collectRecipeOwners (no_items input)) db) (no_items input)"

definition stockedFor :: "string \<Rightarrow> new_order_input \<Rightarrow> (string \<times> int) list \<Rightarrow> pos_db \<Rightarrow> inventory_item_record list result" where
  "stockedFor tid input requiredByComponent db =
     (if requiredByComponent = [] then Inr []
      else loadInventoryItems tid (no_branchId input) (map fst requiredByComponent) db)"

definition preflight :: "string \<Rightarrow> new_order_input \<Rightarrow> (pos_db, (string \<times> int) list \<times> inventory_item_record list) tx" where
  "preflight tid input =
     tx_bind (creationGates tid input) (\<lambda>_.
     tx_bind (tx_readR (requirements tid input)) (\<lambda>requiredByComponent.
     tx_bind (tx_readR (stockedFor tid input requiredByComponent)) (\<lambda>stocked.
     tx_return (requiredByComponent, stocked))))"

definition coversAdjustment :: "pos_env \<Rightarrow> string \<Rightarrow> string \<Rightarrow> string \<Rightarrow> unit result" where
  "coversAdjustment env tid managerUserId branchId =
     (case env_coveredKeys env tid managerUserId branchId [''inventory:adjust''] of
        Inl _ \<Rightarrow> Inl ManagerOverrideAuthenticationError
      | Inr ks \<Rightarrow> if ks = [] then Inl ManagerOverrideAuthenticationError else Inr ())"

definition overrideShortage :: "pos_env \<Rightarrow> string \<Rightarrow> new_order_input \<Rightarrow> (string \<times> string) option \<Rightarrow> (pos_db, string option) op" where
  "overrideShortage env tid input short =
     (case short of
        None \<Rightarrow> op_return None
      | Some (i, name) \<Rightarrow>
          (case no_managerOverride input of
             None \<Rightarrow> op_lift (Inl (InsufficientStockError name i (no_branchId input)))
           | Some challenge \<Rightarrow>
               op_bind (op_lift (coversAdjustment env tid (mo_managerUserId challenge) (no_branchId input))) (\<lambda>_.
               op_bind (verifyLiveChallengeWithId env tid (mo_managerUserId challenge) (mo_managerOverridePin challenge)
                  (no_cashierUserId input) ''stock_override'' None) (\<lambda>(_, attemptId).
               op_return (Some attemptId)))))"

definition assertLinePriced :: "new_order_item_line \<Rightarrow> branch_row \<Rightarrow> menu_item_row option \<Rightarrow> menu_item_row result" where
  "assertLinePriced line branch menuItem =
     (case menuItem of
        None \<Rightarrow> Inl (ValidationError None)
      | Some m \<Rightarrow>
          if \<not> mi_isActive m then Inl (ValidationError None)
          else if nl_unitPriceMinor line = None \<and> mi_basePriceCurrencyCode m \<noteq> br_baseCurrency branch then Inl (ValidationError None)
          else Inr m)"

definition unitPrice :: "new_order_item_line \<Rightarrow> menu_item_row \<Rightarrow> int" where
  "unitPrice line menuItem = (case nl_unitPriceMinor line of Some p \<Rightarrow> p | None \<Rightarrow> mi_basePriceMinor menuItem)"

text \<open>One line: the item row with its snapshot, its first status event, and the request for its taxes.\<close>

definition newItemRow ::
  "pos_env \<Rightarrow> string \<Rightarrow> string \<Rightarrow> string \<Rightarrow> new_order_item_line \<Rightarrow> menu_item_row \<Rightarrow> station_routing_decision \<Rightarrow> string \<Rightarrow> order_item_row" where
  "newItemRow env tid orderId initialStateId line menuItem routing itemId =
     \<lparr>it_id = itemId, it_tenantId = tid, it_orderId = orderId, it_menuItemId = nl_menuItemId line,
      it_itemNameSnapshot = mi_name menuItem, it_unitPriceMinor = unitPrice line menuItem, it_quantity = quantity_of (nl_quantity line),
      it_modifiersSnapshot = nl_modifiers line, it_currentStatusKindId = initialStateId, it_stationId = rd_stationId routing,
      it_isVoided = False, it_voidedAt = None, it_splitGroupId = nl_splitGroupId line, it_createdAt = env_now env\<rparr>"

definition lineTaxRequest :: "pos_env \<Rightarrow> new_order_input \<Rightarrow> branch_row \<Rightarrow> new_order_item_line \<Rightarrow> menu_item_row \<Rightarrow> string \<Rightarrow> tax_line_request" where
  "lineTaxRequest env input branch line menuItem itemId =
     \<lparr>tq_orderLineId = itemId, tq_branchId = no_branchId input, tq_menuItemId = nl_menuItemId line,
      tq_grossOrNetAmountMinor = unitPrice line menuItem * quantity_of (nl_quantity line), tq_currencyCode = br_baseCurrency branch,
      tq_at = env_now env, tq_salesChannel = no_salesChannelCode input, tq_deliveryPlatformId = no_deliveryPlatformId input\<rparr>"

definition routingContext :: "new_order_input \<Rightarrow> new_order_item_line \<Rightarrow> station_routing_context" where
  "routingContext input line = \<lparr>rx_menuItemId = nl_menuItemId line, rx_salesChannelCode = no_salesChannelCode input, rx_orderType = no_orderType input\<rparr>"

definition createLineItem ::
  "pos_env \<Rightarrow> string \<Rightarrow> new_order_input \<Rightarrow> branch_row \<Rightarrow> string \<Rightarrow> string \<Rightarrow> new_order_item_line \<Rightarrow> (pos_db, order_item_row \<times> tax_line_request) tx" where
  "createLineItem env tid input branch orderId initialStateId line =
     tx_bind (tx_read (loadMenuItem tid (nl_menuItemId line))) (\<lambda>found.
     tx_bind (tx_lift (assertLinePriced line branch found)) (\<lambda>menuItem.
     tx_bind (tx_read (resolveStationRoute tid (no_branchId input) (routingContext input line))) (\<lambda>routed.
     tx_bind (tx_some routed (NoMatchingRoutingRuleError (no_branchId input) (nl_menuItemId line))) (\<lambda>routing.
     tx_bind (tx_read (env_uuid env)) (\<lambda>itemId.
     tx_bind (insertOrderItem env (newItemRow env tid orderId initialStateId line menuItem routing itemId)) (\<lambda>_.
     tx_bind (insertInitialStatusEvent env tid itemId orderId initialStateId (env_now env)) (\<lambda>_.
     tx_bind (tx_read (loadOrderItem tid itemId)) (\<lambda>reread.
     tx_bind (tx_some reread (ValidationError None)) (\<lambda>item.
     tx_return (item, lineTaxRequest env input branch line menuItem itemId))))))))))"

fun createItems ::
  "pos_env \<Rightarrow> string \<Rightarrow> new_order_input \<Rightarrow> branch_row \<Rightarrow> string \<Rightarrow> string \<Rightarrow> new_order_item_line list \<Rightarrow>
   (pos_db, (order_item_row \<times> tax_line_request) list) tx" where
  "createItems env tid input branch orderId initialStateId [] = tx_return []"
| "createItems env tid input branch orderId initialStateId (line # rest) =
     tx_bind (createLineItem env tid input branch orderId initialStateId line) (\<lambda>created.
     tx_bind (createItems env tid input branch orderId initialStateId rest) (\<lambda>more_items.
     tx_return (created # more_items)))"

definition deductNeed ::
  "pos_env \<Rightarrow> string \<Rightarrow> new_order_input \<Rightarrow> string \<Rightarrow> string option \<Rightarrow> inventory_item_record list \<Rightarrow> string \<Rightarrow> string \<times> int \<Rightarrow> (pos_db, unit) tx" where
  "deductNeed env tid input orderId overrideAttemptId stocked orderItemId need =
     tx_bind (tx_lift (minorToDecimalText (- snd need) 4)) (\<lambda>delta.
     tx_bind (insertOrderStockMovement env tid (Some (display_name stocked (fst need)))
       \<lparr>im_branchId = no_branchId input, im_inventoryItemId = fst need, im_movementType = sale_deduction, im_quantityDelta = delta,
        im_orderId = Some orderId, im_orderItemId = Some orderItemId, im_actorUserId = no_cashierUserId input,
        im_managerOverrideId = overrideAttemptId, im_adjustmentReasonId = None, im_occurredAt = env_now env\<rparr>) (\<lambda>_.
     tx_return ()))"

definition deductLine ::
  "pos_env \<Rightarrow> string \<Rightarrow> new_order_input \<Rightarrow> string \<Rightarrow> string option \<Rightarrow> inventory_item_record list \<Rightarrow> grouped_requirements \<Rightarrow>
   order_item_row \<times> new_order_item_line \<Rightarrow> (pos_db, unit) tx" where
  "deductLine env tid input orderId overrideAttemptId stocked grouped created =
     tx_bind (tx_lift (lineRequirements grouped (snd created))) (\<lambda>needs.
     tx_for (deductNeed env tid input orderId overrideAttemptId stocked (it_id (fst created))) needs)"

definition assertStocked :: "new_order_input \<Rightarrow> string option \<Rightarrow> (string \<times> int) list \<Rightarrow> inventory_item_record list \<Rightarrow> unit result" where
  "assertStocked input overrideAttemptId requiredByComponent stocked =
     andThen (findShortage requiredByComponent stocked) (\<lambda>nowShort.
     case (nowShort, overrideAttemptId) of
       (Some (i, name), None) \<Rightarrow> Inl (InsufficientStockError name i (no_branchId input))
     | (_, None) \<Rightarrow> Inr ()
     | (_, Some _) \<Rightarrow> (case find (\<lambda>(i, _). stocked_item stocked i = None) requiredByComponent of
           Some (i, _) \<Rightarrow> Inl (InsufficientStockError i i (no_branchId input)) | None \<Rightarrow> Inr ()))"

definition deductStock ::
  "pos_env \<Rightarrow> string \<Rightarrow> new_order_input \<Rightarrow> string \<Rightarrow> string option \<Rightarrow> order_item_row list \<Rightarrow> (pos_db, unit) tx" where
  "deductStock env tid input orderId overrideAttemptId items =
     tx_bind (tx_read (loadRecipeRequirements tid (collectRecipeOwners (no_items input)))) (\<lambda>lines.
     tx_bind (tx_lift (aggregateRequiredMinor lines (no_items input))) (\<lambda>requiredByComponent.
     if requiredByComponent = [] then tx_return ()
     else
     tx_bind (tx_readR (loadInventoryItems tid (no_branchId input) (map fst requiredByComponent))) (\<lambda>stocked.
     tx_bind (tx_lift (assertStocked input overrideAttemptId requiredByComponent stocked)) (\<lambda>_.
     tx_bind (case overrideAttemptId of None \<Rightarrow> tx_return ()
        | Some a \<Rightarrow> insertStockOverrideClaim env \<lparr>cl_managerOverrideId = a, cl_tenantId = tid, cl_orderId = orderId\<rparr>) (\<lambda>_.
     tx_bind (tx_for (deductLine env tid input orderId overrideAttemptId stocked (groupRequirements lines)) (zip items (no_items input))) (\<lambda>_.
     postInventoryConsumption env tid orderId))))))"

definition newOrderRow :: "pos_env \<Rightarrow> string \<Rightarrow> new_order_input \<Rightarrow> tenant_workflow_state \<Rightarrow> string \<Rightarrow> order_row" where
  "newOrderRow env tid input initialState orderId =
     \<lparr>o_id = orderId, o_tenantId = tid, o_branchId = no_branchId input, o_orderType = no_orderType input,
      o_salesChannelCode = no_salesChannelCode input, o_deliveryPlatformId = no_deliveryPlatformId input, o_tableId = no_tableId input,
      o_currentStatusKindId = ws_id initialState, o_paymentStatus = op_open,
      o_splitPeopleCount = map_option quantity_of (no_splitPeopleCount input), o_placedAt = env_now env, o_closedAt = None, o_revision = 0\<rparr>"

definition writeOrder :: "pos_env \<Rightarrow> string \<Rightarrow> new_order_input \<Rightarrow> string option \<Rightarrow> (pos_db, created_order) tx" where
  "writeOrder env tid input overrideAttemptId =
     tx_bind (creationGates tid input) (\<lambda>branch.
     tx_bind (tx_read (loadWorkflowStates tid True)) (\<lambda>enabledStates.
     tx_bind (tx_some (initialTopLevelState enabledStates) (OrderWorkflowNotConfiguredError tid)) (\<lambda>initialState.
     tx_bind (tx_read (env_uuid env)) (\<lambda>orderId.
     tx_bind (insertOrder env (newOrderRow env tid input initialState orderId)) (\<lambda>_.
     tx_bind (createItems env tid input branch orderId (ws_id initialState) (no_items input)) (\<lambda>created.
     tx_bind (resolveInvoiceAndSnapshot env tid (map snd created)) (\<lambda>resolvedTaxes.
     tx_bind (tx_lift (mapR (\<lambda>item. case map_of resolvedTaxes (it_id item) of
         None \<Rightarrow> Inl TaxConfigurationError | Some taxes \<Rightarrow> Inr (item, taxes)) (map fst created))) (\<lambda>createdItems.
     tx_bind (deductStock env tid input orderId overrideAttemptId (map fst created)) (\<lambda>_.
     tx_bind (tx_read (loadOrder tid orderId)) (\<lambda>reread.
     tx_bind (tx_some reread (ValidationError None)) (\<lambda>ord.
     tx_return \<lparr>cr_order = ord, cr_items = createdItems\<rparr>)))))))))))"

definition createOrder :: "pos_env \<Rightarrow> string \<Rightarrow> new_order_input \<Rightarrow> (pos_db, created_order) op" where
  "createOrder env tid input =
     op_bind (op_lift (assertOrderShape input)) (\<lambda>_.
     op_bind (store_run env tid (preflight tid input)) (\<lambda>(requiredByComponent, stocked).
     op_bind (op_lift (findShortage requiredByComponent stocked)) (\<lambda>short.
     op_bind (overrideShortage env tid input short) (\<lambda>overrideAttemptId.
     store_run env tid (writeOrder env tid input overrideAttemptId)))))"

end
