(* ===== verification/Creation_Relation.thy ===== *)
theory Creation_Relation
  imports Order_Creation Orders_Relations
begin

text \<open>
  Relations maintained by the creation of an order: one that the writes of the kitchen maintain, and also new orders and lines, tax rows, deductions
  from stock, claims and the manager's challenge, is maintained by \<open>createOrder\<close>, whatever its outcome.
\<close>

locale creation_relation = kitchen_relation R for R :: "pos_db \<Rightarrow> pos_db \<Rightarrow> bool" +
  assumes new_rows: "tx_ensures R (insertOrder env row)" "tx_ensures R (insertOrderItem env item)"
    and tax_data: "R db (db\<lparr>db_taxContexts := cs\<rparr>)" "R db (db\<lparr>db_taxRows := rs\<rparr>)"
    and deduction: "im_movementType im = sale_deduction \<Longrightarrow> tx_ensures R (insertStockMovement env tid im)"
    and claims: "R db (db\<lparr>db_claims := ks\<rparr>)" and consumption: "R db (db\<lparr>db_consumptionCalls := ps\<rparr>)"
    and challenged: "override_frame db db' \<Longrightarrow> R db db'"
begin

lemma line_op: "tx_ensures R (createLineItem env tid input branch oid st line)"
  unfolding createLineItem_def insertInitialStatusEvent_def by (intro bind_rule bodies new_rows status_event)

lemma lines_op: "tx_ensures R (createItems env tid input branch oid st lines)"
  by (induction lines) (auto intro!: bind_rule bodies line_op)

lemma persist_all: "tx_ensures R (persistAll env tid calculated lines)"
  by (induction lines)
    (auto simp: persistPrepared_def insertSnapshots_def insertContext_def Let_def split: option.splits tax_resolution.splits
      intro!: bind_rule bodies for_each checks write_rule tax_data)

lemma taxes_op: "tx_ensures R (resolveInvoiceAndSnapshot env tid requests)"
  unfolding resolveInvoiceAndSnapshot_def Let_def by (auto intro!: bind_rule bodies persist_all split: list.splits)

lemma need_op: "tx_ensures R (deductNeed env tid input oid attempt stocked i need)"
proof -
  have "tx_ensures R (insertOrderStockMovement env tid n im)" if "im_movementType im = sale_deduction" for n im
    using deduction [OF that] by (auto simp: tx_ensures_def insertOrderStockMovement_def mapErr_Inr_iff)
  then show ?thesis unfolding deductNeed_def by (intro bind_rule bodies) simp_all
qed

lemma stock_op: "tx_ensures R (deductStock env tid input oid attempt items)"
  unfolding deductStock_def deductLine_def insertStockOverrideClaim_def postInventoryConsumption_def
  by (auto intro!: bind_rule bodies for_each need_op checks write_rule claims consumption split: option.splits)

lemma write_op: "tx_ensures R (writeOrder env tid input attempt)"
  unfolding writeOrder_def creationGates_def by (intro bind_rule bodies new_rows lines_op taxes_op stock_op)

lemma shortage_op: "op_ensures R (overrideShortage env tid input short)"
proof -
  have "op_ensures R (verifyLiveChallengeWithId env tid m pin a ctx oid)" for m pin a ctx oid
    using challenge_frame(2) challenged unfolding op_ensures_def by blast
  then show ?thesis unfolding overrideShortage_def by (auto intro!: op_bnd op_values split: option.splits prod.splits)
qed

lemma create_op: "op_ensures R (createOrder env tid input)"
  unfolding createOrder_def preflight_def creationGates_def
  by (auto intro!: op_bnd op_values store_rule bind_rule bodies shortage_op write_op split: prod.splits)

end

end
