(* ===== verification/Pos_System.thy ===== *)
theory Pos_System
  imports Discount_Correct Shift_Correct Void_Correct Creation_Relation
begin

text \<open>
  The engines together on one database: any sequence of new orders, collections, refunds, discounts, shift operations, kitchen
  transitions, voids of lines and orders and changes of the workflow, each in an environment of its own
  (another clock, other identifiers, another outcome of the checks), whether they succeed or fail. The invariants of the journal, of the
  shifts and of the outbox hold in every reachable state.
\<close>

inductive pos_step :: "pos_db \<Rightarrow> pos_db \<Rightarrow> bool" where
  collect: "recordPayment env tid input db = (r, db') \<Longrightarrow> pos_step db db'"
| void_payment: "voidPayment env tid actor pid why db = (q, db') \<Longrightarrow> pos_step db db'"
| refund: "refundPayment env tid actor pid db = (q, db') \<Longrightarrow> pos_step db db'"
| discount: "applyDiscount env tid actor dis db = (d, db') \<Longrightarrow> pos_step db db'"
| open_shift: "openShift env tid opn db = (s, db') \<Longrightarrow> pos_step db db'"
| close_shift: "closeShift env tid cls db = (s, db') \<Longrightarrow> pos_step db db'"
| x_report: "xReport env tid u sid db = (x, db') \<Longrightarrow> pos_step db db'"
| create_order: "createOrder env tid new_input db = (co, db') \<Longrightarrow> pos_step db db'"
| move: "transitionItem env tid mv db = (t, db') \<Longrightarrow> pos_step db db'"
| void_line: "voidOrderItem env tid va vline db = (v, db') \<Longrightarrow> pos_step db db'"
| void_whole: "voidOrder env tid va vwhole db = (v, db') \<Longrightarrow> pos_step db db'"
| add_state: "addState env tid u tok ws db = (i, db') \<Longrightarrow> pos_step db db'"
| disable_state: "disableState env tid u tok sid db = (a, db') \<Longrightarrow> pos_step db db'"
| enable_state: "enableState env tid u tok sid db = (a, db') \<Longrightarrow> pos_step db db'"
| reorder_state: "reorderState env tid u tok sid pos db = (a, db') \<Longrightarrow> pos_step db db'"
| delete_state: "deleteState env tid u tok sid db = (a, db') \<Longrightarrow> pos_step db db'"
| ensure_workflow: "ensureWorkflow env tid kinds db = (i, db') \<Longrightarrow> pos_step db db'"

inductive_cases pos_step_cases: "pos_step db db'"

section \<open>What each engine leaves alone\<close>

lemma op_atomicD: "op_atomic m \<Longrightarrow> m s = (Inl e, s') \<Longrightarrow> s' = s"
  by (auto simp: op_atomic_def)

lemma xReport_reads: "xReport env tid u sid db = (x, db') \<Longrightarrow> db' = db"
proof -
  have "op_ensures unchanged (xReport env tid u sid)"
    unfolding xReport_def xReportBody_def
    by (intro read_only.op_bnd store_run_reads read_only.op_values) (simp_all add: read_only.body_rules Let_def)
  then show "xReport env tid u sid db = (x, db') \<Longrightarrow> db' = db" by (auto simp: op_ensures_def unchanged_def)
qed

text \<open>The tables that only the payments engine and only the shift engine write.\<close>

definition money_frame :: "pos_db \<Rightarrow> pos_db \<Rightarrow> bool" where
  "money_frame db db' \<longleftrightarrow> db_payments db' = db_payments db \<and> db_journal db' = db_journal db"

definition till_frame :: "pos_db \<Rightarrow> pos_db \<Rightarrow> bool" where
  "till_frame db db' \<longleftrightarrow> money_frame db db' \<and> db_shifts db' = db_shifts db"

text \<open>A relation that the writes of a discount and the manager's challenge maintain is maintained by applying a discount.\<close>

locale discount_relation = tx_relation R for R :: "pos_db \<Rightarrow> pos_db \<Rightarrow> bool" +
  assumes writes: "tx_ensures R (bumpOrderRevision env tid oid)" "tx_ensures R (insertOrderDiscount env tid dis)"
      "tx_ensures R (incrementCouponUses env tid cid)"
    and challenge: "override_frame db db' \<Longrightarrow> R db db'"
begin

lemma reads:
  "tx_ensures R (loadSnapshot tid oid)" "tx_ensures R (prePass tid u input)"
  "tx_ensures R (couponForWrite env tid input s d)" "tx_ensures R (overrideEvidence tid u input rq)"
  by (auto simp: loadSnapshot_def prePass_def couponForWrite_def overrideEvidence_def Let_def intro!: body_rules)

lemma body: "tx_ensures R (discountBody env tid u input pre challenged)"
  unfolding discountBody_def Let_def
  by (intro bind_rule bodies writes reads) (auto intro!: bodies writes split: option.splits)

lemma store_rule: "tx_ensures R m \<Longrightarrow> op_ensures R (store_run env tid m)"
  unfolding store_run_def by (intro run_rule bind_rule bodies)

lemma escalation: "op_ensures R (escalate env tid u input pre)"
  using escalate_frame challenge unfolding op_ensures_def by blast

lemma discount_op: "op_ensures R (applyDiscount env tid actor input)"
  unfolding applyDiscount_def orderBranch_def
  by (auto intro!: op_values op_bnd store_rule escalation body reads body_rules)

end

text \<open>A relation that the writes of a shift maintain is maintained by opening and closing one.\<close>

locale shift_relation = tx_relation R for R :: "pos_db \<Rightarrow> pos_db \<Rightarrow> bool" +
  assumes writes: "tx_ensures R (insertShift env tid si)" "tx_ensures R (insertCashCountDetails env tid sid ct counts)"
    "tx_ensures R (bumpShiftRevision env tid sid)" "tx_ensures R (closeShiftRow env tid sid close)"
begin

lemma shift_insert: "tx_ensures R (\<lambda>db. mapErr (insertShift env tid si db) f)"
  using writes(1) by (auto simp: tx_ensures_def mapErr_Inr_iff)

lemma members: "tx_ensures R (requireActiveMembers tid us)"
  unfolding requireActiveMembers_def by (intro for_each bind_rule bodies)

lemma store_rule: "tx_ensures R m \<Longrightarrow> op_ensures R (store_run env tid m)"
  unfolding store_run_def by (intro run_rule bind_rule bodies)

lemma open_op: "op_ensures R (openShift env tid opn)"
  unfolding openShift_def openBody_def
  by (intro op_bnd op_values store_rule bind_rule bodies writes members shift_insert)

lemma close_op: "op_ensures R (closeShift env tid cls)"
  unfolding closeShift_def closeBody_def shiftBranch_def Let_def
  by (intro op_bnd op_values store_rule bind_rule bodies writes members)

end

interpretation discounting: discount_relation till_frame
  by unfold_locales
    (auto simp: tx_ensures_def tx_simps till_frame_def money_frame_def bumpOrderRevision_def incrementCouponUses_def override_frame_def
      dest!: insertOrderDiscount_Inr(1))

interpretation kitchen: orders_relation till_frame
  by unfold_locales
    (auto simp: tx_ensures_def tx_simps till_frame_def money_frame_def bumpOrderRevision_def setOrderPaymentStatus_def override_frame_def
      markOrderItemsVoided_def insertStockMovement_def postInventoryRestoration_def Let_def dest!: appendEvent_Inr(1) split: if_splits)

interpretation creating: creation_relation till_frame
  by unfold_locales (auto simp: tx_ensures_def tx_simps till_frame_def money_frame_def insertOrder_def insertOrderItem_def insertStockMovement_def
      override_frame_def Let_def)

lemmas till_ops = creating.create_op kitchen.transition_op kitchen.void_item_op kitchen.void_order_op kitchen.admin_ops discounting.discount_op

lemma shift_operations_frame:
  "openShift env tid opn db = (s, db') \<Longrightarrow> money_frame db db'"
  "closeShift env tid cls db = (s, db') \<Longrightarrow> money_frame db db'"
proof -
  show "openShift env tid opn db = (s, db') \<Longrightarrow> money_frame db db'"
    using openShift_opened [of env tid opn db _ db'] openShift_atomic [of env tid opn]
    by (cases s) (auto simp: money_frame_def op_atomic_def opened_def)
  show "closeShift env tid cls db = (s, db') \<Longrightarrow> money_frame db db'"
    using closeShift_closed [of env tid cls db _ db'] closeShift_atomic [of env tid cls]
    by (cases s) (fastforce simp: money_frame_def op_atomic_def closed_def)+
qed

section \<open>The journal\<close>

lemma books_money: "money_frame db db' \<Longrightarrow> books db \<Longrightarrow> books db'"
  by (simp add: money_frame_def books_def payment_booked_def entry_owned_def find_entry_def [abs_def] list_all_iff)

lemma books_till: "till_frame db db' \<Longrightarrow> books db \<Longrightarrow> books db'"
  unfolding till_frame_def using books_money by blast

lemma till_journal: "money_frame db db' \<Longrightarrow> journal_grows db db'"
  by (simp add: money_frame_def journal_grows_def journal_balanced_def)

lemma pos_step_till:
  assumes "pos_step db db'"
  obtains (collect) env tid input r where "recordPayment env tid input db = (r, db')"
  | (void_payment) env tid actor pid why q where "voidPayment env tid actor pid why db = (q, db')"
  | (refund) env tid actor pid q where "refundPayment env tid actor pid db = (q, db')"
  | (open_shift) env tid opn s where "openShift env tid opn db = (s, db')"
  | (close_shift) env tid cls s where "closeShift env tid cls db = (s, db')"
  | (other) "till_frame db db'"
  using assms
proof (cases rule: pos_step.cases)
  case (x_report env tid u sid x)
  then show ?thesis using xReport_reads [of env tid u sid db x db'] by (intro that(6)) (simp add: till_frame_def money_frame_def)
qed (rule that(1-5), assumption | rule that(6), erule till_ops [THEN op_ensuresD])+

lemma pos_step_books: "pos_step db db' \<Longrightarrow> books db \<Longrightarrow> books db'"
  by (erule pos_step_till) (auto intro: recordPayment_books lifecycle_books books_money books_till shift_operations_frame)

lemma pos_step_journal: "pos_step db db' \<Longrightarrow> journal_grows db db'"
  by (erule pos_step_till) (auto simp: till_frame_def intro: op_ensuresD [OF journal.record_op] op_ensuresD [OF journal.void_op]
      op_ensuresD [OF journal.refund_op] till_journal shift_operations_frame)

text \<open>
  C4. The books of the restaurant: start from a database in which the journal of payments agrees with the payments
  (for one, a database with neither), and run any sequence of new orders, collections, voids, refunds, discounts,
  shift operations, kitchen transitions, voids of lines and orders and changes of the workflow, successful or not. Then every payment still has exactly one
  entry, of its own amount, in one debit and one credit line; exactly the voided and refunded payments have a reversal, and exactly one, which mirrors that
  entry; every entry of the journal of payments belongs to a payment, and no two have the same tenant, source type and source; entries are only ever
  appended; and if every entry was balanced before, every entry is. (The journal of payments are the entries with the source types of a payment and of its
  reversal; the entries that the SQL functions post for consumed stock and cost of goods have source types of their own and are not among them.)
\<close>

theorem books_always:
  assumes "reachable pos_step db db'" "books db"
  shows "books db' \<and>
    (\<forall>p\<in>set (db_payments db'). length (entries_of db' src_payment p) = 1 \<and>
       length (entries_of db' src_payment_reversal p) = (if pay_status p = completed then 0 else 1)) \<and>
    (\<exists>new. db_journal db' = db_journal db @ new) \<and> (journal_balanced db \<longrightarrow> journal_balanced db')"
proof -
  have "books db'" using reachable_invariant [of pos_step books] pos_step_books assms by blast
  moreover have "journal_grows db db'"
    using reachable_relation [OF journal.tx_relation_axioms pos_step_journal assms(1)] .
  ultimately show ?thesis using books_counts by (simp add: journal_grows_def)
qed

lemma example_day: "reachable pos_step example_db example_refunded_db"
proof -
  have "pos_step example_db example_paid_db" by (rule pos_step.collect [OF example_collects])
  moreover have "pos_step example_paid_db example_refunded_db" by (rule pos_step.refund [OF example_refunds])
  ultimately show ?thesis by (blast intro: reachable.intros)
qed

theorem books_always_witness: "books example_refunded_db \<and> journal_balanced example_refunded_db"
proof -
  have "books example_db" "journal_balanced example_db" by (simp_all add: books_def journal_balanced_def example_db_def)
  with books_always [OF example_day] show ?thesis by blast
qed

section \<open>The shifts\<close>

text \<open>
  Every shift was opened by one person and verified by another; a closed one was closed under the same
  rule and has its figures, an open one has none; and no cashier has two open shifts.
\<close>

definition shift_sound :: "shift_record \<Rightarrow> bool" where
  "shift_sound s \<longleftrightarrow> sh_openedById s \<noteq> sh_openVerifiedById s \<and>
     (if sh_status s = shift_open
      then sh_closedById s = None \<and> sh_closeVerifiedById s = None \<and> sh_closedAt s = None \<and> sh_countedCash s = None \<and> sh_variance s = None
      else \<exists>u v. sh_closedById s = Some u \<and> sh_closeVerifiedById s = Some v \<and> u \<noteq> v \<and> sh_closedAt s \<noteq> None \<and>
           sh_countedCash s \<noteq> None \<and> sh_recordedCashSales s \<noteq> None \<and> sh_variance s \<noteq> None \<and> sh_varianceType s \<noteq> None)"

definition open_keys :: "pos_db \<Rightarrow> (string \<times> string) list" where
  "open_keys db = map (\<lambda>s. (sh_tenantId s, sh_cashierId s)) (filter (\<lambda>s. sh_status s = shift_open) (db_shifts db))"

definition shifts_sound :: "pos_db \<Rightarrow> bool" where
  "shifts_sound db \<longleftrightarrow> distinct (map sh_id (db_shifts db)) \<and> list_all shift_sound (db_shifts db) \<and> distinct (open_keys db)"

lemma opened_sound:
  assumes "opened env tid opn s db db'" "shifts_sound db" "shift_sound s"
  shows "shifts_sound db'"
proof -
  from assms(1) have new: "\<forall>t\<in>set (db_shifts db). sh_id t \<noteq> sh_id s \<and>
      \<not> (sh_tenantId t = sh_tenantId s \<and> sh_cashierId t = sh_cashierId s \<and> sh_status t = shift_open)"
    and db': "db_shifts db' = db_shifts db @ [s]" by (auto simp: opened_def)
  have "sh_id s \<notin> sh_id ` set (db_shifts db)" using new by auto
  then show ?thesis using assms(2,3) new by (auto simp: shifts_sound_def open_keys_def db')
qed

lemma closing_drops_keys:
  assumes "\<And>x. sh_status (f x) = shift_closed" "distinct (map k (filter (\<lambda>s. sh_status s = shift_open) xs))"
  shows "distinct (map k (filter (\<lambda>s. sh_status s = shift_open) (update_where p f xs)))"
proof -
  have "filter (\<lambda>s. sh_status s = shift_open) (update_where p f xs) = filter (\<lambda>s. \<not> p s) (filter (\<lambda>s. sh_status s = shift_open) xs)"
    by (induction xs) (auto simp: update_where_def assms(1))
  then show ?thesis using assms(2) by (auto simp: distinct_map_filter simp del: filter_filter)
qed

lemma closed_sound:
  assumes "closed env tid cls s db db'" "shifts_sound db"
  shows "shifts_sound db'"
proof -
  from assms(1) obtain counted recorded variance kind where
    two: "ci_closedByUserId cls \<noteq> ci_closeVerifiedByUserId cls" and
    db': "db_shifts db' = update_where (\<lambda>x. sh_tenantId x = tid \<and> sh_id x = ci_shiftId cls)
          (close_update env cls counted recorded variance kind) (db_shifts db)"
    unfolding closed_def by blast
  let ?f = "close_update env cls counted recorded variance kind"
  have st: "sh_status (?f x) = shift_closed" "sh_id (?f x) = sh_id x" for x by (simp_all add: close_update_def)
  have "shift_sound x \<Longrightarrow> shift_sound (?f x)" for x using two by (simp add: shift_sound_def close_update_def)
  then have "list_all shift_sound (db_shifts db')"
    using assms(2) by (auto simp: db' update_where_def list_all_iff shifts_sound_def)
  moreover have "distinct (open_keys db')"
    using assms(2) unfolding open_keys_def shifts_sound_def db' by (intro closing_drops_keys) (simp_all add: st)
  moreover have "map sh_id (db_shifts db') = map sh_id (db_shifts db)" unfolding db' by (rule update_where_keys) (rule st(2))
  ultimately show ?thesis using assms(2) by (simp add: shifts_sound_def)
qed

lemma opens_sound: "openShift env tid opn db = (Inr s, db') \<Longrightarrow> shift_sound s"
  by (auto simp: openShift_def openBody_def tx_simps insertShift_def Let_def shift_sound_def mapErr_Inr_iff
      op_catch_def split: if_splits)

lemma same_shifts: "db_shifts db' = db_shifts db \<Longrightarrow> shifts_sound db \<Longrightarrow> shifts_sound db'"
  by (simp add: shifts_sound_def open_keys_def)

lemma pricing_shifts: "pricing_frame db db' \<Longrightarrow> shifts_sound db \<Longrightarrow> shifts_sound db'"
  by (rule same_shifts) (simp_all add: pricing_frame_def)

lemma shift_steps_sound:
  "openShift env tid opn db = (s, db') \<Longrightarrow> shifts_sound db \<Longrightarrow> shifts_sound db'"
  "closeShift env tid cls db = (s, db') \<Longrightarrow> shifts_sound db \<Longrightarrow> shifts_sound db'"
  using openShift_opened opens_sound opened_sound op_atomicD [OF openShift_atomic] closeShift_closed closed_sound op_atomicD [OF closeShift_atomic]
  by (cases s; metis)+

lemma pos_step_shifts: "pos_step db db' \<Longrightarrow> shifts_sound db \<Longrightarrow> shifts_sound db'"
  by (erule pos_step_till) (auto simp: till_frame_def intro: shift_steps_sound same_shifts pricing_shifts op_ensuresD [OF pricing.record_op]
      op_ensuresD [OF pricing.void_op] op_ensuresD [OF pricing.refund_op])

text \<open>
  C21. The shifts of the restaurant, in every state reachable from a sound one: identifiers are unique,
  every shift was opened under dual control, closed ones were closed under dual control and have all
  figures of the Z report, and no cashier has two open shifts in a tenant.
\<close>

theorem shifts_always:
  assumes "reachable pos_step db db'" "shifts_sound db"
  shows "shifts_sound db' \<and>
    (\<forall>s\<in>set (db_shifts db'). \<forall>t\<in>set (db_shifts db'). sh_status s = shift_open \<and> sh_status t = shift_open \<and>
       sh_tenantId s = sh_tenantId t \<and> sh_cashierId s = sh_cashierId t \<longrightarrow> s = t)"
proof -
  have s: "shifts_sound db'" using reachable_invariant [of pos_step shifts_sound] pos_step_shifts assms by blast
  then have "inj_on (\<lambda>s. (sh_tenantId s, sh_cashierId s)) {s \<in> set (db_shifts db'). sh_status s = shift_open}"
    by (auto simp: shifts_sound_def open_keys_def distinct_map)
  then have "s = t" if "s \<in> set (db_shifts db')" "t \<in> set (db_shifts db')" "sh_status s = shift_open" "sh_status t = shift_open"
    "sh_tenantId s = sh_tenantId t" "sh_cashierId s = sh_cashierId t" for s t
    using that by (auto dest: inj_onD)
  with s show ?thesis by blast
qed

theorem shifts_always_witness: "shifts_sound example_closed_db \<and> open_keys example_closed_db = []"
proof -
  have "pos_step example_db example_paid_db" by (rule pos_step.collect [OF example_collects])
  moreover have "pos_step example_paid_db example_closed_db" by (rule pos_step.close_shift [OF example_closes])
  ultimately have "reachable pos_step example_db example_closed_db" by (blast intro: reachable.intros)
  moreover have "shifts_sound example_db"
    by (simp add: shifts_sound_def example_db_def open_keys_def shift_sound_def example_shift_def)
  ultimately have "shifts_sound example_closed_db" using shifts_always by blast
  then show ?thesis by (simp add: open_keys_def example_closed_db_def example_closed_def)
qed

section \<open>The outbox\<close>

lemma same_outbox_writes:
  "tx_ensures outbox_same (bumpShiftRevision env tid sid)" "tx_ensures outbox_same (insertPayment env tid ip)"
  "tx_ensures outbox_same (postPaymentJournalEntry env tid pj)" "tx_ensures outbox_same (postOrderCogs env tid oid)"
  "tx_ensures outbox_same (postPaymentJournalReversalEntry env tid pid u at)" "tx_ensures outbox_same (update_payment env tid pid f msg)"
  "tx_ensures outbox_same (appendAuditEvidence env row)"
  "tx_ensures outbox_same (insertOrderDiscount env tid dis)" "tx_ensures outbox_same (incrementCouponUses env tid cid)"
  "tx_ensures outbox_same (insertShift env tid si)" "tx_ensures outbox_same (closeShiftRow env tid sid close)"
  "tx_ensures outbox_same (insertCashCountDetail env tid sid ct line)"
  by (auto simp: tx_ensures_def tx_simps outbox_same_def Let_def insert_entry_cases bumpShiftRevision_def insertPayment_def
      postPaymentJournalEntry_def postOrderCogs_def postPaymentJournalReversalEntry_def update_payment_def appendAuditEvidence_def
      incrementCouponUses_def insertShift_def closeShiftRow_def insertCashCountDetail_def
      dest!: insertOrderDiscount_Inr(1) split: option.splits if_splits js_number.splits)

lemmas outbox_writes = same_outbox_steps [THEN grows_if_same] same_outbox_writes [THEN grows_if_same]

interpretation paying_log: payments_relation outbox_grows
  by unfold_locales (rule outbox_writes)+

interpretation discount_log: discount_relation outbox_grows
  by unfold_locales (rule outbox_writes outbox.challenge, assumption?)+

interpretation shift_log: shift_relation outbox_grows
proof
  show "tx_ensures outbox_grows (insertCashCountDetails env tid sid ct counts)" for env tid sid ct counts
    unfolding insertCashCountDetails_def by (intro outbox.for_each outbox_writes)
qed (rule outbox_writes)+

interpretation creating_log: creation_relation outbox_grows
proof
  show "tx_ensures outbox_grows (insertOrder env row)" "tx_ensures outbox_grows (insertOrderItem env item)" for env row item
    by (auto simp: tx_ensures_def tx_simps insertOrder_def insertOrderItem_def outbox_same_def intro!: outbox_same_grows)
qed (auto intro: outbox_writes outbox.challenge outbox_same_grows simp: outbox_same_def)

lemmas outbox_ops = creating_log.create_op outbox.transition_op outbox.void_item_op outbox.void_order_op outbox.admin_ops paying_log.record_op paying_log.void_op
  paying_log.refund_op discount_log.discount_op shift_log.open_op shift_log.close_op

lemma pos_step_outbox:
  assumes "pos_step db db'"
  shows "outbox_grows db db'"
  using assms
proof (cases rule: pos_step.cases)
  case (x_report env tid u sid x)
  then show ?thesis using xReport_reads [of env tid u sid db x db'] by (simp add: outbox.refl)
qed (rule outbox_ops [THEN op_ensuresD], assumption)+

text \<open>
  C12. The outbox and its replay: whatever the engines do, events are only ever appended, and each branch's events are numbered 1, 2, 3
  and so on without gaps. A display that has seen the events up to the number the branch had at some moment and asks for what came
  after it is sent, however much happened in between, exactly the branch's events since then, in order and up to the limit it names.
\<close>

theorem outbox_replay:
  assumes "reachable pos_step db db'" "outbox_ok db" "owned db tid b"
  shows "outbox_ok db' \<and> (\<exists>new. db_outbox db' = db_outbox db @ new \<and>
      readOutboxEvents tid b (lastOutboxSequence tid b db) limit db' = take limit (branch_events new b)) \<and>
    map ob_sequenceId (branch_events (db_outbox db') b) = [1..lastOutboxSequence tid b db']"
proof -
  have "outbox_grows db db'" using reachable_relation [OF outbox.tx_relation_axioms pos_step_outbox assms(1)] .
  then obtain new where ok: "outbox_ok db'" and new: "db_outbox db' = db_outbox db @ new" and br: "db_branches db' = db_branches db"
    using assms(2) by (auto simp: outbox_grows_def)
  have own: "owned db' tid b" using assms(3) br by (simp add: owned_def)
  note last = lastOutboxSequence_last_seq [OF assms(2,3)] lastOutboxSequence_last_seq [OF ok own]
  have seqs: "map ob_sequenceId (branch_events (db_outbox db) b) = [1..last_seq (db_sequences db) b]" "0 \<le> last_seq (db_sequences db) b"
    "map ob_sequenceId (branch_events (db_outbox db') b) = [1..last_seq (db_sequences db') b]"
    using assms(2) ok by (simp_all add: outbox_ok_def)
  from arg_cong [OF seqs(1), of length] have "length (branch_events (db_outbox db) b) = nat (last_seq (db_sequences db) b)" by simp
  then have "drop (nat (last_seq (db_sequences db) b)) (branch_events (db_outbox db') b) = branch_events new b"
    by (simp add: new branch_events_def)
  with outbox_read [OF ok own seqs(2)] have "readOutboxEvents tid b (lastOutboxSequence tid b db) limit db' = take limit (branch_events new b)"
    by (simp add: last)
  with ok new seqs(3) show ?thesis by (simp add: last)
qed

theorem outbox_replay_witness:
  "\<exists>r db'. transitionItem example_env ''t1'' example_move example_db = (Inr r, db') \<and> outbox_ok db' \<and>
     readOutboxEvents ''t1'' ''b1'' 0 5 db' = take 5 (branch_events (db_outbox db') ''b1'')"
proof -
  from example_moves obtain r db' where run: "transitionItem example_env ''t1'' example_move example_db = (Inr r, db')" by blast
  have step: "reachable pos_step example_db db'" using pos_step.move [OF run] by (rule reachable.more [OF reachable.start])
  have own: "owned example_db ''t1'' ''b1''" by (simp add: owned_def example_db_fields)
  have zero: "lastOutboxSequence ''t1'' ''b1'' example_db = 0" by (simp add: lastOutboxSequence_def example_db_fields find_row_def)
  from outbox_replay [OF step example_outbox(1) own, of 5] have "outbox_ok db'"
    "readOutboxEvents ''t1'' ''b1'' 0 5 db' = take 5 (branch_events (db_outbox db') ''b1'')"
    by (auto simp: zero example_db_fields)
  with run show ?thesis by (intro exI [of _ r] exI [of _ db'] conjI)
qed

section \<open>Failures\<close>

definition op_fails_within :: "('s \<Rightarrow> 's \<Rightarrow> bool) \<Rightarrow> ('s, 'a) op \<Rightarrow> bool" where
  "op_fails_within R m \<longleftrightarrow> (\<forall>s e s'. m s = (Inl e, s') \<longrightarrow> R s s')"

lemma op_fails_withinD: "op_fails_within R m \<Longrightarrow> m s = (Inl e, s') \<Longrightarrow> R s s'"
  by (simp add: op_fails_within_def)

lemma fails_within_bind:
  assumes "op_ensures override_frame m" "\<And>a. op_fails_within override_frame (f a)"
  shows "op_fails_within override_frame (op_bind m f)"
  unfolding op_fails_within_def
proof (intro allI impI)
  fix s e s' assume run: "op_bind m f s = (Inl e, s')"
  obtain x s1 where m: "m s = (x, s1)" by fastforce
  then have "override_frame s s1" using assms(1) by (auto simp: op_ensures_def)
  moreover have "override_frame s1 s'"
    using run m assms(2) overrides.refl by (cases x) (auto simp: op_bind_def op_fails_within_def)
  ultimately show "override_frame s s'" by (rule overrides.trans)
qed

lemma fails_within_run: "op_fails_within override_frame (store_run env tid m)"
  using op_atomic_run [of env tid m] overrides.refl unfolding op_fails_within_def op_atomic_def by metis

lemma store_run_overrides: "tx_ensures override_frame m \<Longrightarrow> op_ensures override_frame (store_run env tid m)"
  unfolding store_run_def by (intro overrides.run_rule overrides.bind_rule overrides.bodies)

lemma applyDiscount_failed: "op_fails_within override_frame (applyDiscount env tid actor input)"
proof -
  have reads: "tx_ensures override_frame (prePass tid u input)" "tx_ensures override_frame (loadSnapshot tid oid)" for u oid
    by (auto simp: prePass_def Let_def loadSnapshot_def intro!: overrides.body_rules)
  have "op_fails_within override_frame (op_lift r :: (pos_db, 'b) op)" for r :: "'b result"
    by (auto simp: op_fails_within_def op_lift_def overrides.refl)
  then show ?thesis unfolding applyDiscount_def orderBranch_def
    by (auto intro!: fails_within_bind fails_within_run overrides.op_values store_run_overrides escalate_frame
        reads overrides.bind_rule overrides.bodies)
qed

lemma voids_failed:
  "op_fails_within override_frame (voidOrderItem env tid actor input)" "op_fails_within override_frame (voidOrder env tid actor whole)"
proof -
  have read: "tx_ensures override_frame (decideVoid env tid actor rt reasonId mo)" if "tx_ensures override_frame rt" for rt reasonId mo
    unfolding decideVoid_def assertWithinTimeLimit_def approvingManager_def Let_def
    using that by (auto intro!: overrides.bind_rule overrides.bodies split: option.splits)
  have challenged: "op_ensures override_frame (challengeVoid env tid actor d)" for d
    unfolding challengeVoid_def by (auto intro!: overrides.op_bnd overrides.op_values challenge_frame split: option.splits)
  have "op_fails_within override_frame (run_tx m)" for m :: "(pos_db, 'a) tx"
    by (auto simp: op_fails_within_def run_tx_Inl overrides.refl)
  then show "op_fails_within override_frame (voidOrderItem env tid actor input)" "op_fails_within override_frame (voidOrder env tid actor whole)"
    unfolding voidOrderItem_def voidOrder_def voidWithinTenant_def resolveItemTarget_def resolveOrderTarget_def
    by (auto intro!: fails_within_bind store_run_overrides read challenged overrides.bind_rule overrides.bodies)
qed

lemma createOrder_failed: "op_fails_within override_frame (createOrder env tid input)"
proof -
  have "tx_ensures override_frame (preflight tid input)"
    unfolding preflight_def creationGates_def by (intro overrides.bind_rule overrides.bodies)
  moreover have "op_ensures override_frame (overrideShortage env tid input short)" for short
    unfolding overrideShortage_def by (auto intro!: overrides.op_bnd overrides.op_values challenge_frame split: option.splits prod.splits)
  ultimately show ?thesis unfolding createOrder_def
    by (auto intro!: fails_within_bind fails_within_run overrides.op_values store_run_overrides split: prod.splits)
qed

lemma transitionItem_atomic: "op_atomic (transitionItem env tid mv)"
  unfolding transitionItem_def by (rule op_atomic_run)

text \<open>
  C29. Failures: an operation of the payments or the shift engine or a kitchen transition that fails leaves the whole database as
  it was, and a failed creation of an order, discount or void leaves everything as it was but
  what the manager's challenge recorded: its attempts, counters and audit rows.
\<close>

theorem failures_leave_no_trace:
  shows "(\<forall>env tid input db e db'. recordPayment env tid input db = (Inl e, db') \<longrightarrow> db' = db) \<and>
    (\<forall>env tid actor pid why db e db'. voidPayment env tid actor pid why db = (Inl e, db') \<longrightarrow> db' = db) \<and>
    (\<forall>env tid actor pid db e db'. refundPayment env tid actor pid db = (Inl e, db') \<longrightarrow> db' = db) \<and>
    (\<forall>env tid input db e db'. openShift env tid input db = (Inl e, db') \<longrightarrow> db' = db) \<and>
    (\<forall>env tid input db e db'. closeShift env tid input db = (Inl e, db') \<longrightarrow> db' = db) \<and>
    (\<forall>env tid mv db e db'. transitionItem env tid mv db = (Inl e, db') \<longrightarrow> db' = db) \<and>
    (\<forall>env tid actor input db e db'. voidOrderItem env tid actor input db = (Inl e, db') \<longrightarrow> override_frame db db') \<and>
    (\<forall>env tid actor whole db e db'. voidOrder env tid actor whole db = (Inl e, db') \<longrightarrow> override_frame db db') \<and>
    (\<forall>env tid input db e db'. createOrder env tid input db = (Inl e, db') \<longrightarrow> override_frame db db') \<and>
    (\<forall>env tid actor input db e db'. applyDiscount env tid actor input db = (Inl e, db') \<longrightarrow>
       (\<exists>ats als mls aus. db' = db\<lparr>db_attempts := db_attempts db @ ats, db_actorLockouts := als, db_managerLockouts := mls,
          db_audit := db_audit db @ aus\<rparr>))"
  by (intro conjI allI impI)
     (erule op_atomicD [OF recordPayment_atomic] op_atomicD [OF voidPayment_atomic] op_atomicD [OF refundPayment_atomic]
        op_atomicD [OF openShift_atomic] op_atomicD [OF closeShift_atomic] op_atomicD [OF transitionItem_atomic]
        voids_failed [THEN op_fails_withinD] createOrder_failed [THEN op_fails_withinD] applyDiscount_failed [THEN op_fails_withinD, unfolded override_frame_def])+

theorem failures_leave_no_trace_witness:
  "\<exists>e. refundPayment example_env ''t1'' example_actor ''u111'' example_refunded_db = (Inl e, example_refunded_db)"
proof -
  have "isl (fst (refundPayment example_env ''t1'' example_actor ''u111'' example_refunded_db))"
    by (simp add: example_run cong: db_run_cong)
  then obtain e where "fst (refundPayment example_env ''t1'' example_actor ''u111'' example_refunded_db) = Inl e"
    by (auto simp: isl_def)
  then have "refundPayment example_env ''t1'' example_actor ''u111'' example_refunded_db =
      (Inl e, snd (refundPayment example_env ''t1'' example_actor ''u111'' example_refunded_db))"
    by (metis prod.collapse)
  with failures_leave_no_trace show ?thesis by metis
qed

end
