(* ===== verification/Payment_Methods.thy ===== *)
theory Payment_Methods
  imports Pos_System
begin

text \<open>
  Model of \<^verbatim>\<open>application/engines/payments/payment-methods-engine.ts\<close>: creating and changing payment methods
  under \<open>payments:methods_admin\<close>. Methods keep the shape on which the collection of payments relies: a
  foreign-currency method has a currency and a rate that conversion accepts, every other method has
  neither.
\<close>

section \<open>Definitions\<close>

definition administrationContext :: "string \<Rightarrow> string \<Rightarrow> string option \<Rightarrow> auth_check" where
  "administrationContext tid userId branchId =
     \<lparr>ck_tenantId = tid, ck_userId = userId, ck_permissionKey = ''payments:methods_admin'', ck_tokenSecV = None,
      ck_branchId = branchId, ck_isSensitive = True\<rparr>"

text \<open>\<open>/^(0|[1-9]\d*)(\.\d{1,8})?$/\<close>, and the digits of the rate without its point are a positive number.\<close>

definition ratePattern :: "string \<Rightarrow> bool" where
  "ratePattern t \<longleftrightarrow> (case match_decimal t of None \<Rightarrow> False | Some (_, None) \<Rightarrow> True | Some (_, Some f) \<Rightarrow> length f \<le> 8)"

definition withoutPoint :: "string \<Rightarrow> string" where
  "withoutPoint t = takeWhile (\<lambda>c. c \<noteq> CHR ''.'') t @ tl (dropWhile (\<lambda>c. c \<noteq> CHR ''.'') t)"

text \<open>The vocabulary check of the type is the datatype.\<close>

definition assertTypeShape :: "payment_method_type \<Rightarrow> string option \<Rightarrow> string option \<Rightarrow> unit result" where
  "assertTypeShape ty currencyCode0 fixedExchangeRate =
     (if ty = pm_foreign_currency_cash then
        (if (case currencyCode0 of None \<Rightarrow> True | Some c \<Rightarrow> \<not> isCurrencyCode c)
         then Inl (ValidationError (Some ''currencyCode''))
         else if (case fixedExchangeRate of None \<Rightarrow> True
                  | Some r \<Rightarrow> \<not> ratePattern r \<or> digits_to_int (padEnd0 (withoutPoint r) 1) \<le> 0)
         then Inl (ValidationError (Some ''fixedExchangeRate''))
         else Inr ())
      else if currencyCode0 \<noteq> None \<or> fixedExchangeRate \<noteq> None then Inl (ValidationError (Some ''currencyCode''))
      else Inr ())"

definition create_method :: "pos_env \<Rightarrow> string \<Rightarrow> string \<Rightarrow> new_payment_method_input \<Rightarrow> (pos_db, payment_method_record) op" where
  "create_method env tid actorUserId input =
     op_bind (op_lift (env_authorize env (administrationContext tid actorUserId (nm_branchId input)))) (\<lambda>_.
     op_bind (op_lift (if js_trim (nm_name input) = [] then Inl (ValidationError (Some ''name'')) else Inr ())) (\<lambda>_.
     op_bind (op_lift (assertTypeShape (nm_type input) (nm_currencyCode input) (nm_fixedExchangeRate input))) (\<lambda>_.
     store_run env tid (insertPaymentMethod env tid input))))"

definition update_method ::
  "pos_env \<Rightarrow> string \<Rightarrow> string \<Rightarrow> string \<Rightarrow> update_payment_method_input \<Rightarrow> (pos_db, payment_method_record) op" where
  "update_method env tid actorUserId paymentMethodId input =
     store_run env tid (
       tx_bind (tx_read (loadPaymentMethod tid paymentMethodId)) (\<lambda>found.
       case found of
         None \<Rightarrow> tx_bind (tx_lift (env_authorize env (administrationContext tid actorUserId None))) (\<lambda>_. tx_throw NotFoundError)
       | Some existing \<Rightarrow>
           tx_bind (tx_lift (env_authorize env (administrationContext tid actorUserId (pm_branchId existing)))) (\<lambda>_.
           tx_bind (tx_lift (assertTypeShape (pm_type existing) (pm_currencyCode existing)
              (case up_fixedExchangeRate input of None \<Rightarrow> pm_fixedExchangeRate existing | Some r \<Rightarrow> Some r))) (\<lambda>_.
           updatePaymentMethod env tid paymentMethodId input))))"

section \<open>The shape of methods\<close>

definition method_shaped :: "payment_method_record \<Rightarrow> bool" where
  "method_shaped m \<longleftrightarrow>
     (if pm_type m = pm_foreign_currency_cash
      then \<exists>c r p. pm_currencyCode m = Some c \<and> currencyCode c = Inr c \<and> pm_fixedExchangeRate m = Some r \<and> parseRateNumeric r = Inr p
      else pm_currencyCode m = None \<and> pm_fixedExchangeRate m = None)"

lemma canonical_nat_nonempty: "canonical_nat ip \<Longrightarrow> ip \<noteq> []"
  by (auto simp: canonical_nat_def)

lemma rate_parses:
  assumes "ratePattern r" "0 < digits_to_int (padEnd0 (withoutPoint r) 1)"
  shows "\<exists>p. parseRateNumeric r = Inr p"
proof -
  from assms(1) obtain ip f where m: "match_decimal r = Some (ip, f)" and len: "case f of None \<Rightarrow> True | Some t \<Rightarrow> length t \<le> 8"
    by (auto simp: ratePattern_def split: option.splits)
  have ip: "ip \<noteq> []" and without: "withoutPoint r = ip @ (case f of None \<Rightarrow> [] | Some t \<Rightarrow> t)"
  proof -
    let ?i = "takeWhile (\<lambda>c. c \<noteq> CHR ''.'') r" and ?d = "dropWhile (\<lambda>c. c \<noteq> CHR ''.'') r"
    have c: "canonical_nat ?i" using m unfolding match_decimal_def Let_def by (simp split: if_splits)
    have "ip = ?i \<and> (case f of None \<Rightarrow> [] | Some t \<Rightarrow> t) = tl ?d"
    proof (cases ?d)
      case Nil
      show ?thesis using m c unfolding match_decimal_def Let_def Nil by simp
    next
      case (Cons x xs)
      show ?thesis using m c unfolding match_decimal_def Let_def Cons by (auto split: if_splits)
    qed
    with canonical_nat_nonempty [OF c] show "ip \<noteq> []" "withoutPoint r = ip @ (case f of None \<Rightarrow> [] | Some t \<Rightarrow> t)"
      by (simp_all add: withoutPoint_def)
  qed
  then have "padEnd0 (withoutPoint r) 1 = withoutPoint r" by (cases ip) (auto simp: padEnd0_def)
  moreover have "r \<noteq> []" using m by (auto simp: match_decimal_def canonical_nat_def split: if_splits)
  ultimately show ?thesis using assms(2) m len without by (auto simp: parseRateNumeric_def Let_def MAX_RATE_SCALE_def split: option.splits)
qed

lemma assertTypeShape_shaped:
  "assertTypeShape (pm_type m) (pm_currencyCode m) (pm_fixedExchangeRate m) = Inr () \<Longrightarrow> method_shaped m"
  using rate_parses by (fastforce simp: assertTypeShape_def method_shaped_def currencyCode_def split: if_splits option.splits)

lemma create_method_Inr:
  assumes "create_method env tid u input db = (Inr m, db')"
  shows "db' = db\<lparr>db_methods := db_methods db @ [m]\<rparr>" "method_shaped m" "pm_tenantId m = tid" "pm_type m = nm_type input"
    "js_trim (pm_name m) \<noteq> []" "env_authorize env (administrationContext tid u (pm_branchId m)) = Inr ()"
proof -
  from assms obtain x where a: "env_authorize env (administrationContext tid u (nm_branchId input)) = Inr x"
    and n: "js_trim (nm_name input) \<noteq> []" and s: "assertTypeShape (nm_type input) (nm_currencyCode input) (nm_fixedExchangeRate input) = Inr ()"
    and ins: "insertPaymentMethod env tid input db = Inr (m, db')"
    by (auto simp: create_method_def tx_simps split: if_splits)
  from ins have m: "m = \<lparr>pm_id = env_uuid env db, pm_tenantId = tid, pm_branchId = nm_branchId input, pm_name = nm_name input,
       pm_type = nm_type input, pm_currencyCode = nm_currencyCode input,
       pm_fixedExchangeRate = nm_fixedExchangeRate input,
       pm_clearingAccountSystemPurpose = nm_clearingAccountSystemPurpose input, pm_isActive = nm_isActive input\<rparr>"
    and "db' = db\<lparr>db_methods := db_methods db @ [m]\<rparr>"
    by (auto simp: insertPaymentMethod_def tx_simps Let_def)
  with a n s show "db' = db\<lparr>db_methods := db_methods db @ [m]\<rparr>" "method_shaped m" "pm_tenantId m = tid" "pm_type m = nm_type input"
    "js_trim (pm_name m) \<noteq> []" "env_authorize env (administrationContext tid u (pm_branchId m)) = Inr ()"
    by (auto intro!: assertTypeShape_shaped)
qed

definition method_update :: "update_payment_method_input \<Rightarrow> payment_method_record \<Rightarrow> payment_method_record" where
  "method_update input m = m\<lparr>pm_name := coalesce (up_name input) (pm_name m),
     pm_isActive := coalesce (up_isActive input) (pm_isActive m),
     pm_fixedExchangeRate := (case up_fixedExchangeRate input of None \<Rightarrow> pm_fixedExchangeRate m | Some r \<Rightarrow> Some r),
     pm_clearingAccountSystemPurpose := coalesce (up_clearingAccountSystemPurpose input) (pm_clearingAccountSystemPurpose m)\<rparr>"

lemma update_method_Inr:
  assumes "update_method env tid u i input db = (Inr m, db')"
  shows "\<exists>existing. loadPaymentMethod tid i db = Some existing \<and> m = method_update input existing \<and> method_shaped m \<and>
    env_authorize env (administrationContext tid u (pm_branchId existing)) = Inr () \<and>
    db' = db\<lparr>db_methods := update_where (\<lambda>q. pm_tenantId q = tid \<and> pm_id q = i) (method_update input) (db_methods db)\<rparr>"
proof -
  from assms obtain existing x where e: "loadPaymentMethod tid i db = Some existing"
    and a: "env_authorize env (administrationContext tid u (pm_branchId existing)) = Inr x"
    and s: "assertTypeShape (pm_type existing) (pm_currencyCode existing)
              (case up_fixedExchangeRate input of None \<Rightarrow> pm_fixedExchangeRate existing | Some r \<Rightarrow> Some r) = Inr ()"
    and up: "updatePaymentMethod env tid i input db = Inr (m, db')"
    by (auto simp: update_method_def tx_simps split: option.splits)
  from up e have "m = method_update input existing" and
    db': "db' = db\<lparr>db_methods := update_where (\<lambda>q. pm_tenantId q = tid \<and> pm_id q = i) (method_update input) (db_methods db)\<rparr>"
    by (auto simp: updatePaymentMethod_def tx_simps Let_def method_update_def [abs_def])
  moreover from this(1) s have "method_shaped m" by (intro assertTypeShape_shaped) (simp add: method_update_def)
  ultimately show ?thesis using e a by simp
qed

definition methods_shaped :: "pos_db \<Rightarrow> bool" where
  "methods_shaped db \<longleftrightarrow> list_all method_shaped (db_methods db) \<and> distinct (map (\<lambda>m. (pm_tenantId m, pm_id m)) (db_methods db))"

text \<open>
  Payment methods: an accepted creation adds one method of the requested type with a name, an accepted
  change rewrites exactly the named method and keeps its type, currency and branch. Both need the
  administration permission for the branch of the method, and both keep every method in shape: foreign
  cash has a currency of ISO 4217 and a rate that conversion accepts, every other method has neither.
  A call that fails changes nothing.
\<close>

theorem payment_methods_correct:
  shows "(\<forall>env tid u input db m db'. create_method env tid u input db = (Inr m, db') \<longrightarrow>
      db' = db\<lparr>db_methods := db_methods db @ [m]\<rparr> \<and> method_shaped m \<and> pm_tenantId m = tid \<and> pm_type m = nm_type input \<and>
      js_trim (pm_name m) \<noteq> [] \<and> env_authorize env (administrationContext tid u (pm_branchId m)) = Inr ()) \<and>
    (\<forall>env tid u i input db m db'. update_method env tid u i input db = (Inr m, db') \<and> methods_shaped db \<longrightarrow>
      (\<exists>existing\<in>set (db_methods db). pm_tenantId existing = tid \<and> pm_id existing = i \<and> m = method_update input existing \<and>
         pm_type m = pm_type existing \<and> pm_currencyCode m = pm_currencyCode existing \<and> pm_branchId m = pm_branchId existing \<and>
         env_authorize env (administrationContext tid u (pm_branchId m)) = Inr ()) \<and>
      method_shaped m \<and> methods_shaped db' \<and> db' = db\<lparr>db_methods := db_methods db'\<rparr>) \<and>
    (\<forall>env tid u input db e db'. create_method env tid u input db = (Inl e, db') \<longrightarrow> db' = db) \<and>
    (\<forall>env tid u i input db e db'. update_method env tid u i input db = (Inl e, db') \<longrightarrow> db' = db)"
proof -
  have upd: "(\<exists>existing\<in>set (db_methods db). pm_tenantId existing = tid \<and> pm_id existing = i \<and> m = method_update input existing \<and>
         pm_type m = pm_type existing \<and> pm_currencyCode m = pm_currencyCode existing \<and> pm_branchId m = pm_branchId existing \<and>
         env_authorize env (administrationContext tid u (pm_branchId m)) = Inr ()) \<and>
      method_shaped m \<and> methods_shaped db' \<and> db' = db\<lparr>db_methods := db_methods db'\<rparr>"
    if up: "update_method env tid u i input db = (Inr m, db')" and ok: "methods_shaped db" for env tid u i input db m db'
  proof -
    from update_method_Inr [OF up] obtain existing where e: "loadPaymentMethod tid i db = Some existing" "m = method_update input existing"
      "method_shaped m" "env_authorize env (administrationContext tid u (pm_branchId existing)) = Inr ()" and
      db': "db' = db\<lparr>db_methods := update_where (\<lambda>q. pm_tenantId q = tid \<and> pm_id q = i) (method_update input) (db_methods db)\<rparr>"
      by blast
    have mem: "existing \<in> set (db_methods db)" "pm_tenantId existing = tid" "pm_id existing = i"
      using e(1) by (auto simp: loadPaymentMethod_def dest: find_row_Some)
    have keys: "map (\<lambda>m. (pm_tenantId m, pm_id m)) (db_methods db') = map (\<lambda>m. (pm_tenantId m, pm_id m)) (db_methods db)"
      unfolding db' by simp (rule update_where_keys, simp add: method_update_def)
    have "x = existing" if "x \<in> set (db_methods db)" "pm_tenantId x = tid" "pm_id x = i" for x
      using ok that mem by (auto simp: methods_shaped_def distinct_map inj_on_def)
    then have "list_all method_shaped (db_methods db')"
      using ok e(2,3) by (auto simp: methods_shaped_def db' update_where_def list_all_iff)
    with keys ok have "methods_shaped db'" by (simp add: methods_shaped_def)
    moreover have "db' = db\<lparr>db_methods := db_methods db'\<rparr>" by (simp add: db')
    ultimately show ?thesis using e(2-4) mem by (auto simp: method_update_def intro!: bexI [of _ existing])
  qed
  have at: "op_atomic (create_method env tid u input)" for env tid u input
    unfolding create_method_def by (intro op_atomic_bind read_only.op_values op_atomic_run)
  have "op_atomic (update_method env tid u i input)" for env tid u i input
    unfolding update_method_def by (rule op_atomic_run)
  with at have failed: "\<forall>env tid u input db e db'. create_method env tid u input db = (Inl e, db') \<longrightarrow> db' = db"
    "\<forall>env tid u i input db e db'. update_method env tid u i input db = (Inl e, db') \<longrightarrow> db' = db"
    unfolding op_atomic_def by blast+
  have created: "db' = db\<lparr>db_methods := db_methods db @ [m]\<rparr> \<and> method_shaped m \<and> pm_tenantId m = tid \<and> pm_type m = nm_type input \<and>
      js_trim (pm_name m) \<noteq> [] \<and> env_authorize env (administrationContext tid u (pm_branchId m)) = Inr ()"
    if "create_method env tid u input db = (Inr m, db')" for env tid u input db m db'
    using create_method_Inr [OF that] by blast
  show ?thesis
    by (rule conjI [OF _ conjI [OF _ conjI [OF failed]]]; intro allI impI; (elim conjE)?; (rule created | rule upd); assumption)
qed

definition example_dollars :: new_payment_method_input where
  "example_dollars = \<lparr>nm_name = ''Dollars'', nm_type = pm_foreign_currency_cash, nm_branchId = None, nm_currencyCode = Some ''USD'',
     nm_fixedExchangeRate = Some ''3.75'', nm_clearingAccountSystemPurpose = ''cash_clearing'', nm_isActive = True\<rparr>"

theorem payment_methods_correct_witness:
  "\<exists>m db'. create_method example_env ''t1'' ''m1'' example_dollars example_db = (Inr m, db') \<and> method_shaped m \<and> pm_fixedExchangeRate m = Some ''3.75''"
proof -
  have v: "assertTypeShape pm_foreign_currency_cash (Some ''USD'') (Some ''3.75'') = Inr () \<and> js_trim ''Dollars'' = ''Dollars''" by code_simp
  have "\<exists>m db'. create_method example_env ''t1'' ''m1'' example_dollars example_db = (Inr m, db') \<and> pm_fixedExchangeRate m = Some ''3.75''"
    by (simp add: create_method_def example_dollars_def v insertPaymentMethod_def example_run cong: db_run_cong)
  with payment_methods_correct show ?thesis by metis
qed

end
