(* ===== verification/Permissions.thy ===== *)
theory Permissions
  imports Json_Text Transactions
begin

text \<open>
  The permission contracts and the two implementations of the permission store:
  \<^verbatim>\<open>domain/contracts/permission-repository.ts\<close>, \<^verbatim>\<open>abac-context.ts\<close>, \<^verbatim>\<open>super-admin-guard.ts\<close>,
  \<^verbatim>\<open>infrastructure/db/repositories/in-memory-permission-repository.ts\<close> (JavaScript maps) and
  \<^verbatim>\<open>postgres-permission-repository.ts\<close> (SQL over the same rows). A write of the in-memory store throws
  before it changes anything, so writes are transaction bodies in both.
\<close>

section \<open>Contracts\<close>

datatype scope_type = tenant_scope | branch_scope

record active_user_role =
  ar_roleId :: string
  ar_roleVersion :: int
  ar_scopeType :: scope_type
  ar_scopeId :: "string option"

record permission_grant =
  gr_roleId :: string
  gr_roleVersion :: int
  gr_scopeType :: scope_type
  gr_scopeId :: "string option"
  gr_maxAmountMinorUnits :: "int option"
  gr_isSensitive :: bool

record permission_attributes =
  pa_key :: string
  pa_category :: string
  pa_isSensitive :: bool

record permission_check_outcome =
  oc_allowed :: bool
  oc_effectiveMaxAmountMinorUnits :: "int option"

text \<open>The operations of the read contract that authorization uses.\<close>

record permission_reader =
  rd_isUserActive :: "string \<Rightarrow> string \<Rightarrow> bool result"
  rd_getSecurityVersion :: "string \<Rightarrow> string \<Rightarrow> int result"
  rd_listActiveUserRoles :: "string \<Rightarrow> string \<Rightarrow> active_user_role list result"
  rd_getApplicableGrants :: "string \<Rightarrow> string \<Rightarrow> string \<Rightarrow> string option \<Rightarrow> permission_grant list result"

datatype abac_context =
    Resource (actorBranchId: "string option") (resourceBranchId: string) (resourceAmountMinorUnits: "int option") (isSensitivePermission: bool)
  | NoResource (actorBranchId: "string option") (isSensitivePermission: bool)

definition hasResource :: "abac_context \<Rightarrow> bool" where
  "hasResource ctx = (case ctx of Resource _ _ _ _ \<Rightarrow> True | NoResource _ _ \<Rightarrow> False)"

definition isLastActiveMember :: "string list \<Rightarrow> string \<Rightarrow> bool" where
  "isLastActiveMember activeMemberIds targetId =
     (let isMember = targetId \<in> set activeMemberIds in isMember \<and> length activeMemberIds = 1)"

definition TENANT_SUPER_ADMIN_ROLE_NAME :: string where
  "TENANT_SUPER_ADMIN_ROLE_NAME = ''TENANT_SUPER_ADMIN''"

section \<open>The in-memory store\<close>

record mem_tenant =
  te_id :: string
  te_name :: string
  te_status :: "string option"
  te_reportingCurrency :: "string option"

record mem_jurisdiction =
  ju_countryCode :: string
  ju_defaultCurrencyCode :: string
  ju_isActive :: bool

record mem_branch =
  mb_id :: string
  mb_tenantId :: string
  mb_name :: string
  mb_baseCurrency :: string
  mb_timezone :: string
  mb_countryCode :: string

record mem_user =
  mu_id :: string
  mu_tenantId :: string
  mu_branchId :: "string option"
  mu_isActive :: bool
  mu_securityVersion :: int

record mem_role =
  ro_id :: string
  ro_tenantId :: string
  ro_name :: string
  ro_roleVersion :: int
  ro_isSystem :: bool

record mem_permission =
  pe_key :: string
  pe_category :: string
  pe_isSensitive :: bool

record mem_role_permission =
  mp_id :: string
  mp_tenantId :: string
  mp_roleId :: string
  mp_permissionKey :: string
  mp_maxAmountMinorUnits :: "int option"

record mem_user_role =
  ur_id :: string
  ur_tenantId :: string
  ur_userId :: string
  ur_roleId :: string
  ur_scopeType :: scope_type
  ur_scopeId :: "string option"
  ur_isActive :: bool

record permission_store =
  ps_idCounter :: int
  ps_tenants :: "(string \<times> mem_tenant) list"
  ps_taxJurisdictions :: "(string \<times> mem_jurisdiction) list"
  ps_branches :: "(string \<times> mem_branch) list"
  ps_users :: "(string \<times> mem_user) list"
  ps_roles :: "(string \<times> mem_role) list"
  ps_permissions :: "(string \<times> mem_permission) list"
  ps_rolePermissions :: "(string \<times> mem_role_permission) list"
  ps_userRoles :: "(string \<times> mem_user_role) list"

definition assertInMemoryNotInProduction :: "string option \<Rightarrow> unit result" where
  "assertInMemoryNotInProduction nodeEnv =
     (if nodeEnv = Some ''production'' then Inl (ConfigurationError (Some ''NODE_ENV'')) else Inr ())"

definition compareScope :: "string option \<Rightarrow> string option \<Rightarrow> int" where
  "compareScope left right =
     (if left = right then 0
      else case (left, right) of
             (None, _) \<Rightarrow> -1 | (_, None) \<Rightarrow> 1
           | (Some l, Some r) \<Rightarrow> if l < r then -1 else if l > r then 1 else 0)"

definition scopeCovers :: "scope_type \<Rightarrow> string option \<Rightarrow> string option \<Rightarrow> bool" where
  "scopeCovers scopeType scopeId relevantBranch = (if scopeType = tenant_scope then True else scopeId = relevantBranch)"

definition nextId :: "string \<Rightarrow> (permission_store, string) tx" where
  "nextId pre = tx_bind (tx_write (\<lambda>s. s\<lparr>ps_idCounter := ps_idCounter s + 1\<rparr>)) (\<lambda>_.
     tx_read (\<lambda>s. pre @ ''-'' @ int_to_text (ps_idCounter s)))"

subsection \<open>Reading\<close>

definition isUserActive :: "permission_store \<Rightarrow> string \<Rightarrow> string \<Rightarrow> bool" where
  "isUserActive s tid userId =
     (case map_of (ps_users s) userId of
        None \<Rightarrow> False
      | Some user \<Rightarrow> mu_tenantId user = tid \<and> mu_isActive user \<and>
          (case map_of (ps_tenants s) tid of None \<Rightarrow> True | Some te \<Rightarrow> te_status te \<noteq> Some ''suspended''))"

definition getUserBranchId :: "permission_store \<Rightarrow> string \<Rightarrow> string \<Rightarrow> string option" where
  "getUserBranchId s tid userId =
     (case map_of (ps_users s) userId of
        None \<Rightarrow> None
      | Some user \<Rightarrow> if mu_tenantId user \<noteq> tid then None else mu_branchId user)"

definition getSecurityVersion :: "permission_store \<Rightarrow> string \<Rightarrow> string \<Rightarrow> int result" where
  "getSecurityVersion s tid userId =
     (case map_of (ps_users s) userId of
        None \<Rightarrow> Inl NotFoundError
      | Some user \<Rightarrow> if mu_tenantId user \<noteq> tid then Inl NotFoundError else Inr (mu_securityVersion user))"

definition user_assignments :: "permission_store \<Rightarrow> string \<Rightarrow> string \<Rightarrow> mem_user_role list" where
  "user_assignments s tid userId =
     filter (\<lambda>ur. \<not> (ur_tenantId ur \<noteq> tid \<or> ur_userId ur \<noteq> userId \<or> \<not> ur_isActive ur)) (map snd (ps_userRoles s))"

definition compareActiveRoles :: "active_user_role \<Rightarrow> active_user_role \<Rightarrow> int" where
  "compareActiveRoles a b =
     (if ar_roleId a \<noteq> ar_roleId b then (if ar_roleId a < ar_roleId b then -1 else 1)
      else compareScope (ar_scopeId a) (ar_scopeId b))"

definition listActiveUserRoles :: "permission_store \<Rightarrow> string \<Rightarrow> string \<Rightarrow> active_user_role list" where
  "listActiveUserRoles s tid userId =
     js_sort compareActiveRoles (List.map_filter (\<lambda>ur.
       map_option (\<lambda>role. \<lparr>ar_roleId = ur_roleId ur, ar_roleVersion = ro_roleVersion role,
          ar_scopeType = ur_scopeType ur, ar_scopeId = ur_scopeId ur\<rparr>) (map_of (ps_roles s) (ur_roleId ur)))
       (user_assignments s tid userId))"

definition getPermissionAttributes :: "permission_store \<Rightarrow> string \<Rightarrow> string \<Rightarrow> permission_attributes option" where
  "getPermissionAttributes s tid permissionKey =
     map_option (\<lambda>p. \<lparr>pa_key = pe_key p, pa_category = pe_category p, pa_isSensitive = pe_isSensitive p\<rparr>)
       (map_of (ps_permissions s) permissionKey)"

definition assignment_grants :: "permission_store \<Rightarrow> string \<Rightarrow> string option \<Rightarrow> mem_user_role \<Rightarrow> permission_grant list" where
  "assignment_grants s permissionKey relevantBranch ur =
     (if \<not> scopeCovers (ur_scopeType ur) (ur_scopeId ur) relevantBranch then []
      else case map_of (ps_roles s) (ur_roleId ur) of
        None \<Rightarrow> []
      | Some role \<Rightarrow> map (\<lambda>rp. \<lparr>gr_roleId = ur_roleId ur, gr_roleVersion = ro_roleVersion role,
             gr_scopeType = ur_scopeType ur, gr_scopeId = ur_scopeId ur,
             gr_maxAmountMinorUnits = mp_maxAmountMinorUnits rp,
             gr_isSensitive = (case map_of (ps_permissions s) permissionKey of None \<Rightarrow> False | Some p \<Rightarrow> pe_isSensitive p)\<rparr>)
           (filter (\<lambda>rp. \<not> (mp_roleId rp \<noteq> ur_roleId ur \<or> mp_permissionKey rp \<noteq> permissionKey)) (map snd (ps_rolePermissions s))))"

definition getApplicableGrants :: "permission_store \<Rightarrow> string \<Rightarrow> string \<Rightarrow> string \<Rightarrow> string option \<Rightarrow> permission_grant list" where
  "getApplicableGrants s tid userId permissionKey relevantBranch =
     concat (map (assignment_grants s permissionKey relevantBranch) (user_assignments s tid userId))"

definition covered_keys :: "permission_store \<Rightarrow> string \<Rightarrow> string \<Rightarrow> string \<Rightarrow> string list" where
  "covered_keys s tid userId branchId =
     concat (map (\<lambda>ur. if \<not> scopeCovers (ur_scopeType ur) (ur_scopeId ur) (Some branchId) then []
       else case map_of (ps_roles s) (ur_roleId ur) of
         None \<Rightarrow> []
       | Some role \<Rightarrow> if ro_tenantId role \<noteq> tid then []
           else map mp_permissionKey (filter (\<lambda>rp. \<not> (mp_tenantId rp \<noteq> tid \<or> mp_roleId rp \<noteq> ro_id role)) (map snd (ps_rolePermissions s))))
       (user_assignments s tid userId))"

text \<open>\<open>candidateKeys.filter((key, i) => covered.has(key) && candidateKeys.indexOf(key) === i)\<close>.\<close>

fun firstOccurrences :: "'a list \<Rightarrow> 'a list \<Rightarrow> 'a list" where
  "firstOccurrences seen [] = []"
| "firstOccurrences seen (x # xs) = (if x \<in> set seen then firstOccurrences seen xs else x # firstOccurrences (x # seen) xs)"

definition getCoveredPermissionKeys :: "permission_store \<Rightarrow> string \<Rightarrow> string \<Rightarrow> string \<Rightarrow> string list \<Rightarrow> string list" where
  "getCoveredPermissionKeys s tid userId branchId candidateKeys =
     (case map_of (ps_users s) userId of
        None \<Rightarrow> []
      | Some user \<Rightarrow> if mu_tenantId user \<noteq> tid \<or> \<not> mu_isActive user then []
          else filter (\<lambda>key. key \<in> set (covered_keys s tid userId branchId)) (firstOccurrences [] candidateKeys))"

definition inMemoryReader :: "permission_store \<Rightarrow> permission_reader" where
  "inMemoryReader s = \<lparr>rd_isUserActive = (\<lambda>t u. Inr (isUserActive s t u)), rd_getSecurityVersion = getSecurityVersion s,
     rd_listActiveUserRoles = (\<lambda>t u. Inr (listActiveUserRoles s t u)),
     rd_getApplicableGrants = (\<lambda>t u k b. Inr (getApplicableGrants s t u k b))\<rparr>"

subsection \<open>Writing\<close>

definition requireTenant :: "string \<Rightarrow> (permission_store, unit) tx" where
  "requireTenant tid = tx_bind (tx_read (\<lambda>s. map_of (ps_tenants s) tid)) (\<lambda>found. tx_guard (found \<noteq> None) NotFoundError)"

definition requireRole :: "string \<Rightarrow> string \<Rightarrow> (permission_store, unit) tx" where
  "requireRole tid roleId =
     tx_bind (tx_read (\<lambda>s. map_of (ps_roles s) roleId)) (\<lambda>found.
     tx_bind (tx_some found NotFoundError) (\<lambda>role.
     tx_guard (ro_tenantId role = tid) NotFoundError))"

definition systemRole :: "string \<Rightarrow> string \<Rightarrow> mem_role" where
  "systemRole tid roleId = \<lparr>ro_id = roleId, ro_tenantId = tid, ro_name = TENANT_SUPER_ADMIN_ROLE_NAME, ro_roleVersion = 1, ro_isSystem = True\<rparr>"

definition createTenantWithSystemRole :: "string \<Rightarrow> string \<Rightarrow> (permission_store, unit) tx" where
  "createTenantWithSystemRole tid tenantName =
     tx_bind (tx_write (\<lambda>s. s\<lparr>ps_tenants := AList.update tid
        \<lparr>te_id = tid, te_name = tenantName, te_status = None, te_reportingCurrency = None\<rparr> (ps_tenants s)\<rparr>)) (\<lambda>_.
     tx_bind (nextId ''role'') (\<lambda>roleId.
     tx_write (\<lambda>s. s\<lparr>ps_roles := AList.update roleId (systemRole tid roleId) (ps_roles s)\<rparr>)))"

definition isCountryCode :: "string \<Rightarrow> bool" where
  "isCountryCode t \<longleftrightarrow> length t = 2 \<and> list_all (\<lambda>c. 65 \<le> (of_char c :: nat) \<and> (of_char c :: nat) \<le> 90) t"

definition addRolePermission :: "string \<Rightarrow> string \<Rightarrow> string \<Rightarrow> int option \<Rightarrow> (permission_store, unit) tx" where
  "addRolePermission tid roleId permissionKey maxAmount =
     tx_bind (nextId ''role-permission'') (\<lambda>newId.
     tx_write (\<lambda>s. s\<lparr>ps_rolePermissions := AList.update newId \<lparr>mp_id = newId, mp_tenantId = tid, mp_roleId = roleId,
        mp_permissionKey = permissionKey, mp_maxAmountMinorUnits = maxAmount\<rparr> (ps_rolePermissions s)\<rparr>))"

definition registerTenantWithCountry ::
  "string \<Rightarrow> string \<Rightarrow> string \<Rightarrow> string \<Rightarrow> string \<Rightarrow> string \<Rightarrow> (permission_store, string) tx" where
  "registerTenantWithCountry tid tenantName countryCode branchId branchName timezone =
     tx_bind (tx_guard (isCountryCode countryCode) (ValidationError (Some ''countryCode''))) (\<lambda>_.
     tx_bind (tx_read (\<lambda>s. map_of (ps_taxJurisdictions s) countryCode)) (\<lambda>found.
     tx_bind (tx_some (case found of Some j \<Rightarrow> if ju_isActive j then Some j else None | None \<Rightarrow> None)
        (ValidationError (Some ''countryCode''))) (\<lambda>jurisdiction.
     tx_bind (tx_read (\<lambda>s. map_of (ps_tenants s) tid = None)) (\<lambda>freshTenant.
     tx_bind (tx_guard freshTenant ConflictError) (\<lambda>_.
     tx_bind (tx_read (\<lambda>s. map_of (ps_branches s) branchId = None)) (\<lambda>freshBranch.
     tx_bind (tx_guard freshBranch ConflictError) (\<lambda>_.
     tx_bind (nextId ''role'') (\<lambda>roleId.
     tx_bind (tx_write (\<lambda>s. s\<lparr>ps_tenants := AList.update tid \<lparr>te_id = tid, te_name = tenantName, te_status = None,
        te_reportingCurrency = Some (ju_defaultCurrencyCode jurisdiction)\<rparr> (ps_tenants s)\<rparr>)) (\<lambda>_.
     tx_bind (tx_write (\<lambda>s. s\<lparr>ps_roles := AList.update roleId (systemRole tid roleId) (ps_roles s)\<rparr>)) (\<lambda>_.
     tx_bind (tx_read (\<lambda>s. map snd (ps_permissions s))) (\<lambda>permissions.
     tx_bind (tx_for (\<lambda>p. addRolePermission tid roleId (pe_key p) None) permissions) (\<lambda>_.
     tx_bind (tx_write (\<lambda>s. s\<lparr>ps_branches := AList.update branchId \<lparr>mb_id = branchId, mb_tenantId = tid,
        mb_name = branchName, mb_baseCurrency = ju_defaultCurrencyCode jurisdiction, mb_timezone = timezone,
        mb_countryCode = countryCode\<rparr> (ps_branches s)\<rparr>)) (\<lambda>_.
     tx_return (ju_defaultCurrencyCode jurisdiction))))))))))))))"

definition createPermission :: "string \<Rightarrow> string \<Rightarrow> string \<Rightarrow> bool \<Rightarrow> (permission_store, unit) tx" where
  "createPermission tid permissionKey category isSensitive =
     tx_bind (requireTenant tid) (\<lambda>_.
     tx_write (\<lambda>s. s\<lparr>ps_permissions := AList.update permissionKey
        \<lparr>pe_key = permissionKey, pe_category = category, pe_isSensitive = isSensitive\<rparr> (ps_permissions s)\<rparr>))"

definition createRole :: "string \<Rightarrow> string \<Rightarrow> (permission_store, string) tx" where
  "createRole tid name0 =
     tx_bind (requireTenant tid) (\<lambda>_.
     tx_bind (nextId ''role'') (\<lambda>newId.
     tx_bind (tx_write (\<lambda>s. s\<lparr>ps_roles := AList.update newId \<lparr>ro_id = newId, ro_tenantId = tid, ro_name = name0,
        ro_roleVersion = 1, ro_isSystem = False\<rparr> (ps_roles s)\<rparr>)) (\<lambda>_.
     tx_return newId)))"

definition assignRolePermission :: "string \<Rightarrow> string \<Rightarrow> string \<Rightarrow> int option \<Rightarrow> (permission_store, unit) tx" where
  "assignRolePermission tid roleId permissionKey maxAmount =
     tx_bind (requireTenant tid) (\<lambda>_.
     tx_bind (requireRole tid roleId) (\<lambda>_.
     tx_bind (tx_read (\<lambda>s. map_of (ps_permissions s) permissionKey)) (\<lambda>found.
     tx_bind (tx_some found NotFoundError) (\<lambda>_.
     addRolePermission tid roleId permissionKey maxAmount))))"

definition assertScope :: "scope_type \<Rightarrow> string option \<Rightarrow> unit result" where
  "assertScope scopeType scopeId =
     (if scopeType = tenant_scope \<and> scopeId \<noteq> None then Inl (ValidationError (Some ''scopeId''))
      else if scopeType = branch_scope \<and> scopeId = None then Inl (ValidationError (Some ''scopeId''))
      else Inr ())"

definition assignUserRole ::
  "string \<Rightarrow> string \<Rightarrow> string \<Rightarrow> scope_type \<Rightarrow> string option \<Rightarrow> (permission_store, string) tx" where
  "assignUserRole tid userId roleId scopeType scopeId =
     tx_bind (requireTenant tid) (\<lambda>_.
     tx_bind (tx_lift (assertScope scopeType scopeId)) (\<lambda>_.
     tx_bind (requireRole tid roleId) (\<lambda>_.
     tx_bind (tx_read (\<lambda>s. map_of (ps_users s) userId)) (\<lambda>found.
     tx_bind (tx_some found NotFoundError) (\<lambda>user.
     tx_bind (tx_guard (mu_tenantId user = tid) NotFoundError) (\<lambda>_.
     tx_bind (nextId ''user-role'') (\<lambda>newId.
     tx_bind (tx_write (\<lambda>s. s\<lparr>ps_userRoles := AList.update newId \<lparr>ur_id = newId, ur_tenantId = tid, ur_userId = userId,
        ur_roleId = roleId, ur_scopeType = scopeType, ur_scopeId = scopeId, ur_isActive = True\<rparr> (ps_userRoles s)\<rparr>)) (\<lambda>_.
     tx_return newId))))))))"

definition activeSuperAdminAssignments :: "permission_store \<Rightarrow> string \<Rightarrow> mem_user_role list" where
  "activeSuperAdminAssignments s tid =
     filter (\<lambda>ur. \<not> (ur_tenantId ur \<noteq> tid \<or> \<not> ur_isActive ur) \<and>
       (case map_of (ps_roles s) (ur_roleId ur) of None \<Rightarrow> False | Some role \<Rightarrow> ro_isSystem role)) (map snd (ps_userRoles s))"

definition activeSuperAdminAssignmentIds :: "permission_store \<Rightarrow> string \<Rightarrow> string list" where
  "activeSuperAdminAssignmentIds s tid = map ur_id (activeSuperAdminAssignments s tid)"

definition activeSuperAdminHolderUserIds :: "permission_store \<Rightarrow> string \<Rightarrow> string list" where
  "activeSuperAdminHolderUserIds s tid =
     map ur_userId (filter (\<lambda>ur. case map_of (ps_users s) (ur_userId ur) of None \<Rightarrow> False | Some user \<Rightarrow> mu_isActive user)
       (activeSuperAdminAssignments s tid))"

definition removeUserRoleAssignment :: "string \<Rightarrow> string \<Rightarrow> (permission_store, unit) tx" where
  "removeUserRoleAssignment tid userRoleId =
     tx_bind (requireTenant tid) (\<lambda>_.
     tx_bind (tx_read (\<lambda>s. isLastActiveMember (activeSuperAdminAssignmentIds s tid) userRoleId)) (\<lambda>isLast.
     tx_bind (tx_guard (\<not> isLast) ConflictError) (\<lambda>_.
     tx_write (\<lambda>s. s\<lparr>ps_userRoles := AList.delete userRoleId (ps_userRoles s)\<rparr>))))"

definition deactivateUserRoleAssignment :: "string \<Rightarrow> string \<Rightarrow> (permission_store, unit) tx" where
  "deactivateUserRoleAssignment tid userRoleId =
     tx_bind (requireTenant tid) (\<lambda>_.
     tx_bind (tx_read (\<lambda>s. isLastActiveMember (activeSuperAdminAssignmentIds s tid) userRoleId)) (\<lambda>isLast.
     tx_bind (tx_guard (\<not> isLast) ConflictError) (\<lambda>_.
     tx_write (\<lambda>s. case map_of (ps_userRoles s) userRoleId of
        None \<Rightarrow> s
      | Some ur \<Rightarrow> s\<lparr>ps_userRoles := AList.update userRoleId (ur\<lparr>ur_isActive := False\<rparr>) (ps_userRoles s)\<rparr>))))"

definition disableUser :: "string \<Rightarrow> string \<Rightarrow> (permission_store, unit) tx" where
  "disableUser tid userId =
     tx_bind (requireTenant tid) (\<lambda>_.
     tx_bind (tx_read (\<lambda>s. isLastActiveMember (activeSuperAdminHolderUserIds s tid) userId)) (\<lambda>isLast.
     tx_bind (tx_guard (\<not> isLast) ConflictError) (\<lambda>_.
     tx_write (\<lambda>s. case map_of (ps_users s) userId of
        None \<Rightarrow> s
      | Some user \<Rightarrow> s\<lparr>ps_users := AList.update userId (user\<lparr>mu_isActive := False\<rparr>) (ps_users s)\<rparr>))))"

end
