(* ===== verification/Authorization.thy ===== *)
theory Authorization
  imports Permissions Money
begin

text \<open>
  \<^verbatim>\<open>domain/contracts/sec-v.ts\<close>, \<^verbatim>\<open>application/engines/rbac/l1-permission-cache.ts\<close> and
  \<^verbatim>\<open>application/engines/rbac/authorization-engine.ts\<close>: the digest of a user's roles, the LRU cache with
  expiry, and the three stages of a check. The hash function is a parameter; the clock is an
  argument of every operation that reads it. The engine works on a \<open>permission_reader\<close>, and what it
  needs of one is the locale \<open>permission_reading\<close>.
\<close>

section \<open>The digest of the roles\<close>

definition scope_text :: "scope_type \<Rightarrow> string" where
  "scope_text t = (case t of tenant_scope \<Rightarrow> ''tenant'' | branch_scope \<Rightarrow> ''branch'')"

definition null_or_string :: "string option \<Rightarrow> json" where
  "null_or_string t = (case t of None \<Rightarrow> JsNull | Some s \<Rightarrow> JsStr s)"

definition role_tuple :: "active_user_role \<Rightarrow> json" where
  "role_tuple r = JsArr [JsStr (ar_roleId r), JsNum (ar_roleVersion r), JsStr (scope_text (ar_scopeType r)), null_or_string (ar_scopeId r)]"

text \<open>\<open>compareTuples\<close> looks at the first and the last component.\<close>

definition compareTuples :: "active_user_role \<Rightarrow> active_user_role \<Rightarrow> int" where
  "compareTuples left right =
     (if ar_roleId left < ar_roleId right then -1
      else if ar_roleId left > ar_roleId right then 1
      else compareScope (ar_scopeId left) (ar_scopeId right))"

definition serialiseSecVPayload :: "active_user_role list \<Rightarrow> int \<Rightarrow> string" where
  "serialiseSecVPayload roles securityVersion =
     stringify (JsObj [(''roles'', JsArr (map role_tuple (js_sort compareTuples roles))), (''securityVersion'', JsNum securityVersion)])"

definition deriveSecV :: "active_user_role list \<Rightarrow> int \<Rightarrow> (string \<Rightarrow> string) \<Rightarrow> string" where
  "deriveSecV roles securityVersion hash = hash (serialiseSecVPayload roles securityVersion)"

section \<open>The cache\<close>

record cache_node =
  cn_value :: permission_check_outcome
  cn_storedAt :: int

record l1_cache =
  l1_entries :: "(string \<times> cache_node) list"
  l1_maxEntries :: int
  l1_ttlMs :: int

definition newL1PermissionCache :: "js_number option \<Rightarrow> js_number option \<Rightarrow> l1_cache result" where
  "newL1PermissionCache maxEntries ttlMs =
     (let m = (case maxEntries of None \<Rightarrow> JInt 1024 | Some n \<Rightarrow> n);
          t = (case ttlMs of None \<Rightarrow> JInt 60000 | Some n \<Rightarrow> n)
      in case m of
           JInt mx \<Rightarrow> if mx \<le> 0 then Inl (ValidationError (Some ''maxEntries''))
             else (case t of
               JInt tt \<Rightarrow> if tt \<le> 0 then Inl (ValidationError (Some ''ttlMs''))
                 else Inr \<lparr>l1_entries = [], l1_maxEntries = mx, l1_ttlMs = tt\<rparr>
             | JNonInteger \<Rightarrow> Inl (ValidationError (Some ''ttlMs'')))
         | JNonInteger \<Rightarrow> Inl (ValidationError (Some ''maxEntries'')))"

text \<open>Deleting and setting a key again moves it to the end of the map, the most recently used place.\<close>

definition cache_get :: "int \<Rightarrow> string \<Rightarrow> l1_cache \<Rightarrow> permission_check_outcome option \<times> l1_cache" where
  "cache_get now key c =
     (case map_of (l1_entries c) key of
        None \<Rightarrow> (None, c)
      | Some node \<Rightarrow>
          if now - cn_storedAt node \<ge> l1_ttlMs c
          then (None, c\<lparr>l1_entries := AList.delete key (l1_entries c)\<rparr>)
          else (Some (cn_value node), c\<lparr>l1_entries := AList.update key node (AList.delete key (l1_entries c))\<rparr>))"

function evict :: "int \<Rightarrow> (string \<times> cache_node) list \<Rightarrow> (string \<times> cache_node) list" where
  "evict maxEntries [] = []"
| "evict maxEntries (e # es) =
     (if int (length (e # es)) > maxEntries then evict maxEntries (AList.delete (fst e) (e # es)) else e # es)"
  by pat_completeness auto
termination
proof (relation "measure (\<lambda>(_, es). length es)", goal_cases)
  case (2 m e es)
  have "length (AList.delete (fst e) es) \<le> length es" by (rule length_delete_le)
  then show ?case by (cases e) simp
qed simp

definition cache_set :: "int \<Rightarrow> string \<Rightarrow> permission_check_outcome \<Rightarrow> l1_cache \<Rightarrow> l1_cache" where
  "cache_set now key v c =
     (let es = (if map_of (l1_entries c) key \<noteq> None then AList.delete key (l1_entries c) else l1_entries c);
          es' = AList.update key \<lparr>cn_value = v, cn_storedAt = now\<rparr> es
      in c\<lparr>l1_entries := evict (l1_maxEntries c) es'\<rparr>)"

section \<open>The engine\<close>

record check_permission_input =
  cp_in_tenantId :: string
  cp_in_userId :: string
  cp_in_permissionKey :: string
  cp_in_context :: abac_context
  cp_in_tokenSecV :: "string option"

definition buildCacheKey :: "string \<Rightarrow> string \<Rightarrow> string \<Rightarrow> bool \<Rightarrow> string option \<Rightarrow> string" where
  "buildCacheKey tid userId permissionKey hasRes relevantBranch =
     stringify (JsArr [JsStr tid, JsStr userId, JsStr permissionKey, JsBool hasRes, null_or_string relevantBranch])"

definition outcome_step :: "bool \<times> int option \<Rightarrow> permission_grant \<Rightarrow> bool \<times> int option" where
  "outcome_step st grant =
     (case gr_maxAmountMinorUnits grant of
        None \<Rightarrow> (True, snd st)
      | Some m \<Rightarrow> if (case snd st of None \<Rightarrow> True | Some x \<Rightarrow> m > x) then (fst st, Some m) else st)"

definition computeOutcome :: "permission_grant list \<Rightarrow> permission_check_outcome" where
  "computeOutcome grants =
     (if grants = [] then \<lparr>oc_allowed = False, oc_effectiveMaxAmountMinorUnits = None\<rparr>
      else let (anyUncapped, maxCapped) = foldl outcome_step (False, None) grants
           in \<lparr>oc_allowed = True, oc_effectiveMaxAmountMinorUnits = (if anyUncapped then None else maxCapped)\<rparr>)"

definition relevantBranch :: "abac_context \<Rightarrow> string option" where
  "relevantBranch ctx = (if hasResource ctx then Some (resourceBranchId ctx) else actorBranchId ctx)"

text \<open>
  \<open>permissionCheck\<close>: the clock is read when the cache is looked up (\<open>t1\<close>) and when it is filled
  (\<open>t2\<close>), with the read of the store in between.
\<close>

definition permissionCheck ::
  "permission_reader \<Rightarrow> int \<Rightarrow> int \<Rightarrow> string \<Rightarrow> string \<Rightarrow> string \<Rightarrow> abac_context \<Rightarrow>
   l1_cache option \<Rightarrow> permission_check_outcome result \<times> l1_cache option" where
  "permissionCheck rd t1 t2 tid userId permissionKey ctx cache =
     (let fresh = mapResult (rd_getApplicableGrants rd tid userId permissionKey (relevantBranch ctx)) computeOutcome in
      case (if isSensitivePermission ctx then None else cache) of
        None \<Rightarrow> (fresh, cache)
      | Some c \<Rightarrow>
          let key = buildCacheKey tid userId permissionKey (hasResource ctx) (relevantBranch ctx) in
          case cache_get t1 key c of
            (Some cached, c1) \<Rightarrow> (Inr cached, Some c1)
          | (None, c1) \<Rightarrow> (case fresh of
                Inl e \<Rightarrow> (Inl e, Some c1)
              | Inr oc \<Rightarrow> (Inr oc, Some (cache_set t2 key oc c1))))"

definition tenantGuard :: "permission_reader \<Rightarrow> (string \<Rightarrow> string) \<Rightarrow> check_permission_input \<Rightarrow> unit result" where
  "tenantGuard rd hash input =
     andThen (rd_isUserActive rd (cp_in_tenantId input) (cp_in_userId input)) (\<lambda>active.
     if \<not> active then Inl ForbiddenError
     else case cp_in_tokenSecV input of
            None \<Rightarrow> Inr ()
          | Some token \<Rightarrow>
              andThen (rd_listActiveUserRoles rd (cp_in_tenantId input) (cp_in_userId input)) (\<lambda>roles.
              andThen (rd_getSecurityVersion rd (cp_in_tenantId input) (cp_in_userId input)) (\<lambda>securityVersion.
              if deriveSecV roles securityVersion hash \<noteq> token then Inl AuthorizationError else Inr ())))"

definition abacStage :: "abac_context \<Rightarrow> permission_check_outcome \<Rightarrow> int option result" where
  "abacStage ctx oc =
     (if hasResource ctx \<and> actorBranchId ctx \<noteq> Some (resourceBranchId ctx) then Inl ForbiddenError
      else if hasResource ctx \<and> (case (resourceAmountMinorUnits ctx, oc_effectiveMaxAmountMinorUnits oc) of
             (Some amount, Some cap) \<Rightarrow> amount > cap | _ \<Rightarrow> False) then Inl ForbiddenError
      else Inr (oc_effectiveMaxAmountMinorUnits oc))"

text \<open>A decision is its effective maximum; \<open>allowed\<close> is always true in it.\<close>

definition check ::
  "permission_reader \<Rightarrow> (string \<Rightarrow> string) \<Rightarrow> int \<Rightarrow> int \<Rightarrow> check_permission_input \<Rightarrow>
   l1_cache option \<Rightarrow> int option result \<times> l1_cache option" where
  "check rd hash t1 t2 input cache =
     (case tenantGuard rd hash input of
        Inl e \<Rightarrow> (Inl e, cache)
      | Inr _ \<Rightarrow>
          (case permissionCheck rd t1 t2 (cp_in_tenantId input) (cp_in_userId input) (cp_in_permissionKey input)
                  (cp_in_context input) cache of
             (Inl e, c) \<Rightarrow> (Inl e, c)
           | (Inr oc, c) \<Rightarrow> if \<not> oc_allowed oc then (Inl ForbiddenError, c) else (abacStage (cp_in_context input) oc, c)))"

end
