(* ===== verification/Permissions_Pg.thy ===== *)
theory Permissions_Pg
  imports Permissions Money
begin

text \<open>
  \<^verbatim>\<open>infrastructure/db/repositories/postgres-permission-repository.ts\<close> and \<^verbatim>\<open>shared/permission-queries.ts\<close>: each method is
  one transaction in the context of a tenant. Row-level security makes only the rows of that tenant
  visible to its statements (\<^verbatim>\<open>migrations/0003\<close>, \<^verbatim>\<open>0004\<close>), which the model writes as a filter. The check
  of the tenant, generated identifiers and the remaining constraints of the database are parameters.
\<close>

section \<open>Tables\<close>

record permission_db =
  pd_tenants :: "mem_tenant list"
  pd_users :: "mem_user list"
  pd_roles :: "mem_role list"
  pd_permissions :: "mem_permission list"
  pd_rolePermissions :: "mem_role_permission list"
  pd_userRoles :: "mem_user_role list"

text \<open>
  The tenant check of \<open>withTenantContext\<close>, \<open>gen_random_uuid()\<close>, and the constraints: a statement that
  would take the tables from one state to another may be refused.
\<close>

record permission_env =
  pv_tenantGate :: "string \<Rightarrow> unit result"
  pv_uuid :: "permission_db \<Rightarrow> string"
  pv_reject :: "permission_db \<Rightarrow> permission_db \<Rightarrow> app_error option"

definition pg_write :: "permission_env \<Rightarrow> (permission_db \<Rightarrow> permission_db) \<Rightarrow> (permission_db, unit) tx" where
  "pg_write env f = (\<lambda>s. case pv_reject env s (f s) of None \<Rightarrow> Inr ((), f s) | Some e \<Rightarrow> Inl e)"

definition withTenantContext :: "permission_env \<Rightarrow> string \<Rightarrow> (permission_db, 'a) tx \<Rightarrow> (permission_db, 'a) op" where
  "withTenantContext env tid fn = run_tx (tx_bind (tx_lift (pv_tenantGate env tid)) (\<lambda>_. fn))"

text \<open>Row-level security.\<close>

definition rls_users :: "permission_db \<Rightarrow> string \<Rightarrow> mem_user list" where
  "rls_users db tid = filter (\<lambda>u. mu_tenantId u = tid) (pd_users db)"

definition rls_roles :: "permission_db \<Rightarrow> string \<Rightarrow> mem_role list" where
  "rls_roles db tid = filter (\<lambda>r. ro_tenantId r = tid) (pd_roles db)"

definition rls_rolePermissions :: "permission_db \<Rightarrow> string \<Rightarrow> mem_role_permission list" where
  "rls_rolePermissions db tid = filter (\<lambda>r. mp_tenantId r = tid) (pd_rolePermissions db)"

definition rls_userRoles :: "permission_db \<Rightarrow> string \<Rightarrow> mem_user_role list" where
  "rls_userRoles db tid = filter (\<lambda>r. ur_tenantId r = tid) (pd_userRoles db)"

section \<open>Reading\<close>

definition pg_isUserActive :: "string \<Rightarrow> string \<Rightarrow> permission_db \<Rightarrow> bool" where
  "pg_isUserActive tid userId db =
     (case filter (\<lambda>u. mu_id u = userId \<and> (\<exists>t\<in>set (pd_tenants db). te_id t = mu_tenantId u \<and> te_status t = Some ''active''))
             (rls_users db tid) of
        [] \<Rightarrow> False | u # _ \<Rightarrow> mu_isActive u)"

definition pg_getUserBranchId :: "string \<Rightarrow> string \<Rightarrow> permission_db \<Rightarrow> string option" where
  "pg_getUserBranchId tid userId db =
     (case filter (\<lambda>u. mu_id u = userId) (rls_users db tid) of [] \<Rightarrow> None | u # _ \<Rightarrow> mu_branchId u)"

definition pg_getSecurityVersion :: "string \<Rightarrow> string \<Rightarrow> permission_db \<Rightarrow> int result" where
  "pg_getSecurityVersion tid userId db =
     (case filter (\<lambda>u. mu_id u = userId) (rls_users db tid) of [] \<Rightarrow> Inl NotFoundError | u # _ \<Rightarrow> Inr (mu_securityVersion u))"

text \<open>\<open>ORDER BY ur.role_id, ur.scope_id\<close>: nulls come last.\<close>

definition comparePgRoles :: "active_user_role \<Rightarrow> active_user_role \<Rightarrow> int" where
  "comparePgRoles a b =
     (if ar_roleId a < ar_roleId b then -1 else if ar_roleId a > ar_roleId b then 1
      else case (ar_scopeId a, ar_scopeId b) of
             (None, None) \<Rightarrow> 0 | (None, Some _) \<Rightarrow> 1 | (Some _, None) \<Rightarrow> -1
           | (Some x, Some y) \<Rightarrow> if x < y then -1 else if x > y then 1 else 0)"

definition active_assignments :: "string \<Rightarrow> string \<Rightarrow> permission_db \<Rightarrow> (mem_user_role \<times> mem_role) list" where
  "active_assignments tid userId db =
     concat (map (\<lambda>ur. map (\<lambda>r. (ur, r)) (filter (\<lambda>r. ro_id r = ur_roleId ur) (rls_roles db tid)))
       (filter (\<lambda>ur. ur_userId ur = userId \<and> ur_isActive ur) (rls_userRoles db tid)))"

definition pg_listActiveUserRoles :: "string \<Rightarrow> string \<Rightarrow> permission_db \<Rightarrow> active_user_role list" where
  "pg_listActiveUserRoles tid userId db =
     js_sort comparePgRoles (map (\<lambda>(ur, r). \<lparr>ar_roleId = ur_roleId ur, ar_roleVersion = ro_roleVersion r,
        ar_scopeType = ur_scopeType ur, ar_scopeId = ur_scopeId ur\<rparr>) (active_assignments tid userId db))"

definition pg_getPermissionAttributes :: "string \<Rightarrow> permission_db \<Rightarrow> permission_attributes option" where
  "pg_getPermissionAttributes permissionKey db =
     (case filter (\<lambda>p. pe_key p = permissionKey) (pd_permissions db) of
        [] \<Rightarrow> None
      | p # _ \<Rightarrow> Some \<lparr>pa_key = pe_key p, pa_category = pe_category p, pa_isSensitive = pe_isSensitive p\<rparr>)"

text \<open>In SQL \<open>ur.scope_id = $4\<close> is not true when either side is null.\<close>

definition sql_covers :: "scope_type \<Rightarrow> string option \<Rightarrow> string option \<Rightarrow> bool" where
  "sql_covers scopeType scopeId branch \<longleftrightarrow>
     scopeType = tenant_scope \<or> scopeType = branch_scope \<and> scopeId \<noteq> None \<and> scopeId = branch"

definition grant_rows ::
  "string \<Rightarrow> string \<Rightarrow> string \<Rightarrow> string option \<Rightarrow> permission_db \<Rightarrow> (mem_user_role \<times> mem_role \<times> mem_role_permission \<times> mem_permission) list" where
  "grant_rows tid userId permissionKey branch db =
     concat (map (\<lambda>(ur, r).
       concat (map (\<lambda>rp. map (\<lambda>pr. (ur, r, rp, pr)) (filter (\<lambda>pr. pe_key pr = mp_permissionKey rp) (pd_permissions db)))
         (filter (\<lambda>rp. mp_roleId rp = ro_id r \<and> mp_permissionKey rp = permissionKey) (rls_rolePermissions db tid))))
       (filter (\<lambda>(ur, r). sql_covers (ur_scopeType ur) (ur_scopeId ur) branch) (active_assignments tid userId db)))"

definition grant_of_row :: "mem_user_role \<times> mem_role \<times> mem_role_permission \<times> mem_permission \<Rightarrow> permission_grant result" where
  "grant_of_row row = (case row of (ur, r, rp, pr) \<Rightarrow>
     andThen (case mp_maxAmountMinorUnits rp of None \<Rightarrow> Inr None
              | Some m \<Rightarrow> mapResult (minorUnitsFromDb (int_to_text m)) Some) (\<lambda>mx.
     Inr \<lparr>gr_roleId = ro_id r, gr_roleVersion = ro_roleVersion r, gr_scopeType = ur_scopeType ur, gr_scopeId = ur_scopeId ur,
          gr_maxAmountMinorUnits = mx, gr_isSensitive = pe_isSensitive pr\<rparr>))"

definition pg_getApplicableGrants :: "string \<Rightarrow> string \<Rightarrow> string \<Rightarrow> string option \<Rightarrow> permission_db \<Rightarrow> permission_grant list result" where
  "pg_getApplicableGrants tid userId permissionKey branch db = mapR grant_of_row (grant_rows tid userId permissionKey branch db)"

definition pg_getCoveredPermissionKeys :: "string \<Rightarrow> string \<Rightarrow> string \<Rightarrow> string list \<Rightarrow> permission_db \<Rightarrow> string list" where
  "pg_getCoveredPermissionKeys tid userId branchId candidateKeys db =
     (if candidateKeys = [] then []
      else if \<not> pg_isUserActive tid userId db then []
      else remdups (concat (map (\<lambda>(ur, r). map mp_permissionKey
          (filter (\<lambda>rp. mp_roleId rp = ro_id r \<and> mp_permissionKey rp \<in> set candidateKeys) (rls_rolePermissions db tid)))
        (filter (\<lambda>(ur, r). ur_scopeType ur = tenant_scope \<and> ur_scopeId ur = None \<or>
             ur_scopeType ur = branch_scope \<and> ur_scopeId ur = Some branchId) (active_assignments tid userId db)))))"

text \<open>Each read is a transaction of its own, which fails when the check of the tenant does.\<close>

definition pgReader :: "permission_env \<Rightarrow> permission_db \<Rightarrow> permission_reader" where
  "pgReader env db =
     \<lparr>rd_isUserActive = (\<lambda>t u. fst (withTenantContext env t (tx_read (pg_isUserActive t u)) db)),
      rd_getSecurityVersion = (\<lambda>t u. fst (withTenantContext env t (tx_readR (pg_getSecurityVersion t u)) db)),
      rd_listActiveUserRoles = (\<lambda>t u. fst (withTenantContext env t (tx_read (pg_listActiveUserRoles t u)) db)),
      rd_getApplicableGrants = (\<lambda>t u k b. fst (withTenantContext env t (tx_readR (pg_getApplicableGrants t u k b)) db))\<rparr>"

section \<open>Writing\<close>

text \<open>The call that creates a tenant switches the check of its existence off.\<close>

definition pg_createTenantWithSystemRole :: "permission_env \<Rightarrow> string \<Rightarrow> string \<Rightarrow> (permission_db, unit) op" where
  "pg_createTenantWithSystemRole env tid tenantName = run_tx (
     tx_bind (pg_write env (\<lambda>db. db\<lparr>pd_tenants := pd_tenants db @
        [\<lparr>te_id = tid, te_name = tenantName, te_status = Some ''active'', te_reportingCurrency = None\<rparr>]\<rparr>)) (\<lambda>_.
     tx_bind (tx_read (pv_uuid env)) (\<lambda>newId.
     pg_write env (\<lambda>db. db\<lparr>pd_roles := pd_roles db @ [systemRole tid newId]\<rparr>))))"

definition pg_createPermission :: "permission_env \<Rightarrow> string \<Rightarrow> string \<Rightarrow> string \<Rightarrow> bool \<Rightarrow> (permission_db, unit) op" where
  "pg_createPermission env tid permissionKey category isSensitive = withTenantContext env tid (
     pg_write env (\<lambda>db. db\<lparr>pd_permissions :=
       (if \<exists>p\<in>set (pd_permissions db). pe_key p = permissionKey
        then map (\<lambda>p. if pe_key p = permissionKey then p\<lparr>pe_category := category, pe_isSensitive := isSensitive\<rparr> else p) (pd_permissions db)
        else pd_permissions db @ [\<lparr>pe_key = permissionKey, pe_category = category, pe_isSensitive = isSensitive\<rparr>])\<rparr>))"

definition pg_createRole :: "permission_env \<Rightarrow> string \<Rightarrow> string \<Rightarrow> (permission_db, string) op" where
  "pg_createRole env tid name0 = withTenantContext env tid (
     tx_bind (tx_read (pv_uuid env)) (\<lambda>newId.
     tx_bind (pg_write env (\<lambda>db. db\<lparr>pd_roles := pd_roles db @ [\<lparr>ro_id = newId, ro_tenantId = tid, ro_name = name0,
        ro_roleVersion = 1, ro_isSystem = False\<rparr>]\<rparr>)) (\<lambda>_.
     tx_return newId)))"

definition pg_assignRolePermission :: "permission_env \<Rightarrow> string \<Rightarrow> string \<Rightarrow> string \<Rightarrow> int option \<Rightarrow> (permission_db, unit) op" where
  "pg_assignRolePermission env tid roleId permissionKey maxAmount = withTenantContext env tid (
     tx_bind (tx_read (pv_uuid env)) (\<lambda>newId.
     pg_write env (\<lambda>db. db\<lparr>pd_rolePermissions :=
       (if \<exists>rp\<in>set (pd_rolePermissions db). mp_roleId rp = roleId \<and> mp_permissionKey rp = permissionKey
        then map (\<lambda>rp. if mp_roleId rp = roleId \<and> mp_permissionKey rp = permissionKey then rp\<lparr>mp_maxAmountMinorUnits := maxAmount\<rparr> else rp)
               (pd_rolePermissions db)
        else pd_rolePermissions db @ [\<lparr>mp_id = newId, mp_tenantId = tid, mp_roleId = roleId, mp_permissionKey = permissionKey,
               mp_maxAmountMinorUnits = maxAmount\<rparr>])\<rparr>)))"

definition pg_assignUserRole ::
  "permission_env \<Rightarrow> string \<Rightarrow> string \<Rightarrow> string \<Rightarrow> scope_type \<Rightarrow> string option \<Rightarrow> (permission_db, string) op" where
  "pg_assignUserRole env tid userId roleId scopeType scopeId =
     op_bind (op_lift (assertScope scopeType scopeId)) (\<lambda>_.
     withTenantContext env tid (
     tx_bind (tx_read (pv_uuid env)) (\<lambda>newId.
     tx_bind (pg_write env (\<lambda>db. db\<lparr>pd_userRoles := pd_userRoles db @ [\<lparr>ur_id = newId, ur_tenantId = tid, ur_userId = userId,
        ur_roleId = roleId, ur_scopeType = scopeType, ur_scopeId = scopeId, ur_isActive = True\<rparr>]\<rparr>)) (\<lambda>_.
     tx_return newId))))"

definition systemRoleId :: "string \<Rightarrow> permission_db \<Rightarrow> string option" where
  "systemRoleId tid db = (case filter ro_isSystem (rls_roles db tid) of [] \<Rightarrow> None | r # _ \<Rightarrow> Some (ro_id r))"

definition super_admin_rows :: "string \<Rightarrow> string \<Rightarrow> permission_db \<Rightarrow> mem_user_role list" where
  "super_admin_rows tid roleId db = filter (\<lambda>ur. ur_roleId ur = roleId \<and> ur_isActive ur) (rls_userRoles db tid)"

definition delete_assignment :: "string \<Rightarrow> string \<Rightarrow> permission_db \<Rightarrow> permission_db" where
  "delete_assignment tid userRoleId db =
     db\<lparr>pd_userRoles := filter (\<lambda>ur. \<not> (ur_tenantId ur = tid \<and> ur_id ur = userRoleId)) (pd_userRoles db)\<rparr>"

definition deactivate_assignment :: "string \<Rightarrow> string \<Rightarrow> permission_db \<Rightarrow> permission_db" where
  "deactivate_assignment tid userRoleId db =
     db\<lparr>pd_userRoles := map (\<lambda>ur. if ur_tenantId ur = tid \<and> ur_id ur = userRoleId then ur\<lparr>ur_isActive := False\<rparr> else ur) (pd_userRoles db)\<rparr>"

definition deactivate_user :: "string \<Rightarrow> string \<Rightarrow> permission_db \<Rightarrow> permission_db" where
  "deactivate_user tid userId db =
     db\<lparr>pd_users := map (\<lambda>u. if mu_tenantId u = tid \<and> mu_id u = userId then u\<lparr>mu_isActive := False\<rparr> else u) (pd_users db)\<rparr>"

text \<open>The guard the three operations share: the members that count, read under the lock, and the change.\<close>

definition unless_last ::
  "permission_env \<Rightarrow> string \<Rightarrow> (string \<Rightarrow> permission_db \<Rightarrow> string list) \<Rightarrow> string \<Rightarrow> (permission_db \<Rightarrow> permission_db) \<Rightarrow> (permission_db, unit) op" where
  "unless_last env tid members target change = withTenantContext env tid (
     tx_bind (tx_read (systemRoleId tid)) (\<lambda>found.
     case found of
       None \<Rightarrow> pg_write env change
     | Some roleId \<Rightarrow>
         tx_bind (tx_read (members roleId)) (\<lambda>activeIds.
         tx_bind (tx_guard (\<not> isLastActiveMember activeIds target) ConflictError) (\<lambda>_.
         pg_write env change))))"

definition pg_removeUserRoleAssignment :: "permission_env \<Rightarrow> string \<Rightarrow> string \<Rightarrow> (permission_db, unit) op" where
  "pg_removeUserRoleAssignment env tid userRoleId =
     unless_last env tid (\<lambda>roleId db. map ur_id (super_admin_rows tid roleId db)) userRoleId (delete_assignment tid userRoleId)"

definition pg_deactivateUserRoleAssignment :: "permission_env \<Rightarrow> string \<Rightarrow> string \<Rightarrow> (permission_db, unit) op" where
  "pg_deactivateUserRoleAssignment env tid userRoleId =
     unless_last env tid (\<lambda>roleId db. map ur_id (super_admin_rows tid roleId db)) userRoleId (deactivate_assignment tid userRoleId)"

definition active_holders :: "string \<Rightarrow> string \<Rightarrow> permission_db \<Rightarrow> string list" where
  "active_holders tid roleId db =
     (let assignedUserIds = map ur_userId (super_admin_rows tid roleId db) in
      if assignedUserIds = [] then []
      else map mu_id (filter (\<lambda>u. mu_isActive u \<and> mu_id u \<in> set assignedUserIds) (rls_users db tid)))"

definition pg_disableUser :: "permission_env \<Rightarrow> string \<Rightarrow> string \<Rightarrow> (permission_db, unit) op" where
  "pg_disableUser env tid userId = unless_last env tid (active_holders tid) userId (deactivate_user tid userId)"

end
