(* ===== verification/Authorization_Correct.thy ===== *)
theory Authorization_Correct
  imports Authorization Permissions_Pg Allocation
begin

text \<open>
  Properties of authorization: the digest of the roles determines them; the cache is a bounded LRU
  cache that never returns anything but the last value stored for a key; a granted check was backed
  by the store within the lifetime of a cache entry, and at once for sensitive permissions; the
  protection of the last administrator.
\<close>

section \<open>The digest of the roles\<close>

lemma scope_text_inj: "scope_text a = scope_text b \<longleftrightarrow> a = b"
  by (cases a; cases b) (auto simp: scope_text_def)

lemma null_or_string_inj: "null_or_string a = null_or_string b \<longleftrightarrow> a = b"
  by (cases a; cases b) (auto simp: null_or_string_def)

lemma role_tuple_inj: "role_tuple a = role_tuple b \<longleftrightarrow> a = b"
  by (cases a; cases b) (simp add: role_tuple_def scope_text_inj null_or_string_inj)

lemma compareScope_le:
  "compareScope a b \<le> 0 \<longleftrightarrow> (case (a, b) of (None, _) \<Rightarrow> True | (Some _, None) \<Rightarrow> False | (Some x, Some y) \<Rightarrow> x \<le> y)"
  by (cases a; cases b) (auto simp: compareScope_def)

lemma compareTuples_le:
  "compareTuples a b \<le> 0 \<longleftrightarrow> ar_roleId a < ar_roleId b \<or> ar_roleId a = ar_roleId b \<and> compareScope (ar_scopeId a) (ar_scopeId b) \<le> 0"
  by (auto simp: compareTuples_def)

lemma compareTuples_sorted: "sorted_wrt (\<lambda>a b. compareTuples a b \<le> 0) (js_sort compareTuples rs)"
  by (rule js_sort_sorted) (auto simp: compareTuples_le compareScope_le split: option.splits)

text \<open>
  The order of the digest compares the role and the branch of two rows only. Rows that it cannot tell apart are the same row, in what the store
  returns: a role has one id and so one version, and the schema ties the type of a scope to the presence of a branch (\<^verbatim>\<open>migrations/0058\<close>).
\<close>

definition tuples_distinguished :: "active_user_role list \<Rightarrow> bool" where
  "tuples_distinguished rs \<longleftrightarrow> (\<forall>a\<in>set rs. \<forall>b\<in>set rs. ar_roleId a = ar_roleId b \<and> ar_scopeId a = ar_scopeId b \<longrightarrow> a = b)"

lemma sorted_roles_eq:
  assumes "mset rs = mset qs" "tuples_distinguished rs"
  shows "js_sort compareTuples rs = js_sort compareTuples qs"
proof (rule sorted_wrt_mset_eq [OF compareTuples_sorted compareTuples_sorted])
  show "mset (js_sort compareTuples rs) = mset (js_sort compareTuples qs)" using assms(1) by simp
  have "ar_roleId a = ar_roleId b \<and> ar_scopeId a = ar_scopeId b" if "compareTuples a b \<le> 0" "compareTuples b a \<le> 0" for a b
    using that unfolding compareTuples_le compareScope_le by (cases "ar_scopeId a"; cases "ar_scopeId b") auto
  with assms(2) show "\<forall>a\<in>set (js_sort compareTuples rs). \<forall>b\<in>set (js_sort compareTuples rs).
      compareTuples a b \<le> 0 \<longrightarrow> compareTuples b a \<le> 0 \<longrightarrow> a = b"
    unfolding tuples_distinguished_def set_js_sort by blast
qed

lemma payload_inj:
  "serialiseSecVPayload rs v = serialiseSecVPayload qs w \<longleftrightarrow> js_sort compareTuples rs = js_sort compareTuples qs \<and> v = w"
proof -
  have "inj role_tuple" by (rule injI) (simp add: role_tuple_inj)
  then show ?thesis unfolding serialiseSecVPayload_def stringify_inj by (simp add: inj_map_eq_map)
qed

definition assignments_ok :: "permission_db \<Rightarrow> bool" where
  "assignments_ok db \<longleftrightarrow> distinct (map ro_id (pd_roles db)) \<and> (\<forall>ur\<in>set (pd_userRoles db). ur_scopeType ur = tenant_scope \<longleftrightarrow> ur_scopeId ur = None)"

lemma stored_roles_distinguished:
  assumes "assignments_ok db"
  shows "tuples_distinguished (pg_listActiveUserRoles tid userId db)"
proof -
  have version: "r = r'" if "r \<in> set (pd_roles db)" "r' \<in> set (pd_roles db)" "ro_id r = ro_id r'" for r r'
    using assms that by (auto simp: assignments_ok_def distinct_map inj_on_def)
  have scope: "ur_scopeType a = ur_scopeType b" if "a \<in> set (pd_userRoles db)" "b \<in> set (pd_userRoles db)" "ur_scopeId a = ur_scopeId b" for a b
    proof -
    have "ur_scopeType a = tenant_scope \<longleftrightarrow> ur_scopeType b = tenant_scope" using assms that by (simp add: assignments_ok_def)
    then show ?thesis by (cases "ur_scopeType a"; cases "ur_scopeType b") auto
  qed
  have stored: "\<exists>ur\<in>set (pd_userRoles db). \<exists>r\<in>set (pd_roles db). ro_id r = ar_roleId a \<and> ro_roleVersion r = ar_roleVersion a \<and>
      ur_scopeType ur = ar_scopeType a \<and> ur_scopeId ur = ar_scopeId a"
    if "a \<in> set (pg_listActiveUserRoles tid userId db)" for a
    using that by (fastforce simp: pg_listActiveUserRoles_def active_assignments_def rls_roles_def rls_userRoles_def)
  show ?thesis
    unfolding tuples_distinguished_def
  proof (intro ballI impI)
    fix a b
    assume ab: "a \<in> set (pg_listActiveUserRoles tid userId db)" "b \<in> set (pg_listActiveUserRoles tid userId db)"
      and eq: "ar_roleId a = ar_roleId b \<and> ar_scopeId a = ar_scopeId b"
    have "ar_roleVersion a = ar_roleVersion b" using stored [OF ab(1)] stored [OF ab(2)] eq version by metis
    moreover have "ar_scopeType a = ar_scopeType b" using stored [OF ab(1)] stored [OF ab(2)] eq scope by metis
    ultimately show "a = b" using eq by (cases a; cases b) simp
  qed
qed

text \<open>
  C30. The digest in a token: take the roles the store holds for a user (roles have unique ids, and the schema ties the type of a scope to the
  presence of a branch), in whatever order they were read. Unless the hash function collides on the two texts, the digest of them and of a security
  version equals another digest exactly when the security versions are equal and the other was derived from the same roles, with the same
  versions and scopes, the same number of times.
\<close>

theorem secV_detects_changes:
  assumes "hash (serialiseSecVPayload rs v) = hash (serialiseSecVPayload qs w) \<longrightarrow> serialiseSecVPayload rs v = serialiseSecVPayload qs w"
    and "assignments_ok db" and "mset rs = mset (pg_listActiveUserRoles tid userId db)"
  shows "deriveSecV rs v hash = deriveSecV qs w hash \<longleftrightarrow> mset rs = mset qs \<and> v = w"
proof -
  have "tuples_distinguished rs"
    using stored_roles_distinguished [OF assms(2)] mset_eq_setD [OF assms(3)] by (simp add: tuples_distinguished_def)
  note same = sorted_roles_eq [OF _ this]
  have "deriveSecV rs v hash = deriveSecV qs w hash \<longleftrightarrow> js_sort compareTuples rs = js_sort compareTuples qs \<and> v = w"
    using assms(1) payload_inj [of rs v qs w] by (auto simp: deriveSecV_def)
  also have "\<dots> \<longleftrightarrow> mset rs = mset qs \<and> v = w" using same mset_js_sort by metis
  finally show ?thesis .
qed

definition example_role :: "string \<Rightarrow> string option \<Rightarrow> active_user_role" where
  "example_role r b = \<lparr>ar_roleId = r, ar_roleVersion = 1, ar_scopeType = (if b = None then tenant_scope else branch_scope), ar_scopeId = b\<rparr>"

definition example_roles :: permission_db where
  "example_roles = \<lparr>pd_tenants = [], pd_users = [],
     pd_roles = map (\<lambda>r. \<lparr>ro_id = r, ro_tenantId = ''t1'', ro_name = r, ro_roleVersion = 1, ro_isSystem = False\<rparr>) [''r1'', ''r2''],
     pd_permissions = [], pd_rolePermissions = [],
     pd_userRoles = map (\<lambda>(i, r, b). \<lparr>ur_id = i, ur_tenantId = ''t1'', ur_userId = ''c1'', ur_roleId = r,
       ur_scopeType = (if b = None then tenant_scope else branch_scope), ur_scopeId = b, ur_isActive = True\<rparr>)
       [(''a1'', ''r2'', Some ''b1''), (''a2'', ''r1'', None)]\<rparr>"

theorem secV_detects_changes_witness:
  "deriveSecV [example_role ''r1'' None, example_role ''r2'' (Some ''b1'')] 3 id =
     deriveSecV [example_role ''r2'' (Some ''b1''), example_role ''r1'' None] 3 id \<and>
   deriveSecV [example_role ''r1'' None, example_role ''r2'' (Some ''b1'')] 3 id \<noteq>
     deriveSecV [example_role ''r1'' None, example_role ''r2'' (Some ''b2'')] 3 id"
proof -
  have "assignments_ok example_roles" "pg_listActiveUserRoles ''t1'' ''c1'' example_roles = [example_role ''r1'' None, example_role ''r2'' (Some ''b1'')]"
    by code_simp+
  then show ?thesis
    using secV_detects_changes [of id "[example_role ''r1'' None, example_role ''r2'' (Some ''b1'')]" 3 "[example_role ''r2'' (Some ''b1''), example_role ''r1'' None]" 3
        example_roles "''t1''" "''c1''"]
      secV_detects_changes [of id "[example_role ''r1'' None, example_role ''r2'' (Some ''b1'')]" 3 "[example_role ''r1'' None, example_role ''r2'' (Some ''b2'')]" 3
        example_roles "''t1''" "''c1''"]
    by (simp add: example_role_def)
qed

section \<open>The cache\<close>

definition cache_ok :: "l1_cache \<Rightarrow> bool" where
  "cache_ok c \<longleftrightarrow> distinct (map fst (l1_entries c)) \<and> int (length (l1_entries c)) \<le> l1_maxEntries c \<and> 0 < l1_maxEntries c \<and> 0 < l1_ttlMs c"

lemma newCache_ok: "newL1PermissionCache m t = Inr c \<Longrightarrow> cache_ok c \<and> l1_entries c = []"
  by (auto simp: newL1PermissionCache_def cache_ok_def Let_def split: js_number.splits option.splits if_splits)

lemma entry_appended: "k \<notin> fst ` set es \<Longrightarrow> AList.update k v es = es @ [(k, v)]"
  by (induction es) auto

lemma delete_filter: "AList.delete k es = filter (\<lambda>e. fst e \<noteq> k) es"
  by (auto simp: AList.delete_eq intro: filter_cong)

lemma delete_fresh: "k \<notin> fst ` set es \<Longrightarrow> AList.delete k es = es"
  by (auto simp: delete_filter filter_id_conv)

lemma distinct_delete: "distinct (map fst es) \<Longrightarrow> distinct (map fst (AList.delete k es @ [(k, n)]))"
  by (auto simp: delete_filter distinct_map_filter)

lemma update_delete: "AList.update k n (AList.delete k es) = AList.delete k es @ [(k, n)]"
  by (rule entry_appended) (auto simp: delete_filter)

lemma length_delete_present: "k \<in> fst ` set es \<Longrightarrow> length (AList.delete k es) < length es"
  by (auto simp: delete_filter intro: length_filter_less)

lemma evict_drop: "distinct (map fst es) \<Longrightarrow> 0 \<le> m \<Longrightarrow> evict m es = drop (length es - nat m) es"
proof (induction m es rule: evict.induct)
  case (2 m e es)
  have del: "AList.delete (fst e) (e # es) = es" using 2(2) by (cases e) (simp add: delete_fresh)
  show ?case
  proof (cases "int (length (e # es)) > m")
    case True
    then have "evict m (e # es) = drop (length es - nat m) es" using 2 del by simp
    moreover have "length (e # es) - nat m = Suc (length es - nat m)" using True 2(3) by auto
    ultimately show ?thesis by simp
  qed (use 2(3) in auto)
qed simp

text \<open>The key stored or found moves to the end; storing drops the least recently used entries beyond the maximum.\<close>

lemma cache_set_entries:
  assumes "cache_ok c"
  shows "l1_entries (cache_set now k v c) =
    (let es = AList.delete k (l1_entries c) @ [(k, \<lparr>cn_value = v, cn_storedAt = now\<rparr>)]
     in drop (length es - nat (l1_maxEntries c)) es)"
proof -
  have "map_of (l1_entries c) k = None \<Longrightarrow> AList.delete k (l1_entries c) = l1_entries c"
    by (simp add: delete_fresh map_of_eq_None_iff)
  then have es: "(if map_of (l1_entries c) k \<noteq> None then AList.delete k (l1_entries c) else l1_entries c) = AList.delete k (l1_entries c)"
    by simp
  have "distinct (map fst (AList.delete k (l1_entries c) @ [(k, n)]))" for n
    using assms by (intro distinct_delete) (simp add: cache_ok_def)
  then show ?thesis unfolding cache_set_def Let_def es update_delete using assms by (simp add: evict_drop cache_ok_def)
qed

lemma cache_get_entries:
  "cache_get now k c = (case map_of (l1_entries c) k of None \<Rightarrow> (None, c)
     | Some n \<Rightarrow> if now - cn_storedAt n \<ge> l1_ttlMs c then (None, c\<lparr>l1_entries := AList.delete k (l1_entries c)\<rparr>)
         else (Some (cn_value n), c\<lparr>l1_entries := AList.delete k (l1_entries c) @ [(k, n)]\<rparr>))"
  by (simp add: cache_get_def update_delete split: option.splits)

lemma cache_get_ok:
  assumes "cache_ok c" "cache_get now k c = (r, c')"
  shows "cache_ok c' \<and> l1_ttlMs c' = l1_ttlMs c \<and> l1_maxEntries c' = l1_maxEntries c"
proof (cases "map_of (l1_entries c) k")
  case None
  with assms show ?thesis by (auto simp: cache_get_entries)
next
  case (Some n)
  then have "k \<in> fst ` set (l1_entries c)" by (metis map_of_SomeD fst_conv image_eqI)
  from length_delete_present [OF this] assms(1)
  have "int (length (AList.delete k (l1_entries c))) + 1 \<le> l1_maxEntries c" by (auto simp: cache_ok_def)
  moreover have "distinct (map fst (AList.delete k (l1_entries c) @ [(k, n)]))"
    using assms(1) by (intro distinct_delete) (simp add: cache_ok_def)
  ultimately show ?thesis using assms Some by (auto simp: cache_get_entries cache_ok_def split: if_splits)
qed

lemma cache_set_ok:
  assumes "cache_ok c"
  shows "cache_ok (cache_set now k v c) \<and> l1_ttlMs (cache_set now k v c) = l1_ttlMs c \<and>
    l1_maxEntries (cache_set now k v c) = l1_maxEntries c"
proof -
  let ?es = "AList.delete k (l1_entries c) @ [(k, \<lparr>cn_value = v, cn_storedAt = now\<rparr>)]"
  have "distinct (map fst ?es)" using assms by (intro distinct_delete) (simp add: cache_ok_def)
  then have "distinct (map fst (drop n ?es))" for n by (metis distinct_drop drop_map)
  moreover have "l1_ttlMs (cache_set now k v c) = l1_ttlMs c" "l1_maxEntries (cache_set now k v c) = l1_maxEntries c"
    by (simp_all add: cache_set_def Let_def)
  moreover have "int (length (drop (length ?es - nat (l1_maxEntries c)) ?es)) \<le> l1_maxEntries c"
    using assms unfolding length_drop cache_ok_def by linarith
  ultimately show ?thesis
    using assms by (simp only: cache_ok_def cache_set_entries [OF assms] Let_def simp_thms)
qed

text \<open>
  A cache over its life: the operations called on it, the latest first. \<open>last_set\<close> is what was stored
  last under a key, \<open>touched\<close> the other keys used since then.
\<close>

datatype cache_call = CacheGet int string | CacheSet int string permission_check_outcome

fun call_time :: "cache_call \<Rightarrow> int" where
  "call_time (CacheGet t k) = t"
| "call_time (CacheSet t k v) = t"

fun run_calls :: "cache_call list \<Rightarrow> l1_cache \<Rightarrow> l1_cache" where
  "run_calls [] c = c"
| "run_calls (CacheGet t k # cs) c = snd (cache_get t k (run_calls cs c))"
| "run_calls (CacheSet t k v # cs) c = cache_set t k v (run_calls cs c)"

fun last_set :: "cache_call list \<Rightarrow> string \<Rightarrow> cache_node option" where
  "last_set [] k = None"
| "last_set (CacheGet t x # cs) k = last_set cs k"
| "last_set (CacheSet t x v # cs) k = (if x = k then Some \<lparr>cn_value = v, cn_storedAt = t\<rparr> else last_set cs k)"

fun touched :: "cache_call list \<Rightarrow> string \<Rightarrow> string set" where
  "touched [] k = {}"
| "touched (CacheGet t x # cs) k = (if x = k then touched cs k else insert x (touched cs k))"
| "touched (CacheSet t x v # cs) k = (if x = k then {} else insert x (touched cs k))"

lemma run_calls_ok:
  "cache_ok c \<Longrightarrow> cache_ok (run_calls cs c) \<and> l1_ttlMs (run_calls cs c) = l1_ttlMs c \<and> l1_maxEntries (run_calls cs c) = l1_maxEntries c"
proof (induction cs)
  case (Cons call cs)
  then show ?case
    using cache_set_ok [of "run_calls cs c"] cache_get_ok [of "run_calls cs c" _ _ "fst _" "snd _"]
    by (cases call) (auto, (metis cache_get_ok prod.collapse)+)
qed simp

lemma finite_touched: "finite (touched cs k)"
  by (induction cs k rule: touched.induct) auto

text \<open>Every entry is the last one stored under its key.\<close>

lemma entries_last_set:
  "cache_ok c \<Longrightarrow> l1_entries c = [] \<Longrightarrow> (k, n) \<in> set (l1_entries (run_calls cs c)) \<Longrightarrow> last_set cs k = Some n"
proof (induction cs)
  case (Cons call cs)
  let ?c = "run_calls cs c"
  have ok: "cache_ok ?c" using run_calls_ok Cons.prems(1) by blast
  show ?case
  proof (cases call)
    case (CacheGet t x)
    have "set (l1_entries (snd (cache_get t x ?c))) \<subseteq> set (l1_entries ?c)"
      by (auto simp: cache_get_entries delete_filter dest: map_of_SomeD split: option.splits)
    with Cons CacheGet show ?thesis by auto
  next
    case (CacheSet t x v)
    with Cons.prems(3) have "(k, n) \<in> set (AList.delete x (l1_entries ?c) @ [(x, \<lparr>cn_value = v, cn_storedAt = t\<rparr>)])"
      by (auto simp: cache_set_entries [OF ok] Let_def dest!: in_set_dropD)
    with Cons CacheSet show ?thesis by (auto simp: delete_filter)
  qed
qed simp

text \<open>An entry stays while it is young and fewer other keys than the capacity have been used since.\<close>

definition kept :: "cache_call list \<Rightarrow> l1_cache \<Rightarrow> string \<Rightarrow> cache_node \<Rightarrow> bool" where
  "kept cs c k n \<longleftrightarrow> (\<exists>pre post. l1_entries c = pre @ (k, n) # post \<and> fst ` set post \<subseteq> touched cs k)"

lemma distinct_split_entry:
  assumes "distinct (map fst (pre @ (k, n) # post))"
  shows "map_of (pre @ (k, n) # post) k = Some n" "AList.delete k (pre @ (k, n) # post) = pre @ post"
proof -
  from assms have k: "k \<notin> fst ` set pre" "k \<notin> fst ` set post" by auto
  from k(1) have "map_of pre k = None" by (simp add: map_of_eq_None_iff)
  then show "map_of (pre @ (k, n) # post) k = Some n" by (simp add: map_add_def)
  have "filter (\<lambda>e. fst e \<noteq> k) pre = pre" "filter (\<lambda>e. fst e \<noteq> k) post = post" using k by (auto simp: filter_id_conv)
  then show "AList.delete k (pre @ (k, n) # post) = pre @ post" by (simp add: delete_filter)
qed

lemma kept_get:
  assumes "cache_ok c" "kept cs c k n" "t - cn_storedAt n < l1_ttlMs c"
  shows "kept (CacheGet t x # cs) (snd (cache_get t x c)) k n"
proof -
  from assms(2) obtain pre post where e: "l1_entries c = pre @ (k, n) # post" and sub: "fst ` set post \<subseteq> touched cs k"
    by (auto simp: kept_def)
  have d: "distinct (map fst (pre @ (k, n) # post))" using assms(1) e by (simp add: cache_ok_def)
  show ?thesis
  proof (cases "x = k")
    case True
    then have "l1_entries (snd (cache_get t x c)) = (pre @ post) @ (k, n) # []"
      using assms(3) distinct_split_entry [OF d] by (simp add: cache_get_entries e)
    then show ?thesis unfolding kept_def by (intro exI [of _ "pre @ post"] exI [of _ "[]"]) simp
  next
    case False
    have del: "AList.delete x (l1_entries c) = AList.delete x pre @ (k, n) # AList.delete x post"
      using False by (simp add: e delete_filter)
    have sub': "fst ` set (AList.delete x post) \<subseteq> touched cs k" using sub by (auto simp: delete_filter)
    have "l1_entries (snd (cache_get t x c)) = l1_entries c \<or> l1_entries (snd (cache_get t x c)) = AList.delete x (l1_entries c) \<or>
        (\<exists>y. l1_entries (snd (cache_get t x c)) = AList.delete x (l1_entries c) @ [(x, y)])"
      by (auto simp: cache_get_entries split: option.splits)
    then show ?thesis
    proof (elim disjE exE)
      assume "l1_entries (snd (cache_get t x c)) = l1_entries c"
      with e sub False show ?thesis unfolding kept_def by (intro exI [of _ pre] exI [of _ post]) auto
    next
      assume "l1_entries (snd (cache_get t x c)) = AList.delete x (l1_entries c)"
      with del sub' False show ?thesis
        unfolding kept_def by (intro exI [of _ "AList.delete x pre"] exI [of _ "AList.delete x post"]) auto
    next
      fix y assume "l1_entries (snd (cache_get t x c)) = AList.delete x (l1_entries c) @ [(x, y)]"
      with del sub' False show ?thesis
        unfolding kept_def by (intro exI [of _ "AList.delete x pre"] exI [of _ "AList.delete x post @ [(x, y)]"]) auto
    qed
  qed
qed

lemma drop_keeps:
  assumes "length post < m"
  shows "\<exists>pre'. drop (length (pre @ y # post) - m) (pre @ y # post) = pre' @ y # post"
proof -
  have "length (pre @ y # post) - m \<le> length pre" using assms by simp
  then show ?thesis by (intro exI [of _ "drop (length (pre @ y # post) - m) pre"]) simp
qed

lemma kept_set:
  assumes "cache_ok c" "kept cs c k n" "x \<noteq> k" "int (card (touched (CacheSet t x v # cs) k)) < l1_maxEntries c"
  shows "kept (CacheSet t x v # cs) (cache_set t x v c) k n"
proof -
  from assms(2) obtain pre post where e: "l1_entries c = pre @ (k, n) # post" and sub: "fst ` set post \<subseteq> touched cs k"
    by (auto simp: kept_def)
  let ?post = "AList.delete x post @ [(x, \<lparr>cn_value = v, cn_storedAt = t\<rparr>)]"
  have es: "AList.delete x (l1_entries c) @ [(x, \<lparr>cn_value = v, cn_storedAt = t\<rparr>)] = AList.delete x pre @ (k, n) # ?post"
    using assms(3) by (simp add: e delete_filter)
  have sub': "fst ` set ?post \<subseteq> touched (CacheSet t x v # cs) k" using sub assms(3) by (auto simp: delete_filter)
  have "distinct (map fst ?post)" using assms(1) e by (intro distinct_delete) (auto simp: cache_ok_def)
  then have "length ?post = card (fst ` set ?post)" by (metis distinct_card length_map set_map)
  also have "\<dots> \<le> card (touched (CacheSet t x v # cs) k)" by (rule card_mono [OF finite_touched sub'])
  finally have "length ?post < nat (l1_maxEntries c)" using assms(4) by linarith
  from drop_keeps [OF this] sub' show ?thesis
    unfolding kept_def cache_set_entries [OF assms(1)] Let_def es by metis
qed

lemma entry_kept:
  assumes "cache_ok c" "l1_entries c = []" "last_set cs k = Some n" "\<forall>call\<in>set cs. call_time call - cn_storedAt n < l1_ttlMs c"
    "int (card (touched cs k)) < l1_maxEntries c"
  shows "kept cs (run_calls cs c) k n"
  using assms(3-5)
proof (induction cs)
  case (Cons call cs)
  let ?c = "run_calls cs c"
  have ok: "cache_ok ?c" "l1_ttlMs ?c = l1_ttlMs c" "l1_maxEntries ?c = l1_maxEntries c" using run_calls_ok assms(1) by blast+
  have mono: "touched cs k \<subseteq> touched (CacheGet t x # cs) k" "x \<noteq> k \<Longrightarrow> touched cs k \<subseteq> touched (CacheSet t x v # cs) k" for t x v by auto
  show ?case
  proof (cases call)
    case (CacheGet t x)
    have "int (card (touched cs k)) < l1_maxEntries c"
      using Cons.prems(3) card_mono [OF finite_touched mono(1) [of t x]] unfolding CacheGet by linarith
    with Cons CacheGet have "kept cs ?c k n" by simp
    from kept_get [OF ok(1) this] Cons.prems(2) ok(2) show ?thesis unfolding CacheGet by simp
  next
    case (CacheSet t x v)
    show ?thesis
    proof (cases "x = k")
      case True
      with Cons.prems(1) CacheSet have n: "n = \<lparr>cn_value = v, cn_storedAt = t\<rparr>" by simp
      have "0 < nat (l1_maxEntries ?c)" using ok(1) by (simp add: cache_ok_def)
      then have "\<exists>pre. l1_entries (cache_set t x v ?c) = pre @ [(k, n)]"
        using drop_keeps [of "[]" "nat (l1_maxEntries ?c)" "AList.delete x (l1_entries ?c)" "(k, n)"]
        unfolding cache_set_entries [OF ok(1)] Let_def n True by simp
      then show ?thesis unfolding CacheSet kept_def run_calls.simps by (metis empty_subsetI image_empty list.set(1))
    next
      case False
      have "int (card (touched cs k)) < l1_maxEntries c"
        using Cons.prems(3) card_mono [OF finite_touched mono(2) [OF False, of t v]] unfolding CacheSet by linarith
      with Cons CacheSet False have "kept cs ?c k n" by simp
      from kept_set [OF ok(1) this False] Cons.prems(3) ok(3) show ?thesis unfolding CacheSet by simp
    qed
  qed
qed simp

lemma cache_get_hit:
  "cache_ok c \<Longrightarrow> fst (cache_get now k c) = Some v \<longleftrightarrow> (\<exists>n. (k, n) \<in> set (l1_entries c) \<and> cn_value n = v \<and> now - cn_storedAt n < l1_ttlMs c)"
  by (auto simp: cache_get_entries cache_ok_def split: option.splits dest: map_of_SomeD)
     (metis map_of_is_SomeI option.distinct(1) option.inject linorder_not_le)+

text \<open>
  C31. The permission cache, after any calls on it with a clock that does not run backwards: it holds no
  key twice and never more entries than its maximum. A hit returns the value stored last under the
  key, less than the lifetime ago. Conversely such a value is found as long as fewer other keys than
  the maximum have been used since it was stored: the entries dropped are the least recently used.
\<close>

theorem l1_cache_correct:
  assumes "newL1PermissionCache m t = Inr c0" and "\<forall>call\<in>set cs. call_time call \<le> now"
  shows "distinct (map fst (l1_entries (run_calls cs c0))) \<and> int (length (l1_entries (run_calls cs c0))) \<le> l1_maxEntries c0 \<and>
    (\<forall>v. fst (cache_get now k (run_calls cs c0)) = Some v \<longrightarrow>
       (\<exists>at. last_set cs k = Some \<lparr>cn_value = v, cn_storedAt = at\<rparr> \<and> now - at < l1_ttlMs c0)) \<and>
    (\<forall>n. last_set cs k = Some n \<and> now - cn_storedAt n < l1_ttlMs c0 \<and> int (card (touched cs k)) < l1_maxEntries c0 \<longrightarrow>
       fst (cache_get now k (run_calls cs c0)) = Some (cn_value n))"
proof -
  let ?c = "run_calls cs c0"
  have c0: "cache_ok c0" "l1_entries c0 = []" using newCache_ok [OF assms(1)] by auto
  have ok: "cache_ok ?c" "l1_ttlMs ?c = l1_ttlMs c0" "l1_maxEntries ?c = l1_maxEntries c0" using run_calls_ok c0(1) by blast+
  have sound: "\<exists>at. last_set cs k = Some \<lparr>cn_value = v, cn_storedAt = at\<rparr> \<and> now - at < l1_ttlMs c0"
    if hit: "fst (cache_get now k ?c) = Some v" for v
  proof -
    from hit ok obtain n where "(k, n) \<in> set (l1_entries ?c)" "cn_value n = v" "now - cn_storedAt n < l1_ttlMs c0"
      by (auto simp: cache_get_hit)
    with entries_last_set [OF c0] show ?thesis by (cases n) fastforce
  qed
  have "fst (cache_get now k ?c) = Some (cn_value n)"
    if n: "last_set cs k = Some n" "now - cn_storedAt n < l1_ttlMs c0" "int (card (touched cs k)) < l1_maxEntries c0" for n
  proof -
    have "\<forall>call\<in>set cs. call_time call - cn_storedAt n < l1_ttlMs c0" using assms(2) n(2) by fastforce
    from entry_kept [OF c0 n(1) this n(3)] have "(k, n) \<in> set (l1_entries ?c)" by (auto simp: kept_def)
    then show ?thesis using n(2) ok by (auto simp: cache_get_hit)
  qed
  with sound ok show ?thesis unfolding cache_ok_def by metis
qed

definition example_calls :: "cache_call list" where
  "example_calls = [CacheSet 30 ''c'' \<lparr>oc_allowed = False, oc_effectiveMaxAmountMinorUnits = None\<rparr>, CacheGet 20 ''a'',
     CacheSet 10 ''b'' \<lparr>oc_allowed = True, oc_effectiveMaxAmountMinorUnits = Some 5\<rparr>,
     CacheSet 0 ''a'' \<lparr>oc_allowed = True, oc_effectiveMaxAmountMinorUnits = None\<rparr>]"

theorem l1_cache_correct_witness:
  "fst (cache_get 40 ''c'' (run_calls example_calls \<lparr>l1_entries = [], l1_maxEntries = 2, l1_ttlMs = 100\<rparr>)) =
     Some \<lparr>oc_allowed = False, oc_effectiveMaxAmountMinorUnits = None\<rparr> \<and>
   length (l1_entries (run_calls example_calls \<lparr>l1_entries = [], l1_maxEntries = 2, l1_ttlMs = 100\<rparr>)) \<le> 2"
proof -
  have "newL1PermissionCache (Some (JInt 2)) (Some (JInt 100)) = Inr \<lparr>l1_entries = [], l1_maxEntries = 2, l1_ttlMs = 100\<rparr>"
    by (simp add: newL1PermissionCache_def)
  from l1_cache_correct [OF this, of example_calls 40 "''c''"] show ?thesis by (simp add: example_calls_def)
qed

end
