(* ===== verification/Authorization_System.thy ===== *)
theory Authorization_System
  imports Authorization_Correct
begin

text \<open>
  The authorization engine on its stores: the interface \<open>permission_reading\<close> of a readable permission
  store, its interpretations on the two stores, and what a granted check means when the store
  changes between the checks that fill the cache.
\<close>

section \<open>The outcome of a list of grants\<close>

lemma outcome_fold:
  "foldl outcome_step (False, None) gs = (u, mx) \<Longrightarrow>
   (u \<longleftrightarrow> (\<exists>g\<in>set gs. gr_maxAmountMinorUnits g = None)) \<and>
   (case mx of None \<Rightarrow> \<forall>g\<in>set gs. gr_maxAmountMinorUnits g = None
    | Some x \<Rightarrow> (\<exists>g\<in>set gs. gr_maxAmountMinorUnits g = Some x) \<and> (\<forall>g\<in>set gs. \<forall>y. gr_maxAmountMinorUnits g = Some y \<longrightarrow> y \<le> x))"
proof (induction gs arbitrary: u mx rule: rev_induct)
  case (snoc g gs)
  obtain u0 m0 where f: "foldl outcome_step (False, None) gs = (u0, m0)" by fastforce
  have step: "outcome_step (u0, m0) g = (u, mx)" using snoc.prems by (simp add: f)
  show ?case
  proof (cases "gr_maxAmountMinorUnits g")
    case None
    with step snoc.IH [OF f] show ?thesis by (auto simp: outcome_step_def split: option.splits)
  next
    case (Some y)
    show ?thesis
    proof (cases m0)
      case None
      with Some step have "u = u0" "mx = Some y" by (auto simp: outcome_step_def)
      with Some None snoc.IH [OF f] show ?thesis by auto
    next
      case (Some x)
      with \<open>gr_maxAmountMinorUnits g = Some y\<close> step have "u = u0" "mx = (if y > x then Some y else Some x)"
        by (auto simp: outcome_step_def split: if_splits)
      with \<open>gr_maxAmountMinorUnits g = Some y\<close> Some snoc.IH [OF f] show ?thesis by (cases "y > x") fastforce+
    qed
  qed
qed auto

text \<open>What a permission of \<open>cap\<close> means for a list of grants: uncapped when one of them is, their highest cap otherwise.\<close>

definition best_cap :: "permission_grant list \<Rightarrow> int option \<Rightarrow> bool" where
  "best_cap gs cap \<longleftrightarrow> gs \<noteq> [] \<and> (case cap of None \<Rightarrow> \<exists>g\<in>set gs. gr_maxAmountMinorUnits g = None
     | Some m \<Rightarrow> (\<exists>g\<in>set gs. gr_maxAmountMinorUnits g = Some m) \<and> (\<forall>g\<in>set gs. \<exists>x. gr_maxAmountMinorUnits g = Some x \<and> x \<le> m))"

lemma computeOutcome_best: "oc_allowed (computeOutcome gs) \<Longrightarrow> best_cap gs (oc_effectiveMaxAmountMinorUnits (computeOutcome gs))"
proof -
  assume a: "oc_allowed (computeOutcome gs)"
  then have ne: "gs \<noteq> []" by (auto simp: computeOutcome_def)
  obtain u mx where f: "foldl outcome_step (False, None) gs = (u, mx)" by fastforce
  have c: "computeOutcome gs = \<lparr>oc_allowed = True, oc_effectiveMaxAmountMinorUnits = (if u then None else mx)\<rparr>"
    using ne by (simp add: computeOutcome_def f)
  show ?thesis
  proof (cases mx)
    case None
    with outcome_fold [OF f] have all: "\<forall>g\<in>set gs. gr_maxAmountMinorUnits g = None" by simp
    have "hd gs \<in> set gs" using ne by simp
    with all have "\<exists>g\<in>set gs. gr_maxAmountMinorUnits g = None" by blast
    with None ne c show ?thesis by (simp add: best_cap_def)
  next
    case (Some m)
    with outcome_fold [OF f] ne c show ?thesis by (cases u) (force simp: best_cap_def)+
  qed
qed

section \<open>The interface to a permission store\<close>

definition grants_for :: "permission_reader \<Rightarrow> check_permission_input \<Rightarrow> permission_grant list result" where
  "grants_for rd input = rd_getApplicableGrants rd (cp_in_tenantId input) (cp_in_userId input) (cp_in_permissionKey input)
     (relevantBranch (cp_in_context input))"

text \<open>The grants behind a decision: they cover the branch, and their best cap is the one decided.\<close>

definition granted :: "permission_reader \<Rightarrow> check_permission_input \<Rightarrow> int option \<Rightarrow> bool" where
  "granted rd input cap \<longleftrightarrow> (\<exists>gs. grants_for rd input = Inr gs \<and> best_cap gs cap \<and>
     (\<forall>g\<in>set gs. gr_scopeType g = tenant_scope \<or> gr_scopeId g = relevantBranch (cp_in_context input)) \<and>
     (\<forall>rs. rd_listActiveUserRoles rd (cp_in_tenantId input) (cp_in_userId input) = Inr rs \<longrightarrow>
       (\<forall>g\<in>set gs. \<exists>r\<in>set rs. ar_roleId r = gr_roleId g \<and> ar_scopeType r = gr_scopeType g \<and> ar_scopeId r = gr_scopeId g)))"

text \<open>The user is active now, and a token presented was derived from the roles held now.\<close>

definition guarded :: "permission_reader \<Rightarrow> (string \<Rightarrow> string) \<Rightarrow> check_permission_input \<Rightarrow> bool" where
  "guarded rd hash input \<longleftrightarrow> rd_isUserActive rd (cp_in_tenantId input) (cp_in_userId input) = Inr True \<and>
     (\<forall>token. cp_in_tokenSecV input = Some token \<longrightarrow>
       (\<exists>rs v. rd_listActiveUserRoles rd (cp_in_tenantId input) (cp_in_userId input) = Inr rs \<and>
          rd_getSecurityVersion rd (cp_in_tenantId input) (cp_in_userId input) = Inr v \<and> deriveSecV rs v hash = token))"

definition within_resource :: "abac_context \<Rightarrow> int option \<Rightarrow> bool" where
  "within_resource ctx cap \<longleftrightarrow> (case ctx of NoResource _ _ \<Rightarrow> True
     | Resource actor branch amount _ \<Rightarrow> actor = Some branch \<and>
         (case (amount, cap) of (Some a, Some m) \<Rightarrow> a \<le> m | _ \<Rightarrow> True))"

text \<open>
  A life of the engine: checks one after the other, each on the store as it is at that moment, with the
  time at which a cache entry would have been written. The newest check is first.
\<close>

inductive serving :: "('s \<Rightarrow> permission_reader) \<Rightarrow> (string \<Rightarrow> string) \<Rightarrow> l1_cache \<Rightarrow> (int \<times> 's) list \<Rightarrow> l1_cache \<Rightarrow> bool"
  for R hash c0 where
  fresh: "serving R hash c0 [] c0"
| served: "serving R hash c0 h c \<Longrightarrow> check (R s) hash t1 t2 input (Some c) = (r, Some c') \<Longrightarrow> serving R hash c0 ((t2, s) # h) c'"

locale permission_reading =
  fixes R :: "'s \<Rightarrow> permission_reader"
  assumes covering: "rd_getApplicableGrants (R s) t u k b = Inr gs \<Longrightarrow> g \<in> set gs \<Longrightarrow> gr_scopeType g = tenant_scope \<or> gr_scopeId g = b"
    and backed: "rd_getApplicableGrants (R s) t u k b = Inr gs \<Longrightarrow> g \<in> set gs \<Longrightarrow> rd_listActiveUserRoles (R s) t u = Inr rs \<Longrightarrow>
      \<exists>r\<in>set rs. ar_roleId r = gr_roleId g \<and> ar_scopeType r = gr_scopeType g \<and> ar_scopeId r = gr_scopeId g"
begin

lemma granted_if_allowed:
  assumes "grants_for (R s) input = Inr gs" "oc_allowed (computeOutcome gs)"
  shows "granted (R s) input (oc_effectiveMaxAmountMinorUnits (computeOutcome gs))"
  unfolding granted_def
  using assms computeOutcome_best [OF assms(2)] covering backed unfolding grants_for_def by blast

text \<open>Every entry of the cache is what the store said when it was written.\<close>

definition entry_true :: "(int \<times> 's) list \<Rightarrow> string \<times> cache_node \<Rightarrow> bool" where
  "entry_true h e \<longleftrightarrow> (\<exists>s t u k hr b gs. (cn_storedAt (snd e), s) \<in> set h \<and> fst e = buildCacheKey t u k hr b \<and>
     rd_getApplicableGrants (R s) t u k b = Inr gs \<and> cn_value (snd e) = computeOutcome gs)"

lemma entry_true_more: "entry_true h e \<Longrightarrow> entry_true (x # h) e"
  by (fastforce simp: entry_true_def)

lemma cache_get_sub: "set (l1_entries (snd (cache_get now k c))) \<subseteq> set (l1_entries c)"
  by (auto simp: cache_get_entries delete_filter dest: map_of_SomeD split: option.splits)

lemma cache_set_sub:
  "cache_ok c \<Longrightarrow> set (l1_entries (cache_set now k v c)) \<subseteq> insert (k, \<lparr>cn_value = v, cn_storedAt = now\<rparr>) (set (l1_entries c))"
  by (auto simp: cache_set_entries Let_def delete_filter dest!: in_set_dropD)

lemma check_cache:
  assumes "check (R s) hash t1 t2 input (Some c) = (r, Some c')" "cache_ok c" "\<forall>e\<in>set (l1_entries c). entry_true h e"
  shows "cache_ok c' \<and> l1_ttlMs c' = l1_ttlMs c \<and> (\<forall>e\<in>set (l1_entries c'). entry_true ((t2, s) # h) e)"
proof -
  let ?t = "cp_in_tenantId input" and ?u = "cp_in_userId input" and ?k = "cp_in_permissionKey input" and ?x = "cp_in_context input"
  let ?key = "buildCacheKey ?t ?u ?k (hasResource ?x) (relevantBranch ?x)"
  obtain got c1 where get: "cache_get t1 ?key c = (got, c1)" by fastforce
  have c1: "cache_ok c1" "l1_ttlMs c1 = l1_ttlMs c" "set (l1_entries c1) \<subseteq> set (l1_entries c)"
    using cache_get_ok [OF assms(2) get] cache_get_sub [of t1 ?key c] get by auto
  consider "c' = c" | "c' = c1" | gs where "rd_getApplicableGrants (R s) ?t ?u ?k (relevantBranch ?x) = Inr gs" "c' = cache_set t2 ?key (computeOutcome gs) c1"
    using assms(1) get by (auto simp: check_def permissionCheck_def Let_def result_simps split: sum.splits option.splits if_splits prod.splits)
  then show ?thesis
  proof cases
    case 1
    with assms show ?thesis using entry_true_more by blast
  next
    case 2
    with assms c1 show ?thesis using entry_true_more by blast
  next
    case 3
    have "entry_true ((t2, s) # h) (?key, \<lparr>cn_value = computeOutcome gs, cn_storedAt = t2\<rparr>)"
      using 3(1) by (fastforce simp: entry_true_def)
    moreover have "\<forall>e\<in>set (l1_entries c1). entry_true ((t2, s) # h) e" using assms(3) c1(3) entry_true_more by blast
    ultimately show ?thesis
      using cache_set_ok [OF c1(1)] cache_set_sub [OF c1(1)] c1(2) unfolding 3(2) by (metis (no_types, lifting) insert_iff subsetD)
  qed
qed

lemma serving_cache:
  assumes "serving R hash c0 h c" "cache_ok c0" "l1_entries c0 = []"
  shows "cache_ok c \<and> l1_ttlMs c = l1_ttlMs c0 \<and> (\<forall>e\<in>set (l1_entries c). entry_true h e)"
  using assms
proof induction
  case (served h c s t1 t2 input r c')
  then show ?case using check_cache [OF served(2), of h] by simp
qed simp

lemma check_granted:
  assumes serve: "serving R hash c0 h c" and c0: "newL1PermissionCache m t = Inr c0" and "t1 \<le> t2"
    and ok: "check (R s) hash t1 t2 input (Some c) = (Inr cap, c')"
  shows "guarded (R s) hash input \<and> within_resource (cp_in_context input) cap \<and>
    (\<exists>at s'. (at, s') \<in> set ((t2, s) # h) \<and> t1 - at < l1_ttlMs c0 \<and> granted (R s') input cap \<and>
       (isSensitivePermission (cp_in_context input) \<longrightarrow> s' = s))"
proof -
  let ?t = "cp_in_tenantId input" and ?u = "cp_in_userId input" and ?k = "cp_in_permissionKey input" and ?x = "cp_in_context input"
  let ?key = "buildCacheKey ?t ?u ?k (hasResource ?x) (relevantBranch ?x)"
  have new: "cache_ok c0" "l1_entries c0 = []" using newCache_ok [OF c0] by auto
  have c: "cache_ok c" "l1_ttlMs c = l1_ttlMs c0" "\<forall>e\<in>set (l1_entries c). entry_true h e" using serving_cache [OF serve new] by auto
  from ok obtain oc where guard: "tenantGuard (R s) hash input = Inr ()"
    and pc: "permissionCheck (R s) t1 t2 ?t ?u ?k ?x (Some c) = (Inr oc, c')" and al: "oc_allowed oc"
    and ab: "abacStage ?x oc = Inr cap"
    by (auto simp: check_def split: sum.splits prod.splits if_splits)
  have g: "guarded (R s) hash input"
    using guard by (auto simp: tenantGuard_def guarded_def result_simps split: if_splits option.splits)
  have cap: "cap = oc_effectiveMaxAmountMinorUnits oc" and w: "within_resource ?x cap"
    using ab by (auto simp: abacStage_def within_resource_def hasResource_def split: if_splits abac_context.splits option.splits)
  have now: "t1 - t2 < l1_ttlMs c0" using assms(3) new(1) by (simp add: cache_ok_def)
  consider gs where "grants_for (R s) input = Inr gs" "oc = computeOutcome gs"
    | "\<not> isSensitivePermission ?x" "fst (cache_get t1 ?key c) = Some oc"
    using pc by (auto simp: permissionCheck_def grants_for_def Let_def result_simps split: if_splits prod.splits option.splits sum.splits)
  then have "\<exists>at s'. (at, s') \<in> set ((t2, s) # h) \<and> t1 - at < l1_ttlMs c0 \<and> granted (R s') input cap \<and> (isSensitivePermission ?x \<longrightarrow> s' = s)"
  proof cases
    case 1
    with granted_if_allowed [OF 1(1)] al cap have "granted (R s) input cap" by simp
    with now show ?thesis by auto
  next
    case 2
    with c obtain n where n: "(?key, n) \<in> set (l1_entries c)" "cn_value n = oc" "t1 - cn_storedAt n < l1_ttlMs c0"
      by (auto simp: cache_get_hit)
    with c(3) obtain s' t u k hr b gs where s': "(cn_storedAt n, s') \<in> set h" "?key = buildCacheKey t u k hr b"
      "rd_getApplicableGrants (R s') t u k b = Inr gs" "oc = computeOutcome gs"
      by (fastforce simp: entry_true_def)
    from s'(2) have "t = ?t" "u = ?u" "k = ?k" "b = relevantBranch ?x"
      unfolding buildCacheKey_def stringify_inj by (auto simp: null_or_string_inj)
    with s'(3) have "grants_for (R s') input = Inr gs" by (simp add: grants_for_def)
    from granted_if_allowed [OF this] al cap s'(4) have "granted (R s') input cap" by simp
    with s'(1) n(3) 2(1) show ?thesis by auto
  qed
  with g w show ?thesis by blast
qed

end

section \<open>The two stores\<close>

lemma mem_covering:
  "g \<in> set (getApplicableGrants s t u k b) \<Longrightarrow> gr_scopeType g = tenant_scope \<or> gr_scopeId g = b"
  by (auto simp: getApplicableGrants_def assignment_grants_def scopeCovers_def split: if_splits option.splits)

lemma mem_backed:
  "g \<in> set (getApplicableGrants s t u k b) \<Longrightarrow>
   \<exists>r\<in>set (listActiveUserRoles s t u). ar_roleId r = gr_roleId g \<and> ar_scopeType r = gr_scopeType g \<and> ar_scopeId r = gr_scopeId g"
proof -
  assume "g \<in> set (getApplicableGrants s t u k b)"
  then obtain ur where ur: "ur \<in> set (user_assignments s t u)" "g \<in> set (assignment_grants s k b ur)"
    by (auto simp: getApplicableGrants_def)
  obtain role where role: "map_of (ps_roles s) (ur_roleId ur) = Some role"
    using ur(2) by (cases "map_of (ps_roles s) (ur_roleId ur)") (simp_all add: assignment_grants_def split: if_splits)
  with ur have g: "gr_roleId g = ur_roleId ur" "gr_scopeType g = ur_scopeType ur" "gr_scopeId g = ur_scopeId ur"
    by (auto simp: assignment_grants_def split: if_splits option.splits)
  let ?r = "\<lparr>ar_roleId = ur_roleId ur, ar_roleVersion = ro_roleVersion role, ar_scopeType = ur_scopeType ur, ar_scopeId = ur_scopeId ur\<rparr>"
  have "?r \<in> set (listActiveUserRoles s t u)"
    using ur(1) role by (force simp: listActiveUserRoles_def List.map_filter_def)
  then show ?thesis using g by (intro bexI [of _ ?r]) simp_all
qed

interpretation mem: permission_reading inMemoryReader
  by unfold_locales (auto simp: inMemoryReader_def dest: mem_covering intro: mem_backed)

lemma grant_of_row_Inr:
  "grant_of_row (ur, r, rp, pr) = Inr g \<Longrightarrow> gr_roleId g = ro_id r \<and> gr_scopeType g = ur_scopeType ur \<and> gr_scopeId g = ur_scopeId ur"
  by (auto simp: grant_of_row_def result_simps)

lemma grant_rows_assigned:
  "(ur, r, rp, pr) \<in> set (grant_rows t u k b db) \<Longrightarrow> (ur, r) \<in> set (active_assignments t u db) \<and> sql_covers (ur_scopeType ur) (ur_scopeId ur) b"
  unfolding grant_rows_def by (clarsimp simp only: set_concat set_map set_filter)

lemma pg_grant_row:
  assumes "pg_getApplicableGrants t u k b db = Inr gs" "g \<in> set gs"
  shows "\<exists>ur r. (ur, r) \<in> set (active_assignments t u db) \<and> sql_covers (ur_scopeType ur) (ur_scopeId ur) b \<and>
    gr_roleId g = ro_id r \<and> gr_scopeType g = ur_scopeType ur \<and> gr_scopeId g = ur_scopeId ur"
proof -
  from assms(1) have all: "list_all2 (\<lambda>row g. grant_of_row row = Inr g) (grant_rows t u k b db) gs"
    by (simp add: pg_getApplicableGrants_def mapR_all2)
  from assms(2) obtain i where "i < length gs" "gs ! i = g" by (auto simp: in_set_conv_nth)
  with all have "grant_rows t u k b db ! i \<in> set (grant_rows t u k b db)" "grant_of_row (grant_rows t u k b db ! i) = Inr g"
    by (auto simp: list_all2_conv_all_nth)
  then obtain row where "row \<in> set (grant_rows t u k b db)" "grant_of_row row = Inr g" by blast
  moreover obtain ur r rp pr where row: "row = (ur, r, rp, pr)" by (cases row)
  ultimately show ?thesis using grant_of_row_Inr grant_rows_assigned by metis
qed

lemma withTenantContext_body:
  "fst (withTenantContext env t m db) = Inr x \<Longrightarrow> \<exists>db'. m db = Inr (x, db')"
  by (cases "pv_tenantGate env t"; cases "m db")
     (auto simp: withTenantContext_def run_tx_def tx_bind_def tx_lift_def ok_def)

lemma withTenantContext_reads:
  "fst (withTenantContext env t (tx_read f) db) = Inr x \<Longrightarrow> x = f db"
  "fst (withTenantContext env t (tx_readR g) db) = Inr y \<Longrightarrow> g db = Inr y"
  by (drule withTenantContext_body, simp add: tx_read_def tx_readR_def result_simps)+

interpretation pg: permission_reading "\<lambda>(env, db). pgReader env db"
proof
  fix s :: "permission_env \<times> permission_db" and t u k b gs g rs
  obtain env db where s: "s = (env, db)" by fastforce
  assume "rd_getApplicableGrants (case s of (env, db) \<Rightarrow> pgReader env db) t u k b = Inr gs" and g: "g \<in> set gs"
  then have "pg_getApplicableGrants t u k b db = Inr gs" unfolding s pgReader_def by simp (rule withTenantContext_reads(2))
  from pg_grant_row [OF this g] obtain ur r where r: "(ur, r) \<in> set (active_assignments t u db)"
    "sql_covers (ur_scopeType ur) (ur_scopeId ur) b" "gr_roleId g = ro_id r" "gr_scopeType g = ur_scopeType ur" "gr_scopeId g = ur_scopeId ur"
    by blast
  then show "gr_scopeType g = tenant_scope \<or> gr_scopeId g = b" by (auto simp: sql_covers_def)
  assume "rd_listActiveUserRoles (case s of (env, db) \<Rightarrow> pgReader env db) t u = Inr rs"
  then have "rs = pg_listActiveUserRoles t u db" unfolding s pgReader_def by simp (rule withTenantContext_reads(1))
  moreover from r(1) have "ro_id r = ur_roleId ur" by (auto simp: active_assignments_def)
  ultimately show "\<exists>r\<in>set rs. ar_roleId r = gr_roleId g \<and> ar_scopeType r = gr_scopeType g \<and> ar_scopeId r = gr_scopeId g"
    using r by (force simp: pg_listActiveUserRoles_def)
qed

text \<open>The decision on a sensitive permission ignores the cache.\<close>

lemma check_sensitive:
  "isSensitivePermission (cp_in_context input) \<Longrightarrow> fst (check rd hash t1 t2 input cache) = fst (check rd hash t3 t4 input None)"
  by (simp add: check_def permissionCheck_def Let_def split: sum.splits)

section \<open>Properties\<close>

text \<open>A small tenant: a cashier of branch b1 with a capped permission, and two administrators.\<close>

definition example_penv :: permission_env where
  "example_penv = \<lparr>pv_tenantGate = (\<lambda>t. Inr ()), pv_uuid = (\<lambda>db. ''n''), pv_reject = (\<lambda>a b. None)\<rparr>"

definition example_pdb :: permission_db where
  "example_pdb = \<lparr>
     pd_tenants = [\<lparr>te_id = ''t1'', te_name = ''T'', te_status = Some ''active'', te_reportingCurrency = None\<rparr>],
     pd_users = map (\<lambda>u. \<lparr>mu_id = u, mu_tenantId = ''t1'', mu_branchId = None, mu_isActive = True, mu_securityVersion = 1\<rparr>) [''c1'', ''m1'', ''m2''],
     pd_roles = [\<lparr>ro_id = ''r0'', ro_tenantId = ''t1'', ro_name = TENANT_SUPER_ADMIN_ROLE_NAME, ro_roleVersion = 1, ro_isSystem = True\<rparr>,
                 \<lparr>ro_id = ''r1'', ro_tenantId = ''t1'', ro_name = ''Cashier'', ro_roleVersion = 4, ro_isSystem = False\<rparr>],
     pd_permissions = [\<lparr>pe_key = ''orders:read'', pe_category = ''orders'', pe_isSensitive = False\<rparr>],
     pd_rolePermissions = [\<lparr>mp_id = ''g1'', mp_tenantId = ''t1'', mp_roleId = ''r1'', mp_permissionKey = ''orders:read'', mp_maxAmountMinorUnits = Some 500\<rparr>],
     pd_userRoles = [\<lparr>ur_id = ''a0'', ur_tenantId = ''t1'', ur_userId = ''c1'', ur_roleId = ''r1'', ur_scopeType = branch_scope, ur_scopeId = Some ''b1'', ur_isActive = True\<rparr>,
                     \<lparr>ur_id = ''a1'', ur_tenantId = ''t1'', ur_userId = ''m1'', ur_roleId = ''r0'', ur_scopeType = tenant_scope, ur_scopeId = None, ur_isActive = True\<rparr>,
                     \<lparr>ur_id = ''a2'', ur_tenantId = ''t1'', ur_userId = ''m2'', ur_roleId = ''r0'', ur_scopeType = tenant_scope, ur_scopeId = None, ur_isActive = True\<rparr>]\<rparr>"

definition example_check :: check_permission_input where
  "example_check = \<lparr>cp_in_tenantId = ''t1'', cp_in_userId = ''c1'', cp_in_permissionKey = ''orders:read'',
     cp_in_context = Resource (Some ''b1'') ''b1'' (Some 400) False, cp_in_tokenSecV = None\<rparr>"

lemmas pg_run = example_penv_def example_pdb_def withTenantContext_def run_tx_def tx_run rls_users_def rls_roles_def
  rls_rolePermissions_def rls_userRoles_def pg_write_def

text \<open>
  C14. What a granted check means, over any life of the engine and its cache while the store keeps
  changing: at the moment of the check the user is an active member of the active tenant, and a token
  presented was derived from the roles held now. The permission was granted by an active role whose
  scope covers the branch, in the store as it is now or as it was when a check less than the
  lifetime of a cache entry ago read it, and for a sensitive permission in the store as it is now.
  The actor's branch is the branch of the resource, and its amount does not exceed the highest cap
  of the grants, if all are capped.
\<close>

theorem check_granted_recently:
  assumes "serving (\<lambda>(env, db). pgReader env db) hash c0 h c" and "newL1PermissionCache m t = Inr c0" and "t1 \<le> t2"
    and "check (pgReader env db) hash t1 t2 input (Some c) = (Inr cap, c')"
  shows "guarded (pgReader env db) hash input \<and> within_resource (cp_in_context input) cap \<and>
    (\<exists>at env' db'. (at, env', db') \<in> set ((t2, env, db) # h) \<and> t1 - at < l1_ttlMs c0 \<and> granted (pgReader env' db') input cap \<and>
       (isSensitivePermission (cp_in_context input) \<longrightarrow> env' = env \<and> db' = db))"
  using pg.check_granted [OF assms(1-3), of "(env, db)" input cap c'] assms(4) by auto

theorem check_granted_recently_witness:
  "guarded (pgReader example_penv example_pdb) id example_check \<and> granted (pgReader example_penv example_pdb) example_check (Some 500)"
proof -
  let ?c0 = "\<lparr>l1_entries = [], l1_maxEntries = 1024, l1_ttlMs = 60000\<rparr>"
  have c0: "newL1PermissionCache None None = Inr ?c0" by (simp add: newL1PermissionCache_def)
  have m: "minorUnitsFromDb (int_to_text 500) = Inr 500" by code_simp
  have guard: "tenantGuard (pgReader example_penv example_pdb) id example_check = Inr ()"
    by (simp add: tenantGuard_def example_check_def pgReader_def pg_run pg_isUserActive_def)
  have grants: "rd_getApplicableGrants (pgReader example_penv example_pdb) ''t1'' ''c1'' ''orders:read'' (Some ''b1'') =
      Inr [\<lparr>gr_roleId = ''r1'', gr_roleVersion = 4,
      gr_scopeType = branch_scope, gr_scopeId = Some ''b1'', gr_maxAmountMinorUnits = Some 500, gr_isSensitive = False\<rparr>]"
    by (simp add: pgReader_def pg_run pg_getApplicableGrants_def grant_rows_def active_assignments_def sql_covers_def grant_of_row_def m)
  have "\<exists>c1. permissionCheck (pgReader example_penv example_pdb) 10 20 ''t1'' ''c1'' ''orders:read''
      (Resource (Some ''b1'') ''b1'' (Some 400) False) (Some ?c0) =
    (Inr \<lparr>oc_allowed = True, oc_effectiveMaxAmountMinorUnits = Some 500\<rparr>, c1)"
    by (simp add: permissionCheck_def relevantBranch_def hasResource_def grants cache_get_def computeOutcome_def outcome_step_def ok_def)
  then obtain c1 where perm: "permissionCheck (pgReader example_penv example_pdb) 10 20 ''t1'' ''c1'' ''orders:read''
      (Resource (Some ''b1'') ''b1'' (Some 400) False) (Some ?c0) =
    (Inr \<lparr>oc_allowed = True, oc_effectiveMaxAmountMinorUnits = Some 500\<rparr>, c1)" ..
  have "check (pgReader example_penv example_pdb) id 10 20 example_check (Some ?c0) = (Inr (Some 500), c1)"
    unfolding check_def guard by (simp add: example_check_def perm abacStage_def hasResource_def)
  from check_granted_recently [OF serving.fresh c0 _ this] show ?thesis by simp
qed

section \<open>The last administrator\<close>

lemma unless_last_Inr:
  assumes "unless_last env tid members target change db = (Inr (), db')"
  shows "db' = change db" "systemRoleId tid db = Some r \<Longrightarrow> \<not> isLastActiveMember (members r db) target"
  using assms by (auto simp: unless_last_def withTenantContext_def run_tx_def tx_simps pg_write_def
      split: sum.splits option.splits prod.splits)

lemma filter_nonempty_unless_last:
  assumes "distinct (map f xs)" "xs \<noteq> []" "\<not> isLastActiveMember (map f xs) y"
  shows "filter (\<lambda>x. f x \<noteq> y) xs \<noteq> []"
proof
  assume "filter (\<lambda>x. f x \<noteq> y) xs = []"
  then have all: "\<forall>x\<in>set xs. f x = y" by (simp add: filter_empty_conv)
  then have "set (map f xs) \<subseteq> {y}" by auto
  then have "length xs \<le> 1" using distinct_card [OF assms(1)] card_mono [of "{y}" "set (map f xs)"] by simp
  with assms(2) obtain x where "xs = [x]" by (cases xs) auto
  with all assms(3) show False by (simp add: isLastActiveMember_def)
qed

definition keys_unique :: "permission_db \<Rightarrow> bool" where
  "keys_unique db \<longleftrightarrow> distinct (map ur_id (pd_userRoles db)) \<and> distinct (map mu_id (pd_users db))"

text \<open>
  C32. The protection of administrators, with unique identifiers: a tenant that has active assignments of its
  system role keeps at least one through any accepted removal or deactivation of an assignment, and
  one that has active accounts among their holders keeps one through any accepted disabling of a
  user. Neither count keeps the other: the sequence of the next property mixes both kinds of calls.
\<close>

theorem last_administrator_guarded:
  assumes "keys_unique db" and "systemRoleId tid db = Some role"
  shows "(\<forall>i db'. pg_removeUserRoleAssignment env tid i db = (Inr (), db') \<and> super_admin_rows tid role db \<noteq> [] \<longrightarrow>
      super_admin_rows tid role db' \<noteq> []) \<and>
    (\<forall>i db'. pg_deactivateUserRoleAssignment env tid i db = (Inr (), db') \<and> super_admin_rows tid role db \<noteq> [] \<longrightarrow>
      super_admin_rows tid role db' \<noteq> []) \<and>
    (\<forall>u db'. pg_disableUser env tid u db = (Inr (), db') \<and> active_holders tid role db \<noteq> [] \<longrightarrow>
      active_holders tid role db' \<noteq> [])"
proof -
  have ids: "distinct (map ur_id (super_admin_rows tid role db))"
    using assms(1) by (simp add: super_admin_rows_def rls_userRoles_def keys_unique_def distinct_map_filter)
  have keep: "super_admin_rows tid role (f db) \<noteq> []"
    if "super_admin_rows tid role (f db) = filter (\<lambda>ur. ur_id ur \<noteq> i) (super_admin_rows tid role db)"
      "unless_last env tid (\<lambda>roleId db. map ur_id (super_admin_rows tid roleId db)) i f db = (Inr (), db')"
      "super_admin_rows tid role db \<noteq> []" for f i db'
    using filter_nonempty_unless_last [OF ids that(3)] unless_last_Inr(2) [OF that(2) assms(2)] that(1) by simp
  have del: "super_admin_rows tid role (delete_assignment tid i db) = filter (\<lambda>ur. ur_id ur \<noteq> i) (super_admin_rows tid role db)" for i
    by (auto simp: super_admin_rows_def rls_userRoles_def delete_assignment_def intro: filter_cong)
  have deact: "super_admin_rows tid role (deactivate_assignment tid i db) = filter (\<lambda>ur. ur_id ur \<noteq> i) (super_admin_rows tid role db)" for i
  proof -
    have "filter (\<lambda>ur. ur_roleId ur = role \<and> ur_isActive ur) (filter (\<lambda>r. ur_tenantId r = tid)
        (map (\<lambda>ur. if ur_tenantId ur = tid \<and> ur_id ur = i then ur\<lparr>ur_isActive := False\<rparr> else ur) xs)) =
      filter (\<lambda>ur. ur_id ur \<noteq> i) (filter (\<lambda>ur. ur_roleId ur = role \<and> ur_isActive ur) (filter (\<lambda>r. ur_tenantId r = tid) xs))" for xs
      by (induction xs) auto
    then show ?thesis by (simp add: super_admin_rows_def rls_userRoles_def deactivate_assignment_def del: filter_filter)
  qed
  have users: "active_holders tid role (deactivate_user tid u db) = filter (\<lambda>x. x \<noteq> u) (active_holders tid role db)" for u
  proof -
    have eq: "map mu_id (filter (\<lambda>u. mu_isActive u \<and> mu_id u \<in> S) (filter (\<lambda>x. mu_tenantId x = tid)
        (map (\<lambda>x. if mu_tenantId x = tid \<and> mu_id x = u then x\<lparr>mu_isActive := False\<rparr> else x) xs))) =
      filter (\<lambda>x. x \<noteq> u) (map mu_id (filter (\<lambda>u. mu_isActive u \<and> mu_id u \<in> S) (filter (\<lambda>x. mu_tenantId x = tid) xs)))" for S xs
      by (induction xs) auto
    have same: "super_admin_rows tid role (deactivate_user tid u db) = super_admin_rows tid role db"
      by (simp add: super_admin_rows_def rls_userRoles_def deactivate_user_def)
    have pdu: "pd_users (deactivate_user tid u db) =
        map (\<lambda>x. if mu_tenantId x = tid \<and> mu_id x = u then x\<lparr>mu_isActive := False\<rparr> else x) (pd_users db)"
      by (simp add: deactivate_user_def)
    show ?thesis
      by (cases "super_admin_rows tid role db = []")
         (simp_all only: active_holders_def Let_def same rls_users_def pdu eq if_True if_False map_is_Nil_conv simp_thms filter.simps)
  qed
  have holders: "distinct (map id (active_holders tid role db))"
    using assms(1) by (auto simp: active_holders_def Let_def rls_users_def keys_unique_def distinct_map_filter)
  show ?thesis
  proof (intro conjI allI impI; elim conjE)
    fix i db' assume run: "pg_removeUserRoleAssignment env tid i db = (Inr (), db')" and ne: "super_admin_rows tid role db \<noteq> []"
    show "super_admin_rows tid role db' \<noteq> []"
      using keep [OF del run [unfolded pg_removeUserRoleAssignment_def] ne] unless_last_Inr(1) [OF run [unfolded pg_removeUserRoleAssignment_def]] by simp
  next
    fix i db' assume run: "pg_deactivateUserRoleAssignment env tid i db = (Inr (), db')" and ne: "super_admin_rows tid role db \<noteq> []"
    show "super_admin_rows tid role db' \<noteq> []"
      using keep [OF deact run [unfolded pg_deactivateUserRoleAssignment_def] ne] unless_last_Inr(1) [OF run [unfolded pg_deactivateUserRoleAssignment_def]] by simp
  next
    fix u db' assume run: "pg_disableUser env tid u db = (Inr (), db')" and ne: "active_holders tid role db \<noteq> []"
    note r = unless_last_Inr [OF run [unfolded pg_disableUser_def]]
    show "active_holders tid role db' \<noteq> []"
      using filter_nonempty_unless_last [OF holders ne, of u] r(2) [OF assms(2)] unfolding r(1) users by simp
  qed
qed

lemmas admin_run = pg_run unless_last_def pg_removeUserRoleAssignment_def pg_disableUser_def systemRoleId_def super_admin_rows_def
  active_holders_def isLastActiveMember_def delete_assignment_def deactivate_user_def keys_unique_def

theorem last_administrator_guarded_witness:
  "\<exists>db'. pg_removeUserRoleAssignment example_penv ''t1'' ''a1'' example_pdb = (Inr (), db') \<and> super_admin_rows ''t1'' ''r0'' db' \<noteq> []"
proof -
  have "keys_unique example_pdb" "systemRoleId ''t1'' example_pdb = Some ''r0''" "super_admin_rows ''t1'' ''r0'' example_pdb \<noteq> []"
    by (simp_all add: admin_run)
  moreover have "pg_removeUserRoleAssignment example_penv ''t1'' ''a1'' example_pdb = (Inr (), delete_assignment ''t1'' ''a1'' example_pdb)"
    by (simp add: admin_run)
  ultimately show ?thesis using last_administrator_guarded [of example_pdb "''t1''" "''r0''" example_penv] by blast
qed

text \<open>
  Two accepted calls can still lock a tenant out: with two administrators, disabling the account of one is
  accepted because the other is active, and removing the other's assignment is accepted because the
  assignment of the disabled account still counts. No active account holds the system role then.
\<close>

theorem administrators_locked_out:
  "active_holders ''t1'' ''r0'' example_pdb = [''m1'', ''m2''] \<and>
   (\<exists>db1 db2. pg_disableUser example_penv ''t1'' ''m2'' example_pdb = (Inr (), db1) \<and>
      pg_removeUserRoleAssignment example_penv ''t1'' ''a1'' db1 = (Inr (), db2) \<and> active_holders ''t1'' ''r0'' db2 = [])"
  by (simp add: admin_run)

end
