(* ===== verification/Pos_Authorized.thy ===== *)
theory Pos_Authorized
  imports Payment_Methods Authorization_System
begin

text \<open>
  The engines behind the authorization engine. Their parameter \<open>env_authorize\<close> is instantiated by
  \<open>AuthorizationEngine.check\<close> on the permission store; whoever moves money, grants a discount, runs a
  shift or administers payment methods then holds the permission for it, at the branch in question,
  now.
\<close>

text \<open>The check input of a request of the engines: a resource at a branch, or none.\<close>

definition check_input :: "auth_check \<Rightarrow> check_permission_input" where
  "check_input ck = \<lparr>cp_in_tenantId = ck_tenantId ck, cp_in_userId = ck_userId ck, cp_in_permissionKey = ck_permissionKey ck,
     cp_in_context = (case ck_branchId ck of None \<Rightarrow> NoResource None (ck_isSensitive ck)
                      | Some b \<Rightarrow> Resource (Some b) b None (ck_isSensitive ck)),
     cp_in_tokenSecV = ck_tokenSecV ck\<rparr>"

text \<open>The environment of an operation whose checks are made by the authorization engine, with whatever cache.\<close>

definition authorized_by :: "permission_env \<Rightarrow> permission_db \<Rightarrow> (string \<Rightarrow> string) \<Rightarrow> pos_env \<Rightarrow> bool" where
  "authorized_by penv pdb hash env \<longleftrightarrow> (\<forall>ck. \<exists>t1 t2 cache.
     env_authorize env ck = mapResult (fst (check (pgReader penv pdb) hash t1 t2 (check_input ck) cache)) (\<lambda>_. ()))"

text \<open>The user is active and holds the permission at the branch, by a role held now; a token presented is current.\<close>

definition permitted :: "permission_env \<Rightarrow> permission_db \<Rightarrow> (string \<Rightarrow> string) \<Rightarrow> string \<Rightarrow> string \<Rightarrow> string \<Rightarrow> string option \<Rightarrow> string option \<Rightarrow> bool" where
  "permitted penv pdb hash tid userId key branch token \<longleftrightarrow>
     (\<exists>cap. let input = check_input \<lparr>ck_tenantId = tid, ck_userId = userId, ck_permissionKey = key, ck_tokenSecV = token,
                ck_branchId = branch, ck_isSensitive = True\<rparr>
            in guarded (pgReader penv pdb) hash input \<and> granted (pgReader penv pdb) input cap)"

lemma check_uncached:
  assumes "fst (check (pgReader penv pdb) hash t1 t2 input None) = Inr cap"
  shows "guarded (pgReader penv pdb) hash input \<and> granted (pgReader penv pdb) input cap"
proof -
  from assms obtain oc where guard: "tenantGuard (pgReader penv pdb) hash input = Inr ()"
    and pc: "fst (permissionCheck (pgReader penv pdb) t1 t2 (cp_in_tenantId input) (cp_in_userId input) (cp_in_permissionKey input)
       (cp_in_context input) None) = Inr oc" and al: "oc_allowed oc" and ab: "abacStage (cp_in_context input) oc = Inr cap"
    by (auto simp: check_def split: sum.splits prod.splits if_splits)
  from pc obtain gs where gs: "grants_for (pgReader penv pdb) input = Inr gs" "oc = computeOutcome gs"
    by (auto simp: permissionCheck_def grants_for_def Let_def result_simps)
  have "cap = oc_effectiveMaxAmountMinorUnits oc" using ab by (auto simp: abacStage_def split: if_splits)
  then have "granted (pgReader penv pdb) input cap"
    using pg.granted_if_allowed [of "(penv, pdb)" input gs] gs al by simp
  moreover have "guarded (pgReader penv pdb) hash input"
    using guard by (auto simp: tenantGuard_def guarded_def result_simps split: if_splits option.splits)
  ultimately show ?thesis by blast
qed

lemma authorized_permitted:
  assumes "authorized_by penv pdb hash env" "env_authorize env ck = Inr x" "ck_isSensitive ck"
  shows "permitted penv pdb hash (ck_tenantId ck) (ck_userId ck) (ck_permissionKey ck) (ck_branchId ck) (ck_tokenSecV ck)"
proof -
  from assms(1,2) obtain t1 t2 cache cap where "fst (check (pgReader penv pdb) hash t1 t2 (check_input ck) cache) = Inr cap"
    unfolding authorized_by_def by (metis mapResult_Inr_iff)
  moreover have "isSensitivePermission (cp_in_context (check_input ck))"
    using assms(3) by (simp add: check_input_def split: option.splits)
  ultimately have "fst (check (pgReader penv pdb) hash t1 t2 (check_input ck) None) = Inr cap" using check_sensitive by metis
  from check_uncached [OF this] assms(3) show ?thesis by (cases ck) (auto simp: permitted_def Let_def)
qed

section \<open>What the operations asked for\<close>

lemma branch_check_permitted:
  "authorized_by penv pdb hash env \<Longrightarrow> env_authorize env (branch_check tid u k tok b) = Inr x \<Longrightarrow> permitted penv pdb hash tid u k (Some b) tok"
  using authorized_permitted [of penv pdb hash env "branch_check tid u k tok b"] by (simp add: branch_check_def)

lemma shift_check_permitted:
  "authorized_by penv pdb hash env \<Longrightarrow> env_authorize env (shift_check tid u k b True) = Inr x \<Longrightarrow> permitted penv pdb hash tid u k (Some b) None"
  using authorized_permitted [of penv pdb hash env "shift_check tid u k b True"] by (simp add: shift_check_def)

definition order_branch :: "pos_db \<Rightarrow> string \<Rightarrow> string \<Rightarrow> string \<Rightarrow> bool" where
  "order_branch db tid oid b \<longleftrightarrow> (\<exists>ord br. order_header db tid oid = Some (ord, br) \<and> o_branchId ord = b)"

lemma loadSnapshot_branch:
  "loadOrderFinancialSnapshot tid oid db = Inr (Some snap) \<Longrightarrow> order_branch db tid oid (sn_branchId snap)"
  by (auto simp: order_branch_def loadOrderFinancialSnapshot_def Let_def result_simps split: option.splits)

lemma record_permitted:
  assumes "authorized_by penv pdb hash env" "recordPayment env tid input db = (Inr r, db')"
  shows "\<exists>b. order_branch db tid (rp_orderId input) b \<and>
    permitted penv pdb hash tid (rp_cashierUserId input) ''payments:collect'' (Some b) (rp_tokenSecV input)"
proof -
  from assms(2) obtain snap x where "loadOrderFinancialSnapshot tid (rp_orderId input) db = Inr (Some snap)"
    "env_authorize env (branch_check tid (rp_cashierUserId input) ''payments:collect'' (rp_tokenSecV input) (sn_branchId snap)) = Inr x"
    by (auto simp: recordPayment_def orderBranch_def loadSnapshot_def tx_simps)
  then show ?thesis using branch_check_permitted [OF assms(1)] loadSnapshot_branch by blast
qed

definition payment_branch :: "pos_db \<Rightarrow> string \<Rightarrow> string \<Rightarrow> string \<Rightarrow> bool" where
  "payment_branch db tid pid b \<longleftrightarrow> (\<exists>p. loadPayment tid pid db = Some p \<and> order_branch db tid (pay_orderId p) b)"

lemma lifecycle_permitted:
  assumes "authorized_by penv pdb hash env"
  shows "voidPayment env tid actor pid why db = (Inr p, db') \<Longrightarrow> \<exists>b. payment_branch db tid pid b \<and>
      permitted penv pdb hash tid (pa_userId actor) ''payments:void'' (Some b) (Some (pa_tokenSecV actor))"
    "refundPayment env tid actor pid db = (Inr p, db') \<Longrightarrow> \<exists>b. payment_branch db tid pid b \<and>
      permitted penv pdb hash tid (pa_userId actor) ''payments:refund'' (Some b) (Some (pa_tokenSecV actor))"
proof -
  note perm = branch_check_permitted [OF assms]
  assume "voidPayment env tid actor pid why db = (Inr p, db')"
  then obtain q snap x where "loadPayment tid pid db = Some q" "loadOrderFinancialSnapshot tid (pay_orderId q) db = Inr (Some snap)"
    "env_authorize env (branch_check tid (pa_userId actor) ''payments:void'' (Some (pa_tokenSecV actor)) (sn_branchId snap)) = Inr x"
    by (auto simp: voidPayment_def paymentBranch_def loadSnapshot_def tx_simps)
  then show "\<exists>b. payment_branch db tid pid b \<and>
      permitted penv pdb hash tid (pa_userId actor) ''payments:void'' (Some b) (Some (pa_tokenSecV actor))"
    using perm loadSnapshot_branch unfolding payment_branch_def by blast
next
  note perm = branch_check_permitted [OF assms]
  assume "refundPayment env tid actor pid db = (Inr p, db')"
  then obtain q snap x where "loadPayment tid pid db = Some q" "loadOrderFinancialSnapshot tid (pay_orderId q) db = Inr (Some snap)"
    "env_authorize env (branch_check tid (pa_userId actor) ''payments:refund'' (Some (pa_tokenSecV actor)) (sn_branchId snap)) = Inr x"
    by (auto simp: refundPayment_def paymentBranch_def loadSnapshot_def tx_simps)
  then show "\<exists>b. payment_branch db tid pid b \<and>
      permitted penv pdb hash tid (pa_userId actor) ''payments:refund'' (Some b) (Some (pa_tokenSecV actor))"
    using perm loadSnapshot_branch unfolding payment_branch_def by blast
qed

lemma discount_permitted:
  assumes "authorized_by penv pdb hash env" "applyDiscount env tid actor input db = (Inr d, db')"
  shows "\<exists>b. order_branch db tid (ad_orderId input) b \<and>
    permitted penv pdb hash tid (pa_userId actor) ''order:discount:apply'' (Some b) (Some (pa_tokenSecV actor))"
proof -
  from assms(2) obtain snap x where "loadOrderFinancialSnapshot tid (ad_orderId input) db = Inr (Some snap)"
    "env_authorize env (branch_check tid (pa_userId actor) ''order:discount:apply'' (Some (pa_tokenSecV actor)) (sn_branchId snap)) = Inr x"
    by (auto simp: applyDiscount_def orderBranch_def loadSnapshot_def tx_simps split: if_splits)
  then show ?thesis using branch_check_permitted [OF assms(1)] loadSnapshot_branch by blast
qed

lemma shifts_permitted:
  assumes "authorized_by penv pdb hash env"
  shows "openShift env tid opn db = (Inr s, db') \<Longrightarrow> permitted penv pdb hash tid (os_openedByUserId opn) ''shift:open'' (Some (sh_branchId s)) None"
    "closeShift env tid cls db = (Inr s, db') \<Longrightarrow> \<exists>shift. loadShift tid (ci_shiftId cls) db = Some shift \<and>
       permitted penv pdb hash tid (ci_closedByUserId cls) ''shift:close'' (Some (sh_branchId shift)) None"
proof -
  assume run: "openShift env tid opn db = (Inr s, db')"
  then obtain x where "env_authorize env (shift_check tid (os_openedByUserId opn) ''shift:open'' (os_branchId opn) True) = Inr x"
    by (auto simp: openShift_def tx_simps)
  then show "permitted penv pdb hash tid (os_openedByUserId opn) ''shift:open'' (Some (sh_branchId s)) None"
    using shift_check_permitted [OF assms] openShift_opened [OF run] by (auto simp: opened_def)
next
  assume "closeShift env tid cls db = (Inr s, db')"
  then obtain shift x where "loadShift tid (ci_shiftId cls) db = Some shift"
    "env_authorize env (shift_check tid (ci_closedByUserId cls) ''shift:close'' (sh_branchId shift) True) = Inr x"
    by (auto simp: closeShift_def shiftBranch_def tx_simps)
  then show "\<exists>shift. loadShift tid (ci_shiftId cls) db = Some shift \<and>
      permitted penv pdb hash tid (ci_closedByUserId cls) ''shift:close'' (Some (sh_branchId shift)) None"
    using shift_check_permitted [OF assms] by blast
qed

lemma methods_permitted:
  assumes "authorized_by penv pdb hash env"
  shows "create_method env tid u new db = (Inr m, db') \<Longrightarrow> permitted penv pdb hash tid u ''payments:methods_admin'' (pm_branchId m) None"
    "update_method env tid u i upd db = (Inr m, db') \<Longrightarrow> \<exists>existing. loadPaymentMethod tid i db = Some existing \<and>
       pm_branchId m = pm_branchId existing \<and> permitted penv pdb hash tid u ''payments:methods_admin'' (pm_branchId existing) None"
proof -
  assume "create_method env tid u new db = (Inr m, db')"
  from authorized_permitted [OF assms create_method_Inr(6) [OF this]]
  show "permitted penv pdb hash tid u ''payments:methods_admin'' (pm_branchId m) None" by (simp add: administrationContext_def)
next
  assume "update_method env tid u i upd db = (Inr m, db')"
  from update_method_Inr [OF this] obtain existing where e: "loadPaymentMethod tid i db = Some existing" "m = method_update upd existing"
    "env_authorize env (administrationContext tid u (pm_branchId existing)) = Inr ()" by blast
  from authorized_permitted [OF assms e(3)] e(1,2) show "\<exists>existing. loadPaymentMethod tid i db = Some existing \<and>
      pm_branchId m = pm_branchId existing \<and> permitted penv pdb hash tid u ''payments:methods_admin'' (pm_branchId existing) None"
    by (simp add: administrationContext_def method_update_def)
qed

text \<open>
  C5. Authority over money: with the checks made by the authorization engine on the permission store, a
  successful collection, void, refund or discount was made by a user who is active and holds the
  permission for it at the branch of the order; opening or closing a shift, by one who holds it at the branch
  of the shift; creating or changing a payment method, by one who holds it for the branch of the method (for the tenant, if the method has none). The
  permission comes from a role held at that moment, and a token presented was derived from the roles held at
  that moment, whatever the permission cache contains.
\<close>

theorem money_needs_authority:
  assumes "authorized_by penv pdb hash env"
  shows "(\<forall>tid input db r db'. recordPayment env tid input db = (Inr r, db') \<longrightarrow>
      (\<exists>b. order_branch db tid (rp_orderId input) b \<and>
        permitted penv pdb hash tid (rp_cashierUserId input) ''payments:collect'' (Some b) (rp_tokenSecV input))) \<and>
    (\<forall>tid actor pid why db p db'. voidPayment env tid actor pid why db = (Inr p, db') \<longrightarrow>
      (\<exists>b. payment_branch db tid pid b \<and>
        permitted penv pdb hash tid (pa_userId actor) ''payments:void'' (Some b) (Some (pa_tokenSecV actor)))) \<and>
    (\<forall>tid actor pid db p db'. refundPayment env tid actor pid db = (Inr p, db') \<longrightarrow>
      (\<exists>b. payment_branch db tid pid b \<and>
        permitted penv pdb hash tid (pa_userId actor) ''payments:refund'' (Some b) (Some (pa_tokenSecV actor)))) \<and>
    (\<forall>tid actor input db d db'. applyDiscount env tid actor input db = (Inr d, db') \<longrightarrow>
      (\<exists>b. order_branch db tid (ad_orderId input) b \<and>
        permitted penv pdb hash tid (pa_userId actor) ''order:discount:apply'' (Some b) (Some (pa_tokenSecV actor)))) \<and>
    (\<forall>tid opn db s db'. openShift env tid opn db = (Inr s, db') \<longrightarrow>
        permitted penv pdb hash tid (os_openedByUserId opn) ''shift:open'' (Some (sh_branchId s)) None) \<and>
    (\<forall>tid cls db s db'. closeShift env tid cls db = (Inr s, db') \<longrightarrow>
      (\<exists>shift. loadShift tid (ci_shiftId cls) db = Some shift \<and>
        permitted penv pdb hash tid (ci_closedByUserId cls) ''shift:close'' (Some (sh_branchId shift)) None)) \<and>
    (\<forall>tid u new db m db'. create_method env tid u new db = (Inr m, db') \<longrightarrow>
        permitted penv pdb hash tid u ''payments:methods_admin'' (pm_branchId m) None) \<and>
    (\<forall>tid u i upd db m db'. update_method env tid u i upd db = (Inr m, db') \<longrightarrow>
      (\<exists>existing. loadPaymentMethod tid i db = Some existing \<and> pm_branchId m = pm_branchId existing \<and>
        permitted penv pdb hash tid u ''payments:methods_admin'' (pm_branchId existing) None))"
  by (intro conjI allI impI)
    (blast intro: record_permitted [OF assms] lifecycle_permitted [OF assms] discount_permitted [OF assms] shifts_permitted [OF assms] methods_permitted [OF assms])+

text \<open>The example restaurant behind the example permission store, whose cashiers may collect payments.\<close>

definition example_cashiers :: permission_db where
  "example_cashiers = example_pdb\<lparr>
     pd_permissions := [\<lparr>pe_key = ''payments:collect'', pe_category = ''payments'', pe_isSensitive = True\<rparr>],
     pd_rolePermissions := [\<lparr>mp_id = ''g1'', mp_tenantId = ''t1'', mp_roleId = ''r1'', mp_permissionKey = ''payments:collect'',
       mp_maxAmountMinorUnits = None\<rparr>]\<rparr>"

definition example_authorize :: "auth_check \<Rightarrow> unit result" where
  "example_authorize ck = mapResult (fst (check (pgReader example_penv example_cashiers) id 0 0 (check_input ck) None)) (\<lambda>_. ())"

definition example_secured_env :: pos_env where
  "example_secured_env = example_env\<lparr>env_authorize := example_authorize\<rparr>"

lemma example_cashier_authorized: "example_authorize (branch_check ''t1'' ''c1'' ''payments:collect'' None ''b1'') = Inr ()"
proof -
  let ?ck = "check_input (branch_check ''t1'' ''c1'' ''payments:collect'' None ''b1'')"
  have guard: "tenantGuard (pgReader example_penv example_cashiers) id ?ck = Inr ()"
    by (simp add: tenantGuard_def check_input_def branch_check_def pgReader_def example_cashiers_def pg_run pg_isUserActive_def)
  have grants: "rd_getApplicableGrants (pgReader example_penv example_cashiers) ''t1'' ''c1'' ''payments:collect'' (Some ''b1'') =
      Inr [\<lparr>gr_roleId = ''r1'', gr_roleVersion = 4,
      gr_scopeType = branch_scope, gr_scopeId = Some ''b1'', gr_maxAmountMinorUnits = None, gr_isSensitive = True\<rparr>]"
    by (simp add: pgReader_def example_cashiers_def pg_run pg_getApplicableGrants_def grant_rows_def active_assignments_def sql_covers_def grant_of_row_def)
  have "fst (check (pgReader example_penv example_cashiers) id 0 0 ?ck None) = Inr None"
    unfolding check_def guard
    by (simp add: check_input_def branch_check_def permissionCheck_def relevantBranch_def hasResource_def grants computeOutcome_def
        outcome_step_def abacStage_def ok_def)
  then show ?thesis by (simp add: example_authorize_def ok_def)
qed

theorem money_needs_authority_witness:
  "permitted example_penv example_cashiers id ''t1'' ''c1'' ''payments:collect'' (Some ''b1'') None"
proof -
  have auth: "authorized_by example_penv example_cashiers id example_secured_env"
    by (auto simp: authorized_by_def example_secured_env_def example_authorize_def)
  have "\<exists>db'. recordPayment example_secured_env ''t1'' example_payment example_db = (Inr example_recorded, db')"
    by (simp add: example_secured_env_def example_run example_cashier_authorized [unfolded branch_check_def] cong: db_run_cong)
  then obtain db' where "recordPayment example_secured_env ''t1'' example_payment example_db = (Inr example_recorded, db')" ..
  with money_needs_authority [OF auth, THEN conjunct1] have "\<exists>b. order_branch example_db ''t1'' (rp_orderId example_payment) b \<and>
      permitted example_penv example_cashiers id ''t1'' (rp_cashierUserId example_payment) ''payments:collect'' (Some b) (rp_tokenSecV example_payment)"
    by simp
  moreover have "b = ''b1''" if "order_branch example_db ''t1'' ''o1'' b" for b
    using that by (simp add: order_branch_def order_header_def find_row_def example_db_def example_order_def)
  ultimately show ?thesis by (auto simp: example_payment_def)
qed

end
