(* ===== verification/Station_Routing.thy ===== *)
theory Station_Routing
  imports Orders_Store Example_Restaurant
begin

text \<open>
  Routing an item to a preparation station (\<^verbatim>\<open>src/application/engines/orders/station-routing-engine.ts\<close>): the rule
  \<open>resolveStationRoute\<close> chooses, against the documented order on rules.
\<close>

section \<open>The order on rules\<close>

text \<open>The rank a score has in the order of the texts.\<close>

definition text_rank :: "int \<Rightarrow> int" where
  "text_rank s = (if s = 20 then 200 else if s = 30 then 300 else s)"

definition scores :: "int list" where
  "scores = [0, 10, 20, 30, 100, 110, 120, 130]"

lemma text_rank_table:
  "list_all (\<lambda>s. list_all (\<lambda>t. (int_to_text s < int_to_text t) = (text_rank s < text_rank t)) scores) scores"
  by code_simp

lemma specificity_scores:
  "specificity r \<in> set scores" "ru_menuItemId r = None \<Longrightarrow> specificity r \<in> {0, 10, 20, 30}"
  "ru_menuItemId r \<noteq> None \<Longrightarrow> specificity r \<in> {100, 110, 120, 130}"
  "ru_menuItemId r = None \<Longrightarrow> ru_salesChannelCode r \<noteq> None \<Longrightarrow> specificity r \<in> {20, 30}"
  by (auto simp: specificity_def scores_def)

lemma score_text_less: "int_to_text (specificity a) < int_to_text (specificity b) \<longleftrightarrow> text_rank (specificity a) < text_rank (specificity b)"
  using text_rank_table specificity_scores(1) [of a] specificity_scores(1) [of b] by (simp add: list_all_iff)

lemma compareRules_rank:
  "compareRules a b =
     (if text_rank (specificity a) > text_rank (specificity b) then -1 else if text_rank (specificity a) < text_rank (specificity b) then 1
      else if ru_priorityWeight a > ru_priorityWeight b then -1 else if ru_priorityWeight a < ru_priorityWeight b then 1
      else if ru_id a < ru_id b then -1 else if ru_id a > ru_id b then 1 else 0)"
  by (simp add: compareRules_def score_text_less Let_def)

lemma compareRules_sorted: "sorted_wrt (\<lambda>a b. compareRules a b \<le> 0) (js_sort compareRules rs)"
  by (rule js_sort_sorted) (auto simp: compareRules_rank split: if_splits)

lemma compareRules_antisym: "compareRules a b \<le> 0 \<Longrightarrow> compareRules b a \<le> 0 \<Longrightarrow> ru_id a = ru_id b"
  by (auto simp: compareRules_rank split: if_splits)

definition decision_of :: "routing_rule_row \<Rightarrow> station_routing_decision" where
  "decision_of r = \<lparr>rd_ruleId = ru_id r, rd_stationId = ru_stationId r, rd_specificityScore = specificity r,
     rd_priorityWeight = ru_priorityWeight r\<rparr>"

text \<open>The documented order, on scores as numbers.\<close>

definition documented_before :: "routing_rule_row \<Rightarrow> routing_rule_row \<Rightarrow> bool" where
  "documented_before a b \<longleftrightarrow> specificity b < specificity a \<or> specificity b = specificity a \<and>
     (ru_priorityWeight b < ru_priorityWeight a \<or> ru_priorityWeight b = ru_priorityWeight a \<and> ru_id a \<le> ru_id b)"

lemma compareRules_documented:
  assumes "ru_menuItemId a = None \<longleftrightarrow> ru_menuItemId b = None"
  shows "compareRules a b \<le> 0 \<longleftrightarrow> documented_before a b"
proof -
  have "text_rank (specificity a) < text_rank (specificity b) \<longleftrightarrow> specificity a < specificity b"
    "text_rank (specificity b) < text_rank (specificity a) \<longleftrightarrow> specificity b < specificity a"
    using assms specificity_scores(2,3) [of a] specificity_scores(2,3) [of b] by (cases "ru_menuItemId a = None"; auto simp: text_rank_def)+
  then show ?thesis by (auto simp: compareRules_rank documented_before_def)
qed

lemma resolve_cases:
  obtains (none) "resolveStationRoute tid b ctx db = None" "\<And>r. r \<in> set (mn_routingRules (db_menu db)) \<Longrightarrow> \<not> rule_matches tid b ctx db r"
  | (some) r where "resolveStationRoute tid b ctx db = Some (decision_of r)" "r \<in> set (mn_routingRules (db_menu db))"
      "rule_matches tid b ctx db r"
      "\<And>r'. r' \<in> set (mn_routingRules (db_menu db)) \<Longrightarrow> rule_matches tid b ctx db r' \<Longrightarrow> compareRules r r' \<le> 0"
proof (cases "js_sort compareRules (filter (rule_matches tid b ctx db) (mn_routingRules (db_menu db)))")
  case Nil
  then have "set (filter (rule_matches tid b ctx db) (mn_routingRules (db_menu db))) = {}" by (metis set_js_sort set_empty2)
  then show ?thesis using none Nil by (auto simp: resolveStationRoute_def)
next
  case (Cons r rest)
  let ?rs = "filter (rule_matches tid b ctx db) (mn_routingRules (db_menu db))"
  have all: "set ?rs = insert r (set rest)" using Cons by (metis list.simps(15) set_js_sort)
  have "compareRules r r \<le> 0" by (simp add: compareRules_rank)
  then have first: "compareRules r r' \<le> 0" if "r' \<in> set ?rs" for r'
    using compareRules_sorted [of ?rs] Cons that unfolding all by auto
  have "r \<in> set ?rs" using all by blast
  moreover have "resolveStationRoute tid b ctx db = Some (decision_of r)" by (simp add: resolveStationRoute_def Cons decision_of_def)
  ultimately show ?thesis using some [of r] first by auto
qed

text \<open>
  C28. Routing an item: it is refused exactly when no enabled rule of the branch with an active station matches the item,
  the channel and the type of the order. Otherwise the chosen rule matches; among the matching rules that, like
  it, name the item, or that, like it, do not, it is first in the documented order (more specific, then
  heavier, then the smaller id); and the choice does not depend on the order in which the rules are stored.
\<close>

theorem resolveStationRoute_correct:
  "(resolveStationRoute tid b ctx db = None \<longleftrightarrow> filter (rule_matches tid b ctx db) (mn_routingRules (db_menu db)) = []) \<and>
   (\<forall>d. resolveStationRoute tid b ctx db = Some d \<longrightarrow>
      (\<exists>r\<in>set (mn_routingRules (db_menu db)). rule_matches tid b ctx db r \<and> d = decision_of r \<and>
         (\<forall>r'\<in>set (mn_routingRules (db_menu db)). rule_matches tid b ctx db r' \<and> (ru_menuItemId r = None \<longleftrightarrow> ru_menuItemId r' = None) \<longrightarrow>
            documented_before r r'))) \<and>
   (\<forall>rules. distinct (map ru_id rules) \<and> mset rules = mset (mn_routingRules (db_menu db)) \<longrightarrow>
      resolveStationRoute tid b ctx (db\<lparr>db_menu := (db_menu db)\<lparr>mn_routingRules := rules\<rparr>\<rparr>) = resolveStationRoute tid b ctx db)"
proof (intro conjI allI impI)
  show "resolveStationRoute tid b ctx db = None \<longleftrightarrow> filter (rule_matches tid b ctx db) (mn_routingRules (db_menu db)) = []"
    by (cases rule: resolve_cases [of tid b ctx db]) (auto simp: filter_empty_conv)
next
  fix d assume "resolveStationRoute tid b ctx db = Some d"
  then show "\<exists>r\<in>set (mn_routingRules (db_menu db)). rule_matches tid b ctx db r \<and> d = decision_of r \<and>
         (\<forall>r'\<in>set (mn_routingRules (db_menu db)). rule_matches tid b ctx db r' \<and> (ru_menuItemId r = None \<longleftrightarrow> ru_menuItemId r' = None) \<longrightarrow>
            documented_before r r')"
    using compareRules_documented by (cases rule: resolve_cases [of tid b ctx db]) (force, fastforce)
next
  fix rules assume rules: "distinct (map ru_id rules) \<and> mset rules = mset (mn_routingRules (db_menu db))"
  let ?db = "db\<lparr>db_menu := (db_menu db)\<lparr>mn_routingRules := rules\<rparr>\<rparr>"
  have same: "set rules = set (mn_routingRules (db_menu db))" using rules by (metis set_mset_mset)
  have match: "rule_matches tid b ctx ?db = rule_matches tid b ctx db" by (simp add: rule_matches_def fun_eq_iff)
  have unique: "r = r'" if "r \<in> set rules" "r' \<in> set rules" "ru_id r = ru_id r'" for r r'
    using rules that by (metis distinct_map inj_onD)
  show "resolveStationRoute tid b ctx ?db = resolveStationRoute tid b ctx db"
  proof (cases rule: resolve_cases [of tid b ctx ?db])
    case none
    then show ?thesis using match same by (cases rule: resolve_cases [of tid b ctx db]) auto
  next
    case (some r)
    show ?thesis
    proof (cases rule: resolve_cases [of tid b ctx db])
      case none
      then show ?thesis using some match same by auto
    next
      case (some r')
      have "r \<in> set rules" "r' \<in> set rules" "compareRules r r' \<le> 0" "compareRules r' r \<le> 0"
        using some \<open>r \<in> set (mn_routingRules (db_menu ?db))\<close> \<open>rule_matches tid b ctx ?db r\<close> match same
          \<open>\<And>r'. r' \<in> set (mn_routingRules (db_menu ?db)) \<Longrightarrow> rule_matches tid b ctx ?db r' \<Longrightarrow> compareRules r r' \<le> 0\<close> by auto
      then have "r = r'" using compareRules_antisym unique by blast
      then show ?thesis using some(1) \<open>resolveStationRoute tid b ctx ?db = Some (decision_of r)\<close> by simp
    qed
  qed
qed

text \<open>
  C37. Against the documented order, in which a rule that names the item outranks any other: as soon as one rule
  that names the sales channel but no item matches, no rule that names the item is ever chosen, since the scores are compared as
  texts and \<^verbatim>\<open>'20'\<close> comes after \<^verbatim>\<open>'130'\<close>.
\<close>

theorem channel_rule_outranks_item_rule:
  assumes "r \<in> set (mn_routingRules (db_menu db))" "rule_matches tid b ctx db r" "ru_menuItemId r = None" "ru_salesChannelCode r \<noteq> None"
    and "r' \<in> set (mn_routingRules (db_menu db))" "rule_matches tid b ctx db r'" "ru_menuItemId r' = Some i"
  shows "\<exists>w. resolveStationRoute tid b ctx db = Some (decision_of w) \<and> ru_menuItemId w = None \<and>
    specificity w < specificity r'"
proof (cases rule: resolve_cases [of tid b ctx db])
  case none
  then show ?thesis using assms by blast
next
  case (some w)
  then have "compareRules w r \<le> 0" using assms by blast
  then have "text_rank (specificity r) \<le> text_rank (specificity w)" by (auto simp: compareRules_rank split: if_splits)
  moreover have "specificity r \<in> {20, 30}" "specificity r' \<in> {100, 110, 120, 130}" using assms specificity_scores by auto
  ultimately show ?thesis using some(1) specificity_scores(1) [of w] specificity_scores(2,3) [of w]
    by (cases "ru_menuItemId w") (auto simp: text_rank_def scores_def intro!: exI [of _ w])
qed

definition example_rule :: "string \<Rightarrow> string \<Rightarrow> string option \<Rightarrow> string option \<Rightarrow> routing_rule_row" where
  "example_rule i station item channel = \<lparr>ru_id = i, ru_tenantId = ''t1'', ru_branchId = ''b1'', ru_stationId = station,
     ru_menuItemId = item, ru_salesChannelCode = channel, ru_orderType = None, ru_priorityWeight = 0, ru_isEnabled = True\<rparr>"

definition example_routing_db :: pos_db where
  "example_routing_db = example_db\<lparr>db_menu := (db_menu example_db)\<lparr>
     mn_routingRules := [example_rule ''r2'' ''grill'' (Some ''food'') None, example_rule ''r3'' ''bar'' None (Some ''dine_in'')],
     mn_stations := [\<lparr>st_id = ''grill'', st_isActive = True\<rparr>, \<lparr>st_id = ''bar'', st_isActive = True\<rparr>]\<rparr>\<rparr>"

definition example_context :: station_routing_context where
  "example_context = \<lparr>rx_menuItemId = ''food'', rx_salesChannelCode = ''dine_in'', rx_orderType = dine_in\<rparr>"

theorem resolveStationRoute_correct_witness:
  "resolveStationRoute ''t1'' ''b1'' example_context example_db = Some (decision_of (example_rule ''r1'' ''st1'' None None)) \<and>
   documented_before (example_rule ''r1'' ''st1'' None None) (example_rule ''r1'' ''st1'' None None)"
proof -
  have run: "resolveStationRoute ''t1'' ''b1'' example_context example_db = Some (decision_of (example_rule ''r1'' ''st1'' None None))"
    by (simp add: resolveStationRoute_def example_db_def rule_matches_def decision_of_def example_rule_def example_context_def)
  then show ?thesis
    using resolveStationRoute_correct [of "''t1''" "''b1''" example_context example_db]
    by (auto simp: example_db_def rule_matches_def example_rule_def example_context_def documented_before_def)
qed

theorem channel_rule_outranks_item_rule_witness:
  "\<exists>w. resolveStationRoute ''t1'' ''b1'' example_context example_routing_db = Some (decision_of w) \<and> ru_menuItemId w = None \<and> specificity w < 100"
proof -
  have "specificity (example_rule ''r2'' ''grill'' (Some ''food'') None) = 100" by (simp add: specificity_def example_rule_def)
  then show ?thesis
    using channel_rule_outranks_item_rule [of "example_rule ''r3'' ''bar'' None (Some ''dine_in'')" example_routing_db "''t1''" "''b1''" example_context
      "example_rule ''r2'' ''grill'' (Some ''food'') None" "''food''"]
    by (auto simp: example_routing_db_def rule_matches_def example_context_def example_rule_def)
qed

end
