(* ===== verification/Stock_Once.thy ===== *)
theory Stock_Once
  imports Pos_System
begin

text \<open>
  Returns to stock across the engines: a refund and a void may both return what was deducted for a line. Whatever the
  sequence of operations, each component of each line is returned at most once.
\<close>

section \<open>Deductions\<close>

lemma deduction_keys:
  assumes "loadSaleDeductionsForOrderItems tid ids db = Inr ds"
  shows "distinct (map deduction_key ds)" "d \<in> set ds \<Longrightarrow> sd_orderItemId d \<in> set ids"
proof -
  have "map deduction_key ds = (if ids = [] then [] else group_keys (deduction_rows tid ids db))"
  proof (cases "ids = []")
    case True
    then show ?thesis using assms by (simp add: loadSaleDeductionsForOrderItems_def)
  next
    case False
    with assms have "mapR (\<lambda>k. andThen (numeric4_sum (map sm_quantityDelta (filter (\<lambda>m. movement_key m = k) (deduction_rows tid ids db)))) (\<lambda>total.
                mapResult (minorToDecimalText total 4) (\<lambda>t. \<lparr>sd_orderItemId = fst k, sd_inventoryItemId = snd k, sd_totalDeducted = t\<rparr>)))
          (group_keys (deduction_rows tid ids db)) = Inr ds" by (simp add: loadSaleDeductionsForOrderItems_def Let_def)
    then have "list_all2 (\<lambda>k d. deduction_key d = k) (group_keys (deduction_rows tid ids db)) ds"
      unfolding mapR_all2 by (rule list_all2_mono) (auto simp: result_simps deduction_key_def)
    then show ?thesis using False by (auto simp: list_all2_conv_all_nth intro!: nth_equalityI)
  qed
  note keys = this
  show "distinct (map deduction_key ds)" unfolding keys by (simp add: group_keys_def)
  assume "d \<in> set ds"
  then have "deduction_key d \<in> set (map deduction_key ds)" by simp
  then show "sd_orderItemId d \<in> set ids"
    unfolding keys by (auto simp: group_keys_def deduction_rows_def movement_key_def deduction_key_def split: if_splits option.splits)
qed

section \<open>The invariant\<close>

definition restorations :: "string \<Rightarrow> pos_db \<Rightarrow> stock_movement_record list" where
  "restorations tid db = filter (\<lambda>m. sm_tenantId m = tid \<and> sm_movementType m = void_restoration) (db_stock db)"

definition line_key :: "order_item_row \<Rightarrow> string \<times> string \<times> string" where
  "line_key i = (it_tenantId i, it_id i, it_orderId i)"

text \<open>Every return is for a line of the tenant's order it names, and no component of a line is returned twice.\<close>

definition returned_once :: "pos_db \<Rightarrow> bool" where
  "returned_once db \<longleftrightarrow> distinct (map (\<lambda>i. (it_tenantId i, it_id i)) (db_items db)) \<and>
     (\<forall>tid. distinct (map movement_key (restorations tid db)) \<and>
        (\<forall>m\<in>set (restorations tid db). \<exists>i oid. (tid, i, oid) \<in> line_key ` set (db_items db) \<and> sm_orderItemId m = Some i \<and> sm_orderId m = Some oid))"

definition stock_lines :: "pos_db \<Rightarrow> pos_db \<Rightarrow> bool" where
  "stock_lines db db' \<longleftrightarrow> db_stock db' = db_stock db \<and> map line_key (db_items db') = map line_key (db_items db)"

lemma lines_of_keys:
  assumes "map line_key (db_items db') = map line_key (db_items db)"
  shows "line_key ` set (db_items db') = line_key ` set (db_items db)"
    "map (\<lambda>i. (it_tenantId i, it_id i)) (db_items db') = map (\<lambda>i. (it_tenantId i, it_id i)) (db_items db)"
  using arg_cong [OF assms, of set] arg_cong [OF assms, of "map (\<lambda>(t, i, oid). (t, i))"] by (simp_all add: line_key_def comp_def)

lemma returned_once_frame: "stock_lines db db' \<Longrightarrow> returned_once db \<Longrightarrow> returned_once db'"
  using lines_of_keys [of db' db] by (simp add: stock_lines_def returned_once_def restorations_def)

text \<open>A settlement that skips what was returned before keeps the invariant.\<close>

lemma settlement_once:
  assumes once: "returned_once db" and lines: "map line_key (db_items db') = map line_key (db_items db)"
    and st: "db_stock db' = db_stock db @ new" and w: "waste \<noteq> void_restoration"
    and ds: "loadSaleDeductionsForOrderItems tid ids db = Inr ds"
    and new: "list_all2 (settles_deduction waste tid oid fired) (filter (\<lambda>d. deduction_key d \<notin> set recorded) ds) new"
    and ids: "\<And>i. i \<in> set ids \<Longrightarrow> (tid, i, oid) \<in> line_key ` set (db_items db)"
    and rec: "\<And>m. m \<in> set (restorations tid db) \<Longrightarrow> fst (movement_key m) \<in> set ids \<Longrightarrow> movement_key m \<in> set recorded"
  shows "returned_once db'"
proof -
  let ?ds = "filter (\<lambda>d. deduction_key d \<notin> set recorded) ds"
  have keys: "map movement_key new = map deduction_key ?ds"
    using new settles_deduction_key by (auto simp: list_all2_conv_all_nth intro!: nth_equalityI)
  have each: "sm_tenantId m = tid \<and> sm_orderId m = Some oid \<and> (\<exists>i\<in>set ids. sm_orderItemId m = Some i) \<and> movement_key m \<notin> set recorded \<and>
      fst (movement_key m) \<in> set ids" if "m \<in> set new" for m
  proof -
    from that obtain d where d: "d \<in> set ?ds" "settles_deduction waste tid oid fired d m"
      using new by (metis list_all2_conv_all_nth in_set_conv_nth)
    with deduction_keys(2) [OF ds] settles_deduction_key [OF d(2)] show ?thesis
      by (auto simp: settles_deduction_def deduction_key_def)
  qed
  have "distinct (map movement_key new)" unfolding keys using deduction_keys(1) [OF ds] by (simp add: distinct_map_filter)
  then have dnew: "distinct (map movement_key (filter P new))" for P by (rule distinct_map_filter)
  have app: "restorations t db' = restorations t db @ filter (\<lambda>m. sm_tenantId m = t \<and> sm_movementType m = void_restoration) new" for t
    by (simp add: restorations_def st)
  have "distinct (map movement_key (restorations t db'))" for t
  proof (cases "t = tid")
    case True
    have "movement_key m \<noteq> movement_key n" if "m \<in> set (restorations tid db)" "n \<in> set new" for m n
      using rec [OF that(1)] each [OF that(2)] by metis
    then have "movement_key ` set (restorations tid db) \<inter> movement_key ` {m \<in> set new. P m} = {}" for P
      unfolding disjoint_iff by (metis (no_types, lifting) imageE mem_Collect_eq)
    with once dnew show ?thesis by (simp add: app True returned_once_def)
  next
    case False
    then have "filter (\<lambda>m. sm_tenantId m = t \<and> sm_movementType m = void_restoration) new = []" using each by (auto simp: filter_empty_conv)
    then show ?thesis using once by (simp add: app returned_once_def)
  qed
  moreover have "\<exists>i oid. (t, i, oid) \<in> line_key ` set (db_items db) \<and> sm_orderItemId m = Some i \<and> sm_orderId m = Some oid"
    if "m \<in> set (restorations t db')" for t m
  proof (cases "m \<in> set (restorations t db)")
    case True
    then show ?thesis using once by (simp add: returned_once_def)
  next
    case False
    with that have "m \<in> set new" "sm_tenantId m = t" by (auto simp: app)
    with each [of m] ids show ?thesis by blast
  qed
  ultimately show ?thesis using once lines_of_keys [OF lines] by (simp add: returned_once_def)
qed

section \<open>The operations\<close>

lemma stock_lines_writes:
  "tx_ensures stock_lines (bumpOrderRevision env tid oid)" "tx_ensures stock_lines (bumpShiftRevision env tid sid)"
  "tx_ensures stock_lines (insertPayment env tid ip)" "tx_ensures stock_lines (postPaymentJournalEntry env tid pj)"
  "tx_ensures stock_lines (postOrderCogs env tid oid)" "tx_ensures stock_lines (postPaymentJournalReversalEntry env tid pid u at)"
  "tx_ensures stock_lines (update_payment env tid pid f msg)" "tx_ensures stock_lines (setOrderPaymentStatus env tid oid st)"
  "tx_ensures stock_lines (appendAuditEvidence env row)"
  "tx_ensures stock_lines (insertOrderDiscount env tid dis)" "tx_ensures stock_lines (incrementCouponUses env tid cid)"
  "tx_ensures stock_lines (insertShift env tid si)" "tx_ensures stock_lines (closeShiftRow env tid sid close)"
  "tx_ensures stock_lines (insertCashCountDetail env tid sid ct line)"
  by (auto simp: tx_ensures_def tx_simps stock_lines_def Let_def insert_entry_cases bumpShiftRevision_def bumpOrderRevision_def insertPayment_def
      postPaymentJournalEntry_def postOrderCogs_def postPaymentJournalReversalEntry_def update_payment_def appendAuditEvidence_def
      setOrderPaymentStatus_def incrementCouponUses_def insertShift_def closeShiftRow_def insertCashCountDetail_def
      dest!: insertOrderDiscount_Inr(1) split: option.splits if_splits js_number.splits)

lemma override_stock: "override_frame s t \<Longrightarrow> stock_lines s t"
  by (auto simp: stock_lines_def override_frame_def)

interpretation stock_collect: collection_relation stock_lines
  by unfold_locales (auto intro: stock_lines_writes override_stock simp: stock_lines_def)

interpretation stock_discount: discount_relation stock_lines
  by unfold_locales (simp_all add: stock_lines_writes override_stock)

interpretation stock_shift: shift_relation stock_lines
proof
  show "tx_ensures stock_lines (insertCashCountDetails env tid sid ct counts)" for env tid sid ct counts
    unfolding insertCashCountDetails_def by (intro stock_collect.for_each stock_lines_writes)
qed (auto intro: stock_lines_writes simp: stock_lines_def)

interpretation stock_kitchen: kitchen_relation stock_lines
proof
  show "tx_ensures stock_lines (appendEvent env tid b ty pl)" for env tid b ty pl
    by (auto simp: tx_ensures_def stock_lines_def dest!: appendEvent_Inr(1))
  show "stock_lines db (db\<lparr>db_items := update_where (\<lambda>i. it_id i = iid \<and> it_tenantId i = tid) (\<lambda>i. i\<lparr>it_currentStatusKindId := k\<rparr>) (db_items db)\<rparr>)" for db iid tid k
    by (simp add: stock_lines_def update_where_keys line_key_def)
qed (simp_all add: stock_lines_writes stock_lines_def)

lemmas stock_ops = stock_collect.record_op stock_collect.void_op stock_discount.discount_op stock_shift.open_op stock_shift.close_op
  stock_kitchen.transition_op stock_kitchen.admin_ops

lemma refund_once:
  assumes "refundPayment env tid actor pid db = (r, db')" "returned_once db"
  shows "returned_once db'"
proof (cases r)
  case (Inl e)
  with assms op_atomicD [OF refundPayment_atomic] show ?thesis by metis
next
  case (Inr x)
  from refundPayment_stock [OF assms(1) [unfolded Inr]] obtain new where st: "db_stock db' = db_stock db @ new" "db_items db' = db_items db"
    and mv: "refund_movements tid (pay_orderId x) db new" by blast
  let ?ids = "loadNonVoidedOrderItemIds tid (pay_orderId x) db"
  from mv obtain ds where ds: "loadSaleDeductionsForOrderItems tid ?ids db = Inr ds" and
    new: "list_all2 (settles_deduction waste_refund tid (pay_orderId x) (loadItemsWithKitchenTicketFired tid ?ids db))
          (filter (\<lambda>d. deduction_key d \<notin> set (loadWasteRefundKeys tid (pay_orderId x) db)) ds) new"
    unfolding refund_movements_def by blast
  have ids: "(tid, i, pay_orderId x) \<in> line_key ` set (db_items db)" if "i \<in> set ?ids" for i
    using that by (auto simp: loadNonVoidedOrderItemIds_def active_items_def line_key_def)
  have "movement_key m \<in> set (loadWasteRefundKeys tid (pay_orderId x) db)"
    if m: "m \<in> set (restorations tid db)" "fst (movement_key m) \<in> set ?ids" for m
  proof -
    from m(1) assms(2) obtain i oid where i: "(tid, i, oid) \<in> line_key ` set (db_items db)" "sm_orderItemId m = Some i" "sm_orderId m = Some oid"
      unfolding returned_once_def by blast
    with ids [OF m(2)] have "(tid, i, pay_orderId x) \<in> line_key ` set (db_items db)" by (simp add: movement_key_def)
    then have "oid = pay_orderId x"
      using i(1) assms(2) unfolding returned_once_def line_key_def by (auto simp: distinct_map dest: inj_onD)
    with i m(1) show ?thesis by (auto simp: loadWasteRefundKeys_def restorations_def)
  qed
  with ids st show ?thesis by (intro settlement_once [OF assms(2) _ st(1) _ ds new]) simp_all
qed

lemma void_effect_once:
  assumes eff: "void_effect env tid u target v db db'" and once: "returned_once db"
    and lines: "\<And>i. i \<in> set (void_ids tid target db) \<Longrightarrow> (tid, i, o_id (vt_order target)) \<in> line_key ` set (db_items db)"
  shows "returned_once db'"
proof -
  let ?ids = "void_ids tid target db"
  from eff obtain os qs es es' new where db': "db' = db\<lparr>db_orders := os, db_items := void_items tid ?ids (env_now env) (db_items db), db_voids := db_voids db @ [v],
          db_sequences := qs, db_outbox := db_outbox db @ es @ es', db_stock := db_stock db @ new,
          db_restorationCalls := db_restorationCalls db @ map sm_id new\<rparr>" and mv: "void_movements tid (o_id (vt_order target)) ?ids db new"
    unfolding void_effect_def Let_def by blast
  from mv obtain ds where ds: "loadSaleDeductionsForOrderItems tid ?ids db = Inr ds" and
    new: "list_all2 (settles_deduction waste_void tid (o_id (vt_order target)) (loadItemsWithKitchenTicketFired tid ?ids db))
          (filter (\<lambda>d. deduction_key d \<notin> set (loadVoidRestorationKeys tid ?ids db)) ds) new"
    unfolding void_movements_def by blast
  have "map line_key (db_items db') = map line_key (db_items db)"
    by (simp add: db' void_items_def update_where_keys line_key_def)
  moreover have "movement_key m \<in> set (loadVoidRestorationKeys tid ?ids db)"
    if m: "m \<in> set (restorations tid db)" "fst (movement_key m) \<in> set ?ids" for m
  proof -
    from m(1) once obtain i where i: "sm_orderItemId m = Some i" unfolding returned_once_def by blast
    with m(2) have "i \<in> set ?ids" "?ids \<noteq> []" by (auto simp: movement_key_def)
    with m(1) i show ?thesis by (auto simp: loadVoidRestorationKeys_def restorations_def)
  qed
  moreover have "db_stock db' = db_stock db @ new" by (simp add: db')
  ultimately show ?thesis using lines by (intro settlement_once [OF once _ _ _ ds new]) simp_all
qed

lemma void_once:
  "voidOrderItem env tid actor input db = (r, db') \<Longrightarrow> returned_once db \<Longrightarrow> returned_once db'"
  "voidOrder env tid actor whole db = (r, db') \<Longrightarrow> returned_once db \<Longrightarrow> returned_once db'"
proof -
  have frame: "returned_once db1 \<and> db_items db1 = db_items db" if "returned_once db" "override_frame db db1" for db1
    using returned_once_frame [OF override_stock [OF that(2)] that(1)] that(2) by (auto simp: override_frame_def)
  assume once: "returned_once db"
  {
    assume run: "voidOrderItem env tid actor input db = (r, db')"
    show "returned_once db'"
    proof (cases r)
      case (Inl e)
      then show ?thesis using run once frame op_fails_withinD [OF voids_failed(1)] by metis
    next
      case (Inr v)
      from voids_Inr(1) [OF run [unfolded Inr]] obtain target db1 where t: "line_target tid (vi_orderItemId input) db target"
        and fr: "override_frame db db1" and eff: "void_effect env tid (va_userId actor) target v db1 db'" by blast
      from frame [OF once fr] have db1: "returned_once db1" "db_items db1 = db_items db" by simp_all
      from t obtain item ord where item: "loadOrderItem tid (vi_orderItemId input) db = Some item" "loadOrder tid (it_orderId item) db = Some ord"
        "vt_order target = ord" "vt_orderItemId target = Some (vi_orderItemId input)" unfolding line_target_def by auto
      have "line_key item = (tid, vi_orderItemId input, o_id ord)" "item \<in> set (db_items db1)"
        using find_row_Some [OF item(1) [unfolded loadOrderItem_def]] find_row_Some [OF item(2) [unfolded loadOrder_def]] by (simp_all add: line_key_def db1(2))
      then have "(tid, i, o_id (vt_order target)) \<in> line_key ` set (db_items db1)" if "i \<in> set (void_ids tid target db1)" for i
        using that item(3,4) by (auto simp: void_ids_def image_iff intro: bexI [of _ item])
      then show ?thesis by (rule void_effect_once [OF eff db1(1)])
    qed
  next
    assume run: "voidOrder env tid actor whole db = (r, db')"
    show "returned_once db'"
    proof (cases r)
      case (Inl e)
      then show ?thesis using run once frame op_fails_withinD [OF voids_failed(2)] by metis
    next
      case (Inr v)
      from voids_Inr(2) [OF run [unfolded Inr]] obtain target db1 where t: "order_target tid (vo_orderId whole) db target"
        and fr: "override_frame db db1" and eff: "void_effect env tid (va_userId actor) target v db1 db'" by blast
      from frame [OF once fr] have db1: "returned_once db1" "db_items db1 = db_items db" by simp_all
      from t have "(tid, i, o_id (vt_order target)) \<in> line_key ` set (db_items db1)" if "i \<in> set (void_ids tid target db1)" for i
        using that by (force simp: order_target_def void_ids_def active_items_def line_key_def db1(2))
      then show ?thesis by (rule void_effect_once [OF eff db1(1)])
    qed
  }
qed

text \<open>A new order adds lines under fresh ids, and deductions but no returns.\<close>

definition keeps_once :: "pos_db \<Rightarrow> pos_db \<Rightarrow> bool" where
  "keeps_once db db' \<longleftrightarrow> (returned_once db \<longrightarrow> returned_once db')"

lemma keeps_once_lines: "stock_lines db db' \<Longrightarrow> keeps_once db db'"
  unfolding keeps_once_def using returned_once_frame by blast

lemma new_line_once:
  assumes "returned_once db" "\<forall>i\<in>set (db_items db). it_id i \<noteq> it_id row"
  shows "returned_once (db\<lparr>db_items := db_items db @ [row]\<rparr>)"
proof -
  have r: "restorations t (db\<lparr>db_items := db_items db @ [row]\<rparr>) = restorations t db" for t by (simp add: restorations_def)
  have "distinct (map (\<lambda>i. (it_tenantId i, it_id i)) (db_items db @ [row]))" using assms by (auto simp: returned_once_def)
  moreover have "\<exists>i oid. (t, i, oid) \<in> line_key ` set (db_items db @ [row]) \<and> sm_orderItemId m = Some i \<and> sm_orderId m = Some oid"
    if "m \<in> set (restorations t db)" for t m using assms(1) that unfolding returned_once_def by fastforce
  ultimately show ?thesis using assms(1) by (simp add: returned_once_def r)
qed

interpretation creating_once: creation_relation keeps_once
proof
  show "keeps_once s s" "keeps_once s t \<Longrightarrow> keeps_once t u \<Longrightarrow> keeps_once s u" for s t u by (simp_all add: keeps_once_def)
  show "tx_ensures keeps_once (appendEvent env tid b ty pl)" for env tid b ty pl
    using stock_kitchen.event_log keeps_once_lines unfolding tx_ensures_def by blast
  show "tx_ensures keeps_once (bumpOrderRevision env tid oid)" for env tid oid
    using stock_lines_writes(1) keeps_once_lines unfolding tx_ensures_def by blast
  show "tx_ensures keeps_once (insertOrderItem env row)" for env row
    by (auto simp: tx_ensures_def keeps_once_def tx_simps insertOrderItem_def new_line_once)
  show "tx_ensures keeps_once (insertStockMovement env tid im)" if "im_movementType im = sale_deduction" for env tid im
    using that by (auto simp: tx_ensures_def keeps_once_def tx_simps insertStockMovement_def Let_def returned_once_def restorations_def)
qed (auto simp: stock_lines_def tx_ensures_def tx_simps insertOrder_def override_frame_def update_where_keys line_key_def
      intro!: keeps_once_lines)

lemma create_once: "createOrder env tid input db = (r, db') \<Longrightarrow> returned_once db \<Longrightarrow> returned_once db'"
  using op_ensuresD [OF creating_once.create_op] unfolding keeps_once_def by blast

lemma pos_step_once: "pos_step db db' \<Longrightarrow> returned_once db \<Longrightarrow> returned_once db'"
proof (induction rule: pos_step.induct)
  case (x_report env tid u sid db x db')
  then show ?case using xReport_reads [of env tid u sid db x db'] by simp
qed (erule (1) refund_once void_once create_once | rule returned_once_frame, erule stock_ops [THEN op_ensuresD], assumption)+

text \<open>
  C11. Returns to stock: start from a database in which no component of a line has been returned twice (one without returns, for example), and run any
  sequence of new orders, payments, refunds, voids of lines and of orders, transitions and the rest. Then still no component of a line of an order was
  returned twice, whether by a refund or by a void, and every return names a line of the tenant and the order the line belongs to.
\<close>

theorem stock_returned_once:
  assumes "reachable pos_step db db'" "returned_once db"
  shows "(\<forall>tid. distinct (map movement_key (restorations tid db'))) \<and>
    (\<forall>m\<in>set (db_stock db'). sm_movementType m = void_restoration \<longrightarrow>
       (\<exists>i\<in>set (db_items db'). it_tenantId i = sm_tenantId m \<and> sm_orderItemId m = Some (it_id i) \<and> sm_orderId m = Some (it_orderId i)))"
proof -
  have once: "returned_once db'" using reachable_invariant [of pos_step returned_once] pos_step_once assms by blast
  have "\<exists>i\<in>set (db_items db'). it_tenantId i = sm_tenantId m \<and> sm_orderItemId m = Some (it_id i) \<and> sm_orderId m = Some (it_orderId i)"
    if "m \<in> set (db_stock db')" "sm_movementType m = void_restoration" for m
  proof -
    have "m \<in> set (restorations (sm_tenantId m) db')" using that by (simp add: restorations_def)
    with once show ?thesis unfolding returned_once_def line_key_def by fastforce
  qed
  with once show ?thesis by (auto simp: returned_once_def)
qed

theorem stock_returned_once_witness: "distinct (map movement_key (restorations ''t1'' example_refunded_db))"
proof -
  have "returned_once example_db" by (simp add: returned_once_def restorations_def example_db_fields example_deduction_def example_item_def)
  with stock_returned_once [OF example_day] show ?thesis by simp
qed

end
