(* ===== verification/Tax_Correct.thy ===== *)
theory Tax_Correct
  imports Tax_Resolution Example_Restaurant
begin

text \<open>
  What tax resolution promises: who owes the tax of a line, which taxes are due on it, and what is recorded for it.
\<close>

section \<open>Who owes the tax\<close>

definition rule_applies :: "string \<Rightarrow> string \<Rightarrow> tax_line_request \<Rightarrow> string \<Rightarrow> pos_db \<Rightarrow> tax_liability_rule \<Rightarrow> bool" where
  "rule_applies tid country req on db rule \<longleftrightarrow>
     rule \<in> set (tt_liabilityRules (db_tax db)) \<and> lr_countryCode rule = country \<and> lr_salesChannelCode rule = tq_salesChannel req \<and>
     getVatRegistrationStatus tid db = Inr (if lr_appliesWhenTenantRegistered rule then registered else unregistered) \<and>
     in_effect (lr_effectiveFrom rule) (lr_effectiveTo rule) on \<and>
     (lr_deliveryPlatformId rule = None \<or> lr_deliveryPlatformId rule = tq_deliveryPlatformId req)"

text \<open>The rule that decides: it applies, and any other that applies is less specific.\<close>

definition liability_rule :: "string \<Rightarrow> string \<Rightarrow> tax_line_request \<Rightarrow> string \<Rightarrow> pos_db \<Rightarrow> tax_liability_rule \<Rightarrow> bool" where
  "liability_rule tid country req on db rule \<longleftrightarrow> rule_applies tid country req on db rule \<and>
     (\<forall>r. rule_applies tid country req on db r \<longrightarrow>
        r = rule \<or> lr_deliveryPlatformId r = None \<and> lr_deliveryPlatformId rule \<noteq> None)"

lemma chooseLiabilityRule_Inr:
  assumes "chooseLiabilityRule rules p country channel on = Inr rule"
  shows "rule \<in> set rules" "lr_deliveryPlatformId rule = p \<or> lr_deliveryPlatformId rule = None"
    "\<forall>r\<in>set rules. lr_deliveryPlatformId r = p \<or> lr_deliveryPlatformId r = None \<longrightarrow>
       r = rule \<or> lr_deliveryPlatformId r = None \<and> lr_deliveryPlatformId rule \<noteq> None"
proof -
  let ?e = "filter (\<lambda>r. lr_deliveryPlatformId r = p) rules" and ?n = "filter (\<lambda>r. lr_deliveryPlatformId r = None) rules"
  have m: "(if ?e \<noteq> [] then ?e else ?n) = [rule]"
    using assms by (auto simp: chooseLiabilityRule_def Let_def split: if_splits list.splits)
  have "rule \<in> set (if ?e \<noteq> [] then ?e else ?n)" unfolding m by simp
  then show "rule \<in> set rules" "lr_deliveryPlatformId rule = p \<or> lr_deliveryPlatformId rule = None" by (auto split: if_splits)
  show "\<forall>r\<in>set rules. lr_deliveryPlatformId r = p \<or> lr_deliveryPlatformId r = None \<longrightarrow>
       r = rule \<or> lr_deliveryPlatformId r = None \<and> lr_deliveryPlatformId rule \<noteq> None"
  proof (cases "?e = []")
    case True
    then have "set ?n = {rule}" using m by simp
    moreover have "lr_deliveryPlatformId r \<noteq> p" if "r \<in> set rules" for r using True that by (auto simp: filter_empty_conv)
    ultimately show ?thesis by auto
  next
    case False
    then have e: "set ?e = {rule}" using m by simp
    show ?thesis
    proof (intro ballI impI)
      fix r assume r: "r \<in> set rules" "lr_deliveryPlatformId r = p \<or> lr_deliveryPlatformId r = None"
      then show "r = rule \<or> lr_deliveryPlatformId r = None \<and> lr_deliveryPlatformId rule \<noteq> None" using e by (cases p) auto
    qed
  qed
qed

lemma chooseLiability_Inr:
  assumes "chooseLiability tid country req on db = Inr rule"
  shows "liability_rule tid country req on db rule"
proof -
  obtain st where st: "getVatRegistrationStatus tid db = Inr st"
    using assms by (cases "getVatRegistrationStatus tid db") (auto simp: chooseLiability_def)
  define rules where "rules = filter (\<lambda>r. lr_countryCode r = country \<and> lr_salesChannelCode r = tq_salesChannel req \<and>
           lr_appliesWhenTenantRegistered r = (st = registered) \<and> in_effect (lr_effectiveFrom r) (lr_effectiveTo r) on \<and>
           (lr_deliveryPlatformId r = None \<or> lr_deliveryPlatformId r = tq_deliveryPlatformId req))
     (findLiabilityRules country (tq_salesChannel req) (tq_deliveryPlatformId req) (st = registered) on db)"
  have run: "chooseLiabilityRule rules (tq_deliveryPlatformId req) country (tq_salesChannel req) on = Inr rule"
    using assms st by (simp add: chooseLiability_def Let_def rules_def)
  have "st = (if b then registered else unregistered) \<longleftrightarrow> b = (st = registered)" for b by (cases st) auto
  then have "r \<in> set rules \<longleftrightarrow> rule_applies tid country req on db r" for r
    using st by (auto simp: rules_def rule_applies_def findLiabilityRules_def)
  with chooseLiabilityRule_Inr [OF run] show ?thesis unfolding liability_rule_def rule_applies_def by blast
qed

section \<open>The taxes of a line\<close>

text \<open>A category that stands for an assigned one at the branch.\<close>

definition category_due :: "string \<Rightarrow> string \<Rightarrow> tax_line_request \<Rightarrow> pos_db \<Rightarrow> string \<Rightarrow> tax_category \<Rightarrow> bool" where
  "category_due tid country req db assigned c \<longleftrightarrow>
     (\<exists>source. getCategory assigned db = Some source \<and> tc_isActive source \<and> tc_taxFamily c = tc_taxFamily source \<and>
        (case getBranchOverride tid (tq_branchId req) assigned db of None \<Rightarrow> c = source | Some i \<Rightarrow> getCategory i db = Some c)) \<and>
     tc_isActive c \<and> tc_countryCode c = country \<and>
     (tc_taxFamily c = excise \<longrightarrow> hasExciseConfirmation tid (tq_menuItemId req) (tc_id c) (tq_branchId req) db)"

text \<open>The one rate in effect on a day: the tenant's own when there is one, else the platform's.\<close>

definition rate_due :: "string \<Rightarrow> string \<Rightarrow> pos_db \<Rightarrow> tax_category \<Rightarrow> tax_rate \<Rightarrow> bool" where
  "rate_due tid on db c rate \<longleftrightarrow>
     (\<exists>r. tenant_rates_on tid (tc_id c) on db = [r] \<and> rate = r\<lparr>tr_source := Some tenant, tr_taxCategoryId := tc_id c\<rparr> \<or>
        tenant_rates_on tid (tc_id c) on db = [] \<and> platform_rates_on (tc_id c) on db = [r] \<and> rate = r\<lparr>tr_source := Some platform\<rparr>) \<and>
     in_effect (tr_effectiveFrom rate) (tr_effectiveTo rate) on \<and> tr_taxCategoryId rate = tc_id c \<and> 0 \<le> tr_rateBps rate \<and>
     (tc_kind c \<in> {no_vat, zero_rated, exempt} \<longrightarrow> tr_rateBps rate = 0)"

lemma resolveCategory_Inr:
  "resolveCategory tid country req db i = Inr c \<Longrightarrow> category_due tid country req db i c"
  unfolding resolveCategory_def category_due_def by (auto split: option.splits if_splits)

lemma assertTaxRateBps_Inr: "assertTaxRateBps b = Inr u \<Longrightarrow> 0 \<le> b"
  by (auto simp: assertTaxRateBps_def split: if_splits)

lemma getApplicableRate_Inr:
  assumes "getApplicableRate tid i on db = Inr (Some rate)"
  shows "\<exists>r. tenant_rates_on tid i on db = [r] \<and> rate = r\<lparr>tr_source := Some tenant, tr_taxCategoryId := i\<rparr> \<or>
    tenant_rates_on tid i on db = [] \<and> platform_rates_on i on db = [r] \<and> rate = r\<lparr>tr_source := Some platform\<rparr>"
  using assms by (auto simp: getApplicableRate_def split: list.splits)

lemma resolveRate_Inr:
  assumes "resolveRate tid on db c = Inr t"
  shows "at_category t = c \<and> rate_due tid on db c (at_rate t)"
proof -
  from assms obtain found where found: "getApplicableRate tid (tc_id c) on db = Inr found"
    by (auto simp: resolveRate_def andThen_Inr_iff)
  with assms obtain rate where rate: "getApplicableRate tid (tc_id c) on db = Inr (Some rate)"
    by (cases found) (auto simp: resolveRate_def)
  show ?thesis using assms rate getApplicableRate_Inr [OF rate] assertTaxRateBps_Inr
    by (auto simp: resolveRate_def rate_due_def andThen_Inr_iff split: if_splits)
qed

text \<open>One tax per category assigned to the item, in the order of priority, each at the rate due.\<close>

definition taxes_due :: "string \<Rightarrow> string \<Rightarrow> string \<Rightarrow> tax_line_request \<Rightarrow> pos_db \<Rightarrow> applicable_tax list \<Rightarrow> bool" where
  "taxes_due tid country on req db taxes \<longleftrightarrow>
     (\<exists>a primary cats. getMenuItemAssignment tid (tq_menuItemId req) db = Some a \<and> ma_isActive a \<and> ma_taxRuleId a = Some primary \<and>
        list_all2 (category_due tid country req db) (primary # ma_additionalTaxCategoryIds a) cats \<and>
        mset (map at_category taxes) = mset cats \<and> distinct (map tc_id cats)) \<and>
     (\<forall>t\<in>set taxes. rate_due tid on db (at_category t) (at_rate t))"

lemma lineTaxes_Inr:
  assumes "lineTaxes tid country on req db = Inr taxes"
  shows "taxes_due tid country on req db taxes"
proof -
  from assms obtain a primary cats ordered where a: "getMenuItemAssignment tid (tq_menuItemId req) db = Some a" "ma_isActive a"
      "ma_taxRuleId a = Some primary"
    and cats: "mapR (resolveCategory tid country req db) (primary # ma_additionalTaxCategoryIds a) = Inr cats"
    and ordered: "sortTaxCategories cats = Inr ordered" and taxes: "mapR (resolveRate tid on db) ordered = Inr taxes"
    by (auto simp: lineTaxes_def andThen_Inr_iff split: option.splits if_splits)
  have due: "list_all2 (category_due tid country req db) (primary # ma_additionalTaxCategoryIds a) cats"
    using cats unfolding mapR_all2 by (rule list_all2_mono) (rule resolveCategory_Inr)
  have sorted: "mset ordered = mset cats" "distinct (map tc_id cats)"
    using ordered by (auto simp: sortTaxCategories_def Let_def split: if_splits)
  have rates: "list_all2 (\<lambda>c t. at_category t = c \<and> rate_due tid on db c (at_rate t)) ordered taxes"
    using taxes unfolding mapR_all2 by (rule list_all2_mono) (rule resolveRate_Inr)
  then have "map at_category taxes = ordered" "\<forall>t\<in>set taxes. rate_due tid on db (at_category t) (at_rate t)"
    by (auto simp: list_all2_conv_all_nth in_set_conv_nth intro!: nth_equalityI)
  with a due sorted show ?thesis unfolding taxes_due_def by auto
qed

section \<open>A prepared line\<close>

definition prepared_for :: "pos_env \<Rightarrow> string \<Rightarrow> tax_line_request \<Rightarrow> pos_db \<Rightarrow> prepared_line \<Rightarrow> bool" where
  "prepared_for env tid req db line \<longleftrightarrow>
     (\<exists>branch country jurisdiction on rule.
        taxBranch tid req db = Inr (branch, country, jurisdiction) \<and> tq_currencyCode req = tb_currencyCode branch \<and>
        taxDateInTimezone (env_localDate env) (Some (tq_at req)) (tb_timezone branch) = Inr on \<and>
        liability_rule tid country req on db rule \<and> pp_context line = taxContext tid req rule (tj_roundingStrategy jurisdiction) \<and>
        (if lr_liableParty rule = marketplace
         then (\<exists>p. tq_deliveryPlatformId req = Some p \<and> pp_computation line = None \<and>
                 pp_external line = Some \<lparr>et_liabilityRuleId = lr_id rule, et_countryCode = country,
                   et_salesChannel = tq_salesChannel req, et_deliveryPlatformId = p\<rparr>)
         else pp_external line = None \<and>
              (\<exists>taxes. taxes_due tid country on req db taxes \<and>
                 pp_computation line = Some \<lparr>pl_orderLineId = tq_orderLineId req, pl_amountMinor = tq_grossOrNetAmountMinor req,
                   pl_currencyCode = tq_currencyCode req, pl_taxes = taxes\<rparr>)))"

lemma prepareUnder_Inr:
  assumes "prepareUnder tid req country strategy on rule db = Inr line"
  shows "pp_context line = taxContext tid req rule strategy \<and>
    (if lr_liableParty rule = marketplace
     then (\<exists>p. tq_deliveryPlatformId req = Some p \<and> pp_computation line = None \<and>
             pp_external line = Some \<lparr>et_liabilityRuleId = lr_id rule, et_countryCode = country,
               et_salesChannel = tq_salesChannel req, et_deliveryPlatformId = p\<rparr>)
     else pp_external line = None \<and>
          (\<exists>taxes. taxes_due tid country on req db taxes \<and>
             pp_computation line = Some \<lparr>pl_orderLineId = tq_orderLineId req, pl_amountMinor = tq_grossOrNetAmountMinor req,
               pl_currencyCode = tq_currencyCode req, pl_taxes = taxes\<rparr>))"
  using assms lineTaxes_Inr by (auto simp: prepareUnder_def Let_def andThen_Inr_iff split: if_splits option.splits)

lemma prepareLine_Inr:
  assumes "prepareLine env tid req db = Inr line"
  shows "prepared_for env tid req db line"
proof -
  from assms obtain branch country jurisdiction on rule where "taxBranch tid req db = Inr (branch, country, jurisdiction)"
    "tq_currencyCode req = tb_currencyCode branch"
    "taxDateInTimezone (env_localDate env) (Some (tq_at req)) (tb_timezone branch) = Inr on"
    "chooseLiability tid country req on db = Inr rule"
    "prepareUnder tid req country (tj_roundingStrategy jurisdiction) on rule db = Inr line"
    by (auto simp: prepareLine_def andThen_Inr_iff split: if_splits)
  with chooseLiability_Inr prepareUnder_Inr show ?thesis unfolding prepared_for_def by blast
qed

section \<open>What is recorded\<close>

definition tax_rows :: "string \<Rightarrow> pos_db \<Rightarrow> order_line_tax_context \<Rightarrow> tax_resolution \<Rightarrow> tax_snapshot_row list" where
  "tax_rows tid db context resolution =
     (case resolution of External _ \<Rightarrow> []
      | Resolved taxes \<Rightarrow> map (\<lambda>t. snapshot_row context t (the (snapshot_priority tid t db))) taxes)"

definition record_taxes :: "order_line_tax_context list \<Rightarrow> tax_snapshot_row list \<Rightarrow> pos_db \<Rightarrow> pos_db" where
  "record_taxes contexts rows db = db\<lparr>db_taxContexts := db_taxContexts db @ contexts, db_taxRows := db_taxRows db @ rows\<rparr>"

lemma record_taxes_append:
  "record_taxes cs' rs' (record_taxes cs rs db) = record_taxes (cs @ cs') (rs @ rs') db"
  by (simp add: record_taxes_def)

lemma snapshot_priority_record: "snapshot_priority tid t (record_taxes cs rs db) = snapshot_priority tid t db"
  by (simp add: snapshot_priority_def getCategory_def record_taxes_def cong: option.case_cong if_cong)

lemma tax_rows_record: "tax_rows tid (record_taxes cs rs db) = tax_rows tid db"
  by (intro ext) (simp add: tax_rows_def snapshot_priority_record split: tax_resolution.split)

lemma insertSnapshots_Inr:
  assumes "insertSnapshots env tid context taxes db = Inr (u, db')"
  shows "db' = record_taxes [] (tax_rows tid db context (Resolved taxes)) db \<and> (\<forall>t\<in>set taxes. snapshot_priority tid t db \<noteq> None)"
  using assms
proof (induction taxes arbitrary: db)
  case Nil
  then show ?case by (simp add: insertSnapshots_def tax_rows_def record_taxes_def tx_simps)
next
  case (Cons t taxes)
  from Cons.prems obtain q where q: "snapshot_priority tid t db = Some q"
    and rest: "insertSnapshots env tid context taxes (record_taxes [] [snapshot_row context t q] db) = Inr (u, db')"
    by (auto simp: insertSnapshots_def tx_simps Let_def db_check_def record_taxes_def split: option.splits)
  have row: "tax_rows tid db context (Resolved [t]) = [snapshot_row context t q]" by (simp add: tax_rows_def q)
  from Cons.IH [OF rest] q show ?case
    by (simp add: record_taxes_append tax_rows_record snapshot_priority_record) (simp add: tax_rows_def q)
qed

lemma persistPrepared_Inr:
  assumes "persistPrepared env tid line resolution db = Inr (u, db')"
  shows "db' = record_taxes [pp_context line] (tax_rows tid db (pp_context line) resolution) db"
proof -
  from assms have "(case resolution of External _ \<Rightarrow> tx_return () | Resolved taxes \<Rightarrow> insertSnapshots env tid (pp_context line) taxes)
      (record_taxes [pp_context line] [] db) = Inr (u, db')"
    by (auto simp: persistPrepared_def insertContext_def tx_simps db_check_def record_taxes_def split: option.splits)
  then show ?thesis
    by (cases resolution) (auto simp: tx_simps tax_rows_def [of _ _ _ "External _"] record_taxes_append tax_rows_record dest: insertSnapshots_Inr)
qed

lemma persistAll_Inr:
  assumes "persistAll env tid calculated lines db = Inr (res, db')"
  shows "list_all2 (\<lambda>line r. fst r = cx_orderLineId (pp_context line) \<and> line_result calculated line = Some (snd r)) lines res \<and>
    db' = record_taxes (map pp_context lines) (concat (map2 (tax_rows tid db) (map pp_context lines) (map snd res))) db"
  using assms
proof (induction lines arbitrary: db res)
  case Nil
  then show ?case by (simp add: tx_simps record_taxes_def)
next
  case (Cons line lines)
  from Cons.prems obtain resolved db1 res1 where res: "res = (cx_orderLineId (pp_context line), resolved) # res1"
    and r: "line_result calculated line = Some resolved" and p: "persistPrepared env tid line resolved db = Inr ((), db1)"
    and rest: "persistAll env tid calculated lines db1 = Inr (res1, db')"
    by (auto simp: tx_simps)
  from Cons.IH [OF rest] res r show ?case
    by (auto simp: persistPrepared_Inr [OF p] record_taxes_append tax_rows_record)
qed


section \<open>The whole invoice\<close>

lemma line_result_cases:
  assumes "prepared_for env tid req db line" "line_result calculated line = Some r"
  shows "(case r of External e \<Rightarrow> pp_external line = Some e \<and> cx_liableParty (pp_context line) = marketplace
    | Resolved ts \<Rightarrow> cx_liableParty (pp_context line) = restaurant \<and> map_of calculated (tq_orderLineId req) = Some ts)"
proof -
  have "x = restaurant \<longleftrightarrow> x \<noteq> marketplace" for x by (cases x) auto
  with assms show ?thesis
    by (auto simp: prepared_for_def line_result_def taxContext_def split: tax_resolution.splits option.splits if_splits)
qed

lemma resolveInvoice_Inr:
  assumes "resolveInvoiceAndSnapshot env tid requests db = Inr (res, db')"
  shows "map fst res = map tq_orderLineId requests \<and> distinct (map tq_orderLineId requests) \<and>
    (\<exists>lines strategy calculated. list_all2 (\<lambda>req line. prepared_for env tid req db line) requests lines \<and>
       (\<forall>line\<in>set lines. cx_roundingStrategy (pp_context line) = strategy) \<and>
       calculateCascadingTaxes (computations_of lines) strategy = Inr calculated \<and>
       list_all2 (\<lambda>line (i, r). case r of External e \<Rightarrow> pp_external line = Some e \<and> cx_liableParty (pp_context line) = marketplace
         | Resolved ts \<Rightarrow> cx_liableParty (pp_context line) = restaurant \<and> map_of calculated i = Some ts) lines res \<and>
       db' = db\<lparr>db_taxContexts := db_taxContexts db @ map pp_context lines,
         db_taxRows := db_taxRows db @ concat (map2 (tax_rows tid db) (map pp_context lines) (map snd res))\<rparr>)"
proof -
  from assms obtain first lines calculated strategy where d: "distinct (map tq_orderLineId requests)"
    and lines: "mapR (\<lambda>r. prepareLine env tid r db) requests = Inr lines"
    and strategy: "list_all (\<lambda>p. cx_roundingStrategy (pp_context p) = strategy) lines"
    and calc: "calculateCascadingTaxes (computations_of lines) strategy = Inr calculated"
    and all: "persistAll env tid calculated lines db = Inr (res, db')"
    by (auto simp: resolveInvoiceAndSnapshot_def tx_simps Let_def split: list.splits)
  have prep: "list_all2 (\<lambda>req line. prepared_for env tid req db line) requests lines"
    using lines unfolding mapR_all2 by (rule list_all2_mono) (rule prepareLine_Inr)
  have ids: "map (cx_orderLineId \<circ> pp_context) lines = map tq_orderLineId requests"
    using prep by (induction rule: list_all2_induct) (auto simp: prepared_for_def taxContext_def)
  from persistAll_Inr [OF all] have pers: "list_all2 (\<lambda>line r. fst r = cx_orderLineId (pp_context line) \<and>
      line_result calculated line = Some (snd r)) lines res"
    and db': "db' = record_taxes (map pp_context lines) (concat (map2 (tax_rows tid db) (map pp_context lines) (map snd res))) db" by auto
  have "map fst res = map (cx_orderLineId \<circ> pp_context) lines" using pers by (induction rule: list_all2_induct) auto
  then have fsts: "map fst res = map tq_orderLineId requests" using ids by simp
  have "list_all2 (\<lambda>line (i, r). case r of External e \<Rightarrow> pp_external line = Some e \<and> cx_liableParty (pp_context line) = marketplace
         | Resolved ts \<Rightarrow> cx_liableParty (pp_context line) = restaurant \<and> map_of calculated i = Some ts) lines res"
    unfolding list_all2_conv_all_nth
  proof (intro conjI allI impI)
    fix n assume n: "n < length lines"
    then have p: "prepared_for env tid (requests ! n) db (lines ! n)" and len: "length requests = length lines"
      using prep by (auto simp: list_all2_conv_all_nth)
    from pers n have r: "line_result calculated (lines ! n) = Some (snd (res ! n))" and l: "length res = length lines"
      by (auto simp: list_all2_conv_all_nth)
    have "fst (res ! n) = tq_orderLineId (requests ! n)" using arg_cong [OF fsts, of "\<lambda>xs. xs ! n"] n len l by simp
    with line_result_cases [OF p r] show "case res ! n of (i, r) \<Rightarrow> case r of
        External e \<Rightarrow> pp_external (lines ! n) = Some e \<and> cx_liableParty (pp_context (lines ! n)) = marketplace
      | Resolved ts \<Rightarrow> cx_liableParty (pp_context (lines ! n)) = restaurant \<and> map_of calculated i = Some ts"
      by (auto simp: case_prod_beta split: tax_resolution.splits)
  qed (use pers in \<open>simp add: list_all2_lengthD\<close>)
  with d prep strategy calc db' fsts show ?thesis unfolding record_taxes_def list_all_iff by blast
qed

text \<open>
  C8. Taxes of an order: when they are resolved, each line is decided on the local calendar date of its branch by the one liability rule
  in effect for the country, the channel and the registration of the tenant, where a rule for the delivery platform comes before a
  general one. A line the marketplace owes the tax of gets no tax of the restaurant; any other gets one tax per category
  assigned to the item or put in its place by the branch, each category active and of the country, excise confirmed, at the one rate in
  effect, the tenant's own before the platform's, and the amounts are those of the cascade over all lines of the invoice.
  Recorded are exactly one context per line and the tax rows of the lines, in order; nothing else changes.
\<close>

theorem resolveInvoice_correct:
  assumes "resolveInvoiceAndSnapshot env tid requests db = Inr (res, db')"
  shows "map fst res = map tq_orderLineId requests \<and> distinct (map tq_orderLineId requests) \<and>
    (\<exists>lines strategy calculated. list_all2 (\<lambda>req line. prepared_for env tid req db line) requests lines \<and>
       (\<forall>line\<in>set lines. cx_roundingStrategy (pp_context line) = strategy) \<and>
       calculateCascadingTaxes (computations_of lines) strategy = Inr calculated \<and>
       list_all2 (\<lambda>line (i, r). case r of External e \<Rightarrow> pp_external line = Some e \<and> cx_liableParty (pp_context line) = marketplace
         | Resolved ts \<Rightarrow> cx_liableParty (pp_context line) = restaurant \<and> map_of calculated i = Some ts) lines res \<and>
       db' = db\<lparr>db_taxContexts := db_taxContexts db @ map pp_context lines,
         db_taxRows := db_taxRows db @ concat (map2 (tax_rows tid db) (map pp_context lines) (map snd res))\<rparr>)"
  by (rule resolveInvoice_Inr [OF assms])

definition example_request :: tax_line_request where
  "example_request = \<lparr>tq_orderLineId = ''i1'', tq_branchId = ''b1'', tq_menuItemId = ''food'', tq_grossOrNetAmountMinor = 1000,
     tq_currencyCode = ''SAR'', tq_at = 1000, tq_salesChannel = ''dine_in'', tq_deliveryPlatformId = None\<rparr>"

theorem resolveInvoice_correct_witness:
  "\<exists>res db' line. resolveInvoiceAndSnapshot example_env ''t1'' [example_request] example_db = Inr (res, db') \<and>
     map fst res = [''i1''] \<and> prepared_for example_env ''t1'' example_request example_db line \<and>
     db_taxContexts db' = [pp_context line]"
proof -
  let ?run = "resolveInvoiceAndSnapshot example_env ''t1'' [example_request] example_db"
  have "isOk ?run" by code_simp
  then obtain res db' where run: "?run = Inr (res, db')" by (cases ?run) auto
  have "tq_orderLineId example_request = ''i1''" "db_taxContexts example_db = []" by (simp_all add: example_request_def example_db_def)
  with resolveInvoice_correct [OF run] run show ?thesis by (auto simp: list_all2_Cons1)
qed

end
