(* ===== verification/Creation_Lines.thy ===== *)
theory Creation_Lines
  imports Order_Creation Tax_Correct Workflow_Correct Shift_Correct
begin

text \<open>
  What the write transaction of an order does, part by part: the order row, the lines with their first status events, and the
  stock they use.
\<close>

section \<open>The rows\<close>

lemma insertOrder_Inr:
  "insertOrder env row db = Inr (x, db') \<longleftrightarrow>
     (\<forall>o'\<in>set (db_orders db). o_id o' \<noteq> o_id row) \<and> env_reject env db (WOrder row) = None \<and> db' = db\<lparr>db_orders := db_orders db @ [row]\<rparr>"
  by (auto simp: insertOrder_def tx_simps)

lemma insertOrderItem_Inr:
  "insertOrderItem env row db = Inr (x, db') \<longleftrightarrow>
     (\<forall>i\<in>set (db_items db). it_id i \<noteq> it_id row) \<and> env_reject env db (WOrderItem row) = None \<and> db' = db\<lparr>db_items := db_items db @ [row]\<rparr>"
  by (auto simp: insertOrderItem_def tx_simps)

text \<open>Orders other than the new one are not touched by its events.\<close>

lemma touched_last:
  assumes "orders_touched tid oid (os @ [x]) os'" "\<forall>y\<in>set os. o_id y \<noteq> oid"
  shows "\<exists>x'. os' = os @ [x'] \<and> order_frame x' = order_frame x"
proof -
  from assms(1) obtain os1 x' where os': "os' = os1 @ [x']" "orders_touched tid oid os os1"
    and x': "x' = x \<or> o_tenantId x = tid \<and> o_id x = oid \<and> order_frame x' = order_frame x"
    by (auto simp: orders_touched_def list_all2_append1 list_all2_Cons1)
  have "os1 = os" using os'(2) assms(2)
    by (auto simp: orders_touched_def list_all2_conv_all_nth intro!: nth_equalityI)
  with os' x' show ?thesis by auto
qed

text \<open>
  What the schema keeps of the tables the derivation of an order's status reads: a state has one id, a tenant has one top-level state per
  kind (one workflow per tenant, and one top-level state per kind in a workflow), and a line belongs to an order that exists.
\<close>

definition workflow_keys :: "string \<Rightarrow> pos_db \<Rightarrow> bool" where
  "workflow_keys tid db \<longleftrightarrow> distinct (map ws_id (db_workflowStates db)) \<and>
     (\<forall>s\<in>set (db_workflowStates db). \<forall>s'\<in>set (db_workflowStates db). ws_tenantId s = tid \<longrightarrow> ws_tenantId s' = tid \<longrightarrow>
        ws_parentKindCode s = None \<longrightarrow> ws_parentKindCode s' = None \<longrightarrow> ws_kindCode s = ws_kindCode s' \<longrightarrow> s = s') \<and>
     (\<forall>i\<in>set (db_items db). \<exists>x\<in>set (db_orders db). o_tenantId x = it_tenantId i \<and> o_id x = it_orderId i)"

text \<open>While all lines of an order are in one top-level state, the derived status is that state.\<close>

definition lines_in :: "string \<Rightarrow> string \<Rightarrow> string \<Rightarrow> order_item_row list \<Rightarrow> bool" where
  "lines_in tid oid st items \<longleftrightarrow> (\<forall>i\<in>set items. it_tenantId i = tid \<longrightarrow> it_orderId i = oid \<longrightarrow> it_currentStatusKindId i = st)"

definition top_states_unique :: "string \<Rightarrow> pos_db \<Rightarrow> tenant_workflow_state \<Rightarrow> bool" where
  "top_states_unique tid db s \<longleftrightarrow> s \<in> set (db_workflowStates db) \<and> ws_tenantId s = tid \<and> ws_parentKindCode s = None \<and>
     (\<forall>s'\<in>set (db_workflowStates db). ws_id s' = ws_id s \<or> ws_tenantId s' = tid \<and> ws_parentKindCode s' = None \<and> ws_kindCode s' = ws_kindCode s
        \<longrightarrow> s' = s)"

lemma restatused_same:
  assumes "top_states_unique tid db s" "lines_in tid oid (ws_id s) (db_items db)" "o_currentStatusKindId x = ws_id s"
  shows "restatused now tid oid db x = x"
proof -
  have "set (item_roots tid oid db) \<subseteq> {ws_kindCode s}"
    using assms(1,2) by (auto simp: item_roots_def lines_in_def top_states_unique_def root_kind_def)
  moreover have "s' \<in> set (status_candidates tid oid db)" if "derived_target tid oid db = Some (s', k)" for s' k
    using that derived_target_earliest [of tid oid db] by simp
  ultimately have same: "ws_id s' = ws_id s" if "derived_target tid oid db = Some (s', k)" for s' k
    using that assms(1) unfolding status_candidates_def top_states_unique_def set_filter mem_Collect_eq by blast
  show ?thesis
  proof (cases "derived_target tid oid db")
    case (Some p)
    then show ?thesis using same [of "fst p" "snd p"] assms(3) by (cases p) (simp add: restatused_def)
  qed (simp add: restatused_def)
qed

section \<open>One line\<close>

definition first_event :: "pos_env \<Rightarrow> order_item_row \<Rightarrow> status_event_row" where
  "first_event env item = \<lparr>se_tenantId = it_tenantId item, se_orderItemId = it_id item, se_orderId = it_orderId item, se_fromStatusKindId = None,
     se_toStatusKindId = it_currentStatusKindId item, se_actorUserId = None, se_occurredAt = env_now env\<rparr>"

definition line_created ::
  "pos_env \<Rightarrow> string \<Rightarrow> new_order_input \<Rightarrow> branch_row \<Rightarrow> string \<Rightarrow> string \<Rightarrow> pos_db \<Rightarrow> new_order_item_line \<Rightarrow> order_item_row \<Rightarrow> tax_line_request \<Rightarrow> bool" where
  "line_created env tid input branch oid st db line item req \<longleftrightarrow>
     (\<exists>m routing. loadMenuItem tid (nl_menuItemId line) db = Some m \<and> mi_isActive m \<and>
        (nl_unitPriceMinor line = None \<longrightarrow> mi_basePriceCurrencyCode m = br_baseCurrency branch) \<and>
        resolveStationRoute tid (no_branchId input) (routingContext input line) db = Some routing \<and>
        item = newItemRow env tid oid st line m routing (it_id item) \<and> req = lineTaxRequest env input branch line m (it_id item))"

lemma line_created_cong: "db_menu db' = db_menu db \<Longrightarrow> line_created env tid input branch oid st db' = line_created env tid input branch oid st db"
  by (intro ext) (simp add: line_created_def loadMenuItem_def resolveStationRoute_def rule_matches_def [abs_def])

lemma line_created_state:
  assumes "line_created env tid input branch oid st db line item req"
  shows "it_currentStatusKindId item = st"
proof -
  from assms obtain m routing where "item = newItemRow env tid oid st line m routing (it_id item)" by (auto simp: line_created_def)
  from arg_cong [OF this, of it_currentStatusKindId] show ?thesis by (simp only: newItemRow_def order_item_row.simps)
qed

lemma move_fresh:
  assumes "\<forall>i\<in>set items. it_id i \<noteq> it_id row"
  shows "move_item tid (it_id row) (it_currentStatusKindId row) (items @ [row]) = items @ [row]"
  using assms by (auto simp: move_item_def update_where_def intro: map_idI)

text \<open>The order keeps its row through the creation of a line in the state it is in itself.\<close>

definition row_kept :: "string \<Rightarrow> string \<Rightarrow> string \<Rightarrow> pos_db \<Rightarrow> pos_db \<Rightarrow> bool" where
  "row_kept tid oid st db db' \<longleftrightarrow> (\<forall>s x. ws_id s = st \<longrightarrow> top_states_unique tid db s \<longrightarrow> lines_in tid oid st (db_items db) \<longrightarrow>
     loadOrder tid oid db = Some x \<longrightarrow> o_currentStatusKindId x = st \<longrightarrow> loadOrder tid oid db' = Some x)"

lemma createLineItem_Inr:
  assumes "createLineItem env tid input branch oid st line db = Inr (c, db')"
  shows "\<exists>os qs es. line_created env tid input branch oid st db line (fst c) (snd c) \<and> (\<forall>i\<in>set (db_items db). it_id i \<noteq> it_id (fst c)) \<and>
    db' = db\<lparr>db_orders := os, db_items := db_items db @ [fst c], db_statusEvents := db_statusEvents db @ [first_event env (fst c)],
      db_sequences := qs, db_outbox := db_outbox db @ es\<rparr> \<and> es \<noteq> [] \<and> orders_touched tid oid (db_orders db) os \<and> row_kept tid oid st db db'"
proof -
  from assms obtain m routing row x item where m: "assertLinePriced line branch (loadMenuItem tid (nl_menuItemId line) db) = Inr m"
    and r: "resolveStationRoute tid (no_branchId input) (routingContext input line) db = Some routing"
    and row: "row = newItemRow env tid oid st line m routing (env_uuid env db)" and fresh: "\<forall>i\<in>set (db_items db). it_id i \<noteq> it_id row"
    and ev: "insertStatusEvent env tid (first_event env row) (db\<lparr>db_items := db_items db @ [row]\<rparr>) = Inr (x, db')"
    and item: "loadOrderItem tid (env_uuid env db) db' = Some item" and c: "c = (item, lineTaxRequest env input branch line m (env_uuid env db))"
    unfolding createLineItem_def
    by (auto simp: tx_simps insertOrderItem_Inr insertInitialStatusEvent_def first_event_def newItemRow_def)
  have mi: "loadMenuItem tid (nl_menuItemId line) db = Some m \<and> mi_isActive m \<and>
      (nl_unitPriceMinor line = None \<longrightarrow> mi_basePriceCurrencyCode m = br_baseCurrency branch)"
    using m by (auto simp: assertLinePriced_def split: option.splits if_splits)
  have id: "it_id row = env_uuid env db" "it_tenantId row = tid" "it_orderId row = oid" "it_currentStatusKindId row = st"
    by (simp_all add: row newItemRow_def)
  from insertStatusEvent_Inr [OF ev] obtain os qs e es where
    db': "db' = db\<lparr>db_orders := os, db_items := move_item tid (it_id row) st (db_items db @ [row]),
      db_statusEvents := db_statusEvents db @ [first_event env row], db_sequences := qs, db_outbox := db_outbox db @ e # es\<rparr>"
    and os: "orders_touched tid oid (db_orders db) os"
    and row_after: "\<And>x. loadOrder tid oid db = Some x \<Longrightarrow> loadOrder tid oid db' = Some (restatused (env_now env) tid oid db' x)"
    by (auto simp: status_effect_def first_event_def id loadOrder_def)
  have items: "db_items db' = db_items db @ [row]" using move_fresh [OF fresh] by (simp add: db' id)
  have "find_row (\<lambda>i. it_tenantId i = tid \<and> it_id i = it_id row) (db_items db) = None" using fresh by (auto simp: find_row_None)
  then have "item = row" using item id by (simp add: loadOrderItem_def items find_row_append find_row_single)
  then have fst: "fst c = row" by (simp add: c)
  have "line_created env tid input branch oid st db line (fst c) (snd c)"
    unfolding line_created_def fst using mi r id by (intro exI [of _ m] exI [of _ routing]) (simp add: c row newItemRow_def)
  moreover have "db' = db\<lparr>db_orders := os, db_items := db_items db @ [fst c], db_statusEvents := db_statusEvents db @ [first_event env (fst c)],
      db_sequences := qs, db_outbox := db_outbox db @ e # es\<rparr>"
    using items by (simp add: db' fst)
  moreover have "row_kept tid oid st db db'"
    unfolding row_kept_def
  proof (intro allI impI)
    fix s x assume s: "ws_id s = st" "top_states_unique tid db s" "lines_in tid oid st (db_items db)" "loadOrder tid oid db = Some x" "o_currentStatusKindId x = st"
    have "top_states_unique tid db' s" using s(2) by (simp add: top_states_unique_def db')
    moreover have "lines_in tid oid (ws_id s) (db_items db')" using s(1,3) id by (auto simp: lines_in_def items)
    ultimately show "loadOrder tid oid db' = Some x" using row_after [OF s(4)] restatused_same [of tid db' s oid x] s(1,5) by simp
  qed
  ultimately show ?thesis using os fresh by (intro exI [of _ os] exI [of _ qs] exI [of _ "e # es"]) (simp add: fst)
qed

lemma createItems_Inr:
  assumes "createItems env tid input branch oid st lines db = Inr (cs, db')"
  shows "\<exists>os qs es. list_all2 (\<lambda>line c. line_created env tid input branch oid st db line (fst c) (snd c)) lines cs \<and>
    distinct (map (it_id \<circ> fst) cs) \<and> (\<forall>c\<in>set cs. \<forall>i\<in>set (db_items db). it_id i \<noteq> it_id (fst c)) \<and>
    db' = db\<lparr>db_orders := os, db_items := db_items db @ map fst cs, db_statusEvents := db_statusEvents db @ map (first_event env \<circ> fst) cs,
      db_sequences := qs, db_outbox := db_outbox db @ es\<rparr> \<and> length cs \<le> length es \<and> orders_touched tid oid (db_orders db) os \<and> row_kept tid oid st db db'"
  using assms
proof (induction lines arbitrary: db cs)
  case Nil
  then show ?case
    by (intro exI [of _ "db_orders db"] exI [of _ "db_sequences db"] exI [of _ "[]"]) (simp add: tx_simps orders_touched_refl row_kept_def)
next
  case (Cons line lines)
  from Cons.prems obtain c db1 cs1 where cs: "cs = c # cs1" and one: "createLineItem env tid input branch oid st line db = Inr (c, db1)"
    and rest: "createItems env tid input branch oid st lines db1 = Inr (cs1, db')" by (auto simp: tx_simps)
  from createLineItem_Inr [OF one] obtain os qs es where a: "line_created env tid input branch oid st db line (fst c) (snd c)"
    "\<forall>i\<in>set (db_items db). it_id i \<noteq> it_id (fst c)" "es \<noteq> []" "orders_touched tid oid (db_orders db) os" "row_kept tid oid st db db1"
    and db1: "db1 = db\<lparr>db_orders := os, db_items := db_items db @ [fst c], db_statusEvents := db_statusEvents db @ [first_event env (fst c)],
      db_sequences := qs, db_outbox := db_outbox db @ es\<rparr>" by blast
  from Cons.IH [OF rest] obtain os' qs' es' where b:
    "list_all2 (\<lambda>line c. line_created env tid input branch oid st db1 line (fst c) (snd c)) lines cs1" "distinct (map (it_id \<circ> fst) cs1)"
    "\<forall>c\<in>set cs1. \<forall>i\<in>set (db_items db1). it_id i \<noteq> it_id (fst c)" "length cs1 \<le> length es'" "orders_touched tid oid (db_orders db1) os'"
    "row_kept tid oid st db1 db'" and db': "db' = db1\<lparr>db_orders := os', db_items := db_items db1 @ map fst cs1, db_statusEvents := db_statusEvents db1 @ map (first_event env \<circ> fst) cs1,
      db_sequences := qs', db_outbox := db_outbox db1 @ es'\<rparr>" by blast
  have menu: "line_created env tid input branch oid st db1 = line_created env tid input branch oid st db"
    by (rule line_created_cong) (simp add: db1)
  have "length cs \<le> length (es @ es')" using a(3) b(4) by (cases es) (simp_all add: cs)
  moreover have "orders_touched tid oid (db_orders db) os'" using orders_touched_trans [OF a(4), of os'] b(5) by (simp add: db1)
  moreover have "distinct (map (it_id \<circ> fst) cs)" "\<forall>c\<in>set cs. \<forall>i\<in>set (db_items db). it_id i \<noteq> it_id (fst c)"
    using a(2) b(2,3) by (auto simp: cs db1)
  moreover have "row_kept tid oid st db db'"
    unfolding row_kept_def
  proof (intro allI impI)
    fix s x assume s: "ws_id s = st" "top_states_unique tid db s" "lines_in tid oid st (db_items db)" "loadOrder tid oid db = Some x" "o_currentStatusKindId x = st"
    have "top_states_unique tid db1 s" using s(2) by (simp add: top_states_unique_def db1)
    moreover have "lines_in tid oid st (db_items db1)" using s(3) line_created_state [OF a(1)] by (auto simp: lines_in_def db1)
    moreover have "loadOrder tid oid db1 = Some x" using a(5) s unfolding row_kept_def by blast
    ultimately show "loadOrder tid oid db' = Some x" using b(6) s(1,5) unfolding row_kept_def by blast
  qed
  ultimately show ?case using a(1) b(1) menu
    by (intro exI [of _ os'] exI [of _ qs'] exI [of _ "es @ es'"]) (simp add: cs db' db1 comp_def)
qed

section \<open>Recipes\<close>

definition owner_of :: "recipe_requirement_line \<Rightarrow> recipe_owner_type \<times> string" where
  "owner_of l = (rq_ownerType l, rq_ownerId l)"

definition recipe_of :: "string \<Rightarrow> pos_db \<Rightarrow> recipe_owner_type \<times> string \<Rightarrow> recipe_requirement_line list" where
  "recipe_of tid db owner = map snd (filter (\<lambda>(t, l). t = tid \<and> owner_of l = owner) (mn_recipes (db_menu db)))"

text \<open>What one line needs: every row of the recipes of its item and of its modifiers, times the quantity.\<close>

definition line_needs :: "string \<Rightarrow> pos_db \<Rightarrow> new_order_item_line \<Rightarrow> (string \<times> int) list result" where
  "line_needs tid db line =
     mapR (\<lambda>r. mapResult (decimalTextToMinor (rq_quantityRequired r) 4 ''quantityRequired'') (\<lambda>m.
         (rq_inventoryItemId r, m * quantity_of (nl_quantity line))))
       (concat (map (recipe_of tid db) (lineOwners line)))"

lemma get_or_group: "get_or (groupRequirements lines) k [] = filter (\<lambda>l. owner_of l = k) lines"
proof -
  have "get_or (foldl (\<lambda>grouped l. AList.update (rq_ownerType l, rq_ownerId l) (get_or grouped (rq_ownerType l, rq_ownerId l) [] @ [l]) grouped) g lines) k []
      = get_or g k [] @ filter (\<lambda>l. owner_of l = k) lines" for g
    by (induction lines arbitrary: g) (auto simp: get_or_update owner_of_def)
  then show ?thesis by (simp add: groupRequirements_def get_or_def)
qed

lemma set_collectRecipeOwners: "set (collectRecipeOwners lines) = (\<Union>line\<in>set lines. set (lineOwners line))"
proof -
  have "set (foldl (\<lambda>owners owner. if owner \<in> set owners then owners else owners @ [owner]) acc xs) = set acc \<union> set xs" for acc xs :: "(recipe_owner_type \<times> string) list"
    by (induction xs arbitrary: acc) auto
  then show ?thesis by (simp add: collectRecipeOwners_def)
qed

lemma lineRequirements_needs:
  assumes "line \<in> set lines"
  shows "lineRequirements (groupRequirements (loadRecipeRequirements tid (collectRecipeOwners lines) db)) line = line_needs tid db line"
proof -
  have "get_or (groupRequirements (loadRecipeRequirements tid (collectRecipeOwners lines) db)) owner [] = recipe_of tid db owner"
    if "owner \<in> set (lineOwners line)" for owner
  proof -
    have own: "owner \<in> set (collectRecipeOwners lines)" using that assms by (auto simp: set_collectRecipeOwners)
    have "filter (\<lambda>l. owner_of l = owner) (map snd (filter (\<lambda>(t, l). t = tid \<and> (rq_ownerType l, rq_ownerId l) \<in> set (collectRecipeOwners lines)) rs))
        = map snd (filter (\<lambda>(t, l). t = tid \<and> owner_of l = owner) rs)" for rs
      unfolding filter_map filter_filter
      by (intro arg_cong [where f = "map snd"] filter_cong refl) (use own in \<open>auto simp: owner_of_def\<close>)
    then show ?thesis by (simp add: get_or_group recipe_of_def loadRecipeRequirements_def)
  qed
  then have "map (\<lambda>owner. get_or (groupRequirements (loadRecipeRequirements tid (collectRecipeOwners lines) db)) owner []) (lineOwners line)
      = map (recipe_of tid db) (lineOwners line)" by simp
  then show ?thesis unfolding lineRequirements_def line_needs_def by (simp only:)
qed

text \<open>The total of a component over the whole order.\<close>

definition total_need :: "(string \<times> int) list \<Rightarrow> string \<Rightarrow> int" where
  "total_need needs i = (\<Sum>n\<leftarrow>needs. if fst n = i then snd n else 0)"

lemma total_need_append: "total_need (xs @ ys) i = total_need xs i + total_need ys i"
  by (simp add: total_need_def)

lemma add_needs:
  "get_or (foldl add_need t ns) i 0 = get_or t i 0 + total_need ns i" "fst ` set (foldl add_need t ns) = fst ` set t \<union> fst ` set ns"
  "distinct (map fst t) \<Longrightarrow> distinct (map fst (foldl add_need t ns))"
  by (induction ns arbitrary: t) (auto simp: add_need_def get_or_update total_need_def dom_update distinct_update)

definition order_needs :: "string \<Rightarrow> new_order_input \<Rightarrow> pos_db \<Rightarrow> (string \<times> int) list list result" where
  "order_needs tid input db = mapR (line_needs tid db) (no_items input)"

lemma aggregate_needs:
  assumes "aggregateRequiredMinor (loadRecipeRequirements tid (collectRecipeOwners (no_items input)) db) (no_items input) = Inr totals"
  shows "\<exists>needs. order_needs tid input db = Inr needs \<and> totals = foldl add_need [] (concat needs)"
proof -
  let ?g = "groupRequirements (loadRecipeRequirements tid (collectRecipeOwners (no_items input)) db)"
  have "foldR (\<lambda>totals line. mapResult (lineRequirements ?g line) (foldl add_need totals)) t lines = Inr totals \<Longrightarrow>
      set lines \<subseteq> set (no_items input) \<Longrightarrow> \<exists>needs. mapR (line_needs tid db) lines = Inr needs \<and> totals = foldl add_need t (concat needs)" for t lines
  proof (induction lines arbitrary: t)
    case (Cons line lines)
    from Cons.prems obtain ns where ns: "lineRequirements ?g line = Inr ns"
      and rest: "foldR (\<lambda>totals line. mapResult (lineRequirements ?g line) (foldl add_need totals)) (foldl add_need t ns) lines = Inr totals"
      by (auto simp: result_simps)
    from Cons.IH [OF rest] Cons.prems(2) obtain needs where "mapR (line_needs tid db) lines = Inr needs"
      "totals = foldl add_need (foldl add_need t ns) (concat needs)" by auto
    moreover have "line_needs tid db line = Inr ns" using ns lineRequirements_needs [of line "no_items input" tid db] Cons.prems(2) by simp
    ultimately show ?case by simp
  qed simp
  from this [of "[]" "no_items input"] assms show ?thesis by (simp add: aggregateRequiredMinor_def order_needs_def)
qed

section \<open>Stock\<close>

text \<open>The quantity of a component, in units of a ten-thousandth.\<close>

definition stock_level :: "string \<Rightarrow> string \<Rightarrow> pos_db \<Rightarrow> int result" where
  "stock_level tid i db = numeric4_sum (map sm_quantityDelta (filter (\<lambda>m. sm_tenantId m = tid \<and> sm_inventoryItemId m = i) (db_stock db)))"

definition stocked_at :: "string \<Rightarrow> string \<Rightarrow> string \<Rightarrow> pos_db \<Rightarrow> bool" where
  "stocked_at tid b i db \<longleftrightarrow> (\<exists>r\<in>set (db_inventory db). ii_tenantId r = tid \<and> ii_branchId r = b \<and> ii_id r = i)"

lemma printed_level: "minorToDecimalText q 4 = Inr t \<Longrightarrow> decimalTextToMinor t 4 f = Inr q"
  using printed_rescale [of 4 4 q f] by (auto simp: MAX_SCALE_def)

lemma list_all2_source: "list_all2 P xs ys \<Longrightarrow> y \<in> set ys \<Longrightarrow> \<exists>x\<in>set xs. P x y"
  by (induction rule: list_all2_induct) auto

lemma stocked_items:
  assumes "loadInventoryItems tid b ids db = Inr stocked"
  shows "stocked_item stocked i = None \<longleftrightarrow> i \<notin> set ids \<or> \<not> stocked_at tid b i db"
    "stocked_item stocked i = Some r \<Longrightarrow> iv_id r = i \<and> (\<exists>q. stock_level tid i db = Inr q \<and> minorToDecimalText q 4 = Inr (iv_currentQuantity r))"
proof -
  let ?rows = "filter (\<lambda>r. ii_tenantId r = tid \<and> ii_branchId r = b \<and> ii_id r \<in> set ids) (db_inventory db)"
  have all: "list_all2 (\<lambda>r v. mapInventoryItem r db = Inr v) ?rows stocked"
    using assms unfolding loadInventoryItems_def mapR_all2 by simp
  have ids: "list_all2 (\<lambda>r v. iv_id v = ii_id r) ?rows stocked"
    using all by (rule list_all2_mono) (auto simp: mapInventoryItem_def result_simps)
  then have "iv_id ` set stocked = ii_id ` set ?rows" by (induction rule: list_all2_induct) auto
  moreover have "stocked_item stocked i = None \<longleftrightarrow> i \<notin> iv_id ` set stocked" by (auto simp: stocked_item_def find_row_None)
  ultimately show "stocked_item stocked i = None \<longleftrightarrow> i \<notin> set ids \<or> \<not> stocked_at tid b i db" by (auto simp: stocked_at_def)
  assume "stocked_item stocked i = Some r"
  then have r: "r \<in> set stocked" "iv_id r = i" by (auto simp: stocked_item_def dest: find_row_Some)
  from list_all2_source [OF all r(1)] obtain row where row: "row \<in> set ?rows" "mapInventoryItem row db = Inr r" by blast
  with r(2) show "iv_id r = i \<and> (\<exists>q. stock_level tid i db = Inr q \<and> minorToDecimalText q 4 = Inr (iv_currentQuantity r))"
    by (auto simp: mapInventoryItem_def current_quantity_def stock_level_def result_simps)
qed

lemma availableMinor_level:
  assumes "loadInventoryItems tid b ids db = Inr stocked" "availableMinor stocked i = Inr a" "i \<in> set ids"
  shows "if stocked_at tid b i db then stock_level tid i db = Inr a else a = 0"
proof (cases "stocked_item stocked i")
  case None
  then show ?thesis using assms stocked_items(1) [OF assms(1), of i] by (simp add: availableMinor_def)
next
  case (Some r)
  from stocked_items(2) [OF assms(1) Some] obtain q where q: "stock_level tid i db = Inr q" "minorToDecimalText q 4 = Inr (iv_currentQuantity r)" by blast
  have "a = q" using assms(2) printed_level [OF q(2)] by (simp add: availableMinor_def Some)
  moreover have "stocked_at tid b i db" using stocked_items(1) [OF assms(1), of i] by (simp add: Some)
  ultimately show ?thesis using q(1) by simp
qed

lemma findShortage_None:
  "findShortage ts stocked = Inr None \<longleftrightarrow> (\<forall>(i, n)\<in>set ts. \<exists>a. availableMinor stocked i = Inr a \<and> n \<le> a)"
proof (induction ts stocked rule: findShortage.induct)
  case (2 i n rest stocked)
  show ?case
  proof (cases "availableMinor stocked i")
    case (Inr a)
    with 2 [OF Inr] show ?thesis by (cases "a - n < 0") auto
  qed auto
qed simp

text \<open>One movement per need of each line.\<close>

definition deducts :: "pos_env \<Rightarrow> string \<Rightarrow> new_order_input \<Rightarrow> string \<Rightarrow> string option \<Rightarrow> string \<times> string \<times> int \<Rightarrow> stock_movement_record \<Rightarrow> bool" where
  "deducts env tid input oid attempt need m \<longleftrightarrow>
     (case need of (itemId, component, n) \<Rightarrow> sm_tenantId m = tid \<and> sm_branchId m = no_branchId input \<and> sm_inventoryItemId m = component \<and>
        sm_movementType m = sale_deduction \<and> decimalTextToMinor (sm_quantityDelta m) 4 ''numeric'' = Inr (- n) \<and>
        sm_orderId m = Some oid \<and> sm_orderItemId m = Some itemId \<and> sm_actorUserId m = no_cashierUserId input \<and>
        sm_managerOverrideId m = attempt \<and> sm_occurredAt m = env_now env)"

lemma order_movement_Inr:
  assumes "insertOrderStockMovement env tid name im db = Inr (m, db')"
  shows "db' = db\<lparr>db_stock := db_stock db @ [m]\<rparr>" "sm_tenantId m = tid" "sm_branchId m = im_branchId im" "sm_inventoryItemId m = im_inventoryItemId im"
    "sm_movementType m = im_movementType im" "numeric4 (im_quantityDelta im) = Inr (sm_quantityDelta m)" "sm_orderId m = im_orderId im"
    "sm_orderItemId m = im_orderItemId im" "sm_actorUserId m = im_actorUserId im" "sm_managerOverrideId m = im_managerOverrideId im"
    "sm_occurredAt m = im_occurredAt im"
  using assms by (auto simp: insertOrderStockMovement_def mapErr_Inr_iff insertStockMovement_def tx_simps Let_def)

lemma deductNeed_Inr:
  assumes "deductNeed env tid input oid attempt stocked itemId need db = Inr (x, db')"
  shows "\<exists>m. db' = db\<lparr>db_stock := db_stock db @ [m]\<rparr> \<and> deducts env tid input oid attempt (itemId, need) m"
proof -
  from assms obtain t m where t: "minorToDecimalText (- snd need) 4 = Inr t"
    and ins: "insertOrderStockMovement env tid (Some (display_name stocked (fst need)))
       \<lparr>im_branchId = no_branchId input, im_inventoryItemId = fst need, im_movementType = sale_deduction, im_quantityDelta = t,
        im_orderId = Some oid, im_orderItemId = Some itemId, im_actorUserId = no_cashierUserId input,
        im_managerOverrideId = attempt, im_adjustmentReasonId = None, im_occurredAt = env_now env\<rparr> db = Inr (m, db')"
    by (auto simp: deductNeed_def tx_simps)
  note M = order_movement_Inr [OF ins]
  from M(6) have "numeric4 t = Inr (sm_quantityDelta m)" by simp
  from numeric4_roundtrip(1) [OF _ _ t this, of "''numeric''"] have "decimalTextToMinor (sm_quantityDelta m) 4 ''numeric'' = Inr (- snd need)" by simp
  with M show ?thesis by (intro exI [of _ m]) (simp add: deducts_def case_prod_beta)
qed

lemma tx_for_appends:
  assumes "tx_for f xs db = Inr (u, db')"
    and "\<And>x db v db'. x \<in> set xs \<Longrightarrow> f x db = Inr (v, db') \<Longrightarrow> \<exists>ms. db' = db\<lparr>db_stock := db_stock db @ ms\<rparr> \<and> P x ms"
  shows "\<exists>mss. db' = db\<lparr>db_stock := db_stock db @ concat mss\<rparr> \<and> list_all2 P xs mss"
  using assms
proof (induction xs arbitrary: db)
  case Nil
  from Nil.prems(1) have "db' = db" by (simp add: tx_simps)
  then show ?case by (intro exI [of _ "[]"]) simp
next
  case (Cons x xs)
  from Cons.prems(1) obtain v db1 where x: "f x db = Inr (v, db1)" and rest: "tx_for f xs db1 = Inr (u, db')" by (auto simp: tx_simps)
  from Cons.prems(2) [OF _ x] obtain ms where ms: "db1 = db\<lparr>db_stock := db_stock db @ ms\<rparr>" "P x ms" by auto
  from Cons.IH [OF rest] Cons.prems(2) obtain mss where "db' = db1\<lparr>db_stock := db_stock db1 @ concat mss\<rparr>" "list_all2 P xs mss" by auto
  with ms show ?case by (intro exI [of _ "ms # mss"]) simp
qed

lemma deductLine_Inr:
  assumes "deductLine env tid input oid attempt stocked grouped created db = Inr (x, db')"
  shows "\<exists>ms. db' = db\<lparr>db_stock := db_stock db @ ms\<rparr> \<and> (\<exists>ns. lineRequirements grouped (snd created) = Inr ns \<and>
    list_all2 (deducts env tid input oid attempt) (map (Pair (it_id (fst created))) ns) ms)"
proof -
  from assms obtain ns where ns: "lineRequirements grouped (snd created) = Inr ns"
    and run: "tx_for (deductNeed env tid input oid attempt stocked (it_id (fst created))) ns db = Inr (x, db')"
    by (auto simp: deductLine_def tx_simps)
  have "\<exists>mss. db' = db\<lparr>db_stock := db_stock db @ concat mss\<rparr> \<and>
      list_all2 (\<lambda>need ms. \<exists>m. ms = [m] \<and> deducts env tid input oid attempt (it_id (fst created), need) m) ns mss"
    by (rule tx_for_appends [OF run]) (blast dest: deductNeed_Inr)
  then obtain mss where db': "db' = db\<lparr>db_stock := db_stock db @ concat mss\<rparr>"
    and mss: "list_all2 (\<lambda>need ms. \<exists>m. ms = [m] \<and> deducts env tid input oid attempt (it_id (fst created), need) m) ns mss" by blast
  from mss have "list_all2 (deducts env tid input oid attempt) (map (Pair (it_id (fst created))) ns) (concat mss)"
    by (induction rule: list_all2_induct) auto
  with ns db' show ?thesis by blast
qed

end
