(* ===== verification/Creation_Correct.thy ===== *)
theory Creation_Correct
  imports Creation_Lines Override_Correct
begin

text \<open>
  The creation of an order as a whole: when it succeeds, the gates held, and the rows recorded are exactly the order, its lines with
  their first events and taxes, and the stock they use; stock runs short only under a manager's live approval.
\<close>

section \<open>The stock of the order\<close>

text \<open>Each component an order uses is in stock at its branch, in the amount of all lines together.\<close>

definition stock_suffices :: "string \<Rightarrow> string \<Rightarrow> (string \<times> int) list \<Rightarrow> pos_db \<Rightarrow> bool" where
  "stock_suffices tid b needs db \<longleftrightarrow>
     (\<forall>i\<in>fst ` set needs. \<exists>q. (if stocked_at tid b i db then stock_level tid i db = Inr q else q = 0) \<and> total_need needs i \<le> q)"

definition line_uses :: "order_item_row list \<Rightarrow> (string \<times> int) list list \<Rightarrow> (string \<times> string \<times> int) list" where
  "line_uses items needs = concat (map2 (\<lambda>item. map (Pair (it_id item))) items needs)"

definition stock_taken ::
  "pos_env \<Rightarrow> string \<Rightarrow> new_order_input \<Rightarrow> string \<Rightarrow> string option \<Rightarrow> order_item_row list \<Rightarrow> pos_db \<Rightarrow>
   stock_movement_record list \<Rightarrow> stock_override_claim list \<Rightarrow> (string \<times> string) list \<Rightarrow> bool" where
  "stock_taken env tid input oid attempt items db moved claimed posted \<longleftrightarrow>
     (\<exists>needs. order_needs tid input db = Inr needs \<and> list_all2 (deducts env tid input oid attempt) (line_uses items needs) moved \<and>
        (if concat needs = [] then claimed = [] \<and> posted = []
         else posted = [(tid, oid)] \<and>
           (case attempt of
              None \<Rightarrow> claimed = [] \<and> stock_suffices tid (no_branchId input) (concat needs) db
            | Some a \<Rightarrow> claimed = [\<lparr>cl_managerOverrideId = a, cl_tenantId = tid, cl_orderId = oid\<rparr>] \<and>
                (\<forall>c\<in>set (db_claims db). cl_managerOverrideId c \<noteq> a) \<and> (\<forall>i\<in>fst ` set (concat needs). stocked_at tid (no_branchId input) i db))))"

lemma needs_totals:
  assumes "totals = foldl add_need [] needs"
  shows "fst ` set totals = fst ` set needs" "(i, n) \<in> set totals \<Longrightarrow> n = total_need needs i" "totals = [] \<longleftrightarrow> needs = []"
proof -
  show d: "fst ` set totals = fst ` set needs" using add_needs(2) [of "[]" needs] by (simp add: assms)
  show "(i, n) \<in> set totals \<Longrightarrow> n = total_need needs i"
    using add_needs(1) [of "[]" needs i] add_needs(3) [of "[]" needs] by (auto simp: assms get_or_def dest!: map_of_is_SomeI [rotated])
  show "totals = [] \<longleftrightarrow> needs = []" using d by (metis image_is_empty set_empty)
qed

lemma findShortage_suffices:
  assumes "totals = foldl add_need [] needs" "loadInventoryItems tid b (map fst totals) db = Inr stocked" "findShortage totals stocked = Inr None"
  shows "stock_suffices tid b needs db"
  unfolding stock_suffices_def
proof
  fix i assume "i \<in> fst ` set needs"
  then have "i \<in> fst ` set totals" using needs_totals(1) [OF assms(1)] by simp
  then obtain n where n: "(i, n) \<in> set totals" by auto
  with assms(3) obtain a where a: "availableMinor stocked i = Inr a" "n \<le> a" unfolding findShortage_None by auto
  have "if stocked_at tid b i db then stock_level tid i db = Inr a else a = 0"
    by (rule availableMinor_level [OF assms(2) a(1)]) (use \<open>i \<in> fst ` set totals\<close> in simp)
  with a(2) needs_totals(2) [OF assms(1) n]
  show "\<exists>q. (if stocked_at tid b i db then stock_level tid i db = Inr q else q = 0) \<and> total_need needs i \<le> q" by blast
qed

lemma insertStockOverrideClaim_Inr:
  "insertStockOverrideClaim env claim db = Inr (x, db') \<longleftrightarrow> (\<forall>c\<in>set (db_claims db). cl_managerOverrideId c \<noteq> cl_managerOverrideId claim) \<and>
     env_reject env db (WClaim claim) = None \<and> db' = db\<lparr>db_claims := db_claims db @ [claim]\<rparr>"
  by (auto simp: insertStockOverrideClaim_def tx_simps)

lemma assertStocked_Inr:
  assumes "assertStocked input attempt totals stocked = Inr x"
  shows "attempt = None \<Longrightarrow> findShortage totals stocked = Inr None"
    "attempt = Some a \<Longrightarrow> \<forall>i\<in>fst ` set totals. stocked_item stocked i \<noteq> None"
proof -
  from assms obtain short where short: "findShortage totals stocked = Inr short" by (auto simp: assertStocked_def result_simps)
  show "attempt = None \<Longrightarrow> findShortage totals stocked = Inr None"
    using assms short by (cases short) (auto simp: assertStocked_def)
  show "attempt = Some a \<Longrightarrow> \<forall>i\<in>fst ` set totals. stocked_item stocked i \<noteq> None"
    using assms short by (auto simp: assertStocked_def find_None_iff split: option.splits)
qed

lemma uses_listed:
  assumes "length items = length lines" "list_all2 (\<lambda>p ms. \<exists>ns. f (snd p) = Inr ns \<and> list_all2 P (map (Pair (it_id (fst p))) ns) ms) (zip items lines) mss"
    "mapR f lines = Inr needs"
  shows "list_all2 P (line_uses items needs) (concat mss)"
  using assms
proof (induction items lines arbitrary: mss needs rule: list_induct2)
  case (Cons item items line lines)
  from Cons.prems obtain ms mss' ns needs' where "mss = ms # mss'" "needs = ns # needs'" "list_all2 P (map (Pair (it_id item)) ns) ms"
    "list_all2 (\<lambda>p ms. \<exists>ns. f (snd p) = Inr ns \<and> list_all2 P (map (Pair (it_id (fst p))) ns) ms) (zip items lines) mss'" "mapR f lines = Inr needs'"
    by (auto simp: list_all2_Cons1 result_simps)
  with Cons.IH show ?case by (auto simp: line_uses_def intro!: list_all2_appendI)
qed (simp add: line_uses_def)

lemma deductLines_Inr:
  assumes run: "tx_for (deductLine env tid input oid attempt stocked (groupRequirements (loadRecipeRequirements tid (collectRecipeOwners (no_items input)) db0)))
      (zip items (no_items input)) db = Inr (x, db')"
    and len: "length items = length (no_items input)" and needs: "order_needs tid input db0 = Inr needs"
  shows "\<exists>ms. db' = db\<lparr>db_stock := db_stock db @ ms\<rparr> \<and> list_all2 (deducts env tid input oid attempt) (line_uses items needs) ms"
proof -
  have "\<exists>mss. db' = db\<lparr>db_stock := db_stock db @ concat mss\<rparr> \<and> list_all2 (\<lambda>p ms. \<exists>ns. line_needs tid db0 (snd p) = Inr ns \<and>
      list_all2 (deducts env tid input oid attempt) (map (Pair (it_id (fst p))) ns) ms) (zip items (no_items input)) mss"
  proof (rule tx_for_appends [OF run])
    fix p db v db' assume p: "p \<in> set (zip items (no_items input))" and d: "deductLine env tid input oid attempt stocked
      (groupRequirements (loadRecipeRequirements tid (collectRecipeOwners (no_items input)) db0)) p db = Inr (v, db')"
    have "snd p \<in> set (no_items input)" using p set_zip_rightD [of "fst p" "snd p"] by simp
    with deductLine_Inr [OF d] show "\<exists>ms. db' = db\<lparr>db_stock := db_stock db @ ms\<rparr> \<and> (\<exists>ns. line_needs tid db0 (snd p) = Inr ns \<and>
        list_all2 (deducts env tid input oid attempt) (map (Pair (it_id (fst p))) ns) ms)" by (simp add: lineRequirements_needs)
  qed
  then obtain mss where db': "db' = db\<lparr>db_stock := db_stock db @ concat mss\<rparr>" and mss: "list_all2 (\<lambda>p ms. \<exists>ns. line_needs tid db0 (snd p) = Inr ns \<and>
      list_all2 (deducts env tid input oid attempt) (map (Pair (it_id (fst p))) ns) ms) (zip items (no_items input)) mss" by blast
  with uses_listed [OF len mss] needs show ?thesis unfolding order_needs_def by blast
qed

lemma deductStock_Inr:
  assumes run: "deductStock env tid input oid attempt items db = Inr (x, db')" and len: "length items = length (no_items input)"
  shows "\<exists>ms cs ps. stock_taken env tid input oid attempt items db ms cs ps \<and> db' = db\<lparr>db_stock := db_stock db @ ms, db_claims := db_claims db @ cs,
    db_consumptionCalls := db_consumptionCalls db @ ps\<rparr>"
proof -
  let ?lines = "loadRecipeRequirements tid (collectRecipeOwners (no_items input)) db"
  from run obtain totals where agg: "aggregateRequiredMinor ?lines (no_items input) = Inr totals" by (auto simp: deductStock_def tx_simps)
  from aggregate_needs [OF this] obtain needs where needs: "order_needs tid input db = Inr needs" and totals: "totals = foldl add_need [] (concat needs)" by blast
  show ?thesis
  proof (cases "totals = []")
    case True
    then have none: "concat needs = []" using needs_totals(3) [OF totals] by blast
    have "db' = db" using run agg True by (simp add: deductStock_def tx_simps)
    moreover have "stock_taken env tid input oid attempt items db [] [] []"
      unfolding stock_taken_def using needs none by (intro exI [of _ needs]) (auto simp: line_uses_def set_zip)
    ultimately show ?thesis by (intro exI [of _ "[]"]) simp
  next
    case False
    define claims where "claims = (case attempt of None \<Rightarrow> [] | Some a \<Rightarrow> [\<lparr>cl_managerOverrideId = a, cl_tenantId = tid, cl_orderId = oid\<rparr>])"
    from run agg False obtain stocked x1 db1 x2 db2 where stocked: "loadInventoryItems tid (no_branchId input) (map fst totals) db = Inr stocked"
      and ok: "assertStocked input attempt totals stocked = Inr x1"
      and claim: "(case attempt of None \<Rightarrow> tx_return () | Some a \<Rightarrow> insertStockOverrideClaim env \<lparr>cl_managerOverrideId = a, cl_tenantId = tid, cl_orderId = oid\<rparr>) db = Inr ((), db1)"
      and lines: "tx_for (deductLine env tid input oid attempt stocked (groupRequirements ?lines)) (zip items (no_items input)) db1 = Inr (x2, db2)"
      and post: "postInventoryConsumption env tid oid db2 = Inr (x, db')"
      by (auto simp: deductStock_def tx_simps)
    have db1: "db1 = db\<lparr>db_claims := db_claims db @ claims\<rparr>" using claim
      by (auto simp: claims_def tx_simps insertStockOverrideClaim_Inr split: option.splits)
    from deductLines_Inr [OF lines len needs] obtain ms where db2: "db2 = db1\<lparr>db_stock := db_stock db1 @ ms\<rparr>"
      and ms: "list_all2 (deducts env tid input oid attempt) (line_uses items needs) ms" by blast
    have db': "db' = db2\<lparr>db_consumptionCalls := db_consumptionCalls db2 @ [(tid, oid)]\<rparr>" using post by (auto simp: postInventoryConsumption_def tx_simps)
    have "concat needs \<noteq> []" using False needs_totals(3) [OF totals] by blast
    moreover have "attempt = None \<Longrightarrow> stock_suffices tid (no_branchId input) (concat needs) db"
      using findShortage_suffices [OF totals stocked] assertStocked_Inr(1) [OF ok] by blast
    moreover have "\<forall>i\<in>fst ` set (concat needs). stocked_at tid (no_branchId input) i db" if "attempt = Some a" for a
      using assertStocked_Inr(2) [OF ok that] stocked_items(1) [OF stocked] needs_totals(1) [OF totals] by blast
    moreover have "\<forall>c\<in>set (db_claims db). cl_managerOverrideId c \<noteq> a" if "attempt = Some a" for a
      using claim by (simp add: that insertStockOverrideClaim_Inr)
    ultimately have "stock_taken env tid input oid attempt items db ms claims [(tid, oid)]"
      unfolding stock_taken_def using needs ms by (intro exI [of _ needs]) (auto simp: claims_def split: option.splits)
    then show ?thesis using db' db2 db1 by (intro exI [of _ ms] exI [of _ claims] exI [of _ "[(tid, oid)]"]) simp
  qed
qed

section \<open>The order as a whole\<close>

text \<open>The gates: an active branch of the tenant, and an active member with an open shift there.\<close>

definition may_order :: "string \<Rightarrow> new_order_input \<Rightarrow> pos_db \<Rightarrow> branch_row \<Rightarrow> bool" where
  "may_order tid input db branch \<longleftrightarrow> loadBranch tid (no_branchId input) db = Some branch \<and> br_isActive branch \<and>
     userIsActiveTenantMember tid (no_cashierUserId input) db \<and> findOpenShiftForCashier tid (no_cashierUserId input) (no_branchId input) db \<noteq> None"

definition first_state :: "string \<Rightarrow> pos_db \<Rightarrow> tenant_workflow_state \<Rightarrow> bool" where
  "first_state tid db s \<longleftrightarrow> (let top = {s \<in> set (loadWorkflowStates tid True db). ws_parentKindCode s = None} in
     s \<in> top \<and> (\<forall>s'\<in>top. ws_position s \<le> ws_position s'))"

lemma creationGates_Inr: "creationGates tid input db = Inr (branch, db') \<longleftrightarrow> db' = db \<and> may_order tid input db branch"
  by (auto simp: creationGates_def may_order_def tx_simps)

lemma smallest_position: "smallest_position m ss \<in> set (m # ss) \<and> (\<forall>s\<in>set (m # ss). ws_position (smallest_position m ss) \<le> ws_position s)"
proof (induction m ss rule: smallest_position.induct)
  case (2 m s ss)
  then show ?case by (cases "ws_position s < ws_position m") fastforce+
qed simp

lemma initialTopLevelState_first:
  assumes "initialTopLevelState (loadWorkflowStates tid True db) = Some s"
  shows "first_state tid db s"
proof -
  from assms obtain t ts where f: "filter (\<lambda>s. ws_parentKindCode s = None) (loadWorkflowStates tid True db) = t # ts" and s: "s = smallest_position t ts"
    by (auto simp: initialTopLevelState_def split: list.splits)
  have "{s \<in> set (loadWorkflowStates tid True db). ws_parentKindCode s = None} = set (t # ts)"
    using arg_cong [OF f, of set] by auto
  then show ?thesis using smallest_position [of t ts] unfolding first_state_def Let_def s by blast
qed

text \<open>The taxes of the lines: one context and the rows of the resolution per line.\<close>

definition taxed :: "pos_env \<Rightarrow> string \<Rightarrow> tax_line_request list \<Rightarrow> tax_resolution list \<Rightarrow> pos_db \<Rightarrow> order_line_tax_context list \<Rightarrow> tax_snapshot_row list \<Rightarrow> bool" where
  "taxed env tid requests res db contexts rows \<longleftrightarrow>
     (\<exists>lines strategy calculated. list_all2 (\<lambda>req line. prepared_for env tid req db line) requests lines \<and>
        calculateCascadingTaxes (computations_of lines) strategy = Inr calculated \<and> contexts = map pp_context lines \<and>
        list_all2 (\<lambda>line r. case r of External e \<Rightarrow> pp_external line = Some e \<and> cx_liableParty (pp_context line) = marketplace
          | Resolved ts \<Rightarrow> cx_liableParty (pp_context line) = restaurant \<and> map_of calculated (cx_orderLineId (pp_context line)) = Some ts) lines res \<and>
        rows = concat (map2 (tax_rows tid db) contexts res))"

text \<open>
  All that one creation records: the order with its lines in the first state, a first event per line,
  at least one outbox event per line, the taxes and the use of stock. The order row is the new one; only on tables that break the keys of the
  schema could the triggers derive another status for it.
\<close>

definition order_recorded :: "pos_env \<Rightarrow> string \<Rightarrow> new_order_input \<Rightarrow> string option \<Rightarrow> pos_db \<Rightarrow> created_order \<Rightarrow> pos_db \<Rightarrow> bool" where
  "order_recorded env tid input attempt db c db' \<longleftrightarrow>
     (\<exists>branch state requests contexts rows moved claimed posted sequences events.
        let oid = o_id (cr_order c); items = map fst (cr_items c) in
        may_order tid input db branch \<and> first_state tid db state \<and>
        (\<forall>x\<in>set (db_orders db). o_id x \<noteq> oid) \<and> order_frame (cr_order c) = order_frame (newOrderRow env tid input state oid) \<and>
        (workflow_keys tid db \<longrightarrow> cr_order c = newOrderRow env tid input state oid) \<and>
        list_all2 (\<lambda>line (item, req). line_created env tid input branch oid (ws_id state) db line item req) (no_items input) (zip items requests) \<and>
        length requests = length items \<and> distinct (map it_id items) \<and> (\<forall>x\<in>set (db_items db). it_id x \<notin> it_id ` set items) \<and>
        taxed env tid requests (map snd (cr_items c)) db contexts rows \<and> stock_taken env tid input oid attempt items db moved claimed posted \<and>
        length items \<le> length events \<and>
        db' = db\<lparr>db_orders := db_orders db @ [cr_order c], db_items := db_items db @ items,
          db_statusEvents := db_statusEvents db @ map (first_event env) items, db_sequences := sequences, db_outbox := db_outbox db @ events,
          db_taxContexts := db_taxContexts db @ contexts, db_taxRows := db_taxRows db @ rows, db_stock := db_stock db @ moved,
          db_claims := db_claims db @ claimed, db_consumptionCalls := db_consumptionCalls db @ posted\<rparr>)"

definition same_tax_data :: "pos_db \<Rightarrow> pos_db \<Rightarrow> bool" where
  "same_tax_data db db' \<longleftrightarrow> db_tax db' = db_tax db \<and> db_branches db' = db_branches db \<and> db_tenants db' = db_tenants db \<and> db_menu db' = db_menu db"

lemma tax_reads_cong:
  assumes "same_tax_data db db'"
  shows "taxBranch tid req db' = taxBranch tid req db" "getVatRegistrationStatus tid db' = getVatRegistrationStatus tid db"
    "getMenuItemAssignment tid m db' = getMenuItemAssignment tid m db" "getCategory i db' = getCategory i db"
    "getBranchOverride tid b i db' = getBranchOverride tid b i db" "hasExciseConfirmation tid m i b db' = hasExciseConfirmation tid m i b db"
    "tenant_rates_on tid i on db' = tenant_rates_on tid i on db" "platform_rates_on i on db' = platform_rates_on i on db"
proof -
  have same: "db_tax db' = db_tax db" "db_branches db' = db_branches db" "db_tenants db' = db_tenants db" "db_menu db' = db_menu db"
    using assms by (simp_all add: same_tax_data_def)
  show "taxBranch tid req db' = taxBranch tid req db" "getVatRegistrationStatus tid db' = getVatRegistrationStatus tid db"
    "getMenuItemAssignment tid m db' = getMenuItemAssignment tid m db" "getCategory i db' = getCategory i db"
    "getBranchOverride tid b i db' = getBranchOverride tid b i db" "hasExciseConfirmation tid m i b db' = hasExciseConfirmation tid m i b db"
    "tenant_rates_on tid i on db' = tenant_rates_on tid i on db" "platform_rates_on i on db' = platform_rates_on i on db"
    unfolding taxBranch_def getBranch_def getVatRegistrationStatus_def getMenuItemAssignment_def getCategory_def
      getBranchOverride_def hasExciseConfirmation_def tenant_rates_on_def platform_rates_on_def same by (rule refl)+
qed

lemma prepared_for_cong:
  assumes "same_tax_data db db'"
  shows "prepared_for env tid req db' = prepared_for env tid req db"
proof -
  note reads = tax_reads_cong [OF assms]
  have "db_tax db' = db_tax db" using assms by (simp add: same_tax_data_def)
  then have 1: "rule_applies tid c req on db' = rule_applies tid c req on db" for c on
    unfolding rule_applies_def [abs_def] reads by simp
  have 2: "category_due tid c req db' = category_due tid c req db" for c unfolding category_due_def [abs_def] reads by (rule refl)
  have 3: "rate_due tid on db' = rate_due tid on db" for on unfolding rate_due_def [abs_def] reads by (rule refl)
  show ?thesis unfolding prepared_for_def [abs_def] liability_rule_def taxes_due_def reads 1 2 3 by (rule refl)
qed

lemma tax_rows_cong: "same_tax_data db db' \<Longrightarrow> tax_rows tid db' = tax_rows tid db"
  by (intro ext) (simp add: same_tax_data_def tax_rows_def snapshot_priority_def getCategory_def split: tax_resolution.split cong: option.case_cong if_cong)

lemma stock_taken_cong:
  assumes "db_menu db' = db_menu db" "db_inventory db' = db_inventory db" "db_stock db' = db_stock db" "db_claims db' = db_claims db"
  shows "stock_taken env tid input oid attempt items db' = stock_taken env tid input oid attempt items db"
proof -
  have "line_needs tid db' = line_needs tid db" using assms(1) by (intro ext) (simp add: line_needs_def recipe_of_def [abs_def])
  then have 1: "order_needs tid input db' = order_needs tid input db" by (simp add: order_needs_def)
  have 2: "stocked_at tid b i db' = stocked_at tid b i db" for b i using assms(2) by (simp add: stocked_at_def)
  have "stock_level tid i db' = stock_level tid i db" for i using assms(3) by (simp add: stock_level_def)
  then have "stock_suffices tid b needs db' = stock_suffices tid b needs db" for b needs by (simp add: stock_suffices_def 2)
  then show ?thesis unfolding stock_taken_def by (simp only: 1 2 assms(4))
qed

lemma resolveInvoice_taxed:
  assumes "resolveInvoiceAndSnapshot env tid requests db = Inr (res, db')" "same_tax_data db0 db"
  shows "map fst res = map tq_orderLineId requests" "distinct (map fst res)"
    "\<exists>contexts rows. taxed env tid requests (map snd res) db0 contexts rows \<and>
      db' = db\<lparr>db_taxContexts := db_taxContexts db @ contexts, db_taxRows := db_taxRows db @ rows\<rparr>"
proof -
  note R = resolveInvoice_Inr [OF assms(1)]
  then show ids: "map fst res = map tq_orderLineId requests" "distinct (map fst res)" by simp_all
  from R obtain lines strategy calculated where L: "list_all2 (\<lambda>req line. prepared_for env tid req db line) requests lines"
    "calculateCascadingTaxes (computations_of lines) strategy = Inr calculated"
    and P: "list_all2 (\<lambda>line (i, r). case r of External e \<Rightarrow> pp_external line = Some e \<and> cx_liableParty (pp_context line) = marketplace
         | Resolved ts \<Rightarrow> cx_liableParty (pp_context line) = restaurant \<and> map_of calculated i = Some ts) lines res"
    and db': "db' = db\<lparr>db_taxContexts := db_taxContexts db @ map pp_context lines,
         db_taxRows := db_taxRows db @ concat (map2 (tax_rows tid db) (map pp_context lines) (map snd res))\<rparr>" by blast
  have "map (cx_orderLineId \<circ> pp_context) lines = map tq_orderLineId requests"
    using L(1) by (induction rule: list_all2_induct) (auto simp: prepared_for_def taxContext_def)
  then have I: "map (cx_orderLineId \<circ> pp_context) lines = map fst res" using ids by simp
  have "list_all2 (\<lambda>line r. case r of External e \<Rightarrow> pp_external line = Some e \<and> cx_liableParty (pp_context line) = marketplace
         | Resolved ts \<Rightarrow> cx_liableParty (pp_context line) = restaurant \<and> map_of calculated (cx_orderLineId (pp_context line)) = Some ts) lines (map snd res)"
    using P I by (induction rule: list_all2_induct) (auto split: tax_resolution.splits)
  then have "taxed env tid requests (map snd res) db0 (map pp_context lines) (concat (map2 (tax_rows tid db) (map pp_context lines) (map snd res)))"
    unfolding taxed_def using L prepared_for_cong [OF assms(2)] tax_rows_cong [OF assms(2)] by auto
  with db' show "\<exists>contexts rows. taxed env tid requests (map snd res) db0 contexts rows \<and>
      db' = db\<lparr>db_taxContexts := db_taxContexts db @ contexts, db_taxRows := db_taxRows db @ rows\<rparr>" by blast
qed

text \<open>The taxes are found again by the line they are for.\<close>

lemma taxes_by_line:
  assumes "mapR (\<lambda>item. case map_of res (it_id item) of None \<Rightarrow> Inl TaxConfigurationError | Some taxes \<Rightarrow> Inr (item, taxes)) items = Inr ps"
    "map fst res = map it_id items" "distinct (map fst res)"
  shows "map fst ps = items \<and> map snd ps = map snd res"
proof -
  have all: "list_all2 (\<lambda>item p. fst p = item \<and> map_of res (it_id item) = Some (snd p)) items ps"
    using assms(1) unfolding mapR_all2 by (rule list_all2_mono) (auto split: option.splits)
  have len: "length res = length items" using arg_cong [OF assms(2), of length] by simp
  have "snd (ps ! n) = snd (res ! n)" if "n < length items" for n
  proof -
    have "fst (res ! n) = it_id (items ! n)" using arg_cong [OF assms(2), of "\<lambda>xs. xs ! n"] that len by simp
    then have "(it_id (items ! n), snd (res ! n)) \<in> set res" using that len nth_mem [of n res] by (metis prod.collapse)
    then have "map_of res (it_id (items ! n)) = Some (snd (res ! n))" using map_of_is_SomeI [OF assms(3)] by blast
    with all that show ?thesis by (auto simp: list_all2_conv_all_nth)
  qed
  with all len show ?thesis by (auto simp: list_all2_conv_all_nth intro!: nth_equalityI)
qed

lemma line_created_ids: "line_created env tid input branch oid st db line item req \<Longrightarrow> tq_orderLineId req = it_id item"
  by (auto simp: line_created_def lineTaxRequest_def)

text \<open>A new order has no lines yet, and its first state is the only top-level state of its kind.\<close>

lemma new_order_lines:
  assumes "workflow_keys tid db" "first_state tid db s" "\<forall>x\<in>set (db_orders db). o_id x \<noteq> oid"
  shows "top_states_unique tid db s" "lines_in tid oid st (db_items db)"
proof -
  from assms(2) have s: "s \<in> set (db_workflowStates db)" "ws_tenantId s = tid" "ws_parentKindCode s = None"
    by (auto simp: first_state_def loadWorkflowStates_def Let_def)
  with assms(1) show "top_states_unique tid db s" unfolding workflow_keys_def top_states_unique_def
    by (metis distinct_map inj_on_eq_iff)
  from assms(1,3) show "lines_in tid oid st (db_items db)" unfolding workflow_keys_def lines_in_def by metis
qed

lemma writeOrder_Inr:
  assumes "writeOrder env tid input attempt db = Inr (c, db')"
  shows "order_recorded env tid input attempt db c db'"
proof -
  let ?oid = "env_uuid env db"
  from assms obtain branch state db1 cs db2 res db3 ps x ord where gates: "may_order tid input db branch"
    and state: "initialTopLevelState (loadWorkflowStates tid True db) = Some state"
    and fresh: "\<forall>o'\<in>set (db_orders db). o_id o' \<noteq> ?oid" and db1: "db1 = db\<lparr>db_orders := db_orders db @ [newOrderRow env tid input state ?oid]\<rparr>"
    and items: "createItems env tid input branch ?oid (ws_id state) (no_items input) db1 = Inr (cs, db2)"
    and taxes: "resolveInvoiceAndSnapshot env tid (map snd cs) db2 = Inr (res, db3)"
    and found: "mapR (\<lambda>item. case map_of res (it_id item) of None \<Rightarrow> Inl TaxConfigurationError | Some taxes \<Rightarrow> Inr (item, taxes)) (map fst cs) = Inr ps"
    and stock: "deductStock env tid input ?oid attempt (map fst cs) db3 = Inr (x, db')"
    and ord: "loadOrder tid ?oid db' = Some ord" and c: "c = \<lparr>cr_order = ord, cr_items = ps\<rparr>"
    by (auto simp: writeOrder_def tx_simps creationGates_Inr insertOrder_Inr newOrderRow_def)
  from createItems_Inr [OF items] obtain os qs es where lines: "list_all2 (\<lambda>line c. line_created env tid input branch ?oid (ws_id state) db1 line (fst c) (snd c)) (no_items input) cs"
    and ids: "distinct (map (it_id \<circ> fst) cs)" "\<forall>c\<in>set cs. \<forall>i\<in>set (db_items db1). it_id i \<noteq> it_id (fst c)" and es: "length cs \<le> length es"
    and db2: "db2 = db1\<lparr>db_orders := os, db_items := db_items db1 @ map fst cs, db_statusEvents := db_statusEvents db1 @ map (first_event env \<circ> fst) cs,
      db_sequences := qs, db_outbox := db_outbox db1 @ es\<rparr>" and touched: "orders_touched tid ?oid (db_orders db1) os"
    and kept: "row_kept tid ?oid (ws_id state) db1 db2" by blast
  have menu: "line_created env tid input branch ?oid (ws_id state) db1 = line_created env tid input branch ?oid (ws_id state) db"
    by (rule line_created_cong) (simp add: db1)
  have "same_tax_data db db2" by (simp add: same_tax_data_def db2 db1)
  note T = resolveInvoice_taxed [OF taxes this]
  from T(3) obtain contexts rows where taxed: "taxed env tid (map snd cs) (map snd res) db contexts rows"
    and db3: "db3 = db2\<lparr>db_taxContexts := db_taxContexts db2 @ contexts, db_taxRows := db_taxRows db2 @ rows\<rparr>" by blast
  have "map tq_orderLineId (map snd cs) = map it_id (map fst cs)"
    using lines by (induction rule: list_all2_induct) (auto dest: line_created_ids)
  then have ps: "map fst ps = map fst cs" "map snd ps = map snd res" using taxes_by_line [OF found] T(1,2) by simp_all
  have "length (map fst cs) = length (no_items input)" using lines by (simp add: list_all2_lengthD)
  from deductStock_Inr [OF stock this] obtain ms ks qs' where taken: "stock_taken env tid input ?oid attempt (map fst cs) db3 ms ks qs'"
    and db': "db' = db3\<lparr>db_stock := db_stock db3 @ ms, db_claims := db_claims db3 @ ks, db_consumptionCalls := db_consumptionCalls db3 @ qs'\<rparr>" by blast
  have taken: "stock_taken env tid input ?oid attempt (map fst cs) db ms ks qs'"
    using taken stock_taken_cong [of db3 db] by (simp add: db3 db2 db1)
  from touched_last [of tid ?oid "db_orders db" "newOrderRow env tid input state ?oid" os] touched fresh obtain row where
    os: "os = db_orders db @ [row]" "order_frame row = order_frame (newOrderRow env tid input state ?oid)" by (auto simp: db1)
  have rid: "o_id row = ?oid" "o_tenantId row = tid" using order_frame_ids [OF os(2)] by (simp_all add: newOrderRow_def)
  have "db_orders db' = db_orders db @ [row]" by (simp add: db' db3 db2 os)
  then have "ord = row" using ord fresh rid find_row_None [of "\<lambda>x. o_tenantId x = tid \<and> o_id x = ?oid" "db_orders db"]
    by (auto simp: loadOrder_def find_row_append find_row_single)
  moreover have "row = newOrderRow env tid input state ?oid" if "workflow_keys tid db"
  proof -
    have "top_states_unique tid db1 state" "lines_in tid ?oid (ws_id state) (db_items db1)"
      using new_order_lines [OF that initialTopLevelState_first [OF state] fresh] by (simp_all add: db1 top_states_unique_def)
    moreover have "loadOrder tid ?oid db1 = Some (newOrderRow env tid input state ?oid)"
      using fresh find_row_None [of "\<lambda>x. o_tenantId x = tid \<and> o_id x = ?oid" "db_orders db"]
      by (simp add: loadOrder_def db1 find_row_append find_row_single newOrderRow_def)
    ultimately have "loadOrder tid ?oid db2 = Some (newOrderRow env tid input state ?oid)"
      using kept by (simp add: row_kept_def newOrderRow_def)
    then show ?thesis using ord \<open>ord = row\<close> by (simp add: loadOrder_def db' db3)
  qed
  ultimately show ?thesis unfolding order_recorded_def Let_def
    using gates initialTopLevelState_first [OF state] fresh os rid lines menu ids es taxed taken ps
    by (intro exI [of _ branch] exI [of _ state] exI [of _ "map snd cs"] exI [of _ contexts] exI [of _ rows] exI [of _ ms] exI [of _ ks] exI [of _ qs']
        exI [of _ qs] exI [of _ es]) (auto simp: c zip_map_fst_snd db' db3 db2 db1 comp_def case_prod_unfold image_image dest: map_eq_imp_length_eq)
qed

section \<open>A shortage\<close>

text \<open>The manager who lets stock run short: an active one of the tenant whose PIN was given, and who may adjust the stock of the branch.\<close>

definition shortage_approved :: "pos_env \<Rightarrow> string \<Rightarrow> new_order_input \<Rightarrow> pos_db \<Rightarrow> pos_db \<Rightarrow> string \<Rightarrow> bool" where
  "shortage_approved env tid input db db1 attempt \<longleftrightarrow>
     (\<exists>challenge u hash keys. no_managerOverride input = Some challenge \<and>
        env_coveredKeys env tid (mo_managerUserId challenge) (no_branchId input) [''inventory:adjust''] = Inr keys \<and> keys \<noteq> [] \<and>
        u \<in> set (db_users db) \<and> us_tenantId u = tid \<and> us_id u = mo_managerUserId challenge \<and> us_isActive u \<and> us_pinHash u = Some hash \<and>
        env_verifyPin env tid (mo_managerUserId challenge) (mo_managerOverridePin challenge) hash \<and>
        db_attempts db1 = db_attempts db @ [attempt_row env tid (mo_managerUserId challenge) (no_cashierUserId input) ''stock_override'' None attempt succeeded])"

lemma verifyLiveChallengeWithId_Inr:
  assumes "verifyLiveChallengeWithId env tid m pin a ctx oid db = (Inr (t, i), db')"
  shows "override_frame db db'" "db_attempts db' = db_attempts db @ [attempt_row env tid m a ctx oid i succeeded]"
    "\<exists>u\<in>set (db_users db). us_tenantId u = tid \<and> us_id u = m \<and> us_isActive u \<and> (\<exists>hash. us_pinHash u = Some hash \<and> env_verifyPin env tid m pin hash)"
proof -
  show "override_frame db db'" using op_ensuresD [OF challenge_frame(2) assms] .
  from assms obtain d where run: "runChallenge env tid m pin a ctx oid db = (Inr (d, i), db')" and d: "resolveChallengeDecision d = Inr t"
    by (auto simp: verifyLiveChallengeWithId_def tx_simps)
  have "verifyLiveChallenge env tid m pin a ctx oid db = (Inr t, db')" using run d by (simp add: verifyLiveChallenge_def tx_simps)
  from challenge_verified [OF this]
  show "\<exists>u\<in>set (db_users db). us_tenantId u = tid \<and> us_id u = m \<and> us_isActive u \<and> (\<exists>hash. us_pinHash u = Some hash \<and> env_verifyPin env tid m pin hash)" by blast
  from run have eff: "challenge_effect env tid m pin a ctx oid db d i db'" by (cases rule: runChallenge_cases) auto
  then have "challenge_outcome env tid m pin a db = succeeded" using d by (cases d) (auto simp: challenge_effect_def Let_def)
  with eff show "db_attempts db' = db_attempts db @ [attempt_row env tid m a ctx oid i succeeded]" by (simp add: challenge_effect_def Let_def)
qed

lemma overrideShortage_Inr:
  assumes "overrideShortage env tid input short db = (Inr attempt, db1)"
  shows "override_frame db db1" "attempt = None \<longleftrightarrow> short = None" "attempt = None \<Longrightarrow> db1 = db" "attempt = Some a \<Longrightarrow> shortage_approved env tid input db db1 a"
proof -
  have "override_frame db db1 \<and> (attempt = None \<longleftrightarrow> short = None) \<and> (attempt = None \<longrightarrow> db1 = db) \<and> (\<forall>a. attempt = Some a \<longrightarrow> shortage_approved env tid input db db1 a)"
  proof (cases short)
    case None
    with assms show ?thesis by (simp add: overrideShortage_def tx_simps overrides.refl)
  next
    case (Some s)
    with assms obtain challenge t i where ch: "no_managerOverride input = Some challenge"
      and cov: "coversAdjustment env tid (mo_managerUserId challenge) (no_branchId input) = Inr ()" and a: "attempt = Some i"
      and live: "verifyLiveChallengeWithId env tid (mo_managerUserId challenge) (mo_managerOverridePin challenge) (no_cashierUserId input) ''stock_override'' None db = (Inr (t, i), db1)"
      by (cases s; cases "no_managerOverride input") (auto simp: overrideShortage_def tx_simps)
    from cov obtain keys where "env_coveredKeys env tid (mo_managerUserId challenge) (no_branchId input) [''inventory:adjust''] = Inr keys" "keys \<noteq> []"
      by (auto simp: coversAdjustment_def split: sum.splits if_splits)
    with verifyLiveChallengeWithId_Inr [OF live] ch have "shortage_approved env tid input db db1 i" unfolding shortage_approved_def by blast
    with Some a verifyLiveChallengeWithId_Inr(1) [OF live] show ?thesis by simp
  qed
  then show "override_frame db db1" "attempt = None \<longleftrightarrow> short = None" "attempt = None \<Longrightarrow> db1 = db" "attempt = Some a \<Longrightarrow> shortage_approved env tid input db db1 a"
    by simp_all
qed

lemma preflight_Inr:
  assumes "preflight tid input db = Inr ((totals, stocked), db')"
  shows "db' = db \<and> (\<exists>branch. may_order tid input db branch) \<and> (\<exists>needs. order_needs tid input db = Inr needs \<and>
    (findShortage totals stocked = Inr None \<longrightarrow> stock_suffices tid (no_branchId input) (concat needs) db))"
proof -
  from assms obtain branch where b: "may_order tid input db branch" "db' = db" and r: "requirements tid input db = Inr totals"
    and st: "stockedFor tid input totals db = Inr stocked" by (auto simp: preflight_def tx_simps creationGates_Inr)
  from aggregate_needs [OF r [unfolded requirements_def]] obtain needs where n: "order_needs tid input db = Inr needs" "totals = foldl add_need [] (concat needs)" by blast
  have "stock_suffices tid (no_branchId input) (concat needs) db" if "findShortage totals stocked = Inr None"
  proof (cases "totals = []")
    case True
    then have "concat needs = []" using needs_totals(3) [OF n(2)] by blast
    then show ?thesis unfolding stock_suffices_def by (simp only: list.set image_empty ball_empty)
  next
    case False
    with st have "loadInventoryItems tid (no_branchId input) (map fst totals) db = Inr stocked" by (simp add: stockedFor_def)
    from findShortage_suffices [OF n(2) this that] show ?thesis .
  qed
  with b n show ?thesis by blast
qed

lemma createOrder_Inr:
  assumes "createOrder env tid input db = (Inr c, db')"
  shows "\<exists>attempt db1. override_frame db db1 \<and> order_recorded env tid input attempt db1 c db' \<and> assertOrderShape input = Inr () \<and>
    (case attempt of None \<Rightarrow> db1 = db | Some a \<Rightarrow> shortage_approved env tid input db db1 a)"
proof -
  from assms obtain totals stocked short attempt db0 db1 where shape: "assertOrderShape input = Inr ()"
    and pre: "preflight tid input db = Inr ((totals, stocked), db0)" and ov: "overrideShortage env tid input short db0 = (Inr attempt, db1)"
    and w: "writeOrder env tid input attempt db1 = Inr (c, db')"
    by (auto simp: createOrder_def tx_simps)
  have "db0 = db" using preflight_Inr [OF pre] by blast
  with ov have ov: "overrideShortage env tid input short db = (Inr attempt, db1)" by simp
  from overrideShortage_Inr [OF ov] writeOrder_Inr [OF w] shape show ?thesis
    by (intro exI [of _ attempt] exI [of _ db1]) (auto split: option.splits)
qed

section \<open>What is left in stock\<close>

lemma numeric4_sum_append: "numeric4_sum xs = Inr a \<Longrightarrow> numeric4_sum ys = Inr b \<Longrightarrow> numeric4_sum (xs @ ys) = Inr (a + b)"
proof (induction xs arbitrary: a)
  case (Cons x xs)
  from Cons.prems(1) obtain m r where "decimalTextToMinor x 4 ''numeric'' = Inr m" "numeric4_sum xs = Inr r" "a = m + r" by (auto simp: numeric4_sum_Cons)
  with Cons.IH Cons.prems(2) show ?case by (auto simp: numeric4_sum_Cons)
qed simp

lemma moved_level:
  "list_all2 (deducts env tid input oid attempt) uses ms \<Longrightarrow>
   numeric4_sum (map sm_quantityDelta (filter (\<lambda>m. sm_tenantId m = tid \<and> sm_inventoryItemId m = i) ms)) = Inr (- total_need (map snd uses) i)"
proof (induction rule: list_all2_induct)
  case (Cons u uses m ms)
  then show ?case by (cases u) (auto simp: deducts_def total_need_def numeric4_sum_Cons)
qed (simp add: total_need_def)

lemma line_uses_needs: "length items = length needs \<Longrightarrow> map snd (line_uses items needs) = concat needs"
  by (induction items needs rule: list_induct2) (simp_all add: line_uses_def comp_def)

lemma stock_level_after:
  assumes "list_all2 (deducts env tid input oid attempt) (line_uses items needs) ms" "length items = length needs"
    "stock_level tid i db = Inr q" "db_stock db' = db_stock db @ ms"
  shows "stock_level tid i db' = Inr (q - total_need (concat needs) i)"
  using numeric4_sum_append [OF assms(3) [unfolded stock_level_def] moved_level [OF assms(1), of i]]
  by (simp add: stock_level_def assms(4) line_uses_needs [OF assms(2)])

lemma order_needs_length: "order_needs tid input db = Inr needs \<Longrightarrow> length needs = length (no_items input)"
  unfolding order_needs_def mapR_all2 by (simp add: list_all2_lengthD)

lemma order_recorded_stock:
  assumes "order_recorded env tid input attempt db c db'"
  shows "\<exists>needs. order_needs tid input db = Inr needs \<and>
    (\<forall>i q. stock_level tid i db = Inr q \<longrightarrow> stock_level tid i db' = Inr (q - total_need (concat needs) i)) \<and>
    (\<forall>i\<in>fst ` set (concat needs). case attempt of
       None \<Rightarrow> (\<exists>q. stocked_at tid (no_branchId input) i db \<and> stock_level tid i db' = Inr q \<and> 0 \<le> q) \<or> total_need (concat needs) i \<le> 0
     | Some a \<Rightarrow> stocked_at tid (no_branchId input) i db \<and>
         filter (\<lambda>x. cl_managerOverrideId x = a) (db_claims db') = [\<lparr>cl_managerOverrideId = a, cl_tenantId = tid, cl_orderId = o_id (cr_order c)\<rparr>])"
proof -
  from assms obtain branch and state :: tenant_workflow_state and requests moved claimed posted where
    lines: "list_all2 (\<lambda>line (item, req). line_created env tid input branch (o_id (cr_order c)) (ws_id state) db line item req) (no_items input) (zip (map fst (cr_items c)) requests)"
    and len: "length requests = length (map fst (cr_items c))"
    and taken: "stock_taken env tid input (o_id (cr_order c)) attempt (map fst (cr_items c)) db moved claimed posted"
    and db': "db_stock db' = db_stock db @ moved" "db_claims db' = db_claims db @ claimed"
    unfolding order_recorded_def Let_def by (elim exE conjE) (rule that, assumption+, simp_all)
  from taken obtain needs where needs: "order_needs tid input db = Inr needs"
    and moved: "list_all2 (deducts env tid input (o_id (cr_order c)) attempt) (line_uses (map fst (cr_items c)) needs) moved"
    and if_used: "concat needs \<noteq> [] \<Longrightarrow> (case attempt of None \<Rightarrow> claimed = [] \<and> stock_suffices tid (no_branchId input) (concat needs) db
       | Some a \<Rightarrow> claimed = [\<lparr>cl_managerOverrideId = a, cl_tenantId = tid, cl_orderId = o_id (cr_order c)\<rparr>] \<and>
                (\<forall>c\<in>set (db_claims db). cl_managerOverrideId c \<noteq> a) \<and> (\<forall>i\<in>fst ` set (concat needs). stocked_at tid (no_branchId input) i db))"
    unfolding stock_taken_def by (auto split: if_splits)
  have "length (map fst (cr_items c)) = length needs"
    using list_all2_lengthD [OF lines] len order_needs_length [OF needs] by simp
  note after = stock_level_after [OF moved this _ db'(1)]
  show ?thesis
  proof (intro exI [of _ needs] conjI allI impI ballI)
    fix i assume i: "i \<in> fst ` set (concat needs)"
    then have "concat needs \<noteq> []" by (metis empty_iff image_empty list.set(1))
    note used = if_used [OF this]
    show "case attempt of None \<Rightarrow> (\<exists>q. stocked_at tid (no_branchId input) i db \<and> stock_level tid i db' = Inr q \<and> 0 \<le> q) \<or> total_need (concat needs) i \<le> 0
     | Some a \<Rightarrow> stocked_at tid (no_branchId input) i db \<and>
         filter (\<lambda>x. cl_managerOverrideId x = a) (db_claims db') = [\<lparr>cl_managerOverrideId = a, cl_tenantId = tid, cl_orderId = o_id (cr_order c)\<rparr>]"
    proof (cases attempt)
      case None
      with used i obtain q where "if stocked_at tid (no_branchId input) i db then stock_level tid i db = Inr q else q = 0" "total_need (concat needs) i \<le> q"
        unfolding stock_suffices_def by auto
      then show ?thesis using after [of i q] by (auto simp: None split: if_splits)
    next
      case (Some a)
      with used i show ?thesis by (auto simp: db'(2) filter_empty_conv)
    qed
  qed (simp_all add: needs after)
qed


lemma override_keeps_stock:
  assumes "override_frame db db1"
  shows "order_needs tid input db1 = order_needs tid input db" "stock_level tid i db1 = stock_level tid i db" "stocked_at tid b i db1 = stocked_at tid b i db"
proof -
  have same: "db_menu db1 = db_menu db" "db_stock db1 = db_stock db" "db_inventory db1 = db_inventory db"
    using assms by (auto simp: override_frame_def)
  have "line_needs tid db1 = line_needs tid db" by (intro ext) (simp add: line_needs_def recipe_of_def [abs_def] same)
  then show "order_needs tid input db1 = order_needs tid input db" by (simp add: order_needs_def)
  show "stock_level tid i db1 = stock_level tid i db" "stocked_at tid b i db1 = stocked_at tid b i db" by (simp_all add: stock_level_def stocked_at_def same)
qed



section \<open>The properties\<close>


text \<open>
  C7. No oversold stock: an order takes from each component exactly what the recipes of its lines and modifiers need, times
  their quantities. A component it uses stays at or above zero, unless a manager who may adjust the stock of the branch approved the shortage with a
  live PIN; then every component is one of the branch, and the approval is claimed by this order alone.
\<close>

theorem order_stock_safe:
  assumes "createOrder env tid input db = (Inr c, db')"
  shows "\<exists>needs. order_needs tid input db = Inr needs \<and>
    (\<forall>i q. stock_level tid i db = Inr q \<longrightarrow> stock_level tid i db' = Inr (q - total_need (concat needs) i)) \<and>
    (\<forall>i\<in>fst ` set (concat needs).
       (\<exists>q. stocked_at tid (no_branchId input) i db \<and> stock_level tid i db' = Inr q \<and> 0 \<le> q) \<or> total_need (concat needs) i \<le> 0 \<or>
       (\<exists>a db1. shortage_approved env tid input db db1 a \<and> stocked_at tid (no_branchId input) i db \<and>
         filter (\<lambda>x. cl_managerOverrideId x = a) (db_claims db') = [\<lparr>cl_managerOverrideId = a, cl_tenantId = tid, cl_orderId = o_id (cr_order c)\<rparr>]))"
proof -
  from createOrder_Inr [OF assms] obtain attempt db1 where fr: "override_frame db db1" and rec: "order_recorded env tid input attempt db1 c db'"
    and ap: "case attempt of None \<Rightarrow> db1 = db | Some a \<Rightarrow> shortage_approved env tid input db db1 a" by blast
  note keep = override_keeps_stock [OF fr]
  from order_recorded_stock [OF rec, unfolded keep] obtain needs where N: "order_needs tid input db = Inr needs"
    "\<forall>i q. stock_level tid i db = Inr q \<longrightarrow> stock_level tid i db' = Inr (q - total_need (concat needs) i)"
    and used: "\<forall>i\<in>fst ` set (concat needs). case attempt of
       None \<Rightarrow> (\<exists>q. stocked_at tid (no_branchId input) i db \<and> stock_level tid i db' = Inr q \<and> 0 \<le> q) \<or> total_need (concat needs) i \<le> 0
     | Some a \<Rightarrow> stocked_at tid (no_branchId input) i db \<and>
         filter (\<lambda>x. cl_managerOverrideId x = a) (db_claims db') = [\<lparr>cl_managerOverrideId = a, cl_tenantId = tid, cl_orderId = o_id (cr_order c)\<rparr>]" by blast
  show ?thesis
  proof (intro exI [of _ needs] conjI ballI)
    fix i assume "i \<in> fst ` set (concat needs)"
    with used ap show "(\<exists>q. stocked_at tid (no_branchId input) i db \<and> stock_level tid i db' = Inr q \<and> 0 \<le> q) \<or> total_need (concat needs) i \<le> 0 \<or>
       (\<exists>a db1. shortage_approved env tid input db db1 a \<and> stocked_at tid (no_branchId input) i db \<and>
         filter (\<lambda>x. cl_managerOverrideId x = a) (db_claims db') = [\<lparr>cl_managerOverrideId = a, cl_tenantId = tid, cl_orderId = o_id (cr_order c)\<rparr>])"
      by (cases attempt) fastforce+
  qed (use N in blast)+
qed

definition example_line :: "string \<Rightarrow> new_order_item_line" where
  "example_line m = \<lparr>nl_menuItemId = m, nl_quantity = JInt 3, nl_unitPriceMinor = None, nl_modifiers = [], nl_splitGroupId = None\<rparr>"

definition example_new_order :: "manager_override_challenge_input option \<Rightarrow> new_order_input" where
  "example_new_order challenge = \<lparr>no_branchId = ''b1'', no_cashierUserId = ''c1'', no_orderType = dine_in, no_salesChannelCode = ''dine_in'',
     no_deliveryPlatformId = None, no_tableId = None, no_splitPeopleCount = None, no_items = [example_line ''food''],
     no_occurredAt = None, no_managerOverride = challenge\<rparr>"

definition example_stocked_db :: pos_db where
  "example_stocked_db = example_db\<lparr>db_stock := db_stock example_db @
     [(example_movement ''g1'' ''i1'' ''rice'' manual_receiving ''4.0000'')\<lparr>sm_orderId := None, sm_orderItemId := None\<rparr>]\<rparr>"

lemma example_creates:
  "isOk (fst (createOrder example_env ''t1'' (example_new_order None) example_stocked_db))"
  "isOk (fst (createOrder example_env ''t1'' (example_new_order (Some \<lparr>mo_managerUserId = ''m1'', mo_managerOverridePin = ''4711''\<rparr>)) example_db))"
  "fst (createOrder example_env ''t1'' (example_new_order None) example_db) = Inl (InsufficientStockError ''Rice'' ''rice'' ''b1'')"
  by code_simp+

lemma isOk_fst: "isOk (fst p) \<Longrightarrow> \<exists>x s. p = (Inr x, s)"
  by (cases p; cases "fst p") auto


theorem order_stock_safe_witness:
  "\<exists>input c db' a db1. createOrder example_env ''t1'' input example_db = (Inr c, db') \<and> stock_level ''t1'' ''rice'' db' = Inr (-30000) \<and>
     shortage_approved example_env ''t1'' input example_db db1 a"
proof -
  let ?input = "example_new_order (Some \<lparr>mo_managerUserId = ''m1'', mo_managerOverridePin = ''4711''\<rparr>)"
  from isOk_fst [OF example_creates(2)] obtain c db' where run: "createOrder example_env ''t1'' ?input example_db = (Inr c, db')" by blast
  have "order_needs ''t1'' ?input example_db = Inr [[(''rice'', 15000)]]" by code_simp
  moreover have "stock_level ''t1'' ''rice'' example_db = Inr (-15000)" by code_simp
  ultimately obtain a db1 where "stock_level ''t1'' ''rice'' db' = Inr (-30000)" "shortage_approved example_env ''t1'' ?input example_db db1 a"
    using order_stock_safe [OF run] by (fastforce simp: total_need_def)
  with run show ?thesis by blast
qed

end
