(* ===== verification/Jwt.thy ===== *)
theory Jwt
  imports Json_Text
begin

text \<open>
  Models of \<^verbatim>\<open>src/shared/auth/jwt.ts\<close> and \<^verbatim>\<open>src/shared/auth/token-service.ts\<close>: signing and verification of the access and refresh
  tokens. The signature primitives of \<^verbatim>\<open>node:crypto\<close> for a fixed pair of keys, the encoding of a segment and \<open>JSON.parse\<close> of a decoded
  one are parameters; what the code relies on is \<open>sound_codec\<close>. Numbers in a payload are integers.
\<close>

section \<open>Algorithms and claims\<close>

datatype jwt_algorithm = RS256 | ES256

definition JWT_ALGORITHMS :: "jwt_algorithm list" where
  "JWT_ALGORITHMS = [RS256, ES256]"

fun algorithm_name :: "jwt_algorithm \<Rightarrow> string" where
  "algorithm_name RS256 = ''RS256''"
| "algorithm_name ES256 = ''ES256''"

definition algorithm_named :: "string \<Rightarrow> jwt_algorithm option" where
  "algorithm_named n = find (\<lambda>a. algorithm_name a = n) JWT_ALGORITHMS"

datatype jwt_claims =
    is_AccessTokenClaims: AccessTokenClaims (jc_sub: string) (jc_tid: string) (jc_secV: string) (jc_iat: int) (jc_exp: int)
  | is_RefreshTokenClaims: RefreshTokenClaims (jc_sub: string) (jc_tid: string) (jc_secV: string) (jc_jti: string) (jc_fam: string) (jc_iat: int) (jc_exp: int)

text \<open>The claim set as it is signed.\<close>

fun claims_json :: "jwt_claims \<Rightarrow> json" where
  "claims_json (AccessTokenClaims s t v i x) =
     JsObj [(''typ'', JsStr ''access''), (''sub'', JsStr s), (''tid'', JsStr t), (''sec_v'', JsStr v), (''iat'', JsNum i), (''exp'', JsNum x)]"
| "claims_json (RefreshTokenClaims s t v j f i x) =
     JsObj [(''typ'', JsStr ''refresh''), (''sub'', JsStr s), (''tid'', JsStr t), (''sec_v'', JsStr v), (''jti'', JsStr j), (''fam'', JsStr f),
       (''iat'', JsNum i), (''exp'', JsNum x)]"

record jwt_crypto =
  jx_base64Url :: "string \<Rightarrow> string"
  jx_parse :: "string \<Rightarrow> json option"
  jx_sign :: "jwt_algorithm \<Rightarrow> string \<Rightarrow> string"
  jx_verify :: "jwt_algorithm \<Rightarrow> string \<Rightarrow> string \<Rightarrow> bool"

definition signJwt :: "jwt_crypto \<Rightarrow> json \<Rightarrow> jwt_algorithm \<Rightarrow> string" where
  "signJwt crypto claims algorithm =
     (let headerSegment = jx_base64Url crypto (stringify (JsObj [(''alg'', JsStr (algorithm_name algorithm)), (''typ'', JsStr ''JWT'')]));
          payloadSegment = jx_base64Url crypto (stringify claims);
          signingInput = headerSegment @ ''.'' @ payloadSegment
      in signingInput @ ''.'' @ jx_sign crypto algorithm signingInput)"

section \<open>Verification\<close>

fun segments :: "string \<Rightarrow> string list" where
  "segments [] = [[]]"
| "segments (c # cs) = (if c = CHR ''.'' then [] # segments cs else (case segments cs of [] \<Rightarrow> [[c]] | s # ss \<Rightarrow> (c # s) # ss))"

fun isRecord :: "json \<Rightarrow> bool" where
  "isRecord (JsObj _) = True"
| "isRecord _ = False"

fun js_members :: "json \<Rightarrow> (string \<times> json) list" where
  "js_members (JsObj ms) = ms"
| "js_members _ = []"

record decoded_token =
  dt_header :: json
  dt_payload :: json
  dt_signingInput :: string
  dt_signatureSegment :: string

definition decodeToken :: "jwt_crypto \<Rightarrow> string \<Rightarrow> decoded_token result" where
  "decodeToken crypto token =
     (case segments token of
        [headerSegment, payloadSegment, signatureSegment] \<Rightarrow>
          if [] \<in> {headerSegment, payloadSegment, signatureSegment} then Inl (ForeignError ''malformed token'')
          else (case (jx_parse crypto headerSegment, jx_parse crypto payloadSegment) of
                  (Some h, Some p) \<Rightarrow>
                    if \<not> isRecord p then Inl (ForeignError ''malformed token claims'')
                    else if \<not> isRecord h then Inl (ForeignError ''malformed token header'')
                    else Inr \<lparr>dt_header = h, dt_payload = p, dt_signingInput = headerSegment @ ''.'' @ payloadSegment,
                           dt_signatureSegment = signatureSegment\<rparr>
                | _ \<Rightarrow> Inl (ForeignError ''malformed token encoding''))
      | _ \<Rightarrow> Inl (ForeignError ''malformed token''))"

definition pinnedAlgorithm :: "jwt_algorithm list \<Rightarrow> json \<Rightarrow> jwt_algorithm result" where
  "pinnedAlgorithm allowed header =
     (case map_of (js_members header) ''alg'' of
        Some (JsStr n) \<Rightarrow>
          (case algorithm_named n of
             None \<Rightarrow> Inl (ForeignError ''unsupported or missing token algorithm'')
           | Some a \<Rightarrow> if a \<in> set allowed then Inr a else Inl (ForeignError ''algorithm is not in the verification allow-list''))
      | _ \<Rightarrow> Inl (ForeignError ''unsupported or missing token algorithm''))"

definition FORBIDDEN_CLAIMS :: "string list" where
  "FORBIDDEN_CLAIMS = [''password_hash'', ''passwordHash'', ''pin_hash'', ''pinHash'', ''pepper'', ''password'', ''pin'']"

text \<open>A claim of type string, or of type number.\<close>

definition text_claim :: "(string \<times> json) list \<Rightarrow> string \<Rightarrow> string option" where
  "text_claim claims k = (case map_of claims k of Some (JsStr s) \<Rightarrow> Some s | _ \<Rightarrow> None)"

definition number_claim :: "(string \<times> json) list \<Rightarrow> string \<Rightarrow> int option" where
  "number_claim claims k = (case map_of claims k of Some (JsNum n) \<Rightarrow> Some n | _ \<Rightarrow> None)"

definition readClaims :: "(string \<times> json) list \<Rightarrow> int \<Rightarrow> jwt_claims result" where
  "readClaims claims now =
     (case number_claim claims ''exp'' of
        None \<Rightarrow> Inl (ForeignError ''token expired or missing exp'')
      | Some x \<Rightarrow>
          if x \<le> now then Inl (ForeignError ''token expired or missing exp'')
          else (case (text_claim claims ''sub'', text_claim claims ''tid'', text_claim claims ''sec_v'') of
            (Some sub, Some tid, Some secV) \<Rightarrow>
              if text_claim claims ''typ'' \<notin> {Some ''access'', Some ''refresh''} then Inl (ForeignError ''token has unknown typ'')
              else if list_ex (\<lambda>k. map_of claims k \<noteq> None) FORBIDDEN_CLAIMS then Inl (ForeignError ''token must not carry secret material'')
              else
                let iat = (case number_claim claims ''iat'' of Some i \<Rightarrow> i | None \<Rightarrow> now) in
                if text_claim claims ''typ'' = Some ''refresh''
                then (case (text_claim claims ''jti'', text_claim claims ''fam'') of
                        (Some jti, Some fam) \<Rightarrow> Inr (RefreshTokenClaims sub tid secV jti fam iat x)
                      | _ \<Rightarrow> Inl (ForeignError ''refresh token missing jti/family''))
                else Inr (AccessTokenClaims sub tid secV iat x)
          | _ \<Rightarrow> Inl (ForeignError ''token missing required claims'')))"

definition verifyJwt :: "jwt_crypto \<Rightarrow> string \<Rightarrow> jwt_algorithm list \<Rightarrow> int \<Rightarrow> jwt_claims result" where
  "verifyJwt crypto token allowed now =
     andThen (decodeToken crypto token) (\<lambda>decoded.
     andThen (pinnedAlgorithm allowed (dt_header decoded)) (\<lambda>alg.
     if \<not> jx_verify crypto alg (dt_signingInput decoded) (dt_signatureSegment decoded) then Inl (ForeignError ''signature verification failed'')
     else readClaims (js_members (dt_payload decoded)) now))"

section \<open>The token service\<close>

record token_service =
  sv_crypto :: jwt_crypto
  sv_algorithm :: jwt_algorithm
  sv_accessTtl :: int
  sv_refreshTtl :: int

definition DEFAULT_ACCESS_TOKEN_TTL_SECONDS :: int where
  "DEFAULT_ACCESS_TOKEN_TTL_SECONDS = 15 * 60"

definition DEFAULT_REFRESH_TOKEN_TTL_SECONDS :: int where
  "DEFAULT_REFRESH_TOKEN_TTL_SECONDS = 30 * 24 * 60 * 60"

definition issueAccessToken :: "token_service \<Rightarrow> string \<Rightarrow> string \<Rightarrow> string \<Rightarrow> int \<Rightarrow> string" where
  "issueAccessToken sv tenantId userId secV now =
     (let iat = now div 1000 in
      signJwt (sv_crypto sv) (claims_json (AccessTokenClaims userId tenantId secV iat (iat + sv_accessTtl sv))) (sv_algorithm sv))"

definition issueRefreshToken :: "token_service \<Rightarrow> string \<Rightarrow> string \<Rightarrow> string \<Rightarrow> string \<Rightarrow> string \<Rightarrow> int \<Rightarrow> string" where
  "issueRefreshToken sv tenantId userId secV jti familyId now =
     (let iat = now div 1000 in
      signJwt (sv_crypto sv) (claims_json (RefreshTokenClaims userId tenantId secV jti familyId iat (iat + sv_refreshTtl sv))) (sv_algorithm sv))"

definition verifyRefreshToken :: "token_service \<Rightarrow> string \<Rightarrow> int \<Rightarrow> jwt_claims result" where
  "verifyRefreshToken sv token now =
     andThen (verifyJwt (sv_crypto sv) token JWT_ALGORITHMS (now div 1000)) (\<lambda>claims.
     if is_RefreshTokenClaims claims then Inr claims else Inl (ForeignError ''token is not a refresh token''))"

section \<open>What verification accepts\<close>

lemma algorithm_named_iff: "algorithm_named n = Some a \<longleftrightarrow> n = algorithm_name a"
  by (cases a) (auto simp: algorithm_named_def JWT_ALGORITHMS_def)

lemma segments_dotless: "CHR ''.'' \<notin> set s \<Longrightarrow> segments s = [s]"
  by (induction s) auto

lemma segments_dot: "CHR ''.'' \<notin> set s \<Longrightarrow> segments (s @ ''.'' @ t) = s # segments t"
  by (induction s) auto

lemma segments_join: "segments t \<noteq> [] \<and> concat (map (\<lambda>s. CHR ''.'' # s) (segments t)) = CHR ''.'' # t"
proof (induction t)
  case (Cons c t)
  then show ?case by (cases "segments t") auto
qed simp

lemma segments_three: "segments t = [h, p, s] \<Longrightarrow> t = h @ ''.'' @ p @ ''.'' @ s"
  using segments_join [of t] by simp

lemma readClaims_Inr:
  assumes "readClaims ms now = Inr claims"
  shows "text_claim ms ''sub'' = Some (jc_sub claims) \<and> text_claim ms ''tid'' = Some (jc_tid claims) \<and>
    text_claim ms ''sec_v'' = Some (jc_secV claims) \<and> number_claim ms ''exp'' = Some (jc_exp claims) \<and> now < jc_exp claims \<and>
    (\<forall>k\<in>set FORBIDDEN_CLAIMS. map_of ms k = None) \<and>
    text_claim ms ''typ'' = Some (if is_RefreshTokenClaims claims then ''refresh'' else ''access'') \<and>
    (is_RefreshTokenClaims claims \<longrightarrow> text_claim ms ''jti'' = Some (jc_jti claims) \<and> text_claim ms ''fam'' = Some (jc_fam claims))"
  using assms unfolding readClaims_def Let_def
  by (auto simp: list_ex_iff split: option.splits if_splits)

text \<open>
  C34. Accepted tokens: a token that verifies consists of three non-empty segments, names an algorithm of the allow-list (never a
  symmetric one), and its last segment verifies, under that very algorithm, over the first two. Its claims are those of the signed payload,
  each of its type, not expired, and the payload carries no secret material.
\<close>

theorem verifyJwt_sound:
  assumes "verifyJwt crypto token allowed now = Inr claims"
  shows "\<exists>h p sig alg hs ms. token = h @ ''.'' @ p @ ''.'' @ sig \<and> h \<noteq> [] \<and> p \<noteq> [] \<and> sig \<noteq> [] \<and>
    jx_parse crypto h = Some (JsObj hs) \<and> jx_parse crypto p = Some (JsObj ms) \<and>
    text_claim hs ''alg'' = Some (algorithm_name alg) \<and> alg \<in> set allowed \<and> jx_verify crypto alg (h @ ''.'' @ p) sig \<and>
    text_claim ms ''sub'' = Some (jc_sub claims) \<and> text_claim ms ''tid'' = Some (jc_tid claims) \<and>
    text_claim ms ''sec_v'' = Some (jc_secV claims) \<and> number_claim ms ''exp'' = Some (jc_exp claims) \<and> now < jc_exp claims \<and>
    text_claim ms ''typ'' = Some (if is_RefreshTokenClaims claims then ''refresh'' else ''access'') \<and>
    (is_RefreshTokenClaims claims \<longrightarrow> text_claim ms ''jti'' = Some (jc_jti claims) \<and> text_claim ms ''fam'' = Some (jc_fam claims)) \<and>
    (\<forall>k\<in>{''password_hash'', ''passwordHash'', ''pin_hash'', ''pinHash'', ''pepper'', ''password'', ''pin''}. map_of ms k = None)"
proof -
  from assms obtain d alg where d: "decodeToken crypto token = Inr d" and a: "pinnedAlgorithm allowed (dt_header d) = Inr alg"
    and v: "jx_verify crypto alg (dt_signingInput d) (dt_signatureSegment d)" and c: "readClaims (js_members (dt_payload d)) now = Inr claims"
    by (auto simp: verifyJwt_def result_simps)
  from d obtain h p sig where seg: "segments token = [h, p, sig]" "h \<noteq> []" "p \<noteq> []" "sig \<noteq> []"
    and parse: "jx_parse crypto h = Some (dt_header d)" "jx_parse crypto p = Some (dt_payload d)" "isRecord (dt_header d)" "isRecord (dt_payload d)"
    and inp: "dt_signingInput d = h @ ''.'' @ p" "dt_signatureSegment d = sig"
    by (auto simp: decodeToken_def split: list.splits option.splits if_splits)
  from parse(3,4) obtain hs ms where hs: "dt_header d = JsObj hs" "dt_payload d = JsObj ms"
    by (cases "dt_header d"; cases "dt_payload d") auto
  from a have alg: "text_claim hs ''alg'' = Some (algorithm_name alg)" "alg \<in> set allowed"
    by (auto simp: pinnedAlgorithm_def hs text_claim_def algorithm_named_iff split: option.splits json.splits if_splits)
  from c have "readClaims ms now = Inr claims" by (simp add: hs)
  from readClaims_Inr [OF this] show ?thesis
    using segments_three [OF seg(1)] seg(2-4) parse(1,2) alg v inp hs unfolding FORBIDDEN_CLAIMS_def
    by (intro exI [of _ h] exI [of _ p] exI [of _ sig] exI [of _ alg] exI [of _ hs] exI [of _ ms]) simp
qed

section \<open>Issued tokens verify\<close>

text \<open>
  What the code relies on: an encoded segment is not empty, has no dot and decodes to the value it was made from, and a signature
  verifies under the algorithm it was made with.
\<close>

definition sound_codec :: "jwt_crypto \<Rightarrow> bool" where
  "sound_codec crypto \<longleftrightarrow>
     (\<forall>j. let s = jx_base64Url crypto (stringify j) in s \<noteq> [] \<and> CHR ''.'' \<notin> set s \<and> jx_parse crypto s = Some j) \<and>
     (\<forall>a t. jx_sign crypto a t \<noteq> [] \<and> CHR ''.'' \<notin> set (jx_sign crypto a t) \<and> jx_verify crypto a t (jx_sign crypto a t))"

lemma verifyJwt_signed:
  assumes "sound_codec crypto" "alg \<in> set allowed"
  shows "verifyJwt crypto (signJwt crypto (JsObj ms) alg) allowed now = readClaims ms now"
proof -
  let ?enc = "\<lambda>j. jx_base64Url crypto (stringify j)"
  let ?h = "JsObj [(''alg'', JsStr (algorithm_name alg)), (''typ'', JsStr ''JWT'')]"
  let ?in = "?enc ?h @ ''.'' @ ?enc (JsObj ms)"
  have enc: "?enc j \<noteq> []" "CHR ''.'' \<notin> set (?enc j)" "jx_parse crypto (?enc j) = Some j" for j
    using assms(1) unfolding sound_codec_def Let_def by blast+
  have sig: "jx_sign crypto a t \<noteq> []" "CHR ''.'' \<notin> set (jx_sign crypto a t)" "jx_verify crypto a t (jx_sign crypto a t)" for a t
    using assms(1) unfolding sound_codec_def by blast+
  have "signJwt crypto (JsObj ms) alg = ?enc ?h @ ''.'' @ ?enc (JsObj ms) @ ''.'' @ jx_sign crypto alg ?in"
    by (simp add: signJwt_def Let_def)
  then have "segments (signJwt crypto (JsObj ms) alg) = [?enc ?h, ?enc (JsObj ms), jx_sign crypto alg ?in]"
    by (simp only: segments_dot segments_dotless enc(2) sig(2) not_False_eq_True)
  then have "decodeToken crypto (signJwt crypto (JsObj ms) alg) = Inr \<lparr>dt_header = ?h, dt_payload = JsObj ms, dt_signingInput = ?in,
      dt_signatureSegment = jx_sign crypto alg ?in\<rparr>"
    using enc(1) [THEN not_sym] sig(1) [THEN not_sym] by (simp add: decodeToken_def enc(3) del: stringify.simps)
  moreover have "pinnedAlgorithm allowed ?h = Inr alg" using assms(2) by (simp add: pinnedAlgorithm_def algorithm_named_iff [THEN iffD2])
  ultimately show ?thesis using sig(3) by (simp add: verifyJwt_def del: stringify.simps)
qed

lemma readClaims_json: "readClaims (js_members (claims_json claims)) now = (if jc_exp claims \<le> now then Inl (ForeignError ''token expired or missing exp'') else Inr claims)"
  by (cases claims) (simp_all add: readClaims_def text_claim_def number_claim_def FORBIDDEN_CLAIMS_def Let_def)

lemma claims_json_members: "claims_json claims = JsObj (js_members (claims_json claims))"
  by (cases claims) simp_all

lemma verify_issued:
  assumes "sound_codec (sv_crypto sv)"
  shows "verifyJwt (sv_crypto sv) (signJwt (sv_crypto sv) (claims_json c) (sv_algorithm sv)) JWT_ALGORITHMS now =
      (if jc_exp c \<le> now then Inl (ForeignError ''token expired or missing exp'') else Inr c)"
proof -
  have "sv_algorithm sv \<in> set JWT_ALGORITHMS" by (cases "sv_algorithm sv") (simp_all add: JWT_ALGORITHMS_def)
  from verifyJwt_signed [OF assms this, of "js_members (claims_json c)" now] show ?thesis
    by (simp only: claims_json_members [symmetric] readClaims_json)
qed

lemma verify_issued_refresh:
  assumes "sound_codec (sv_crypto sv)"
  shows "verifyRefreshToken sv (issueRefreshToken sv tid uid secV jti fam at) now =
      (if now div 1000 < at div 1000 + sv_refreshTtl sv then Inr (RefreshTokenClaims uid tid secV jti fam (at div 1000) (at div 1000 + sv_refreshTtl sv))
       else Inl (ForeignError ''token expired or missing exp''))"
  by (auto simp: verifyRefreshToken_def issueRefreshToken_def Let_def verify_issued [OF assms] simp del: claims_json.simps)

text \<open>
  Issued tokens: a refresh token verifies, until it expires, to exactly the claims it was issued with; from then on, and for an access token at
  any time, it is refused.
\<close>

theorem issued_tokens_verify:
  assumes "sound_codec (sv_crypto sv)"
  shows "(\<forall>tid uid secV jti fam at now. verifyRefreshToken sv (issueRefreshToken sv tid uid secV jti fam at) now =
      (if now div 1000 < at div 1000 + sv_refreshTtl sv then Inr (RefreshTokenClaims uid tid secV jti fam (at div 1000) (at div 1000 + sv_refreshTtl sv))
       else Inl (ForeignError ''token expired or missing exp''))) \<and>
    (\<forall>tid uid secV at now claims. verifyRefreshToken sv (issueAccessToken sv tid uid secV at) now \<noteq> Inr claims)"
  using assms
  by (auto simp: verifyRefreshToken_def issueRefreshToken_def issueAccessToken_def Let_def verify_issued simp del: claims_json.simps)

section \<open>Witnesses\<close>

definition letters :: "string \<Rightarrow> string" where
  "letters t = concat (map (\<lambda>c. [char_of (97 + (of_char c :: nat) div 16), char_of (97 + (of_char c :: nat) mod 16)]) t)"

definition example_crypto :: jwt_crypto where
  "example_crypto = \<lparr>jx_base64Url = letters, jx_parse = (\<lambda>s. if s \<in> letters ` range stringify then Some (inv (letters \<circ> stringify) s) else None),
     jx_sign = (\<lambda>a t. ''s''), jx_verify = (\<lambda>a t s. s = ''s'')\<rparr>"

definition example_tokens :: token_service where
  "example_tokens = \<lparr>sv_crypto = example_crypto, sv_algorithm = ES256, sv_accessTtl = DEFAULT_ACCESS_TOKEN_TTL_SECONDS,
     sv_refreshTtl = DEFAULT_REFRESH_TOKEN_TTL_SECONDS\<rparr>"

lemma letters_inj: "inj letters"
proof (rule injI)
  have cell: "c = d" if "char_of (97 + (of_char c :: nat) div 16) = (char_of (97 + (of_char d :: nat) div 16) :: char)"
    "char_of (97 + (of_char c :: nat) mod 16) = (char_of (97 + (of_char d :: nat) mod 16) :: char)" for c d
  proof -
    have small: "(of_char x :: nat) < 256" for x by (rule nat_of_char_less_256)
    have "(97 + (of_char c :: nat) div 16) mod 256 = (97 + (of_char d :: nat) div 16) mod 256"
      "(97 + (of_char c :: nat) mod 16) mod 256 = (97 + (of_char d :: nat) mod 16) mod 256"
      using that by (metis of_char_of)+
    then have "(of_char c :: nat) div 16 = of_char d div 16" "(of_char c :: nat) mod 16 = of_char d mod 16"
      using small [of c] small [of d] by auto
    then have "(of_char c :: nat) = of_char d" by (metis div_mult_mod_eq)
    then show ?thesis by (simp add: of_char_same)
  qed
  show "x = y" if "letters x = letters y" for x y
    using that
  proof (induction x arbitrary: y)
    case Nil
    then show ?case by (cases y) (simp_all add: letters_def)
  next
    case (Cons c x)
    then show ?case using cell by (cases y) (auto simp: letters_def)
  qed
qed

lemma example_codec: "sound_codec example_crypto"
proof -
  have "inj (letters \<circ> stringify)" using letters_inj stringify_inj by (auto simp: inj_def)
  then have "inv (letters \<circ> stringify) (letters (stringify j)) = j" for j using inv_f_f [of "letters \<circ> stringify" j] by simp
  moreover have "CHR ''.'' \<notin> set (letters t)" for t
  proof (induction t)
    case (Cons c t)
    have "(of_char c :: nat) div 16 < 16" using nat_of_char_less_256 [of c] by (simp add: less_mult_imp_div_less)
    then have "(97 + (of_char c :: nat) div 16) mod 256 = 97 + of_char c div 16" by simp
    then have "(char_of (97 + (of_char c :: nat) div 16) :: char) \<noteq> CHR ''.''" "(char_of (97 + (of_char c :: nat) mod 16) :: char) \<noteq> CHR ''.''"
      by (auto simp: char_of_eq_iff take_bit_eq_mod)
    with Cons show ?case by (simp add: letters_def)
  qed (simp add: letters_def)
  moreover have "letters (stringify j) \<noteq> []" for j by (cases "stringify j") (simp_all add: letters_def)
  ultimately show ?thesis by (auto simp: sound_codec_def example_crypto_def Let_def)
qed

theorem verifyJwt_sound_witness:
  "\<exists>token. verifyJwt example_crypto token [ES256] 5 = Inr (RefreshTokenClaims ''u'' ''t'' ''v'' ''j'' ''f'' 0 10) \<and>
     (\<exists>h p sig. token = h @ ''.'' @ p @ ''.'' @ sig \<and> jx_verify example_crypto ES256 (h @ ''.'' @ p) sig)"
proof -
  let ?c = "RefreshTokenClaims ''u'' ''t'' ''v'' ''j'' ''f'' 0 10"
  have "verifyJwt example_crypto (signJwt example_crypto (claims_json ?c) ES256) [ES256] 5 = Inr ?c"
    using verifyJwt_signed [OF example_codec, of ES256 "[ES256]" "js_members (claims_json ?c)" 5] readClaims_json [of ?c 5] by simp
  note run = this
  from verifyJwt_sound [OF run] obtain h p sig alg where "signJwt example_crypto (claims_json ?c) ES256 = h @ ''.'' @ p @ ''.'' @ sig"
    "alg \<in> set [ES256]" "jx_verify example_crypto alg (h @ ''.'' @ p) sig" by blast
  with run show ?thesis by auto
qed

theorem issued_tokens_verify_witness:
  "verifyRefreshToken example_tokens (issueRefreshToken example_tokens ''t'' ''u'' ''v'' ''j'' ''f'' 1000) 2000 =
     Inr (RefreshTokenClaims ''u'' ''t'' ''v'' ''j'' ''f'' 1 2592001)"
  using issued_tokens_verify [of example_tokens] example_codec
  by (simp add: example_tokens_def DEFAULT_REFRESH_TOKEN_TTL_SECONDS_def)

end
