(* ===== verification/Auth_Engine.thy ===== *)
theory Auth_Engine
  imports Jwt Permissions_Pg Authorization Payments_Engine
begin

text \<open>
  Authentication: models of \<^verbatim>\<open>src/application/engines/auth/\<close> (login, refresh, request schema), of the PostgreSQL adapters
  \<^verbatim>\<open>src/infrastructure/security/postgres-auth-repository.ts\<close> and \<^verbatim>\<open>src/infrastructure/db/auth-audit.ts\<close> with the SQL functions of
  \<^verbatim>\<open>migrations/0005_phase3_auth.sql\<close>, and of the tenant check of \<^verbatim>\<open>src/infrastructure/db/tenant-context.ts\<close>.

  The columns of the table of users are split: identity, activity and security version are in the permission tables, the credentials in
  a table of their own. Between two transactions of one operation other sessions may commit; \<open>ae_others\<close> is what they do
  before the n-th store call. Verification of a password and of a PIN, the hash function, generated identifiers and the remaining constraints
  of the database are parameters. Identifiers are compared as the database compares UUIDs, without case.
\<close>

section \<open>Tables and environment\<close>

record credentials_row =
  cd_userId :: string
  cd_tenantId :: string
  cd_email :: string
  cd_staffCode :: "string option"
  cd_passwordHash :: "string option"
  cd_pinHash :: "string option"
  cd_failedLoginAttempts :: int
  cd_lockedUntil :: "int option"

record refresh_token_row =
  rt_id :: string
  rt_tenantId :: string
  rt_userId :: string
  rt_tokenHash :: string
  rt_familyId :: string
  rt_expiresAt :: int
  rt_revokedAt :: "int option"

datatype auth_mode = password_mode | pin_mode | refresh_mode

record auth_attempt =
  aa_tenantIdAttempted :: "string option"
  aa_userIdAttempted :: "string option"
  aa_identifierAttempted :: string
  aa_mode :: auth_mode
  aa_success :: bool
  aa_ipAddress :: "string option"
  aa_userAgent :: "string option"
  aa_createdAt :: int

record auth_db =
  ad_permissions :: permission_db
  ad_subscriptionEnds :: "(string \<times> int) list"
  ad_credentials :: "credentials_row list"
  ad_refreshTokens :: "refresh_token_row list"
  ad_audit :: "auth_attempt list"

record auth_env =
  ae_now :: int
  ae_uuid :: "nat \<Rightarrow> string"
  ae_rowId :: "auth_db \<Rightarrow> string"
  ae_others :: "nat \<Rightarrow> auth_db \<Rightarrow> auth_db"
  ae_reject :: "auth_db \<Rightarrow> auth_db \<Rightarrow> app_error option"
  ae_sha256 :: "string \<Rightarrow> string"
  ae_verifyPassword :: "string \<Rightarrow> string \<Rightarrow> bool"
  ae_verifyPin :: "string \<Rightarrow> string \<Rightarrow> string \<Rightarrow> string \<Rightarrow> bool"
  ae_tokens :: token_service

definition auth_write :: "auth_env \<Rightarrow> (auth_db \<Rightarrow> auth_db) \<Rightarrow> (auth_db, unit) tx" where
  "auth_write env f = (\<lambda>s. case ae_reject env s (f s) of None \<Rightarrow> Inr ((), f s) | Some e \<Rightarrow> Inl e)"

section \<open>The tenant of a transaction\<close>

definition to_lower :: "string \<Rightarrow> string" where
  "to_lower s = map (\<lambda>c. let n = (of_char c :: nat) in if 65 \<le> n \<and> n \<le> 90 then char_of (n + 32) else c) s"

definition is_hex :: "char \<Rightarrow> bool" where
  "is_hex c \<longleftrightarrow> c \<in> set ''0123456789abcdef''"

definition isUuid :: "string \<Rightarrow> bool" where
  "isUuid text \<longleftrightarrow>
     (let s = to_lower text in
      length s = 36 \<and> s ! 14 \<in> set ''12345678'' \<and> s ! 19 \<in> set ''89ab'' \<and>
      (\<forall>i<36. if i \<in> {8, 13, 18, 23} then s ! i = CHR ''-'' else is_hex (s ! i)))"

definition NIL_UUID :: string where
  "NIL_UUID = ''00000000-0000-0000-0000-000000000000''"

definition assertTenantId :: "string \<Rightarrow> string result" where
  "assertTenantId tid =
     (if to_lower tid = NIL_UUID then Inl (ValidationError (Some ''tenantId''))
      else if \<not> isUuid tid then Inl (ValidationError (Some ''tenantId''))
      else Inr (to_lower tid))"

definition tenantProbe :: "auth_env \<Rightarrow> string \<Rightarrow> auth_db \<Rightarrow> unit result" where
  "tenantProbe env tid db =
     (case find_row (\<lambda>t. te_id t = tid) (pd_tenants (ad_permissions db)) of
        None \<Rightarrow> Inl NotFoundError
      | Some t \<Rightarrow>
          if te_status t \<noteq> Some ''active'' then Inl (TenantSuspendedError (case te_status t of Some st \<Rightarrow> st | None \<Rightarrow> ''null''))
          else (case map_of (ad_subscriptionEnds db) tid of
                  Some e \<Rightarrow> if e \<le> ae_now env then Inl (TenantSuspendedError ''subscription_expired'') else Inr ()
                | None \<Rightarrow> Inr ()))"

text \<open>The n-th store call of an operation, on what the other sessions have left.\<close>

definition inTenantContext :: "auth_env \<Rightarrow> nat \<Rightarrow> string \<Rightarrow> (string \<Rightarrow> (auth_db, 'a) tx) \<Rightarrow> (auth_db, 'a) op" where
  "inTenantContext env k tenantId fn =
     op_bind (op_lift (assertTenantId tenantId)) (\<lambda>tid. \<lambda>db.
       run_tx (tx_bind (tx_readR (tenantProbe env tid)) (\<lambda>_. fn tid)) (ae_others env k db))"

section \<open>Accounts\<close>

record auth_user =
  lu_id :: string
  lu_tenantId :: string
  lu_email :: string
  lu_staffCode :: "string option"
  lu_passwordHash :: "string option"
  lu_pinHash :: "string option"
  lu_isActive :: bool
  lu_lockedUntil :: "int option"

definition user_row :: "string \<Rightarrow> string \<Rightarrow> auth_db \<Rightarrow> mem_user option" where
  "user_row tid userId db = find_row (\<lambda>u. mu_tenantId u = tid \<and> mu_id u = userId) (pd_users (ad_permissions db))"

definition mapUser :: "credentials_row \<Rightarrow> mem_user \<Rightarrow> auth_user" where
  "mapUser c u = \<lparr>lu_id = cd_userId c, lu_tenantId = cd_tenantId c, lu_email = cd_email c, lu_staffCode = cd_staffCode c,
     lu_passwordHash = cd_passwordHash c, lu_pinHash = cd_pinHash c, lu_isActive = mu_isActive u, lu_lockedUntil = cd_lockedUntil c\<rparr>"

definition find_account :: "string \<Rightarrow> (credentials_row \<Rightarrow> bool) \<Rightarrow> auth_db \<Rightarrow> auth_user option" where
  "find_account tid P db =
     (case find_row (\<lambda>c. cd_tenantId c = tid \<and> P c \<and> user_row tid (cd_userId c) db \<noteq> None) (ad_credentials db) of
        None \<Rightarrow> None | Some c \<Rightarrow> map_option (mapUser c) (user_row tid (cd_userId c) db))"

definition findByEmail :: "auth_env \<Rightarrow> nat \<Rightarrow> string \<Rightarrow> string \<Rightarrow> (auth_db, auth_user option) op" where
  "findByEmail env k tenantId email =
     inTenantContext env k tenantId (\<lambda>tid. tx_read (find_account tid (\<lambda>c. to_lower (cd_email c) = to_lower email)))"

definition findByPinIdentifier :: "auth_env \<Rightarrow> nat \<Rightarrow> string \<Rightarrow> string \<Rightarrow> (auth_db, auth_user option) op" where
  "findByPinIdentifier env k tenantId userIdOrStaffCode =
     inTenantContext env k tenantId (\<lambda>tid. tx_read (find_account tid (\<lambda>c.
       isUuid userIdOrStaffCode \<and> cd_userId c = to_lower userIdOrStaffCode \<or>
       map_option to_lower (cd_staffCode c) = Some (to_lower userIdOrStaffCode))))"

text \<open>
  One statement: the counter goes up, and when it reaches the limit on an account that is not locked, the account is locked.
  \<open>RETURNING\<close> reads the updated row.
\<close>

record failure_update =
  fu_failedLoginAttempts :: int
  fu_lockedUntil :: "int option"
  fu_nowLocked :: bool

definition lock_over :: "int option \<Rightarrow> int \<Rightarrow> bool" where
  "lock_over lockedUntil now \<longleftrightarrow> (case lockedUntil of None \<Rightarrow> True | Some t \<Rightarrow> t \<le> now)"

definition count_failure :: "int \<Rightarrow> int \<Rightarrow> int \<Rightarrow> credentials_row \<Rightarrow> credentials_row" where
  "count_failure limit lockWindowMs now c =
     c\<lparr>cd_failedLoginAttempts := cd_failedLoginAttempts c + 1,
       cd_lockedUntil := (if cd_failedLoginAttempts c + 1 \<ge> limit \<and> lock_over (cd_lockedUntil c) now then Some (now + lockWindowMs)
         else cd_lockedUntil c)\<rparr>"

definition failure_result :: "int \<Rightarrow> int \<Rightarrow> credentials_row \<Rightarrow> failure_update" where
  "failure_result limit now c =
     \<lparr>fu_failedLoginAttempts = cd_failedLoginAttempts c, fu_lockedUntil = cd_lockedUntil c,
      fu_nowLocked = (cd_failedLoginAttempts c + 1 \<ge> limit \<and> lock_over (cd_lockedUntil c) now)\<rparr>"

definition registerFailedAttempt :: "auth_env \<Rightarrow> nat \<Rightarrow> string \<Rightarrow> string \<Rightarrow> int \<Rightarrow> int \<Rightarrow> (auth_db, failure_update) op" where
  "registerFailedAttempt env k tenantId userId limit lockWindowMs =
     inTenantContext env k tenantId (\<lambda>tid.
       let mine = (\<lambda>c. cd_tenantId c = tid \<and> cd_userId c = userId) in
       tx_bind (auth_write env (\<lambda>db. db\<lparr>ad_credentials := update_where mine (count_failure limit lockWindowMs (ae_now env)) (ad_credentials db)\<rparr>)) (\<lambda>_.
       tx_read (\<lambda>db. case find_row mine (ad_credentials db) of
           None \<Rightarrow> \<lparr>fu_failedLoginAttempts = 0, fu_lockedUntil = None, fu_nowLocked = False\<rparr>
         | Some c \<Rightarrow> failure_result limit (ae_now env) c)))"

record sec_v_inputs =
  si_securityVersion :: int
  si_activeRoles :: "active_user_role list"

definition secVInputs :: "string \<Rightarrow> mem_user \<Rightarrow> auth_db \<Rightarrow> sec_v_inputs" where
  "secVInputs tid u db =
     \<lparr>si_securityVersion = mu_securityVersion u, si_activeRoles = pg_listActiveUserRoles tid (mu_id u) (ad_permissions db)\<rparr>"

definition registerSuccessfulLogin :: "auth_env \<Rightarrow> nat \<Rightarrow> string \<Rightarrow> string \<Rightarrow> (auth_db, sec_v_inputs) op" where
  "registerSuccessfulLogin env k tenantId userId =
     inTenantContext env k tenantId (\<lambda>tid.
       tx_bind (auth_write env (\<lambda>db. db\<lparr>ad_credentials := update_where (\<lambda>c. cd_tenantId c = tid \<and> cd_userId c = userId)
         (\<lambda>c. c\<lparr>cd_failedLoginAttempts := 0, cd_lockedUntil := None\<rparr>) (ad_credentials db)\<rparr>)) (\<lambda>_.
       tx_bind (tx_read (user_row tid userId)) (\<lambda>found.
       tx_bind (tx_some found (ForeignError ''successful login reset returned no row'')) (\<lambda>u.
       tx_read (secVInputs tid u)))))"

definition getActiveSecVInputs :: "auth_env \<Rightarrow> nat \<Rightarrow> string \<Rightarrow> string \<Rightarrow> (auth_db, (sec_v_inputs \<times> bool) option) op" where
  "getActiveSecVInputs env k tenantId userId =
     inTenantContext env k tenantId (\<lambda>tid. tx_read (\<lambda>db.
       map_option (\<lambda>u. (secVInputs tid u db, mu_isActive u)) (user_row tid userId db)))"

section \<open>The ledger of refresh tokens\<close>

definition insertRefreshToken :: "auth_env \<Rightarrow> string \<Rightarrow> string \<Rightarrow> string \<Rightarrow> string \<Rightarrow> int \<Rightarrow> (auth_db, unit) tx" where
  "insertRefreshToken env tid userId tokenHash familyId expiresAt =
     tx_bind (tx_read (\<lambda>db. \<exists>r\<in>set (ad_refreshTokens db). rt_tokenHash r = tokenHash \<or> rt_id r = ae_rowId env db)) (\<lambda>taken.
     tx_bind (tx_guard (\<not> taken) (PgError ''23505'' (Some ''idx_auth_refresh_tokens_token_hash'') ''duplicate key'')) (\<lambda>_.
     auth_write env (\<lambda>db. db\<lparr>ad_refreshTokens := ad_refreshTokens db @ [\<lparr>rt_id = ae_rowId env db, rt_tenantId = tid, rt_userId = userId,
       rt_tokenHash = tokenHash, rt_familyId = familyId, rt_expiresAt = expiresAt, rt_revokedAt = None\<rparr>]\<rparr>)))"

definition storeRefreshToken :: "auth_env \<Rightarrow> nat \<Rightarrow> string \<Rightarrow> string \<Rightarrow> string \<Rightarrow> string \<Rightarrow> int \<Rightarrow> (auth_db, unit) op" where
  "storeRefreshToken env k tenantId userId tokenHash familyId expiresAt =
     inTenantContext env k tenantId (\<lambda>tid. insertRefreshToken env tid userId tokenHash familyId expiresAt)"

datatype refresh_rotation = rotated string string | replayed | invalid_token | account_blocked

definition revoke_where :: "auth_env \<Rightarrow> (refresh_token_row \<Rightarrow> bool) \<Rightarrow> int \<Rightarrow> (auth_db, unit) tx" where
  "revoke_where env P now =
     auth_write env (\<lambda>db. db\<lparr>ad_refreshTokens := update_where P (\<lambda>r. r\<lparr>rt_revokedAt := Some now\<rparr>) (ad_refreshTokens db)\<rparr>)"

definition rotateBody :: "auth_env \<Rightarrow> string \<Rightarrow> string \<Rightarrow> string \<Rightarrow> string \<Rightarrow> int \<Rightarrow> int \<Rightarrow> (auth_db, refresh_rotation) tx" where
  "rotateBody env tid oldTokenHash newTokenHash familyId newExpiresAt now =
     tx_bind (tx_read (\<lambda>db. find_row (\<lambda>r. rt_tenantId r = tid \<and> rt_tokenHash r = oldTokenHash) (ad_refreshTokens db))) (\<lambda>found.
     case found of
       None \<Rightarrow> tx_return invalid_token
     | Some row \<Rightarrow>
         if rt_revokedAt row \<noteq> None
         then tx_bind (revoke_where env (\<lambda>r. rt_tenantId r = tid \<and> rt_familyId r = rt_familyId row \<and> rt_revokedAt r = None) now) (\<lambda>_.
              tx_return replayed)
         else
           tx_bind (tx_read (\<lambda>db. find_account tid (\<lambda>c. cd_userId c = rt_userId row) db)) (\<lambda>account.
           case account of
             None \<Rightarrow> tx_return invalid_token
           | Some a \<Rightarrow>
               if \<not> lu_isActive a \<or> \<not> lock_over (lu_lockedUntil a) now then tx_return account_blocked
               else
                 tx_bind (revoke_where env (\<lambda>r. rt_tenantId r = tid \<and> rt_id r = rt_id row) now) (\<lambda>_.
                 tx_bind (insertRefreshToken env tid (rt_userId row) newTokenHash familyId newExpiresAt) (\<lambda>_.
                 tx_return (rotated (rt_userId row) (rt_tenantId row))))))"

definition rotate_token :: "auth_env \<Rightarrow> nat \<Rightarrow> string \<Rightarrow> string \<Rightarrow> string \<Rightarrow> string \<Rightarrow> int \<Rightarrow> int \<Rightarrow> (auth_db, refresh_rotation) op" where
  "rotate_token env k tenantId oldTokenHash newTokenHash familyId newExpiresAt now =
     inTenantContext env k tenantId (\<lambda>tid. rotateBody env tid oldTokenHash newTokenHash familyId newExpiresAt now)"

section \<open>The audit log\<close>

definition recordAttempt :: "auth_env \<Rightarrow> auth_attempt \<Rightarrow> (auth_db, unit) op" where
  "recordAttempt env attempt = run_tx (auth_write env (\<lambda>db. db\<lparr>ad_audit := ad_audit db @ [attempt]\<rparr>))"

definition failures_since :: "auth_mode \<Rightarrow> (auth_attempt \<Rightarrow> bool) \<Rightarrow> int \<Rightarrow> auth_db \<Rightarrow> int" where
  "failures_since mode P since db =
     int (length (filter (\<lambda>a. aa_mode a = mode \<and> \<not> aa_success a \<and> P a \<and> aa_createdAt a > since) (ad_audit db)))"

definition countRecentFailures :: "auth_env \<Rightarrow> auth_mode \<Rightarrow> string option \<Rightarrow> string \<Rightarrow> int \<Rightarrow> auth_db \<Rightarrow> int" where
  "countRecentFailures env mode ip identifier windowMs db =
     max (failures_since mode (\<lambda>a. aa_ipAddress a = ip) (ae_now env - windowMs) db)
         (failures_since mode (\<lambda>a. aa_identifierAttempted a = identifier) (ae_now env - windowMs) db)"

section \<open>Login\<close>

definition PASSWORD_LOCK_THRESHOLD :: int where
  "PASSWORD_LOCK_THRESHOLD = 5"

definition PIN_LOCK_THRESHOLD :: int where
  "PIN_LOCK_THRESHOLD = 3"

definition LOCK_WINDOW_MS :: int where
  "LOCK_WINDOW_MS = 15 * 60 * 1000"

definition RATE_LIMIT_WINDOW_MS :: int where
  "RATE_LIMIT_WINDOW_MS = 15 * 60 * 1000"

definition IP_RATE_LIMIT :: int where
  "IP_RATE_LIMIT = 20"

definition ACCOUNT_RATE_LIMIT :: int where
  "ACCOUNT_RATE_LIMIT = 10"

record auth_limits =
  al_passwordThreshold :: int
  al_pinThreshold :: int
  al_lockWindowMs :: int
  al_rateLimitWindowMs :: int
  al_ipRateLimit :: int
  al_accountRateLimit :: int
  al_refreshTtlSeconds :: int

definition default_limits :: auth_limits where
  "default_limits = \<lparr>al_passwordThreshold = PASSWORD_LOCK_THRESHOLD, al_pinThreshold = PIN_LOCK_THRESHOLD, al_lockWindowMs = LOCK_WINDOW_MS,
     al_rateLimitWindowMs = RATE_LIMIT_WINDOW_MS, al_ipRateLimit = IP_RATE_LIMIT, al_accountRateLimit = ACCOUNT_RATE_LIMIT,
     al_refreshTtlSeconds = DEFAULT_REFRESH_TOKEN_TTL_SECONDS\<rparr>"

datatype login_request =
    PasswordLogin (lq_tenantId: string) (lq_email: string) (lq_password: string)
  | PinLogin (lq_tenantId: string) (lq_userIdOrStaffCode: string) (lq_pin: string)

record login_context =
  lx_ipAddress :: "string option"
  lx_userAgent :: "string option"

record token_pair =
  tp_accessToken :: string
  tp_refreshToken :: string
  tp_userId :: string
  tp_tenantId :: string

definition normaliseEmail :: "string \<Rightarrow> string" where
  "normaliseEmail email = to_lower (js_trim email)"

fun login_mode :: "login_request \<Rightarrow> auth_mode" where
  "login_mode (PasswordLogin _ _ _) = password_mode"
| "login_mode (PinLogin _ _ _) = pin_mode"

fun identifierForAudit :: "login_request \<Rightarrow> string" where
  "identifierForAudit (PasswordLogin _ email _) = ''email:'' @ normaliseEmail email"
| "identifierForAudit (PinLogin _ u _) = ''pin:'' @ to_lower (js_trim u)"

fun userIdAttempted :: "login_request \<Rightarrow> string option" where
  "userIdAttempted (PasswordLogin _ _ _) = None"
| "userIdAttempted (PinLogin _ u _) = Some u"

definition login_attempt :: "auth_env \<Rightarrow> login_context \<Rightarrow> login_request \<Rightarrow> string option \<Rightarrow> bool \<Rightarrow> auth_attempt" where
  "login_attempt env context req userId success =
     \<lparr>aa_tenantIdAttempted = Some (lq_tenantId req), aa_userIdAttempted = userId, aa_identifierAttempted = identifierForAudit req,
      aa_mode = login_mode req, aa_success = success, aa_ipAddress = lx_ipAddress context, aa_userAgent = lx_userAgent context,
      aa_createdAt = ae_now env\<rparr>"

fun isTenantSuspended :: "app_error \<Rightarrow> bool" where
  "isTenantSuspended (TenantSuspendedError _) = True"
| "isTenantSuspended _ = False"

definition findCandidate :: "auth_env \<Rightarrow> login_request \<Rightarrow> (auth_db, auth_user option) op" where
  "findCandidate env req =
     op_catch (case req of PasswordLogin t email _ \<Rightarrow> findByEmail env 1 t (normaliseEmail email)
               | PinLogin t u _ \<Rightarrow> findByPinIdentifier env 1 t u)
       (\<lambda>e. if isTenantSuspended e then op_return None else op_lift (Inl e))"

text \<open>A dummy verification for an unknown account costs the same and counts for nothing.\<close>

definition secretValid :: "auth_env \<Rightarrow> login_request \<Rightarrow> auth_user \<Rightarrow> bool" where
  "secretValid env req user =
     (case req of
        PasswordLogin _ _ password \<Rightarrow> (case lu_passwordHash user of None \<Rightarrow> False | Some stored \<Rightarrow> ae_verifyPassword env password stored)
      | PinLogin _ _ pin \<Rightarrow> (case lu_pinHash user of None \<Rightarrow> False | Some stored \<Rightarrow> ae_verifyPin env (lu_tenantId user) (lu_id user) pin stored))"

definition isLocked :: "int option \<Rightarrow> int \<Rightarrow> bool" where
  "isLocked lockedUntil now \<longleftrightarrow> (case lockedUntil of None \<Rightarrow> False | Some t \<Rightarrow> t > now)"

definition accountBlocked :: "auth_env \<Rightarrow> auth_user \<Rightarrow> bool" where
  "accountBlocked env user \<longleftrightarrow> \<not> lu_isActive user \<or> isLocked (lu_lockedUntil user) (ae_now env)"

definition lock_threshold :: "auth_limits \<Rightarrow> login_request \<Rightarrow> int" where
  "lock_threshold limits req = (case login_mode req of password_mode \<Rightarrow> al_passwordThreshold limits | _ \<Rightarrow> al_pinThreshold limits)"

definition refuse :: "auth_env \<Rightarrow> login_context \<Rightarrow> login_request \<Rightarrow> string option \<Rightarrow> (auth_db, 'a) op" where
  "refuse env context req userId =
     op_bind (recordAttempt env (login_attempt env context req userId False)) (\<lambda>_.
     op_lift (Inl InvalidCredentialsError))"

definition countWrongSecret :: "auth_env \<Rightarrow> auth_limits \<Rightarrow> login_request \<Rightarrow> auth_user \<Rightarrow> (auth_db, unit) op" where
  "countWrongSecret env limits req user =
     op_catch (op_bind (registerFailedAttempt env 2 (lq_tenantId req) (lu_id user) (lock_threshold limits req) (al_lockWindowMs limits)) (\<lambda>_. op_return ()))
       (\<lambda>e. if isTenantSuspended e then op_return () else op_lift (Inl e))"

definition issueTokens :: "auth_env \<Rightarrow> auth_limits \<Rightarrow> login_context \<Rightarrow> login_request \<Rightarrow> auth_user \<Rightarrow> sec_v_inputs \<Rightarrow> (auth_db, token_pair) op" where
  "issueTokens env limits context req account inputs =
     (let secV = deriveSecV (si_activeRoles inputs) (si_securityVersion inputs) (ae_sha256 env);
          now = ae_now env;
          tid = lq_tenantId req;
          accessToken = issueAccessToken (ae_tokens env) tid (lu_id account) secV now;
          jti = ae_uuid env 0;
          familyId = ae_uuid env 1;
          refreshToken = issueRefreshToken (ae_tokens env) tid (lu_id account) secV jti familyId now
      in
      op_bind (op_catch (storeRefreshToken env 3 tid (lu_id account) (ae_sha256 env jti) familyId (now + al_refreshTtlSeconds limits * 1000))
        (\<lambda>e. if isTenantSuspended e then refuse env context req (Some (lu_id account)) else op_lift (Inl e))) (\<lambda>_.
      op_bind (recordAttempt env (login_attempt env context req (Some (lu_id account)) True)) (\<lambda>_.
      op_return \<lparr>tp_accessToken = accessToken, tp_refreshToken = refreshToken, tp_userId = lu_id account, tp_tenantId = tid\<rparr>)))"

text \<open>
  The limits are those the constructor accepts: it refuses a limit that is not a positive integer before any login can be tried.
\<close>

definition login :: "auth_env \<Rightarrow> auth_limits \<Rightarrow> login_request \<Rightarrow> login_context \<Rightarrow> (auth_db, token_pair) op" where
  "login env limits req context = (\<lambda>db.
     let failures = countRecentFailures env (login_mode req) (lx_ipAddress context) (identifierForAudit req) (al_rateLimitWindowMs limits) db in
     if failures \<ge> al_ipRateLimit limits \<or> failures \<ge> al_accountRateLimit limits
     then op_bind (recordAttempt env (login_attempt env context req (userIdAttempted req) False)) (\<lambda>_. op_lift (Inl RateLimitError)) db
     else op_bind (findCandidate env req) (\<lambda>found.
       case found of
         None \<Rightarrow> refuse env context req (userIdAttempted req)
       | Some user \<Rightarrow>
           if \<not> secretValid env req user \<or> accountBlocked env user
           then op_bind (if \<not> secretValid env req user \<and> \<not> accountBlocked env user then countWrongSecret env limits req user else op_return ()) (\<lambda>_.
                refuse env context req (Some (lu_id user)))
           else
             op_bind (op_catch (registerSuccessfulLogin env 2 (lq_tenantId req) (lu_id user))
               (\<lambda>e. if isTenantSuspended e then refuse env context req (Some (lu_id user)) else op_lift (Inl e))) (\<lambda>inputs.
             issueTokens env limits context req user inputs)) db)"

section \<open>Refresh\<close>

definition recordFailure :: "auth_env \<Rightarrow> login_context \<Rightarrow> string \<Rightarrow> string option \<Rightarrow> string option \<Rightarrow> bool \<Rightarrow> (auth_db, unit) op" where
  "recordFailure env context identifier tenantId userId success =
     recordAttempt env \<lparr>aa_tenantIdAttempted = tenantId, aa_userIdAttempted = userId, aa_identifierAttempted = identifier, aa_mode = refresh_mode,
       aa_success = success, aa_ipAddress = lx_ipAddress context, aa_userAgent = lx_userAgent context, aa_createdAt = ae_now env\<rparr>"

definition refuse_refresh :: "auth_env \<Rightarrow> login_context \<Rightarrow> jwt_claims \<Rightarrow> (auth_db, 'a) op" where
  "refuse_refresh env context claims =
     op_bind (recordFailure env context (''refresh:'' @ jc_sub claims) (Some (jc_tid claims)) (Some (jc_sub claims)) False) (\<lambda>_.
     op_lift (Inl InvalidCredentialsError))"

definition suspended_refusal :: "auth_env \<Rightarrow> login_context \<Rightarrow> jwt_claims \<Rightarrow> app_error \<Rightarrow> (auth_db, 'a) op" where
  "suspended_refusal env context claims e =
     (if isTenantSuspended e then refuse_refresh env context claims else op_lift (Inl e))"

definition rotateAndIssue :: "auth_env \<Rightarrow> auth_limits \<Rightarrow> login_context \<Rightarrow> jwt_claims \<Rightarrow> string \<Rightarrow> (auth_db, token_pair) op" where
  "rotateAndIssue env limits context claims freshSecV =
     (let now = ae_now env;
          newJti = ae_uuid env 0;
          tid = jc_tid claims;
          uid = jc_sub claims
      in
      op_bind (op_catch (rotate_token env 2 tid (ae_sha256 env (jc_jti claims)) (ae_sha256 env newJti) (jc_fam claims)
          (now + al_refreshTtlSeconds limits * 1000) now) (suspended_refusal env context claims)) (\<lambda>rotation.
      case rotation of
        rotated _ _ \<Rightarrow>
          op_bind (recordFailure env context (''refresh:'' @ uid) (Some tid) (Some uid) True) (\<lambda>_.
          op_return \<lparr>tp_accessToken = issueAccessToken (ae_tokens env) tid uid freshSecV now,
            tp_refreshToken = issueRefreshToken (ae_tokens env) tid uid freshSecV newJti (jc_fam claims) now,
            tp_userId = uid, tp_tenantId = tid\<rparr>)
      | _ \<Rightarrow> refuse_refresh env context claims))"

text \<open>The comparison of two hexadecimal digests in constant time is equality.\<close>

definition refreshVerified :: "auth_env \<Rightarrow> auth_limits \<Rightarrow> login_context \<Rightarrow> jwt_claims \<Rightarrow> (auth_db, token_pair) op" where
  "refreshVerified env limits context claims = (\<lambda>db.
     let failures = countRecentFailures env refresh_mode (lx_ipAddress context) (''refresh:'' @ jc_sub claims) (al_rateLimitWindowMs limits) db in
     if failures \<ge> al_ipRateLimit limits \<or> failures \<ge> al_accountRateLimit limits
     then op_bind (recordFailure env context (''refresh:'' @ jc_sub claims) (Some (jc_tid claims)) (Some (jc_sub claims)) False) (\<lambda>_.
          op_lift (Inl RateLimitError)) db
     else op_bind (op_catch (getActiveSecVInputs env 1 (jc_tid claims) (jc_sub claims)) (suspended_refusal env context claims)) (\<lambda>fresh.
       case fresh of
         Some (inputs, True) \<Rightarrow>
           (let freshSecV = deriveSecV (si_activeRoles inputs) (si_securityVersion inputs) (ae_sha256 env) in
            if freshSecV \<noteq> jc_secV claims then refuse_refresh env context claims
            else rotateAndIssue env limits context claims freshSecV)
       | _ \<Rightarrow> refuse_refresh env context claims) db)"

definition refresh :: "auth_env \<Rightarrow> auth_limits \<Rightarrow> string \<Rightarrow> login_context \<Rightarrow> (auth_db, token_pair) op" where
  "refresh env limits refreshToken context =
     (case verifyRefreshToken (ae_tokens env) refreshToken (ae_now env) of
        Inl _ \<Rightarrow> op_bind (recordFailure env context ''refresh:token'' None None False) (\<lambda>_. op_lift (Inl InvalidCredentialsError))
      | Inr claims \<Rightarrow> refreshVerified env limits context claims)"

end
