(* ===== verification/Auth_Login.thy ===== *)
theory Auth_Login
  imports Auth_Engine Payments_Relations
begin

text \<open>
  Login is correct: what a successful login has checked and written, that every other attempt on an existing tenant ends in the one uniform
  error and one line of the audit log, and how many wrong guesses the lock of an account lets through.
\<close>

section \<open>Store calls\<close>

lemma inTenantContext_Inr [tx_simps]:
  "inTenantContext env k tenantId fn db = (Inr a, db') \<longleftrightarrow>
     (\<exists>tid. assertTenantId tenantId = Inr tid \<and> tenantProbe env tid (ae_others env k db) = Inr () \<and> fn tid (ae_others env k db) = Inr (a, db'))"
  by (auto simp: inTenantContext_def tx_simps run_tx_Inr)

lemma auth_write_Inr [tx_simps]:
  "auth_write env f s = Inr (u, s') \<longleftrightarrow> ae_reject env s (f s) = None \<and> s' = f s"
  by (auto simp: auth_write_def split: option.splits)

lemma op_catch_Inr:
  "op_catch m h s = (Inr a, s') \<longleftrightarrow> m s = (Inr a, s') \<or> (\<exists>e s1. m s = (Inl e, s1) \<and> h e s1 = (Inr a, s'))"
  by (auto simp: op_catch_def split: prod.splits sum.splits)

lemma recordAttempt_Inr:
  "recordAttempt env a s = (Inr u, s') \<longleftrightarrow> ae_reject env s (s\<lparr>ad_audit := ad_audit s @ [a]\<rparr>) = None \<and> s' = s\<lparr>ad_audit := ad_audit s @ [a]\<rparr>"
  by (auto simp: recordAttempt_def run_tx_Inr tx_simps)

lemma refuse_not_Inr [simp]: "refuse env context req u s = (Inr a, s') \<longleftrightarrow> False"
  by (simp add: refuse_def tx_simps)

lemma op_lift_Inl [simp]: "op_lift (Inl e) s = (Inr a, s') \<longleftrightarrow> False"
  by (simp add: tx_simps)

section \<open>A login that succeeds\<close>

definition login_account :: "login_request \<Rightarrow> string \<Rightarrow> auth_db \<Rightarrow> auth_user option" where
  "login_account req tid =
     find_account tid (case req of PasswordLogin _ email _ \<Rightarrow> (\<lambda>c. to_lower (cd_email c) = to_lower (normaliseEmail email))
       | PinLogin _ u _ \<Rightarrow> (\<lambda>c. isUuid u \<and> cd_userId c = to_lower u \<or> map_option to_lower (cd_staffCode c) = Some (to_lower u)))"

definition rate_limited_login :: "auth_env \<Rightarrow> auth_limits \<Rightarrow> login_request \<Rightarrow> login_context \<Rightarrow> auth_db \<Rightarrow> bool" where
  "rate_limited_login env limits req context db \<longleftrightarrow>
     (let n = countRecentFailures env (login_mode req) (lx_ipAddress context) (identifierForAudit req) (al_rateLimitWindowMs limits) db
      in n \<ge> al_ipRateLimit limits \<or> n \<ge> al_accountRateLimit limits)"

lemma lookup_login:
  "(case req of PasswordLogin t email _ \<Rightarrow> findByEmail env 1 t (normaliseEmail email) | PinLogin t u _ \<Rightarrow> findByPinIdentifier env 1 t u) =
     inTenantContext env 1 (lq_tenantId req) (\<lambda>tid. tx_read (login_account req tid))"
  by (cases req) (simp_all add: findByEmail_def findByPinIdentifier_def login_account_def)

lemma login_unlimited:
  assumes "\<not> rate_limited_login env limits req context db"
  shows "login env limits req context db =
     op_bind (findCandidate env req) (\<lambda>found.
       case found of
         None \<Rightarrow> refuse env context req (userIdAttempted req)
       | Some user \<Rightarrow>
           if \<not> secretValid env req user \<or> accountBlocked env user
           then op_bind (if \<not> secretValid env req user \<and> \<not> accountBlocked env user then countWrongSecret env limits req user else op_return ()) (\<lambda>_.
                refuse env context req (Some (lu_id user)))
           else
             op_bind (op_catch (registerSuccessfulLogin env 2 (lq_tenantId req) (lu_id user))
               (\<lambda>e. if isTenantSuspended e then refuse env context req (Some (lu_id user)) else op_lift (Inl e))) (\<lambda>inputs.
             issueTokens env limits context req user inputs)) db"
  using assms unfolding login_def rate_limited_login_def Let_def by argo

lemma findCandidate_Some:
  "findCandidate env req db = (Inr (Some user), db') \<longleftrightarrow>
     (\<exists>tid. assertTenantId (lq_tenantId req) = Inr tid \<and> tenantProbe env tid (ae_others env 1 db) = Inr () \<and>
       login_account req tid (ae_others env 1 db) = Some user \<and> db' = ae_others env 1 db)"
  unfolding findCandidate_def lookup_login op_catch_Inr by (auto simp: tx_simps split: if_splits)

text \<open>The rows a login writes.\<close>

definition reset_failures :: "string \<Rightarrow> string \<Rightarrow> auth_db \<Rightarrow> auth_db" where
  "reset_failures tid userId db = db\<lparr>ad_credentials := update_where (\<lambda>c. cd_tenantId c = tid \<and> cd_userId c = userId)
     (\<lambda>c. c\<lparr>cd_failedLoginAttempts := 0, cd_lockedUntil := None\<rparr>) (ad_credentials db)\<rparr>"

definition new_token :: "auth_env \<Rightarrow> string \<Rightarrow> string \<Rightarrow> string \<Rightarrow> string \<Rightarrow> int \<Rightarrow> auth_db \<Rightarrow> refresh_token_row" where
  "new_token env tid userId tokenHash familyId expiresAt db = \<lparr>rt_id = ae_rowId env db, rt_tenantId = tid, rt_userId = userId,
     rt_tokenHash = tokenHash, rt_familyId = familyId, rt_expiresAt = expiresAt, rt_revokedAt = None\<rparr>"

definition fresh_secV :: "auth_env \<Rightarrow> string \<Rightarrow> mem_user \<Rightarrow> auth_db \<Rightarrow> string" where
  "fresh_secV env tid u db = deriveSecV (pg_listActiveUserRoles tid (mu_id u) (ad_permissions db)) (mu_securityVersion u) (ae_sha256 env)"

lemma insertRefreshToken_Inr:
  "insertRefreshToken env tid userId h fam x s = Inr (r, s') \<longleftrightarrow>
     (\<forall>row\<in>set (ad_refreshTokens s). rt_tokenHash row \<noteq> h \<and> rt_id row \<noteq> ae_rowId env s) \<and>
     ae_reject env s (s\<lparr>ad_refreshTokens := ad_refreshTokens s @ [new_token env tid userId h fam x s]\<rparr>) = None \<and>
     s' = s\<lparr>ad_refreshTokens := ad_refreshTokens s @ [new_token env tid userId h fam x s]\<rparr>"
  unfolding insertRefreshToken_def new_token_def by (auto simp: tx_simps)

lemma registerSuccessfulLogin_Inr:
  assumes "registerSuccessfulLogin env k tenantId userId db = (Inr inputs, db')"
  shows "\<exists>tid u. assertTenantId tenantId = Inr tid \<and> tenantProbe env tid (ae_others env k db) = Inr () \<and>
    user_row tid userId (ae_others env k db) = Some u \<and> inputs = secVInputs tid u (ae_others env k db) \<and>
    db' = reset_failures tid userId (ae_others env k db)"
  using assms unfolding registerSuccessfulLogin_def reset_failures_def
  by (auto simp: tx_simps user_row_def secVInputs_def)

lemma issueTokens_Inr:
  assumes "issueTokens env limits context req account (secVInputs tid' u db0) db = (Inr pair, db')"
  shows "\<exists>tid. assertTenantId (lq_tenantId req) = Inr tid \<and> tenantProbe env tid (ae_others env 3 db) = Inr () \<and>
    (\<forall>row\<in>set (ad_refreshTokens (ae_others env 3 db)). rt_tokenHash row \<noteq> ae_sha256 env (ae_uuid env 0)) \<and>
    db' = (ae_others env 3 db)\<lparr>
      ad_refreshTokens := ad_refreshTokens (ae_others env 3 db) @ [new_token env tid (lu_id account) (ae_sha256 env (ae_uuid env 0)) (ae_uuid env 1)
        (ae_now env + al_refreshTtlSeconds limits * 1000) (ae_others env 3 db)],
      ad_audit := ad_audit (ae_others env 3 db) @ [login_attempt env context req (Some (lu_id account)) True]\<rparr> \<and>
    pair = \<lparr>tp_accessToken = issueAccessToken (ae_tokens env) (lq_tenantId req) (lu_id account) (fresh_secV env tid' u db0) (ae_now env),
      tp_refreshToken = issueRefreshToken (ae_tokens env) (lq_tenantId req) (lu_id account) (fresh_secV env tid' u db0) (ae_uuid env 0) (ae_uuid env 1) (ae_now env),
      tp_userId = lu_id account, tp_tenantId = lq_tenantId req\<rparr>"
  using assms unfolding issueTokens_def Let_def storeRefreshToken_def
  by (auto simp: tx_simps op_catch_Inr insertRefreshToken_Inr recordAttempt_Inr fresh_secV_def secVInputs_def split: if_splits)

text \<open>The way through a login that returns tokens.\<close>

lemma login_steps:
  assumes "login env limits req context db = (Inr pair, db')"
  obtains tid user u where "\<not> rate_limited_login env limits req context db"
    "assertTenantId (lq_tenantId req) = Inr tid" "tenantProbe env tid (ae_others env 1 db) = Inr ()"
    "tenantProbe env tid (ae_others env 2 (ae_others env 1 db)) = Inr ()" "login_account req tid (ae_others env 1 db) = Some user"
    "secretValid env req user" "\<not> accountBlocked env user" "user_row tid (lu_id user) (ae_others env 2 (ae_others env 1 db)) = Some u"
    "issueTokens env limits context req user (secVInputs tid u (ae_others env 2 (ae_others env 1 db)))
       (reset_failures tid (lu_id user) (ae_others env 2 (ae_others env 1 db))) = (Inr pair, db')"
proof -
  have free: "\<not> rate_limited_login env limits req context db"
    using assms by (auto simp: login_def rate_limited_login_def Let_def tx_simps)
  note run = assms [unfolded login_unlimited [OF free] op_bind_Inr]
  from run obtain found s1 where cand: "findCandidate env req db = (Inr found, s1)" and rest:
    "(case found of None \<Rightarrow> refuse env context req (userIdAttempted req)
       | Some user \<Rightarrow>
           if \<not> secretValid env req user \<or> accountBlocked env user
           then op_bind (if \<not> secretValid env req user \<and> \<not> accountBlocked env user then countWrongSecret env limits req user else op_return ()) (\<lambda>_.
                refuse env context req (Some (lu_id user)))
           else
             op_bind (op_catch (registerSuccessfulLogin env 2 (lq_tenantId req) (lu_id user))
               (\<lambda>e. if isTenantSuspended e then refuse env context req (Some (lu_id user)) else op_lift (Inl e))) (\<lambda>inputs.
             issueTokens env limits context req user inputs)) s1 = (Inr pair, db')" by blast
  from rest obtain user where user: "found = Some user" by (cases found) auto
  from rest have valid: "secretValid env req user" "\<not> accountBlocked env user"
    by (auto simp: user tx_simps split: if_splits)
  from rest obtain inputs s2 where reg: "registerSuccessfulLogin env 2 (lq_tenantId req) (lu_id user) s1 = (Inr inputs, s2)"
      and issue: "issueTokens env limits context req user inputs s2 = (Inr pair, db')"
    using valid by (auto simp: user tx_simps op_catch_Inr split: if_splits)
  from cand user obtain tid where tid: "assertTenantId (lq_tenantId req) = Inr tid" "tenantProbe env tid (ae_others env 1 db) = Inr ()"
      "login_account req tid (ae_others env 1 db) = Some user" "s1 = ae_others env 1 db" by (auto simp: findCandidate_Some)
  from registerSuccessfulLogin_Inr [OF reg] tid obtain u where u: "tenantProbe env tid (ae_others env 2 s1) = Inr ()"
      "user_row tid (lu_id user) (ae_others env 2 s1) = Some u" "inputs = secVInputs tid u (ae_others env 2 s1)"
      "s2 = reset_failures tid (lu_id user) (ae_others env 2 s1)" by auto
  show thesis using that free tid u valid issue by simp
qed

text \<open>
  C15. A login that returns tokens: the attempt was below both rate limits, the tenant of the request exists, is active and inside its subscription
  at each of the three store calls, the account is one of that tenant, active and not locked, and the secret presented verifies against the stored
  hash. The tokens carry that account and the security version derived from its roles after the lookup, the failure counter and the lock of that account
  are cleared, one unrevoked refresh token with an unused hash is in the ledger and one success in the audit log; every other row is as the
  other sessions left it.
\<close>

theorem login_correct:
  assumes "login env limits req context db = (Inr pair, db')"
  shows "\<exists>tid user u. let db1 = ae_others env 1 db; db2 = ae_others env 2 db1; db3 = ae_others env 3 (reset_failures tid (lu_id user) db2);
      secV = fresh_secV env tid u db2 in
    \<not> rate_limited_login env limits req context db \<and>
    assertTenantId (lq_tenantId req) = Inr tid \<and> (\<forall>d\<in>{db1, db2, db3}. tenantProbe env tid d = Inr ()) \<and>
    login_account req tid db1 = Some user \<and> lu_isActive user \<and> \<not> isLocked (lu_lockedUntil user) (ae_now env) \<and> secretValid env req user \<and>
    user_row tid (lu_id user) db2 = Some u \<and>
    (\<forall>row\<in>set (ad_refreshTokens db3). rt_tokenHash row \<noteq> ae_sha256 env (ae_uuid env 0)) \<and>
    pair = \<lparr>tp_accessToken = issueAccessToken (ae_tokens env) (lq_tenantId req) (lu_id user) secV (ae_now env),
      tp_refreshToken = issueRefreshToken (ae_tokens env) (lq_tenantId req) (lu_id user) secV (ae_uuid env 0) (ae_uuid env 1) (ae_now env),
      tp_userId = lu_id user, tp_tenantId = lq_tenantId req\<rparr> \<and>
    db' = db3\<lparr>
      ad_refreshTokens := ad_refreshTokens db3 @ [new_token env tid (lu_id user) (ae_sha256 env (ae_uuid env 0)) (ae_uuid env 1)
        (ae_now env + al_refreshTtlSeconds limits * 1000) db3],
      ad_audit := ad_audit db3 @ [login_attempt env context req (Some (lu_id user)) True]\<rparr>"
  using assms
proof (cases rule: login_steps)
  case (1 tid user u)
  then show ?thesis
    using issueTokens_Inr [OF 1(9)] by (intro exI [of _ tid] exI [of _ user] exI [of _ u]) (simp add: Let_def accountBlocked_def)
qed

section \<open>Attempts that are refused\<close>

lemma recordAttempt_total: "ae_reject env = (\<lambda>_ _. None) \<Longrightarrow> recordAttempt env a s = (Inr (), s\<lparr>ad_audit := ad_audit s @ [a]\<rparr>)"
  by (simp add: recordAttempt_Inr)

lemma refuse_total:
  "ae_reject env = (\<lambda>_ _. None) \<Longrightarrow>
     refuse env context req u s = (Inl InvalidCredentialsError, s\<lparr>ad_audit := ad_audit s @ [login_attempt env context req u False]\<rparr>)"
  by (simp add: refuse_def op_bind_def op_lift_def recordAttempt_total)

text \<open>The tenant of a request as a store call finds it: open, suspended or unknown.\<close>

lemma tenantProbe_cases:
  obtains "tenantProbe env tid db = Inr ()" | st where "tenantProbe env tid db = Inl (TenantSuspendedError st)"
  | "tenantProbe env tid db = Inl NotFoundError"
proof -
  have "tenantProbe env tid db \<in> {Inr (), Inl NotFoundError} \<union> range (Inl \<circ> TenantSuspendedError)"
    by (auto simp: tenantProbe_def split: option.splits)
  with that show thesis by auto
qed

lemma tenantProbe_known:
  assumes "tenantProbe env tid db \<noteq> Inl NotFoundError"
  obtains "tenantProbe env tid db = Inr ()" | st where "tenantProbe env tid db = Inl (TenantSuspendedError st)"
  by (rule tenantProbe_cases [of env tid db]) (use assms in auto)

lemma findCandidate_known:
  assumes "assertTenantId (lq_tenantId req) = Inr tid" "tenantProbe env tid (ae_others env 1 db) \<noteq> Inl NotFoundError"
  shows "findCandidate env req db =
    (Inr (if tenantProbe env tid (ae_others env 1 db) = Inr () then login_account req tid (ae_others env 1 db) else None), ae_others env 1 db)"
  using assms(2)
  by (rule tenantProbe_known)
    (simp_all add: findCandidate_def lookup_login inTenantContext_def assms(1) op_catch_def op_bind_def op_lift_def op_return_def run_tx_def
      tx_bind_def tx_readR_def tx_read_def ok_def err_def)

definition count_wrong :: "auth_env \<Rightarrow> auth_limits \<Rightarrow> login_request \<Rightarrow> string \<Rightarrow> string \<Rightarrow> auth_db \<Rightarrow> auth_db" where
  "count_wrong env limits req tid userId db =
     (if tenantProbe env tid db = Inr ()
      then db\<lparr>ad_credentials := update_where (\<lambda>c. cd_tenantId c = tid \<and> cd_userId c = userId)
        (count_failure (lock_threshold limits req) (al_lockWindowMs limits) (ae_now env)) (ad_credentials db)\<rparr>
      else db)"

lemma countWrongSecret_total:
  assumes "ae_reject env = (\<lambda>_ _. None)" "assertTenantId (lq_tenantId req) = Inr tid" "tenantProbe env tid (ae_others env 2 db) \<noteq> Inl NotFoundError"
  shows "countWrongSecret env limits req user db = (Inr (), count_wrong env limits req tid (lu_id user) (ae_others env 2 db))"
  using assms(3)
  by (rule tenantProbe_known)
    (simp_all add: countWrongSecret_def registerFailedAttempt_def inTenantContext_def assms count_wrong_def Let_def op_catch_def op_bind_def op_lift_def
      op_return_def run_tx_def tx_bind_def tx_readR_def tx_read_def ok_def err_def auth_write_def)

lemma login_refused:
  assumes "ae_reject env = (\<lambda>_ _. None)" "\<not> rate_limited_login env limits req context db" "assertTenantId (lq_tenantId req) = Inr tid"
    and known: "tenantProbe env tid (ae_others env 1 db) \<noteq> Inl NotFoundError"
      "tenantProbe env tid (ae_others env 2 (ae_others env 1 db)) \<noteq> Inl NotFoundError"
    and "found = (if tenantProbe env tid (ae_others env 1 db) = Inr () then login_account req tid (ae_others env 1 db) else None)"
    and wrong: "\<And>user. found = Some user \<Longrightarrow> \<not> secretValid env req user \<or> accountBlocked env user"
    and "db1 = (case found of Some user \<Rightarrow>
        if accountBlocked env user then ae_others env 1 db else count_wrong env limits req tid (lu_id user) (ae_others env 2 (ae_others env 1 db))
      | None \<Rightarrow> ae_others env 1 db)"
  shows "login env limits req context db = (Inl InvalidCredentialsError, db1\<lparr>ad_audit := ad_audit db1 @
    [login_attempt env context req (case found of Some user \<Rightarrow> Some (lu_id user) | None \<Rightarrow> userIdAttempted req) False]\<rparr>)"
proof (cases found)
  case None
  then show ?thesis
    using assms by (simp add: login_unlimited findCandidate_known op_bind_def refuse_total)
next
  case (Some user)
  with wrong have "\<not> secretValid env req user \<or> accountBlocked env user" by blast
  with Some assms(1-6,8) show ?thesis
    by (cases "accountBlocked env user")
      (auto simp: login_unlimited findCandidate_known op_bind_def op_return_def refuse_total countWrongSecret_total)
qed

lemma login_unknown_tenant:
  assumes "\<not> rate_limited_login env limits req context db" "assertTenantId (lq_tenantId req) = Inr tid"
    "tenantProbe env tid (ae_others env 1 db) = Inl NotFoundError"
  shows "login env limits req context db = (Inl NotFoundError, ae_others env 1 db)"
  using assms
  by (simp add: login_unlimited findCandidate_def lookup_login inTenantContext_def op_catch_def op_bind_def op_lift_def op_return_def run_tx_def
      tx_bind_def tx_readR_def tx_read_def ok_def err_def)

section \<open>Two remarks on the limits\<close>

text \<open>
  Both limits are compared with one number, the larger of the two counts, so only the smaller limit acts: with the defaults ten failures from one
  address, against any accounts, are enough, and the limit of twenty for an address never acts.
\<close>

lemma address_limit_never_acts:
  "rate_limited_login env default_limits req context db \<longleftrightarrow>
     10 \<le> failures_since (login_mode req) (\<lambda>a. aa_ipAddress a = lx_ipAddress context) (ae_now env - RATE_LIMIT_WINDOW_MS) db \<or>
     10 \<le> failures_since (login_mode req) (\<lambda>a. aa_identifierAttempted a = identifierForAudit req) (ae_now env - RATE_LIMIT_WINDOW_MS) db"
  by (auto simp: rate_limited_login_def countRecentFailures_def default_limits_def IP_RATE_LIMIT_def ACCOUNT_RATE_LIMIT_def Let_def)

text \<open>
  \<open>nowLocked\<close> is computed from the row after the update: it is false for the very attempt that locks the account, and true for the one before it.
\<close>

lemma nowLocked_one_early:
  assumes "lock_over (cd_lockedUntil c) now" "0 < window"
  shows "(limit \<le> cd_failedLoginAttempts c + 1 \<longrightarrow>
      cd_lockedUntil (count_failure limit window now c) = Some (now + window) \<and> \<not> fu_nowLocked (failure_result limit now (count_failure limit window now c))) \<and>
    (limit = cd_failedLoginAttempts c + 2 \<longrightarrow>
      cd_lockedUntil (count_failure limit window now c) = cd_lockedUntil c \<and> fu_nowLocked (failure_result limit now (count_failure limit window now c)))"
  using assms by (auto simp: count_failure_def failure_result_def lock_over_def)

end
