(* ===== verification/Auth_Guesses.thy ===== *)
theory Auth_Guesses
  imports Auth_Login
begin

text \<open>
  The lock of an account bounds guessing: how many attempts that could end in a login find one account open in any stretch of time, by attempts in
  either mode, between which other sessions leave the account's credentials alone.
\<close>

section \<open>The row of an account\<close>

definition account_row :: "string \<Rightarrow> string \<Rightarrow> auth_db \<Rightarrow> credentials_row option" where
  "account_row tid uid db = find_row (\<lambda>c. cd_tenantId c = tid \<and> cd_userId c = uid) (ad_credentials db)"

definition credentials_ok :: "auth_db \<Rightarrow> bool" where
  "credentials_ok db \<longleftrightarrow> distinct (map (\<lambda>c. (cd_tenantId c, cd_userId c)) (ad_credentials db))"

definition keeps_account :: "string \<Rightarrow> string \<Rightarrow> auth_db \<Rightarrow> auth_db \<Rightarrow> bool" where
  "keeps_account tid uid db db' \<longleftrightarrow> account_row tid uid db' = account_row tid uid db \<and> (credentials_ok db \<longrightarrow> credentials_ok db')"

interpretation account: tx_relation "keeps_account tid uid" for tid uid
  by unfold_locales (auto simp: keeps_account_def)

lemma auth_write_rule: "(\<And>s. R s (f s)) \<Longrightarrow> tx_ensures R (auth_write env f)"
  by (auto simp: tx_ensures_def tx_simps)

lemma keeps_other_columns:
  "ad_credentials db' = ad_credentials db \<Longrightarrow> keeps_account tid uid db db'"
  by (simp add: keeps_account_def account_row_def credentials_ok_def)

lemma credentials_update:
  assumes "\<And>c. cd_tenantId (f c) = cd_tenantId c \<and> cd_userId (f c) = cd_userId c"
  shows "account_row tid uid (db\<lparr>ad_credentials := update_where (\<lambda>c. cd_tenantId c = t \<and> cd_userId c = u) f (ad_credentials db)\<rparr>) =
      (if t = tid \<and> u = uid then map_option f (account_row tid uid db) else account_row tid uid db)"
    and "credentials_ok (db\<lparr>ad_credentials := update_where p f (ad_credentials db)\<rparr>) \<longleftrightarrow> credentials_ok db"
proof -
  have "find_row (\<lambda>c. cd_tenantId c = tid \<and> cd_userId c = uid) (update_where (\<lambda>c. cd_tenantId c = t \<and> cd_userId c = u) f xs) =
      (if t = tid \<and> u = uid then map_option f (find_row (\<lambda>c. cd_tenantId c = tid \<and> cd_userId c = uid) xs)
       else find_row (\<lambda>c. cd_tenantId c = tid \<and> cd_userId c = uid) xs)" for xs
    using assms by (induction xs) (auto simp: find_row_def update_where_def)
  then show "account_row tid uid (db\<lparr>ad_credentials := update_where (\<lambda>c. cd_tenantId c = t \<and> cd_userId c = u) f (ad_credentials db)\<rparr>) =
      (if t = tid \<and> u = uid then map_option f (account_row tid uid db) else account_row tid uid db)"
    by (simp add: account_row_def)
  show "credentials_ok (db\<lparr>ad_credentials := update_where p f (ad_credentials db)\<rparr>) \<longleftrightarrow> credentials_ok db"
    using assms by (simp add: credentials_ok_def update_where_keys)
qed

lemma count_failure_keys: "cd_tenantId (count_failure n w t c) = cd_tenantId c \<and> cd_userId (count_failure n w t c) = cd_userId c"
  by (simp add: count_failure_def)

definition stored_hashes :: "credentials_row \<Rightarrow> string option \<times> string option" where
  "stored_hashes c = (cd_passwordHash c, cd_pinHash c)"

lemma account_row_found:
  assumes "credentials_ok db" "login_account req tid db = Some user"
  shows "\<exists>c. account_row tid (lu_id user) db = Some c \<and> lu_lockedUntil user = cd_lockedUntil c \<and> lu_tenantId user = tid \<and>
    (lu_passwordHash user, lu_pinHash user) = stored_hashes c"
proof -
  from assms(2) obtain c u where c: "c \<in> set (ad_credentials db)" "cd_tenantId c = tid" "user = mapUser c u"
    by (auto simp: login_account_def find_account_def dest!: find_row_Some split: option.splits)
  have "find_row (\<lambda>x. cd_tenantId x = tid \<and> cd_userId x = cd_userId c) xs = Some c"
    if "c \<in> set xs" "distinct (map (\<lambda>x. (cd_tenantId x, cd_userId x)) xs)" for xs
    using that c(2) by (induction xs) (auto simp: find_row_def image_iff)
  with c assms(1) show ?thesis by (simp add: account_row_def credentials_ok_def mapUser_def stored_hashes_def)
qed

section \<open>One attempt\<close>

text \<open>
  A guess at an account: an attempt below the rate limits that finds the account active and unlocked and its tenant open. The engine also compares the
  secret of other attempts with the stored hash, so that they take as long, but refuses them whatever the comparison says.
\<close>

definition guesses :: "auth_env \<Rightarrow> auth_limits \<Rightarrow> login_request \<Rightarrow> login_context \<Rightarrow> string \<Rightarrow> string \<Rightarrow> auth_db \<Rightarrow> bool" where
  "guesses env limits req context tid uid db \<longleftrightarrow>
     \<not> rate_limited_login env limits req context db \<and> assertTenantId (lq_tenantId req) = Inr tid \<and>
     tenantProbe env tid (ae_others env 1 db) = Inr () \<and> tenantProbe env tid (ae_others env 2 (ae_others env 1 db)) = Inr () \<and>
     (case login_account req tid (ae_others env 1 db) of None \<Rightarrow> False | Some user \<Rightarrow> lu_id user = uid \<and> \<not> accountBlocked env user)"

text \<open>Attempts that never present the right secret of the account, beside sessions that leave it alone.\<close>

definition wrong_attempt :: "string \<Rightarrow> string \<Rightarrow> string option \<times> string option \<Rightarrow> auth_env \<Rightarrow> login_request \<Rightarrow> bool" where
  "wrong_attempt tid uid hashes env req \<longleftrightarrow> ae_reject env = (\<lambda>_ _. None) \<and> (\<forall>k db. keeps_account tid uid db (ae_others env k db)) \<and>
     (\<forall>user. lu_tenantId user = tid \<longrightarrow> lu_id user = uid \<longrightarrow> (lu_passwordHash user, lu_pinHash user) = hashes \<longrightarrow> \<not> secretValid env req user)"

abbreviation others_apart :: "string \<Rightarrow> string \<Rightarrow> auth_env \<Rightarrow> bool" where
  "others_apart tid uid env \<equiv> \<forall>k db. keeps_account tid uid db (ae_others env k db)"

lemma store_call_keeps:
  assumes "others_apart tid uid env" "\<And>x. assertTenantId t = Inr x \<Longrightarrow> tx_ensures (keeps_account tid uid) (fn x)"
  shows "op_ensures (keeps_account tid uid) (inTenantContext env k t fn)"
proof -
  have "keeps_account tid uid s s'" if run: "inTenantContext env k t fn s = (r, s')" for s r s'
  proof (cases "assertTenantId t")
    case (Inr x)
    have "tx_ensures (keeps_account tid uid) (tx_bind (tx_readR (tenantProbe env x)) (\<lambda>_. fn x))"
      by (rule account.bind_rule) (simp_all add: account.bodies assms(2) Inr)
    from op_ensuresD [OF account.run_rule [OF this]] run Inr have "keeps_account tid uid (ae_others env k s) s'"
      by (auto simp: inTenantContext_def op_bind_def op_lift_def)
    with assms(1) show ?thesis by (blast intro: account.trans)
  qed (use run in \<open>auto simp: inTenantContext_def op_bind_def op_lift_def account.refl\<close>)
  then show ?thesis by (simp add: op_ensures_def)
qed

lemma recordAttempt_keeps: "op_ensures (keeps_account tid uid) (recordAttempt env a)"
  unfolding recordAttempt_def by (intro account.run_rule auth_write_rule keeps_other_columns) simp

lemma refuse_keeps: "op_ensures (keeps_account tid uid) (refuse env context req u)"
  unfolding refuse_def by (intro account.operation_rules recordAttempt_keeps)

lemma suspended_keeps:
  "op_ensures (keeps_account tid uid) (if isTenantSuspended e then refuse env context req u else op_lift (Inl e))"
  by (simp add: refuse_keeps account.operation_rules)

lemma findCandidate_keeps:
  assumes "others_apart tid uid env"
  shows "op_ensures (keeps_account tid uid) (findCandidate env req)"
  unfolding findCandidate_def lookup_login
  by (intro account.op_cch store_call_keeps [OF assms]) (simp_all add: account.body_rules account.operation_rules)

lemma issueTokens_keeps:
  assumes "others_apart tid uid env"
  shows "op_ensures (keeps_account tid uid) (issueTokens env limits context req user inputs)"
proof -
  have "tx_ensures (keeps_account tid uid) (insertRefreshToken env x u h f e)" for x u h f e
    by (auto simp: tx_ensures_def insertRefreshToken_Inr intro: keeps_other_columns)
  then show ?thesis
    unfolding issueTokens_def Let_def storeRefreshToken_def
    by (intro account.op_bnd account.op_cch store_call_keeps [OF assms] suspended_keeps recordAttempt_keeps account.op_values)
qed

lemma registerSuccessfulLogin_keeps:
  assumes "others_apart tid uid env" "assertTenantId t \<noteq> Inr tid \<or> u \<noteq> uid"
  shows "op_ensures (keeps_account tid uid) (registerSuccessfulLogin env k t u)"
  unfolding registerSuccessfulLogin_def
proof (intro store_call_keeps [OF assms(1)] account.bind_rule account.bodies auth_write_rule)
  fix x s assume "assertTenantId t = Inr x"
  with assms(2) show "keeps_account tid uid s (s\<lparr>ad_credentials := update_where (\<lambda>c. cd_tenantId c = x \<and> cd_userId c = u)
      (\<lambda>c. c\<lparr>cd_failedLoginAttempts := 0, cd_lockedUntil := None\<rparr>) (ad_credentials s)\<rparr>)"
    by (auto simp: keeps_account_def credentials_update)
qed

lemma countWrongSecret_keeps:
  assumes "others_apart tid uid env" "assertTenantId (lq_tenantId req) \<noteq> Inr tid \<or> lu_id user \<noteq> uid"
  shows "op_ensures (keeps_account tid uid) (countWrongSecret env limits req user)"
  unfolding countWrongSecret_def registerFailedAttempt_def Let_def
proof (intro account.op_cch account.op_bnd store_call_keeps [OF assms(1)] account.bind_rule account.bodies auth_write_rule account.op_values)
  fix x s assume "assertTenantId (lq_tenantId req) = Inr x"
  with assms(2) show "keeps_account tid uid s (s\<lparr>ad_credentials := update_where (\<lambda>c. cd_tenantId c = x \<and> cd_userId c = lu_id user)
      (count_failure (lock_threshold limits req) (al_lockWindowMs limits) (ae_now env)) (ad_credentials s)\<rparr>)"
    by (auto simp: keeps_account_def credentials_update count_failure_keys)
qed (simp add: account.op_values)

lemma countWrongSecret_closed:
  assumes "assertTenantId (lq_tenantId req) = Inr tid" "tenantProbe env tid (ae_others env 2 s) \<noteq> Inr ()"
  shows "snd (countWrongSecret env limits req user s) = ae_others env 2 s"
  by (rule tenantProbe_cases [of env tid "ae_others env 2 s"])
    (use assms in \<open>simp_all add: countWrongSecret_def registerFailedAttempt_def inTenantContext_def Let_def op_catch_def op_bind_def op_lift_def
      op_return_def run_tx_def tx_bind_def tx_readR_def err_def\<close>)

lemma ensures_snd: "op_ensures R m \<Longrightarrow> R s (snd (m s))"
  by (simp add: op_ensures_def prod_eq_iff)

lemma op_bind_keeps:
  assumes "keeps_account tid uid s (snd (m s))" "\<And>a. op_ensures (keeps_account tid uid) (f a)"
  shows "keeps_account tid uid s (snd (op_bind m f s))"
  using assms account.trans ensures_snd [OF assms(2)] by (cases "m s") (auto simp: op_bind_def split: sum.splits)

text \<open>
  What one wrong attempt does to the row of the account: a guess is on an unlocked row and counted in it, anything else leaves it alone.
\<close>

lemma login_keeps:
  assumes "wrong_attempt tid uid (stored_hashes c) env req" "credentials_ok db" "account_row tid uid db = Some c" "\<not> guesses env limits req context tid uid db"
  shows "keeps_account tid uid db (snd (login env limits req context db))"
proof (cases "rate_limited_login env limits req context db")
  case True
  then have "login env limits req context db =
      op_bind (recordAttempt env (login_attempt env context req (userIdAttempted req) False)) (\<lambda>_. op_lift (Inl RateLimitError)) db"
    by (auto simp: login_def rate_limited_login_def Let_def)
  moreover have "op_ensures (keeps_account tid uid)
      (op_bind (recordAttempt env (login_attempt env context req (userIdAttempted req) False)) (\<lambda>_. op_lift (Inl RateLimitError :: token_pair result)))"
    by (intro account.op_bnd recordAttempt_keeps account.op_values)
  ultimately show ?thesis by (auto simp: op_ensures_def prod_eq_iff)
next
  case False
  from assms(1) have apart: "others_apart tid uid env" by (simp add: wrong_attempt_def)
  obtain r s1 where cand: "findCandidate env req db = (r, s1)" by fastforce
  with findCandidate_keeps [OF apart] have k1: "keeps_account tid uid db s1" by (auto simp: op_ensures_def)
  show ?thesis
  proof (cases "\<exists>user. r = Inr (Some user)")
    case True
    then obtain user where user: "r = Inr (Some user)" by blast
    with cand obtain tid' where t: "assertTenantId (lq_tenantId req) = Inr tid'" "tenantProbe env tid' s1 = Inr ()"
      "login_account req tid' s1 = Some user" "s1 = ae_others env 1 db" by (auto simp: findCandidate_Some)
    from k1 assms(2) have "credentials_ok s1" by (simp add: keeps_account_def)
    from account_row_found [OF this t(3)] have ut: "lu_tenantId user = tid'" by blast
    have hashes: "(lu_passwordHash user, lu_pinHash user) = stored_hashes c" if "tid' = tid" "lu_id user = uid"
      using account_row_found [OF \<open>credentials_ok s1\<close> t(3)] that k1 assms(3) by (auto simp: keeps_account_def)
    have count: "keeps_account tid uid s1 (snd (countWrongSecret env limits req user s1))" if "\<not> accountBlocked env user"
    proof (cases "tid' = tid \<and> lu_id user = uid")
      case True
      with that False t assms(4) have "tenantProbe env tid (ae_others env 2 s1) \<noteq> Inr ()" by (auto simp: guesses_def)
      with True t apart show ?thesis by (simp add: countWrongSecret_closed)
    next
      case False
      with countWrongSecret_keeps [OF apart, of req user limits] t show ?thesis by (auto simp: op_ensures_def prod_eq_iff)
    qed
    have "assertTenantId (lq_tenantId req) \<noteq> Inr tid \<or> lu_id user \<noteq> uid" if "secretValid env req user"
      using that assms(1) t ut hashes by (auto simp: wrong_attempt_def)
    note reset_keeps = registerSuccessfulLogin_keeps [OF apart this]
    have "keeps_account tid uid s1 (snd (login env limits req context db))"
      using count unfolding login_unlimited [OF False]
      by (auto simp: op_bind_def [of "findCandidate env req"] cand user op_return_def account.refl
          intro!: op_bind_keeps ensures_snd [OF account.op_cch] reset_keeps suspended_keeps issueTokens_keeps [OF apart] refuse_keeps)
    with k1 show ?thesis by (rule account.trans)
  next
    case no: False
    have "keeps_account tid uid s1 (snd (login env limits req context db))"
      unfolding login_unlimited [OF False] using no ensures_snd [OF refuse_keeps]
      by (auto simp: op_bind_def cand account.refl split: sum.splits option.splits)
    with k1 show ?thesis by (rule account.trans)
  qed
qed

lemma login_counts:
  assumes "wrong_attempt tid uid (stored_hashes c) env req" "credentials_ok db" "account_row tid uid db = Some c" "guesses env limits req context tid uid db"
  shows "\<not> isLocked (cd_lockedUntil c) (ae_now env) \<and>
    account_row tid uid (snd (login env limits req context db)) =
      Some (count_failure (lock_threshold limits req) (al_lockWindowMs limits) (ae_now env) c) \<and>
    credentials_ok (snd (login env limits req context db))"
proof -
  let ?db1 = "ae_others env 1 db" and ?db2 = "ae_others env 2 (ae_others env 1 db)"
  have kept: "keeps_account tid uid db ?db1" "keeps_account tid uid db ?db2"
    using assms(1) by (auto simp: wrong_attempt_def intro: account.trans)
  from assms(4) obtain user where user: "login_account req tid ?db1 = Some user" "lu_id user = uid" "\<not> accountBlocked env user"
    and free: "\<not> rate_limited_login env limits req context db" "assertTenantId (lq_tenantId req) = Inr tid"
      "tenantProbe env tid ?db1 = Inr ()" "tenantProbe env tid ?db2 = Inr ()"
    by (auto simp: guesses_def split: option.splits)
  from kept assms(2) have "credentials_ok ?db1" by (simp add: keeps_account_def)
  from account_row_found [OF this user(1)] kept user assms(3) have c: "account_row tid uid db = Some c" "lu_lockedUntil user = cd_lockedUntil c"
    "lu_tenantId user = tid" "(lu_passwordHash user, lu_pinHash user) = stored_hashes c" by (auto simp: keeps_account_def)
  with assms(1) user have "\<not> secretValid env req user" by (auto simp: wrong_attempt_def)
  then have run: "snd (login env limits req context db) = (count_wrong env limits req tid uid ?db2)
      \<lparr>ad_audit := ad_audit (count_wrong env limits req tid uid ?db2) @ [login_attempt env context req (Some uid) False]\<rparr>"
    using user free assms(1)
    by (simp add: login_unlimited findCandidate_known op_bind_def refuse_total countWrongSecret_total wrong_attempt_def)
  have row: "account_row tid uid (d\<lparr>ad_audit := x\<rparr>) = account_row tid uid d" "credentials_ok (d\<lparr>ad_audit := x\<rparr>) = credentials_ok d" for d x
    by (simp_all add: account_row_def credentials_ok_def)
  have "account_row tid uid ?db2 = Some c" "credentials_ok ?db2" using kept c assms(2) by (simp_all add: keeps_account_def)
  then show ?thesis
    unfolding run row using c user free
    by (simp add: count_wrong_def credentials_update count_failure_keys accountBlocked_def)
qed

section \<open>A run of attempts\<close>

type_synonym attempt = "auth_env \<times> login_request \<times> login_context"

definition attempt_step :: "auth_limits \<Rightarrow> string \<Rightarrow> string \<Rightarrow> int list \<times> auth_db \<Rightarrow> attempt \<Rightarrow> int list \<times> auth_db" where
  "attempt_step limits tid uid = (\<lambda>(ts, db) (env, req, context).
     (if guesses env limits req context tid uid db then ts @ [ae_now env] else ts, snd (login env limits req context db)))"

text \<open>The times of the guesses at the account in a run of attempts.\<close>

definition guess_times :: "auth_limits \<Rightarrow> string \<Rightarrow> string \<Rightarrow> attempt list \<Rightarrow> auth_db \<Rightarrow> int list" where
  "guess_times limits tid uid attempts db = fst (foldl (attempt_step limits tid uid) ([], db) attempts)"

text \<open>
  The row after the guesses at the times \<open>ts\<close>: it counts them, it is locked for a whole window after the last one once there are \<open>M\<close> of them, and
  the guesses from the \<open>M\<close>-th on are a window apart.
\<close>

definition guessed_row :: "nat \<Rightarrow> int \<Rightarrow> int list \<Rightarrow> credentials_row \<Rightarrow> bool" where
  "guessed_row M W ts c \<longleftrightarrow> int (length ts) \<le> cd_failedLoginAttempts c \<and>
     (M \<le> length ts \<longrightarrow> cd_lockedUntil c = Some (last ts + W) \<and> int (length ts - M) * W \<le> last ts - ts ! (M - 1))"

lemma guessed_row_step:
  assumes "guessed_row M W ts c" "\<not> isLocked (cd_lockedUntil c) now" "limit \<le> int M" "0 < M" "0 < W"
  shows "guessed_row M W (ts @ [now]) (count_failure limit W now c)"
proof -
  have over: "lock_over (cd_lockedUntil c) now"
    using assms(2) by (auto simp: lock_over_def isLocked_def split: option.splits)
  have gap: "int (Suc (length ts) - M) * W \<le> now - (ts @ [now]) ! (M - 1)" if "M \<le> Suc (length ts)"
  proof (cases "M \<le> length ts")
    case True
    with assms(1,2) have "last ts + W \<le> now" "int (length ts - M) * W \<le> last ts - ts ! (M - 1)"
      by (auto simp: guessed_row_def isLocked_def)
    moreover have "int (Suc (length ts) - M) * W = int (length ts - M) * W + W"
      using True by (simp add: Suc_diff_le distrib_right)
    moreover have "(ts @ [now]) ! (M - 1) = ts ! (M - 1)" using True assms(4) less_le_trans [of "M - 1" M "length ts"] by (simp add: nth_append)
    ultimately show ?thesis by linarith
  next
    case False
    with that have "M = Suc (length ts)" by simp
    then show ?thesis by simp
  qed
  have "limit \<le> cd_failedLoginAttempts c + 1" if "M \<le> Suc (length ts)"
    using that assms(1,3) unfolding guessed_row_def by linarith
  with over gap assms(1) show ?thesis by (auto simp: guessed_row_def count_failure_def)
qed

lemma guesses_counted:
  assumes "credentials_ok db" "account_row tid uid db = Some c" "0 \<le> cd_failedLoginAttempts c"
    "\<forall>(env, req, context)\<in>set attempts. wrong_attempt tid uid (stored_hashes c) env req"
    and "M = nat (max (al_passwordThreshold limits) (al_pinThreshold limits))" "0 < M" "0 < al_lockWindowMs limits"
  shows "case foldl (attempt_step limits tid uid) ([], db) attempts of (ts, db') \<Rightarrow>
     credentials_ok db' \<and> (\<exists>c'. account_row tid uid db' = Some c' \<and> stored_hashes c' = stored_hashes c \<and> guessed_row M (al_lockWindowMs limits) ts c')"
  using assms(4)
proof (induction attempts rule: rev_induct)
  case Nil
  with assms(1-3,6) show ?case by (simp add: guessed_row_def)
next
  case (snoc x attempts)
  obtain env req ctx where x: "x = (env, req, ctx)" by (rule prod_cases3)
  obtain ts db' where run: "foldl (attempt_step limits tid uid) ([], db) attempts = (ts, db')" by fastforce
  with snoc obtain c' where c: "credentials_ok db'" "account_row tid uid db' = Some c'" "guessed_row M (al_lockWindowMs limits) ts c'"
    "stored_hashes c' = stored_hashes c" by auto
  from snoc x c(4) have wrong: "wrong_attempt tid uid (stored_hashes c') env req" by simp
  have step: "foldl (attempt_step limits tid uid) ([], db) (attempts @ [x]) =
      (if guesses env limits req ctx tid uid db' then ts @ [ae_now env] else ts, snd (login env limits req ctx db'))"
    unfolding foldl_append run x by (simp add: attempt_step_def)
  have "lock_threshold limits req \<le> int M" using assms(5,6) by (auto simp: lock_threshold_def split: auth_mode.splits)
  show ?case
  proof (cases "guesses env limits req ctx tid uid db'")
    case True
    from login_counts [OF wrong c(1,2) True] c show ?thesis
      using guessed_row_step [OF c(3) _ \<open>lock_threshold limits req \<le> int M\<close> assms(6,7), of "ae_now env"]
      unfolding step by (auto simp: True stored_hashes_def count_failure_def)
  next
    case False
    from login_keeps [OF wrong c(1,2) False] c show ?thesis unfolding step by (auto simp: False keeps_account_def)
  qed
qed

lemma guess_times_from:
  "set (guess_times limits tid uid attempts db) \<subseteq> (\<lambda>(env, req, context). ae_now env) ` set attempts"
proof (induction attempts rule: rev_induct)
  case (snoc x attempts)
  obtain ts db' where run: "foldl (attempt_step limits tid uid) ([], db) attempts = (ts, db')" by fastforce
  with snoc show ?case by (cases x) (auto simp: guess_times_def attempt_step_def)
qed (simp add: guess_times_def)

text \<open>Only a guess can end in a login.\<close>

lemma login_is_guess:
  assumes "login env limits req context db = (Inr pair, db')" "assertTenantId (tp_tenantId pair) = Inr tid" "tp_userId pair = uid"
  shows "guesses env limits req context tid uid db"
  using assms(1)
proof (cases rule: login_steps)
  case (1 tid' user u)
  then show ?thesis using issueTokens_Inr [OF 1(9)] assms(2,3) by (auto simp: guesses_def)
qed

text \<open>
  C19. The lock bounds guessing. A guess at an account is an attempt below the rate limits that finds the account active and unlocked and its tenant
  open; an attempt that is no guess never ends in a login to the account, whatever secret it presents. In any run of attempts, in either mode and from any
  address, that takes place within \<open>T\<close> milliseconds, never presents the right secret of the account, and meets no other session that writes the
  account's credentials and no write that the database refuses, the number of guesses is at most the larger of the two thresholds plus one for each full
  lock window in \<open>T\<close>.
\<close>

theorem wrong_guesses_bounded:
  assumes "credentials_ok db" "account_row tid uid db = Some c" "0 \<le> cd_failedLoginAttempts c"
    and wrong: "\<forall>(env, req, context)\<in>set attempts. wrong_attempt tid uid (stored_hashes c) env req \<and> start \<le> ae_now env \<and> ae_now env \<le> start + T"
    and M: "M = max (al_passwordThreshold limits) (al_pinThreshold limits)" "0 < M" "0 < al_lockWindowMs limits" "0 \<le> T"
  shows "int (length (guess_times limits tid uid attempts db)) \<le> M + T div al_lockWindowMs limits \<and>
    (\<forall>env req context d pair d'. login env limits req context d = (Inr pair, d') \<longrightarrow> assertTenantId (tp_tenantId pair) = Inr tid \<longrightarrow>
       tp_userId pair = uid \<longrightarrow> guesses env limits req context tid uid d)"
proof (intro conjI allI impI)
  let ?ts = "guess_times limits tid uid attempts db" and ?W = "al_lockWindowMs limits"
  have "\<forall>(env, req, context)\<in>set attempts. wrong_attempt tid uid (stored_hashes c) env req" using wrong by fast
  from guesses_counted [OF assms(1-3) this, of "nat M" limits] M obtain c' where row: "guessed_row (nat M) ?W ?ts c'"
    by (auto simp: guess_times_def split: prod.splits)
  show "int (length ?ts) \<le> M + T div ?W"
  proof (cases "nat M \<le> length ?ts")
    case True
    have "t \<in> {start .. start + T}" if "t \<in> set ?ts" for t
      using that guess_times_from [of limits tid uid attempts db] wrong by fastforce
    moreover have "?ts \<noteq> []" "nat M - 1 < length ?ts" using True M(2) by auto
    ultimately have "last ?ts \<le> start + T" "start \<le> ?ts ! (nat M - 1)" by auto
    with row True have "int (length ?ts - nat M) * ?W \<le> T" by (auto simp: guessed_row_def)
    then have "int (length ?ts - nat M) \<le> T div ?W" using M(3) zdiv_mono1 [of "int (length ?ts - nat M) * ?W" T ?W] by simp
    with True M(2) show ?thesis by linarith
  next
    case False
    with M show ?thesis using pos_imp_zdiv_nonneg_iff [OF M(3), of T] by linarith
  qed
qed (rule login_is_guess)

end
