(* ===== verification/Auth_Refresh.thy ===== *)
theory Auth_Refresh
  imports Auth_Guesses
begin

text \<open>
  The ledger of refresh tokens: what a refresh that returns tokens has checked and written, that a token is used at most once in any history of the
  system, and that presenting a used one ends its whole family.
\<close>

section \<open>How the ledger evolves\<close>

definition ledger_ok :: "auth_db \<Rightarrow> bool" where
  "ledger_ok db \<longleftrightarrow> distinct (map rt_tokenHash (ad_refreshTokens db)) \<and> distinct (map rt_id (ad_refreshTokens db))"

definition same_token :: "refresh_token_row \<Rightarrow> refresh_token_row \<Rightarrow> bool" where
  "same_token r r' \<longleftrightarrow> rt_id r' = rt_id r \<and> rt_tenantId r' = rt_tenantId r \<and> rt_userId r' = rt_userId r \<and> rt_tokenHash r' = rt_tokenHash r \<and>
     rt_familyId r' = rt_familyId r \<and> (rt_revokedAt r \<noteq> None \<longrightarrow> rt_revokedAt r' \<noteq> None)"

text \<open>No row is deleted, no hash or identifier is used twice, and a revoked token stays revoked.\<close>

definition ledger_evolves :: "auth_db \<Rightarrow> auth_db \<Rightarrow> bool" where
  "ledger_evolves db db' \<longleftrightarrow> (ledger_ok db \<longrightarrow>
     ledger_ok db' \<and> (\<forall>r\<in>set (ad_refreshTokens db). \<exists>r'\<in>set (ad_refreshTokens db'). same_token r r'))"

interpretation ledger: tx_relation ledger_evolves
proof
  show "ledger_evolves s s" for s by (auto simp: ledger_evolves_def same_token_def)
  show "ledger_evolves s u" if "ledger_evolves s t" "ledger_evolves t u" for s t u
    using that unfolding ledger_evolves_def same_token_def by metis
qed

lemma ledger_same: "ad_refreshTokens db' = ad_refreshTokens db \<Longrightarrow> ledger_evolves db db'"
  by (auto simp: ledger_evolves_def ledger_ok_def same_token_def)

lemma ledger_insert:
  "tx_ensures ledger_evolves (insertRefreshToken env tid u h f x)"
proof -
  have "ledger_evolves s (s\<lparr>ad_refreshTokens := ad_refreshTokens s @ [new_token env tid u h f x s]\<rparr>)"
    if "\<forall>row\<in>set (ad_refreshTokens s). rt_tokenHash row \<noteq> h \<and> rt_id row \<noteq> ae_rowId env s" for s
    using that by (auto simp: ledger_evolves_def ledger_ok_def new_token_def same_token_def)
  then show ?thesis by (auto simp: tx_ensures_def insertRefreshToken_Inr)
qed

lemma ledger_revoke: "tx_ensures ledger_evolves (revoke_where env P now)"
proof -
  have keys: "map rt_tokenHash (update_where P (\<lambda>r. r\<lparr>rt_revokedAt := Some now\<rparr>) xs) = map rt_tokenHash xs"
    "map rt_id (update_where P (\<lambda>r. r\<lparr>rt_revokedAt := Some now\<rparr>) xs) = map rt_id xs" for xs
    by (simp_all add: update_where_keys)
  have "\<exists>r'\<in>set (update_where P (\<lambda>r. r\<lparr>rt_revokedAt := Some now\<rparr>) xs). same_token r r'" if "r \<in> set xs" for r xs
    using that by (induction xs) (auto simp: update_where_def same_token_def)
  then show ?thesis
    unfolding revoke_where_def by (intro auth_write_rule) (auto simp: ledger_evolves_def ledger_ok_def keys)
qed

section \<open>Every operation lets the ledger evolve\<close>

definition others_evolve :: "auth_env \<Rightarrow> bool" where
  "others_evolve env \<longleftrightarrow> (\<forall>k db. ledger_evolves db (ae_others env k db))"

lemma store_call_evolves:
  assumes "others_evolve env" "\<And>x. tx_ensures ledger_evolves (fn x)"
  shows "op_ensures ledger_evolves (inTenantContext env k t fn)"
proof -
  have "ledger_evolves s s'" if run: "inTenantContext env k t fn s = (r, s')" for s r s'
  proof (cases "assertTenantId t")
    case (Inr x)
    have "tx_ensures ledger_evolves (tx_bind (tx_readR (tenantProbe env x)) (\<lambda>_. fn x))"
      by (rule ledger.bind_rule) (simp_all add: ledger.bodies assms(2))
    from op_ensuresD [OF ledger.run_rule [OF this]] run Inr have "ledger_evolves (ae_others env k s) s'"
      by (auto simp: inTenantContext_def op_bind_def op_lift_def)
    with assms(1) show ?thesis unfolding others_evolve_def by (blast intro: ledger.trans)
  qed (use run in \<open>auto simp: inTenantContext_def op_bind_def op_lift_def ledger.refl\<close>)
  then show ?thesis by (simp add: op_ensures_def)
qed

lemma ledger_write: "(\<And>s. ad_refreshTokens (f s) = ad_refreshTokens s) \<Longrightarrow> tx_ensures ledger_evolves (auth_write env f)"
  by (intro auth_write_rule ledger_same)

lemma ledger_if: "op_ensures R A \<Longrightarrow> op_ensures R B \<Longrightarrow> op_ensures R (\<lambda>db. if P db then A db else B db)"
  by (auto simp: op_ensures_def)

lemma ledger_audit: "op_ensures ledger_evolves (recordAttempt env a)"
  unfolding recordAttempt_def by (intro ledger.run_rule ledger_write) simp

lemma ledger_refuse: "op_ensures ledger_evolves (refuse env context req u)"
  unfolding refuse_def by (intro ledger.operation_rules ledger_audit)

lemma ledger_refuse_refresh: "op_ensures ledger_evolves (refuse_refresh env context claims)"
  unfolding refuse_refresh_def recordFailure_def by (intro ledger.operation_rules ledger_audit)

lemmas ledger_rules = ledger.operation_rules ledger.body_rules ledger_audit ledger_refuse ledger_refuse_refresh ledger_write ledger_insert ledger_revoke

lemma login_evolves:
  assumes "others_evolve env"
  shows "op_ensures ledger_evolves (login env limits req context)"
proof -
  have find: "op_ensures ledger_evolves (findCandidate env req)"
    unfolding findCandidate_def lookup_login by (intro ledger.op_cch store_call_evolves [OF assms]) (simp_all add: ledger_rules)
  have count: "op_ensures ledger_evolves (countWrongSecret env limits req user)" for user
    unfolding countWrongSecret_def registerFailedAttempt_def Let_def
    by (intro ledger.op_cch ledger.op_bnd store_call_evolves [OF assms] ledger.bind_rule) (simp_all add: ledger_rules)
  have reset: "op_ensures ledger_evolves (registerSuccessfulLogin env 2 t u)" for t u
    unfolding registerSuccessfulLogin_def
    by (intro store_call_evolves [OF assms] ledger.bind_rule) (simp_all add: ledger_rules)
  have issue: "op_ensures ledger_evolves (issueTokens env limits context req user inputs)" for user inputs
    unfolding issueTokens_def Let_def storeRefreshToken_def
    by (intro ledger.op_cch ledger.op_bnd store_call_evolves [OF assms]) (simp_all add: ledger_rules)
  have cont: "op_ensures ledger_evolves (case found of None \<Rightarrow> refuse env context req (userIdAttempted req)
       | Some user \<Rightarrow>
           if \<not> secretValid env req user \<or> accountBlocked env user
           then op_bind (if \<not> secretValid env req user \<and> \<not> accountBlocked env user then countWrongSecret env limits req user else op_return ()) (\<lambda>_.
                refuse env context req (Some (lu_id user)))
           else
             op_bind (op_catch (registerSuccessfulLogin env 2 (lq_tenantId req) (lu_id user))
               (\<lambda>e. if isTenantSuspended e then refuse env context req (Some (lu_id user)) else op_lift (Inl e))) (\<lambda>inputs.
             issueTokens env limits context req user inputs))" for found
    by (cases found) (auto simp: ledger_rules issue count reset intro!: ledger.op_bnd ledger.op_cch)
  show ?thesis
    unfolding login_def Let_def by (intro ledger_if ledger.op_bnd find cont ledger_audit ledger.op_values)
qed

lemma refresh_evolves:
  assumes "others_evolve env"
  shows "op_ensures ledger_evolves (refresh env limits t context)"
proof -
  have refused: "op_ensures ledger_evolves (suspended_refusal env context claims e)" for claims e
    by (simp add: suspended_refusal_def ledger_rules)
  have "tx_ensures ledger_evolves (rotateBody env tid h h' f x now)" for tid h h' f x now
    unfolding rotateBody_def
    by (intro ledger.bind_rule ledger.bodies) (auto simp: ledger_rules intro!: ledger.bind_rule split: option.splits)
  then have rotate: "op_ensures ledger_evolves (rotate_token env 2 tid h h' f x now)" for tid h h' f x now
    unfolding rotate_token_def by (intro store_call_evolves [OF assms])
  have issue: "op_ensures ledger_evolves (rotateAndIssue env limits context claims v)" for claims v
    unfolding rotateAndIssue_def Let_def recordFailure_def
    by (intro ledger.op_bnd ledger.op_cch rotate refused) (auto simp: ledger_rules split: refresh_rotation.splits)
  have "op_ensures ledger_evolves (getActiveSecVInputs env 1 t u)" for t u
    unfolding getActiveSecVInputs_def by (intro store_call_evolves [OF assms]) (simp add: ledger_rules)
  then have "op_ensures ledger_evolves (refreshVerified env limits context claims)" for claims
    unfolding refreshVerified_def Let_def recordFailure_def
    by (intro ledger_if ledger.op_bnd ledger.op_cch ledger_audit ledger.op_values refused)
      (auto simp: ledger_rules issue split: option.splits bool.splits)
  then show ?thesis
    by (cases "verifyRefreshToken (ae_tokens env) t (ae_now env)") (simp_all add: refresh_def recordFailure_def ledger_rules)
qed

section \<open>A refresh that succeeds\<close>

definition token_row :: "string \<Rightarrow> string \<Rightarrow> auth_db \<Rightarrow> refresh_token_row option" where
  "token_row tid h db = find_row (\<lambda>r. rt_tenantId r = tid \<and> rt_tokenHash r = h) (ad_refreshTokens db)"

definition token_account :: "string \<Rightarrow> refresh_token_row \<Rightarrow> auth_db \<Rightarrow> auth_user option" where
  "token_account tid row = find_account tid (\<lambda>c. cd_userId c = rt_userId row)"

definition revoke_token :: "string \<Rightarrow> refresh_token_row \<Rightarrow> int \<Rightarrow> auth_db \<Rightarrow> auth_db" where
  "revoke_token tid row now db =
     db\<lparr>ad_refreshTokens := update_where (\<lambda>r. rt_tenantId r = tid \<and> rt_id r = rt_id row) (\<lambda>r. r\<lparr>rt_revokedAt := Some now\<rparr>) (ad_refreshTokens db)\<rparr>"

definition revoke_family :: "string \<Rightarrow> refresh_token_row \<Rightarrow> int \<Rightarrow> auth_db \<Rightarrow> auth_db" where
  "revoke_family tid row now db =
     db\<lparr>ad_refreshTokens := update_where (\<lambda>r. rt_tenantId r = tid \<and> rt_familyId r = rt_familyId row \<and> rt_revokedAt r = None)
       (\<lambda>r. r\<lparr>rt_revokedAt := Some now\<rparr>) (ad_refreshTokens db)\<rparr>"

lemma revoke_where_Inr:
  "revoke_where env P now s = Inr (x, s') \<Longrightarrow>
     s' = s\<lparr>ad_refreshTokens := update_where P (\<lambda>r. r\<lparr>rt_revokedAt := Some now\<rparr>) (ad_refreshTokens s)\<rparr>"
  by (simp add: revoke_where_def tx_simps)

lemma rotateBody_rotated:
  assumes "rotateBody env tid h h' fam x now s = Inr (rotated u t, s')"
  shows "\<exists>row a. let s1 = revoke_token tid row now s; new = new_token env tid (rt_userId row) h' fam x s1 in
    token_row tid h s = Some row \<and> rt_revokedAt row = None \<and> token_account tid row s = Some a \<and> lu_isActive a \<and> lock_over (lu_lockedUntil a) now \<and>
    (\<forall>r\<in>set (ad_refreshTokens s1). rt_tokenHash r \<noteq> h') \<and> s' = s1\<lparr>ad_refreshTokens := ad_refreshTokens s1 @ [new]\<rparr>"
proof -
  from assms obtain row where row: "token_row tid h s = Some row" "rt_revokedAt row = None"
    by (auto simp: rotateBody_def token_row_def tx_simps split: option.splits if_splits)
  from assms row obtain a where a: "token_account tid row s = Some a" "lu_isActive a" "lock_over (lu_lockedUntil a) now"
    by (auto simp: rotateBody_def token_row_def token_account_def tx_simps split: option.splits if_splits)
  from assms row a show ?thesis
    by (intro exI [of _ row] exI [of _ a])
      (auto simp: rotateBody_def token_row_def token_account_def revoke_token_def tx_simps insertRefreshToken_Inr Let_def
        dest!: revoke_where_Inr split: option.splits if_splits)
qed

lemma refuse_refresh_not_Inr [simp]: "refuse_refresh env context claims s = (Inr a, s') \<longleftrightarrow> False"
  by (simp add: refuse_refresh_def tx_simps)

lemma suspended_refusal_not_Inr [simp]: "suspended_refusal env context claims e s = (Inr a, s') \<longleftrightarrow> False"
  by (simp add: suspended_refusal_def tx_simps)

definition refresh_attempt :: "auth_env \<Rightarrow> login_context \<Rightarrow> jwt_claims \<Rightarrow> bool \<Rightarrow> auth_attempt" where
  "refresh_attempt env context claims success = \<lparr>aa_tenantIdAttempted = Some (jc_tid claims), aa_userIdAttempted = Some (jc_sub claims),
     aa_identifierAttempted = ''refresh:'' @ jc_sub claims, aa_mode = refresh_mode, aa_success = success, aa_ipAddress = lx_ipAddress context,
     aa_userAgent = lx_userAgent context, aa_createdAt = ae_now env\<rparr>"

lemma rotateAndIssue_Inr:
  assumes "rotateAndIssue env limits context claims v s = (Inr pair, s')"
  shows "\<exists>s1 u t. rotate_token env 2 (jc_tid claims) (ae_sha256 env (jc_jti claims)) (ae_sha256 env (ae_uuid env 0)) (jc_fam claims)
      (ae_now env + al_refreshTtlSeconds limits * 1000) (ae_now env) s = (Inr (rotated u t), s1) \<and>
    s' = s1\<lparr>ad_audit := ad_audit s1 @ [refresh_attempt env context claims True]\<rparr> \<and>
    pair = \<lparr>tp_accessToken = issueAccessToken (ae_tokens env) (jc_tid claims) (jc_sub claims) v (ae_now env),
      tp_refreshToken = issueRefreshToken (ae_tokens env) (jc_tid claims) (jc_sub claims) v (ae_uuid env 0) (jc_fam claims) (ae_now env),
      tp_userId = jc_sub claims, tp_tenantId = jc_tid claims\<rparr>"
proof -
  from assms obtain rotation s1 where rot: "rotate_token env 2 (jc_tid claims) (ae_sha256 env (jc_jti claims)) (ae_sha256 env (ae_uuid env 0))
      (jc_fam claims) (ae_now env + al_refreshTtlSeconds limits * 1000) (ae_now env) s = (Inr rotation, s1)"
    by (auto simp: rotateAndIssue_def Let_def op_bind_Inr op_catch_Inr)
  with assms show ?thesis
    by (cases rotation) (auto simp: rotateAndIssue_def Let_def op_bind_Inr op_catch_Inr op_return_Inr recordFailure_def recordAttempt_Inr refresh_attempt_def)
qed

definition rate_limited_refresh :: "auth_env \<Rightarrow> auth_limits \<Rightarrow> jwt_claims \<Rightarrow> login_context \<Rightarrow> auth_db \<Rightarrow> bool" where
  "rate_limited_refresh env limits claims context db \<longleftrightarrow>
     (let n = countRecentFailures env refresh_mode (lx_ipAddress context) (''refresh:'' @ jc_sub claims) (al_rateLimitWindowMs limits) db
      in n \<ge> al_ipRateLimit limits \<or> n \<ge> al_accountRateLimit limits)"

lemma refreshVerified_Inr:
  assumes "refreshVerified env limits context claims db = (Inr pair, db')"
  shows "\<not> rate_limited_refresh env limits claims context db \<and> (\<exists>tid u. assertTenantId (jc_tid claims) = Inr tid \<and>
    tenantProbe env tid (ae_others env 1 db) = Inr () \<and> user_row tid (jc_sub claims) (ae_others env 1 db) = Some u \<and> mu_isActive u \<and>
    fresh_secV env tid u (ae_others env 1 db) = jc_secV claims \<and>
    rotateAndIssue env limits context claims (jc_secV claims) (ae_others env 1 db) = (Inr pair, db'))"
proof -
  let ?cont = "\<lambda>fresh. case fresh of
         Some (inputs, True) \<Rightarrow>
           (let freshSecV = deriveSecV (si_activeRoles inputs) (si_securityVersion inputs) (ae_sha256 env) in
            if freshSecV \<noteq> jc_secV claims then refuse_refresh env context claims
            else rotateAndIssue env limits context claims freshSecV)
       | _ \<Rightarrow> refuse_refresh env context claims"
  from assms have free: "\<not> rate_limited_refresh env limits claims context db"
    by (auto simp: refreshVerified_def rate_limited_refresh_def Let_def op_bind_Inr op_lift_Inr)
  with assms have run: "op_bind (op_catch (getActiveSecVInputs env 1 (jc_tid claims) (jc_sub claims)) (suspended_refusal env context claims)) ?cont db = (Inr pair, db')"
    unfolding refreshVerified_def rate_limited_refresh_def Let_def by argo
  then obtain fresh s1 where fresh: "getActiveSecVInputs env 1 (jc_tid claims) (jc_sub claims) db = (Inr fresh, s1)" "?cont fresh s1 = (Inr pair, db')"
    by (auto simp: op_bind_Inr op_catch_Inr)
  then obtain inputs where inputs: "fresh = Some (inputs, True)" by (auto split: option.splits prod.splits bool.splits)
  from fresh(1) inputs obtain tid u where "assertTenantId (jc_tid claims) = Inr tid" "tenantProbe env tid (ae_others env 1 db) = Inr ()"
      "user_row tid (jc_sub claims) (ae_others env 1 db) = Some u" "mu_isActive u" "inputs = secVInputs tid u (ae_others env 1 db)" "s1 = ae_others env 1 db"
    by (auto simp: getActiveSecVInputs_def inTenantContext_Inr tx_read_Inr map_option_case split: option.splits)
  with fresh(2) free inputs show ?thesis
    by (auto simp: fresh_secV_def secVInputs_def Let_def split: if_splits)
qed

text \<open>The checks before the rotation, the pair returned, and what the rotation does.\<close>

definition refresh_goes ::
  "auth_env \<Rightarrow> auth_limits \<Rightarrow> string \<Rightarrow> login_context \<Rightarrow> auth_db \<Rightarrow> jwt_claims \<Rightarrow> string \<Rightarrow> mem_user \<Rightarrow> bool" where
  "refresh_goes env limits t context db claims tid u \<longleftrightarrow> (let db1 = ae_others env 1 db; db2 = ae_others env 2 db1 in
     verifyRefreshToken (ae_tokens env) t (ae_now env) = Inr claims \<and> \<not> rate_limited_refresh env limits claims context db \<and>
     assertTenantId (jc_tid claims) = Inr tid \<and> (\<forall>d\<in>{db1, db2}. tenantProbe env tid d = Inr ()) \<and>
     user_row tid (jc_sub claims) db1 = Some u \<and> mu_isActive u \<and> fresh_secV env tid u db1 = jc_secV claims)"

definition refreshed_pair :: "auth_env \<Rightarrow> jwt_claims \<Rightarrow> token_pair" where
  "refreshed_pair env claims =
     \<lparr>tp_accessToken = issueAccessToken (ae_tokens env) (jc_tid claims) (jc_sub claims) (jc_secV claims) (ae_now env),
      tp_refreshToken = issueRefreshToken (ae_tokens env) (jc_tid claims) (jc_sub claims) (jc_secV claims) (ae_uuid env 0) (jc_fam claims) (ae_now env),
      tp_userId = jc_sub claims, tp_tenantId = jc_tid claims\<rparr>"

definition refresh_swaps ::
  "auth_env \<Rightarrow> auth_limits \<Rightarrow> jwt_claims \<Rightarrow> string \<Rightarrow> refresh_token_row \<Rightarrow> auth_user \<Rightarrow> auth_db \<Rightarrow> auth_db \<Rightarrow> bool" where
  "refresh_swaps env limits claims tid row account db db' \<longleftrightarrow> (let s = revoke_token tid row (ae_now env) db;
      new = new_token env tid (rt_userId row) (ae_sha256 env (ae_uuid env 0)) (jc_fam claims) (ae_now env + al_refreshTtlSeconds limits * 1000) s in
     token_row tid (ae_sha256 env (jc_jti claims)) db = Some row \<and> rt_revokedAt row = None \<and>
     token_account tid row db = Some account \<and> lu_isActive account \<and> lock_over (lu_lockedUntil account) (ae_now env) \<and>
     (\<forall>r\<in>set (ad_refreshTokens s). rt_tokenHash r \<noteq> rt_tokenHash new) \<and> db' = s\<lparr>ad_refreshTokens := ad_refreshTokens s @ [new]\<rparr>)"

lemma refresh_run:
  assumes "refresh env limits t context db = (Inr pair, db')"
  shows "\<exists>claims tid u row account s. refresh_goes env limits t context db claims tid u \<and>
    refresh_swaps env limits claims tid row account (ae_others env 2 (ae_others env 1 db)) s \<and>
    db' = s\<lparr>ad_audit := ad_audit s @ [refresh_attempt env context claims True]\<rparr> \<and> pair = refreshed_pair env claims"
proof -
  from assms obtain claims where claims: "verifyRefreshToken (ae_tokens env) t (ae_now env) = Inr claims"
      and run: "refreshVerified env limits context claims db = (Inr pair, db')"
    by (auto simp: refresh_def tx_simps split: sum.splits)
  from refreshVerified_Inr [OF run] obtain tid u where u: "\<not> rate_limited_refresh env limits claims context db"
      "assertTenantId (jc_tid claims) = Inr tid" "tenantProbe env tid (ae_others env 1 db) = Inr ()"
      "user_row tid (jc_sub claims) (ae_others env 1 db) = Some u" "mu_isActive u" "fresh_secV env tid u (ae_others env 1 db) = jc_secV claims"
      and issue: "rotateAndIssue env limits context claims (jc_secV claims) (ae_others env 1 db) = (Inr pair, db')"
    by auto
  from rotateAndIssue_Inr [OF issue] obtain s x y where s: "rotate_token env 2 (jc_tid claims) (ae_sha256 env (jc_jti claims))
      (ae_sha256 env (ae_uuid env 0)) (jc_fam claims) (ae_now env + al_refreshTtlSeconds limits * 1000) (ae_now env) (ae_others env 1 db) =
        (Inr (rotated x y), s)"
      "db' = s\<lparr>ad_audit := ad_audit s @ [refresh_attempt env context claims True]\<rparr>" "pair = refreshed_pair env claims"
    unfolding refreshed_pair_def by blast
  let ?db2 = "ae_others env 2 (ae_others env 1 db)"
  from s(1) u(2) have probe: "tenantProbe env tid ?db2 = Inr ()" and body: "rotateBody env tid (ae_sha256 env (jc_jti claims))
      (ae_sha256 env (ae_uuid env 0)) (jc_fam claims) (ae_now env + al_refreshTtlSeconds limits * 1000) (ae_now env) ?db2 = Inr (rotated x y, s)"
    by (auto simp: rotate_token_def inTenantContext_Inr)
  from rotateBody_rotated [OF body] obtain row account where "refresh_swaps env limits claims tid row account ?db2 s"
    by (auto simp: refresh_swaps_def Let_def new_token_def)
  moreover have "refresh_goes env limits t context db claims tid u" using claims u probe by (simp add: refresh_goes_def)
  ultimately show ?thesis using s(2,3) by blast
qed

text \<open>
  C17. A refresh that returns tokens: the token presented is a refresh token with a good signature that has not expired, the attempt was below both
  rate limits, the tenant is open at both store calls, the account is active and its security version, derived anew from its roles, is the one in the
  token, the ledger has the token, not revoked, and its account is active and not locked. The token is revoked and one new token of the same family and
  account with an unused hash put in its place in one transaction, one success is in the audit log, and the new pair carries the same account, tenant
  and family; every other row is as the other sessions left it.
\<close>

theorem refresh_correct:
  assumes "refresh env limits refreshToken context db = (Inr pair, db')"
  shows "\<exists>claims tid u row account. let db1 = ae_others env 1 db; db2 = ae_others env 2 db1; s = revoke_token tid row (ae_now env) db2;
      new = new_token env tid (rt_userId row) (ae_sha256 env (ae_uuid env 0)) (jc_fam claims) (ae_now env + al_refreshTtlSeconds limits * 1000) s in
    verifyRefreshToken (ae_tokens env) refreshToken (ae_now env) = Inr claims \<and> \<not> rate_limited_refresh env limits claims context db \<and>
    assertTenantId (jc_tid claims) = Inr tid \<and> (\<forall>d\<in>{db1, db2}. tenantProbe env tid d = Inr ()) \<and>
    user_row tid (jc_sub claims) db1 = Some u \<and> mu_isActive u \<and> fresh_secV env tid u db1 = jc_secV claims \<and>
    token_row tid (ae_sha256 env (jc_jti claims)) db2 = Some row \<and> rt_revokedAt row = None \<and>
    token_account tid row db2 = Some account \<and> lu_isActive account \<and> lock_over (lu_lockedUntil account) (ae_now env) \<and>
    (\<forall>r\<in>set (ad_refreshTokens s). rt_tokenHash r \<noteq> rt_tokenHash new) \<and>
    db' = s\<lparr>ad_refreshTokens := ad_refreshTokens s @ [new], ad_audit := ad_audit s @ [refresh_attempt env context claims True]\<rparr> \<and>
    pair = \<lparr>tp_accessToken = issueAccessToken (ae_tokens env) (jc_tid claims) (jc_sub claims) (jc_secV claims) (ae_now env),
      tp_refreshToken = issueRefreshToken (ae_tokens env) (jc_tid claims) (jc_sub claims) (jc_secV claims) (ae_uuid env 0) (jc_fam claims) (ae_now env),
      tp_userId = jc_sub claims, tp_tenantId = jc_tid claims\<rparr>"
proof -
  from refresh_run [OF assms] obtain claims tid u row account s where "refresh_goes env limits refreshToken context db claims tid u"
      "refresh_swaps env limits claims tid row account (ae_others env 2 (ae_others env 1 db)) s"
      "db' = s\<lparr>ad_audit := ad_audit s @ [refresh_attempt env context claims True]\<rparr>" "pair = refreshed_pair env claims" by blast
  then show ?thesis
    by (intro exI [of _ claims] exI [of _ tid] exI [of _ u] exI [of _ row] exI [of _ account])
      (simp add: refresh_swaps_def refresh_goes_def Let_def refreshed_pair_def)
qed

section \<open>A token is used once\<close>

text \<open>Histories of the system: logins and refreshes in any order, and whatever else evolves the ledger.\<close>

inductive auth_step :: "auth_db \<Rightarrow> auth_db \<Rightarrow> bool" where
  login: "others_evolve env \<Longrightarrow> login env limits req context db = (r, db') \<Longrightarrow> auth_step db db'"
| refresh: "others_evolve env \<Longrightarrow> refresh env limits t context db = (r', db') \<Longrightarrow> auth_step db db'"
| elsewhere: "ledger_evolves db db' \<Longrightarrow> auth_step db db'"

lemma auth_steps_evolve: "auth_step\<^sup>*\<^sup>* db db' \<Longrightarrow> ledger_evolves db db'"
proof (induction rule: rtranclp_induct)
  case base
  show ?case by (rule ledger.refl)
next
  case (step db1 db2)
  from step(2) have "ledger_evolves db1 db2"
    by cases (auto dest: op_ensuresD [OF login_evolves] op_ensuresD [OF refresh_evolves])
  with step.IH show ?case by (rule ledger.trans)
qed

definition used_token :: "string \<Rightarrow> string \<Rightarrow> auth_db \<Rightarrow> bool" where
  "used_token tid h db \<longleftrightarrow> (\<exists>r\<in>set (ad_refreshTokens db). rt_tenantId r = tid \<and> rt_tokenHash r = h \<and> rt_revokedAt r \<noteq> None)"

lemma used_token_stays: "ledger_evolves db db' \<Longrightarrow> ledger_ok db \<Longrightarrow> used_token tid h db \<Longrightarrow> used_token tid h db'"
  unfolding used_token_def ledger_evolves_def same_token_def by metis

lemma used_token_found:
  assumes "ledger_ok db" "used_token tid h db" "token_row tid h db = Some row"
  shows "rt_revokedAt row \<noteq> None"
proof -
  from assms(2) obtain r where r: "r \<in> set (ad_refreshTokens db)" "rt_tokenHash r = h" "rt_revokedAt r \<noteq> None" by (auto simp: used_token_def)
  from assms(3) have "row \<in> set (ad_refreshTokens db)" "rt_tokenHash row = h" by (auto simp: token_row_def dest: find_row_Some)
  with r assms(1) have "row = r" by (auto simp: ledger_ok_def distinct_map dest: inj_onD)
  with r show ?thesis by simp
qed

lemma rotation_uses:
  assumes "token_row tid h db = Some row"
  shows "used_token tid h ((revoke_token tid row now db)\<lparr>ad_refreshTokens := ad_refreshTokens (revoke_token tid row now db) @ rows, ad_audit := a\<rparr>)"
proof -
  from assms have "row \<in> set (ad_refreshTokens db)" "rt_tenantId row = tid" "rt_tokenHash row = h" by (auto simp: token_row_def dest: find_row_Some)
  then have "\<exists>r\<in>set (update_where (\<lambda>r. rt_tenantId r = tid \<and> rt_id r = rt_id row) (\<lambda>r. r\<lparr>rt_revokedAt := Some now\<rparr>) (ad_refreshTokens db)).
      rt_tenantId r = tid \<and> rt_tokenHash r = h \<and> rt_revokedAt r \<noteq> None"
    by (intro bexI [of _ "row\<lparr>rt_revokedAt := Some now\<rparr>"]) (auto simp: update_where_def image_iff)
  then show ?thesis by (auto simp: used_token_def revoke_token_def)
qed

lemma refresh_result:
  assumes "refresh env limits t context db = (Inr pair, db')"
  shows "\<exists>claims tid s row. verifyRefreshToken (ae_tokens env) t (ae_now env) = Inr claims \<and> assertTenantId (jc_tid claims) = Inr tid \<and>
    s = ae_others env 2 (ae_others env 1 db) \<and> token_row tid (ae_sha256 env (jc_jti claims)) s = Some row \<and> rt_revokedAt row = None \<and>
    used_token tid (ae_sha256 env (jc_jti claims)) db'"
proof -
  let ?s = "ae_others env 2 (ae_others env 1 db)"
  from refresh_run [OF assms] obtain claims tid u row account s' where run: "refresh_goes env limits t context db claims tid u"
      "refresh_swaps env limits claims tid row account ?s s'" "db' = s'\<lparr>ad_audit := ad_audit s' @ [refresh_attempt env context claims True]\<rparr>" by blast
  then have "used_token tid (ae_sha256 env (jc_jti claims)) db'"
    using rotation_uses [of tid "ae_sha256 env (jc_jti claims)" ?s row] by (auto simp: refresh_swaps_def Let_def)
  with run show ?thesis
    by (intro exI [of _ claims] exI [of _ tid] exI [of _ ?s] exI [of _ row]) (simp add: refresh_goes_def refresh_swaps_def Let_def)
qed

text \<open>
  C16. Single use: once a refresh with a token has returned a new pair, no later refresh that reads the same claims from the same token returns one,
  whatever logins, refreshes and other sessions have done in between and whatever they do during it.
\<close>

theorem refresh_once:
  assumes "ledger_ok db" "others_evolve env" "refresh env limits t context db = (Inr pair, db1)" "auth_step\<^sup>*\<^sup>* db1 db2"
    and "others_evolve env'" "ae_sha256 env' = ae_sha256 env"
    and "verifyRefreshToken (ae_tokens env') t (ae_now env') = verifyRefreshToken (ae_tokens env) t (ae_now env)"
  shows "fst (refresh env' limits' t context' db2) \<noteq> Inr pair'"
proof
  assume again: "fst (refresh env' limits' t context' db2) = Inr pair'"
  then obtain db3 where run: "refresh env' limits' t context' db2 = (Inr pair', db3)" by (cases "refresh env' limits' t context' db2") simp
  from refresh_result [OF assms(3)] obtain claims tid where c: "verifyRefreshToken (ae_tokens env) t (ae_now env) = Inr claims"
      "assertTenantId (jc_tid claims) = Inr tid" "used_token tid (ae_sha256 env (jc_jti claims)) db1" by blast
  from refresh_result [OF run] c assms(6,7) obtain s row where s: "s = ae_others env' 2 (ae_others env' 1 db2)"
      "token_row tid (ae_sha256 env (jc_jti claims)) s = Some row" "rt_revokedAt row = None" by auto
  have "ledger_evolves db db1" using op_ensuresD [OF refresh_evolves [OF assms(2)] assms(3)] .
  with assms(1) have ok1: "ledger_ok db1" by (simp add: ledger_evolves_def)
  have "ledger_evolves db1 s"
    unfolding s(1) using auth_steps_evolve [OF assms(4)] assms(5) unfolding others_evolve_def by (blast intro: ledger.trans)
  with ok1 c(3) have "ledger_ok s" "used_token tid (ae_sha256 env (jc_jti claims)) s"
    using used_token_stays [of db1 s] by (auto simp: ledger_evolves_def)
  from used_token_found [OF this s(2)] s(3) show False by simp
qed

section \<open>Replay\<close>

lemma refresh_goes_on:
  assumes "refresh_goes env limits t context db claims tid u"
  shows "refresh env limits t context db = rotateAndIssue env limits context claims (jc_secV claims) (ae_others env 1 db)"
proof -
  from assms have g: "verifyRefreshToken (ae_tokens env) t (ae_now env) = Inr claims" "\<not> rate_limited_refresh env limits claims context db"
      "assertTenantId (jc_tid claims) = Inr tid" "tenantProbe env tid (ae_others env 1 db) = Inr ()"
      "user_row tid (jc_sub claims) (ae_others env 1 db) = Some u" "mu_isActive u" "fresh_secV env tid u (ae_others env 1 db) = jc_secV claims"
    by (simp_all add: refresh_goes_def Let_def)
  have get: "getActiveSecVInputs env 1 (jc_tid claims) (jc_sub claims) db = (Inr (Some (secVInputs tid u (ae_others env 1 db), True)), ae_others env 1 db)"
    using g by (simp add: getActiveSecVInputs_def inTenantContext_Inr tx_simps)
  show ?thesis
    using g unfolding refresh_def refreshVerified_def rate_limited_refresh_def Let_def
    by (simp add: op_bind_def op_catch_def get fresh_secV_def secVInputs_def del: One_nat_def)
qed

text \<open>
  C33. Replay ends the family: a refresh with a token whose row is already revoked, for an active account with an unchanged security version, fails with
  the uniform error and one failed attempt in the audit log, and after it every token of the presented token's family is revoked.
\<close>

theorem replay_revokes_family:
  assumes "ae_reject env = (\<lambda>_ _. None)" "refresh_goes env limits t context db claims tid u"
    and "token_row tid (ae_sha256 env (jc_jti claims)) (ae_others env 2 (ae_others env 1 db)) = Some row" "rt_revokedAt row \<noteq> None"
    and "s = revoke_family tid row (ae_now env) (ae_others env 2 (ae_others env 1 db))"
  shows "refresh env limits t context db =
      (Inl InvalidCredentialsError, s\<lparr>ad_audit := ad_audit s @ [refresh_attempt env context claims False]\<rparr>) \<and>
    (\<forall>r\<in>set (ad_refreshTokens s). rt_tenantId r = tid \<longrightarrow> rt_familyId r = rt_familyId row \<longrightarrow> rt_revokedAt r \<noteq> None)"
proof
  let ?db1 = "ae_others env 1 db"
  let ?db2 = "ae_others env 2 ?db1"
  from assms(2) have g: "assertTenantId (jc_tid claims) = Inr tid" "tenantProbe env tid ?db2 = Inr ()" by (simp_all add: refresh_goes_def Let_def)
  have "rotateBody env tid (ae_sha256 env (jc_jti claims)) h fam x (ae_now env) ?db2 = Inr (replayed, s)" for h fam x
    using assms by (simp add: rotateBody_def token_row_def tx_simps revoke_where_def revoke_family_def)
  then have rot: "rotate_token env 2 (jc_tid claims) (ae_sha256 env (jc_jti claims)) h fam x (ae_now env) ?db1 = (Inr replayed, s)" for h fam x
    using g by (simp add: rotate_token_def inTenantContext_Inr)
  have refuse: "refuse_refresh env context claims s' =
      (Inl InvalidCredentialsError, s'\<lparr>ad_audit := ad_audit s' @ [refresh_attempt env context claims False]\<rparr>)" for s'
    by (simp add: refuse_refresh_def recordFailure_def recordAttempt_total assms(1) op_bind_def op_lift_def refresh_attempt_def)
  show "refresh env limits t context db =
      (Inl InvalidCredentialsError, s\<lparr>ad_audit := ad_audit s @ [refresh_attempt env context claims False]\<rparr>)"
    using refresh_goes_on [OF assms(2)]
    by (simp add: op_bind_def op_catch_def rot refuse rotateAndIssue_def Let_def del: One_nat_def)
  show "\<forall>r\<in>set (ad_refreshTokens s). rt_tenantId r = tid \<longrightarrow> rt_familyId r = rt_familyId row \<longrightarrow> rt_revokedAt r \<noteq> None"
  proof (intro ballI impI)
    fix r assume r: "r \<in> set (ad_refreshTokens s)" "rt_tenantId r = tid" "rt_familyId r = rt_familyId row"
    from r(1) have "(\<exists>x. r = x\<lparr>rt_revokedAt := Some (ae_now env)\<rparr>) \<or> (rt_familyId r = rt_familyId row \<longrightarrow> rt_tenantId r = tid \<longrightarrow> rt_revokedAt r \<noteq> None)"
      by (simp add: assms(5) revoke_family_def update_where_def image_iff) blast
    with r(2,3) show "rt_revokedAt r \<noteq> None" by (elim disjE exE) simp_all
  qed
qed

end
