(* ===== verification/Auth_Http.thy ===== *)
theory Auth_Http
  imports Auth_Guesses
begin

text \<open>
  The HTTP boundary of authentication: models of \<^verbatim>\<open>src/application/engines/auth/request-schema.ts\<close> and
  \<^verbatim>\<open>src/presentation/routes/auth.ts\<close>, and what a client can tell from a failed login. A body is a JSON value; \<open>undefined\<close> is a missing
  member. The engine is already built; a factory that throws is \<open>None\<close>.
\<close>

section \<open>The request schema\<close>

definition nonEmptyString :: "json option \<Rightarrow> string option" where
  "nonEmptyString v = (case v of Some (JsStr s) \<Rightarrow> if js_trim s \<noteq> [] then Some s else None | _ \<Rightarrow> None)"

definition PASSWORD_MODE_KEYS :: "string list" where
  "PASSWORD_MODE_KEYS = [''mode'', ''tenantId'', ''email'', ''password'']"

definition PIN_MODE_KEYS :: "string list" where
  "PIN_MODE_KEYS = [''mode'', ''tenantId'', ''userIdOrStaffCode'', ''pin'']"

definition REFRESH_KEYS :: "string list" where
  "REFRESH_KEYS = [''refreshToken'']"

definition assertExactKeys :: "(string \<times> json) list \<Rightarrow> string list \<Rightarrow> unit result" where
  "assertExactKeys obj allowed = (if sort (map fst obj) \<noteq> sort allowed then Inl (ValidationError (Some ''request'')) else Inr ())"

definition requestTenantId :: "json option \<Rightarrow> string result" where
  "requestTenantId v =
     (case nonEmptyString v of None \<Rightarrow> Inl (ValidationError (Some ''tenantId''))
      | Some s \<Rightarrow> if \<not> isUuid (js_trim s) then Inl (ValidationError (Some ''tenantId'')) else Inr (js_trim s))"

definition textField :: "(string \<times> json) list \<Rightarrow> string \<Rightarrow> string result" where
  "textField obj field = (case nonEmptyString (map_of obj field) of None \<Rightarrow> Inl (ValidationError (Some field)) | Some s \<Rightarrow> Inr s)"

definition parsePasswordMode :: "(string \<times> json) list \<Rightarrow> login_request result" where
  "parsePasswordMode obj =
     andThen (assertExactKeys obj PASSWORD_MODE_KEYS) (\<lambda>_.
     andThen (requestTenantId (map_of obj ''tenantId'')) (\<lambda>tenantId.
     andThen (textField obj ''email'') (\<lambda>email.
     if CHR ''@'' \<notin> set email then Inl (ValidationError (Some ''email''))
     else andThen (textField obj ''password'') (\<lambda>password.
       Inr (PasswordLogin tenantId (js_trim email) password)))))"

definition parsePinMode :: "(string \<times> json) list \<Rightarrow> login_request result" where
  "parsePinMode obj =
     andThen (assertExactKeys obj PIN_MODE_KEYS) (\<lambda>_.
     andThen (requestTenantId (map_of obj ''tenantId'')) (\<lambda>tenantId.
     andThen (textField obj ''userIdOrStaffCode'') (\<lambda>userIdOrStaffCode.
     andThen (textField obj ''pin'') (\<lambda>pin.
     Inr (PinLogin tenantId (js_trim userIdOrStaffCode) pin)))))"

definition parseLoginRequest :: "json \<Rightarrow> login_request result" where
  "parseLoginRequest body =
     (case body of
        JsObj obj \<Rightarrow>
          if map_of obj ''mode'' = Some (JsStr ''password'') then parsePasswordMode obj
          else if map_of obj ''mode'' = Some (JsStr ''pin'') then parsePinMode obj
          else Inl (ValidationError (Some ''mode''))
      | _ \<Rightarrow> Inl (ValidationError (Some ''request'')))"

definition parseRefreshRequest :: "json \<Rightarrow> string result" where
  "parseRefreshRequest body =
     (case body of
        JsObj obj \<Rightarrow>
          andThen (assertExactKeys obj REFRESH_KEYS) (\<lambda>_.
          andThen (textField obj ''refreshToken'') (\<lambda>t.
          if length (segments t) \<noteq> 3 \<or> [] \<in> set (segments t) then Inl (ValidationError (Some ''refreshToken''))
          else Inr (js_trim t)))
      | _ \<Rightarrow> Inl (ValidationError (Some ''request'')))"

section \<open>The handlers\<close>

datatype http_body = ErrorBody string response_message | TokensBody string string string

record http_response =
  hr_status :: int
  hr_headers :: "(string \<times> string) list"
  hr_body :: http_body

definition jsonResponse :: "int \<Rightarrow> http_body \<Rightarrow> http_response" where
  "jsonResponse st body = \<lparr>hr_status = st, hr_headers = [(''content-type'', ''application/json; charset=utf-8'')], hr_body = body\<rparr>"

definition errorResponse :: "int \<Rightarrow> string \<Rightarrow> response_message \<Rightarrow> http_response" where
  "errorResponse st c m = jsonResponse st (ErrorBody c m)"

definition invalidCredentialsResponse :: http_response where
  "invalidCredentialsResponse = \<lparr>hr_status = 401, hr_headers = [(''content-type'', ''application/json; charset=utf-8'')],
     hr_body = ErrorBody ''INVALID_CREDENTIALS'' (ConstMessage ''Invalid credentials'')\<rparr>"

definition mappedResponse :: "app_error \<Rightarrow> http_response" where
  "mappedResponse e = (let m = fst (toErrorResponse e) in errorResponse (status m) (code m) (message m))"

definition handle :: "('e) option \<Rightarrow> ('e \<Rightarrow> (auth_db, token_pair) op) \<Rightarrow> auth_db \<Rightarrow> http_response \<times> auth_db" where
  "handle engineFactory run db =
     (case engineFactory of
        None \<Rightarrow> (errorResponse 503 ''service.unavailable'' (ConstMessage ''Service temporarily unavailable''), db)
      | Some engine \<Rightarrow>
          (case run engine db of
             (Inr result, db') \<Rightarrow> (jsonResponse 200 (TokensBody (tp_accessToken result) (tp_refreshToken result) ''Bearer''), db')
           | (Inl e, db') \<Rightarrow>
               (if status (fst (toErrorResponse e)) = 401 \<and> code (fst (toErrorResponse e)) = ''INVALID_CREDENTIALS'' then invalidCredentialsResponse
                else mappedResponse e, db')))"

text \<open>The engine is its environment and limits; the body is absent when the request has none.\<close>

definition http_login :: "(auth_env \<times> auth_limits) option \<Rightarrow> json \<Rightarrow> login_context \<Rightarrow> auth_db \<Rightarrow> http_response \<times> auth_db" where
  "http_login engineFactory body context db =
     (case parseLoginRequest body of
        Inl e \<Rightarrow> (mappedResponse e, db)
      | Inr parsed \<Rightarrow> handle engineFactory (\<lambda>(env, limits). login env limits parsed context) db)"

definition http_refresh :: "(auth_env \<times> auth_limits) option \<Rightarrow> json \<Rightarrow> login_context \<Rightarrow> auth_db \<Rightarrow> http_response \<times> auth_db" where
  "http_refresh engineFactory body context db =
     (case parseRefreshRequest body of
        Inl e \<Rightarrow> (mappedResponse e, db)
      | Inr parsed \<Rightarrow> handle engineFactory (\<lambda>(env, limits). refresh env limits parsed context) db)"

section \<open>What the schema accepts\<close>

text \<open>The requests the engine can receive, and the body a client sends for one.\<close>

definition trimmed :: "string \<Rightarrow> bool" where
  "trimmed s \<longleftrightarrow> s \<noteq> [] \<and> js_trim s = s"

fun well_formed_login :: "login_request \<Rightarrow> bool" where
  "well_formed_login (PasswordLogin t email password) \<longleftrightarrow> isUuid t \<and> trimmed t \<and> trimmed email \<and> CHR ''@'' \<in> set email \<and> js_trim password \<noteq> []"
| "well_formed_login (PinLogin t u pin) \<longleftrightarrow> isUuid t \<and> trimmed t \<and> trimmed u \<and> js_trim pin \<noteq> []"

fun login_body :: "login_request \<Rightarrow> json" where
  "login_body (PasswordLogin t email password) =
     JsObj [(''mode'', JsStr ''password''), (''tenantId'', JsStr t), (''email'', JsStr email), (''password'', JsStr password)]"
| "login_body (PinLogin t u pin) =
     JsObj [(''mode'', JsStr ''pin''), (''tenantId'', JsStr t), (''userIdOrStaffCode'', JsStr u), (''pin'', JsStr pin)]"

text \<open>The values a request takes from the members of its body: identifiers without surrounding blanks, secrets as they are.\<close>

fun carries :: "login_request \<Rightarrow> (string \<times> json) list \<Rightarrow> bool" where
  "carries (PasswordLogin t email password) obj \<longleftrightarrow> map_of obj ''mode'' = Some (JsStr ''password'') \<and>
     (\<exists>x. map_of obj ''tenantId'' = Some (JsStr x) \<and> t = js_trim x) \<and> (\<exists>x. map_of obj ''email'' = Some (JsStr x) \<and> email = js_trim x) \<and>
     map_of obj ''password'' = Some (JsStr password)"
| "carries (PinLogin t u pin) obj \<longleftrightarrow> map_of obj ''mode'' = Some (JsStr ''pin'') \<and>
     (\<exists>x. map_of obj ''tenantId'' = Some (JsStr x) \<and> t = js_trim x) \<and> (\<exists>x. map_of obj ''userIdOrStaffCode'' = Some (JsStr x) \<and> u = js_trim x) \<and>
     map_of obj ''pin'' = Some (JsStr pin)"

lemma trim_right_keeps_head:
  "\<not> is_js_space c \<Longrightarrow> rev (dropWhile is_js_space (rev (c # t))) = c # rev (dropWhile is_js_space (rev t))"
  by (cases "\<forall>x\<in>set t. is_js_space x") (auto simp: dropWhile_append dropWhile_eq_Nil_conv [THEN iffD2])

lemma trim_idem: "js_trim (js_trim s) = js_trim s"
proof (cases "dropWhile is_js_space s")
  case (Cons c t)
  then have "\<not> is_js_space c" by (metis dropWhile_eq_Cons_conv)
  moreover have "dropWhile is_js_space (dropWhile is_js_space (rev t)) = dropWhile is_js_space (rev t)" by (rule dropWhile_idem)
  ultimately show ?thesis
    using Cons trim_right_keeps_head [of c "rev (dropWhile is_js_space (rev t))"] trim_right_keeps_head [of c t] by (simp add: js_trim_def)
next
  case Nil
  then show ?thesis by (simp only: js_trim_def rev.simps dropWhile.simps)
qed

lemma trim_keeps: "\<not> is_js_space c \<Longrightarrow> c \<in> set (js_trim s) \<longleftrightarrow> c \<in> set s"
proof -
  assume c: "\<not> is_js_space c"
  have "c \<in> set (dropWhile is_js_space xs) \<longleftrightarrow> c \<in> set xs" for xs using c by (induction xs) auto
  then show ?thesis by (simp add: js_trim_def)
qed

lemma nonEmptyString_Some: "nonEmptyString v = Some s \<longleftrightarrow> v = Some (JsStr s) \<and> js_trim s \<noteq> []"
  by (auto simp: nonEmptyString_def split: option.splits json.splits)

lemma textField_Inr: "textField obj k = Inr s \<longleftrightarrow> map_of obj k = Some (JsStr s) \<and> js_trim s \<noteq> []"
  unfolding textField_def nonEmptyString_Some [symmetric] by (auto split: option.splits)

lemma requestTenantId_Inr: "requestTenantId v = Inr t \<longleftrightarrow> (\<exists>s. v = Some (JsStr s) \<and> js_trim s \<noteq> [] \<and> isUuid (js_trim s) \<and> t = js_trim s)"
proof -
  have "requestTenantId v = Inr t \<longleftrightarrow> (\<exists>s. nonEmptyString v = Some s \<and> isUuid (js_trim s) \<and> t = js_trim s)"
    by (auto simp: requestTenantId_def split: option.splits if_splits)
  then show ?thesis by (auto simp: nonEmptyString_Some)
qed

lemma exact_keys_Inr: "assertExactKeys obj ks = Inr () \<longleftrightarrow> mset (map fst obj) = mset ks"
  by (auto simp: assertExactKeys_def dest: arg_cong [where f = mset] intro: properties_for_sort)

lemma parse_fails: "parseLoginRequest body = Inl e \<Longrightarrow> \<exists>f. e = ValidationError f"
  by (auto simp: parseLoginRequest_def parsePasswordMode_def parsePinMode_def andThen_Inl_iff assertExactKeys_def requestTenantId_def textField_def
      split: json.splits if_splits option.splits)

lemma parsed_login:
  assumes "parseLoginRequest body = Inr req"
  shows "well_formed_login req \<and> (\<exists>obj. body = JsObj obj \<and> carries req obj \<and>
    mset (map fst obj) = mset (case login_mode req of password_mode \<Rightarrow> PASSWORD_MODE_KEYS | _ \<Rightarrow> PIN_MODE_KEYS))"
proof -
  have at: "\<not> is_js_space CHR ''@''" by code_simp
  from assms obtain obj where body: "body = JsObj obj" and parse:
    "map_of obj ''mode'' = Some (JsStr ''password'') \<and> parsePasswordMode obj = Inr req \<or> map_of obj ''mode'' = Some (JsStr ''pin'') \<and> parsePinMode obj = Inr req"
    by (auto simp: parseLoginRequest_def split: json.splits if_splits)
  from parse have "well_formed_login req \<and> carries req obj \<and>
      mset (map fst obj) = mset (case login_mode req of password_mode \<Rightarrow> PASSWORD_MODE_KEYS | _ \<Rightarrow> PIN_MODE_KEYS)"
  proof (elim disjE conjE)
    assume "map_of obj ''mode'' = Some (JsStr ''password'')" "parsePasswordMode obj = Inr req"
    then show ?thesis using at
      by (auto simp: parsePasswordMode_def andThen_Inr_iff exact_keys_Inr textField_Inr requestTenantId_Inr trimmed_def trim_idem trim_keeps split: if_splits)
  next
    assume "map_of obj ''mode'' = Some (JsStr ''pin'')" "parsePinMode obj = Inr req"
    then show ?thesis by (auto simp: parsePinMode_def andThen_Inr_iff exact_keys_Inr textField_Inr requestTenantId_Inr trimmed_def trim_idem)
  qed
  with body show ?thesis by blast
qed

lemma carried_login:
  assumes "well_formed_login req" "carries req obj" "mset (map fst obj) = mset (case login_mode req of password_mode \<Rightarrow> PASSWORD_MODE_KEYS | _ \<Rightarrow> PIN_MODE_KEYS)"
  shows "parseLoginRequest (JsObj obj) = Inr req"
proof -
  have "\<not> is_js_space CHR ''@''" by code_simp
  with assms trim_keeps show ?thesis
    by (cases req) (auto simp: parseLoginRequest_def parsePasswordMode_def parsePinMode_def andThen_Inr_iff exact_keys_Inr textField_Inr requestTenantId_Inr trimmed_def)
qed

text \<open>
  C35. The login schema: a body is read as a request exactly when it is an object with the members of one mode and no others, in any order, whose values the
  request carries (tenant, e-mail and identifier without surrounding blanks, the secret as it is) and the request is well formed: the
  tenant id is a UUID, e-mail or identifier are not empty, the e-mail has an at sign, the secret is not blank. Any other body is answered with 400 and
  touches nothing.
\<close>

theorem login_schema_exact:
  "(\<forall>body req. parseLoginRequest body = Inr req \<longleftrightarrow> well_formed_login req \<and>
     (\<exists>obj. body = JsObj obj \<and> carries req obj \<and>
       mset (map fst obj) = mset (case login_mode req of password_mode \<Rightarrow> PASSWORD_MODE_KEYS | _ \<Rightarrow> PIN_MODE_KEYS))) \<and>
   (\<forall>body e engine context db. parseLoginRequest body = Inl e \<longrightarrow>
     hr_status (fst (http_login engine body context db)) = 400 \<and> snd (http_login engine body context db) = db)"
proof -
  have "hr_status (fst (http_login engine body ctx db)) = 400 \<and> snd (http_login engine body ctx db) = db"
    if "parseLoginRequest body = Inl e" for body e engine ctx db
    using parse_fails [OF that] that by (auto simp: http_login_def mappedResponse_def errorResponse_def jsonResponse_def toErrorResponse_def Let_def)
  then show ?thesis using parsed_login carried_login by blast
qed

section \<open>What a client can tell\<close>

text \<open>
  C18. The uniform failure: over HTTP, for an existing tenant, suspended or not, an attempt below the rate limits that does not present the secret of an
  active and unlocked account is answered with one constant response, status, headers and body, whatever is wrong with it, and leaves exactly one failed attempt
  in the audit log. Only a wrong secret for an active and unlocked account also advances that account's failure counter; nothing else changes.
\<close>

theorem bad_credentials_uniform:
  assumes "parseLoginRequest body = Inr req" "ae_reject env = (\<lambda>_ _. None)" "\<not> rate_limited_login env limits req context db"
    "assertTenantId (lq_tenantId req) = Inr tid"
    and known: "tenantProbe env tid (ae_others env 1 db) \<noteq> Inl NotFoundError"
      "tenantProbe env tid (ae_others env 2 (ae_others env 1 db)) \<noteq> Inl NotFoundError"
    and "found = (if tenantProbe env tid (ae_others env 1 db) = Inr () then login_account req tid (ae_others env 1 db) else None)"
    and wrong: "\<And>user. found = Some user \<Longrightarrow> \<not> secretValid env req user \<or> accountBlocked env user"
    and "db1 = (case found of Some user \<Rightarrow>
        if accountBlocked env user then ae_others env 1 db else count_wrong env limits req tid (lu_id user) (ae_others env 2 (ae_others env 1 db))
      | None \<Rightarrow> ae_others env 1 db)"
  shows "http_login (Some (env, limits)) body context db = (invalidCredentialsResponse, db1\<lparr>ad_audit := ad_audit db1 @
    [login_attempt env context req (case found of Some user \<Rightarrow> Some (lu_id user) | None \<Rightarrow> userIdAttempted req) False]\<rparr>)"
  using login_refused [OF assms(2-7) wrong assms(9)] assms(1) by (simp add: http_login_def handle_def toErrorResponse_def Let_def)

text \<open>
  C36. The failure contract has a hole: a well-formed request for a tenant that does not exist is answered with 404 and not with the uniform 401, and
  leaves no line in the audit log, so that a client can tell which tenants exist and its probes are neither recorded nor rate limited.
\<close>

theorem unknown_tenant_distinguished:
  assumes "parseLoginRequest body = Inr req" "\<not> rate_limited_login env limits req context db" "assertTenantId (lq_tenantId req) = Inr tid"
    and "tenantProbe env tid (ae_others env 1 db) = Inl NotFoundError"
  shows "snd (http_login (Some (env, limits)) body context db) = ae_others env 1 db \<and>
    hr_status (fst (http_login (Some (env, limits)) body context db)) = 404 \<and> hr_status invalidCredentialsResponse = 401"
  using login_unknown_tenant [OF assms(2-4)] assms(1)
  by (simp add: http_login_def handle_def toErrorResponse_def mappedResponse_def errorResponse_def jsonResponse_def invalidCredentialsResponse_def Let_def)

end
