(* ===== verification/Auth_Example.thy ===== *)
theory Auth_Example
  imports Auth_Refresh Auth_Http
begin

text \<open>A tenant with one account, and the theorems about login and refresh applied to it.\<close>

definition example_tenant_id :: string where
  "example_tenant_id = ''11111111-1111-4111-8111-111111111111''"

definition example_account :: mem_user where
  "example_account = \<lparr>mu_id = ''u1'', mu_tenantId = example_tenant_id, mu_branchId = None, mu_isActive = True, mu_securityVersion = 1\<rparr>"

definition example_credentials :: credentials_row where
  "example_credentials = \<lparr>cd_userId = ''u1'', cd_tenantId = example_tenant_id, cd_email = ''cook@bistro'', cd_staffCode = Some ''c1'',
     cd_passwordHash = Some ''secret'', cd_pinHash = None, cd_failedLoginAttempts = 0, cd_lockedUntil = None\<rparr>"

definition example_auth_db :: auth_db where
  "example_auth_db = \<lparr>ad_permissions = \<lparr>pd_tenants = [\<lparr>te_id = example_tenant_id, te_name = ''Bistro'', te_status = Some ''active'', te_reportingCurrency = None\<rparr>],
       pd_users = [example_account], pd_roles = [], pd_permissions = [], pd_rolePermissions = [], pd_userRoles = []\<rparr>,
     ad_subscriptionEnds = [], ad_credentials = [example_credentials], ad_refreshTokens = [], ad_audit = []\<rparr>"

definition example_auth_env :: auth_env where
  "example_auth_env = \<lparr>ae_now = 1000, ae_uuid = (\<lambda>k. if k = 0 then ''jti'' else ''family''), ae_rowId = (\<lambda>db. replicate (length (ad_refreshTokens db)) CHR ''r''),
     ae_others = (\<lambda>k db. db), ae_reject = (\<lambda>_ _. None), ae_sha256 = (\<lambda>s. CHR ''#'' # s), ae_verifyPassword = (\<lambda>p stored. p = stored),
     ae_verifyPin = (\<lambda>t u p stored. p = stored), ae_tokens = example_tokens\<rparr>"

definition example_context :: login_context where
  "example_context = \<lparr>lx_ipAddress = Some ''10.0.0.1'', lx_userAgent = None\<rparr>"

abbreviation example_login :: "string \<Rightarrow> login_request" where
  "example_login password \<equiv> PasswordLogin example_tenant_id '' Cook@bistro'' password"

lemma example_tenant_ok: "assertTenantId example_tenant_id = Inr example_tenant_id"
  by code_simp

lemma example_email: "to_lower (normaliseEmail '' Cook@bistro'') = ''cook@bistro'' \<and> to_lower ''cook@bistro'' = ''cook@bistro''"
  by code_simp

lemma auth_env_fields [simp]:
  "ae_now example_auth_env = 1000" "ae_uuid example_auth_env k = (if k = 0 then ''jti'' else ''family'')" "ae_others example_auth_env k = (\<lambda>db. db)"
  "ae_reject example_auth_env = (\<lambda>_ _. None)" "ae_sha256 example_auth_env t = CHR ''#'' # t" "ae_verifyPassword example_auth_env = (=)"
  "ae_tokens example_auth_env = example_tokens"
  by (simp_all add: example_auth_env_def)

lemma auth_db_fields [simp]:
  "pd_users (ad_permissions example_auth_db) = [example_account]" "ad_subscriptionEnds example_auth_db = []"
  "ad_credentials example_auth_db = [example_credentials]" "ad_refreshTokens example_auth_db = []" "ad_audit example_auth_db = []"
  by (simp_all add: example_auth_db_def)

lemmas example_simps = example_account_def example_credentials_def example_context_def default_limits_def

lemma example_probe: "ad_permissions db = ad_permissions example_auth_db \<Longrightarrow> ad_subscriptionEnds db = [] \<Longrightarrow> tenantProbe example_auth_env example_tenant_id db = Inr ()"
  by (simp add: tenantProbe_def example_auth_db_def find_row_single)

lemma example_free: "ad_audit db = [] \<Longrightarrow> \<not> rate_limited_login example_auth_env default_limits req example_context db"
  by (simp add: rate_limited_login_def countRecentFailures_def failures_since_def example_simps Let_def IP_RATE_LIMIT_def ACCOUNT_RATE_LIMIT_def)

lemma example_found:
  "login_account (example_login password) example_tenant_id example_auth_db = Some (mapUser example_credentials example_account)"
  by (simp add: login_account_def find_account_def user_row_def example_email example_simps find_row_single)

lemma example_user [simp]:
  "lu_id (mapUser example_credentials example_account) = ''u1''" "\<not> accountBlocked example_auth_env (mapUser example_credentials example_account)"
  "secretValid example_auth_env (example_login password) (mapUser example_credentials example_account) \<longleftrightarrow> password = ''secret''"
  by (simp_all add: mapUser_def example_credentials_def example_account_def accountBlocked_def isLocked_def secretValid_def)

lemma example_login_runs: "\<exists>pair db'. login example_auth_env default_limits (example_login ''secret'') example_context example_auth_db = (Inr pair, db')"
proof -
  let ?r = "example_login ''secret''"
  have "registerSuccessfulLogin example_auth_env 2 example_tenant_id ''u1'' example_auth_db =
      (Inr (secVInputs example_tenant_id example_account example_auth_db), reset_failures example_tenant_id ''u1'' example_auth_db)"
    by (simp add: registerSuccessfulLogin_def reset_failures_def secVInputs_def tx_simps example_tenant_ok example_probe user_row_def example_simps find_row_single)
  moreover obtain pair db' where "issueTokens example_auth_env default_limits example_context ?r (mapUser example_credentials example_account)
      (secVInputs example_tenant_id example_account example_auth_db) (reset_failures example_tenant_id ''u1'' example_auth_db) = (Inr pair, db')"
    unfolding issueTokens_def Let_def storeRefreshToken_def
    by (simp add: tx_simps op_catch_Inr insertRefreshToken_Inr recordAttempt_Inr example_tenant_ok example_probe reset_failures_def example_simps)
  ultimately show ?thesis
    by (auto simp: login_unlimited example_free findCandidate_known [of _ example_tenant_id] example_tenant_ok example_probe example_found op_bind_def op_catch_def)
qed


theorem login_correct_witness:
  "\<exists>pair db'. login example_auth_env default_limits (example_login ''secret'') example_context example_auth_db = (Inr pair, db') \<and>
     tp_userId pair = ''u1'' \<and> length (ad_refreshTokens db') = 1"
proof -
  obtain pair db' where run: "login example_auth_env default_limits (example_login ''secret'') example_context example_auth_db = (Inr pair, db')"
    using example_login_runs by blast
  from login_correct [OF run] show ?thesis
    by (intro exI [of _ pair] exI [of _ db'])
      (auto simp: run Let_def example_tenant_ok example_found mapUser_def example_credentials_def reset_failures_def)
qed

lemma example_body: "parseLoginRequest (login_body (PasswordLogin example_tenant_id ''Cook@bistro'' ''guess'')) = Inr (PasswordLogin example_tenant_id ''Cook@bistro'' ''guess'')"
  by code_simp

lemma example_found_trimmed:
  "login_account (PasswordLogin example_tenant_id ''Cook@bistro'' ''guess'') example_tenant_id example_auth_db = Some (mapUser example_credentials example_account)"
proof -
  have "to_lower (normaliseEmail ''Cook@bistro'') = ''cook@bistro'' \<and> to_lower ''cook@bistro'' = ''cook@bistro''" by code_simp
  then show ?thesis by (simp add: login_account_def find_account_def user_row_def example_simps find_row_single)
qed

theorem bad_credentials_uniform_witness:
  "fst (http_login (Some (example_auth_env, default_limits)) (login_body (PasswordLogin example_tenant_id ''Cook@bistro'' ''guess'')) example_context example_auth_db) =
     invalidCredentialsResponse"
  using bad_credentials_uniform [OF example_body, of example_auth_env default_limits example_context example_auth_db example_tenant_id]
  by (simp add: example_free example_tenant_ok example_probe example_found_trimmed secretValid_def mapUser_def example_credentials_def)

theorem unknown_tenant_distinguished_witness:
  "hr_status (fst (http_login (Some (example_auth_env, default_limits)) (login_body (PasswordLogin ''22222222-2222-4222-8222-222222222222'' ''a@b'' ''c''))
     example_context example_auth_db)) = 404"
proof -
  let ?t = "''22222222-2222-4222-8222-222222222222''"
  have "assertTenantId ?t = Inr ?t" by code_simp
  moreover have "parseLoginRequest (login_body (PasswordLogin ?t ''a@b'' ''c'')) = Inr (PasswordLogin ?t ''a@b'' ''c'')" by code_simp
  moreover have "tenantProbe example_auth_env ?t example_auth_db = Inl NotFoundError"
    by (simp add: tenantProbe_def example_auth_db_def example_tenant_id_def find_row_single)
  ultimately show ?thesis
    using unknown_tenant_distinguished [of _ "PasswordLogin ?t ''a@b'' ''c''" example_auth_env default_limits example_context example_auth_db ?t]
    by (simp add: example_free)
qed

theorem login_schema_exact_witness:
  "parseLoginRequest (JsObj [(''pin'', JsStr '' 1234''), (''userIdOrStaffCode'', JsStr '' c1 ''), (''mode'', JsStr ''pin''),
       (''tenantId'', JsStr ''11111111-1111-4111-8111-111111111111 '')]) =
     Inr (PinLogin ''11111111-1111-4111-8111-111111111111'' ''c1'' '' 1234'')"
proof -
  have "well_formed_login (PinLogin ''11111111-1111-4111-8111-111111111111'' ''c1'' '' 1234'')" by code_simp
  moreover have "js_trim '' c1 '' = ''c1'' \<and> js_trim ''11111111-1111-4111-8111-111111111111 '' = ''11111111-1111-4111-8111-111111111111''" by code_simp
  ultimately show ?thesis using login_schema_exact by (simp add: PIN_MODE_KEYS_def)
qed

theorem wrong_guesses_bounded_witness:
  "int (length (guess_times default_limits example_tenant_id ''u1'' (replicate 9 (example_auth_env, example_login ''guess'', example_context)) example_auth_db)) \<le> 5"
proof -
  have "wrong_attempt example_tenant_id ''u1'' (stored_hashes example_credentials) example_auth_env (example_login ''guess'')"
    by (auto simp: wrong_attempt_def account.refl secretValid_def stored_hashes_def example_credentials_def)
  moreover have "account_row example_tenant_id ''u1'' example_auth_db = Some example_credentials"
    by (simp add: account_row_def example_credentials_def find_row_single)
  moreover have "credentials_ok example_auth_db" by (simp add: credentials_ok_def)
  ultimately show ?thesis
    using wrong_guesses_bounded [of example_auth_db example_tenant_id "''u1''" example_credentials
      "replicate 9 (example_auth_env, example_login ''guess'', example_context)" 1000 0 5 default_limits]
    by (simp add: default_limits_def PASSWORD_LOCK_THRESHOLD_def PIN_LOCK_THRESHOLD_def LOCK_WINDOW_MS_def example_credentials_def)
qed

section \<open>A refresh\<close>

definition example_refresh_db :: auth_db where
  "example_refresh_db = example_auth_db\<lparr>ad_refreshTokens := [\<lparr>rt_id = ''r0'', rt_tenantId = example_tenant_id, rt_userId = ''u1'', rt_tokenHash = ''#old'',
     rt_familyId = ''family'', rt_expiresAt = 9000, rt_revokedAt = None\<rparr>]\<rparr>"

definition example_secV :: string where
  "example_secV = fresh_secV example_auth_env example_tenant_id example_account example_auth_db"

definition example_refresh_token :: string where
  "example_refresh_token = issueRefreshToken example_tokens example_tenant_id ''u1'' example_secV ''old'' ''family'' 0"

abbreviation example_claims :: jwt_claims where
  "example_claims \<equiv> RefreshTokenClaims ''u1'' example_tenant_id example_secV ''old'' ''family'' 0 DEFAULT_REFRESH_TOKEN_TTL_SECONDS"

lemma example_token_verifies: "verifyRefreshToken example_tokens example_refresh_token 1000 = Inr example_claims"
  unfolding example_refresh_token_def
  using verify_issued_refresh [of example_tokens example_tenant_id "''u1''" example_secV "''old''" "''family''" 0 1000] example_codec
  by (simp add: example_tokens_def DEFAULT_REFRESH_TOKEN_TTL_SECONDS_def)

lemma example_refresh_goes:
  assumes "ad_permissions db = ad_permissions example_auth_db" "ad_subscriptionEnds db = []" "filter (\<lambda>a. \<not> aa_success a) (ad_audit db) = []"
  shows "refresh_goes example_auth_env default_limits example_refresh_token example_context db example_claims example_tenant_id example_account"
proof -
  have "failures_since m P n db = 0" for m P n
    using assms(3) by (auto simp: failures_since_def filter_empty_conv)
  then have "\<not> rate_limited_refresh example_auth_env default_limits example_claims example_context db"
    by (simp add: rate_limited_refresh_def countRecentFailures_def default_limits_def IP_RATE_LIMIT_def ACCOUNT_RATE_LIMIT_def)
  moreover have "user_row example_tenant_id ''u1'' db = Some example_account"
    using assms(1) by (simp add: user_row_def example_account_def find_row_single)
  moreover have "fresh_secV example_auth_env example_tenant_id example_account db = example_secV"
    using assms(1) by (simp add: example_secV_def fresh_secV_def)
  ultimately show ?thesis
    using assms by (simp add: refresh_goes_def example_token_verifies example_tenant_ok example_probe example_account_def)
qed

lemma example_refresh_runs:
  "\<exists>pair db'. refresh example_auth_env default_limits example_refresh_token example_context example_refresh_db = (Inr pair, db')"
proof -
  have db: "ad_permissions example_refresh_db = ad_permissions example_auth_db" "ad_subscriptionEnds example_refresh_db = []"
    "ad_audit example_refresh_db = []" "ad_credentials example_refresh_db = [example_credentials]" by (simp_all add: example_refresh_db_def)
  have "\<exists>s. rotateBody example_auth_env example_tenant_id ''#old'' ''#jti'' fam x 1000 example_refresh_db = Inr (rotated ''u1'' example_tenant_id, s)" for fam x
    unfolding rotateBody_def
    by (simp add: tx_simps example_refresh_db_def find_row_single find_account_def user_row_def example_account_def example_credentials_def mapUser_def
        lock_over_def revoke_where_def insertRefreshToken_Inr update_where_def example_auth_env_def)
  then obtain s where "rotate_token example_auth_env 2 example_tenant_id ''#old'' ''#jti'' ''family'' (1000 + al_refreshTtlSeconds default_limits * 1000) 1000
      example_refresh_db = (Inr (rotated ''u1'' example_tenant_id), s)"
    using db by (auto simp: rotate_token_def inTenantContext_Inr example_tenant_ok example_probe)
  then show ?thesis
    using refresh_goes_on [OF example_refresh_goes, of example_refresh_db] db
    by (auto simp: rotateAndIssue_def Let_def op_bind_def op_catch_def recordFailure_def recordAttempt_total op_return_def)
qed

theorem refresh_correct_witness:
  "\<exists>pair db'. refresh example_auth_env default_limits example_refresh_token example_context example_refresh_db = (Inr pair, db') \<and>
     tp_userId pair = ''u1'' \<and> length (ad_refreshTokens db') = 2"
proof -
  obtain pair db' where run: "refresh example_auth_env default_limits example_refresh_token example_context example_refresh_db = (Inr pair, db')"
    using example_refresh_runs by blast
  from refresh_correct [OF run] have "tp_userId pair = ''u1'' \<and> length (ad_refreshTokens db') = 2"
    by (auto simp: Let_def example_token_verifies revoke_token_def update_where_def example_refresh_db_def)
  with run show ?thesis by blast
qed

lemma example_ledger: "ledger_ok example_refresh_db" "others_evolve example_auth_env"
  by (simp_all add: ledger_ok_def example_refresh_db_def others_evolve_def ledger.refl)

theorem refresh_once_witness:
  "\<exists>pair db'. refresh example_auth_env default_limits example_refresh_token example_context example_refresh_db = (Inr pair, db') \<and>
     (\<forall>pair'. fst (refresh example_auth_env default_limits example_refresh_token example_context db') \<noteq> Inr pair')"
proof -
  obtain pair db' where run: "refresh example_auth_env default_limits example_refresh_token example_context example_refresh_db = (Inr pair, db')"
    using example_refresh_runs by blast
  from refresh_once [OF example_ledger run rtranclp.rtrancl_refl example_ledger(2) refl refl] run show ?thesis by blast
qed

theorem replay_revokes_family_witness:
  "fst (refresh example_auth_env default_limits example_refresh_token example_context
     (example_refresh_db\<lparr>ad_refreshTokens := [\<lparr>rt_id = ''r0'', rt_tenantId = example_tenant_id, rt_userId = ''u1'', rt_tokenHash = ''#old'',
       rt_familyId = ''family'', rt_expiresAt = 9000, rt_revokedAt = Some 500\<rparr>]\<rparr>)) = Inl InvalidCredentialsError"
proof -
  let ?row = "\<lparr>rt_id = ''r0'', rt_tenantId = example_tenant_id, rt_userId = ''u1'', rt_tokenHash = ''#old'',
       rt_familyId = ''family'', rt_expiresAt = 9000, rt_revokedAt = Some 500\<rparr> :: refresh_token_row"
  let ?db = "example_refresh_db\<lparr>ad_refreshTokens := [?row]\<rparr>"
  have "refresh_goes example_auth_env default_limits example_refresh_token example_context ?db example_claims example_tenant_id example_account"
    by (rule example_refresh_goes) (simp_all add: example_refresh_db_def)
  from replay_revokes_family [OF _ this, of ?row] show ?thesis by (simp add: token_row_def find_row_single)
qed

end
