(* ===== verification/Inventory_Engine.thy ===== *)
theory Inventory_Engine
  imports Order_Creation
begin

text \<open>
  Model of \<^verbatim>\<open>src/application/engines/inventory/inventory-engine.ts\<close> and of
  \<^verbatim>\<open>src/infrastructure/db/repositories/postgres-inventory-store.ts\<close>: receiving stock in a purchase unit, adjusting it by hand, and the
  alerts for low stock. The tables only this engine uses stand beside the tables of the point of sale. The SQL function
  \<open>post_inventory_adjustment\<close> is recorded as a call; the alerts are ordered by name in the database, which the model leaves out. The
  events of the inventory outbox, which a trigger writes when a level crosses its threshold, are data the engine only reads.
\<close>

definition sql_lower :: "string \<Rightarrow> string" where
  "sql_lower s = map (\<lambda>c. let n = (of_char c :: nat) in if 65 \<le> n \<and> n \<le> 90 then char_of (n + 32) else c) s"

section \<open>Tables and environment\<close>

record unit_conversion =
  uc_tenantId :: string
  uc_inventoryItemId :: string
  uc_fromUnit :: string
  uc_toUnit :: string
  uc_conversionFactor :: string

record unit_definition =
  ud_code :: string
  ud_kind :: string
  ud_kindBaseUnit :: string
  ud_toBaseFactor :: string

record adjustment_reason =
  ar_id :: string
  ar_tenantId :: string
  ar_isEnabled :: bool
  ar_kindCode :: string

record cost_layer =
  cy_tenantId :: string
  cy_inventoryItemId :: string
  cy_stockMovementId :: string
  cy_originalQty :: string
  cy_totalCostMinor :: int
  cy_currencyCode :: string

record low_stock_mute =
  lm_tenantId :: string
  lm_branchId :: string
  lm_mutedBy :: string
  lm_mutedAt :: int

record inventory_event =
  ie_id :: string
  ie_tenantId :: string
  ie_branchId :: string
  ie_sequenceId :: int
  ie_eventType :: string
  ie_payload :: json
  ie_createdAt :: int

record inventory_db =
  ib_pos :: pos_db
  ib_conversions :: "unit_conversion list"
  ib_units :: "unit_definition list"
  ib_reasons :: "adjustment_reason list"
  ib_kindSettings :: "(string \<times> string \<times> bool) list"
  ib_costs :: "cost_layer list"
  ib_adjustmentCalls :: "(string \<times> string \<times> string \<times> int) list"
  ib_mutes :: "low_stock_mute list"
  ib_events :: "inventory_event list"

record inventory_env =
  ih_pos :: pos_env
  ih_reject :: "inventory_db \<Rightarrow> inventory_db \<Rightarrow> app_error option"

definition on_pos :: "(pos_db, 'a) tx \<Rightarrow> (inventory_db, 'a) tx" where
  "on_pos m = (\<lambda>db. mapResult (m (ib_pos db)) (\<lambda>(a, p). (a, db\<lparr>ib_pos := p\<rparr>)))"

definition inventory_write :: "inventory_env \<Rightarrow> (inventory_db \<Rightarrow> inventory_db) \<Rightarrow> (inventory_db, unit) tx" where
  "inventory_write env f = (\<lambda>db. case ih_reject env db (f db) of None \<Rightarrow> Inr ((), f db) | Some e \<Rightarrow> Inl e)"

definition inventory_run :: "inventory_env \<Rightarrow> string \<Rightarrow> (inventory_db, 'a) tx \<Rightarrow> (inventory_db, 'a) op" where
  "inventory_run env tenantId fn = run_tx (tx_bind (tx_lift (env_tenantGate (ih_pos env) tenantId)) (\<lambda>_. fn))"

section \<open>The store\<close>

definition loadInventoryItem :: "string \<Rightarrow> string \<Rightarrow> (inventory_db, inventory_item_record option) tx" where
  "loadInventoryItem tid inventoryItemId =
     tx_readR (\<lambda>db. case find_row (\<lambda>r. ii_tenantId r = tid \<and> ii_id r = inventoryItemId) (db_inventory (ib_pos db)) of
         None \<Rightarrow> Inr None | Some r \<Rightarrow> mapResult (mapInventoryItem r (ib_pos db)) Some)"

definition loadConversionFactor :: "string \<Rightarrow> string \<Rightarrow> string \<Rightarrow> string \<Rightarrow> inventory_db \<Rightarrow> string option" where
  "loadConversionFactor tid inventoryItemId fromUnit toUnit db =
     map_option uc_conversionFactor (find_row (\<lambda>c. uc_tenantId c = tid \<and> uc_inventoryItemId c = inventoryItemId \<and>
       uc_fromUnit c = fromUnit \<and> uc_toUnit c = toUnit) (ib_conversions db))"

definition sql_trim :: "string \<Rightarrow> string" where
  "sql_trim s = rev (dropWhile ((=) CHR '' '') (rev (dropWhile ((=) CHR '' '') s)))"

definition loadUnitDefinition :: "string \<Rightarrow> inventory_db \<Rightarrow> unit_definition option" where
  "loadUnitDefinition unit_code db = find_row (\<lambda>u. sql_lower (ud_code u) = sql_lower (sql_trim unit_code)) (ib_units db)"

definition branch_currency :: "string \<Rightarrow> string \<Rightarrow> pos_db \<Rightarrow> string option" where
  "branch_currency tid branchId db = map_option br_baseCurrency (find_row (\<lambda>b. br_tenantId b = tid \<and> br_id b = branchId) (db_branches db))"

text \<open>
  One statement that writes a row of the cost ledger and the layer made of it, which is still full; \<open>cost_layer\<close> stands for both. It inserts nothing
  when the joined rows are missing; a branch's currency always has its row, by its foreign key.
\<close>

definition receipt_costs :: "string \<Rightarrow> string \<Rightarrow> string \<Rightarrow> int \<Rightarrow> inventory_db \<Rightarrow> cost_layer list" where
  "receipt_costs tid inventoryItemId stockMovementId totalCostMinor db =
     concat (map (\<lambda>m. concat (map (\<lambda>i. case branch_currency tid (ii_branchId i) (ib_pos db) of
           None \<Rightarrow> []
         | Some c \<Rightarrow> [\<lparr>cy_tenantId = tid, cy_inventoryItemId = inventoryItemId, cy_stockMovementId = stockMovementId,
             cy_originalQty = sm_quantityDelta m, cy_totalCostMinor = totalCostMinor, cy_currencyCode = c\<rparr>])
         (filter (\<lambda>i. ii_tenantId i = tid \<and> ii_id i = inventoryItemId) (db_inventory (ib_pos db)))))
       (filter (\<lambda>m. sm_tenantId m = tid \<and> sm_id m = stockMovementId \<and> sm_inventoryItemId m = inventoryItemId \<and> sm_movementType m = manual_receiving)
         (db_stock (ib_pos db))))"

definition recordInventoryReceiptCost :: "inventory_env \<Rightarrow> string \<Rightarrow> string \<Rightarrow> string \<Rightarrow> int \<Rightarrow> (inventory_db, unit) tx" where
  "recordInventoryReceiptCost env tid stockMovementId inventoryItemId totalCostMinor =
     inventory_write env (\<lambda>db. db\<lparr>ib_costs := ib_costs db @ receipt_costs tid inventoryItemId stockMovementId totalCostMinor db\<rparr>)"

definition postInventoryAdjustment :: "inventory_env \<Rightarrow> string \<Rightarrow> string \<Rightarrow> string \<Rightarrow> int \<Rightarrow> (inventory_db, unit) tx" where
  "postInventoryAdjustment env tid stockMovementId postedByUserId occurredAt =
     inventory_write env (\<lambda>db. db\<lparr>ib_adjustmentCalls := ib_adjustmentCalls db @ [(tid, stockMovementId, postedByUserId, occurredAt)]\<rparr>)"

definition kind_enabled :: "string \<Rightarrow> string \<Rightarrow> inventory_db \<Rightarrow> bool" where
  "kind_enabled tid kind db =
     (case find_row (\<lambda>(t, k, _). t = tid \<and> k = kind) (ib_kindSettings db) of None \<Rightarrow> True | Some (_, _, enabled) \<Rightarrow> enabled)"

definition loadAdjustmentReason :: "string \<Rightarrow> string \<Rightarrow> inventory_db \<Rightarrow> (adjustment_reason \<times> bool) option" where
  "loadAdjustmentReason tid adjustmentReasonId db =
     map_option (\<lambda>r. (r, kind_enabled tid (ar_kindCode r) db))
       (find_row (\<lambda>r. ar_tenantId r = tid \<and> ar_id r = adjustmentReasonId) (ib_reasons db))"

definition branchBelongsToTenant :: "string \<Rightarrow> string \<Rightarrow> inventory_db \<Rightarrow> bool" where
  "branchBelongsToTenant tid branchId db \<longleftrightarrow> (\<exists>b\<in>set (db_branches (ib_pos db)). br_tenantId b = tid \<and> br_id b = branchId)"

definition write_mute :: "inventory_env \<Rightarrow> string \<Rightarrow> string \<Rightarrow> string \<Rightarrow> (inventory_db, unit) tx" where
  "write_mute env tid branchId actorUserId =
     inventory_write env (\<lambda>db. let mine = (\<lambda>m. lm_tenantId m = tid \<and> lm_branchId m = branchId); now = env_now (ih_pos env) in
       if \<exists>m\<in>set (ib_mutes db). mine m
       then db\<lparr>ib_mutes := update_where mine (\<lambda>m. m\<lparr>lm_mutedBy := actorUserId, lm_mutedAt := now\<rparr>) (ib_mutes db)\<rparr>
       else db\<lparr>ib_mutes := ib_mutes db @ [\<lparr>lm_tenantId = tid, lm_branchId = branchId, lm_mutedBy = actorUserId, lm_mutedAt = now\<rparr>]\<rparr>)"

definition delete_mute :: "inventory_env \<Rightarrow> string \<Rightarrow> string \<Rightarrow> (inventory_db, unit) tx" where
  "delete_mute env tid branchId =
     inventory_write env (\<lambda>db. db\<lparr>ib_mutes := filter (\<lambda>m. \<not> (lm_tenantId m = tid \<and> lm_branchId m = branchId)) (ib_mutes db)\<rparr>)"

definition below_threshold :: "inventory_item_record \<Rightarrow> bool result" where
  "below_threshold i =
     (case iv_lowStockThreshold i of
        None \<Rightarrow> Inr False
      | Some t \<Rightarrow>
          andThen (decimalTextToMinor (iv_currentQuantity i) 4 ''numeric'') (\<lambda>q.
          andThen (decimalTextToMinor t 4 ''numeric'') (\<lambda>limit. Inr (q < limit))))"

definition loadLowStockAlerts :: "string \<Rightarrow> string \<Rightarrow> inventory_db \<Rightarrow> inventory_item_record list result" where
  "loadLowStockAlerts tid branchId db =
     (if \<exists>m\<in>set (ib_mutes db). lm_tenantId m = tid \<and> lm_branchId m = branchId then Inr []
      else
        andThen (mapR (\<lambda>r. mapInventoryItem r (ib_pos db))
          (filter (\<lambda>r. ii_tenantId r = tid \<and> ii_branchId r = branchId) (db_inventory (ib_pos db)))) (\<lambda>items.
        andThen (mapR below_threshold items) (\<lambda>flags.
        Inr (map fst (filter snd (zip items flags))))))"

definition loadInventoryEvents :: "string \<Rightarrow> string \<Rightarrow> int \<Rightarrow> nat \<Rightarrow> inventory_db \<Rightarrow> inventory_event list" where
  "loadInventoryEvents tid branchId afterSequenceId limit db =
     take limit (js_sort (\<lambda>a b. ie_sequenceId a - ie_sequenceId b)
       (filter (\<lambda>e. ie_tenantId e = tid \<and> ie_branchId e = branchId \<and> ie_sequenceId e > afterSequenceId) (ib_events db)))"

section \<open>Quantities\<close>

text \<open>\<open>/^(0|[1-9]\d*)(?:\.(\d+))?$/\<close> is \<open>match_decimal\<close>.\<close>

definition parseStrictDecimal :: "string \<Rightarrow> nat \<Rightarrow> string \<Rightarrow> bool \<Rightarrow> int result" where
  "parseStrictDecimal quantity scale field signed =
     (let negative = (signed \<and> quantity \<noteq> [] \<and> hd quantity = CHR ''-'');
          body = (if negative then tl quantity else quantity)
      in case match_decimal body of
           None \<Rightarrow> Inl (ValidationError (Some field))
         | Some (integerPart, fraction) \<Rightarrow>
             let f = (case fraction of None \<Rightarrow> [] | Some f \<Rightarrow> f) in
             if length f > scale then Inl (ValidationError (Some field))
             else let minor = digits_to_int (integerPart @ padEnd0 f scale) in
               if \<not> signed \<and> minor \<le> 0 then Inl (ValidationError (Some field))
               else Inr (if negative then - minor else minor))"

definition parseStrictPositiveDecimal :: "string \<Rightarrow> nat \<Rightarrow> string \<Rightarrow> int result" where
  "parseStrictPositiveDecimal quantity scale field = parseStrictDecimal quantity scale field False"

definition parseStrictNonZeroDecimal :: "string \<Rightarrow> nat \<Rightarrow> string \<Rightarrow> int result" where
  "parseStrictNonZeroDecimal quantity scale field =
     andThen (parseStrictDecimal quantity scale field True) (\<lambda>minor.
     if minor = 0 then Inl (ValidationError (Some field)) else Inr minor)"

definition RECEIVING_INPUT_SCALE :: nat where
  "RECEIVING_INPUT_SCALE = 8"

definition CONVERSION_FACTOR_SCALE :: int where
  "CONVERSION_FACTOR_SCALE = 8"

definition UNITY_FACTOR_TEXT :: string where
  "UNITY_FACTOR_TEXT = ''1.00000000''"

definition STOCK_QUANTITY_SCALE :: int where
  "STOCK_QUANTITY_SCALE = 4"

section \<open>The engine\<close>

record inventory_actor =
  ia_userId :: string
  ia_tokenSecV :: string

record receive_stock_input =
  rs_branchId :: string
  rs_inventoryItemId :: string
  rs_quantityText :: string
  rs_purchaseUnit :: string
  rs_totalCostMinor :: "int option"

record adjust_stock_input =
  as_branchId :: string
  as_inventoryItemId :: string
  as_quantityDeltaText :: string
  as_adjustmentReasonId :: string
  as_managerOverrideId :: "string option"

definition inventory_check :: "inventory_env \<Rightarrow> string \<Rightarrow> inventory_actor \<Rightarrow> string \<Rightarrow> string \<Rightarrow> bool \<Rightarrow> unit result" where
  "inventory_check env tenantId actor key branchId sensitive =
     env_authorize (ih_pos env) \<lparr>ck_tenantId = tenantId, ck_userId = ia_userId actor, ck_permissionKey = key,
       ck_tokenSecV = Some (ia_tokenSecV actor), ck_branchId = Some branchId, ck_isSensitive = sensitive\<rparr>"

definition ownItem :: "string \<Rightarrow> string \<Rightarrow> string \<Rightarrow> (inventory_db, inventory_item_record) tx" where
  "ownItem tid inventoryItemId branchId =
     tx_bind (loadInventoryItem tid inventoryItemId) (\<lambda>found.
     tx_bind (tx_some found NotFoundError) (\<lambda>item.
     tx_bind (tx_guard (iv_branchId item = branchId) (ValidationError (Some ''branchId''))) (\<lambda>_.
     tx_return item)))"

text \<open>The factor of the registry: from one unit to another of its kind, rounded to eight digits.\<close>

definition registryFactor :: "unit_definition option \<Rightarrow> unit_definition option \<Rightarrow> string option result" where
  "registryFactor from to' =
     (case (from, to') of
        (Some f, Some t) \<Rightarrow>
          if ud_kind f = ud_kind t
          then andThen (nonNegativeDecimalTextToMinor (ud_toBaseFactor f) CONVERSION_FACTOR_SCALE ''conversionFactor'') (\<lambda>fromMinor.
               andThen (nonNegativeDecimalTextToMinor (ud_toBaseFactor t) CONVERSION_FACTOR_SCALE ''conversionFactor'') (\<lambda>toMinor.
               andThen (divideRoundHalfToEven (fromMinor * 10 ^ nat CONVERSION_FACTOR_SCALE) toMinor) (\<lambda>q.
               mapResult (minorToDecimalText q CONVERSION_FACTOR_SCALE) Some)))
          else Inr None
      | _ \<Rightarrow> Inr None)"

definition conversionFactorText :: "string \<Rightarrow> string \<Rightarrow> inventory_item_record \<Rightarrow> inventory_db \<Rightarrow> string result" where
  "conversionFactorText tid purchaseUnit item db =
     (if purchaseUnit = iv_baseUnit item then Inr UNITY_FACTOR_TEXT
      else case loadConversionFactor tid (iv_id item) purchaseUnit (iv_baseUnit item) db of
             Some factorText \<Rightarrow> Inr factorText
           | None \<Rightarrow>
               andThen (registryFactor (loadUnitDefinition purchaseUnit db) (loadUnitDefinition (iv_baseUnit item) db)) (\<lambda>derived.
               case derived of None \<Rightarrow> Inl (ValidationError (Some ''purchaseUnit'')) | Some factorText \<Rightarrow> Inr factorText))"

definition toBaseUnits :: "int \<Rightarrow> string \<Rightarrow> int result" where
  "toBaseUnits purchaseMinor factorText =
     andThen (nonNegativeDecimalTextToMinor factorText CONVERSION_FACTOR_SCALE ''conversionFactor'') (\<lambda>factorMinor.
     andThen (divideRoundHalfToEven (purchaseMinor * factorMinor) (10 ^ 12)) (\<lambda>baseMinor.
     if baseMinor \<le> 0 then Inl (ValidationError (Some ''quantityText'')) else Inr baseMinor))"

definition receiptCost :: "inventory_env \<Rightarrow> string \<Rightarrow> string \<Rightarrow> string \<Rightarrow> int option \<Rightarrow> (inventory_db, unit) tx" where
  "receiptCost env tid stockMovementId inventoryItemId totalCost =
     (case totalCost of
        None \<Rightarrow> tx_return ()
      | Some c \<Rightarrow>
          tx_bind (tx_guard (c > 0) (ValidationError (Some ''totalCostMinor''))) (\<lambda>_.
          recordInventoryReceiptCost env tid stockMovementId inventoryItemId c))"

definition receiveBody :: "inventory_env \<Rightarrow> string \<Rightarrow> inventory_actor \<Rightarrow> receive_stock_input \<Rightarrow> int \<Rightarrow> (inventory_db, stock_movement_record) tx" where
  "receiveBody env tid actor input purchaseMinor =
     tx_bind (ownItem tid (rs_inventoryItemId input) (rs_branchId input)) (\<lambda>item.
     tx_bind (tx_readR (conversionFactorText tid (rs_purchaseUnit input) item)) (\<lambda>factorText.
     tx_bind (tx_lift (toBaseUnits purchaseMinor factorText)) (\<lambda>baseMinor.
     tx_bind (tx_lift (minorToDecimalText baseMinor STOCK_QUANTITY_SCALE)) (\<lambda>delta.
     tx_bind (on_pos (insertStockMovement (ih_pos env) tid
       \<lparr>im_branchId = rs_branchId input, im_inventoryItemId = iv_id item, im_movementType = manual_receiving, im_quantityDelta = delta,
        im_orderId = None, im_orderItemId = None, im_actorUserId = ia_userId actor, im_managerOverrideId = None,
        im_adjustmentReasonId = None, im_occurredAt = env_now (ih_pos env)\<rparr>)) (\<lambda>inserted.
     tx_bind (receiptCost env tid (sm_id inserted) (iv_id item) (rs_totalCostMinor input)) (\<lambda>_.
     tx_return inserted))))))"

definition receiveStock :: "inventory_env \<Rightarrow> string \<Rightarrow> inventory_actor \<Rightarrow> receive_stock_input \<Rightarrow> (inventory_db, stock_movement_record) op" where
  "receiveStock env tenantId actor input =
     op_bind (op_lift (inventory_check env tenantId actor ''inventory:receive'' (rs_branchId input) False)) (\<lambda>_.
     op_bind (op_lift (parseStrictPositiveDecimal (rs_quantityText input) RECEIVING_INPUT_SCALE ''quantityText'')) (\<lambda>purchaseMinor.
     inventory_run env tenantId (receiveBody env tenantId actor input purchaseMinor)))"

definition enabledReason :: "string \<Rightarrow> string \<Rightarrow> (inventory_db, adjustment_reason) tx" where
  "enabledReason tid adjustmentReasonId =
     tx_bind (tx_read (loadAdjustmentReason tid adjustmentReasonId)) (\<lambda>found.
     case found of
       Some (r, kindEnabled) \<Rightarrow>
         tx_bind (tx_guard (ar_isEnabled r \<and> kindEnabled) (AdjustmentReasonUnavailableError adjustmentReasonId)) (\<lambda>_. tx_return r)
     | None \<Rightarrow> tx_throw (AdjustmentReasonUnavailableError adjustmentReasonId))"

definition adjustBody :: "inventory_env \<Rightarrow> string \<Rightarrow> inventory_actor \<Rightarrow> adjust_stock_input \<Rightarrow> int \<Rightarrow> (inventory_db, stock_movement_record) tx" where
  "adjustBody env tid actor input deltaMinor =
     tx_bind (ownItem tid (as_inventoryItemId input) (as_branchId input)) (\<lambda>item.
     tx_bind (enabledReason tid (as_adjustmentReasonId input)) (\<lambda>r.
     tx_bind (tx_lift (minorToDecimalText deltaMinor STOCK_QUANTITY_SCALE)) (\<lambda>delta.
     tx_bind (on_pos (insertStockMovement (ih_pos env) tid
       \<lparr>im_branchId = as_branchId input, im_inventoryItemId = iv_id item, im_movementType = manual_adjustment, im_quantityDelta = delta,
        im_orderId = None, im_orderItemId = None, im_actorUserId = ia_userId actor, im_managerOverrideId = as_managerOverrideId input,
        im_adjustmentReasonId = Some (ar_id r), im_occurredAt = env_now (ih_pos env)\<rparr>)) (\<lambda>inserted.
     tx_bind (postInventoryAdjustment env tid (sm_id inserted) (ia_userId actor) (sm_occurredAt inserted)) (\<lambda>_.
     tx_return inserted)))))"

definition adjustStock :: "inventory_env \<Rightarrow> string \<Rightarrow> inventory_actor \<Rightarrow> adjust_stock_input \<Rightarrow> (inventory_db, stock_movement_record) op" where
  "adjustStock env tenantId actor input =
     op_bind (op_lift (inventory_check env tenantId actor ''inventory:adjust'' (as_branchId input) True)) (\<lambda>_.
     op_bind (op_lift (parseStrictNonZeroDecimal (as_quantityDeltaText input) 4 ''quantityDeltaText'')) (\<lambda>deltaMinor.
     inventory_run env tenantId (adjustBody env tenantId actor input deltaMinor)))"

definition ownBranch :: "string \<Rightarrow> string \<Rightarrow> (inventory_db, unit) tx" where
  "ownBranch tid branchId =
     tx_bind (tx_read (branchBelongsToTenant tid branchId)) (\<lambda>b. tx_guard b NotFoundError)"

definition muteLowStockAlerts :: "inventory_env \<Rightarrow> string \<Rightarrow> inventory_actor \<Rightarrow> string \<Rightarrow> (inventory_db, unit) op" where
  "muteLowStockAlerts env tenantId actor branchId =
     op_bind (op_lift (inventory_check env tenantId actor ''inventory:adjust'' branchId True)) (\<lambda>_.
     inventory_run env tenantId (tx_bind (ownBranch tenantId branchId) (\<lambda>_. write_mute env tenantId branchId (ia_userId actor))))"

definition unmuteLowStockAlerts :: "inventory_env \<Rightarrow> string \<Rightarrow> inventory_actor \<Rightarrow> string \<Rightarrow> (inventory_db, unit) op" where
  "unmuteLowStockAlerts env tenantId actor branchId =
     op_bind (op_lift (inventory_check env tenantId actor ''inventory:adjust'' branchId True)) (\<lambda>_.
     inventory_run env tenantId (tx_bind (ownBranch tenantId branchId) (\<lambda>_. delete_mute env tenantId branchId)))"

definition listLowStockAlerts :: "inventory_env \<Rightarrow> string \<Rightarrow> string \<Rightarrow> (inventory_db, inventory_item_record list) op" where
  "listLowStockAlerts env tenantId branchId = inventory_run env tenantId (tx_readR (loadLowStockAlerts tenantId branchId))"

definition listInventoryEvents :: "inventory_env \<Rightarrow> string \<Rightarrow> string \<Rightarrow> int \<Rightarrow> nat \<Rightarrow> (inventory_db, inventory_event list) op" where
  "listInventoryEvents env tenantId branchId afterSequenceId limit =
     inventory_run env tenantId (tx_read (loadInventoryEvents tenantId branchId afterSequenceId limit))"

end
