(* ===== verification/Side_Effects.thy ===== *)
theory Side_Effects
  imports Orders_Store Payments_Relations
begin

text \<open>
  Model of \<^verbatim>\<open>src/application/engines/kds/side-effect-worker.ts\<close>, which prints kitchen tickets and notifies customers for the events of the
  outbox, and of the operations of the orders scope it uses: an effect is claimed in one transaction, executed outside of any, and confirmed in another.
  The executor is a parameter that succeeds or fails with a message; what other sessions commit while it runs is a parameter too. The executions of
  a run are part of its result, so that what reaches the outside can be stated. The flags in a payload are copies of the flags of a status kind, which
  the trigger of \<^verbatim>\<open>migrations/0018\<close> admits as JSON booleans only, so a cast to boolean is the boolean itself. The worker's constructor refuses
  a stale limit below zero and a batch below one; the attempt count that comes with a claim, which the worker ignores, is left out.
\<close>

section \<open>The store\<close>

fun json_flag :: "json option \<Rightarrow> string \<Rightarrow> bool" where
  "json_flag (Some flags) key = (json_member flags key = Some (JsBool True))"
| "json_flag None key = False"

definition wants_effect :: "order_outbox_event \<Rightarrow> bool" where
  "wants_effect e \<longleftrightarrow> (let flags = json_member (ob_payload e) ''behavior_flags'' in
     json_flag flags ''fires_kitchen_ticket'' \<or> json_flag flags ''notifies_customer'')"

definition compareEvents :: "order_outbox_event \<Rightarrow> order_outbox_event \<Rightarrow> int" where
  "compareEvents a b =
     (if ob_branchId a = ob_branchId b then ob_sequenceId a - ob_sequenceId b else if ob_branchId a < ob_branchId b then - 1 else 1)"

definition loadEventsWithBehaviorFlags :: "string \<Rightarrow> nat \<Rightarrow> string option \<Rightarrow> pos_db \<Rightarrow> order_outbox_event list" where
  "loadEventsWithBehaviorFlags tid limit branchId db =
     take limit (js_sort compareEvents (filter (\<lambda>e. ob_tenantId e = tid \<and> (branchId = None \<or> branchId = Some (ob_branchId e)) \<and> wants_effect e) (db_outbox db)))"

datatype claim_outcome = claimed | already_succeeded | owned_by_live_worker | retry

definition effect_row :: "string \<Rightarrow> side_effect_type \<Rightarrow> pos_db \<Rightarrow> side_effect_row option" where
  "effect_row eventId ty db = find_row (\<lambda>r. sf_outboxEventId r = eventId \<and> sf_sideEffectType r = ty) (db_sideEffects db)"

definition update_effect :: "pos_env \<Rightarrow> string \<Rightarrow> side_effect_type \<Rightarrow> (side_effect_row \<Rightarrow> side_effect_row) \<Rightarrow> (pos_db, unit) tx" where
  "update_effect env eventId ty f =
     tx_bind (tx_read (effect_row eventId ty)) (\<lambda>found.
     tx_bind (case found of None \<Rightarrow> tx_return () | Some r \<Rightarrow> db_check env (WSideEffect (f r))) (\<lambda>_.
     tx_write (\<lambda>db. db\<lparr>db_sideEffects := update_where (\<lambda>r. sf_outboxEventId r = eventId \<and> sf_sideEffectType r = ty) f (db_sideEffects db)\<rparr>)))"

definition claimSideEffect :: "pos_env \<Rightarrow> string \<Rightarrow> side_effect_type \<Rightarrow> int \<Rightarrow> (pos_db, claim_outcome) tx" where
  "claimSideEffect env eventId ty stalePendingAfterMs =
     tx_bind (tx_read (effect_row eventId ty)) (\<lambda>prior.
     case prior of
       None \<Rightarrow>
         (let row = \<lparr>sf_outboxEventId = eventId, sf_sideEffectType = ty, sf_status = ds_pending, sf_attemptCount = 1, sf_lastError = None,
            sf_executedAt = None, sf_updatedAt = env_now env\<rparr> in
          tx_bind (db_check env (WSideEffect row)) (\<lambda>_.
          tx_bind (tx_write (\<lambda>db. db\<lparr>db_sideEffects := db_sideEffects db @ [row]\<rparr>)) (\<lambda>_.
          tx_return claimed)))
     | Some r \<Rightarrow>
         if sf_status r = ds_succeeded then tx_return already_succeeded
         else if sf_status r = ds_pending \<and> sf_updatedAt r > env_now env - stalePendingAfterMs then tx_return owned_by_live_worker
         else
           tx_bind (update_effect env eventId ty (\<lambda>r. r\<lparr>sf_attemptCount := sf_attemptCount r + 1, sf_status := ds_pending, sf_updatedAt := env_now env\<rparr>)) (\<lambda>_.
           tx_return retry))"

definition markSideEffect :: "pos_env \<Rightarrow> string \<Rightarrow> side_effect_type \<Rightarrow> delivery_status \<Rightarrow> string option \<Rightarrow> (pos_db, unit) tx" where
  "markSideEffect env eventId ty st errorMessage =
     update_effect env eventId ty (\<lambda>r. r\<lparr>sf_status := st, sf_lastError := errorMessage, sf_updatedAt := env_now env,
       sf_executedAt := (if st = ds_succeeded then Some (env_now env) else sf_executedAt r)\<rparr>)"

section \<open>The worker\<close>

record worker_env =
  we_claim :: pos_env
  we_confirm :: pos_env
  we_execute :: "order_outbox_event \<Rightarrow> side_effect_type \<Rightarrow> string \<Rightarrow> string option"
  we_others :: "pos_db \<Rightarrow> pos_db"
  we_stalePendingAfterMs :: "int option"
  we_batchSize :: "nat option"

type_synonym side_effect = "order_outbox_event \<times> side_effect_type"

record side_effect_run_report =
  sr_examined :: int
  sr_executed :: int
  sr_skippedAsSucceeded :: int
  sr_failed :: int

definition requiredSideEffectTypes :: "order_outbox_event \<Rightarrow> side_effect_type list result" where
  "requiredSideEffectTypes e =
     (case json_member (ob_payload e) ''behavior_flags'' of
        Some (JsObj ms) \<Rightarrow>
          mapResult (parseOrderBehaviorFlags (JsObj ms)) (\<lambda>flags.
            (if bf_fires_kitchen_ticket flags then [kitchen_ticket_print] else []) @ (if bf_notifies_customer flags then [customer_notification] else []))
      | Some (JsArr js) \<Rightarrow> mapResult (parseOrderBehaviorFlags (JsArr js)) (\<lambda>_. [])
      | _ \<Rightarrow> Inr [])"

text \<open>One effect of the two nested loops: claim it, and keep it unless it is done or in other hands.\<close>

definition claimEffect :: "pos_env \<Rightarrow> int \<Rightarrow> side_effect list \<times> int \<Rightarrow> side_effect \<Rightarrow> (pos_db, side_effect list \<times> int) tx" where
  "claimEffect env staleAfter acc eff =
     tx_bind (claimSideEffect env (ob_id (fst eff)) (snd eff) staleAfter) (\<lambda>outcome.
     tx_return (if outcome = already_succeeded \<or> outcome = owned_by_live_worker then (fst acc, snd acc + 1) else (fst acc @ [eff], snd acc)))"

fun claimEffects :: "pos_env \<Rightarrow> int \<Rightarrow> side_effect list \<times> int \<Rightarrow> side_effect list \<Rightarrow> (pos_db, side_effect list \<times> int) tx" where
  "claimEffects env staleAfter acc [] = tx_return acc"
| "claimEffects env staleAfter acc (eff # effs) = tx_bind (claimEffect env staleAfter acc eff) (\<lambda>acc'. claimEffects env staleAfter acc' effs)"

fun claimEvents :: "pos_env \<Rightarrow> int \<Rightarrow> side_effect list \<times> int \<Rightarrow> order_outbox_event list \<Rightarrow> (pos_db, side_effect list \<times> int) tx" where
  "claimEvents env staleAfter acc [] = tx_return acc"
| "claimEvents env staleAfter acc (e # es) =
     tx_bind (tx_lift (requiredSideEffectTypes e)) (\<lambda>tys.
     tx_bind (claimEffects env staleAfter acc (map (Pair e) tys)) (\<lambda>acc'. claimEvents env staleAfter acc' es))"

definition claimBatch :: "worker_env \<Rightarrow> string \<Rightarrow> string option \<Rightarrow> (pos_db, int \<times> side_effect list \<times> int) tx" where
  "claimBatch w tid branchId =
     (let staleAfter = (case we_stalePendingAfterMs w of None \<Rightarrow> 60000 | Some n \<Rightarrow> n);
          limit = (case we_batchSize w of None \<Rightarrow> 200 | Some n \<Rightarrow> n)
      in
      tx_bind (tx_read (loadEventsWithBehaviorFlags tid limit branchId)) (\<lambda>events.
      tx_bind (claimEvents (we_claim w) staleAfter ([], 0) events) (\<lambda>(effs, skipped).
      tx_return (int (length events), effs, skipped))))"

fun effect_name :: "side_effect_type \<Rightarrow> string" where
  "effect_name kitchen_ticket_print = ''kitchen_ticket_print''"
| "effect_name customer_notification = ''customer_notification''"

definition executeEffect :: "worker_env \<Rightarrow> side_effect \<Rightarrow> side_effect \<times> string option" where
  "executeEffect w eff = (eff, we_execute w (fst eff) (snd eff) (ob_id (fst eff) @ '':'' @ effect_name (snd eff)))"

definition confirmEffect :: "pos_env \<Rightarrow> side_effect \<times> string option \<Rightarrow> (pos_db, unit) tx" where
  "confirmEffect env result =
     markSideEffect env (ob_id (fst (fst result))) (snd (fst result)) (if snd result = None then ds_succeeded else ds_failed) (snd result)"

text \<open>A run: its report and the executions it made, also when the confirmation fails.\<close>

definition processPending :: "worker_env \<Rightarrow> string \<Rightarrow> string option \<Rightarrow> pos_db \<Rightarrow> side_effect_run_report result \<times> side_effect list \<times> pos_db" where
  "processPending w tid branchId db =
     (case store_run (we_claim w) tid (claimBatch w tid branchId) db of
        (Inl e, db1) \<Rightarrow> (Inl e, [], db1)
      | (Inr (examined, effs, skipped), db1) \<Rightarrow>
          let results = map (executeEffect w) effs in
          (case store_run (we_confirm w) tid (tx_for (confirmEffect (we_confirm w)) results) (we_others w db1) of
             (Inl e, db2) \<Rightarrow> (Inl e, effs, db2)
           | (Inr _, db2) \<Rightarrow>
               (Inr \<lparr>sr_examined = examined, sr_executed = int (length (filter (\<lambda>r. snd r = None) results)), sr_skippedAsSucceeded = skipped,
                  sr_failed = int (length (filter (\<lambda>r. snd r \<noteq> None) results))\<rparr>, effs, db2)))"

end
