(* ===== verification/Side_Effects_Correct.thy ===== *)
theory Side_Effects_Correct
  imports Side_Effects Example_Restaurant
begin

text \<open>
  The worker never repeats an effect that was delivered, and a run executes exactly the effects of its batch that are open. Its batch is always the
  oldest events, delivered or not: once they are all delivered, no later event is ever looked at.
\<close>

section \<open>Claims\<close>

definition delivered :: "string \<Rightarrow> side_effect_type \<Rightarrow> pos_db \<Rightarrow> bool" where
  "delivered i ty db \<longleftrightarrow> (\<exists>r. effect_row i ty db = Some r \<and> sf_status r = ds_succeeded)"

text \<open>An effect a worker may execute: not claimed yet, failed, or claimed too long ago.\<close>

definition open_effect :: "pos_env \<Rightarrow> int \<Rightarrow> string \<Rightarrow> side_effect_type \<Rightarrow> pos_db \<Rightarrow> bool" where
  "open_effect env staleAfter i ty db \<longleftrightarrow> (case effect_row i ty db of None \<Rightarrow> True
     | Some r \<Rightarrow> sf_status r = ds_failed \<or> sf_status r = ds_pending \<and> sf_updatedAt r \<le> env_now env - staleAfter)"

lemma delivered_not_open: "delivered i ty db \<Longrightarrow> \<not> open_effect env n i ty db"
  by (auto simp: delivered_def open_effect_def)

lemma effect_row_append:
  "effect_row i ty (db\<lparr>db_sideEffects := db_sideEffects db @ [r]\<rparr>) =
     (case effect_row i ty db of None \<Rightarrow> (if sf_outboxEventId r = i \<and> sf_sideEffectType r = ty then Some r else None) | Some x \<Rightarrow> Some x)"
  by (cases "effect_row i ty db") (simp_all add: effect_row_def find_row_append find_row_single)

lemma update_effect_Inr:
  assumes "update_effect env i ty f db = Inr (x, db')" "\<And>r. sf_outboxEventId (f r) = sf_outboxEventId r \<and> sf_sideEffectType (f r) = sf_sideEffectType r"
  shows "effect_row j ty' db' = (if j = i \<and> ty' = ty then map_option f (effect_row i ty db) else effect_row j ty' db)"
    "db_outbox db' = db_outbox db"
proof -
  have "find_row (\<lambda>r. sf_outboxEventId r = j \<and> sf_sideEffectType r = ty') (update_where (\<lambda>r. sf_outboxEventId r = i \<and> sf_sideEffectType r = ty) f xs) =
      (if j = i \<and> ty' = ty then map_option f (find_row (\<lambda>r. sf_outboxEventId r = i \<and> sf_sideEffectType r = ty) xs)
       else find_row (\<lambda>r. sf_outboxEventId r = j \<and> sf_sideEffectType r = ty') xs)" for xs
    using assms(2) by (induction xs) (auto simp: find_row_def update_where_def)
  then show "effect_row j ty' db' = (if j = i \<and> ty' = ty then map_option f (effect_row i ty db) else effect_row j ty' db)" "db_outbox db' = db_outbox db"
    using assms(1) by (auto simp: update_effect_def tx_simps db_check_def effect_row_def split: option.splits)
qed

text \<open>What claiming one effect does: an open one becomes pending now and belongs to the run, any other is left alone; no other effect changes.\<close>

lemma claimEffect_Inr:
  assumes "claimEffect env n acc eff db = Inr (acc', db')"
  shows "if open_effect env n (ob_id (fst eff)) (snd eff) db
      then acc' = (fst acc @ [eff], snd acc) \<and>
        (\<exists>r. effect_row (ob_id (fst eff)) (snd eff) db' = Some r \<and> sf_status r = ds_pending \<and> sf_updatedAt r = env_now env)
      else acc' = (fst acc, snd acc + 1) \<and> db' = db"
    "(j, ty) \<noteq> (ob_id (fst eff), snd eff) \<Longrightarrow> effect_row j ty db' = effect_row j ty db"
    "db_outbox db' = db_outbox db"
proof -
  let ?i = "ob_id (fst eff)" and ?ty = "snd eff"
  let ?retry = "\<lambda>r. r\<lparr>sf_attemptCount := sf_attemptCount r + 1, sf_status := ds_pending, sf_updatedAt := env_now env\<rparr>"
  have keys: "\<And>r. sf_outboxEventId (?retry r) = sf_outboxEventId r \<and> sf_sideEffectType (?retry r) = sf_sideEffectType r" by simp
  have all: "(if open_effect env n ?i ?ty db
      then acc' = (fst acc @ [eff], snd acc) \<and> (\<exists>r. effect_row ?i ?ty db' = Some r \<and> sf_status r = ds_pending \<and> sf_updatedAt r = env_now env)
      else acc' = (fst acc, snd acc + 1) \<and> db' = db) \<and>
    (\<forall>j ty. (j, ty) \<noteq> (?i, ?ty) \<longrightarrow> effect_row j ty db' = effect_row j ty db) \<and> db_outbox db' = db_outbox db"
  proof (cases "effect_row ?i ?ty db")
    case None
    then show ?thesis
      using assms by (auto simp: claimEffect_def claimSideEffect_def tx_simps Let_def open_effect_def effect_row_append split: option.splits)
  next
    case (Some r)
    show ?thesis
    proof (cases "open_effect env n ?i ?ty db")
      case True
      with Some have "sf_status r \<noteq> ds_succeeded" "\<not> (sf_status r = ds_pending \<and> sf_updatedAt r > env_now env - n)" by (auto simp: open_effect_def)
      with Some assms have run: "update_effect env ?i ?ty ?retry db = Inr ((), db')" "acc' = (fst acc @ [eff], snd acc)"
        by (auto simp: claimEffect_def claimSideEffect_def tx_simps)
      from update_effect_Inr [OF run(1) keys] Some run(2) True show ?thesis by auto
    next
      case False
      with Some have "sf_status r = ds_succeeded \<or> sf_status r = ds_pending \<and> sf_updatedAt r > env_now env - n"
        by (cases "sf_status r") (auto simp: open_effect_def)
      with False Some assms show ?thesis by (auto simp: claimEffect_def claimSideEffect_def tx_simps)
    qed
  qed
  then show "if open_effect env n ?i ?ty db
      then acc' = (fst acc @ [eff], snd acc) \<and> (\<exists>r. effect_row ?i ?ty db' = Some r \<and> sf_status r = ds_pending \<and> sf_updatedAt r = env_now env)
      else acc' = (fst acc, snd acc + 1) \<and> db' = db" "db_outbox db' = db_outbox db" by auto
  from all show "(j, ty) \<noteq> (?i, ?ty) \<Longrightarrow> effect_row j ty db' = effect_row j ty db" by blast
qed

text \<open>The two loops are one loop over the effects of the events.\<close>

fun effects_of :: "order_outbox_event list \<Rightarrow> side_effect list result" where
  "effects_of [] = Inr []"
| "effects_of (e # es) = andThen (requiredSideEffectTypes e) (\<lambda>tys. mapResult (effects_of es) (\<lambda>effs. map (Pair e) tys @ effs))"

lemma claimEffects_append:
  "claimEffects env n acc (xs @ ys) s = Inr r \<longleftrightarrow> (\<exists>acc' s'. claimEffects env n acc xs s = Inr (acc', s') \<and> claimEffects env n acc' ys s' = Inr r)"
proof (induction xs arbitrary: acc s)
  case (Cons x xs)
  show ?case by (cases "claimEffect env n acc x s") (auto simp: tx_simps Cons.IH)
qed (simp add: tx_simps)

lemma claimEvents_Inr:
  "claimEvents env n acc es s = Inr r \<longleftrightarrow> (\<exists>effs. effects_of es = Inr effs \<and> claimEffects env n acc effs s = Inr r)"
proof (induction es arbitrary: acc s)
  case (Cons e es)
  show ?case
  proof (cases "requiredSideEffectTypes e")
    case (Inr tys)
    then show ?thesis
      by (auto simp: tx_simps Cons.IH mapResult_Inr_iff claimEffects_append)
  qed (auto simp: tx_simps)
qed (auto simp: tx_simps)

abbreviation effect_key :: "side_effect \<Rightarrow> string \<times> side_effect_type" where
  "effect_key x \<equiv> (ob_id (fst x), snd x)"

lemma claimEffects_Inr:
  assumes "claimEffects env n acc effs db = Inr (acc', db')" "distinct (map effect_key effs)"
  shows "fst acc' = fst acc @ filter (\<lambda>x. open_effect env n (ob_id (fst x)) (snd x) db) effs \<and>
    (\<forall>x\<in>set effs. open_effect env n (ob_id (fst x)) (snd x) db \<longrightarrow>
       (\<exists>r. effect_row (ob_id (fst x)) (snd x) db' = Some r \<and> sf_status r = ds_pending \<and> sf_updatedAt r = env_now env)) \<and>
    (\<forall>j ty. \<not> open_effect env n j ty db \<or> (j, ty) \<notin> effect_key ` set effs \<longrightarrow> effect_row j ty db' = effect_row j ty db) \<and>
    db_outbox db' = db_outbox db"
  using assms
proof (induction effs arbitrary: acc db)
  case Nil
  then show ?case by (simp add: tx_simps)
next
  case (Cons x effs)
  let ?open = "\<lambda>d y. open_effect env n (ob_id (fst y)) (snd y) d"
  from Cons.prems(1) obtain acc1 db1 where step: "claimEffect env n acc x db = Inr (acc1, db1)" and rest: "claimEffects env n acc1 effs db1 = Inr (acc', db')"
    by (auto simp: tx_simps)
  note st = claimEffect_Inr [OF step]
  from Cons.prems(2) have d: "distinct (map effect_key effs)" and x: "effect_key x \<notin> effect_key ` set effs" by auto
  note ih = Cons.IH [OF rest d]
  have same: "?open db1 y = ?open db y" if "y \<in> set effs" for y
  proof -
    have "effect_key y \<in> effect_key ` set effs" by (rule imageI [OF that])
    with x have "effect_key y \<noteq> effect_key x" by (metis (no_types))
    then show ?thesis using st(2) by (simp add: open_effect_def)
  qed
  have mine: "filter (?open db1) effs = filter (?open db) effs" by (rule filter_cong [OF refl]) (rule same)
  have keep: "effect_row j ty db' = effect_row j ty db" if "\<not> open_effect env n j ty db \<or> (j, ty) \<notin> effect_key ` set (x # effs)" for j ty
  proof (cases "(j, ty) = effect_key x")
    case True
    with that have "\<not> ?open db x" by auto
    with st(1) have "db1 = db" by simp
    with ih that True x show ?thesis by simp
  next
    case False
    with st(2) have "effect_row j ty db1 = effect_row j ty db" by blast
    with ih that show ?thesis by (simp add: open_effect_def)
  qed
  have hit: "\<exists>r. effect_row (ob_id (fst y)) (snd y) db' = Some r \<and> sf_status r = ds_pending \<and> sf_updatedAt r = env_now env"
    if "y \<in> set (x # effs)" "?open db y" for y
  proof (cases "y = x")
    case True
    with st(1) ih x that(2) show ?thesis by auto
  next
    case False
    with ih that same show ?thesis by simp
  qed
  from ih st(1) mine have "fst acc' = fst acc @ filter (?open db) (x # effs)" by (simp split: if_splits)
  moreover from ih st(3) have "db_outbox db' = db_outbox db" by simp
  ultimately show ?case using keep hit by blast
qed

text \<open>Effects that are all closed are counted and left alone, whatever the write path would have refused.\<close>

lemma claimEffects_closed:
  assumes "\<forall>x\<in>set effs. \<not> open_effect env n (ob_id (fst x)) (snd x) db"
  shows "claimEffects env n acc effs db = Inr ((fst acc, snd acc + int (length effs)), db)"
  using assms
proof (induction effs arbitrary: acc)
  case (Cons x effs)
  then have "\<not> open_effect env n (ob_id (fst x)) (snd x) db" by simp
  then obtain r where "effect_row (ob_id (fst x)) (snd x) db = Some r" "sf_status r = ds_succeeded \<or> sf_status r = ds_pending \<and> sf_updatedAt r > env_now env - n"
    by (cases "effect_row (ob_id (fst x)) (snd x) db"; cases "sf_status (the (effect_row (ob_id (fst x)) (snd x) db))") (auto simp: open_effect_def)
  then have "claimEffect env n acc x db = Inr ((fst acc, snd acc + 1), db)" by (auto simp: claimEffect_def claimSideEffect_def tx_simps)
  with Cons show ?case by (auto simp: tx_simps)
qed (simp add: tx_simps)

section \<open>The batch\<close>

lemma effects_of_keys:
  assumes "effects_of es = Inr effs" "distinct (map ob_id es)"
  shows "distinct (map effect_key effs)" "fst ` set effs \<subseteq> set es"
proof -
  have "distinct (map effect_key effs) \<and> fst ` set effs \<subseteq> set es"
    using assms
  proof (induction es arbitrary: effs)
    case (Cons e es)
    from Cons.prems(1) obtain tys rest where req: "requiredSideEffectTypes e = Inr tys" and rest: "effects_of es = Inr rest" and effs: "effs = map (Pair e) tys @ rest"
      by (auto simp: mapResult_Inr_iff andThen_Inr_iff)
    from Cons.IH [OF rest] Cons.prems(2) have ih: "distinct (map effect_key rest)" "fst ` set rest \<subseteq> set es" by auto
    have "distinct tys" using req by (auto simp: requiredSideEffectTypes_def mapResult_Inr_iff split: option.splits json.splits)
    then have "distinct (map effect_key (map (Pair e) tys))" by (simp add: distinct_map inj_on_def)
    moreover have "ob_id (fst x) \<noteq> ob_id e" if "x \<in> set rest" for x
      using that ih(2) Cons.prems(2) by (auto simp: image_subset_iff) (metis image_eqI)
    ultimately show ?case using ih by (auto simp: effs) blast
  qed simp
  then show "distinct (map effect_key effs)" "fst ` set effs \<subseteq> set es" by auto
qed

definition batch_limit :: "worker_env \<Rightarrow> nat" where
  "batch_limit w = (case we_batchSize w of None \<Rightarrow> 200 | Some n \<Rightarrow> n)"

definition stale_after :: "worker_env \<Rightarrow> int" where
  "stale_after w = (case we_stalePendingAfterMs w of None \<Rightarrow> 60000 | Some n \<Rightarrow> n)"

lemma claimBatch_Inr:
  "claimBatch w tid b db = Inr (r, db') \<longleftrightarrow> (\<exists>effs mine k. effects_of (loadEventsWithBehaviorFlags tid (batch_limit w) b db) = Inr effs \<and>
     claimEffects (we_claim w) (stale_after w) ([], 0) effs db = Inr ((mine, k), db') \<and>
     r = (int (length (loadEventsWithBehaviorFlags tid (batch_limit w) b db)), mine, k))"
  by (auto simp: claimBatch_def tx_simps batch_limit_def stale_after_def claimEvents_Inr)

lemma loadEvents_distinct:
  assumes "distinct (map ob_id (db_outbox db))"
  shows "distinct (map ob_id (loadEventsWithBehaviorFlags tid n b db))"
  using assms by (simp add: loadEventsWithBehaviorFlags_def distinct_map_filter flip: take_map)

section \<open>Confirmation\<close>

definition confirmed_row :: "pos_env \<Rightarrow> string option \<Rightarrow> side_effect_row \<Rightarrow> side_effect_row" where
  "confirmed_row env failure r = r\<lparr>sf_status := (if failure = None then ds_succeeded else ds_failed), sf_lastError := failure, sf_updatedAt := env_now env,
     sf_executedAt := (if failure = None then Some (env_now env) else sf_executedAt r)\<rparr>"

lemma confirmEffect_Inr:
  assumes "confirmEffect env (eff, failure) db = Inr (x, db')"
  shows "effect_row j ty db' = (if (j, ty) = effect_key eff then map_option (confirmed_row env failure) (effect_row j ty db) else effect_row j ty db)"
proof -
  from assms have "update_effect env (ob_id (fst eff)) (snd eff) (confirmed_row env failure) db = Inr (x, db')"
    by (cases failure) (simp_all add: confirmEffect_def markSideEffect_def confirmed_row_def [abs_def])
  from update_effect_Inr(1) [OF this, of j ty] show ?thesis by (auto simp: confirmed_row_def)
qed

lemma confirmEffects_Inr:
  assumes "tx_for (confirmEffect env) results db = Inr (x, db')" "distinct (map (effect_key \<circ> fst) results)"
  shows "\<forall>r\<in>set results. effect_row (ob_id (fst (fst r))) (snd (fst r)) db' =
      map_option (confirmed_row env (snd r)) (effect_row (ob_id (fst (fst r))) (snd (fst r)) db)"
    "(j, ty) \<notin> (effect_key \<circ> fst) ` set results \<Longrightarrow> effect_row j ty db' = effect_row j ty db"
proof -
  have "(\<forall>r\<in>set results. effect_row (ob_id (fst (fst r))) (snd (fst r)) db' =
      map_option (confirmed_row env (snd r)) (effect_row (ob_id (fst (fst r))) (snd (fst r)) db)) \<and>
    (\<forall>j ty. (j, ty) \<notin> (effect_key \<circ> fst) ` set results \<longrightarrow> effect_row j ty db' = effect_row j ty db)"
    using assms
  proof (induction results arbitrary: db)
    case (Cons p results)
    from Cons.prems(1) obtain u db1 where step: "confirmEffect env (fst p, snd p) db = Inr (u, db1)" and rest: "tx_for (confirmEffect env) results db1 = Inr (x, db')"
      by (auto simp: tx_simps)
    note row = confirmEffect_Inr [OF step]
    from Cons.prems(2) have d: "distinct (map (effect_key \<circ> fst) results)" and p: "effect_key (fst p) \<notin> (effect_key \<circ> fst) ` set results" by (auto simp: comp_def)
    note ih = Cons.IH [OF rest d]
    from ih p have "effect_row (ob_id (fst (fst p))) (snd (fst p)) db' = effect_row (ob_id (fst (fst p))) (snd (fst p)) db1" by blast
    then have first: "effect_row (ob_id (fst (fst p))) (snd (fst p)) db' =
        map_option (confirmed_row env (snd p)) (effect_row (ob_id (fst (fst p))) (snd (fst p)) db)" by (simp add: row)
    have other: "effect_row (ob_id (fst (fst r))) (snd (fst r)) db1 = effect_row (ob_id (fst (fst r))) (snd (fst r)) db" if "r \<in> set results" for r
    proof -
      from imageI [OF that, of "effect_key \<circ> fst"] p have "effect_key (fst r) \<noteq> effect_key (fst p)" by (metis comp_apply)
      then show ?thesis by (auto simp: row)
    qed
    from ih first other row show ?case by auto
  qed (simp add: tx_simps)
  then show "\<forall>r\<in>set results. effect_row (ob_id (fst (fst r))) (snd (fst r)) db' =
      map_option (confirmed_row env (snd r)) (effect_row (ob_id (fst (fst r))) (snd (fst r)) db)"
    "(j, ty) \<notin> (effect_key \<circ> fst) ` set results \<Longrightarrow> effect_row j ty db' = effect_row j ty db" by blast+
qed

section \<open>A run\<close>

text \<open>The effects of a run's batch that are open, in the order they are executed.\<close>

definition open_effects :: "worker_env \<Rightarrow> string \<Rightarrow> string option \<Rightarrow> pos_db \<Rightarrow> side_effect list" where
  "open_effects w tid b db =
     (case effects_of (loadEventsWithBehaviorFlags tid (batch_limit w) b db) of
        Inl _ \<Rightarrow> []
      | Inr effs \<Rightarrow> filter (\<lambda>x. open_effect (we_claim w) (stale_after w) (ob_id (fst x)) (snd x) db) effs)"

text \<open>How the row of an effect ends up: confirmed with what the executor said when the run executed it, as it was otherwise.\<close>

definition delivery_of :: "worker_env \<Rightarrow> side_effect \<Rightarrow> delivery_status" where
  "delivery_of w x = (if snd (executeEffect w x) = None then ds_succeeded else ds_failed)"

lemma processPending_Inr:
  assumes "processPending w tid b db = (Inr rep, executed, db')"
  obtains effs k db1 where "effects_of (loadEventsWithBehaviorFlags tid (batch_limit w) b db) = Inr effs"
    "claimEffects (we_claim w) (stale_after w) ([], 0) effs db = Inr ((executed, k), db1)"
    "tx_for (confirmEffect (we_confirm w)) (map (executeEffect w) executed) (we_others w db1) = Inr ((), db')"
    "rep = \<lparr>sr_examined = int (length (loadEventsWithBehaviorFlags tid (batch_limit w) b db)),
       sr_executed = int (length (filter (\<lambda>x. delivery_of w x = ds_succeeded) executed)), sr_skippedAsSucceeded = k,
       sr_failed = int (length (filter (\<lambda>x. delivery_of w x = ds_failed) executed))\<rparr>"
proof -
  from assms obtain examined k db1 where claim: "store_run (we_claim w) tid (claimBatch w tid b) db = (Inr (examined, executed, k), db1)"
    and confirm: "store_run (we_confirm w) tid (tx_for (confirmEffect (we_confirm w)) (map (executeEffect w) executed)) (we_others w db1) = (Inr (), db')"
    and rep: "rep = \<lparr>sr_examined = examined, sr_executed = int (length (filter (\<lambda>r. snd r = None) (map (executeEffect w) executed))),
       sr_skippedAsSucceeded = k, sr_failed = int (length (filter (\<lambda>r. snd r \<noteq> None) (map (executeEffect w) executed)))\<rparr>"
    by (auto simp: processPending_def Let_def split: prod.splits sum.splits)
  from claim obtain effs where "effects_of (loadEventsWithBehaviorFlags tid (batch_limit w) b db) = Inr effs"
    "claimEffects (we_claim w) (stale_after w) ([], 0) effs db = Inr ((executed, k), db1)"
    "examined = int (length (loadEventsWithBehaviorFlags tid (batch_limit w) b db))"
    by (auto simp: store_run_Inr claimBatch_Inr)
  moreover have "length (filter (\<lambda>r. snd r = None) (map (executeEffect w) executed)) = length (filter (\<lambda>x. delivery_of w x = ds_succeeded) executed)"
    "length (filter (\<lambda>r. snd r \<noteq> None) (map (executeEffect w) executed)) = length (filter (\<lambda>x. delivery_of w x = ds_failed) executed)"
    by (simp_all add: filter_map comp_def delivery_of_def)
  ultimately show thesis using confirm rep by (intro that) (auto simp: store_run_Inr)
qed

lemma claimEffects_count:
  assumes "claimEffects env n acc effs db = Inr (acc', db')"
  shows "int (length (fst acc')) + snd acc' = int (length (fst acc)) + snd acc + int (length effs)"
  using assms
proof (induction effs arbitrary: acc db)
  case (Cons x effs)
  from Cons.prems obtain acc1 db1 where step: "claimEffect env n acc x db = Inr (acc1, db1)" and rest: "claimEffects env n acc1 effs db1 = Inr (acc', db')"
    by (auto simp: tx_simps)
  from claimEffect_Inr(1) [OF step] Cons.IH [OF rest] show ?case by (auto split: if_splits)
qed (simp add: tx_simps)

text \<open>
  A run of the side-effect worker, with no other worker touching the delivery log in between, executes exactly the effects its batch requires
  that are open (not claimed yet, failed before, or claimed longer ago than the stale limit), in the order of the batch; each row then says what its
  executor said, no other row changes, and the report counts every required effect once as executed, failed or skipped.
\<close>

theorem processPending_correct:
  assumes run: "processPending w tid b db = (Inr rep, executed, db')"
    and ids: "distinct (map ob_id (db_outbox db))"
    and alone: "\<forall>d i ty. effect_row i ty (we_others w d) = effect_row i ty d"
  shows "executed = open_effects w tid b db \<and>
    (\<forall>x\<in>set executed. \<exists>r. effect_row (ob_id (fst x)) (snd x) db' = Some r \<and> sf_status r = delivery_of w x \<and> sf_lastError r = snd (executeEffect w x)) \<and>
    (\<forall>i ty. (i, ty) \<notin> (\<lambda>x. (ob_id (fst x), snd x)) ` set executed \<longrightarrow> effect_row i ty db' = effect_row i ty db) \<and>
    sr_executed rep = int (length (filter (\<lambda>x. delivery_of w x = ds_succeeded) executed)) \<and>
    sr_failed rep = int (length (filter (\<lambda>x. delivery_of w x = ds_failed) executed)) \<and>
    (\<exists>effs. effects_of (loadEventsWithBehaviorFlags tid (batch_limit w) b db) = Inr effs \<and>
       int (length executed) + sr_skippedAsSucceeded rep = int (length effs))"
proof -
  from processPending_Inr [OF run] obtain effs k db1 where effs: "effects_of (loadEventsWithBehaviorFlags tid (batch_limit w) b db) = Inr effs"
    and claim: "claimEffects (we_claim w) (stale_after w) ([], 0) effs db = Inr ((executed, k), db1)"
    and confirm: "tx_for (confirmEffect (we_confirm w)) (map (executeEffect w) executed) (we_others w db1) = Inr ((), db')"
    and rep: "sr_skippedAsSucceeded rep = k" "sr_executed rep = int (length (filter (\<lambda>x. delivery_of w x = ds_succeeded) executed))"
      "sr_failed rep = int (length (filter (\<lambda>x. delivery_of w x = ds_failed) executed))"
    by (metis side_effect_run_report.select_convs(2-4))
  have keys: "distinct (map effect_key effs)" by (rule effects_of_keys [OF effs loadEvents_distinct [OF ids]])
  note claimed = claimEffects_Inr [OF claim keys, simplified]
  from claimed have mine: "executed = filter (\<lambda>x. open_effect (we_claim w) (stale_after w) (ob_id (fst x)) (snd x) db) effs" by simp
  have "distinct (map (effect_key \<circ> fst) (map (executeEffect w) executed))"
    using keys by (simp add: mine executeEffect_def comp_def distinct_map_filter)
  note confirmed = confirmEffects_Inr [OF confirm this]
  have rows: "\<exists>r. effect_row (ob_id (fst x)) (snd x) db' = Some r \<and> sf_status r = delivery_of w x \<and> sf_lastError r = snd (executeEffect w x)"
    if "x \<in> set executed" for x
  proof -
    from that mine claimed obtain r where "effect_row (ob_id (fst x)) (snd x) db1 = Some r" by fastforce
    with confirmed(1) that alone show ?thesis by (auto simp: executeEffect_def confirmed_row_def delivery_of_def)
  qed
  have others: "effect_row i ty db' = effect_row i ty db" if "(i, ty) \<notin> effect_key ` set executed" for i ty
  proof -
    from that have "(i, ty) \<notin> (effect_key \<circ> fst) ` set (map (executeEffect w) executed)" by (auto simp: executeEffect_def image_iff)
    from confirmed(2) [OF this] alone have "effect_row i ty db' = effect_row i ty db1" by simp
    moreover from that have "\<not> open_effect (we_claim w) (stale_after w) i ty db \<or> (i, ty) \<notin> effect_key ` set effs" by (auto simp: mine image_iff)
    ultimately show ?thesis using claimed by simp
  qed
  from claimEffects_count [OF claim] rep(1) effs
  have "\<exists>effs. effects_of (loadEventsWithBehaviorFlags tid (batch_limit w) b db) = Inr effs \<and> int (length executed) + sr_skippedAsSucceeded rep = int (length effs)"
    by simp
  with mine effs rows others rep(2,3) show ?thesis by (simp add: open_effects_def)
qed

section \<open>Delivered effects\<close>

lemma claimEffects_delivered:
  assumes "claimEffects env n acc effs db = Inr (acc', db')" "delivered i ty db" "(i, ty) \<notin> effect_key ` set (fst acc)"
  shows "(i, ty) \<notin> effect_key ` set (fst acc') \<and> delivered i ty db'"
  using assms
proof (induction effs arbitrary: acc db)
  case (Cons x effs)
  from Cons.prems(1) obtain acc1 db1 where step: "claimEffect env n acc x db = Inr (acc1, db1)" and rest: "claimEffects env n acc1 effs db1 = Inr (acc', db')"
    by (auto simp: tx_simps)
  note st = claimEffect_Inr [OF step]
  have "(i, ty) \<notin> effect_key ` set (fst acc1) \<and> delivered i ty db1"
  proof (cases "(i, ty) = effect_key x")
    case True
    with Cons.prems(2) delivered_not_open have "\<not> open_effect env n (ob_id (fst x)) (snd x) db" by auto
    with st(1) Cons.prems show ?thesis by simp
  next
    case False
    with st(2) Cons.prems(2) have "delivered i ty db1" by (simp add: delivered_def)
    with st(1) Cons.prems(3) False show ?thesis by (auto split: if_splits)
  qed
  with Cons.IH [OF rest] show ?case by blast
qed (simp add: tx_simps)

lemma confirmEffects_other:
  assumes "tx_for (confirmEffect env) results db = Inr (x, db')" "(j, ty) \<notin> (effect_key \<circ> fst) ` set results"
  shows "effect_row j ty db' = effect_row j ty db"
  using assms
proof (induction results arbitrary: db)
  case (Cons p results)
  from Cons.prems(1) obtain u db1 where step: "confirmEffect env (fst p, snd p) db = Inr (u, db1)" and rest: "tx_for (confirmEffect env) results db1 = Inr (x, db')"
    by (auto simp: tx_simps)
  from Cons.prems(2) have "(j, ty) \<noteq> effect_key (fst p)" by (auto simp: comp_def)
  with confirmEffect_Inr [OF step, of j ty] Cons.IH [OF rest] Cons.prems(2) show ?case by auto
qed (simp add: tx_simps)

lemma processPending_delivered:
  assumes run: "processPending w tid b db = (res, executed, db')" and del: "delivered i ty db"
    and keep: "\<And>d. delivered i ty d \<Longrightarrow> delivered i ty (we_others w d)"
  shows "(i, ty) \<notin> effect_key ` set executed \<and> delivered i ty db'"
proof (cases "store_run (we_claim w) tid (claimBatch w tid b) db")
  case (Pair r db1)
  show ?thesis
  proof (cases r)
    case (Inl e)
    with Pair run del store_run_Inl [of "we_claim w" tid "claimBatch w tid b" db e db1] show ?thesis by (simp add: processPending_def)
  next
    case (Inr v)
    obtain examined effs k where v: "v = (examined, effs, k)" by (metis prod_cases3)
    from Pair Inr v obtain all where "claimEffects (we_claim w) (stale_after w) ([], 0) all db = Inr ((effs, k), db1)"
      by (auto simp: store_run_Inr claimBatch_Inr)
    from claimEffects_delivered [OF this del] have mine: "(i, ty) \<notin> effect_key ` set effs" and "delivered i ty db1" by simp_all
    with keep have d1: "delivered i ty (we_others w db1)" by blast
    obtain c db2 where c: "store_run (we_confirm w) tid (tx_for (confirmEffect (we_confirm w)) (map (executeEffect w) effs)) (we_others w db1) = (c, db2)"
      by (metis surj_pair)
    with run Pair Inr v have ex: "executed = effs" "db' = db2" by (auto simp: processPending_def Let_def split: sum.splits)
    from mine have "(i, ty) \<notin> (effect_key \<circ> fst) ` set (map (executeEffect w) effs)" by (auto simp: executeEffect_def image_iff)
    note same = confirmEffects_other [OF _ this]
    have "delivered i ty db2"
    proof (cases c)
      case (Inl e)
      with c d1 show ?thesis by (auto dest: store_run_Inl)
    next
      case (Inr u)
      with c have "tx_for (confirmEffect (we_confirm w)) (map (executeEffect w) effs) (we_others w db1) = Inr (u, db2)" by (simp add: store_run_Inr)
      from same [OF this] d1 show ?thesis by (simp add: delivered_def)
    qed
    with mine ex show ?thesis by simp
  qed
qed

text \<open>A sequence of runs, by any workers and for any branches, and all they execute.\<close>

fun work :: "(worker_env \<times> string \<times> string option) list \<Rightarrow> pos_db \<Rightarrow> side_effect list \<times> pos_db" where
  "work [] db = ([], db)"
| "work ((w, tid, b) # ws) db =
     (case processPending w tid b db of (_, executed, db1) \<Rightarrow> case work ws db1 of (later, db2) \<Rightarrow> (executed @ later, db2))"

text \<open>
  An effect that was delivered is never executed again: however many runs follow, of whatever workers, successful or not, none of them hands
  it to its executor, and it stays delivered, provided no other session changes its row in between.
\<close>

theorem delivered_once:
  assumes "delivered i ty db" and "\<forall>(w, tid, b)\<in>set ws. \<forall>d. delivered i ty d \<longrightarrow> delivered i ty (we_others w d)"
  shows "(\<forall>x\<in>set (fst (work ws db)). (ob_id (fst x), snd x) \<noteq> (i, ty)) \<and> delivered i ty (snd (work ws db))"
  using assms
proof (induction ws arbitrary: db)
  case (Cons run ws)
  obtain w tid b where run: "run = (w, tid, b)" by (metis prod_cases3)
  obtain res executed db1 where step: "processPending w tid b db = (res, executed, db1)" by (metis prod_cases3)
  from processPending_delivered [OF step Cons.prems(1)] Cons.prems(2) run
  have st: "(i, ty) \<notin> effect_key ` set executed" "delivered i ty db1" by auto
  with Cons.IH [of db1] Cons.prems(2) show ?case by (auto simp: run step split: prod.splits)
qed simp

section \<open>The oldest events only\<close>

lemma js_insort_append:
  assumes "\<forall>y\<in>set ys. cmp x y \<le> 0"
  shows "js_insort cmp x (xs @ ys) = js_insort cmp x xs @ ys"
  using assms by (induction xs) (cases ys; simp)+

lemma js_sort_append:
  assumes "\<forall>x\<in>set xs. \<forall>y\<in>set ys. cmp x y \<le> 0"
  shows "js_sort cmp (xs @ ys) = js_sort cmp xs @ js_sort cmp ys"
  using assms by (induction xs) (simp_all add: js_insort_append)

text \<open>A full batch of a branch stays the branch's batch when later events are appended to the outbox.\<close>

lemma loadEvents_full:
  assumes full: "length (loadEventsWithBehaviorFlags tid n (Some b) db) = n"
    and outbox: "db_outbox db' = db_outbox db @ new"
    and later: "\<forall>e\<in>set (db_outbox db). \<forall>e'\<in>set new. ob_branchId e = b \<longrightarrow> ob_branchId e' = b \<longrightarrow> ob_sequenceId e < ob_sequenceId e'"
  shows "loadEventsWithBehaviorFlags tid n (Some b) db' = loadEventsWithBehaviorFlags tid n (Some b) db"
proof -
  let ?p = "\<lambda>e. ob_tenantId e = tid \<and> (Some b = None \<or> Some b = Some (ob_branchId e)) \<and> wants_effect e"
  have "js_sort compareEvents (filter ?p (db_outbox db')) =
      js_sort compareEvents (filter ?p (db_outbox db)) @ js_sort compareEvents (filter ?p new)"
    unfolding outbox filter_append by (rule js_sort_append) (use later in \<open>force simp: compareEvents_def\<close>)
  with full show ?thesis by (simp add: loadEventsWithBehaviorFlags_def)
qed

text \<open>
  The batch of a branch is its oldest events, delivered or not: once a full batch is delivered, every later run for the branch skips all
  of it and executes nothing, whatever events the branch has recorded since, and reports success.
\<close>

theorem side_effects_starve:
  assumes full: "length (loadEventsWithBehaviorFlags tid (batch_limit w) (Some b) db) = batch_limit w"
    and effs: "effects_of (loadEventsWithBehaviorFlags tid (batch_limit w) (Some b) db) = Inr effs"
    and del: "\<forall>x\<in>set effs. delivered (ob_id (fst x)) (snd x) db'"
    and outbox: "db_outbox db' = db_outbox db @ new"
    and later: "\<forall>e\<in>set (db_outbox db). \<forall>e'\<in>set new. ob_branchId e = b \<longrightarrow> ob_branchId e' = b \<longrightarrow> ob_sequenceId e < ob_sequenceId e'"
    and gate: "env_tenantGate (we_claim w) tid = Inr ()" "env_tenantGate (we_confirm w) tid = Inr ()"
  shows "processPending w tid (Some b) db' =
    (Inr \<lparr>sr_examined = int (batch_limit w), sr_executed = 0, sr_skippedAsSucceeded = int (length effs), sr_failed = 0\<rparr>, [], we_others w db')"
proof -
  have batch: "loadEventsWithBehaviorFlags tid (batch_limit w) (Some b) db' = loadEventsWithBehaviorFlags tid (batch_limit w) (Some b) db"
    by (rule loadEvents_full [OF full outbox later])
  have "claimEffects (we_claim w) (stale_after w) ([], 0) effs db' = Inr (([], int (length effs)), db')"
    using del delivered_not_open by (subst claimEffects_closed) auto
  then have "claimBatch w tid (Some b) db' = Inr ((int (batch_limit w), [], int (length effs)), db')"
    using effs batch full by (simp add: claimBatch_Inr)
  with gate show ?thesis by (simp add: processPending_def store_run_run tx_simps tx_return_def)
qed

section \<open>Late failures\<close>

text \<open>
  The confirmation does not look at the row it updates: when a slow attempt went stale, another worker took it over and delivered it, the failure of
  the first marks the delivered effect as failed, and the next run executes it again.
\<close>

lemma late_failure_reopens:
  assumes "confirmEffect env (eff, Some msg) db = Inr (x, db')" "delivered (ob_id (fst eff)) (snd eff) db"
  shows "\<not> delivered (ob_id (fst eff)) (snd eff) db'" "open_effect env' n (ob_id (fst eff)) (snd eff) db'"
  using assms(2) confirmEffect_Inr [OF assms(1), of "ob_id (fst eff)" "snd eff"]
  by (auto simp: delivered_def open_effect_def confirmed_row_def)

section \<open>Witnesses\<close>

text \<open>Two tickets of one branch, a printer that works for the first only, and a worker that takes one event at a time.\<close>

definition example_ticket :: "string \<Rightarrow> int \<Rightarrow> order_outbox_event" where
  "example_ticket i n = \<lparr>ob_id = i, ob_tenantId = ''t1'', ob_branchId = ''b1'', ob_sequenceId = n, ob_eventType = ''item_status_changed'',
     ob_payload = JsObj [(''behavior_flags'', sk_behaviorFlags (example_kind ''preparing'' True False))], ob_createdAt = 300\<rparr>"

definition example_worker :: "nat option \<Rightarrow> worker_env" where
  "example_worker limit = \<lparr>we_claim = example_env, we_confirm = example_env,
     we_execute = (\<lambda>e ty key. if ob_id e = ''e1'' then None else Some ''paper jam''), we_others = (\<lambda>db. db), we_stalePendingAfterMs = None, we_batchSize = limit\<rparr>"

definition example_delivered :: side_effect_row where
  "example_delivered = \<lparr>sf_outboxEventId = ''e1'', sf_sideEffectType = kitchen_ticket_print, sf_status = ds_succeeded, sf_attemptCount = 1,
     sf_lastError = None, sf_executedAt = Some 400, sf_updatedAt = 400\<rparr>"

definition example_kitchen :: "order_outbox_event list \<Rightarrow> side_effect_row list \<Rightarrow> pos_db" where
  "example_kitchen events log = example_db\<lparr>db_outbox := events, db_sideEffects := log\<rparr>"

lemma example_worker_runs:
  "loadEventsWithBehaviorFlags ''t1'' 1 (Some ''b1'') (example_kitchen [example_ticket ''e1'' 1] []) = [example_ticket ''e1'' 1]"
  "requiredSideEffectTypes (example_ticket i n) = Inr [kitchen_ticket_print]"
  "delivered ''e1'' kitchen_ticket_print (example_kitchen es [example_delivered])"
  by (simp_all add: loadEventsWithBehaviorFlags_def example_kitchen_def wants_effect_def example_ticket_def example_kind_def Let_def
      requiredSideEffectTypes_def behavior_flag_def ok_def delivered_def effect_row_def find_row_def example_delivered_def)

text \<open>With batches of one event, the second ticket is never printed once the first one is.\<close>

lemma example_starves:
  "processPending (example_worker (Some 1)) ''t1'' (Some ''b1'') (example_kitchen [example_ticket ''e1'' 1, example_ticket ''e2'' 2] [example_delivered]) =
     (Inr \<lparr>sr_examined = 1, sr_executed = 0, sr_skippedAsSucceeded = 1, sr_failed = 0\<rparr>, [],
      example_kitchen [example_ticket ''e1'' 1, example_ticket ''e2'' 2] [example_delivered])"
proof -
  let ?db = "example_kitchen [example_ticket ''e1'' 1] []"
  have w: "batch_limit (example_worker (Some 1)) = 1" "we_others (example_worker (Some 1)) = (\<lambda>db. db)"
      "env_tenantGate (we_claim (example_worker (Some 1))) ''t1'' = Inr ()" "env_tenantGate (we_confirm (example_worker (Some 1))) ''t1'' = Inr ()"
    by (simp_all add: example_worker_def batch_limit_def example_env_def)
  have kitchen: "db_outbox (example_kitchen es log) = es" for es log by (simp add: example_kitchen_def)
  have t: "ob_id (example_ticket i n) = i" "ob_sequenceId (example_ticket i n) = n" for i n by (simp_all add: example_ticket_def)
  show ?thesis
    using side_effects_starve [of "''t1''" "example_worker (Some 1)" "''b1''" ?db "[(example_ticket ''e1'' 1, kitchen_ticket_print)]"
        "example_kitchen [example_ticket ''e1'' 1, example_ticket ''e2'' 2] [example_delivered]" "[example_ticket ''e2'' 2]"]
    by (simp add: w t example_worker_runs kitchen ok_def del: One_nat_def)
qed

end
