(* ===== verification/Spec2Isabelle.thy ===== *)
theory Spec2Isabelle
  imports Pos_Authorized Station_Routing Stock_Once Creation_Correct Auth_Example Inventory_Correct Side_Effects_Correct
begin

text \<open>
  A verification library for the core of a multi-tenant restaurant point-of-sale server (TypeScript, under \<^verbatim>\<open>src/src\<close>): money and tax
  arithmetic, tax resolution, discounts, order totals, the creation of orders with their stock, the kitchen workflow, voids, payments, the accounting
  journal, cashier shifts, manager approvals, manual movements of stock, the delivery of kitchen tickets, authorization and authentication.

  \<^bold>\<open>The program.\<close> Application engines (\<^verbatim>\<open>application/engines\<close>) implement the use cases over stores (\<^verbatim>\<open>infrastructure/db/repositories\<close>) that run a
  function inside one database transaction and hand it a scope of operations, one per SQL statement. The arithmetic is in pure modules (\<^verbatim>\<open>shared\<close>,
  \<^verbatim>\<open>application/engines/payments/discount-math.ts\<close>, \<^verbatim>\<open>order-totals.ts\<close>, \<^verbatim>\<open>tax/cascading.ts\<close>) that the engines call on snapshots read from the store. Every
  engine asks the authorization engine first, and for what exceeds the actor's authority the manager override; the kitchen displays read an outbox that
  the orders engines append to. Errors are classes of \<^verbatim>\<open>shared/errors.ts\<close> that the HTTP boundary turns into responses.

  \<^bold>\<open>The theories\<close>, in the order of their imports.
  \<^item> Foundations. \<open>Prelude\<close>: results (\<^verbatim>\<open>shared/result.ts\<close>), JavaScript numbers, BigInt division, stable sorting, insertion-ordered maps, digit strings;
    the collections \<open>result_simps\<close> and \<open>bigint_simps\<close>. \<open>App_Errors\<close>: the error classes and \<open>toErrorResponse\<close>. \<open>Json_Text\<close>: what the sources use of
    \<open>JSON.stringify\<close>, and that it is injective. \<open>Transactions\<close>: transaction bodies, operations made of them, and the locale \<open>tx_relation\<close> that carries a
    relation between states through both. \<open>Atomicity\<close>: operations that leave no trace when they fail.
  \<^item> Arithmetic. \<open>Money\<close>, \<open>Decimal_Text\<close>, \<open>Tax_Math\<close>, \<open>Tax_Rules\<close>, \<open>Cascading\<close> (the cascade law against a specification of its own, \<open>cascade_base\<close> and
    \<open>cascade_row\<close>), \<open>Discount_Math\<close>, \<open>Payments_Types\<close>, \<open>Allocation\<close> (the locale \<open>remainder_allocator\<close> of the largest-remainder method, interpreted on
    the invoice tax here and on the discounts in \<open>Order_Totals\<close>), \<open>Order_Totals\<close>.
  \<^item> Payments. \<open>Pos_Db\<close>: the tables. \<open>Payments_Store\<close>, \<open>Payments_Engine\<close>: \<^verbatim>\<open>postgres-payments-store.ts\<close>, \<^verbatim>\<open>payments-engine.ts\<close>. \<open>Payments_Relations\<close>: the
    locales \<open>collection_relation\<close> and \<open>payments_relation\<close>, a contract per kind of write, and their interpretations. \<open>Payments_Collect\<close>,
    \<open>Payments_Lifecycle\<close>, \<open>Payments_Stock\<close>, \<open>Payments_Books\<close>: collecting and its idempotency, voiding and refunding once, the stock a refund returns, and
    the journal that mirrors the payments: the modelled tables hold exactly one entry and at most one reversal per payment; the entries that the SQL
    functions for costs of goods make are outside of it. \<open>Example_Restaurant\<close>: the concrete database of the witnesses.
  \<^item> Approvals, shifts, discounts. \<open>Manager_Override\<close>, \<open>Override_Correct\<close>: the live PIN challenge with its two counters; the locale \<open>lockout_counter\<close>
    bounds guessing. \<open>Shift_Engine\<close>, \<open>Shift_Correct\<close>; \<open>Discount_Engine\<close>, \<open>Discount_Correct\<close>; \<open>Payment_Methods\<close>.
  \<^item> Orders. \<open>Orders_Store\<close>, \<open>Workflow_Engine\<close>, \<open>Void_Engine\<close>: \<^verbatim>\<open>postgres-orders-store.ts\<close>, the workflow engines and \<^verbatim>\<open>void-modification-engine.ts\<close>.
    \<open>Orders_Relations\<close> (locales \<open>kitchen_relation\<close>, \<open>orders_relation\<close>), \<open>Outbox\<close>, \<open>Workflow_Correct\<close>, \<open>Station_Routing\<close>, \<open>Void_Correct\<close>: the log without
    gaps, moves along the enabled sequence, routing by specificity, and who may void what.
  \<^item> Creating orders. \<open>Tax_Resolution\<close>, \<open>Tax_Correct\<close>: \<^verbatim>\<open>tax-resolution-engine.ts\<close> with its transaction scope and \<^verbatim>\<open>order-tax-coordinator.ts\<close>.
    \<open>Order_Creation\<close>: \<^verbatim>\<open>order-creation-engine.ts\<close>. \<open>Creation_Lines\<close>, \<open>Creation_Correct\<close>: what the write transaction records, line by line, and that stock
    runs short only under an approval. \<open>workflow_keys\<close> names the unique keys of the workflow tables that the first state of an order relies on. \<open>Creation_Relation\<close>: the locale \<open>creation_relation\<close>, which extends \<open>kitchen_relation\<close>.
  \<^item> Stock by hand. \<open>Inventory_Engine\<close>, \<open>Inventory_Correct\<close>: \<^verbatim>\<open>inventory-engine.ts\<close> and its store; receipts, adjustments and what they do to a level.
  \<^item> Tickets. \<open>Side_Effects\<close>, \<open>Side_Effects_Correct\<close>: \<^verbatim>\<open>side-effect-worker.ts\<close>; a run executes exactly the open effects of its batch, a delivered effect is
    never executed again, and a batch that is delivered is never left behind.
  \<^item> The system. \<open>Pos_System\<close>: any sequence of the operations of all engines on one database; the locales \<open>discount_relation\<close> and \<open>shift_relation\<close>, and
    the interpretations by which the journal, the shifts and the outbox are invariant. \<open>Stock_Once\<close>: each component of a line is returned at most once.
  \<^item> Authorization. \<open>Permissions\<close>, \<open>Permissions_Pg\<close>: the contracts and the two permission stores. \<open>Authorization\<close>: \<^verbatim>\<open>sec-v.ts\<close>, the LRU cache, the
    three-stage check. \<open>Authorization_Correct\<close>, \<open>Authorization_System\<close> (the locale \<open>permission_reading\<close>, interpreted on both stores), \<open>Pos_Authorized\<close>: the
    engines with the modelled check in place of their parameter.
  \<^item> Authentication. \<open>Jwt\<close>: \<^verbatim>\<open>shared/auth/jwt.ts\<close>, \<^verbatim>\<open>token-service.ts\<close>. \<open>Auth_Engine\<close>: \<^verbatim>\<open>login-engine.ts\<close>, \<^verbatim>\<open>refresh-engine.ts\<close>,
    \<^verbatim>\<open>postgres-auth-repository.ts\<close>, \<^verbatim>\<open>auth-audit.ts\<close> and the tenant check of \<^verbatim>\<open>tenant-context.ts\<close>. \<open>Auth_Login\<close>: what a successful login has checked and
    written. \<open>Auth_Guesses\<close>: how many wrong secrets the lock lets through. \<open>Auth_Refresh\<close>: a refresh token is used once in every history, a replay ends its
    family. \<open>Auth_Http\<close>: \<^verbatim>\<open>request-schema.ts\<close>, \<^verbatim>\<open>routes/auth.ts\<close>, and what a client can tell from a failure. \<open>Auth_Example\<close>: the witnesses.

  \<^bold>\<open>How the program is represented.\<close>
  \<^item> A thrown error is \<open>Inl\<close> of the sum type \<open>app_error + 'a\<close>. Classes and their fields are kept; the texts of messages are dropped where nothing depends
    on them.
  \<^item> BigInt is \<open>int\<close> with the truncating division of the language; a JavaScript number that only ever holds integers is an \<open>int\<close>, one that is tested for
    being an integer is a \<open>js_number\<close>.
  \<^item> Strings are character lists, compared lexicographically; a \<open>Map\<close> is an association list in insertion order; a \<open>Date\<close> is its number of milliseconds.
  \<^item> A transaction commits the writes of its body when it returns and discards them when it throws. Row locks and revision counters are modelled as the
    writes they are, and have no other effect. On the database of the point of sale transactions run one after the other, and an operation that uses
    several runs to completion before the next; in authentication other sessions may commit anything between two store calls of one operation
    (\<open>ae_others\<close>), and the theorems name what they need of them.
  \<^item> The tables are lists of rows. \<open>numeric(18,4)\<close> columns hold the text PostgreSQL prints. Row-level security is the filter on the tenant.
  \<^item> The record \<open>pos_env\<close> holds what is not under \<^verbatim>\<open>src\<close>: the clock and the calendar date in a time zone, generated identifiers, the tenant gate, the
    comparison of a PIN with its hash, and the constraints and triggers of the database, which may refuse any write with any error. Its authorization check
    and the permission keys a member covers are parameters that \<open>Pos_Authorized\<close> fills in. The record \<open>auth_env\<close> does the same for authentication, with the
    hash function, the verification of secrets, signatures and the decoding of a segment; \<open>sound_codec\<close> states what the tokens rely on, and
    \<open>example_crypto\<close> satisfies it.
  \<^item> All loops of the modelled code run over finite lists or digit strings, and the definitions are total functions; no fuel is used.

  \<^bold>\<open>What is not modelled\<close>: the display of amounts by \<open>Intl\<close>, deferred constraint triggers, the SQL functions \<open>post_order_cogs\<close>,
  \<open>post_inventory_consumption\<close>, \<open>post_inventory_restoration\<close> and \<open>post_inventory_adjustment\<close> (a call is recorded; the journal entries they insert are not modelled), the registration of a tenant with the tax tables of its country, and the components that are
  administrative reads and writes over SQL or input and output only: catalog, tax administration, platform and staff administration,
  multi-currency reports, the audit log, and the WebSocket server of the kitchen displays. Of authentication the password and PIN hashers, the
  loading of keys and the composition root are left out; of the tenant context the connections, timeouts and teardown.
\<close>

end
